(* ===== verification/Prelude.thy ===== *)
theory Prelude
  imports Complex_Main "HOL-Library.Word"
begin

text \<open>
  Shared vocabulary of the development: the JavaScript values the web client computes
  with, and the generic facts about lists and words that the component theories use.

  \<^item> bytes of a \<open>Uint8Array\<close> are \<open>8 word\<close>; a typed array is a list of them;
  \<^item> a JavaScript string is its list of UTF-16 code units (\<open>16 word\<close>); \<open>js ''...''\<close> turns
    an ASCII literal of the source into such a list;
  \<^item> a JavaScript number that the source tests with \<open>Number.isSafeInteger\<close> or
    \<open>Number.isFinite\<close> is a \<open>jsnum\<close>, whose finite values are exact rationals (every double
    is one); numbers that are integers by construction are \<open>int\<close> or \<open>nat\<close>.
\<close>

unbundle bit_operations_syntax

named_theorems js_simps \<open>evaluation of the JavaScript string and number model\<close>

type_synonym byte = "8 word"
type_synonym bytes = "8 word list"
type_synonym jsstr = "16 word list"

section \<open>Strings\<close>

definition js :: "string \<Rightarrow> jsstr" where
  "js s = map of_char s"

lemma js_Nil [simp]: "js [] = []"
  by (simp add: js_def)

lemma js_append: "js (a @ b) = js a @ js b"
  by (simp add: js_def)

lemma length_js [simp]: "length (js s) = length s"
  by (simp add: js_def)

lemma js_eq_Nil_iff [simp]: "js s = [] \<longleftrightarrow> s = []"
  by (simp add: js_def)

text \<open>\<open>String.prototype.startsWith\<close>, \<open>endsWith\<close>, \<open>includes\<close>.\<close>

fun js_startsWith :: "'a list \<Rightarrow> 'a list \<Rightarrow> bool" where
  "js_startsWith s [] = True"
| "js_startsWith [] (p # ps) = False"
| "js_startsWith (x # s) (p # ps) = (x = p \<and> js_startsWith s ps)"

definition js_endsWith :: "'a list \<Rightarrow> 'a list \<Rightarrow> bool" where
  "js_endsWith s p = js_startsWith (rev s) (rev p)"

fun js_includes :: "'a list \<Rightarrow> 'a list \<Rightarrow> bool" where
  "js_includes [] p = (p = [])"
| "js_includes (x # s) p = (js_startsWith (x # s) p \<or> js_includes s p)"

lemma js_startsWith_iff: "js_startsWith s p \<longleftrightarrow> (\<exists>r. s = p @ r)"
  by (induction s p rule: js_startsWith.induct) auto

lemma js_endsWith_iff: "js_endsWith s p \<longleftrightarrow> (\<exists>r. s = r @ p)"
proof -
  have "js_endsWith s p \<longleftrightarrow> (\<exists>r. rev s = rev p @ r)"
    by (simp add: js_endsWith_def js_startsWith_iff)
  also have "\<dots> \<longleftrightarrow> (\<exists>r. s = r @ p)"
    by (metis rev_append rev_rev_ident)
  finally show ?thesis .
qed

lemma js_includes_iff: "js_includes s p \<longleftrightarrow> (\<exists>a b. s = a @ p @ b)"
proof (induction s)
  case Nil
  then show ?case by simp
next
  case (Cons x s)
  show ?case
  proof
    assume "js_includes (x # s) p"
    then consider r where "x # s = p @ r" | a b where "s = a @ p @ b"
      using Cons.IH by (auto simp: js_startsWith_iff)
    then show "\<exists>a b. x # s = a @ p @ b"
    proof cases
      case 1
      then have "x # s = [] @ p @ r" by simp
      then show ?thesis by blast
    next
      case 2
      then have "x # s = (x # a) @ p @ b" by simp
      then show ?thesis by blast
    qed
  next
    assume "\<exists>a b. x # s = a @ p @ b"
    then obtain a b where e: "x # s = a @ p @ b" by blast
    show "js_includes (x # s) p"
    proof (cases a)
      case Nil
      with e have "js_startsWith (x # s) p" by (auto simp: js_startsWith_iff)
      then show ?thesis by simp
    next
      case (Cons y a')
      with e have "s = a' @ p @ b" by simp
      then show ?thesis using \<open>js_includes s p = (\<exists>a b. s = a @ p @ b)\<close> by auto
    qed
  qed
qed

text \<open>
  \<open>String.prototype.toLowerCase\<close>. ASCII capitals lower to ASCII; outside ASCII exactly two
  code units lower to a sequence that contains an ASCII letter (U+0130 and U+212A), and the
  remaining ones lower to non-ASCII text. The model keeps those as they are: every string
  the client searches or compares a lowered string with is ASCII.
\<close>

definition lower_unit :: "16 word \<Rightarrow> jsstr" where
  "lower_unit u =
     (if 65 \<le> u \<and> u \<le> 90 then [u + 32]
      else if u = 0x0130 then [0x69, 0x0307]
      else if u = 0x212A then [0x6B]
      else [u])"

definition js_lower :: "jsstr \<Rightarrow> jsstr" where
  "js_lower s = concat (map lower_unit s)"

text \<open>\<open>String.prototype.split\<close> with a one-unit separator, and \<open>Array.prototype.join\<close>.\<close>

fun js_split :: "'a \<Rightarrow> 'a list \<Rightarrow> 'a list list" where
  "js_split c [] = [[]]"
| "js_split c (x # s) =
     (if x = c then [] # js_split c s
      else (case js_split c s of [] \<Rightarrow> [[x]] | p # ps \<Rightarrow> (x # p) # ps))"

fun js_join :: "'a list \<Rightarrow> 'a list list \<Rightarrow> 'a list" where
  "js_join sep [] = []"
| "js_join sep [p] = p"
| "js_join sep (p # q # ps) = p @ sep @ js_join sep (q # ps)"

lemma js_split_not_Nil [simp]: "js_split c s \<noteq> []"
  by (induction s) (auto split: list.splits)

lemma js_split_no_sep: "c \<notin> set s \<Longrightarrow> js_split c s = [s]"
  by (induction s) auto

lemma js_split_append: "c \<notin> set a \<Longrightarrow> js_split c (a @ c # b) = a # js_split c b"
  by (induction a) auto

lemma js_split_join:
  "ps \<noteq> [] \<Longrightarrow> (\<And>p. p \<in> set ps \<Longrightarrow> c \<notin> set p) \<Longrightarrow> js_split c (js_join [c] ps) = ps"
proof (induction "[c]" ps rule: js_join.induct)
  case 1
  then show ?case by simp
next
  case (2 p)
  then show ?case by (simp add: js_split_no_sep)
next
  case (3 p q ps)
  then show ?case by (simp add: js_split_append)
qed

lemma js_join_split: "js_join [c] (js_split c s) = s"
proof (induction s)
  case (Cons x s)
  obtain p ps where sp: "js_split c s = p # ps"
    by (cases "js_split c s") auto
  with Cons show ?case by (cases ps) auto
qed simp

lemma js_split_parts_no_sep: "p \<in> set (js_split c s) \<Longrightarrow> c \<notin> set p"
  by (induction s arbitrary: p) (auto split: if_splits list.splits)

text \<open>White space as \<open>trim\<close> and \<open>parseInt\<close> see it: \<open>WhiteSpace\<close> and \<open>LineTerminator\<close>.\<close>

definition js_ws :: "16 word \<Rightarrow> bool" where
  "js_ws u \<longleftrightarrow> 9 \<le> u \<and> u \<le> 13 \<or>
     u \<in> {0x20, 0xA0, 0x1680, 0x2028, 0x2029, 0x202F, 0x205F, 0x3000, 0xFEFF} \<or>
     0x2000 \<le> u \<and> u \<le> 0x200A"

definition js_trim :: "jsstr \<Rightarrow> jsstr" where
  "js_trim s = rev (dropWhile js_ws (rev (dropWhile js_ws s)))"

section \<open>Digits\<close>

text \<open>
  \<open>Number.prototype.toString(b)\<close> on natural numbers and the value of a digit string, for
  the bases 10 and 16 the source uses.
\<close>

definition digit_unit :: "nat \<Rightarrow> 16 word" where
  "digit_unit d = (if d < 10 then of_nat (48 + d) else of_nat (87 + d))"

definition unit_digit :: "16 word \<Rightarrow> nat option" where
  "unit_digit u =
     (if 48 \<le> u \<and> u \<le> 57 then Some (unat u - 48)
      else if 97 \<le> u \<and> u \<le> 102 then Some (unat u - 87)
      else if 65 \<le> u \<and> u \<le> 70 then Some (unat u - 55)
      else None)"

fun radix_str :: "nat \<Rightarrow> nat \<Rightarrow> jsstr" where
  "radix_str b n =
     (if n < b \<or> b < 2 then [digit_unit n] else radix_str b (n div b) @ [digit_unit (n mod b)])"

declare radix_str.simps [simp del]

definition radix_val :: "nat \<Rightarrow> jsstr \<Rightarrow> nat" where
  "radix_val b s = foldl (\<lambda>acc u. acc * b + (case unit_digit u of Some d \<Rightarrow> d | None \<Rightarrow> 0)) 0 s"

definition is_dec_unit :: "16 word \<Rightarrow> bool" where
  "is_dec_unit u = (48 \<le> u \<and> u \<le> 57)"

definition is_hex_unit :: "16 word \<Rightarrow> bool" where
  "is_hex_unit u = (unit_digit u \<noteq> None)"

lemma digit_cases: "(d::nat) < 16 \<Longrightarrow>
    d = 0 \<or> d = 1 \<or> d = 2 \<or> d = 3 \<or> d = 4 \<or> d = 5 \<or> d = 6 \<or> d = 7 \<or>
    d = 8 \<or> d = 9 \<or> d = 10 \<or> d = 11 \<or> d = 12 \<or> d = 13 \<or> d = 14 \<or> d = 15"
  by arith

lemma unit_digit_digit_unit [simp]: "d < 16 \<Longrightarrow> unit_digit (digit_unit d) = Some d"
  by (drule digit_cases) (elim disjE; simp add: digit_unit_def unit_digit_def)

lemma is_dec_unit_digit_unit: "d < 10 \<Longrightarrow> is_dec_unit (digit_unit d)"
proof -
  assume "d < 10"
  then have "d = 0 \<or> d = 1 \<or> d = 2 \<or> d = 3 \<or> d = 4 \<or>
      d = 5 \<or> d = 6 \<or> d = 7 \<or> d = 8 \<or> d = 9"
    by arith
  then show ?thesis
    by (elim disjE) (simp_all add: digit_unit_def is_dec_unit_def)
qed

lemma is_hex_unit_digit_unit: "d < 16 \<Longrightarrow> is_hex_unit (digit_unit d)"
  by (simp add: is_hex_unit_def)

lemma radix_str_not_Nil [simp]: "radix_str b n \<noteq> []"
  by (subst radix_str.simps) simp

lemma radix_val_snoc:
  "radix_val b (s @ [u]) = radix_val b s * b + (case unit_digit u of Some d \<Rightarrow> d | None \<Rightarrow> 0)"
  by (simp add: radix_val_def)

lemma radix_val_radix_str:
  assumes "2 \<le> b" "b \<le> 16"
  shows "radix_val b (radix_str b n) = n"
  using assms
proof (induction b n rule: radix_str.induct)
  case (1 b n)
  show ?case
  proof (cases "n < b")
    case True
    with "1.prems" show ?thesis by (subst radix_str.simps) (simp add: radix_val_def)
  next
    case False
    with "1.prems" "1.IH" have IH: "radix_val b (radix_str b (n div b)) = n div b" by simp
    from "1.prems" have "n mod b < 16"
      by (meson less_le_trans mod_less_divisor zero_less_numeral order_less_le_trans)
    with False "1.prems" IH show ?thesis
      by (subst radix_str.simps) (simp add: radix_val_snoc)
  qed
qed

lemma radix_str_digits:
  assumes "2 \<le> b" "\<And>d. d < b \<Longrightarrow> P (digit_unit d)"
  shows "list_all P (radix_str b n)"
  using assms
proof (induction b n rule: radix_str.induct)
  case (1 b n)
  show ?case
  proof (cases "n < b")
    case True
    with "1.prems" show ?thesis by (subst radix_str.simps) simp
  next
    case False
    with 1 have "list_all P (radix_str b (n div b))" by simp
    with False "1.prems" show ?thesis by (subst radix_str.simps) simp
  qed
qed

lemma length_radix_str_16: "n < 65536 \<Longrightarrow> length (radix_str 16 n) \<le> 4"
proof -
  assume a: "n < 65536"
  have one: "m < 16 \<Longrightarrow> length (radix_str 16 m) = 1" for m
    by (subst radix_str.simps) simp
  have two: "m < 256 \<Longrightarrow> length (radix_str 16 m) \<le> 2" for m
    by (subst radix_str.simps) (auto simp: one)
  have three: "m < 4096 \<Longrightarrow> length (radix_str 16 m) \<le> 3" for m
    using two [of "m div 16"] by (subst radix_str.simps) auto
  show ?thesis
    using a three [of "n div 16"] by (subst radix_str.simps) auto
qed

section \<open>Numbers\<close>

datatype jsnum = NaN | Inf bool | Num rat

text \<open>\<open>Number(b)\<close> of a \<open>BigInt\<close>: the nearest double, ties to even.\<close>

fun excess_bits :: "nat \<Rightarrow> nat" where
  "excess_bits n = (if n < 9007199254740992 then 0 else Suc (excess_bits (n div 2)))"

declare excess_bits.simps [simp del]

definition round_double :: "nat \<Rightarrow> nat" where
  "round_double n =
     (let e = excess_bits n; q = n div 2 ^ e; r = n mod 2 ^ e
      in if 2 * r < 2 ^ e \<or> 2 * r = 2 ^ e \<and> even q then q * 2 ^ e else (q + 1) * 2 ^ e)"

definition js_Number :: "int \<Rightarrow> int" where
  "js_Number i = (if i < 0 then - int (round_double (nat (- i))) else int (round_double (nat i)))"

lemma js_Number_exact: "\<bar>i\<bar> < 9007199254740992 \<Longrightarrow> js_Number i = i"
  by (auto simp: js_Number_def round_double_def Let_def excess_bits.simps)

text \<open>
  Which rationals are doubles: 53 significant bits, scaled by a power of two from \<open>2^-1074\<close> to
  \<open>2^971\<close>.
\<close>

definition is_double :: "jsnum \<Rightarrow> bool" where
  "is_double v =
     (case v of
        Num r \<Rightarrow>
          (let n = \<bar>r\<bar> * 2 ^ 1074; k = nat \<lfloor>n\<rfloor>; e = excess_bits k
           in of_nat k = n \<and> k mod 2 ^ e = 0 \<and> e \<le> 2045)
      | _ \<Rightarrow> True)"

definition isFinite :: "jsnum \<Rightarrow> bool" where
  "isFinite x = (case x of Num _ \<Rightarrow> True | _ \<Rightarrow> False)"

definition isSafeInteger :: "jsnum \<Rightarrow> bool" where
  "isSafeInteger x =
     (case x of Num q \<Rightarrow> q = of_int \<lfloor>q\<rfloor> \<and> \<bar>q\<bar> \<le> 9007199254740991 | _ \<Rightarrow> False)"

definition int_of_num :: "jsnum \<Rightarrow> int" where
  "int_of_num x = (case x of Num q \<Rightarrow> \<lfloor>q\<rfloor> | _ \<Rightarrow> 0)"

lemma isSafeInteger_iff:
  "isSafeInteger x \<longleftrightarrow> (\<exists>i. x = Num (of_int i) \<and> \<bar>i\<bar> \<le> 9007199254740991)"
proof (cases x)
  case (Num q)
  show ?thesis
  proof
    assume "isSafeInteger x"
    with Num have q: "q = of_int \<lfloor>q\<rfloor>" and b: "\<bar>q\<bar> \<le> 9007199254740991"
      by (auto simp: isSafeInteger_def)
    from b q have "\<bar>(of_int \<lfloor>q\<rfloor> :: rat)\<bar> \<le> of_int 9007199254740991"
      by (metis of_int_numeral)
    then have "\<bar>\<lfloor>q\<rfloor>\<bar> \<le> 9007199254740991"
      by (metis of_int_abs of_int_le_iff)
    with Num q show "\<exists>i. x = Num (of_int i) \<and> \<bar>i\<bar> \<le> 9007199254740991" by metis
  next
    assume "\<exists>i. x = Num (of_int i) \<and> \<bar>i\<bar> \<le> 9007199254740991"
    then obtain i where i: "x = Num (of_int i)" "\<bar>i\<bar> \<le> 9007199254740991" by blast
    then have "\<bar>(of_int i :: rat)\<bar> \<le> of_int 9007199254740991"
      by (metis of_int_abs of_int_le_iff)
    with i show "isSafeInteger x" by (simp add: isSafeInteger_def)
  qed
qed (auto simp: isSafeInteger_def)

lemma isSafeInteger_of_int [simp]:
  "isSafeInteger (Num (of_int i)) \<longleftrightarrow> \<bar>i\<bar> \<le> 9007199254740991"
  by (auto simp: isSafeInteger_iff)

lemma int_of_num_of_int [simp]: "int_of_num (Num (of_int i)) = i"
  by (simp add: int_of_num_def)

section \<open>Integer conversions\<close>

text \<open>\<open>ToInt32\<close>, used by the signed bit operators of the language.\<close>

definition to_int32 :: "int \<Rightarrow> int" where
  "to_int32 n = (n + 2147483648) mod 4294967296 - 2147483648"

definition to_uint32 :: "int \<Rightarrow> int" where
  "to_uint32 n = n mod 4294967296"

lemma to_int32_id: "- 2147483648 \<le> n \<Longrightarrow> n < 2147483648 \<Longrightarrow> to_int32 n = n"
  by (simp add: to_int32_def)

section \<open>Byte digits\<close>

lemma digit_256_mod:
  assumes "i < k"
  shows "x mod 256 ^ k div 256 ^ i mod 256 = x div 256 ^ i mod (256::nat)"
proof -
  have p: "(256::nat) ^ k = 256 ^ i * 256 ^ (k - i)"
    using assms by (simp flip: power_add)
  have "x mod (256 ^ i * 256 ^ (k - i)) div 256 ^ i = x div 256 ^ i mod 256 ^ (k - i)"
    by (simp add: mod_mult2_eq)
  moreover have "(256::nat) dvd 256 ^ (k - i)" using assms by simp
  ultimately show ?thesis unfolding p by (simp add: mod_mod_cancel)
qed

lemma byte_digit_mod:
  "i < k \<Longrightarrow> (of_nat (x mod 256 ^ k div 256 ^ i) :: byte) = of_nat (x div 256 ^ i)"
  using digit_256_mod [of i k x] by (simp add: word_unat_eq_iff unat_of_nat)

text \<open>The little-endian digits of a number determine it up to its width.\<close>

lemma digits_256_inj:
  "map (\<lambda>i. of_nat (m div 256 ^ i) :: byte) [0..<k] = map (\<lambda>i. of_nat (n div 256 ^ i)) [0..<k]
   \<Longrightarrow> m mod 256 ^ k = n mod 256 ^ k"
proof (induction k)
  case (Suc k)
  then have IH: "m mod 256 ^ k = n mod 256 ^ k" by simp
  from Suc.prems have "(of_nat (m div 256 ^ k) :: byte) = of_nat (n div 256 ^ k)" by simp
  then have "m div 256 ^ k mod 256 = n div 256 ^ k mod 256"
    by (simp add: word_unat_eq_iff unat_of_nat)
  with IH show ?case
    by (simp add: mod_mult2_eq mult.commute [of 256])
qed simp

section \<open>Lists\<close>

text \<open>Reading a JavaScript array: \<open>undefined\<close> outside its bounds.\<close>

definition js_at :: "'a list \<Rightarrow> nat \<Rightarrow> 'a option" where
  "js_at xs i = (if i < length xs then Some (xs ! i) else None)"

lemma js_at_Cons_0 [simp]: "js_at (x # xs) 0 = Some x"
  by (simp add: js_at_def)

lemma js_at_Nil [simp]: "js_at [] i = None"
  by (simp add: js_at_def)

lemma js_at_Some_iff: "js_at xs i = Some x \<longleftrightarrow> i < length xs \<and> xs ! i = x"
  by (auto simp: js_at_def)

text \<open>\<open>Math.round\<close>: halves round up.\<close>

definition js_round :: "rat \<Rightarrow> int" where
  "js_round x = \<lfloor>x + 1 / 2\<rfloor>"

end
