(* ===== verification/Addr_Mangle.thy ===== *)
theory Addr_Mangle
  imports Prelude
begin

text \<open>
  \<open>webclient/src/core/addrmangle.ts\<close>: socket addresses obfuscated with a microsecond
  timestamp (IPv4) or laid out flat (IPv6). \<open>BigInt\<close> values are \<open>int\<close>; the signed 32-bit
  operators on octets are operators on \<open>32 word\<close>, and \<open>>>> 0\<close> reads the word unsigned. A
  thrown \<open>Error\<close> is \<open>Inl\<close> with its message.
\<close>

record SocketAddr =
  addr_ip :: jsstr
  addr_port :: int

definition dot :: "16 word" where "dot = 46"
definition colon :: "16 word" where "colon = 58"

fun all_right :: "('e + 'a) list \<Rightarrow> 'e + 'a list" where
  "all_right [] = Inr []"
| "all_right (Inl e # r) = Inl e"
| "all_right (Inr a # r) = (case all_right r of Inl e \<Rightarrow> Inl e | Inr as \<Rightarrow> Inr (a # as))"

definition parseV4 :: "jsstr \<Rightarrow> jsstr + nat list" where
  "parseV4 ip =
     (let parts = js_split dot ip; bad = js ''bad ipv4: '' @ ip
      in if length parts \<noteq> 4 then Inl bad
         else all_right (map (\<lambda>p.
                if p = [] \<or> \<not> list_all is_dec_unit p \<or> 255 < radix_val 10 p then Inl bad
                else Inr (radix_val 10 p)) parts))"

text \<open>\<open>split('::')\<close>: the scan for the two-unit separator restarts after each match.\<close>

fun split2 :: "16 word \<Rightarrow> jsstr \<Rightarrow> jsstr list" where
  "split2 c [] = [[]]"
| "split2 c [x] = [[x]]"
| "split2 c (x # y # s) =
     (if x = c \<and> y = c then [] # split2 c s
      else case split2 c (y # s) of [] \<Rightarrow> [[x]] | p # ps \<Rightarrow> (x # p) # ps)"

definition v6_groups :: "jsstr \<Rightarrow> jsstr \<Rightarrow> jsstr + nat list" where
  "v6_groups ip s =
     (if s = [] then Inr []
      else all_right (map (\<lambda>g.
             if length g < 1 \<or> 4 < length g \<or> \<not> list_all is_hex_unit g
             then Inl (js ''bad ipv6: '' @ ip) else Inr (radix_val 16 g)) (js_split colon s)))"

definition v6_bytes :: "nat list \<Rightarrow> bytes" where
  "v6_bytes groups = concat (map (\<lambda>g. [of_nat (g div 256), of_nat (g mod 256)]) groups)"

definition parseV6 :: "jsstr \<Rightarrow> jsstr + bytes" where
  "parseV6 ip =
     (let halves = split2 colon ip; bad = js ''bad ipv6: '' @ ip
      in if 2 < length halves then Inl bad
         else case v6_groups ip (halves ! 0) of
                Inl e \<Rightarrow> Inl e
              | Inr hd_groups \<Rightarrow>
                 (case (if length halves = 2 then v6_groups ip (halves ! 1) else Inr []) of
                    Inl e \<Rightarrow> Inl e
                  | Inr tl_groups \<Rightarrow>
                     let missing = 8 - int (length hd_groups) - int (length tl_groups)
                     in if (if length halves = 1 then length hd_groups \<noteq> 8 else missing < 1) then Inl bad
                        else Inr (v6_bytes (if length halves = 1 then hd_groups
                                            else hd_groups @ replicate (nat missing) 0 @ tl_groups))))"

definition group_at :: "bytes \<Rightarrow> nat \<Rightarrow> nat" where
  "group_at bs i = unat (push_bit 8 (ucast (bs ! i) :: 32 word) OR ucast (bs ! (i + 1)))"

definition formatV6 :: "bytes \<Rightarrow> jsstr" where
  "formatV6 bs = js_join [colon] (map (\<lambda>i. radix_str 16 (group_at bs i)) [0, 2, 4, 6, 8, 10, 12, 14])"

text \<open>The sixteen low bytes of a \<open>BigInt\<close>, and the loop that drops trailing zero bytes.\<close>

fun le_bytes :: "nat \<Rightarrow> int \<Rightarrow> bytes" where
  "le_bytes 0 x = []"
| "le_bytes (Suc n) x = of_int (x AND 0xFF) # le_bytes n (drop_bit 8 x)"

definition strip_zeros :: "bytes \<Rightarrow> bytes" where
  "strip_zeros bs = rev (dropWhile (\<lambda>b. b = 0) (rev bs))"

definition v4_word :: "nat list \<Rightarrow> int" where
  "v4_word os =
     uint (of_nat (os ! 0) OR push_bit 8 (of_nat (os ! 1)) OR push_bit 16 (of_nat (os ! 2))
           OR push_bit 24 (of_nat (os ! 3)) :: 32 word)"

definition v4_mangle :: "int \<Rightarrow> int \<Rightarrow> int \<Rightarrow> int" where
  "v4_mangle ip tm port =
     (push_bit 49 (ip + tm) OR push_bit 17 tm OR (port + (tm AND 0xFFFF))) AND (2 ^ 128 - 1)"

definition encodeAddr :: "SocketAddr \<Rightarrow> int \<Rightarrow> jsstr + bytes" where
  "encodeAddr addr nowMicros =
     (if addr_port addr < 0 \<or> 0xFFFF < addr_port addr
      then Inl (js ''bad port: '' @ (if addr_port addr < 0 then js ''-'' else [])
                @ radix_str 10 (nat \<bar>addr_port addr\<bar>))
      else if js_includes (addr_ip addr) [colon]
      then (case parseV6 (addr_ip addr) of
              Inl e \<Rightarrow> Inl e
            | Inr bs \<Rightarrow> Inr (bs @ [of_int (addr_port addr AND 0xFF), of_int (drop_bit 8 (addr_port addr))]))
      else (case parseV4 (addr_ip addr) of
              Inl e \<Rightarrow> Inl e
            | Inr os \<Rightarrow>
                Inr (strip_zeros (le_bytes 16
                  (v4_mangle (v4_word os) (nowMicros AND 0xFFFFFFFF) (addr_port addr))))))"

fun le_value :: "bytes \<Rightarrow> int" where
  "le_value [] = 0"
| "le_value (b # bs) = push_bit 8 (le_value bs) OR uint b"

definition decodeAddr :: "bytes \<Rightarrow> jsstr + SocketAddr" where
  "decodeAddr bs =
     (if 16 < length bs
      then if length bs \<noteq> 18
           then Inl (js ''bad mangled addr length: '' @ radix_str 10 (length bs))
           else Inr \<lparr>addr_ip = formatV6 (take 16 bs),
                     addr_port = uint (ucast (bs ! 16) OR push_bit 8 (ucast (bs ! 17)) :: 32 word)\<rparr>
      else let n = le_value bs;
               tm = drop_bit 17 n AND 0xFFFFFFFF;
               ip = (drop_bit 49 n - tm) AND 0xFFFFFFFF;
               port = ((n AND 0xFFFFFF) - (tm AND 0xFFFF)) AND 0xFFFF;
               octet = (\<lambda>i. radix_str 10 (nat (drop_bit i ip AND 0xFF)))
           in Inr \<lparr>addr_ip = js_join [dot] [octet 0, octet 8, octet 16, octet 24], addr_port = port\<rparr>)"


section \<open>Bit fields as arithmetic\<close>

lemma push_bit_or_eq_add:
  "0 \<le> b \<Longrightarrow> b < 2 ^ n \<Longrightarrow> push_bit n (a::int) OR b = a * 2 ^ n + b"
proof -
  assume b: "0 \<le> b" "b < 2 ^ n"
  then have t: "take_bit n b = b" by (simp add: take_bit_int_eq_self)
  have "push_bit n a AND take_bit n b = 0"
    by (auto simp: bit_eq_iff bit_simps)
  then have "push_bit n a + b = push_bit n a OR b"
    by (intro disjunctive_add_eq_or) (simp add: t)
  then show ?thesis by (simp add: push_bit_eq_mult)
qed

lemma and_masks:
  "(x::int) AND 0xFF = x mod 256" "x AND 0xFFFF = x mod 65536"
  "x AND 0xFFFFFF = x mod 16777216" "x AND 0xFFFFFFFF = x mod 4294967296"
  using take_bit_eq_mask [of 8 x] take_bit_eq_mask [of 16 x] take_bit_eq_mask [of 24 x]
    take_bit_eq_mask [of 32 x]
  by (simp_all add: take_bit_eq_mod mask_eq_exp_minus_1)

lemma le_value_arith: "le_value (b # bs) = le_value bs * 256 + uint b"
  using push_bit_or_eq_add [of "uint b" 8 "le_value bs"] uint_lt2p [of b]
  by simp

lemma le_value_le_bytes: "le_value (le_bytes n x) = x mod 2 ^ (8 * n)"
proof (induction n arbitrary: x)
  case (Suc n)
  have "uint (of_int (x mod 256) :: byte) = x mod 256"
    by (simp add: uint_word_of_int)
  moreover have "x mod (256 * 2 ^ (8 * n)) = 256 * (x div 256 mod 2 ^ (8 * n)) + x mod 256"
    by (rule zmod_zmult2_eq) simp
  ultimately show ?case
    by (simp add: le_value_arith Suc and_masks drop_bit_eq_div power_add mult.commute
        del: le_value.simps(2))
qed simp

lemma le_value_append_zeros: "le_value (bs @ replicate n 0) = le_value bs"
proof (induction bs)
  case Nil
  show ?case by (induction n) simp_all
qed simp

lemma strip_zeros_split: "\<exists>n. bs = strip_zeros bs @ replicate n 0"
proof -
  let ?z = "takeWhile (\<lambda>b. b = 0) (rev bs)"
  have "?z = replicate (length ?z) 0"
    by (rule replicate_length_same [symmetric]) (auto dest: set_takeWhileD)
  moreover have "rev bs = ?z @ dropWhile (\<lambda>b. b = 0) (rev bs)" by simp
  then have "bs = strip_zeros bs @ rev ?z"
    unfolding strip_zeros_def by (metis rev_append rev_rev_ident)
  ultimately show ?thesis by (metis rev_replicate)
qed

lemma le_value_strip_zeros: "le_value (strip_zeros bs) = le_value bs"
  using strip_zeros_split [of bs] by (metis le_value_append_zeros)

lemma length_strip_zeros: "length (strip_zeros bs) \<le> length bs"
  by (simp add: strip_zeros_def length_dropWhile_le [of _ "rev bs", simplified])

lemma length_le_bytes [simp]: "length (le_bytes n x) = n"
  by (induction n arbitrary: x) auto

section \<open>IPv4\<close>

definition v4_string :: "nat list \<Rightarrow> jsstr" where
  "v4_string os = js_join [dot] (map (radix_str 10) os)"

lemma dec_digits: "list_all is_dec_unit (radix_str 10 n)"
  by (rule radix_str_digits) (auto simp: is_dec_unit_digit_unit)

lemma dec_no_sep: "dot \<notin> set (radix_str 10 n)" "colon \<notin> set (radix_str 10 n)"
  using dec_digits [of n] by (auto simp: list_all_iff is_dec_unit_def dot_def colon_def)

lemma all_right_Inr [simp]: "all_right (map Inr xs) = Inr xs"
  by (induction xs) simp_all

lemma parseV4_string:
  assumes "length os = 4" "\<forall>x \<in> set os. x < 256"
  shows "parseV4 (v4_string os) = Inr os"
proof -
  have ne: "map (radix_str 10) os \<noteq> []" using assms(1) by auto
  have sp: "js_split dot (v4_string os) = map (radix_str 10) os"
    unfolding v4_string_def by (rule js_split_join [OF ne]) (auto simp: dec_no_sep)
  have eq: "map (\<lambda>p. if p = [] \<or> \<not> list_all is_dec_unit p \<or> 255 < radix_val 10 p
                   then Inl (js ''bad ipv4: '' @ v4_string os)
                   else Inr (radix_val 10 p)) (map (radix_str 10) os) = map Inr os"
    using assms(2) by (auto simp: radix_val_radix_str dec_digits)
  show ?thesis
    unfolding parseV4_def Let_def sp eq using assms(1) by simp
qed

lemma set_js_join: "set (js_join sep ps) \<subseteq> set sep \<union> (\<Union>p\<in>set ps. set p)"
  by (induction sep ps rule: js_join.induct) auto

lemma v4_string_no_colon: "\<not> js_includes (v4_string os) [colon]"
proof
  assume "js_includes (v4_string os) [colon]"
  then have "colon \<in> set (v4_string os)" by (auto simp: js_includes_iff)
  then show False
    using set_js_join [of "[dot]" "map (radix_str 10) os"] dec_no_sep
    by (auto simp: v4_string_def dot_def colon_def)
qed

lemma v4_word_value:
  assumes "a < 256" "b < 256" "c < 256" "d < 256"
  shows "v4_word [a, b, c, d] = int a + 256 * int b + 65536 * int c + 16777216 * int d"
proof -
  let ?w = "\<lambda>n::nat. of_nat n :: 32 word"
  have u: "uint (?w n) = int n" if "n < 256" for n
    using that by (simp add: uint_nat unat_of_nat)
  have p: "uint (push_bit k (?w n)) = push_bit k (int n)" if "n < 256" "k \<le> 24" for n k
  proof -
    have "(2::int) ^ k \<le> 2 ^ 24" using that(2) by (rule power_increasing) simp
    then have "int n * 2 ^ k < 256 * 2 ^ 24"
      using that(1) by (intro mult_less_le_imp_less) auto
    then show ?thesis
      unfolding unsigned_push_bit_eq u [OF that(1)]
      by (simp add: push_bit_eq_mult take_bit_int_eq_self)
  qed
  have "v4_word [a, b, c, d] = int a OR push_bit 8 (int b) OR push_bit 16 (int c) OR push_bit 24 (int d)"
    using assms by (simp add: v4_word_def unsigned_or_eq u p numeral_2_eq_2 numeral_3_eq_3)
  also have "\<dots> = push_bit 8 (push_bit 8 (push_bit 8 (int d) OR int c) OR int b) OR int a"
    by (simp add: push_bit_push_bit or.commute or.left_commute or.assoc)
  also have "\<dots> = int a + 256 * int b + 65536 * int c + 16777216 * int d"
    using assms by (simp add: push_bit_or_eq_add)
  finally show ?thesis .
qed


lemma v4_mangle_value:
  assumes "0 \<le> ip" "ip < 2 ^ 32" "0 \<le> tm" "tm < 2 ^ 32" "0 \<le> port" "port \<le> 65535"
  shows "v4_mangle ip tm port = ((ip + tm) * 2 ^ 32 + tm) * 2 ^ 17 + (port + tm mod 65536)"
    and "0 \<le> v4_mangle ip tm port" "v4_mangle ip tm port < 2 ^ 128"
proof -
  let ?p = "port + tm mod 65536"
  let ?v = "((ip + tm) * 2 ^ 32 + tm) * 2 ^ 17 + ?p"
  have p: "0 \<le> ?p" "?p < 2 ^ 17"
    using assms(5,6) pos_mod_bound [of 65536 tm] pos_mod_sign [of 65536 tm] by auto
  have "push_bit 49 (ip + tm) OR push_bit 17 tm OR ?p =
        push_bit 17 (push_bit 32 (ip + tm) OR tm) OR ?p"
    by (simp add: push_bit_push_bit or.assoc)
  also have "\<dots> = ?v"
    using assms(3,4) p by (simp add: push_bit_or_eq_add)
  finally have or: "push_bit 49 (ip + tm) OR push_bit 17 tm OR ?p = ?v" .
  have b: "0 \<le> ?v" "?v < 2 ^ 128"
    using assms p by auto
  have m: "v4_mangle ip tm port = ?v AND mask 128"
    unfolding v4_mangle_def and_masks(2) or by (simp add: mask_eq_exp_minus_1)
  also have "\<dots> = ?v"
    using b by (simp add: take_bit_int_eq_self flip: take_bit_eq_mask)
  finally show e: "v4_mangle ip tm port = ?v" .
  show "0 \<le> v4_mangle ip tm port" "v4_mangle ip tm port < 2 ^ 128"
    unfolding e using b .
qed

lemma v4_fields:
  fixes ip tm port :: int
  assumes "0 \<le> ip" "ip < 2 ^ 32" "0 \<le> tm" "tm < 2 ^ 32" "0 \<le> port" "port \<le> 65535"
  defines "n \<equiv> ((ip + tm) * 2 ^ 32 + tm) * 2 ^ 17 + (port + tm mod 65536)"
  shows "drop_bit 17 n AND 0xFFFFFFFF = tm"
    and "(drop_bit 49 n - tm) AND 0xFFFFFFFF = ip"
    and "((n AND 0xFFFFFF) - (tm AND 0xFFFF)) AND 0xFFFF = port"
proof -
  let ?p = "port + tm mod 65536" and ?h = "(ip + tm) * 2 ^ 32 + tm"
  have p: "0 \<le> ?p" "?p < 2 ^ 17"
    using assms(5,6) pos_mod_bound [of 65536 tm] pos_mod_sign [of 65536 tm] by auto
  have d17: "n div 2 ^ 17 = ?h"
    unfolding n_def using p by (simp add: div_pos_pos_trivial)
  have "?h div 2 ^ 32 = ip + tm"
    using assms(3,4) by (simp add: div_pos_pos_trivial)
  then have d49: "n div 2 ^ 49 = ip + tm"
    using d17 by (simp add: zdiv_zmult2_eq [of "2 ^ 32" n "2 ^ 17", simplified])
  show "drop_bit 17 n AND 0xFFFFFFFF = tm"
  proof -
    have "?h mod 4294967296 = tm"
      using assms(3,4) mod_mult_self1 [of tm "ip + tm" 4294967296] by (simp add: add.commute)
    then show ?thesis unfolding and_masks drop_bit_eq_div d17 .
  qed
  show "(drop_bit 49 n - tm) AND 0xFFFFFFFF = ip"
    using assms(1,2) d49 by (simp add: and_masks drop_bit_eq_div)
  have "(n mod 16777216 - tm mod 65536) mod 65536 = (n mod 16777216 mod 65536 - tm mod 65536) mod 65536"
    by (simp add: mod_simps)
  also have "n mod 16777216 mod 65536 = n mod 65536"
    by (simp add: mod_mod_cancel)
  also have "n mod 65536 = ?p mod 65536"
  proof -
    have "n = ?p + 65536 * (2 * ?h)" by (simp add: n_def)
    then show ?thesis by (metis mod_mult_self2)
  qed
  also have "(?p mod 65536 - tm mod 65536) mod 65536 = port mod 65536"
    by (simp add: mod_simps)
  finally show "((n AND 0xFFFFFF) - (tm AND 0xFFFF)) AND 0xFFFF = port"
    using assms(5,6) by (simp add: and_masks)
qed

lemma v4_octets:
  assumes "a < 256" "b < 256" "c < 256" "d < 256"
  defines "ip \<equiv> int a + 256 * int b + 65536 * int c + 16777216 * int d"
  shows "nat (drop_bit 0 ip AND 0xFF) = a" "nat (drop_bit 8 ip AND 0xFF) = b"
    "nat (drop_bit 16 ip AND 0xFF) = c" "nat (drop_bit 24 ip AND 0xFF) = d"
proof -
  have m: "(int x + 256 * y) mod 256 = int x" "(int x + 256 * y) div 256 = y" if "x < 256" for x y
    using that by auto
  have ip: "ip = int a + 256 * (int b + 256 * (int c + 256 * int d))" by (simp add: ip_def)
  have q1: "ip div 256 = int b + 256 * (int c + 256 * int d)"
    unfolding ip by (rule m(2) [OF assms(1)])
  have q2: "ip div 256 div 256 = int c + 256 * int d"
    unfolding q1 by (rule m(2) [OF assms(2)])
  have r: "ip mod 256 = int a" "ip div 256 mod 256 = int b" "ip div 256 div 256 mod 256 = int c"
    "ip div 256 div 256 div 256 = int d"
    unfolding q2 unfolding q1 unfolding ip by (simp_all only: m assms(1-4))
  have d: "ip div 65536 = ip div 256 div 256" "ip div 16777216 = ip div 256 div 256 div 256"
    by (simp_all flip: zdiv_zmult2_eq)
  show "nat (drop_bit 0 ip AND 0xFF) = a" "nat (drop_bit 8 ip AND 0xFF) = b"
    "nat (drop_bit 16 ip AND 0xFF) = c" "nat (drop_bit 24 ip AND 0xFF) = d"
    using assms(4) by (simp_all add: and_masks drop_bit_eq_div d r)
qed

text \<open>
  Mangling an IPv4 address is reversible: whatever the timestamp, the bytes
  \<open>encodeAddr\<close> produces for a dotted quad and a 16-bit port decode to that address and port.
\<close>

theorem v4_addr_roundtrip:
  assumes "length os = 4" "\<forall>x \<in> set os. x < 256" "0 \<le> port" "port \<le> 65535"
  defines "addr \<equiv> \<lparr>addr_ip = v4_string os, addr_port = port\<rparr>"
  shows "\<exists>bs. encodeAddr addr now = Inr bs \<and> decodeAddr bs = Inr addr"
proof -
  obtain a b c d where os: "os = [a, b, c, d]"
    using assms(1) by (auto simp: eval_nat_numeral length_Suc_conv)
  with assms(2) have lt: "a < 256" "b < 256" "c < 256" "d < 256" by auto
  let ?ip = "v4_word os" and ?tm = "now mod 4294967296"
  let ?n = "v4_mangle ?ip ?tm port"
  have ip: "?ip = int a + 256 * int b + 65536 * int c + 16777216 * int d"
    using v4_word_value [OF lt] os by simp
  have ipb: "0 \<le> ?ip" "?ip < 2 ^ 32" using lt by (auto simp: ip)
  have tmb: "0 \<le> ?tm" "?tm < 2 ^ 32" by auto
  note n = v4_mangle_value [OF ipb tmb assms(3,4)]
  let ?bs = "strip_zeros (le_bytes 16 ?n)"
  have enc: "encodeAddr addr now = Inr ?bs"
    using assms parseV4_string [OF assms(1,2)]
    by (simp add: encodeAddr_def v4_string_no_colon and_masks(4))
  have val: "le_value ?bs = ?n"
    using n(2,3) by (simp add: le_value_strip_zeros le_value_le_bytes)
  have len: "\<not> 16 < length ?bs"
    using length_strip_zeros [of "le_bytes 16 ?n"] by simp
  note f = v4_fields [OF ipb tmb assms(3,4), folded n(1)]
  have "decodeAddr ?bs = Inr \<lparr>addr_ip = js_join [dot] (map (\<lambda>i.
          radix_str 10 (nat (drop_bit i ?ip AND 0xFF))) [0, 8, 16, 24]), addr_port = port\<rparr>"
    unfolding decodeAddr_def Let_def val f using len by (simp only: if_False list.map)
  then have "decodeAddr ?bs = Inr addr"
    by (simp only: list.map ip [unfolded os] v4_octets [OF lt] addr_def v4_string_def os)
  with enc show ?thesis by blast
qed

theorem v4_addr_roundtrip_witness:
  "\<exists>bs. encodeAddr \<lparr>addr_ip = v4_string [192, 168, 0, 7], addr_port = 21118\<rparr> 1700000000000000 = Inr bs
        \<and> decodeAddr bs = Inr \<lparr>addr_ip = v4_string [192, 168, 0, 7], addr_port = 21118\<rparr>"
  using v4_addr_roundtrip [of "[192, 168, 0, 7]" 21118 1700000000000000] by simp

section \<open>IPv6\<close>

lemma two_bytes_value:
  "uint (push_bit 8 (ucast a :: 32 word) OR ucast b) = uint (a :: byte) * 256 + uint (b :: byte)"
proof -
  have b: "0 \<le> uint a" "uint a < 256" "0 \<le> uint b" "uint b < 256"
    using uint_lt2p [of a] uint_lt2p [of b] by simp_all
  have u: "uint (ucast x :: 32 word) = uint x" for x :: byte
    by (simp add: unsigned_ucast_eq take_bit_int_eq_self less_trans [OF uint_lt2p])
  have "take_bit 32 (push_bit 8 (uint a)) = push_bit 8 (uint a)"
    using b by (simp add: push_bit_eq_mult take_bit_int_eq_self)
  then show ?thesis
    unfolding unsigned_or_eq unsigned_push_bit_eq u
    using push_bit_or_eq_add [of "uint b" 8 "uint a"] b by simp
qed

lemma group_at_value: "group_at bs i = unat (bs ! i) * 256 + unat (bs ! (i + 1))"
proof -
  have "int (group_at bs i) = int (unat (bs ! i) * 256 + unat (bs ! (i + 1)))"
    using two_bytes_value [of "bs ! i" "bs ! (i + 1)"]
    unfolding group_at_def uint_nat by simp
  then show ?thesis by (simp only: of_nat_eq_iff)
qed

lemma unat_byte_bound: "unat (b :: byte) < 256"
  using unsigned_less [of b] by simp

lemma group_at_bound: "group_at bs i < 65536"
  using unat_byte_bound [of "bs ! i"] unat_byte_bound [of "bs ! (i + 1)"] by (simp add: group_at_value)

lemma group_at_bytes:
  "of_nat (group_at bs i div 256) = bs ! i" "of_nat (group_at bs i mod 256) = bs ! (i + 1)"
  using unat_byte_bound [of "bs ! (i + 1)"] by (simp_all add: group_at_value)

lemma hex_digits: "list_all is_hex_unit (radix_str 16 n)"
  by (rule radix_str_digits) (auto simp: is_hex_unit_digit_unit)

lemma hex_no_colon: "colon \<notin> set (radix_str 16 n)"
  using hex_digits [of n] by (auto simp: list_all_iff is_hex_unit_def unit_digit_def colon_def)

lemma split2_prefix: "c \<notin> set p \<Longrightarrow> split2 c r = [r] \<Longrightarrow> split2 c (p @ r) = [p @ r]"
proof (induction p)
  case (Cons x p)
  then show ?case by (cases "p @ r") auto
qed simp

lemma split2_single_sep: "y \<noteq> c \<Longrightarrow> split2 c (y # r) = [y # r] \<Longrightarrow> split2 c (c # y # r) = [c # y # r]"
  by simp

lemma split2_join:
  assumes "ps \<noteq> []" "\<forall>p \<in> set ps. p \<noteq> [] \<and> c \<notin> set p"
  shows "split2 c (js_join [c] ps) = [js_join [c] ps]"
  using assms
proof (induction "[c]" ps rule: js_join.induct)
  case (2 p)
  then show ?case using split2_prefix [of c p "[]"] by simp
next
  case (3 p q ps)
  then have IH: "split2 c (js_join [c] (q # ps)) = [js_join [c] (q # ps)]" by simp
  from 3(3) obtain y q' where q: "q = y # q'" "y \<noteq> c" by (cases q) auto
  then obtain r where r: "js_join [c] (q # ps) = y # r" by (cases ps) auto
  have "split2 c (c # js_join [c] (q # ps)) = [c # js_join [c] (q # ps)]"
    using IH q(2) unfolding r by (rule split2_single_sep [rotated])
  from split2_prefix [OF _ this, of p] 3(3) show ?case by simp
qed simp

lemma v6_groups_join:
  assumes "gs \<noteq> []" "\<forall>g \<in> set gs. g < 65536"
  shows "v6_groups ip (js_join [colon] (map (radix_str 16) gs)) = Inr gs"
proof -
  let ?s = "js_join [colon] (map (radix_str 16) gs)"
  have ne: "map (radix_str 16) gs \<noteq> []" using assms(1) by simp
  have sp: "js_split colon ?s = map (radix_str 16) gs"
    by (rule js_split_join [OF ne]) (auto simp: hex_no_colon)
  then have "?s \<noteq> []"
    using assms(1) by (cases gs) (auto simp: radix_str_not_Nil [symmetric])
  moreover have "map (\<lambda>g. if length g < 1 \<or> 4 < length g \<or> \<not> list_all is_hex_unit g
             then Inl (js ''bad ipv6: '' @ ip) else Inr (radix_val 16 g)) (map (radix_str 16) gs)
      = map Inr gs"
    using assms(2) length_radix_str_16 by (fastforce simp: radix_val_radix_str hex_digits not_less)
  ultimately show ?thesis unfolding v6_groups_def sp by (simp only: if_False all_right_Inr)
qed

lemma length_16_list:
  "length (bs :: 'a list) = 16 \<Longrightarrow> bs = [bs ! 0, bs ! 1, bs ! 2, bs ! 3, bs ! 4, bs ! 5, bs ! 6, bs ! 7,
     bs ! 8, bs ! 9, bs ! 10, bs ! 11, bs ! 12, bs ! 13, bs ! 14, bs ! 15]"
  by (rule nth_equalityI) (auto simp: less_Suc_eq numeral_nat)

lemma parseV6_formatV6:
  assumes "length bs = 16"
  shows "parseV6 (formatV6 bs) = Inr bs"
proof -
  let ?gs = "map (group_at bs) [0, 2, 4, 6, 8, 10, 12, 14]"
  have f: "formatV6 bs = js_join [colon] (map (radix_str 16) ?gs)"
    by (simp add: formatV6_def)
  have sp: "split2 colon (formatV6 bs) = [formatV6 bs]"
    unfolding f by (rule split2_join) (auto simp: hex_no_colon)
  have g: "v6_groups (formatV6 bs) (formatV6 bs) = Inr ?gs"
    by (subst (2) f, rule v6_groups_join) (auto simp: group_at_bound)
  have b: "v6_bytes ?gs = bs"
    by (subst length_16_list [OF assms])
      (simp add: v6_bytes_def group_at_bytes [simplified])
  show ?thesis unfolding parseV6_def sp Let_def using g b by simp
qed

text \<open>
  Every 18-byte buffer is the encoding of exactly the IPv6 address it decodes to: the
  printed address parses back to the same sixteen bytes, and the port survives.
\<close>

theorem v6_addr_roundtrip:
  assumes "length bs = 18"
  shows "\<exists>addr. decodeAddr bs = Inr addr \<and> encodeAddr addr now = Inr bs"
proof -
  let ?a = "take 16 bs"
  let ?p = "uint (ucast (bs ! 16) OR push_bit 8 (ucast (bs ! 17)) :: 32 word)"
  have p: "?p = uint (bs ! 17) * 256 + uint (bs ! 16)"
    by (subst or.commute) (rule two_bytes_value)
  have bnd: "uint (bs ! 16) < 256" "uint (bs ! 17) < 256" "0 \<le> uint (bs ! 16)" "0 \<le> uint (bs ! 17)"
    using uint_lt2p [of "bs ! 16"] uint_lt2p [of "bs ! 17"] by simp_all
  then have pb: "\<not> ?p < 0" "\<not> 0xFFFF < ?p" unfolding p by arith+
  have dec: "decodeAddr bs = Inr \<lparr>addr_ip = formatV6 ?a, addr_port = ?p\<rparr>"
    using assms by (simp add: decodeAddr_def)
  have inc: "js_includes (formatV6 ?a) [colon]"
    unfolding js_includes_iff formatV6_def by (simp, metis append_Cons append_Nil)
  have bs: "bs = ?a @ [bs ! 16, bs ! 17]"
    using assms by (intro nth_equalityI) (auto simp: nth_append less_Suc_eq numeral_nat)
  have "(of_int (?p AND 0xFF) :: byte) = bs ! 16" "(of_int (drop_bit 8 ?p) :: byte) = bs ! 17"
    using bnd by (simp_all add: p and_masks drop_bit_eq_div)
  then have "encodeAddr \<lparr>addr_ip = formatV6 ?a, addr_port = ?p\<rparr> now = Inr (?a @ [bs ! 16, bs ! 17])"
    using inc parseV6_formatV6 [of ?a] assms pb by (simp add: encodeAddr_def)
  with dec bs show ?thesis by metis
qed

theorem v6_addr_roundtrip_witness:
  "\<exists>addr. decodeAddr (replicate 16 7 @ [1, 2]) = Inr addr \<and> encodeAddr addr 0 = Inr (replicate 16 7 @ [1, 2])"
  using v6_addr_roundtrip [of "replicate 16 7 @ [1, 2]" 0] by simp

end
