(* ===== verification/Proto.thy ===== *)
theory Proto
  imports Prelude
begin

text \<open>
  The protocol buffer messages of \<open>webclient/src/gen/message.ts\<close> and
  \<open>webclient/src/gen/rendezvous.ts\<close> as the client's code sees them: one \<open>record\<close> per
  interface, one \<open>datatype\<close> per \<open>oneof\<close> union (the constructor without payload is the
  \<open>undefined\<close> union). Enumerations stay integers, as in the generated code, which passes
  unknown values through. A member whose interface has one field carries that field, one with
  two or three carries them side by side, and an empty interface leaves a constant constructor.
  The default values of \<open>fromPartial\<close> are the \<open>_base\<close> constants.

  The \<open>encode\<close> and \<open>decode\<close> functions the client calls are the fields of the record \<open>codec\<close>, a
  parameter of the definitions that put messages on the wire; \<open>Codec.gen_codec\<close> is the generated code.
\<close>

section \<open>Enumerations\<close>

abbreviation ConnType_DEFAULT_CONN :: int where "ConnType_DEFAULT_CONN \<equiv> 0"
abbreviation ConnType_FILE_TRANSFER :: int where "ConnType_FILE_TRANSFER \<equiv> 1"
abbreviation ConnType_VIEW_CAMERA :: int where "ConnType_VIEW_CAMERA \<equiv> 4"
abbreviation ConnType_TERMINAL :: int where "ConnType_TERMINAL \<equiv> 5"
abbreviation NatType_SYMMETRIC :: int where "NatType_SYMMETRIC \<equiv> 2"

abbreviation BoolOption_NotSet :: int where "BoolOption_NotSet \<equiv> 0"
abbreviation BoolOption_No :: int where "BoolOption_No \<equiv> 1"
abbreviation BoolOption_Yes :: int where "BoolOption_Yes \<equiv> 2"

abbreviation PreferCodec_Auto :: int where "PreferCodec_Auto \<equiv> 0"
abbreviation PreferCodec_VP9 :: int where "PreferCodec_VP9 \<equiv> 1"
abbreviation PreferCodec_H264 :: int where "PreferCodec_H264 \<equiv> 2"
abbreviation PreferCodec_H265 :: int where "PreferCodec_H265 \<equiv> 3"
abbreviation PreferCodec_VP8 :: int where "PreferCodec_VP8 \<equiv> 4"
abbreviation PreferCodec_AV1 :: int where "PreferCodec_AV1 \<equiv> 5"

abbreviation ClipboardFormat_Text :: int where "ClipboardFormat_Text \<equiv> 0"
abbreviation KeyboardMode_Legacy :: int where "KeyboardMode_Legacy \<equiv> 0"
abbreviation ControlKey_CtrlAltDel :: int where "ControlKey_CtrlAltDel \<equiv> 100"

section \<open>Handshake and login\<close>

record IdPk =
  idpk_id :: jsstr
  idpk_pk :: bytes

record PublicKey =
  asymmetric_value :: bytes
  symmetric_value :: bytes

record Resolution =
  res_width :: int
  res_height :: int

record CodecAbility =
  ca_vp8 :: bool
  ca_vp9 :: bool
  ca_av1 :: bool
  ca_h264 :: bool
  ca_h265 :: bool

record SupportedEncoding =
  se_h264 :: bool
  se_h265 :: bool
  se_vp8 :: bool
  se_av1 :: bool
  se_i444 :: "CodecAbility option"

record SupportedDecoding =
  ability_vp9 :: int
  ability_h264 :: int
  ability_h265 :: int
  prefer_codec :: int
  ability_vp8 :: int
  ability_av1 :: int
  sd_i444 :: "CodecAbility option"
  prefer_chroma :: int

definition SupportedDecoding_base :: SupportedDecoding where
  "SupportedDecoding_base =
     \<lparr>ability_vp9 = 0, ability_h264 = 0, ability_h265 = 0, prefer_codec = 0, ability_vp8 = 0,
      ability_av1 = 0, sd_i444 = None, prefer_chroma = 0\<rparr>"

record OptionMessage =
  image_quality :: int
  lock_after_session_end :: int
  show_remote_cursor :: int
  privacy_mode :: int
  block_input :: int
  custom_image_quality :: int
  disable_audio :: int
  disable_clipboard :: int
  enable_file_transfer :: int
  supported_decoding :: "SupportedDecoding option"
  custom_fps :: int
  disable_keyboard :: int
  follow_remote_cursor :: int
  follow_remote_window :: int
  disable_camera :: int
  terminal_persistent :: int
  show_my_cursor :: int

definition OptionMessage_base :: OptionMessage where
  "OptionMessage_base =
     \<lparr>image_quality = 0, lock_after_session_end = 0, show_remote_cursor = 0, privacy_mode = 0,
      block_input = 0, custom_image_quality = 0, disable_audio = 0, disable_clipboard = 0,
      enable_file_transfer = 0, supported_decoding = None, custom_fps = 0, disable_keyboard = 0,
      follow_remote_cursor = 0, follow_remote_window = 0, disable_camera = 0,
      terminal_persistent = 0, show_my_cursor = 0\<rparr>"

datatype (plugins only: code size) LoginUnion =
    LU_none
  | LU_file_transfer jsstr bool
  | LU_port_forward jsstr int
  | LU_view_camera
  | LU_terminal jsstr

record LoginRequest =
  lr_username :: jsstr
  lr_password :: bytes
  lr_my_id :: jsstr
  lr_my_name :: jsstr
  lr_option :: "OptionMessage option"
  lr_union :: LoginUnion
  video_ack_required :: bool
  lr_session_id :: int
  lr_version :: jsstr
  lr_os_login :: "(jsstr \<times> jsstr) option"
  lr_my_platform :: jsstr
  lr_hwid :: bytes
  lr_avatar :: jsstr

definition LoginRequest_base :: LoginRequest where
  "LoginRequest_base =
     \<lparr>lr_username = [], lr_password = [], lr_my_id = [], lr_my_name = [], lr_option = None,
      lr_union = LU_none, video_ack_required = False, lr_session_id = 0, lr_version = [],
      lr_os_login = None, lr_my_platform = [], lr_hwid = [], lr_avatar = []\<rparr>"

record ProtoDisplay =
  pd_x :: int
  pd_y :: int
  pd_width :: int
  pd_height :: int
  pd_name :: jsstr
  pd_online :: bool
  pd_cursor_embedded :: bool
  pd_original_resolution :: "Resolution option"
  pd_scale :: jsnum

record Features =
  f_privacy_mode :: bool
  f_terminal :: bool

type_synonym WindowsSession = "int \<times> jsstr"

record PeerInfo =
  pi_username :: jsstr
  pi_hostname :: jsstr
  pi_platform :: jsstr
  pi_displays :: "ProtoDisplay list"
  pi_current_display :: int
  pi_sas_enabled :: bool
  pi_version :: jsstr
  pi_features :: "Features option"
  pi_encoding :: "SupportedEncoding option"
  pi_resolutions :: "Resolution list option"
  pi_platform_additions :: jsstr
  pi_windows_sessions :: "(WindowsSession list \<times> int) option"

datatype LoginResponseUnion =
    LResp_none
  | LResp_error jsstr
  | LResp_peer_info PeerInfo

record LoginResponse =
  lresp_union :: LoginResponseUnion
  lresp_enable_trusted_devices :: bool

section \<open>Video, audio, cursor, clipboard\<close>

record EncodedVideoFrame =
  ef_data :: bytes
  ef_key :: bool
  ef_pts :: int

datatype (plugins only: code size) VideoUnion =
    VU_none
  | VU_vp9s "EncodedVideoFrame list"
  | VU_rgb bool
  | VU_yuv bool int
  | VU_h264s "EncodedVideoFrame list"
  | VU_h265s "EncodedVideoFrame list"
  | VU_vp8s "EncodedVideoFrame list"
  | VU_av1s "EncodedVideoFrame list"

record VideoFrame =
  vf_union :: VideoUnion
  vf_display :: int

record CursorData =
  cd_id :: int
  cd_hotx :: int
  cd_hoty :: int
  cd_width :: int
  cd_height :: int
  cd_colors :: bytes

record Clipboard =
  cb_compress :: bool
  cb_content :: bytes
  cb_width :: int
  cb_height :: int
  cb_format :: int
  cb_special_name :: jsstr

definition Clipboard_base :: Clipboard where
  "Clipboard_base =
     \<lparr>cb_compress = False, cb_content = [], cb_width = 0, cb_height = 0, cb_format = 0,
      cb_special_name = []\<rparr>"

section \<open>Input\<close>

record MouseEvent =
  me_mask :: int
  me_x :: int
  me_y :: int
  me_modifiers :: "int list"

datatype (plugins only: code size) KeyUnion =
    KU_none
  | KU_control_key int
  | KU_chr int
  | KU_unicode int
  | KU_seq jsstr
  | KU_win2win_hotkey int

record KeyEvent =
  ke_down :: bool
  ke_press :: bool
  ke_union :: KeyUnion
  ke_modifiers :: "int list"
  ke_mode :: int

datatype (plugins only: code size) TouchEvent =
    TE_none
  | TE_scale_update int
  | TE_pan_start int int
  | TE_pan_update int int
  | TE_pan_end int int

datatype PointerUnion = PU_none | PU_touch_event TouchEvent

section \<open>Clipboard redirection\<close>

record CliprdrFileContentsRequest =
  fcr_stream_id :: int
  fcr_list_index :: int
  fcr_dw_flags :: int
  fcr_n_position_low :: int
  fcr_n_position_high :: int
  fcr_cb_requested :: int
  fcr_have_clip_data_id :: bool
  fcr_clip_data_id :: int

datatype (plugins only: code size) Cliprdr =
    CL_none
  | CL_ready
  | CL_format_list "(int \<times> jsstr) list"
  | CL_format_list_response int
  | CL_format_data_request int
  | CL_format_data_response int bytes
  | CL_file_contents_request CliprdrFileContentsRequest
  | CL_file_contents_response int int bytes
  | CL_try_empty
  | CL_files "(jsstr \<times> int) list"

section \<open>File transfer\<close>

record FileEntry =
  fe_entry_type :: int
  fe_name :: jsstr
  fe_is_hidden :: bool
  fe_size :: int
  fe_modified_time :: int

record FileDirectory =
  fd_id :: int
  fd_path :: jsstr
  fd_entries :: "FileEntry list"

record FileTransferDigest =
  dg_id :: int
  dg_file_num :: int
  dg_last_modified :: int
  dg_file_size :: int
  dg_is_upload :: bool
  dg_is_identical :: bool
  dg_transferred_size :: int
  dg_is_resume :: bool

definition FileTransferDigest_base :: FileTransferDigest where
  "FileTransferDigest_base =
     \<lparr>dg_id = 0, dg_file_num = 0, dg_last_modified = 0, dg_file_size = 0, dg_is_upload = False,
      dg_is_identical = False, dg_transferred_size = 0, dg_is_resume = False\<rparr>"

record FileTransferBlock =
  bk_id :: int
  bk_file_num :: int
  bk_data :: bytes
  bk_compressed :: bool
  bk_blk_id :: int

datatype ConfirmUnion = CU_none | CU_skip bool | CU_offset_blk int

record FileTransferSendConfirmRequest =
  sc_id :: int
  sc_file_num :: int
  sc_union :: ConfirmUnion

datatype (plugins only: code size) FileAction =
    FA_none
  | FA_read_dir jsstr bool
  | FA_send int jsstr bool int int
  | FA_receive int jsstr "FileEntry list" int int
  | FA_create int jsstr
  | FA_remove_dir int jsstr bool
  | FA_remove_file int jsstr int
  | FA_all_files int jsstr bool
  | FA_cancel int
  | FA_send_confirm FileTransferSendConfirmRequest
  | FA_rename int jsstr jsstr
  | FA_read_empty_dirs jsstr bool

datatype (plugins only: code size) FileResponse =
    FR_none
  | FR_dir FileDirectory
  | FR_block FileTransferBlock
  | FR_error int jsstr int
  | FR_done int int
  | FR_digest FileTransferDigest
  | FR_empty_dirs jsstr "FileDirectory list"

section \<open>Session control\<close>

record SwitchDisplay =
  sd_display :: int
  sd_x :: int
  sd_y :: int
  sd_width :: int
  sd_height :: int
  sd_cursor_embedded :: bool
  sd_resolutions :: "Resolution list option"
  sd_original_resolution :: "Resolution option"

definition SwitchDisplay_base :: SwitchDisplay where
  "SwitchDisplay_base =
     \<lparr>sd_display = 0, sd_x = 0, sd_y = 0, sd_width = 0, sd_height = 0,
      sd_cursor_embedded = False, sd_resolutions = None, sd_original_resolution = None\<rparr>"

datatype BackUnion = BU_none | BU_privacy_mode_state int | BU_block_input_state int

datatype ElevationUnion = EU_none | EU_direct bool | EU_logon jsstr jsstr

datatype (plugins only: code size) Misc =
    X_none
  | X_chat_message jsstr
  | X_switch_display SwitchDisplay
  | X_permission_info int bool
  | X_option OptionMessage
  | X_audio_format int int
  | X_close_reason jsstr
  | X_refresh_video bool
  | X_video_received bool
  | X_back_notification BackUnion jsstr jsstr
  | X_restart_remote_device bool
  | X_uac bool
  | X_foreground_window_elevated bool
  | X_stop_service bool
  | X_elevation_request ElevationUnion
  | X_elevation_response jsstr
  | X_portable_service_running bool
  | X_switch_sides_request bytes
  | X_switch_back
  | X_change_resolution Resolution
  | X_plugin_request jsstr bytes
  | X_plugin_failure jsstr jsstr jsstr
  | X_full_speed_fps int
  | X_auto_adjust_fps int
  | X_client_record_status bool
  | X_capture_displays "int list" "int list" "int list"
  | X_refresh_video_display int
  | X_toggle_virtual_display int bool
  | X_toggle_privacy_mode jsstr bool
  | X_supported_encoding SupportedEncoding
  | X_selected_sid int
  | X_change_display_resolution int "Resolution option"
  | X_message_query int
  | X_follow_current_display int

section \<open>Terminal\<close>

record TerminalData =
  tmd_terminal_id :: int
  tmd_data :: bytes
  tmd_compressed :: bool

datatype (plugins only: code size) TerminalAction =
    TA_none
  | TA_open int int int
  | TA_data TerminalData
  | TA_resize int int int
  | TA_close int

record TerminalOpened =
  to_terminal_id :: int
  to_success :: bool
  to_message :: jsstr
  to_pid :: int
  to_service_id :: jsstr
  to_persistent_sessions :: "int list"
  to_replay_terminal_output :: bool

datatype (plugins only: code size) TerminalResponse =
    TR_none
  | TR_opened TerminalOpened
  | TR_data TerminalData
  | TR_closed int int
  | TR_error int jsstr

section \<open>The message union\<close>

record TestDelay =
  td_time :: int
  td_from_client :: bool
  td_last_delay :: int
  td_target_bitrate :: int

datatype (plugins only: code size) Message =
    M_none
  | M_signed_id bytes
  | M_public_key PublicKey
  | M_test_delay TestDelay
  | M_video_frame VideoFrame
  | M_login_request LoginRequest
  | M_login_response LoginResponse
  | M_hash jsstr jsstr
  | M_mouse_event MouseEvent
  | M_audio_frame bytes
  | M_cursor_data CursorData
  | M_cursor_position int int
  | M_cursor_id int
  | M_key_event KeyEvent
  | M_clipboard Clipboard
  | M_file_action FileAction
  | M_file_response FileResponse
  | M_misc Misc
  | M_cliprdr Cliprdr
  | M_message_box jsstr jsstr jsstr jsstr
  | M_switch_sides_response bytes "LoginRequest option"
  | M_voice_call_request int bool
  | M_voice_call_response bool int int
  | M_peer_info PeerInfo
  | M_pointer_device_event PointerUnion "int list"
  | M_auth_2fa jsstr bytes
  | M_multi_clipboards "Clipboard list"
  | M_screenshot_request int jsstr
  | M_screenshot_response jsstr jsstr bytes
  | M_terminal_action TerminalAction
  | M_terminal_response TerminalResponse

text \<open>The discriminator \<open>msg.union?.$case\<close>.\<close>

definition message_case :: "Message \<Rightarrow> jsstr option" where
  "message_case m =
     (case m of
        M_none \<Rightarrow> None
      | M_signed_id _ \<Rightarrow> Some (js ''signed_id'')
      | M_public_key _ \<Rightarrow> Some (js ''public_key'')
      | M_test_delay _ \<Rightarrow> Some (js ''test_delay'')
      | M_video_frame _ \<Rightarrow> Some (js ''video_frame'')
      | M_login_request _ \<Rightarrow> Some (js ''login_request'')
      | M_login_response _ \<Rightarrow> Some (js ''login_response'')
      | M_hash _ _ \<Rightarrow> Some (js ''hash'')
      | M_mouse_event _ \<Rightarrow> Some (js ''mouse_event'')
      | M_audio_frame _ \<Rightarrow> Some (js ''audio_frame'')
      | M_cursor_data _ \<Rightarrow> Some (js ''cursor_data'')
      | M_cursor_position _ _ \<Rightarrow> Some (js ''cursor_position'')
      | M_cursor_id _ \<Rightarrow> Some (js ''cursor_id'')
      | M_key_event _ \<Rightarrow> Some (js ''key_event'')
      | M_clipboard _ \<Rightarrow> Some (js ''clipboard'')
      | M_file_action _ \<Rightarrow> Some (js ''file_action'')
      | M_file_response _ \<Rightarrow> Some (js ''file_response'')
      | M_misc _ \<Rightarrow> Some (js ''misc'')
      | M_cliprdr _ \<Rightarrow> Some (js ''cliprdr'')
      | M_message_box _ _ _ _ \<Rightarrow> Some (js ''message_box'')
      | M_switch_sides_response _ _ \<Rightarrow> Some (js ''switch_sides_response'')
      | M_voice_call_request _ _ \<Rightarrow> Some (js ''voice_call_request'')
      | M_voice_call_response _ _ _ \<Rightarrow> Some (js ''voice_call_response'')
      | M_peer_info _ \<Rightarrow> Some (js ''peer_info'')
      | M_pointer_device_event _ _ \<Rightarrow> Some (js ''pointer_device_event'')
      | M_auth_2fa _ _ \<Rightarrow> Some (js ''auth_2fa'')
      | M_multi_clipboards _ \<Rightarrow> Some (js ''multi_clipboards'')
      | M_screenshot_request _ _ \<Rightarrow> Some (js ''screenshot_request'')
      | M_screenshot_response _ _ _ \<Rightarrow> Some (js ''screenshot_response'')
      | M_terminal_action _ \<Rightarrow> Some (js ''terminal_action'')
      | M_terminal_response _ \<Rightarrow> Some (js ''terminal_response''))"

section \<open>Rendezvous\<close>

record PunchHoleRequest =
  phr_id :: jsstr
  phr_nat_type :: int
  phr_licence_key :: jsstr
  phr_conn_type :: int
  phr_token :: jsstr
  phr_version :: jsstr
  phr_udp_port :: int
  phr_force_relay :: bool
  phr_upnp_port :: int
  phr_socket_addr_v6 :: bytes
  phr_switch_code :: jsstr

definition PunchHoleRequest_base :: PunchHoleRequest where
  "PunchHoleRequest_base =
     \<lparr>phr_id = [], phr_nat_type = 0, phr_licence_key = [], phr_conn_type = 0, phr_token = [],
      phr_version = [], phr_udp_port = 0, phr_force_relay = False, phr_upnp_port = 0,
      phr_socket_addr_v6 = [], phr_switch_code = []\<rparr>"

datatype PunchHoleUnion = PHU_none | PHU_nat_type int | PHU_is_local bool

record PunchHoleResponse =
  php_socket_addr :: bytes
  php_pk :: bytes
  php_failure :: int
  php_relay_server :: jsstr
  php_union :: PunchHoleUnion
  php_other_failure :: jsstr
  php_feedback :: int
  php_is_udp :: bool
  php_upnp_port :: int
  php_socket_addr_v6 :: bytes

record RequestRelay =
  rq_id :: jsstr
  rq_uuid :: jsstr
  rq_socket_addr :: bytes
  rq_relay_server :: jsstr
  rq_secure :: bool
  rq_licence_key :: jsstr
  rq_conn_type :: int
  rq_token :: jsstr
  rq_control_permissions :: "int option"
  rq_controlled_context :: "jsstr option"
  rq_switch_code :: jsstr

definition RequestRelay_base :: RequestRelay where
  "RequestRelay_base =
     \<lparr>rq_id = [], rq_uuid = [], rq_socket_addr = [], rq_relay_server = [], rq_secure = False,
      rq_licence_key = [], rq_conn_type = 0, rq_token = [], rq_control_permissions = None,
      rq_controlled_context = None, rq_switch_code = []\<rparr>"

datatype RelayUnion = RU_none | RU_id jsstr | RU_pk bytes

record RelayResponse =
  rr_socket_addr :: bytes
  rr_uuid :: jsstr
  rr_relay_server :: jsstr
  rr_union :: RelayUnion
  rr_refuse_reason :: jsstr
  rr_version :: jsstr
  rr_feedback :: int
  rr_socket_addr_v6 :: bytes
  rr_upnp_port :: int

record RegisterPk =
  rpk_id :: jsstr
  rpk_uuid :: bytes
  rpk_pk :: bytes
  rpk_old_id :: jsstr
  rpk_no_register_device :: bool

record PunchHole =
  ph_socket_addr :: bytes
  ph_relay_server :: jsstr
  ph_nat_type :: int
  ph_udp_port :: int
  ph_force_relay :: bool
  ph_upnp_port :: int
  ph_socket_addr_v6 :: bytes
  ph_control_permissions :: "int option"
  ph_controlled_context :: "jsstr option"

record PunchHoleSent =
  phs_socket_addr :: bytes
  phs_id :: jsstr
  phs_relay_server :: jsstr
  phs_nat_type :: int
  phs_version :: jsstr
  phs_upnp_port :: int
  phs_socket_addr_v6 :: bytes

record FetchLocalAddr =
  fla_socket_addr :: bytes
  fla_relay_server :: jsstr
  fla_socket_addr_v6 :: bytes
  fla_control_permissions :: "int option"
  fla_controlled_context :: "jsstr option"

record LocalAddr =
  la_socket_addr :: bytes
  la_local_addr :: bytes
  la_relay_server :: jsstr
  la_id :: jsstr
  la_version :: jsstr
  la_socket_addr_v6 :: bytes

record PeerDiscovery =
  pdi_cmd :: jsstr
  pdi_mac :: jsstr
  pdi_id :: jsstr
  pdi_username :: jsstr
  pdi_hostname :: jsstr
  pdi_platform :: jsstr
  pdi_misc :: jsstr

record HttpProxyRequest =
  hreq_method :: jsstr
  hreq_path :: jsstr
  hreq_headers :: "(jsstr \<times> jsstr) list"
  hreq_body :: bytes

record HttpProxyResponse =
  hres_status :: int
  hres_headers :: "(jsstr \<times> jsstr) list"
  hres_body :: bytes
  hres_error :: jsstr

text \<open>A member whose interface has a single field carries that field.\<close>

type_synonym ConfigUpdate = "int \<times> jsstr list"

datatype (plugins only: code size) RendezvousMessage =
    R_none
  | R_register_peer jsstr int
  | R_register_peer_response bool
  | R_punch_hole_request PunchHoleRequest
  | R_punch_hole PunchHole
  | R_punch_hole_sent PunchHoleSent
  | R_punch_hole_response PunchHoleResponse
  | R_fetch_local_addr FetchLocalAddr
  | R_local_addr LocalAddr
  | R_configure_update ConfigUpdate
  | R_register_pk RegisterPk
  | R_register_pk_response int int
  | R_software_update jsstr
  | R_request_relay RequestRelay
  | R_relay_response RelayResponse
  | R_test_nat_request int
  | R_test_nat_response int "ConfigUpdate option"
  | R_peer_discovery PeerDiscovery
  | R_online_request jsstr "jsstr list"
  | R_online_response bytes
  | R_key_exchange "bytes list"
  | R_hc jsstr
  | R_http_proxy_request HttpProxyRequest
  | R_http_proxy_response HttpProxyResponse

definition rendezvous_case :: "RendezvousMessage \<Rightarrow> jsstr option" where
  "rendezvous_case m =
     (case m of
        R_none \<Rightarrow> None
      | R_register_peer _ _ \<Rightarrow> Some (js ''register_peer'')
      | R_register_peer_response _ \<Rightarrow> Some (js ''register_peer_response'')
      | R_punch_hole_request _ \<Rightarrow> Some (js ''punch_hole_request'')
      | R_punch_hole _ \<Rightarrow> Some (js ''punch_hole'')
      | R_punch_hole_sent _ \<Rightarrow> Some (js ''punch_hole_sent'')
      | R_punch_hole_response _ \<Rightarrow> Some (js ''punch_hole_response'')
      | R_fetch_local_addr _ \<Rightarrow> Some (js ''fetch_local_addr'')
      | R_local_addr _ \<Rightarrow> Some (js ''local_addr'')
      | R_configure_update _ \<Rightarrow> Some (js ''configure_update'')
      | R_register_pk _ \<Rightarrow> Some (js ''register_pk'')
      | R_register_pk_response _ _ \<Rightarrow> Some (js ''register_pk_response'')
      | R_software_update _ \<Rightarrow> Some (js ''software_update'')
      | R_request_relay _ \<Rightarrow> Some (js ''request_relay'')
      | R_relay_response _ \<Rightarrow> Some (js ''relay_response'')
      | R_test_nat_request _ \<Rightarrow> Some (js ''test_nat_request'')
      | R_test_nat_response _ _ \<Rightarrow> Some (js ''test_nat_response'')
      | R_peer_discovery _ \<Rightarrow> Some (js ''peer_discovery'')
      | R_online_request _ _ \<Rightarrow> Some (js ''online_request'')
      | R_online_response _ \<Rightarrow> Some (js ''online_response'')
      | R_key_exchange _ \<Rightarrow> Some (js ''key_exchange'')
      | R_hc _ \<Rightarrow> Some (js ''hc'')
      | R_http_proxy_request _ \<Rightarrow> Some (js ''http_proxy_request'')
      | R_http_proxy_response _ \<Rightarrow> Some (js ''http_proxy_response''))"

section \<open>The wire codec\<close>

text \<open>
  \<open>decode\<close> throws on malformed input: \<open>Inl\<close> carries the error message. \<open>encode\<close> is total
  here: the generated code throws only for a 64-bit field whose value does not fit, and the
  client builds those fields from values that do (a 63-bit session id, timestamps and file
  sizes).
\<close>

record codec =
  encMessage :: "Message \<Rightarrow> bytes"
  decMessage :: "bytes \<Rightarrow> jsstr + Message"
  decIdPk :: "bytes \<Rightarrow> jsstr + IdPk"
  encRendezvous :: "RendezvousMessage \<Rightarrow> bytes"
  decRendezvous :: "bytes \<Rightarrow> jsstr + RendezvousMessage"

end
