(* ===== verification/Crypto.thy ===== *)
theory Crypto
  imports Proto
begin

text \<open>
  \<open>webclient/src/core/crypto.ts\<close> and \<open>webclient/src/core/handshake.ts\<close>: the NaCl wrapper,
  the stream cipher with its counter nonces, and the two trust links of the handshake.

  libsodium is third-party code. Its primitives are the fields of the record \<open>sodium\<close>, a
  parameter of the definitions; a primitive that throws returns \<open>Inl\<close> with the message of
  the error. What a theorem relies on is a named hypothesis about that record. Random bytes
  and fresh key pairs are arguments.
\<close>

record sodium =
  from_base64 :: "jsstr \<Rightarrow> jsstr + bytes"
  crypto_sign_open :: "bytes \<Rightarrow> bytes \<Rightarrow> jsstr + bytes"
  crypto_box_easy :: "bytes \<Rightarrow> bytes \<Rightarrow> bytes \<Rightarrow> bytes \<Rightarrow> jsstr + bytes"
  crypto_secretbox_easy :: "bytes \<Rightarrow> bytes \<Rightarrow> bytes \<Rightarrow> bytes"
  crypto_secretbox_open_easy :: "bytes \<Rightarrow> bytes \<Rightarrow> bytes \<Rightarrow> jsstr + bytes"

text \<open>
  The documented behaviour of the secret-key box: opening inverts sealing under the same
  nonce and key, and a sealed message is 16 bytes longer than its plaintext.
\<close>

definition secretbox_ok :: "sodium \<Rightarrow> bool" where
  "secretbox_ok sod \<longleftrightarrow>
     (\<forall>m n k. crypto_secretbox_open_easy sod (crypto_secretbox_easy sod m n k) n k = Inr m) \<and>
     (\<forall>m n k. length (crypto_secretbox_easy sod m n k) = length m + 16)"

section \<open>crypto.ts\<close>

definition decodeB64 :: "sodium \<Rightarrow> jsstr \<Rightarrow> jsstr + bytes" where
  "decodeB64 sod s = from_base64 sod s"

definition signOpen :: "sodium \<Rightarrow> bytes \<Rightarrow> bytes \<Rightarrow> jsstr + bytes" where
  "signOpen sod signedMsg ed25519Pk = crypto_sign_open sod signedMsg ed25519Pk"

definition ZERO_NONCE_24 :: bytes where
  "ZERO_NONCE_24 = replicate 24 0"

text \<open>The random choices of one call: 32 key bytes and a fresh box key pair.\<close>

record key_choice =
  rnd_key :: bytes
  eph_publicKey :: bytes
  eph_privateKey :: bytes

record sealed_key =
  ourBoxPk :: bytes
  sealed :: bytes
  sealed_key :: bytes

definition sealSymmetricKey :: "sodium \<Rightarrow> key_choice \<Rightarrow> bytes \<Rightarrow> jsstr + sealed_key" where
  "sealSymmetricKey sod rnd theirBoxPk =
     (case crypto_box_easy sod (rnd_key rnd) ZERO_NONCE_24 theirBoxPk (eph_privateKey rnd) of
        Inl e \<Rightarrow> Inl e
      | Inr c \<Rightarrow> Inr \<lparr>ourBoxPk = eph_publicKey rnd, sealed = c, sealed_key = rnd_key rnd\<rparr>)"

text \<open>\<open>setBigUint64(0, seq, true)\<close> into 24 zero bytes: the counter modulo 2 to the 64, little-endian.\<close>

definition buildNonce :: "nat \<Rightarrow> bytes" where
  "buildNonce seq = map (\<lambda>i. of_nat (seq div 256 ^ i)) [0..<8] @ replicate 16 0"

record StreamCipher =
  sendSeq :: nat
  recvSeq :: nat
  cipher_key :: bytes

definition newStreamCipher :: "bytes \<Rightarrow> StreamCipher" where
  "newStreamCipher k = \<lparr>sendSeq = 0, recvSeq = 0, cipher_key = k\<rparr>"

definition seal :: "sodium \<Rightarrow> StreamCipher \<Rightarrow> bytes \<Rightarrow> StreamCipher \<times> bytes" where
  "seal sod c pt =
     (let c' = c\<lparr>sendSeq := Suc (sendSeq c)\<rparr>
      in (c', crypto_secretbox_easy sod pt (buildNonce (sendSeq c')) (cipher_key c')))"

definition open_ct :: "sodium \<Rightarrow> StreamCipher \<Rightarrow> bytes \<Rightarrow> StreamCipher \<times> (jsstr + bytes)" where
  "open_ct sod c ct =
     (if length ct \<le> 1 then (c, Inr ct)
      else let c' = c\<lparr>recvSeq := Suc (recvSeq c)\<rparr>
           in (c', crypto_secretbox_open_easy sod ct (buildNonce (recvSeq c')) (cipher_key c')))"

section \<open>handshake.ts\<close>

definition decodeIdPk :: "sodium \<Rightarrow> codec \<Rightarrow> bytes \<Rightarrow> bytes \<Rightarrow> jsstr + IdPk" where
  "decodeIdPk sod cd signedMsg ed25519Pk =
     (case signOpen sod signedMsg ed25519Pk of
        Inl e \<Rightarrow> Inl e
      | Inr m \<Rightarrow> (case decIdPk cd m of Inl e \<Rightarrow> Inl e | Inr i \<Rightarrow> Inr i))"

definition verifyServerRelayPk ::
    "sodium \<Rightarrow> codec \<Rightarrow> bytes \<Rightarrow> bytes \<Rightarrow> jsstr \<Rightarrow> jsstr + bytes" where
  "verifyServerRelayPk sod cd rrPk serverEd25519Pk expectPeerId =
     (case decodeIdPk sod cd rrPk serverEd25519Pk of
        Inl e \<Rightarrow> Inl e
      | Inr i \<Rightarrow>
          if idpk_id i \<noteq> expectPeerId
          then Inl (js ''server-signed peer id mismatch: expected \"'' @ expectPeerId
                    @ js ''\", got \"'' @ idpk_id i @ js ''\"'')
          else Inr (idpk_pk i))"

definition verifyPeerSignedId ::
    "sodium \<Rightarrow> codec \<Rightarrow> bytes \<Rightarrow> bytes \<Rightarrow> jsstr + (jsstr \<times> bytes)" where
  "verifyPeerSignedId sod cd signedId peerEd25519Pk =
     (case decodeIdPk sod cd signedId peerEd25519Pk of
        Inl e \<Rightarrow> Inl e
      | Inr i \<Rightarrow> Inr (idpk_id i, idpk_pk i))"

definition buildPublicKeyMessage ::
    "sodium \<Rightarrow> codec \<Rightarrow> key_choice \<Rightarrow> bytes \<Rightarrow> jsstr + (bytes \<times> bytes)" where
  "buildPublicKeyMessage sod cd rnd peerBoxPk =
     (case sealSymmetricKey sod rnd peerBoxPk of
        Inl e \<Rightarrow> Inl e
      | Inr k \<Rightarrow>
          Inr (encMessage cd (M_public_key
                 \<lparr>asymmetric_value = ourBoxPk k, symmetric_value = sealed k\<rparr>), sealed_key k))"

section \<open>Counter nonces\<close>

lemma length_buildNonce [simp]: "length (buildNonce n) = 24"
  by (simp add: buildNonce_def)

lemma buildNonce_eq_iff:
  "buildNonce m = buildNonce n \<longleftrightarrow> m mod 2 ^ 64 = n mod 2 ^ 64"
proof
  assume "buildNonce m = buildNonce n"
  then have "map (\<lambda>i. of_nat (m div 256 ^ i) :: byte) [0..<8] = map (\<lambda>i. of_nat (n div 256 ^ i)) [0..<8]"
    by (simp add: buildNonce_def del: upt_Suc)
  then have "m mod 256 ^ 8 = n mod 256 ^ 8" by (rule digits_256_inj)
  then show "m mod 2 ^ 64 = n mod 2 ^ 64" by simp
next
  assume e: "m mod 2 ^ 64 = n mod 2 ^ 64"
  have w: "(2::nat) ^ 64 = 256 ^ 8" by simp
  have d: "(of_nat (x div 256 ^ i) :: byte) = of_nat (x mod 2 ^ 64 div 256 ^ i)"
    if "i < 8" for x i :: nat
    unfolding w by (rule byte_digit_mod [OF that, of x, symmetric])
  have "map (\<lambda>i. of_nat (m div 256 ^ i) :: byte) [0..<8] = map (\<lambda>i. of_nat (n div 256 ^ i)) [0..<8]"
  proof (rule map_cong [OF refl])
    fix i assume "i \<in> set [0..<8::nat]"
    then have i: "i < 8" by simp
    show "(of_nat (m div 256 ^ i) :: byte) = of_nat (n div 256 ^ i)"
      unfolding d [OF i, of m] d [OF i, of n] e ..
  qed
  then show "buildNonce m = buildNonce n" unfolding buildNonce_def by (rule arg_cong)
qed

section \<open>The cipher as a sequence of frames\<close>

text \<open>Sealing and opening whole sequences, as one side of the connection does over time.\<close>

fun seal_all :: "sodium \<Rightarrow> StreamCipher \<Rightarrow> bytes list \<Rightarrow> StreamCipher \<times> bytes list" where
  "seal_all sod c [] = (c, [])"
| "seal_all sod c (m # ms) =
     (let (c1, ct) = seal sod c m; (c2, cts) = seal_all sod c1 ms in (c2, ct # cts))"

fun open_all :: "sodium \<Rightarrow> StreamCipher \<Rightarrow> bytes list \<Rightarrow> StreamCipher \<times> (jsstr + bytes) list" where
  "open_all sod c [] = (c, [])"
| "open_all sod c (ct # cts) =
     (let (c1, r) = open_ct sod c ct; (c2, rs) = open_all sod c1 cts in (c2, r # rs))"

text \<open>The nonces a run of \<open>n\<close> seals uses, in order.\<close>

definition seal_nonces :: "StreamCipher \<Rightarrow> nat \<Rightarrow> bytes list" where
  "seal_nonces c n = map (\<lambda>i. buildNonce (sendSeq c + i)) [1..<Suc n]"

lemma seal_all_ciphertexts:
  "snd (seal_all sod c ms) =
     map2 (\<lambda>m n. crypto_secretbox_easy sod m n (cipher_key c)) ms (seal_nonces c (length ms))"
proof (induction ms arbitrary: c)
  case (Cons m ms)
  let ?c1 = "c\<lparr>sendSeq := Suc (sendSeq c)\<rparr>"
  have "seal_nonces c (Suc (length ms)) = buildNonce (Suc (sendSeq c)) # seal_nonces ?c1 (length ms)"
  proof -
    have "[1..<Suc (Suc (length ms))] = 1 # map Suc [1..<Suc (length ms)]"
      by (simp add: map_Suc_upt upt_conv_Cons del: upt_Suc)
    then show ?thesis by (simp add: seal_nonces_def del: upt_Suc)
  qed
  with Cons [of ?c1] show ?case
    by (simp add: seal_def Let_def case_prod_beta)
qed (simp add: seal_nonces_def)

lemma seal_all_state: "fst (seal_all sod c ms) = c\<lparr>sendSeq := sendSeq c + length ms\<rparr>"
  by (induction ms arbitrary: c) (simp_all add: seal_def Let_def case_prod_beta)

lemma seal_nonces_distinct:
  assumes "n < 2 ^ 64"
  shows "distinct (seal_nonces c n)"
proof -
  have "inj_on (\<lambda>i. buildNonce (sendSeq c + i)) {1..n}"
  proof (rule inj_onI)
    fix i j
    assume ij: "i \<in> {1..n}" "j \<in> {1..n}"
      and e: "buildNonce (sendSeq c + i) = buildNonce (sendSeq c + j)"
    have key: "x = y" if "x \<le> y" "y < 2 ^ 64" "(sendSeq c + x) mod 2 ^ 64 = (sendSeq c + y) mod 2 ^ 64"
      for x y :: nat
    proof -
      from that(1,3) have "2 ^ 64 dvd (sendSeq c + y) - (sendSeq c + x)"
        by (metis add_le_cancel_left mod_eq_dvd_iff_nat)
      then have "2 ^ 64 dvd y - x" by simp
      moreover have "y - x < 2 ^ 64" using that(2) by simp
      ultimately have "\<not> 0 < y - x" by (metis nat_dvd_not_less)
      with that(1) show ?thesis by simp
    qed
    from e have "(sendSeq c + i) mod 2 ^ 64 = (sendSeq c + j) mod 2 ^ 64"
      by (simp only: buildNonce_eq_iff)
    with ij assms key [of i j] key [of j i] show "i = j"
      by (cases "i \<le> j") auto
  qed
  moreover have "set [1..<Suc (n)] = {1..n}" by auto
  ultimately show "distinct (seal_nonces c (n))"
    unfolding seal_nonces_def by (metis distinct_map distinct_upt)
qed

text \<open>
  A cipher never reuses a nonce in one direction: over any run of fewer than 2 to the 64
  sealed frames, the ciphertexts are secret boxes of the plaintexts, in order and under the
  session key, with pairwise different nonces, the first of them the successor of the send
  counter.
\<close>

theorem seal_nonces_never_reused:
  assumes "length ms < 2 ^ 64"
  shows "distinct (seal_nonces c (length ms)) \<and>
         snd (seal_all sod c ms) =
           map2 (\<lambda>m n. crypto_secretbox_easy sod m n (cipher_key c)) ms (seal_nonces c (length ms))"
  using seal_nonces_distinct [OF assms] seal_all_ciphertexts by blast

theorem seal_nonces_never_reused_witness:
  "distinct (seal_nonces (newStreamCipher [1, 2, 3]) (length [[1], [2 :: byte], [3]]))"
  using seal_nonces_never_reused [of "[[1], [2], [3]]" "newStreamCipher [1, 2, 3]"] by simp

lemma open_ct_short [simp]: "length ct \<le> 1 \<Longrightarrow> open_ct sod c ct = (c, Inr ct)"
  by (simp add: open_ct_def)

lemma open_ct_seal:
  assumes "secretbox_ok sod" "cipher_key r = cipher_key s" "recvSeq r = sendSeq s"
  shows "open_ct sod r (snd (seal sod s m)) = (r\<lparr>recvSeq := Suc (recvSeq r)\<rparr>, Inr m)"
  using assms by (simp add: open_ct_def seal_def Let_def secretbox_ok_def)

lemma length_seal: "secretbox_ok sod \<Longrightarrow> 1 < length (snd (seal sod s m))"
  by (simp add: seal_def Let_def secretbox_ok_def)

text \<open>
  What one side seals, the other side opens: if the receiver's counter is level with the
  sender's and both hold the same key, then opening the frames in the order they were sealed
  gives back the plaintexts, and frames of at most one byte in between (which the cipher
  passes through) do not disturb the counters.
\<close>

theorem cipher_stream_roundtrip:
  assumes "secretbox_ok sod" "cipher_key r = cipher_key s" "recvSeq r = sendSeq s"
    and "filter (\<lambda>f. 1 < length f) fs = snd (seal_all sod s ms)"
  shows "map snd (filter (\<lambda>(f, x). 1 < length f) (zip fs (snd (open_all sod r fs)))) = map Inr ms
         \<and> recvSeq (fst (open_all sod r fs)) = recvSeq r + length ms"
  using assms(2-4)
proof (induction fs arbitrary: r s ms)
  case Nil
  then show ?case by (cases ms) (auto simp: Let_def case_prod_beta)
next
  case (Cons f fs)
  show ?case
  proof (cases "1 < length f")
    case False
    with Cons.prems have "filter (\<lambda>f. 1 < length f) fs = snd (seal_all sod s ms)" by simp
    with False Cons.IH [of r s ms] Cons.prems show ?thesis
      by (simp add: Let_def case_prod_beta)
  next
    case True
    with Cons.prems(3) obtain m ms' where ms: "ms = m # ms'"
      by (cases ms) auto
    let ?s1 = "fst (seal sod s m)" and ?r1 = "r\<lparr>recvSeq := Suc (recvSeq r)\<rparr>"
    from True Cons.prems(3) ms have f: "f = snd (seal sod s m)"
      and fs: "filter (\<lambda>f. 1 < length f) fs = snd (seal_all sod ?s1 ms')"
      by (auto simp: Let_def case_prod_beta)
    have o: "open_ct sod r f = (?r1, Inr m)"
      unfolding f using assms(1) Cons.prems(1,2) by (rule open_ct_seal)
    have "cipher_key ?r1 = cipher_key ?s1" "recvSeq ?r1 = sendSeq ?s1"
      using Cons.prems(1,2) by (simp_all add: seal_def Let_def)
    from Cons.IH [OF this fs] True ms show ?thesis
      by (simp add: o Let_def case_prod_beta)
  qed
qed

text \<open>A secret box that satisfies \<open>secretbox_ok\<close>: sixteen tag bytes before the plaintext.\<close>

definition plain_sodium :: sodium where
  "plain_sodium =
     \<lparr>from_base64 = (\<lambda>s. Inl []), crypto_sign_open = (\<lambda>m k. Inl []),
      crypto_box_easy = (\<lambda>m n p k. Inl []),
      crypto_secretbox_easy = (\<lambda>m n k. replicate 16 0 @ m),
      crypto_secretbox_open_easy = (\<lambda>m n k. Inr (drop 16 m))\<rparr>"

lemma secretbox_ok_plain: "secretbox_ok plain_sodium"
  by (simp add: secretbox_ok_def plain_sodium_def)

theorem cipher_stream_roundtrip_witness:
  "let s = newStreamCipher [7]; cts = snd (seal_all plain_sodium s [[1, 2], [3]])
   in map snd (filter (\<lambda>(f, x). 1 < length f)
        (zip (cts @ [[]]) (snd (open_all plain_sodium s (cts @ [[]]))))) = [Inr [1, 2], Inr [3]]"
proof -
  let ?s = "newStreamCipher [7]"
  let ?cts = "snd (seal_all plain_sodium ?s [[1, 2], [3]])"
  have "filter (\<lambda>f. 1 < length f) (?cts @ [[]]) = ?cts"
    by (simp add: seal_def plain_sodium_def Let_def case_prod_beta)
  from cipher_stream_roundtrip [of plain_sodium ?s ?s, OF secretbox_ok_plain refl _ this]
  show ?thesis by (simp add: newStreamCipher_def Let_def)
qed

end
