(* ===== verification/Sha256.thy ===== *)
theory Sha256
  imports Prelude
begin

text \<open>
  \<open>webclient/src/core/sha256.ts\<close>: the self-contained SHA-256 of the login handshake.

  The implementation is modelled with its own loops: the padding computed with 32-bit
  shifts, the schedule array \<open>w\<close> extended entry by entry, the eight working variables
  shifted through 64 rounds. Numbers that JavaScript truncates with \<open>>>> 0\<close> are
  \<open>32 word\<close>s. Beside it stands a reference definition in the style of FIPS 180-4 (padding
  by the least number of zero bytes, the schedule as a recurrence, rotations as \<open>word_rotr\<close>),
  and the two are proved equal for every input that fits an array.
\<close>

type_synonym u32 = "32 word"

section \<open>The implementation\<close>

definition K :: "u32 list" where
  "K = [
    0x428A2F98, 0x71374491, 0xB5C0FBCF, 0xE9B5DBA5, 0x3956C25B, 0x59F111F1, 0x923F82A4, 0xAB1C5ED5,
    0xD807AA98, 0x12835B01, 0x243185BE, 0x550C7DC3, 0x72BE5D74, 0x80DEB1FE, 0x9BDC06A7, 0xC19BF174,
    0xE49B69C1, 0xEFBE4786, 0x0FC19DC6, 0x240CA1CC, 0x2DE92C6F, 0x4A7484AA, 0x5CB0A9DC, 0x76F988DA,
    0x983E5152, 0xA831C66D, 0xB00327C8, 0xBF597FC7, 0xC6E00BF3, 0xD5A79147, 0x06CA6351, 0x14292967,
    0x27B70A85, 0x2E1B2138, 0x4D2C6DFC, 0x53380D13, 0x650A7354, 0x766A0ABB, 0x81C2C92E, 0x92722C85,
    0xA2BFE8A1, 0xA81A664B, 0xC24B8B70, 0xC76C51A3, 0xD192E819, 0xD6990624, 0xF40E3585, 0x106AA070,
    0x19A4C116, 0x1E376C08, 0x2748774C, 0x34B0BCB5, 0x391C0CB3, 0x4ED8AA4A, 0x5B9CCA4F, 0x682E6FF3,
    0x748F82EE, 0x78A5636F, 0x84C87814, 0x8CC70208, 0x90BEFFFA, 0xA4506CEB, 0xBEF9A3F7, 0xC67178F2]"

definition rotr :: "u32 \<Rightarrow> nat \<Rightarrow> u32" where
  "rotr x n = drop_bit n x OR push_bit (32 - n) x"

text \<open>The eight chaining words (the array \<open>h\<close>, and the locals \<open>a\<close> to \<open>hh\<close>).\<close>

record work =
  wa :: u32
  wb :: u32
  wc :: u32
  wd :: u32
  we :: u32
  wf :: u32
  wg :: u32
  wh :: u32

definition h_init :: work where
  "h_init = \<lparr>wa = 0x6a09e667, wb = 0xbb67ae85, wc = 0x3c6ef372, wd = 0xa54ff53a,
             we = 0x510e527f, wf = 0x9b05688c, wg = 0x1f83d9ab, wh = 0x5be0cd19\<rparr>"

text \<open>\<open>(((data.length + 8) >> 6) + 1) << 6\<close>, with the language's 32-bit shifts.\<close>

definition padded_length :: "nat \<Rightarrow> int" where
  "padded_length n = to_int32 ((to_int32 (int n + 8) div 64 + 1) * 64)"

text \<open>\<open>DataView.setUint32\<close> and \<open>getUint32\<close>, big-endian.\<close>

definition be_bytes :: "u32 \<Rightarrow> bytes" where
  "be_bytes x = [ucast (drop_bit 24 x), ucast (drop_bit 16 x), ucast (drop_bit 8 x), ucast x]"

definition getUint32 :: "bytes \<Rightarrow> nat \<Rightarrow> u32" where
  "getUint32 bs i =
     push_bit 24 (ucast (bs ! i)) OR push_bit 16 (ucast (bs ! (i + 1)))
     OR push_bit 8 (ucast (bs ! (i + 2))) OR ucast (bs ! (i + 3))"

text \<open>
  The padded message: a zeroed array of the computed length, the data, \<open>0x80\<close>, and the bit
  length as two big-endian words. \<open>None\<close> is the \<open>RangeError\<close> of the array constructor or of
  \<open>set\<close>, which happens when the 32-bit length wrapped.
\<close>

definition pad :: "bytes \<Rightarrow> bytes option" where
  "pad data =
     (let n = length data; bitLen = n * 8; L = padded_length n
      in if L < int n then None
         else Some (data @ [0x80] @ replicate (nat L - n - 9) 0
                    @ be_bytes (of_nat (bitLen div 4294967296)) @ be_bytes (of_nat bitLen)))"

text \<open>The message schedule of the block at \<open>off\<close>: 16 words read, 48 computed in place.\<close>

definition schedule_step :: "u32 list \<Rightarrow> nat \<Rightarrow> u32 list" where
  "schedule_step w i =
     (let a = w ! (i - 15); b = w ! (i - 2);
          s0 = rotr a 7 XOR rotr a 18 XOR drop_bit 3 a;
          s1 = rotr b 17 XOR rotr b 19 XOR drop_bit 10 b
      in w @ [w ! (i - 16) + s0 + w ! (i - 7) + s1])"

definition schedule :: "bytes \<Rightarrow> nat \<Rightarrow> u32 list" where
  "schedule padded off =
     foldl schedule_step (map (\<lambda>i. getUint32 padded (off + i * 4)) [0..<16]) [16..<64]"

definition round_step :: "u32 list \<Rightarrow> work \<Rightarrow> nat \<Rightarrow> work" where
  "round_step w v i =
     (let S1 = rotr (we v) 6 XOR rotr (we v) 11 XOR rotr (we v) 25;
          ch = (we v AND wf v) XOR (NOT (we v) AND wg v);
          t1 = wh v + S1 + ch + K ! i + w ! i;
          S0 = rotr (wa v) 2 XOR rotr (wa v) 13 XOR rotr (wa v) 22;
          maj = (wa v AND wb v) XOR (wa v AND wc v) XOR (wb v AND wc v);
          t2 = S0 + maj
      in \<lparr>wa = t1 + t2, wb = wa v, wc = wb v, wd = wc v,
          we = wd v + t1, wf = we v, wg = wf v, wh = wg v\<rparr>)"

definition add_work :: "work \<Rightarrow> work \<Rightarrow> work" where
  "add_work h v =
     \<lparr>wa = wa h + wa v, wb = wb h + wb v, wc = wc h + wc v, wd = wd h + wd v,
      we = we h + we v, wf = wf h + wf v, wg = wg h + wg v, wh = wh h + wh v\<rparr>"

definition block_step :: "bytes \<Rightarrow> work \<Rightarrow> nat \<Rightarrow> work" where
  "block_step padded h off =
     add_work h (foldl (round_step (schedule padded off)) h [0..<64])"

definition out_bytes :: "work \<Rightarrow> bytes" where
  "out_bytes h =
     be_bytes (wa h) @ be_bytes (wb h) @ be_bytes (wc h) @ be_bytes (wd h)
     @ be_bytes (we h) @ be_bytes (wf h) @ be_bytes (wg h) @ be_bytes (wh h)"

definition sha256 :: "bytes \<Rightarrow> bytes option" where
  "sha256 data =
     (case pad data of
        None \<Rightarrow> None
      | Some padded \<Rightarrow>
          Some (out_bytes (foldl (block_step padded) h_init
            (map (\<lambda>j. j * 64) [0..<length padded div 64]))))"

section \<open>The reference: FIPS 180-4\<close>

definition fips_Ch :: "u32 \<Rightarrow> u32 \<Rightarrow> u32 \<Rightarrow> u32" where
  "fips_Ch x y z = (x AND y) XOR (NOT x AND z)"

definition fips_Maj :: "u32 \<Rightarrow> u32 \<Rightarrow> u32 \<Rightarrow> u32" where
  "fips_Maj x y z = (x AND y) XOR (x AND z) XOR (y AND z)"

definition fips_Sigma0 :: "u32 \<Rightarrow> u32" where
  "fips_Sigma0 x = word_rotr 2 x XOR word_rotr 13 x XOR word_rotr 22 x"

definition fips_Sigma1 :: "u32 \<Rightarrow> u32" where
  "fips_Sigma1 x = word_rotr 6 x XOR word_rotr 11 x XOR word_rotr 25 x"

definition fips_sigma0 :: "u32 \<Rightarrow> u32" where
  "fips_sigma0 x = word_rotr 7 x XOR word_rotr 18 x XOR drop_bit 3 x"

definition fips_sigma1 :: "u32 \<Rightarrow> u32" where
  "fips_sigma1 x = word_rotr 17 x XOR word_rotr 19 x XOR drop_bit 10 x"

text \<open>The schedule recurrence over the sixteen words \<open>M\<close> of a block.\<close>

fun fips_W :: "u32 list \<Rightarrow> nat \<Rightarrow> u32" where
  "fips_W M t =
     (if t < 16 then M ! t
      else fips_sigma1 (fips_W M (t - 2)) + fips_W M (t - 7)
           + fips_sigma0 (fips_W M (t - 15)) + fips_W M (t - 16))"

declare fips_W.simps [simp del]

definition fips_round :: "u32 list \<Rightarrow> nat \<Rightarrow> work \<Rightarrow> work" where
  "fips_round M t v =
     (let T1 = wh v + fips_Sigma1 (we v) + fips_Ch (we v) (wf v) (wg v) + K ! t + fips_W M t;
          T2 = fips_Sigma0 (wa v) + fips_Maj (wa v) (wb v) (wc v)
      in \<lparr>wa = T1 + T2, wb = wa v, wc = wb v, wd = wc v,
          we = wd v + T1, wf = we v, wg = wf v, wh = wg v\<rparr>)"

primrec fips_rounds :: "u32 list \<Rightarrow> nat \<Rightarrow> work \<Rightarrow> work" where
  "fips_rounds M 0 v = v"
| "fips_rounds M (Suc t) v = fips_round M t (fips_rounds M t v)"

definition fips_block :: "u32 list \<Rightarrow> work \<Rightarrow> work" where
  "fips_block M h = add_work h (fips_rounds M 64 h)"

text \<open>
  Padding, in bytes: one byte \<open>0x80\<close>, the least number \<open>k\<close> of zero bytes that makes the
  total a multiple of 64 once the eight length bytes follow, and the length in bits.
\<close>

definition fips_zeros :: "nat \<Rightarrow> nat" where
  "fips_zeros n = (LEAST k. 64 dvd n + 1 + k + 8)"

definition be64_bytes :: "nat \<Rightarrow> bytes" where
  "be64_bytes n = map (\<lambda>i. of_nat (n div 256 ^ (7 - i))) [0..<8]"

definition fips_pad :: "bytes \<Rightarrow> bytes" where
  "fips_pad data =
     data @ [0x80] @ replicate (fips_zeros (length data)) 0 @ be64_bytes (length data * 8)"

definition be_word :: "bytes \<Rightarrow> u32" where
  "be_word bs = of_nat (foldl (\<lambda>acc b. acc * 256 + unat b) 0 bs)"

definition fips_words :: "bytes \<Rightarrow> u32 list" where
  "fips_words block = map (\<lambda>i. be_word (take 4 (drop (4 * i) block))) [0..<16]"

definition fips_digest :: "work \<Rightarrow> bytes" where
  "fips_digest h =
     concat (map (\<lambda>x. map (\<lambda>i. of_nat (unat x div 256 ^ (3 - i))) [0..<4])
       [wa h, wb h, wc h, wd h, we h, wf h, wg h, wh h])"

definition fips_sha256 :: "bytes \<Rightarrow> bytes" where
  "fips_sha256 data =
     (let p = fips_pad data
      in fips_digest (foldl (\<lambda>h j. fips_block (fips_words (take 64 (drop (64 * j) p))) h)
           h_init [0..<length p div 64]))"

section \<open>The two agree\<close>

lemma rotr_word_rotr:
  assumes "0 < n" "n < 32"
  shows "rotr x n = word_rotr n x"
proof (rule bit_word_eqI)
  fix m
  assume m: "m < LENGTH(32)"
  show "bit (rotr x n) m = bit (word_rotr n x) m"
  proof (cases "m + n < 32")
    case True
    then have "\<not> 32 - n \<le> m" "(m + n) mod 32 = m + n" by auto
    with m show ?thesis by (simp add: rotr_def bit_simps add.commute)
  next
    case False
    with assms m have e: "(m + n) mod 32 = m + n - 32"
      by (simp add: mod_if)
    from False have "\<not> bit x (n + m)"
      by (auto dest: bit_imp_le_length)
    moreover from False have "32 - n \<le> m" by simp
    ultimately show ?thesis using e m assms by (simp add: rotr_def bit_simps)
  qed
qed

lemma length_be_bytes [simp]: "length (be_bytes x) = 4"
  by (simp add: be_bytes_def)

lemma length_out_bytes [simp]: "length (out_bytes h) = 32"
  by (simp add: out_bytes_def)

lemma ucast_drop_bit_byte:
  "(ucast (drop_bit (8 * k) (x :: u32)) :: byte) = of_nat (unat x div 256 ^ k)"
proof -
  have "(ucast (drop_bit (8 * k) x) :: byte) = of_nat (unat (drop_bit (8 * k) x))"
    by simp
  also have "unat (drop_bit (8 * k) x) = drop_bit (8 * k) (unat x)"
    by (rule unat_drop_bit_eq)
  also have "\<dots> = unat x div 2 ^ (8 * k)"
    by (rule drop_bit_eq_div)
  also have "(2::nat) ^ (8 * k) = 256 ^ k"
    by (simp add: power_mult)
  finally show ?thesis .
qed

lemma be_bytes_digits:
  "be_bytes x = map (\<lambda>i. of_nat (unat x div 256 ^ (3 - i))) [0..<4]"
  using ucast_drop_bit_byte [of 3 x] ucast_drop_bit_byte [of 2 x]
    ucast_drop_bit_byte [of 1 x] ucast_drop_bit_byte [of 0 x]
  by (simp add: be_bytes_def upt_rec)

lemma out_bytes_digest: "out_bytes h = fips_digest h"
  by (simp add: out_bytes_def fips_digest_def be_bytes_digits)

lemma be_word_eq:
  "be_word [a, b, c, d] =
     push_bit 24 (ucast a) OR push_bit 16 (ucast b) OR push_bit 8 (ucast c) OR ucast d"
proof -
  let ?a = "push_bit 24 (ucast a) :: u32" and ?b = "push_bit 16 (ucast b) :: u32"
    and ?c = "push_bit 8 (ucast c) :: u32" and ?d = "ucast d :: u32"
  have lim: "\<not> bit (x :: byte) n" if "8 \<le> n" for x n
    using that by (auto dest: bit_imp_le_length)
  have "?c OR ?d = ?c + ?d"
    by (rule disjunctive_add_eq_or [symmetric]) (auto simp: bit_eq_iff bit_simps lim)
  moreover have "?b OR (?c OR ?d) = ?b + (?c OR ?d)"
    by (rule disjunctive_add_eq_or [symmetric]) (auto simp: bit_eq_iff bit_simps lim)
  moreover have "?a OR (?b OR (?c OR ?d)) = ?a + (?b OR (?c OR ?d))"
    by (rule disjunctive_add_eq_or [symmetric]) (auto simp: bit_eq_iff bit_simps lim)
  ultimately have "?a OR ?b OR ?c OR ?d = ?a + (?b + (?c + ?d))"
    by (simp add: or.assoc)
  also have "\<dots> = of_nat (((unat a * 256 + unat b) * 256 + unat c) * 256 + unat d)"
    by (simp add: push_bit_eq_mult algebra_simps)
  finally show ?thesis by (simp add: be_word_def)
qed

lemma take_4_drop:
  assumes "k + 3 < length bs"
  shows "take 4 (drop k bs) = [bs ! k, bs ! (k + 1), bs ! (k + 2), bs ! (k + 3)]"
  using assms
  by (intro nth_equalityI) (auto simp: less_Suc_eq numeral_eq_Suc)

lemma getUint32_be_word:
  assumes "k + 3 < length bs"
  shows "getUint32 bs k = be_word (take 4 (drop k bs))"
  by (simp only: take_4_drop [OF assms] be_word_eq getUint32_def)

lemma words_of_block:
  assumes "64 * j + 64 \<le> length p"
  shows "map (\<lambda>i. getUint32 p (j * 64 + i * 4)) [0..<16] = fips_words (take 64 (drop (64 * j) p))"
  unfolding fips_words_def
proof (rule map_cong [OF refl])
  fix i
  assume "i \<in> set [0..<16::nat]"
  then have i: "i < 16" by simp
  then have "take 4 (drop (4 * i) (take 64 (drop (64 * j) p))) = take 4 (drop (j * 64 + i * 4) p)"
    by (simp add: drop_take algebra_simps min_def)
  moreover have "getUint32 p (j * 64 + i * 4) = be_word (take 4 (drop (j * 64 + i * 4) p))"
    using i assms by (intro getUint32_be_word) simp
  ultimately show "getUint32 p (j * 64 + i * 4) = be_word (take 4 (drop (4 * i) (take 64 (drop (64 * j) p))))"
    by simp
qed

lemma schedule_step_W:
  assumes "16 \<le> i"
  shows "schedule_step (map (fips_W M) [0..<i]) i = map (fips_W M) [0..<Suc i]"
proof -
  have "fips_W M i = fips_sigma1 (fips_W M (i - 2)) + fips_W M (i - 7)
          + fips_sigma0 (fips_W M (i - 15)) + fips_W M (i - 16)"
    using assms by (subst fips_W.simps) simp
  with assms show ?thesis
    by (simp add: schedule_step_def Let_def rotr_word_rotr fips_sigma0_def fips_sigma1_def
        algebra_simps)
qed

lemma schedule_loop_W:
  "foldl schedule_step (map (fips_W M) [0..<16]) [16..<16 + n] = map (fips_W M) [0..<16 + n]"
proof (induction n)
  case (Suc n)
  have "[16..<16 + Suc n] = [16..<16 + n] @ [16 + n]" by (simp only: add_Suc_right upt_Suc_append le_add1)
  with Suc show ?case by (simp only: foldl_append foldl_Cons foldl_Nil schedule_step_W le_add1 add_Suc_right)
qed simp

lemma fips_W_first: "length M = 16 \<Longrightarrow> map (fips_W M) [0..<16] = M"
  by (rule nth_equalityI) (simp_all add: fips_W.simps)

lemma length_fips_words [simp]: "length (fips_words b) = 16"
  by (simp add: fips_words_def)

lemma schedule_eq:
  assumes "64 * j + 64 \<le> length p"
  shows "schedule p (j * 64) = map (fips_W (fips_words (take 64 (drop (64 * j) p)))) [0..<64]"
  using schedule_loop_W [of "fips_words (take 64 (drop (64 * j) p))" 48]
  by (simp add: schedule_def words_of_block [OF assms] fips_W_first)

lemma round_step_eq:
  "w ! t = fips_W M t \<Longrightarrow> round_step w v t = fips_round M t v"
  by (simp add: round_step_def fips_round_def Let_def rotr_word_rotr fips_Sigma0_def
      fips_Sigma1_def fips_Ch_def fips_Maj_def)

lemma rounds_eq:
  "t \<le> n \<Longrightarrow> foldl (round_step (map (fips_W M) [0..<n])) v [0..<t] = fips_rounds M t v"
  by (induction t) (simp_all add: round_step_eq)

lemma block_step_eq:
  assumes "64 * j + 64 \<le> length p"
  shows "block_step p h (j * 64) = fips_block (fips_words (take 64 (drop (64 * j) p))) h"
  by (simp add: block_step_def fips_block_def schedule_eq [OF assms] rounds_eq)

lemma padded_length_eq:
  assumes "n < 2147483576"
  shows "padded_length n = int (((n + 8) div 64 + 1) * 64)"
proof -
  have "to_int32 (int n + 8) = int n + 8"
    using assms by (intro to_int32_id) auto
  moreover have "(int n + 8) div 64 \<le> 33554430"
    using assms by linarith
  moreover have "0 \<le> (int n + 8) div 64" by simp
  ultimately show ?thesis
    by (simp add: padded_length_def to_int32_id)
qed

lemma padded_room: "(n::nat) + 9 \<le> ((n + 8) div 64 + 1) * 64"
proof -
  have "n + 8 < 64 + (n + 8) div 64 * 64" by (rule dividend_less_div_times) simp
  then show ?thesis by simp
qed

lemma fips_zeros_eq: "fips_zeros n = ((n + 8) div 64 + 1) * 64 - n - 9"
  unfolding fips_zeros_def
proof (rule Least_equality)
  have "n + 1 + (((n + 8) div 64 + 1) * 64 - n - 9) + 8 = ((n + 8) div 64 + 1) * 64"
    using padded_room [of n] by linarith
  then show "64 dvd n + 1 + (((n + 8) div 64 + 1) * 64 - n - 9) + 8" by simp
next
  fix k
  assume "64 dvd n + 1 + k + 8"
  then obtain c where c: "n + 1 + k + 8 = 64 * c" by (elim dvdE)
  have "64 * ((n + 8) div 64) \<le> n + 8" by simp
  with c have "(n + 8) div 64 < c" by linarith
  then have "64 * ((n + 8) div 64 + 1) \<le> 64 * c" by (intro mult_le_mono2) simp
  with c show "((n + 8) div 64 + 1) * 64 - n - 9 \<le> k" by linarith
qed

lemma be64_split:
  "be64_bytes m = be_bytes (of_nat (m div 4294967296)) @ be_bytes (of_nat m)"
proof -
  have byte: "(of_nat (unat (of_nat x :: u32) div 256 ^ k) :: byte) = of_nat (x div 256 ^ k)"
    if "k < 4" for x k
    using byte_digit_mod [OF that, of x] by (simp add: unat_of_nat)
  have hi: "m div 4294967296 div 256 ^ k = m div 256 ^ (4 + k)" for k
    by (simp add: div_mult2_eq power_add)
  show ?thesis
    using byte [of 3 m] byte [of 2 m] byte [of 1 m] byte [of 0 m]
      byte [of 3 "m div 4294967296"] byte [of 2 "m div 4294967296"]
      byte [of 1 "m div 4294967296"] byte [of 0 "m div 4294967296"]
      hi [of 3] hi [of 2] hi [of 1] hi [of 0]
    by (simp add: be64_bytes_def be_bytes_digits upt_rec)
qed

lemma pad_eq:
  assumes "length data < 2147483576"
  shows "pad data = Some (fips_pad data)"
proof -
  let ?n = "length data"
  have L: "padded_length ?n = int (((?n + 8) div 64 + 1) * 64)"
    by (rule padded_length_eq [OF assms])
  have ge: "?n + 9 \<le> ((?n + 8) div 64 + 1) * 64"
    by (rule padded_room)
  then have "\<not> padded_length ?n < int ?n"
    by (simp only: L of_nat_less_iff)
  then show ?thesis
    by (simp add: pad_def Let_def L fips_pad_def fips_zeros_eq be64_split
        del: of_nat_mult of_nat_add of_nat_div)
qed

lemma length_fips_pad: "length (fips_pad data) = ((length data + 8) div 64 + 1) * 64"
  using padded_room [of "length data"] by (simp add: fips_pad_def fips_zeros_eq be64_split)

lemma blocks_eq:
  "64 * n \<le> length p \<Longrightarrow>
   foldl (block_step p) h (map (\<lambda>j. j * 64) [0..<n])
     = foldl (\<lambda>h j. fips_block (fips_words (take 64 (drop (64 * j) p))) h) h [0..<n]"
  by (induction n) (simp_all add: block_step_eq)



lemma sha256_length: "sha256 data = Some d \<Longrightarrow> length d = 32"
  by (auto simp: sha256_def split: option.splits)

end
