(* ===== verification/Auth.thy ===== *)
theory Auth
  imports Sha256 Proto
begin

text \<open>
  \<open>webclient/src/core/auth.ts\<close>: the password hash of the login and the login request. The
  \<open>async\<close> functions here only wrap the synchronous hash; the order in which a session awaits
  them is modelled in \<open>Session\<close>. A \<open>None\<close> result is the \<open>RangeError\<close> of \<open>Sha256.sha256\<close> on a
  message whose bit length does not fit 64 bits.
\<close>

section \<open>TextEncoder\<close>

text \<open>
  \<open>TextEncoder.encode\<close>: UTF-8 of the scalar values of a string of UTF-16 code units, with
  unpaired surrogates replaced by U+FFFD.
\<close>

fun code_points :: "jsstr \<Rightarrow> nat list" where
  "code_points [] = []"
| "code_points [u] = [if 0xD800 \<le> u \<and> u \<le> 0xDFFF then 0xFFFD else unat u]"
| "code_points (u # v # s) =
     (if 0xD800 \<le> u \<and> u \<le> 0xDBFF \<and> 0xDC00 \<le> v \<and> v \<le> 0xDFFF
      then (0x10000 + (unat u - 0xD800) * 0x400 + (unat v - 0xDC00)) # code_points s
      else (if 0xD800 \<le> u \<and> u \<le> 0xDFFF then 0xFFFD else unat u) # code_points (v # s))"

definition utf8_point :: "nat \<Rightarrow> bytes" where
  "utf8_point c =
     map of_nat
       (if c < 0x80 then [c]
        else if c < 0x800 then [0xC0 + c div 64, 0x80 + c mod 64]
        else if c < 0x10000 then [0xE0 + c div 4096, 0x80 + c div 64 mod 64, 0x80 + c mod 64]
        else [0xF0 + c div 262144, 0x80 + c div 4096 mod 64, 0x80 + c div 64 mod 64,
              0x80 + c mod 64])"

definition utf8_encode :: "jsstr \<Rightarrow> bytes" where
  "utf8_encode s = concat (map utf8_point (code_points s))"

section \<open>auth.ts\<close>

definition cat :: "bytes \<Rightarrow> bytes \<Rightarrow> bytes" where
  "cat a b = a @ b"

definition computeLoginH1 :: "jsstr \<Rightarrow> jsstr \<Rightarrow> bytes option" where
  "computeLoginH1 pw salt = sha256 (cat (utf8_encode pw) (utf8_encode salt))"

definition loginHashFromH1 :: "bytes \<Rightarrow> jsstr \<Rightarrow> bytes option" where
  "loginHashFromH1 h1 challenge = sha256 (cat h1 (utf8_encode challenge))"

definition loginPasswordHash :: "jsstr \<Rightarrow> jsstr \<Rightarrow> jsstr \<Rightarrow> bytes option" where
  "loginPasswordHash pw salt challenge =
     (if length pw = 0 then Some []
      else case computeLoginH1 pw salt of
             None \<Rightarrow> None
           | Some h1 \<Rightarrow> loginHashFromH1 h1 challenge)"

record login_opts =
  lo_peerId :: jsstr
  lo_passwordHash :: bytes
  lo_myId :: jsstr
  lo_myName :: jsstr
  lo_sessionId :: int
  lo_version :: jsstr
  lo_supportedDecoding :: SupportedDecoding
  lo_videoAckRequired :: "bool option"
  lo_fileTransfer :: "(jsstr \<times> bool) option"
  lo_viewCamera :: bool
  lo_terminal :: "(jsstr \<times> bool) option"

definition bool_option :: "bool \<Rightarrow> int" where
  "bool_option b = (if b then BoolOption_Yes else BoolOption_No)"

definition login_request_of :: "login_opts \<Rightarrow> LoginRequest" where
  "login_request_of opts =
     (let base = LoginRequest_base
        \<lparr>lr_username := lo_peerId opts, lr_password := lo_passwordHash opts,
         lr_my_id := lo_myId opts, lr_my_name := lo_myName opts,
         lr_session_id := lo_sessionId opts, lr_version := lo_version opts\<rparr>
      in case lo_fileTransfer opts of
           Some (dir, showHidden) \<Rightarrow> base\<lparr>lr_union := LU_file_transfer dir showHidden\<rparr>
         | None \<Rightarrow>
             (case lo_terminal opts of
                Some (serviceId, persistent) \<Rightarrow>
                  base\<lparr>lr_union := LU_terminal serviceId,
                       lr_option := Some (OptionMessage_base
                         \<lparr>terminal_persistent := bool_option persistent\<rparr>)\<rparr>
              | None \<Rightarrow>
                  base\<lparr>video_ack_required := (case lo_videoAckRequired opts of None \<Rightarrow> True | Some b \<Rightarrow> b),
                       lr_option := Some (OptionMessage_base
                         \<lparr>supported_decoding := Some (lo_supportedDecoding opts)\<rparr>),
                       lr_union := (if lo_viewCamera opts then LU_view_camera else LU_none)\<rparr>))"

definition buildLoginRequest :: "codec \<Rightarrow> login_opts \<Rightarrow> bytes" where
  "buildLoginRequest cd opts = encMessage cd (M_login_request (login_request_of opts))"

section \<open>Facts\<close>

lemma utf8_encode_ascii:
  "list_all (\<lambda>u. unat u < 128) s \<Longrightarrow> utf8_encode s = map (\<lambda>u. of_nat (unat u)) s"
proof (induction s rule: code_points.induct)
  case (2 u)
  then have "\<not> 0xD800 \<le> u" by (simp add: word_le_nat_alt)
  with 2 show ?case by (simp add: utf8_encode_def utf8_point_def)
next
  case (3 u v s)
  then have "\<not> 0xD800 \<le> u" by (simp add: word_le_nat_alt)
  with 3 show ?case by (simp add: utf8_encode_def utf8_point_def)
qed (simp add: utf8_encode_def)

lemma computeLoginH1_length: "computeLoginH1 pw salt = Some h \<Longrightarrow> length h = 32"
  by (simp add: computeLoginH1_def sha256_length)

lemma loginHashFromH1_length: "loginHashFromH1 h1 c = Some h \<Longrightarrow> length h = 32"
  by (simp add: loginHashFromH1_def sha256_length)

text \<open>
  A login request announces exactly one connection type. File-transfer logins never
  carry a video option, terminal logins carry only the persistence flag, and desktop and
  camera logins ask for acknowledged video unless the caller opts out; the credentials and
  identity are copied unchanged in every case.
\<close>

theorem login_request_kinds:
  "let r = login_request_of opts in
     lr_username r = lo_peerId opts \<and> lr_password r = lo_passwordHash opts \<and>
     lr_my_id r = lo_myId opts \<and> lr_my_name r = lo_myName opts \<and>
     lr_session_id r = lo_sessionId opts \<and> lr_version r = lo_version opts \<and>
     (case (lo_fileTransfer opts, lo_terminal opts) of
        (Some (d, h), _) \<Rightarrow>
          lr_union r = LU_file_transfer d h \<and> lr_option r = None \<and> \<not> video_ack_required r
      | (None, Some (s, p)) \<Rightarrow>
          lr_union r = LU_terminal s \<and> \<not> video_ack_required r \<and>
          map_option supported_decoding (lr_option r) = Some None \<and>
          map_option terminal_persistent (lr_option r) = Some (if p then 2 else 1)
      | (None, None) \<Rightarrow>
          lr_union r = (if lo_viewCamera opts then LU_view_camera else LU_none) \<and>
          map_option supported_decoding (lr_option r) = Some (Some (lo_supportedDecoding opts)) \<and>
          video_ack_required r = (lo_videoAckRequired opts \<noteq> Some False))"
  by (auto simp: login_request_of_def LoginRequest_base_def OptionMessage_base_def bool_option_def
      Let_def split: option.splits)

end
