(* ===== verification/Signaling.thy ===== *)
theory Signaling
  imports Proto
begin

text \<open>
  \<open>webclient/src/core/signaling.ts\<close> and \<open>webclient/src/core/relay.ts\<close>: the requests sent to the
  rendezvous server, the reading of its replies, and the presence bit map.
\<close>

record punch_opts =
  po_peerId :: jsstr
  po_licenceKey :: jsstr
  po_version :: jsstr
  po_connType :: "int option"

definition conn_or_default :: "int option \<Rightarrow> int" where
  "conn_or_default c = (case c of None \<Rightarrow> ConnType_DEFAULT_CONN | Some t \<Rightarrow> t)"

definition buildPunchHoleRequest :: "codec \<Rightarrow> punch_opts \<Rightarrow> bytes" where
  "buildPunchHoleRequest cd opts =
     encRendezvous cd (R_punch_hole_request (PunchHoleRequest_base
       \<lparr>phr_id := po_peerId opts, phr_licence_key := po_licenceKey opts,
        phr_conn_type := conn_or_default (po_connType opts), phr_nat_type := NatType_SYMMETRIC,
        phr_force_relay := True, phr_version := po_version opts\<rparr>))"

datatype RendezvousFailure = ID_NOT_EXIST | OFFLINE | LICENSE_MISMATCH | LICENSE_OVERUSE | OTHER

datatype RendezvousParsed =
    P_relayResponse jsstr jsstr "bytes option"
  | P_punchHoleResponse "RendezvousFailure option"
  | P_onlineResponse bytes
  | P_other jsstr

text \<open>The values of \<open>PunchHoleResponse_Failure\<close> in \<open>gen/rendezvous.ts\<close>.\<close>

definition mapFailure :: "int \<Rightarrow> RendezvousFailure" where
  "mapFailure f =
     (if f = 0 then ID_NOT_EXIST else if f = 2 then OFFLINE else if f = 3 then LICENSE_MISMATCH
      else if f = 4 then LICENSE_OVERUSE else OTHER)"

definition parse_rendezvous :: "RendezvousMessage \<Rightarrow> RendezvousParsed" where
  "parse_rendezvous rmsg =
     (case rmsg of
        R_relay_response rr \<Rightarrow>
          P_relayResponse (rr_uuid rr) (rr_relay_server rr)
            (case rr_union rr of RU_pk k \<Rightarrow> Some k | _ \<Rightarrow> None)
      | R_punch_hole_response pr \<Rightarrow>
          if php_socket_addr pr \<noteq> [] then P_punchHoleResponse None
          else if php_other_failure pr \<noteq> [] then P_punchHoleResponse (Some OTHER)
          else P_punchHoleResponse (Some (mapFailure (php_failure pr)))
      | R_online_response states \<Rightarrow> P_onlineResponse states
      | _ \<Rightarrow> P_other (case rendezvous_case rmsg of None \<Rightarrow> js ''none'' | Some c \<Rightarrow> c))"

definition parseRendezvous :: "codec \<Rightarrow> bytes \<Rightarrow> jsstr + RendezvousParsed" where
  "parseRendezvous cd bs =
     (case decRendezvous cd bs of Inl e \<Rightarrow> Inl e | Inr rmsg \<Rightarrow> Inr (parse_rendezvous rmsg))"

definition buildOnlineRequest :: "codec \<Rightarrow> jsstr \<Rightarrow> jsstr list \<Rightarrow> bytes" where
  "buildOnlineRequest cd myId peerIds = encRendezvous cd (R_online_request myId peerIds)"

text \<open>
  \<open>index >> 3\<close>, \<open>index & 7\<close> on a non-negative index below 2 to the 31, and \<open>byte >> k & 1\<close>.
\<close>

definition isOnline :: "bytes \<Rightarrow> nat \<Rightarrow> bool" where
  "isOnline states index =
     (case js_at states (index div 8) of
        None \<Rightarrow> False
      | Some b \<Rightarrow> drop_bit (7 - index mod 8) b AND 1 = 1)"

record relay_opts =
  ro_licenceKey :: jsstr
  ro_peerId :: jsstr
  ro_uuid :: jsstr
  ro_connType :: "int option"

definition buildRequestRelay :: "codec \<Rightarrow> relay_opts \<Rightarrow> bytes" where
  "buildRequestRelay cd opts =
     encRendezvous cd (R_request_relay (RequestRelay_base
       \<lparr>rq_licence_key := ro_licenceKey opts, rq_id := ro_peerId opts, rq_uuid := ro_uuid opts,
        rq_conn_type := conn_or_default (ro_connType opts)\<rparr>))"

section \<open>Presence\<close>

text \<open>
  The packing the server documents: peer \<open>i\<close> is bit \<open>7 - i mod 8\<close> of byte \<open>i div 8\<close>, in
  whole bytes.
\<close>

definition pack_byte :: "bool list \<Rightarrow> byte" where
  "pack_byte fs = horner_sum of_bool 2 (rev (take 8 (fs @ replicate 8 False)))"

fun pack_states :: "bool list \<Rightarrow> bytes" where
  "pack_states [] = []"
| "pack_states (f # fs) = pack_byte (take 8 (f # fs)) # pack_states (drop 7 fs)"

lemma bit_pack_byte:
  "i < 8 \<Longrightarrow> bit (pack_byte fs) (7 - i) \<longleftrightarrow> i < length fs \<and> fs ! i"
proof -
  assume i: "i < 8"
  let ?xs = "take 8 (fs @ replicate 8 False)"
  have l: "length ?xs = 8" by simp
  have "rev ?xs ! (7 - i) = ?xs ! i"
    using i l by (subst rev_nth) auto
  then show ?thesis
    using i l by (auto simp: pack_byte_def bit_horner_sum_bit_word_iff nth_append simp del: rev_take take_append)
qed

lemma js_at_pack_states:
  "js_at (pack_states fs) k =
     (if 8 * k < length fs then Some (pack_byte (take 8 (drop (8 * k) fs))) else None)"
proof (induction fs arbitrary: k rule: pack_states.induct)
  case (2 f fs)
  show ?case
  proof (cases k)
    case (Suc m)
    have "drop (8 + 8 * m) (f # fs) = drop (8 * m) (drop 7 fs)"
      by (simp add: drop_Cons' add.commute)
    then show ?thesis
      using 2 [of m] unfolding Suc by (auto simp: js_at_def split: if_splits)
  qed simp
qed simp

text \<open>
  The presence test inverts the server's packing: for any list of peers, \<open>isOnline\<close> at
  index \<open>i\<close> of the packed states is the state of peer \<open>i\<close>, and every index past the end is
  offline.
\<close>

theorem isOnline_pack:
  "isOnline (pack_states fs) i \<longleftrightarrow> i < length fs \<and> fs ! i"
proof -
  have m: "i mod 8 < 8" and d: "8 * (i div 8) + i mod 8 = i" by simp_all
  have b: "(drop_bit n (w :: byte) AND 1 = 1) = bit w n" for n w
    by (simp add: bit_iff_odd_drop_bit and_one_eq odd_iff_mod_2_eq_one)
  show ?thesis
  proof (cases "8 * (i div 8) < length fs")
    case True
    then have "i mod 8 < length (take 8 (drop (8 * (i div 8)) fs)) \<longleftrightarrow> i < length fs"
    proof -
      define q r where "q = i div 8" and "r = i mod 8"
      then have "i = 8 * q + r" "r < 8" "8 * q < length fs" using m d True by simp_all
      then show ?thesis by (simp flip: q_def r_def) linarith
    qed
    moreover have "i < length fs \<Longrightarrow> take 8 (drop (8 * (i div 8)) fs) ! (i mod 8) = fs ! i"
      using True m d by simp
    ultimately show ?thesis
      using bit_pack_byte [OF m, of "take 8 (drop (8 * (i div 8)) fs)"] True
      by (auto simp: isOnline_def js_at_pack_states b)
  next
    case False
    then have "\<not> i < length fs" using d by linarith
    with False show ?thesis by (simp add: isOnline_def js_at_pack_states)
  qed
qed

lemma parse_rendezvous_success_iff:
  "parse_rendezvous m = P_punchHoleResponse None \<longleftrightarrow>
     (\<exists>pr. m = R_punch_hole_response pr \<and> php_socket_addr pr \<noteq> [])"
  by (cases m) (auto simp: parse_rendezvous_def split: RelayUnion.splits)

end
