(* ===== verification/Json.thy ===== *)
theory Json
  imports Prelude
begin

text \<open>
  The values \<open>JSON.parse\<close> returns. The parser itself is a parameter of the definitions that
  call it (\<open>None\<close> is its \<open>SyntaxError\<close>): they only look at the parsed value, and every fact
  about them holds for any parser.
\<close>

datatype json =
    JNull
  | JBool bool
  | JNum rat
  | JStr jsstr
  | JArr "json list"
  | JObj "(jsstr \<times> json) list"

text \<open>Reading a property of a parsed object; \<open>None\<close> is \<open>undefined\<close>.\<close>

fun obj_get :: "json \<Rightarrow> jsstr \<Rightarrow> json option" where
  "obj_get (JObj kvs) k = map_of kvs k"
| "obj_get _ k = None"

text \<open>Storing a property: an existing key keeps its place, a new one goes last.\<close>

fun kv_set :: "jsstr \<Rightarrow> 'v \<Rightarrow> (jsstr \<times> 'v) list \<Rightarrow> (jsstr \<times> 'v) list" where
  "kv_set k v [] = [(k, v)]"
| "kv_set k v ((k', v') # r) = (if k' = k then (k, v) # r else (k', v') # kv_set k v r)"

lemma map_of_kv_set [simp]: "map_of (kv_set k v xs) = (map_of xs)(k \<mapsto> v)"
  by (induction k v xs rule: kv_set.induct) auto

lemma length_kv_set: "length (kv_set k v c) \<le> Suc (length c)"
  by (induction k v c rule: kv_set.induct) auto

lemma keys_kv_set: "fst ` set (kv_set k v c) = insert k (fst ` set c)"
  by (induction k v c rule: kv_set.induct) (auto split: if_splits)

lemma distinct_kv_set: "distinct (map fst c) \<Longrightarrow> distinct (map fst (kv_set k v c))"
proof (induction k v c rule: kv_set.induct)
  case (2 k v k' v' r)
  then show ?case using keys_kv_set [of k v r] by auto
qed simp

lemma set_kv_set: "distinct (map fst m) \<Longrightarrow> set (kv_set k v m) = insert (k, v) {e \<in> set m. fst e \<noteq> k}"
  by (induction k v m rule: kv_set.induct) (auto simp: image_iff)

end
