(* ===== verification/Contracts.thy ===== *)
theory Contracts
  imports Proto
begin

text \<open>
  \<open>webclient/src/core/contracts.ts\<close>: the boundary between the user interface, the session
  worker and the protocol core. Every member of the unions \<open>SessionEvent\<close> and \<open>UiCommand\<close>
  is a constructor here; fields the source marks optional are \<open>option\<close>s. Values that the
  core validates with \<open>Number.isSafeInteger\<close> arrive as \<open>jsnum\<close>.
\<close>

datatype ConnKind = CK_default | CK_fileTransfer | CK_viewCamera | CK_terminal

record SessionConfig =
  peerId :: jsstr
  serverKeyB64 :: jsstr
  wsIdUrl :: jsstr
  wsRelayUrl :: jsstr
  password :: jsstr
  myId :: jsstr
  myName :: jsstr
  savedHashHex :: "jsstr option"
  config_connType :: "ConnKind option"
  terminalServiceId :: "jsstr option"
  terminalPersistent :: "bool option"

datatype SessionState =
  Connecting | Rendezvous | RelayState | Handshake | Login | Streaming | ErrorState | Closed | NeedAccept

record DisplayInfo =
  di_index :: int
  di_x :: int
  di_y :: int
  di_width :: int
  di_height :: int
  di_name :: jsstr
  di_scale :: jsnum
  di_online :: bool
  di_cursorEmbedded :: bool
  di_originalResolution :: "Resolution option"
  di_resolutions :: "Resolution list"

datatype FtEntryKind = K_dir | K_file | K_drive | K_dirLink | K_fileLink

record FtEntry =
  ft_kind :: FtEntryKind
  ft_name :: jsstr
  ft_size :: int
  ft_modifiedSec :: int
  ft_isHidden :: bool

record FtDirectory =
  ftd_id :: int
  ftd_path :: jsstr
  ftd_entries :: "FtEntry list"

record PrivacyModeImpl =
  impl_key :: jsstr
  impl_label :: jsstr

record PeerInfoEvent =
  pe_displays :: "DisplayInfo list"
  pe_username :: jsstr
  pe_hostname :: jsstr
  pe_platform :: jsstr
  pe_platformAdditions :: jsstr
  pe_version :: jsstr
  pe_current :: "int option"
  pe_privacyModeSupported :: bool
  pe_privacyModeImpls :: "PrivacyModeImpl list"
  pe_terminalSupported :: bool
  pe_viewCameraSupported :: bool

record SwitchDisplayEvent =
  se_index :: int
  se_x :: int
  se_y :: int
  se_width :: int
  se_height :: int
  se_cursorEmbedded :: bool
  se_originalResolution :: "Resolution option"
  se_resolutions :: "Resolution list"

record FtDigestEvent =
  fde_id :: int
  fde_fileNum :: int
  fde_lastModifiedSec :: int
  fde_fileSize :: int
  fde_isUpload :: bool
  fde_isIdentical :: bool
  fde_transferredSize :: int
  fde_isResume :: bool

record TerminalOpenedEvent =
  toe_terminalId :: int
  toe_success :: bool
  toe_message :: jsstr
  toe_pid :: int
  toe_serviceId :: jsstr
  toe_persistentSessions :: "int list"
  toe_replayTerminalOutput :: bool

datatype ElevationState = El_pending | El_succeeded | El_failed

datatype VoiceCallState = VC_waiting | VC_accepted | VC_rejected | VC_closed

datatype CodecName = CN_auto | CN_vp9 | CN_h264 | CN_h265 | CN_vp8 | CN_av1

record SessionStats =
  st_codec :: jsstr
  st_width :: int
  st_height :: int
  st_fps :: int
  st_mbps :: rat
  st_framesDropped :: int
  st_startedAtMs :: int

datatype (plugins only: code size) SessionEvent =
    Ev_state SessionState "jsstr option" bool
  | Ev_peerInfo PeerInfoEvent
  | Ev_switchDisplay SwitchDisplayEvent
  | Ev_followDisplay int
  | Ev_codecSupport "CodecName list"
  | Ev_stats SessionStats
  | Ev_cursor jsstr int int
  | Ev_cursorPos int int
  | Ev_clipboard jsstr
  | Ev_permission jsstr bool
  | Ev_privacyMode int jsstr jsstr
  | Ev_blockInput int jsstr
  | Ev_elevation ElevationState jsstr
  | Ev_chat jsstr
  | Ev_voiceCall VoiceCallState "jsstr option"
  | Ev_h264 bytes bool
  | Ev_credentials jsstr
  | Ev_loginError jsstr
  | Ev_uac bool
  | Ev_msgbox jsstr jsstr jsstr jsstr
  | Ev_terminalOpened TerminalOpenedEvent
  | Ev_terminalData int bytes bool
  | Ev_terminalClosed int int
  | Ev_terminalError int jsstr
  | Ev_ftDir FtDirectory
  | Ev_ftBlock int int bytes int
  | Ev_ftDone int int
  | Ev_ftError int int jsstr
  | Ev_ftDigest FtDigestEvent
  | Ev_ftSendConfirm int int bool int
  | Ev_ftSent int int int

datatype KeyKind = KK_chr | KK_control | KK_unicode

datatype DisplayOption = DO_showRemoteCursor | DO_followRemoteCursor | DO_followRemoteWindow

record AnnouncedFile =
  af_name :: jsstr
  af_size :: int
  af_modifiedSec :: int

datatype (plugins only: code size) UiCommand =
    Cmd_connect SessionConfig
  | Cmd_mouse int int int "int list"
  | Cmd_key bool bool KeyKind int "int list"
  | Cmd_switchDisplay int
  | Cmd_ctrlAltDel
  | Cmd_refresh
  | Cmd_quality int
  | Cmd_clipboardText jsstr
  | Cmd_disconnect
  | Cmd_restartRemoteDevice
  | Cmd_requestElevation
  | Cmd_privacyMode jsstr bool
  | Cmd_blockInput bool
  | Cmd_lockAfterSessionEnd bool
  | Cmd_displayResolution jsnum jsnum jsnum
  | Cmd_virtualDisplay jsnum bool
  | Cmd_customQuality jsnum
  | Cmd_customFps jsnum
  | Cmd_preferredCodec int
  | Cmd_displayOption DisplayOption bool
  | Cmd_remoteAudio bool
  | Cmd_clipboardEnabled bool
  | Cmd_clientRecording bool
  | Cmd_chat jsstr
  | Cmd_voiceCallStart
  | Cmd_voiceCallClose
  | Cmd_voiceAudioFormat int int
  | Cmd_voiceAudioFrame bytes
  | Cmd_connectTerminal SessionConfig
  | Cmd_terminalOpen int int int
  | Cmd_terminalData int bytes
  | Cmd_terminalResize int int int
  | Cmd_terminalClose int
  | Cmd_connectFile SessionConfig
  | Cmd_ftReadDir jsstr bool
  | Cmd_ftSend int jsstr bool int
  | Cmd_ftReceive int jsstr "AnnouncedFile list" int int
  | Cmd_ftDigest int int int int
  | Cmd_ftBlock int int bytes int
  | Cmd_ftDone int int
  | Cmd_ftError int int jsstr
  | Cmd_ftConfirm int int bool int
  | Cmd_ftCancel int
  | Cmd_ftCreateDir int jsstr
  | Cmd_ftRemoveFile int jsstr int
  | Cmd_ftRemoveDir int jsstr
  | Cmd_ftRename int jsstr jsstr

end
