(* ===== verification/Session_Controls.thy ===== *)
theory Session_Controls
  imports Json Contracts
begin

text \<open>
  \<open>webclient/src/core/session-controls.ts\<close> and \<open>webclient/src/core/advanced-capabilities.ts\<close>:
  the back-off of the reconnect loop after a remote restart, the reading of the peer's
  \<open>platform_additions\<close>, and the control messages of the security menu. The JSON parser is a
  parameter; \<open>None\<close> is its \<open>SyntaxError\<close>.
\<close>

definition RESTART_RECONNECT_DELAYS_MS :: "int list" where
  "RESTART_RECONNECT_DELAYS_MS = [1000, 2000, 4000, 8000, 12000, 15000]"

definition RESTART_RECONNECT_TIMEOUT_MS :: int where
  "RESTART_RECONNECT_TIMEOUT_MS = 120000"

text \<open>One element of the array: kept when its first two items are strings.\<close>

fun privacy_entry :: "json \<Rightarrow> PrivacyModeImpl list" where
  "privacy_entry (JArr (JStr k # JStr l # _)) = [\<lparr>impl_key = k, impl_label = l\<rparr>]"
| "privacy_entry _ = []"

definition parsePrivacyModeImpls :: "(jsstr \<Rightarrow> json option) \<Rightarrow> jsstr \<Rightarrow> PrivacyModeImpl list" where
  "parsePrivacyModeImpls parse platformAdditions =
     (if platformAdditions = [] then []
      else case parse platformAdditions of
             None \<Rightarrow> []
           | Some parsed \<Rightarrow>
              (case obj_get parsed (js ''supported_privacy_mode_impl'') of
                 Some (JArr es) \<Rightarrow> concat (map privacy_entry es)
               | _ \<Rightarrow> []))"

definition nextRestartReconnectDelay :: "nat \<Rightarrow> int \<Rightarrow> int \<Rightarrow> int option" where
  "nextRestartReconnectDelay attempt elapsedMs timeoutMs =
     (if timeoutMs \<le> elapsedMs then None
      else let delay = (case js_at RESTART_RECONNECT_DELAYS_MS attempt of
                          Some d \<Rightarrow> d | None \<Rightarrow> last RESTART_RECONNECT_DELAYS_MS)
           in Some (min delay (timeoutMs - elapsedMs)))"

definition buildRestartRemoteDevice :: Misc where
  "buildRestartRemoteDevice = X_restart_remote_device True"

definition buildDirectElevation :: Misc where
  "buildDirectElevation = X_elevation_request (EU_direct True)"

definition buildPrivacyToggle :: "jsstr \<Rightarrow> bool \<Rightarrow> Misc" where
  "buildPrivacyToggle implKey on = X_toggle_privacy_mode implKey on"

definition buildBlockInputOption :: "bool \<Rightarrow> OptionMessage" where
  "buildBlockInputOption on =
     OptionMessage_base\<lparr>block_input := (if on then BoolOption_Yes else BoolOption_No)\<rparr>"

definition buildLockAfterSessionEndOption :: "bool \<Rightarrow> OptionMessage" where
  "buildLockAfterSessionEndOption on =
     OptionMessage_base\<lparr>lock_after_session_end := (if on then BoolOption_Yes else BoolOption_No)\<rparr>"

definition parseAdvancedPeerCapabilities :: "(jsstr \<Rightarrow> json option) \<Rightarrow> jsstr \<Rightarrow> bool" where
  "parseAdvancedPeerCapabilities parse platformAdditions =
     (case parse platformAdditions of
        Some (JObj kvs) \<Rightarrow> obj_get (JObj kvs) (js ''support_view_camera'') = Some (JBool True)
      | _ \<Rightarrow> False)"

section \<open>The reconnect loop\<close>

abbreviation delay_at :: "nat \<Rightarrow> int" where
  "delay_at a \<equiv> (case js_at RESTART_RECONNECT_DELAYS_MS a of
                   Some d \<Rightarrow> d | None \<Rightarrow> last RESTART_RECONNECT_DELAYS_MS)"

text \<open>
  The times at which the waits end when every attempt fails at once, in milliseconds after
  the restart. This is the run with the most attempts; \<open>fuel\<close> bounds their number.
\<close>

fun attempt_times :: "nat \<Rightarrow> nat \<Rightarrow> int \<Rightarrow> int \<Rightarrow> int list" where
  "attempt_times 0 attempt elapsed timeout = []"
| "attempt_times (Suc fuel) attempt elapsed timeout =
     (case nextRestartReconnectDelay attempt elapsed timeout of
        None \<Rightarrow> []
      | Some d \<Rightarrow> (elapsed + d) # attempt_times fuel (Suc attempt) (elapsed + d) timeout)"

lemma delay_at_bounds: "1000 \<le> delay_at a" "delay_at a \<le> 15000"
proof -
  have "delay_at a \<in> set RESTART_RECONNECT_DELAYS_MS"
    by (auto simp: js_at_def RESTART_RECONNECT_DELAYS_MS_def less_Suc_eq numeral_nat)
  then show "1000 \<le> delay_at a" "delay_at a \<le> 15000"
    by (auto simp: RESTART_RECONNECT_DELAYS_MS_def)
qed

lemma next_delay_bounds:
  assumes "nextRestartReconnectDelay a t timeout = Some d"
  shows "0 < d" "d \<le> 15000" "t + d \<le> timeout" "1000 \<le> d \<or> t + d = timeout"
  using assms delay_at_bounds [of a]
  by (auto simp: nextRestartReconnectDelay_def Let_def min_def split: if_splits)

lemma next_delay_None_iff [simp]: "nextRestartReconnectDelay a t timeout = None \<longleftrightarrow> timeout \<le> t"
  by (simp add: nextRestartReconnectDelay_def Let_def)

lemma next_delay_expired [simp]: "timeout \<le> t \<Longrightarrow> nextRestartReconnectDelay a t timeout = None"
  by simp

lemma attempt_times_range:
  "\<forall>x \<in> set (attempt_times fuel a t timeout). t < x \<and> x \<le> timeout"
proof (induction fuel a t timeout rule: attempt_times.induct)
  case (2 fuel a t timeout)
  show ?case
  proof (cases "nextRestartReconnectDelay a t timeout")
    case (Some d)
    with next_delay_bounds(1,3) [OF Some] 2 [OF Some] show ?thesis by auto
  qed simp
qed simp

lemma attempt_times_end:
  assumes "t < timeout" "timeout - t \<le> 1000 * int fuel"
  shows "attempt_times fuel a t timeout \<noteq> [] \<and> last (attempt_times fuel a t timeout) = timeout"
  using assms
proof (induction fuel arbitrary: a t)
  case (Suc fuel)
  then obtain d where d: "nextRestartReconnectDelay a t timeout = Some d"
    by (cases "nextRestartReconnectDelay a t timeout") auto
  note b = next_delay_bounds [OF d]
  show ?case
  proof (cases "t + d = timeout")
    case True
    then have "attempt_times fuel (Suc a) (t + d) timeout = []" by (cases fuel) auto
    with d True show ?thesis by simp
  next
    case False
    with b Suc.prems have "t + d < timeout" "timeout - (t + d) \<le> 1000 * int fuel" by auto
    from Suc.IH [OF this, of "Suc a"] d show ?thesis by simp
  qed
qed simp

text \<open>
  The back-off after a remote restart terminates at its deadline. From any attempt number
  and any time before the deadline, the waits end at strictly increasing times that never
  pass the deadline, no wait is longer than fifteen seconds, and after at most one attempt
  per second of remaining time the last wait ends exactly at the deadline.
\<close>

theorem restart_backoff_terminates:
  assumes "t < timeout" "timeout - t \<le> 1000 * int fuel"
  shows "let ts = attempt_times fuel a t timeout in
           sorted_wrt (<) ts \<and> ts \<noteq> [] \<and> last ts = timeout \<and> length ts \<le> fuel \<and>
           (\<forall>x \<in> set ts. t < x \<and> x \<le> timeout) \<and>
           (\<forall>i < length ts. ts ! i - (t # ts) ! i \<le> 15000)"
proof -
  have s: "sorted_wrt (<) (attempt_times n b u timeout)" for n b u
  proof (induction n b u timeout rule: attempt_times.induct)
    case (2 fuel a t timeout)
    then show ?case using attempt_times_range by (auto split: option.splits)
  qed simp
  have l: "length (attempt_times n b u timeout) \<le> n" for n b u
    by (induction n b u timeout rule: attempt_times.induct) (auto split: option.splits)
  have g: "\<forall>i < length (attempt_times n b u timeout).
             attempt_times n b u timeout ! i - (u # attempt_times n b u timeout) ! i \<le> 15000" for n b u
  proof (induction n b u timeout rule: attempt_times.induct)
    case (2 fuel a t timeout)
    then show ?case
      using next_delay_bounds(2) [of a t timeout]
      by (auto split: option.splits simp: nth_Cons split: nat.splits)
  qed simp
  show ?thesis
    using s l g attempt_times_range attempt_times_end [OF assms] by (simp add: Let_def)
qed

theorem restart_backoff_terminates_witness:
  "last (attempt_times 120 0 0 RESTART_RECONNECT_TIMEOUT_MS) = RESTART_RECONNECT_TIMEOUT_MS"
  using restart_backoff_terminates [of 0 RESTART_RECONNECT_TIMEOUT_MS 120 0]
  by (simp add: RESTART_RECONNECT_TIMEOUT_MS_def Let_def)

text \<open>
  What a peer can put into \<open>platform_additions\<close> never breaks the parsers: every result entry
  comes from an array element that starts with two strings, in order.
\<close>

lemma privacy_entry_sound:
  "p \<in> set (privacy_entry e) \<Longrightarrow> \<exists>r. e = JArr (JStr (impl_key p) # JStr (impl_label p) # r)"
  by (induction e rule: privacy_entry.induct) auto

lemma parsePrivacyModeImpls_sound:
  assumes "p \<in> set (parsePrivacyModeImpls parse s)"
  shows "\<exists>j es r. parse s = Some j \<and> obj_get j (js ''supported_privacy_mode_impl'') = Some (JArr es) \<and>
           JArr (JStr (impl_key p) # JStr (impl_label p) # r) \<in> set es"
proof -
  from assms obtain j es e where "parse s = Some j"
      "obj_get j (js ''supported_privacy_mode_impl'') = Some (JArr es)" "e \<in> set es"
      "p \<in> set (privacy_entry e)"
    by (auto simp: parsePrivacyModeImpls_def dest!: sym [of "Some _"]
        split: if_splits option.splits json.splits)
  with privacy_entry_sound show ?thesis by blast
qed

end
