(* ===== verification/Session.thy ===== *)
theory Session
  imports Crypto Auth Signaling Session_Controls
begin

text \<open>
  \<open>webclient/src/core/session.ts\<close>: one remote session, from the rendezvous to streaming.

  The record \<open>Session\<close> has the fields of the class. Calls on the \<open>SessionSinks\<close> are the
  \<open>action\<close>s appended to \<open>trace\<close>, in call order; \<open>SendRelay\<close> and \<open>SendSealed\<close> both stand for
  \<open>sinks.sendRelay\<close>, the first from the two plaintext call sites and the second from
  \<open>sealSend\<close>. An \<open>async\<close> handler that suspends at an \<open>await\<close> leaves the rest of its work in
  \<open>suspended\<close>; \<open>resume\<close> runs it. Which suspended continuation runs next is left open, so what
  holds of the model holds for every order of micro-tasks. Random bytes and the clock are
  arguments, platform functions are the fields of \<open>platform\<close>.
\<close>

section \<open>State\<close>

record platform =
  sod :: sodium
  wire :: codec
  json_parse :: "jsstr \<Rightarrow> json option"
  utf8_dec :: "bytes \<Rightarrow> jsstr"

datatype (plugins only: code size) action =
    SendSignaling bytes
  | SendRelay bytes
  | SendSealed bytes
  | Emit SessionEvent
  | OnVideo VideoFrame
  | OnAudioFormat int int
  | OnAudioFrame bytes
  | OpenRelay jsstr
  | CloseAll
  | OnCursor CursorData
  | OnCursorId int
  | OnClipboard Clipboard
  | OnFileResponse FileResponse
  | OnFileSendConfirm FileTransferSendConfirmRequest

text \<open>What is left to do of a \<open>hash\<close> handler after an \<open>await\<close>.\<close>

datatype continuation =
    AwaitH1 jsstr jsstr jsstr
  | AwaitLogin bytes jsstr

record Session =
  pendingDisplay :: "int option"
  s_config :: SessionConfig
  serverEdPk :: bytes
  sessionId :: int
  s_state :: SessionState
  cipher :: "StreamCipher option"
  peerEdPk :: "bytes option"
  s_uuid :: jsstr
  decoding :: SupportedDecoding
  loginSent :: bool
  pendingVoiceCallTimestamp :: "int option"
  voiceCallAccepted :: bool
  suspended :: "continuation list"
  trace :: "action list"

definition CLIENT_VERSION :: jsstr where "CLIENT_VERSION = js ''1.4.0''"
definition VIDEO_ACK_REQUIRED :: bool where "VIDEO_ACK_REQUIRED = True"
definition VOICE_RELAY_BUFFER_LIMIT :: int where "VOICE_RELAY_BUFFER_LIMIT = 128 * 1024"

definition act :: "action \<Rightarrow> Session \<Rightarrow> Session" where
  "act a s = s\<lparr>trace := trace s @ [a]\<rparr>"

definition emit :: "SessionEvent \<Rightarrow> Session \<Rightarrow> Session" where
  "emit ev = act (Emit ev)"

section \<open>Helpers\<close>

definition hex2 :: "byte \<Rightarrow> jsstr" where
  "hex2 x = (let h = radix_str 16 (unat x) in replicate (2 - length h) (js ''0'' ! 0) @ h)"

definition bytesToHex :: "bytes \<Rightarrow> jsstr" where
  "bytesToHex b = concat (map hex2 b)"

text \<open>
  \<open>parseInt(s, 16)\<close>: leading white space, a sign and a \<open>0x\<close> prefix are skipped, then the
  longest run of hexadecimal digits is read; without a digit the result is \<open>NaN\<close>, which a
  \<open>Uint8Array\<close> stores as 0.
\<close>

definition parseInt16 :: "jsstr \<Rightarrow> int option" where
  "parseInt16 s =
     (let t = dropWhile js_ws s;
          (neg, u) = (case t of c # r \<Rightarrow> if c = 45 then (True, r) else if c = 43 then (False, r) else (False, t)
                              | [] \<Rightarrow> (False, []));
          v = (case u of a # b # r \<Rightarrow> if a = 48 \<and> (b = 120 \<or> b = 88) then r else u | _ \<Rightarrow> u);
          ds = takeWhile is_hex_unit v
      in if ds = [] then None
         else Some (if neg then - int (radix_val 16 ds) else int (radix_val 16 ds)))"

definition hexToBytes :: "jsstr \<Rightarrow> bytes" where
  "hexToBytes hex =
     map (\<lambda>i. case parseInt16 (take 2 (drop (i * 2) hex)) of None \<Rightarrow> 0 | Some n \<Rightarrow> of_int n)
       [0..<length hex div 2]"

text \<open>Eight random bytes with the top bit cleared, read big-endian.\<close>

definition randomSessionId :: "bytes \<Rightarrow> int" where
  "randomSessionId b =
     int (foldl (\<lambda>n x. n * 256 + unat x) 0 ((b ! 0 AND 0x7F) # drop 1 b))"

definition baselineDecoding :: SupportedDecoding where
  "baselineDecoding =
     SupportedDecoding_base\<lparr>ability_vp9 := 1, ability_vp8 := 1, prefer_codec := PreferCodec_Auto\<rparr>"

definition isManualAccept :: "jsstr \<Rightarrow> bool" where
  "isManualAccept error =
     (let e = js_lower error in js_includes e (js ''wait'') \<and> js_includes e (js ''accept''))"

definition newSession :: "platform \<Rightarrow> SessionConfig \<Rightarrow> bytes \<Rightarrow> jsstr + Session" where
  "newSession p config rnd =
     (case decodeB64 (sod p) (serverKeyB64 config) of
        Inl e \<Rightarrow> Inl e
      | Inr k \<Rightarrow> Inr
         \<lparr>pendingDisplay = None, s_config = config, serverEdPk = k, sessionId = randomSessionId rnd,
          s_state = Connecting, cipher = None, peerEdPk = None, s_uuid = [],
          decoding = baselineDecoding, loginSent = False, pendingVoiceCallTimestamp = None,
          voiceCallAccepted = False, suspended = [], trace = []\<rparr>)"

definition connType :: "Session \<Rightarrow> int" where
  "connType s =
     (case config_connType (s_config s) of
        Some CK_fileTransfer \<Rightarrow> ConnType_FILE_TRANSFER
      | Some CK_viewCamera \<Rightarrow> ConnType_VIEW_CAMERA
      | Some CK_terminal \<Rightarrow> ConnType_TERMINAL
      | _ \<Rightarrow> ConnType_DEFAULT_CONN)"

section \<open>Internals\<close>

definition sealSend :: "platform \<Rightarrow> bytes \<Rightarrow> Session \<Rightarrow> Session" where
  "sealSend p bs s =
     (case cipher s of
        None \<Rightarrow> s
      | Some c \<Rightarrow>
          let (c', ct) = seal (sod p) c bs in act (SendSealed ct) (s\<lparr>cipher := Some c'\<rparr>))"

definition sendMessage :: "platform \<Rightarrow> Message \<Rightarrow> Session \<Rightarrow> Session" where
  "sendMessage p u s = (if cipher s = None then s else sealSend p (encMessage (wire p) u) s)"

definition sendMisc :: "platform \<Rightarrow> Misc \<Rightarrow> Session \<Rightarrow> Session" where
  "sendMisc p u = sendMessage p (M_misc u)"

definition setState :: "SessionState \<Rightarrow> jsstr option \<Rightarrow> bool \<Rightarrow> Session \<Rightarrow> Session" where
  "setState st detail peerInitiated s =
     (let s1 = s\<lparr>s_state := st\<rparr>;
          s2 = (if st = Closed \<or> st = ErrorState
                then s1\<lparr>pendingVoiceCallTimestamp := None, voiceCallAccepted := False\<rparr> else s1)
      in emit (Ev_state st detail peerInitiated) s2)"

definition fail :: "jsstr \<Rightarrow> Session \<Rightarrow> Session" where
  "fail detail s = act CloseAll (setState ErrorState (Some detail) False s)"

section \<open>Rendezvous and relay\<close>

definition start :: "platform \<Rightarrow> Session \<Rightarrow> Session" where
  "start p s =
     setState Rendezvous None False
       (act (SendSignaling (buildPunchHoleRequest (wire p)
               \<lparr>po_peerId = peerId (s_config s), po_licenceKey = serverKeyB64 (s_config s),
                po_version = CLIENT_VERSION, po_connType = Some (connType s)\<rparr>)) s)"

definition failure_name :: "RendezvousFailure \<Rightarrow> jsstr" where
  "failure_name f =
     (case f of ID_NOT_EXIST \<Rightarrow> js ''ID_NOT_EXIST'' | OFFLINE \<Rightarrow> js ''OFFLINE''
      | LICENSE_MISMATCH \<Rightarrow> js ''LICENSE_MISMATCH'' | LICENSE_OVERUSE \<Rightarrow> js ''LICENSE_OVERUSE''
      | OTHER \<Rightarrow> js ''OTHER'')"

definition onSignalingBytes :: "platform \<Rightarrow> bytes \<Rightarrow> Session \<Rightarrow> Session" where
  "onSignalingBytes p b s =
     (if s_state s = ErrorState \<or> s_state s = Closed then s
      else case parseRendezvous (wire p) b of
        Inl _ \<Rightarrow> fail (js ''malformed rendezvous message'') s
      | Inr (P_relayResponse uid relayServer pk) \<Rightarrow>
          (case pk of
             None \<Rightarrow> fail (js ''relay response missing server-signed pk'') s
           | Some k \<Rightarrow>
               if k = [] then fail (js ''relay response missing server-signed pk'') s
               else case verifyServerRelayPk (sod p) (wire p) k (serverEdPk s) (peerId (s_config s)) of
                      Inl e \<Rightarrow> fail (js ''server trust link failed: '' @ e) s
                    | Inr pk' \<Rightarrow>
                        act (OpenRelay relayServer)
                          (setState RelayState None False (s\<lparr>peerEdPk := Some pk', s_uuid := uid\<rparr>)))
      | Inr (P_punchHoleResponse f) \<Rightarrow>
          (case f of None \<Rightarrow> s | Some e \<Rightarrow> fail (js ''punch hole failed: '' @ failure_name e) s)
      | Inr _ \<Rightarrow> s)"

definition relayOpened :: "platform \<Rightarrow> Session \<Rightarrow> Session" where
  "relayOpened p s =
     setState Handshake None False
       (act (SendRelay (buildRequestRelay (wire p)
               \<lparr>ro_licenceKey = serverKeyB64 (s_config s), ro_peerId = peerId (s_config s),
                ro_uuid = s_uuid s, ro_connType = Some (connType s)\<rparr>)) s)"

text \<open>
  The first frame of the relay. \<open>buildPublicKeyMessage\<close> may throw (a box key of the wrong
  length); the promise of \<open>onRelayBytes\<close> then rejects and the session is as before.
\<close>

definition onFirstRelayFrame :: "platform \<Rightarrow> key_choice \<Rightarrow> bytes \<Rightarrow> Session \<Rightarrow> Session" where
  "onFirstRelayFrame p rnd b s =
     (case decMessage (wire p) b of
        Inl _ \<Rightarrow> fail (js ''malformed handshake message'') s
      | Inr (M_signed_id sid) \<Rightarrow>
          (case peerEdPk s of
             None \<Rightarrow> fail (js ''signed_id before relay response'') s
           | Some pk \<Rightarrow>
              (case verifyPeerSignedId (sod p) (wire p) sid pk of
                 Inl _ \<Rightarrow> fail (js ''peer trust link failed: bad SignedId signature'') s
               | Inr (i, boxPk) \<Rightarrow>
                   if hd (js_split 0 i) \<noteq> peerId (s_config s)
                   then fail (js ''peer id mismatch in SignedId: got \"'' @ i @ js ''\"'') s
                   else (case buildPublicKeyMessage (sod p) (wire p) rnd boxPk of
                           Inl _ \<Rightarrow> s
                         | Inr (bs, k) \<Rightarrow>
                             (act (SendRelay bs) s)\<lparr>cipher := Some (newStreamCipher k)\<rparr>)))
      | Inr m \<Rightarrow>
          fail (js ''expected signed_id, got ''
                @ (case message_case m of None \<Rightarrow> js ''empty message'' | Some c \<Rightarrow> c)) s)"

section \<open>Inbound messages\<close>

definition handleClipboard :: "platform \<Rightarrow> Clipboard \<Rightarrow> Session \<Rightarrow> Session" where
  "handleClipboard p cb s =
     (if \<not> cb_compress cb \<and> cb_format cb = ClipboardFormat_Text
      then emit (Ev_clipboard (utf8_dec p (cb_content cb))) s
      else act (OnClipboard cb) s)"

definition display_of :: "PeerInfo \<Rightarrow> Resolution list \<Rightarrow> nat \<times> ProtoDisplay \<Rightarrow> DisplayInfo" where
  "display_of info resolutions = (\<lambda>(index, d).
     \<lparr>di_index = int index, di_x = pd_x d, di_y = pd_y d, di_width = pd_width d,
      di_height = pd_height d, di_name = pd_name d,
      di_scale = (if pd_scale d = Num 0 \<or> pd_scale d = NaN then Num 1 else pd_scale d), di_online = pd_online d,
      di_cursorEmbedded = pd_cursor_embedded d, di_originalResolution = pd_original_resolution d,
      di_resolutions = (if int index = pi_current_display info then resolutions else [])\<rparr>)"

definition emitPeerInfo :: "platform \<Rightarrow> PeerInfo \<Rightarrow> Session \<Rightarrow> Session" where
  "emitPeerInfo p info s =
     (let resolutions = (case pi_resolutions info of None \<Rightarrow> [] | Some rs \<Rightarrow> rs);
          displays = map (display_of info resolutions) (enumerate 0 (pi_displays info))
      in emit (Ev_peerInfo
           \<lparr>pe_displays = displays, pe_username = pi_username info, pe_hostname = pi_hostname info,
            pe_platform = pi_platform info, pe_platformAdditions = pi_platform_additions info,
            pe_version = pi_version info,
            pe_current = (if s_state s = Streaming then None else Some (pi_current_display info)),
            pe_privacyModeSupported = (case pi_features info of None \<Rightarrow> False | Some f \<Rightarrow> f_privacy_mode f),
            pe_privacyModeImpls = parsePrivacyModeImpls (json_parse p) (pi_platform_additions info),
            pe_terminalSupported = (case pi_features info of None \<Rightarrow> False | Some f \<Rightarrow> f_terminal f),
            pe_viewCameraSupported =
              parseAdvancedPeerCapabilities (json_parse p) (pi_platform_additions info)\<rparr>) s)"

definition int_str :: "int \<Rightarrow> jsstr" where
  "int_str n = (if n < 0 then js ''-'' else []) @ radix_str 10 (nat \<bar>n\<bar>)"

definition permission_name :: "int \<Rightarrow> jsstr" where
  "permission_name n =
     (if n = 0 then js ''Keyboard'' else if n = 2 then js ''Clipboard'' else if n = 3 then js ''Audio''
      else if n = 4 then js ''File'' else if n = 5 then js ''Restart'' else if n = 6 then js ''Recording''
      else if n = 7 then js ''BlockInput'' else if n = 8 then js ''PrivacyMode'' else int_str n)"

definition dispatchMisc :: "Misc \<Rightarrow> Session \<Rightarrow> Session" where
  "dispatchMisc u s =
     (case u of
        X_chat_message text \<Rightarrow> if text \<noteq> [] then emit (Ev_chat text) s else s
      | X_permission_info perm enabled \<Rightarrow> emit (Ev_permission (permission_name perm) enabled) s
      | X_audio_format rate channels \<Rightarrow> act (OnAudioFormat rate channels) s
      | X_back_notification n details implKey \<Rightarrow>
          (case n of
             BU_privacy_mode_state st \<Rightarrow> emit (Ev_privacyMode st details implKey) s
           | BU_block_input_state st \<Rightarrow> emit (Ev_blockInput st details) s
           | BU_none \<Rightarrow> s)
      | X_elevation_response e \<Rightarrow> emit (Ev_elevation (if e \<noteq> [] then El_failed else El_pending) e) s
      | X_portable_service_running r \<Rightarrow> if r then emit (Ev_elevation El_succeeded []) s else s
      | X_close_reason reason \<Rightarrow> act CloseAll (setState Closed (Some reason) True s)
      | X_uac on \<Rightarrow> emit (Ev_uac on) s
      | X_switch_display d \<Rightarrow>
          if pendingDisplay s \<noteq> None \<and> pendingDisplay s \<noteq> Some (sd_display d) then s
          else emit (Ev_switchDisplay
                 \<lparr>se_index = sd_display d, se_x = sd_x d, se_y = sd_y d, se_width = sd_width d,
                  se_height = sd_height d, se_cursorEmbedded = sd_cursor_embedded d,
                  se_originalResolution = sd_original_resolution d,
                  se_resolutions = (case sd_resolutions d of None \<Rightarrow> [] | Some rs \<Rightarrow> rs)\<rparr>)
                 (s\<lparr>pendingDisplay := None\<rparr>)
      | X_follow_current_display i \<Rightarrow>
          if isSafeInteger (Num (of_int i)) \<and> 0 \<le> i then emit (Ev_followDisplay i) s else s
      | _ \<Rightarrow> s)"

definition login_opts_of :: "Session \<Rightarrow> bytes \<Rightarrow> login_opts" where
  "login_opts_of s passwordHash =
     \<lparr>lo_peerId = peerId (s_config s), lo_passwordHash = passwordHash, lo_myId = myId (s_config s),
      lo_myName = myName (s_config s), lo_sessionId = sessionId s, lo_version = CLIENT_VERSION,
      lo_supportedDecoding = decoding s, lo_videoAckRequired = Some VIDEO_ACK_REQUIRED,
      lo_fileTransfer =
        (if config_connType (s_config s) = Some CK_fileTransfer then Some ([], False) else None),
      lo_viewCamera = (config_connType (s_config s) = Some CK_viewCamera),
      lo_terminal =
        (if config_connType (s_config s) = Some CK_terminal
         then Some (case terminalServiceId (s_config s) of None \<Rightarrow> [] | Some i \<Rightarrow> i,
                    case terminalPersistent (s_config s) of None \<Rightarrow> False | Some b \<Rightarrow> b)
         else None)\<rparr>"

definition sendLogin :: "platform \<Rightarrow> bytes \<Rightarrow> Session \<Rightarrow> Session" where
  "sendLogin p passwordHash s =
     (let s1 = s\<lparr>loginSent := True\<rparr>
      in sealSend p (buildLoginRequest (wire p) (login_opts_of s1 passwordHash)) s1)"

text \<open>The \<open>hash\<close> case up to its first \<open>await\<close>.\<close>

definition onHash :: "platform \<Rightarrow> jsstr \<Rightarrow> jsstr \<Rightarrow> Session \<Rightarrow> Session" where
  "onHash p salt challenge s =
     (let s1 = setState Login None False s;
          plaintext = password (s_config s1);
          s2 = s1\<lparr>s_config := (s_config s1)\<lparr>password := []\<rparr>\<rparr>
      in case savedHashHex (s_config s2) of
           Some (h # hs) \<Rightarrow>
             s2\<lparr>suspended := suspended s2 @ [AwaitLogin (hexToBytes (h # hs)) challenge]\<rparr>
         | _ \<Rightarrow>
             if 0 < length plaintext
             then s2\<lparr>suspended := suspended s2 @ [AwaitH1 plaintext salt challenge]\<rparr>
             else sendLogin p [] s2)"

text \<open>
  The continuations. A hash that throws rejects the promise: nothing follows.
\<close>

definition resume :: "platform \<Rightarrow> nat \<Rightarrow> Session \<Rightarrow> Session" where
  "resume p i s =
     (if i < length (suspended s)
      then let s1 = s\<lparr>suspended := take i (suspended s) @ drop (Suc i) (suspended s)\<rparr>
           in case suspended s ! i of
                AwaitH1 pw salt challenge \<Rightarrow>
                  (case computeLoginH1 pw salt of
                     None \<Rightarrow> s1
                   | Some h1 \<Rightarrow>
                       let s2 = emit (Ev_credentials (bytesToHex h1)) s1
                       in s2\<lparr>suspended := suspended s2 @ [AwaitLogin h1 challenge]\<rparr>)
              | AwaitLogin h1 challenge \<Rightarrow>
                  (case loginHashFromH1 h1 challenge of
                     None \<Rightarrow> s1
                   | Some hash \<Rightarrow> sendLogin p hash s1)
      else s)"

text \<open>
  A video frame: the sink first (a decoder may call back into the session there), then the
  acknowledgement.
\<close>

definition onVideo_sink :: "VideoFrame \<Rightarrow> Session \<Rightarrow> Session" where
  "onVideo_sink vf s = act (OnVideo vf) s"

definition ackVideo :: "platform \<Rightarrow> Session \<Rightarrow> Session" where
  "ackVideo p s = (if VIDEO_ACK_REQUIRED then sendMisc p (X_video_received True) s else s)"

definition onTerminalResponse :: "TerminalResponse \<Rightarrow> Session \<Rightarrow> Session" where
  "onTerminalResponse r s =
     (case r of
        TR_opened d \<Rightarrow> emit (Ev_terminalOpened
          \<lparr>toe_terminalId = to_terminal_id d, toe_success = to_success d, toe_message = to_message d,
           toe_pid = to_pid d, toe_serviceId = to_service_id d,
           toe_persistentSessions = to_persistent_sessions d,
           toe_replayTerminalOutput = to_replay_terminal_output d\<rparr>) s
      | TR_data d \<Rightarrow> emit (Ev_terminalData (tmd_terminal_id d) (tmd_data d) (tmd_compressed d)) s
      | TR_closed i code \<Rightarrow> emit (Ev_terminalClosed i code) s
      | TR_error i m \<Rightarrow> emit (Ev_terminalError i m) s
      | TR_none \<Rightarrow> s)"

definition onVoiceCallRequest :: "bool \<Rightarrow> Session \<Rightarrow> Session" where
  "onVoiceCallRequest is_connect s =
     (let hadCall = pendingVoiceCallTimestamp s \<noteq> None \<or> voiceCallAccepted s
      in if \<not> is_connect \<and> hadCall
         then emit (Ev_voiceCall VC_closed (Some (js ''Remote user ended the call'')))
                (s\<lparr>pendingVoiceCallTimestamp := None, voiceCallAccepted := False\<rparr>)
         else s)"

definition onVoiceCallResponse :: "bool \<Rightarrow> int \<Rightarrow> Session \<Rightarrow> Session" where
  "onVoiceCallResponse accepted req_timestamp s =
     (let s1 = s\<lparr>pendingVoiceCallTimestamp := None\<rparr>
      in case pendingVoiceCallTimestamp s of
           None \<Rightarrow> s1
         | Some pending \<Rightarrow>
             if req_timestamp \<noteq> pending
             then emit (Ev_voiceCall VC_closed (Some (js ''Voice call response could not be verified''))) s1
             else emit (Ev_voiceCall (if accepted then VC_accepted else VC_rejected) None)
                    (s1\<lparr>voiceCallAccepted := accepted\<rparr>))"

definition dispatch :: "platform \<Rightarrow> Message \<Rightarrow> Session \<Rightarrow> Session" where
  "dispatch p u s =
     (case u of
        M_test_delay td \<Rightarrow>
          if \<not> td_from_client td then sealSend p (encMessage (wire p) (M_test_delay td)) s else s
      | M_hash salt challenge \<Rightarrow> onHash p salt challenge s
      | M_login_response lr \<Rightarrow>
          (case lresp_union lr of
             LResp_error e \<Rightarrow>
               if isManualAccept e then setState NeedAccept (Some e) False s
               else emit (Ev_loginError e) s
           | LResp_peer_info info \<Rightarrow> setState Streaming None False (emitPeerInfo p info s)
           | LResp_none \<Rightarrow> s)
      | M_peer_info info \<Rightarrow> emitPeerInfo p info s
      | M_video_frame vf \<Rightarrow> ackVideo p (onVideo_sink vf s)
      | M_audio_frame d \<Rightarrow> act (OnAudioFrame d) s
      | M_cursor_data c \<Rightarrow> act (OnCursor c) s
      | M_cursor_id i \<Rightarrow> act (OnCursorId i) s
      | M_cursor_position x y \<Rightarrow> emit (Ev_cursorPos x y) s
      | M_clipboard cb \<Rightarrow> handleClipboard p cb s
      | M_multi_clipboards cbs \<Rightarrow> fold (handleClipboard p) cbs s
      | M_file_response fr \<Rightarrow> act (OnFileResponse fr) s
      | M_file_action fa \<Rightarrow>
          (case fa of FA_send_confirm c \<Rightarrow> act (OnFileSendConfirm c) s | _ \<Rightarrow> s)
      | M_terminal_response r \<Rightarrow> onTerminalResponse r s
      | M_misc m \<Rightarrow> dispatchMisc m s
      | M_message_box msgtype title text link \<Rightarrow> emit (Ev_msgbox msgtype title text link) s
      | M_voice_call_request _ is_connect \<Rightarrow> onVoiceCallRequest is_connect s
      | M_voice_call_response accepted req_timestamp _ \<Rightarrow> onVoiceCallResponse accepted req_timestamp s
      | _ \<Rightarrow> s)"

text \<open>
  \<open>onRelayBytes\<close> up to the dispatch: \<open>None\<close> when nothing is left to dispatch. The cipher's
  counter advances even when opening fails.
\<close>

definition openRelayBytes :: "platform \<Rightarrow> bytes \<Rightarrow> Session \<Rightarrow> Session \<times> Message option" where
  "openRelayBytes p b s =
     (case cipher s of
        None \<Rightarrow> (s, None)
      | Some c \<Rightarrow>
         (let (c', r) = open_ct (sod p) c b; s1 = s\<lparr>cipher := Some c'\<rparr>
          in case r of
               Inl _ \<Rightarrow> (fail (js ''decrypt failed'') s1, None)
             | Inr pt \<Rightarrow>
                (case decMessage (wire p) pt of
                   Inl _ \<Rightarrow> (fail (js ''malformed message'') s1, None)
                 | Inr m \<Rightarrow> (s1, Some m))))"

definition onRelayBytes :: "platform \<Rightarrow> key_choice \<Rightarrow> bytes \<Rightarrow> Session \<Rightarrow> Session" where
  "onRelayBytes p rnd b s =
     (if s_state s = ErrorState \<or> s_state s = Closed then s
      else if cipher s = None then onFirstRelayFrame p rnd b s
      else case openRelayBytes p b s of
             (s1, None) \<Rightarrow> s1
           | (s1, Some m) \<Rightarrow> dispatch p m s1)"

end
