(* ===== verification/Session_Outbound.thy ===== *)
theory Session_Outbound
  imports Session
begin

text \<open>
  The public methods of the class \<open>Session\<close> (\<open>webclient/src/core/session.ts\<close>) that the user
  interface drives. A method that reports whether it accepted its arguments returns the flag
  next to the session. Numbers the source tests with \<open>Number.isSafeInteger\<close> are \<open>jsnum\<close>.
\<close>

definition setSupportedDecoding :: "platform \<Rightarrow> SupportedDecoding \<Rightarrow> Session \<Rightarrow> Session" where
  "setSupportedDecoding p sd s =
     (let s1 = s\<lparr>decoding := sd\<rparr>
      in if loginSent s1
         then sendMisc p (X_option (OptionMessage_base\<lparr>supported_decoding := Some sd\<rparr>)) s1 else s1)"

definition sendMouse :: "platform \<Rightarrow> int \<Rightarrow> int \<Rightarrow> int \<Rightarrow> int list \<Rightarrow> Session \<Rightarrow> Session" where
  "sendMouse p msk x y modifiers =
     sendMessage p (M_mouse_event \<lparr>me_mask = msk, me_x = x, me_y = y, me_modifiers = modifiers\<rparr>)"

definition sendKey :: "platform \<Rightarrow> bool \<Rightarrow> bool \<Rightarrow> KeyKind \<Rightarrow> int \<Rightarrow> int list \<Rightarrow> Session \<Rightarrow> Session" where
  "sendKey p down press keyKind v modifiers =
     sendMessage p (M_key_event
       \<lparr>ke_down = down, ke_press = press,
        ke_union = (case keyKind of KK_chr \<Rightarrow> KU_chr v | KK_unicode \<Rightarrow> KU_unicode v
                    | KK_control \<Rightarrow> KU_control_key v),
        ke_modifiers = modifiers, ke_mode = KeyboardMode_Legacy\<rparr>)"

definition switchDisplay :: "platform \<Rightarrow> int \<Rightarrow> Session \<Rightarrow> Session" where
  "switchDisplay p index s =
     sendMisc p (X_capture_displays [] [] [index])
       (sendMisc p (X_switch_display (SwitchDisplay_base\<lparr>sd_display := index\<rparr>))
         (s\<lparr>pendingDisplay := Some index\<rparr>))"

definition changeDisplayResolution ::
    "platform \<Rightarrow> jsnum \<Rightarrow> jsnum \<Rightarrow> jsnum \<Rightarrow> Session \<Rightarrow> Session \<times> bool" where
  "changeDisplayResolution p display width height s =
     (let d = int_of_num display; w = int_of_num width; h = int_of_num height
      in if \<not> isSafeInteger display \<or> d < 0 \<or> \<not> isSafeInteger width \<or> \<not> isSafeInteger height \<or>
            w < 1 \<or> h < 1 \<or> 16384 < w \<or> 16384 < h
         then (s, False)
         else (sendMisc p (X_change_display_resolution d (Some \<lparr>res_width = w, res_height = h\<rparr>)) s, True))"

definition toggleVirtualDisplay :: "platform \<Rightarrow> jsnum \<Rightarrow> bool \<Rightarrow> Session \<Rightarrow> Session \<times> bool" where
  "toggleVirtualDisplay p display on s =
     (if \<not> isSafeInteger display \<or> int_of_num display < - 1 then (s, False)
      else (sendMisc p (X_toggle_virtual_display (int_of_num display) on) s, True))"

definition ctrlAltDel :: "platform \<Rightarrow> Session \<Rightarrow> Session" where
  "ctrlAltDel p =
     sendMessage p (M_key_event
       \<lparr>ke_down = False, ke_press = True, ke_union = KU_control_key ControlKey_CtrlAltDel,
        ke_modifiers = [], ke_mode = KeyboardMode_Legacy\<rparr>)"

definition refresh :: "platform \<Rightarrow> Session \<Rightarrow> Session" where
  "refresh p = sendMisc p (X_refresh_video True)"

definition setQuality :: "platform \<Rightarrow> int \<Rightarrow> Session \<Rightarrow> Session" where
  "setQuality p q = sendMisc p (X_option (OptionMessage_base\<lparr>image_quality := q\<rparr>))"

definition restartRemoteDevice :: "platform \<Rightarrow> Session \<Rightarrow> Session" where
  "restartRemoteDevice p = sendMisc p buildRestartRemoteDevice"

definition requestElevation :: "platform \<Rightarrow> Session \<Rightarrow> Session" where
  "requestElevation p = sendMisc p buildDirectElevation"

definition setPrivacyMode :: "platform \<Rightarrow> jsstr \<Rightarrow> bool \<Rightarrow> Session \<Rightarrow> Session" where
  "setPrivacyMode p implKey on = sendMisc p (buildPrivacyToggle implKey on)"

definition setBlockInput :: "platform \<Rightarrow> bool \<Rightarrow> Session \<Rightarrow> Session" where
  "setBlockInput p on = sendMisc p (X_option (buildBlockInputOption on))"

definition setLockAfterSessionEnd :: "platform \<Rightarrow> bool \<Rightarrow> Session \<Rightarrow> Session" where
  "setLockAfterSessionEnd p on = sendMisc p (X_option (buildLockAfterSessionEndOption on))"

definition setCustomQuality :: "platform \<Rightarrow> jsnum \<Rightarrow> Session \<Rightarrow> Session \<times> bool" where
  "setCustomQuality p quality s =
     (let q = int_of_num quality
      in if \<not> isSafeInteger quality \<or> q < 10 \<or> 100 < q then (s, False)
         else (sendMisc p (X_option (OptionMessage_base
                 \<lparr>custom_image_quality := to_int32 (push_bit 8 q)\<rparr>)) s, True))"

definition setCustomFps :: "platform \<Rightarrow> jsnum \<Rightarrow> Session \<Rightarrow> Session \<times> bool" where
  "setCustomFps p fps s =
     (let f = int_of_num fps
      in if \<not> isSafeInteger fps \<or> f < 5 \<or> 120 < f then (s, False)
         else (sendMisc p (X_option (OptionMessage_base\<lparr>custom_fps := f\<rparr>)) s, True))"

definition setDisplayOption :: "platform \<Rightarrow> DisplayOption \<Rightarrow> bool \<Rightarrow> Session \<Rightarrow> Session" where
  "setDisplayOption p opt enabled =
     (let v = bool_option enabled
      in sendMisc p (X_option
           (case opt of
              DO_showRemoteCursor \<Rightarrow> OptionMessage_base\<lparr>show_remote_cursor := v\<rparr>
            | DO_followRemoteCursor \<Rightarrow> OptionMessage_base\<lparr>follow_remote_cursor := v\<rparr>
            | DO_followRemoteWindow \<Rightarrow> OptionMessage_base\<lparr>follow_remote_window := v\<rparr>)))"

definition codec_supported :: "SupportedDecoding \<Rightarrow> int \<Rightarrow> bool" where
  "codec_supported sd pref \<longleftrightarrow>
     pref = PreferCodec_Auto \<or>
     pref = PreferCodec_VP9 \<and> 0 < ability_vp9 sd \<or>
     pref = PreferCodec_H264 \<and> 0 < ability_h264 sd \<or>
     pref = PreferCodec_H265 \<and> 0 < ability_h265 sd \<or>
     pref = PreferCodec_VP8 \<and> 0 < ability_vp8 sd \<or>
     pref = PreferCodec_AV1 \<and> 0 < ability_av1 sd"

definition setPreferredCodec :: "platform \<Rightarrow> int \<Rightarrow> Session \<Rightarrow> Session \<times> bool" where
  "setPreferredCodec p pref s =
     (if \<not> codec_supported (decoding s) pref then (s, False)
      else (setSupportedDecoding p ((decoding s)\<lparr>prefer_codec := pref\<rparr>) s, True))"

definition setRemoteAudioEnabled :: "platform \<Rightarrow> bool \<Rightarrow> Session \<Rightarrow> Session" where
  "setRemoteAudioEnabled p enabled =
     sendMisc p (X_option (OptionMessage_base\<lparr>disable_audio := bool_option (\<not> enabled)\<rparr>))"

definition setClipboardEnabled :: "platform \<Rightarrow> bool \<Rightarrow> Session \<Rightarrow> Session" where
  "setClipboardEnabled p enabled =
     sendMisc p (X_option (OptionMessage_base\<lparr>disable_clipboard := bool_option (\<not> enabled)\<rparr>))"

definition setClientRecording :: "platform \<Rightarrow> bool \<Rightarrow> Session \<Rightarrow> Session" where
  "setClientRecording p recording = sendMisc p (X_client_record_status recording)"

definition sendClipboardText :: "platform \<Rightarrow> jsstr \<Rightarrow> Session \<Rightarrow> Session" where
  "sendClipboardText p text =
     sendMessage p (M_clipboard (Clipboard_base
       \<lparr>cb_compress := False, cb_content := utf8_encode text, cb_format := ClipboardFormat_Text\<rparr>))"

definition sendChat :: "platform \<Rightarrow> jsstr \<Rightarrow> Session \<Rightarrow> Session" where
  "sendChat p text = sendMisc p (X_chat_message text)"

definition startVoiceCall :: "platform \<Rightarrow> int \<Rightarrow> Session \<Rightarrow> Session" where
  "startVoiceCall p now s =
     (if pendingVoiceCallTimestamp s \<noteq> None then s
      else let ts = max 1 now
           in emit (Ev_voiceCall VC_waiting None)
                (sendMessage p (M_voice_call_request ts True)
                  (s\<lparr>pendingVoiceCallTimestamp := Some ts\<rparr>)))"

definition closeVoiceCall :: "platform \<Rightarrow> int \<Rightarrow> Session \<Rightarrow> Session" where
  "closeVoiceCall p now s =
     emit (Ev_voiceCall VC_closed None)
       (sendMessage p (M_voice_call_request (max 1 now) False)
         (s\<lparr>pendingVoiceCallTimestamp := None, voiceCallAccepted := False\<rparr>))"

definition sendVoiceAudioFormat :: "platform \<Rightarrow> int \<Rightarrow> int \<Rightarrow> Session \<Rightarrow> Session" where
  "sendVoiceAudioFormat p rate channels s =
     (if \<not> voiceCallAccepted s then s else sendMisc p (X_audio_format rate channels) s)"

text \<open>\<open>buffered\<close> is the result of \<open>sinks.relayBuffered()\<close>.\<close>

definition sendVoiceAudioFrame :: "platform \<Rightarrow> int \<Rightarrow> bytes \<Rightarrow> Session \<Rightarrow> Session" where
  "sendVoiceAudioFrame p buffered d s =
     (if \<not> voiceCallAccepted s then s
      else if VOICE_RELAY_BUFFER_LIMIT \<le> buffered then s
      else sendMessage p (M_audio_frame d) s)"

definition openTerminal :: "platform \<Rightarrow> int \<Rightarrow> int \<Rightarrow> int \<Rightarrow> Session \<Rightarrow> Session" where
  "openTerminal p terminalId rows cols = sendMessage p (M_terminal_action (TA_open terminalId rows cols))"

definition sendTerminalData :: "platform \<Rightarrow> int \<Rightarrow> bytes \<Rightarrow> Session \<Rightarrow> Session" where
  "sendTerminalData p terminalId d =
     sendMessage p (M_terminal_action (TA_data
       \<lparr>tmd_terminal_id = terminalId, tmd_data = d, tmd_compressed = False\<rparr>))"

definition resizeTerminal :: "platform \<Rightarrow> int \<Rightarrow> int \<Rightarrow> int \<Rightarrow> Session \<Rightarrow> Session" where
  "resizeTerminal p terminalId rows cols =
     sendMessage p (M_terminal_action (TA_resize terminalId rows cols))"

definition closeTerminal :: "platform \<Rightarrow> int \<Rightarrow> Session \<Rightarrow> Session" where
  "closeTerminal p terminalId = sendMessage p (M_terminal_action (TA_close terminalId))"

definition sendFileAction :: "platform \<Rightarrow> FileAction \<Rightarrow> Session \<Rightarrow> Session" where
  "sendFileAction p u = sendMessage p (M_file_action u)"

definition sendFileResponse :: "platform \<Rightarrow> FileResponse \<Rightarrow> Session \<Rightarrow> Session" where
  "sendFileResponse p u = sendMessage p (M_file_response u)"

definition disconnect :: "Session \<Rightarrow> Session" where
  "disconnect s =
     act CloseAll (if s_state s \<noteq> Closed then setState Closed None False s else s)"

lemmas plain_send_defs =
  sendMouse_def sendKey_def ctrlAltDel_def refresh_def setQuality_def restartRemoteDevice_def
  requestElevation_def setPrivacyMode_def setBlockInput_def setLockAfterSessionEnd_def
  setDisplayOption_def setRemoteAudioEnabled_def setClipboardEnabled_def setClientRecording_def
  sendClipboardText_def sendChat_def openTerminal_def sendTerminalData_def resizeTerminal_def
  closeTerminal_def sendFileAction_def sendFileResponse_def

section \<open>All entry points\<close>

text \<open>One constructor per public method, with the random or external values the call takes.\<close>

datatype (plugins only: code size) session_call =
    SC_start
  | SC_signaling bytes
  | SC_relayOpened
  | SC_relay key_choice bytes
  | SC_resume nat
  | SC_setSupportedDecoding SupportedDecoding
  | SC_mouse int int int "int list"
  | SC_key bool bool KeyKind int "int list"
  | SC_switchDisplay int
  | SC_changeDisplayResolution jsnum jsnum jsnum
  | SC_toggleVirtualDisplay jsnum bool
  | SC_ctrlAltDel
  | SC_refresh
  | SC_setQuality int
  | SC_restartRemoteDevice
  | SC_requestElevation
  | SC_setPrivacyMode jsstr bool
  | SC_setBlockInput bool
  | SC_setLockAfterSessionEnd bool
  | SC_setCustomQuality jsnum
  | SC_setCustomFps jsnum
  | SC_setDisplayOption DisplayOption bool
  | SC_setPreferredCodec int
  | SC_setRemoteAudioEnabled bool
  | SC_setClipboardEnabled bool
  | SC_setClientRecording bool
  | SC_clipboardText jsstr
  | SC_chat jsstr
  | SC_startVoiceCall int
  | SC_closeVoiceCall int
  | SC_voiceAudioFormat int int
  | SC_voiceAudioFrame int bytes
  | SC_openTerminal int int int
  | SC_terminalData int bytes
  | SC_resizeTerminal int int int
  | SC_closeTerminal int
  | SC_fileAction FileAction
  | SC_fileResponse FileResponse
  | SC_disconnect

definition session_step :: "platform \<Rightarrow> session_call \<Rightarrow> Session \<Rightarrow> Session" where
  "session_step p c s =
     (case c of
        SC_start \<Rightarrow> start p s
      | SC_signaling b \<Rightarrow> onSignalingBytes p b s
      | SC_relayOpened \<Rightarrow> relayOpened p s
      | SC_relay rnd b \<Rightarrow> onRelayBytes p rnd b s
      | SC_resume i \<Rightarrow> resume p i s
      | SC_setSupportedDecoding sd \<Rightarrow> setSupportedDecoding p sd s
      | SC_mouse m x y mods \<Rightarrow> sendMouse p m x y mods s
      | SC_key d pr k v mods \<Rightarrow> sendKey p d pr k v mods s
      | SC_switchDisplay i \<Rightarrow> switchDisplay p i s
      | SC_changeDisplayResolution d w h \<Rightarrow> fst (changeDisplayResolution p d w h s)
      | SC_toggleVirtualDisplay d on \<Rightarrow> fst (toggleVirtualDisplay p d on s)
      | SC_ctrlAltDel \<Rightarrow> ctrlAltDel p s
      | SC_refresh \<Rightarrow> refresh p s
      | SC_setQuality q \<Rightarrow> setQuality p q s
      | SC_restartRemoteDevice \<Rightarrow> restartRemoteDevice p s
      | SC_requestElevation \<Rightarrow> requestElevation p s
      | SC_setPrivacyMode k on \<Rightarrow> setPrivacyMode p k on s
      | SC_setBlockInput on \<Rightarrow> setBlockInput p on s
      | SC_setLockAfterSessionEnd on \<Rightarrow> setLockAfterSessionEnd p on s
      | SC_setCustomQuality q \<Rightarrow> fst (setCustomQuality p q s)
      | SC_setCustomFps f \<Rightarrow> fst (setCustomFps p f s)
      | SC_setDisplayOption opt on \<Rightarrow> setDisplayOption p opt on s
      | SC_setPreferredCodec pref \<Rightarrow> fst (setPreferredCodec p pref s)
      | SC_setRemoteAudioEnabled e \<Rightarrow> setRemoteAudioEnabled p e s
      | SC_setClipboardEnabled e \<Rightarrow> setClipboardEnabled p e s
      | SC_setClientRecording r \<Rightarrow> setClientRecording p r s
      | SC_clipboardText t \<Rightarrow> sendClipboardText p t s
      | SC_chat t \<Rightarrow> sendChat p t s
      | SC_startVoiceCall now \<Rightarrow> startVoiceCall p now s
      | SC_closeVoiceCall now \<Rightarrow> closeVoiceCall p now s
      | SC_voiceAudioFormat r ch \<Rightarrow> sendVoiceAudioFormat p r ch s
      | SC_voiceAudioFrame buf d \<Rightarrow> sendVoiceAudioFrame p buf d s
      | SC_openTerminal i r co \<Rightarrow> openTerminal p i r co s
      | SC_terminalData i d \<Rightarrow> sendTerminalData p i d s
      | SC_resizeTerminal i r co \<Rightarrow> resizeTerminal p i r co s
      | SC_closeTerminal i \<Rightarrow> closeTerminal p i s
      | SC_fileAction u \<Rightarrow> sendFileAction p u s
      | SC_fileResponse u \<Rightarrow> sendFileResponse p u s
      | SC_disconnect \<Rightarrow> disconnect s)"

end
