(* ===== verification/Step_System.thy ===== *)
theory Step_System
  imports Main
begin

text \<open>
  Reachable states of a component whose operations are a function of a call and the state,
  and the interface through which every component states an invariant: an \<open>interpretation\<close>
  of \<open>invariant_system\<close> discharges that it holds initially and that each call keeps it.
\<close>

inductive reach :: "('s \<Rightarrow> bool) \<Rightarrow> ('c \<Rightarrow> 's \<Rightarrow> 's) \<Rightarrow> 's \<Rightarrow> bool"
  for init :: "'s \<Rightarrow> bool" and stp :: "'c \<Rightarrow> 's \<Rightarrow> 's"
where
  reach_init: "init s \<Longrightarrow> reach init stp s"
| reach_step: "reach init stp s \<Longrightarrow> reach init stp (stp c s)"

inductive_cases reach_elim: "reach init stp s"

lemma reach_fold: "reach init stp s \<Longrightarrow> reach init stp (fold stp cs s)"
  by (induction cs arbitrary: s) (auto intro: reach_step)

lemma reach_iff_fold: "reach init stp s \<longleftrightarrow> (\<exists>s0 cs. init s0 \<and> s = fold stp cs s0)"
proof
  assume "reach init stp s"
  then show "\<exists>s0 cs. init s0 \<and> s = fold stp cs s0"
  proof induction
    case (reach_init s)
    then have "init s \<and> s = fold stp [] s" by simp
    then show ?case by blast
  next
    case (reach_step s c)
    then obtain s0 cs where "init s0" "s = fold stp cs s0" by blast
    then have "init s0 \<and> stp c s = fold stp (cs @ [c]) s0" by simp
    then show ?case by blast
  qed
qed (auto intro: reach_fold reach_init)

locale invariant_system =
  fixes init :: "'s \<Rightarrow> bool" and stp :: "'c \<Rightarrow> 's \<Rightarrow> 's" and inv :: "'s \<Rightarrow> bool"
  assumes inv_init: "init s \<Longrightarrow> inv s"
    and inv_step: "inv s \<Longrightarrow> inv (stp c s)"
begin

lemma inv_reach: "reach init stp s \<Longrightarrow> inv s"
  by (induction rule: reach.induct) (auto intro: inv_init inv_step)

lemma inv_fold: "inv s \<Longrightarrow> inv (fold stp cs s)"
  by (induction cs arbitrary: s) (auto intro: inv_step)

end

end
