(* ===== verification/Session_Safety.thy ===== *)
theory Session_Safety
  imports Session_Outbound Step_System
begin

text \<open>
  What holds in every reachable state of a session, whatever the servers, the peer and the
  user interface do: the trust chain behind the cipher, the order and nonces of the sealed
  frames, what may travel in plaintext, and when voice may be captured.
\<close>

section \<open>Frame lemmas\<close>

lemma act_fields [simp]:
  "pendingDisplay (act a s) = pendingDisplay s" "s_config (act a s) = s_config s"
  "serverEdPk (act a s) = serverEdPk s" "sessionId (act a s) = sessionId s"
  "s_state (act a s) = s_state s" "cipher (act a s) = cipher s" "peerEdPk (act a s) = peerEdPk s"
  "s_uuid (act a s) = s_uuid s" "decoding (act a s) = decoding s" "loginSent (act a s) = loginSent s"
  "pendingVoiceCallTimestamp (act a s) = pendingVoiceCallTimestamp s"
  "voiceCallAccepted (act a s) = voiceCallAccepted s" "suspended (act a s) = suspended s"
  "trace (act a s) = trace s @ [a]"
  by (simp_all add: act_def)

lemma emit_fields [simp]:
  "pendingDisplay (emit e s) = pendingDisplay s" "s_config (emit e s) = s_config s"
  "serverEdPk (emit e s) = serverEdPk s" "sessionId (emit e s) = sessionId s"
  "s_state (emit e s) = s_state s" "cipher (emit e s) = cipher s" "peerEdPk (emit e s) = peerEdPk s"
  "s_uuid (emit e s) = s_uuid s" "decoding (emit e s) = decoding s" "loginSent (emit e s) = loginSent s"
  "pendingVoiceCallTimestamp (emit e s) = pendingVoiceCallTimestamp s"
  "voiceCallAccepted (emit e s) = voiceCallAccepted s" "suspended (emit e s) = suspended s"
  "trace (emit e s) = trace s @ [Emit e]"
  by (simp_all add: emit_def)

lemma setState_fields [simp]:
  "pendingDisplay (setState st d pinit s) = pendingDisplay s" "s_config (setState st d pinit s) = s_config s"
  "serverEdPk (setState st d pinit s) = serverEdPk s" "sessionId (setState st d pinit s) = sessionId s"
  "s_state (setState st d pinit s) = st" "cipher (setState st d pinit s) = cipher s"
  "peerEdPk (setState st d pinit s) = peerEdPk s" "s_uuid (setState st d pinit s) = s_uuid s"
  "decoding (setState st d pinit s) = decoding s" "loginSent (setState st d pinit s) = loginSent s"
  "suspended (setState st d pinit s) = suspended s"
  "trace (setState st d pinit s) = trace s @ [Emit (Ev_state st d pinit)]"
  "voiceCallAccepted (setState st d pinit s) = (voiceCallAccepted s \<and> st \<noteq> Closed \<and> st \<noteq> ErrorState)"
  "pendingVoiceCallTimestamp (setState st d pinit s) =
     (if st = Closed \<or> st = ErrorState then None else pendingVoiceCallTimestamp s)"
  by (simp_all add: setState_def Let_def)

lemma fail_fields [simp]:
  "pendingDisplay (fail d s) = pendingDisplay s" "s_config (fail d s) = s_config s"
  "serverEdPk (fail d s) = serverEdPk s" "s_state (fail d s) = ErrorState"
  "cipher (fail d s) = cipher s" "peerEdPk (fail d s) = peerEdPk s"
  "decoding (fail d s) = decoding s" "loginSent (fail d s) = loginSent s"
  "suspended (fail d s) = suspended s"
  "trace (fail d s) = trace s @ [Emit (Ev_state ErrorState (Some d) False), CloseAll]"
  "\<not> voiceCallAccepted (fail d s)" "pendingVoiceCallTimestamp (fail d s) = None"
  by (simp_all add: fail_def)

lemma sealSend_fields [simp]:
  "pendingDisplay (sealSend p b s) = pendingDisplay s" "s_config (sealSend p b s) = s_config s"
  "serverEdPk (sealSend p b s) = serverEdPk s" "sessionId (sealSend p b s) = sessionId s"
  "s_state (sealSend p b s) = s_state s" "peerEdPk (sealSend p b s) = peerEdPk s"
  "s_uuid (sealSend p b s) = s_uuid s" "decoding (sealSend p b s) = decoding s"
  "loginSent (sealSend p b s) = loginSent s"
  "pendingVoiceCallTimestamp (sealSend p b s) = pendingVoiceCallTimestamp s"
  "voiceCallAccepted (sealSend p b s) = voiceCallAccepted s"
  "suspended (sealSend p b s) = suspended s"
  by (simp_all add: sealSend_def Let_def split: option.splits prod.splits)

lemma sendMessage_sealSend [simp]: "sendMessage p u s = sealSend p (encMessage (wire p) u) s"
  by (simp add: sendMessage_def sealSend_def)

lemma sendMisc_sealSend [simp]: "sendMisc p u s = sealSend p (encMessage (wire p) (M_misc u)) s"
  by (simp add: sendMisc_def)

text \<open>Every outbound control that only sends is one sealed frame.\<close>

lemmas plain_sends = plain_send_defs sendMessage_sealSend sendMisc_sealSend

section \<open>The trust chain and the sealed frames\<close>

fun sealed_frames :: "action list \<Rightarrow> bytes list" where
  "sealed_frames [] = []"
| "sealed_frames (SendSealed b # as) = b # sealed_frames as"
| "sealed_frames (_ # as) = sealed_frames as"

lemma sealed_frames_append [simp]: "sealed_frames (as @ bs) = sealed_frames as @ sealed_frames bs"
  by (induction as rule: sealed_frames.induct) auto

fun plain_frames :: "action list \<Rightarrow> bytes list" where
  "plain_frames [] = []"
| "plain_frames (SendRelay b # as) = b # plain_frames as"
| "plain_frames (_ # as) = plain_frames as"

lemma plain_frames_append [simp]: "plain_frames (as @ bs) = plain_frames as @ plain_frames bs"
  by (induction as rule: plain_frames.induct) auto

text \<open>
  A key both ends of an authenticated chain share: the server's key signed the peer's signing
  key for this peer id, that key signed the peer's box key for the same id, and the session
  key was sealed for that box key.
\<close>

definition trust_chain :: "platform \<Rightarrow> bytes \<Rightarrow> jsstr \<Rightarrow> bytes \<Rightarrow> bool" where
  "trust_chain p serverPk pid key \<longleftrightarrow>
     (\<exists>rr pk signed i boxPk rnd k.
        verifyServerRelayPk (sod p) (wire p) rr serverPk pid = Inr pk \<and>
        verifyPeerSignedId (sod p) (wire p) signed pk = Inr (i, boxPk) \<and>
        hd (js_split 0 i) = pid \<and>
        sealSymmetricKey (sod p) rnd boxPk = Inr k \<and> key = sealed_key k)"

definition plaintext_ok :: "platform \<Rightarrow> bytes \<Rightarrow> bool" where
  "plaintext_ok p b \<longleftrightarrow>
     (\<exists>opts. b = buildRequestRelay (wire p) opts) \<or>
     (\<exists>rnd pk k. buildPublicKeyMessage (sod p) (wire p) rnd pk = Inr (b, k))"

definition secure :: "platform \<Rightarrow> Session \<Rightarrow> bool" where
  "secure p s \<longleftrightarrow>
     (\<forall>pk. peerEdPk s = Some pk \<longrightarrow>
        (\<exists>rr. verifyServerRelayPk (sod p) (wire p) rr (serverEdPk s) (peerId (s_config s)) = Inr pk)) \<and>
     (cipher s = None \<longrightarrow> sealed_frames (trace s) = []) \<and>
     (\<forall>c. cipher s = Some c \<longrightarrow>
        trust_chain p (serverEdPk s) (peerId (s_config s)) (cipher_key c) \<and>
        (\<exists>us. sendSeq c = length us \<and>
           sealed_frames (trace s) =
             snd (seal_all (sod p) (newStreamCipher (cipher_key c)) (map (encMessage (wire p)) us)))) \<and>
     (\<forall>b \<in> set (plain_frames (trace s)). plaintext_ok p b) \<and>
     (s_state s \<in> {Closed, ErrorState} \<longrightarrow> \<not> voiceCallAccepted s)"

lemma seal_all_snoc:
  "snd (seal_all sd c (ms @ [m])) =
     snd (seal_all sd c ms) @ [snd (seal sd (c\<lparr>sendSeq := sendSeq c + length ms\<rparr>) m)]"
proof (induction ms arbitrary: c)
  case (Cons a ms)
  have "c\<lparr>sendSeq := Suc (sendSeq c)\<rparr>\<lparr>sendSeq := Suc (sendSeq c) + length ms\<rparr>
      = c\<lparr>sendSeq := sendSeq c + length (a # ms)\<rparr>" by simp
  with Cons [of "c\<lparr>sendSeq := Suc (sendSeq c)\<rparr>"] show ?case
    by (simp add: seal_def Let_def case_prod_beta)
qed (simp add: Let_def case_prod_beta)

lemma secure_sealSend: "secure p s \<Longrightarrow> secure p (sealSend p (encMessage (wire p) u) s)"
proof (cases "cipher s")
  case (Some c)
  let ?b = "encMessage (wire p) u"
  assume sec: "secure p s"
  then obtain us where us: "sendSeq c = length us"
      "sealed_frames (trace s) =
         snd (seal_all (sod p) (newStreamCipher (cipher_key c)) (map (encMessage (wire p)) us))"
    using Some by (auto simp: secure_def)
  let ?c' = "c\<lparr>sendSeq := Suc (sendSeq c)\<rparr>"
  have ct: "snd (seal (sod p) \<lparr>sendSeq = length us, recvSeq = 0, cipher_key = cipher_key c\<rparr> ?b)
      = snd (seal (sod p) c ?b)"
    using us(1) by (simp add: seal_def Let_def)
  have st: "cipher (sealSend p ?b s) = Some ?c'"
      "trace (sealSend p ?b s) = trace s @ [SendSealed (snd (seal (sod p) c ?b))]"
    using Some by (simp_all add: sealSend_def seal_def Let_def)
  have "sealed_frames (trace (sealSend p ?b s)) =
        snd (seal_all (sod p) (newStreamCipher (cipher_key c)) (map (encMessage (wire p)) (us @ [u])))"
    unfolding map_append list.map seal_all_snoc
    by (simp add: st us(2) ct newStreamCipher_def [of "cipher_key c"])
  then have "\<exists>us'. sendSeq ?c' = length us' \<and>
      sealed_frames (trace (sealSend p ?b s)) =
        snd (seal_all (sod p) (newStreamCipher (cipher_key c)) (map (encMessage (wire p)) us'))"
    by (intro exI [of _ "us @ [u]"]) (simp add: us(1))
  with sec Some st show ?thesis by (simp add: secure_def)
qed (simp add: sealSend_def)

lemma secure_sealLogin: "secure p s \<Longrightarrow> secure p (sealSend p (buildLoginRequest (wire p) opts) s)"
  unfolding buildLoginRequest_def by (rule secure_sealSend)

text \<open>What a step that sends nothing sealed has to leave alone.\<close>

lemma secure_frame:
  assumes "secure p s"
    and "peerId (s_config t) = peerId (s_config s)" "serverEdPk t = serverEdPk s"
    and "peerEdPk t = peerEdPk s" "cipher t = cipher s"
    and "sealed_frames (trace t) = sealed_frames (trace s)"
    and "plain_frames (trace t) = plain_frames (trace s)"
    and "s_state t \<in> {Closed, ErrorState} \<Longrightarrow> \<not> voiceCallAccepted t"
  shows "secure p t"
  using assms by (simp add: secure_def)

lemma secure_voice: "secure p s \<Longrightarrow> s_state s \<in> {Closed, ErrorState} \<Longrightarrow> \<not> voiceCallAccepted s"
  by (auto simp: secure_def)

lemma secure_act:
  assumes "secure p s" "sealed_frames [a] = []" "plain_frames [a] = []"
  shows "secure p (act a s)"
  by (rule secure_frame [OF assms(1)]) (use assms secure_voice in auto)

lemma secure_emit: "secure p s \<Longrightarrow> secure p (emit e s)"
  unfolding emit_def by (rule secure_act) simp_all

lemma secure_setState: "secure p s \<Longrightarrow> secure p (setState st d pinit s)"
  by (erule secure_frame) auto

lemma secure_fail: "secure p s \<Longrightarrow> secure p (fail d s)"
  by (erule secure_frame) auto

lemma secure_update:
  assumes "secure p s"
  shows "secure p (s\<lparr>loginSent := b\<rparr>)" "secure p (s\<lparr>pendingDisplay := i\<rparr>)"
    "secure p (s\<lparr>decoding := sd\<rparr>)" "secure p (s\<lparr>suspended := cs\<rparr>)"
    "secure p (s\<lparr>pendingVoiceCallTimestamp := ts\<rparr>)"
    "secure p (s\<lparr>pendingVoiceCallTimestamp := ts, voiceCallAccepted := False\<rparr>)"
    "secure p (s\<lparr>s_config := (s_config s)\<lparr>password := pw\<rparr>\<rparr>)"
  by (rule secure_frame [OF assms]; use assms secure_voice in auto)+

lemmas secure_intros =
  secure_emit secure_setState secure_fail secure_sealSend secure_sealLogin secure_update

lemma secure_start: "secure p s \<Longrightarrow> secure p (start p s)"
  unfolding start_def by (intro secure_setState secure_act) simp_all

lemma secure_onSignalingBytes:
  assumes "secure p s"
  shows "secure p (onSignalingBytes p b s)"
proof -
  have link: "secure p (s\<lparr>peerEdPk := Some pk, s_uuid := u\<rparr>)"
    if "verifyServerRelayPk (sod p) (wire p) k (serverEdPk s) (peerId (s_config s)) = Inr pk" for k pk u
    using assms that by (auto simp: secure_def)
  show ?thesis
    using assms
    by (auto simp: onSignalingBytes_def intro!: secure_fail secure_act secure_setState intro: link
        split: sum.splits RendezvousParsed.splits option.splits)
qed

lemma secure_relayOpened: "secure p s \<Longrightarrow> secure p (relayOpened p s)"
  unfolding relayOpened_def
  by (intro secure_setState) (auto simp: secure_def plaintext_ok_def)

lemma secure_onFirstRelayFrame:
  assumes "secure p s" "cipher s = None"
  shows "secure p (onFirstRelayFrame p rnd b s)"
proof -
  have install: "secure p ((act (SendRelay bs) s)\<lparr>cipher := Some (newStreamCipher k)\<rparr>)"
    if "peerEdPk s = Some pk" "verifyPeerSignedId (sod p) (wire p) sid pk = Inr (i, boxPk)"
      "hd (js_split 0 i) = peerId (s_config s)"
      "buildPublicKeyMessage (sod p) (wire p) rnd boxPk = Inr (bs, k)" for pk sid i boxPk bs k
  proof -
    from that(4) obtain sk where sk: "sealSymmetricKey (sod p) rnd boxPk = Inr sk" "k = sealed_key sk"
      by (auto simp: buildPublicKeyMessage_def split: sum.splits)
    from assms(1) that(1) obtain rr where
      "verifyServerRelayPk (sod p) (wire p) rr (serverEdPk s) (peerId (s_config s)) = Inr pk"
      by (auto simp: secure_def)
    with that(2,3) sk have tc: "trust_chain p (serverEdPk s) (peerId (s_config s)) k"
      unfolding trust_chain_def by blast
    have "plaintext_ok p bs" using that(4) by (auto simp: plaintext_ok_def)
    with tc assms show ?thesis
      by (auto simp: secure_def newStreamCipher_def intro!: exI [of _ "[]"])
  qed
  show ?thesis
  proof (cases "decMessage (wire p) b")
    case (Inl e)
    with assms show ?thesis by (simp add: onFirstRelayFrame_def secure_fail)
  next
    case (Inr m)
    show ?thesis
    proof (cases "\<exists>sid. m = M_signed_id sid")
      case True
      with Inr assms show ?thesis
        by (auto simp: onFirstRelayFrame_def intro!: secure_fail intro: install split: sum.split option.split)
    next
      case False
      with Inr have "\<exists>text. onFirstRelayFrame p rnd b s = fail text s"
        by (cases m) (simp_all add: onFirstRelayFrame_def, blast+)
      then show ?thesis using assms secure_fail by metis
    qed
  qed
qed

lemma secure_handleClipboard: "secure p s \<Longrightarrow> secure p (handleClipboard q cb s)"
  by (simp add: handleClipboard_def secure_emit secure_act)

lemma secure_fold_clipboard: "secure p s \<Longrightarrow> secure p (fold (handleClipboard q) cbs s)"
  by (induction cbs arbitrary: s) (auto intro: secure_handleClipboard)

lemma secure_dispatchMisc: "secure p s \<Longrightarrow> secure p (dispatchMisc m s)"
  by (auto simp: dispatchMisc_def intro!: secure_emit secure_act secure_setState secure_update
      split: Misc.splits BackUnion.splits)

lemma secure_sendLogin: "secure p s \<Longrightarrow> secure p (sendLogin p h s)"
  by (simp add: sendLogin_def Let_def secure_intros)

lemma secure_onHash:
  assumes "secure p s"
  shows "secure p (onHash p salt ch s)"
proof -
  have "secure p (setState Login None False s\<lparr>s_config := s_config s\<lparr>password := []\<rparr>\<rparr>)"
    using secure_update(7) [OF secure_setState [OF assms, of Login None False], of "[]"] by simp
  then show ?thesis
    unfolding onHash_def Let_def
    by (auto split: option.splits list.splits intro!: secure_sendLogin secure_update(4))
qed

lemma secure_resume: "secure p s \<Longrightarrow> secure p (resume p i s)"
  unfolding resume_def Let_def
  by (auto split: continuation.splits option.splits
      intro!: secure_sendLogin secure_update secure_emit)

lemma secure_onTerminalResponse: "secure p s \<Longrightarrow> secure p (onTerminalResponse r s)"
  by (simp add: onTerminalResponse_def secure_emit split: TerminalResponse.splits)

lemma secure_onVoiceCallRequest: "secure p s \<Longrightarrow> secure p (onVoiceCallRequest b s)"
  by (simp add: onVoiceCallRequest_def Let_def secure_intros)

lemma secure_onVoiceCallResponse:
  assumes "secure p s" "s_state s \<noteq> Closed" "s_state s \<noteq> ErrorState"
  shows "secure p (onVoiceCallResponse acc ts s)"
proof -
  have "secure p (s\<lparr>pendingVoiceCallTimestamp := None, voiceCallAccepted := acc\<rparr>)"
    using assms by (intro secure_frame [OF assms(1)]) auto
  then show ?thesis
    using assms(1) by (auto simp: onVoiceCallResponse_def Let_def
        intro!: secure_emit secure_update split: option.splits)
qed

lemma secure_dispatch:
  assumes "secure p s" "s_state s \<noteq> Closed" "s_state s \<noteq> ErrorState"
  shows "secure p (dispatch p m s)"
  using assms
  by (auto simp: dispatch_def emitPeerInfo_def Let_def ackVideo_def onVideo_sink_def
      intro!: secure_emit secure_act secure_setState secure_sealSend secure_onHash
        secure_dispatchMisc secure_handleClipboard secure_fold_clipboard secure_onTerminalResponse
        secure_onVoiceCallRequest secure_onVoiceCallResponse
      split: Message.splits LoginResponseUnion.splits FileAction.splits)


lemma secure_openRelayBytes:
  assumes "secure p s" "cipher s \<noteq> None"
  shows "secure p (fst (openRelayBytes p b s))"
proof -
  obtain c where c: "cipher s = Some c" using assms(2) by blast
  define c' where "c' = fst (open_ct (sod p) c b)"
  have "cipher_key c' = cipher_key c" "sendSeq c' = sendSeq c"
    by (simp_all add: c'_def open_ct_def Let_def)
  with assms(1) c have "secure p (s\<lparr>cipher := Some c'\<rparr>)" by (simp add: secure_def)
  then show ?thesis
    by (auto simp: openRelayBytes_def c Let_def case_prod_beta c'_def intro: secure_fail
        split: sum.splits)
qed

lemma openRelayBytes_state:
  "snd (openRelayBytes p b s) = Some m \<Longrightarrow>
     s_state (fst (openRelayBytes p b s)) = s_state s \<and>
     pendingVoiceCallTimestamp (fst (openRelayBytes p b s)) = pendingVoiceCallTimestamp s \<and>
     voiceCallAccepted (fst (openRelayBytes p b s)) = voiceCallAccepted s \<and>
     pendingDisplay (fst (openRelayBytes p b s)) = pendingDisplay s \<and>
     trace (fst (openRelayBytes p b s)) = trace s"
  by (auto simp: openRelayBytes_def Let_def case_prod_beta split: option.splits sum.splits if_splits)

lemma secure_onRelayBytes:
  assumes "secure p s"
  shows "secure p (onRelayBytes p rnd b s)"
proof (cases "s_state s = ErrorState \<or> s_state s = Closed \<or> cipher s = None")
  case True
  then show ?thesis
    using assms by (auto simp: onRelayBytes_def intro: secure_onFirstRelayFrame)
next
  case False
  then have o: "secure p (fst (openRelayBytes p b s))"
    using assms by (auto intro: secure_openRelayBytes)
  show ?thesis
  proof (cases "snd (openRelayBytes p b s)")
    case None
    with o False show ?thesis
      by (auto simp: onRelayBytes_def case_prod_beta)
  next
    case (Some m)
    with o False openRelayBytes_state [OF Some] show ?thesis
      by (auto simp: onRelayBytes_def case_prod_beta intro!: secure_dispatch)
  qed
qed

lemma secure_session_step:
  assumes "secure p s"
  shows "secure p (session_step p c s)"
  using assms
  by (cases c)
    (simp_all add: session_step_def plain_sends secure_start secure_onSignalingBytes
      secure_relayOpened secure_onRelayBytes secure_resume secure_intros secure_act Let_def
      setSupportedDecoding_def switchDisplay_def changeDisplayResolution_def toggleVirtualDisplay_def
      setCustomQuality_def setCustomFps_def setPreferredCodec_def startVoiceCall_def
      closeVoiceCall_def sendVoiceAudioFormat_def sendVoiceAudioFrame_def disconnect_def)

definition session_init :: "platform \<Rightarrow> Session \<Rightarrow> bool" where
  "session_init p s \<longleftrightarrow> (\<exists>config rnd. newSession p config rnd = Inr s)"

lemma newSession_fields:
  assumes "newSession p config rnd = Inr s"
  shows "peerEdPk s = None" "cipher s = None" "trace s = []" "s_state s = Connecting"
    "\<not> voiceCallAccepted s" "suspended s = []" "s_config s = config"
  using assms by (cases "decodeB64 (sod p) (serverKeyB64 config)"; force simp: newSession_def)+

interpretation session: invariant_system "session_init p" "session_step p" "secure p"
  for p :: platform
proof
  show "secure p s" if "session_init p s" for s
    using that by (auto simp: session_init_def secure_def newSession_fields)
  show "secure p (session_step p c s)" if "secure p s" for c s
    using that by (rule secure_session_step)
qed

abbreviation session_reach :: "platform \<Rightarrow> Session \<Rightarrow> bool" where
  "session_reach p \<equiv> reach (session_init p) (session_step p)"

text \<open>
  C1. The encrypted channel is authenticated end to end. In every reachable state, if the
  stream cipher is installed then its key was sealed for a box key that the peer's signing
  key vouches for under the expected peer id, and that signing key is vouched for by the
  configured server key under the same id: no order of server, peer or user events installs
  a cipher without both links.
\<close>

theorem cipher_requires_trust_chain:
  assumes "session_reach p s" "cipher s = Some c"
  shows "trust_chain p (serverEdPk s) (peerId (s_config s)) (cipher_key c)"
  using session.inv_reach [OF assms(1)] assms(2) by (simp add: secure_def)

text \<open>
  C2. The frames a session seals use the nonces 1, 2, 3, ... in order under one key: in every
  reachable state the sealed frames are the encryption of encoded messages with a fresh
  cipher of the session key, so (below 2 to the 64 frames) no nonce repeats, and nothing is
  sealed before the cipher exists.
\<close>

theorem sealed_frames_in_order:
  assumes "session_reach p s"
  shows "case cipher s of
           None \<Rightarrow> sealed_frames (trace s) = []
         | Some c \<Rightarrow> \<exists>us. length us = sendSeq c \<and>
             sealed_frames (trace s) =
               map2 (\<lambda>u n. crypto_secretbox_easy (sod p) (encMessage (wire p) u) n (cipher_key c)) us
                 (map buildNonce [1..<Suc (length us)]) \<and>
             (length us < 2 ^ 64 \<longrightarrow> distinct (map buildNonce [1..<Suc (length us)]))"
proof (cases "cipher s")
  case None
  with session.inv_reach [OF assms] show ?thesis by (simp add: secure_def)
next
  case (Some c)
  with session.inv_reach [OF assms] obtain us where
    "sendSeq c = length us"
    "sealed_frames (trace s) =
       snd (seal_all (sod p) (newStreamCipher (cipher_key c)) (map (encMessage (wire p)) us))"
    by (auto simp: secure_def)
  moreover have "seal_nonces (newStreamCipher (cipher_key c)) n = map buildNonce [1..<Suc n]" for n
    by (simp add: seal_nonces_def newStreamCipher_def del: upt_Suc)
  ultimately show ?thesis
    using Some seal_nonces_distinct [of "length us" "newStreamCipher (cipher_key c)"]
    by (auto simp: seal_all_ciphertexts zip_map1 comp_def case_prod_beta simp del: upt_Suc intro!: exI [of _ us])
       (simp_all add: newStreamCipher_def)
qed

text \<open>
  C3. Nothing but the relay request and the key exchange travels in plaintext: every frame a
  reachable session hands to the relay outside the cipher is one of these two messages.
\<close>

theorem plaintext_only_handshake:
  assumes "session_reach p s" "SendRelay b \<in> set (trace s)"
  shows "(\<exists>opts. b = buildRequestRelay (wire p) opts) \<or>
         (\<exists>rnd pk k. buildPublicKeyMessage (sod p) (wire p) rnd pk = Inr (b, k))"
proof -
  have "SendRelay b \<in> set as \<Longrightarrow> b \<in> set (plain_frames as)" for as
    by (induction as rule: plain_frames.induct) auto
  with assms session.inv_reach [OF assms(1)] show ?thesis
    by (auto simp: secure_def plaintext_ok_def)
qed


section \<open>A concrete run\<close>

text \<open>
  A platform with transparent primitives and a peer that answers at once, to evaluate the
  handshake on: signatures and boxes carry their message, every rendezvous frame is a relay
  response and every relay frame a signed id.
\<close>

definition demo_platform :: platform where
  "demo_platform =
     \<lparr>sod = plain_sodium\<lparr>from_base64 := \<lambda>s. Inr [9], crypto_sign_open := \<lambda>m k. Inr m,
                         crypto_box_easy := \<lambda>m n pk k. Inr m\<rparr>,
      wire = \<lparr>encMessage = \<lambda>m. [], decMessage = \<lambda>b. Inr (M_signed_id b),
              decIdPk = \<lambda>b. Inr \<lparr>idpk_id = [], idpk_pk = b\<rparr>, encRendezvous = \<lambda>m. [],
              decRendezvous = \<lambda>b. Inr (R_relay_response
                \<lparr>rr_socket_addr = [], rr_uuid = [], rr_relay_server = [], rr_union = RU_pk b,
                 rr_refuse_reason = [], rr_version = [], rr_feedback = 0, rr_socket_addr_v6 = [],
                 rr_upnp_port = 0\<rparr>)\<rparr>,
      json_parse = \<lambda>s. None, utf8_dec = \<lambda>b. []\<rparr>"

definition demo_config :: SessionConfig where
  "demo_config =
     \<lparr>peerId = [], serverKeyB64 = [], wsIdUrl = [], wsRelayUrl = [], password = [], myId = [],
      myName = [], savedHashHex = None, config_connType = None, terminalServiceId = None,
      terminalPersistent = None\<rparr>"

definition demo_calls :: "session_call list" where
  "demo_calls =
     [SC_start, SC_signaling [1], SC_relayOpened,
      SC_relay \<lparr>rnd_key = [5, 6], eph_publicKey = [7], eph_privateKey = [8]\<rparr> [2], SC_refresh]"

definition demo_session :: Session where
  "demo_session =
     fold (session_step demo_platform) demo_calls
       (case newSession demo_platform demo_config (replicate 8 0) of Inr s \<Rightarrow> s | Inl _ \<Rightarrow> undefined)"

lemmas demo_defs =
  demo_session_def demo_calls_def demo_platform_def demo_config_def newSession_def decodeB64_def
  session_step_def start_def onSignalingBytes_def parseRendezvous_def parse_rendezvous_def
  verifyServerRelayPk_def decodeIdPk_def signOpen_def relayOpened_def onRelayBytes_def
  onFirstRelayFrame_def verifyPeerSignedId_def buildPublicKeyMessage_def sealSymmetricKey_def
  refresh_def

lemma demo_reach: "session_reach demo_platform demo_session"
proof -
  have "session_init demo_platform
      (case newSession demo_platform demo_config (replicate 8 0) of Inr s \<Rightarrow> s | Inl _ \<Rightarrow> undefined)"
    by (auto simp: session_init_def newSession_def decodeB64_def demo_platform_def)
  then show ?thesis
    unfolding demo_session_def by (intro reach_fold reach_init)
qed

lemma demo_cipher:
  "cipher demo_session = Some \<lparr>sendSeq = 1, recvSeq = 0, cipher_key = [5, 6]\<rparr>"
  by (simp add: demo_defs sealSend_def seal_def newStreamCipher_def Let_def)

lemma demo_trace: "SendRelay [] \<in> set (trace demo_session)"
  by (simp add: demo_defs sealSend_def seal_def newStreamCipher_def Let_def buildRequestRelay_def)


theorem cipher_requires_trust_chain_witness:
  "cipher demo_session = Some \<lparr>sendSeq = 1, recvSeq = 0, cipher_key = [5, 6]\<rparr> \<and>
   trust_chain demo_platform (serverEdPk demo_session) (peerId (s_config demo_session)) [5, 6]"
  using cipher_requires_trust_chain [OF demo_reach demo_cipher] demo_cipher by simp

theorem sealed_frames_in_order_witness:
  "\<exists>us. length us = 1 \<and> sealed_frames (trace demo_session) =
     map2 (\<lambda>u n. crypto_secretbox_easy (sod demo_platform) (encMessage (wire demo_platform) u) n [5, 6]) us
       (map buildNonce [1..<Suc (length us)])"
  using sealed_frames_in_order [OF demo_reach] by (auto simp: demo_cipher simp del: upt_Suc)

theorem plaintext_only_handshake_witness:
  "SendRelay [] \<in> set (trace demo_session) \<and>
   ((\<exists>opts. [] = buildRequestRelay (wire demo_platform) opts) \<or>
    (\<exists>rnd pk k. buildPublicKeyMessage (sod demo_platform) (wire demo_platform) rnd pk = Inr ([], k)))"
  using plaintext_only_handshake [OF demo_reach demo_trace] demo_trace by simp

end
