(* ===== verification/Session_Behaviour.thy ===== *)
theory Session_Behaviour
  imports Session_Safety "HOL-Library.Sublist"
begin

text \<open>
  Behaviour of a session over sequences of calls: a finished session is deaf, voice needs a
  matching response, display switches ignore stale broadcasts, and a remembered credential
  logs in like the password it came from.
\<close>

lemma trace_sealSend:
  "trace (sealSend p b s) =
     trace s @ (case cipher s of None \<Rightarrow> [] | Some c \<Rightarrow> [SendSealed (snd (seal (sod p) c b))])"
  by (simp add: sealSend_def Let_def case_prod_beta split: option.splits)

section \<open>A finished session\<close>

definition final :: "Session \<Rightarrow> bool" where
  "final s \<longleftrightarrow> s_state s = Closed \<or> s_state s = ErrorState"

text \<open>Actions only the servers or the peer can cause.\<close>

fun peer_driven :: "action \<Rightarrow> bool" where
  "peer_driven (OnVideo _) = True"
| "peer_driven (OnAudioFormat _ _) = True"
| "peer_driven (OnAudioFrame _) = True"
| "peer_driven (OpenRelay _) = True"
| "peer_driven (OnCursor _) = True"
| "peer_driven (OnCursorId _) = True"
| "peer_driven (OnClipboard _) = True"
| "peer_driven (OnFileResponse _) = True"
| "peer_driven (OnFileSendConfirm _) = True"
| "peer_driven (Emit (Ev_clipboard _)) = True"
| "peer_driven (Emit (Ev_peerInfo _)) = True"
| "peer_driven (Emit (Ev_chat _)) = True"
| "peer_driven (Emit (Ev_terminalData _ _ _)) = True"
| "peer_driven _ = False"

lemma peer_driven_sealSend [simp]:
  "filter peer_driven (trace (sealSend p b s)) = filter peer_driven (trace s)"
  by (simp add: trace_sealSend split: option.splits)

definition deaf :: "Session \<Rightarrow> Session \<Rightarrow> bool" where
  "deaf s t \<longleftrightarrow> final t \<and> filter peer_driven (trace t) = filter peer_driven (trace s)"

lemma final_inbound [simp]:
  "final s \<Longrightarrow> onSignalingBytes p b s = s" "final s \<Longrightarrow> onRelayBytes p rnd b s = s"
  by (auto simp: final_def onSignalingBytes_def onRelayBytes_def)

lemma final_fields [simp]:
  "final (act a s) = final s" "final (emit e s) = final s" "final (sealSend p b s) = final s"
  "final (s\<lparr>pendingDisplay := i\<rparr>) = final s" "final (s\<lparr>decoding := sd\<rparr>) = final s"
  "final (s\<lparr>loginSent := l\<rparr>) = final s" "final (s\<lparr>suspended := cs\<rparr>) = final s"
  "final (s\<lparr>pendingVoiceCallTimestamp := ts\<rparr>) = final s"
  "final (s\<lparr>pendingVoiceCallTimestamp := ts, voiceCallAccepted := acc\<rparr>) = final s"
  "final (setState Closed d pinit s)"
  by (simp_all add: final_def)

lemma deaf_step:
  assumes "final s" "c \<noteq> SC_start" "c \<noteq> SC_relayOpened"
  shows "deaf s (session_step p c s)"
proof -
  have resume: "deaf s (resume p i s)" for i
    using assms(1)
    by (simp add: resume_def Let_def deaf_def sendLogin_def
        split: continuation.split option.split)
  show ?thesis
    using assms resume
    by (cases c)
      (simp_all add: session_step_def deaf_def plain_sends Let_def
        setSupportedDecoding_def switchDisplay_def changeDisplayResolution_def
        toggleVirtualDisplay_def setCustomQuality_def setCustomFps_def setPreferredCodec_def
        startVoiceCall_def closeVoiceCall_def sendVoiceAudioFormat_def sendVoiceAudioFrame_def
        disconnect_def)
qed


section \<open>Voice calls\<close>

lemma dispatch_voice:
  assumes "voiceCallAccepted (dispatch p m s)" "\<not> voiceCallAccepted s"
  shows "\<exists>ts ack. m = M_voice_call_response True ts ack \<and> pendingVoiceCallTimestamp s = Some ts"
proof -
  have fold: "voiceCallAccepted (fold (handleClipboard p) cbs t) = voiceCallAccepted t" for cbs t
    by (induction cbs arbitrary: t) (simp_all add: handleClipboard_def)
  have login: "voiceCallAccepted (sendLogin p h t) = voiceCallAccepted t" for h t
    by (simp add: sendLogin_def Let_def)
  show ?thesis
    using assms
    by (cases m)
      (simp_all add: dispatch_def fold emitPeerInfo_def Let_def ackVideo_def onVideo_sink_def
        handleClipboard_def onHash_def login dispatchMisc_def onTerminalResponse_def
        onVoiceCallRequest_def onVoiceCallResponse_def
        split: LoginResponseUnion.splits FileAction.splits option.splits list.splits Misc.splits
          BackUnion.splits TerminalResponse.splits if_splits)
qed

lemma step_voice:
  assumes "voiceCallAccepted (session_step p c s)" "\<not> voiceCallAccepted s"
  shows "\<exists>rnd b ts ack. c = SC_relay rnd b \<and> snd (openRelayBytes p b s) = Some (M_voice_call_response True ts ack)
           \<and> pendingVoiceCallTimestamp s = Some ts \<and> \<not> final s"
proof -
  have first: "\<not> voiceCallAccepted (onFirstRelayFrame p rnd b s)" for rnd b
    using assms(2)
    by (simp add: onFirstRelayFrame_def split: sum.split Message.split option.split prod.split)
  have res: "\<not> voiceCallAccepted (resume p i s)" for i
    using assms(2)
    by (simp add: resume_def Let_def sendLogin_def split: continuation.split option.split)
  have sig: "\<not> voiceCallAccepted (onSignalingBytes p b s)" for b
    using assms(2)
    by (simp add: onSignalingBytes_def split: sum.split RendezvousParsed.split option.split)
  show ?thesis
  proof (cases "\<exists>rnd b. c = SC_relay rnd b")
    case False
    with assms res sig show ?thesis
      by (cases c)
        (simp_all add: session_step_def plain_sends Let_def start_def relayOpened_def
          setSupportedDecoding_def switchDisplay_def changeDisplayResolution_def
          toggleVirtualDisplay_def setCustomQuality_def setCustomFps_def setPreferredCodec_def
          startVoiceCall_def closeVoiceCall_def sendVoiceAudioFormat_def sendVoiceAudioFrame_def
          disconnect_def split: if_splits)
  next
    case True
    then obtain rnd b where c: "c = SC_relay rnd b" by blast
    with assms have acc: "voiceCallAccepted (onRelayBytes p rnd b s)" by (simp add: session_step_def)
    show ?thesis
    proof (cases "snd (openRelayBytes p b s)")
      case None
      have "\<not> voiceCallAccepted (fst (openRelayBytes p b s))"
        using assms(2) None
        by (simp add: openRelayBytes_def Let_def case_prod_beta split: option.splits sum.splits)
      with None acc assms(2) first show ?thesis
        by (simp add: onRelayBytes_def case_prod_beta split: if_splits)
    next
      case (Some m)
      note o = openRelayBytes_state [OF Some]
      from acc Some assms(2) first have "voiceCallAccepted (dispatch p m (fst (openRelayBytes p b s)))"
        and "\<not> final s"
        by (auto simp: onRelayBytes_def case_prod_beta final_def split: if_splits)
      with dispatch_voice [OF this(1)] o assms(2) c Some show ?thesis by auto
    qed
  qed
qed

fun voice_sends :: "session_call \<Rightarrow> bool" where
  "voice_sends (SC_voiceAudioFormat _ _) = True"
| "voice_sends (SC_voiceAudioFrame _ _) = True"
| "voice_sends _ = False"

text \<open>
  C25. Voice is only ever sent under a call the peer accepted. From a state without an
  accepted call, if a later call of a sequence makes the session accept, then that call is a
  relay frame that decrypts to an acceptance whose timestamp equals the request outstanding
  at that moment; until then every attempt to send voice leaves the session unchanged.
\<close>

theorem voice_requires_matching_response:
  assumes "\<not> voiceCallAccepted s"
  shows "(voice_sends c \<longrightarrow> session_step p c s = s) \<and>
         (voiceCallAccepted (session_step p c s) \<longrightarrow>
            (\<exists>rnd b ts ack. c = SC_relay rnd b \<and>
               snd (openRelayBytes p b s) = Some (M_voice_call_response True ts ack) \<and>
               pendingVoiceCallTimestamp s = Some ts \<and> \<not> final s))"
proof
  show "voice_sends c \<longrightarrow> session_step p c s = s"
    using assms by (cases c) (simp_all add: session_step_def sendVoiceAudioFormat_def sendVoiceAudioFrame_def)
qed (use step_voice [OF _ assms] in blast)

section \<open>Display switches\<close>

fun switch_indices :: "action list \<Rightarrow> int list" where
  "switch_indices [] = []"
| "switch_indices (Emit (Ev_switchDisplay e) # as) = se_index e # switch_indices as"
| "switch_indices (_ # as) = switch_indices as"

lemma switch_indices_append [simp]:
  "switch_indices (as @ bs) = switch_indices as @ switch_indices bs"
  by (induction as rule: switch_indices.induct) auto

lemma switch_indices_sealSend [simp]:
  "switch_indices (trace (sealSend p b s)) = switch_indices (trace s)"
  by (simp add: trace_sealSend split: option.split)

text \<open>The display part of the state: what is outstanding and what was announced.\<close>

definition shown :: "Session \<Rightarrow> int option \<times> int list" where
  "shown s = (pendingDisplay s, switch_indices (trace s))"

lemma shown_fields [simp]:
  "switch_indices [a] = [] \<Longrightarrow> shown (act a s) = shown s"
  "switch_indices [Emit e] = [] \<Longrightarrow> shown (emit e s) = shown s"
  "shown (setState st d pinit s) = shown s" "shown (fail e' s) = shown s"
  "shown (sealSend p b s) = shown s" "shown (s\<lparr>decoding := sd\<rparr>) = shown s"
  "shown (s\<lparr>loginSent := l\<rparr>) = shown s" "shown (s\<lparr>suspended := cs\<rparr>) = shown s"
  "shown (s\<lparr>pendingVoiceCallTimestamp := ts\<rparr>) = shown s"
  "shown (s\<lparr>voiceCallAccepted := acc\<rparr>) = shown s"
  "shown (s\<lparr>pendingVoiceCallTimestamp := ts, voiceCallAccepted := acc\<rparr>) = shown s"
  "shown (s\<lparr>peerEdPk := k, s_uuid := u\<rparr>) = shown s" "shown (s\<lparr>cipher := c\<rparr>) = shown s"
  "shown (s\<lparr>s_config := cf\<rparr>) = shown s"
  by (simp_all add: shown_def)

lemma shown_clipboards [simp]: "shown (fold (handleClipboard p) cbs s) = shown s"
  by (induction cbs arbitrary: s) (simp_all add: handleClipboard_def)

lemma shown_sendLogin [simp]: "shown (sendLogin p h s) = shown s"
  by (simp add: sendLogin_def Let_def)

lemma shown_onHash [simp]: "shown (onHash p salt ch s) = shown s"
  by (simp add: onHash_def Let_def split: option.split list.split)

lemma shown_resume [simp]: "shown (resume p i s) = shown s"
  by (simp add: resume_def Let_def split: continuation.split option.split)

text \<open>A message about another display than the one asked for changes nothing of it.\<close>

definition confirms :: "int \<Rightarrow> Session \<Rightarrow> Session \<Rightarrow> bool" where
  "confirms i s t \<longleftrightarrow> shown t = shown s \<or> shown t = (None, switch_indices (trace s) @ [i])"

lemma dispatch_display:
  assumes "pendingDisplay s = Some i"
  shows "confirms i s (dispatch p m s)"
proof (cases "\<exists>d. m = M_misc (X_switch_display d)")
  case True
  then obtain d where m: "m = M_misc (X_switch_display d)" by blast
  show ?thesis
    using assms unfolding m
    by (cases "i = sd_display d") (simp_all add: dispatch_def dispatchMisc_def confirms_def shown_def)
next
  case False
  then show ?thesis
    by (cases m)
      (simp_all add: dispatch_def confirms_def emitPeerInfo_def Let_def ackVideo_def
        onVideo_sink_def handleClipboard_def dispatchMisc_def onTerminalResponse_def
        onVoiceCallRequest_def onVoiceCallResponse_def
        split: LoginResponseUnion.split FileAction.split option.split Misc.split BackUnion.split
          TerminalResponse.split)
qed

lemma openRelayBytes_shown: "shown (fst (openRelayBytes p b s)) = shown s"
  by (simp add: openRelayBytes_def Let_def case_prod_beta split: option.split sum.split)

lemma step_display:
  assumes "pendingDisplay s = Some i" "\<forall>j. c \<noteq> SC_switchDisplay j"
  shows "confirms i s (session_step p c s)"
proof (cases "\<exists>rnd b. c = SC_relay rnd b")
  case True
  then obtain rnd b where c: "c = SC_relay rnd b" by blast
  have first: "shown (onFirstRelayFrame p rnd b s) = shown s"
    by (simp add: onFirstRelayFrame_def split: sum.split Message.split option.split prod.split)
  have "confirms i s (dispatch p m (fst (openRelayBytes p b s)))" for m
    using dispatch_display [of "fst (openRelayBytes p b s)" i p m] assms(1)
      openRelayBytes_shown [of p b s] by (simp add: confirms_def shown_def)
  with c first openRelayBytes_shown [of p b s] show ?thesis
    by (simp add: session_step_def onRelayBytes_def case_prod_beta confirms_def split: option.split)
next
  case False
  with assms show ?thesis
    by (cases c)
      (simp_all add: confirms_def session_step_def plain_sends Let_def start_def relayOpened_def
        onSignalingBytes_def setSupportedDecoding_def changeDisplayResolution_def
        toggleVirtualDisplay_def setCustomQuality_def setCustomFps_def setPreferredCodec_def
        startVoiceCall_def closeVoiceCall_def sendVoiceAudioFormat_def sendVoiceAudioFrame_def
        disconnect_def split: sum.split RendezvousParsed.split option.split)
qed


text \<open>The trace only grows.\<close>

lemma trace_clipboards: "prefix (trace s) (trace (fold (handleClipboard p) cbs s))"
proof (induction cbs arbitrary: s)
  case (Cons cb cbs)
  have "prefix (trace s) (trace (handleClipboard p cb s))" by (simp add: handleClipboard_def)
  with Cons [of "handleClipboard p cb s"] show ?case
    by (auto intro: prefix_order.trans)
qed simp

lemma trace_sendLogin: "prefix (trace s) (trace (sendLogin p h s))"
  by (simp add: sendLogin_def Let_def trace_sealSend)

lemma trace_onHash: "prefix (trace s) (trace (onHash p salt ch s))"
proof -
  let ?t = "(setState Login None False s)\<lparr>s_config := (s_config s)\<lparr>password := []\<rparr>\<rparr>"
  have "prefix (trace s) (trace ?t)" by simp
  from prefix_order.trans [OF this trace_sendLogin [of ?t]] show ?thesis
    by (simp add: onHash_def Let_def split: option.split list.split)
qed

lemma trace_resume: "prefix (trace s) (trace (resume p i s))"
  using trace_sendLogin
  by (simp add: resume_def Let_def split: continuation.split option.split)
    (metis Session.select_convs(14) Session.surjective Session.update_convs(13))

lemma trace_dispatch: "prefix (trace s) (trace (dispatch p m s))"
  by (cases m)
    (simp_all add: dispatch_def trace_clipboards trace_onHash emitPeerInfo_def Let_def ackVideo_def
      onVideo_sink_def handleClipboard_def dispatchMisc_def onTerminalResponse_def trace_sealSend
      onVoiceCallRequest_def onVoiceCallResponse_def
      split: LoginResponseUnion.split FileAction.split option.split Misc.split BackUnion.split
        TerminalResponse.split)

lemma trace_openRelayBytes: "prefix (trace s) (trace (fst (openRelayBytes p b s)))"
  by (simp add: openRelayBytes_def Let_def case_prod_beta split: option.split sum.split)

lemma trace_onRelayBytes: "prefix (trace s) (trace (onRelayBytes p rnd b s))"
proof -
  have "prefix (trace s) (trace (onFirstRelayFrame p rnd b s))"
    by (simp add: onFirstRelayFrame_def split: sum.split Message.split option.split prod.split)
  then show ?thesis
    using trace_openRelayBytes [of s p b] trace_dispatch [of "fst (openRelayBytes p b s)"]
    by (auto simp: onRelayBytes_def case_prod_beta split: option.split intro: prefix_order.trans)
qed

lemma trace_session_step: "prefix (trace s) (trace (session_step p c s))"
  by (cases c)
    (simp_all add: session_step_def plain_sends Let_def start_def relayOpened_def trace_sealSend
      trace_onRelayBytes trace_resume onSignalingBytes_def setSupportedDecoding_def
      changeDisplayResolution_def switchDisplay_def
      toggleVirtualDisplay_def setCustomQuality_def setCustomFps_def setPreferredCodec_def
      startVoiceCall_def closeVoiceCall_def sendVoiceAudioFormat_def sendVoiceAudioFrame_def
      disconnect_def split: sum.split RendezvousParsed.split option.split)

lemma trace_fold: "prefix (trace s) (trace (fold (session_step p) cs s))"
proof (induction cs arbitrary: s)
  case (Cons c cs)
  with trace_session_step [of s p c] show ?case by (auto intro: prefix_order.trans)
qed simp

text \<open>
  C24. Switching displays is immune to stale broadcasts. After the user asks for display
  \<open>i\<close>, and until the user asks for another one, any sequence of calls either announces no
  display at all and keeps waiting, or the first display it announces is \<open>i\<close>: a broadcast
  about the display just left never moves the input mapping back.
\<close>

theorem display_switch_confirmed_first:
  assumes "pendingDisplay s = Some i" "\<forall>j. SC_switchDisplay j \<notin> set cs"
  shows "let t = fold (session_step p) cs s in
         (pendingDisplay t = Some i \<and> switch_indices (trace t) = switch_indices (trace s)) \<or>
         prefix (switch_indices (trace s) @ [i]) (switch_indices (trace t))"
  unfolding Let_def using assms
proof (induction cs arbitrary: s)
  case (Cons c cs)
  let ?s1 = "session_step p c s"
  have "confirms i s ?s1" using Cons.prems by (intro step_display) auto
  then consider "shown ?s1 = shown s" | "switch_indices (trace ?s1) = switch_indices (trace s) @ [i]"
    by (auto simp: confirms_def shown_def)
  then show ?case
  proof cases
    case 1
    with Cons.IH [of ?s1] Cons.prems show ?thesis by (simp add: shown_def)
  next
    case 2
    from trace_fold [of ?s1 p cs] obtain as where
      "trace (fold (session_step p) cs ?s1) = trace ?s1 @ as" by (auto simp: prefix_def)
    with 2 show ?thesis by simp
  qed
qed simp


section \<open>Remembered credentials\<close>

lemma hex2_digits:
  "hex2 x = [digit_unit (unat x div 16), digit_unit (unat x mod 16)]"
proof -
  have b: "unat x < 256" using unsigned_less [of x] by simp
  have one: "radix_str 16 d = [digit_unit d]" if "d < 16" for d
    using that by (subst radix_str.simps) simp
  show ?thesis
  proof (cases "unat x < 16")
    case True
    then show ?thesis by (simp add: hex2_def one js_def digit_unit_def)
  next
    case False
    then have "radix_str 16 (unat x) = [digit_unit (unat x div 16), digit_unit (unat x mod 16)]"
      using b by (subst radix_str.simps) (simp add: one)
    then show ?thesis by (simp add: hex2_def)
  qed
qed

lemma digit_unit_plain:
  "d < 16 \<Longrightarrow> \<not> js_ws (digit_unit d) \<and> digit_unit d \<noteq> 45 \<and> digit_unit d \<noteq> 43 \<and>
     digit_unit d \<noteq> 120 \<and> digit_unit d \<noteq> 88 \<and> is_hex_unit (digit_unit d)"
  by (drule digit_cases) (elim disjE; simp add: digit_unit_def js_ws_def is_hex_unit_def unit_digit_def)

lemma parseInt16_hex2: "parseInt16 (hex2 x) = Some (int (unat x))"
proof -
  have "unat x < 256" using unsigned_less [of x] by simp
  then have b: "unat x div 16 < 16" "unat x mod 16 < 16" by simp_all
  note d = digit_unit_plain [OF b(1)] digit_unit_plain [OF b(2)]
  have "radix_val 16 (hex2 x) = unat x"
    using b by (simp add: hex2_digits radix_val_def)
  with d show ?thesis
    by (simp add: parseInt16_def hex2_digits Let_def)
qed

lemma length_bytesToHex: "length (bytesToHex b) = 2 * length b"
  by (induction b) (simp_all add: bytesToHex_def hex2_digits)

lemma bytesToHex_block:
  "i < length b \<Longrightarrow> take 2 (drop (i * 2) (bytesToHex b)) = hex2 (b ! i)"
proof (induction b arbitrary: i)
  case (Cons x b)
  then show ?case by (cases i) (simp_all add: bytesToHex_def hex2_digits)
qed simp

lemma hexToBytes_bytesToHex: "hexToBytes (bytesToHex b) = b"
  by (rule nth_equalityI)
    (simp_all add: hexToBytes_def length_bytesToHex bytesToHex_block parseInt16_hex2)

lemma sha256_total: "length data < 2147483576 \<Longrightarrow> \<exists>d. sha256 data = Some d"
  by (simp add: sha256_def pad_eq)

text \<open>
  C33. Logging in with the remembered credential is logging in with the password. A session
  that was given a password answers the peer's challenge with the salted double hash of that
  password, tells the user interface the hex form of the first hash, and wipes the plaintext;
  a later session that was given this hex form and no password answers the same challenge
  with the same bytes, whatever salt the peer sends.
\<close>

theorem remembered_credential_same_login:
  assumes "computeLoginH1 pw salt = Some h1" "loginPasswordHash pw salt ch = Some hash" "pw \<noteq> []"
    and "password (s_config s) = pw" "savedHashHex (s_config s) = None" "suspended s = []"
    and "savedHashHex (s_config t) = Some (bytesToHex h1)" "suspended t = []"
  shows "\<exists>s1 t1.
     resume p 0 (resume p 0 (dispatch p (M_hash salt ch) s)) = sendLogin p hash s1 \<and>
     Emit (Ev_credentials (bytesToHex h1)) \<in> set (trace s1) \<and> password (s_config s1) = [] \<and>
     resume p 0 (dispatch p (M_hash salt' ch) t) = sendLogin p hash t1 \<and> password (s_config t1) = []"
proof -
  have h: "loginHashFromH1 h1 ch = Some hash"
    using assms(1-3) by (simp add: loginPasswordHash_def)
  have "length h1 = 32" using assms(1) by (rule computeLoginH1_length)
  then have ne: "bytesToHex h1 \<noteq> []" using length_bytesToHex [of h1] by auto
  let ?s0 = "(setState Login None False s)\<lparr>s_config := (s_config s)\<lparr>password := []\<rparr>\<rparr>"
  let ?s1 = "(emit (Ev_credentials (bytesToHex h1)) (?s0\<lparr>suspended := []\<rparr>))\<lparr>suspended := []\<rparr>"
  have a: "resume p 0 (dispatch p (M_hash salt ch) s) =
      (emit (Ev_credentials (bytesToHex h1)) (?s0\<lparr>suspended := []\<rparr>))\<lparr>suspended := [AwaitLogin h1 ch]\<rparr>"
    using assms by (simp add: dispatch_def onHash_def Let_def resume_def)
  have b: "resume p 0 (resume p 0 (dispatch p (M_hash salt ch) s)) = sendLogin p hash ?s1"
    unfolding a using h by (simp add: resume_def Let_def)
  let ?t1 = "(setState Login None False t)\<lparr>s_config := (s_config t)\<lparr>password := []\<rparr>, suspended := []\<rparr>"
  obtain a r where ar: "bytesToHex h1 = a # r" using ne by (cases "bytesToHex h1") auto
  then have "hexToBytes (a # r) = h1" using hexToBytes_bytesToHex [of h1] by simp
  then have c: "resume p 0 (dispatch p (M_hash salt' ch) t) = sendLogin p hash ?t1"
    using assms(7,8) h ar by (simp add: dispatch_def onHash_def Let_def resume_def)
  from b c show ?thesis by (intro exI [of _ ?s1] exI [of _ ?t1]) simp
qed


section \<open>Witnesses\<close>

lemma demo_disconnect_final: "final (disconnect demo_session)"
  by (simp add: disconnect_def) (simp add: final_def)


theorem voice_requires_matching_response_witness:
  "session_step demo_platform (SC_voiceAudioFormat 48000 1) (disconnect demo_session) = disconnect demo_session"
  using voice_requires_matching_response
    [of "disconnect demo_session" "SC_voiceAudioFormat 48000 1" demo_platform]
  by (simp add: disconnect_def) (use secure_voice [OF session.inv_reach [OF demo_reach]] in auto)

theorem display_switch_confirmed_first_witness:
  "let s = switchDisplay demo_platform 2 demo_session;
       t = fold (session_step demo_platform) [SC_refresh, SC_relayOpened] s
   in (pendingDisplay t = Some 2 \<and> switch_indices (trace t) = switch_indices (trace s)) \<or>
      prefix (switch_indices (trace s) @ [2]) (switch_indices (trace t))"
  using display_switch_confirmed_first [of "switchDisplay demo_platform 2 demo_session" 2
      "[SC_refresh, SC_relayOpened]" demo_platform]
  by (simp add: switchDisplay_def Let_def del: fold.simps)

theorem remembered_credential_same_login_witness:
  "\<exists>h1 hash s1 t1.
     computeLoginH1 (js ''pw'') (js ''salt'') = Some h1 \<and>
     loginPasswordHash (js ''pw'') (js ''salt'') (js ''ch'') = Some hash \<and>
     resume demo_platform 0 (resume demo_platform 0 (dispatch demo_platform (M_hash (js ''salt'') (js ''ch''))
       (demo_session\<lparr>s_config := demo_config\<lparr>password := js ''pw''\<rparr>, suspended := []\<rparr>)))
       = sendLogin demo_platform hash s1 \<and>
     resume demo_platform 0 (dispatch demo_platform (M_hash [] (js ''ch''))
       (demo_session\<lparr>s_config := demo_config\<lparr>savedHashHex := Some (bytesToHex h1)\<rparr>, suspended := []\<rparr>))
       = sendLogin demo_platform hash t1"
proof -
  have u: "length (utf8_encode (js ''pw'')) = 2" "length (utf8_encode (js ''salt'')) = 4"
      "length (utf8_encode (js ''ch'')) = 2"
    by (subst utf8_encode_ascii; simp add: js_def)+
  obtain h1 where h1: "computeLoginH1 (js ''pw'') (js ''salt'') = Some h1"
    using sha256_total [of "cat (utf8_encode (js ''pw'')) (utf8_encode (js ''salt''))"]
    by (auto simp: computeLoginH1_def cat_def u)
  obtain hash where hash: "loginHashFromH1 h1 (js ''ch'') = Some hash"
    using sha256_total [of "cat h1 (utf8_encode (js ''ch''))"] computeLoginH1_length [OF h1]
    by (auto simp: loginHashFromH1_def cat_def u)
  with h1 have l: "loginPasswordHash (js ''pw'') (js ''salt'') (js ''ch'') = Some hash"
    by (simp add: loginPasswordHash_def)
  from h1 l remembered_credential_same_login [OF h1 l, of
      "demo_session\<lparr>s_config := demo_config\<lparr>password := js ''pw''\<rparr>, suspended := []\<rparr>"
      "demo_session\<lparr>s_config := demo_config\<lparr>savedHashHex := Some (bytesToHex h1)\<rparr>, suspended := []\<rparr>"
      demo_platform "[]"]
  show ?thesis by (auto simp: demo_config_def)
qed

end
