(* ===== verification/Ws_Stream.thy ===== *)
theory Ws_Stream
  imports Prelude Step_System
begin

text \<open>
  \<open>webclient/src/transport/ws-stream.ts\<close>: the WebSocket transport. Consumers (promises handed
  out by \<open>next\<close>, message and close callbacks) are numbered; resolving, rejecting and calling
  them are \<open>ws_action\<close>s appended to \<open>ws_trace\<close> in order. The callbacks the client installs
  either leave the stream alone or close it from inside the call: which one happens is the
  parameter \<open>closes\<close>. The browser's socket is the environment: it delivers messages, closes
  or fails at any time.
\<close>

datatype ws_action =
    WsSend bytes
  | WsClose
  | Resolve nat bytes
  | Reject nat
  | CallMessage nat bytes
  | CallClose nat

record WsStream =
  ws_queue :: "bytes list"
  ws_waiters :: "nat list"
  ws_closeCbs :: "nat list"
  ws_msgCb :: "nat option"
  ws_closed :: bool
  ws_trace :: "ws_action list"

definition newWsStream :: WsStream where
  "newWsStream =
     \<lparr>ws_queue = [], ws_waiters = [], ws_closeCbs = [], ws_msgCb = None, ws_closed = False,
      ws_trace = []\<rparr>"

text \<open>A frame payload as the socket delivers it.\<close>

datatype ws_payload = PlUint8Array bytes | PlArrayBuffer bytes | PlOther jsstr

definition toBytes :: "ws_payload \<Rightarrow> jsstr + bytes" where
  "toBytes d =
     (case d of PlUint8Array b \<Rightarrow> Inr b | PlArrayBuffer b \<Rightarrow> Inr b
      | PlOther t \<Rightarrow> Inl (js ''unexpected websocket frame payload: '' @ t))"

text \<open>\<open>WsStream.open\<close>: the promise settles on the first of the three socket events.\<close>

datatype ws_opening = Opening | Opened | OpenFailed jsstr

datatype socket_event = SockOpen | SockError | SockClose

definition ws_open_event :: "jsstr \<Rightarrow> socket_event \<Rightarrow> ws_opening \<Rightarrow> ws_opening" where
  "ws_open_event url e st =
     (case st of
        Opening \<Rightarrow>
          (case e of
             SockOpen \<Rightarrow> Opened
           | SockError \<Rightarrow> OpenFailed (js ''websocket error before open: '' @ url)
           | SockClose \<Rightarrow> OpenFailed (js ''websocket closed before open: '' @ url))
      | _ \<Rightarrow> st)"

section \<open>Operations\<close>

definition ws_act :: "ws_action \<Rightarrow> WsStream \<Rightarrow> WsStream" where
  "ws_act a s = s\<lparr>ws_trace := ws_trace s @ [a]\<rparr>"

definition ws_send :: "bytes \<Rightarrow> WsStream \<Rightarrow> jsstr + WsStream" where
  "ws_send bs s =
     (if ws_closed s then Inl (js ''send on closed websocket'') else Inr (ws_act (WsSend bs) s))"

definition ws_teardown :: "WsStream \<Rightarrow> WsStream" where
  "ws_teardown s =
     (if ws_closed s then s
      else s\<lparr>ws_closed := True, ws_waiters := [], ws_closeCbs := [],
             ws_trace := ws_trace s @ map Reject (ws_waiters s) @ map CallClose (ws_closeCbs s)\<rparr>)"

definition ws_close :: "WsStream \<Rightarrow> WsStream" where
  "ws_close s = (if ws_closed s then s else ws_teardown (ws_act WsClose s))"

definition call_message :: "(nat \<Rightarrow> bytes \<Rightarrow> bool) \<Rightarrow> nat \<Rightarrow> bytes \<Rightarrow> WsStream \<Rightarrow> WsStream" where
  "call_message closes cb b s =
     (let s1 = ws_act (CallMessage cb b) s in if closes cb b then ws_close s1 else s1)"

text \<open>The loop of \<open>onMessage\<close>: hand out the buffered frames while this callback is installed.\<close>

fun drain :: "(nat \<Rightarrow> bytes \<Rightarrow> bool) \<Rightarrow> nat \<Rightarrow> bytes list \<Rightarrow> WsStream \<Rightarrow> WsStream" where
  "drain closes cb [] s = s"
| "drain closes cb (b # q) s =
     (if ws_msgCb s = Some cb then drain closes cb q (call_message closes cb b (s\<lparr>ws_queue := q\<rparr>)) else s)"

definition ws_onMessage :: "(nat \<Rightarrow> bytes \<Rightarrow> bool) \<Rightarrow> nat \<Rightarrow> WsStream \<Rightarrow> WsStream" where
  "ws_onMessage closes cb s = drain closes cb (ws_queue s) (s\<lparr>ws_msgCb := Some cb\<rparr>)"

definition ws_onClose :: "nat \<Rightarrow> WsStream \<Rightarrow> WsStream" where
  "ws_onClose cb s =
     (if ws_closed s then ws_act (CallClose cb) s else s\<lparr>ws_closeCbs := ws_closeCbs s @ [cb]\<rparr>)"

definition ws_next :: "nat \<Rightarrow> WsStream \<Rightarrow> WsStream" where
  "ws_next w s =
     (case ws_queue s of
        b # q \<Rightarrow> ws_act (Resolve w b) (s\<lparr>ws_queue := q\<rparr>)
      | [] \<Rightarrow> if ws_closed s then ws_act (Reject w) s
              else s\<lparr>ws_waiters := ws_waiters s @ [w]\<rparr>)"

definition ws_deliver :: "(nat \<Rightarrow> bytes \<Rightarrow> bool) \<Rightarrow> bytes \<Rightarrow> WsStream \<Rightarrow> WsStream" where
  "ws_deliver closes b s =
     (case ws_waiters s of
        w # ws \<Rightarrow> ws_act (Resolve w b) (s\<lparr>ws_waiters := ws\<rparr>)
      | [] \<Rightarrow>
         (case ws_msgCb s of
            Some cb \<Rightarrow> call_message closes cb b s
          | None \<Rightarrow> s\<lparr>ws_queue := ws_queue s @ [b]\<rparr>))"

text \<open>
  The calls of the client and the events of the socket. \<open>WC_message\<close> is the message listener:
  a payload that is not binary throws inside it and changes nothing.
\<close>

datatype ws_call =
    WC_message ws_payload
  | WC_socketClosed
  | WC_send bytes
  | WC_onMessage nat
  | WC_onClose nat
  | WC_next nat
  | WC_close

definition ws_step :: "(nat \<Rightarrow> bytes \<Rightarrow> bool) \<Rightarrow> ws_call \<Rightarrow> WsStream \<Rightarrow> WsStream" where
  "ws_step closes c s =
     (case c of
        WC_message d \<Rightarrow> (case toBytes d of Inl _ \<Rightarrow> s | Inr b \<Rightarrow> ws_deliver closes b s)
      | WC_socketClosed \<Rightarrow> ws_teardown s
      | WC_send b \<Rightarrow> (case ws_send b s of Inl _ \<Rightarrow> s | Inr s' \<Rightarrow> s')
      | WC_onMessage cb \<Rightarrow> ws_onMessage closes cb s
      | WC_onClose cb \<Rightarrow> ws_onClose cb s
      | WC_next w \<Rightarrow> ws_next w s
      | WC_close \<Rightarrow> ws_close s)"

section \<open>Interface: a first-in first-out channel\<close>

text \<open>
  What a consumer relies on: frames come out in the order they went in, none lost and none
  twice. The provider says which frames a call takes in and shows the law for one step.
\<close>

locale fifo_channel =
  fixes stp :: "'c \<Rightarrow> 's \<Rightarrow> 's" and arrives :: "'c \<Rightarrow> 'f list"
    and delivered :: "'s \<Rightarrow> 'f list" and buffered :: "'s \<Rightarrow> 'f list" and chan_inv :: "'s \<Rightarrow> bool"
  assumes chan_inv_step: "chan_inv s \<Longrightarrow> chan_inv (stp c s)"
    and fifo_step: "chan_inv s \<Longrightarrow>
      delivered (stp c s) @ buffered (stp c s) = delivered s @ buffered s @ arrives c"
begin

lemma fifo_fold:
  "chan_inv s \<Longrightarrow> chan_inv (fold stp cs s) \<and>
     delivered (fold stp cs s) @ buffered (fold stp cs s) = delivered s @ buffered s @ concat (map arrives cs)"
proof (induction cs arbitrary: s)
  case (Cons c cs)
  from Cons.IH [OF chan_inv_step [OF Cons.prems, of c]] fifo_step [OF Cons.prems, of c] show ?case
    by simp
qed simp

end

section \<open>The stream provides it\<close>

definition ws_delivered :: "WsStream \<Rightarrow> bytes list" where
  "ws_delivered s =
     concat (map (\<lambda>a. case a of Resolve _ b \<Rightarrow> [b] | CallMessage _ b \<Rightarrow> [b] | _ \<Rightarrow> []) (ws_trace s))"

definition ws_arrives :: "ws_call \<Rightarrow> bytes list" where
  "ws_arrives c = (case c of WC_message d \<Rightarrow> (case toBytes d of Inr b \<Rightarrow> [b] | Inl _ \<Rightarrow> []) | _ \<Rightarrow> [])"

text \<open>Frames are buffered only while nobody waits for one, and a closed stream has no waiter.\<close>

definition ws_inv :: "WsStream \<Rightarrow> bool" where
  "ws_inv s \<longleftrightarrow>
     (ws_waiters s \<noteq> [] \<longrightarrow> ws_queue s = []) \<and> (ws_msgCb s \<noteq> None \<longrightarrow> ws_queue s = []) \<and>
     (ws_closed s \<longrightarrow> ws_waiters s = [] \<and> ws_closeCbs s = [])"

lemma ws_act_fields [simp]:
  "ws_queue (ws_act a s) = ws_queue s" "ws_waiters (ws_act a s) = ws_waiters s"
  "ws_closeCbs (ws_act a s) = ws_closeCbs s" "ws_msgCb (ws_act a s) = ws_msgCb s"
  "ws_closed (ws_act a s) = ws_closed s" "ws_trace (ws_act a s) = ws_trace s @ [a]"
  by (simp_all add: ws_act_def)

lemma ws_delivered_simps [simp]:
  "ws_delivered (s\<lparr>ws_queue := q\<rparr>) = ws_delivered s"
  "ws_delivered (s\<lparr>ws_waiters := w\<rparr>) = ws_delivered s"
  "ws_delivered (s\<lparr>ws_closeCbs := cs\<rparr>) = ws_delivered s"
  "ws_delivered (s\<lparr>ws_msgCb := m\<rparr>) = ws_delivered s"
  "ws_delivered (ws_act a s) =
     ws_delivered s @ (case a of Resolve _ b \<Rightarrow> [b] | CallMessage _ b \<Rightarrow> [b] | _ \<Rightarrow> [])"
  by (simp_all add: ws_delivered_def)

lemma ws_teardown_fields [simp]:
  "ws_queue (ws_teardown s) = ws_queue s" "ws_msgCb (ws_teardown s) = ws_msgCb s"
  "ws_closed (ws_teardown s)" "ws_delivered (ws_teardown s) = ws_delivered s"
  by (simp_all add: ws_teardown_def ws_delivered_def comp_def)

lemma ws_close_fields [simp]:
  "ws_queue (ws_close s) = ws_queue s" "ws_msgCb (ws_close s) = ws_msgCb s"
  "ws_closed (ws_close s)" "ws_delivered (ws_close s) = ws_delivered s"
  by (simp_all add: ws_close_def)

lemma call_message_fields [simp]:
  "ws_queue (call_message closes cb b s) = ws_queue s"
  "ws_msgCb (call_message closes cb b s) = ws_msgCb s"
  "ws_delivered (call_message closes cb b s) = ws_delivered s @ [b]"
  by (simp_all add: call_message_def Let_def)

lemma ws_inv_close: "ws_inv s \<Longrightarrow> ws_inv (ws_teardown s)" "ws_inv s \<Longrightarrow> ws_inv (ws_close s)"
  by (auto simp: ws_inv_def ws_teardown_def ws_close_def)

lemma ws_inv_call_message: "ws_inv s \<Longrightarrow> ws_inv (call_message closes cb b s)"
  by (auto simp: call_message_def Let_def intro!: ws_inv_close) (auto simp: ws_inv_def)

text \<open>While draining, frames may be left in the buffer although the callback is installed.\<close>

definition drain_inv :: "WsStream \<Rightarrow> bool" where
  "drain_inv s \<longleftrightarrow> (ws_waiters s \<noteq> [] \<longrightarrow> ws_queue s = []) \<and>
     (ws_closed s \<longrightarrow> ws_waiters s = [] \<and> ws_closeCbs s = [])"

lemma drain_inv_call: "drain_inv s \<Longrightarrow> drain_inv (call_message closes cb b (s\<lparr>ws_queue := q\<rparr>))"
  if "ws_queue s = b # q"
  using that by (auto simp: call_message_def Let_def drain_inv_def ws_close_def ws_teardown_def)

lemma drain_spec:
  assumes "ws_msgCb s = Some cb" "drain_inv s" "ws_queue s = q"
  shows "ws_inv (drain closes cb q s) \<and> ws_queue (drain closes cb q s) = [] \<and>
         ws_delivered (drain closes cb q s) = ws_delivered s @ q"
  using assms
proof (induction q arbitrary: s)
  case Nil
  then show ?case by (auto simp: ws_inv_def drain_inv_def)
next
  case (Cons b q)
  let ?t = "call_message closes cb b (s\<lparr>ws_queue := q\<rparr>)"
  have "drain_inv ?t" using Cons.prems by (intro drain_inv_call) auto
  with Cons.IH [of ?t] Cons.prems show ?case
    by simp
qed

interpretation ws: fifo_channel "ws_step closes" ws_arrives ws_delivered ws_queue ws_inv
  for closes :: "nat \<Rightarrow> bytes \<Rightarrow> bool"
proof
  fix s c
  assume inv: "ws_inv s"
  let ?t = "ws_step closes c s"
  have d: "drain_inv (s\<lparr>ws_msgCb := m\<rparr>)" for m using inv by (auto simp: drain_inv_def ws_inv_def)
  have "ws_inv ?t \<and> ws_delivered ?t @ ws_queue ?t = ws_delivered s @ ws_queue s @ ws_arrives c"
  proof (cases c)
    case (WC_message p)
    then show ?thesis
      using inv ws_inv_call_message [of s closes]
      by (cases "toBytes p"; cases "ws_waiters s"; cases "ws_msgCb s")
        (auto simp: ws_step_def ws_deliver_def ws_arrives_def ws_inv_def)
  next
    case (WC_onMessage cb)
    from drain_spec [OF _ d, of "Some cb" cb "ws_queue s" closes] WC_onMessage show ?thesis
      by (simp add: ws_step_def ws_onMessage_def ws_arrives_def)
  next
    case (WC_next w)
    then show ?thesis
      using inv by (cases "ws_queue s")
        (auto simp: ws_step_def ws_next_def ws_arrives_def ws_inv_def)
  next
    case (WC_onClose cb)
    then show ?thesis
      using inv by (auto simp: ws_step_def ws_onClose_def ws_arrives_def ws_inv_def)
  next
    case (WC_send b)
    then show ?thesis
      using inv by (auto simp: ws_step_def ws_send_def ws_arrives_def ws_inv_def)
  qed (use inv ws_inv_close in \<open>auto simp: ws_step_def ws_arrives_def\<close>)
  then show "ws_inv ?t" "ws_delivered ?t @ ws_queue ?t = ws_delivered s @ ws_queue s @ ws_arrives c"
    by auto
qed


text \<open>
  C22. The transport is a lossless first-in first-out channel: over any sequence of client
  calls and socket events on a new stream, whichever mix of promises and callbacks consumes
  it, the frames handed out so far followed by the frames still buffered are exactly the
  binary frames that arrived, in order.
\<close>

theorem ws_stream_fifo:
  "let t = fold (ws_step closes) cs newWsStream in
     ws_delivered t @ ws_queue t = concat (map ws_arrives cs)"
proof -
  have "ws_inv newWsStream" "ws_delivered newWsStream = []" "ws_queue newWsStream = []"
    by (simp_all add: newWsStream_def ws_inv_def ws_delivered_def)
  with ws.fifo_fold [of newWsStream closes cs] show ?thesis by (simp add: Let_def)
qed

section \<open>Every promise settles once\<close>

text \<open>The promises settled so far, and those a call creates.\<close>

definition settled :: "WsStream \<Rightarrow> nat list" where
  "settled s = concat (map (\<lambda>a. case a of Resolve w _ \<Rightarrow> [w] | Reject w \<Rightarrow> [w] | _ \<Rightarrow> []) (ws_trace s))"

definition promised :: "ws_call \<Rightarrow> nat list" where
  "promised c = (case c of WC_next w \<Rightarrow> [w] | _ \<Rightarrow> [])"

lemma settled_simps [simp]:
  "settled (s\<lparr>ws_queue := q\<rparr>) = settled s" "settled (s\<lparr>ws_waiters := w\<rparr>) = settled s"
  "settled (s\<lparr>ws_closeCbs := cs\<rparr>) = settled s" "settled (s\<lparr>ws_msgCb := m\<rparr>) = settled s"
  "settled (ws_act a s) =
     settled s @ (case a of Resolve w _ \<Rightarrow> [w] | Reject w \<Rightarrow> [w] | _ \<Rightarrow> [])"
  by (simp_all add: settled_def)

lemma settled_teardown:
  "settled (ws_teardown s) @ ws_waiters (ws_teardown s) = settled s @ ws_waiters s"
  by (simp add: ws_teardown_def settled_def comp_def)

lemma settled_close: "settled (ws_close s) @ ws_waiters (ws_close s) = settled s @ ws_waiters s"
  using settled_teardown [of "ws_act WsClose s"] by (simp add: ws_close_def)

lemma settled_call:
  "settled (call_message closes cb b s) @ ws_waiters (call_message closes cb b s) = settled s @ ws_waiters s"
  using settled_close [of "ws_act (CallMessage cb b) s"] by (simp add: call_message_def Let_def)

lemma settled_drain:
  "settled (drain closes cb q s) @ ws_waiters (drain closes cb q s) = settled s @ ws_waiters s"
proof (induction q arbitrary: s)
  case (Cons b q)
  with settled_call [of closes cb b "s\<lparr>ws_queue := q\<rparr>"] show ?case by simp
qed simp

interpretation promises: fifo_channel "ws_step closes" promised settled ws_waiters ws_inv
  for closes :: "nat \<Rightarrow> bytes \<Rightarrow> bool"
proof
  fix s c
  assume inv: "ws_inv s"
  show "ws_inv (ws_step closes c s)" using inv by (rule ws.chan_inv_step)
  show "settled (ws_step closes c s) @ ws_waiters (ws_step closes c s) = settled s @ ws_waiters s @ promised c"
  proof (cases c)
    case (WC_message p)
    then show ?thesis
      using settled_call [of closes _ _ s]
      by (simp add: ws_step_def ws_deliver_def promised_def split: sum.split list.split option.split)
  next
    case (WC_next w)
    then show ?thesis
      using inv by (auto simp: ws_step_def ws_next_def promised_def ws_inv_def split: list.split)
  next
    case (WC_onMessage cb)
    then show ?thesis
      using settled_drain [of closes cb "ws_queue s" "s\<lparr>ws_msgCb := Some cb\<rparr>"]
      by (simp add: ws_step_def ws_onMessage_def promised_def)
  qed (simp_all add: ws_step_def promised_def settled_teardown settled_close ws_send_def ws_onClose_def)
qed

text \<open>
  Every promise handed out by \<open>next\<close> settles exactly once and in the order it was asked
  for: over any sequence of calls and socket events, the promises settled so far followed by
  those still waiting are exactly the promises created, in order; once the stream is closed
  none is left waiting.
\<close>

theorem ws_next_settles_once:
  "let t = fold (ws_step closes) cs newWsStream in
     settled t @ ws_waiters t = concat (map promised cs) \<and> (ws_closed t \<longrightarrow> ws_waiters t = [])"
proof -
  have "ws_inv newWsStream" "settled newWsStream = []" "ws_waiters newWsStream = []"
    by (simp_all add: newWsStream_def ws_inv_def settled_def)
  with promises.fifo_fold [of newWsStream closes cs] show ?thesis
    by (simp add: Let_def ws_inv_def)
qed

theorem ws_next_settles_once_witness:
  "let t = fold (ws_step (\<lambda>_ _. False)) [WC_next 7, WC_next 8, WC_message (PlUint8Array [1]), WC_close] newWsStream
   in settled t = [7, 8] \<and> ws_closed t"
proof -
  let ?cs = "[WC_next 7, WC_next 8, WC_message (PlUint8Array [1]), WC_close]"
  have "ws_closed (fold (ws_step (\<lambda>_ _. False)) ?cs newWsStream)"
    by (simp add: ws_step_def)
  then show ?thesis
    using ws_next_settles_once [of "\<lambda>_ _. False" ?cs]
    by (auto simp: Let_def promised_def simp del: fold.simps)
qed

end
