(* ===== verification/File_Transfer.thy ===== *)
theory File_Transfer
  imports Contracts
begin

text \<open>
  \<open>webclient/src/core/file-transfer.ts\<close> and \<open>webclient/src/worker/terminal-output.ts\<close>: reading
  the peer's file responses and terminal frames, and the arithmetic on remote paths. The
  zstd decoder is a parameter; \<open>Inl\<close> is an exception it throws.
\<close>

section \<open>file-transfer.ts\<close>

definition FT_BLOCK_SIZE :: int where "FT_BLOCK_SIZE = 128 * 1024"

text \<open>The table \<open>KIND\<close> over the values of \<open>FileType\<close> in \<open>gen/message.ts\<close>.\<close>

definition KIND :: "int \<Rightarrow> FtEntryKind option" where
  "KIND t = (if t = 0 then Some K_dir else if t = 2 then Some K_dirLink
             else if t = 3 then Some K_drive else if t = 4 then Some K_file
             else if t = 5 then Some K_fileLink else None)"

definition entryFromProto :: "FileEntry \<Rightarrow> FtEntry" where
  "entryFromProto e =
     \<lparr>ft_kind = (case KIND (fe_entry_type e) of None \<Rightarrow> K_file | Some k \<Rightarrow> k), ft_name = fe_name e,
      ft_size = js_Number (fe_size e), ft_modifiedSec = js_Number (fe_modified_time e),
      ft_isHidden = fe_is_hidden e\<rparr>"

definition dirFromProto :: "FileDirectory \<Rightarrow> FtDirectory" where
  "dirFromProto d =
     \<lparr>ftd_id = fd_id d, ftd_path = fd_path d, ftd_entries = map entryFromProto (fd_entries d)\<rparr>"

definition isDirKind :: "FtEntryKind \<Rightarrow> bool" where
  "isDirKind k = (k = K_dir \<or> k = K_dirLink \<or> k = K_drive)"

definition fileResponseToEvents :: "FileResponse \<Rightarrow> (bytes \<Rightarrow> jsstr + bytes) \<Rightarrow> SessionEvent list" where
  "fileResponseToEvents fr decompress =
     (case fr of
        FR_dir d \<Rightarrow> [Ev_ftDir (dirFromProto d)]
      | FR_block b \<Rightarrow>
          if bk_compressed b
          then (case decompress (bk_data b) of
                  Inl _ \<Rightarrow> [Ev_ftError (bk_id b) (bk_file_num b) (js ''failed to decompress block'')]
                | Inr d \<Rightarrow> [Ev_ftBlock (bk_id b) (bk_file_num b) d (bk_blk_id b)])
          else [Ev_ftBlock (bk_id b) (bk_file_num b) (bk_data b) (bk_blk_id b)]
      | FR_done i n \<Rightarrow> [Ev_ftDone i n]
      | FR_error i e n \<Rightarrow> [Ev_ftError i n e]
      | FR_digest d \<Rightarrow> [Ev_ftDigest
          \<lparr>fde_id = dg_id d, fde_fileNum = dg_file_num d, fde_lastModifiedSec = js_Number (dg_last_modified d),
           fde_fileSize = js_Number (dg_file_size d), fde_isUpload = dg_is_upload d,
           fde_isIdentical = dg_is_identical d, fde_transferredSize = js_Number (dg_transferred_size d),
           fde_isResume = dg_is_resume d\<rparr>]
      | _ \<Rightarrow> [])"

section \<open>Remote paths\<close>

abbreviation bslash :: "16 word" where "bslash \<equiv> 92"
abbreviation slash :: "16 word" where "slash \<equiv> 47"

text \<open>A case-insensitive search for lower-case ASCII text: only ASCII letters fold to it.\<close>

definition ascii_lower :: "16 word \<Rightarrow> 16 word" where
  "ascii_lower u = (if 65 \<le> u \<and> u \<le> 90 then u + 32 else u)"

definition search_i :: "jsstr \<Rightarrow> jsstr \<Rightarrow> bool" where
  "search_i s p = js_includes (map ascii_lower s) p"

definition sepForPlatform :: "jsstr \<Rightarrow> 16 word" where
  "sepForPlatform platform = (if search_i platform (js ''windows'') then bslash else slash)"

definition joinRemote :: "jsstr \<Rightarrow> jsstr \<Rightarrow> 16 word \<Rightarrow> jsstr" where
  "joinRemote dir name sep =
     (if dir = [] then name else if js_endsWith dir [sep] then dir @ name else dir @ sep # name)"

definition is_letter :: "16 word \<Rightarrow> bool" where
  "is_letter u = (65 \<le> u \<and> u \<le> 90 \<or> 97 \<le> u \<and> u \<le> 122)"

text \<open>The test \<open>/^[a-zA-Z]:\\?$/\<close>.\<close>

fun is_drive_root :: "jsstr \<Rightarrow> bool" where
  "is_drive_root [a, b] = (is_letter a \<and> b = 58)"
| "is_drive_root [a, b, c] = (is_letter a \<and> b = 58 \<and> c = bslash)"
| "is_drive_root _ = False"

text \<open>\<open>lastIndexOf\<close> of one unit; -1 when absent.\<close>

definition lastIndexOf :: "jsstr \<Rightarrow> 16 word \<Rightarrow> int" where
  "lastIndexOf s c =
     (if c \<in> set s then int (length s) - 1 - int (length (takeWhile (\<lambda>u. u \<noteq> c) (rev s))) else - 1)"

definition parentRemote :: "jsstr \<Rightarrow> 16 word \<Rightarrow> jsstr" where
  "parentRemote path sep =
     (let trimmed = (if js_endsWith path [sep] \<and> 1 < length path then butlast path else path);
          idx = lastIndexOf trimmed sep
      in if sep = bslash
         then if is_drive_root trimmed then []
              else if idx \<le> 2 then take 3 trimmed
              else take (nat idx) trimmed
         else if idx < 0 then [slash]
         else if idx = 0 then [slash]
         else take (nat idx) trimmed)"

section \<open>Sizes for display\<close>

text \<open>\<open>toFixed(d)\<close> of a non-negative value: the nearest multiple of 10 to the -d, ties upwards.\<close>

definition toFixed :: "rat \<Rightarrow> nat \<Rightarrow> jsstr" where
  "toFixed x d =
     (let n = nat \<lfloor>x * 10 ^ d + 1 / 2\<rfloor>; ip = radix_str 10 (n div 10 ^ d); f = radix_str 10 (n mod 10 ^ d)
      in if d = 0 then ip else ip @ js ''.'' @ replicate (d - length f) (js ''0'' ! 0) @ f)"

definition size_units :: "jsstr list" where
  "size_units = [js ''KB'', js ''MB'', js ''GB'', js ''TB'']"

text \<open>The loop: divide by 1024 while the value stays large and a unit is left (at most four times).\<close>

fun scale_size :: "nat \<Rightarrow> rat \<Rightarrow> nat \<Rightarrow> rat \<times> nat" where
  "scale_size 0 v u = (v / 1024, u)"
| "scale_size (Suc k) v u = (if v / 1024 \<ge> 1024 then scale_size k (v / 1024) (Suc u) else (v / 1024, u))"

text \<open>A count of bytes is a whole number; its decimal form is the template's \<open>${n}\<close>.\<close>

definition formatBytes :: "int \<Rightarrow> jsstr" where
  "formatBytes n =
     (if n < 0 then [0x2014]
      else if n < 1024 then radix_str 10 (nat n) @ js '' B''
      else let (v, u) = scale_size 3 (of_int n) 0
           in (if v \<ge> 100 then toFixed v 0 else if v \<ge> 10 then toFixed v 1 else toFixed v 2)
              @ js '' '' @ size_units ! u)"

section \<open>terminal-output.ts\<close>

definition MAX_TERMINAL_FRAME_BYTES :: nat where "MAX_TERMINAL_FRAME_BYTES = 1000000"

definition decodeTerminalOutput ::
    "bytes \<Rightarrow> bool \<Rightarrow> (bytes \<Rightarrow> nat \<Rightarrow> jsstr + bytes) \<Rightarrow> nat \<Rightarrow> jsstr + bytes" where
  "decodeTerminalOutput d compressed decode maxBytes =
     (if maxBytes < length d
      then Inl (js ''Terminal output frame exceeds '' @ radix_str 10 maxBytes @ js '' bytes'')
      else if \<not> compressed then Inr d
      else case decode d maxBytes of
             Inl e \<Rightarrow> Inl e
           | Inr out \<Rightarrow>
               if maxBytes < length out
               then Inl (js ''Decompressed terminal output exceeds '' @ radix_str 10 maxBytes @ js '' bytes'')
               else Inr out)"

lemma decodeTerminalOutput_bounded:
  "decodeTerminalOutput d c decode n = Inr out \<Longrightarrow> length out \<le> n"
  by (auto simp: decodeTerminalOutput_def split: if_splits sum.split_asm)

section \<open>Path navigation\<close>

lemma lastIndexOf_append:
  "c \<notin> set r \<Longrightarrow> lastIndexOf (a @ c # r) c = int (length a)"
proof -
  assume "c \<notin> set r"
  then have "takeWhile (\<lambda>u. u \<noteq> c) (rev r @ c # rev a) = rev r"
    by (subst takeWhile_append2) auto
  then show ?thesis by (simp add: lastIndexOf_def)
qed

lemma lastIndexOf_split:
  assumes "c \<in> set s"
  obtains a r where "s = a @ c # r" "c \<notin> set r" "lastIndexOf s c = int (length a)"
proof -
  obtain r a where "rev s = r @ c # a" "c \<notin> set r"
    using assms split_list_first [of c "rev s"] by auto
  then have "s = rev a @ c # rev r" "c \<notin> set (rev r)" by (simp_all add: rev_swap)
  then show thesis using that lastIndexOf_append by metis
qed

lemma endsWith_single: "js_endsWith s [c] \<longleftrightarrow> s \<noteq> [] \<and> last s = c"
  by (cases s rule: rev_cases) (auto simp: js_endsWith_def)

text \<open>A remote directory in the form the panel shows it: absolute, no trailing separator except at a root.\<close>

definition canonical_dir :: "16 word \<Rightarrow> jsstr \<Rightarrow> bool" where
  "canonical_dir sep dir \<longleftrightarrow>
     (if sep = bslash
      then \<exists>d r. dir = d # 58 # bslash # r \<and> is_letter d \<and> (r \<noteq> [] \<longrightarrow> last r \<noteq> bslash)
      else \<exists>r. dir = slash # r \<and> sep = slash \<and> (r \<noteq> [] \<longrightarrow> last r \<noteq> slash))"

text \<open>
  Opening an entry and going up again returns to the directory: on both path styles, the
  parent of a canonical directory joined with an entry name (not empty, without a separator)
  is that directory, roots and drive roots included.
\<close>

theorem parent_of_join:
  assumes "canonical_dir sep dir" "name \<noteq> []" "sep \<notin> set name"
  shows "parentRemote (joinRemote dir name sep) sep = dir"
proof (cases "sep = bslash")
  case True
  with assms(1) obtain d r where dir: "dir = d # 58 # bslash # r" "is_letter d"
    "r \<noteq> [] \<longrightarrow> last r \<noteq> bslash" by (auto simp: canonical_dir_def)
  have ne: "\<not> js_endsWith (x @ name) [sep]" for x
    using assms(2,3) last_in_set [of name] by (auto simp: endsWith_single)
  show ?thesis
  proof (cases "r = []")
    case True': True
    have j: "joinRemote dir name sep = [d, 58] @ bslash # name"
      using dir True True' by (simp add: joinRemote_def endsWith_single)
    have "lastIndexOf ([d, 58] @ bslash # name) bslash = 2"
      using lastIndexOf_append [of bslash name "[d, 58]"] assms(3) True by simp
    moreover have "\<not> is_drive_root ([d, 58] @ bslash # name)" using assms(2) by (cases name) auto
    ultimately show ?thesis
      using True True' dir ne [of "[d, 58, bslash]"] unfolding j by (simp add: parentRemote_def Let_def)
  next
    case False
    have j: "joinRemote dir name sep = dir @ bslash # name"
      using dir True False by (simp add: joinRemote_def endsWith_single)
    have l: "lastIndexOf (dir @ bslash # name) bslash = int (length dir)"
      using lastIndexOf_append [of bslash name dir] assms(3) True by simp
    moreover have "\<not> is_drive_root (dir @ bslash # name)" using dir by (cases r) auto
    moreover have "2 < length dir" using dir by simp
    ultimately show ?thesis
      using True ne [of "dir @ [bslash]"] unfolding j by (simp add: parentRemote_def Let_def)
  qed
next
  case False
  with assms(1) obtain r where dir: "dir = slash # r" "sep = slash" "r \<noteq> [] \<longrightarrow> last r \<noteq> slash"
    by (auto simp: canonical_dir_def)
  have ne: "\<not> js_endsWith (x @ name) [slash]" for x
  proof -
    have "last name \<noteq> slash" using assms(2,3) dir(2) by (metis last_in_set)
    then show ?thesis using assms(2) by (simp add: endsWith_single)
  qed
  show ?thesis
  proof (cases "r = []")
    case True
    with dir have j: "joinRemote dir name sep = [] @ slash # name"
      by (simp add: joinRemote_def endsWith_single)
    show ?thesis
      using lastIndexOf_append [of slash name "[]"] assms(3) dir True ne [of "[slash]"]
      unfolding j by (simp add: parentRemote_def Let_def)
  next
    case F: False
    with dir have j: "joinRemote dir name sep = dir @ slash # name"
      by (simp add: joinRemote_def endsWith_single)
    show ?thesis
      using lastIndexOf_append [of slash name dir] assms(3) dir ne [of "dir @ [slash]"]
      unfolding j by (simp add: parentRemote_def Let_def nat_add_distrib)
  qed
qed

theorem parent_of_join_witness:
  "parentRemote (joinRemote (js ''C:'' @ [bslash]) (js ''Users'') bslash) bslash = js ''C:'' @ [bslash]"
  by (rule parent_of_join) (auto simp: canonical_dir_def is_letter_def js_def)


text \<open>A path below a Windows drive.\<close>

definition on_drive :: "jsstr \<Rightarrow> bool" where
  "on_drive path \<longleftrightarrow> (\<exists>d r. path = d # 58 # bslash # r \<and> is_letter d)"

lemma parent_slash:
  "parentRemote path slash = [slash] \<or> length (parentRemote path slash) < length path"
proof -
  let ?t = "if js_endsWith path [slash] \<and> 1 < length path then butlast path else path"
  show ?thesis
  proof (cases "slash \<in> set ?t")
    case True
    then obtain a r where a: "?t = a @ slash # r" "lastIndexOf ?t slash = int (length a)"
      by (rule lastIndexOf_split)
    have "length ?t \<le> length path" by auto
    then have "length a < length path" using a(1) by simp
    with a show ?thesis by (auto simp: parentRemote_def Let_def)
  next
    case False
    then have "lastIndexOf ?t slash = - 1" by (simp add: lastIndexOf_def)
    then show ?thesis by (simp add: parentRemote_def Let_def)
  qed
qed

lemma parent_bslash:
  assumes "on_drive path"
  shows "parentRemote path bslash = [] \<or>
         (on_drive (parentRemote path bslash) \<and> length (parentRemote path bslash) < length path)"
proof -
  from assms obtain d r where path: "path = d # 58 # bslash # r" "is_letter d"
    by (auto simp: on_drive_def)
  let ?t = "if js_endsWith path [bslash] \<and> 1 < length path then butlast path else path"
  show ?thesis
  proof (cases "is_drive_root ?t")
    case True
    then show ?thesis by (simp add: parentRemote_def Let_def)
  next
    case F: False
    have "r \<noteq> []" using F path by (auto simp: endsWith_single)
    then have "?t = d # 58 # bslash # (if last r = bslash then butlast r else r)"
      using path by (simp add: endsWith_single)
    then obtain r' where t: "?t = d # 58 # bslash # r'" by blast
    with F path have r': "r' \<noteq> []" by auto
    have len: "length ?t \<le> length path" by auto
    have "bslash \<in> set ?t" using t by simp
    then obtain a q where a: "?t = a @ bslash # q" "bslash \<notin> set q" "lastIndexOf ?t bslash = int (length a)"
      by (rule lastIndexOf_split)
    have a2: "2 \<le> length a"
    proof (rule ccontr)
      assume "\<not> 2 \<le> length a"
      then have "length a = 0 \<or> length a = 1" by linarith
      with a(1,2) t show False
        using path(2) by (cases a; cases "tl a") (auto simp: is_letter_def)
    qed
    show ?thesis
    proof (cases "length a = 2")
      case True
      with a F have "parentRemote path bslash = take 3 ?t" by (simp add: parentRemote_def Let_def)
      moreover have "length (take 3 ?t) < length path" using t r' len by (cases r') auto
      ultimately show ?thesis using t path(2) by (simp add: on_drive_def)
    next
      case False
      with a a2 F have p: "parentRemote path bslash = take (length a) ?t"
        by (simp add: parentRemote_def Let_def)
      have "take (length a) ?t = d # 58 # bslash # take (length a - 3) r'"
      proof -
        obtain k where k: "length a = Suc (Suc (Suc k))"
          using False a2 by (metis add_2_eq_Suc le_Suc_ex le_neq_implies_less less_iff_Suc_add)
        show ?thesis unfolding t(1) k by simp
      qed
      moreover have "length (take (length a) ?t) < length path" using a(1) len by simp
      ultimately show ?thesis using p path(2) by (auto simp: on_drive_def)
    qed
  qed
qed

text \<open>
  Going up always arrives: from any path of a slash-separated peer, and from any path
  below a drive of a Windows peer, at most one step per character leads to the root view
  (the root directory, or the list of drives).
\<close>

theorem going_up_terminates:
  assumes "sep = slash \<or> sep = bslash \<and> on_drive path"
  shows "\<exists>n \<le> Suc (length path).
           ((\<lambda>p. parentRemote p sep) ^^ n) path = (if sep = slash then [slash] else [])"
  using assms
proof (induction "length path" arbitrary: path rule: less_induct)
  case less
  let ?p = "parentRemote path sep" and ?root = "if sep = slash then [slash] else []"
  consider "?p = ?root" | "length ?p < length path" "sep = slash \<or> sep = bslash \<and> on_drive ?p"
    using less.prems parent_slash [of path] parent_bslash [of path] by auto
  then show ?case
  proof cases
    case 1
    then have "((\<lambda>p. parentRemote p sep) ^^ 1) path = ?root" by simp
    then show ?thesis by (intro exI [of _ 1]) simp
  next
    case 2
    from less.hyps [OF this] obtain n where n: "n \<le> Suc (length ?p)"
      "((\<lambda>p. parentRemote p sep) ^^ n) ?p = ?root" by blast
    then have "((\<lambda>p. parentRemote p sep) ^^ Suc n) path = ?root"
      by (simp only: funpow_Suc_right o_apply)
    with n(1) 2(1) show ?thesis by (intro exI [of _ "Suc n"]) auto
  qed
qed

theorem going_up_terminates_witness:
  "\<exists>n \<le> Suc (length (js ''C:'' @ bslash # js ''a'' @ bslash # js ''b'')).
     ((\<lambda>p. parentRemote p bslash) ^^ n) (js ''C:'' @ bslash # js ''a'' @ bslash # js ''b'') = []"
  using going_up_terminates [of bslash "js ''C:'' @ bslash # js ''a'' @ bslash # js ''b''"]
  by (simp add: on_drive_def js_def is_letter_def)

end
