(* ===== verification/Debounce.thy ===== *)
theory Debounce
  imports Main
begin

text \<open>
  The debounce contract two components share (\<open>VideoPipeline.requestRefresh\<close> and
  \<open>WorkerHost.kickVideo\<close>): an operation that does its work only when enough time has passed
  since it last did. Clients get that any two consecutive runs are at least the gap apart.
\<close>

definition debounced :: "int \<Rightarrow> int \<Rightarrow> int list \<Rightarrow> bool" where
  "debounced gap prev ts \<longleftrightarrow> successively (\<lambda>a b. gap \<le> b - a) ts \<and> (ts \<noteq> [] \<longrightarrow> last ts = prev)"

lemma debounced_snoc:
  "debounced gap prev ts \<Longrightarrow> gap \<le> now - prev \<Longrightarrow> debounced gap now (ts @ [now])"
  by (auto simp: debounced_def successively_append_iff)

locale debounce =
  fixes gap :: int and last_fire :: "'s \<Rightarrow> int" and fired :: "'s \<Rightarrow> int list"
    and fire :: "int \<Rightarrow> 's \<Rightarrow> 's"
  assumes quiet: "now - last_fire s < gap \<Longrightarrow> fire now s = s"
    and fires: "gap \<le> now - last_fire s \<Longrightarrow>
      last_fire (fire now s) = now \<and> fired (fire now s) = fired s @ [now]"
begin

lemma fire_debounced:
  assumes "debounced gap (last_fire s) (fired s)"
  shows "debounced gap (last_fire (fire now s)) (fired (fire now s))"
proof (cases "now - last_fire s < gap")
  case True
  with assms show ?thesis by (simp add: quiet)
next
  case False
  then have "gap \<le> now - last_fire s" by simp
  from fires [OF this] debounced_snoc [OF assms this] show ?thesis by simp
qed

lemma fire_at_most_one: "fired (fire now s) = fired s \<or> fired (fire now s) = fired s @ [now]"
  using quiet [of now s] fires [of now s] by (cases "now - last_fire s < gap") auto

end

lemma debounced_gaps:
  assumes "debounced gap prev ts" "0 \<le> gap" "i < j" "j < length ts"
  shows "gap \<le> ts ! j - ts ! i"
  using assms(3,4)
proof (induction j)
  case (Suc j)
  have "gap \<le> ts ! Suc j - ts ! j"
    using assms(1) Suc.prems(2) by (simp add: debounced_def successively_conv_nth)
  then show ?case
    using Suc assms(2) by (cases "i = j") auto
qed simp

end
