(* ===== verification/Video.thy ===== *)
theory Video
  imports File_Transfer Debounce Step_System
begin

text \<open>
  \<open>webclient/src/media/video.ts\<close> (the WebCodecs pipeline) and the worker half of
  \<open>webclient/src/media/mse-video.ts\<close> (the forwarding pipeline). The browser's \<open>VideoDecoder\<close> is
  the environment: whether it throws, its queue length, its state and the clock are arguments
  (\<open>frame_env\<close>, \<open>push_env\<close>), its output and error callbacks are calls of their own. Decoders
  are numbered in the order they are created. Callbacks and canvas operations are
  \<open>v_action\<close>s in \<open>v_trace\<close>.
\<close>

datatype EncodedCase = EC_vp9s | EC_vp8s | EC_h264s | EC_h265s | EC_av1s

definition CODEC_STRING :: "EncodedCase \<Rightarrow> jsstr" where
  "CODEC_STRING c =
     (case c of EC_vp9s \<Rightarrow> js ''vp09.00.10.08'' | EC_vp8s \<Rightarrow> js ''vp8'' | EC_h264s \<Rightarrow> js ''avc1.640033''
      | EC_h265s \<Rightarrow> js ''hev1.1.6.L93.B0'' | EC_av1s \<Rightarrow> js ''av01.0.08M.08'')"

definition MAX_DECODE_FAIL :: nat where "MAX_DECODE_FAIL = 3"
definition REFRESH_DEBOUNCE_MS :: int where "REFRESH_DEBOUNCE_MS = 1000"
definition STATS_INTERVAL_MS :: int where "STATS_INTERVAL_MS = 1000"
definition MAX_DECODE_QUEUE :: nat where "MAX_DECODE_QUEUE = 30"
definition STALL_TIMEOUT_MS :: int where "STALL_TIMEOUT_MS = 2500"

text \<open>
  What the browser answers to the codec probes. \<open>probe_supported c\<close> is the value \<open>probe\<close>
  resolves to: an exception of \<open>isConfigSupported\<close> counts as unsupported.
\<close>

record media_env =
  has_webcodecs :: bool
  probe_supported :: "jsstr \<Rightarrow> bool"
  mse_h264 :: bool

definition flag :: "bool \<Rightarrow> int" where
  "flag b = (if b then 1 else 0)"

definition probeSupportedDecoding :: "media_env \<Rightarrow> SupportedDecoding" where
  "probeSupportedDecoding env =
     (let pr = (\<lambda>c. has_webcodecs env \<and> probe_supported env (CODEC_STRING c));
          h264 = (if has_webcodecs env then pr EC_h264s else mse_h264 env)
      in SupportedDecoding_base
           \<lparr>ability_vp9 := flag (pr EC_vp9s), ability_vp8 := flag (pr EC_vp8s), ability_h264 := flag h264,
            ability_av1 := flag (pr EC_av1s), ability_h265 := 0, prefer_codec := PreferCodec_Auto\<rparr>)"

section \<open>VideoPipeline\<close>

datatype (plugins only: code size) v_action =
    NewDecoder nat EncodedCase
  | Decode nat bool int bytes
  | CloseDecoder nat
  | NeedRefresh int
  | Readvertise EncodedCase
  | ResizeCanvas int int
  | DrawFrame
  | CloseFrame
  | AckFrame
  | StatsOut SessionStats

record VideoPipeline =
  v_decoder :: "nat option"
  v_created :: nat
  currentCase :: "EncodedCase option"
  awaitingKey :: bool
  failStreak :: nat
  v_disabled :: "EncodedCase list"
  lastRefreshMs :: int
  framesDropped :: int
  startedAtMs :: int
  windowStartMs :: int
  windowFrames :: int
  windowBytes :: int
  lastW :: int
  lastH :: int
  v_closed :: bool
  framesOut :: int
  lastOutputMs :: int
  canvasW :: int
  canvasH :: int
  v_trace :: "v_action list"

definition newVideoPipeline :: "int \<Rightarrow> int \<Rightarrow> int \<Rightarrow> VideoPipeline" where
  "newVideoPipeline now w h =
     \<lparr>v_decoder = None, v_created = 0, currentCase = None, awaitingKey = True, failStreak = 0,
      v_disabled = [], lastRefreshMs = 0, framesDropped = 0, startedAtMs = now,
      windowStartMs = now, windowFrames = 0, windowBytes = 0, lastW = 0, lastH = 0,
      v_closed = False, framesOut = 0, lastOutputMs = now, canvasW = w, canvasH = h, v_trace = []\<rparr>"

definition v_act :: "v_action \<Rightarrow> VideoPipeline \<Rightarrow> VideoPipeline" where
  "v_act a s = s\<lparr>v_trace := v_trace s @ [a]\<rparr>"

definition disabledCodecs :: "VideoPipeline \<Rightarrow> EncodedCase list" where
  "disabledCodecs s = v_disabled s"

text \<open>\<open>closed_obs\<close>: whether the decoder's state already reads \<open>closed\<close>.\<close>

definition teardownDecoder :: "bool \<Rightarrow> VideoPipeline \<Rightarrow> VideoPipeline" where
  "teardownDecoder closed_obs s =
     (let s1 = s\<lparr>v_decoder := None\<rparr>
      in case v_decoder s of
           Some d \<Rightarrow> if \<not> closed_obs then v_act (CloseDecoder d) s1 else s1
         | None \<Rightarrow> s1)"

definition requestRefresh :: "int \<Rightarrow> VideoPipeline \<Rightarrow> VideoPipeline" where
  "requestRefresh now s =
     (if now - lastRefreshMs s < REFRESH_DEBOUNCE_MS then s
      else v_act (NeedRefresh now) (s\<lparr>lastRefreshMs := now\<rparr>))"

definition fatal :: "bool \<Rightarrow> int \<Rightarrow> EncodedCase \<Rightarrow> VideoPipeline \<Rightarrow> VideoPipeline" where
  "fatal closed_obs now kase s =
     (if v_closed s then s
      else let s1 = (teardownDecoder closed_obs s)\<lparr>currentCase := None\<rparr>;
               s2 = (if kase \<notin> set (v_disabled s1)
                     then v_act (Readvertise kase) (s1\<lparr>v_disabled := v_disabled s1 @ [kase]\<rparr>) else s1)
           in requestRefresh now s2)"

definition noteFailure :: "bool \<Rightarrow> int \<Rightarrow> EncodedCase \<Rightarrow> VideoPipeline \<Rightarrow> VideoPipeline" where
  "noteFailure closed_obs now kase s =
     (let s1 = s\<lparr>framesDropped := framesDropped s + 1, awaitingKey := True,
                 failStreak := Suc (failStreak s)\<rparr>
      in if MAX_DECODE_FAIL \<le> failStreak s1 then fatal closed_obs now kase s1
         else requestRefresh now s1)"

definition checkStall :: "int \<Rightarrow> VideoPipeline \<Rightarrow> VideoPipeline" where
  "checkStall now s =
     (if v_closed s then s
      else if now - lastOutputMs s < STALL_TIMEOUT_MS then s
      else requestRefresh now (s\<lparr>lastOutputMs := now, awaitingKey := True\<rparr>))"

definition configure :: "bool \<Rightarrow> bool \<Rightarrow> int \<Rightarrow> EncodedCase \<Rightarrow> VideoPipeline \<Rightarrow> VideoPipeline \<times> bool" where
  "configure closed_obs throws now kase s =
     (let s1 = (teardownDecoder closed_obs s)\<lparr>awaitingKey := True, failStreak := 0\<rparr>
      in if throws then (fatal False now kase s1, False)
         else (v_act (NewDecoder (v_created s1) kase)
                 (s1\<lparr>v_decoder := Some (v_created s1), v_created := Suc (v_created s1),
                     currentCase := Some kase\<rparr>), True))"

record frame_env =
  fe_now :: int
  fe_queueSize :: nat
  fe_throws :: bool
  fe_stateClosed :: bool

record push_env =
  pu_webcodecs :: bool
  pu_stateClosed :: bool
  pu_configureThrows :: bool
  pu_now :: int
  pu_frame :: "nat \<Rightarrow> frame_env"

text \<open>\<open>decode\<close> of one frame that passed the guards; a pipeline without decoder throws.\<close>

definition decodeFrame :: "frame_env \<Rightarrow> EncodedCase \<Rightarrow> EncodedVideoFrame \<Rightarrow> VideoPipeline \<Rightarrow> VideoPipeline \<times> bool" where
  "decodeFrame e kase f s =
     (let s1 = s\<lparr>windowBytes := windowBytes s + int (length (ef_data f))\<rparr>;
          s2 = (case v_decoder s1 of
                  Some d \<Rightarrow> v_act (Decode d (ef_key f) (js_Number (ef_pts f) * 1000) (ef_data f)) s1
                | None \<Rightarrow> s1)
      in if \<not> fe_throws e \<and> v_decoder s1 \<noteq> None
         then (checkStall (fe_now e) (s2\<lparr>awaitingKey := False\<rparr>), True)
         else let s3 = noteFailure (fe_stateClosed e) (fe_now e) kase s2
              in (s3, \<not> (kase \<in> set (v_disabled s3) \<or> v_decoder s3 = None \<or> fe_stateClosed e)))"

fun push_frames :: "(nat \<Rightarrow> frame_env) \<Rightarrow> nat \<Rightarrow> EncodedCase \<Rightarrow> EncodedVideoFrame list \<Rightarrow> VideoPipeline \<Rightarrow> VideoPipeline" where
  "push_frames env i kase [] s = s"
| "push_frames env i kase (f # fs) s =
     (let e = env i
      in if awaitingKey s \<and> \<not> ef_key f
         then push_frames env (Suc i) kase fs
                (requestRefresh (fe_now e) (s\<lparr>framesDropped := framesDropped s + 1\<rparr>))
         else if \<not> ef_key f \<and> v_decoder s \<noteq> None \<and> MAX_DECODE_QUEUE < fe_queueSize e
         then push_frames env (Suc i) kase fs
                (requestRefresh (fe_now e) (s\<lparr>framesDropped := framesDropped s + 1\<rparr>))
         else case decodeFrame e kase f s of
                (s1, go) \<Rightarrow> if go then push_frames env (Suc i) kase fs s1 else s1)"

definition frames_of :: "VideoUnion \<Rightarrow> (EncodedCase \<times> EncodedVideoFrame list) option" where
  "frames_of u =
     (case u of VU_vp9s fs \<Rightarrow> Some (EC_vp9s, fs) | VU_vp8s fs \<Rightarrow> Some (EC_vp8s, fs)
      | VU_h264s fs \<Rightarrow> Some (EC_h264s, fs) | VU_h265s fs \<Rightarrow> Some (EC_h265s, fs)
      | VU_av1s fs \<Rightarrow> Some (EC_av1s, fs) | _ \<Rightarrow> None)"

definition pushFrame :: "push_env \<Rightarrow> VideoFrame \<Rightarrow> VideoPipeline \<Rightarrow> VideoPipeline" where
  "pushFrame env vf s =
     (if v_closed s \<or> \<not> pu_webcodecs env then s
      else case frames_of (vf_union vf) of
             None \<Rightarrow> s
           | Some (kase, frames) \<Rightarrow>
               if kase \<in> set (v_disabled s) then requestRefresh (pu_now env) s
               else if v_decoder s = None \<or> currentCase s \<noteq> Some kase \<or> pu_stateClosed env
               then (case configure (pu_stateClosed env) (pu_configureThrows env) (pu_now env) kase s of
                       (s1, ok) \<Rightarrow> if ok then push_frames (pu_frame env) 0 kase frames s1 else s1)
               else push_frames (pu_frame env) 0 kase frames s)"

definition resetVideo :: "bool \<Rightarrow> int \<Rightarrow> VideoPipeline \<Rightarrow> VideoPipeline" where
  "resetVideo closed_obs now s =
     (teardownDecoder closed_obs s)
       \<lparr>currentCase := None, awaitingKey := True, failStreak := 0, framesOut := 0, lastOutputMs := now\<rparr>"

definition closeVideo :: "bool \<Rightarrow> VideoPipeline \<Rightarrow> VideoPipeline" where
  "closeVideo closed_obs s = teardownDecoder closed_obs (s\<lparr>v_closed := True\<rparr>)"

definition codec_label :: "EncodedCase option \<Rightarrow> jsstr" where
  "codec_label c =
     (case c of None \<Rightarrow> [] | Some EC_vp9s \<Rightarrow> js ''vp9'' | Some EC_vp8s \<Rightarrow> js ''vp8''
      | Some EC_h264s \<Rightarrow> js ''h264'' | Some EC_h265s \<Rightarrow> js ''h265'' | Some EC_av1s \<Rightarrow> js ''av1'')"

definition tickStats :: "int \<Rightarrow> VideoPipeline \<Rightarrow> VideoPipeline" where
  "tickStats now s =
     (let s1 = s\<lparr>windowFrames := windowFrames s + 1\<rparr>; elapsed = now - windowStartMs s1
      in if elapsed < STATS_INTERVAL_MS then s1
         else (v_act (StatsOut
                 \<lparr>st_codec = codec_label (currentCase s1), st_width = lastW s1, st_height = lastH s1,
                  st_fps = js_round (of_int (windowFrames s1 * 1000) / of_int elapsed),
                  st_mbps = of_int (js_round (of_int (windowBytes s1 * 8) / (of_int elapsed / 1000)
                                / 1000000 * 100)) / 100,
                  st_framesDropped = framesDropped s1, st_startedAtMs = startedAtMs s1\<rparr>) s1)
                \<lparr>windowStartMs := now, windowFrames := 0, windowBytes := 0\<rparr>)"

text \<open>
  A decoded frame. Drawing may throw: the frame is released all the same, and the exception
  ends the callback before the acknowledgement.
\<close>

definition handleOutput :: "bool \<Rightarrow> int \<Rightarrow> int \<Rightarrow> int \<Rightarrow> VideoPipeline \<Rightarrow> VideoPipeline" where
  "handleOutput draw_throws now w h s =
     (let s1 = s\<lparr>failStreak := 0, framesOut := framesOut s + 1, lastOutputMs := now\<rparr>;
          s2 = (if canvasW s1 \<noteq> w \<or> canvasH s1 \<noteq> h
                then v_act (ResizeCanvas w h) (s1\<lparr>canvasW := w, canvasH := h\<rparr>) else s1)
      in if draw_throws then v_act CloseFrame s2
         else tickStats now (v_act AckFrame (v_act CloseFrame
                ((v_act DrawFrame s2)\<lparr>lastW := w, lastH := h\<rparr>))))"

section \<open>ForwardingVideoPipeline\<close>

datatype fw_action = FwEmit bytes bool | FwNeedRefresh

record ForwardingVideoPipeline =
  fw_closed :: bool
  fw_seenKey :: bool
  fw_trace :: "fw_action list"

definition fw_act :: "fw_action \<Rightarrow> ForwardingVideoPipeline \<Rightarrow> ForwardingVideoPipeline" where
  "fw_act a s = s\<lparr>fw_trace := fw_trace s @ [a]\<rparr>"

definition newForwardingVideoPipeline :: ForwardingVideoPipeline where
  "newForwardingVideoPipeline = \<lparr>fw_closed = False, fw_seenKey = False, fw_trace = []\<rparr>"

definition fw_disabledCodecs :: "EncodedCase list" where
  "fw_disabledCodecs = [EC_vp8s, EC_vp9s, EC_av1s, EC_h265s]"

definition fw_push_one :: "EncodedVideoFrame \<Rightarrow> ForwardingVideoPipeline \<Rightarrow> ForwardingVideoPipeline" where
  "fw_push_one f s =
     (if \<not> fw_seenKey s \<and> \<not> ef_key f then fw_act FwNeedRefresh s
      else fw_act (FwEmit (ef_data f) (ef_key f)) (s\<lparr>fw_seenKey := True\<rparr>))"

definition fw_pushFrame :: "VideoFrame \<Rightarrow> ForwardingVideoPipeline \<Rightarrow> ForwardingVideoPipeline" where
  "fw_pushFrame vf s =
     (if fw_closed s then s
      else case vf_union vf of
             VU_none \<Rightarrow> s
           | VU_h264s fs \<Rightarrow> fold fw_push_one fs s
           | _ \<Rightarrow> fw_act FwNeedRefresh s)"

definition fw_reset :: "ForwardingVideoPipeline \<Rightarrow> ForwardingVideoPipeline" where
  "fw_reset s = s\<lparr>fw_seenKey := False\<rparr>"

definition fw_close :: "ForwardingVideoPipeline \<Rightarrow> ForwardingVideoPipeline" where
  "fw_close s = s\<lparr>fw_closed := True\<rparr>"

section \<open>Calls\<close>

datatype (plugins only: code size) v_call =
    VP_push push_env VideoFrame
  | VP_reset bool int
  | VP_close bool
  | VP_output bool int int int
  | VP_error bool int EncodedCase

definition v_step :: "v_call \<Rightarrow> VideoPipeline \<Rightarrow> VideoPipeline" where
  "v_step c s =
     (case c of
        VP_push env vf \<Rightarrow> pushFrame env vf s
      | VP_reset o' now \<Rightarrow> resetVideo o' now s
      | VP_close o' \<Rightarrow> closeVideo o' s
      | VP_output th now w h \<Rightarrow> handleOutput th now w h s
      | VP_error o' now kase \<Rightarrow> fatal o' now kase s)"

end
