(* ===== verification/Video_Safety.thy ===== *)
theory Video_Safety
  imports Video
begin

text \<open>
  What holds of the video pipelines however the decoder behaves: decoders start on key frames,
  refresh requests are spaced, and a codec is given up at most once.
\<close>

section \<open>What the trace says\<close>

text \<open>The key flags of the chunks given to decoder \<open>d\<close>, the refresh times, the codecs given up.\<close>

fun chunks :: "nat \<Rightarrow> v_action list \<Rightarrow> bool list" where
  "chunks d [] = []"
| "chunks d (Decode d' k t b # as) = (if d' = d then k # chunks d as else chunks d as)"
| "chunks d (_ # as) = chunks d as"

fun refreshes :: "v_action list \<Rightarrow> int list" where
  "refreshes [] = []"
| "refreshes (NeedRefresh t # as) = t # refreshes as"
| "refreshes (_ # as) = refreshes as"

fun given_up :: "v_action list \<Rightarrow> EncodedCase list" where
  "given_up [] = []"
| "given_up (Readvertise c # as) = c # given_up as"
| "given_up (_ # as) = given_up as"

lemma chunks_append [simp]: "chunks d (as @ bs) = chunks d as @ chunks d bs"
  by (induction as rule: chunks.induct) simp_all

lemma refreshes_append [simp]: "refreshes (as @ bs) = refreshes as @ refreshes bs"
  by (induction as rule: refreshes.induct) simp_all

lemma given_up_append [simp]: "given_up (as @ bs) = given_up as @ given_up bs"
  by (induction as rule: given_up.induct) simp_all

lemma v_act_fields [simp]:
  "v_decoder (v_act a s) = v_decoder s" "v_created (v_act a s) = v_created s"
  "currentCase (v_act a s) = currentCase s" "awaitingKey (v_act a s) = awaitingKey s"
  "failStreak (v_act a s) = failStreak s" "v_disabled (v_act a s) = v_disabled s"
  "lastRefreshMs (v_act a s) = lastRefreshMs s" "framesDropped (v_act a s) = framesDropped s"
  "v_closed (v_act a s) = v_closed s" "lastOutputMs (v_act a s) = lastOutputMs s"
  "windowBytes (v_act a s) = windowBytes s" "v_trace (v_act a s) = v_trace s @ [a]"
  by (simp_all add: v_act_def)

interpretation refresh: debounce REFRESH_DEBOUNCE_MS lastRefreshMs "\<lambda>s. refreshes (v_trace s)" requestRefresh
  by unfold_locales (auto simp: requestRefresh_def)

section \<open>The invariant\<close>

definition key_inv :: "VideoPipeline \<Rightarrow> bool" where
  "key_inv s \<longleftrightarrow>
     (\<forall>d. chunks d (v_trace s) \<noteq> [] \<longrightarrow> hd (chunks d (v_trace s))) \<and>
     (\<forall>d. v_created s \<le> d \<longrightarrow> chunks d (v_trace s) = []) \<and>
     (\<forall>d. v_decoder s = Some d \<longrightarrow>
        d < v_created s \<and> (\<not> awaitingKey s \<longrightarrow> chunks d (v_trace s) \<noteq> []))"

definition video_inv :: "VideoPipeline \<Rightarrow> bool" where
  "video_inv s \<longleftrightarrow>
     key_inv s \<and> debounced REFRESH_DEBOUNCE_MS (lastRefreshMs s) (refreshes (v_trace s)) \<and>
     given_up (v_trace s) = v_disabled s \<and> distinct (v_disabled s)"

text \<open>What an operation that neither decodes nor gives up a codec has to leave alone.\<close>

lemma video_inv_frame:
  assumes "video_inv s"
    and "\<And>d. chunks d (v_trace t) = chunks d (v_trace s)" "given_up (v_trace t) = given_up (v_trace s)"
    and "refreshes (v_trace t) = refreshes (v_trace s)" "lastRefreshMs t = lastRefreshMs s"
    and "v_created t = v_created s" "v_disabled t = v_disabled s"
    and "v_decoder t = v_decoder s \<and> (awaitingKey t = awaitingKey s \<or> awaitingKey t) \<or> v_decoder t = None"
  shows "video_inv t"
  using assms by (auto simp: video_inv_def key_inv_def)

lemma video_inv_requestRefresh:
  assumes "video_inv s"
  shows "video_inv (requestRefresh now s)"
proof -
  have "debounced REFRESH_DEBOUNCE_MS (lastRefreshMs (requestRefresh now s)) (refreshes (v_trace (requestRefresh now s)))"
    using assms by (intro refresh.fire_debounced) (simp add: video_inv_def)
  with assms show ?thesis
    by (auto simp: video_inv_def key_inv_def requestRefresh_def)
qed

lemma video_inv_teardownDecoder: "video_inv s \<Longrightarrow> video_inv (teardownDecoder b s)"
  by (erule video_inv_frame) (simp_all add: teardownDecoder_def Let_def split: option.split)

lemma teardownDecoder_fields [simp]:
  "v_decoder (teardownDecoder b s) = None" "v_created (teardownDecoder b s) = v_created s"
  "v_disabled (teardownDecoder b s) = v_disabled s"
  "v_closed (teardownDecoder b s) = v_closed s"
  "chunks d (v_trace (teardownDecoder b s)) = chunks d (v_trace s)"
  "refreshes (v_trace (teardownDecoder b s)) = refreshes (v_trace s)"
  "given_up (v_trace (teardownDecoder b s)) = given_up (v_trace s)"
  "lastRefreshMs (teardownDecoder b s) = lastRefreshMs s"
  by (simp_all add: teardownDecoder_def Let_def split: option.split)

lemma video_inv_fatal:
  assumes "video_inv s"
  shows "video_inv (fatal b now kase s)"
proof -
  let ?s1 = "(teardownDecoder b s)\<lparr>currentCase := None\<rparr>"
  have s1: "video_inv ?s1"
    by (rule video_inv_frame [OF assms]) simp_all
  have s2: "video_inv (v_act (Readvertise kase) (?s1\<lparr>v_disabled := v_disabled ?s1 @ [kase]\<rparr>))"
    if "kase \<notin> set (v_disabled s)"
    using s1 that by (auto simp: video_inv_def key_inv_def)
  show ?thesis
    using assms s1 s2 by (simp add: fatal_def Let_def video_inv_requestRefresh)
qed

lemma video_inv_noteFailure: "video_inv s \<Longrightarrow> video_inv (noteFailure b now kase s)"
  unfolding noteFailure_def Let_def
  by (auto intro!: video_inv_fatal video_inv_requestRefresh elim!: video_inv_frame)

lemma video_inv_checkStall: "video_inv s \<Longrightarrow> video_inv (checkStall now s)"
  unfolding checkStall_def
  by (auto intro!: video_inv_requestRefresh elim!: video_inv_frame)

lemma video_inv_configure:
  assumes "video_inv s"
  shows "video_inv (fst (configure b th now kase s))"
    and "snd (configure b th now kase s) \<Longrightarrow> awaitingKey (fst (configure b th now kase s))"
proof -
  let ?s1 = "(teardownDecoder b s)\<lparr>awaitingKey := True, failStreak := 0\<rparr>"
  have s1: "video_inv ?s1" by (rule video_inv_frame [OF assms]) simp_all
  then have "video_inv (v_act (NewDecoder (v_created ?s1) kase)
      (?s1\<lparr>v_decoder := Some (v_created ?s1), v_created := Suc (v_created ?s1), currentCase := Some kase\<rparr>))"
    by (auto simp: video_inv_def key_inv_def)
  with s1 show "video_inv (fst (configure b th now kase s))"
    by (simp add: configure_def Let_def video_inv_fatal)
  show "awaitingKey (fst (configure b th now kase s))" if "snd (configure b th now kase s)"
    using that by (simp add: configure_def Let_def split: if_splits)
qed

text \<open>A chunk that passed the key-frame guard may be given to the decoder.\<close>

lemma video_inv_decodeFrame:
  assumes "video_inv s" "awaitingKey s \<longrightarrow> ef_key f"
  shows "video_inv (fst (decodeFrame e kase f s))"
proof -
  let ?s1 = "s\<lparr>windowBytes := windowBytes s + int (length (ef_data f))\<rparr>"
  have s1: "video_inv ?s1" by (rule video_inv_frame [OF assms(1)]) simp_all
  show ?thesis
  proof (cases "v_decoder s")
    case None
    then show ?thesis
      using s1 by (simp add: decodeFrame_def Let_def video_inv_noteFailure)
  next
    case (Some d)
    let ?s2 = "v_act (Decode d (ef_key f) (js_Number (ef_pts f) * 1000) (ef_data f)) ?s1"
    have d: "d < v_created s" "\<not> awaitingKey s \<longrightarrow> chunks d (v_trace s) \<noteq> []"
      "chunks d (v_trace s) \<noteq> [] \<longrightarrow> hd (chunks d (v_trace s))"
      using assms(1) Some by (auto simp: video_inv_def key_inv_def)
    then have hd: "hd (chunks d (v_trace s) @ [ef_key f])"
      using assms(2) by (cases "chunks d (v_trace s)") auto
    have s2: "video_inv (?s2\<lparr>awaitingKey := a\<rparr>)" for a
      using assms(1) Some d(1) hd by (auto simp: video_inv_def key_inv_def)
    have s2': "video_inv ?s2" using s2 [of "awaitingKey s"] by (simp add: v_act_def)
    from Some s2 s2' show ?thesis
      by (simp add: decodeFrame_def Let_def video_inv_checkStall video_inv_noteFailure)
  qed
qed

lemma video_inv_push_frames: "video_inv s \<Longrightarrow> video_inv (push_frames env i kase fs s)"
proof (induction env i kase fs s rule: push_frames.induct)
  case (2 env i kase f fs s)
  have drop: "video_inv (requestRefresh now (s\<lparr>framesDropped := n\<rparr>))" for now n
    by (rule video_inv_requestRefresh, rule video_inv_frame [OF "2.prems"]) simp_all
  have dec: "video_inv (fst (decodeFrame (env i) kase f s))" if "\<not> (awaitingKey s \<and> \<not> ef_key f)"
    using "2.prems" that by (intro video_inv_decodeFrame) auto
  show ?case
    using 2 drop dec by (auto simp: Let_def split: prod.splits)
qed simp

lemma video_inv_pushFrame: "video_inv s \<Longrightarrow> video_inv (pushFrame env vf s)"
  using video_inv_configure(1) [of s]
  by (auto simp: pushFrame_def video_inv_requestRefresh video_inv_push_frames
      split: option.split prod.split)
    (metis fst_conv video_inv_push_frames)+

lemma video_inv_tickStats: "video_inv s \<Longrightarrow> video_inv (tickStats now s)"
  by (erule video_inv_frame) (simp_all add: tickStats_def Let_def)

lemma video_inv_handleOutput:
  assumes "video_inv s"
  shows "video_inv (handleOutput th now w h s)"
proof -
  have "video_inv t \<Longrightarrow> video_inv (v_act a t)" if "a \<in> {CloseFrame, AckFrame, DrawFrame, ResizeCanvas w h}" for a t
    using that by (auto elim!: video_inv_frame)
  note this [of CloseFrame, simplified] this [of AckFrame, simplified] this [of DrawFrame, simplified]
    this [of "ResizeCanvas w h", simplified]
  moreover have "video_inv (t\<lparr>canvasW := w, canvasH := h\<rparr>)" "video_inv (t\<lparr>lastW := w, lastH := h\<rparr>)"
    "video_inv (t\<lparr>failStreak := 0, framesOut := framesOut t + 1, lastOutputMs := now\<rparr>)"
    if "video_inv t" for t
    using that by (auto elim!: video_inv_frame)
  ultimately show ?thesis
    using assms by (simp add: handleOutput_def Let_def video_inv_tickStats)
qed

lemma video_inv_step:
  assumes "video_inv s"
  shows "video_inv (v_step c s)"
proof -
  have r: "video_inv (resetVideo b now s)" for b now
    unfolding resetVideo_def by (rule video_inv_frame [OF assms]) simp_all
  have cl: "video_inv (closeVideo b s)" for b
    unfolding closeVideo_def
    by (rule video_inv_teardownDecoder, rule video_inv_frame [OF assms]) simp_all
  show ?thesis
    using assms r cl
    by (cases c) (simp_all add: v_step_def video_inv_pushFrame video_inv_handleOutput video_inv_fatal)
qed

definition video_init :: "VideoPipeline \<Rightarrow> bool" where
  "video_init s \<longleftrightarrow> (\<exists>now w h. s = newVideoPipeline now w h)"

interpretation video: invariant_system video_init v_step video_inv
proof
  show "video_inv s" if "video_init s" for s
    using that by (auto simp: video_init_def newVideoPipeline_def video_inv_def key_inv_def debounced_def)
qed (rule video_inv_step)

abbreviation video_reach :: "VideoPipeline \<Rightarrow> bool" where
  "video_reach \<equiv> reach video_init v_step"

text \<open>
  C30. A decoder never starts in the middle of a picture: in every reachable state of the
  pipeline, whatever the peer sends and however the decoder fails, the first chunk given to
  each decoder is a key frame.
\<close>

theorem decoders_start_on_key_frames:
  assumes "video_reach s" "chunks d (v_trace s) \<noteq> []"
  shows "hd (chunks d (v_trace s))"
  using video.inv_reach [OF assms(1)] assms(2) by (simp add: video_inv_def key_inv_def)

text \<open>
  Requests for a key frame are debounced: in every reachable state any two refresh
  requests the pipeline has made are at least one second apart, whatever mix of dropped
  frames, decoder failures and stalls caused them.
\<close>

theorem refresh_requests_spaced:
  assumes "video_reach s" "i < j" "j < length (refreshes (v_trace s))"
  shows "1000 \<le> refreshes (v_trace s) ! j - refreshes (v_trace s) ! i"
  using debounced_gaps [OF _ _ assms(2,3), of REFRESH_DEBOUNCE_MS "lastRefreshMs s"]
    video.inv_reach [OF assms(1)]
  by (simp add: video_inv_def REFRESH_DEBOUNCE_MS_def)

text \<open>
  A codec is given up at most once: in every reachable state the codecs announced as no
  longer decodable are exactly the disabled ones, each announced once.
\<close>

theorem codecs_given_up_once:
  assumes "video_reach s"
  shows "given_up (v_trace s) = disabledCodecs s \<and> distinct (disabledCodecs s)"
  using video.inv_reach [OF assms] by (simp add: video_inv_def disabledCodecs_def)


section \<open>Backpressure\<close>

lemma requestRefresh_fields [simp]:
  "v_decoder (requestRefresh now s) = v_decoder s" "awaitingKey (requestRefresh now s) = awaitingKey s"
  "chunks d (v_trace (requestRefresh now s)) = chunks d (v_trace s)"
  "framesDropped (requestRefresh now s) = framesDropped s" "v_closed (requestRefresh now s) = v_closed s"
  "lastOutputMs (requestRefresh now s) = lastOutputMs s"
  by (simp_all add: requestRefresh_def)

text \<open>
  Dropping a frame under backpressure does not make the pipeline wait for a key frame: a
  delta dropped because the decoder's queue is full is followed by the next delta as soon as
  the queue has room, although the picture it builds on was skipped.
\<close>

theorem backpressure_feeds_next_delta:
  assumes "v_decoder s = Some d" "\<not> awaitingKey s" "\<not> ef_key f1" "\<not> ef_key f2"
    and "MAX_DECODE_QUEUE < fe_queueSize (env 0)" "fe_queueSize (env 1) \<le> MAX_DECODE_QUEUE"
    and "\<not> fe_throws (env 1)"
  shows "chunks d (v_trace (push_frames env 0 kase [f1, f2] s)) = chunks d (v_trace s) @ [False] \<and>
         framesDropped (push_frames env 0 kase [f1, f2] s) = framesDropped s + 1"
  using assms by (simp add: Let_def decodeFrame_def checkStall_def)

section \<open>The forwarding pipeline\<close>

fun fw_keys :: "fw_action list \<Rightarrow> bool list" where
  "fw_keys [] = []"
| "fw_keys (FwEmit b k # as) = k # fw_keys as"
| "fw_keys (FwNeedRefresh # as) = fw_keys as"

lemma fw_keys_append [simp]: "fw_keys (as @ bs) = fw_keys as @ fw_keys bs"
  by (induction as rule: fw_keys.induct) simp_all

text \<open>From \<open>s\<close> to \<open>t\<close>, nothing was forwarded, or the first frame forwarded was a key frame.\<close>

definition starts_on_key :: "ForwardingVideoPipeline \<Rightarrow> ForwardingVideoPipeline \<Rightarrow> bool" where
  "starts_on_key s t \<longleftrightarrow>
     (\<exists>r. fw_keys (fw_trace t) = fw_keys (fw_trace s) @ r \<and> (r = [] \<and> \<not> fw_seenKey t \<or> r \<noteq> [] \<and> hd r))"

lemma starts_on_key_push_one: "starts_on_key s t \<Longrightarrow> starts_on_key s (fw_push_one f t)"
  unfolding starts_on_key_def fw_push_one_def fw_act_def by auto

lemma starts_on_key_fold: "starts_on_key s t \<Longrightarrow> starts_on_key s (fold fw_push_one fs t)"
  by (induction fs arbitrary: t) (auto intro: starts_on_key_push_one)

lemma starts_on_key_pushFrame: "starts_on_key s t \<Longrightarrow> starts_on_key s (fw_pushFrame vf t)"
proof -
  assume a: "starts_on_key s t"
  then have "starts_on_key s (fw_act FwNeedRefresh t)" by (auto simp: starts_on_key_def fw_act_def)
  with a show ?thesis
    by (simp add: fw_pushFrame_def starts_on_key_fold split: VideoUnion.split)
qed

text \<open>
  The muxer is never handed a delta without a reference: from a new or reset forwarding
  pipeline, whatever frames are pushed, the first frame forwarded is a key frame.
\<close>

theorem forwarding_starts_on_key:
  "\<exists>r. fw_keys (fw_trace (fold fw_pushFrame vfs (fw_reset s))) = fw_keys (fw_trace s) @ r \<and> (r = [] \<or> hd r)"
proof -
  have "starts_on_key (fw_reset s) (fold fw_pushFrame vfs t)" if "starts_on_key (fw_reset s) t" for t
    using that by (induction vfs arbitrary: t) (auto intro: starts_on_key_pushFrame)
  moreover have "starts_on_key (fw_reset s) (fw_reset s)" by (simp add: starts_on_key_def fw_reset_def)
  ultimately have "starts_on_key (fw_reset s) (fold fw_pushFrame vfs (fw_reset s))" by blast
  moreover have "fw_trace (fw_reset s) = fw_trace s" by (simp add: fw_reset_def)
  ultimately show ?thesis by (auto simp: starts_on_key_def)
qed

section \<open>Witnesses\<close>

definition demo_frame :: "bool \<Rightarrow> EncodedVideoFrame" where
  "demo_frame k = \<lparr>ef_data = [1], ef_key = k, ef_pts = 0\<rparr>"

definition demo_env :: push_env where
  "demo_env = \<lparr>pu_webcodecs = True, pu_stateClosed = False, pu_configureThrows = False, pu_now = 5000,
     pu_frame = (\<lambda>i. \<lparr>fe_now = 5000 + 2000 * int i, fe_queueSize = (if i = 1 then 31 else 0),
                      fe_throws = False, fe_stateClosed = False\<rparr>)\<rparr>"

definition demo_video :: VideoPipeline where
  "demo_video = v_step (VP_push demo_env \<lparr>vf_union = VU_vp9s [demo_frame True], vf_display = 0\<rparr>)
     (newVideoPipeline 5000 0 0)"

lemma demo_video_reach: "video_reach demo_video"
  unfolding demo_video_def by (rule reach_step, rule reach_init) (auto simp: video_init_def)

lemmas demo_video_defs =
  demo_video_def v_step_def pushFrame_def demo_env_def frames_of_def newVideoPipeline_def
  configure_def teardownDecoder_def decodeFrame_def checkStall_def demo_frame_def STALL_TIMEOUT_MS_def

lemma demo_video_state: "v_decoder demo_video = Some 0 \<and> \<not> awaitingKey demo_video \<and>
    chunks 0 (v_trace demo_video) = [True]"
  by (simp add: demo_video_defs Let_def)

theorem decoders_start_on_key_frames_witness:
  "chunks 0 (v_trace demo_video) = [True] \<and> hd (chunks 0 (v_trace demo_video))"
  using decoders_start_on_key_frames [OF demo_video_reach, of 0] demo_video_state by simp

theorem codecs_given_up_once_witness:
  "given_up (v_trace demo_video) = disabledCodecs demo_video \<and> distinct (disabledCodecs demo_video)"
  using codecs_given_up_once [OF demo_video_reach] by simp

definition demo_video2 :: VideoPipeline where
  "demo_video2 = fold v_step
     [VP_push demo_env \<lparr>vf_union = VU_vp9s [demo_frame False, demo_frame False, demo_frame False], vf_display = 0\<rparr>]
     (newVideoPipeline 5000 0 0)"

theorem refresh_requests_spaced_witness:
  "refreshes (v_trace demo_video2) = [5000, 7000, 9000] \<and>
   1000 \<le> refreshes (v_trace demo_video2) ! 2 - refreshes (v_trace demo_video2) ! 0"
proof -
  have r: "video_reach demo_video2"
    unfolding demo_video2_def by (rule reach_fold, rule reach_init) (auto simp: video_init_def)
  have e: "refreshes (v_trace demo_video2) = [5000, 7000, 9000]"
    by (simp add: demo_video2_def demo_video_defs Let_def requestRefresh_def REFRESH_DEBOUNCE_MS_def)
  show ?thesis using refresh_requests_spaced [OF r, of 0 2] e by simp
qed

theorem backpressure_feeds_next_delta_witness:
  "chunks 0 (v_trace (push_frames (\<lambda>i. pu_frame demo_env (Suc i)) 0 EC_vp9s [demo_frame False, demo_frame False] demo_video))
     = [True, False]"
  using backpressure_feeds_next_delta [of demo_video 0 "demo_frame False" "demo_frame False"
      "\<lambda>i. pu_frame demo_env (Suc i)" EC_vp9s] demo_video_state
  by (simp add: demo_frame_def demo_env_def MAX_DECODE_QUEUE_def del: push_frames.simps)

end
