(* ===== verification/Audio.thy ===== *)
theory Audio
  imports Prelude Step_System
begin

text \<open>
  Remote audio: \<open>webclient/src/media/audio.ts\<close> (Opus decoding in the worker),
  \<open>webclient/src/media/pcm-scheduler.ts\<close> (gapless playback on the main thread) and
  \<open>webclient/src/media/remote-audio.ts\<close> (volume, mute, recording taps). Samples, times and
  volumes are exact rationals. The browser's decoder and Web Audio nodes are the environment:
  what they answer is an argument, what is asked of them goes to a trace. Decoders and buffer
  sources are numbered in the order they are created.
\<close>

section \<open>AudioPipeline\<close>

datatype a_action =
    ANewDecoder nat int int
  | ADecode nat int bytes
  | ACloseDecoder nat
  | APcm "rat list" int nat
  | ACloseData

record AudioPipeline =
  a_decoder :: "nat option"
  a_created :: nat
  tsUs :: int
  a_trace :: "a_action list"

definition newAudioPipeline :: AudioPipeline where
  "newAudioPipeline = \<lparr>a_decoder = None, a_created = 0, tsUs = 0, a_trace = []\<rparr>"

definition a_act :: "a_action \<Rightarrow> AudioPipeline \<Rightarrow> AudioPipeline" where
  "a_act a s = s\<lparr>a_trace := a_trace s @ [a]\<rparr>"

text \<open>\<open>closed_obs\<close>: whether the decoder's state already reads \<open>closed\<close>.\<close>

definition a_teardown :: "bool \<Rightarrow> AudioPipeline \<Rightarrow> AudioPipeline" where
  "a_teardown closed_obs s =
     (let s1 = s\<lparr>a_decoder := None\<rparr>
      in case a_decoder s of
           Some d \<Rightarrow> if \<not> closed_obs then a_act (ACloseDecoder d) s1 else s1
         | None \<Rightarrow> s1)"

definition a_setFormat :: "bool \<Rightarrow> bool \<Rightarrow> bool \<Rightarrow> int \<Rightarrow> int \<Rightarrow> AudioPipeline \<Rightarrow> AudioPipeline" where
  "a_setFormat closed_obs has_decoder throws sampleRate channels s =
     (let s1 = a_teardown closed_obs s
      in if \<not> has_decoder then s1
         else if throws then s1\<lparr>a_decoder := None\<rparr>
         else (a_act (ANewDecoder (a_created s1) sampleRate channels) s1)
                \<lparr>a_decoder := Some (a_created s1), a_created := Suc (a_created s1), tsUs := 0\<rparr>)"

definition a_pushFrame :: "bool \<Rightarrow> bool \<Rightarrow> bool \<Rightarrow> bytes \<Rightarrow> AudioPipeline \<Rightarrow> AudioPipeline" where
  "a_pushFrame configured throws closed_obs d s =
     (case a_decoder s of
        None \<Rightarrow> s
      | Some dec \<Rightarrow>
          if \<not> configured then s
          else let s1 = a_act (ADecode dec (tsUs s) d) s
               in if throws then a_teardown closed_obs s1 else s1\<lparr>tsUs := tsUs s1 + 10000\<rparr>)"

definition a_close :: "bool \<Rightarrow> AudioPipeline \<Rightarrow> AudioPipeline" where
  "a_close closed_obs s = a_teardown closed_obs s"

text \<open>
  The two loops of \<open>handleOutput\<close>: \<open>out[i * chs + c] = plane[i]\<close>, planes given by channel.
\<close>

definition interleave :: "'a list list \<Rightarrow> nat \<Rightarrow> nat \<Rightarrow> 'a list" where
  "interleave planes frames chs = concat (map (\<lambda>i. map (\<lambda>c. planes ! c ! i) [0..<chs]) [0..<frames])"

definition a_handleOutput :: "rat list list \<Rightarrow> nat \<Rightarrow> nat \<Rightarrow> int \<Rightarrow> AudioPipeline \<Rightarrow> AudioPipeline" where
  "a_handleOutput planes frames chs rate s =
     a_act ACloseData
       (if frames = 0 \<or> chs = 0 then s else a_act (APcm (interleave planes frames chs) rate chs) s)"

section \<open>PcmScheduler\<close>

datatype p_action =
    PStart nat rat "rat list list" rat
  | PStop nat
  | PDisconnect nat

record pcm_source =
  src_id :: nat
  src_start :: rat
  src_duration :: rat

record PcmScheduler =
  leadSeconds :: rat
  maxQueuedSeconds :: rat
  scheduledUntil :: rat
  p_format :: "(rat \<times> nat) option"
  scheduled :: "pcm_source list"
  p_created :: nat
  p_trace :: "p_action list"

definition newPcmScheduler :: "rat option \<Rightarrow> rat option \<Rightarrow> PcmScheduler" where
  "newPcmScheduler lead maxQueued =
     \<lparr>leadSeconds = (case lead of None \<Rightarrow> 5 / 100 | Some l \<Rightarrow> l),
      maxQueuedSeconds = (case maxQueued of None \<Rightarrow> 5 / 10 | Some m \<Rightarrow> m),
      scheduledUntil = 0, p_format = None, scheduled = [], p_created = 0, p_trace = []\<rparr>"

definition EPSILON :: rat where "EPSILON = 1 / 2 ^ 52"

definition p_reset :: "PcmScheduler \<Rightarrow> PcmScheduler" where
  "p_reset s =
     s\<lparr>p_trace := p_trace s @ concat (map (\<lambda>x. [PStop (src_id x), PDisconnect (src_id x)]) (scheduled s)),
       scheduled := [], scheduledUntil := 0, p_format := None\<rparr>"

text \<open>The guards on the numbers: a finite positive rate, a positive integer of channels.\<close>

definition pcm_args :: "jsnum \<Rightarrow> jsnum \<Rightarrow> (rat \<times> nat) option" where
  "pcm_args sampleRate channels =
     (case (sampleRate, channels) of
        (Num r, Num c) \<Rightarrow>
          if r \<le> 0 \<or> c \<noteq> of_int \<lfloor>c\<rfloor> \<or> c \<le> 0 then None else Some (r, nat \<lfloor>c\<rfloor>)
      | _ \<Rightarrow> None)"

definition deinterleave :: "'a list \<Rightarrow> nat \<Rightarrow> nat \<Rightarrow> 'a list list" where
  "deinterleave pcm frames channels =
     map (\<lambda>c. map (\<lambda>f. pcm ! (f * channels + c)) [0..<frames]) [0..<channels]"

definition p_enqueue :: "rat \<Rightarrow> rat list \<Rightarrow> jsnum \<Rightarrow> jsnum \<Rightarrow> PcmScheduler \<Rightarrow> PcmScheduler \<times> bool" where
  "p_enqueue now pcm sampleRate channels s =
     (case pcm_args sampleRate channels of
        None \<Rightarrow> (s, False)
      | Some (rate, chs) \<Rightarrow>
          if length pcm = 0 \<or> length pcm mod chs \<noteq> 0 then (s, False)
          else let s1 = (if p_format s \<noteq> Some (rate, chs) then (p_reset s)\<lparr>p_format := Some (rate, chs)\<rparr> else s);
                   frames = length pcm div chs;
                   duration = of_nat frames / rate;
                   start = max (now + leadSeconds s1) (scheduledUntil s1)
               in if maxQueuedSeconds s1 + EPSILON < start + duration - now then (s1, False)
                  else (s1\<lparr>p_trace := p_trace s1 @ [PStart (p_created s1) start (deinterleave pcm frames chs) rate],
                           scheduled := scheduled s1 @ [\<lparr>src_id = p_created s1, src_start = start, src_duration = duration\<rparr>],
                           p_created := Suc (p_created s1),
                           scheduledUntil := start + duration\<rparr>, True))"

definition p_ended :: "nat \<Rightarrow> PcmScheduler \<Rightarrow> PcmScheduler" where
  "p_ended i s = s\<lparr>scheduled := filter (\<lambda>x. src_id x \<noteq> i) (scheduled s)\<rparr>"

section \<open>RemoteAudioPlayback\<close>

record RemoteAudioPlayback =
  ra_volume :: rat
  ra_muted :: bool
  ra_gain :: rat
  ra_scheduler :: PcmScheduler
  ra_taps :: "nat list"
  ra_disconnected :: bool

text \<open>A new gain node has gain 1.\<close>

definition newRemoteAudio :: RemoteAudioPlayback where
  "newRemoteAudio =
     \<lparr>ra_volume = 1, ra_muted = False, ra_gain = 1, ra_scheduler = newPcmScheduler None None,
      ra_taps = [], ra_disconnected = False\<rparr>"

definition ra_enqueue :: "rat \<Rightarrow> rat list \<Rightarrow> jsnum \<Rightarrow> jsnum \<Rightarrow> RemoteAudioPlayback \<Rightarrow> RemoteAudioPlayback \<times> bool" where
  "ra_enqueue now pcm rate chs s =
     (let (sch, ok) = p_enqueue now pcm rate chs (ra_scheduler s) in (s\<lparr>ra_scheduler := sch\<rparr>, ok))"

text \<open>Recording taps, numbered by the caller; closing one twice is harmless.\<close>

definition ra_createTap :: "nat \<Rightarrow> RemoteAudioPlayback \<Rightarrow> RemoteAudioPlayback" where
  "ra_createTap t s = s\<lparr>ra_taps := ra_taps s @ [t]\<rparr>"

definition ra_closeTap :: "nat \<Rightarrow> RemoteAudioPlayback \<Rightarrow> RemoteAudioPlayback" where
  "ra_closeTap t s = s\<lparr>ra_taps := filter (\<lambda>x. x \<noteq> t) (ra_taps s)\<rparr>"

definition ra_reset :: "RemoteAudioPlayback \<Rightarrow> RemoteAudioPlayback" where
  "ra_reset s = s\<lparr>ra_scheduler := p_reset (ra_scheduler s)\<rparr>"

definition ra_close :: "RemoteAudioPlayback \<Rightarrow> RemoteAudioPlayback" where
  "ra_close s = s\<lparr>ra_scheduler := p_reset (ra_scheduler s), ra_disconnected := True, ra_taps := []\<rparr>"

definition applyVolume :: "RemoteAudioPlayback \<Rightarrow> RemoteAudioPlayback" where
  "applyVolume s = s\<lparr>ra_gain := (if ra_muted s then 0 else ra_volume s)\<rparr>"

definition setVolume :: "jsnum \<Rightarrow> RemoteAudioPlayback \<Rightarrow> RemoteAudioPlayback" where
  "setVolume v s = applyVolume (s\<lparr>ra_volume := max 0 (min 1 (case v of Num q \<Rightarrow> q | _ \<Rightarrow> 1))\<rparr>)"

definition setMuted :: "bool \<Rightarrow> RemoteAudioPlayback \<Rightarrow> RemoteAudioPlayback" where
  "setMuted m s = applyVolume (s\<lparr>ra_muted := m\<rparr>)"

text \<open>\<open>resumes\<close>: whether the context's promise fulfils.\<close>

definition resumeFromUserGesture :: "bool \<Rightarrow> bool \<Rightarrow> bool" where
  "resumeFromUserGesture running resumes = (if running then True else resumes)"

section \<open>Channel data\<close>

lemma length_interleave: "length (interleave planes frames chs) = frames * chs"
  by (simp add: interleave_def length_concat comp_def sum_list_triv)

lemma nth_interleave:
  assumes "i < frames" "c < chs"
  shows "interleave planes frames chs ! (i * chs + c) = planes ! c ! i"
  using assms(1)
proof (induction frames arbitrary: i)
  case (Suc frames)
  have app: "interleave planes (Suc frames) chs =
      interleave planes frames chs @ map (\<lambda>c. planes ! c ! frames) [0..<chs]"
    by (simp add: interleave_def)
  show ?case
  proof (cases "i = frames")
    case True
    then show ?thesis using assms(2) by (simp add: app nth_append length_interleave)
  next
    case False
    with Suc.prems have i: "i < frames" by simp
    then have "Suc i * chs \<le> frames * chs" by (intro mult_le_mono1) simp
    then have "i * chs + c < frames * chs" using assms(2) by simp
    with Suc.IH [OF i] show ?thesis by (simp add: app nth_append length_interleave)
  qed
qed simp

text \<open>
  Interleaving in the worker and de-interleaving for playback are inverse: the channel
  data the scheduler gives to the browser is the channel data the decoder produced.
\<close>

theorem pcm_channels_roundtrip:
  assumes "length planes = chs" "\<forall>p \<in> set planes. length p = frames"
  shows "deinterleave (interleave planes frames chs) frames chs = planes"
proof (rule nth_equalityI)
  fix c assume "c < length (deinterleave (interleave planes frames chs) frames chs)"
  then have c: "c < chs" by (simp add: deinterleave_def)
  then have l: "length (planes ! c) = frames" using assms by simp
  show "deinterleave (interleave planes frames chs) frames chs ! c = planes ! c"
    using c l by (intro nth_equalityI) (simp_all add: deinterleave_def nth_interleave)
qed (simp add: deinterleave_def assms)

theorem pcm_channels_roundtrip_witness:
  "deinterleave (interleave [[1, 2, 3], [4, 5, 6 :: rat]] 3 2) 3 2 = [[1, 2, 3], [4, 5, 6]]"
  using pcm_channels_roundtrip [of "[[1, 2, 3], [4, 5, 6 :: rat]]" 2 3] by simp

section \<open>Scheduling\<close>

definition src_end :: "pcm_source \<Rightarrow> rat" where
  "src_end x = src_start x + src_duration x"

text \<open>Blocks still scheduled are in order, do not overlap, and end by \<open>scheduledUntil\<close>.\<close>

definition sched_inv :: "PcmScheduler \<Rightarrow> bool" where
  "sched_inv s \<longleftrightarrow>
     sorted_wrt (\<lambda>x y. src_end x \<le> src_start y) (scheduled s) \<and>
     (\<forall>x \<in> set (scheduled s). 0 < src_duration x \<and> src_end x \<le> scheduledUntil s)"

datatype p_call = PC_enqueue rat "rat list" jsnum jsnum | PC_reset | PC_ended nat

definition p_step :: "p_call \<Rightarrow> PcmScheduler \<Rightarrow> PcmScheduler" where
  "p_step c s =
     (case c of PC_enqueue now pcm r ch \<Rightarrow> fst (p_enqueue now pcm r ch s) | PC_reset \<Rightarrow> p_reset s
      | PC_ended i \<Rightarrow> p_ended i s)"

lemma sched_inv_reset: "sched_inv (p_reset s)" "sched_inv ((p_reset s)\<lparr>p_format := f\<rparr>)"
  by (simp_all add: p_reset_def sched_inv_def)

lemma pcm_args_pos: "pcm_args r c = Some (rate, chs) \<Longrightarrow> 0 < rate \<and> 0 < chs"
proof -
  assume "pcm_args r c = Some (rate, chs)"
  then obtain q :: rat where q: "0 < rate" "q = of_int \<lfloor>q\<rfloor>" "0 < q" "chs = nat \<lfloor>q\<rfloor>"
    by (auto simp: pcm_args_def not_le split: jsnum.splits if_splits)
  have "0 < (of_int \<lfloor>q\<rfloor> :: rat)" using q(2,3) by simp
  then have "0 < \<lfloor>q\<rfloor>" by (simp only: of_int_0_less_iff)
  with q show ?thesis by simp
qed

text \<open>What one accepted block looks like next to what was scheduled before.\<close>

lemma p_enqueue_accepted:
  assumes "p_enqueue now pcm r c s = (t, True)"
  obtains rate chs s1 start dur where
    "pcm_args r c = Some (rate, chs)" "s1 = s \<or> s1 = (p_reset s)\<lparr>p_format := Some (rate, chs)\<rparr>"
    "dur = of_nat (length pcm div chs) / rate" "0 < dur" "start = max (now + leadSeconds s1) (scheduledUntil s1)"
    "start + dur - now \<le> maxQueuedSeconds s1 + EPSILON"
    "scheduled t = scheduled s1 @ [\<lparr>src_id = p_created s1, src_start = start, src_duration = dur\<rparr>]"
    "scheduledUntil t = start + dur"
proof -
  from assms obtain rate chs where a: "pcm_args r c = Some (rate, chs)"
    and l: "length pcm \<noteq> 0" "length pcm mod chs = 0"
    by (auto simp: p_enqueue_def Let_def split: option.splits if_splits)
  define s1 where "s1 = (if p_format s \<noteq> Some (rate, chs) then (p_reset s)\<lparr>p_format := Some (rate, chs)\<rparr> else s)"
  define dur where "dur = (of_nat (length pcm div chs) / rate :: rat)"
  have "0 < length pcm div chs" using l pcm_args_pos [OF a] by (metis div_greater_zero_iff dvd_imp_le gr0I mod_0_imp_dvd)
  then have d: "0 < dur" using pcm_args_pos [OF a] by (simp add: dur_def)
  from assms a l show thesis
    by (intro that [OF a _ dur_def d refl, of s1])
      (auto simp: p_enqueue_def Let_def s1_def dur_def split: if_splits)
qed

lemma sched_inv_enqueue:
  assumes "sched_inv s"
  shows "sched_inv (fst (p_enqueue now pcm r c s))"
proof (cases "snd (p_enqueue now pcm r c s)")
  case True
  then obtain t where t: "p_enqueue now pcm r c s = (t, True)" by (metis prod.collapse)
  then show ?thesis
  proof (rule p_enqueue_accepted)
    fix rate chs s1 start dur
    assume s1: "s1 = s \<or> s1 = p_reset s\<lparr>p_format := Some (rate, chs)\<rparr>" and d: "0 < dur"
      and st: "start = max (now + leadSeconds s1) (scheduledUntil s1)"
      and sch: "scheduled t = scheduled s1 @ [\<lparr>src_id = p_created s1, src_start = start, src_duration = dur\<rparr>]"
        "scheduledUntil t = start + dur"
    have "sched_inv s1" using s1 assms sched_inv_reset(2) by auto
    then have "\<forall>x \<in> set (scheduled s1). src_end x \<le> start" "\<forall>x \<in> set (scheduled s1). 0 < src_duration x"
      "sorted_wrt (\<lambda>x y. src_end x \<le> src_start y) (scheduled s1)"
      using st by (auto simp: sched_inv_def le_max_iff_disj)
    with t sch d show "sched_inv (fst (p_enqueue now pcm r c s))"
      by (auto simp: sched_inv_def sorted_wrt_append src_end_def)
  qed
next
  case False
  then show ?thesis
    using assms sched_inv_reset
    by (auto simp: p_enqueue_def Let_def split: option.splits if_splits prod.splits)
qed

interpretation pcm: invariant_system "\<lambda>s. \<exists>l m. s = newPcmScheduler l m" p_step sched_inv
proof
  show "sched_inv s" if "\<exists>l m. s = newPcmScheduler l m" for s
    using that by (auto simp: newPcmScheduler_def sched_inv_def)
  show "sched_inv (p_step c s)" if "sched_inv s" for c s
  proof (cases c)
    case (PC_ended i)
    with that show ?thesis
      by (auto simp: p_step_def p_ended_def sched_inv_def intro: sorted_wrt_filter)
  qed (use that in \<open>auto simp: p_step_def sched_inv_enqueue sched_inv_reset\<close>)
qed

text \<open>
  Playback is ordered and bounded in latency. Whatever blocks arrive, whenever
  sources end and the scheduler is reset: an accepted block starts no earlier than the lead
  time after now and than the end of every block still scheduled, ends within the queue limit
  after now, and its length is its frame count over the sample rate.
\<close>

theorem accepted_blocks_in_order:
  assumes "reach (\<lambda>s. \<exists>l m. s = newPcmScheduler l m) p_step s" "p_enqueue now pcm r c s = (t, True)"
  shows "let b = last (scheduled t) in
           (\<forall>x \<in> set (butlast (scheduled t)). src_end x \<le> src_start b) \<and>
           now + leadSeconds t \<le> src_start b \<and> src_end b - now \<le> maxQueuedSeconds t + EPSILON \<and>
           (\<exists>rate chs. pcm_args r c = Some (rate, chs) \<and> src_duration b = of_nat (length pcm div chs) / rate)"
proof -
  have inv: "sched_inv s" using assms(1) by (rule pcm.inv_reach)
  have k: "leadSeconds t = leadSeconds s" "maxQueuedSeconds t = maxQueuedSeconds s"
    using assms(2) by (auto simp: p_enqueue_def Let_def p_reset_def split: option.splits if_splits)
  from assms(2) show ?thesis
  proof (rule p_enqueue_accepted)
    fix rate chs s1 start dur
    assume a: "pcm_args r c = Some (rate, chs)"
      and s1: "s1 = s \<or> s1 = p_reset s\<lparr>p_format := Some (rate, chs)\<rparr>"
      and d: "dur = of_nat (length pcm div chs) / rate"
      and st: "start = max (now + leadSeconds s1) (scheduledUntil s1)"
        "start + dur - now \<le> maxQueuedSeconds s1 + EPSILON"
      and sch: "scheduled t = scheduled s1 @ [\<lparr>src_id = p_created s1, src_start = start, src_duration = dur\<rparr>]"
    have i1: "sched_inv s1" using s1 inv sched_inv_reset(2) by auto
    have "leadSeconds s1 = leadSeconds s" "maxQueuedSeconds s1 = maxQueuedSeconds s"
      using s1 by (auto simp: p_reset_def)
    with a d st sch i1 k show ?thesis
      by (auto simp: Let_def sched_inv_def src_end_def le_max_iff_disj)
  qed
qed

theorem accepted_blocks_in_order_witness:
  "snd (p_enqueue 0 [1, 2, 3, 4] (Num 8000) (Num 2) (newPcmScheduler None None))"
proof -
  let ?s = "newPcmScheduler None None"
  have e: "p_enqueue 0 [1, 2, 3, 4] (Num 8000) (Num 2) ?s = (fst (p_enqueue 0 [1, 2, 3, 4] (Num 8000) (Num 2) ?s), True)"
    by (simp add: p_enqueue_def pcm_args_def newPcmScheduler_def p_reset_def Let_def EPSILON_def)
  have r: "reach (\<lambda>s. \<exists>l m. s = newPcmScheduler l m) p_step ?s" by (rule reach_init) blast
  from accepted_blocks_in_order [OF r e] show ?thesis using e by (metis snd_conv)
qed

section \<open>Volume\<close>

datatype ra_call =
    RA_enqueue rat "rat list" jsnum jsnum
  | RA_volume jsnum
  | RA_muted bool
  | RA_createTap nat
  | RA_closeTap nat
  | RA_reset
  | RA_close

definition ra_step :: "ra_call \<Rightarrow> RemoteAudioPlayback \<Rightarrow> RemoteAudioPlayback" where
  "ra_step c s =
     (case c of
        RA_enqueue now pcm r ch \<Rightarrow> fst (ra_enqueue now pcm r ch s)
      | RA_volume v \<Rightarrow> setVolume v s
      | RA_muted m \<Rightarrow> setMuted m s
      | RA_createTap t \<Rightarrow> ra_createTap t s
      | RA_closeTap t \<Rightarrow> ra_closeTap t s
      | RA_reset \<Rightarrow> ra_reset s
      | RA_close \<Rightarrow> ra_close s)"

definition gain_inv :: "RemoteAudioPlayback \<Rightarrow> bool" where
  "gain_inv s \<longleftrightarrow> 0 \<le> ra_volume s \<and> ra_volume s \<le> 1 \<and> ra_gain s = (if ra_muted s then 0 else ra_volume s)"

interpretation gain: invariant_system "\<lambda>s. s = newRemoteAudio" ra_step gain_inv
proof
  show "gain_inv (ra_step c s)" if "gain_inv s" for c s
    using that
    by (cases c) (auto simp: gain_inv_def ra_step_def ra_enqueue_def setVolume_def setMuted_def
        applyVolume_def ra_createTap_def ra_closeTap_def ra_reset_def ra_close_def case_prod_beta Let_def)
qed (simp add: gain_inv_def newRemoteAudio_def)

text \<open>
  The output gain is always a legal volume and obeys mute: whatever number the volume is
  set to (infinite and not-a-number included) and however mute is toggled, the gain is 0 while
  muted and otherwise the volume, which lies between 0 and 1.
\<close>

theorem output_gain_legal:
  "let s = fold ra_step cs newRemoteAudio in
     0 \<le> ra_gain s \<and> ra_gain s \<le> 1 \<and> ra_gain s = (if ra_muted s then 0 else ra_volume s)"
proof -
  have "gain_inv newRemoteAudio" by (rule gain.inv_init) simp
  from gain.inv_fold [OF this, of cs] show ?thesis by (auto simp: gain_inv_def Let_def)
qed

end
