(* ===== verification/Worker.thy ===== *)
theory Worker
  imports Session_Behaviour Video_Safety Audio Json
begin

text \<open>
  \<open>webclient/src/worker/session.worker.ts\<close>: the worker that owns both sockets, the session and
  the media pipelines.

  The \<open>async\<close> method \<open>connect\<close> is cut at its awaits: \<open>w_pc\<close> says what it waits for, and the
  settlement of each promise is a call of its own; \<open>openRelay\<close> calls in flight are counted,
  cursors being rendered are listed. The sinks given to the session interpret the actions its
  methods append to their trace, in order; the two places where a sink calls back into the
  session (a video refresh or a new codec advertisement) happen at the point the code makes
  them. Sockets are numbered. The environment of a call (clock, random bytes, decoders,
  promise results) is the record \<open>wenv\<close>.
\<close>

section \<open>State\<close>

datatype w_out =
    Post SessionEvent
  | PostPcm "rat list" int nat
  | SockSend nat bytes
  | SockClosed nat
  | VideoCreated
  | VideoClosed
  | AudioCreated
  | AudioClosed
  | Kicked int

record cursor_entry =
  ce_pngDataUrl :: jsstr
  ce_hotx :: int
  ce_hoty :: int

datatype video_pipe = VPipe VideoPipeline | FPipe ForwardingVideoPipeline

datatype connect_pc = PC_idle | PC_ready SessionConfig bool | PC_probe SessionConfig | PC_ws SessionConfig

record WorkerHost =
  w_session :: "Session option"
  w_video :: "video_pipe option"
  w_audio :: "AudioPipeline option"
  w_ws1 :: "nat option"
  w_ws2 :: "nat option"
  w_probe :: "SupportedDecoding option"
  connectStarted :: bool
  tornDown :: bool
  connectTimer :: bool
  lastKickMs :: int
  cursorCache :: "(jsstr \<times> cursor_entry) list"
  w_pc :: connect_pc
  w_relays :: nat
  w_cursors :: "CursorData list"
  w_out :: "w_out list"

definition newWorkerHost :: WorkerHost where
  "newWorkerHost =
     \<lparr>w_session = None, w_video = None, w_audio = None, w_ws1 = None, w_ws2 = None, w_probe = None,
      connectStarted = False, tornDown = False, connectTimer = False, lastKickMs = 0,
      cursorCache = [], w_pc = PC_idle, w_relays = 0, w_cursors = [], w_out = []\<rparr>"

record wenv =
  en_platform :: platform
  en_media :: media_env
  en_now :: int
  en_push :: push_env
  en_zstd :: "bytes \<Rightarrow> nat \<Rightarrow> jsstr + bytes"
  en_clipboard :: "Clipboard \<Rightarrow> jsstr + jsstr option"
  en_audioDecoder :: bool
  en_audioThrows :: bool
  en_buffered :: int
  en_closedObs :: bool

definition wout :: "w_out \<Rightarrow> WorkerHost \<Rightarrow> WorkerHost" where
  "wout x w = w\<lparr>w_out := w_out w @ [x]\<rparr>"

definition post :: "SessionEvent \<Rightarrow> WorkerHost \<Rightarrow> WorkerHost" where
  "post ev = wout (Post ev)"

definition codecNames :: "SupportedDecoding \<Rightarrow> CodecName list" where
  "codecNames sd =
     [CN_auto] @ (if 0 < ability_vp9 sd then [CN_vp9] else []) @ (if 0 < ability_h264 sd then [CN_h264] else [])
     @ (if 0 < ability_h265 sd then [CN_h265] else []) @ (if 0 < ability_vp8 sd then [CN_vp8] else [])
     @ (if 0 < ability_av1 sd then [CN_av1] else [])"

section \<open>Teardown\<close>

definition clearConnectTimer :: "WorkerHost \<Rightarrow> WorkerHost" where
  "clearConnectTimer w = w\<lparr>connectTimer := False\<rparr>"

definition closed_outs :: "WorkerHost \<Rightarrow> w_out list" where
  "closed_outs w =
     (if w_video w = None then [] else [VideoClosed]) @ (if w_audio w = None then [] else [AudioClosed])
     @ (case w_ws1 w of None \<Rightarrow> [] | Some i \<Rightarrow> [SockClosed i])
     @ (case w_ws2 w of None \<Rightarrow> [] | Some i \<Rightarrow> [SockClosed i])"

definition w_teardown :: "WorkerHost \<Rightarrow> WorkerHost" where
  "w_teardown w =
     (if tornDown w then w
      else (clearConnectTimer (w\<lparr>tornDown := True\<rparr>))
             \<lparr>cursorCache := [], w_video := None, w_audio := None, w_ws1 := None, w_ws2 := None,
              w_out := w_out w @ closed_outs w\<rparr>)"

section \<open>Calls back into the session\<close>

definition new_actions :: "Session \<Rightarrow> Session \<Rightarrow> action list" where
  "new_actions s s' = drop (length (trace s)) (trace s')"

definition relay_out :: "action \<Rightarrow> WorkerHost \<Rightarrow> WorkerHost" where
  "relay_out a w =
     (case a of
        SendRelay b \<Rightarrow> (case w_ws2 w of None \<Rightarrow> w | Some i \<Rightarrow> wout (SockSend i b) w)
      | SendSealed b \<Rightarrow> (case w_ws2 w of None \<Rightarrow> w | Some i \<Rightarrow> wout (SockSend i b) w)
      | _ \<Rightarrow> w)"

text \<open>\<open>this.session?.f()\<close> from inside a sink, for methods that only send.\<close>

definition reenter :: "(Session \<Rightarrow> Session) \<Rightarrow> WorkerHost \<Rightarrow> WorkerHost" where
  "reenter f w =
     (case w_session w of
        None \<Rightarrow> w
      | Some s \<Rightarrow> fold relay_out (new_actions s (f s)) (w\<lparr>w_session := Some (f s)\<rparr>))"

definition resetPipe :: "wenv \<Rightarrow> video_pipe \<Rightarrow> video_pipe" where
  "resetPipe e v =
     (case v of VPipe vp \<Rightarrow> VPipe (resetVideo (en_closedObs e) (en_now e) vp) | FPipe fp \<Rightarrow> FPipe (fw_reset fp))"

definition kickVideo :: "wenv \<Rightarrow> WorkerHost \<Rightarrow> WorkerHost" where
  "kickVideo e w =
     (if en_now e - lastKickMs w < 500 then w
      else reenter (refresh (en_platform e))
             (wout (Kicked (en_now e))
                (w\<lparr>lastKickMs := en_now e, w_video := map_option (resetPipe e) (w_video w)\<rparr>)))"

fun disable_case :: "EncodedCase \<Rightarrow> SupportedDecoding \<Rightarrow> SupportedDecoding" where
  "disable_case EC_vp9s sd = sd\<lparr>ability_vp9 := 0\<rparr>"
| "disable_case EC_vp8s sd = sd\<lparr>ability_vp8 := 0\<rparr>"
| "disable_case EC_h264s sd = sd\<lparr>ability_h264 := 0\<rparr>"
| "disable_case EC_h265s sd = sd\<lparr>ability_h265 := 0\<rparr>"
| "disable_case EC_av1s sd = sd\<lparr>ability_av1 := 0\<rparr>"

definition pipe_disabled :: "video_pipe \<Rightarrow> EncodedCase list" where
  "pipe_disabled v = (case v of VPipe vp \<Rightarrow> disabledCodecs vp | FPipe _ \<Rightarrow> fw_disabledCodecs)"

definition readvertise :: "wenv \<Rightarrow> WorkerHost \<Rightarrow> WorkerHost" where
  "readvertise e w =
     (case (w_probe w, w_video w, w_session w) of
        (Some pr, Some v, Some s) \<Rightarrow>
          let sd = fold disable_case (pipe_disabled v) pr
          in post (Ev_codecSupport (codecNames sd)) (reenter (setSupportedDecoding (en_platform e) sd) w)
      | _ \<Rightarrow> w)"

definition postStats :: "SessionStats \<Rightarrow> WorkerHost \<Rightarrow> WorkerHost" where
  "postStats st = post (Ev_stats st)"

section \<open>Sinks\<close>

text \<open>What a step of the WebCodecs pipeline asked for, in order.\<close>

definition video_out :: "wenv \<Rightarrow> v_action \<Rightarrow> WorkerHost \<Rightarrow> WorkerHost" where
  "video_out e a w =
     (case a of
        NeedRefresh _ \<Rightarrow> reenter (refresh (en_platform e)) w
      | Readvertise _ \<Rightarrow> readvertise e w
      | StatsOut st \<Rightarrow> postStats st w
      | _ \<Rightarrow> w)"

definition forward_out :: "wenv \<Rightarrow> fw_action \<Rightarrow> WorkerHost \<Rightarrow> WorkerHost" where
  "forward_out e a w =
     (case a of
        FwEmit d k \<Rightarrow> post (Ev_h264 d k) w
      | FwNeedRefresh \<Rightarrow> reenter (refresh (en_platform e)) w)"

definition video_call :: "wenv \<Rightarrow> v_call \<Rightarrow> WorkerHost \<Rightarrow> WorkerHost" where
  "video_call e c w =
     (case w_video w of
        Some (VPipe vp) \<Rightarrow>
          let vp' = v_step c vp
          in fold (video_out e) (drop (length (v_trace vp)) (v_trace vp')) (w\<lparr>w_video := Some (VPipe vp')\<rparr>)
      | _ \<Rightarrow> w)"

definition pushVideo :: "wenv \<Rightarrow> VideoFrame \<Rightarrow> WorkerHost \<Rightarrow> WorkerHost" where
  "pushVideo e vf w =
     (case w_video w of
        Some (VPipe _) \<Rightarrow> video_call e (VP_push (en_push e) vf) w
      | Some (FPipe fp) \<Rightarrow>
          let fp' = fw_pushFrame vf fp
          in fold (forward_out e) (drop (length (fw_trace fp)) (fw_trace fp')) (w\<lparr>w_video := Some (FPipe fp')\<rparr>)
      | None \<Rightarrow> w)"

definition w_emit :: "wenv \<Rightarrow> SessionEvent \<Rightarrow> WorkerHost \<Rightarrow> WorkerHost" where
  "w_emit e ev w =
     (let w1 = (case ev of
                  Ev_state st _ _ \<Rightarrow>
                    if st \<in> {NeedAccept, Streaming, ErrorState, Closed} then clearConnectTimer w else w
                | _ \<Rightarrow> w);
          w2 = (case ev of
                  Ev_uac _ \<Rightarrow> kickVideo e w1
                | Ev_switchDisplay _ \<Rightarrow> kickVideo e w1
                | Ev_msgbox msgtype _ _ _ \<Rightarrow>
                    if search_i msgtype (js ''uac'') then kickVideo e w1 else w1
                | _ \<Rightarrow> w1)
      in case ev of
           Ev_terminalData i d compressed \<Rightarrow>
             (case decodeTerminalOutput d compressed (en_zstd e) MAX_TERMINAL_FRAME_BYTES of
                Inl err \<Rightarrow> post (Ev_terminalError i (js ''Could not decompress terminal output: '' @ err)) w2
              | Inr d' \<Rightarrow> post (Ev_terminalData i d' False) w2)
         | _ \<Rightarrow> post ev w2)"

definition postCursorId :: "int \<Rightarrow> WorkerHost \<Rightarrow> WorkerHost" where
  "postCursorId i w =
     (case map_of (cursorCache w) (int_str i) of
        None \<Rightarrow> w
      | Some c \<Rightarrow> post (Ev_cursor (ce_pngDataUrl c) (ce_hotx c) (ce_hoty c)) w)"

definition postClipboard :: "wenv \<Rightarrow> Clipboard \<Rightarrow> WorkerHost \<Rightarrow> WorkerHost" where
  "postClipboard e cb w =
     (case en_clipboard e cb of Inr (Some text) \<Rightarrow> post (Ev_clipboard text) w | _ \<Rightarrow> w)"

definition postFileResponse :: "wenv \<Rightarrow> FileResponse \<Rightarrow> WorkerHost \<Rightarrow> WorkerHost" where
  "postFileResponse e fr w = fold post (fileResponseToEvents fr (\<lambda>d. en_zstd e d 0)) w"

definition postSendConfirm :: "FileTransferSendConfirmRequest \<Rightarrow> WorkerHost \<Rightarrow> WorkerHost" where
  "postSendConfirm c =
     post (Ev_ftSendConfirm (sc_id c) (sc_file_num c) (case sc_union c of CU_skip b \<Rightarrow> b | _ \<Rightarrow> False)
             (case sc_union c of CU_offset_blk off \<Rightarrow> off | _ \<Rightarrow> 0))"

definition sink :: "wenv \<Rightarrow> action \<Rightarrow> WorkerHost \<Rightarrow> WorkerHost" where
  "sink e a w =
     (case a of
        SendSignaling b \<Rightarrow> (case w_ws1 w of None \<Rightarrow> w | Some i \<Rightarrow> wout (SockSend i b) w)
      | SendRelay b \<Rightarrow> relay_out a w
      | SendSealed b \<Rightarrow> relay_out a w
      | Emit ev \<Rightarrow> w_emit e ev w
      | OnVideo vf \<Rightarrow> pushVideo e vf w
      | OnAudioFormat r ch \<Rightarrow>
          w\<lparr>w_audio := map_option (a_setFormat (en_closedObs e) (en_audioDecoder e) (en_audioThrows e) r ch) (w_audio w)\<rparr>
      | OnAudioFrame d \<Rightarrow>
          w\<lparr>w_audio := map_option (a_pushFrame (\<not> en_closedObs e) (en_audioThrows e) (en_closedObs e) d) (w_audio w)\<rparr>
      | OpenRelay _ \<Rightarrow> w\<lparr>w_relays := Suc (w_relays w)\<rparr>
      | CloseAll \<Rightarrow> w_teardown w
      | OnCursor c \<Rightarrow> w\<lparr>w_cursors := w_cursors w @ [c]\<rparr>
      | OnCursorId i \<Rightarrow> postCursorId i w
      | OnClipboard cb \<Rightarrow> postClipboard e cb w
      | OnFileResponse fr \<Rightarrow> postFileResponse e fr w
      | OnFileSendConfirm c \<Rightarrow> postSendConfirm c w)"

text \<open>\<open>this.session?.f()\<close> with all sinks.\<close>

definition with_session :: "wenv \<Rightarrow> (Session \<Rightarrow> Session) \<Rightarrow> WorkerHost \<Rightarrow> WorkerHost" where
  "with_session e f w =
     (case w_session w of
        None \<Rightarrow> w
      | Some s \<Rightarrow> fold (sink e) (new_actions s (f s)) (w\<lparr>w_session := Some (f s)\<rparr>))"

text \<open>A relay frame: for a video frame the sink runs before the acknowledgement is sealed.\<close>

definition w_relayBytes :: "wenv \<Rightarrow> key_choice \<Rightarrow> bytes \<Rightarrow> WorkerHost \<Rightarrow> WorkerHost" where
  "w_relayBytes e rnd b w =
     (let p = en_platform e in
      case w_session w of
        None \<Rightarrow> w
      | Some s \<Rightarrow>
          if final s \<or> cipher s = None then with_session e (onRelayBytes p rnd b) w
          else (case openRelayBytes p b s of
                  (s1, Some (M_video_frame vf)) \<Rightarrow>
                    with_session e (ackVideo p) (with_session e (\<lambda>_. onVideo_sink vf s1) w)
                | _ \<Rightarrow> with_session e (onRelayBytes p rnd b) w))"


section \<open>Connecting\<close>

definition connect :: "SessionConfig \<Rightarrow> bool \<Rightarrow> WorkerHost \<Rightarrow> WorkerHost" where
  "connect config canvas w =
     (if connectStarted w
      then post (Ev_state ErrorState (Some (js ''worker already connected'')) False) w
      else (post (Ev_state Connecting None False) (w\<lparr>connectStarted := True\<rparr>))\<lparr>w_pc := PC_ready config canvas\<rparr>)"

text \<open>The \<open>catch\<close> of \<open>connect\<close>.\<close>

definition connectFailed :: "jsstr \<Rightarrow> WorkerHost \<Rightarrow> WorkerHost" where
  "connectFailed err w =
     w_teardown (post (Ev_state ErrorState (Some err) False) (w\<lparr>w_pc := PC_idle\<rparr>))"

text \<open>After \<open>await ready()\<close>.\<close>

definition onReady :: "jsstr + unit \<Rightarrow> WorkerHost \<Rightarrow> WorkerHost" where
  "onReady r w =
     (case w_pc w of
        PC_ready config canvas \<Rightarrow>
          (case r of
             Inl err \<Rightarrow> connectFailed err w
           | Inr _ \<Rightarrow> w\<lparr>w_pc := (if canvas then PC_probe config else PC_ws config)\<rparr>)
      | _ \<Rightarrow> w)"

text \<open>After \<open>await probeDecoding()\<close>: the pipelines are created.\<close>

definition onProbed :: "wenv \<Rightarrow> WorkerHost \<Rightarrow> WorkerHost" where
  "onProbed e w =
     (case w_pc w of
        PC_probe config \<Rightarrow>
          let sd = probeSupportedDecoding (en_media e);
              w1 = post (Ev_codecSupport (codecNames sd)) (w\<lparr>w_probe := Some sd\<rparr>);
              useMse = \<not> has_webcodecs (en_media e) \<and> mse_h264 (en_media e);
              v = (if useMse then FPipe newForwardingVideoPipeline else VPipe (newVideoPipeline (en_now e) 0 0))
          in (wout AudioCreated (wout VideoCreated w1))
               \<lparr>w_video := Some v, w_audio := Some newAudioPipeline, w_pc := PC_ws config\<rparr>
      | _ \<Rightarrow> w)"

definition settled_state :: "SessionState \<Rightarrow> bool" where
  "settled_state st = (st = NeedAccept \<or> st = Streaming \<or> st = ErrorState \<or> st = Closed)"

definition armTimer :: "WorkerHost \<Rightarrow> WorkerHost" where
  "armTimer w =
     (case w_session w of
        Some s \<Rightarrow> if \<not> settled_state (s_state s) then w\<lparr>connectTimer := True\<rparr> else w
      | None \<Rightarrow> w)"

text \<open>After \<open>await openWs(wsIdUrl)\<close>, with the random bytes the session takes.\<close>

definition onIdSocket :: "wenv \<Rightarrow> bytes \<Rightarrow> jsstr + nat \<Rightarrow> WorkerHost \<Rightarrow> WorkerHost" where
  "onIdSocket e rnd r w =
     (case w_pc w of
        PC_ws config \<Rightarrow>
          (case r of
             Inl err \<Rightarrow> connectFailed err w
           | Inr i \<Rightarrow>
               let w0 = w\<lparr>w_pc := PC_idle\<rparr> in
               if tornDown w then wout (SockClosed i) w0
               else let w1 = w0\<lparr>w_ws1 := Some i\<rparr> in
                 (case newSession (en_platform e) config rnd of
                    Inl err \<Rightarrow> connectFailed err w1
                  | Inr s \<Rightarrow>
                      let w2 = w1\<lparr>w_session := Some s\<rparr>;
                          w3 = (case w_probe w2 of
                                  None \<Rightarrow> w2
                                | Some sd \<Rightarrow> with_session e (setSupportedDecoding (en_platform e) sd) w2)
                      in armTimer (with_session e (start (en_platform e)) w3)))
      | _ \<Rightarrow> w)"

definition connect_stage :: "SessionState \<Rightarrow> jsstr" where
  "connect_stage st =
     (case st of
        Connecting \<Rightarrow> js ''connecting'' | Rendezvous \<Rightarrow> js ''contacting the server''
      | RelayState \<Rightarrow> js ''opening the relay'' | Handshake \<Rightarrow> js ''securing the channel''
      | Login \<Rightarrow> js ''authenticating'' | NeedAccept \<Rightarrow> js ''waiting for the remote user to accept''
      | _ \<Rightarrow> js ''connecting'')"

definition onConnectTimeout :: "WorkerHost \<Rightarrow> WorkerHost" where
  "onConnectTimeout w =
     (if \<not> connectTimer w then w
      else let w1 = w\<lparr>connectTimer := False\<rparr> in
        case w_session w1 of
          None \<Rightarrow> w1
        | Some s \<Rightarrow>
            if settled_state (s_state s) then w1
            else w_teardown (post (Ev_state ErrorState
                   (Some (js ''Timed out while '' @ connect_stage (s_state s) @ js '' '' @ [0x2014]
                          @ js '' the device may be offline or busy. Try again.'')) False) w1))"

text \<open>After \<open>await openWs(url)\<close> of \<open>openRelay\<close>.\<close>

definition onRelaySocket :: "wenv \<Rightarrow> jsstr + nat \<Rightarrow> WorkerHost \<Rightarrow> WorkerHost" where
  "onRelaySocket e r w =
     (if w_relays w = 0 then w
      else let w0 = w\<lparr>w_relays := w_relays w - 1\<rparr> in
        case r of
          Inl err \<Rightarrow>
            w_teardown (post (Ev_state ErrorState (Some (js ''relay connect failed: '' @ err)) False) w0)
        | Inr i \<Rightarrow>
            if tornDown w0 then wout (SockClosed i) w0
            else with_session e (relayOpened (en_platform e)) (w0\<lparr>w_ws2 := Some i\<rparr>))"

definition onIdSocketClosed :: "WorkerHost \<Rightarrow> WorkerHost" where
  "onIdSocketClosed w =
     (if tornDown w then w
      else let w1 = (case w_session w of
                       Some s \<Rightarrow>
                         if s_state s = Connecting \<or> s_state s = Rendezvous
                         then w_teardown (post (Ev_state ErrorState (Some (js ''id server connection lost'')) False) w)
                         else w
                     | None \<Rightarrow> w)
           in w1\<lparr>w_ws1 := None\<rparr>)"

definition onSocketClosed :: "WorkerHost \<Rightarrow> WorkerHost" where
  "onSocketClosed w =
     (if tornDown w then w
      else w_teardown
             (if (case w_session w of Some s \<Rightarrow> final s | None \<Rightarrow> False) then w
              else post (Ev_state ErrorState (Some (js ''relay connection lost'')) False) w))"

section \<open>The cursor cache\<close>

definition MAX_CURSORS :: nat where "MAX_CURSORS = 128"

text \<open>A \<open>Map\<close>: a new key goes last, an existing key keeps its place.\<close>

definition cache_put :: "jsstr \<Rightarrow> 'v \<Rightarrow> (jsstr \<times> 'v) list \<Rightarrow> (jsstr \<times> 'v) list" where
  "cache_put k v c = kv_set k v (if MAX_CURSORS \<le> length c then drop 1 c else c)"

text \<open>\<open>postCursor\<close> after \<open>cursorToPng\<close> settled for the \<open>i\<close>-th cursor in flight; a rejected one is dropped.\<close>

definition onCursorRendered :: "nat \<Rightarrow> jsstr + cursor_entry \<Rightarrow> WorkerHost \<Rightarrow> WorkerHost" where
  "onCursorRendered i r w =
     (if i < length (w_cursors w)
      then let c = w_cursors w ! i;
               w1 = w\<lparr>w_cursors := take i (w_cursors w) @ drop (Suc i) (w_cursors w)\<rparr>
           in case r of
                Inl _ \<Rightarrow> w1
              | Inr en \<Rightarrow>
                  (post (Ev_cursor (ce_pngDataUrl en) (ce_hotx en) (ce_hoty en)) w1)
                    \<lparr>cursorCache := cache_put (int_str (cd_id c)) en (cursorCache w1)\<rparr>
      else w)"

section \<open>Commands\<close>

text \<open>The file entry of an announced upload.\<close>

definition announced_entry :: "AnnouncedFile \<Rightarrow> FileEntry" where
  "announced_entry f =
     \<lparr>fe_entry_type = 4, fe_name = af_name f, fe_is_hidden = False, fe_size = af_size f,
      fe_modified_time = af_modifiedSec f\<rparr>"

text \<open>The session method a command calls, if it is of that kind.\<close>

definition command_call :: "int \<Rightarrow> int \<Rightarrow> UiCommand \<Rightarrow> session_call option" where
  "command_call now buffered cmd =
     (case cmd of
        Cmd_terminalOpen i r c \<Rightarrow> Some (SC_openTerminal i r c)
      | Cmd_terminalData i d \<Rightarrow> Some (SC_terminalData i d)
      | Cmd_terminalResize i r c \<Rightarrow> Some (SC_resizeTerminal i r c)
      | Cmd_terminalClose i \<Rightarrow> Some (SC_closeTerminal i)
      | Cmd_ftReadDir path hidden \<Rightarrow> Some (SC_fileAction (FA_read_dir path hidden))
      | Cmd_ftSend i path hidden n \<Rightarrow> Some (SC_fileAction (FA_send i path hidden n 0))
      | Cmd_ftReceive i path files totalSize n \<Rightarrow>
          Some (SC_fileAction (FA_receive i path (map announced_entry files) n totalSize))
      | Cmd_ftDigest i n fileSize modified \<Rightarrow>
          Some (SC_fileResponse (FR_digest (FileTransferDigest_base
            \<lparr>dg_id := i, dg_file_num := n, dg_file_size := fileSize, dg_last_modified := modified\<rparr>)))
      | Cmd_ftBlock i n d blk \<Rightarrow>
          Some (SC_fileResponse (FR_block
            \<lparr>bk_id = i, bk_file_num = n, bk_data = d, bk_compressed = False, bk_blk_id = blk\<rparr>))
      | Cmd_ftDone i n \<Rightarrow> Some (SC_fileResponse (FR_done i n))
      | Cmd_ftError i n err \<Rightarrow> Some (SC_fileResponse (FR_error i err n))
      | Cmd_ftConfirm i n skip off \<Rightarrow>
          Some (SC_fileAction (FA_send_confirm
            \<lparr>sc_id = i, sc_file_num = n, sc_union = (if skip then CU_skip True else CU_offset_blk off)\<rparr>))
      | Cmd_ftCancel i \<Rightarrow> Some (SC_fileAction (FA_cancel i))
      | Cmd_ftCreateDir i path \<Rightarrow> Some (SC_fileAction (FA_create i path))
      | Cmd_ftRemoveFile i path n \<Rightarrow> Some (SC_fileAction (FA_remove_file i path n))
      | Cmd_ftRemoveDir i path \<Rightarrow> Some (SC_fileAction (FA_remove_dir i path True))
      | Cmd_ftRename i path new_name \<Rightarrow> Some (SC_fileAction (FA_rename i path new_name))
      | Cmd_mouse m x y mods \<Rightarrow> Some (SC_mouse m x y mods)
      | Cmd_key d pr k v mods \<Rightarrow> Some (SC_key d pr k v mods)
      | Cmd_switchDisplay i \<Rightarrow> Some (SC_switchDisplay i)
      | Cmd_ctrlAltDel \<Rightarrow> Some SC_ctrlAltDel
      | Cmd_refresh \<Rightarrow> Some SC_refresh
      | Cmd_quality q \<Rightarrow> Some (SC_setQuality q)
      | Cmd_restartRemoteDevice \<Rightarrow> Some SC_restartRemoteDevice
      | Cmd_requestElevation \<Rightarrow> Some SC_requestElevation
      | Cmd_privacyMode k on \<Rightarrow> Some (SC_setPrivacyMode k on)
      | Cmd_blockInput on \<Rightarrow> Some (SC_setBlockInput on)
      | Cmd_lockAfterSessionEnd on \<Rightarrow> Some (SC_setLockAfterSessionEnd on)
      | Cmd_displayResolution d width height \<Rightarrow> Some (SC_changeDisplayResolution d width height)
      | Cmd_virtualDisplay d on \<Rightarrow> Some (SC_toggleVirtualDisplay d on)
      | Cmd_customQuality q \<Rightarrow> Some (SC_setCustomQuality q)
      | Cmd_customFps f \<Rightarrow> Some (SC_setCustomFps f)
      | Cmd_preferredCodec c \<Rightarrow> Some (SC_setPreferredCodec c)
      | Cmd_displayOption opt on \<Rightarrow> Some (SC_setDisplayOption opt on)
      | Cmd_remoteAudio on \<Rightarrow> Some (SC_setRemoteAudioEnabled on)
      | Cmd_clipboardEnabled on \<Rightarrow> Some (SC_setClipboardEnabled on)
      | Cmd_clientRecording r \<Rightarrow> Some (SC_setClientRecording r)
      | Cmd_clipboardText t \<Rightarrow> Some (SC_clipboardText t)
      | Cmd_chat t \<Rightarrow> Some (SC_chat t)
      | Cmd_voiceCallStart \<Rightarrow> Some (SC_startVoiceCall (now))
      | Cmd_voiceCallClose \<Rightarrow> Some (SC_closeVoiceCall (now))
      | Cmd_voiceAudioFormat r c \<Rightarrow> Some (SC_voiceAudioFormat r c)
      | Cmd_voiceAudioFrame d \<Rightarrow> Some (SC_voiceAudioFrame (buffered) d)
      | Cmd_disconnect \<Rightarrow> Some SC_disconnect
      | _ \<Rightarrow> None)"

text \<open>The sink \<open>relayBuffered\<close>: bytes queued on the relay socket.\<close>

definition relayBuffered :: "wenv \<Rightarrow> WorkerHost \<Rightarrow> int" where
  "relayBuffered e w = (if w_ws2 w = None then 0 else en_buffered e)"

text \<open>\<open>handle\<close>: some commands do more than the session call.\<close>

definition w_handle :: "wenv \<Rightarrow> UiCommand \<Rightarrow> WorkerHost \<Rightarrow> WorkerHost" where
  "w_handle e cmd w =
     (let call = (case command_call (en_now e) (relayBuffered e w) cmd of
                    None \<Rightarrow> w
                  | Some c \<Rightarrow> with_session e (session_step (en_platform e) c) w)
      in case cmd of
           Cmd_connect config \<Rightarrow> connect config True w
         | Cmd_connectFile config \<Rightarrow> connect config False w
         | Cmd_connectTerminal config \<Rightarrow> connect config False w
         | Cmd_ftBlock i n d blk \<Rightarrow>
             post (Ev_ftSent i n (relayBuffered e call)) call
         | Cmd_switchDisplay _ \<Rightarrow> call\<lparr>w_video := map_option (resetPipe e) (w_video call)\<rparr>
         | Cmd_disconnect \<Rightarrow> w_teardown call
         | _ \<Rightarrow> call)"

section \<open>All events\<close>

datatype (plugins only: code size) w_call =
    W_command UiCommand
  | W_ready "jsstr + unit"
  | W_probed
  | W_idSocket bytes "jsstr + nat"
  | W_timeout
  | W_relaySocket "jsstr + nat"
  | W_signaling bytes
  | W_idClosed
  | W_relay key_choice bytes
  | W_relayClosed
  | W_resume nat
  | W_cursor nat "jsstr + cursor_entry"
  | W_videoOutput bool int int
  | W_videoError EncodedCase
  | W_audioOutput "rat list list" nat nat int

definition audioOutput :: "rat list list \<Rightarrow> nat \<Rightarrow> nat \<Rightarrow> int \<Rightarrow> WorkerHost \<Rightarrow> WorkerHost" where
  "audioOutput planes frames chs rate w =
     (case w_audio w of
        None \<Rightarrow> w
      | Some a \<Rightarrow>
          let a' = a_handleOutput planes frames chs rate a;
              w1 = w\<lparr>w_audio := Some a'\<rparr>
          in if frames = 0 \<or> chs = 0 then w1 else wout (PostPcm (interleave planes frames chs) rate chs) w1)"

definition w_step :: "wenv \<times> w_call \<Rightarrow> WorkerHost \<Rightarrow> WorkerHost" where
  "w_step = (\<lambda>(e, c) w.
     let p = en_platform e in
     case c of
        W_command cmd \<Rightarrow> w_handle e cmd w
      | W_ready r \<Rightarrow> onReady r w
      | W_probed \<Rightarrow> onProbed e w
      | W_idSocket rnd r \<Rightarrow> onIdSocket e rnd r w
      | W_timeout \<Rightarrow> onConnectTimeout w
      | W_relaySocket r \<Rightarrow> onRelaySocket e r w
      | W_signaling b \<Rightarrow> with_session e (onSignalingBytes p b) w
      | W_idClosed \<Rightarrow> onIdSocketClosed w
      | W_relay rnd b \<Rightarrow> w_relayBytes e rnd b w
      | W_relayClosed \<Rightarrow> onSocketClosed w
      | W_resume i \<Rightarrow> with_session e (resume p i) w
      | W_cursor i r \<Rightarrow> onCursorRendered i r w
      | W_videoOutput th vw vh \<Rightarrow> video_call e (VP_output th (en_now e) vw vh) w
      | W_videoError k \<Rightarrow> video_call e (VP_error (en_closedObs e) (en_now e) k) w
      | W_audioOutput pl f ch r \<Rightarrow> audioOutput pl f ch r w)"

end
