(* ===== verification/Worker_Safety.thy ===== *)
theory Worker_Safety
  imports Worker Debounce
begin

text \<open>
  What holds of the worker in every reachable state. The work of a call is first broken into
  atomic moves: \<open>sink_move\<close> is what a sink may do while the session runs, \<open>host_move\<close> what the
  worker does around it. Each property is an invariant of the moves.
\<close>

section \<open>Moves\<close>

fun payload :: "action \<Rightarrow> bytes option" where
  "payload (SendSignaling b) = Some b"
| "payload (SendRelay b) = Some b"
| "payload (SendSealed b) = Some b"
| "payload _ = None"

fun quiet_out :: "w_out \<Rightarrow> bool" where
  "quiet_out (SockSend _ _) = False"
| "quiet_out (Kicked _) = False"
| "quiet_out VideoClosed = False"
| "quiet_out AudioClosed = False"
| "quiet_out _ = True"

inductive sink_move :: "platform \<Rightarrow> WorkerHost \<Rightarrow> WorkerHost \<Rightarrow> bool" for p where
  mv_out: "quiet_out x \<Longrightarrow> sink_move p w (wout x w)"
| mv_pipes: "sink_move p w (w\<lparr>w_video := v, w_audio := a\<rparr>)"
| mv_queues: "sink_move p w (w\<lparr>w_relays := r, w_cursors := cs\<rparr>)"
| mv_timer: "sink_move p w (clearConnectTimer w)"
| mv_teardown: "sink_move p w (w_teardown w)"
| mv_kick: "500 \<le> now - lastKickMs w \<Longrightarrow> sink_move p w (wout (Kicked now) (w\<lparr>lastKickMs := now\<rparr>))"
| mv_send: "\<lbrakk>w_session w = Some s; payload a = Some b; a \<in> set (trace s);
             w_ws1 w = Some i \<or> w_ws2 w = Some i\<rbrakk> \<Longrightarrow> sink_move p w (wout (SockSend i b) w)"
| mv_session: "\<lbrakk>w_session w = Some s; secure p s \<longrightarrow> secure p s'; prefix (trace s) (trace s');
                s_state s' = s_state s\<rbrakk> \<Longrightarrow> sink_move p w (w\<lparr>w_session := Some s'\<rparr>)"
| mv_cache: "sink_move p w (w\<lparr>cursorCache := cache_put k v (cursorCache w)\<rparr>)"

abbreviation sink_moves :: "platform \<Rightarrow> WorkerHost \<Rightarrow> WorkerHost \<Rightarrow> bool" where
  "sink_moves p \<equiv> (sink_move p)\<^sup>*\<^sup>*"

inductive host_move :: "platform \<Rightarrow> WorkerHost \<Rightarrow> WorkerHost \<Rightarrow> bool" for p where
  hm_sink: "sink_move p w w' \<Longrightarrow> host_move p w w'"
| hm_call: "\<lbrakk>w_session w = Some s; secure p s \<longrightarrow> secure p s'; prefix (trace s) (trace s')\<rbrakk>
            \<Longrightarrow> host_move p w (w\<lparr>w_session := Some s'\<rparr>)"
| hm_new: "\<lbrakk>w_session w = None; newSession p config rnd = Inr s\<rbrakk>
           \<Longrightarrow> host_move p w (w\<lparr>w_session := Some s\<rparr>)"
| hm_connect: "host_move p w (w\<lparr>w_pc := pc, w_probe := pr, connectStarted := b\<rparr>)"
| hm_ws1: "\<not> tornDown w \<Longrightarrow> host_move p w (w\<lparr>w_ws1 := Some i\<rparr>)"
| hm_ws2: "\<not> tornDown w \<Longrightarrow> host_move p w (w\<lparr>w_ws2 := Some i\<rparr>)"
| hm_drop: "host_move p w (w\<lparr>w_ws1 := None\<rparr>)"
| hm_arm: "\<not> tornDown w \<Longrightarrow> host_move p w (w\<lparr>connectTimer := True\<rparr>)"

abbreviation host_moves :: "platform \<Rightarrow> WorkerHost \<Rightarrow> WorkerHost \<Rightarrow> bool" where
  "host_moves p \<equiv> (host_move p)\<^sup>*\<^sup>*"

lemma sink_host: "sink_moves p w w' \<Longrightarrow> host_moves p w w'"
  by (rule rtranclp_mono [THEN predicate2D]) (auto intro: hm_sink)

lemma wout_fields [simp]:
  "w_session (wout x w) = w_session w" "w_ws1 (wout x w) = w_ws1 w" "w_ws2 (wout x w) = w_ws2 w"
  "tornDown (wout x w) = tornDown w" "connectTimer (wout x w) = connectTimer w"
  "lastKickMs (wout x w) = lastKickMs w" "cursorCache (wout x w) = cursorCache w"
  "w_pc (wout x w) = w_pc w" "connectStarted (wout x w) = connectStarted w"
  "w_out (wout x w) = w_out w @ [x]" "w_video (wout x w) = w_video w" "w_audio (wout x w) = w_audio w"
  "w_probe (wout x w) = w_probe w" "w_relays (wout x w) = w_relays w" "w_cursors (wout x w) = w_cursors w"
  by (simp_all add: wout_def)

lemma teardown_fields [simp]:
  "tornDown (w_teardown w)" "w_session (w_teardown w) = w_session w" "w_pc (w_teardown w) = w_pc w"
  "lastKickMs (w_teardown w) = lastKickMs w" "connectStarted (w_teardown w) = connectStarted w"
  "w_relays (w_teardown w) = w_relays w" "w_cursors (w_teardown w) = w_cursors w"
  by (simp_all add: w_teardown_def clearConnectTimer_def)

lemma clearConnectTimer_fields [simp]:
  "tornDown (clearConnectTimer w) = tornDown w" "w_session (clearConnectTimer w) = w_session w"
  "w_pc (clearConnectTimer w) = w_pc w" "w_ws1 (clearConnectTimer w) = w_ws1 w"
  "w_ws2 (clearConnectTimer w) = w_ws2 w" "w_out (clearConnectTimer w) = w_out w"
  "connectStarted (clearConnectTimer w) = connectStarted w" "\<not> connectTimer (clearConnectTimer w)"
  "lastKickMs (clearConnectTimer w) = lastKickMs w" "cursorCache (clearConnectTimer w) = cursorCache w"
  by (simp_all add: clearConnectTimer_def)

lemma moves_out: "quiet_out x \<Longrightarrow> sink_moves p w (wout x w)"
  by (rule r_into_rtranclp) (rule mv_out)

lemma moves_post: "sink_moves p w (post ev w)"
  by (simp add: post_def moves_out)

lemma moves_then_post: "sink_moves p u w \<Longrightarrow> sink_moves p u (post ev w)"
  by (rule rtranclp_trans [OF _ moves_post])

lemma moves_fold_post: "sink_moves p w (fold post evs w)"
  by (induction evs arbitrary: w) (auto intro: rtranclp_trans moves_post)

lemma moves_video: "sink_moves p w (w\<lparr>w_video := v\<rparr>)"
  using r_into_rtranclp [of "sink_move p", OF mv_pipes [where w = w and v = v and a = "w_audio w"]] by simp

lemma moves_audio: "sink_moves p w (w\<lparr>w_audio := a\<rparr>)"
  using r_into_rtranclp [of "sink_move p", OF mv_pipes [where w = w and v = "w_video w" and a = a]] by simp

lemma moves_teardown: "sink_moves p w (w_teardown w)"
  by (rule r_into_rtranclp) (rule mv_teardown)

lemma moves_timer: "sink_moves p w (clearConnectTimer w)"
  by (rule r_into_rtranclp) (rule mv_timer)

section \<open>The session inside a move\<close>

text \<open>What sinks keep of the session: it only gets longer, in the same state.\<close>

definition extends :: "WorkerHost \<Rightarrow> WorkerHost \<Rightarrow> bool" where
  "extends w w' \<longleftrightarrow>
     (case w_session w of
        None \<Rightarrow> w_session w' = None
      | Some s \<Rightarrow> \<exists>s'. w_session w' = Some s' \<and> prefix (trace s) (trace s') \<and> s_state s' = s_state s) \<and>
     w_pc w' = w_pc w \<and> (tornDown w \<longrightarrow> tornDown w') \<and> connectStarted w' = connectStarted w"

lemma extends_refl [simp]: "extends w w"
  by (simp add: extends_def split: option.split)

lemma extends_trans: "extends u v \<Longrightarrow> extends v w \<Longrightarrow> extends u w"
  by (force simp: extends_def split: option.splits)

lemma sink_move_extends: "sink_move p w w' \<Longrightarrow> extends w w'"
  by (induction rule: sink_move.induct) (auto simp: extends_def split: option.split)

lemma sink_moves_extends: "sink_moves p w w' \<Longrightarrow> extends w w'"
  by (induction rule: rtranclp_induct) (auto intro: extends_trans sink_move_extends)

lemma extends_trace:
  assumes "extends w w'" "w_session w = Some s" "a \<in> set (trace s)"
  shows "\<exists>s'. w_session w' = Some s' \<and> a \<in> set (trace s')"
  using assms set_mono_prefix by (fastforce simp: extends_def)

text \<open>A list of actions of the session's trace, each handled by moves.\<close>

lemma moves_fold_actions:
  assumes "\<And>a w s. a \<in> set as \<Longrightarrow> w_session w = Some s \<Longrightarrow> a \<in> set (trace s) \<Longrightarrow> sink_moves p w (g a w)"
    and "w_session w = Some s" "set as \<subseteq> set (trace s)"
  shows "sink_moves p w (fold g as w)"
  using assms
proof (induction as arbitrary: w s)
  case (Cons a as)
  then have mv: "sink_moves p w (g a w)" by simp
  from sink_moves_extends [OF this] Cons.prems(2)
  obtain s' where s': "w_session (g a w) = Some s'" "prefix (trace s) (trace s')"
    by (auto simp: extends_def)
  have "sink_moves p (g a w) (fold g as (g a w))"
    by (rule Cons.IH [OF _ s'(1)]) (use Cons.prems set_mono_prefix [OF s'(2)] in auto)
  with mv show ?case by simp
qed simp

lemma new_actions_subset: "prefix (trace s) (trace s') \<Longrightarrow> set (new_actions s s') \<subseteq> set (trace s')"
  by (auto simp: new_actions_def dest: in_set_dropD)

lemma moves_relay_out:
  assumes "w_session w = Some s" "a \<in> set (trace s)"
  shows "sink_moves p w (relay_out a w)"
  using assms
  by (cases a) (auto simp: relay_out_def split: option.split
      intro!: r_into_rtranclp [of "sink_move p"] mv_send)

text \<open>The methods a sink calls back: they seal at most one frame and keep the state.\<close>

definition seals_only :: "platform \<Rightarrow> (Session \<Rightarrow> Session) \<Rightarrow> bool" where
  "seals_only p f \<longleftrightarrow>
     (\<forall>s. (secure p s \<longrightarrow> secure p (f s)) \<and> prefix (trace s) (trace (f s)) \<and> s_state (f s) = s_state s)"

lemma seals_only_refresh: "seals_only p (refresh p)"
  by (simp add: seals_only_def refresh_def secure_sealSend trace_sealSend)

lemma seals_only_decoding: "seals_only p (setSupportedDecoding p sd)"
  by (simp add: seals_only_def setSupportedDecoding_def Let_def secure_intros trace_sealSend)

lemma moves_reenter:
  assumes "seals_only p f"
  shows "sink_moves p w (reenter f w)"
proof (cases "w_session w")
  case (Some s)
  let ?w1 = "w\<lparr>w_session := Some (f s)\<rparr>"
  have pre: "prefix (trace s) (trace (f s))" using assms by (simp add: seals_only_def)
  have "sink_move p w ?w1"
    using assms by (intro mv_session [OF Some]) (auto simp: seals_only_def)
  moreover have "sink_moves p ?w1 (fold relay_out (new_actions s (f s)) ?w1)"
    by (rule moves_fold_actions [of _ _ _ _ "f s"])
      (use new_actions_subset [OF pre] in \<open>auto intro: moves_relay_out\<close>)
  ultimately show ?thesis
    using Some by (simp add: reenter_def converse_rtranclp_into_rtranclp)
qed (simp add: reenter_def)

section \<open>Sinks are moves\<close>

lemma moves_kickVideo:
  assumes "en_platform e = p"
  shows "sink_moves p w (kickVideo e w)"
proof (cases "en_now e - lastKickMs w < 500")
  case False
  let ?w1 = "w\<lparr>w_video := map_option (resetPipe e) (w_video w)\<rparr>"
  let ?w2 = "wout (Kicked (en_now e)) (?w1\<lparr>lastKickMs := en_now e\<rparr>)"
  have "sink_moves p w ?w1" by (rule moves_video)
  moreover have "sink_moves p ?w1 ?w2"
    by (rule r_into_rtranclp, rule mv_kick) (use False in simp)
  moreover have "sink_moves p ?w2 (reenter (refresh p) ?w2)"
    by (rule moves_reenter) (rule seals_only_refresh)
  ultimately have "sink_moves p w (reenter (refresh p) ?w2)" by (meson rtranclp_trans)
  moreover have "?w1\<lparr>lastKickMs := en_now e\<rparr> =
      w\<lparr>lastKickMs := en_now e, w_video := map_option (resetPipe e) (w_video w)\<rparr>" by (cases w) simp
  ultimately show ?thesis using False assms by (simp add: kickVideo_def)
qed (simp add: kickVideo_def)

lemma moves_readvertise: "en_platform e = p \<Longrightarrow> sink_moves p w (readvertise e w)"
  by (auto simp: readvertise_def Let_def split: option.split
      intro!: rtranclp_trans [OF moves_reenter [OF seals_only_decoding] moves_post])

lemma moves_video_out: "en_platform e = p \<Longrightarrow> sink_moves p w (video_out e a w)"
  by (auto simp: video_out_def postStats_def split: v_action.split
      intro: moves_reenter seals_only_refresh moves_readvertise moves_post)

lemma moves_forward_out: "en_platform e = p \<Longrightarrow> sink_moves p w (forward_out e a w)"
  by (auto simp: forward_out_def split: fw_action.split
      intro: moves_reenter seals_only_refresh moves_post)

lemma moves_fold: "(\<And>a w. sink_moves p w (g a w)) \<Longrightarrow> sink_moves p w (fold g as w)"
  by (induction as arbitrary: w) (auto intro: rtranclp_trans)

lemma moves_video_call: "en_platform e = p \<Longrightarrow> sink_moves p w (video_call e c w)"
  by (auto simp: video_call_def Let_def split: option.split video_pipe.split
      intro!: rtranclp_trans [OF moves_video moves_fold] moves_video_out)

lemma moves_pushVideo: "en_platform e = p \<Longrightarrow> sink_moves p w (pushVideo e vf w)"
  by (auto simp: pushVideo_def Let_def split: option.split video_pipe.split
      intro!: rtranclp_trans [OF moves_video moves_fold] moves_forward_out moves_video_call)

lemma moves_w_emit:
  assumes "en_platform e = p"
  shows "sink_moves p w (w_emit e ev w)"
  using moves_kickVideo [OF assms, of w] moves_timer [of p w]
  by (cases ev) (auto simp: w_emit_def Let_def split: sum.split
      intro: moves_post moves_then_post)

lemma moves_sink:
  assumes "en_platform e = p" "w_session w = Some s" "a \<in> set (trace s)"
  shows "sink_moves p w (sink e a w)"
proof -
  have queues: "sink_moves p w (w\<lparr>w_relays := r\<rparr>)" "sink_moves p w (w\<lparr>w_cursors := cs\<rparr>)" for r cs
    using mv_queues [where w = w and r = r and cs = "w_cursors w"]
      mv_queues [where w = w and r = "w_relays w" and cs = cs] by auto
  have sig: "sink_moves p w (case w_ws1 w of None \<Rightarrow> w | Some i \<Rightarrow> wout (SockSend i b) w)"
    if "a = SendSignaling b" for b
    using assms(2,3) that by (auto split: option.split intro!: r_into_rtranclp [of "sink_move p"] mv_send)
  show ?thesis
    using assms queues sig
    by (cases a) (auto simp: sink_def postCursorId_def postClipboard_def postFileResponse_def
        postSendConfirm_def split: option.split sum.split
        intro: moves_relay_out moves_w_emit moves_pushVideo moves_audio moves_teardown moves_post
          moves_fold_post)
qed

section \<open>Calls into the session\<close>

text \<open>Session methods, as the worker calls them: they keep the session secure and only add to its trace.\<close>

definition session_method :: "platform \<Rightarrow> (Session \<Rightarrow> Session) \<Rightarrow> bool" where
  "session_method p f \<longleftrightarrow> (\<forall>s. (secure p s \<longrightarrow> secure p (f s)) \<and> prefix (trace s) (trace (f s)))"

lemma session_method_step: "session_method p (session_step p c)"
  by (simp add: session_method_def secure_session_step trace_session_step)

lemma session_method_calls:
  "session_method p (start p)" "session_method p (relayOpened p)" "session_method p (onSignalingBytes p b)"
  "session_method p (onRelayBytes p rnd b)" "session_method p (resume p i)"
  "session_method p (setSupportedDecoding p sd)"
  using session_method_step [of p SC_start] session_method_step [of p SC_relayOpened]
    session_method_step [of p "SC_signaling b"] session_method_step [of p "SC_relay rnd b"]
    session_method_step [of p "SC_resume i"] session_method_step [of p "SC_setSupportedDecoding sd"]
  by (simp_all add: session_step_def session_method_def)

lemma session_method_ack: "session_method p (ackVideo p)"
  by (simp add: session_method_def ackVideo_def secure_sealSend trace_sealSend)

lemma with_session_sinks:
  assumes "en_platform e = p" "w_session w = Some s" "prefix (trace s) (trace (f s))"
  shows "sink_moves p (w\<lparr>w_session := Some (f s)\<rparr>) (with_session e f w)"
proof -
  have "sink_moves p (w\<lparr>w_session := Some (f s)\<rparr>)
      (fold (sink e) (new_actions s (f s)) (w\<lparr>w_session := Some (f s)\<rparr>))"
    by (rule moves_fold_actions [of _ _ _ _ "f s"])
      (use assms new_actions_subset [OF assms(3)] in \<open>auto intro: moves_sink\<close>)
  then show ?thesis using assms(2) by (simp add: with_session_def)
qed

lemma moves_with_session:
  assumes "en_platform e = p" "session_method p f"
  shows "host_moves p w (with_session e f w)"
proof (cases "w_session w")
  case (Some s)
  then have "host_move p w (w\<lparr>w_session := Some (f s)\<rparr>)"
    using assms(2) by (intro hm_call) (auto simp: session_method_def)
  moreover have "host_moves p (w\<lparr>w_session := Some (f s)\<rparr>) (with_session e f w)"
    using assms Some by (intro sink_host with_session_sinks) (auto simp: session_method_def)
  ultimately show ?thesis by (rule converse_rtranclp_into_rtranclp)
qed (simp add: with_session_def)

lemma host_then_sink: "host_moves p u v \<Longrightarrow> sink_moves p v w \<Longrightarrow> host_moves p u w"
  by (rule rtranclp_trans) (auto dest: sink_host)

lemma w_relayBytes_cases:
  assumes "en_platform e = p"
  obtains (whole) "w_relayBytes e rnd b w = with_session e (onRelayBytes p rnd b) w"
  | (video) s vf s1 where
      "w_relayBytes e rnd b w = with_session e (ackVideo p) (with_session e (\<lambda>_. onVideo_sink vf s1) w)"
      "w_session w = Some s" "\<not> final s" "trace s1 = trace s" "s_state s1 = s_state s"
      "secure p s \<longrightarrow> secure p s1"
proof (cases "\<exists>s vf. w_session w = Some s \<and> \<not> final s \<and> cipher s \<noteq> None \<and>
    snd (openRelayBytes p b s) = Some (M_video_frame vf)")
  case True
  then obtain s vf where s: "w_session w = Some s" "\<not> final s" "cipher s \<noteq> None"
      "snd (openRelayBytes p b s) = Some (M_video_frame vf)" by blast
  show ?thesis
  proof (rule video [of vf "fst (openRelayBytes p b s)" s])
    show "w_relayBytes e rnd b w = with_session e (ackVideo p)
        (with_session e (\<lambda>_. onVideo_sink vf (fst (openRelayBytes p b s))) w)"
      using s assms by (auto simp: w_relayBytes_def Let_def case_prod_beta split: prod.split)
  qed (use s openRelayBytes_state [OF s(4)] secure_openRelayBytes [of p s b] in auto)
next
  case False
  then have "w_relayBytes e rnd b w = with_session e (onRelayBytes p rnd b) w"
    using assms by (auto simp: w_relayBytes_def Let_def with_session_def
        split: option.split prod.split Message.split)
  then show ?thesis by (rule whole)
qed

lemma with_onVideo:
  assumes "en_platform e = p" "w_session w = Some s" "trace s1 = trace s"
  shows "sink_moves p (w\<lparr>w_session := Some (onVideo_sink vf s1)\<rparr>) (with_session e (\<lambda>_. onVideo_sink vf s1) w)"
  using with_session_sinks [OF assms(1,2), of "\<lambda>_. onVideo_sink vf s1"] assms(3)
  by (simp add: onVideo_sink_def)

lemma moves_w_relayBytes:
  assumes "en_platform e = p"
  shows "host_moves p w (w_relayBytes e rnd b w)"
  using assms
proof (cases rule: w_relayBytes_cases [where rnd = rnd and b = b and w = w])
  case whole
  then show ?thesis
    using assms by (auto intro: moves_with_session session_method_calls)
next
  case (video s vf s1)
  let ?w1 = "with_session e (\<lambda>_. onVideo_sink vf s1) w"
  have "host_move p w (w\<lparr>w_session := Some (onVideo_sink vf s1)\<rparr>)"
    using video by (intro hm_call [OF video(2)]) (auto simp: onVideo_sink_def intro!: secure_act)
  then have "host_moves p w ?w1"
    using sink_host [OF with_onVideo [OF assms video(2,4)]] by (rule converse_rtranclp_into_rtranclp)
  moreover have "host_moves p ?w1 (with_session e (ackVideo p) ?w1)"
    by (rule moves_with_session [OF assms session_method_ack])
  ultimately show ?thesis unfolding video(1) by (rule rtranclp_trans)
qed

section \<open>Every call is a sequence of moves\<close>

text \<open>While \<open>connect\<close> is under way there is no session yet.\<close>

definition pc_ok :: "WorkerHost \<Rightarrow> bool" where
  "pc_ok w \<longleftrightarrow> (w_pc w \<noteq> PC_idle \<longrightarrow> w_session w = None) \<and> (\<not> connectStarted w \<longrightarrow> w_pc w = PC_idle \<and> w_session w = None)"

lemma moves_connect_fields:
  "host_moves p w (w\<lparr>w_pc := pc\<rparr>)" "host_moves p w (w\<lparr>w_probe := pr\<rparr>)"
  "host_moves p w (w\<lparr>connectStarted := b\<rparr>)"
  using hm_connect [where w = w and pc = pc and pr = "w_probe w" and b = "connectStarted w"]
    hm_connect [where w = w and pc = "w_pc w" and pr = pr and b = "connectStarted w"]
    hm_connect [where w = w and pc = "w_pc w" and pr = "w_probe w" and b = b]
  by auto

lemma moves_connectFailed: "host_moves p w (connectFailed err w)"
  unfolding connectFailed_def
  by (rule host_then_sink [OF moves_connect_fields(1)])
    (rule rtranclp_trans [OF moves_post moves_teardown])

lemma moves_connect: "host_moves p w (connect config canvas w)"
proof (cases "connectStarted w")
  case False
  let ?w1 = "post (Ev_state Connecting None False) (w\<lparr>connectStarted := True\<rparr>)"
  have "host_moves p w ?w1"
    by (rule host_then_sink [OF moves_connect_fields(3) moves_post])
  then have "host_moves p w (?w1\<lparr>w_pc := PC_ready config canvas\<rparr>)"
    by (rule rtranclp_trans [OF _ moves_connect_fields(1)])
  with False show ?thesis by (simp add: connect_def)
qed (simp add: connect_def sink_host moves_post)

lemma moves_onReady: "host_moves p w (onReady r w)"
  by (auto simp: onReady_def split: connect_pc.split sum.split
      intro: moves_connectFailed moves_connect_fields)

lemma moves_onProbed: "host_moves p w (onProbed e w)"
proof (cases "w_pc w")
  case (PC_probe config)
  let ?sd = "probeSupportedDecoding (en_media e)"
  let ?w1 = "wout AudioCreated (wout VideoCreated (post (Ev_codecSupport (codecNames ?sd)) (w\<lparr>w_probe := Some ?sd\<rparr>)))"
  have "host_moves p w ?w1"
    by (rule host_then_sink [OF moves_connect_fields(2) [of p w "Some ?sd"]])
      (meson rtranclp_trans moves_out moves_post quiet_out.simps)
  moreover have "sink_moves p ?w1 (?w1\<lparr>w_video := v, w_audio := Some newAudioPipeline\<rparr>)" for v
    by (rule rtranclp_trans [OF moves_video moves_audio])
  ultimately have "host_moves p w (?w1\<lparr>w_video := v, w_audio := Some newAudioPipeline, w_pc := PC_ws config\<rparr>)" for v
    using moves_connect_fields(1) by (rule rtranclp_trans [OF host_then_sink])
  with PC_probe show ?thesis by (simp add: onProbed_def Let_def)
qed (simp_all add: onProbed_def)

lemma moves_one: "host_move p u v \<Longrightarrow> host_moves p v w \<Longrightarrow> host_moves p u w"
  by (rule converse_rtranclp_into_rtranclp)

lemma moves_onRelaySocket:
  assumes "en_platform e = p"
  shows "host_moves p w (onRelaySocket e r w)"
proof -
  let ?w0 = "w\<lparr>w_relays := w_relays w - 1\<rparr>"
  have w0: "host_move p w ?w0"
    using hm_sink [OF mv_queues [where w = w and r = "w_relays w - 1" and cs = "w_cursors w"]] by simp
  have fail: "host_moves p ?w0 (w_teardown (post ev ?w0))" for ev
    by (rule sink_host) (rule rtranclp_trans [OF moves_post moves_teardown])
  have ok: "host_moves p ?w0 (with_session e (relayOpened p) (?w0\<lparr>w_ws2 := Some i\<rparr>))" if "\<not> tornDown w" for i
    using that assms
    by (intro moves_one [OF hm_ws2 moves_with_session]) (auto intro: session_method_calls)
  have "host_moves p ?w0 (onRelaySocket e r w)" if "w_relays w \<noteq> 0"
    using that assms ok fail sink_host [OF moves_out]
    by (simp add: onRelaySocket_def Let_def split: sum.split)
  then show ?thesis
    by (cases "w_relays w = 0") (auto simp: onRelaySocket_def intro: moves_one [OF w0])
qed

lemma moves_closed:
  "host_moves p w (onConnectTimeout w)" "host_moves p w (onIdSocketClosed w)" "host_moves p w (onSocketClosed w)"
proof -
  have end_with: "sink_moves p w (w_teardown (post ev w))" for ev w
    by (rule rtranclp_trans [OF moves_post moves_teardown])
  have off: "sink_moves p w (w\<lparr>connectTimer := False\<rparr>)"
    using moves_timer [of p w] by (simp add: clearConnectTimer_def)
  show "host_moves p w (onConnectTimeout w)"
    by (auto simp: onConnectTimeout_def Let_def split: option.split
        intro: host_then_sink [OF sink_host [OF off] end_with] sink_host [OF off])
  have drop: "host_moves p w (w_teardown (post ev w)\<lparr>w_ws1 := None\<rparr>)" for ev
    by (rule rtranclp_trans [OF sink_host [OF end_with]]) (blast intro: hm_drop)
  show "host_moves p w (onIdSocketClosed w)"
    by (auto simp: onIdSocketClosed_def Let_def split: option.split intro: drop hm_drop)
  show "host_moves p w (onSocketClosed w)"
    by (auto simp: onSocketClosed_def intro: sink_host end_with moves_teardown)
qed

lemma moves_w_handle:
  assumes "en_platform e = p"
  shows "host_moves p w (w_handle e cmd w)"
proof -
  let ?call = "case command_call (en_now e) (relayBuffered e w) cmd of
      None \<Rightarrow> w | Some c \<Rightarrow> with_session e (session_step (en_platform e) c) w"
  have call: "host_moves p w ?call"
    using assms by (auto split: option.split intro: moves_with_session session_method_step)
  have "host_moves p w (connect config b w)" "host_moves p w (post ev ?call)"
    "host_moves p w (?call\<lparr>w_video := v\<rparr>)" "host_moves p w (w_teardown ?call)" for config b ev v
    by (rule moves_connect host_then_sink [OF call] moves_post moves_video moves_teardown)+
  with call show ?thesis
    unfolding w_handle_def Let_def by (cases cmd) (simp_all only: UiCommand.simps)
qed

lemma moves_onCursorRendered: "host_moves p w (onCursorRendered i r w)"
proof -
  have q: "host_moves p w (w\<lparr>w_cursors := cs\<rparr>)" for cs
    using hm_sink [OF mv_queues [where w = w and r = "w_relays w" and cs = cs]] by auto
  have "host_moves p w (post ev (w\<lparr>w_cursors := cs\<rparr>)\<lparr>cursorCache := cache_put k v (cursorCache w)\<rparr>)" for ev cs k v
    using rtranclp.rtrancl_into_rtrancl [OF moves_post [of p "w\<lparr>w_cursors := cs\<rparr>" ev] mv_cache, of k v]
      host_then_sink [OF q] by (simp add: post_def)
  with q show ?thesis
    by (simp add: onCursorRendered_def Let_def split: sum.split)
qed

lemma torn_start:
  assumes "w_session w = Some s" "en_platform e = p"
  shows "tornDown (with_session e (start p) w) = tornDown w"
  using assms
  by (simp add: with_session_def start_def new_actions_def sink_def w_emit_def post_def Let_def
      split: option.split)

lemma with_decoding_new:
  assumes "w_session w = Some s" "\<not> loginSent s"
  shows "with_session e (setSupportedDecoding p sd) w = w\<lparr>w_session := Some (s\<lparr>decoding := sd\<rparr>)\<rparr>"
  using assms by (simp add: with_session_def setSupportedDecoding_def new_actions_def Let_def)

lemma newSession_login: "newSession p config rnd = Inr s \<Longrightarrow> \<not> loginSent s"
  by (auto simp: newSession_def split: sum.splits)

lemma moves_onIdSocket:
  assumes p: "en_platform e = p" and pc: "pc_ok w"
  shows "host_moves p w (onIdSocket e rnd r w)"
proof (cases "\<exists>config i s. w_pc w = PC_ws config \<and> r = Inr i \<and> \<not> tornDown w \<and> newSession p config rnd = Inr s")
  case True
  then obtain config i s where c: "w_pc w = PC_ws config" "r = Inr i" "\<not> tornDown w" "newSession p config rnd = Inr s"
    by blast
  define w1 where "w1 = w\<lparr>w_pc := PC_idle, w_ws1 := Some i\<rparr>"
  define w3 where "w3 = w1\<lparr>w_session := Some (case w_probe w of None \<Rightarrow> s | Some sd \<Rightarrow> s\<lparr>decoding := sd\<rparr>)\<rparr>"
  have "host_move p w (w\<lparr>w_pc := PC_idle\<rparr>)"
    using hm_connect [where w = w and pc = PC_idle and pr = "w_probe w" and b = "connectStarted w"] by simp
  moreover have "host_move p (w\<lparr>w_pc := PC_idle\<rparr>) w1"
    unfolding w1_def using c(3) by (intro hm_ws1) simp
  moreover have "host_move p w1 (w1\<lparr>w_session := Some s\<rparr>)"
    using pc c by (intro hm_new [OF _ c(4)]) (simp add: pc_ok_def w1_def)
  moreover have "host_moves p (w1\<lparr>w_session := Some s\<rparr>) w3"
    unfolding w3_def
    by (cases "w_probe w") (auto intro!: r_into_rtranclp [of "host_move p"] hm_call [of "w1\<lparr>w_session := Some s\<rparr>", simplified]
        secure_update)
  ultimately have "host_moves p w w3"
    by (meson converse_rtranclp_into_rtranclp)
  moreover have "host_moves p w3 (with_session e (start p) w3)"
    by (rule moves_with_session [OF p]) (rule session_method_calls)
  moreover have "host_moves p (with_session e (start p) w3) (armTimer (with_session e (start p) w3))"
    using torn_start [of w3 _ e, OF _ p] c(3)
    by (auto simp: armTimer_def w3_def w1_def split: option.split intro!: r_into_rtranclp [of "host_move p"] hm_arm)
  moreover have "onIdSocket e rnd r w = armTimer (with_session e (start p) w3)"
    using c p newSession_login [OF c(4)]
    by (simp add: onIdSocket_def Let_def with_decoding_new w3_def w1_def split: option.split)
  ultimately show ?thesis by (metis rtranclp_trans)
next
  case False
  have w1: "host_moves p w (w\<lparr>w_pc := PC_idle, w_ws1 := Some i\<rparr>)" if "\<not> tornDown w" for i
    by (rule rtranclp.rtrancl_into_rtrancl [OF moves_connect_fields(1) hm_ws1]) (use that in simp)
  have failed: "host_moves p w (connectFailed err (w\<lparr>w_pc := PC_idle, w_ws1 := Some i\<rparr>))"
    if "\<not> tornDown w" for err i
    by (rule rtranclp_trans [OF w1 [OF that] moves_connectFailed])
  have shut: "host_moves p w (wout (SockClosed i) (w\<lparr>w_pc := PC_idle\<rparr>))" for i
    by (rule host_then_sink [OF moves_connect_fields(1) moves_out]) simp
  show ?thesis
    using False p failed shut
    by (cases "w_pc w"; cases r)
      (auto simp: onIdSocket_def Let_def moves_connectFailed split: sum.split)
qed

lemma moves_audioOutput: "sink_moves p w (audioOutput planes frames chs rate w)"
  by (auto simp: audioOutput_def Let_def split: option.split
      intro: moves_audio rtranclp_trans [OF moves_audio moves_out])

lemma w_step_moves:
  assumes "pc_ok w" "en_platform e = p"
  shows "host_moves p w (w_step (e, c) w)"
  using assms
  by (cases c)
    (simp_all add: w_step_def Let_def moves_w_handle moves_onReady moves_onProbed moves_onIdSocket
      moves_closed moves_onRelaySocket moves_with_session session_method_calls moves_w_relayBytes
      moves_onCursorRendered sink_host [OF moves_video_call] sink_host [OF moves_audioOutput])

section \<open>The worker as a system\<close>

text \<open>All calls of a run share the platform.\<close>

definition worker_step :: "platform \<Rightarrow> wenv \<times> w_call \<Rightarrow> WorkerHost \<Rightarrow> WorkerHost" where
  "worker_step p = (\<lambda>(e, c). w_step (e\<lparr>en_platform := p\<rparr>, c))"

abbreviation worker_reach :: "platform \<Rightarrow> WorkerHost \<Rightarrow> bool" where
  "worker_reach p \<equiv> reach (\<lambda>w. w = newWorkerHost) (worker_step p)"

lemma pc_ok_extends: "extends w w' \<Longrightarrow> pc_ok w \<Longrightarrow> pc_ok w'"
  by (auto simp: pc_ok_def extends_def split: option.splits)

lemma pc_ok_with_session:
  assumes "en_platform e = p" "pc_ok w" "session_method p f"
  shows "pc_ok (with_session e f w)"
proof (cases "w_session w")
  case (Some s)
  then have "pc_ok (w\<lparr>w_session := Some (f s)\<rparr>)" using assms(2) by (simp add: pc_ok_def)
  then show ?thesis
    using with_session_sinks [OF assms(1) Some] assms(3)
    by (auto simp: session_method_def intro: pc_ok_extends sink_moves_extends)
qed (use assms in \<open>simp add: with_session_def\<close>)

lemma pc_ok_sink: "sink_moves p w w' \<Longrightarrow> pc_ok w \<Longrightarrow> pc_ok w'"
  by (blast intro: pc_ok_extends sink_moves_extends)

lemma pc_ok_updates [simp]:
  "pc_ok (post ev w) = pc_ok w" "pc_ok (wout x w) = pc_ok w" "pc_ok (w_teardown w) = pc_ok w"
  "pc_ok (w\<lparr>w_ws1 := i1\<rparr>) = pc_ok w" "pc_ok (w\<lparr>w_ws2 := i2\<rparr>) = pc_ok w"
  "pc_ok (w\<lparr>w_relays := r\<rparr>) = pc_ok w" "pc_ok (w\<lparr>w_cursors := cs\<rparr>) = pc_ok w"
  "pc_ok (w\<lparr>w_video := v\<rparr>) = pc_ok w" "pc_ok (w\<lparr>connectTimer := b\<rparr>) = pc_ok w"
  "pc_ok (w\<lparr>cursorCache := cc\<rparr>) = pc_ok w"
  by (simp_all add: pc_ok_def post_def)

lemma pc_ok_handle:
  assumes "pc_ok w" "en_platform e = p"
  shows "pc_ok (w_handle e cmd w)"
proof -
  let ?call = "case command_call (en_now e) (relayBuffered e w) cmd of
      None \<Rightarrow> w | Some c \<Rightarrow> with_session e (session_step (en_platform e) c) w"
  have call: "pc_ok ?call"
    using assms by (auto split: option.split intro: pc_ok_with_session session_method_step)
  moreover have "pc_ok (connect config b w)" for config b
    using assms(1) by (auto simp: connect_def pc_ok_def post_def)
  ultimately show ?thesis
    unfolding w_handle_def Let_def by (cases cmd) (simp_all only: UiCommand.simps pc_ok_updates)
qed

lemma pc_ok_idSocket:
  assumes "pc_ok w" "en_platform e = p"
  shows "pc_ok (onIdSocket e rnd r w)"
proof (cases "w_pc w")
  case (PC_ws config)
  with assms(1) have started: "connectStarted w" "w_session w = None" by (auto simp: pc_ok_def)
  then have idle: "pc_ok (w\<lparr>w_pc := PC_idle, w_ws1 := i, w_session := s\<rparr>)"
      "pc_ok (w\<lparr>w_pc := PC_idle, w_ws1 := i\<rparr>)" "pc_ok (w\<lparr>w_pc := PC_idle\<rparr>)"
      "pc_ok (connectFailed err w)" "pc_ok (connectFailed err (w\<lparr>w_pc := PC_idle, w_ws1 := i\<rparr>))" for i s err
    by (simp_all add: pc_ok_def connectFailed_def post_def)
  then have run: "pc_ok (with_session e (start p) (with_session e (setSupportedDecoding p sd)
        (w\<lparr>w_pc := PC_idle, w_ws1 := i, w_session := s\<rparr>)))"
      "pc_ok (with_session e (start p) (w\<lparr>w_pc := PC_idle, w_ws1 := i, w_session := s\<rparr>))" for i s sd
    using assms(2) by (intro pc_ok_with_session session_method_calls; simp)+
  have arm: "pc_ok (armTimer u) = pc_ok u" for u
    by (simp add: armTimer_def split: option.split)
  show ?thesis
    using PC_ws assms(2) idle run
    by (simp add: onIdSocket_def Let_def arm split: sum.split option.split)
qed (use assms in \<open>simp_all add: onIdSocket_def\<close>)

lemma pc_ok_step:
  assumes "pc_ok w" "en_platform e = p"
  shows "pc_ok (w_step (e, c) w)"
proof -
  have ready: "pc_ok (onReady r w)" "pc_ok (onProbed e w)" for r
    using assms(1)
    by (auto simp: onReady_def onProbed_def pc_ok_def connectFailed_def post_def Let_def
        split: connect_pc.split sum.split)
  have closed: "pc_ok (onConnectTimeout w)" "pc_ok (onIdSocketClosed w)" "pc_ok (onSocketClosed w)"
    using assms(1)
    by (simp_all add: onConnectTimeout_def onIdSocketClosed_def onSocketClosed_def Let_def
        split: option.split)
  have relay: "pc_ok (onRelaySocket e r w)" for r
    using assms by (auto simp: onRelaySocket_def Let_def split: sum.split
        intro!: pc_ok_with_session [of e p] session_method_calls)
  have cursor: "pc_ok (onCursorRendered i r w)" for i r
    using assms(1) by (simp add: onCursorRendered_def Let_def split: sum.split)
  have bytes: "pc_ok (w_relayBytes e rnd b w)" for rnd b
    using assms(2)
  proof (cases rule: w_relayBytes_cases [where rnd = rnd and b = b and w = w])
    case (video s vf s1)
    have "pc_ok (w\<lparr>w_session := Some (onVideo_sink vf s1)\<rparr>)"
      using assms(1) video(2) by (simp add: pc_ok_def)
    then show ?thesis
      unfolding video(1) using pc_ok_sink [OF with_onVideo [OF assms(2) video(2,4)]]
      by (intro pc_ok_with_session [OF assms(2) _ session_method_ack]) blast
  qed (use assms in \<open>auto intro: pc_ok_with_session session_method_calls\<close>)
  show ?thesis
    using assms ready closed relay cursor bytes
    by (cases c)
      (simp_all add: w_step_def Let_def pc_ok_handle pc_ok_idSocket pc_ok_with_session
        session_method_calls pc_ok_sink [OF moves_video_call] pc_ok_sink [OF moves_audioOutput])
qed

interpretation worker_pc: invariant_system "\<lambda>w. w = newWorkerHost" "worker_step p" pc_ok for p
proof
  show "pc_ok w" if "w = newWorkerHost" for w
    using that by (simp add: newWorkerHost_def pc_ok_def)
  show "pc_ok (worker_step p c w)" if "pc_ok w" for c w
    using that pc_ok_step [of w _ p] by (cases c) (simp add: worker_step_def)
qed

text \<open>What every move keeps, every call and every run keeps; what also holds of a new worker holds of every reachable one.\<close>

locale move_stable =
  fixes p :: platform and I :: "WorkerHost \<Rightarrow> bool"
  assumes I_move: "host_move p w w' \<Longrightarrow> I w \<Longrightarrow> I w'"
begin

lemma I_moves: "host_moves p w w' \<Longrightarrow> I w \<Longrightarrow> I w'"
  by (induction rule: rtranclp_induct) (auto intro: I_move)

lemma I_step: "pc_ok w \<Longrightarrow> I w \<Longrightarrow> I (worker_step p c w)"
  using I_moves [OF w_step_moves [of w _ p]] by (cases c) (simp add: worker_step_def)

lemma I_run: "pc_ok w \<Longrightarrow> I w \<Longrightarrow> I (fold (worker_step p) cs w)"
  by (induction cs arbitrary: w) (auto intro: I_step worker_pc.inv_step)

end

locale move_invariant = move_stable +
  assumes I_new: "I newWorkerHost"
begin

lemma I_reach: "worker_reach p w \<Longrightarrow> I w"
  by (induction rule: reach.induct) (auto intro: I_new I_step worker_pc.inv_reach)

end

section \<open>Torn down means released\<close>

definition released :: "WorkerHost \<Rightarrow> bool" where
  "released w \<longleftrightarrow> (tornDown w \<longrightarrow> w_ws1 w = None \<and> w_ws2 w = None \<and> \<not> connectTimer w)"

lemma sink_move_released: "sink_move p w w' \<Longrightarrow> released w \<Longrightarrow> released w'"
  by (induction rule: sink_move.induct) (auto simp: released_def w_teardown_def clearConnectTimer_def)

interpretation released: move_invariant p released for p
proof
  show "released newWorkerHost" by (simp add: released_def newWorkerHost_def)
  show "released w'" if "host_move p w w'" "released w" for w w'
    using that by induction (auto simp: released_def dest: sink_move_released)
qed

fun sends :: "w_out list \<Rightarrow> (nat \<times> bytes) list" where
  "sends [] = []"
| "sends (SockSend i b # xs) = (i, b) # sends xs"
| "sends (_ # xs) = sends xs"

lemma sends_append [simp]: "sends (xs @ ys) = sends xs @ sends ys"
  by (induction xs rule: sends.induct) auto

lemma sends_quiet: "quiet_out x \<Longrightarrow> sends [x] = []"
  by (cases x) auto

lemma sends_set: "(i, b) \<in> set (sends xs) \<longleftrightarrow> SockSend i b \<in> set xs"
  by (induction xs rule: sends.induct) auto

lemma sends_closed [simp]: "sends (closed_outs w) = []"
  by (simp add: closed_outs_def split: option.split)

lemma sends_teardown [simp]: "sends (w_out (w_teardown w)) = sends (w_out w)"
  by (simp add: w_teardown_def)

lemma sink_move_silent:
  "sink_move p w w' \<Longrightarrow> released w \<Longrightarrow> tornDown w \<Longrightarrow> tornDown w' \<and> sends (w_out w') = sends (w_out w)"
  by (induction rule: sink_move.induct) (auto simp: released_def sends_quiet)

interpretation silent: move_stable p "\<lambda>w. released w \<and> tornDown w \<and> sends (w_out w) = ss" for p ss
proof
  show "released w' \<and> tornDown w' \<and> sends (w_out w') = ss"
    if "host_move p w w'" "released w \<and> tornDown w \<and> sends (w_out w) = ss" for w w'
    using that released.I_move [OF that(1)]
    by (induction rule: host_move.induct) (auto dest: sink_move_silent)
qed

text \<open>
  C11. A worker that has been torn down has let go of both sockets and its watchdog, and is
  silent for good: whatever commands, socket events and promise settlements still arrive,
  it stays torn down and sends nothing on any socket.
\<close>

theorem torn_down_worker_is_silent:
  assumes "worker_reach p w" "tornDown w"
  shows "w_ws1 w = None \<and> w_ws2 w = None \<and> \<not> connectTimer w \<and>
         tornDown (fold (worker_step p) cs w) \<and>
         sends (w_out (fold (worker_step p) cs w)) = sends (w_out w)"
proof -
  have "released w" using assms(1) by (rule released.I_reach)
  with silent.I_run [OF worker_pc.inv_reach [OF assms(1)], where ss = "sends (w_out w)" and cs = cs] assms(2)
  show ?thesis by (simp add: released_def)
qed

section \<open>What travels on the sockets\<close>

definition traffic :: "platform \<Rightarrow> WorkerHost \<Rightarrow> bool" where
  "traffic p w \<longleftrightarrow>
     (case w_session w of
        None \<Rightarrow> sends (w_out w) = []
      | Some s \<Rightarrow> secure p s \<and>
          (\<forall>(i, b) \<in> set (sends (w_out w)). \<exists>a \<in> set (trace s). payload a = Some b))"

lemma traffic_frame:
  assumes "traffic p w" "w_session w' = w_session w" "sends (w_out w') = sends (w_out w)"
  shows "traffic p w'"
  using assms unfolding traffic_def by (simp split: option.splits)

lemma traffic_session:
  assumes "traffic p w" "w_session w = Some s" "secure p s \<longrightarrow> secure p s'" "prefix (trace s) (trace s')"
  shows "traffic p (w\<lparr>w_session := Some s'\<rparr>)"
  using assms set_mono_prefix [OF assms(4)] by (fastforce simp: traffic_def)

lemma traffic_sink: "sink_move p w w' \<Longrightarrow> traffic p w \<Longrightarrow> traffic p w'"
proof (induction rule: sink_move.induct)
  case (mv_send w s a b i)
  then show ?case by (auto simp: traffic_def)
next
  case (mv_session w s s')
  then show ?case by (auto intro: traffic_session)
qed (auto elim!: traffic_frame simp: sends_quiet)

interpretation traffic: move_invariant p "traffic p" for p
proof
  show "traffic p newWorkerHost" by (simp add: traffic_def newWorkerHost_def)
  show "traffic p w'" if "host_move p w w'" "traffic p w" for w w'
    using that
  proof (induction rule: host_move.induct)
    case (hm_call w s s')
    then show ?case by (auto intro: traffic_session)
  next
    case (hm_new w config rnd s)
    moreover have "secure p s" using hm_new(2) by (intro session.inv_init) (auto simp: session_init_def)
    ultimately show ?case by (simp add: traffic_def)
  next
    case (hm_sink w w')
    then show ?case by (rule traffic_sink)
  qed (auto elim!: traffic_frame)
qed

lemma sealed_frames_set: "SendSealed b \<in> set as \<Longrightarrow> b \<in> set (sealed_frames as)"
  by (induction as rule: sealed_frames.induct) auto

lemma plain_frames_set: "SendRelay b \<in> set as \<Longrightarrow> b \<in> set (plain_frames as)"
  by (induction as rule: plain_frames.induct) auto

lemma sealed_frame_form:
  assumes "secure p s" "SendSealed b \<in> set (trace s)"
  shows "\<exists>c u n. cipher s = Some c \<and> trust_chain p (serverEdPk s) (peerId (s_config s)) (cipher_key c) \<and>
           n \<in> {1..sendSeq c} \<and>
           b = crypto_secretbox_easy (sod p) (encMessage (wire p) u) (buildNonce n) (cipher_key c)"
proof -
  have mem: "b \<in> set (sealed_frames (trace s))" using assms(2) by (rule sealed_frames_set)
  then obtain c where c: "cipher s = Some c" using assms(1) by (cases "cipher s") (auto simp: secure_def)
  with assms(1) obtain us where us: "sendSeq c = length us"
      "sealed_frames (trace s) =
         snd (seal_all (sod p) (newStreamCipher (cipher_key c)) (map (encMessage (wire p)) us))"
      "trust_chain p (serverEdPk s) (peerId (s_config s)) (cipher_key c)"
    by (auto simp: secure_def)
  from mem us(2) obtain k where k: "k < length us"
      "b = crypto_secretbox_easy (sod p) (encMessage (wire p) (us ! k)) (buildNonce (Suc k)) (cipher_key c)"
    by (auto simp: seal_all_ciphertexts seal_nonces_def newStreamCipher_def in_set_conv_nth
        simp del: upt_Suc)
  with c us show ?thesis by (intro exI [of _ c] exI [of _ "us ! k"] exI [of _ "Suc k"]) auto
qed

text \<open>
  C4. Whatever bytes a worker puts on a socket come from its session, and on the relay they are
  either part of the plaintext handshake or the encoding of a message sealed, under one of the
  nonces already used, with a key the whole trust chain vouches for: no command, callback of a decoder or
  late promise puts anything else on the wire.
\<close>

theorem worker_wire_is_secured:
  assumes "worker_reach p w" "SockSend i b \<in> set (w_out w)"
  shows "\<exists>s. w_session w = Some s \<and>
           (SendSignaling b \<in> set (trace s) \<or> plaintext_ok p b \<or>
            (\<exists>c u n. cipher s = Some c \<and>
               trust_chain p (serverEdPk s) (peerId (s_config s)) (cipher_key c) \<and>
               n \<in> {1..sendSeq c} \<and>
               b = crypto_secretbox_easy (sod p) (encMessage (wire p) u) (buildNonce n) (cipher_key c)))"
proof -
  have sent: "(i, b) \<in> set (sends (w_out w))" using assms(2) by (simp add: sends_set)
  have tr: "traffic p w" using assms(1) by (rule traffic.I_reach)
  with sent obtain s where s: "w_session w = Some s" by (cases "w_session w") (auto simp: traffic_def)
  with tr sent obtain a where a: "a \<in> set (trace s)" "payload a = Some b" "secure p s"
    by (auto simp: traffic_def)
  have "plaintext_ok p b" if "a = SendRelay b"
    using a that plain_frames_set [of b "trace s"] by (auto simp: secure_def)
  with s a sealed_frame_form [OF a(3), of b] show ?thesis by (cases a) auto
qed

section \<open>The session's end is the worker's end\<close>

definition ends_closed :: "Session \<Rightarrow> Session \<Rightarrow> bool" where
  "ends_closed s t \<longleftrightarrow> (final t \<longrightarrow> final s \<or> CloseAll \<in> set (new_actions s t))"

lemma ends_closed_fail: "trace t = trace s \<Longrightarrow> ends_closed s (fail d t)"
  by (simp add: ends_closed_def new_actions_def)

lemma ends_closed_same: "s_state t = s_state s \<Longrightarrow> ends_closed s t"
  by (simp add: ends_closed_def final_def)

lemma ends_closed_state: "s_state t \<noteq> Closed \<Longrightarrow> s_state t \<noteq> ErrorState \<Longrightarrow> ends_closed s t"
  by (simp add: ends_closed_def final_def)

lemma state_clipboards [simp]: "s_state (fold (handleClipboard p) cbs s) = s_state s"
  by (induction cbs arbitrary: s) (simp_all add: handleClipboard_def)

lemma state_onHash: "s_state (onHash p salt ch s) = Login"
  by (simp add: onHash_def Let_def sendLogin_def split: option.split list.split)

lemma state_resume: "s_state (resume p i s) = s_state s"
  by (simp add: resume_def Let_def sendLogin_def split: continuation.split option.split)

lemma ends_closed_dispatchMisc: "ends_closed s (dispatchMisc m s)"
  by (cases m) (auto simp: dispatchMisc_def new_actions_def ends_closed_def final_def split: BackUnion.split)

lemma ends_closed_dispatch: "ends_closed s (dispatch p m s)"
  by (cases m)
    (simp_all add: dispatch_def emitPeerInfo_def Let_def ackVideo_def onVideo_sink_def handleClipboard_def
      onTerminalResponse_def onVoiceCallRequest_def onVoiceCallResponse_def state_onHash
      ends_closed_same ends_closed_dispatchMisc ends_closed_state
      split: LoginResponseUnion.split FileAction.split TerminalResponse.split option.split)

lemma ends_closed_relay: "ends_closed s (onRelayBytes p rnd b s)"
proof -
  have first: "ends_closed s (onFirstRelayFrame p rnd b s)"
    by (simp add: onFirstRelayFrame_def ends_closed_fail ends_closed_same
        split: sum.split Message.split option.split prod.split)
  show ?thesis
  proof (cases "snd (openRelayBytes p b s)")
    case None
    then have "ends_closed s (fst (openRelayBytes p b s))"
      by (simp add: openRelayBytes_def Let_def case_prod_beta ends_closed_fail ends_closed_same
          split: option.split sum.split)
    with first None show ?thesis
      by (auto simp: onRelayBytes_def case_prod_beta intro: ends_closed_same)
  next
    case (Some m)
    have "ends_closed s (dispatch p m (fst (openRelayBytes p b s)))"
      using ends_closed_dispatch [of "fst (openRelayBytes p b s)" p m] openRelayBytes_state [OF Some]
      by (simp add: ends_closed_def new_actions_def final_def)
    with first Some show ?thesis
      by (auto simp: onRelayBytes_def case_prod_beta intro: ends_closed_same)
  qed
qed

lemma ends_closed_step: "ends_closed s (session_step p c s)"
proof -
  have sig: "ends_closed s (onSignalingBytes p b s)" for b
    by (simp add: onSignalingBytes_def ends_closed_fail ends_closed_same ends_closed_state
        split: sum.split RendezvousParsed.split option.split)
  have "ends_closed s (disconnect s)"
    by (simp add: disconnect_def ends_closed_def new_actions_def final_def)
  with sig ends_closed_relay [of s p] show ?thesis
    by (cases c)
      (simp_all add: session_step_def plain_sends Let_def start_def relayOpened_def state_resume
        ends_closed_same ends_closed_state
        setSupportedDecoding_def switchDisplay_def changeDisplayResolution_def
        toggleVirtualDisplay_def setCustomQuality_def setCustomFps_def setPreferredCodec_def
        startVoiceCall_def closeVoiceCall_def sendVoiceAudioFormat_def sendVoiceAudioFrame_def)
qed

definition ended :: "WorkerHost \<Rightarrow> bool" where
  "ended w \<longleftrightarrow> (\<forall>s. w_session w = Some s \<longrightarrow> final s \<longrightarrow> tornDown w)"

lemma ended_sink: "sink_moves p w w' \<Longrightarrow> ended w \<Longrightarrow> ended w'"
  by (drule sink_moves_extends) (fastforce simp: ended_def extends_def final_def split: option.splits)

lemma fold_sink_closes:
  assumes "en_platform e = p" "w_session w = Some s" "set as \<subseteq> set (trace s)" "CloseAll \<in> set as"
  shows "tornDown (fold (sink e) as w)"
proof -
  from assms(4) obtain xs ys where as: "as = xs @ CloseAll # ys" by (auto simp: in_set_conv_decomp)
  let ?w1 = "w_teardown (fold (sink e) xs w)"
  have "sink_moves p w (fold (sink e) xs w)"
    using assms(1,3) as by (intro moves_fold_actions [OF _ assms(2)]) (auto intro: moves_sink)
  then have "extends w ?w1"
    by (intro sink_moves_extends) (rule rtranclp_trans [OF _ moves_teardown])
  then obtain s1 where s1: "w_session ?w1 = Some s1" "prefix (trace s) (trace s1)"
    using assms(2) by (auto simp: extends_def)
  have "sink_moves p ?w1 (fold (sink e) ys ?w1)"
    using assms(1,3) as set_mono_prefix [OF s1(2)]
    by (intro moves_fold_actions [OF _ s1(1)]) (auto intro: moves_sink)
  then have "tornDown (fold (sink e) ys ?w1)"
    by (auto dest!: sink_moves_extends simp: extends_def)
  then show ?thesis by (simp add: as sink_def)
qed

lemma ended_with_session:
  assumes "en_platform e = p" "session_method p f" "\<And>s. ends_closed s (f s)" "ended w"
  shows "ended (with_session e f w)"
proof (cases "w_session w")
  case (Some s)
  let ?w1 = "w\<lparr>w_session := Some (f s)\<rparr>"
  have pre: "prefix (trace s) (trace (f s))" using assms(2) by (simp add: session_method_def)
  show ?thesis
  proof (cases "CloseAll \<in> set (new_actions s (f s))")
    case True
    then show ?thesis
      using fold_sink_closes [OF assms(1), of ?w1 "f s"] new_actions_subset [OF pre] Some
      by (simp add: ended_def with_session_def)
  next
    case False
    then have "ended ?w1"
      using assms(3) [of s] assms(4) Some by (auto simp: ended_def ends_closed_def)
    then show ?thesis
      using with_session_sinks [where f = f, OF assms(1) Some pre] by (rule ended_sink [rotated])
  qed
qed (use assms(4) in \<open>simp add: with_session_def\<close>)

lemma ended_updates [simp]:
  "ended (post ev w) = ended w" "ended (wout x w) = ended w" "ended (w_teardown w)"
  "ended (w\<lparr>w_ws1 := i1\<rparr>) = ended w" "ended (w\<lparr>w_ws2 := i2\<rparr>) = ended w" "ended (w\<lparr>w_pc := pc\<rparr>) = ended w"
  "ended (w\<lparr>w_relays := r\<rparr>) = ended w" "ended (w\<lparr>w_cursors := cs\<rparr>) = ended w"
  "ended (w\<lparr>w_video := v\<rparr>) = ended w" "ended (w\<lparr>connectTimer := b\<rparr>) = ended w"
  "ended (w\<lparr>cursorCache := cc\<rparr>) = ended w" "ended (w\<lparr>w_audio := au\<rparr>) = ended w"
  "ended (w\<lparr>w_probe := pr\<rparr>) = ended w" "ended (w\<lparr>connectStarted := b\<rparr>) = ended w"
  by (simp_all add: ended_def post_def)

lemma ended_handle:
  assumes "ended w" "en_platform e = p"
  shows "ended (w_handle e cmd w)"
proof -
  let ?call = "case command_call (en_now e) (relayBuffered e w) cmd of
      None \<Rightarrow> w | Some c \<Rightarrow> with_session e (session_step (en_platform e) c) w"
  have "ended ?call"
    using assms by (auto split: option.split intro: ended_with_session session_method_step ends_closed_step)
  moreover have "ended (connect config b w)" for config b
    using assms(1) by (simp add: connect_def)
  ultimately show ?thesis
    unfolding w_handle_def Let_def by (cases cmd) (simp_all only: UiCommand.simps ended_updates)
qed

lemmas ends_closed_calls =
  ends_closed_step [where c = SC_start] ends_closed_step [where c = SC_relayOpened]
  ends_closed_step [where c = "SC_signaling b" for b] ends_closed_step [where c = "SC_resume i" for i]
  ends_closed_step [where c = "SC_setSupportedDecoding sd" for sd]

lemma ended_step:
  assumes "pc_ok w" "ended w" "en_platform e = p"
  shows "ended (w_step (e, c) w)"
proof -
  note calls = ends_closed_calls [unfolded session_step_def session_call.case]
  have arm: "ended (armTimer u) = ended u" for u
    by (simp add: armTimer_def split: option.split)
  have fresh: "ended (u\<lparr>w_session := Some s\<rparr>)" if "newSession p config rnd = Inr s" for u config rnd s
    using newSession_fields(4) [OF that] by (simp add: ended_def final_def)
  have "ended (onReady r w)" "ended (onProbed e w)" for r
    using assms(2)
    by (simp_all add: onReady_def onProbed_def connectFailed_def Let_def split: connect_pc.split sum.split)
  moreover have "ended (onIdSocket e rnd r w)" for rnd r
    using assms fresh
    by (auto simp: onIdSocket_def Let_def connectFailed_def arm split: connect_pc.split sum.split option.split
        intro!: ended_with_session [of e p] session_method_calls calls)
  moreover have "ended (onConnectTimeout w)" "ended (onIdSocketClosed w)" "ended (onSocketClosed w)"
    using assms(2)
    by (simp_all add: onConnectTimeout_def onIdSocketClosed_def onSocketClosed_def Let_def split: option.split)
  moreover have "ended (onRelaySocket e r w)" for r
    using assms(2,3) by (auto simp: onRelaySocket_def Let_def split: sum.split
        intro!: ended_with_session [of e p] session_method_calls calls)
  moreover have "ended (onCursorRendered i r w)" for i r
    using assms(2) by (simp add: onCursorRendered_def Let_def split: sum.split)
  moreover have "ended (w_relayBytes e rnd b w)" for rnd b
    using assms(3)
  proof (cases rule: w_relayBytes_cases [where rnd = rnd and b = b and w = w])
    case (video s vf s1)
    have "ended (w\<lparr>w_session := Some (onVideo_sink vf s1)\<rparr>)"
      using video by (simp add: ended_def final_def onVideo_sink_def)
    then have "ended (with_session e (\<lambda>_. onVideo_sink vf s1) w)"
      using with_onVideo [OF assms(3) video(2,4)] by (rule ended_sink [rotated])
    then show ?thesis
      unfolding video(1)
      by (intro ended_with_session [OF assms(3) session_method_ack])
        (auto simp: ackVideo_def intro: ends_closed_same)
  qed (use assms ends_closed_relay in \<open>auto intro: ended_with_session session_method_calls\<close>)
  moreover have "ended (with_session e (onSignalingBytes p b) w)" "ended (with_session e (resume p i) w)" for b i
    using assms(2,3) by (auto intro!: ended_with_session [of e p] session_method_calls calls)
  ultimately show ?thesis
    using assms(2,3)
    by (cases c) (simp_all add: w_step_def Let_def ended_handle ended_sink [OF moves_video_call]
        ended_sink [OF moves_audioOutput])
qed

lemma reach_ended: "worker_reach p w \<Longrightarrow> ended w"
proof (induction rule: reach.induct)
  case (reach_step w ec)
  then show ?case
    using ended_step [OF worker_pc.inv_reach [OF reach_step(1)]] by (cases ec) (simp add: worker_step_def)
qed (simp add: ended_def newWorkerHost_def)

text \<open>A finished session in a torn-down worker stays finished.\<close>

definition over :: "WorkerHost \<Rightarrow> bool" where
  "over w \<longleftrightarrow> tornDown w \<and> (\<exists>s. w_session w = Some s \<and> final s)"

lemma over_sink: "sink_moves p w w' \<Longrightarrow> over w \<Longrightarrow> over w'"
  by (drule sink_moves_extends) (auto simp: over_def extends_def final_def)

lemma over_with_session:
  assumes "en_platform e = p" "over w" "c \<noteq> SC_start" "c \<noteq> SC_relayOpened"
  shows "over (with_session e (session_step p c) w)"
proof -
  from assms(2) obtain s where s: "w_session w = Some s" "final s" "tornDown w" by (auto simp: over_def)
  then have "over (w\<lparr>w_session := Some (session_step p c s)\<rparr>)"
    using deaf_step [OF s(2) assms(3,4)] by (simp add: over_def deaf_def)
  with with_session_sinks [where f = "session_step p c", OF assms(1) s(1) trace_session_step]
  show ?thesis by (rule over_sink)
qed

lemma command_call_plain:
  "command_call now buffered cmd = Some c \<Longrightarrow> c \<noteq> SC_start \<and> c \<noteq> SC_relayOpened"
  by (cases cmd) (auto simp: command_call_def)

lemma over_updates [simp]:
  "over (post ev w) = over w" "over (wout x w) = over w"
  "over (w\<lparr>w_ws1 := i1\<rparr>) = over w" "over (w\<lparr>w_pc := pc\<rparr>) = over w"
  "over (w\<lparr>w_relays := r\<rparr>) = over w" "over (w\<lparr>w_cursors := cs\<rparr>) = over w"
  "over (w\<lparr>w_video := v\<rparr>) = over w" "over (w\<lparr>connectTimer := b\<rparr>) = over w"
  "over (w\<lparr>cursorCache := cc\<rparr>) = over w" "over (w\<lparr>w_audio := au\<rparr>) = over w"
  "over (w\<lparr>w_probe := pr\<rparr>) = over w" "over (w\<lparr>connectStarted := b\<rparr>) = over w"
  by (simp_all add: over_def post_def)

lemma over_teardown: "over w \<Longrightarrow> over (w_teardown w)"
  by (simp add: over_def)

lemma over_handle:
  assumes "over w" "en_platform e = p"
  shows "over (w_handle e cmd w)"
proof -
  let ?call = "case command_call (en_now e) (relayBuffered e w) cmd of
      None \<Rightarrow> w | Some c \<Rightarrow> with_session e (session_step (en_platform e) c) w"
  have "over ?call"
    using assms by (auto split: option.split intro!: over_with_session dest: command_call_plain)
  moreover have "over (connect config b w)" for config b
    using assms(1) by (simp add: connect_def)
  ultimately show ?thesis
    unfolding w_handle_def Let_def
    by (cases cmd) (simp_all only: UiCommand.simps over_updates over_teardown)
qed

lemma over_step:
  assumes "pc_ok w" "over w" "en_platform e = p"
  shows "over (w_step (e, c) w)"
proof -
  from assms(2) obtain s where s: "w_session w = Some s" "final s" "tornDown w" by (auto simp: over_def)
  have idle: "w_pc w = PC_idle" using assms(1) s(1) by (auto simp: pc_ok_def)
  have "w_relayBytes e rnd b w = with_session e (session_step p (SC_relay rnd b)) w" for rnd b
    using s assms(3) by (simp add: w_relayBytes_def session_step_def Let_def with_session_def)
  then have relay: "over (w_relayBytes e rnd b w)" for rnd b
    using over_with_session [OF assms(3,2), of "SC_relay rnd b"] by simp
  have calls: "over (with_session e (onSignalingBytes p b) w)" "over (with_session e (resume p i) w)" for b i
    using over_with_session [OF assms(3,2), of "SC_signaling b"]
      over_with_session [OF assms(3,2), of "SC_resume i"] s(1)
    by (simp_all add: session_step_def with_session_def)
  have "over (onCursorRendered i r w)" for i r
    using assms(2) by (simp add: onCursorRendered_def Let_def split: sum.split)
  moreover have "over (onRelaySocket e r w)" for r
    using assms(2) s(3) by (simp add: onRelaySocket_def Let_def over_teardown split: sum.split)
  moreover have "over (onConnectTimeout w)" "over (onIdSocketClosed w)" "over (onSocketClosed w)"
    using assms(2) s(3)
    by (simp_all add: onConnectTimeout_def onIdSocketClosed_def onSocketClosed_def Let_def over_teardown
        split: option.split)
  ultimately show ?thesis
    using assms(2,3) relay calls
    by (cases c) (simp_all add: w_step_def Let_def over_handle over_sink [OF moves_video_call]
        over_sink [OF moves_audioOutput] onReady_def onProbed_def onIdSocket_def idle)
qed

lemma over_run: "pc_ok w \<Longrightarrow> over w \<Longrightarrow> over (fold (worker_step p) cs w)"
proof (induction cs arbitrary: w)
  case (Cons ec cs)
  have "over (worker_step p ec w)"
    using over_step [OF Cons.prems] by (cases ec) (simp add: worker_step_def)
  with Cons show ?case using worker_pc.inv_step by simp
qed simp

text \<open>
  When the session ends, by an error, by the peer or by the user, the worker has let go of
  both sockets and of the connect watchdog by the time the call returns, and no later
  command, socket event or late relay connection revives the session.
\<close>

theorem finished_session_releases_worker:
  assumes "worker_reach p w" "w_session w = Some s" "final s"
  shows "tornDown w \<and> w_ws1 w = None \<and> w_ws2 w = None \<and> \<not> connectTimer w \<and>
         (\<exists>s'. w_session (fold (worker_step p) cs w) = Some s' \<and> final s')"
proof -
  have "over w" using reach_ended [OF assms(1)] assms(2,3) by (simp add: over_def ended_def)
  with over_run [OF worker_pc.inv_reach [OF assms(1)], of p cs] released.I_reach [OF assms(1)]
  show ?thesis by (auto simp: over_def released_def)
qed

section \<open>Video restarts are debounced\<close>

fun kicks :: "w_out list \<Rightarrow> int list" where
  "kicks [] = []"
| "kicks (Kicked t # xs) = t # kicks xs"
| "kicks (_ # xs) = kicks xs"

lemma kicks_append [simp]: "kicks (xs @ ys) = kicks xs @ kicks ys"
  by (induction xs rule: kicks.induct) auto

lemma kicks_quiet: "quiet_out x \<Longrightarrow> kicks [x] = []"
  by (cases x) auto

lemma kicks_teardown [simp]: "kicks (w_out (w_teardown w)) = kicks (w_out w)"
  by (simp add: w_teardown_def closed_outs_def split: option.split)

definition kicks_ok :: "WorkerHost \<Rightarrow> bool" where
  "kicks_ok w \<longleftrightarrow> debounced 500 (lastKickMs w) (kicks (w_out w))"

lemma sink_move_kicks: "sink_move p w w' \<Longrightarrow> kicks_ok w \<Longrightarrow> kicks_ok w'"
  by (induction rule: sink_move.induct)
    (auto simp: kicks_ok_def kicks_quiet intro: debounced_snoc)

interpretation kicks: move_invariant p kicks_ok for p
proof
  show "kicks_ok newWorkerHost" by (simp add: kicks_ok_def newWorkerHost_def debounced_def)
  show "kicks_ok w'" if "host_move p w w'" "kicks_ok w" for w w'
    using that by induction (auto simp: kicks_ok_def intro: sink_move_kicks [unfolded kicks_ok_def])
qed

lemma kicks_relay_out [simp]: "kicks (w_out (relay_out a w)) = kicks (w_out w)" "lastKickMs (relay_out a w) = lastKickMs w"
  by (simp_all add: relay_out_def split: action.split option.split)

lemma kicks_fold_relay: "kicks (w_out (fold relay_out as w)) = kicks (w_out w) \<and> lastKickMs (fold relay_out as w) = lastKickMs w"
  by (induction as arbitrary: w) simp_all

lemma kicks_reenter [simp]: "kicks (w_out (reenter f w)) = kicks (w_out w)" "lastKickMs (reenter f w) = lastKickMs w"
  by (simp_all add: reenter_def kicks_fold_relay split: option.split)

interpretation kick: debounce 500 lastKickMs "\<lambda>w. kicks (w_out w)" "\<lambda>now. kickVideo (e\<lparr>en_now := now\<rparr>)" for e
  by unfold_locales (simp_all add: kickVideo_def)

text \<open>
  However many UAC, message-box and display-switch events arrive, the worker restarts the
  video pipeline and asks the peer for a key frame at most twice a second: any two restarts
  are at least 500 ms apart by the worker's own clock.
\<close>

theorem video_restarts_debounced:
  assumes "worker_reach p w" "i < j" "j < length (kicks (w_out w))"
  shows "500 \<le> kicks (w_out w) ! j - kicks (w_out w) ! i"
  using debounced_gaps [OF kicks.I_reach [OF assms(1), unfolded kicks_ok_def] _ assms(2,3)] by simp

section \<open>The cursor cache\<close>

definition cache_ok :: "WorkerHost \<Rightarrow> bool" where
  "cache_ok w \<longleftrightarrow> length (cursorCache w) \<le> MAX_CURSORS \<and> distinct (map fst (cursorCache w))"

lemma cache_put_bounded:
  assumes "length c \<le> MAX_CURSORS"
  shows "length (cache_put k v c) \<le> MAX_CURSORS"
  using assms length_kv_set [of k v c] length_kv_set [of k v "drop 1 c"]
  by (auto simp: cache_put_def MAX_CURSORS_def)

lemma cache_put_distinct:
  assumes "distinct (map fst c)"
  shows "distinct (map fst (cache_put k v c))"
  using assms by (simp add: cache_put_def distinct_kv_set drop_map [symmetric] del: drop_map)

lemma sink_move_cache: "sink_move p w w' \<Longrightarrow> cache_ok w \<Longrightarrow> cache_ok w'"
  by (induction rule: sink_move.induct)
    (auto simp: cache_ok_def w_teardown_def cache_put_bounded cache_put_distinct)

interpretation cache: move_invariant p cache_ok for p
proof
  show "cache_ok newWorkerHost" by (simp add: cache_ok_def newWorkerHost_def)
  show "cache_ok w'" if "host_move p w w'" "cache_ok w" for w w'
    using that
  proof (induction rule: host_move.induct)
    case (hm_sink w w')
    then show ?case by (rule sink_move_cache)
  qed (simp_all add: cache_ok_def)
qed

lemma int_str_inj: "int_str i = int_str j \<Longrightarrow> i = j"
proof -
  assume eq: "int_str i = int_str j"
  have dec: "u \<in> set (radix_str 10 n) \<Longrightarrow> is_dec_unit u" for u n
    using radix_str_digits [of 10 is_dec_unit n] is_dec_unit_digit_unit by (auto simp: list_all_iff)
  have minus: "45 \<notin> set (radix_str 10 n)" for n
    using dec [of 45 n] by (auto simp: is_dec_unit_def)
  have sign: "45 \<in> set (int_str k) \<longleftrightarrow> k < 0" for k
    using minus by (simp add: int_str_def js_def)
  have "i < 0 \<longleftrightarrow> j < 0" using sign [of i] sign [of j] eq by simp
  with eq have "radix_str 10 (nat \<bar>i\<bar>) = radix_str 10 (nat \<bar>j\<bar>)"
    unfolding int_str_def by (cases "i < 0") simp_all
  then have "radix_val 10 (radix_str 10 (nat \<bar>i\<bar>)) = radix_val 10 (radix_str 10 (nat \<bar>j\<bar>))"
    by (rule arg_cong)
  then have "nat \<bar>i\<bar> = nat \<bar>j\<bar>" by (simp only: radix_val_radix_str [of 10, simplified])
  with \<open>i < 0 \<longleftrightarrow> j < 0\<close> show "i = j" by auto
qed

lemma map_of_drop1:
  "distinct (map fst c) \<Longrightarrow> k \<notin> fst ` set (take 1 c) \<Longrightarrow> map_of (drop 1 c) k = map_of c k"
  by (cases c) auto

text \<open>
  The cursor cache never holds more than 128 shapes. Once a cursor has been rendered, the
  host's reference to it by id shows exactly that image and hot spot, and every other id
  is answered as before, except for the oldest entry when the cache was full.
\<close>

theorem cursor_id_replays_rendering:
  assumes "worker_reach p w" "i < length (w_cursors w)"
  shows "let c = w_cursors w ! i; w' = onCursorRendered i (Inr en) w in
         length (cursorCache w') \<le> 128 \<and>
         postCursorId (cd_id c) w' = post (Ev_cursor (ce_pngDataUrl en) (ce_hotx en) (ce_hoty en)) w' \<and>
         (\<forall>j. j \<noteq> cd_id c \<longrightarrow> length (cursorCache w) < 128 \<or> int_str j \<notin> fst ` set (take 1 (cursorCache w)) \<longrightarrow>
            map_of (cursorCache w') (int_str j) = map_of (cursorCache w) (int_str j))"
proof -
  have ok: "cache_ok w" using assms(1) by (rule cache.I_reach)
  let ?c = "w_cursors w ! i"
  have cc: "cursorCache (onCursorRendered i (Inr en) w) = cache_put (int_str (cd_id ?c)) en (cursorCache w)"
    using assms(2) by (simp add: onCursorRendered_def Let_def)
  have "length (cache_put (int_str (cd_id ?c)) en (cursorCache w)) \<le> 128"
    using cache_put_bounded [of "cursorCache w"] ok by (simp add: cache_ok_def MAX_CURSORS_def)
  moreover have "map_of (cache_put (int_str (cd_id ?c)) en (cursorCache w)) (int_str (cd_id ?c)) = Some en"
    by (simp add: cache_put_def)
  moreover have "map_of (cache_put (int_str (cd_id ?c)) en (cursorCache w)) (int_str j) = map_of (cursorCache w) (int_str j)"
    if "j \<noteq> cd_id ?c" "length (cursorCache w) < 128 \<or> int_str j \<notin> fst ` set (take 1 (cursorCache w))" for j
    using that int_str_inj [of j "cd_id ?c"] map_of_drop1 [of "cursorCache w" "int_str j"] ok
    by (auto simp: cache_put_def cache_ok_def MAX_CURSORS_def)
  ultimately show ?thesis by (simp add: Let_def cc postCursorId_def)
qed

section \<open>Pipelines created after the teardown\<close>

interpretation leaked: move_stable p
  "\<lambda>w. tornDown w \<and> VideoClosed \<notin> set (w_out w) \<and> AudioClosed \<notin> set (w_out w)" for p
proof
  have sink: "tornDown w' \<and> VideoClosed \<notin> set (w_out w') \<and> AudioClosed \<notin> set (w_out w')"
    if "sink_move p w w'" "tornDown w \<and> VideoClosed \<notin> set (w_out w) \<and> AudioClosed \<notin> set (w_out w)" for w w'
    using that
    by (induction rule: sink_move.induct) (auto simp: w_teardown_def)
  show "tornDown w' \<and> VideoClosed \<notin> set (w_out w') \<and> AudioClosed \<notin> set (w_out w')"
    if "host_move p w w'" "tornDown w \<and> VideoClosed \<notin> set (w_out w) \<and> AudioClosed \<notin> set (w_out w)" for w w'
    using that by (induction rule: host_move.induct) (auto dest: sink)
qed

definition early_disconnect :: "wenv \<Rightarrow> SessionConfig \<Rightarrow> (wenv \<times> w_call) list" where
  "early_disconnect e config =
     [(e, W_command (Cmd_connect config)), (e, W_command Cmd_disconnect), (e, W_ready (Inr ())), (e, W_probed)]"

text \<open>
  A disconnect that arrives while \<open>connect\<close> still waits for the crypto library or the
  codec probe is not noticed before the next check of \<open>tornDown\<close>: the worker then creates a
  video and an audio pipeline although it is torn down, and nothing that happens afterwards
  closes them.
\<close>

theorem early_disconnect_leaks_pipelines:
  "let w = fold (worker_step p) (early_disconnect e config) newWorkerHost;
       w' = fold (worker_step p) cs w
   in tornDown w \<and> w_video w \<noteq> None \<and> w_audio w \<noteq> None \<and>
      VideoCreated \<in> set (w_out w) \<and> AudioCreated \<in> set (w_out w) \<and>
      VideoClosed \<notin> set (w_out w') \<and> AudioClosed \<notin> set (w_out w')"
proof -
  let ?w = "fold (worker_step p) (early_disconnect e config) newWorkerHost"
  have w: "tornDown ?w \<and> w_video ?w \<noteq> None \<and> w_audio ?w \<noteq> None \<and>
      VideoCreated \<in> set (w_out ?w) \<and> AudioCreated \<in> set (w_out ?w) \<and>
      VideoClosed \<notin> set (w_out ?w) \<and> AudioClosed \<notin> set (w_out ?w)"
    by (simp add: early_disconnect_def newWorkerHost_def worker_step_def w_step_def w_handle_def
        connect_def command_call_def with_session_def w_teardown_def closed_outs_def onReady_def
        onProbed_def clearConnectTimer_def post_def wout_def Let_def)
  have "worker_reach p ?w" by (intro reach_fold reach_init) simp
  from leaked.I_run [OF worker_pc.inv_reach [OF this], of p cs] w show ?thesis
    unfolding Let_def by blast
qed

section \<open>Witnesses\<close>

text \<open>A run of the worker against the transparent platform: handshake, two UAC notices and a cursor.\<close>

definition demo_cursor :: CursorData where
  "demo_cursor = \<lparr>cd_id = 7, cd_hotx = 0, cd_hoty = 0, cd_width = 1, cd_height = 1, cd_colors = []\<rparr>"

definition worker_platform :: platform where
  "worker_platform = demo_platform
     \<lparr>sod := (sod demo_platform)\<lparr>crypto_secretbox_open_easy := \<lambda>m n k. Inr m\<rparr>,
      wire := (wire demo_platform)\<lparr>decMessage :=
        \<lambda>b. Inr (if b = [3, 3] then M_misc (X_uac True)
                 else if b = [4, 4] then M_cursor_data demo_cursor else M_signed_id b)\<rparr>\<rparr>"

definition worker_env :: "int \<Rightarrow> wenv" where
  "worker_env now =
     \<lparr>en_platform = worker_platform,
      en_media = \<lparr>has_webcodecs = True, probe_supported = \<lambda>s. True, mse_h264 = False\<rparr>,
      en_now = now,
      en_push = \<lparr>pu_webcodecs = True, pu_stateClosed = False, pu_configureThrows = False, pu_now = now,
                 pu_frame = \<lambda>n. undefined\<rparr>,
      en_zstd = \<lambda>d n. Inr d, en_clipboard = \<lambda>c. Inr None, en_audioDecoder = True,
      en_audioThrows = False, en_buffered = 0, en_closedObs = False\<rparr>"

definition demo_key :: key_choice where
  "demo_key = \<lparr>rnd_key = [5, 6], eph_publicKey = [7], eph_privateKey = [8]\<rparr>"

definition connect_calls :: "(wenv \<times> w_call) list" where
  "connect_calls =
     [(worker_env 0, W_command (Cmd_connectFile demo_config)), (worker_env 0, W_ready (Inr ())),
      (worker_env 0, W_idSocket (replicate 8 0) (Inr 1)), (worker_env 0, W_signaling [1]),
      (worker_env 0, W_relaySocket (Inr 2)), (worker_env 0, W_relay demo_key [2])]"

definition demo_worker :: WorkerHost where
  "demo_worker = fold (worker_step worker_platform) connect_calls newWorkerHost"

lemmas worker_demo_defs =
  worker_platform_def worker_env_def demo_key_def connect_calls_def newWorkerHost_def
  worker_step_def w_step_def w_handle_def connect_def command_call_def with_session_def onReady_def
  onIdSocket_def armTimer_def settled_state_def onRelaySocket_def w_relayBytes_def new_actions_def
  sink_def w_emit_def relay_out_def post_def wout_def kickVideo_def reenter_def clearConnectTimer_def
  final_def

definition demo_worker_session :: Session where
  "demo_worker_session =
     \<lparr>pendingDisplay = None, s_config = demo_config, serverEdPk = [9], sessionId = 0, s_state = Handshake,
      cipher = Some \<lparr>sendSeq = 0, recvSeq = 0, cipher_key = [5, 6]\<rparr>, peerEdPk = Some [1], s_uuid = [],
      decoding = baselineDecoding, loginSent = False, pendingVoiceCallTimestamp = None,
      voiceCallAccepted = False, suspended = [],
      trace = [SendSignaling [], Emit (Ev_state Rendezvous None False), Emit (Ev_state RelayState None False),
               OpenRelay [], SendRelay [], Emit (Ev_state Handshake None False), SendRelay []]\<rparr>"

lemma demo_worker_eq:
  "demo_worker = newWorkerHost
     \<lparr>w_session := Some demo_worker_session, w_ws1 := Some 1, w_ws2 := Some 2, connectStarted := True,
      connectTimer := True,
      w_out := [Post (Ev_state Connecting None False), SockSend 1 [], Post (Ev_state Rendezvous None False),
                Post (Ev_state RelayState None False), SockSend 2 [], Post (Ev_state Handshake None False),
                SockSend 2 []]\<rparr>"
  by (simp add: demo_worker_def worker_demo_defs demo_defs Let_def act_def emit_def setState_def
      buildRequestRelay_def buildPunchHoleRequest_def randomSessionId_def newStreamCipher_def
      numeral_eq_Suc
      demo_worker_session_def)

lemma demo_worker_reach: "worker_reach worker_platform (fold (worker_step worker_platform) cs demo_worker)"
  unfolding demo_worker_def by (intro reach_fold reach_init) simp

lemma demo_worker_reach0: "worker_reach worker_platform demo_worker"
  using demo_worker_reach [of "[]"] by simp

definition demo_ended :: WorkerHost where
  "demo_ended = fold (worker_step worker_platform) [(worker_env 0, W_command Cmd_disconnect)] demo_worker"

lemma demo_ended_state: "tornDown demo_ended" "\<exists>s. w_session demo_ended = Some s \<and> final s"
  by (simp_all add: demo_ended_def demo_worker_eq worker_demo_defs demo_worker_session_def
      session_step_def disconnect_def act_def setState_def emit_def w_teardown_def Let_def)

lemma demo_ended_reach: "worker_reach worker_platform demo_ended"
  unfolding demo_ended_def by (rule demo_worker_reach)

theorem torn_down_worker_is_silent_witness:
  "tornDown demo_ended \<and> w_ws2 demo_ended = None \<and>
   sends (w_out (fold (worker_step worker_platform) [(worker_env 0, W_command Cmd_refresh)] demo_ended)) =
     sends (w_out demo_ended)"
  using torn_down_worker_is_silent [OF demo_ended_reach demo_ended_state(1)] demo_ended_state(1) by blast

theorem worker_wire_is_secured_witness:
  "SockSend 2 [] \<in> set (w_out demo_worker) \<and>
   (\<exists>s. w_session demo_worker = Some s \<and>
      (SendSignaling [] \<in> set (trace s) \<or> plaintext_ok worker_platform [] \<or>
       (\<exists>c u n. cipher s = Some c \<and>
          trust_chain worker_platform (serverEdPk s) (peerId (s_config s)) (cipher_key c) \<and>
          n \<in> {1..sendSeq c} \<and>
          [] = crypto_secretbox_easy (sod worker_platform) (encMessage (wire worker_platform) u)
                 (buildNonce n) (cipher_key c))))"
proof -
  have sent: "SockSend 2 [] \<in> set (w_out demo_worker)" by (simp add: demo_worker_eq)
  with worker_wire_is_secured [OF demo_worker_reach0 this] show ?thesis by blast
qed

theorem finished_session_releases_worker_witness:
  "w_ws1 demo_ended = None \<and>
   (\<exists>s'. w_session (fold (worker_step worker_platform) [(worker_env 0, W_relaySocket (Inr 3))] demo_ended) = Some s' \<and> final s')"
proof -
  obtain s where "w_session demo_ended = Some s" "final s" using demo_ended_state(2) by blast
  from finished_session_releases_worker [OF demo_ended_reach this] show ?thesis by blast
qed

definition demo_kicked :: WorkerHost where
  "demo_kicked = fold (worker_step worker_platform)
     [(worker_env 600, W_relay demo_key [3, 3]), (worker_env 700, W_relay demo_key [3, 3]),
      (worker_env 1200, W_relay demo_key [3, 3])] demo_worker"

text \<open>A UAC notice is one call of \<open>kickVideo\<close>; the session stays where it was.\<close>

definition at_handshake :: "WorkerHost \<Rightarrow> bool" where
  "at_handshake w \<longleftrightarrow> (\<exists>s. w_session w = Some s \<and> s_state s = Handshake \<and> cipher s \<noteq> None)"

lemma demo_uac_frame:
  assumes "s_state s = Handshake" "cipher s = Some c"
  shows "openRelayBytes worker_platform [3, 3] s =
      (s\<lparr>cipher := Some (c\<lparr>recvSeq := Suc (recvSeq c)\<rparr>)\<rparr>, Some (M_misc (X_uac True)))"
    and "onRelayBytes worker_platform k [3, 3] s = emit (Ev_uac True) (s\<lparr>cipher := Some (c\<lparr>recvSeq := Suc (recvSeq c)\<rparr>)\<rparr>)"
proof -
  show o: "openRelayBytes worker_platform [3, 3] s =
      (s\<lparr>cipher := Some (c\<lparr>recvSeq := Suc (recvSeq c)\<rparr>)\<rparr>, Some (M_misc (X_uac True)))"
    using assms by (simp add: openRelayBytes_def open_ct_def worker_platform_def)
  have "dispatch p (M_misc (X_uac True)) t = emit (Ev_uac True) t" for p t
    by (simp only: dispatch_def dispatchMisc_def Message.case Misc.case)
  then show "onRelayBytes worker_platform k [3, 3] s = emit (Ev_uac True) (s\<lparr>cipher := Some (c\<lparr>recvSeq := Suc (recvSeq c)\<rparr>)\<rparr>)"
    using assms by (simp add: onRelayBytes_def o)
qed

lemma demo_uac:
  assumes "at_handshake w"
  shows "\<exists>s'. worker_step worker_platform (worker_env now, W_relay demo_key [3, 3]) w =
      post (Ev_uac True) (kickVideo (worker_env now) (w\<lparr>w_session := Some s'\<rparr>))
      \<and> s_state s' = Handshake \<and> cipher s' \<noteq> None"
proof -
  from assms obtain s c where s: "w_session w = Some s" "s_state s = Handshake" "cipher s = Some c"
    by (auto simp: at_handshake_def)
  let ?s = "emit (Ev_uac True) (s\<lparr>cipher := Some (c\<lparr>recvSeq := Suc (recvSeq c)\<rparr>)\<rparr>)"
  have e: "worker_env now\<lparr>en_platform := worker_platform\<rparr> = worker_env now" by (simp add: worker_env_def)
  have p: "en_platform (worker_env now) = worker_platform" by (simp add: worker_env_def)
  have n: "new_actions s ?s = [Emit (Ev_uac True)]" by (simp add: new_actions_def emit_def act_def)
  have "w_relayBytes (worker_env now) demo_key [3, 3] w = with_session (worker_env now) (onRelayBytes worker_platform demo_key [3, 3]) w"
    using s demo_uac_frame(1) [OF s(2,3)] by (simp add: w_relayBytes_def Let_def p final_def)
  also have "\<dots> = sink (worker_env now) (Emit (Ev_uac True)) (w\<lparr>w_session := Some ?s\<rparr>)"
    using s n by (simp add: with_session_def demo_uac_frame(2) [OF s(2,3)])
  also have "\<dots> = post (Ev_uac True) (kickVideo (worker_env now) (w\<lparr>w_session := Some ?s\<rparr>))"
    by (simp only: sink_def w_emit_def action.case SessionEvent.case) simp
  finally have "worker_step worker_platform (worker_env now, W_relay demo_key [3, 3]) w =
      post (Ev_uac True) (kickVideo (worker_env now) (w\<lparr>w_session := Some ?s\<rparr>))"
    by (simp add: worker_step_def w_step_def e)
  moreover have "s_state ?s = Handshake" "cipher ?s \<noteq> None" using s by (simp_all add: emit_def act_def)
  ultimately show ?thesis by blast
qed

lemma at_handshake_kick:
  assumes "w_session w = Some s" "s_state s = Handshake" "cipher s \<noteq> None" "en_platform e = p"
  shows "at_handshake (post ev (kickVideo e w))"
proof -
  have "w_session (fold relay_out as u) = w_session u" for as u
    by (induction as arbitrary: u) (simp_all add: relay_out_def split: action.split option.split)
  then have "w_session (reenter f u) = map_option f (w_session u)" for f u
    by (simp add: reenter_def split: option.split)
  moreover have "s_state (refresh p s) = Handshake \<and> cipher (refresh p s) \<noteq> None"
    using assms(2,3) by (auto simp: refresh_def sealSend_def Let_def case_prod_beta)
  ultimately show ?thesis
    using assms by (simp add: at_handshake_def kickVideo_def post_def)
qed

lemma demo_uac_kicks:
  fixes now :: int and w :: WorkerHost
  assumes "at_handshake w"
  defines "w' \<equiv> worker_step worker_platform (worker_env now, W_relay demo_key [3, 3]) w"
  shows "at_handshake w'"
    and "now - lastKickMs w < 500 \<Longrightarrow> kicks (w_out w') = kicks (w_out w) \<and> lastKickMs w' = lastKickMs w"
    and "500 \<le> now - lastKickMs w \<Longrightarrow> kicks (w_out w') = kicks (w_out w) @ [now] \<and> lastKickMs w' = now"
proof -
  obtain s' where s': "w' = post (Ev_uac True) (kickVideo (worker_env now) (w\<lparr>w_session := Some s'\<rparr>))"
      "s_state s' = Handshake" "cipher s' \<noteq> None"
    using demo_uac [OF assms(1)] unfolding w'_def by blast
  show "at_handshake w'"
    unfolding s'(1) by (rule at_handshake_kick) (use s' in simp_all)
  have n: "en_now (worker_env now) = now" by (simp add: worker_env_def)
  show "kicks (w_out w') = kicks (w_out w) \<and> lastKickMs w' = lastKickMs w" if "now - lastKickMs w < 500"
    using that by (simp add: s'(1) post_def kickVideo_def n)
  show "kicks (w_out w') = kicks (w_out w) @ [now] \<and> lastKickMs w' = now" if "500 \<le> now - lastKickMs w"
    using that by (simp add: s'(1) post_def kickVideo_def n)
qed

lemma demo_kicked_kicks: "kicks (w_out demo_kicked) = [600, 1200]"
proof -
  let ?step = "\<lambda>now. worker_step worker_platform (worker_env now, W_relay demo_key [3, 3])"
  have 0: "at_handshake demo_worker" "kicks (w_out demo_worker) = []" "lastKickMs demo_worker = 0"
    by (simp_all add: at_handshake_def demo_worker_eq demo_worker_session_def newWorkerHost_def)
  note 1 = demo_uac_kicks [OF 0(1), where now = 600]
  note 2 = demo_uac_kicks [OF 1(1), where now = 700]
  note 3 = demo_uac_kicks [OF 2(1), where now = 1200]
  have k1: "kicks (w_out (?step 600 demo_worker)) = [600]" "lastKickMs (?step 600 demo_worker) = 600"
    using 1(3) 0 by auto
  have k2: "kicks (w_out (?step 700 (?step 600 demo_worker))) = [600]"
      "lastKickMs (?step 700 (?step 600 demo_worker)) = 600"
    using 2(2) k1 by auto
  show ?thesis
    using 3(3) k2 by (simp add: demo_kicked_def)
qed

theorem video_restarts_debounced_witness:
  "kicks (w_out demo_kicked) = [600, 1200] \<and> 500 \<le> kicks (w_out demo_kicked) ! 1 - kicks (w_out demo_kicked) ! 0"
  using video_restarts_debounced [of worker_platform demo_kicked 0 1] demo_kicked_kicks
    demo_worker_reach [folded demo_kicked_def] by (simp add: demo_kicked_def)

definition demo_pointer :: WorkerHost where
  "demo_pointer = fold (worker_step worker_platform) [(worker_env 0, W_relay demo_key [4, 4])] demo_worker"

lemma demo_pointer_cursors: "w_cursors demo_pointer = [demo_cursor]"
proof -
  let ?c = "\<lparr>sendSeq = 0, recvSeq = 1, cipher_key = [5, 6]\<rparr>"
  let ?s = "act (OnCursor demo_cursor) (demo_worker_session\<lparr>cipher := Some ?c\<rparr>)"
  have s: "w_session demo_worker = Some demo_worker_session" "w_cursors demo_worker = []"
    by (simp_all add: demo_worker_eq newWorkerHost_def)
  have o: "openRelayBytes worker_platform [4, 4] demo_worker_session =
      (demo_worker_session\<lparr>cipher := Some ?c\<rparr>, Some (M_cursor_data demo_cursor))"
    by (simp add: openRelayBytes_def open_ct_def worker_platform_def demo_worker_session_def)
  have "dispatch p (M_cursor_data demo_cursor) t = act (OnCursor demo_cursor) t" for p t
    by (simp only: dispatch_def Message.case)
  then have r: "onRelayBytes worker_platform k [4, 4] demo_worker_session = ?s" for k
    by (simp add: onRelayBytes_def o) (simp add: demo_worker_session_def)
  have live: "\<not> final demo_worker_session" "cipher demo_worker_session \<noteq> None"
    by (simp_all add: final_def demo_worker_session_def)
  have "new_actions demo_worker_session ?s = [OnCursor demo_cursor]" by (simp add: new_actions_def act_def)
  then have w: "with_session (worker_env 0) (onRelayBytes worker_platform k [4, 4]) demo_worker =
      sink (worker_env 0) (OnCursor demo_cursor) (demo_worker\<lparr>w_session := Some ?s\<rparr>)" for k
    by (simp add: with_session_def s r)
  have e: "worker_env now\<lparr>en_platform := worker_platform\<rparr> = worker_env now"
    "en_platform (worker_env now) = worker_platform" for now by (simp_all add: worker_env_def)
  have d: "demo_pointer = sink (worker_env 0) (OnCursor demo_cursor) (demo_worker\<lparr>w_session := Some ?s\<rparr>)"
    by (simp add: demo_pointer_def worker_step_def w_step_def w_relayBytes_def Let_def s o live e w)
  show ?thesis unfolding d using s(2) by (simp only: sink_def action.case) simp
qed

theorem cursor_id_replays_rendering_witness:
  "let en = \<lparr>ce_pngDataUrl = js ''png'', ce_hotx = 1, ce_hoty = 2\<rparr>;
       w' = onCursorRendered 0 (Inr en) demo_pointer
   in postCursorId 7 w' = post (Ev_cursor (js ''png'') 1 2) w'"
  using cursor_id_replays_rendering [of worker_platform demo_pointer 0 "\<lparr>ce_pngDataUrl = js ''png'', ce_hotx = 1, ce_hoty = 2\<rparr>"]
    demo_worker_reach [of "[(worker_env 0, W_relay demo_key [4, 4])]"] demo_pointer_cursors
  by (simp add: demo_pointer_def demo_cursor_def Let_def del: fold.simps)

end
