(* ===== verification/Input.thy ===== *)
theory Input
  imports Contracts Proto Prelude
begin

text \<open>
  \<open>webclient/src/input/mouse-keyboard.ts\<close>: pointer, wheel and keyboard events of the viewport
  become mouse and key commands. Screen coordinates are rationals. The listeners of
  \<open>attachInput\<close> are functions on the gesture state, which return the commands they post in
  order; the clock, the viewport's rectangle and the current display are arguments.
\<close>

unbundle bit_operations_syntax

section \<open>Masks\<close>

datatype MouseType = MT_MOVE | MT_DOWN | MT_UP | MT_WHEEL | MT_TRACKPAD | MT_MOVE_RELATIVE

fun mouse_type :: "MouseType \<Rightarrow> int" where
  "mouse_type MT_MOVE = 0" | "mouse_type MT_DOWN = 1" | "mouse_type MT_UP = 2"
| "mouse_type MT_WHEEL = 3" | "mouse_type MT_TRACKPAD = 4" | "mouse_type MT_MOVE_RELATIVE = 5"

definition MouseButton_LEFT :: int where "MouseButton_LEFT = 0x01"
definition MouseButton_RIGHT :: int where "MouseButton_RIGHT = 0x02"
definition MouseButton_MIDDLE :: int where "MouseButton_MIDDLE = 0x04"
definition MouseButton_BACK :: int where "MouseButton_BACK = 0x08"
definition MouseButton_FORWARD :: int where "MouseButton_FORWARD = 0x10"

definition buttonMask :: "MouseType \<Rightarrow> int \<Rightarrow> int" where
  "buttonMask ty buttons = push_bit 3 buttons OR mouse_type ty"

definition domButtonToMask :: "int \<Rightarrow> int" where
  "domButtonToMask b =
     (if b = 0 then MouseButton_LEFT else if b = 1 then MouseButton_MIDDLE
      else if b = 2 then MouseButton_RIGHT else if b = 3 then MouseButton_BACK
      else if b = 4 then MouseButton_FORWARD else 0)"

definition wheelDelta :: "rat \<Rightarrow> int" where
  "wheelDelta d = (if 0 < d then - 1 else if d < 0 then 1 else 0)"

section \<open>Coordinates\<close>

record DisplayRect =
  dr_x :: rat
  dr_y :: rat
  dr_width :: rat
  dr_height :: rat

record DOMRect =
  rc_left :: rat
  rc_top :: rat
  rc_width :: rat
  rc_height :: rat

definition clamp01 :: "rat \<Rightarrow> rat" where
  "clamp01 v = (if v < 0 then 0 else if 1 < v then 1 else v)"

definition mapCoords :: "rat \<Rightarrow> rat \<Rightarrow> DOMRect \<Rightarrow> DisplayRect \<Rightarrow> int \<times> int" where
  "mapCoords clientX clientY r d =
     (if dr_width d \<le> 0 \<or> dr_height d \<le> 0 \<or> rc_width r \<le> 0 \<or> rc_height r \<le> 0
      then (js_round (dr_x d), js_round (dr_y d))
      else let dispAspect = dr_width d / dr_height d;
               elAspect = rc_width r / rc_height r;
               contentW = (if dispAspect < elAspect then rc_height r * dispAspect else rc_width r);
               contentH = (if dispAspect < elAspect then rc_height r else rc_width r / dispAspect);
               offX = (rc_width r - contentW) / 2;
               offY = (rc_height r - contentH) / 2;
               fx = clamp01 ((clientX - rc_left r - offX) / contentW);
               fy = clamp01 ((clientY - rc_top r - offY) / contentH)
           in (js_round (dr_x d + fx * dr_width d), js_round (dr_y d + fy * dr_height d)))"

section \<open>Keys\<close>

text \<open>The members of the enumeration \<open>ControlKey\<close> the tables use.\<close>

definition NAMED_KEYS :: "(jsstr \<times> int) list" where
  "NAMED_KEYS =
     [(js ''Enter'', 27), (js ''Backspace'', 2), (js ''Tab'', 31), (js ''Escape'', 8), (js ''Delete'', 5),
      (js ''Insert'', 58), (js ''Home'', 21), (js ''End'', 7), (js ''PageUp'', 26), (js ''PageDown'', 25),
      (js ''ArrowUp'', 32), (js ''ArrowDown'', 6), (js ''ArrowLeft'', 22), (js ''ArrowRight'', 28),
      (js '' '', 30), (js ''Shift'', 29), (js ''Control'', 4), (js ''Alt'', 1), (js ''Meta'', 23),
      (js ''AltGraph'', 75), (js ''CapsLock'', 3), (js ''NumLock'', 63), (js ''ScrollLock'', 62),
      (js ''Pause'', 46), (js ''PrintScreen'', 57), (js ''ContextMenu'', 65), (js ''Help'', 59),
      (js ''Clear'', 44), (js ''Select'', 54), (js ''Execute'', 56), (js ''Print'', 55), (js ''Cancel'', 43),
      (js ''Convert'', 53), (js ''F1'', 9), (js ''F2'', 13), (js ''F3'', 14), (js ''F4'', 15), (js ''F5'', 16),
      (js ''F6'', 17), (js ''F7'', 18), (js ''F8'', 19), (js ''F9'', 20), (js ''F10'', 10), (js ''F11'', 11),
      (js ''F12'', 12)]"

definition RIGHT_VARIANTS :: "(jsstr \<times> int) list" where
  "RIGHT_VARIANTS = [(js ''Shift'', 73), (js ''Control'', 74), (js ''Alt'', 75), (js ''Meta'', 64)]"

definition NUMPAD_KEYS :: "(jsstr \<times> int) list" where
  "NUMPAD_KEYS =
     [(js ''0'', 33), (js ''1'', 34), (js ''2'', 35), (js ''3'', 36), (js ''4'', 37), (js ''5'', 38),
      (js ''6'', 39), (js ''7'', 40), (js ''8'', 41), (js ''9'', 42), (js ''+'', 67), (js ''-'', 68),
      (js ''*'', 66), (js ''/'', 70), (js ''.'', 69), (js ''='', 71), (js ''Enter'', 72)]"

text \<open>\<open>Array.from\<close> on a string and \<open>codePointAt(0)\<close> of each part: unpaired surrogates stay as they are.\<close>

fun string_points :: "jsstr \<Rightarrow> nat list" where
  "string_points [] = []"
| "string_points [u] = [unat u]"
| "string_points (u # v # s) =
     (if 0xD800 \<le> u \<and> u \<le> 0xDBFF \<and> 0xDC00 \<le> v \<and> v \<le> 0xDFFF
      then (0x10000 + (unat u - 0xD800) * 0x400 + (unat v - 0xDC00)) # string_points s
      else unat u # string_points (v # s))"

record modifiers =
  ctrlKey :: bool
  shiftKey :: bool
  altKey :: bool
  metaKey :: bool

definition LOCATION_RIGHT :: int where "LOCATION_RIGHT = 2"
definition LOCATION_NUMPAD :: int where "LOCATION_NUMPAD = 3"

definition legacyKeyCommand :: "jsstr \<Rightarrow> int \<Rightarrow> (KeyKind \<times> int) option" where
  "legacyKeyCommand key location =
     (case (if location = LOCATION_NUMPAD then map_of NUMPAD_KEYS key else None) of
        Some np \<Rightarrow> Some (KK_control, np)
      | None \<Rightarrow>
         (case (if location = LOCATION_RIGHT then map_of RIGHT_VARIANTS key else None) of
            Some rk \<Rightarrow> Some (KK_control, rk)
          | None \<Rightarrow>
             (case map_of NAMED_KEYS key of
                Some named \<Rightarrow> Some (KK_control, named)
              | None \<Rightarrow>
                 (case string_points key of
                    [cp] \<Rightarrow> Some (if cp \<le> 0x7F then KK_chr else KK_unicode, int cp)
                  | _ \<Rightarrow> None))))"

definition modifierList :: "modifiers \<Rightarrow> int list" where
  "modifierList m =
     (if ctrlKey m then [4] else []) @ (if shiftKey m then [29] else [])
     @ (if altKey m then [1] else []) @ (if metaKey m then [23] else [])"

section \<open>Gestures\<close>

definition TOUCH_TAP_MS :: int where "TOUCH_TAP_MS = 500"
definition TOUCH_SLOP_PX :: rat where "TOUCH_SLOP_PX = 12"
definition TOUCH_LONGPRESS_MS :: int where "TOUCH_LONGPRESS_MS = 600"

record touch =
  tc_id :: int
  startX :: rat
  startY :: rat
  lastX :: rat
  lastY :: rat
  tc_moved :: bool
  downAt :: int

text \<open>The variable \<open>touch\<close> of \<open>attachInput\<close> and whether its long-press timer is pending.\<close>

record input_state =
  in_touch :: "touch option"
  in_timer :: bool

record pointer_event =
  pt_touch :: bool
  pt_id :: int
  pt_x :: rat
  pt_y :: rat
  pt_button :: int
  pt_mods :: modifiers

record view =
  vw_rect :: DOMRect
  vw_display :: DisplayRect
  vw_touchMode :: bool
  vw_now :: int

definition touchActive :: "view \<Rightarrow> pointer_event \<Rightarrow> bool" where
  "touchActive v e = (pt_touch e \<and> vw_touchMode v)"

definition sendAt :: "view \<Rightarrow> rat \<Rightarrow> rat \<Rightarrow> int \<Rightarrow> UiCommand" where
  "sendAt v x y m =
     (case mapCoords x y (vw_rect v) (vw_display v) of (mx, my) \<Rightarrow> Cmd_mouse m mx my [])"

definition posted :: "view \<Rightarrow> pointer_event \<Rightarrow> int \<Rightarrow> UiCommand" where
  "posted v e m =
     (case mapCoords (pt_x e) (pt_y e) (vw_rect v) (vw_display v) of
        (mx, my) \<Rightarrow> Cmd_mouse m mx my (modifierList (pt_mods e)))"

definition onPointerMove :: "view \<Rightarrow> pointer_event \<Rightarrow> input_state \<Rightarrow> input_state \<times> UiCommand list" where
  "onPointerMove v e s =
     (if touchActive v e
      then case in_touch s of
             None \<Rightarrow> (s, [])
           | Some t \<Rightarrow>
               if pt_id e \<noteq> tc_id t then (s, [])
               else let dx = pt_x e - startX t; dy = pt_y e - startY t;
                        starts = (\<not> tc_moved t \<and> TOUCH_SLOP_PX * TOUCH_SLOP_PX < dx * dx + dy * dy);
                        t' = t\<lparr>tc_moved := tc_moved t \<or> starts, lastX := pt_x e, lastY := pt_y e\<rparr>
                    in (s\<lparr>in_touch := Some t', in_timer := in_timer s \<and> \<not> starts\<rparr>,
                        [sendAt v (pt_x e) (pt_y e) (buttonMask MT_MOVE 0)])
      else (s, [posted v e (buttonMask MT_MOVE 0)]))"

definition onPointerDown :: "view \<Rightarrow> pointer_event \<Rightarrow> input_state \<Rightarrow> input_state \<times> UiCommand list" where
  "onPointerDown v e s =
     (if touchActive v e
      then if in_touch s \<noteq> None then (s, [])
           else (s\<lparr>in_touch := Some \<lparr>tc_id = pt_id e, startX = pt_x e, startY = pt_y e, lastX = pt_x e,
                     lastY = pt_y e, tc_moved = False, downAt = vw_now v\<rparr>, in_timer := True\<rparr>, [])
      else (s, [posted v e (buttonMask MT_DOWN (domButtonToMask (pt_button e)))]))"

text \<open>The long-press timer.\<close>

definition onLongPress :: "view \<Rightarrow> input_state \<Rightarrow> input_state \<times> UiCommand list" where
  "onLongPress v s =
     (if \<not> in_timer s then (s, [])
      else case in_touch s of
             None \<Rightarrow> (s\<lparr>in_timer := False\<rparr>, [])
           | Some t \<Rightarrow>
               if tc_moved t then (s\<lparr>in_timer := False\<rparr>, [])
               else (s\<lparr>in_touch := None, in_timer := False\<rparr>,
                     [sendAt v (lastX t) (lastY t) (buttonMask MT_MOVE 0),
                      sendAt v (lastX t) (lastY t) (buttonMask MT_DOWN MouseButton_RIGHT),
                      sendAt v (lastX t) (lastY t) (buttonMask MT_UP MouseButton_RIGHT)]))"

definition onPointerUp :: "view \<Rightarrow> pointer_event \<Rightarrow> input_state \<Rightarrow> input_state \<times> UiCommand list" where
  "onPointerUp v e s =
     (let other = (if touchActive v e then (s, [])
                   else (s, [posted v e (buttonMask MT_UP (domButtonToMask (pt_button e)))]))
      in case in_touch s of
           Some t \<Rightarrow>
             if pt_touch e \<and> pt_id e = tc_id t
             then (s\<lparr>in_touch := None, in_timer := False\<rparr>,
                   if \<not> tc_moved t \<and> vw_now v - downAt t < TOUCH_TAP_MS
                   then [sendAt v (startX t) (startY t) (buttonMask MT_MOVE 0),
                         sendAt v (startX t) (startY t) (buttonMask MT_DOWN MouseButton_LEFT),
                         sendAt v (startX t) (startY t) (buttonMask MT_UP MouseButton_LEFT)]
                   else [])
             else other
         | None \<Rightarrow> other)"

definition onWheel :: "rat \<Rightarrow> rat \<Rightarrow> modifiers \<Rightarrow> UiCommand list" where
  "onWheel deltaX deltaY m =
     (let dx = wheelDelta deltaX; dy = wheelDelta deltaY
      in if dx = 0 \<and> dy = 0 then [] else [Cmd_mouse (buttonMask MT_WHEEL 0) dx dy (modifierList m)])"

definition onKey :: "bool \<Rightarrow> jsstr \<Rightarrow> int \<Rightarrow> modifiers \<Rightarrow> UiCommand list" where
  "onKey down key location m =
     (case legacyKeyCommand key location of
        None \<Rightarrow> []
      | Some (kind, value) \<Rightarrow> [Cmd_key down False kind value (modifierList m)])"

datatype input_event =
    IE_move pointer_event
  | IE_down pointer_event
  | IE_up pointer_event
  | IE_timer
  | IE_wheel rat rat modifiers
  | IE_key bool jsstr int modifiers

definition input_step :: "view \<times> input_event \<Rightarrow> input_state \<Rightarrow> input_state \<times> UiCommand list" where
  "input_step = (\<lambda>(v, ev) s.
     case ev of
       IE_move e \<Rightarrow> onPointerMove v e s
     | IE_down e \<Rightarrow> onPointerDown v e s
     | IE_up e \<Rightarrow> onPointerUp v e s
     | IE_timer \<Rightarrow> onLongPress v s
     | IE_wheel dx dy m \<Rightarrow> (s, onWheel dx dy m)
     | IE_key d k l m \<Rightarrow> (s, onKey d k l m))"

fun input_run :: "(view \<times> input_event) list \<Rightarrow> input_state \<Rightarrow> input_state \<times> UiCommand list" where
  "input_run [] s = (s, [])"
| "input_run (c # cs) s =
     (case input_step c s of (s1, out) \<Rightarrow> (case input_run cs s1 of (s2, outs) \<Rightarrow> (s2, out @ outs)))"

definition no_touch :: input_state where
  "no_touch = \<lparr>in_touch = None, in_timer = False\<rparr>"

section \<open>Clicks land where the picture shows\<close>

text \<open>
  The picture as the browser renders it with \<open>object-fit: contain\<close>: scaled by the largest factor
  that fits and centred. \<open>shown_at\<close> is where a point of the remote display appears.
\<close>

definition fit_scale :: "DOMRect \<Rightarrow> DisplayRect \<Rightarrow> rat" where
  "fit_scale r d = min (rc_width r / dr_width d) (rc_height r / dr_height d)"

definition shown_at :: "DOMRect \<Rightarrow> DisplayRect \<Rightarrow> rat \<Rightarrow> rat \<Rightarrow> rat \<times> rat" where
  "shown_at r d px py =
     (rc_left r + (rc_width r - dr_width d * fit_scale r d) / 2 + (px - dr_x d) * fit_scale r d,
      rc_top r + (rc_height r - dr_height d * fit_scale r d) / 2 + (py - dr_y d) * fit_scale r d)"

lemma content_size:
  assumes "0 < dr_width d" "0 < dr_height d" "0 < rc_width r" "0 < rc_height r"
  shows "(if dr_width d / dr_height d < rc_width r / rc_height r
          then rc_height r * (dr_width d / dr_height d) else rc_width r) = dr_width d * fit_scale r d"
    and "(if dr_width d / dr_height d < rc_width r / rc_height r
          then rc_height r else rc_width r / (dr_width d / dr_height d)) = dr_height d * fit_scale r d"
    and "0 < fit_scale r d"
proof -
  have cmp: "dr_width d / dr_height d < rc_width r / rc_height r \<longleftrightarrow>
      rc_height r / dr_height d < rc_width r / dr_width d"
    using assms by (simp add: field_simps)
  show "(if dr_width d / dr_height d < rc_width r / rc_height r
          then rc_height r * (dr_width d / dr_height d) else rc_width r) = dr_width d * fit_scale r d"
    and "(if dr_width d / dr_height d < rc_width r / rc_height r
          then rc_height r else rc_width r / (dr_width d / dr_height d)) = dr_height d * fit_scale r d"
    using assms by (simp_all add: cmp fit_scale_def min_def not_less)
  show "0 < fit_scale r d" using assms by (simp add: fit_scale_def)
qed

lemma mapCoords_content:
  assumes "0 < dr_width d" "0 < dr_height d" "0 < rc_width r" "0 < rc_height r"
  shows "mapCoords x y r d =
    (js_round (dr_x d + clamp01 ((x - rc_left r - (rc_width r - dr_width d * fit_scale r d) / 2)
       / (dr_width d * fit_scale r d)) * dr_width d),
     js_round (dr_y d + clamp01 ((y - rc_top r - (rc_height r - dr_height d * fit_scale r d) / 2)
       / (dr_height d * fit_scale r d)) * dr_height d))"
  unfolding mapCoords_def Let_def content_size(1,2) [OF assms] using assms by simp

lemma clamp01_id: "0 \<le> v \<Longrightarrow> v \<le> 1 \<Longrightarrow> clamp01 v = v"
  by (simp add: clamp01_def)

text \<open>
  C36. A click lands where the picture shows: for every point of the remote display, the pixel at
  which the letterboxed picture shows it is mapped back to that point, rounded to the
  nearest integer, whatever the sizes and positions of the viewport and the display.
\<close>

theorem click_lands_where_shown:
  assumes "0 < dr_width d" "0 < dr_height d" "0 < rc_width r" "0 < rc_height r"
    and "dr_x d \<le> px" "px \<le> dr_x d + dr_width d" "dr_y d \<le> py" "py \<le> dr_y d + dr_height d"
    and "shown_at r d px py = (x, y)"
  shows "mapCoords x y r d = (js_round px, js_round py)"
proof -
  have s: "0 < fit_scale r d" by (rule content_size(3) [OF assms(1-4)])
  have "(x - rc_left r - (rc_width r - dr_width d * fit_scale r d) / 2) / (dr_width d * fit_scale r d)
      = (px - dr_x d) / dr_width d"
    "(y - rc_top r - (rc_height r - dr_height d * fit_scale r d) / 2) / (dr_height d * fit_scale r d)
      = (py - dr_y d) / dr_height d"
    using assms(9) s by (auto simp: shown_at_def)
  moreover have "clamp01 ((px - dr_x d) / dr_width d) = (px - dr_x d) / dr_width d"
    "clamp01 ((py - dr_y d) / dr_height d) = (py - dr_y d) / dr_height d"
    using assms(1,2,5-8) by (intro clamp01_id; simp add: field_simps)+
  ultimately show ?thesis
    using assms(1,2) by (simp add: mapCoords_content [OF assms(1-4)])
qed

theorem click_lands_where_shown_witness:
  "mapCoords 500 400 \<lparr>rc_left = 0, rc_top = 0, rc_width = 1000, rc_height = 800\<rparr>
     \<lparr>dr_x = 1920, dr_y = 0, dr_width = 1920, dr_height = 1080\<rparr> = (js_round 2880, js_round 540)"
  by (rule click_lands_where_shown) (simp_all add: shown_at_def fit_scale_def min_def)

section \<open>Touch gestures\<close>

text \<open>
  Mouse commands in which every button press is followed at once by its release at the same
  point: a press has type 1 in the low bits of its mask, the release of the same buttons the
  next mask.
\<close>

fun mouse_of :: "UiCommand \<Rightarrow> (int \<times> int \<times> int) list" where
  "mouse_of (Cmd_mouse m x y _) = [(m, x, y)]"
| "mouse_of _ = []"

fun paired :: "(int \<times> int \<times> int) list \<Rightarrow> bool" where
  "paired [] = True"
| "paired [(m, q)] = (m mod 8 \<noteq> 1 \<and> m mod 8 \<noteq> 2)"
| "paired ((m, q) # (m', q') # cs) =
     (if m mod 8 = 1 then m' = m + 1 \<and> q' = q \<and> paired cs
      else m mod 8 \<noteq> 2 \<and> paired ((m', q') # cs))"

definition complete_clicks :: "UiCommand list \<Rightarrow> bool" where
  "complete_clicks cs = paired (concat (map mouse_of cs))"

lemma paired_append: "paired xs \<Longrightarrow> paired ys \<Longrightarrow> paired (xs @ ys)"
proof (induction xs rule: paired.induct)
  case (2 m q)
  then show ?case by (cases ys) auto
qed (auto split: if_splits)

lemma complete_clicks_append: "complete_clicks xs \<Longrightarrow> complete_clicks ys \<Longrightarrow> complete_clicks (xs @ ys)"
  by (simp add: complete_clicks_def paired_append)

lemma masks [simp]:
  "buttonMask MT_MOVE 0 = 0" "buttonMask MT_WHEEL 0 = 3"
  "buttonMask MT_DOWN MouseButton_LEFT = 9" "buttonMask MT_UP MouseButton_LEFT = 10"
  "buttonMask MT_DOWN MouseButton_RIGHT = 17" "buttonMask MT_UP MouseButton_RIGHT = 18"
  by (simp_all add: buttonMask_def MouseButton_LEFT_def MouseButton_RIGHT_def)

text \<open>Events of a phone: every pointer is a finger, and the viewport is in touch mode.\<close>

definition by_touch :: "view \<times> input_event \<Rightarrow> bool" where
  "by_touch = (\<lambda>(v, ev). vw_touchMode v \<and>
     (case ev of IE_move e \<Rightarrow> pt_touch e | IE_down e \<Rightarrow> pt_touch e | IE_up e \<Rightarrow> pt_touch e | _ \<Rightarrow> True))"

lemma touch_step_complete:
  assumes "by_touch c"
  shows "complete_clicks (snd (input_step c s))"
  using assms
  by (cases c; cases "snd c")
    (auto simp: by_touch_def input_step_def touchActive_def onPointerMove_def onPointerDown_def
      onPointerUp_def onLongPress_def onWheel_def onKey_def sendAt_def Let_def case_prod_beta
      complete_clicks_def split: option.split)

text \<open>
  In touch mode no finger ever holds a remote button: whatever sequence of touches, moves,
  lifts, long-press timers, wheel and key events occurs, every press the client sends is
  followed, as the next mouse command, by the release of the same button at the same point.
\<close>

theorem touch_never_holds_a_button:
  assumes "\<forall>c \<in> set cs. by_touch c"
  shows "complete_clicks (snd (input_run cs s))"
  using assms
proof (induction cs arbitrary: s)
  case (Cons c cs)
  have "complete_clicks (snd (input_step c s))" using Cons.prems by (intro touch_step_complete) simp
  with Cons show ?case by (simp add: case_prod_beta complete_clicks_append)
qed (simp add: complete_clicks_def)

definition demo_view :: "int \<Rightarrow> view" where
  "demo_view now =
     \<lparr>vw_rect = \<lparr>rc_left = 0, rc_top = 0, rc_width = 100, rc_height = 100\<rparr>,
      vw_display = \<lparr>dr_x = 0, dr_y = 0, dr_width = 100, dr_height = 100\<rparr>, vw_touchMode = True, vw_now = now\<rparr>"

definition finger :: "int \<Rightarrow> rat \<Rightarrow> pointer_event" where
  "finger i x =
     \<lparr>pt_touch = True, pt_id = i, pt_x = x, pt_y = 0, pt_button = 0,
      pt_mods = \<lparr>ctrlKey = False, shiftKey = False, altKey = False, metaKey = False\<rparr>\<rparr>"

theorem touch_never_holds_a_button_witness:
  "complete_clicks (snd (input_run
     [(demo_view 0, IE_down (finger 1 10)), (demo_view 100, IE_up (finger 1 10))] no_touch))"
  by (rule touch_never_holds_a_button) (simp add: by_touch_def demo_view_def finger_def)

text \<open>A gesture that has moved, seen by events of other fingers and the timer.\<close>

definition held :: "int \<Rightarrow> input_state \<Rightarrow> bool" where
  "held i s \<longleftrightarrow> (\<exists>t. in_touch s = Some t \<and> tc_id t = i \<and> tc_moved t)"

definition other_finger :: "int \<Rightarrow> view \<times> input_event \<Rightarrow> bool" where
  "other_finger i = (\<lambda>(v, ev). vw_touchMode v \<and>
     (case ev of
        IE_move e \<Rightarrow> pt_touch e \<and> pt_id e \<noteq> i | IE_down e \<Rightarrow> pt_touch e \<and> pt_id e \<noteq> i
      | IE_up e \<Rightarrow> pt_touch e \<and> pt_id e \<noteq> i | IE_timer \<Rightarrow> True | _ \<Rightarrow> False))"

lemma held_step:
  assumes "held i s" "other_finger i c"
  shows "held i (fst (input_step c s)) \<and> snd (input_step c s) = []"
  using assms
  by (cases c; cases "snd c")
    (auto simp: other_finger_def held_def input_step_def touchActive_def onPointerMove_def
      onPointerDown_def onPointerUp_def onLongPress_def Let_def)

text \<open>
  There is no listener for a cancelled pointer: a gesture whose finger has moved and whose lift
  never arrives (the browser took the touch over) is kept for ever. From then on nothing
  any other finger does in touch mode reaches the remote side.
\<close>

theorem cancelled_touch_blocks_gestures:
  assumes "held i s" "\<forall>c \<in> set cs. other_finger i c"
  shows "held i (fst (input_run cs s)) \<and> snd (input_run cs s) = []"
  using assms
proof (induction cs arbitrary: s)
  case (Cons c cs)
  have "held i (fst (input_step c s)) \<and> snd (input_step c s) = []"
    using Cons.prems by (intro held_step) auto
  with Cons show ?case by (simp add: case_prod_beta)
qed simp

theorem cancelled_touch_blocks_gestures_witness:
  "let s = fst (input_run [(demo_view 0, IE_down (finger 1 0)), (demo_view 9, IE_move (finger 1 50))] no_touch)
   in snd (input_run [(demo_view 5000, IE_down (finger 2 20)), (demo_view 5100, IE_up (finger 2 20))] s) = []"
proof -
  let ?s = "fst (input_run [(demo_view 0, IE_down (finger 1 0)), (demo_view 9, IE_move (finger 1 50))] no_touch)"
  have "held 1 ?s"
    by (simp add: held_def input_step_def onPointerDown_def onPointerMove_def touchActive_def demo_view_def
        finger_def no_touch_def TOUCH_SLOP_PX_def Let_def)
  from cancelled_touch_blocks_gestures [OF this, of "[(demo_view 5000, IE_down (finger 2 20)), (demo_view 5100, IE_up (finger 2 20))]"]
  show ?thesis unfolding Let_def by (simp add: other_finger_def demo_view_def finger_def)
qed

end
