(* ===== verification/File_Jobs.thy ===== *)
theory File_Jobs
  imports File_Transfer Contracts
begin

text \<open>
  The transfers of \<open>webclient/src/ui/file-panel.ts\<close>: a \<open>Job\<close>, the coroutine \<open>uploadFiles\<close> that sends
  files block by block, and the promise chain that writes received blocks to disk.

  Both coroutines are cut at their awaits. \<open>upload_pc\<close> is what \<open>uploadFiles\<close> waits for; the
  waiters a job stores (\<open>confirmWaiter\<close>, \<open>sentWaiter\<close>) exist exactly while it waits for them, so
  resolving one is a change of the program counter, and a second resolution has no effect.
  \<open>chain_pc\<close> is what the running task of \<open>writeChain\<close> waits for, \<open>j_chain\<close> the tasks behind it.
  What a job does to the outside is a list of effects: commands posted to the worker, files
  created and committed in the local folder, and blobs saved to the Downloads folder.
  Whether a browser operation succeeds is an argument. Log lines and toasts are
  not modelled.
\<close>

section \<open>Jobs\<close>

definition UPLOAD_BACKLOG_LIMIT :: int where "UPLOAD_BACKLOG_LIMIT = 8 * 1024 * 1024"

datatype job_kind = JK_download | JK_upload

datatype job_status = JS_starting | JS_running | JS_done | JS_error | JS_cancelled

datatype ConflictAction = CA_overwrite | CA_skip | CA_cancel

record UploadFile =
  uf_rel :: jsstr
  uf_data :: bytes
  uf_lastModified :: int

definition uf_size :: "UploadFile \<Rightarrow> int" where
  "uf_size f = int (length (uf_data f))"

datatype confirmation = CF_cancelled | CF_go bool int

datatype upload_pc =
    UP_none
  | UP_confirm nat "confirmation option"
  | UP_read nat int int
  | UP_sent nat int int "int option"
  | UP_pause nat int

text \<open>A \<open>FileSystemWritableFileStream\<close>: the target, what was written, and whether a write failed.\<close>

record wstream =
  st_path :: "jsstr list"
  st_data :: bytes
  st_errored :: bool

datatype chain_task = CT_block int bytes | CT_done

datatype chain_pc =
    CP_idle
  | CP_switch "wstream option" int bytes
  | CP_create "jsstr list" bytes
  | CP_eof "wstream option"
  | CP_write bytes
  | CP_done "wstream option"

record Job =
  j_id :: int
  j_kind :: job_kind
  j_label :: jsstr
  j_status :: job_status
  j_error :: "jsstr option"
  j_totalSize :: int
  j_doneBytes :: int
  j_fileCount :: int
  j_currentFile :: jsstr
  j_policy :: "ConflictAction option"
  j_startMs :: int
  j_lastBytes :: int
  j_lastSampleMs :: int
  j_speedBps :: rat
  j_remoteFiles :: "FtEntry list option"
  j_destDir :: bool
  j_curFileNum :: int
  j_writable :: "wstream option"
  j_memBuf :: "bytes list"
  j_chain :: "chain_task list"
  j_cpc :: chain_pc
  j_files :: "UploadFile list"
  j_upc :: upload_pc
  j_peerDone :: bool

datatype effect =
    E_post UiCommand
  | E_touch "jsstr list"
  | E_commit "jsstr list" bytes
  | E_save jsstr bytes

text \<open>\<open>xs?.[i]\<close>: nothing outside the bounds.\<close>

definition at_int :: "'a list \<Rightarrow> int \<Rightarrow> 'a option" where
  "at_int xs i = (if 0 \<le> i \<and> i < int (length xs) then Some (xs ! nat i) else None)"

definition jobStopped :: "bool \<Rightarrow> Job \<Rightarrow> bool" where
  "jobStopped streaming job =
     (j_status job = JS_cancelled \<or> j_status job = JS_error \<or> \<not> streaming)"

definition uploadFileName :: "Job \<Rightarrow> int \<Rightarrow> jsstr" where
  "uploadFileName job n = (case at_int (j_files job) n of Some f \<Rightarrow> uf_rel f | None \<Rightarrow> j_label job)"

definition remoteName :: "Job \<Rightarrow> int \<Rightarrow> jsstr" where
  "remoteName job n =
     (case j_remoteFiles job of
        None \<Rightarrow> j_label job
      | Some fs \<Rightarrow> (case at_int fs n of None \<Rightarrow> j_label job | Some e \<Rightarrow> ft_name e))"

section \<open>Upload\<close>

text \<open>\<open>Blob.slice\<close>: negative positions count from the end, positions past the end are cut.\<close>

definition blob_slice :: "bytes \<Rightarrow> int \<Rightarrow> int \<Rightarrow> bytes" where
  "blob_slice d a b =
     (let n = int (length d);
          ra = (if a < 0 then max (n + a) 0 else min a n);
          rb = (if b < 0 then max (n + b) 0 else min b n)
      in take (nat (rb - ra)) (drop (nat ra) d))"

text \<open>The start of an iteration of the loop over the files, and what follows the loop.\<close>

definition uploadIter :: "bool \<Rightarrow> nat \<Rightarrow> Job \<Rightarrow> Job \<times> effect list" where
  "uploadIter streaming i job =
     (if jobStopped streaming job then (job\<lparr>j_upc := UP_none\<rparr>, [])
      else if i < length (j_files job)
      then let f = j_files job ! i
           in (job\<lparr>j_currentFile := uf_rel f, j_upc := UP_confirm i None\<rparr>,
               [E_post (Cmd_ftDigest (j_id job) (int i) (uf_size f) (uf_lastModified f div 1000))])
      else (job\<lparr>j_upc := UP_none\<rparr>, [E_post (Cmd_ftDone (j_id job) (int (length (j_files job))))]))"

text \<open>The head of the loop over the blocks of file \<open>i\<close>; after it the end-of-file marker.\<close>

definition uploadBlocks :: "bool \<Rightarrow> nat \<Rightarrow> int \<Rightarrow> Job \<Rightarrow> Job \<times> effect list" where
  "uploadBlocks streaming i offset job =
     (let size = uf_size (j_files job ! i) in
      if offset < size
      then if jobStopped streaming job then (job\<lparr>j_upc := UP_none\<rparr>, [])
           else (job\<lparr>j_upc := UP_read i offset (min (offset + FT_BLOCK_SIZE) size)\<rparr>, [])
      else case uploadIter streaming (Suc i) job of
             (job', effs) \<Rightarrow> (job', E_post (Cmd_ftBlock (j_id job) (int i) [] 0) # effs))"

text \<open>\<open>job.confirmWaiter?.(r)\<close> and \<open>job.sentWaiter?.(buffered)\<close>.\<close>

definition resolveConfirm :: "confirmation \<Rightarrow> Job \<Rightarrow> Job" where
  "resolveConfirm r job =
     (case j_upc job of UP_confirm i None \<Rightarrow> job\<lparr>j_upc := UP_confirm i (Some r)\<rparr> | _ \<Rightarrow> job)"

definition resolveSent :: "int \<Rightarrow> Job \<Rightarrow> Job" where
  "resolveSent buffered job =
     (case j_upc job of UP_sent i a b None \<Rightarrow> job\<lparr>j_upc := UP_sent i a b (Some buffered)\<rparr> | _ \<Rightarrow> job)"

text \<open>
  \<open>uploadFiles\<close> goes on after an await; \<open>r\<close> is the outcome of reading a slice. While a waiter is
  unresolved nothing happens.
\<close>

definition uploadResume :: "bool \<Rightarrow> jsstr + unit \<Rightarrow> Job \<Rightarrow> Job \<times> effect list" where
  "uploadResume streaming r job =
     (case j_upc job of
        UP_confirm i (Some c) \<Rightarrow>
          (case c of
             CF_cancelled \<Rightarrow> (job\<lparr>j_upc := UP_none\<rparr>, [])
           | CF_go skip offset \<Rightarrow>
               let size = uf_size (j_files job ! i) in
               if jobStopped streaming job then (job\<lparr>j_upc := UP_none\<rparr>, [])
               else if skip then uploadIter streaming (Suc i) (job\<lparr>j_doneBytes := j_doneBytes job + size\<rparr>)
               else uploadBlocks streaming i offset
                      (job\<lparr>j_doneBytes := j_doneBytes job + min offset size\<rparr>))
      | UP_read i a b \<Rightarrow>
          (case r of
             Inl err \<Rightarrow>
               if jobStopped streaming job then (job\<lparr>j_upc := UP_none\<rparr>, [])
               else (job\<lparr>j_upc := UP_none, j_status := JS_error, j_error := Some err\<rparr>,
                     [E_post (Cmd_ftError (j_id job) (- 1) err)])
           | Inr _ \<Rightarrow>
               (job\<lparr>j_upc := UP_sent i a b None\<rparr>,
                [E_post (Cmd_ftBlock (j_id job) (int i) (blob_slice (uf_data (j_files job ! i)) a b) 0)]))
      | UP_sent i a b (Some buffered) \<Rightarrow>
          let job1 = job\<lparr>j_doneBytes := j_doneBytes job + (b - a)\<rparr>
          in if UPLOAD_BACKLOG_LIMIT < buffered then (job1\<lparr>j_upc := UP_pause i b\<rparr>, [])
             else uploadBlocks streaming i b job1
      | UP_pause i a \<Rightarrow> uploadBlocks streaming i a job
      | _ \<Rightarrow> (job, []))"

text \<open>\<open>uploadFiles\<close> up to its first await, once the panel has drawn the job's id.\<close>

definition newUploadJob :: "int \<Rightarrow> int \<Rightarrow> UploadFile list \<Rightarrow> Job" where
  "newUploadJob now jid files =
     \<lparr>j_id = jid, j_kind = JK_upload,
      j_label = (if length files = 1 then uf_rel (files ! 0) else radix_str 10 (length files) @ js '' files''),
      j_status = JS_running, j_error = None, j_totalSize = sum_list (map uf_size files), j_doneBytes = 0,
      j_fileCount = int (length files), j_currentFile = uf_rel (files ! 0), j_policy = None,
      j_startMs = now, j_lastBytes = 0, j_lastSampleMs = now, j_speedBps = 0, j_remoteFiles = None, j_destDir = False, j_curFileNum = - 1, j_writable = None, j_memBuf = [],
      j_chain = [], j_cpc = CP_idle, j_files = files, j_upc = UP_none, j_peerDone = False\<rparr>"

definition uploadFiles :: "int \<Rightarrow> int \<Rightarrow> jsstr \<Rightarrow> UploadFile list \<Rightarrow> Job \<times> effect list" where
  "uploadFiles now jid path files =
     (let job = newUploadJob now jid files;
          announced = map (\<lambda>f. \<lparr>af_name = uf_rel f, af_size = uf_size f, af_modifiedSec = uf_lastModified f div 1000\<rparr>) files
      in case uploadIter True 0 job of
           (job1, effs) \<Rightarrow> (job1, E_post (Cmd_ftReceive jid path announced (j_totalSize job) 0) # effs))"

section \<open>Download\<close>

text \<open>
  \<open>closeJobFile\<close> up to its await: the stream to close or abort, and the blob saved when there is no
  folder. What the code does to \<open>memBuf\<close> after the await is done here: with a stream there is a
  folder, and then \<open>memBuf\<close> is never saved.
\<close>

definition closeJobFile :: "bool \<Rightarrow> Job \<Rightarrow> Job \<times> wstream option \<times> effect list" where
  "closeJobFile commit job =
     (job\<lparr>j_writable := None, j_memBuf := []\<rparr>, j_writable job,
      if \<not> j_destDir job \<and> commit \<and> 0 \<le> j_curFileNum job
      then [E_save (js_join (js ''_'') (js_split slash (remoteName job (j_curFileNum job)))) (concat (j_memBuf job))]
      else [])"

text \<open>The close of a stream settled: a healthy stream that closes is committed.\<close>

definition closed :: "bool \<Rightarrow> wstream option \<Rightarrow> effect list" where
  "closed ok w =
     (case w of Some st \<Rightarrow> if ok \<and> \<not> st_errored st then [E_commit (st_path st) (st_data st)] else [] | None \<Rightarrow> [])"

text \<open>The path \<open>createLocalWritable\<close> creates; without any part the name is \<open>undefined\<close>.\<close>

definition local_path :: "jsstr \<Rightarrow> jsstr list" where
  "local_path rel =
     (let parts = filter (\<lambda>s. s \<noteq> []) (js_split slash rel) in if parts = [] then [js ''undefined''] else parts)"

text \<open>The rest of a block's task once the file is open.\<close>

definition chainBody :: "bytes \<Rightarrow> Job \<Rightarrow> Job \<times> effect list" where
  "chainBody d job =
     (if d = []
      then (case closeJobFile True job of (job1, w, effs) \<Rightarrow> (job1\<lparr>j_cpc := CP_eof w\<rparr>, effs))
      else case j_writable job of
             Some st \<Rightarrow> (job\<lparr>j_writable := Some (st\<lparr>st_data := st_data st @ d\<rparr>), j_cpc := CP_write d\<rparr>, [])
           | None \<Rightarrow>
               (job\<lparr>j_memBuf := j_memBuf job @ [d], j_doneBytes := j_doneBytes job + int (length d),
                   j_cpc := CP_idle\<rparr>, []))"

text \<open>The next task of the chain starts when the previous one has ended.\<close>

definition chainStart :: "Job \<Rightarrow> Job \<times> effect list" where
  "chainStart job =
     (case (j_cpc job, j_chain job) of
        (CP_idle, CT_block n d # rest) \<Rightarrow>
          let job1 = job\<lparr>j_chain := rest\<rparr>
          in if j_curFileNum job1 \<noteq> n
             then (case closeJobFile True job1 of (job2, w, effs) \<Rightarrow> (job2\<lparr>j_cpc := CP_switch w n d\<rparr>, effs))
             else chainBody d job1
      | (CP_idle, CT_done # rest) \<Rightarrow>
          (case closeJobFile True (job\<lparr>j_chain := rest\<rparr>) of (job1, w, effs) \<Rightarrow> (job1\<lparr>j_cpc := CP_done w\<rparr>, effs))
      | _ \<Rightarrow> (job, []))"

text \<open>The \<open>catch\<close> of a block's task.\<close>

definition writeFailed :: "jsstr \<Rightarrow> Job \<Rightarrow> Job \<times> effect list" where
  "writeFailed err job =
     (job\<lparr>j_status := JS_error, j_error := Some (js ''write failed: '' @ err), j_cpc := CP_idle\<rparr>,
      [E_post (Cmd_ftCancel (j_id job))])"

definition chainResume :: "jsstr + unit \<Rightarrow> Job \<Rightarrow> Job \<times> effect list" where
  "chainResume r job =
     (let ok = (case r of Inr _ \<Rightarrow> True | Inl _ \<Rightarrow> False) in
      case j_cpc job of
        CP_idle \<Rightarrow> (job, [])
      | CP_switch w n d \<Rightarrow>
          let rel = remoteName job n;
              job1 = job\<lparr>j_curFileNum := n, j_currentFile := rel\<rparr>
          in if j_destDir job1 then (job1\<lparr>j_cpc := CP_create (local_path rel) d\<rparr>, closed ok w)
             else (case chainBody d (job1\<lparr>j_memBuf := []\<rparr>) of (job2, effs) \<Rightarrow> (job2, closed ok w @ effs))
      | CP_create path d \<Rightarrow>
          (case r of
             Inl err \<Rightarrow> writeFailed err job
           | Inr _ \<Rightarrow>
               (case chainBody d (job\<lparr>j_writable := Some \<lparr>st_path = path, st_data = [], st_errored = False\<rparr>\<rparr>) of
                  (job1, effs) \<Rightarrow> (job1, E_touch path # effs)))
      | CP_eof w \<Rightarrow> (job\<lparr>j_curFileNum := - 1, j_cpc := CP_idle\<rparr>, closed ok w)
      | CP_write d \<Rightarrow>
          (case r of
             Inl err \<Rightarrow>
               writeFailed err (job\<lparr>j_writable := map_option (\<lambda>st. st\<lparr>st_errored := True\<rparr>) (j_writable job)\<rparr>)
           | Inr _ \<Rightarrow> (job\<lparr>j_doneBytes := j_doneBytes job + int (length d), j_cpc := CP_idle\<rparr>, []))
      | CP_done w \<Rightarrow>
          let job1 = job\<lparr>j_curFileNum := - 1, j_cpc := CP_idle\<rparr>
          in (if j_status job1 \<noteq> JS_error \<and> j_status job1 \<noteq> JS_cancelled
              then job1\<lparr>j_status := JS_done, j_doneBytes := max (j_doneBytes job1) (j_totalSize job1)\<rparr>
              else job1, closed ok w))"

text \<open>A block of the peer is queued while the job is neither cancelled nor failed.\<close>

definition enqueueBlock :: "int \<Rightarrow> bytes \<Rightarrow> Job \<Rightarrow> Job" where
  "enqueueBlock n d job =
     (if j_kind job \<noteq> JK_download \<or> j_status job = JS_cancelled \<or> j_status job = JS_error then job
      else job\<lparr>j_chain := j_chain job @ [CT_block n d]\<rparr>)"

section \<open>The end of a job\<close>

text \<open>\<open>void closeJobFile(job, false)\<close>: the stream is aborted.\<close>

definition abortFile :: "Job \<Rightarrow> Job" where
  "abortFile job = fst (closeJobFile False job)"

definition cancelJob :: "Job \<Rightarrow> Job \<times> effect list" where
  "cancelJob job =
     (if j_status job = JS_done \<or> j_status job = JS_cancelled then (job, [])
      else (abortFile (resolveSent 0 (resolveConfirm CF_cancelled (job\<lparr>j_status := JS_cancelled\<rparr>))),
            [E_post (Cmd_ftCancel (j_id job))]))"

text \<open>What \<open>teardown\<close> does to each job.\<close>

definition dropJob :: "Job \<Rightarrow> Job" where
  "dropJob job =
     (if j_status job = JS_running \<or> j_status job = JS_starting
      then abortFile (resolveSent 0 (resolveConfirm CF_cancelled
             (job\<lparr>j_status := JS_error, j_error := Some (js ''connection closed'')\<rparr>)))
      else job)"

text \<open>The job's part of \<open>onFtError\<close>; \<open>skipped\<close> acknowledges a skip.\<close>

definition failJob :: "jsstr \<Rightarrow> Job \<Rightarrow> Job" where
  "failJob err job =
     (if map ascii_lower err = js ''skipped'' then job\<lparr>j_status := JS_done\<rparr>
      else abortFile (resolveSent 0 (resolveConfirm CF_cancelled
             (job\<lparr>j_status := JS_error, j_error := Some err\<rparr>))))"

section \<open>The job list\<close>

text \<open>One job of \<open>tickJobs\<close>: the speed is sampled over at least 900 ms.\<close>

definition tickJob :: "int \<Rightarrow> Job \<Rightarrow> Job" where
  "tickJob t job =
     (if j_status job \<noteq> JS_running \<and> j_status job \<noteq> JS_starting then job
      else let dt = t - j_lastSampleMs job in
        if 900 \<le> dt
        then let inst = of_int (j_doneBytes job - j_lastBytes job) / of_int dt * 1000
             in job\<lparr>j_speedBps := (if j_speedBps job = 0 then inst else j_speedBps job / 2 + inst / 2),
                    j_lastBytes := j_doneBytes job, j_lastSampleMs := t\<rparr>
        else job)"

text \<open>The percentage \<open>renderJobs\<close> shows.\<close>

definition job_pct :: "Job \<Rightarrow> int" where
  "job_pct job =
     (if 0 < j_totalSize job then min 100 (js_round (of_int (j_doneBytes job) / of_int (j_totalSize job) * 100))
      else if j_status job = JS_done then 100 else 0)"

end
