(* ===== verification/Upload_Safety.thy ===== *)
theory Upload_Safety
  imports File_Jobs Step_System
begin

text \<open>
  What \<open>uploadFiles\<close> sends, whatever the peer, the user and the connection do while it waits: the
  blocks of a file are consecutive slices of it in order, and a file is ended by a marker only
  when everything from the confirmed offset on was sent.
\<close>

section \<open>The coroutine as a system\<close>

text \<open>It is resumed, its waiters are resolved, and its job's status is changed from outside.\<close>

datatype up_event =
    UE_resume bool "jsstr + unit"
  | UE_confirm confirmation
  | UE_sent int
  | UE_status job_status

text \<open>
  The run of one upload: its job, what it posted, and the answer each file was given, which is
  recorded when a waiter that was still unresolved takes it.
\<close>

type_synonym upload_state = "Job \<times> effect list \<times> (nat \<rightharpoonup> confirmation)"

definition run_with :: "effect list \<Rightarrow> (nat \<rightharpoonup> confirmation) \<Rightarrow> Job \<times> effect list \<Rightarrow> upload_state" where
  "run_with effs ans r = (fst r, effs @ snd r, ans)"

definition answered :: "confirmation \<Rightarrow> Job \<Rightarrow> (nat \<rightharpoonup> confirmation) \<Rightarrow> (nat \<rightharpoonup> confirmation)" where
  "answered c job ans = (case j_upc job of UP_confirm k None \<Rightarrow> ans(k \<mapsto> c) | _ \<Rightarrow> ans)"

definition up_step :: "up_event \<Rightarrow> upload_state \<Rightarrow> upload_state" where
  "up_step ev = (\<lambda>(job, effs, ans).
     case ev of
       UE_resume streaming r \<Rightarrow> run_with effs ans (uploadResume streaming r job)
     | UE_confirm c \<Rightarrow> (resolveConfirm c job, effs, answered c job ans)
     | UE_sent b \<Rightarrow> (resolveSent b job, effs, ans)
     | UE_status st \<Rightarrow> (job\<lparr>j_status := st\<rparr>, effs, ans))"

definition upload_run :: "int \<Rightarrow> int \<Rightarrow> jsstr \<Rightarrow> UploadFile list \<Rightarrow> up_event list \<Rightarrow> upload_state" where
  "upload_run now jid path fs evs = fold up_step evs (run_with [] Map.empty (uploadFiles now jid path fs))"

text \<open>Offsets are unsigned on the wire.\<close>

definition unsigned_offset :: "up_event \<Rightarrow> bool" where
  "unsigned_offset ev = (case ev of UE_confirm (CF_go _ off) \<Rightarrow> 0 \<le> off | _ \<Rightarrow> True)"

fun file_block :: "nat \<Rightarrow> effect \<Rightarrow> bytes list" where
  "file_block k (E_post (Cmd_ftBlock _ n d _)) = (if n = int k then [d] else [])"
| "file_block k _ = []"

definition blocks :: "nat \<Rightarrow> effect list \<Rightarrow> bytes list" where
  "blocks k effs = concat (map (file_block k) effs)"

lemma blocks_simps [simp]:
  "blocks k [] = []" "blocks k (e # es) = file_block k e @ blocks k es"
  "blocks k (xs @ ys) = blocks k xs @ blocks k ys"
  by (simp_all add: blocks_def)

fun finished_with :: "effect \<Rightarrow> bool" where
  "finished_with (E_post (Cmd_ftDone _ _)) = True"
| "finished_with _ = False"

section \<open>The invariant\<close>

definition chunked :: "bytes list \<Rightarrow> bool" where
  "chunked ds \<longleftrightarrow> (\<forall>d \<in> set ds. d \<noteq> [] \<and> int (length d) \<le> FT_BLOCK_SIZE)"

text \<open>Sent from the confirmed offset up to \<open>cur\<close>; sent completely; or skipped.\<close>

definition partial :: "UploadFile list \<Rightarrow> nat \<Rightarrow> int \<Rightarrow> effect list \<Rightarrow> (nat \<rightharpoonup> confirmation) \<Rightarrow> bool" where
  "partial fs k cur effs ans \<longleftrightarrow>
     (\<exists>off. ans k = Some (CF_go False off) \<and> 0 \<le> off \<and> off \<le> cur \<and> chunked (blocks k effs) \<and>
        concat (blocks k effs) = take (nat (cur - off)) (drop (nat off) (uf_data (fs ! k))))"

definition complete_file :: "UploadFile list \<Rightarrow> nat \<Rightarrow> effect list \<Rightarrow> (nat \<rightharpoonup> confirmation) \<Rightarrow> bool" where
  "complete_file fs k effs ans \<longleftrightarrow>
     (\<exists>off ds. ans k = Some (CF_go False off) \<and> 0 \<le> off \<and> blocks k effs = ds @ [[]] \<and> chunked ds \<and>
        concat ds = drop (nat off) (uf_data (fs ! k)))"

definition skipped :: "nat \<Rightarrow> effect list \<Rightarrow> (nat \<rightharpoonup> confirmation) \<Rightarrow> bool" where
  "skipped k effs ans \<longleftrightarrow> blocks k effs = [] \<and> (\<exists>off. ans k = Some (CF_go True off))"

definition settled_file :: "UploadFile list \<Rightarrow> nat \<Rightarrow> effect list \<Rightarrow> (nat \<rightharpoonup> confirmation) \<Rightarrow> bool" where
  "settled_file fs k effs ans \<longleftrightarrow> skipped k effs ans \<or> complete_file fs k effs ans"

text \<open>The files before \<open>k\<close> are settled, nothing is sent of those after it.\<close>

definition reached :: "UploadFile list \<Rightarrow> nat \<Rightarrow> effect list \<Rightarrow> (nat \<rightharpoonup> confirmation) \<Rightarrow> bool" where
  "reached fs k effs ans \<longleftrightarrow>
     (\<forall>j < k. settled_file fs j effs ans) \<and> (\<forall>j > k. blocks j effs = []) \<and> \<not> (\<exists>e \<in> set effs. finished_with e)"

definition at_file :: "UploadFile list \<Rightarrow> nat \<Rightarrow> effect list \<Rightarrow> (nat \<rightharpoonup> confirmation) \<Rightarrow> bool" where
  "at_file fs i effs ans \<longleftrightarrow> i \<le> length fs \<and> reached fs i effs ans \<and> blocks i effs = []"

definition sane :: "UploadFile list \<Rightarrow> effect list \<Rightarrow> (nat \<rightharpoonup> confirmation) \<Rightarrow> bool" where
  "sane fs effs ans \<longleftrightarrow>
     (\<forall>k < length fs. blocks k effs = [] \<or> complete_file fs k effs ans \<or> (\<exists>cur. partial fs k cur effs ans)) \<and>
     (\<forall>k \<ge> length fs. blocks k effs = []) \<and>
     ((\<exists>e \<in> set effs. finished_with e) \<longrightarrow> (\<forall>k < length fs. settled_file fs k effs ans))"

definition up_inv :: "UploadFile list \<Rightarrow> upload_state \<Rightarrow> bool" where
  "up_inv fs = (\<lambda>(job, effs, ans).
     j_files job = fs \<and> sane fs effs ans \<and>
     (case j_upc job of
        UP_none \<Rightarrow> True
      | UP_confirm k c \<Rightarrow>
          k < length fs \<and> at_file fs k effs ans \<and>
          (case c of Some cf \<Rightarrow> ans k = c \<and> (case cf of CF_go _ off \<Rightarrow> 0 \<le> off | _ \<Rightarrow> True) | None \<Rightarrow> True)
      | UP_read k a b \<Rightarrow>
          k < length fs \<and> reached fs k effs ans \<and> partial fs k a effs ans \<and> a < b \<and>
          b = min (a + FT_BLOCK_SIZE) (uf_size (fs ! k))
      | UP_sent k a b r \<Rightarrow> k < length fs \<and> reached fs k effs ans \<and> partial fs k b effs ans
      | UP_pause k a \<Rightarrow> k < length fs \<and> reached fs k effs ans \<and> partial fs k a effs ans))"

lemmas file_defs = settled_file_def skipped_def complete_file_def partial_def

lemma partial_nil: "blocks k effs = [] \<Longrightarrow> 0 \<le> cur \<Longrightarrow> ans k = Some (CF_go False cur) \<Longrightarrow> partial fs k cur effs ans"
  unfolding partial_def by (simp add: chunked_def)

lemma reached_sane:
  assumes "reached fs k effs ans" "k < length fs" "partial fs k cur effs ans \<or> blocks k effs = []"
  shows "sane fs effs ans"
  unfolding sane_def
proof (intro conjI allI impI)
  fix j assume "j < length fs"
  with assms show "blocks j effs = [] \<or> complete_file fs j effs ans \<or> (\<exists>cur. partial fs j cur effs ans)"
    by (cases j k rule: linorder_cases) (auto simp: reached_def settled_file_def skipped_def)
qed (use assms in \<open>auto simp: reached_def\<close>)

lemma settled_sane:
  assumes "\<And>j. j < length fs \<Longrightarrow> settled_file fs j effs ans" "\<And>j. length fs \<le> j \<Longrightarrow> blocks j effs = []"
  shows "sane fs effs ans"
  using assms by (auto simp: sane_def settled_file_def skipped_def)

lemma at_file_sane: "at_file fs i effs ans \<Longrightarrow> sane fs effs ans"
proof (cases "i < length fs")
  case False
  moreover assume "at_file fs i effs ans"
  ultimately show ?thesis by (intro settled_sane) (auto simp: at_file_def reached_def le_less)
qed (auto simp: at_file_def intro: reached_sane)

text \<open>Posting something that is not a block of a file changes nothing.\<close>

lemma no_blocks:
  assumes "\<And>j. blocks j es = []" "\<not> (\<exists>e \<in> set es. finished_with e)"
  shows "reached fs k (effs @ es) ans = reached fs k effs ans"
    "partial fs k cur (effs @ es) ans = partial fs k cur effs ans"
    "sane fs (effs @ es) ans = sane fs effs ans"
    "at_file fs k (effs @ es) ans = at_file fs k effs ans"
  using assms by (simp_all add: reached_def sane_def at_file_def file_defs bex_Un)

lemma settled_append:
  "blocks j es = [] \<Longrightarrow> settled_file fs j (effs @ es) ans = settled_file fs j effs ans"
  by (simp add: file_defs)

lemma inv_stop: "sane fs effs ans \<Longrightarrow> j_files job = fs \<Longrightarrow> up_inv fs (job\<lparr>j_upc := UP_none\<rparr>, effs, ans)"
  by (simp add: up_inv_def)

lemma run_with_Pair [simp]: "run_with effs ans (job, es) = (job, effs @ es, ans)"
  by (simp add: run_with_def)

section \<open>Each resumption keeps the invariant\<close>

lemma uploadIter_inv:
  assumes "at_file fs i effs ans" "j_files job = fs"
  shows "up_inv fs (run_with effs ans (uploadIter streaming i job))"
proof -
  note sane = at_file_sane [OF assms(1)]
  consider "jobStopped streaming job" | "\<not> jobStopped streaming job" "i < length fs"
    | "\<not> jobStopped streaming job" "i = length fs"
    using assms(1) unfolding at_file_def by (metis le_neq_implies_less)
  then show ?thesis
  proof cases
    case 1
    then show ?thesis using sane assms(2) by (simp add: uploadIter_def inv_stop)
  next
    case 2
    then show ?thesis using assms sane by (simp add: uploadIter_def up_inv_def Let_def no_blocks)
  next
    case 3
    have "settled_file fs j effs ans" if "j < length fs" for j
      using assms(1) 3(2) that by (simp add: at_file_def reached_def)
    then have "sane fs (effs @ [E_post (Cmd_ftDone (j_id job) (int (length fs)))]) ans"
      using assms(1) 3(2) by (intro settled_sane) (auto simp: settled_append at_file_def reached_def le_less)
    then show ?thesis using 3 assms(2) by (simp add: uploadIter_def inv_stop)
  qed
qed

lemma complete_marker:
  assumes "partial fs k cur effs ans" "uf_size (fs ! k) \<le> cur"
  shows "complete_file fs k (effs @ [E_post (Cmd_ftBlock x (int k) [] 0)]) ans"
proof -
  obtain off where off: "ans k = Some (CF_go False off)" "0 \<le> off" "off \<le> cur" "chunked (blocks k effs)"
    "concat (blocks k effs) = take (nat (cur - off)) (drop (nat off) (uf_data (fs ! k)))"
    using assms(1) by (auto simp: partial_def)
  have "length (drop (nat off) (uf_data (fs ! k))) \<le> nat (cur - off)"
    using assms(2) off(2,3) by (simp add: uf_size_def)
  then have "concat (blocks k effs) = drop (nat off) (uf_data (fs ! k))"
    using off(5) by simp
  then show ?thesis using off(1,2,4) by (simp add: complete_file_def)
qed

lemma marker_at_file:
  assumes "reached fs k effs ans" "k < length fs" "partial fs k cur effs ans" "uf_size (fs ! k) \<le> cur"
  shows "at_file fs (Suc k) (effs @ [E_post (Cmd_ftBlock x (int k) [] 0)]) ans"
  using assms complete_marker [OF assms(3,4), of x]
  by (auto simp: at_file_def reached_def settled_append less_Suc_eq) (simp add: settled_file_def)

lemma uploadBlocks_inv:
  assumes "reached fs k effs ans" "k < length fs" "partial fs k cur effs ans" "j_files job = fs"
  shows "up_inv fs (run_with effs ans (uploadBlocks streaming k cur job))"
proof (cases "cur < uf_size (fs ! k)")
  case True
  then show ?thesis using assms reached_sane [of fs k effs ans cur]
    by (simp add: uploadBlocks_def inv_stop) (simp add: up_inv_def FT_BLOCK_SIZE_def)
next
  case False
  then have "up_inv fs (run_with (effs @ [E_post (Cmd_ftBlock (j_id job) (int k) [] 0)]) ans (uploadIter streaming (Suc k) job))"
    using assms by (intro uploadIter_inv marker_at_file) (simp_all add: not_less)
  then show ?thesis using False assms(4)
    by (simp add: uploadBlocks_def run_with_def case_prod_beta)
qed

lemma skip_at_file:
  "at_file fs k effs ans \<Longrightarrow> k < length fs \<Longrightarrow> ans k = Some (CF_go True off) \<Longrightarrow> at_file fs (Suc k) effs ans"
  by (auto simp: at_file_def reached_def less_Suc_eq settled_file_def skipped_def)

lemma take_slice:
  assumes "0 \<le> (off::int)" "off \<le> a" "a \<le> b"
  shows "take (nat (a - off)) (drop (nat off) xs) @ take (nat (b - a)) (drop (nat a) xs) =
    take (nat (b - off)) (drop (nat off) xs)"
proof -
  have "nat a = nat (a - off) + nat off" "nat (b - off) = nat (a - off) + nat (b - a)"
    using assms by (simp_all add: nat_add_distrib [symmetric])
  then show ?thesis by (simp add: take_add)
qed

lemma partial_block:
  assumes "partial fs k a effs ans" "a < b" "b = min (a + FT_BLOCK_SIZE) (uf_size (fs ! k))"
  shows "partial fs k b (effs @ [E_post (Cmd_ftBlock x (int k) (blob_slice (uf_data (fs ! k)) a b) 0)]) ans"
proof -
  obtain off where off: "ans k = Some (CF_go False off)" "0 \<le> off" "off \<le> a" "chunked (blocks k effs)"
    "concat (blocks k effs) = take (nat (a - off)) (drop (nat off) (uf_data (fs ! k)))"
    using assms(1) by (auto simp: partial_def)
  have le: "b \<le> int (length (uf_data (fs ! k)))" "b \<le> a + FT_BLOCK_SIZE"
    using assms(3) by (simp_all add: uf_size_def)
  have sl: "blob_slice (uf_data (fs ! k)) a b = take (nat (b - a)) (drop (nat a) (uf_data (fs ! k)))"
    using off(2,3) assms(2) le(1) by (simp add: blob_slice_def)
  have "blob_slice (uf_data (fs ! k)) a b \<noteq> []" "int (length (blob_slice (uf_data (fs ! k)) a b)) \<le> FT_BLOCK_SIZE"
    using off(2,3) assms(2) le by (simp_all add: sl)
  then show ?thesis
    unfolding partial_def using off assms(2)
    by (intro exI [of _ off]) (simp add: sl take_slice chunked_def)
qed

lemma block_reached:
  "reached fs k effs ans \<Longrightarrow> reached fs k (effs @ [E_post (Cmd_ftBlock x (int k) d 0)]) ans"
  by (simp add: reached_def settled_append)

lemma confirm_inv:
  assumes inv: "up_inv fs (job, effs, ans)" and pc: "j_upc job = UP_confirm k (Some cf)"
  shows "up_inv fs (run_with effs ans (uploadResume streaming r job))"
proof (cases cf)
  case CF_cancelled
  then show ?thesis using inv pc by (simp add: uploadResume_def up_inv_def)
next
  case (CF_go skip off)
  have *: "k < length fs" "at_file fs k effs ans" "ans k = Some (CF_go skip off)" "0 \<le> off" "j_files job = fs"
    "sane fs effs ans"
    using inv pc CF_go by (simp_all add: up_inv_def)
  have "reached fs k effs ans" "blocks k effs = []" using *(2) by (simp_all add: at_file_def)
  with * pc CF_go show ?thesis
    by (simp add: uploadResume_def Let_def inv_stop uploadIter_inv skip_at_file uploadBlocks_inv partial_nil)
qed

lemma read_inv:
  assumes inv: "up_inv fs (job, effs, ans)" and pc: "j_upc job = UP_read k a b"
  shows "up_inv fs (run_with effs ans (uploadResume streaming r job))"
proof -
  have *: "k < length fs" "reached fs k effs ans" "partial fs k a effs ans" "a < b"
    "b = min (a + FT_BLOCK_SIZE) (uf_size (fs ! k))" "j_files job = fs" "sane fs effs ans"
    using inv pc by (auto simp: up_inv_def)
  show ?thesis
  proof (cases r)
    case (Inl err)
    then show ?thesis using * pc by (simp add: uploadResume_def up_inv_def no_blocks)
  next
    case (Inr u)
    note p = block_reached [OF *(2)] *(1) partial_block [OF *(3-5)]
    then show ?thesis using Inr pc *(6) reached_sane [OF p(1,2), OF disjI1, OF p(3)]
      by (simp add: uploadResume_def up_inv_def)
  qed
qed

lemma sent_inv:
  assumes inv: "up_inv fs (job, effs, ans)" and pc: "j_upc job = UP_sent k a b (Some n)"
  shows "up_inv fs (run_with effs ans (uploadResume streaming r job))"
proof -
  have *: "k < length fs" "reached fs k effs ans" "partial fs k b effs ans" "j_files job = fs" "sane fs effs ans"
    using inv pc by (simp_all add: up_inv_def)
  then have "up_inv fs (job\<lparr>j_doneBytes := d, j_upc := UP_pause k b\<rparr>, effs, ans)" for d
    by (simp add: up_inv_def)
  then show ?thesis using * pc by (simp add: uploadResume_def Let_def uploadBlocks_inv)
qed

lemma pause_inv:
  assumes inv: "up_inv fs (job, effs, ans)" and pc: "j_upc job = UP_pause k a"
  shows "up_inv fs (run_with effs ans (uploadResume streaming r job))"
proof -
  have "k < length fs" "reached fs k effs ans" "partial fs k a effs ans" "j_files job = fs"
    using inv pc by (simp_all add: up_inv_def)
  then show ?thesis using pc by (simp add: uploadResume_def uploadBlocks_inv)
qed

lemma idle_resume:
  assumes "j_upc job \<in> {UP_none} \<union> {UP_confirm k None |k. True} \<union> {UP_sent k a b None |k a b. True}"
  shows "uploadResume streaming r job = (job, [])"
  using assms by (auto simp: uploadResume_def)

lemma uploadResume_inv:
  assumes "up_inv fs (job, effs, ans)"
  shows "up_inv fs (run_with effs ans (uploadResume streaming r job))"
proof (cases "j_upc job")
  case (UP_confirm k c)
  then show ?thesis using assms confirm_inv [OF assms] by (cases c) (simp_all add: idle_resume)
next
  case (UP_sent k a b s)
  then show ?thesis using assms sent_inv [OF assms] by (cases s) (simp_all add: idle_resume)
qed (use assms in \<open>simp_all add: idle_resume read_inv pause_inv\<close>)

section \<open>The runs of an upload\<close>

lemma up_step_inv:
  assumes "up_inv fs s" "unsigned_offset ev"
  shows "up_inv fs (up_step ev s)"
proof -
  obtain job effs ans where s: "s = (job, effs, ans)" by (cases s)
  show ?thesis
  proof (cases ev)
    case (UE_resume streaming r)
    then show ?thesis using assms s by (simp add: up_step_def uploadResume_inv)
  next
    case (UE_confirm c)
    show ?thesis
    proof (cases "\<exists>k. j_upc job = UP_confirm k None")
      case True
      then obtain k where k: "j_upc job = UP_confirm k None" ..
      then have "k < length fs" "at_file fs k effs ans" "j_files job = fs" using assms s by (simp_all add: up_inv_def)
      moreover from this(2) have "at_file fs k effs (ans(k \<mapsto> c))"
        by (simp add: at_file_def reached_def file_defs)
      ultimately show ?thesis using k s UE_confirm assms(2) at_file_sane [of fs k effs "ans(k \<mapsto> c)"]
        by (simp add: up_step_def resolveConfirm_def answered_def up_inv_def unsigned_offset_def split: confirmation.split)
    next
      case False
      then have "resolveConfirm c job = job" "answered c job ans = ans"
        by (auto simp: resolveConfirm_def answered_def split: upload_pc.split option.split)
      then show ?thesis using assms s UE_confirm by (simp add: up_step_def)
    qed
  next
    case (UE_sent n)
    then show ?thesis using assms s
      by (auto simp: up_step_def resolveSent_def up_inv_def split: upload_pc.split option.split)
  next
    case (UE_status st)
    then show ?thesis using assms s by (simp add: up_step_def up_inv_def)
  qed
qed

lemma up_start_inv: "up_inv fs (run_with [] Map.empty (uploadFiles now jid path fs))"
proof -
  let ?announce = "snd (uploadFiles now jid path fs) ! 0"
  have nil: "blocks k [?announce] = []" "\<not> finished_with ?announce" for k
    by (simp_all add: uploadFiles_def Let_def case_prod_beta)
  have "up_inv fs (run_with [?announce] Map.empty (uploadIter True 0 (newUploadJob now jid fs)))"
    using nil by (intro uploadIter_inv) (simp_all add: at_file_def reached_def newUploadJob_def)
  then show ?thesis by (simp add: uploadFiles_def Let_def case_prod_beta run_with_def)
qed

text \<open>The steps with unsigned offsets form an invariant system.\<close>

definition up_move :: "up_event \<Rightarrow> upload_state \<Rightarrow> upload_state" where
  "up_move ev s = (if unsigned_offset ev then up_step ev s else s)"

interpretation upload: invariant_system
  "\<lambda>s. \<exists>now jid path. s = run_with [] Map.empty (uploadFiles now jid path fs)" up_move "up_inv fs" for fs
  by unfold_locales (auto simp: up_move_def up_start_inv up_step_inv)

lemma up_moves: "\<forall>ev \<in> set evs. unsigned_offset ev \<Longrightarrow> fold up_move evs s = fold up_step evs s"
  by (induction evs arbitrary: s) (simp_all add: up_move_def)

lemma upload_run_inv:
  "\<forall>ev \<in> set evs. unsigned_offset ev \<Longrightarrow> up_inv fs (upload_run now jid path fs evs)"
  using upload.inv_fold [OF up_start_inv, of fs evs now jid path] by (simp add: upload_run_def up_moves)

lemma complete_blocks:
  assumes "complete_file fs k effs ans"
  shows "\<exists>off ds rest. ans k = Some (CF_go False off) \<and> blocks k effs = ds @ rest \<and> rest \<in> {[], [[]]} \<and>
       (\<forall>d \<in> set ds. d \<noteq> [] \<and> int (length d) \<le> FT_BLOCK_SIZE) \<and>
       (\<exists>n. concat ds = take n (drop (nat off) (uf_data (fs ! k)))) \<and>
       (rest = [[]] \<longrightarrow> concat ds = drop (nat off) (uf_data (fs ! k)))"
proof -
  obtain off ds where *: "ans k = Some (CF_go False off)" "blocks k effs = ds @ [[]]" "chunked ds"
    "concat ds = drop (nat off) (uf_data (fs ! k))"
    using assms by (auto simp: complete_file_def)
  then have "\<exists>n. concat ds = take n (drop (nat off) (uf_data (fs ! k)))"
    by (intro exI [of _ "length (uf_data (fs ! k))"]) simp
  then show ?thesis using * unfolding chunked_def
    by (intro exI [of _ off] exI [of _ ds] exI [of _ "[[]]"]) simp
qed

lemma partial_blocks:
  assumes "partial fs k cur effs ans"
  shows "\<exists>off ds rest. ans k = Some (CF_go False off) \<and> blocks k effs = ds @ rest \<and> rest \<in> {[], [[]]} \<and>
       (\<forall>d \<in> set ds. d \<noteq> [] \<and> int (length d) \<le> FT_BLOCK_SIZE) \<and>
       (\<exists>n. concat ds = take n (drop (nat off) (uf_data (fs ! k)))) \<and>
       (rest = [[]] \<longrightarrow> concat ds = drop (nat off) (uf_data (fs ! k)))"
proof -
  obtain off where *: "ans k = Some (CF_go False off)" "chunked (blocks k effs)"
    "concat (blocks k effs) = take (nat (cur - off)) (drop (nat off) (uf_data (fs ! k)))"
    using assms by (auto simp: partial_def)
  then have "\<exists>n. concat (blocks k effs) = take n (drop (nat off) (uf_data (fs ! k)))" by blast
  then show ?thesis using * unfolding chunked_def
    by (intro exI [of _ off] exI [of _ "blocks k effs"] exI [of _ "[]"]) simp
qed

lemma sane_blocks:
  assumes "sane fs effs ans" "k < length fs"
  shows "blocks k effs = [] \<or>
    (\<exists>off ds rest. ans k = Some (CF_go False off) \<and> blocks k effs = ds @ rest \<and> rest \<in> {[], [[]]} \<and>
       (\<forall>d \<in> set ds. d \<noteq> [] \<and> int (length d) \<le> FT_BLOCK_SIZE) \<and>
       (\<exists>n. concat ds = take n (drop (nat off) (uf_data (fs ! k)))) \<and>
       (rest = [[]] \<longrightarrow> concat ds = drop (nat off) (uf_data (fs ! k))))"
proof -
  consider "blocks k effs = []" | "complete_file fs k effs ans" | cur where "partial fs k cur effs ans"
    using assms unfolding sane_def by blast
  then show ?thesis
    using complete_blocks [of fs k effs ans] partial_blocks [of fs k _ effs ans] by cases simp_all
qed

lemma sane_done:
  assumes "sane fs effs ans" "k < length fs" "E_post (Cmd_ftDone i n) \<in> set effs"
  shows "(blocks k effs = [] \<and> (\<exists>off. ans k = Some (CF_go True off))) \<or>
      (\<exists>off. ans k = Some (CF_go False off) \<and> concat (blocks k effs) = drop (nat off) (uf_data (fs ! k)) \<and>
         last (blocks k effs) = [])"
proof -
  have "\<exists>e \<in> set effs. finished_with e" using assms(3) by (intro bexI) simp_all
  then have "settled_file fs k effs ans" using assms(1,2) by (simp add: sane_def)
  then show ?thesis by (auto simp: settled_file_def skipped_def complete_file_def)
qed

text \<open>
  C12. Whatever the peer answers, whenever the coroutine goes on and however its job is cancelled,
  failed or disconnected meanwhile: of each file nothing is sent, or it was confirmed with an
  offset and what is sent are non-empty blocks of at most \<open>FT_BLOCK_SIZE\<close> bytes that make up,
  in order and without gap, the file's contents from that offset on, and the end-of-file marker
  follows only when they reach the end of the file. \<open>ftDone\<close> is posted only when every file was
  sent to its end or its skip was confirmed.
\<close>

theorem upload_sends_the_file:
  assumes "upload_run now jid path fs evs = (job, effs, ans)" "\<forall>ev \<in> set evs. unsigned_offset ev" "k < length fs"
  shows "(blocks k effs = [] \<or>
      (\<exists>off ds rest. ans k = Some (CF_go False off) \<and> blocks k effs = ds @ rest \<and> rest \<in> {[], [[]]} \<and>
         (\<forall>d \<in> set ds. d \<noteq> [] \<and> int (length d) \<le> FT_BLOCK_SIZE) \<and>
         (\<exists>n. concat ds = take n (drop (nat off) (uf_data (fs ! k)))) \<and>
         (rest = [[]] \<longrightarrow> concat ds = drop (nat off) (uf_data (fs ! k))))) \<and>
    (E_post (Cmd_ftDone jid (int (length fs))) \<in> set effs \<longrightarrow>
      (blocks k effs = [] \<and> (\<exists>off. ans k = Some (CF_go True off))) \<or>
      (\<exists>off. ans k = Some (CF_go False off) \<and> concat (blocks k effs) = drop (nat off) (uf_data (fs ! k)) \<and>
         last (blocks k effs) = []))"
proof -
  have "sane fs effs ans" using upload_run_inv [OF assms(2), of fs now jid path] assms(1) by (simp add: up_inv_def)
  then show ?thesis using assms(3) by (intro conjI impI) (rule sane_blocks, assumption+, rule sane_done)
qed

definition demo_files :: "UploadFile list" where
  "demo_files =
     [\<lparr>uf_rel = js ''a'', uf_data = [1, 2, 3], uf_lastModified = 5000\<rparr>,
      \<lparr>uf_rel = js ''b'', uf_data = [4], uf_lastModified = 6000\<rparr>]"

definition demo_upload :: "up_event list" where
  "demo_upload =
     [UE_confirm (CF_go False 1), UE_resume True (Inr ()), UE_resume True (Inr ()), UE_sent 0,
      UE_resume True (Inr ()), UE_confirm (CF_go True 0), UE_resume True (Inr ())]"

lemma demo_run:
  "snd (upload_run 0 7 [] demo_files demo_upload) =
    ([E_post (Cmd_ftReceive 7 []
        [\<lparr>af_name = js ''a'', af_size = 3, af_modifiedSec = 5\<rparr>, \<lparr>af_name = js ''b'', af_size = 1, af_modifiedSec = 6\<rparr>] 4 0),
      E_post (Cmd_ftDigest 7 0 3 5), E_post (Cmd_ftBlock 7 0 [2, 3] 0), E_post (Cmd_ftBlock 7 0 [] 0),
      E_post (Cmd_ftDigest 7 1 1 6), E_post (Cmd_ftDone 7 2)],
     Map.empty(0 \<mapsto> CF_go False 1, 1 \<mapsto> CF_go True 0))"
  by (simp add: upload_run_def demo_upload_def demo_files_def uploadFiles_def newUploadJob_def uploadIter_def
      uploadBlocks_def uploadResume_def up_step_def resolveConfirm_def resolveSent_def answered_def
      jobStopped_def blob_slice_def FT_BLOCK_SIZE_def UPLOAD_BACKLOG_LIMIT_def uf_size_def run_with_def Let_def)

theorem upload_sends_the_file_witness:
  "concat (blocks 0 (fst (snd (upload_run 0 7 [] demo_files demo_upload)))) = [2, 3] \<and>
   blocks 1 (fst (snd (upload_run 0 7 [] demo_files demo_upload))) = []"
proof -
  obtain job where run: "upload_run 0 7 [] demo_files demo_upload = (job, snd (upload_run 0 7 [] demo_files demo_upload))"
    by (metis prod.collapse)
  note run = run [unfolded demo_run]
  have "\<forall>ev \<in> set demo_upload. unsigned_offset ev" "0 < length demo_files" "1 < length demo_files"
    by (simp_all add: demo_upload_def unsigned_offset_def demo_files_def)
  note th = upload_sends_the_file [OF run this(1) this(2)] upload_sends_the_file [OF run this(1) this(3)]
  show ?thesis unfolding demo_run using th [THEN conjunct2] by (simp add: demo_files_def)
qed

section \<open>A willing peer receives everything\<close>

text \<open>The peer confirms, the worker reports the block as sent, the coroutine goes on.\<close>

definition up_round :: "up_event list" where
  "up_round = [UE_confirm (CF_go False 0), UE_sent 0, UE_resume True (Inr ())]"

definition rounds :: "nat \<Rightarrow> up_event list" where
  "rounds n = concat (replicate n up_round)"

definition remaining :: "UploadFile list \<Rightarrow> nat \<Rightarrow> nat" where
  "remaining fs k = sum_list (map (\<lambda>f. 3 * length (uf_data f) + 3) (drop k fs))"

fun distance :: "UploadFile list \<Rightarrow> upload_pc \<Rightarrow> nat" where
  "distance fs (UP_confirm k c) = remaining fs k"
| "distance fs (UP_read k a b) = remaining fs (Suc k) + 3 * nat (uf_size (fs ! k) - a) + 1"
| "distance fs (UP_sent k a b r) = remaining fs (Suc k) + 3 * nat (uf_size (fs ! k) - b) + 2"
| "distance fs _ = 0"

lemma remaining_Suc:
  "k < length fs \<Longrightarrow> remaining fs k = 3 * length (uf_data (fs ! k)) + 3 + remaining fs (Suc k)"
  by (simp add: remaining_def Cons_nth_drop_Suc [symmetric])

text \<open>The job runs, every answer was a plain confirmation, and a finished coroutine has posted \<open>ftDone\<close>.\<close>

fun on_way :: "int \<Rightarrow> upload_pc \<Rightarrow> effect list \<Rightarrow> nat \<Rightarrow> bool" where
  "on_way jid (UP_confirm k None) effs n = True"
| "on_way jid (UP_read k a b) effs n = True"
| "on_way jid (UP_sent k a b None) effs n = True"
| "on_way jid UP_none effs n = (E_post (Cmd_ftDone jid (int n)) \<in> set effs)"
| "on_way jid _ effs n = False"

definition driven :: "int \<Rightarrow> UploadFile list \<Rightarrow> upload_state \<Rightarrow> bool" where
  "driven jid fs = (\<lambda>(job, effs, ans).
     up_inv fs (job, effs, ans) \<and> j_id job = jid \<and> j_status job = JS_running \<and>
     (\<forall>k c. ans k = Some c \<longrightarrow> c = CF_go False 0) \<and> on_way jid (j_upc job) effs (length fs))"

lemma iter_on_way:
  assumes "j_status job = JS_running" "j_files job = fs" "j_id job = jid" "i \<le> length fs"
    and "uploadIter True i job = (job', es)"
  shows "on_way jid (j_upc job') (effs @ es) (length fs) \<and> distance fs (j_upc job') \<le> remaining fs i \<and>
    j_id job' = jid \<and> j_status job' = JS_running"
  using assms by (auto simp: uploadIter_def jobStopped_def Let_def split: if_splits)

lemma blocks_on_way:
  assumes "j_status job = JS_running" "j_files job = fs" "j_id job = jid" "i < length fs" "0 \<le> off"
    and "uploadBlocks True i off job = (job', es)"
  shows "on_way jid (j_upc job') (effs @ es) (length fs) \<and>
    distance fs (j_upc job') \<le> remaining fs (Suc i) + 3 * nat (uf_size (fs ! i) - off) + 1 \<and>
    j_id job' = jid \<and> j_status job' = JS_running"
proof (cases "off < uf_size (fs ! i)")
  case True
  then show ?thesis using assms by (auto simp: uploadBlocks_def jobStopped_def)
next
  case False
  obtain job1 es1 where it: "uploadIter True (Suc i) job = (job1, es1)" by (cases "uploadIter True (Suc i) job")
  have "job' = job1" "es = E_post (Cmd_ftBlock (j_id job) (int i) [] 0) # es1"
    using False assms(2,6) it by (auto simp: uploadBlocks_def)
  then show ?thesis
    using iter_on_way [OF assms(1-3) _ it, of "effs @ [E_post (Cmd_ftBlock (j_id job) (int i) [] 0)]"] assms(4) by simp
qed

lemma rounds_Suc: "rounds (Suc n) = up_round @ rounds n"
  by (simp add: rounds_def)

lemma round_inv: "up_inv fs s \<Longrightarrow> up_inv fs (fold up_step up_round s)"
  by (simp add: up_round_def up_step_inv unsigned_offset_def)

lemma round_at_confirm:
  assumes "driven jid fs (job, effs, ans)" "j_upc job = UP_confirm k None"
  shows "\<exists>job' effs' ans'. fold up_step up_round (job, effs, ans) = (job', effs', ans') \<and>
    driven jid fs (job', effs', ans') \<and> distance fs (j_upc job') < distance fs (j_upc job)"
proof -
  have d: "up_inv fs (job, effs, ans)" "j_files job = fs" "j_id job = jid" "j_status job = JS_running" "k < length fs"
    "\<forall>k c. ans k = Some c \<longrightarrow> c = CF_go False 0"
    using assms by (simp_all add: driven_def up_inv_def)
  define job1 where "job1 = job\<lparr>j_upc := UP_confirm k (Some (CF_go False 0)), j_doneBytes := j_doneBytes job + min 0 (uf_size (fs ! k))\<rparr>"
  obtain job' es where b: "uploadBlocks True k 0 job1 = (job', es)" by (cases "uploadBlocks True k 0 job1")
  have f: "fold up_step up_round (job, effs, ans) = (job', effs @ es, ans(k \<mapsto> CF_go False 0))"
    using assms(2) d b by (simp add: up_round_def up_step_def resolveConfirm_def answered_def resolveSent_def
        uploadResume_def jobStopped_def job1_def Let_def)
  have "driven jid fs (job', effs @ es, ans(k \<mapsto> CF_go False 0))"
    using round_inv [OF d(1)] blocks_on_way [OF _ _ _ _ _ b, of fs jid effs] d(2-6)
    by (simp add: driven_def f job1_def)
  moreover have "distance fs (j_upc job') < distance fs (j_upc job)"
    using blocks_on_way [OF _ _ _ _ _ b, of fs jid effs] d(2-5) assms(2)
    by (simp add: job1_def remaining_Suc uf_size_def)
  ultimately show ?thesis using f by blast
qed

lemma round_at_read:
  assumes "driven jid fs (job, effs, ans)" "j_upc job = UP_read k a b"
  shows "\<exists>job' effs' ans'. fold up_step up_round (job, effs, ans) = (job', effs', ans') \<and>
    driven jid fs (job', effs', ans') \<and> distance fs (j_upc job') < distance fs (j_upc job)"
proof -
  let ?job = "job\<lparr>j_upc := UP_sent k a b None\<rparr>"
  let ?effs = "effs @ [E_post (Cmd_ftBlock (j_id job) (int k) (blob_slice (uf_data (j_files job ! k)) a b) 0)]"
  have d: "up_inv fs (job, effs, ans)" "j_id job = jid" "j_status job = JS_running"
    "\<forall>k c. ans k = Some c \<longrightarrow> c = CF_go False 0"
    using assms by (simp_all add: driven_def)
  have ab: "a < b" "b \<le> uf_size (fs ! k)" using d(1) assms(2) by (auto simp: up_inv_def)
  have f: "fold up_step up_round (job, effs, ans) = (?job, ?effs, ans)"
    using assms(2) by (simp add: up_round_def up_step_def resolveConfirm_def answered_def resolveSent_def uploadResume_def)
  have "driven jid fs (?job, ?effs, ans)" using round_inv [OF d(1)] d(2-4) by (simp add: driven_def f)
  moreover have "distance fs (j_upc ?job) < distance fs (j_upc job)" using assms(2) ab by simp
  ultimately show ?thesis using f by blast
qed

lemma round_at_sent:
  assumes "driven jid fs (job, effs, ans)" "j_upc job = UP_sent k a b None"
  shows "\<exists>job' effs' ans'. fold up_step up_round (job, effs, ans) = (job', effs', ans') \<and>
    driven jid fs (job', effs', ans') \<and> distance fs (j_upc job') < distance fs (j_upc job)"
proof -
  have d: "up_inv fs (job, effs, ans)" "j_files job = fs" "j_id job = jid" "j_status job = JS_running" "k < length fs"
    "\<forall>k c. ans k = Some c \<longrightarrow> c = CF_go False 0" "0 \<le> b"
    using assms by (auto simp: driven_def up_inv_def partial_def)
  define job1 where "job1 = job\<lparr>j_upc := UP_sent k a b (Some 0), j_doneBytes := j_doneBytes job + (b - a)\<rparr>"
  obtain job' es where b: "uploadBlocks True k b job1 = (job', es)" by (cases "uploadBlocks True k b job1")
  have f: "fold up_step up_round (job, effs, ans) = (job', effs @ es, ans)"
    using assms(2) b by (simp add: up_round_def up_step_def resolveConfirm_def answered_def resolveSent_def
        uploadResume_def job1_def Let_def UPLOAD_BACKLOG_LIMIT_def)
  have "driven jid fs (job', effs @ es, ans)"
    using round_inv [OF d(1)] blocks_on_way [OF _ _ _ _ d(7) b, of fs jid effs] d(2-6)
    by (simp add: driven_def f job1_def)
  moreover have "distance fs (j_upc job') < distance fs (j_upc job)"
    using blocks_on_way [OF _ _ _ _ d(7) b, of fs jid effs] d(2-5) assms(2) by (simp add: job1_def)
  ultimately show ?thesis using f by blast
qed

lemma round_progress:
  assumes "driven jid fs (job, effs, ans)" "j_upc job \<noteq> UP_none"
  shows "\<exists>job' effs' ans'. fold up_step up_round (job, effs, ans) = (job', effs', ans') \<and>
    driven jid fs (job', effs', ans') \<and> distance fs (j_upc job') < distance fs (j_upc job)"
proof -
  have "on_way jid (j_upc job) effs (length fs)" using assms(1) by (simp add: driven_def)
  then consider k where "j_upc job = UP_confirm k None" | k a b where "j_upc job = UP_read k a b"
    | k a b where "j_upc job = UP_sent k a b None"
    using assms(2) by (cases "(jid, j_upc job, effs, length fs)" rule: on_way.cases) auto
  then show ?thesis
    using round_at_confirm [OF assms(1)] round_at_read [OF assms(1)] round_at_sent [OF assms(1)] by cases blast+
qed

lemma driven_completes:
  assumes "driven jid fs s"
  shows "\<exists>n job effs ans. fold up_step (rounds n) s = (job, effs, ans) \<and> driven jid fs (job, effs, ans) \<and> j_upc job = UP_none"
  using assms
proof (induction "distance fs (j_upc (fst s))" arbitrary: s rule: less_induct)
  case less
  obtain job effs ans where s: "s = (job, effs, ans)" by (cases s)
  show ?case
  proof (cases "j_upc job = UP_none")
    case True
    then show ?thesis using less.prems s by (intro exI [of _ 0]) (simp add: rounds_def)
  next
    case False
    obtain s' where s': "fold up_step up_round s = s'" "driven jid fs s'" "distance fs (j_upc (fst s')) < distance fs (j_upc job)"
      using round_progress [OF _ False] less.prems s by (metis fst_conv)
    then obtain n job' effs' ans' where "fold up_step (rounds n) s' = (job', effs', ans')"
      "driven jid fs (job', effs', ans')" "j_upc job' = UP_none"
      using less.hyps [of s'] s by auto
    then show ?thesis using s'(1) by (intro exI [of _ "Suc n"]) (simp add: rounds_Suc)
  qed
qed

lemma up_start_driven: "driven jid fs (run_with [] Map.empty (uploadFiles now jid path fs))"
proof -
  let ?s = "uploadFiles now jid path fs"
  obtain job es where it: "uploadIter True 0 (newUploadJob now jid fs) = (job, es)"
    by (cases "uploadIter True 0 (newUploadJob now jid fs)")
  have "on_way jid (j_upc job) ([hd (snd ?s)] @ es) (length fs) \<and> distance fs (j_upc job) \<le> remaining fs 0 \<and>
    j_id job = jid \<and> j_status job = JS_running"
    by (rule iter_on_way [OF _ _ _ _ it]) (simp_all add: newUploadJob_def)
  then show ?thesis using up_start_inv [of fs now jid path] it
    by (simp add: driven_def uploadFiles_def Let_def)
qed

text \<open>
  C26. An upload comes to its end: when the peer confirms each file from its beginning and the
  worker reports each block as sent, a finite number of rounds posts \<open>ftDone\<close>, and by then
  the blocks of every file put together are its contents.
\<close>

theorem upload_completes:
  "\<exists>n. case upload_run now jid path fs (rounds n) of (job, effs, ans) \<Rightarrow>
     E_post (Cmd_ftDone jid (int (length fs))) \<in> set effs \<and>
     (\<forall>k < length fs. concat (blocks k effs) = uf_data (fs ! k) \<and> last (blocks k effs) = [])"
proof -
  obtain n job effs ans where r: "upload_run now jid path fs (rounds n) = (job, effs, ans)"
    "driven jid fs (job, effs, ans)" "j_upc job = UP_none"
    using driven_completes [OF up_start_driven [of jid fs now path]] by (auto simp: upload_run_def)
  then have fin: "E_post (Cmd_ftDone jid (int (length fs))) \<in> set effs" and sane: "sane fs effs ans"
    and ans: "\<forall>k c. ans k = Some c \<longrightarrow> c = CF_go False 0"
    by (simp_all add: driven_def up_inv_def)
  have "concat (blocks k effs) = uf_data (fs ! k) \<and> last (blocks k effs) = []" if "k < length fs" for k
    using sane_done [OF sane that fin] ans by force
  then show ?thesis using r fin by (intro exI [of _ n]) simp
qed

theorem upload_completes_witness:
  "\<exists>n. case upload_run 0 7 [] demo_files (rounds n) of (job, effs, ans) \<Rightarrow>
     E_post (Cmd_ftDone 7 2) \<in> set effs \<and> concat (blocks 0 effs) = [1, 2, 3] \<and> concat (blocks 1 effs) = [4]"
proof -
  obtain n where *: "case upload_run 0 7 [] demo_files (rounds n) of (job, effs, ans) \<Rightarrow>
     E_post (Cmd_ftDone 7 (int (length demo_files))) \<in> set effs \<and>
     (\<forall>k < length demo_files. concat (blocks k effs) = uf_data (demo_files ! k) \<and> last (blocks k effs) = [])"
    using upload_completes [where now = 0 and jid = 7 and path = "[]" and fs = demo_files] by (rule exE)
  have "length demo_files = 2" "uf_data (demo_files ! 0) = [1, 2, 3]" "uf_data (demo_files ! 1) = [4]"
    by (simp_all add: demo_files_def)
  then show ?thesis using * by (intro exI [of _ n]) (simp add: case_prod_beta)
qed

section \<open>One block at a time\<close>

fun is_data :: "effect \<Rightarrow> bool" where
  "is_data (E_post (Cmd_ftBlock _ _ d _)) = (d \<noteq> [])"
| "is_data _ = False"

fun is_report :: "up_event \<Rightarrow> bool" where
  "is_report (UE_sent _) = True"
| "is_report _ = False"

fun unreported :: "upload_pc \<Rightarrow> nat" where
  "unreported (UP_sent _ _ _ None) = 1"
| "unreported _ = 0"

lemma iter_no_data: "filter is_data (snd (uploadIter streaming i job)) = [] \<and> unreported (j_upc (fst (uploadIter streaming i job))) = 0"
  by (simp add: uploadIter_def Let_def)

lemma blocks_no_data:
  "filter is_data (snd (uploadBlocks streaming i off job)) = [] \<and> unreported (j_upc (fst (uploadBlocks streaming i off job))) = 0"
  using iter_no_data [of streaming "Suc i" job] by (simp add: uploadBlocks_def Let_def case_prod_beta)

lemma resume_data:
  "length (filter is_data (snd (uploadResume streaming r job))) + unreported (j_upc job) \<le>
     unreported (j_upc (fst (uploadResume streaming r job)))"
  by (auto simp: uploadResume_def Let_def iter_no_data blocks_no_data
      split: upload_pc.split option.split confirmation.split sum.split)

definition outstanding :: "upload_state \<Rightarrow> nat \<Rightarrow> bool" where
  "outstanding = (\<lambda>(job, effs, ans) n. length (filter is_data effs) \<le> n + unreported (j_upc job))"

lemma outstanding_step:
  assumes "outstanding s n"
  shows "outstanding (up_step ev s) (n + (if is_report ev then 1 else 0))"
proof -
  obtain job effs ans where s: "s = (job, effs, ans)" by (cases s)
  show ?thesis
  proof (cases ev)
    case (UE_resume streaming r)
    then show ?thesis using assms s resume_data [of streaming r job] by (simp add: up_step_def outstanding_def run_with_def)
  qed (use assms s in \<open>auto simp: up_step_def outstanding_def resolveConfirm_def resolveSent_def
         split: upload_pc.split option.split\<close>)
qed

lemma outstanding_run:
  "outstanding s n \<Longrightarrow> outstanding (fold up_step evs s) (n + length (filter is_report evs))"
proof (induction evs arbitrary: s n)
  case (Cons ev evs)
  from Cons.IH [OF outstanding_step [OF Cons.prems, of ev]] show ?case by (simp split: if_splits)
qed simp

text \<open>
  An upload clocks itself by the worker's reports: at any time at most one block more was
  posted than \<open>ftSent\<close> reports came in.
\<close>

theorem upload_self_clocked:
  "length (filter is_data (fst (snd (upload_run now jid path fs evs)))) \<le> Suc (length (filter is_report evs))"
proof -
  have "outstanding (run_with [] Map.empty (uploadFiles now jid path fs)) 0"
    using iter_no_data [of True 0 "newUploadJob now jid fs"]
    by (simp add: outstanding_def run_with_def uploadFiles_def Let_def case_prod_beta)
  then have "outstanding (upload_run now jid path fs evs) (length (filter is_report evs))"
    using outstanding_run [of _ 0 evs] by (simp add: upload_run_def)
  moreover have "unreported pc \<le> 1" for pc by (induction pc rule: unreported.induct) simp_all
  ultimately show ?thesis
    by (fastforce simp: outstanding_def case_prod_beta intro: le_trans)
qed

end
