(* ===== verification/File_Panel.thy ===== *)
theory File_Panel
  imports File_Jobs Step_System
begin

text \<open>
  The state of the class \<open>FilePanel\<close> (\<open>webclient/src/ui/file-panel.ts\<close>) and its handlers: the
  connection of its own worker, the events of the session, browsing and changing the remote
  folder, the local folder, the conflict dialog, and the jobs of \<open>File_Jobs\<close>.

  An operation returns the new panel and its effects; a command is posted only while there is
  a worker. A handler that awaits the browser is cut there: \<open>fp_probing\<close> are the digests whose
  local target is being looked up, and \<open>localListed\<close> ends a directory listing. The rest of
  \<open>onFtDigest\<close> runs when the user's decision is in. A job is the object with its id. What the
  panel shows is in \<open>File_View\<close>, the texts of its log and its toasts are not modelled; \<open>localeCompare\<close> is given as a rank.
\<close>

section \<open>The state\<close>

record PendingConflict =
  cf_job :: int
  cf_name :: jsstr
  cf_ev :: FtDigestEvent

datatype local_kind = LK_file | LK_dir

record LocalEntry =
  le_kind :: local_kind
  le_name :: jsstr
  le_size :: int
  le_modifiedMs :: int
  le_file :: "UploadFile option"

text \<open>What the one dialog element of the panel shows.\<close>

datatype panel_prompt = PR_newFolder | PR_rename FtEntry | PR_delete "FtEntry list"

datatype panel_dialog = DG_conflict | DG_prompt panel_prompt

record FilePanel =
  fp_worker :: bool
  fp_state :: SessionState
  fp_peerLabel :: jsstr
  fp_sep :: "16 word"
  fp_showHidden :: bool
  fp_nextId :: int
  fp_jobs :: "Job list"
  fp_conflicts :: "PendingConflict list"
  fp_conflictOpen :: "PendingConflict option"
  fp_dialog :: "panel_dialog option"
  fp_probing :: "FtDigestEvent list"
  fp_ops :: "int \<rightharpoonup> jsstr \<times> bool"
  fp_remotePath :: jsstr
  fp_remoteEntries :: "FtEntry list"
  fp_remoteSel :: "nat list"
  fp_remoteAnchor :: int
  fp_fsMode :: bool
  fp_dirStack :: "jsstr list"
  fp_localEntries :: "LocalEntry list"
  fp_staged :: "UploadFile list"
  fp_localSel :: "nat list"
  fp_localAnchor :: int
  fp_localListGen :: int

definition newFilePanel :: "bool \<Rightarrow> FilePanel" where
  "newFilePanel fsMode =
     \<lparr>fp_worker = False, fp_state = Closed, fp_peerLabel = [], fp_sep = slash, fp_showHidden = False, fp_nextId = 1,
      fp_jobs = [], fp_conflicts = [], fp_conflictOpen = None, fp_dialog = None, fp_probing = [], fp_ops = Map.empty, fp_remotePath = [],
      fp_remoteEntries = [], fp_remoteSel = [], fp_remoteAnchor = - 1, fp_fsMode = fsMode, fp_dirStack = [],
      fp_localEntries = [], fp_staged = [], fp_localSel = [], fp_localAnchor = - 1, fp_localListGen = 0\<rparr>"

definition panel_post :: "FilePanel \<Rightarrow> UiCommand \<Rightarrow> effect list" where
  "panel_post p c = (if fp_worker p then [E_post c] else [])"

text \<open>The effects of a job: its commands go through \<open>post\<close>.\<close>

fun is_post :: "effect \<Rightarrow> bool" where
  "is_post (E_post _) = True"
| "is_post _ = False"

definition deliver :: "FilePanel \<Rightarrow> effect list \<Rightarrow> effect list" where
  "deliver p effs = filter (\<lambda>e. fp_worker p \<or> \<not> is_post e) effs"

definition jobById :: "int \<Rightarrow> FilePanel \<Rightarrow> Job option" where
  "jobById i p = find (\<lambda>j. j_id j = i) (fp_jobs p)"

definition putJob :: "int \<Rightarrow> Job \<Rightarrow> FilePanel \<Rightarrow> FilePanel" where
  "putJob i job p = p\<lparr>fp_jobs := map (\<lambda>j. if j_id j = i then job else j) (fp_jobs p)\<rparr>"

text \<open>An operation on the job with an id, if there is one.\<close>

definition withJob :: "int \<Rightarrow> (Job \<Rightarrow> Job \<times> effect list) \<Rightarrow> FilePanel \<Rightarrow> FilePanel \<times> effect list" where
  "withJob i f p =
     (case jobById i p of
        None \<Rightarrow> (p, [])
      | Some job \<Rightarrow> (case f job of (job', effs) \<Rightarrow> (putJob i job' p, deliver p effs)))"

definition updJob :: "int \<Rightarrow> (Job \<Rightarrow> Job) \<Rightarrow> FilePanel \<Rightarrow> FilePanel" where
  "updJob i f p = fst (withJob i (\<lambda>job. (f job, [])) p)"

section \<open>Connection\<close>

definition teardown :: "FilePanel \<Rightarrow> FilePanel" where
  "teardown p = p\<lparr>fp_worker := False, fp_jobs := map dropJob (fp_jobs p)\<rparr>"

definition connectIfNeeded :: "SessionConfig option \<Rightarrow> FilePanel \<Rightarrow> FilePanel \<times> effect list" where
  "connectIfNeeded getConfig p =
     (if fp_worker p \<and> fp_state p \<noteq> ErrorState \<and> fp_state p \<noteq> Closed then (p, [])
      else case getConfig of
             None \<Rightarrow> (p, [])
           | Some config \<Rightarrow>
               ((teardown (p\<lparr>fp_peerLabel := peerId config\<rparr>))\<lparr>fp_worker := True, fp_state := Connecting\<rparr>,
                [E_post (Cmd_connectFile config)]))"

definition workerError :: "FilePanel \<Rightarrow> FilePanel" where
  "workerError p = p\<lparr>fp_state := ErrorState\<rparr>"

definition destroy :: "FilePanel \<Rightarrow> FilePanel \<times> effect list" where
  "destroy p = (teardown p, panel_post p Cmd_disconnect)"

section \<open>The remote folder\<close>

definition readRemote :: "jsstr \<Rightarrow> FilePanel \<Rightarrow> effect list" where
  "readRemote path p = (if fp_state p \<noteq> Streaming then [] else panel_post p (Cmd_ftReadDir path (fp_showHidden p)))"

definition remoteUp :: "FilePanel \<Rightarrow> effect list" where
  "remoteUp p =
     (let parent = parentRemote (fp_remotePath p) (fp_sep p)
      in readRemote (if parent = [] \<and> fp_sep p = bslash then [slash] else parent) p)"

text \<open>\<open>/^[a-zA-Z]:/\<close>.\<close>

fun drive_prefix :: "jsstr \<Rightarrow> bool" where
  "drive_prefix (a # b # _) = (is_letter a \<and> b = 58)"
| "drive_prefix _ = False"

text \<open>The comparator orders folders before files and then by name; the sort is stable.\<close>

definition sortEntries :: "(jsstr \<Rightarrow> rat) \<Rightarrow> FtEntry list \<Rightarrow> FtEntry list" where
  "sortEntries rank es =
     sort_key (\<lambda>e. rank (ft_name e)) (filter (\<lambda>e. isDirKind (ft_kind e)) es) @
     sort_key (\<lambda>e. rank (ft_name e)) (filter (\<lambda>e. \<not> isDirKind (ft_kind e)) es)"

definition transferFiles :: "16 word \<Rightarrow> FtEntry list \<Rightarrow> FtEntry list" where
  "transferFiles sep es =
     map (\<lambda>e. e\<lparr>ft_name := (if sep = bslash then map (\<lambda>u. if u = bslash then slash else u) (ft_name e) else ft_name e)\<rparr>) es"

definition onFtDir :: "(jsstr \<Rightarrow> rat) \<Rightarrow> FtDirectory \<Rightarrow> FilePanel \<Rightarrow> FilePanel" where
  "onFtDir rank dir p =
     (if ftd_id dir \<noteq> 0
      then updJob (ftd_id dir) (\<lambda>job.
             if j_kind job = JK_download
             then let fs = transferFiles (fp_sep p) (ftd_entries dir)
                  in job\<lparr>j_remoteFiles := Some fs, j_fileCount := int (length fs), j_totalSize := sum_list (map ft_size fs),
                        j_status := (if fs = [] then j_status job else JS_running)\<rparr>
             else job) p
      else let sep' = (if ftd_path dir = [] then fp_sep p
                       else if bslash \<in> set (ftd_path dir) \<or> drive_prefix (ftd_path dir) then bslash else slash)
           in p\<lparr>fp_sep := sep', fp_remotePath := ftd_path dir,
               fp_remoteEntries := sortEntries rank (filter (\<lambda>e. fp_showHidden p \<or> \<not> ft_isHidden e) (ftd_entries dir)),
               fp_remoteSel := [], fp_remoteAnchor := - 1\<rparr>)"

section \<open>Selection\<close>

text \<open>A click in a list: the selection in insertion order, and the anchor.\<close>

definition click :: "bool \<Rightarrow> bool \<Rightarrow> nat \<Rightarrow> nat list \<times> int \<Rightarrow> nat list \<times> int" where
  "click shift ctrl idx = (\<lambda>(sel, anchor).
     if shift \<and> 0 \<le> anchor then ([min (nat anchor) idx ..< Suc (max (nat anchor) idx)], anchor)
     else if ctrl then (if idx \<in> set sel then removeAll idx sel else sel @ [idx], int idx)
     else ([idx], int idx))"

definition clickRemote :: "bool \<Rightarrow> bool \<Rightarrow> nat \<Rightarrow> FilePanel \<Rightarrow> FilePanel" where
  "clickRemote shift ctrl idx p =
     (case click shift ctrl idx (fp_remoteSel p, fp_remoteAnchor p) of
        (sel, anchor) \<Rightarrow> p\<lparr>fp_remoteSel := sel, fp_remoteAnchor := anchor\<rparr>)"

definition clickLocal :: "bool \<Rightarrow> bool \<Rightarrow> nat \<Rightarrow> FilePanel \<Rightarrow> FilePanel" where
  "clickLocal shift ctrl idx p =
     (case click shift ctrl idx (fp_localSel p, fp_localAnchor p) of
        (sel, anchor) \<Rightarrow> p\<lparr>fp_localSel := sel, fp_localAnchor := anchor\<rparr>)"

definition selected :: "'a list \<Rightarrow> nat list \<Rightarrow> 'a list" where
  "selected xs sel = map (\<lambda>i. xs ! i) (filter (\<lambda>i. i < length xs) sel)"

section \<open>Remote operations\<close>

definition newOp :: "jsstr \<Rightarrow> bool \<Rightarrow> FilePanel \<Rightarrow> FilePanel \<times> int" where
  "newOp desc refresh p =
     (p\<lparr>fp_nextId := fp_nextId p + 1, fp_ops := (fp_ops p)(fp_nextId p \<mapsto> (desc, refresh))\<rparr>, fp_nextId p)"

text \<open>
  The buttons open a dialog, whatever the dialog element shows at the time, and its callback does
  the work.
\<close>

definition newRemoteFolder :: "FilePanel \<Rightarrow> FilePanel" where
  "newRemoteFolder p = (if fp_state p \<noteq> Streaming then p else p\<lparr>fp_dialog := Some (DG_prompt PR_newFolder)\<rparr>)"

definition renameRemote :: "FilePanel \<Rightarrow> FilePanel" where
  "renameRemote p =
     (case fp_remoteSel p of
        [] \<Rightarrow> p
      | i # _ \<Rightarrow>
          if length (fp_remoteEntries p) \<le> i \<or> fp_state p \<noteq> Streaming then p
          else p\<lparr>fp_dialog := Some (DG_prompt (PR_rename (fp_remoteEntries p ! i)))\<rparr>)"

definition deleteRemote :: "FilePanel \<Rightarrow> FilePanel" where
  "deleteRemote p =
     (let entries = selected (fp_remoteEntries p) (fp_remoteSel p)
      in if entries = [] \<or> fp_state p \<noteq> Streaming then p else p\<lparr>fp_dialog := Some (DG_prompt (PR_delete entries))\<rparr>)"

definition createNamed :: "jsstr \<Rightarrow> FilePanel \<Rightarrow> FilePanel \<times> effect list" where
  "createNamed name p =
     (if name = [] then (p, [])
      else case newOp (js ''Create folder \"'' @ name @ js ''\"'') True p of
             (p1, i) \<Rightarrow> (p1, panel_post p1 (Cmd_ftCreateDir i (joinRemote (fp_remotePath p1) name (fp_sep p1)))))"

definition renameTo :: "FtEntry \<Rightarrow> jsstr \<Rightarrow> FilePanel \<Rightarrow> FilePanel \<times> effect list" where
  "renameTo entry name p =
     (if name = [] \<or> name = ft_name entry then (p, [])
      else case newOp (js ''Rename \"'' @ ft_name entry @ js ''\" to \"'' @ name @ js ''\"'') True p of
             (p1, i) \<Rightarrow> (p1, panel_post p1 (Cmd_ftRename i (joinRemote (fp_remotePath p1) (ft_name entry) (fp_sep p1)) name)))"

fun deleteEntries :: "FtEntry list \<Rightarrow> FilePanel \<Rightarrow> FilePanel \<times> effect list" where
  "deleteEntries [] p = (p, [])"
| "deleteEntries (e # es) p =
     (let path = joinRemote (fp_remotePath p) (ft_name e) (fp_sep p) in
      case newOp (js ''Delete \"'' @ ft_name e @ js ''\"'') True p of
        (p1, i) \<Rightarrow>
          (case deleteEntries es p1 of
             (p2, effs) \<Rightarrow>
               (p2, panel_post p1 (if isDirKind (ft_kind e) then Cmd_ftRemoveDir i path else Cmd_ftRemoveFile i path 0) @ effs)))"

text \<open>A button of the prompt: \<open>Some\<close> the text of the input, or \<open>None\<close> for cancel.\<close>

definition answerPrompt :: "jsstr option \<Rightarrow> FilePanel \<Rightarrow> FilePanel \<times> effect list" where
  "answerPrompt answer p =
     (case fp_dialog p of
        Some (DG_prompt pr) \<Rightarrow>
          let p1 = p\<lparr>fp_dialog := None\<rparr> in
          (case answer of
             None \<Rightarrow> (p1, [])
           | Some v \<Rightarrow>
               (case pr of
                  PR_newFolder \<Rightarrow> createNamed (js_trim v) p1
                | PR_rename entry \<Rightarrow> renameTo entry (js_trim v) p1
                | PR_delete entries \<Rightarrow> deleteEntries entries p1))
      | _ \<Rightarrow> (p, []))"

section \<open>The local folder\<close>

definition openLocalFolder :: "jsstr \<Rightarrow> FilePanel \<Rightarrow> FilePanel" where
  "openLocalFolder handle p =
     p\<lparr>fp_dirStack := [handle], fp_localSel := [], fp_localAnchor := - 1, fp_localListGen := fp_localListGen p + 1\<rparr>"

definition localEnter :: "LocalEntry \<Rightarrow> FilePanel \<Rightarrow> FilePanel" where
  "localEnter entry p =
     (if le_kind entry \<noteq> LK_dir then p
      else p\<lparr>fp_dirStack := fp_dirStack p @ [le_name entry], fp_localSel := [], fp_localAnchor := - 1,
            fp_localListGen := fp_localListGen p + 1\<rparr>)"

definition localUp :: "FilePanel \<Rightarrow> FilePanel" where
  "localUp p =
     (if \<not> fp_fsMode p \<or> length (fp_dirStack p) \<le> 1 then p
      else p\<lparr>fp_dirStack := butlast (fp_dirStack p), fp_localSel := [], fp_localAnchor := - 1,
            fp_localListGen := fp_localListGen p + 1\<rparr>)"

text \<open>The end of \<open>refreshLocal\<close> for the listing started as number \<open>gen\<close>.\<close>

definition localListed :: "(jsstr \<Rightarrow> rat) \<Rightarrow> int \<Rightarrow> LocalEntry list \<Rightarrow> FilePanel \<Rightarrow> FilePanel" where
  "localListed rank gen es p =
     (if gen \<noteq> fp_localListGen p then p
      else p\<lparr>fp_localEntries := sort_key (\<lambda>e. rank (le_name e)) (filter (\<lambda>e. le_kind e = LK_dir) es) @
                                sort_key (\<lambda>e. rank (le_name e)) (filter (\<lambda>e. le_kind e = LK_file) es)\<rparr>)"

text \<open>\<open>stageFiles\<close>; \<open>renderLocal\<close> then lists the staged files.\<close>

definition stageFiles :: "UploadFile list \<Rightarrow> FilePanel \<Rightarrow> FilePanel" where
  "stageFiles files p =
     (if fp_fsMode p \<or> files = [] then p
      else let staged = fp_staged p @ files
           in p\<lparr>fp_staged := staged,
               fp_localEntries := map (\<lambda>f. \<lparr>le_kind = LK_file, le_name = uf_rel f, le_size = uf_size f,
                                            le_modifiedMs = uf_lastModified f, le_file = Some f\<rparr>) staged\<rparr>)"

section \<open>Downloads\<close>

definition newDownloadJob :: "int \<Rightarrow> bool \<Rightarrow> int \<Rightarrow> FtEntry \<Rightarrow> Job" where
  "newDownloadJob now destDir jid entry =
     \<lparr>j_id = jid, j_kind = JK_download, j_label = ft_name entry, j_status = JS_starting, j_error = None,
      j_totalSize = (if isDirKind (ft_kind entry) then 0 else ft_size entry), j_doneBytes = 0,
      j_fileCount = (if isDirKind (ft_kind entry) then 0 else 1), j_currentFile = ft_name entry, j_policy = None,
      j_startMs = now, j_lastBytes = 0, j_lastSampleMs = now, j_speedBps = 0, j_remoteFiles = None,
      j_destDir = destDir, j_curFileNum = - 1, j_writable = None, j_memBuf = [], j_chain = [], j_cpc = CP_idle,
      j_files = [], j_upc = UP_none, j_peerDone = False\<rparr>"

fun downloadEntries :: "int \<Rightarrow> bool \<Rightarrow> FtEntry list \<Rightarrow> FilePanel \<Rightarrow> FilePanel \<times> effect list" where
  "downloadEntries now destDir [] p = (p, [])"
| "downloadEntries now destDir (e # es) p =
     (let jid = fp_nextId p;
          p1 = p\<lparr>fp_nextId := jid + 1, fp_jobs := newDownloadJob now destDir jid e # fp_jobs p\<rparr>
      in case downloadEntries now destDir es p1 of
           (p2, effs) \<Rightarrow>
             (p2, panel_post p1 (Cmd_ftSend jid (joinRemote (fp_remotePath p1) (ft_name e) (fp_sep p1)) (fp_showHidden p1) 0) @ effs))"

text \<open>\<open>granted\<close> is the answer of \<open>ensureWritable\<close>.\<close>

definition startDownloadOf :: "int \<Rightarrow> bool \<Rightarrow> FtEntry list \<Rightarrow> FilePanel \<Rightarrow> FilePanel \<times> effect list" where
  "startDownloadOf now granted entries p =
     (if fp_state p \<noteq> Streaming \<or> entries = [] then (p, [])
      else downloadEntries now (fp_fsMode p \<and> fp_dirStack p \<noteq> [] \<and> granted) entries p)"

section \<open>Uploads\<close>

text \<open>The panel's part of \<open>uploadFiles\<close>.\<close>

definition sendFiles :: "int \<Rightarrow> UploadFile list \<Rightarrow> FilePanel \<Rightarrow> FilePanel \<times> effect list" where
  "sendFiles now files p =
     (if fp_state p \<noteq> Streaming \<or> files = [] then (p, [])
      else case uploadFiles now (fp_nextId p) (fp_remotePath p) files of
             (job, effs) \<Rightarrow> (p\<lparr>fp_nextId := fp_nextId p + 1, fp_jobs := job # fp_jobs p\<rparr>, deliver p effs))"

text \<open>A local folder as \<open>values()\<close> lists it; \<open>None\<close> is a file that cannot be read.\<close>

datatype local_node = LN_file jsstr "UploadFile option" | LN_dir jsstr "local_node list"

definition dot_name :: "jsstr \<Rightarrow> bool" where
  "dot_name name = js_startsWith name (js ''.'')"

fun collectDir :: "bool \<Rightarrow> jsstr \<Rightarrow> local_node list \<Rightarrow> UploadFile list" where
  "collectDir hidden prefix [] = []"
| "collectDir hidden prefix (LN_file name f # rest) =
     (if \<not> hidden \<and> dot_name name then []
      else case f of Some f \<Rightarrow> [f\<lparr>uf_rel := prefix @ slash # name\<rparr>] | None \<Rightarrow> []) @ collectDir hidden prefix rest"
| "collectDir hidden prefix (LN_dir name children # rest) =
     (if \<not> hidden \<and> dot_name name then [] else collectDir hidden (prefix @ slash # name) children) @
     collectDir hidden prefix rest"

text \<open>\<open>startUpload\<close>: the browser gives the file, or the contents of the folder, behind an entry.\<close>

definition startUpload ::
  "int \<Rightarrow> (LocalEntry \<Rightarrow> UploadFile option) \<Rightarrow> (LocalEntry \<Rightarrow> local_node list) \<Rightarrow> FilePanel \<Rightarrow> FilePanel \<times> effect list" where
  "startUpload now getFile folder p =
     (if fp_state p \<noteq> Streaming then (p, [])
      else sendFiles now (concat (map (\<lambda>e.
             if le_kind e = LK_file
             then (case (case le_file e of None \<Rightarrow> getFile e | Some f \<Rightarrow> Some f) of
                     Some f \<Rightarrow> [f\<lparr>uf_rel := le_name e\<rparr>] | None \<Rightarrow> [])
             else collectDir (fp_showHidden p) (le_name e) (folder e))
             (selected (fp_localEntries p) (fp_localSel p)))) p)"

section \<open>Conflicts\<close>

definition pumpConflicts :: "FilePanel \<Rightarrow> FilePanel" where
  "pumpConflicts p =
     (case (fp_conflictOpen p, fp_conflicts p) of
        (None, c # cs) \<Rightarrow> p\<lparr>fp_conflictOpen := Some c, fp_conflicts := cs, fp_dialog := Some DG_conflict\<rparr>
      | _ \<Rightarrow> p)"

text \<open>What \<open>onFtDigest\<close> does with a decision.\<close>

definition decided :: "ConflictAction \<Rightarrow> FtDigestEvent \<Rightarrow> FilePanel \<Rightarrow> FilePanel \<times> effect list" where
  "decided action ev =
     withJob (fde_id ev) (\<lambda>job.
       if action = CA_cancel
       then (case cancelJob job of
               (job1, effs) \<Rightarrow> (if j_kind job = JK_upload then resolveConfirm CF_cancelled job1 else job1, effs))
       else (if j_kind job = JK_upload then resolveConfirm (CF_go (action = CA_skip) 0) job else job,
             [E_post (Cmd_ftConfirm (j_id job) (fde_fileNum ev) (action = CA_skip) 0)]))"

definition resolveConflict :: "jsstr \<Rightarrow> FtDigestEvent \<Rightarrow> Job \<Rightarrow> FilePanel \<Rightarrow> FilePanel \<times> effect list" where
  "resolveConflict name ev job p =
     (case j_policy job of
        Some a \<Rightarrow> decided a ev p
      | None \<Rightarrow>
          (pumpConflicts (p\<lparr>fp_conflicts := fp_conflicts p @ [\<lparr>cf_job = j_id job, cf_name = name, cf_ev = ev\<rparr>]\<rparr>), []))"

text \<open>A button of the dialog; a decision for all files becomes the job's policy.\<close>

definition finishConflict :: "ConflictAction \<Rightarrow> bool \<Rightarrow> FilePanel \<Rightarrow> FilePanel \<times> effect list" where
  "finishConflict action applyAll p =
     (case (fp_dialog p, fp_conflictOpen p) of
        (Some DG_conflict, Some c) \<Rightarrow>
          let p1 = pumpConflicts (p\<lparr>fp_conflictOpen := None, fp_dialog := None\<rparr>);
              p2 = (if applyAll \<and> action \<noteq> CA_cancel then updJob (cf_job c) (\<lambda>job. job\<lparr>j_policy := Some action\<rparr>) p1 else p1)
          in decided action (cf_ev c) p2
      | _ \<Rightarrow> (p, []))"

definition onFtDigest :: "FtDigestEvent \<Rightarrow> FilePanel \<Rightarrow> FilePanel \<times> effect list" where
  "onFtDigest ev p =
     (case jobById (fde_id ev) p of
        None \<Rightarrow> (p, [])
      | Some job \<Rightarrow>
          if j_kind job = JK_upload then resolveConflict (uploadFileName job (fde_fileNum ev)) ev job p
          else let job1 = job\<lparr>j_status := JS_running, j_currentFile := remoteName job (fde_fileNum ev)\<rparr>;
                   p1 = putJob (fde_id ev) job1 p
               in if j_destDir job1 then (p1\<lparr>fp_probing := fp_probing p1 @ [ev]\<rparr>, [])
                  else decided CA_overwrite ev p1)"

text \<open>\<open>localTargetExists\<close> answers for the \<open>n\<close>-th digest waiting.\<close>

definition probed :: "nat \<Rightarrow> bool \<Rightarrow> FilePanel \<Rightarrow> FilePanel \<times> effect list" where
  "probed n present p =
     (if length (fp_probing p) \<le> n then (p, [])
      else let ev = fp_probing p ! n;
               p1 = p\<lparr>fp_probing := take n (fp_probing p) @ drop (Suc n) (fp_probing p)\<rparr>
           in case jobById (fde_id ev) p1 of
                None \<Rightarrow> (p1, [])
              | Some job \<Rightarrow>
                  if present then resolveConflict (remoteName job (fde_fileNum ev)) ev job p1
                  else decided CA_overwrite ev p1)"

section \<open>Session events\<close>

definition onFtDone :: "int \<Rightarrow> FilePanel \<Rightarrow> FilePanel \<times> effect list" where
  "onFtDone i p =
     (case fp_ops p i of
        Some (desc, refresh) \<Rightarrow>
          let p1 = p\<lparr>fp_ops := (fp_ops p)(i := None)\<rparr> in (p1, if refresh then readRemote (fp_remotePath p1) p1 else [])
      | None \<Rightarrow>
          withJob i (\<lambda>job.
            if j_kind job = JK_download then (job\<lparr>j_chain := j_chain job @ [CT_done]\<rparr>, [])
            else if j_status job = JS_running \<or> j_status job = JS_starting
            then (job\<lparr>j_peerDone := True, j_status := JS_done\<rparr>, readRemote (fp_remotePath p) p)
            else (job\<lparr>j_peerDone := True\<rparr>, [])) p)"

definition onFtError :: "int \<Rightarrow> jsstr \<Rightarrow> FilePanel \<Rightarrow> FilePanel \<times> effect list" where
  "onFtError i err p =
     (case fp_ops p i of
        Some (desc, refresh) \<Rightarrow>
          let p1 = p\<lparr>fp_ops := (fp_ops p)(i := None)\<rparr> in (p1, if refresh then readRemote (fp_remotePath p1) p1 else [])
      | None \<Rightarrow> (updJob i (failJob err) p, []))"

definition onEvent :: "(jsstr \<Rightarrow> rat) \<Rightarrow> SessionEvent \<Rightarrow> FilePanel \<Rightarrow> FilePanel \<times> effect list" where
  "onEvent rank ev p =
     (case ev of
        Ev_state st detail direct \<Rightarrow>
          let p1 = p\<lparr>fp_state := st\<rparr> in
          if st = Streaming then (p1, if fp_remotePath p1 = [] then readRemote [] p1 else [])
          else if st = ErrorState \<or> st = Closed then (teardown p1, [])
          else (p1, [])
      | Ev_loginError msg \<Rightarrow> ((teardown p)\<lparr>fp_state := ErrorState\<rparr>, [])
      | Ev_ftDir dir \<Rightarrow> (onFtDir rank dir p, [])
      | Ev_ftDigest d \<Rightarrow> onFtDigest d p
      | Ev_ftSendConfirm i n skip off \<Rightarrow> (updJob i (resolveConfirm (CF_go skip off)) p, [])
      | Ev_ftSent i n buffered \<Rightarrow> (updJob i (resolveSent buffered) p, [])
      | Ev_ftBlock i n d blk \<Rightarrow> (updJob i (enqueueBlock n d) p, [])
      | Ev_ftDone i n \<Rightarrow> onFtDone i p
      | Ev_ftError i n err \<Rightarrow> onFtError i err p
      | _ \<Rightarrow> (p, []))"

definition toggleHidden :: "FilePanel \<Rightarrow> FilePanel \<times> effect list" where
  "toggleHidden p =
     (let p1 = p\<lparr>fp_showHidden := \<not> fp_showHidden p\<rparr>
      in (if fp_fsMode p1 \<and> fp_dirStack p1 \<noteq> [] then p1\<lparr>fp_localListGen := fp_localListGen p1 + 1\<rparr> else p1,
          readRemote (fp_remotePath p1) p1))"

section \<open>The coroutines of the jobs\<close>

definition resumeUpload :: "int \<Rightarrow> jsstr + unit \<Rightarrow> FilePanel \<Rightarrow> FilePanel \<times> effect list" where
  "resumeUpload i r p = withJob i (uploadResume (fp_state p = Streaming) r) p"

text \<open>A finished download refreshes the local folder.\<close>

definition resumeChain :: "int \<Rightarrow> jsstr + unit \<Rightarrow> FilePanel \<Rightarrow> FilePanel \<times> effect list" where
  "resumeChain i r p =
     (case withJob i (chainResume r) p of
        (p1, effs) \<Rightarrow>
          (case jobById i p of
             Some job \<Rightarrow>
               (case j_cpc job of
                  CP_done _ \<Rightarrow>
                    if j_status job \<noteq> JS_error \<and> j_status job \<noteq> JS_cancelled \<and> fp_fsMode p \<and> fp_dirStack p \<noteq> []
                    then (p1\<lparr>fp_localListGen := fp_localListGen p1 + 1\<rparr>, effs) else (p1, effs)
                | _ \<Rightarrow> (p1, effs))
           | None \<Rightarrow> (p1, effs)))"

definition tickJobs :: "int \<Rightarrow> FilePanel \<Rightarrow> FilePanel" where
  "tickJobs t p = p\<lparr>fp_jobs := map (tickJob t) (fp_jobs p)\<rparr>"

end
