(* ===== verification/Download_Safety.thy ===== *)
theory Download_Safety
  imports File_Panel
begin

text \<open>
  What the promise chain of a download writes to disk: a committed file is one whole run of
  consecutive blocks, whatever fails or is cancelled meanwhile; the files of an undisturbed
  download are written completely; and files still queued when the user cancels are written
  all the same.
\<close>

section \<open>The chain as a system\<close>

datatype dl_event =
    DL_block int bytes
  | DL_done
  | DL_start
  | DL_resume "jsstr + unit"
  | DL_cancel
  | DL_fail jsstr
  | DL_drop
  | DL_status job_status

text \<open>A run: the job, its effects, and the tasks that were started.\<close>

type_synonym download_state = "Job \<times> effect list \<times> chain_task list"

definition started :: "Job \<Rightarrow> chain_task list" where
  "started job = (case j_cpc job of CP_idle \<Rightarrow> take 1 (j_chain job) | _ \<Rightarrow> [])"

definition dl_step :: "dl_event \<Rightarrow> download_state \<Rightarrow> download_state" where
  "dl_step ev = (\<lambda>(job, effs, tasks).
     case ev of
       DL_block n d \<Rightarrow> (enqueueBlock n d job, effs, tasks)
     | DL_done \<Rightarrow> (job\<lparr>j_chain := j_chain job @ [CT_done]\<rparr>, effs, tasks)
     | DL_start \<Rightarrow> (case chainStart job of (job', es) \<Rightarrow> (job', effs @ es, tasks @ started job))
     | DL_resume r \<Rightarrow> (case chainResume r job of (job', es) \<Rightarrow> (job', effs @ es, tasks))
     | DL_cancel \<Rightarrow> (case cancelJob job of (job', es) \<Rightarrow> (job', effs @ es, tasks))
     | DL_fail err \<Rightarrow> (failJob err job, effs, tasks)
     | DL_drop \<Rightarrow> (dropJob job, effs, tasks)
     | DL_status st \<Rightarrow> (job\<lparr>j_status := st\<rparr>, effs, tasks))"

definition download_run :: "Job \<Rightarrow> dl_event list \<Rightarrow> download_state" where
  "download_run job evs = fold dl_step evs (job, [], [])"

section \<open>Runs of blocks\<close>

text \<open>A new run of file \<open>n\<close> begins after \<open>pre\<close>; a run of it ends before \<open>rest\<close>.\<close>

fun continues :: "int \<Rightarrow> chain_task \<Rightarrow> bool" where
  "continues n (CT_block m d) = (m = n \<and> d \<noteq> [])"
| "continues n CT_done = False"

definition fresh_run :: "chain_task list \<Rightarrow> int \<Rightarrow> bool" where
  "fresh_run pre n \<longleftrightarrow> pre = [] \<or> \<not> continues n (last pre)"

definition ends_run :: "int \<Rightarrow> chain_task list \<Rightarrow> bool" where
  "ends_run n rest \<longleftrightarrow> rest \<noteq> [] \<and> \<not> continues n (hd rest)"

text \<open>\<open>nm\<close> gives the local path of a file.\<close>

definition open_run :: "(int \<Rightarrow> jsstr list) \<Rightarrow> chain_task list \<Rightarrow> int \<Rightarrow> wstream \<Rightarrow> bool" where
  "open_run nm tasks n st \<longleftrightarrow>
     st_errored st \<or>
     (\<exists>pre ds. tasks = pre @ map (CT_block n) ds \<and> fresh_run pre n \<and> [] \<notin> set ds \<and>
        st_path st = nm n \<and> st_data st = concat ds)"

definition whole_run :: "(int \<Rightarrow> jsstr list) \<Rightarrow> chain_task list \<Rightarrow> jsstr list \<Rightarrow> bytes \<Rightarrow> bool" where
  "whole_run nm tasks path d \<longleftrightarrow>
     (\<exists>pre n ds rest. tasks = pre @ map (CT_block n) ds @ rest \<and> fresh_run pre n \<and> [] \<notin> set ds \<and>
        ends_run n rest \<and> path = nm n \<and> d = concat ds)"

definition closing :: "(int \<Rightarrow> jsstr list) \<Rightarrow> chain_task list \<Rightarrow> wstream option \<Rightarrow> bool" where
  "closing nm tasks w \<longleftrightarrow>
     (case w of None \<Rightarrow> True | Some st \<Rightarrow> st_errored st \<or> whole_run nm tasks (st_path st) (st_data st))"

lemma whole_run_append: "whole_run nm tasks path d \<Longrightarrow> whole_run nm (tasks @ ys) path d"
  unfolding whole_run_def ends_run_def by (metis append.assoc append_is_Nil_conv hd_append)

lemma open_run_ends:
  assumes "open_run nm tasks n st" "\<not> continues n t"
  shows "closing nm (tasks @ [t]) (Some st)"
proof (cases "st_errored st")
  case False
  then obtain pre ds where "tasks = pre @ map (CT_block n) ds" "fresh_run pre n" "[] \<notin> set ds"
    "st_path st = nm n" "st_data st = concat ds"
    using assms(1) by (auto simp: open_run_def)
  then have "whole_run nm (tasks @ [t]) (st_path st) (st_data st)"
    unfolding whole_run_def using assms(2)
    by (intro exI [of _ pre] exI [of _ n] exI [of _ ds] exI [of _ "[t]"]) (simp add: ends_run_def)
  then show ?thesis by (simp add: closing_def)
qed (simp add: closing_def)

lemma open_run_more:
  assumes "open_run nm tasks n st" "d \<noteq> []"
  shows "open_run nm (tasks @ [CT_block n d]) n (st\<lparr>st_data := st_data st @ d\<rparr>)"
proof (cases "st_errored st")
  case False
  then obtain pre ds where "tasks = pre @ map (CT_block n) ds" "fresh_run pre n" "[] \<notin> set ds"
    "st_path st = nm n" "st_data st = concat ds"
    using assms(1) by (auto simp: open_run_def)
  then have "tasks @ [CT_block n d] = pre @ map (CT_block n) (ds @ [d]) \<and> fresh_run pre n \<and> [] \<notin> set (ds @ [d]) \<and>
    st_path (st\<lparr>st_data := st_data st @ d\<rparr>) = nm n \<and> st_data (st\<lparr>st_data := st_data st @ d\<rparr>) = concat (ds @ [d])"
    using assms(2) by auto
  then show ?thesis unfolding open_run_def by blast
qed (simp add: open_run_def)

section \<open>The invariant\<close>

definition dl_inv :: "(int \<Rightarrow> jsstr list) \<Rightarrow> download_state \<Rightarrow> bool" where
  "dl_inv nm = (\<lambda>(job, effs, tasks).
     (\<forall>n. local_path (remoteName job n) = nm n) \<and> j_destDir job \<and>
     (\<forall>path d. E_commit path d \<in> set effs \<longrightarrow> whole_run nm tasks path d) \<and>
     (case j_cpc job of
        CP_idle \<Rightarrow>
          (\<forall>n. fresh_run tasks n \<or> n = j_curFileNum job) \<and>
          (case j_writable job of None \<Rightarrow> True | Some st \<Rightarrow> open_run nm tasks (j_curFileNum job) st)
      | CP_write d \<Rightarrow>
          (\<forall>n. fresh_run tasks n \<or> n = j_curFileNum job) \<and>
          (case j_writable job of None \<Rightarrow> True | Some st \<Rightarrow> open_run nm tasks (j_curFileNum job) st)
      | CP_switch w n d \<Rightarrow>
          j_writable job = None \<and> closing nm tasks w \<and> (\<exists>h. tasks = h @ [CT_block n d] \<and> fresh_run h n)
      | CP_create path d \<Rightarrow>
          j_writable job = None \<and> path = nm (j_curFileNum job) \<and>
          (\<exists>h. tasks = h @ [CT_block (j_curFileNum job) d] \<and> fresh_run h (j_curFileNum job))
      | CP_eof w \<Rightarrow> j_writable job = None \<and> closing nm tasks w \<and> (\<forall>n. fresh_run tasks n)
      | CP_done w \<Rightarrow> j_writable job = None \<and> closing nm tasks w \<and> (\<forall>n. fresh_run tasks n)))"

lemma fresh_last [simp]: "fresh_run (h @ [t]) n \<longleftrightarrow> \<not> continues n t"
  by (simp add: fresh_run_def)

lemma fresh_all [simp]: "All (fresh_run (h @ [t])) \<longleftrightarrow> (\<forall>n. \<not> continues n t)"
  using fresh_last by metis

lemma fresh_nil [simp]: "fresh_run [] n"
  by (simp add: fresh_run_def)

lemma closed_commits:
  "closing nm tasks w \<Longrightarrow> E_commit path d \<in> set (closed ok w) \<Longrightarrow> whole_run nm tasks path d"
  by (auto simp: closing_def closed_def split: option.splits if_splits)

text \<open>An abort and changes of the status keep it.\<close>

lemma remoteName_cong: "j_remoteFiles job' = j_remoteFiles job \<Longrightarrow> j_label job' = j_label job \<Longrightarrow> remoteName job' n = remoteName job n"
  by (simp add: remoteName_def split: option.split)

definition calmer :: "Job \<Rightarrow> Job \<Rightarrow> bool" where
  "calmer job job' \<longleftrightarrow>
     j_remoteFiles job' = j_remoteFiles job \<and> j_label job' = j_label job \<and> j_destDir job' = j_destDir job \<and>
     j_cpc job' = j_cpc job \<and> j_curFileNum job' = j_curFileNum job \<and>
     (j_writable job' = j_writable job \<or> j_writable job' = None)"

lemma calmer_inv:
  assumes "dl_inv nm (job, effs, tasks)" "calmer job job'" "\<And>path d. E_commit path d \<notin> set es"
  shows "dl_inv nm (job', effs @ es, tasks)"
proof -
  have "remoteName job' n = remoteName job n" for n using assms(2) by (intro remoteName_cong) (simp_all add: calmer_def)
  then show ?thesis using assms by (auto simp: dl_inv_def calmer_def split: chain_pc.splits option.splits)
qed

lemma calmer_ops:
  "calmer job (enqueueBlock n d job)" "calmer job (job\<lparr>j_chain := ch\<rparr>)" "calmer job (job\<lparr>j_status := st\<rparr>)"
  "calmer job (fst (cancelJob job))" "calmer job (failJob err job)" "calmer job (dropJob job)"
  by (auto simp: calmer_def enqueueBlock_def cancelJob_def failJob_def dropJob_def abortFile_def closeJobFile_def
      resolveConfirm_def resolveSent_def split: upload_pc.split option.split)

section \<open>Each task keeps the invariant\<close>

text \<open>What the invariant says besides the program counter.\<close>

definition dl_base :: "(int \<Rightarrow> jsstr list) \<Rightarrow> Job \<Rightarrow> effect list \<Rightarrow> chain_task list \<Rightarrow> bool" where
  "dl_base nm job effs tasks \<longleftrightarrow>
     (\<forall>n. local_path (remoteName job n) = nm n) \<and> j_destDir job \<and>
     (\<forall>path d. E_commit path d \<in> set effs \<longrightarrow> whole_run nm tasks path d)"

lemma dl_base_job [simp]:
  "dl_base nm (job\<lparr>j_chain := ch\<rparr>) effs tasks = dl_base nm job effs tasks"
  "dl_base nm (job\<lparr>j_writable := w\<rparr>) effs tasks = dl_base nm job effs tasks"
  "dl_base nm (job\<lparr>j_memBuf := m\<rparr>) effs tasks = dl_base nm job effs tasks"
  "dl_base nm (job\<lparr>j_cpc := c\<rparr>) effs tasks = dl_base nm job effs tasks"
  "dl_base nm (job\<lparr>j_doneBytes := b\<rparr>) effs tasks = dl_base nm job effs tasks"
  "dl_base nm (job\<lparr>j_status := st\<rparr>) effs tasks = dl_base nm job effs tasks"
  "dl_base nm (job\<lparr>j_error := er\<rparr>) effs tasks = dl_base nm job effs tasks"
  "dl_base nm (job\<lparr>j_curFileNum := n\<rparr>) effs tasks = dl_base nm job effs tasks"
  "dl_base nm (job\<lparr>j_currentFile := f\<rparr>) effs tasks = dl_base nm job effs tasks"
  by (simp_all add: dl_base_def remoteName_def cong: option.case_cong)

lemma dl_base_effs:
  "dl_base nm job effs tasks \<Longrightarrow> (\<And>path d. E_commit path d \<in> set es \<Longrightarrow> whole_run nm tasks path d) \<Longrightarrow>
    dl_base nm job (effs @ es) tasks"
  by (auto simp: dl_base_def)

lemma dl_base_post [simp]:
  "dl_base nm job (effs @ [E_post c]) tasks = dl_base nm job effs tasks"
  "dl_base nm job (effs @ [E_touch path]) tasks = dl_base nm job effs tasks"
  by (simp_all add: dl_base_def)

lemma dl_base_tasks: "dl_base nm job effs tasks \<Longrightarrow> dl_base nm job effs (tasks @ ys)"
  by (auto simp: dl_base_def whole_run_append)

lemma dl_inv_base: "dl_inv nm (job, effs, tasks) \<longleftrightarrow> dl_base nm job effs tasks \<and>
     (case j_cpc job of
        CP_idle \<Rightarrow>
          (\<forall>n. fresh_run tasks n \<or> n = j_curFileNum job) \<and>
          (case j_writable job of None \<Rightarrow> True | Some st \<Rightarrow> open_run nm tasks (j_curFileNum job) st)
      | CP_write d \<Rightarrow>
          (\<forall>n. fresh_run tasks n \<or> n = j_curFileNum job) \<and>
          (case j_writable job of None \<Rightarrow> True | Some st \<Rightarrow> open_run nm tasks (j_curFileNum job) st)
      | CP_switch w n d \<Rightarrow>
          j_writable job = None \<and> closing nm tasks w \<and> (\<exists>h. tasks = h @ [CT_block n d] \<and> fresh_run h n)
      | CP_create path d \<Rightarrow>
          j_writable job = None \<and> path = nm (j_curFileNum job) \<and>
          (\<exists>h. tasks = h @ [CT_block (j_curFileNum job) d] \<and> fresh_run h (j_curFileNum job))
      | CP_eof w \<Rightarrow> j_writable job = None \<and> closing nm tasks w \<and> (\<forall>n. fresh_run tasks n)
      | CP_done w \<Rightarrow> j_writable job = None \<and> closing nm tasks w \<and> (\<forall>n. fresh_run tasks n))"
  by (auto simp: dl_inv_def dl_base_def split: chain_pc.split)

lemma closeJobFile_folder:
  "j_destDir job \<Longrightarrow> closeJobFile commit job = (job\<lparr>j_writable := None, j_memBuf := []\<rparr>, j_writable job, [])"
  by (simp add: closeJobFile_def)

lemma closing_writable:
  assumes "case w of None \<Rightarrow> True | Some st \<Rightarrow> open_run nm h n st" "\<not> continues n t"
  shows "closing nm (h @ [t]) w"
  using assms open_run_ends [of nm h n _ t] by (cases w) (simp_all add: closing_def)

lemma chainBody_inv:
  assumes base: "dl_base nm job effs (h @ [CT_block n d])" and cur: "j_curFileNum job = n"
    and w: "case j_writable job of None \<Rightarrow> True | Some st \<Rightarrow> open_run nm h n st"
  shows "dl_inv nm (fst (chainBody d job), effs @ snd (chainBody d job), h @ [CT_block n d])"
proof (cases "d = []")
  case True
  have "j_destDir job" using base by (simp add: dl_base_def)
  moreover have "closing nm (h @ [CT_block n []]) (j_writable job)" by (rule closing_writable [OF w]) simp
  ultimately show ?thesis using base True by (simp add: chainBody_def closeJobFile_folder dl_inv_base)
next
  case False
  show ?thesis
  proof (cases "j_writable job")
    case None
    then show ?thesis using base False cur by (simp add: chainBody_def dl_inv_base)
  next
    case (Some st)
    then show ?thesis using base False cur w open_run_more [of nm h n st d]
      by (simp add: chainBody_def dl_inv_base)
  qed
qed

lemma chainStart_inv:
  assumes inv: "dl_inv nm (job, effs, tasks)"
  shows "dl_inv nm (fst (chainStart job), effs @ snd (chainStart job), tasks @ started job)"
proof (cases "j_cpc job = CP_idle \<and> j_chain job \<noteq> []")
  case False
  then have "chainStart job = (job, [])" "started job = []"
    by (auto simp: chainStart_def started_def split: chain_pc.split list.split)
  then show ?thesis using inv by simp
next
  case True
  then obtain t rest where ch: "j_cpc job = CP_idle" "j_chain job = t # rest" by (cases "j_chain job") auto
  then have st: "started job = [t]" by (simp add: started_def)
  have b: "dl_base nm job effs (tasks @ [t])" "j_destDir job" and fr: "\<forall>n. fresh_run tasks n \<or> n = j_curFileNum job"
    and w: "case j_writable job of None \<Rightarrow> True | Some st \<Rightarrow> open_run nm tasks (j_curFileNum job) st"
    using inv ch by (simp_all add: dl_inv_base dl_base_tasks) (simp add: dl_base_def)
  show ?thesis
  proof (cases t)
    case CT_done
    then show ?thesis using ch st b closing_writable [OF w, of CT_done]
      by (simp add: chainStart_def closeJobFile_folder dl_inv_base)
  next
    case (CT_block n d)
    show ?thesis
    proof (cases "j_curFileNum job = n")
      case True
      have "dl_inv nm (fst (chainBody d (job\<lparr>j_chain := rest\<rparr>)), effs @ snd (chainBody d (job\<lparr>j_chain := rest\<rparr>)), tasks @ [CT_block n d])"
        using b(1) w CT_block True by (intro chainBody_inv) auto
      then show ?thesis using ch st CT_block True by (simp add: chainStart_def)
    next
      case False
      then have "closing nm (tasks @ [CT_block n d]) (j_writable job)" "fresh_run tasks n"
        using closing_writable [OF w, of "CT_block n d"] fr by auto
      then show ?thesis using ch st b CT_block False
        by (simp add: chainStart_def closeJobFile_folder dl_inv_base)
    qed
  qed
qed

lemma chainResume_inv:
  assumes inv: "dl_inv nm (job, effs, tasks)"
  shows "dl_inv nm (fst (chainResume r job), effs @ snd (chainResume r job), tasks)"
proof (cases "j_cpc job")
  case CP_idle
  then show ?thesis using inv by (simp add: chainResume_def)
next
  case (CP_switch w n d)
  then have *: "dl_base nm job effs tasks" "j_writable job = None" "closing nm tasks w" "j_destDir job"
    "local_path (remoteName job n) = nm n" "\<exists>h. tasks = h @ [CT_block n d] \<and> fresh_run h n"
    using inv by (simp_all add: dl_inv_base dl_base_def)
  have "dl_base nm job (effs @ closed ok w) tasks" for ok
    using *(1) closed_commits [OF *(3)] by (rule dl_base_effs)
  then show ?thesis using * CP_switch by (simp add: chainResume_def Let_def dl_inv_base)
next
  case (CP_create path d)
  then obtain h where *: "dl_base nm job effs tasks" "j_writable job = None" "path = nm (j_curFileNum job)"
    "tasks = h @ [CT_block (j_curFileNum job) d]" "fresh_run h (j_curFileNum job)"
    using inv by (auto simp: dl_inv_base)
  show ?thesis
  proof (cases r)
    case (Inl err)
    then show ?thesis using * CP_create
      by (simp add: chainResume_def writeFailed_def dl_inv_base dl_base_effs)
  next
    case (Inr u)
    let ?job = "job\<lparr>j_writable := Some \<lparr>st_path = path, st_data = [], st_errored = False\<rparr>\<rparr>"
    have "open_run nm h (j_curFileNum job) \<lparr>st_path = path, st_data = [], st_errored = False\<rparr>"
      unfolding open_run_def using *(3,5) by (intro disjI2 exI [of _ h] exI [of _ "[]"]) simp
    moreover have "dl_base nm ?job (effs @ [E_touch path]) (h @ [CT_block (j_curFileNum job) d])"
      using *(1,4) by (simp add: dl_base_effs)
    ultimately show ?thesis
      using chainBody_inv [of nm ?job "effs @ [E_touch path]" h "j_curFileNum job" d] *(4) Inr CP_create
      by (simp add: chainResume_def Let_def case_prod_beta)
  qed
next
  case (CP_eof w)
  then show ?thesis using inv closed_commits [of nm tasks w]
    by (simp add: chainResume_def Let_def dl_inv_base dl_base_effs)
next
  case (CP_write d)
  then show ?thesis using inv
    by (cases r) (auto simp: chainResume_def writeFailed_def Let_def dl_inv_base dl_base_effs open_run_def
        split: option.splits)
next
  case (CP_done w)
  then show ?thesis using inv closed_commits [of nm tasks w]
    by (simp add: chainResume_def Let_def dl_inv_base dl_base_effs)
qed

lemma dl_step_inv:
  assumes "dl_inv nm s"
  shows "dl_inv nm (dl_step ev s)"
proof -
  obtain job effs tasks where s: "s = (job, effs, tasks)" by (cases s)
  note inv = assms [unfolded s]
  note calm = calmer_inv [OF inv calmer_ops(1), of "[]"] calmer_inv [OF inv calmer_ops(2), of "[]"]
    calmer_inv [OF inv calmer_ops(3), of "[]"] calmer_inv [OF inv calmer_ops(5), of "[]"] calmer_inv [OF inv calmer_ops(6), of "[]"]
  have "E_commit path d \<notin> set (snd (cancelJob job))" for path d by (simp add: cancelJob_def)
  note cancel = calmer_inv [OF inv calmer_ops(4) this]
  show ?thesis using calm cancel chainStart_inv [OF inv] chainResume_inv [OF inv]
    by (cases ev) (simp_all add: dl_step_def s case_prod_beta)
qed

text \<open>A download, into a folder or not, whose file list may have arrived.\<close>

definition downloadOf :: "bool \<Rightarrow> int \<Rightarrow> int \<Rightarrow> FtEntry \<Rightarrow> FtEntry list option \<Rightarrow> Job" where
  "downloadOf dest now jid entry rf = (newDownloadJob now dest jid entry)\<lparr>j_remoteFiles := rf\<rparr>"

interpretation download: invariant_system
  "\<lambda>s. \<exists>now jid entry rf. s = (downloadOf True now jid entry rf, [], []) \<and>
     nm = (\<lambda>n. local_path (remoteName (downloadOf True now jid entry rf) n))" dl_step "dl_inv nm" for nm
proof unfold_locales
  fix s c
  show "\<exists>now jid entry rf. s = (downloadOf True now jid entry rf, [], []) \<and>
     nm = (\<lambda>n. local_path (remoteName (downloadOf True now jid entry rf) n)) \<Longrightarrow> dl_inv nm s"
    by (auto simp: dl_inv_def downloadOf_def newDownloadJob_def)
  show "dl_inv nm s \<Longrightarrow> dl_inv nm (dl_step c s)" by (rule dl_step_inv)
qed

text \<open>
  C13. What a download commits to the local folder is one whole run of the blocks of a file:
  consecutive tasks of the chain, from the first block of the file up to the task that ends
  it (its end-of-file marker, a block of another file, or the peer's \<open>done\<close>), in the order they
  came, under the file's own path. This holds however writes fail and whenever the transfer
  is cancelled, failed, dropped or its status set.
\<close>

theorem download_commits_whole_runs:
  assumes "download_run (downloadOf True now jid entry rf) evs = (job, effs, tasks)" "E_commit path d \<in> set effs"
  shows "\<exists>pre n ds rest. tasks = pre @ map (CT_block n) ds @ rest \<and>
    path = local_path (remoteName (downloadOf True now jid entry rf) n) \<and> d = concat ds \<and> [] \<notin> set ds \<and>
    (pre \<noteq> [] \<longrightarrow> \<not> continues n (last pre)) \<and> rest \<noteq> [] \<and> \<not> continues n (hd rest)"
proof -
  let ?nm = "\<lambda>n. local_path (remoteName (downloadOf True now jid entry rf) n)"
  have "dl_inv ?nm (download_run (downloadOf True now jid entry rf) evs)"
    unfolding download_run_def by (rule download.inv_fold, rule download.inv_init) blast
  then have "whole_run ?nm tasks path d" using assms by (simp add: dl_inv_def)
  then show ?thesis unfolding whole_run_def fresh_run_def ends_run_def by blast
qed

section \<open>An undisturbed download\<close>

text \<open>The next task runs to its end: at most three awaits, all of which succeed.\<close>

definition dl_round :: "dl_event list" where
  "dl_round = [DL_start, DL_resume (Inr ()), DL_resume (Inr ()), DL_resume (Inr ())]"

text \<open>A file is sent as its number with non-empty blocks, then an empty one.\<close>

definition file_tasks :: "int \<times> bytes list \<Rightarrow> chain_task list" where
  "file_tasks = (\<lambda>(n, ds). map (CT_block n) (ds @ [[]]))"

definition arrivals :: "(int \<times> bytes list) list \<Rightarrow> dl_event list" where
  "arrivals files = concat (map (\<lambda>(n, ds). map (DL_block n) (ds @ [[]])) files) @ [DL_done]"

definition file_effects :: "Job \<Rightarrow> int \<times> bytes list \<Rightarrow> effect list" where
  "file_effects job = (\<lambda>(n, ds).
     if j_destDir job
     then [E_touch (local_path (remoteName job n)), E_commit (local_path (remoteName job n)) (concat ds)]
     else [E_save (js_join (js ''_'') (js_split slash (remoteName job n))) (concat ds)])"

definition resting :: "Job \<Rightarrow> Job \<Rightarrow> bool" where
  "resting job0 job \<longleftrightarrow>
     j_remoteFiles job = j_remoteFiles job0 \<and> j_label job = j_label job0 \<and> j_destDir job = j_destDir job0 \<and>
     j_cpc job = CP_idle \<and> j_status job \<noteq> JS_error \<and> j_status job \<noteq> JS_cancelled"

definition between :: "Job \<Rightarrow> Job \<Rightarrow> bool" where
  "between job0 job \<longleftrightarrow> resting job0 job \<and> j_curFileNum job = - 1 \<and> j_writable job = None"

definition inside :: "Job \<Rightarrow> int \<Rightarrow> bytes \<Rightarrow> Job \<Rightarrow> bool" where
  "inside job0 n d job \<longleftrightarrow>
     resting job0 job \<and> j_curFileNum job = n \<and> 0 \<le> n \<and>
     (if j_destDir job0
      then j_writable job = Some \<lparr>st_path = local_path (remoteName job0 n), st_data = d, st_errored = False\<rparr>
      else j_writable job = None \<and> concat (j_memBuf job) = d)"

lemma remoteName_upd [simp]:
  "remoteName (job\<lparr>j_chain := ch\<rparr>) n = remoteName job n" "remoteName (job\<lparr>j_writable := w\<rparr>) n = remoteName job n"
  "remoteName (job\<lparr>j_memBuf := m\<rparr>) n = remoteName job n" "remoteName (job\<lparr>j_cpc := c\<rparr>) n = remoteName job n"
  "remoteName (job\<lparr>j_curFileNum := k\<rparr>) n = remoteName job n" "remoteName (job\<lparr>j_currentFile := f\<rparr>) n = remoteName job n"
  by (rule remoteName_cong; simp)+

lemma resting_name: "resting job0 job \<Longrightarrow> remoteName job n = remoteName job0 n"
  by (intro remoteName_cong) (simp_all add: resting_def)

lemmas round_simps = dl_round_def dl_step_def started_def chainStart_def chainResume_def chainBody_def closeJobFile_def
  closed_def Let_def

definition touched :: "Job \<Rightarrow> int \<Rightarrow> effect list" where
  "touched job n = (if j_destDir job then [E_touch (local_path (remoteName job n))] else [])"

definition written :: "Job \<Rightarrow> int \<Rightarrow> bytes \<Rightarrow> effect list" where
  "written job n d =
     (if j_destDir job then [E_commit (local_path (remoteName job n)) d]
      else [E_save (js_join (js ''_'') (js_split slash (remoteName job n))) d])"

lemma file_effects_alt: "file_effects job (n, ds) = touched job n @ written job n (concat ds)"
  by (simp add: file_effects_def touched_def written_def)

lemma first_block:
  assumes "between job0 job" "j_chain job = CT_block n d # rest" "0 \<le> n" "d \<noteq> []"
  shows "\<exists>job'. fold dl_step dl_round (job, effs, tasks) = (job', effs @ touched job0 n, tasks @ [CT_block n d]) \<and>
    inside job0 n d job' \<and> j_chain job' = rest"
  using assms resting_name [of job0 job n]
  by (auto simp: round_simps between_def inside_def touched_def resting_def)

lemma next_block:
  assumes "inside job0 n a job" "j_chain job = CT_block n d # rest" "d \<noteq> []"
  shows "\<exists>job'. fold dl_step dl_round (job, effs, tasks) = (job', effs, tasks @ [CT_block n d]) \<and>
    inside job0 n (a @ d) job' \<and> j_chain job' = rest"
  using assms by (auto simp: round_simps inside_def resting_def split: if_splits)

lemma last_block:
  assumes "inside job0 n a job" "j_chain job = CT_block n [] # rest"
  shows "\<exists>job'. fold dl_step dl_round (job, effs, tasks) = (job', effs @ written job0 n a, tasks @ [CT_block n []]) \<and>
    between job0 job' \<and> j_chain job' = rest"
  using assms resting_name [of job0 job n]
  by (auto simp: round_simps between_def inside_def written_def resting_def split: if_splits)

lemma empty_file:
  assumes "between job0 job" "j_chain job = CT_block n [] # rest" "0 \<le> n"
  shows "\<exists>job'. fold dl_step dl_round (job, effs, tasks) =
      (job', effs @ touched job0 n @ written job0 n [], tasks @ [CT_block n []]) \<and>
    between job0 job' \<and> j_chain job' = rest"
  using assms resting_name [of job0 job n]
  by (auto simp: round_simps between_def touched_def written_def resting_def)

lemma finish_round:
  assumes "between job0 job" "j_chain job = CT_done # rest"
  shows "\<exists>job'. fold dl_step dl_round (job, effs, tasks) = (job', effs, tasks @ [CT_done]) \<and>
    j_status job' = JS_done \<and> j_chain job' = rest"
  using assms by (auto simp: round_simps between_def resting_def)

definition dl_rounds :: "nat \<Rightarrow> dl_event list" where
  "dl_rounds k = concat (replicate k dl_round)"

lemma dl_rounds_simps [simp]:
  "fold dl_step (dl_rounds 0) s = s" "fold dl_step (dl_rounds (Suc k)) s = fold dl_step (dl_rounds k) (fold dl_step dl_round s)"
  by (simp_all add: dl_rounds_def)

lemma dl_rounds_add: "fold dl_step (dl_rounds (a + b)) s = fold dl_step (dl_rounds b) (fold dl_step (dl_rounds a) s)"
  by (induction a arbitrary: s) simp_all

lemma rest_of_file:
  assumes "inside job0 n a job" "j_chain job = map (CT_block n) (ds @ [[]]) @ rest" "[] \<notin> set ds"
  shows "\<exists>job'. fold dl_step (dl_rounds (Suc (length ds))) (job, effs, tasks) =
      (job', effs @ written job0 n (a @ concat ds), tasks @ map (CT_block n) (ds @ [[]])) \<and>
    between job0 job' \<and> j_chain job' = rest"
  using assms
proof (induction ds arbitrary: a job tasks)
  case Nil
  then show ?case using last_block [of job0 n a job rest effs tasks] by simp
next
  case (Cons d ds)
  obtain job1 where "fold dl_step dl_round (job, effs, tasks) = (job1, effs, tasks @ [CT_block n d])"
    "inside job0 n (a @ d) job1" "j_chain job1 = map (CT_block n) (ds @ [[]]) @ rest"
    using next_block [of job0 n a job d "map (CT_block n) (ds @ [[]]) @ rest" effs tasks] Cons.prems by auto
  then show ?case using Cons.IH [of "a @ d" job1 "tasks @ [CT_block n d]"] Cons.prems(3) by simp
qed

lemma one_file:
  assumes "between job0 job" "j_chain job = file_tasks (n, ds) @ rest" "[] \<notin> set ds" "0 \<le> n"
  shows "\<exists>job'. fold dl_step (dl_rounds (Suc (length ds))) (job, effs, tasks) =
      (job', effs @ file_effects job0 (n, ds), tasks @ file_tasks (n, ds)) \<and>
    between job0 job' \<and> j_chain job' = rest"
proof (cases ds)
  case Nil
  then show ?thesis using empty_file [of job0 job n rest effs tasks] assms
    by (simp add: file_tasks_def file_effects_alt)
next
  case (Cons d ds')
  then obtain job1 where "fold dl_step dl_round (job, effs, tasks) = (job1, effs @ touched job0 n, tasks @ [CT_block n d])"
    "inside job0 n d job1" "j_chain job1 = map (CT_block n) (ds' @ [[]]) @ rest"
    using first_block [of job0 job n d "map (CT_block n) (ds' @ [[]]) @ rest" effs tasks] assms
    by (auto simp: file_tasks_def)
  then show ?thesis
    using rest_of_file [of job0 n d job1 ds' rest "effs @ touched job0 n" "tasks @ [CT_block n d]"] assms(3) Cons
    by (simp add: file_tasks_def file_effects_alt)
qed

definition task_count :: "(int \<times> bytes list) list \<Rightarrow> nat" where
  "task_count files = sum_list (map (\<lambda>(n, ds). Suc (length ds)) files)"

lemma all_files:
  assumes "between job0 job" "j_chain job = concat (map file_tasks files) @ rest"
    and "\<forall>(n, ds) \<in> set files. 0 \<le> n \<and> [] \<notin> set ds"
  shows "\<exists>job'. fold dl_step (dl_rounds (task_count files)) (job, effs, tasks) =
      (job', effs @ concat (map (file_effects job0) files), tasks @ concat (map file_tasks files)) \<and>
    between job0 job' \<and> j_chain job' = rest"
  using assms
proof (induction files arbitrary: job effs tasks)
  case (Cons f files)
  obtain n ds where f: "f = (n, ds)" by (cases f)
  obtain job1 where "fold dl_step (dl_rounds (Suc (length ds))) (job, effs, tasks) =
      (job1, effs @ file_effects job0 f, tasks @ file_tasks f)" "between job0 job1"
    "j_chain job1 = concat (map file_tasks files) @ rest"
    using one_file [of job0 job n ds "concat (map file_tasks files) @ rest" effs tasks] Cons.prems f by auto
  moreover have "task_count (f # files) = Suc (length ds) + task_count files" by (simp add: task_count_def f)
  ultimately show ?case using Cons.IH [of job1 "effs @ file_effects job0 f" "tasks @ file_tasks f"] Cons.prems(3)
    by (simp add: dl_rounds_add del: dl_rounds_simps add_Suc)
qed (simp add: task_count_def)

text \<open>Blocks are queued while the job is live.\<close>

lemma enqueue_all:
  assumes "j_kind job = JK_download" "j_status job \<noteq> JS_cancelled" "j_status job \<noteq> JS_error"
  shows "fold dl_step (map (\<lambda>(n, d). DL_block n d) bs) (job, effs, tasks) =
    (job\<lparr>j_chain := j_chain job @ map (\<lambda>(n, d). CT_block n d) bs\<rparr>, effs, tasks)"
  using assms
  by (induction bs arbitrary: job) (auto simp: dl_step_def enqueueBlock_def)

lemma arrivals_alt:
  "arrivals files = map (\<lambda>(n, d). DL_block n d) (concat (map (\<lambda>(n, ds). map (Pair n) (ds @ [[]])) files)) @ [DL_done]"
  "concat (map file_tasks files) = map (\<lambda>(n, d). CT_block n d) (concat (map (\<lambda>(n, ds). map (Pair n) (ds @ [[]])) files))"
  by (auto simp: arrivals_def file_tasks_def map_concat comp_def intro!: arg_cong [of _ _ concat])

text \<open>
  C27. A download that is not disturbed writes every file: when the blocks of the files arrive,
  each file ended by an empty block, and the browser's operations succeed, the chain has run
  to its end after one round per task, it has created and committed each file with exactly
  the bytes received for it, in order and under its own path (or saved it to the Downloads
  folder when no local folder is open), and the transfer is done.
\<close>

theorem download_writes_every_file:
  assumes "\<forall>(n, ds) \<in> set files. 0 \<le> n \<and> [] \<notin> set ds"
  shows "\<exists>job tasks.
    download_run (downloadOf dest now jid entry rf) (arrivals files @ dl_rounds (Suc (task_count files))) =
      (job, concat (map (file_effects (downloadOf dest now jid entry rf)) files), tasks) \<and> j_status job = JS_done"
proof -
  let ?job0 = "downloadOf dest now jid entry rf"
  let ?job1 = "?job0\<lparr>j_chain := concat (map file_tasks files) @ [CT_done]\<rparr>"
  have start: "fold dl_step (arrivals files) (?job0, [], []) = (?job1, [], [])"
    unfolding arrivals_alt fold_append comp_apply
    by (subst enqueue_all) (simp_all add: dl_step_def downloadOf_def newDownloadJob_def)
  have "between ?job0 ?job1" by (simp add: between_def resting_def downloadOf_def newDownloadJob_def)
  then obtain job2 where "fold dl_step (dl_rounds (task_count files)) (?job1, [], []) =
      (job2, concat (map (file_effects ?job0) files), concat (map file_tasks files))"
    "between ?job0 job2" "j_chain job2 = [CT_done]"
    using all_files [of ?job0 ?job1 files "[CT_done]" "[]" "[]"] assms by auto
  then show ?thesis
    using start finish_round [of ?job0 job2 "[]"] dl_rounds_add [of "task_count files" 1]
    by (fastforce simp: download_run_def simp del: dl_rounds_simps(2) simp add: dl_rounds_def [of "Suc 0"])
qed

section \<open>Examples\<close>

abbreviation demo_entry2 :: FtEntry where
  "demo_entry2 \<equiv> \<lparr>ft_kind = K_dir, ft_name = js ''d'', ft_size = 0, ft_modifiedSec = 0, ft_isHidden = False\<rparr>"

definition demo_list :: "FtEntry list" where
  "demo_list =
     [\<lparr>ft_kind = K_file, ft_name = js ''a'', ft_size = 2, ft_modifiedSec = 0, ft_isHidden = False\<rparr>,
      \<lparr>ft_kind = K_file, ft_name = js ''b'', ft_size = 1, ft_modifiedSec = 0, ft_isHidden = False\<rparr>]"

abbreviation demo_download :: Job where
  "demo_download \<equiv> downloadOf True 0 7 demo_entry2 (Some demo_list)"

lemma demo_effects:
  "file_effects demo_download (0, ds) = [E_touch [js ''a''], E_commit [js ''a''] (concat ds)]"
  "file_effects demo_download (1, ds) = [E_touch [js ''b''], E_commit [js ''b''] (concat ds)]"
  by (simp_all add: file_effects_def local_path_def remoteName_def downloadOf_def newDownloadJob_def demo_list_def at_int_def js_def)

theorem download_writes_every_file_witness:
  "\<exists>job tasks. download_run demo_download (arrivals [(0, [[1], [2]]), (1, [])] @ dl_rounds 5) =
     (job, [E_touch [js ''a''], E_commit [js ''a''] [1, 2], E_touch [js ''b''], E_commit [js ''b''] []], tasks) \<and>
     j_status job = JS_done"
proof -
  have "\<forall>(n, ds) \<in> set [(0 :: int, [[1 :: byte], [2]]), (1, [])]. 0 \<le> n \<and> [] \<notin> set ds" by simp
  from download_writes_every_file [OF this, of True 0 7 demo_entry2 "Some demo_list"] show ?thesis
    by (simp add: demo_effects task_count_def eval_nat_numeral del: dl_rounds_simps)
qed

text \<open>Both files are queued; the user cancels while the first is written.\<close>

definition demo_cancel :: "dl_event list" where
  "demo_cancel =
     arrivals [(0, [[1], [2]]), (1, [[3]])] @
     [DL_start, DL_resume (Inr ()), DL_resume (Inr ()), DL_resume (Inr ()), DL_cancel] @ dl_rounds 5"

lemma five_rounds: "dl_rounds 5 = dl_round @ dl_round @ dl_round @ dl_round @ dl_round"
  by (simp add: dl_rounds_def eval_nat_numeral)

lemma demo_cancelled:
  "\<exists>job. download_run demo_download demo_cancel =
     (job, [E_touch [js ''a''], E_post (Cmd_ftCancel 7), E_touch [js ''b''], E_commit [js ''b''] [3]],
      [CT_block 0 [1], CT_block 0 [2], CT_block 0 [], CT_block 1 [3], CT_block 1 [], CT_done]) \<and> j_status job = JS_cancelled"
  by (simp add: download_run_def demo_cancel_def arrivals_def five_rounds
      round_simps enqueueBlock_def cancelJob_def abortFile_def resolveConfirm_def resolveSent_def
      downloadOf_def newDownloadJob_def isDirKind_def remoteName_def demo_list_def at_int_def local_path_def js_def)

text \<open>
  A cancelled download goes on writing: the file under way is aborted, but a later file whose
  blocks were queued when the user cancelled is created and committed although the transfer
  is cancelled and the peer was told so.
\<close>

theorem cancelled_download_commits:
  "\<exists>job effs tasks. download_run demo_download demo_cancel = (job, effs, tasks) \<and>
     effs = [E_touch [js ''a''], E_post (Cmd_ftCancel 7), E_touch [js ''b''], E_commit [js ''b''] [3]] \<and>
     j_status job = JS_cancelled"
  using demo_cancelled by blast

theorem download_commits_whole_runs_witness:
  "\<exists>job effs tasks. download_run demo_download demo_cancel = (job, effs, tasks) \<and> E_commit [js ''b''] [3] \<in> set effs \<and>
     (\<exists>pre n ds rest. tasks = pre @ map (CT_block n) ds @ rest \<and> [3] = concat ds \<and> rest \<noteq> [] \<and> \<not> continues n (hd rest))"
proof -
  obtain job effs tasks where run: "download_run demo_download demo_cancel = (job, effs, tasks)"
    and c: "E_commit [js ''b''] [3] \<in> set effs" using demo_cancelled by auto
  from download_commits_whole_runs [OF run c] show ?thesis using run c by blast
qed

end
