(* ===== verification/File_Panel_Safety.thy ===== *)
theory File_Panel_Safety
  imports File_Panel
begin

text \<open>
  What the file panel keeps through every sequence of session events, user actions and
  settled promises: ids name one job or one operation, no conflict waits behind a closed
  dialog, and an existing file is replaced only with consent. Also how a cancelled download
  comes back.
\<close>

section \<open>The panel as a system\<close>

datatype (plugins only: size) panel_input =
    PC_event "jsstr \<Rightarrow> rat" SessionEvent
  | PC_open "SessionConfig option"
  | PC_workerError
  | PC_destroy
  | PC_navigate jsstr
  | PC_up
  | PC_toggleHidden
  | PC_clickRemote bool bool nat
  | PC_clickLocal bool bool nat
  | PC_newFolder
  | PC_rename
  | PC_delete
  | PC_answer "jsstr option"
  | PC_openLocal jsstr
  | PC_localEnter LocalEntry
  | PC_localUp
  | PC_localListed "jsstr \<Rightarrow> rat" int "LocalEntry list"
  | PC_stage "UploadFile list"
  | PC_download int bool "FtEntry list"
  | PC_send int "UploadFile list"
  | PC_sendSelected int "LocalEntry \<Rightarrow> UploadFile option" "LocalEntry \<Rightarrow> local_node list"
  | PC_finish ConflictAction bool
  | PC_probed nat bool
  | PC_cancel int
  | PC_resumeUpload int "jsstr + unit"
  | PC_startChain int
  | PC_resumeChain int "jsstr + unit"
  | PC_tick int

definition panel_call :: "panel_input \<Rightarrow> FilePanel \<Rightarrow> FilePanel \<times> effect list" where
  "panel_call c p =
     (case c of
        PC_event rank ev \<Rightarrow> onEvent rank ev p
      | PC_open cfg \<Rightarrow> connectIfNeeded cfg p
      | PC_workerError \<Rightarrow> (workerError p, [])
      | PC_destroy \<Rightarrow> destroy p
      | PC_navigate path \<Rightarrow> (p, readRemote path p)
      | PC_up \<Rightarrow> (p, remoteUp p)
      | PC_toggleHidden \<Rightarrow> toggleHidden p
      | PC_clickRemote shift ctrl i \<Rightarrow> (clickRemote shift ctrl i p, [])
      | PC_clickLocal shift ctrl i \<Rightarrow> (clickLocal shift ctrl i p, [])
      | PC_newFolder \<Rightarrow> (newRemoteFolder p, [])
      | PC_rename \<Rightarrow> (renameRemote p, [])
      | PC_delete \<Rightarrow> (deleteRemote p, [])
      | PC_answer v \<Rightarrow> answerPrompt v p
      | PC_openLocal h \<Rightarrow> (openLocalFolder h p, [])
      | PC_localEnter e \<Rightarrow> (localEnter e p, [])
      | PC_localUp \<Rightarrow> (localUp p, [])
      | PC_localListed rank gen es \<Rightarrow> (localListed rank gen es p, [])
      | PC_stage fs \<Rightarrow> (stageFiles fs p, [])
      | PC_download now granted es \<Rightarrow> startDownloadOf now granted es p
      | PC_send now fs \<Rightarrow> sendFiles now fs p
      | PC_sendSelected now get folder \<Rightarrow> startUpload now get folder p
      | PC_finish a all \<Rightarrow> finishConflict a all p
      | PC_probed n present \<Rightarrow> probed n present p
      | PC_cancel i \<Rightarrow> withJob i cancelJob p
      | PC_resumeUpload i r \<Rightarrow> resumeUpload i r p
      | PC_startChain i \<Rightarrow> withJob i chainStart p
      | PC_resumeChain i r \<Rightarrow> resumeChain i r p
      | PC_tick t \<Rightarrow> (tickJobs t p, []))"

definition panel_step :: "panel_input \<Rightarrow> FilePanel \<times> effect list \<Rightarrow> FilePanel \<times> effect list" where
  "panel_step c = (\<lambda>(p, effs). case panel_call c p of (p', es) \<Rightarrow> (p', effs @ es))"

section \<open>Operations on jobs\<close>

text \<open>A job's id and its policy for conflicts are not changed by what it does.\<close>

definition label_of :: "Job \<Rightarrow> int \<times> ConflictAction option" where
  "label_of job = (j_id job, j_policy job)"

lemma label_ops [simp]:
  "label_of (resolveConfirm c job) = label_of job" "label_of (resolveSent n job) = label_of job"
  "label_of (abortFile job) = label_of job"
  by (simp_all add: label_of_def resolveConfirm_def resolveSent_def abortFile_def closeJobFile_def
      split: upload_pc.split option.split)

lemma label_setters [simp]:
  "label_of (job\<lparr>j_status := st\<rparr>) = label_of job" "label_of (job\<lparr>j_error := e\<rparr>) = label_of job"
  "label_of (job\<lparr>j_chain := ch\<rparr>) = label_of job" "label_of (job\<lparr>j_currentFile := cf\<rparr>) = label_of job"
  "label_of (job\<lparr>j_peerDone := b\<rparr>) = label_of job" "label_of (job\<lparr>j_upc := u\<rparr>) = label_of job"
  "label_of (job\<lparr>j_doneBytes := n\<rparr>) = label_of job" "label_of (job\<lparr>j_cpc := cp\<rparr>) = label_of job"
  "label_of (job\<lparr>j_writable := w\<rparr>) = label_of job" "label_of (job\<lparr>j_memBuf := m\<rparr>) = label_of job"
  "label_of (job\<lparr>j_curFileNum := n\<rparr>) = label_of job" "label_of (job\<lparr>j_remoteFiles := rf\<rparr>) = label_of job"
  "label_of (job\<lparr>j_fileCount := n\<rparr>) = label_of job" "label_of (job\<lparr>j_totalSize := n\<rparr>) = label_of job"
  "label_of (job\<lparr>j_speedBps := v\<rparr>) = label_of job" "label_of (job\<lparr>j_lastBytes := n\<rparr>) = label_of job"
  "label_of (job\<lparr>j_lastSampleMs := n\<rparr>) = label_of job"
  by (simp_all add: label_of_def)

lemma label_job_ops [simp]:
  "label_of (fst (cancelJob job)) = label_of job" "label_of (dropJob job) = label_of job"
  "label_of (failJob err job) = label_of job" "label_of (enqueueBlock n d job) = label_of job"
  "label_of (tickJob t job) = label_of job"
  by (simp_all add: cancelJob_def dropJob_def failJob_def enqueueBlock_def tickJob_def Let_def)

lemma label_iter [simp]: "label_of (fst (uploadIter streaming i job)) = label_of job"
  by (simp add: uploadIter_def Let_def)

lemma label_blocks [simp]: "label_of (fst (uploadBlocks streaming i off job)) = label_of job"
  by (simp add: uploadBlocks_def Let_def case_prod_beta)

lemma label_uploadResume [simp]: "label_of (fst (uploadResume streaming r job)) = label_of job"
  by (simp add: uploadResume_def Let_def split: upload_pc.split option.split confirmation.split sum.split)

lemma label_chainBody [simp]: "label_of (fst (chainBody d job)) = label_of job"
  by (simp add: chainBody_def closeJobFile_def split: option.split)

lemma label_chainStart [simp]: "label_of (fst (chainStart job)) = label_of job"
  by (simp add: chainStart_def closeJobFile_def Let_def split: chain_pc.split list.split chain_task.split)

lemma label_chainResume [simp]: "label_of (fst (chainResume r job)) = label_of job"
  by (simp add: chainResume_def writeFailed_def Let_def case_prod_beta split: chain_pc.split sum.split)

lemma label_id: "label_of job' = label_of job \<Longrightarrow> j_id job' = j_id job"
  by (simp add: label_of_def)

section \<open>What an operation on one job leaves alone\<close>

lemma jobById_id: "jobById i p = Some job \<Longrightarrow> j_id job = i"
  by (auto simp: jobById_def find_Some_iff)

lemma jobById_in: "jobById i p = Some job \<Longrightarrow> job \<in> set (fp_jobs p)"
  by (auto simp: jobById_def find_Some_iff)

lemma withJob_frame [simp]:
  "fp_ops (fst (withJob i f p)) = fp_ops p" "fp_nextId (fst (withJob i f p)) = fp_nextId p"
  "fp_conflicts (fst (withJob i f p)) = fp_conflicts p" "fp_conflictOpen (fst (withJob i f p)) = fp_conflictOpen p"
  "fp_dialog (fst (withJob i f p)) = fp_dialog p" "fp_probing (fst (withJob i f p)) = fp_probing p" "fp_worker (fst (withJob i f p)) = fp_worker p"
  by (simp_all add: withJob_def putJob_def case_prod_beta split: option.split)

lemma putJob_ids:
  "j_id job = i \<Longrightarrow> map j_id (fp_jobs (putJob i job p)) = map j_id (fp_jobs p)"
  by (auto simp: putJob_def)

lemma withJob_ids:
  assumes "\<And>job. j_id (fst (f job)) = j_id job"
  shows "map j_id (fp_jobs (fst (withJob i f p))) = map j_id (fp_jobs p)"
proof (cases "jobById i p")
  case (Some job)
  then have "j_id (fst (f job)) = i" using assms jobById_id by metis
  then show ?thesis using Some by (simp add: withJob_def case_prod_beta putJob_ids)
qed (simp add: withJob_def)

text \<open>The ids in use, and what refers to them.\<close>

definition fresh_from :: "int \<Rightarrow> int list \<Rightarrow> int set \<Rightarrow> bool" where
  "fresh_from n ids D \<longleftrightarrow> distinct ids \<and> (\<forall>i \<in> set ids \<union> D. 0 < i \<and> i < n) \<and> set ids \<inter> D = {} \<and> 0 < n"

definition ids_ok :: "FilePanel \<Rightarrow> bool" where
  "ids_ok p \<longleftrightarrow> fresh_from (fp_nextId p) (map j_id (fp_jobs p)) (dom (fp_ops p))"

lemma fresh_subset: "fresh_from n ids D \<Longrightarrow> E \<subseteq> D \<Longrightarrow> fresh_from n ids E"
  unfolding fresh_from_def by blast

lemma fresh_next:
  assumes "fresh_from n ids D"
  shows "fresh_from (n + 1) ids (insert n D)" "fresh_from (n + 1) (n # ids) D"
proof -
  have "n \<notin> set ids" "n \<notin> D" using assms by (auto simp: fresh_from_def)
  then show "fresh_from (n + 1) ids (insert n D)" "fresh_from (n + 1) (n # ids) D"
    using assms unfolding fresh_from_def by (auto intro: less_imp_le)
qed

definition dialogs_ok :: "FilePanel \<Rightarrow> bool" where
  "dialogs_ok p \<longleftrightarrow> (fp_conflictOpen p = None \<longrightarrow> fp_conflicts p = [])"

definition panel_ok :: "FilePanel \<Rightarrow> bool" where
  "panel_ok p \<longleftrightarrow> ids_ok p \<and> dialogs_ok p"

text \<open>Most operations keep the ids, drop operations at most, and leave the dialog alone.\<close>

definition quiet :: "FilePanel \<Rightarrow> FilePanel \<Rightarrow> bool" where
  "quiet p p' \<longleftrightarrow>
     map j_id (fp_jobs p') = map j_id (fp_jobs p) \<and> dom (fp_ops p') \<subseteq> dom (fp_ops p) \<and>
     fp_nextId p' = fp_nextId p \<and> fp_conflicts p' = fp_conflicts p \<and> fp_conflictOpen p' = fp_conflictOpen p \<and>
     fp_dialog p' = fp_dialog p"

lemma ok_dialog [simp]: "panel_ok (p\<lparr>fp_dialog := d\<rparr>) = panel_ok p"
  by (simp add: panel_ok_def ids_ok_def dialogs_ok_def)

lemma quiet_ok:
  assumes "quiet p p'" "panel_ok p"
  shows "panel_ok p'"
proof -
  have eq: "map j_id (fp_jobs p') = map j_id (fp_jobs p)" "fp_nextId p' = fp_nextId p" "fp_conflicts p' = fp_conflicts p"
    "fp_conflictOpen p' = fp_conflictOpen p" and sub: "dom (fp_ops p') \<subseteq> dom (fp_ops p)"
    using assms(1) by (simp_all add: quiet_def)
  show ?thesis using assms(2) sub unfolding panel_ok_def ids_ok_def dialogs_ok_def eq by (blast intro: fresh_subset)
qed

lemma quiet_refl [simp]: "quiet p p"
  by (simp add: quiet_def)

lemma quiet_trans: "quiet p q \<Longrightarrow> quiet q r \<Longrightarrow> quiet p r"
  unfolding quiet_def by (metis subset_trans)

lemma quiet_withJob:
  assumes "\<And>job. label_of (fst (f job)) = label_of job"
  shows "quiet p (fst (withJob i f p))"
proof -
  have "map j_id (fp_jobs (fst (withJob i f p))) = map j_id (fp_jobs p)"
    by (rule withJob_ids) (rule label_id [OF assms])
  then show ?thesis by (simp add: quiet_def)
qed

lemma quiet_updJob: "(\<And>job. label_of (f job) = label_of job) \<Longrightarrow> quiet p (updJob i f p)"
  by (simp add: updJob_def quiet_withJob)

lemma quiet_policy: "quiet p (updJob i (\<lambda>job. job\<lparr>j_policy := a\<rparr>) p)"
  by (simp add: quiet_def updJob_def withJob_ids)

lemma quiet_map_jobs:
  assumes "\<And>job. label_of (f job) = label_of job"
  shows "quiet p (p\<lparr>fp_jobs := map f (fp_jobs p)\<rparr>)"
  by (simp add: quiet_def label_id [OF assms])

lemma quiet_teardown [simp]: "quiet p (teardown q) = quiet p q"
  by (simp add: quiet_def teardown_def comp_def label_id [OF label_job_ops(2)])

lemma quiet_decided: "quiet p (fst (decided a ev p))"
  unfolding decided_def by (rule quiet_withJob) (simp add: case_prod_beta)

lemma quiet_setters [simp]:
  "quiet p (q\<lparr>fp_state := st\<rparr>) = quiet p q" "quiet p (q\<lparr>fp_worker := w\<rparr>) = quiet p q"
  "quiet p (q\<lparr>fp_probing := evs\<rparr>) = quiet p q" "quiet p (q\<lparr>fp_localListGen := n\<rparr>) = quiet p q"
  "quiet (p\<lparr>fp_state := st\<rparr>) q = quiet p q" "quiet (p\<lparr>fp_peerLabel := l\<rparr>) q = quiet p q"
  "quiet (p\<lparr>fp_probing := evs\<rparr>) q = quiet p q" "quiet p (q\<lparr>fp_peerLabel := l\<rparr>) = quiet p q"
  by (simp_all add: quiet_def)

section \<open>Every call keeps the invariant\<close>

lemma pump_ok: "ids_ok p \<Longrightarrow> panel_ok (pumpConflicts p)"
  by (auto simp: pumpConflicts_def panel_ok_def ids_ok_def dialogs_ok_def split: option.split list.split)

lemma resolveConflict_ok: "panel_ok p \<Longrightarrow> panel_ok (fst (resolveConflict name ev job p))"
proof (cases "j_policy job")
  case None
  assume "panel_ok p"
  then have "ids_ok (p\<lparr>fp_conflicts := fp_conflicts p @ [\<lparr>cf_job = j_id job, cf_name = name, cf_ev = ev\<rparr>]\<rparr>)"
    by (simp add: panel_ok_def ids_ok_def)
  then show ?thesis using None by (simp add: resolveConflict_def pump_ok)
qed (simp add: resolveConflict_def quiet_ok [OF quiet_decided])

text \<open>Finishing a conflict, or nothing when the dialog does not show one.\<close>

definition unasked :: "FilePanel \<Rightarrow> FilePanel" where
  "unasked p = pumpConflicts (p\<lparr>fp_conflictOpen := None, fp_dialog := None\<rparr>)"

lemma finish_cases:
  obtains "finishConflict a all p = (p, [])" "fp_dialog p \<noteq> Some DG_conflict \<or> fp_conflictOpen p = None"
  | c where "fp_dialog p = Some DG_conflict" "fp_conflictOpen p = Some c"
      "finishConflict a all p = decided a (cf_ev c)
         (if all \<and> a \<noteq> CA_cancel then updJob (cf_job c) (\<lambda>job. job\<lparr>j_policy := Some a\<rparr>) (unasked p) else unasked p)"
proof (cases "fp_dialog p = Some DG_conflict \<and> fp_conflictOpen p \<noteq> None")
  case True
  then show ?thesis using that(2) by (auto simp: finishConflict_def unasked_def Let_def)
next
  case False
  then have "finishConflict a all p = (p, [])"
    by (auto simp: finishConflict_def split: option.split panel_dialog.split)
  then show ?thesis using that(1) False by blast
qed

lemma unasked_ok: "panel_ok p \<Longrightarrow> panel_ok (unasked p)"
  unfolding unasked_def by (intro pump_ok) (simp add: panel_ok_def ids_ok_def)

lemma finishConflict_ok:
  assumes "panel_ok p"
  shows "panel_ok (fst (finishConflict a all p))"
proof (cases rule: finish_cases [of a all p])
  case (2 c)
  then show ?thesis using unasked_ok [OF assms]
    by (simp add: quiet_ok [OF quiet_decided] quiet_ok [OF quiet_policy])
qed (simp add: assms)

lemma quiet_putJob: "j_id job = i \<Longrightarrow> quiet p (putJob i job p)"
  by (simp add: quiet_def putJob_ids) (simp add: putJob_def)

lemma onFtDigest_ok:
  assumes "panel_ok p"
  shows "panel_ok (fst (onFtDigest ev p))"
proof (cases "jobById (fde_id ev) p")
  case (Some job)
  let ?job = "job\<lparr>j_status := JS_running, j_currentFile := remoteName job (fde_fileNum ev)\<rparr>"
  let ?p = "putJob (fde_id ev) ?job p"
  have q: "quiet p ?p" using jobById_id [OF Some] by (intro quiet_putJob) simp
  then have "panel_ok (?p\<lparr>fp_probing := evs\<rparr>)" "panel_ok (fst (decided CA_overwrite ev ?p))" for evs
    using assms by (auto intro: quiet_ok quiet_trans [OF q quiet_decided])
  then show ?thesis using Some assms by (simp add: onFtDigest_def Let_def resolveConflict_ok)
qed (simp add: onFtDigest_def assms)

lemma probed_ok:
  assumes "panel_ok p"
  shows "panel_ok (fst (probed n present p))"
proof -
  let ?p = "p\<lparr>fp_probing := take n (fp_probing p) @ drop (Suc n) (fp_probing p)\<rparr>"
  have "panel_ok ?p" by (rule quiet_ok [OF _ assms]) simp
  then show ?thesis using assms
    by (auto simp: probed_def Let_def resolveConflict_ok quiet_ok [OF quiet_decided] split: option.split)
qed

lemma quiet_done: "quiet p (fst (onFtDone i p))"
proof (cases "fp_ops p i")
  case None
  then show ?thesis by (simp add: onFtDone_def) (rule quiet_withJob, simp)
next
  case (Some op)
  then show ?thesis by (cases op) (simp add: onFtDone_def Let_def quiet_def)
qed

lemma quiet_error: "quiet p (fst (onFtError i err p))"
proof (cases "fp_ops p i")
  case None
  then show ?thesis by (simp add: onFtError_def quiet_updJob)
next
  case (Some op)
  then show ?thesis by (cases op) (simp add: onFtError_def Let_def quiet_def)
qed

lemma quiet_dir: "quiet p (onFtDir rank dir p)"
proof (cases "ftd_id dir = 0")
  case False
  then show ?thesis by (simp add: onFtDir_def) (rule quiet_updJob, simp add: Let_def)
qed (simp add: onFtDir_def Let_def quiet_def)

lemma onEvent_ok: "panel_ok p \<Longrightarrow> panel_ok (fst (onEvent rank ev p))"
proof (cases ev)
  case (Ev_ftDigest d)
  assume "panel_ok p"
  then show ?thesis by (simp add: Ev_ftDigest onEvent_def onFtDigest_ok)
qed (auto simp: onEvent_def Let_def quiet_done quiet_error quiet_dir quiet_updJob
    elim!: quiet_ok [rotated])

text \<open>A fresh id.\<close>

lemma newOp_ok: "panel_ok p \<Longrightarrow> panel_ok (fst (newOp desc refresh p))"
  by (simp add: newOp_def panel_ok_def ids_ok_def dialogs_ok_def fresh_next)

lemma newJob_ok:
  "panel_ok p \<Longrightarrow> j_id job = fp_nextId p \<Longrightarrow>
    panel_ok (p\<lparr>fp_nextId := fp_nextId p + 1, fp_jobs := job # fp_jobs p\<rparr>)"
  by (simp add: panel_ok_def ids_ok_def dialogs_ok_def fresh_next)

lemma deleteEntries_ok: "panel_ok p \<Longrightarrow> panel_ok (fst (deleteEntries es p))"
  by (induction es arbitrary: p) (simp_all add: Let_def case_prod_beta newOp_ok)

lemma answerPrompt_ok: "panel_ok p \<Longrightarrow> panel_ok (fst (answerPrompt v p))"
  by (simp add: answerPrompt_def createNamed_def renameTo_def case_prod_beta newOp_ok deleteEntries_ok Let_def
      split: option.split panel_dialog.split panel_prompt.split)

lemma openers_ok: "panel_ok p \<Longrightarrow> panel_ok (newRemoteFolder p) \<and> panel_ok (renameRemote p) \<and> panel_ok (deleteRemote p)"
  by (simp add: newRemoteFolder_def renameRemote_def deleteRemote_def Let_def split: list.split)

lemma downloadEntries_ok: "panel_ok p \<Longrightarrow> panel_ok (fst (downloadEntries now dest es p))"
proof (induction es arbitrary: p)
  case (Cons e es)
  have "panel_ok (p\<lparr>fp_nextId := fp_nextId p + 1, fp_jobs := newDownloadJob now dest (fp_nextId p) e # fp_jobs p\<rparr>)"
    by (rule newJob_ok [OF Cons.prems]) (simp add: newDownloadJob_def)
  then show ?case using Cons.IH by (simp add: Let_def case_prod_beta)
qed simp

lemma sendFiles_ok: "panel_ok p \<Longrightarrow> panel_ok (fst (sendFiles now fs p))"
proof -
  assume ok: "panel_ok p"
  have "j_id (fst (uploadFiles now (fp_nextId p) (fp_remotePath p) fs)) = fp_nextId p"
    by (simp add: uploadFiles_def Let_def case_prod_beta label_id [OF label_iter]) (simp add: newUploadJob_def)
  then show ?thesis using ok newJob_ok [OF ok] by (simp add: sendFiles_def case_prod_beta)
qed

lemma quiet_views:
  "quiet p (workerError p)" "quiet p (fst (toggleHidden p))" "quiet p (clickRemote shift ctrl k p)"
  "quiet p (clickLocal shift ctrl k p)" "quiet p (openLocalFolder h p)" "quiet p (localEnter e p)" "quiet p (localUp p)"
  "quiet p (localListed rank gen es p)" "quiet p (stageFiles fs p)"
  by (simp_all add: quiet_def workerError_def toggleHidden_def clickRemote_def clickLocal_def openLocalFolder_def
      localEnter_def localUp_def localListed_def stageFiles_def Let_def case_prod_beta)

lemma panel_call_ok:
  assumes "panel_ok p"
  shows "panel_ok (fst (panel_call c p))"
proof (cases c)
  case (PC_open cfg)
  then show ?thesis
    by (auto simp: panel_call_def connectIfNeeded_def assms split: option.split intro!: quiet_ok [OF _ assms])
next
  case (PC_resumeUpload i r)
  then show ?thesis by (auto simp: panel_call_def resumeUpload_def intro!: quiet_ok [OF quiet_withJob assms])
next
  case (PC_resumeChain i r)
  have "quiet p (fst (withJob i (chainResume r) p))" by (rule quiet_withJob) simp
  then show ?thesis
    by (auto simp: PC_resumeChain panel_call_def resumeChain_def case_prod_beta
        split: option.split chain_pc.split intro!: quiet_ok [OF _ assms])
next
  case (PC_cancel i)
  then show ?thesis by (auto simp: panel_call_def intro!: quiet_ok [OF quiet_withJob assms])
next
  case (PC_startChain i)
  then show ?thesis by (auto simp: panel_call_def intro!: quiet_ok [OF quiet_withJob assms])
next
  case (PC_tick t)
  then show ?thesis by (auto simp: panel_call_def tickJobs_def intro!: quiet_ok [OF quiet_map_jobs assms])
qed (use assms in \<open>simp_all add: panel_call_def onEvent_ok openers_ok answerPrompt_ok sendFiles_ok startUpload_def
    startDownloadOf_def downloadEntries_ok finishConflict_ok probed_ok destroy_def quiet_ok [of p] quiet_views [THEN quiet_ok]\<close>)

abbreviation panel_start :: "FilePanel \<times> effect list \<Rightarrow> bool" where
  "panel_start s \<equiv> \<exists>fsMode. s = (newFilePanel fsMode, [])"

abbreviation panel_reach :: "FilePanel \<times> effect list \<Rightarrow> bool" where
  "panel_reach \<equiv> reach panel_start panel_step"

interpretation panel: invariant_system panel_start panel_step "\<lambda>s. panel_ok (fst s)"
proof unfold_locales
  fix s c
  show "panel_start s \<Longrightarrow> panel_ok (fst s)"
    by (auto simp: newFilePanel_def panel_ok_def ids_ok_def dialogs_ok_def fresh_from_def)
  show "panel_ok (fst s) \<Longrightarrow> panel_ok (fst (panel_step c s))"
    by (simp add: panel_step_def case_prod_beta panel_call_ok)
qed

lemma reach_ok: "panel_reach (p, effs) \<Longrightarrow> panel_ok p"
  using panel.inv_reach [of "(p, effs)"] by simp

section \<open>Events reach one transfer\<close>

fun addressee :: "SessionEvent \<Rightarrow> int option" where
  "addressee (Ev_ftDir d) = Some (ftd_id d)"
| "addressee (Ev_ftDigest d) = Some (fde_id d)"
| "addressee (Ev_ftSendConfirm i _ _ _) = Some i"
| "addressee (Ev_ftSent i _ _) = Some i"
| "addressee (Ev_ftBlock i _ _ _) = Some i"
| "addressee (Ev_ftDone i _) = Some i"
| "addressee (Ev_ftError i _ _) = Some i"
| "addressee _ = None"

lemma find_map_other:
  "k \<noteq> i \<Longrightarrow> j_id job = i \<Longrightarrow> find (\<lambda>j. j_id j = k) (map (\<lambda>j. if j_id j = i then job else j) xs) = find (\<lambda>j. j_id j = k) xs"
  by (induction xs) auto

lemma find_map_same:
  "j_id job = i \<Longrightarrow> find (\<lambda>j. j_id j = i) (map (\<lambda>j. if j_id j = i then job else j) xs) =
    map_option (\<lambda>_. job) (find (\<lambda>j. j_id j = i) xs)"
  by (induction xs) auto

lemma jobById_putJob:
  "j_id job = i \<Longrightarrow> jobById k (putJob i job p) = (if k = i then map_option (\<lambda>_. job) (jobById i p) else jobById k p)"
  by (simp add: jobById_def putJob_def find_map_other find_map_same)

lemma jobById_frame [simp]:
  "jobById k (p\<lparr>fp_probing := evs\<rparr>) = jobById k p" "jobById k (p\<lparr>fp_conflicts := cs\<rparr>) = jobById k p"
  "jobById k (p\<lparr>fp_conflictOpen := co\<rparr>) = jobById k p" "jobById k (p\<lparr>fp_dialog := dg\<rparr>) = jobById k p" "jobById k (p\<lparr>fp_ops := os\<rparr>) = jobById k p"
  "jobById k (p\<lparr>fp_localListGen := n\<rparr>) = jobById k p" "jobById k (p\<lparr>fp_state := st\<rparr>) = jobById k p"
  "jobById k (p\<lparr>fp_worker := w\<rparr>) = jobById k p" "jobById k (p\<lparr>fp_peerLabel := l\<rparr>) = jobById k p"
  "jobById k (pumpConflicts p) = jobById k p"
  by (simp_all add: jobById_def pumpConflicts_def split: option.split list.split)

lemma jobById_withJob:
  assumes "\<And>job. label_of (fst (f job)) = label_of job"
  shows "jobById k (fst (withJob i f p)) =
    (if k = i then map_option (\<lambda>job. fst (f job)) (jobById i p) else jobById k p)"
proof (cases "jobById i p")
  case (Some job)
  then have "j_id (fst (f job)) = i" using jobById_id label_id [OF assms] by metis
  then show ?thesis using Some by (simp add: withJob_def case_prod_beta jobById_putJob)
qed (auto simp: withJob_def)

lemma label_decide [simp]:
  "label_of (fst (if a = CA_cancel
       then (case cancelJob job of
               (job1, effs) \<Rightarrow> (if j_kind job = JK_upload then resolveConfirm CF_cancelled job1 else job1, effs))
       else (if j_kind job = JK_upload then resolveConfirm (CF_go (a = CA_skip) 0) job else job,
             [E_post (Cmd_ftConfirm (j_id job) n (a = CA_skip) 0)]))) = label_of job"
  by (simp add: case_prod_beta)

lemma jobById_decided: "k \<noteq> fde_id ev \<Longrightarrow> jobById k (fst (decided a ev p)) = jobById k p"
  unfolding decided_def by (subst jobById_withJob) simp_all

lemma jobById_resolve: "k \<noteq> fde_id ev \<Longrightarrow> jobById k (fst (resolveConflict name ev job p)) = jobById k p"
  by (simp add: resolveConflict_def jobById_decided split: option.split)

lemma jobById_digest:
  assumes "k \<noteq> fde_id ev"
  shows "jobById k (fst (onFtDigest ev p)) = jobById k p"
proof (cases "jobById (fde_id ev) p")
  case (Some job)
  then have "j_id (job\<lparr>j_status := JS_running, j_currentFile := cf\<rparr>) = fde_id ev" for cf
    by (simp add: jobById_id)
  from jobById_putJob [OF this, of k] show ?thesis
    using Some assms by (simp add: onFtDigest_def Let_def jobById_decided jobById_resolve)
qed (simp add: onFtDigest_def)

lemma jobById_updJob:
  assumes "\<And>job. label_of (f job) = label_of job"
  shows "jobById k (updJob i f p) = (if k = i then map_option f (jobById i p) else jobById k p)"
  unfolding updJob_def by (subst jobById_withJob) (simp_all add: assms)

lemma jobById_dir: "k \<noteq> ftd_id dir \<Longrightarrow> jobById k (onFtDir rank dir p) = jobById k p"
proof (cases "ftd_id dir = 0")
  case False
  assume k: "k \<noteq> ftd_id dir"
  show ?thesis unfolding onFtDir_def using False k by (simp, subst jobById_updJob) (simp_all add: Let_def)
qed (simp add: onFtDir_def jobById_def Let_def)

lemma jobById_done: "k \<noteq> i \<Longrightarrow> jobById k (fst (onFtDone i p)) = jobById k p"
  by (cases "fp_ops p i") (auto simp: onFtDone_def Let_def jobById_withJob)

lemma jobById_error: "k \<noteq> i \<Longrightarrow> jobById k (fst (onFtError i err p)) = jobById k p"
  unfolding onFtError_def by (auto simp: Let_def jobById_updJob split: option.split)

text \<open>
  C35. In every reachable panel no two transfers and no pending file operation share an id, so a
  message of the peer about a transfer changes no other transfer.
\<close>

theorem events_reach_one_transfer:
  assumes "panel_reach (p, effs)"
  shows "distinct (map j_id (fp_jobs p)) \<and> set (map j_id (fp_jobs p)) \<inter> dom (fp_ops p) = {} \<and>
    (addressee ev = Some i \<and> k \<noteq> i \<longrightarrow> jobById k (fst (onEvent rank ev p)) = jobById k p)"
proof -
  have "jobById k (fst (onEvent rank ev p)) = jobById k p" if "addressee ev = Some i" "k \<noteq> i"
    using that by (cases ev) (auto simp: onEvent_def jobById_digest jobById_dir jobById_updJob jobById_done jobById_error)
  then show ?thesis using reach_ok [OF assms] by (simp add: panel_ok_def ids_ok_def fresh_from_def)
qed

section \<open>The conflict dialog\<close>

text \<open>The conflicts the user has still to decide, the one shown first.\<close>

definition pending :: "FilePanel \<Rightarrow> PendingConflict list" where
  "pending p = (case fp_conflictOpen p of None \<Rightarrow> [] | Some c \<Rightarrow> [c]) @ fp_conflicts p"

lemma quiet_pending: "quiet p p' \<Longrightarrow> pending p' = pending p"
  by (simp add: quiet_def pending_def)

lemma pump_pending: "pending (pumpConflicts p) = pending p"
  by (simp add: pending_def pumpConflicts_def split: option.split list.split)

lemma resolve_pending:
  assumes "panel_ok p"
  shows "pending (fst (resolveConflict name ev job p)) = pending p \<or>
    (\<exists>x. pending (fst (resolveConflict name ev job p)) = pending p @ [x])"
proof (cases "j_policy job")
  case None
  then show ?thesis by (simp add: resolveConflict_def pump_pending) (simp add: pending_def)
qed (simp add: resolveConflict_def quiet_pending [OF quiet_decided])

lemma digest_pending:
  assumes "panel_ok p"
  shows "pending (fst (onFtDigest ev p)) = pending p \<or> (\<exists>x. pending (fst (onFtDigest ev p)) = pending p @ [x])"
proof (cases "jobById (fde_id ev) p")
  case (Some job)
  have "pending (putJob i job' q) = pending q" "pending (q\<lparr>fp_probing := evs\<rparr>) = pending q" for i job' q evs
    by (simp_all add: pending_def putJob_def)
  then show ?thesis using Some resolve_pending [OF assms]
    by (simp add: onFtDigest_def Let_def quiet_pending [OF quiet_decided])
qed (simp add: onFtDigest_def)

lemma probed_pending:
  assumes "panel_ok p"
  shows "pending (fst (probed n present p)) = pending p \<or> (\<exists>x. pending (fst (probed n present p)) = pending p @ [x])"
proof -
  let ?p = "p\<lparr>fp_probing := take n (fp_probing p) @ drop (Suc n) (fp_probing p)\<rparr>"
  have "panel_ok ?p" by (rule quiet_ok [OF _ assms]) simp
  moreover have "pending ?p = pending p" by (simp add: pending_def)
  ultimately show ?thesis using resolve_pending [of ?p]
    by (auto simp: probed_def Let_def quiet_pending [OF quiet_decided] split: option.split)
qed

lemma finish_pending:
  assumes "panel_ok p"
  shows "pending (fst (finishConflict a all p)) = (if fp_dialog p = Some DG_conflict then tl (pending p) else pending p)"
proof (cases rule: finish_cases [of a all p])
  case 1
  then show ?thesis using assms by (auto simp: pending_def panel_ok_def dialogs_ok_def)
next
  case (2 c)
  have "pending (unasked p) = tl (pending p)" by (simp add: unasked_def pump_pending) (simp add: pending_def 2)
  then show ?thesis using 2 by (simp add: quiet_pending [OF quiet_decided] quiet_pending [OF quiet_policy])
qed

lemma event_pending:
  assumes "panel_ok p"
  shows "pending (fst (onEvent rank ev p)) = pending p \<or> (\<exists>x. pending (fst (onEvent rank ev p)) = pending p @ [x])"
proof (cases ev)
  case (Ev_ftDigest d)
  then show ?thesis using digest_pending [OF assms] by (simp add: onEvent_def)
qed (auto simp: onEvent_def Let_def quiet_done quiet_error quiet_dir quiet_updJob intro!: disjI1 quiet_pending)

lemma ops_pending:
  "pending (newRemoteFolder p) = pending p" "pending (renameRemote p) = pending p" "pending (deleteRemote p) = pending p"
  "pending (fst (sendFiles now fs p)) = pending p"
  by (simp_all add: pending_def newRemoteFolder_def renameRemote_def deleteRemote_def sendFiles_def case_prod_beta Let_def
      split: list.split)

lemma list_ops_pending:
  "pending (fst (deleteEntries es p)) = pending p" "pending (fst (downloadEntries now dest es p)) = pending p"
proof (induction es arbitrary: p)
  case (Cons e es)
  { case 1 show ?case using Cons(1) by (simp add: Let_def case_prod_beta newOp_def) (simp add: pending_def) }
  { case 2 show ?case using Cons(2) by (simp add: Let_def case_prod_beta) (simp add: pending_def) }
qed simp_all

lemma answer_pending: "pending (fst (answerPrompt v p)) = pending p"
proof -
  have "pending (q\<lparr>fp_dialog := None\<rparr>) = pending q" "pending (fst (newOp desc refresh q)) = pending q" for q desc refresh
    by (simp_all add: pending_def newOp_def)
  then show ?thesis
    by (simp add: answerPrompt_def createNamed_def renameTo_def list_ops_pending case_prod_beta Let_def
        split: option.split panel_dialog.split panel_prompt.split)
qed

lemma chain_pending: "pending (fst (resumeChain i r p)) = pending p"
proof -
  have "quiet p (fst (withJob i (chainResume r) p))" by (rule quiet_withJob) simp
  then show ?thesis
    by (auto simp: resumeChain_def case_prod_beta split: option.split chain_pc.split intro!: quiet_pending)
qed

lemma step_pending:
  assumes "panel_ok p"
  shows "case c of
      PC_finish _ _ \<Rightarrow> pending (fst (panel_call c p)) = (if fp_dialog p = Some DG_conflict then tl (pending p) else pending p)
    | _ \<Rightarrow> pending (fst (panel_call c p)) = pending p \<or> (\<exists>x. pending (fst (panel_call c p)) = pending p @ [x])"
  using finish_pending [OF assms] event_pending [OF assms] probed_pending [OF assms]
  by (cases c)
    (auto simp: panel_call_def ops_pending list_ops_pending chain_pending answer_pending startUpload_def startDownloadOf_def
      destroy_def resumeUpload_def tickJobs_def connectIfNeeded_def quiet_views quiet_withJob quiet_map_jobs
      split: option.split intro!: quiet_pending)

text \<open>
  C34. The conflict dialog serves its conflicts first come first served and loses none: in every
  reachable panel the first undecided conflict, if there is one, is the one that was opened, a
  decision in its dialog removes exactly that one, and every other call leaves the conflicts as they are or adds one
  at the end.
\<close>

theorem conflict_dialog_is_fifo:
  assumes "panel_reach (p, effs)"
  shows "fp_conflictOpen p = (case pending p of [] \<Rightarrow> None | x # _ \<Rightarrow> Some x) \<and>
    (case c of
       PC_finish _ _ \<Rightarrow> pending (fst (panel_call c p)) = (if fp_dialog p = Some DG_conflict then tl (pending p) else pending p)
     | _ \<Rightarrow> pending (fst (panel_call c p)) = pending p \<or> (\<exists>x. pending (fst (panel_call c p)) = pending p @ [x]))"
proof
  show "fp_conflictOpen p = (case pending p of [] \<Rightarrow> None | x # _ \<Rightarrow> Some x)"
    using reach_ok [OF assms] by (simp add: panel_ok_def dialogs_ok_def pending_def split: option.split)
qed (rule step_pending [OF reach_ok [OF assms]])

section \<open>Existing files\<close>

fun is_confirm :: "effect \<Rightarrow> bool" where
  "is_confirm (E_post (Cmd_ftConfirm _ _ _ _)) = True"
| "is_confirm _ = False"

definition mute :: "effect list \<Rightarrow> bool" where
  "mute es \<longleftrightarrow> (\<forall>e \<in> set es. \<not> is_confirm e)"

lemma mute_simps [simp]: "mute []" "mute (e # es) = (\<not> is_confirm e \<and> mute es)" "mute (xs @ ys) = (mute xs \<and> mute ys)"
  by (auto simp: mute_def)

lemma mute_post [simp]: "\<not> is_confirm (E_post c) \<Longrightarrow> mute (panel_post p c)"
  by (simp add: panel_post_def)

lemma mute_deliver: "mute es \<Longrightarrow> mute (deliver p es)"
  by (simp add: mute_def deliver_def)

lemma mute_withJob: "(\<And>job. mute (snd (f job))) \<Longrightarrow> mute (snd (withJob i f p))"
  by (simp add: withJob_def case_prod_beta mute_deliver split: option.split)

lemma mute_read [simp]: "mute (readRemote path p)" "mute (remoteUp p)"
  by (simp_all add: readRemote_def remoteUp_def Let_def)

lemma mute_iter [simp]: "mute (snd (uploadIter streaming i job))"
  by (simp add: uploadIter_def Let_def)

lemma mute_blocks [simp]: "mute (snd (uploadBlocks streaming i off job))"
  by (simp add: uploadBlocks_def Let_def case_prod_beta)

lemma mute_resume [simp]: "mute (snd (uploadResume streaming r job))"
  by (simp add: uploadResume_def Let_def split: upload_pc.split option.split confirmation.split sum.split)

lemma mute_closed [simp]: "mute (closed ok w)" "mute (snd (snd (closeJobFile commit job)))" "mute (snd (cancelJob job))"
  by (simp_all add: closed_def closeJobFile_def cancelJob_def split: option.split)

lemma mute_chainBody [simp]: "mute (snd (chainBody d job))"
  by (simp add: chainBody_def case_prod_beta split: option.split)

lemma mute_chain [simp]: "mute (snd (chainStart job))" "mute (snd (chainResume r job))"
  by (simp_all add: chainStart_def chainResume_def writeFailed_def Let_def case_prod_beta
      split: chain_pc.split list.split chain_task.split sum.split)

lemma mute_start [simp]: "mute (snd (uploadFiles now i path fs))"
  by (simp add: uploadFiles_def Let_def case_prod_beta)

lemma mute_lists [simp]: "mute (snd (deleteEntries es p))" "mute (snd (downloadEntries now dest es p))"
  by (induction es arbitrary: p) (simp_all add: Let_def case_prod_beta)

lemma mute_resumeChain: "mute (snd (resumeChain i r p))"
proof -
  have "mute (snd (withJob i (chainResume r) p))" by (rule mute_withJob) simp
  then show ?thesis by (simp add: resumeChain_def case_prod_beta split: option.split chain_pc.split)
qed

lemma mute_done: "mute (snd (onFtDone i p))"
proof (cases "fp_ops p i")
  case None
  then show ?thesis by (simp add: onFtDone_def) (rule mute_withJob, simp)
qed (auto simp: onFtDone_def Let_def)

text \<open>The calls that may confirm a file.\<close>

lemma mute_call:
  assumes "\<And>d rank. c \<noteq> PC_event rank (Ev_ftDigest d)" "\<And>n b. c \<noteq> PC_probed n b" "\<And>a b. c \<noteq> PC_finish a b"
  shows "mute (snd (panel_call c p))"
proof (cases c)
  case (PC_event rank ev)
  then show ?thesis using assms(1) mute_done
    by (cases ev) (auto simp: panel_call_def onEvent_def onFtError_def Let_def split: option.split)
qed (use assms in \<open>auto simp: panel_call_def connectIfNeeded_def destroy_def toggleHidden_def createNamed_def
      renameTo_def answerPrompt_def startDownloadOf_def startUpload_def sendFiles_def resumeUpload_def mute_resumeChain
      Let_def case_prod_beta mute_deliver split: option.split panel_dialog.split panel_prompt.split intro!: mute_withJob\<close>)

lemma decided_confirm:
  assumes "E_post (Cmd_ftConfirm i n False 0) \<in> set (snd (decided a ev p))"
  shows "a = CA_overwrite \<and> fde_id ev = i \<and> fde_fileNum ev = n"
proof (cases "jobById (fde_id ev) p")
  case (Some job)
  have "E_post (Cmd_ftConfirm i n False 0) \<notin> set (snd (cancelJob job))"
    using mute_closed(3) [of job] by (force simp: mute_def)
  then show ?thesis using assms Some jobById_id [OF Some]
    by (cases a) (auto simp: decided_def withJob_def deliver_def case_prod_beta split: if_splits)
qed (use assms in \<open>simp add: decided_def withJob_def\<close>)

lemma resolve_confirm:
  assumes "E_post (Cmd_ftConfirm i n False 0) \<in> set (snd (resolveConflict name ev job p))"
  shows "j_policy job = Some CA_overwrite \<and> fde_id ev = i \<and> fde_fileNum ev = n"
  using assms by (auto simp: resolveConflict_def dest: decided_confirm split: option.splits)

text \<open>How a policy comes about.\<close>

definition policy_of :: "FilePanel \<Rightarrow> int \<Rightarrow> ConflictAction option option" where
  "policy_of p i = map_option j_policy (jobById i p)"

lemma policy_withJob:
  assumes "\<And>job. label_of (fst (f job)) = label_of job"
  shows "policy_of (fst (withJob i f p)) = policy_of p"
proof
  fix k
  have "j_policy (fst (f job)) = j_policy job" for job using assms [of job] by (simp add: label_of_def)
  then show "policy_of (fst (withJob i f p)) k = policy_of p k"
    by (simp add: policy_of_def jobById_withJob [OF assms] option.map_comp comp_def)
qed

lemma policy_elsewhere:
  "k \<noteq> i \<Longrightarrow> jobById k (updJob i (\<lambda>job. job\<lparr>j_policy := a\<rparr>) p) = jobById k p"
  by (auto simp: updJob_def withJob_def jobById_putJob jobById_id split: option.split)

text \<open>No job has come to overwrite everything.\<close>

definition no_new_policy :: "FilePanel \<Rightarrow> FilePanel \<Rightarrow> bool" where
  "no_new_policy p p' \<longleftrightarrow> (\<forall>i. policy_of p' i = Some (Some CA_overwrite) \<longrightarrow> policy_of p i = Some (Some CA_overwrite))"

lemma no_new_refl [simp]: "no_new_policy p p"
  by (simp add: no_new_policy_def)

lemma no_new_trans: "no_new_policy p q \<Longrightarrow> no_new_policy q r \<Longrightarrow> no_new_policy p r"
  by (simp add: no_new_policy_def)

lemma no_new_jobs: "fp_jobs p' = fp_jobs p \<Longrightarrow> no_new_policy p p'"
  by (simp add: no_new_policy_def policy_of_def jobById_def)

lemma no_new_withJob: "(\<And>job. label_of (fst (f job)) = label_of job) \<Longrightarrow> no_new_policy p (fst (withJob i f p))"
  by (simp add: no_new_policy_def policy_withJob)

lemma no_new_updJob: "(\<And>job. label_of (f job) = label_of job) \<Longrightarrow> no_new_policy p (updJob i f p)"
  by (simp add: updJob_def no_new_withJob)

lemma find_map_label:
  assumes "\<And>job. label_of (f job) = label_of job"
  shows "map_option j_policy (find (\<lambda>j. j_id j = i) (map f xs)) = map_option j_policy (find (\<lambda>j. j_id j = i) xs)"
proof (induction xs)
  case (Cons x xs)
  have "j_id (f x) = j_id x" "j_policy (f x) = j_policy x" using assms [of x] by (simp_all add: label_of_def)
  then show ?case using Cons by simp
qed simp

lemma no_new_map: "(\<And>job. label_of (f job) = label_of job) \<Longrightarrow> fp_jobs p' = map f (fp_jobs p) \<Longrightarrow> no_new_policy p p'"
  by (simp add: no_new_policy_def policy_of_def jobById_def find_map_label)

lemma no_new_cons:
  "j_policy job = None \<Longrightarrow> fp_jobs p' = job # fp_jobs p \<Longrightarrow> no_new_policy p p'"
  by (simp add: no_new_policy_def policy_of_def jobById_def)

lemma no_new_putJob:
  "jobById i p = Some job \<Longrightarrow> label_of job' = label_of job \<Longrightarrow> no_new_policy p (putJob i job' p)"
  using jobById_id [of i p job] by (simp add: no_new_policy_def policy_of_def jobById_putJob label_of_def)

lemma no_new_decided: "no_new_policy p (fst (decided a ev p))"
  unfolding decided_def by (rule no_new_withJob) simp

lemma no_new_resolve: "no_new_policy p (fst (resolveConflict name ev job p))"
  by (auto simp: resolveConflict_def no_new_decided pumpConflicts_def split: option.split list.split intro: no_new_jobs)

lemma no_new_digest: "no_new_policy p (fst (onFtDigest ev p))"
proof (cases "jobById (fde_id ev) p")
  case (Some job)
  let ?p = "putJob (fde_id ev) (job\<lparr>j_status := JS_running, j_currentFile := remoteName job (fde_fileNum ev)\<rparr>) p"
  have "no_new_policy p ?p" using Some by (rule no_new_putJob) simp
  moreover have "no_new_policy ?p (?p\<lparr>fp_probing := evs\<rparr>)" for evs by (rule no_new_jobs) simp
  ultimately show ?thesis using Some no_new_resolve
    by (auto simp: onFtDigest_def Let_def intro: no_new_trans no_new_decided)
qed (simp add: onFtDigest_def)

lemma no_new_probed: "no_new_policy p (fst (probed n present p))"
proof -
  let ?p = "p\<lparr>fp_probing := take n (fp_probing p) @ drop (Suc n) (fp_probing p)\<rparr>"
  have "no_new_policy p ?p" by (rule no_new_jobs) simp
  then show ?thesis
    by (auto simp: probed_def Let_def split: option.split intro: no_new_trans no_new_decided no_new_resolve)
qed

lemma no_new_event: "no_new_policy p (fst (onEvent rank ev p))"
proof (cases ev)
  case (Ev_state st detail direct)
  have "no_new_policy p (teardown (p\<lparr>fp_state := st\<rparr>))" by (rule no_new_map [of dropJob]) (simp_all add: teardown_def)
  then show ?thesis by (auto simp: Ev_state onEvent_def Let_def intro: no_new_jobs)
next
  case (Ev_loginError msg)
  have "no_new_policy p ((teardown p)\<lparr>fp_state := ErrorState\<rparr>)" by (rule no_new_map [of dropJob]) (simp_all add: teardown_def)
  then show ?thesis by (simp add: Ev_loginError onEvent_def)
next
  case (Ev_ftDir dir)
  have "no_new_policy p (onFtDir rank dir p)"
  proof (cases "ftd_id dir = 0")
    case False
    then show ?thesis by (simp add: onFtDir_def) (rule no_new_updJob, simp add: Let_def)
  qed (simp add: onFtDir_def Let_def no_new_jobs)
  then show ?thesis by (simp add: Ev_ftDir onEvent_def)
next
  case (Ev_ftDone i n)
  have "no_new_policy p (fst (onFtDone i p))"
  proof (cases "fp_ops p i")
    case None
    then show ?thesis by (simp add: onFtDone_def) (rule no_new_withJob, simp)
  qed (auto simp: onFtDone_def Let_def intro: no_new_jobs)
  then show ?thesis by (simp add: Ev_ftDone onEvent_def)
next
  case (Ev_ftError i n err)
  have "no_new_policy p (fst (onFtError i err p))"
    by (cases "fp_ops p i") (auto simp: onFtError_def Let_def intro: no_new_jobs no_new_updJob)
  then show ?thesis by (simp add: Ev_ftError onEvent_def)
qed (simp_all add: onEvent_def no_new_digest no_new_updJob)

lemma no_new_lists:
  "no_new_policy p (fst (deleteEntries es p))" "no_new_policy p (fst (downloadEntries now dest es p))"
proof (induction es arbitrary: p)
  case (Cons e es)
  { case 1
    have "no_new_policy p (fst (newOp desc refresh p))" for desc refresh by (rule no_new_jobs) (simp add: newOp_def)
    then show ?case using Cons(1) no_new_trans by (simp add: Let_def case_prod_beta) blast }
  { case 2
    have "no_new_policy p (p\<lparr>fp_nextId := fp_nextId p + 1, fp_jobs := newDownloadJob now dest (fp_nextId p) e # fp_jobs p\<rparr>)"
      by (rule no_new_cons [of "newDownloadJob now dest (fp_nextId p) e"]) (simp_all add: newDownloadJob_def)
    then show ?case using Cons(2) no_new_trans by (simp add: Let_def case_prod_beta) }
qed simp_all

lemma no_new_answer: "no_new_policy p (fst (answerPrompt v p))"
proof -
  have d: "no_new_policy p (p\<lparr>fp_dialog := None\<rparr>)" by (rule no_new_jobs) simp
  have "no_new_policy q (fst (createNamed name q))" "no_new_policy q (fst (renameTo e name q))" for q name e
    by (simp_all add: createNamed_def renameTo_def newOp_def no_new_jobs)
  then show ?thesis using d no_new_lists(1)
    by (auto simp: answerPrompt_def Let_def split: option.split panel_dialog.split panel_prompt.split
        intro: no_new_trans)
qed

lemma no_new_sends: "no_new_policy p (fst (sendFiles now fs p))" "no_new_policy p (fst (startUpload now get folder p))"
proof -
  have "j_policy (fst (uploadFiles now i path fs)) = None" for i path fs
    using label_iter [of True 0 "newUploadJob now i fs"]
    by (simp add: uploadFiles_def Let_def case_prod_beta label_of_def) (simp add: newUploadJob_def)
  note new = no_new_cons [OF this]
  show "no_new_policy p (fst (sendFiles now fs p))" for fs
    using new [of _ "fp_nextId p" "fp_remotePath p" fs p] by (simp add: sendFiles_def case_prod_beta)
  then show "no_new_policy p (fst (startUpload now get folder p))" by (simp add: startUpload_def)
qed

lemma no_new_call:
  assumes "c \<noteq> PC_finish CA_overwrite True"
  shows "no_new_policy p (fst (panel_call c p))"
proof (cases c)
  case (PC_open cfg)
  have "no_new_policy p ((teardown (p\<lparr>fp_peerLabel := l\<rparr>))\<lparr>fp_worker := True, fp_state := Connecting\<rparr>)" for l
    by (rule no_new_map [of dropJob]) (simp_all add: teardown_def)
  then show ?thesis by (simp add: PC_open panel_call_def connectIfNeeded_def split: option.split)
next
  case PC_destroy
  have "no_new_policy p (teardown p)" by (rule no_new_map [of dropJob]) (simp_all add: teardown_def)
  then show ?thesis by (simp add: PC_destroy panel_call_def destroy_def)
next
  case (PC_tick t)
  have "no_new_policy p (tickJobs t p)" by (rule no_new_map [of "tickJob t"]) (simp_all add: tickJobs_def)
  then show ?thesis by (simp add: PC_tick panel_call_def)
next
  case (PC_resumeChain i r)
  have "no_new_policy p (fst (withJob i (chainResume r) p))" by (rule no_new_withJob) simp
  moreover have "no_new_policy q (q\<lparr>fp_localListGen := n\<rparr>)" for q n by (rule no_new_jobs) simp
  ultimately show ?thesis
    by (auto simp: PC_resumeChain panel_call_def resumeChain_def case_prod_beta split: option.split chain_pc.split
        intro: no_new_trans)
next
  case (PC_finish a all)
  have u: "no_new_policy p (unasked p)"
    unfolding unasked_def by (rule no_new_jobs) (simp add: pumpConflicts_def split: option.split list.split)
  have "no_new_policy q (updJob i (\<lambda>job. job\<lparr>j_policy := Some CA_skip\<rparr>) q)" for q i
    by (auto simp: no_new_policy_def policy_of_def updJob_def withJob_def jobById_putJob jobById_id split: option.splits)
  note skip = no_new_trans [OF u this]
  show ?thesis
  proof (cases rule: finish_cases [of a all p])
    case 1
    then show ?thesis by (simp add: PC_finish panel_call_def)
  next
    case (2 c)
    then show ?thesis using assms PC_finish no_new_trans [OF u no_new_decided] no_new_trans [OF skip no_new_decided]
      by (cases a) (auto simp: panel_call_def)
  qed
qed (auto simp: panel_call_def no_new_event no_new_probed no_new_lists no_new_sends startDownloadOf_def
    resumeUpload_def no_new_answer newRemoteFolder_def renameRemote_def deleteRemote_def toggleHidden_def clickRemote_def clickLocal_def
    workerError_def openLocalFolder_def localEnter_def localUp_def localListed_def stageFiles_def Let_def case_prod_beta
    split: list.split intro: no_new_jobs no_new_withJob)

text \<open>
  C14. A file of a transfer is confirmed without a skip only for a reason: the transfer saves to the
  Downloads folder, the local folder has no such file, the user pressed overwrite in the dialog
  about this file, or the transfer overwrites everything. And a transfer comes to overwrite
  everything only by the user pressing overwrite for all in a dialog about it.
\<close>

theorem overwrite_needs_consent:
  assumes "jobById i p = Some job"
  shows "(E_post (Cmd_ftConfirm i n False 0) \<in> set (snd (panel_call c p)) \<longrightarrow>
      (j_kind job = JK_download \<and> \<not> j_destDir job) \<or> j_policy job = Some CA_overwrite \<or>
      (\<exists>m. c = PC_probed m False \<and> m < length (fp_probing p) \<and>
         fde_id (fp_probing p ! m) = i \<and> fde_fileNum (fp_probing p ! m) = n) \<or>
      (\<exists>all cf. c = PC_finish CA_overwrite all \<and> fp_conflictOpen p = Some cf \<and>
         fde_id (cf_ev cf) = i \<and> fde_fileNum (cf_ev cf) = n)) \<and>
    (jobById i (fst (panel_call c p)) = Some job' \<and> j_policy job' = Some CA_overwrite \<longrightarrow>
      j_policy job = Some CA_overwrite \<or>
      (\<exists>cf. c = PC_finish CA_overwrite True \<and> fp_conflictOpen p = Some cf \<and> cf_job cf = i))"
proof (intro conjI impI)
  assume e: "E_post (Cmd_ftConfirm i n False 0) \<in> set (snd (panel_call c p))"
  then have "\<not> mute (snd (panel_call c p))" by (force simp: mute_def)
  then consider rank d where "c = PC_event rank (Ev_ftDigest d)" | m b where "c = PC_probed m b" | a b where "c = PC_finish a b"
    using mute_call by metis
  then show "(j_kind job = JK_download \<and> \<not> j_destDir job) \<or> j_policy job = Some CA_overwrite \<or>
      (\<exists>m. c = PC_probed m False \<and> m < length (fp_probing p) \<and>
         fde_id (fp_probing p ! m) = i \<and> fde_fileNum (fp_probing p ! m) = n) \<or>
      (\<exists>all cf. c = PC_finish CA_overwrite all \<and> fp_conflictOpen p = Some cf \<and>
         fde_id (cf_ev cf) = i \<and> fde_fileNum (cf_ev cf) = n)"
  proof cases
    case 1
    with e assms show ?thesis
      by (cases "jobById (fde_id d) p"; cases "j_kind job")
        (auto simp: panel_call_def onEvent_def onFtDigest_def Let_def dest: decided_confirm resolve_confirm split: if_splits)
  next
    case 2
    with e assms show ?thesis
      by (auto simp: panel_call_def probed_def Let_def dest: decided_confirm resolve_confirm split: if_splits option.splits)
  next
    case 3
    then have *: "E_post (Cmd_ftConfirm i n False 0) \<in> set (snd (finishConflict a b p))" using e by (simp add: panel_call_def)
    show ?thesis
    proof (cases rule: finish_cases [of a b p])
      case (2 cf)
      then show ?thesis using * 3 decided_confirm by auto
    qed (use * in simp)
  qed
next
  assume p': "jobById i (fst (panel_call c p)) = Some job' \<and> j_policy job' = Some CA_overwrite"
  show "j_policy job = Some CA_overwrite \<or>
      (\<exists>cf. c = PC_finish CA_overwrite True \<and> fp_conflictOpen p = Some cf \<and> cf_job cf = i)"
  proof (cases "c = PC_finish CA_overwrite True")
    case False
    then show ?thesis using no_new_call [OF False, of p] p' assms by (auto simp: no_new_policy_def policy_of_def)
  next
    case True
    show ?thesis
    proof (cases rule: finish_cases [of CA_overwrite True p])
      case 1
      then show ?thesis using True p' assms by (simp add: panel_call_def)
    next
      case (2 cf)
      have "jobById i (unasked p) = jobById i p" by (simp add: unasked_def)
      then have "j_policy job = Some CA_overwrite" if "cf_job cf \<noteq> i"
        using no_new_decided [of "updJob (cf_job cf) (\<lambda>job. job\<lparr>j_policy := Some CA_overwrite\<rparr>) (unasked p)" CA_overwrite "cf_ev cf"]
          p' assms True 2 that
        by (auto simp: no_new_policy_def policy_of_def panel_call_def policy_elsewhere)
      then show ?thesis using True 2 by blast
    qed
  qed
qed

section \<open>A prompt over a conflict\<close>

text \<open>The dialog of the open conflict is gone.\<close>

definition stuck :: "PendingConflict \<Rightarrow> FilePanel \<Rightarrow> bool" where
  "stuck x p \<longleftrightarrow> fp_conflictOpen p = Some x \<and> fp_dialog p \<noteq> Some DG_conflict"

lemma quiet_stuck: "stuck x p \<Longrightarrow> quiet p p' \<Longrightarrow> stuck x p'"
  by (simp add: stuck_def quiet_def)

lemma stuck_frame:
  "stuck x p \<Longrightarrow> fp_conflictOpen p' = fp_conflictOpen p \<Longrightarrow> fp_dialog p' = fp_dialog p \<Longrightarrow> stuck x p'"
  by (simp add: stuck_def)

lemma stuck_resolve:
  assumes "stuck x p"
  shows "stuck x (fst (resolveConflict name ev job p))"
proof (cases "j_policy job")
  case None
  then show ?thesis using assms by (simp add: resolveConflict_def pumpConflicts_def stuck_def)
qed (simp add: resolveConflict_def quiet_stuck [OF assms quiet_decided])

lemma stuck_digest:
  assumes "stuck x p"
  shows "stuck x (fst (onFtDigest ev p))"
proof (cases "jobById (fde_id ev) p")
  case (Some job)
  have "stuck x (putJob i job' p)" "stuck x ((putJob i job' p)\<lparr>fp_probing := evs\<rparr>)" for i job' evs
    using assms by (simp_all add: stuck_def putJob_def)
  then show ?thesis using Some assms
    by (simp add: onFtDigest_def Let_def stuck_resolve quiet_stuck [OF _ quiet_decided])
qed (simp add: onFtDigest_def assms)

lemma stuck_probed:
  assumes "stuck x p"
  shows "stuck x (fst (probed n present p))"
proof -
  have "stuck x (p\<lparr>fp_probing := evs\<rparr>)" for evs using assms by (simp add: stuck_def)
  then show ?thesis using assms
    by (auto simp: probed_def Let_def stuck_resolve quiet_stuck [OF _ quiet_decided] split: option.split)
qed

lemma stuck_event: "stuck x p \<Longrightarrow> stuck x (fst (onEvent rank ev p))"
proof (cases ev)
  case (Ev_ftDigest d)
  then show "stuck x p \<Longrightarrow> ?thesis" by (simp add: onEvent_def stuck_digest)
qed (auto simp: onEvent_def Let_def quiet_done quiet_error quiet_dir quiet_updJob elim!: quiet_stuck)

lemma stuck_lists:
  "stuck x p \<Longrightarrow> stuck x (fst (deleteEntries es p))" "stuck x p \<Longrightarrow> stuck x (fst (downloadEntries now dest es p))"
proof (induction es arbitrary: p)
  case (Cons e es)
  { case 1
    then show ?case using Cons(1) [of "fst (newOp _ _ p)"] by (simp add: Let_def case_prod_beta newOp_def stuck_def) }
  { case 2
    then show ?case using Cons(2) by (simp add: Let_def case_prod_beta stuck_def) }
qed simp_all

lemma stuck_answer: "stuck x p \<Longrightarrow> stuck x (fst (answerPrompt v p))"
proof -
  assume p: "stuck x p"
  have n: "stuck x (p\<lparr>fp_dialog := None\<rparr>)" using p by (simp add: stuck_def)
  have "stuck x (fst (newOp desc refresh (p\<lparr>fp_dialog := None\<rparr>)))" for desc refresh
    using p by (simp add: stuck_def newOp_def)
  then show ?thesis using p n stuck_lists(1) [OF n]
    by (auto simp: answerPrompt_def createNamed_def renameTo_def case_prod_beta Let_def
        split: option.split panel_dialog.split panel_prompt.split)
qed

lemma stuck_prompt: "stuck x p \<Longrightarrow> stuck x (p\<lparr>fp_dialog := Some (DG_prompt pr)\<rparr>)"
  by (simp add: stuck_def)

lemma stuck_call:
  assumes "stuck x p"
  shows "stuck x (fst (panel_call c p))"
proof (cases c)
  case (PC_finish a all)
  have "finishConflict a all p = (p, [])" using assms by (cases rule: finish_cases [of a all p]) (auto simp: stuck_def)
  then show ?thesis using assms by (simp add: PC_finish panel_call_def)
next
  case (PC_resumeChain i r)
  have "quiet p (fst (withJob i (chainResume r) p))" by (rule quiet_withJob) simp
  from quiet_stuck [OF assms this] show ?thesis
    by (simp add: PC_resumeChain panel_call_def resumeChain_def case_prod_beta stuck_def split: option.split chain_pc.split)
qed (use assms in \<open>auto simp: panel_call_def stuck_event stuck_probed stuck_answer stuck_prompt stuck_lists startUpload_def
    startDownloadOf_def newRemoteFolder_def renameRemote_def deleteRemote_def sendFiles_def connectIfNeeded_def destroy_def
    teardown_def resumeUpload_def tickJobs_def case_prod_beta Let_def quiet_stuck [OF assms quiet_views(1)]
    split: option.split list.split intro: quiet_stuck quiet_views quiet_withJob stuck_frame\<close>)

lemma stuck_run: "stuck x (fst s) \<Longrightarrow> stuck x (fst (fold panel_step calls s))"
  by (induction calls arbitrary: s) (simp_all add: panel_step_def case_prod_beta stuck_call)

text \<open>
  The dialog element is shared and not guarded: a prompt opened while a conflict is undecided
  replaces its buttons, and no sequence of calls ever decides that conflict or shows another.
\<close>

theorem prompt_over_conflict_blocks_dialog:
  assumes "fp_conflictOpen p = Some x" "fp_state p = Streaming"
    and "fold panel_step calls (panel_step PC_newFolder (p, effs)) = (p', effs')"
  shows "fp_conflictOpen p' = Some x \<and> fp_dialog p' \<noteq> Some DG_conflict"
proof -
  have "stuck x (fst (panel_step PC_newFolder (p, effs)))"
    using assms(1,2) by (simp add: panel_step_def panel_call_def newRemoteFolder_def stuck_def)
  from stuck_run [OF this, of calls] show ?thesis unfolding assms(3) by (simp add: stuck_def)
qed

section \<open>A cancelled download comes back\<close>

lemma jobById_deliver: "fp_worker p \<Longrightarrow> deliver p es = es"
  by (simp add: deliver_def)

text \<open>
  A download that the user has just cancelled runs again as soon as a digest of it that was
  still under way comes in: \<open>onFtDigest\<close> sets its status without looking at it, and the next
  file of the cancelled transfer is confirmed to the peer.
\<close>

theorem late_digest_revives_cancelled_download:
  assumes "jobById i p = Some job" "j_kind job = JK_download" "\<not> j_destDir job" "fp_worker p"
    and "fde_id d = i" "panel_call (PC_cancel i) p = (p1, effs1)"
  shows "\<exists>job2. jobById i (fst (onEvent rank (Ev_ftDigest d) p1)) = Some job2 \<and> j_status job2 = JS_running \<and>
    snd (onEvent rank (Ev_ftDigest d) p1) = [E_post (Cmd_ftConfirm i (fde_fileNum d) False 0)]"
proof -
  have i: "j_id job = i" using assms(1) by (rule jobById_id)
  have p1: "p1 = fst (withJob i cancelJob p)" using assms(6) by (simp add: panel_call_def)
  have j1: "jobById i p1 = Some (fst (cancelJob job))" using assms(1) by (simp add: p1 jobById_withJob)
  have k: "j_kind (fst (cancelJob job)) = JK_download" "\<not> j_destDir (fst (cancelJob job))" "fp_worker p1"
    using assms(2-4) by (simp_all add: p1 cancelJob_def abortFile_def closeJobFile_def resolveConfirm_def resolveSent_def
        split: upload_pc.split option.split)
  define job2 where "job2 = (fst (cancelJob job))\<lparr>j_status := JS_running, j_currentFile := remoteName (fst (cancelJob job)) (fde_fileNum d)\<rparr>"
  have id2: "j_id job2 = i" using i label_id [OF label_job_ops(1), of job] by (simp add: job2_def)
  have "onEvent rank (Ev_ftDigest d) p1 = decided CA_overwrite d (putJob i job2 p1)"
    using j1 k assms(5) by (simp add: onEvent_def onFtDigest_def Let_def job2_def)
  moreover have "jobById i (putJob i job2 p1) = Some job2" using j1 by (simp add: jobById_putJob id2)
  moreover have "fp_worker (putJob i job2 p1)" "j_kind job2 = JK_download" using k by (simp_all add: putJob_def job2_def)
  ultimately show ?thesis using assms(5) id2
    by (intro exI [of _ job2]) (simp add: decided_def withJob_def jobById_putJob jobById_deliver job2_def)
qed

section \<open>A panel at work\<close>

definition panel_config :: SessionConfig where
  "panel_config = \<lparr>peerId = js ''1'', serverKeyB64 = [], wsIdUrl = [], wsRelayUrl = [], password = [], myId = [], myName = [],
     savedHashHex = None, config_connType = Some CK_fileTransfer, terminalServiceId = None, terminalPersistent = None\<rparr>"

definition demo_entry :: "string \<Rightarrow> FtEntry" where
  "demo_entry name = \<lparr>ft_kind = K_file, ft_name = js name, ft_size = 10, ft_modifiedSec = 1, ft_isHidden = False\<rparr>"

definition demo_digest :: "int \<Rightarrow> FtDigestEvent" where
  "demo_digest i = \<lparr>fde_id = i, fde_fileNum = 0, fde_lastModifiedSec = 1, fde_fileSize = 10, fde_isUpload = False,
     fde_isIdentical = False, fde_transferredSize = 0, fde_isResume = False\<rparr>"

text \<open>Two downloads into a local folder, or into the Downloads folder.\<close>

definition panel_demo :: "panel_input list" where
  "panel_demo = [PC_open (Some panel_config), PC_event (\<lambda>_. 0) (Ev_state Streaming None False), PC_openLocal (js ''home''),
     PC_download 0 True [demo_entry ''a'', demo_entry ''b'']]"

definition demo_panel :: "bool \<Rightarrow> panel_input list \<Rightarrow> FilePanel \<times> effect list" where
  "demo_panel fsMode calls = fold panel_step (panel_demo @ calls) (newFilePanel fsMode, [])"

lemma panel_demo_reach: "panel_reach (fst (demo_panel fsMode calls), snd (demo_panel fsMode calls))"
  unfolding demo_panel_def prod.collapse by (rule reach_fold, rule reach_init) blast

lemmas panel_eval =
  demo_panel_def panel_demo_def panel_config_def demo_entry_def demo_digest_def newFilePanel_def panel_step_def
  panel_call_def connectIfNeeded_def teardown_def panel_post_def onEvent_def readRemote_def openLocalFolder_def
  startDownloadOf_def newDownloadJob_def isDirKind_def joinRemote_def onFtDigest_def jobById_def putJob_def
  probed_def resolveConflict_def pumpConflicts_def finishConflict_def decided_def withJob_def updJob_def
  deliver_def cancelJob_def abortFile_def closeJobFile_def resolveConfirm_def resolveSent_def remoteName_def at_int_def

lemma demo_jobs:
  "map j_id (fp_jobs (fst (demo_panel fsMode []))) = [2, 1]"
  "map j_destDir (fp_jobs (fst (demo_panel fsMode []))) = [fsMode, fsMode]"
  by (cases fsMode; simp add: panel_eval)+

theorem events_reach_one_transfer_witness:
  "map j_id (fp_jobs (fst (demo_panel True []))) = [2, 1] \<and>
   jobById 1 (fst (onEvent (\<lambda>_. 0) (Ev_ftError 2 0 (js ''gone'')) (fst (demo_panel True [])))) =
     jobById 1 (fst (demo_panel True []))"
  using events_reach_one_transfer [OF panel_demo_reach, where ev = "Ev_ftError 2 0 (js ''gone'')" and i = 2 and k = 1] demo_jobs(1)
  by simp

text \<open>Both files exist locally; the first conflict is shown.\<close>

abbreviation demo_conflicts :: "panel_input list" where
  "demo_conflicts \<equiv>
     [PC_event (\<lambda>_. 0) (Ev_ftDigest (demo_digest 1)), PC_event (\<lambda>_. 0) (Ev_ftDigest (demo_digest 2)),
      PC_probed 0 True, PC_probed 0 True]"

lemma demo_conflict_panel:
  "map cf_job (pending (fst (demo_panel True demo_conflicts))) = [1, 2]"
  "map_option (\<lambda>cf. fde_id (cf_ev cf)) (fp_conflictOpen (fst (demo_panel True demo_conflicts))) = Some 1"
  "snd (panel_call (PC_finish CA_overwrite False) (fst (demo_panel True demo_conflicts))) = [E_post (Cmd_ftConfirm 1 0 False 0)]"
  "fp_dialog (fst (demo_panel True demo_conflicts)) = Some DG_conflict"
  by (simp_all add: panel_eval pending_def)

theorem conflict_dialog_is_fifo_witness:
  "map cf_job (pending (fst (demo_panel True demo_conflicts))) = [1, 2] \<and>
   map cf_job (pending (fst (panel_call (PC_finish CA_skip False) (fst (demo_panel True demo_conflicts))))) = [2]"
  using conflict_dialog_is_fifo [OF panel_demo_reach, where c = "PC_finish CA_skip False"] demo_conflict_panel(1,4)
  by (simp add: map_tl)

theorem overwrite_needs_consent_witness:
  "E_post (Cmd_ftConfirm 1 0 False 0) \<in> set (snd (panel_call (PC_finish CA_overwrite False) (fst (demo_panel True demo_conflicts)))) \<and>
   (\<exists>cf. fp_conflictOpen (fst (demo_panel True demo_conflicts)) = Some cf \<and> fde_id (cf_ev cf) = 1 \<and> fde_fileNum (cf_ev cf) = 0)"
proof -
  obtain job where job: "jobById 1 (fst (demo_panel True demo_conflicts)) = Some job" "j_destDir job" "j_policy job = None"
    by (simp add: panel_eval)
  show ?thesis using overwrite_needs_consent [OF job(1), of 0 "PC_finish CA_overwrite False"] job demo_conflict_panel(3) by simp
qed

theorem late_digest_revives_cancelled_download_witness:
  "\<exists>job2. jobById 1 (fst (demo_panel False [PC_cancel 1, PC_event (\<lambda>_. 0) (Ev_ftDigest (demo_digest 1))])) = Some job2 \<and>
     j_status job2 = JS_running"
proof -
  let ?p = "fst (demo_panel False [])"
  obtain job where job: "jobById 1 ?p = Some job" "j_kind job = JK_download" "\<not> j_destDir job" and w: "fp_worker ?p"
    by (simp add: panel_eval)
  have "fde_id (demo_digest 1) = 1" by (simp add: demo_digest_def)
  note th = late_digest_revives_cancelled_download [OF job w this prod.collapse [symmetric], of "\<lambda>_. 0"]
  moreover have "fst (demo_panel False [PC_cancel 1, PC_event (\<lambda>_. 0) (Ev_ftDigest (demo_digest 1))]) =
    fst (onEvent (\<lambda>_. 0) (Ev_ftDigest (demo_digest 1)) (fst (panel_call (PC_cancel 1) ?p)))"
    by (simp add: demo_panel_def panel_step_def case_prod_beta) (simp add: panel_call_def)
  ultimately show ?thesis by auto
qed

end
