(* ===== verification/Terminal.thy ===== *)
theory Terminal
  imports Auth Contracts
begin

text \<open>
  \<open>webclient/src/ui/terminal-panel.ts\<close>: what happens to the bytes of a remote terminal before
  they are shown (a normalizer for raw C1 bytes, \<open>TextDecoder\<close> in streaming mode, a parser that
  drops control sequences, a bounded buffer), and the panel around it. \<open>TextDecoder\<close> is the
  UTF-8 decoder of the encoding standard, with replacement characters and a leading
  byte-order mark removed.
\<close>

section \<open>Text\<close>

text \<open>\<open>for (const char of text)\<close>: code points as strings of one or two units.\<close>

fun js_chars :: "jsstr \<Rightarrow> jsstr list" where
  "js_chars [] = []"
| "js_chars [u] = [[u]]"
| "js_chars (u # v # s) =
     (if 0xD800 \<le> u \<and> u \<le> 0xDBFF \<and> 0xDC00 \<le> v \<and> v \<le> 0xDFFF
      then [u, v] # js_chars s else [u] # js_chars (v # s))"

datatype TerminalParserState =
  PS_text | PS_escape | PS_csi | PS_osc | PS_oscEscape | PS_controlString | PS_controlEscape

text \<open>One round of the loop of \<open>TerminalControlStripper.push\<close>: the new state and the output.\<close>

definition strip_text :: "nat \<Rightarrow> jsstr \<Rightarrow> TerminalParserState \<times> jsstr" where
  "strip_text code c =
     (if code = 0x1B then (PS_escape, [])
      else if code = 0x9B then (PS_csi, [])
      else if code = 0x9D then (PS_osc, [])
      else if code = 0x90 \<or> code = 0x98 \<or> code = 0x9E \<or> code = 0x9F then (PS_controlString, [])
      else if code = 0x0D then (PS_text, [10])
      else if code = 0x09 \<or> code = 0x0A \<or> (code \<ge> 0x20 \<and> code \<noteq> 0x7F \<and> (code < 0x80 \<or> code > 0x9F)) then (PS_text, c)
      else (PS_text, []))"

definition strip_char :: "TerminalParserState \<Rightarrow> jsstr \<Rightarrow> TerminalParserState \<times> jsstr" where
  "strip_char st c =
     (let code = unat (hd c) in
      case st of
        PS_text \<Rightarrow> strip_text code c
      | PS_escape \<Rightarrow>
          (if c = js ''['' then PS_csi
           else if c = js '']'' then PS_osc
           else if c = js ''P'' \<or> c = js ''X'' \<or> c = js ''^'' \<or> c = js ''_'' then PS_controlString
           else if code \<noteq> 0x1B then PS_text else PS_escape, [])
      | PS_csi \<Rightarrow> (if 0x40 \<le> code \<and> code \<le> 0x7E then PS_text else if code = 0x1B then PS_escape else PS_csi, [])
      | PS_osc \<Rightarrow> (if code = 0x07 \<or> code = 0x9C then PS_text else if code = 0x1B then PS_oscEscape else PS_osc, [])
      | PS_oscEscape \<Rightarrow>
          (if c = [92] \<or> code = 0x07 \<or> code = 0x9C then PS_text else if code \<noteq> 0x1B then PS_osc else PS_oscEscape, [])
      | PS_controlString \<Rightarrow> (if code = 0x9C then PS_text else if code = 0x1B then PS_controlEscape else PS_controlString, [])
      | PS_controlEscape \<Rightarrow>
          (if c = [92] \<or> code = 0x9C then PS_text else if code \<noteq> 0x1B then PS_controlString else PS_controlEscape, []))"

fun strip_chars :: "TerminalParserState \<Rightarrow> jsstr list \<Rightarrow> TerminalParserState \<times> jsstr" where
  "strip_chars st [] = (st, [])"
| "strip_chars st (c # cs) =
     (case strip_char st c of (st1, o1) \<Rightarrow> case strip_chars st1 cs of (st2, o2) \<Rightarrow> (st2, o1 @ o2))"

definition strip_push :: "TerminalParserState \<Rightarrow> jsstr \<Rightarrow> TerminalParserState \<times> jsstr" where
  "strip_push st text = strip_chars st (js_chars text)"

definition stripTerminalControl :: "jsstr \<Rightarrow> jsstr" where
  "stripTerminalControl text = snd (strip_push PS_text text)"

section \<open>Bytes\<close>

text \<open>\<open>TerminalC1ByteNormalizer.push\<close>: the state is the number of continuation bytes awaited.\<close>

definition lead_bytes :: "nat \<Rightarrow> nat" where
  "lead_bytes b =
     (if 0xC2 \<le> b \<and> b \<le> 0xDF then 1 else if 0xE0 \<le> b \<and> b \<le> 0xEF then 2
      else if 0xF0 \<le> b \<and> b \<le> 0xF4 then 3 else 0)"

definition c1_byte :: "nat \<Rightarrow> byte \<Rightarrow> nat \<times> bytes" where
  "c1_byte n byte =
     (let b = unat byte in
      if 0 < n \<and> 0x80 \<le> b \<and> b \<le> 0xBF then (n - 1, [byte])
      else (lead_bytes b, if 0x80 \<le> b \<and> b \<le> 0x9F then [0xC2, byte] else [byte]))"

fun c1_push :: "nat \<Rightarrow> bytes \<Rightarrow> nat \<times> bytes" where
  "c1_push n [] = (n, [])"
| "c1_push n (b # bs) = (case c1_byte n b of (n1, o1) \<Rightarrow> case c1_push n1 bs of (n2, o2) \<Rightarrow> (n2, o1 @ o2))"

text \<open>\<open>TextDecoder\<close>, streaming: the state of the UTF-8 decoder and whether anything was emitted.\<close>

record utf8_decoder =
  ud_point :: nat
  ud_needed :: nat
  ud_lower :: nat
  ud_upper :: nat
  ud_begun :: bool

definition newDecoder :: utf8_decoder where
  "newDecoder = \<lparr>ud_point = 0, ud_needed = 0, ud_lower = 0x80, ud_upper = 0xBF, ud_begun = False\<rparr>"

definition ud_reset :: "utf8_decoder \<Rightarrow> utf8_decoder" where
  "ud_reset d = d\<lparr>ud_point := 0, ud_needed := 0, ud_lower := 0x80, ud_upper := 0xBF\<rparr>"

definition ud_lead :: "nat \<Rightarrow> utf8_decoder \<Rightarrow> utf8_decoder \<times> nat list" where
  "ud_lead b d =
     (if b \<le> 0x7F then (d, [b])
      else if 0xC2 \<le> b \<and> b \<le> 0xDF then (d\<lparr>ud_needed := 1, ud_point := b mod 32\<rparr>, [])
      else if 0xE0 \<le> b \<and> b \<le> 0xEF
      then (d\<lparr>ud_needed := 2, ud_point := b mod 16, ud_lower := (if b = 0xE0 then 0xA0 else 0x80),
              ud_upper := (if b = 0xED then 0x9F else 0xBF)\<rparr>, [])
      else if 0xF0 \<le> b \<and> b \<le> 0xF4
      then (d\<lparr>ud_needed := 3, ud_point := b mod 8, ud_lower := (if b = 0xF0 then 0x90 else 0x80),
              ud_upper := (if b = 0xF4 then 0x8F else 0xBF)\<rparr>, [])
      else (d, [0xFFFD]))"

definition ud_byte :: "utf8_decoder \<Rightarrow> byte \<Rightarrow> utf8_decoder \<times> nat list" where
  "ud_byte d byte =
     (let b = unat byte in
      if ud_needed d = 0 then ud_lead b d
      else if b < ud_lower d \<or> ud_upper d < b
      then (case ud_lead b (ud_reset d) of (d1, o1) \<Rightarrow> (d1, 0xFFFD # o1))
      else let cp = ud_point d * 64 + b mod 64 in
           if ud_needed d = 1 then (ud_reset d, [cp])
           else (d\<lparr>ud_point := cp, ud_needed := ud_needed d - 1, ud_lower := 0x80, ud_upper := 0xBF\<rparr>, []))"

fun ud_bytes :: "utf8_decoder \<Rightarrow> bytes \<Rightarrow> utf8_decoder \<times> nat list" where
  "ud_bytes d [] = (d, [])"
| "ud_bytes d (b # bs) = (case ud_byte d b of (d1, o1) \<Rightarrow> case ud_bytes d1 bs of (d2, o2) \<Rightarrow> (d2, o1 @ o2))"

definition units_of :: "nat \<Rightarrow> jsstr" where
  "units_of cp =
     (if cp < 0x10000 then [of_nat cp]
      else [of_nat (0xD800 + (cp - 0x10000) div 0x400), of_nat (0xDC00 + (cp - 0x10000) mod 0x400)])"

definition skip_bom :: "bool \<Rightarrow> nat list \<Rightarrow> nat list" where
  "skip_bom begun cps = (if \<not> begun \<and> cps \<noteq> [] \<and> hd cps = 0xFEFF then tl cps else cps)"

definition decode_stream :: "utf8_decoder \<Rightarrow> bytes \<Rightarrow> utf8_decoder \<times> jsstr" where
  "decode_stream d bs =
     (case ud_bytes d bs of
        (d1, cps) \<Rightarrow> (d1\<lparr>ud_begun := ud_begun d \<or> cps \<noteq> []\<rparr>, concat (map units_of (skip_bom (ud_begun d) cps))))"

section \<open>The bounded buffer\<close>

definition MAX_TERMINAL_TEXT :: nat where "MAX_TERMINAL_TEXT = 1000000"

definition appendBoundedTerminalText :: "jsstr \<Rightarrow> jsstr \<Rightarrow> nat \<Rightarrow> jsstr" where
  "appendBoundedTerminalText current incoming mx =
     (let combined = current @ incoming
      in if length combined \<le> mx then combined else drop (length combined - mx) combined)"

text \<open>The chain the panel runs for \<open>terminalData\<close>.\<close>

record terminal_pipe =
  tp_c1 :: nat
  tp_decoder :: utf8_decoder
  tp_parser :: TerminalParserState

definition newPipe :: terminal_pipe where
  "newPipe = \<lparr>tp_c1 = 0, tp_decoder = newDecoder, tp_parser = PS_text\<rparr>"

definition pipe_push :: "terminal_pipe \<Rightarrow> bytes \<Rightarrow> terminal_pipe \<times> jsstr" where
  "pipe_push t bs =
     (case c1_push (tp_c1 t) bs of
        (n, bs1) \<Rightarrow> case decode_stream (tp_decoder t) bs1 of
          (d, text) \<Rightarrow> case strip_push (tp_parser t) text of
            (st, out) \<Rightarrow> (\<lparr>tp_c1 = n, tp_decoder = d, tp_parser = st\<rparr>, out))"

end
