(* ===== verification/Terminal_Safety.thy ===== *)
theory Terminal_Safety
  imports Terminal
begin

text \<open>
  What the terminal shows: plain text only, the same text however the bytes are cut into frames,
  and UTF-8 text unchanged.
\<close>

section \<open>Only plain text is shown\<close>

definition plain_unit :: "16 word \<Rightarrow> bool" where
  "plain_unit u \<longleftrightarrow> u = 9 \<or> u = 10 \<or> (32 \<le> u \<and> u \<noteq> 127 \<and> (u < 128 \<or> 159 < u))"

lemma plain_unat:
  "plain_unit u \<longleftrightarrow> unat u = 9 \<or> unat u = 10 \<or> (32 \<le> unat u \<and> unat u \<noteq> 127 \<and> (unat u < 128 \<or> 159 < unat u))"
  by (simp add: plain_unit_def word_le_nat_alt word_less_nat_alt word_unat_eq_iff)

lemma js_chars_shape:
  "c \<in> set (js_chars s) \<Longrightarrow> (\<exists>u. c = [u]) \<or> (\<exists>u v. c = [u, v] \<and> 0xDC00 \<le> v)"
  by (induction s rule: js_chars.induct) (auto split: if_splits)

lemma strip_char_plain:
  assumes "(\<exists>u. c = [u]) \<or> (\<exists>u v. c = [u, v] \<and> 0xDC00 \<le> v)"
  shows "\<forall>u \<in> set (snd (strip_char st c)). plain_unit u"
proof -
  have v: "plain_unit v" if "0xDC00 \<le> v" for v using that by (simp add: plain_unat word_le_nat_alt)
  have "snd (strip_char st c) = [] \<or> snd (strip_char st c) = [10] \<or> snd (strip_char st c) = c \<and> plain_unit (hd c)"
    by (cases st) (auto simp: strip_char_def strip_text_def Let_def plain_unat)
  moreover have "plain_unit 10" by (simp add: plain_unit_def)
  ultimately show ?thesis using assms v by auto
qed

lemma strip_chars_plain:
  "\<forall>c \<in> set cs. (\<exists>u. c = [u]) \<or> (\<exists>u v. c = [u, v] \<and> 0xDC00 \<le> v) \<Longrightarrow> \<forall>u \<in> set (snd (strip_chars st cs)). plain_unit u"
proof (induction cs arbitrary: st)
  case (Cons c cs)
  then have "\<forall>u \<in> set (snd (strip_char st c)). plain_unit u" by (intro strip_char_plain) simp
  with Cons show ?case by (auto simp: case_prod_beta)
qed simp

lemma pipe_plain: "u \<in> set (snd (pipe_push t bs)) \<Longrightarrow> plain_unit u"
proof -
  have "\<forall>u \<in> set (snd (strip_push st tx)). plain_unit u" for st tx
    unfolding strip_push_def by (intro strip_chars_plain ballI js_chars_shape)
  then show "u \<in> set (snd (pipe_push t bs)) \<Longrightarrow> plain_unit u" by (simp add: pipe_push_def case_prod_beta)
qed

section \<open>Frames do not matter\<close>

fun pipe_feed :: "terminal_pipe \<Rightarrow> bytes list \<Rightarrow> terminal_pipe \<times> jsstr" where
  "pipe_feed t [] = (t, [])"
| "pipe_feed t (bs # rest) =
     (case pipe_push t bs of (t1, o1) \<Rightarrow> case pipe_feed t1 rest of (t2, o2) \<Rightarrow> (t2, o1 @ o2))"

lemma c1_push_append:
  "c1_push n (xs @ ys) = (case c1_push n xs of (n1, o1) \<Rightarrow> case c1_push n1 ys of (n2, o2) \<Rightarrow> (n2, o1 @ o2))"
  by (induction xs arbitrary: n) (simp_all add: case_prod_beta)

lemma ud_bytes_append:
  "ud_bytes d (xs @ ys) = (case ud_bytes d xs of (d1, o1) \<Rightarrow> case ud_bytes d1 ys of (d2, o2) \<Rightarrow> (d2, o1 @ o2))"
  by (induction xs arbitrary: d) (simp_all add: case_prod_beta)

lemma strip_chars_append:
  "strip_chars st (xs @ ys) = (case strip_chars st xs of (s1, o1) \<Rightarrow> case strip_chars s1 ys of (s2, o2) \<Rightarrow> (s2, o1 @ o2))"
  by (induction xs arbitrary: st) (simp_all add: case_prod_beta)

text \<open>The decoder emits scalar values only, whose units are whole characters.\<close>

definition scalar :: "nat \<Rightarrow> bool" where
  "scalar cp \<longleftrightarrow> cp < 0xD800 \<or> (0xE000 \<le> cp \<and> cp < 0x110000)"

lemma of_nat_unit: "n < 0x10000 \<Longrightarrow> unat (of_nat n :: 16 word) = n"
  by (simp add: unat_of_nat)

lemma units_of_cases:
  assumes "scalar cp"
  obtains u where "units_of cp = [u]" "unat u = cp" "unat u < 0xD800 \<or> 0xE000 \<le> unat u"
  | u v where "units_of cp = [u, v]" "0x10000 \<le> cp" "unat u = 0xD800 + (cp - 0x10000) div 0x400"
      "unat v = 0xDC00 + (cp - 0x10000) mod 0x400" "unat u \<le> 0xDBFF"
proof (cases "cp < 0x10000")
  case True
  then show ?thesis using that(1) assms by (simp add: units_of_def of_nat_unit scalar_def)
next
  case False
  have "cp - 0x10000 < 0x400 * 0x400" using assms by (auto simp: scalar_def)
  then have "(cp - 0x10000) div 0x400 < 0x400" by (simp add: less_mult_imp_div_less)
  moreover have "(cp - 0x10000) mod 0x400 < 0x400" by simp
  ultimately have b: "0xD800 + (cp - 0x10000) div 0x400 \<le> 0xDBFF" "0xDC00 + (cp - 0x10000) mod 0x400 \<le> 0xDFFF"
    by linarith+
  then have "unat (of_nat (0xD800 + (cp - 0x10000) div 0x400) :: 16 word) = 0xD800 + (cp - 0x10000) div 0x400"
    "unat (of_nat (0xDC00 + (cp - 0x10000) mod 0x400) :: 16 word) = 0xDC00 + (cp - 0x10000) mod 0x400"
    by (subst of_nat_unit; linarith)+
  then show ?thesis using that(2) False b(1) by (simp add: units_of_def)
qed

lemma js_chars_units:
  assumes "scalar cp"
  shows "js_chars (units_of cp @ s) = units_of cp # js_chars s"
  using assms
proof (cases cp rule: units_of_cases)
  case (1 u)
  then have "\<not> (0xD800 \<le> u \<and> u \<le> 0xDBFF)" by (auto simp: word_le_nat_alt)
  then show ?thesis using 1(1) by (cases s) auto
next
  case (2 u v)
  then have "0xD800 \<le> u" "u \<le> 0xDBFF" "0xDC00 \<le> v" "v \<le> 0xDFFF"
    by (simp_all add: word_le_nat_alt less_Suc_eq_le [symmetric])
  then show ?thesis using 2(1) by simp
qed

lemma js_chars_points: "\<forall>cp \<in> set cps. scalar cp \<Longrightarrow> js_chars (concat (map units_of cps)) = map units_of cps"
  by (induction cps) (simp_all add: js_chars_units)

text \<open>What the decoder has read so far can only become scalar values.\<close>

fun completes :: "nat \<Rightarrow> nat \<Rightarrow> nat \<Rightarrow> nat \<Rightarrow> bool" where
  "completes 0 lo hi p = True"
| "completes (Suc 0) lo hi p = (\<forall>b. lo \<le> b \<and> b \<le> hi \<longrightarrow> scalar (p * 64 + b mod 64))"
| "completes (Suc (Suc n)) lo hi p = (\<forall>b. lo \<le> b \<and> b \<le> hi \<longrightarrow> completes (Suc n) 0x80 0xBF (p * 64 + b mod 64))"

definition decoder_ok :: "utf8_decoder \<Rightarrow> bool" where
  "decoder_ok d \<longleftrightarrow> completes (ud_needed d) (ud_lower d) (ud_upper d) (ud_point d)"

lemma mod_sub: "k * m \<le> b \<Longrightarrow> b < k * m + m \<Longrightarrow> b mod m = b - k * (m :: nat)"
  by (metis add_diff_inverse_nat less_diff_conv2 mod_less mod_mult_self3 nat_diff_split not_less add.commute)

lemma cont_mod: "0x80 \<le> b \<Longrightarrow> b \<le> 0xBF \<Longrightarrow> b mod 64 = b - (0x80 :: nat)"
  using mod_sub [of 2 64 b] by simp

definition decoder_fresh :: "utf8_decoder \<Rightarrow> bool" where
  "decoder_fresh d \<longleftrightarrow> ud_needed d = 0 \<and> ud_lower d = 0x80 \<and> ud_upper d = 0xBF"

lemma completes3: "0xE0 \<le> b \<Longrightarrow> b \<le> 0xEF \<Longrightarrow>
    completes 2 (if b = 0xE0 then 0xA0 else 0x80) (if b = 0xED then 0x9F else 0xBF) (b mod 16)"
proof -
  assume "0xE0 \<le> b" "b \<le> 0xEF"
  then have m: "b mod 16 = b - 0xE0" using mod_sub [of 14 16 b] by simp
  have "scalar (((b - 0xE0) * 64 + (c - 0x80)) * 64 + (e - 0x80))"
    if "(if b = 0xE0 then 0xA0 else 0x80) \<le> c" "c \<le> (if b = 0xED then 0x9F else 0xBF)" "0x80 \<le> e" "e \<le> 0xBF" for c e :: nat
    using that \<open>0xE0 \<le> b\<close> \<open>b \<le> 0xEF\<close> unfolding scalar_def by (cases "b \<le> 0xED") (auto split: if_splits)
  then show ?thesis by (auto simp: numeral_2_eq_2 m cont_mod split: if_splits)
qed

lemma completes4: "0xF0 \<le> b \<Longrightarrow> b \<le> 0xF4 \<Longrightarrow>
    completes 3 (if b = 0xF0 then 0x90 else 0x80) (if b = 0xF4 then 0x8F else 0xBF) (b mod 8)"
proof -
  assume "0xF0 \<le> b" "b \<le> 0xF4"
  then have m: "b mod 8 = b - 0xF0" using mod_sub [of 30 8 b] by simp
  have "scalar ((((b - 0xF0) * 64 + (c - 0x80)) * 64 + (e - 0x80)) * 64 + (f - 0x80))"
    if "(if b = 0xF0 then 0x90 else 0x80) \<le> c" "c \<le> (if b = 0xF4 then 0x8F else 0xBF)"
      "0x80 \<le> e" "e \<le> 0xBF" "0x80 \<le> f" "f \<le> 0xBF" for c e f :: nat
    using that \<open>0xF0 \<le> b\<close> \<open>b \<le> 0xF4\<close> unfolding scalar_def by (cases "b = 0xF0") (auto split: if_splits)
  then show ?thesis by (auto simp: numeral_3_eq_3 m cont_mod split: if_splits)
qed

lemma completes2: "0xC2 \<le> b \<Longrightarrow> b \<le> 0xDF \<Longrightarrow> completes 1 0x80 0xBF (b mod 32)"
proof -
  assume "0xC2 \<le> b" "b \<le> 0xDF"
  then have "b mod 32 = b - 0xC0" using mod_sub [of 6 32 b] by simp
  then show ?thesis using \<open>b \<le> 0xDF\<close> by (auto simp: cont_mod scalar_def)
qed

lemma lead_ok:
  assumes "decoder_fresh d"
  shows "decoder_ok (fst (ud_lead b d)) \<and> (\<forall>cp \<in> set (snd (ud_lead b d)). scalar cp)"
  using assms completes2 [of b] completes3 [of b] completes4 [of b]
  by (simp add: ud_lead_def decoder_ok_def decoder_fresh_def scalar_def)

text \<open>Between characters the bounds are those of a continuation byte.\<close>

definition decoder_inv :: "utf8_decoder \<Rightarrow> bool" where
  "decoder_inv d \<longleftrightarrow> decoder_ok d \<and> (ud_needed d = 0 \<longrightarrow> decoder_fresh d)"

lemma fresh_reset [simp]: "decoder_fresh (ud_reset d)"
  by (simp add: decoder_fresh_def ud_reset_def)

lemma lead_inv:
  assumes "decoder_fresh d"
  shows "decoder_inv (fst (ud_lead b d))"
  using lead_ok [OF assms, of b] assms
  by (auto simp: decoder_inv_def) (auto simp: ud_lead_def decoder_fresh_def split: if_splits)

lemma ud_byte_inv:
  assumes "decoder_inv d"
  shows "decoder_inv (fst (ud_byte d byte)) \<and> (\<forall>cp \<in> set (snd (ud_byte d byte)). scalar cp)"
proof -
  consider "ud_needed d = 0" | "ud_needed d \<noteq> 0" "unat byte < ud_lower d \<or> ud_upper d < unat byte"
    | "ud_needed d = 1" "ud_lower d \<le> unat byte" "unat byte \<le> ud_upper d"
    | n where "ud_needed d = Suc (Suc n)" "ud_lower d \<le> unat byte" "unat byte \<le> ud_upper d"
    by (metis One_nat_def not_less old.nat.exhaust)
  then show ?thesis
  proof cases
    case 1
    then show ?thesis using assms lead_ok [of d] lead_inv [of d] by (simp add: ud_byte_def decoder_inv_def)
  next
    case 2
    then show ?thesis using lead_ok [of "ud_reset d" "unat byte"] lead_inv [of "ud_reset d" "unat byte"]
      by (simp add: ud_byte_def Let_def case_prod_beta scalar_def)
  next
    case 3
    then show ?thesis using assms
      by (simp add: ud_byte_def Let_def decoder_inv_def decoder_ok_def) (simp add: ud_reset_def)
  next
    case (4 n)
    then show ?thesis using assms by (simp add: ud_byte_def Let_def decoder_inv_def decoder_ok_def)
  qed
qed

lemma ud_bytes_inv:
  "decoder_inv d \<Longrightarrow> decoder_inv (fst (ud_bytes d bs)) \<and> (\<forall>cp \<in> set (snd (ud_bytes d bs)). scalar cp)"
proof (induction bs arbitrary: d)
  case (Cons b bs)
  then show ?case using ud_byte_inv [OF Cons.prems, of b] Cons.IH [of "fst (ud_byte d b)"]
    by (auto simp: case_prod_beta)
qed simp

lemma ud_lead_begun: "ud_begun (fst (ud_lead b d)) = ud_begun d" "ud_lead b (d\<lparr>ud_begun := x\<rparr>) = (fst (ud_lead b d)\<lparr>ud_begun := x\<rparr>, snd (ud_lead b d))"
  by (simp_all only: ud_lead_def if_distrib [of fst] if_distrib [of snd] fst_conv snd_conv) simp_all

lemma ud_reset_begun: "ud_begun (ud_reset d) = ud_begun d" "ud_reset (d\<lparr>ud_begun := x\<rparr>) = (ud_reset d)\<lparr>ud_begun := x\<rparr>"
  by (simp_all add: ud_reset_def)

lemma ud_byte_begun: "ud_begun (fst (ud_byte d b)) = ud_begun d \<and>
    ud_byte (d\<lparr>ud_begun := x\<rparr>) b = (fst (ud_byte d b)\<lparr>ud_begun := x\<rparr>, snd (ud_byte d b))"
  by (simp add: ud_byte_def Let_def case_prod_beta ud_lead_begun ud_reset_begun)

lemma ud_bytes_begun: "ud_begun (fst (ud_bytes d bs)) = ud_begun d \<and>
    ud_bytes (d\<lparr>ud_begun := x\<rparr>) bs = (fst (ud_bytes d bs)\<lparr>ud_begun := x\<rparr>, snd (ud_bytes d bs))"
  by (induction bs arbitrary: d) (simp_all add: case_prod_beta ud_byte_begun)

lemma skip_bom_append: "skip_bom b (xs @ ys) = skip_bom b xs @ skip_bom (b \<or> xs \<noteq> []) ys"
  by (cases xs) (simp_all add: skip_bom_def)

lemma set_skip_bom: "set (skip_bom b xs) \<subseteq> set xs"
  by (cases xs) (auto simp: skip_bom_def)

text \<open>Decoded text in code points, which the parser reads one by one.\<close>

definition pipe_points :: "terminal_pipe \<Rightarrow> bytes \<Rightarrow> nat list" where
  "pipe_points t bs = skip_bom (ud_begun (tp_decoder t)) (snd (ud_bytes (tp_decoder t) (snd (c1_push (tp_c1 t) bs))))"

definition pipe_after :: "terminal_pipe \<Rightarrow> bytes \<Rightarrow> terminal_pipe" where
  "pipe_after t bs = fst (pipe_push t bs)"

lemma pipe_push_points:
  assumes "decoder_inv (tp_decoder t)"
  shows "pipe_push t bs =
    (case c1_push (tp_c1 t) bs of (n, bs1) \<Rightarrow>
     case ud_bytes (tp_decoder t) bs1 of (d, cps) \<Rightarrow>
     case strip_chars (tp_parser t) (map units_of (skip_bom (ud_begun (tp_decoder t)) cps)) of (st, out) \<Rightarrow>
       (\<lparr>tp_c1 = n, tp_decoder = d\<lparr>ud_begun := ud_begun (tp_decoder t) \<or> cps \<noteq> []\<rparr>, tp_parser = st\<rparr>, out))"
proof -
  have "\<forall>cp \<in> set (skip_bom b (snd (ud_bytes (tp_decoder t) bs1))). scalar cp" for b bs1
    using ud_bytes_inv [OF assms, of bs1] set_skip_bom by fast
  then show ?thesis by (simp add: pipe_push_def decode_stream_def strip_push_def case_prod_beta js_chars_points)
qed

lemma pipe_inv: "decoder_inv (tp_decoder t) \<Longrightarrow> decoder_inv (tp_decoder (fst (pipe_push t bs)))"
  using ud_bytes_inv [of "tp_decoder t"]
  by (simp add: pipe_push_points case_prod_beta decoder_inv_def decoder_ok_def decoder_fresh_def)

lemma pipe_push_append:
  assumes "decoder_inv (tp_decoder t)"
  shows "pipe_push t (xs @ ys) = (case pipe_push t xs of (t1, o1) \<Rightarrow> case pipe_push t1 ys of (t2, o2) \<Rightarrow> (t2, o1 @ o2))"
proof -
  note inv2 = pipe_inv [OF assms, of xs]
  show ?thesis unfolding pipe_push_points [OF assms] using pipe_push_points [OF inv2, of ys] pipe_push_points [OF assms, of xs]
    by (simp add: case_prod_beta c1_push_append ud_bytes_append ud_bytes_begun skip_bom_append strip_chars_append disj_assoc)
qed

lemma pipe_push_Nil: "pipe_push t [] = (t, [])"
  by (cases t) (simp add: pipe_push_def decode_stream_def skip_bom_def strip_push_def)

lemma pipe_feed_concat: "decoder_inv (tp_decoder t) \<Longrightarrow> pipe_feed t frames = pipe_push t (concat frames)"
proof (induction frames arbitrary: t)
  case (Cons bs frames)
  then show ?case using pipe_inv [OF Cons.prems, of bs] pipe_push_append [OF Cons.prems, of bs "concat frames"]
    by (simp add: case_prod_beta)
qed (simp add: pipe_push_Nil)

lemma newPipe_inv: "decoder_inv (tp_decoder newPipe)"
  by (simp add: newPipe_def newDecoder_def decoder_inv_def decoder_ok_def decoder_fresh_def)

text \<open>
  C29. What the terminal shows of the remote output is plain text: line feeds, tabs and printable
  characters, never an escape, a C0 or a C1 control, whatever bytes the peer sends; and how
  the bytes are cut into frames makes no difference to the text.
\<close>

theorem terminal_shows_plain_text:
  "pipe_feed newPipe frames = pipe_push newPipe (concat frames) \<and>
   list_all plain_unit (snd (pipe_feed newPipe frames))"
  unfolding pipe_feed_concat [OF newPipe_inv] using pipe_plain by (auto simp: list_all_iff)

section \<open>UTF-8 text is shown as it is\<close>

lemma byte_unat: "n < 256 \<Longrightarrow> unat (of_nat n :: byte) = n"
  by (simp add: unat_of_nat)

text \<open>The bytes of a character, by their digits.\<close>

lemma utf8_point_cases [consumes 1, case_names one two three four]:
  assumes "scalar cp"
  obtains b where "utf8_point cp = [b]" "unat b = cp" "cp < 0x80"
  | a b x y where "utf8_point cp = [a, b]" "unat a = 0xC0 + x" "unat b = 0x80 + y" "2 \<le> x" "x < 32" "y < 64" "cp = x * 64 + y"
  | a b c x y z where "utf8_point cp = [a, b, c]" "unat a = 0xE0 + x" "unat b = 0x80 + y" "unat c = 0x80 + z"
      "x < 16" "y < 64" "z < 64" "x = 0 \<longrightarrow> 32 \<le> y" "x = 13 \<longrightarrow> y < 32" "cp = (x * 64 + y) * 64 + z"
  | a b c d w x y z where "utf8_point cp = [a, b, c, d]" "unat a = 0xF0 + w" "unat b = 0x80 + x" "unat c = 0x80 + y"
      "unat d = 0x80 + z" "w < 5" "x < 64" "y < 64" "z < 64" "w = 0 \<longrightarrow> 16 \<le> x" "w = 4 \<longrightarrow> x < 16"
      "cp = ((w * 64 + x) * 64 + y) * 64 + z"
proof -
  define p q r where "p = cp div 64" and "q = p div 64" and "r = q div 64"
  have d: "cp = p * 64 + cp mod 64" "p = q * 64 + p mod 64" "q = r * 64 + q mod 64"
    by (simp_all add: p_def q_def r_def)
  have m: "cp mod 64 < 64" "p mod 64 < 64" "q mod 64 < 64" by simp_all
  have n: "cp div 64 = p" "cp div 4096 = q" "cp div 262144 = r"
    by (simp_all add: p_def q_def r_def div_mult2_eq [symmetric])
  consider "cp < 0x80" | "0x80 \<le> cp" "cp < 0x800" | "0x800 \<le> cp" "cp < 0x10000" | "0x10000 \<le> cp" "cp < 0x110000"
    using assms by (force simp: scalar_def)
  then show thesis
  proof cases
    case 1
    then show thesis by (intro that(1) [of "of_nat cp"]) (simp_all add: utf8_point_def byte_unat)
  next
    case 2
    have b: "2 \<le> p" "p < 32" using 2 d m by linarith+
    have "utf8_point cp = [of_nat (0xC0 + p), of_nat (0x80 + cp mod 64)]"
      using 2 by (simp only: utf8_point_def n) simp
    from that(2) [OF this byte_unat byte_unat b m(1) d(1)] show thesis using b m by simp
  next
    case 3
    have b: "q < 16" "q = 0 \<longrightarrow> 32 \<le> p mod 64" "q = 13 \<longrightarrow> p mod 64 < 32"
      using 3 d m assms unfolding scalar_def by linarith+
    have "utf8_point cp = [of_nat (0xE0 + q), of_nat (0x80 + p mod 64), of_nat (0x80 + cp mod 64)]"
      using 3 by (simp only: utf8_point_def n) simp
    from that(3) [OF this byte_unat byte_unat byte_unat b(1) m(2,1) b(2,3)] show thesis using b m d by simp
  next
    case 4
    have b: "r < 5" "r = 0 \<longrightarrow> 16 \<le> q mod 64" "r = 4 \<longrightarrow> q mod 64 < 16"
      using 4 d m by linarith+
    have "utf8_point cp = [of_nat (0xF0 + r), of_nat (0x80 + q mod 64), of_nat (0x80 + p mod 64), of_nat (0x80 + cp mod 64)]"
      using 4 by (simp only: utf8_point_def n) simp
    from that(4) [OF this byte_unat byte_unat byte_unat byte_unat b(1) m(3,2,1) b(2,3)] show thesis using b m d by simp
  qed
qed

lemma utf8_point_c1:
  assumes "scalar cp"
  shows "c1_push 0 (utf8_point cp) = (0, utf8_point cp)"
  using assms by (cases cp rule: utf8_point_cases) (simp_all add: c1_byte_def lead_bytes_def Let_def)

lemma reset_fields:
  assumes "ud_reset d = d"
  shows "ud_point d = 0" "ud_needed d = 0" "ud_lower d = 0x80" "ud_upper d = 0xBF"
proof -
  have "ud_point (ud_reset d) = 0" "ud_needed (ud_reset d) = 0" "ud_lower (ud_reset d) = 0x80" "ud_upper (ud_reset d) = 0xBF"
    by (simp_all add: ud_reset_def)
  then show "ud_point d = 0" "ud_needed d = 0" "ud_lower d = 0x80" "ud_upper d = 0xBF" by (simp_all only: assms)
qed

lemma lead_mod:
  fixes x :: nat
  shows "x < 32 \<Longrightarrow> (192 + x) mod 32 = x" "x < 16 \<Longrightarrow> (224 + x) mod 16 = x" "x < 5 \<Longrightarrow> (240 + x) mod 8 = x"
    "x < 64 \<Longrightarrow> (128 + x) mod 64 = x"
  using mod_sub [of 6 32 "192 + x"] mod_sub [of 14 16 "224 + x"] mod_sub [of 30 8 "240 + x"] mod_sub [of 2 64 "128 + x"]
  by simp_all

lemma utf8_point_decode:
  assumes "scalar cp" "ud_reset d = d"
  shows "ud_bytes d (utf8_point cp) = (d, [cp])"
  using assms(1)
proof (cases cp rule: utf8_point_cases)
  case (one b)
  then show ?thesis using reset_fields [OF assms(2)] by (simp add: ud_byte_def ud_lead_def)
next
  case (two a b x y)
  then show ?thesis using reset_fields [OF assms(2)] assms(2)
    by (simp add: ud_byte_def ud_lead_def ud_reset_def Let_def lead_mod)
next
  case (three a b c x y z)
  then show ?thesis using reset_fields [OF assms(2)] assms(2)
    by (simp add: ud_byte_def ud_lead_def ud_reset_def Let_def lead_mod) linarith
next
  case (four a b c d' w x y z)
  then show ?thesis using reset_fields [OF assms(2)] assms(2)
    by (simp add: ud_byte_def ud_lead_def ud_reset_def Let_def lead_mod) linarith
qed

lemma utf8_points_through:
  assumes "\<forall>cp \<in> set cps. scalar cp" "ud_reset d = d"
  shows "c1_push 0 (concat (map utf8_point cps)) = (0, concat (map utf8_point cps)) \<and>
    ud_bytes d (concat (map utf8_point cps)) = (d, cps)"
  using assms(1) by (induction cps) (simp_all add: c1_push_append ud_bytes_append utf8_point_c1 utf8_point_decode assms(2))

text \<open>A printable character passes the parser.\<close>

definition printable :: "nat \<Rightarrow> bool" where
  "printable cp \<longleftrightarrow> scalar cp \<and> (cp = 9 \<or> cp = 10 \<or> (32 \<le> cp \<and> cp \<noteq> 127 \<and> (cp < 128 \<or> 159 < cp)))"

definition plain_code :: "nat \<Rightarrow> bool" where
  "plain_code n \<longleftrightarrow> n = 9 \<or> n = 10 \<or> (32 \<le> n \<and> n \<noteq> 127 \<and> (n < 128 \<or> 159 < n))"

lemma strip_text_plain: "plain_code n \<Longrightarrow> strip_text n c = (PS_text, c)"
  unfolding plain_code_def by (elim disjE conjE; simp add: strip_text_def)

lemma strip_printable: "printable cp \<Longrightarrow> strip_char PS_text (units_of cp) = (PS_text, units_of cp)"
proof -
  assume p: "printable cp"
  then have "scalar cp" by (simp add: printable_def)
  then have "plain_code (unat (hd (units_of cp)))"
  proof (cases cp rule: units_of_cases)
    case (1 u)
    with p show ?thesis by (simp add: printable_def plain_code_def)
  next
    case (2 u v)
    then show ?thesis by (simp add: plain_code_def)
  qed
  then show ?thesis by (simp add: strip_char_def Let_def strip_text_plain)
qed

lemma strip_printables: "\<forall>cp \<in> set cps. printable cp \<Longrightarrow>
    strip_chars PS_text (map units_of cps) = (PS_text, concat (map units_of cps))"
  by (induction cps) (simp_all add: strip_printable)

lemma code_points_units:
  assumes "scalar cp"
  shows "code_points (units_of cp @ s) = cp # code_points s"
  using assms
proof (cases cp rule: units_of_cases)
  case (1 u)
  then have "\<not> (0xD800 \<le> u \<and> u \<le> 0xDFFF)" "\<not> (0xD800 \<le> u \<and> u \<le> 0xDBFF)" by (auto simp: word_le_nat_alt)
  then show ?thesis using 1(1,2) by (cases s) auto
next
  case (2 u v)
  have "(cp - 0x10000) mod 0x400 < 0x400" by simp
  then have "0xD800 \<le> u" "u \<le> 0xDBFF" "0xDC00 \<le> v" "v \<le> 0xDFFF"
    using 2 by (simp_all add: word_le_nat_alt)
  moreover have "0x10000 + (unat u - 0xD800) * 0x400 + (unat v - 0xDC00) = cp" using 2 by simp
  ultimately show ?thesis using 2(1) by simp
qed

lemma code_points_concat: "\<forall>cp \<in> set cps. scalar cp \<Longrightarrow> code_points (concat (map units_of cps)) = cps"
  by (induction cps) (simp_all add: code_points_units)

text \<open>
  UTF-8 text is shown as it is: what a remote program prints, when it is made of printable
  characters, tabs and line feeds and does not open with a byte-order mark, appears unchanged on
  the terminal, in whatever frames its encoding arrives.
\<close>

theorem terminal_shows_utf8_text:
  assumes "list_all printable cps" "cps \<noteq> [] \<longrightarrow> hd cps \<noteq> 0xFEFF"
    and "concat frames = utf8_encode (concat (map units_of cps))"
  shows "snd (pipe_feed newPipe frames) = concat (map units_of cps)"
proof -
  have p: "\<forall>cp \<in> set cps. printable cp" "\<forall>cp \<in> set cps. scalar cp"
    using assms(1) by (auto simp: list_all_iff printable_def)
  have r: "ud_reset newDecoder = newDecoder" by (simp add: newDecoder_def ud_reset_def)
  show ?thesis
    unfolding pipe_feed_concat [OF newPipe_inv] pipe_push_points [OF newPipe_inv] assms(3)
    using utf8_points_through [OF p(2) r] p strip_printables [OF p(1)] assms(2)
    by (cases "cps = []") (simp_all add: newPipe_def utf8_encode_def code_points_concat skip_bom_def newDecoder_def)
qed

theorem terminal_shows_utf8_text_witness:
  "concat [[0x68, 0xC3], [0xA9, 0xF0, 0x9F], [0x9A, 0x80]] = utf8_encode (concat (map units_of [0x68, 0xE9, 0x1F680])) \<and>
   snd (pipe_feed newPipe [[0x68, 0xC3], [0xA9, 0xF0, 0x9F], [0x9A, 0x80]]) = concat (map units_of [0x68, 0xE9, 0x1F680])"
proof -
  have e: "concat [[0x68, 0xC3], [0xA9, 0xF0, 0x9F], [0x9A, 0x80]] = utf8_encode (concat (map units_of [0x68, 0xE9, 0x1F680]))"
    by (simp add: utf8_encode_def units_of_def utf8_point_def)
  have "list_all printable [0x68, 0xE9, 0x1F680]" by (simp add: printable_def scalar_def)
  from terminal_shows_utf8_text [OF this _ e] e show ?thesis by simp
qed

end
