(* ===== verification/Terminal_Panel.thy ===== *)
theory Terminal_Panel
  imports Terminal Session Step_System
begin

text \<open>
  The class \<open>TerminalPanel\<close> of \<open>webclient/src/ui/terminal-panel.ts\<close>, with
  \<open>ui/advanced-worker-lifecycle.ts\<close>. Each connection has a worker of its own, named by a
  number; a worker that is let go of is told to disconnect and terminated when its timer
  fires, and until then its messages still reach \<open>onEvent\<close>, which does not ask who sends them.
  What the panel does outside itself is appended to \<open>tm_trace\<close>. The elements of the dialog
  exist together (\<open>tm_shell\<close>); \<open>tm_storage\<close> is the browser's storage, \<open>None\<close> where every access
  to it throws. Sizes of the layout are exact numbers.
\<close>

section \<open>The state\<close>

datatype tm_out =
    TM_worker nat
  | TM_post nat UiCommand
  | TM_terminate nat
  | TM_toast jsstr

record TerminalPanel =
  tm_worker :: "nat option"
  tm_next :: nat
  tm_flushing :: "nat list"
  tm_shell :: bool
  tm_output :: jsstr
  tm_input :: jsstr
  tm_enabled :: bool
  tm_status :: jsstr
  tm_persistent :: bool
  tm_pipe :: terminal_pipe
  tm_terminalId :: int
  tm_opened :: bool
  tm_lastRows :: int
  tm_lastCols :: int
  tm_storageKey :: jsstr
  tm_storage :: "(jsstr \<rightharpoonup> jsstr) option"
  tm_trace :: "tm_out list"

definition newTerminalPanel :: "(jsstr \<rightharpoonup> jsstr) option \<Rightarrow> TerminalPanel" where
  "newTerminalPanel storage =
     \<lparr>tm_worker = None, tm_next = 0, tm_flushing = [], tm_shell = False, tm_output = [], tm_input = [], tm_enabled = False,
      tm_status = [], tm_persistent = False, tm_pipe = newPipe, tm_terminalId = 0, tm_opened = False, tm_lastRows = 24,
      tm_lastCols = 80, tm_storageKey = [], tm_storage = storage, tm_trace = []\<rparr>"

definition tm_do :: "tm_out \<Rightarrow> TerminalPanel \<Rightarrow> TerminalPanel" where
  "tm_do x p = p\<lparr>tm_trace := tm_trace p @ [x]\<rparr>"

text \<open>\<open>this.worker?.postMessage\<close>\<close>

definition tm_send :: "UiCommand \<Rightarrow> TerminalPanel \<Rightarrow> TerminalPanel" where
  "tm_send c p = (case tm_worker p of None \<Rightarrow> p | Some w \<Rightarrow> tm_do (TM_post w c) p)"

section \<open>Output and status\<close>

definition tm_appendText :: "jsstr \<Rightarrow> TerminalPanel \<Rightarrow> TerminalPanel" where
  "tm_appendText t p =
     (if \<not> tm_shell p \<or> t = [] then p
      else p\<lparr>tm_output := appendBoundedTerminalText (tm_output p) t MAX_TERMINAL_TEXT\<rparr>)"

definition tm_setStatus :: "jsstr \<Rightarrow> TerminalPanel \<Rightarrow> TerminalPanel" where
  "tm_setStatus m p = (if tm_shell p then p\<lparr>tm_status := m\<rparr> else p)"

definition tm_setInputEnabled :: "bool \<Rightarrow> TerminalPanel \<Rightarrow> TerminalPanel" where
  "tm_setInputEnabled e p = (if tm_shell p then p\<lparr>tm_enabled := e\<rparr> else p)"

section \<open>The worker\<close>

definition disconnectIndependentWorker :: "nat \<Rightarrow> TerminalPanel \<Rightarrow> TerminalPanel" where
  "disconnectIndependentWorker w p = (tm_do (TM_post w Cmd_disconnect) p)\<lparr>tm_flushing := tm_flushing p @ [w]\<rparr>"

text \<open>The timer of \<open>disconnectIndependentWorker\<close>, 250 ms later.\<close>

definition flushed :: "nat \<Rightarrow> TerminalPanel \<Rightarrow> TerminalPanel" where
  "flushed w p =
     (if w \<in> set (tm_flushing p) then (tm_do (TM_terminate w) p)\<lparr>tm_flushing := remove1 w (tm_flushing p)\<rparr> else p)"

definition tm_stopWorker :: "bool \<Rightarrow> TerminalPanel \<Rightarrow> TerminalPanel" where
  "tm_stopWorker closeTerminal p =
     (case tm_worker p of
        None \<Rightarrow> p
      | Some w \<Rightarrow>
          (let p1 = p\<lparr>tm_worker := None\<rparr>;
               p2 = (if closeTerminal \<and> tm_opened p1 then tm_do (TM_post w (Cmd_terminalClose (tm_terminalId p1))) p1 else p1)
           in disconnectIndependentWorker w p2))"

definition tm_fail :: "jsstr \<Rightarrow> TerminalPanel \<Rightarrow> TerminalPanel" where
  "tm_fail message p =
     tm_stopWorker False (tm_appendText (js [CHR 0x0A, CHR ''[''] @ message @ js [CHR '']'', CHR 0x0A])
       (tm_setStatus message (tm_setInputEnabled False (p\<lparr>tm_opened := False\<rparr>))))"

definition tm_open :: "TerminalPanel \<Rightarrow> TerminalPanel" where
  "tm_open p =
     (if tm_shell p then p
      else p\<lparr>tm_shell := True, tm_output := [], tm_input := [], tm_enabled := False, tm_status := js ''Not connected'',
             tm_persistent := False\<rparr>)"

definition tm_connect :: "SessionConfig option \<Rightarrow> TerminalPanel \<Rightarrow> TerminalPanel" where
  "tm_connect getConfig p =
     (if tm_worker p \<noteq> None then p
      else case getConfig of
        None \<Rightarrow> tm_do (TM_toast (js ''Connect to the device before opening a terminal'')) p
      | Some config \<Rightarrow>
          (let p1 = p\<lparr>tm_storageKey := js ''rd:terminal-service:'' @ peerId config\<rparr>;
               persistent = tm_shell p1 \<and> tm_persistent p1;
               serviceId = (if persistent
                            then (case tm_storage p1 of
                                    None \<Rightarrow> []
                                  | Some st \<Rightarrow> (case st (tm_storageKey p1) of None \<Rightarrow> [] | Some v \<Rightarrow> v))
                            else []);
               terminalConfig = config\<lparr>config_connType := Some CK_terminal, terminalPersistent := Some persistent,
                                       terminalServiceId := Some serviceId\<rparr>;
               p2 = (tm_setStatus (js ''Connecting'' @ [0x2026]) p1)\<lparr>tm_pipe := newPipe\<rparr>;
               w = tm_next p2;
               p3 = tm_do (TM_worker w) (p2\<lparr>tm_worker := Some w, tm_next := Suc w\<rparr>)
           in tm_send (Cmd_connectTerminal terminalConfig) p3))"

section \<open>Events of the worker\<close>

fun state_name :: "SessionState \<Rightarrow> jsstr" where
  "state_name Connecting = js ''connecting''"
| "state_name Rendezvous = js ''rendezvous''"
| "state_name RelayState = js ''relay''"
| "state_name Handshake = js ''handshake''"
| "state_name Login = js ''login''"
| "state_name Streaming = js ''streaming''"
| "state_name ErrorState = js ''error''"
| "state_name Closed = js ''closed''"
| "state_name NeedAccept = js ''needAccept''"

definition or_else :: "jsstr option \<Rightarrow> jsstr \<Rightarrow> jsstr" where
  "or_else d s = (case d of None \<Rightarrow> s | Some t \<Rightarrow> if t = [] then s else t)"

definition tm_onState :: "SessionState \<Rightarrow> jsstr option \<Rightarrow> TerminalPanel \<Rightarrow> TerminalPanel" where
  "tm_onState st detail p =
     (if st = Streaming
      then tm_send (Cmd_terminalOpen 0 (tm_lastRows p) (tm_lastCols p)) (tm_setStatus (js ''Opening terminal'' @ [0x2026]) p)
      else if st = ErrorState \<or> st = Closed
      then tm_fail (or_else detail (if st = Closed then js ''Terminal disconnected'' else js ''Terminal connection failed'')) p
      else tm_setStatus (or_else detail (state_name st)) p)"

definition tm_onOpened :: "TerminalOpenedEvent \<Rightarrow> TerminalPanel \<Rightarrow> TerminalPanel" where
  "tm_onOpened e p =
     (if \<not> toe_success e
      then tm_fail (or_else (Some (toe_message e)) (js ''The remote terminal could not be opened'')) p
      else
        (let p1 = tm_setInputEnabled True (p\<lparr>tm_terminalId := toe_terminalId e, tm_opened := True\<rparr>);
             p2 = tm_setStatus (if toe_replayTerminalOutput e
                                then js ''Connected '' @ [0xB7] @ js '' replaying buffered output'' else js ''Connected'') p1;
             p3 = (if toe_serviceId e \<noteq> [] \<and> tm_shell p2 \<and> tm_persistent p2
                   then p2\<lparr>tm_storage := map_option (\<lambda>st. st(tm_storageKey p2 \<mapsto> toe_serviceId e)) (tm_storage p2)\<rparr>
                   else p2);
             n = length (toe_persistentSessions e)
         in if n = 0 then p3
            else tm_appendText (js [CHR 0x0A, CHR ''[''] @ radix_str 10 n @ js '' additional persistent session'' @
                   (if n = 1 then [] else js ''s'') @ js '' available]'' @ js [CHR 0x0A]) p3))"

definition tm_onData :: "bytes \<Rightarrow> TerminalPanel \<Rightarrow> TerminalPanel" where
  "tm_onData d p = (case pipe_push (tm_pipe p) d of (t, out) \<Rightarrow> tm_appendText out (p\<lparr>tm_pipe := t\<rparr>))"

definition tm_onEvent :: "SessionEvent \<Rightarrow> TerminalPanel \<Rightarrow> TerminalPanel" where
  "tm_onEvent ev p =
     (case ev of
        Ev_state st detail _ \<Rightarrow> tm_onState st detail p
      | Ev_loginError m \<Rightarrow> tm_fail m p
      | Ev_terminalOpened e \<Rightarrow> tm_onOpened e p
      | Ev_terminalData _ d _ \<Rightarrow> tm_onData d p
      | Ev_terminalClosed _ exitCode \<Rightarrow>
          tm_setStatus (js ''Terminal exited with code '' @ int_str exitCode) (tm_setInputEnabled False (p\<lparr>tm_opened := False\<rparr>))
      | Ev_terminalError _ m \<Rightarrow> tm_fail m p
      | _ \<Rightarrow> p)"

section \<open>Input\<close>

definition tm_sendBytes :: "bytes \<Rightarrow> TerminalPanel \<Rightarrow> TerminalPanel" where
  "tm_sendBytes d p = tm_send (Cmd_terminalData (tm_terminalId p) d) p"

definition tm_sendLine :: "TerminalPanel \<Rightarrow> TerminalPanel" where
  "tm_sendLine p =
     (let value = (if tm_shell p then tm_input p else [])
      in if \<not> tm_opened p \<or> value = [] then p
         else (let p1 = tm_sendBytes (utf8_encode (value @ [0x0D])) p in if tm_shell p1 then p1\<lparr>tm_input := []\<rparr> else p1))"

text \<open>
  The first unit of \<open>key.toUpperCase()\<close> for a key of one unit, as far as it can be ASCII: the
  letters, the two letters whose capital is ASCII, and those that expand.
\<close>

definition upper_first :: "16 word \<Rightarrow> 16 word" where
  "upper_first u =
     (if 97 \<le> u \<and> u \<le> 122 then u - 32
      else if u = 0x0131 then 73 else if u = 0x017F \<or> u = 0xDF then 83
      else if u = 0x01F0 then 74 else if u = 0x1E96 then 72 else if u = 0x1E97 then 84
      else if u = 0x1E98 then 87 else if u = 0x1E99 then 89 else if u = 0x1E9A then 65
      else if 0xFB00 \<le> u \<and> u \<le> 0xFB04 then 70 else if u = 0xFB05 \<or> u = 0xFB06 then 83
      else u)"

definition special_keys :: "(jsstr \<times> jsstr) list" where
  "special_keys =
     [(js ''ArrowUp'', 27 # js ''[A''), (js ''ArrowDown'', 27 # js ''[B''), (js ''ArrowRight'', 27 # js ''[C''),
      (js ''ArrowLeft'', 27 # js ''[D''), (js ''Home'', 27 # js ''[H''), (js ''End'', 27 # js ''[F''),
      (js ''Delete'', 27 # js ''[3~''), (js ''Tab'', [9])]"

definition key_bytes :: "bool \<Rightarrow> jsstr \<Rightarrow> bytes option" where
  "key_bytes ctrl key =
     (if ctrl \<and> length key = 1
      then (let code = upper_first (hd key) in if 64 \<le> code \<and> code \<le> 95 then Some [of_nat (unat code - 64)] else None)
      else map_option utf8_encode (map_of special_keys key))"

definition sendSpecialKey :: "bool \<Rightarrow> jsstr \<Rightarrow> TerminalPanel \<Rightarrow> TerminalPanel" where
  "sendSpecialKey ctrl key p =
     (if \<not> tm_opened p then p else case key_bytes ctrl key of None \<Rightarrow> p | Some d \<Rightarrow> tm_sendBytes d p)"

section \<open>Layout\<close>

text \<open>\<open>Number.parseFloat(s) || d\<close>, where \<open>None\<close> is \<open>NaN\<close>.\<close>

definition number_or :: "rat option \<Rightarrow> rat \<Rightarrow> rat" where
  "number_or v d = (case v of None \<Rightarrow> d | Some x \<Rightarrow> if x = 0 then d else x)"

definition tm_resize :: "rat option \<Rightarrow> rat option \<Rightarrow> int \<Rightarrow> int \<Rightarrow> TerminalPanel \<Rightarrow> TerminalPanel" where
  "tm_resize fontSize_css lineHeight_css clientWidth clientHeight p =
     (if \<not> tm_shell p then p
      else
        (let fontSize = number_or fontSize_css 14;
             lineHeight = number_or lineHeight_css (fontSize * (145 / 100));
             charWidth = fontSize * (61 / 100);
             rows = max 8 \<lfloor>of_int clientHeight / lineHeight\<rfloor>;
             cols = max 20 \<lfloor>of_int clientWidth / charWidth\<rfloor>
         in if rows = tm_lastRows p \<and> cols = tm_lastCols p then p
            else
              (let p1 = p\<lparr>tm_lastRows := rows, tm_lastCols := cols\<rparr>
               in if tm_opened p1 then tm_send (Cmd_terminalResize (tm_terminalId p1) rows cols) p1 else p1)))"

definition tm_destroy :: "TerminalPanel \<Rightarrow> TerminalPanel" where
  "tm_destroy p =
     (tm_stopWorker True p)
       \<lparr>tm_shell := False, tm_opened := False, tm_pipe := newPipe\<rparr>"

section \<open>The panel as a system\<close>

text \<open>
  A message is delivered while its worker is not terminated; the elements take input only
  while the dialog exists, and the line and the keys only while the input is enabled.
\<close>

datatype (plugins only: size) terminal_call =
    TC_open
  | TC_connect "SessionConfig option"
  | TC_event nat SessionEvent
  | TC_workerError nat
  | TC_type jsstr
  | TC_keep bool
  | TC_submit
  | TC_key bool jsstr
  | TC_layout "rat option" "rat option" int int
  | TC_destroy
  | TC_flushed nat

definition tm_hears :: "nat \<Rightarrow> TerminalPanel \<Rightarrow> bool" where
  "tm_hears w p \<longleftrightarrow> tm_worker p = Some w \<or> w \<in> set (tm_flushing p)"

definition terminal_step :: "terminal_call \<Rightarrow> TerminalPanel \<Rightarrow> TerminalPanel" where
  "terminal_step c p =
     (case c of
        TC_open \<Rightarrow> tm_open p
      | TC_connect cfg \<Rightarrow> if tm_shell p then tm_connect cfg p else p
      | TC_event w ev \<Rightarrow> if tm_hears w p then tm_onEvent ev p else p
      | TC_workerError w \<Rightarrow> if tm_hears w p then tm_fail (js ''Terminal worker failed'') p else p
      | TC_type s \<Rightarrow> if tm_shell p \<and> tm_enabled p then p\<lparr>tm_input := s\<rparr> else p
      | TC_keep b \<Rightarrow> if tm_shell p then p\<lparr>tm_persistent := b\<rparr> else p
      | TC_submit \<Rightarrow> if tm_shell p \<and> tm_enabled p then tm_sendLine p else p
      | TC_key ctrl key \<Rightarrow> if tm_shell p \<and> tm_enabled p then sendSpecialKey ctrl key p else p
      | TC_layout f l w h \<Rightarrow> tm_resize f l w h p
      | TC_destroy \<Rightarrow> tm_destroy p
      | TC_flushed w \<Rightarrow> flushed w p)"

end
