(* ===== verification/Terminal_Panel_Safety.thy ===== *)
theory Terminal_Panel_Safety
  imports Terminal_Panel
begin

text \<open>
  What the terminal panel keeps through every sequence of user actions, worker messages and
  timers: every worker it starts hears one conversation that ends with a disconnect and is
  terminated after it, and the output stays within its bound. Also what a message of a worker
  that was already let go of does to the next one.
\<close>

section \<open>The conversation with a worker\<close>

fun posts :: "nat \<Rightarrow> tm_out list \<Rightarrow> UiCommand list" where
  "posts w [] = []"
| "posts w (TM_post v c # tr) = (if v = w then c # posts w tr else posts w tr)"
| "posts w (_ # tr) = posts w tr"

lemma posts_append [simp]: "posts w (a @ b) = posts w a @ posts w b"
  by (induction w a rule: posts.induct) auto

text \<open>What is said between the two ends: open, input and size.\<close>

fun talk :: "UiCommand \<Rightarrow> bool" where
  "talk (Cmd_terminalOpen _ _ _) = True"
| "talk (Cmd_terminalData _ _) = True"
| "talk (Cmd_terminalResize _ _ _) = True"
| "talk _ = False"

definition farewell :: "UiCommand list \<Rightarrow> bool" where
  "farewell b \<longleftrightarrow> b = [Cmd_disconnect] \<or> (\<exists>i. b = [Cmd_terminalClose i, Cmd_disconnect])"

definition talking :: "UiCommand list \<Rightarrow> bool" where
  "talking cs \<longleftrightarrow> (\<exists>cfg body. cs = Cmd_connectTerminal cfg # body \<and> config_connType cfg = Some CK_terminal \<and> list_all talk body)"

definition dismissed :: "UiCommand list \<Rightarrow> bool" where
  "dismissed cs \<longleftrightarrow> (\<exists>a b. cs = a @ b \<and> talking a \<and> farewell b)"

lemma talking_snoc: "talking cs \<Longrightarrow> talk c \<Longrightarrow> talking (cs @ [c])"
  by (auto simp: talking_def)

lemma dismissed_end: "talking cs \<Longrightarrow> farewell b \<Longrightarrow> dismissed (cs @ b)"
  unfolding dismissed_def by blast

section \<open>The invariant\<close>

definition worker_ok :: "nat \<Rightarrow> TerminalPanel \<Rightarrow> bool" where
  "worker_ok w p \<longleftrightarrow>
     (if tm_next p \<le> w
      then posts w (tm_trace p) = [] \<and> w \<notin> set (tm_flushing p) \<and> TM_terminate w \<notin> set (tm_trace p)
      else if tm_worker p = Some w
      then talking (posts w (tm_trace p)) \<and> w \<notin> set (tm_flushing p) \<and> TM_terminate w \<notin> set (tm_trace p)
      else dismissed (posts w (tm_trace p)) \<and> (w \<in> set (tm_flushing p) \<longleftrightarrow> TM_terminate w \<notin> set (tm_trace p)))"

definition terminal_inv :: "TerminalPanel \<Rightarrow> bool" where
  "terminal_inv p \<longleftrightarrow>
     (\<forall>w. worker_ok w p) \<and> (\<forall>w. tm_worker p = Some w \<longrightarrow> w < tm_next p) \<and> distinct (tm_flushing p) \<and>
     length (tm_output p) \<le> MAX_TERMINAL_TEXT"

text \<open>What the status, the input and the output do not touch.\<close>

definition same_workers :: "TerminalPanel \<Rightarrow> TerminalPanel \<Rightarrow> bool" where
  "same_workers p q \<longleftrightarrow>
     tm_worker q = tm_worker p \<and> tm_next q = tm_next p \<and> tm_flushing q = tm_flushing p \<and> tm_trace q = tm_trace p"

lemma inv_same: "terminal_inv p \<Longrightarrow> same_workers p q \<Longrightarrow> length (tm_output q) \<le> MAX_TERMINAL_TEXT \<Longrightarrow> terminal_inv q"
  by (simp add: terminal_inv_def same_workers_def worker_ok_def)

lemma append_bounded: "length (appendBoundedTerminalText a b mx) \<le> mx"
  by (simp add: appendBoundedTerminalText_def Let_def) linarith

lemma inv_output: "terminal_inv p \<Longrightarrow> length (tm_output p) \<le> MAX_TERMINAL_TEXT"
  by (simp add: terminal_inv_def)

lemma inv_appendText [intro]: "terminal_inv p \<Longrightarrow> terminal_inv (tm_appendText t p)"
  by (rule inv_same [of p]) (simp_all add: tm_appendText_def same_workers_def append_bounded inv_output)

lemma inv_setStatus [intro]: "terminal_inv p \<Longrightarrow> terminal_inv (tm_setStatus m p)"
  by (rule inv_same [of p]) (simp_all add: tm_setStatus_def same_workers_def inv_output)

lemma inv_setInputEnabled [intro]: "terminal_inv p \<Longrightarrow> terminal_inv (tm_setInputEnabled e p)"
  by (rule inv_same [of p]) (simp_all add: tm_setInputEnabled_def same_workers_def inv_output)

lemma inv_fields [intro]:
  assumes "terminal_inv p"
  shows "terminal_inv (p\<lparr>tm_opened := b\<rparr>)" "terminal_inv (p\<lparr>tm_terminalId := i, tm_opened := b\<rparr>)"
    "terminal_inv (p\<lparr>tm_pipe := t\<rparr>)" "terminal_inv (p\<lparr>tm_input := s\<rparr>)" "terminal_inv (p\<lparr>tm_persistent := b\<rparr>)"
    "terminal_inv (p\<lparr>tm_storage := st\<rparr>)" "terminal_inv (p\<lparr>tm_storageKey := s\<rparr>)"
    "terminal_inv (p\<lparr>tm_lastRows := r, tm_lastCols := c\<rparr>)"
    "terminal_inv (p\<lparr>tm_shell := False, tm_opened := False, tm_pipe := t\<rparr>)"
  using inv_output [OF assms] by (auto intro!: inv_same [OF assms] simp: same_workers_def)

section \<open>What each operation keeps\<close>

lemma inv_send [intro]:
  assumes "terminal_inv p" "talk c"
  shows "terminal_inv (tm_send c p)"
proof (cases "tm_worker p")
  case (Some w)
  then have "w < tm_next p" "talking (posts w (tm_trace p))" using assms(1) unfolding terminal_inv_def worker_ok_def by (metis leD)+
  then have "talking (posts w (tm_trace p) @ [c])" "w < tm_next p" using assms(2) by (simp_all add: talking_snoc)
  then show ?thesis using assms(1) Some by (auto simp: tm_send_def tm_do_def terminal_inv_def worker_ok_def)
qed (use assms in \<open>simp add: tm_send_def\<close>)

lemma inv_stopWorker [intro]:
  assumes "terminal_inv p"
  shows "terminal_inv (tm_stopWorker b p)"
proof (cases "tm_worker p")
  case (Some w)
  then have w: "w < tm_next p" "talking (posts w (tm_trace p))" "w \<notin> set (tm_flushing p)" "TM_terminate w \<notin> set (tm_trace p)"
    using assms unfolding terminal_inv_def worker_ok_def by (metis leD)+
  then have "dismissed (posts w (tm_trace p) @ [Cmd_disconnect])"
    "dismissed (posts w (tm_trace p) @ [Cmd_terminalClose i, Cmd_disconnect])" for i
    by (simp_all add: dismissed_end farewell_def)
  then show ?thesis using assms Some w
    by (auto simp: tm_stopWorker_def disconnectIndependentWorker_def tm_do_def Let_def terminal_inv_def worker_ok_def)
qed (use assms in \<open>simp add: tm_stopWorker_def\<close>)

lemma inv_fail [intro]: "terminal_inv p \<Longrightarrow> terminal_inv (tm_fail m p)"
  unfolding tm_fail_def by (intro inv_stopWorker inv_appendText inv_setStatus inv_setInputEnabled inv_fields)

lemma inv_flushed:
  assumes "terminal_inv p"
  shows "terminal_inv (flushed w p)"
proof (cases "w \<in> set (tm_flushing p)")
  case True
  then have "w < tm_next p" "tm_worker p \<noteq> Some w" using assms unfolding terminal_inv_def worker_ok_def by (metis not_le)+
  then show ?thesis using assms True
    by (auto simp: flushed_def tm_do_def terminal_inv_def worker_ok_def)
qed (use assms in \<open>simp add: flushed_def\<close>)

lemma inv_started:
  assumes "terminal_inv p" "tm_worker p = None" "config_connType cfg = Some CK_terminal" "w = tm_next p"
  shows "terminal_inv (tm_send (Cmd_connectTerminal cfg) (tm_do (TM_worker w) (p\<lparr>tm_worker := Some w, tm_next := Suc w\<rparr>)))"
proof -
  have "talking [Cmd_connectTerminal cfg]" using assms(3) by (simp add: talking_def)
  then show ?thesis using assms
    by (auto simp: tm_send_def tm_do_def terminal_inv_def worker_ok_def not_less_eq_eq not_le less_Suc_eq split: if_splits)
qed

lemma inv_connect: "terminal_inv p \<Longrightarrow> terminal_inv (tm_connect cfg p)"
proof (cases "tm_worker p = None \<and> cfg \<noteq> None")
  case True
  assume "terminal_inv p"
  let ?p = "(tm_setStatus (js ''Connecting'' @ [0x2026]) (p\<lparr>tm_storageKey := js ''rd:terminal-service:'' @ peerId (the cfg)\<rparr>))\<lparr>tm_pipe := newPipe\<rparr>"
  have "terminal_inv ?p" using \<open>terminal_inv p\<close> by (intro inv_fields inv_setStatus)
  moreover have "tm_worker ?p = None" using True by (simp add: tm_setStatus_def)
  ultimately show ?thesis using True by (auto simp: tm_connect_def Let_def intro!: inv_started)
qed (auto simp: tm_connect_def tm_do_def terminal_inv_def worker_ok_def)

lemma inv_onEvent: "terminal_inv p \<Longrightarrow> terminal_inv (tm_onEvent ev p)"
  by (cases ev)
    (auto simp: tm_onEvent_def tm_onState_def tm_onOpened_def tm_onData_def Let_def case_prod_beta
      intro!: inv_fail inv_send inv_setStatus inv_appendText inv_setInputEnabled inv_fields)

lemma inv_open: "terminal_inv p \<Longrightarrow> terminal_inv (tm_open p)"
  by (rule inv_same [of p]) (simp_all add: tm_open_def same_workers_def inv_output)

lemma inv_input: "terminal_inv p \<Longrightarrow> terminal_inv (tm_sendLine p)" "terminal_inv p \<Longrightarrow> terminal_inv (sendSpecialKey ctrl key p)"
  "terminal_inv p \<Longrightarrow> terminal_inv (tm_resize f l x y p)"
  by (auto intro!: inv_send inv_fields simp: tm_sendLine_def sendSpecialKey_def tm_sendBytes_def tm_resize_def Let_def split: option.split)

lemma inv_terminal_step: "terminal_inv p \<Longrightarrow> terminal_inv (terminal_step c p)"
  by (cases c) (auto simp: terminal_step_def tm_destroy_def inv_open inv_connect inv_onEvent inv_input inv_flushed)

lemma inv_newTerminalPanel: "terminal_inv (newTerminalPanel st)"
  by (simp add: newTerminalPanel_def terminal_inv_def worker_ok_def)

interpretation terminal: invariant_system "\<lambda>p. \<exists>st. p = newTerminalPanel st" terminal_step terminal_inv
  by unfold_locales (auto intro: inv_newTerminalPanel inv_terminal_step)

text \<open>
  Whatever the user, the workers and the timers do, each worker the panel starts hears one
  conversation: connect as a terminal first, then terminal messages. A worker that is no
  longer the current one was told to disconnect as the last thing, and is terminated unless
  its timer is still to come; and the output is at most a million units long.
\<close>

theorem terminal_workers_let_go:
  assumes "p = fold terminal_step cs (newTerminalPanel st)" "w < tm_next p"
  shows "(if tm_worker p = Some w then talking (posts w (tm_trace p)) \<and> TM_terminate w \<notin> set (tm_trace p)
          else dismissed (posts w (tm_trace p)) \<and> (TM_terminate w \<in> set (tm_trace p) \<or> w \<in> set (tm_flushing p))) \<and>
    length (tm_output p) \<le> 1000000"
proof -
  have "terminal_inv p" unfolding assms(1) by (intro terminal.inv_reach reach_fold reach_init) blast
  then have "worker_ok w p" "length (tm_output p) \<le> 1000000" by (simp_all add: terminal_inv_def MAX_TERMINAL_TEXT_def)
  then show ?thesis using assms(2) by (auto simp: worker_ok_def)
qed

text \<open>A device, and a run that fails once and connects again at once.\<close>

definition demo_terminal_config :: SessionConfig where
  "demo_terminal_config =
     \<lparr>peerId = js ''1'', serverKeyB64 = [], wsIdUrl = [], wsRelayUrl = [], password = [], myId = [], myName = [],
      savedHashHex = None, config_connType = None, terminalServiceId = None, terminalPersistent = None\<rparr>"

definition demo_reconnect :: "terminal_call list" where
  "demo_reconnect =
     [TC_open, TC_connect (Some demo_terminal_config), TC_event 0 (Ev_terminalError 0 (js ''denied'')),
      TC_connect (Some demo_terminal_config)]"

lemmas terminal_eval = terminal_step_def tm_open_def tm_connect_def tm_onEvent_def tm_fail_def tm_hears_def tm_onState_def
  tm_send_def tm_do_def tm_setStatus_def tm_setInputEnabled_def tm_appendText_def tm_stopWorker_def
  disconnectIndependentWorker_def newTerminalPanel_def demo_reconnect_def or_else_def Let_def

lemma demo_reconnect_state:
  "tm_next (fold terminal_step demo_reconnect (newTerminalPanel None)) = 2"
  "tm_worker (fold terminal_step demo_reconnect (newTerminalPanel None)) = Some 1"
  "tm_flushing (fold terminal_step demo_reconnect (newTerminalPanel None)) = [0]"
  "tm_shell (fold terminal_step demo_reconnect (newTerminalPanel None))"
  by (simp_all add: terminal_eval)

theorem terminal_workers_let_go_witness:
  "0 < tm_next (fold terminal_step demo_reconnect (newTerminalPanel None)) \<and>
   dismissed (posts 0 (tm_trace (fold terminal_step demo_reconnect (newTerminalPanel None)))) \<and>
   length (tm_output (fold terminal_step demo_reconnect (newTerminalPanel None))) \<le> 1000000"
  using terminal_workers_let_go [OF refl, of 0 demo_reconnect None] by (simp add: demo_reconnect_state)

text \<open>
  The panel does not tell its workers apart: the \<open>closed\<close> with which a dismissed worker answers
  its disconnect, while the next worker is connecting, disconnects that next worker and
  replaces its status.
\<close>

theorem stale_close_stops_the_next_worker:
  assumes "v \<in> set (tm_flushing p)" "tm_worker p = Some w" "tm_shell p"
  shows "tm_worker (terminal_step (TC_event v (Ev_state Closed None b)) p) = None \<and>
    tm_status (terminal_step (TC_event v (Ev_state Closed None b)) p) = js ''Terminal disconnected'' \<and>
    posts w (tm_trace (terminal_step (TC_event v (Ev_state Closed None b)) p)) = posts w (tm_trace p) @ [Cmd_disconnect]"
  using assms by (simp add: terminal_eval)

theorem stale_close_stops_the_next_worker_witness:
  "tm_worker (fold terminal_step (demo_reconnect @ [TC_event 0 (Ev_state Closed None False)]) (newTerminalPanel None)) = None"
  using stale_close_stops_the_next_worker [of 0 "fold terminal_step demo_reconnect (newTerminalPanel None)" 1 False]
  by (simp add: demo_reconnect_state)

end
