(* ===== verification/Display_Controls.thy ===== *)
theory Display_Controls
  imports Contracts Json Session_Controls Input
begin

text \<open>
  The display controls of the session (\<open>webclient/src/ui/display-controls.ts\<close>), the security menu
  (\<open>ui/session-controls-menu.ts\<close>), the state of the voice-call button (\<open>ui/voice-call-ui.ts\<close>) and
  the view-only policy (\<open>ui/view-only-policy.ts\<close>): pure functions the application shell calls.
  \<open>JSON.parse\<close> and \<open>JSON.stringify\<close> are parameters; widths, heights and frame rates are the
  integers the protocol carries, coordinates are exact numbers.
\<close>

section \<open>Virtual displays\<close>

definition SUPPORTED_VIRTUAL_DISPLAY_IDDS :: "jsstr list" where
  "SUPPORTED_VIRTUAL_DISPLAY_IDDS = [js ''rustdesk_idd'', js ''amyuni_idd'']"

definition isResolution :: "Resolution \<Rightarrow> bool" where
  "isResolution v \<longleftrightarrow> 0 < res_width v \<and> 0 < res_height v \<and> res_width v \<le> 16384 \<and> res_height v \<le> 16384"

record VirtualDisplayCapability =
  vd_impl :: jsstr
  vd_rustdeskIds :: "int list"
  vd_amyuniCount :: int

definition parseAdditionRecord :: "(jsstr \<Rightarrow> json option) \<Rightarrow> jsstr \<Rightarrow> (jsstr \<times> json) list option" where
  "parseAdditionRecord parse raw = (case parse raw of Some (JObj kvs) \<Rightarrow> Some kvs | _ \<Rightarrow> None)"

fun is_bool :: "json \<Rightarrow> bool" where
  "is_bool (JBool _) = True"
| "is_bool _ = False"

definition prior_get :: "(jsstr \<times> json) list option \<Rightarrow> jsstr \<Rightarrow> json option" where
  "prior_get prior k = (case prior of None \<Rightarrow> None | Some kvs \<Rightarrow> map_of kvs k)"

definition keep_bool :: "(jsstr \<times> json) list option \<Rightarrow> jsstr \<Rightarrow> (jsstr \<times> json) list \<Rightarrow> (jsstr \<times> json) list" where
  "keep_bool prior k nxt =
     (case prior_get prior k of
        Some v \<Rightarrow> if map_of nxt k = None \<and> is_bool v then kv_set k v nxt else nxt
      | None \<Rightarrow> nxt)"

definition keep_impl :: "(jsstr \<times> json) list option \<Rightarrow> (jsstr \<times> json) list \<Rightarrow> (jsstr \<times> json) list" where
  "keep_impl prior nxt =
     (case prior_get prior (js ''idd_impl'') of
        Some (JStr s) \<Rightarrow>
          if map_of nxt (js ''idd_impl'') = None \<and> s \<in> set SUPPORTED_VIRTUAL_DISPLAY_IDDS
          then kv_set (js ''idd_impl'') (JStr s) nxt else nxt
      | _ \<Rightarrow> nxt)"

definition mergePlatformAdditions :: "(jsstr \<Rightarrow> json option) \<Rightarrow> (json \<Rightarrow> jsstr) \<Rightarrow> jsstr \<Rightarrow> jsstr \<Rightarrow> jsstr" where
  "mergePlatformAdditions parse stringify previous incoming =
     (case parseAdditionRecord parse incoming of
        None \<Rightarrow> []
      | Some nxt \<Rightarrow>
          (let prior = parseAdditionRecord parse previous
           in stringify (JObj (keep_impl prior (keep_bool prior (js ''support_view_camera'')
                (keep_bool prior (js ''is_installed'') nxt))))))"

text \<open>\<open>a ?? b\<close>: the second operand for \<open>undefined\<close> and \<open>null\<close>.\<close>

definition nullish :: "json option \<Rightarrow> json option \<Rightarrow> json option" where
  "nullish a b = (if a = None \<or> a = Some JNull then b else a)"

fun safe_int_of :: "json \<Rightarrow> int option" where
  "safe_int_of (JNum q) = (if isSafeInteger (Num q) then Some \<lfloor>q\<rfloor> else None)"
| "safe_int_of _ = None"

definition display_ids :: "json list \<Rightarrow> int list" where
  "display_ids vs = sort (remdups (filter (\<lambda>i. 0 < i \<and> i \<le> 4) (List.map_filter safe_int_of vs)))"

definition parseVirtualDisplayCapability ::
    "(jsstr \<Rightarrow> json option) \<Rightarrow> jsstr \<Rightarrow> jsstr \<Rightarrow> VirtualDisplayCapability option" where
  "parseVirtualDisplayCapability parse platform platformAdditions =
     (if platform \<noteq> js ''Windows'' then None
      else case parse platformAdditions of
        None \<Rightarrow> None
      | Some additions \<Rightarrow>
          (case obj_get additions (js ''idd_impl'') of
             Some (JStr impl) \<Rightarrow>
               if obj_get additions (js ''is_installed'') \<noteq> Some (JBool True) \<or> impl \<notin> set SUPPORTED_VIRTUAL_DISPLAY_IDDS
               then None
               else
                 (let idsValue = nullish (obj_get additions (js ''virtual_displays''))
                                   (obj_get additions (js ''rustdesk_virtual_displays''));
                      rawCount = nullish (obj_get additions (js ''amyuni_virtual_displays''))
                                   (nullish (obj_get additions (js ''virtual_display_count''))
                                      (obj_get additions (js ''amyuni_virtual_display_count'')))
                  in Some \<lparr>vd_impl = impl,
                       vd_rustdeskIds = (case idsValue of Some (JArr vs) \<Rightarrow> display_ids vs | _ \<Rightarrow> []),
                       vd_amyuniCount = (case Option.bind rawCount safe_int_of of None \<Rightarrow> 0 | Some n \<Rightarrow> max 0 (min 4 n))\<rparr>)
           | _ \<Rightarrow> None))"

definition canToggleVirtualDisplay :: "(jsstr \<Rightarrow> json option) \<Rightarrow> jsstr \<Rightarrow> jsstr \<Rightarrow> bool" where
  "canToggleVirtualDisplay parse platform platformAdditions =
     (parseVirtualDisplayCapability parse platform platformAdditions \<noteq> None)"

section \<open>Frame rate\<close>

record fps_state =
  fps_target :: rat
  fps_stable :: int

definition adaptFps :: "rat \<Rightarrow> int \<Rightarrow> fps_state \<Rightarrow> fps_state" where
  "adaptFps cap0 droppedDelta s =
     (let target = max 5 (min 120 (js_round (fps_target s)));
          cap = max 5 (min 120 (js_round cap0))
      in if 0 < droppedDelta then \<lparr>fps_target = of_int (max 5 (target - 10)), fps_stable = 0\<rparr>
         else let stable = fps_stable s + 1
              in if 5 \<le> stable \<and> target < cap then \<lparr>fps_target = of_int (min cap (target + 5)), fps_stable = 0\<rparr>
                 else \<lparr>fps_target = of_int target, fps_stable = stable\<rparr>)"

section \<open>Displays\<close>

definition display_at :: "DisplayInfo list \<Rightarrow> int \<Rightarrow> DisplayInfo option" where
  "display_at ds i = (if 0 \<le> i then js_at ds (nat i) else None)"

definition mergeDisplayRefresh :: "DisplayInfo list \<Rightarrow> DisplayInfo list \<Rightarrow> int \<Rightarrow> DisplayInfo list" where
  "mergeDisplayRefresh existing incoming activeIndex =
     (case (display_at existing activeIndex, display_at incoming activeIndex) of
        (Some active, Some refreshed) \<Rightarrow>
          incoming[nat activeIndex := refreshed
            \<lparr>di_index := di_index active, di_x := di_x active, di_y := di_y active, di_width := di_width active,
             di_height := di_height active, di_scale := di_scale active, di_online := di_online refreshed,
             di_cursorEmbedded := di_cursorEmbedded active, di_originalResolution := di_originalResolution active,
             di_resolutions := di_resolutions active\<rparr>]
      | _ \<Rightarrow> incoming)"

definition canUseRemoteCursor :: "jsstr \<Rightarrow> DisplayInfo option \<Rightarrow> bool" where
  "canUseRemoteCursor platform display =
     (case display of
        None \<Rightarrow> False
      | Some d \<Rightarrow> di_online d \<and> \<not> di_cursorEmbedded d \<and> js_lower platform \<noteq> js ''android'' \<and> js_lower platform \<noteq> js ''ios'')"

definition mapRemoteCursorToCanvas :: "rat \<Rightarrow> rat \<Rightarrow> DisplayRect \<Rightarrow> jsnum option \<Rightarrow> DOMRect \<Rightarrow> (rat \<times> rat) option" where
  "mapRemoteCursorToCanvas px py d display_scale c =
     (let scale = (case display_scale of Some (Num q) \<Rightarrow> if 0 < q then q else 1 | _ \<Rightarrow> 1);
          localX = (px - dr_x d) * scale;
          localY = (py - dr_y d) * scale
      in if localX < 0 \<or> localY < 0 \<or> dr_width d \<le> localX \<or> dr_height d \<le> localY then None
         else if dr_width d \<le> 0 \<or> dr_height d \<le> 0 \<or> rc_width c \<le> 0 \<or> rc_height c \<le> 0 then None
         else Some (rc_left c + localX / dr_width d * rc_width c, rc_top c + localY / dr_height d * rc_height c))"

section \<open>Resolutions\<close>

record ResolutionChoice = Resolution +
  rc_label :: jsstr

definition resolution_key :: "Resolution \<Rightarrow> jsstr" where
  "resolution_key v = radix_str 10 (nat (res_width v)) @ js ''x'' @ radix_str 10 (nat (res_height v))"

definition same_size :: "Resolution \<Rightarrow> Resolution \<Rightarrow> bool" where
  "same_size a b \<longleftrightarrow> res_width a = res_width b \<and> res_height a = res_height b"

definition resolution_values :: "Resolution list \<Rightarrow> Resolution option \<Rightarrow> Resolution option \<Rightarrow> bool \<Rightarrow> Resolution list" where
  "resolution_values supported original fit isVirtual =
     supported @ (case original of Some v \<Rightarrow> if isResolution v then [v] else [] | None \<Rightarrow> []) @
     (case fit of
        Some v \<Rightarrow> if isResolution v \<and> (isVirtual \<or> list_ex (\<lambda>r. same_size r v) supported) then [v] else []
      | None \<Rightarrow> [])"

text \<open>\<open>Map.set\<close> in a loop: a later value takes the place of the earlier one.\<close>

fun unique_values :: "Resolution list \<Rightarrow> (jsstr \<times> Resolution) list \<Rightarrow> (jsstr \<times> Resolution) list" where
  "unique_values [] m = m"
| "unique_values (v # vs) m = unique_values vs (if isResolution v then kv_set (resolution_key v) v m else m)"

definition choice_of :: "Resolution option \<Rightarrow> Resolution \<Rightarrow> ResolutionChoice" where
  "choice_of original v =
     \<lparr>res_width = res_width v, res_height = res_height v,
      rc_label = radix_str 10 (nat (res_width v)) @ [0xD7] @ radix_str 10 (nat (res_height v)) @
        (if (case original of Some r \<Rightarrow> same_size r v | None \<Rightarrow> False) then js '' (original)'' else [])\<rparr>"

definition buildResolutionChoices ::
    "Resolution list \<Rightarrow> Resolution option \<Rightarrow> Resolution option \<Rightarrow> bool \<Rightarrow> ResolutionChoice list" where
  "buildResolutionChoices supported original fit isVirtual =
     map (choice_of original)
       (sort_key (\<lambda>v. res_width v * res_height v)
          (map snd (unique_values (resolution_values supported original fit isVirtual) [])))"

definition codecPreferenceValue :: "jsstr \<Rightarrow> int option" where
  "codecPreferenceValue codec =
     map_of [(js ''auto'', PreferCodec_Auto), (js ''vp9'', PreferCodec_VP9), (js ''h264'', PreferCodec_H264),
             (js ''h265'', PreferCodec_H265), (js ''vp8'', PreferCodec_VP8), (js ''av1'', PreferCodec_AV1)] codec"

definition bestFitResolution :: "rat \<Rightarrow> rat \<Rightarrow> Resolution list \<Rightarrow> bool \<Rightarrow> Resolution option" where
  "bestFitResolution width height supported isVirtualDisplay =
     (let fit = \<lparr>res_width = js_round width, res_height = js_round height\<rparr>
      in if \<not> isResolution fit then None
         else if isVirtualDisplay then Some fit
         else find (\<lambda>r. same_size r fit) supported)"

section \<open>Security menu\<close>

record SecurityControlMenuItem =
  mi_id :: jsstr
  mi_label :: jsstr
  mi_checked :: bool

record SecurityControlMenuInput =
  sm_platform :: jsstr
  sm_permissions :: "jsstr \<rightharpoonup> bool"
  sm_privacyModeSupported :: bool
  sm_privacyModeImpls :: "PrivacyModeImpl list"
  sm_privacyModeOn :: bool
  sm_activePrivacyImplKey :: "jsstr option"
  sm_blockInputOn :: bool
  sm_lockAfterSessionEnd :: bool
  sm_viewOnly :: bool

definition ControlKey_LockScreen :: int where "ControlKey_LockScreen = 101"

definition buildLockScreenKeyCommand :: UiCommand where
  "buildLockScreenKeyCommand = Cmd_key False True KK_control ControlKey_LockScreen []"

definition menu_item :: "string \<Rightarrow> string \<Rightarrow> bool \<Rightarrow> SecurityControlMenuItem" where
  "menu_item i l c = \<lparr>mi_id = js i, mi_label = js l, mi_checked = c\<rparr>"

definition privacy_item :: "SecurityControlMenuInput \<Rightarrow> PrivacyModeImpl \<Rightarrow> SecurityControlMenuItem" where
  "privacy_item inp impl =
     \<lparr>mi_id = js ''privacy:'' @ impl_key impl,
      mi_label = (if impl_label impl \<noteq> [] then js ''Privacy mode '' @ [0x2014] @ js '' '' @ impl_label impl else js ''Privacy mode''),
      mi_checked = (sm_privacyModeOn inp \<and>
        (case sm_activePrivacyImplKey inp of None \<Rightarrow> True | Some k \<Rightarrow> k = [] \<or> k = impl_key impl))\<rparr>"

definition buildSecurityControlMenu :: "SecurityControlMenuInput \<Rightarrow> SecurityControlMenuItem list" where
  "buildSecurityControlMenu inp =
     (let platform = js_lower (sm_platform inp);
          windows = js_includes platform (js ''windows'');
          desktop = windows \<or> js_includes platform (js ''linux'') \<or> js_includes platform (js ''mac'');
          allowed = (\<lambda>k. sm_permissions inp (js k) \<noteq> Some False);
          canLockScreen = (\<not> sm_viewOnly inp \<and> allowed ''Keyboard'');
          lockScreenItem = menu_item ''lockScreen'' ''Lock remote screen'' False
      in if \<not> desktop then (if canLockScreen then [lockScreenItem] else [])
         else
           (if allowed ''Restart'' then [menu_item ''restart'' ''Restart remote device'' False] else []) @
           (if windows \<and> allowed ''Keyboard'' then [menu_item ''elevation'' ''Request elevation'' False] else []) @
           (if (allowed ''PrivacyMode'' \<or> sm_privacyModeOn inp) \<and> sm_privacyModeSupported inp
            then map (privacy_item inp)
                   (if sm_privacyModeImpls inp \<noteq> [] then sm_privacyModeImpls inp
                    else [\<lparr>impl_key = js ''privacy_mode_impl_mag'', impl_label = []\<rparr>])
            else []) @
           (if windows \<and> (allowed ''BlockInput'' \<or> sm_blockInputOn inp)
            then [menu_item ''blockInput'' ''Block remote keyboard and mouse'' (sm_blockInputOn inp)] else []) @
           (if canLockScreen then [lockScreenItem] else []) @
           (if allowed ''Keyboard''
            then [menu_item ''lockAfterSessionEnd'' ''Request lock after disconnect (best effort)'' (sm_lockAfterSessionEnd inp)]
            else []))"

section \<open>Voice-call button\<close>

datatype VoiceCallUiState = VU_idle | VU_preparing | VU_waiting | VU_connected

record VoiceCallUiModel =
  vm_disabled :: bool
  vm_label :: jsstr
  vm_ariaLabel :: jsstr
  vm_status :: jsstr

definition voiceCallUiModel :: "SessionState \<Rightarrow> bool \<Rightarrow> VoiceCallUiState \<Rightarrow> bool \<Rightarrow> VoiceCallUiModel" where
  "voiceCallUiModel sessionState audioAllowed callState browserSupported =
     (let active = callState = VU_waiting \<or> callState = VU_connected
      in if \<not> browserSupported \<and> \<not> active
         then \<lparr>vm_disabled = True, vm_label = js ''Voice call'', vm_ariaLabel = js ''Start voice call'',
               vm_status = js ''Voice calls need Chrome or Edge over HTTPS''\<rparr>
         else if callState = VU_preparing
         then \<lparr>vm_disabled = True, vm_label = js ''Voice call'', vm_ariaLabel = js ''Start voice call'',
               vm_status = js ''Requesting microphone'' @ [0x2026]\<rparr>
         else
           (let unavailable = sessionState \<noteq> Streaming \<or> \<not> audioAllowed
            in \<lparr>vm_disabled = (unavailable \<and> \<not> active),
                vm_label = (if active then js ''End call'' else js ''Voice call''),
                vm_ariaLabel = (if active then js ''End voice call'' else js ''Start voice call''),
                vm_status =
                  (if callState = VU_waiting then js ''Waiting for the remote user'' @ [0x2026]
                   else if callState = VU_connected then js ''Voice call connected''
                   else if \<not> audioAllowed then js ''Voice calls are not permitted by this device''
                   else if sessionState \<noteq> Streaming then js ''Voice calls require a connected session''
                   else js ''Voice calls are off'')\<rparr>))"

section \<open>View only\<close>

datatype RemoteInputChannel = CH_pointer | CH_keyboard | CH_clipboard | CH_terminal

definition remoteInputAllowed :: "bool \<Rightarrow> RemoteInputChannel \<Rightarrow> bool" where
  "remoteInputAllowed viewOnly channel = (\<not> viewOnly)"

end
