(* ===== verification/Display_Safety.thy ===== *)
theory Display_Safety
  imports Display_Controls "HOL-Library.Multiset"
begin

text \<open>
  The controls of the display: which resolutions the menu offers, how the frame rate recovers,
  what a refresh of the peer's description keeps, and where the remote cursor is drawn.
\<close>

section \<open>Where the remote cursor is drawn\<close>

lemma cursor_in_box:
  assumes "0 < dr_width d" "0 < dr_height d" "0 < rc_width c" "0 < rc_height c"
    and "dr_x d \<le> px" "px < dr_x d + dr_width d" "dr_y d \<le> py" "py < dr_y d + dr_height d"
  shows "mapRemoteCursorToCanvas px py d None c =
    Some (rc_left c + (px - dr_x d) / dr_width d * rc_width c, rc_top c + (py - dr_y d) / dr_height d * rc_height c)"
  using assms by (simp add: mapRemoteCursorToCanvas_def Let_def)

text \<open>
  The remote cursor is drawn on the point of the picture it stands for exactly when the element
  has the aspect ratio of the display: where the picture is letterboxed (as the mouse mapping
  takes into account), the cursor is placed against the whole element instead.
\<close>

theorem remote_cursor_on_picture:
  assumes "0 < dr_width d" "0 < dr_height d" "0 < rc_width c" "0 < rc_height c"
  shows "(\<forall>px py. dr_x d \<le> px \<and> px < dr_x d + dr_width d \<and> dr_y d \<le> py \<and> py < dr_y d + dr_height d \<longrightarrow>
      mapRemoteCursorToCanvas px py d None c = Some (shown_at c d px py)) \<longleftrightarrow>
    rc_width c * dr_height d = rc_height c * dr_width d" (is "?drawn \<longleftrightarrow> ?same")
proof
  assume ?drawn
  then have "mapRemoteCursorToCanvas (dr_x d) (dr_y d) d None c = Some (shown_at c d (dr_x d) (dr_y d))"
    using assms by simp
  then have "rc_width c = dr_width d * fit_scale c d" "rc_height c = dr_height d * fit_scale c d"
    using cursor_in_box [OF assms, of "dr_x d" "dr_y d"] assms by (auto simp: shown_at_def)
  then show ?same by simp
next
  assume same: ?same
  then have "rc_width c / dr_width d = rc_height c / dr_height d" using assms by (simp add: field_simps)
  then have f: "fit_scale c d = rc_width c / dr_width d" "fit_scale c d = rc_height c / dr_height d"
    by (simp_all add: fit_scale_def)
  have "(px - dr_x d) / dr_width d * rc_width c = (px - dr_x d) * fit_scale c d"
    "(py - dr_y d) / dr_height d * rc_height c = (py - dr_y d) * fit_scale c d" for px py
    by (simp add: f(1)) (simp add: f(2))
  moreover have "dr_width d * fit_scale c d = rc_width c" using assms f(1) by simp
  moreover have "dr_height d * fit_scale c d = rc_height c" using assms f(2) by simp
  ultimately show ?drawn using cursor_in_box [OF assms] by (auto simp: shown_at_def)
qed

theorem remote_cursor_on_picture_witness:
  "\<not> (\<forall>px py. 0 \<le> px \<and> px < 1920 \<and> 0 \<le> py \<and> py < 1080 \<longrightarrow>
      mapRemoteCursorToCanvas px py \<lparr>dr_x = 0, dr_y = 0, dr_width = 1920, dr_height = 1080\<rparr> None
        \<lparr>rc_left = 0, rc_top = 0, rc_width = 1000, rc_height = 800\<rparr> =
      Some (shown_at \<lparr>rc_left = 0, rc_top = 0, rc_width = 1000, rc_height = 800\<rparr>
        \<lparr>dr_x = 0, dr_y = 0, dr_width = 1920, dr_height = 1080\<rparr> px py))"
  using remote_cursor_on_picture [of "\<lparr>dr_x = 0, dr_y = 0, dr_width = 1920, dr_height = 1080\<rparr>"
      "\<lparr>rc_left = 0, rc_top = 0, rc_width = 1000, rc_height = 800\<rparr>"] by simp

section \<open>Frame rate\<close>

text \<open>The frame rate as whole numbers.\<close>

definition fps_at :: "int \<Rightarrow> int \<Rightarrow> fps_state" where
  "fps_at t n = \<lparr>fps_target = of_int t, fps_stable = n\<rparr>"

lemma js_round_of_int [simp]: "js_round (of_int n) = n"
  unfolding js_round_def by linarith

lemma adapt_stable:
  assumes "5 \<le> t" "t \<le> cap" "cap \<le> 120"
  shows "adaptFps (of_int cap) 0 (fps_at t n) =
    (if 5 \<le> n + 1 \<and> t < cap then fps_at (min cap (t + 5)) 0 else fps_at t (n + 1))"
  using assms by (simp add: adaptFps_def fps_at_def Let_def)

text \<open>Each sample without drops brings the rate one closer, counting the samples waited.\<close>

lemma adapt_progress:
  assumes "5 \<le> t" "t \<le> cap" "cap \<le> 120" "0 \<le> n"
  shows "\<exists>t' n'. (adaptFps (of_int cap) 0 ^^ k) (fps_at t n) = fps_at t' n' \<and> 5 \<le> t' \<and> t' \<le> cap \<and> 0 \<le> n' \<and>
    (t' = cap \<or> t + min n 4 + int k \<le> t' + min n' 4)"
proof (induction k)
  case 0
  show ?case using assms by auto
next
  case (Suc k)
  then obtain t' n' where s: "(adaptFps (of_int cap) 0 ^^ k) (fps_at t n) = fps_at t' n'"
    and b: "5 \<le> t'" "t' \<le> cap" "0 \<le> n'" "t' = cap \<or> t + min n 4 + int k \<le> t' + min n' 4" by blast
  show ?case
  proof (cases "5 \<le> n' + 1 \<and> t' < cap")
    case True
    then have "(adaptFps (of_int cap) 0 ^^ Suc k) (fps_at t n) = fps_at (min cap (t' + 5)) 0"
      using s b assms by (simp add: adapt_stable)
    moreover have "min cap (t' + 5) = cap \<or> t + min n 4 + int (Suc k) \<le> min cap (t' + 5) + min 0 4"
      using b True by linarith
    ultimately show ?thesis using b assms by (intro exI [of _ "min cap (t' + 5)"] exI [of _ 0]) simp
  next
    case False
    then have "(adaptFps (of_int cap) 0 ^^ Suc k) (fps_at t n) = fps_at t' (n' + 1)"
      using s b assms by (simp only: funpow.simps comp_apply adapt_stable if_False)
    moreover have "t' = cap \<or> t + min n 4 + int (Suc k) \<le> t' + min (n' + 1) 4"
      using b False by linarith
    ultimately show ?thesis using b assms by (intro exI [of _ t'] exI [of _ "n' + 1"]) simp
  qed
qed

text \<open>
  The adaptive frame rate recovers: whatever rate drops have left it at, after at most
  \<open>cap - t + 4\<close> samples without a drop it is back at the cap, and it stays there. A drop lowers
  it by ten at most, and never below five.
\<close>

theorem fps_recovers:
  assumes "5 \<le> t" "t \<le> cap" "cap \<le> 120" "0 \<le> n" "cap - t + 4 \<le> int k" "0 < drops"
  shows "fps_target ((adaptFps (of_int cap) 0 ^^ k) (fps_at t n)) = of_int cap \<and>
    adaptFps (of_int cap) drops (fps_at t n) = fps_at (max 5 (t - 10)) 0"
proof -
  obtain t' n' where s: "(adaptFps (of_int cap) 0 ^^ k) (fps_at t n) = fps_at t' n'" "t' \<le> cap" "0 \<le> n'"
    and "t' = cap \<or> t + min n 4 + int k \<le> t' + min n' 4"
    using adapt_progress [OF assms(1-4)] by blast
  then have "t' = cap" using assms(4,5) by linarith
  then show ?thesis using s assms by (simp add: fps_at_def adaptFps_def Let_def)
qed

theorem fps_recovers_witness:
  "fps_target ((adaptFps 60 0 ^^ 34) (fps_at 30 0)) = 60 \<and> adaptFps 60 1 (fps_at 30 0) = fps_at 20 0"
  using fps_recovers [of 30 60 0 34 1] by simp

section \<open>Resolutions\<close>

lemma split_at_first:
  assumes "a @ x # b = a' @ x # b'" "x \<notin> set a" "x \<notin> set a'"
  shows "a = a' \<and> b = b'"
  using assms by (induction a arbitrary: a') (auto simp: Cons_eq_append_conv append_eq_Cons_conv)

lemma digits_no_x: "120 \<notin> set (radix_str 10 n)"
proof -
  have "list_all is_dec_unit (radix_str 10 n)" by (rule radix_str_digits) (simp_all add: is_dec_unit_digit_unit)
  then show ?thesis by (auto simp: list_all_iff is_dec_unit_def)
qed

lemma decimal_inject: "radix_str 10 a = radix_str 10 b \<longleftrightarrow> a = b"
proof
  assume "radix_str 10 a = radix_str 10 b"
  then have "radix_val 10 (radix_str 10 a) = radix_val 10 (radix_str 10 b)" by (rule arg_cong)
  then show "a = b" by (simp add: radix_val_radix_str)
qed simp

lemma resolution_key_inject:
  assumes "isResolution a" "isResolution b" "resolution_key a = resolution_key b"
  shows "same_size a b"
proof -
  have "radix_str 10 (nat (res_width a)) = radix_str 10 (nat (res_width b)) \<and>
      radix_str 10 (nat (res_height a)) = radix_str 10 (nat (res_height b))"
    using assms(3) by (intro split_at_first [where x = 120]) (simp_all add: resolution_key_def js_def digits_no_x)
  then show ?thesis using assms(1,2) by (auto simp: decimal_inject same_size_def isResolution_def)
qed

definition size_of :: "Resolution \<Rightarrow> int \<times> int" where
  "size_of v = (res_width v, res_height v)"

text \<open>A table of resolutions: each under its own key, once.\<close>

definition size_table :: "(jsstr \<times> Resolution) list \<Rightarrow> bool" where
  "size_table m \<longleftrightarrow> distinct (map fst m) \<and> (\<forall>(k, v) \<in> set m. k = resolution_key v \<and> isResolution v)"

lemma size_table_set:
  assumes "size_table m" "isResolution v"
  shows "size_table (kv_set (resolution_key v) v m) \<and>
    size_of ` snd ` set (kv_set (resolution_key v) v m) = insert (size_of v) (size_of ` snd ` set m)"
proof -
  have d: "distinct (map fst m)" using assms(1) by (simp add: size_table_def)
  have same: "size_of w = size_of v" if "(resolution_key v, w) \<in> set m" for w
    using that assms resolution_key_inject [of w v] by (auto simp: size_table_def size_of_def same_size_def)
  have k: "k = resolution_key w" if "(k, w) \<in> set m" for k w using that assms(1) by (auto simp: size_table_def)
  have "size_table (kv_set (resolution_key v) v m)"
    using assms d distinct_kv_set [OF d] by (auto simp: set_kv_set size_table_def)
  moreover have "size_of ` snd ` set (kv_set (resolution_key v) v m) = insert (size_of v) (size_of ` snd ` set m)"
    using same k unfolding set_kv_set [OF d] by (auto simp: image_iff) metis+
  ultimately show ?thesis by simp
qed

lemma unique_values_table:
  "size_table m \<Longrightarrow> size_table (unique_values vs m) \<and>
    size_of ` snd ` set (unique_values vs m) = size_of ` {v \<in> set vs. isResolution v} \<union> size_of ` snd ` set m"
proof (induction vs m rule: unique_values.induct)
  case (2 v vs m)
  show ?case
  proof (cases "isResolution v")
    case True
    with 2 size_table_set [OF "2.prems" True] show ?thesis by auto
  next
    case False
    with 2 show ?thesis by (auto simp: conj_commute)
  qed
qed simp

lemma size_table_distinct:
  assumes "size_table m"
  shows "distinct (map (size_of \<circ> snd) m)"
proof -
  have "inj_on (size_of \<circ> snd) (set m)"
  proof (rule inj_onI)
    fix e f assume e: "e \<in> set m" "f \<in> set m" "(size_of \<circ> snd) e = (size_of \<circ> snd) f"
    then have "fst e = resolution_key (snd e)" "fst f = resolution_key (snd f)" using assms by (auto simp: size_table_def)
    then have "fst e = fst f" using e(3) by (simp add: size_of_def resolution_key_def)
    moreover have "distinct (map fst m)" using assms by (simp add: size_table_def)
    ultimately show "e = f" using e(1,2) by (simp add: distinct_map inj_on_def)
  qed
  moreover have "distinct m" using assms by (simp add: size_table_def distinct_map)
  ultimately show ?thesis by (simp add: distinct_map)
qed

lemma size_choice: "(res_width (choice_of original v), res_height (choice_of original v)) = size_of v"
  by (simp add: choice_of_def size_of_def)

text \<open>
  The resolution menu offers each size once, by growing area, and exactly the sizes that make
  sense: the valid ones the peer supports, the original one if valid, and the size of the
  local window if valid and either the display is virtual or the peer supports it.
\<close>

theorem resolution_choices_exact:
  "(let sizes = map (\<lambda>c. (res_width c, res_height c)) (buildResolutionChoices supported original fit isVirtual)
    in distinct sizes \<and> sorted (map (\<lambda>(w, h). w * h) sizes) \<and>
       set sizes = size_of ` {v. isResolution v \<and> (v \<in> set supported \<or> original = Some v \<or>
         fit = Some v \<and> (isVirtual \<or> list_ex (\<lambda>r. same_size r v) supported))})"
proof -
  let ?m = "unique_values (resolution_values supported original fit isVirtual) []"
  let ?s = "sort_key (\<lambda>v. res_width v * res_height v) (map snd ?m)"
  have t: "size_table ?m" "size_of ` snd ` set ?m = size_of ` {v \<in> set (resolution_values supported original fit isVirtual). isResolution v}"
    using unique_values_table [of "[]"] by (simp_all add: size_table_def)
  have v: "{v \<in> set (resolution_values supported original fit isVirtual). isResolution v} =
      {v. isResolution v \<and> (v \<in> set supported \<or> original = Some v \<or>
         fit = Some v \<and> (isVirtual \<or> list_ex (\<lambda>r. same_size r v) supported))}"
    by (auto simp: resolution_values_def split: option.splits if_splits)
  have sizes: "map (\<lambda>c. (res_width c, res_height c)) (buildResolutionChoices supported original fit isVirtual) = map size_of ?s"
    by (simp add: buildResolutionChoices_def size_choice comp_def)
  have "mset (map size_of ?s) = mset (map (size_of \<circ> snd) ?m)"
    by (simp add: multiset.map_comp)
  then have "distinct (map size_of ?s)" using size_table_distinct [OF t(1)] mset_eq_imp_distinct_iff by blast
  moreover have "sorted (map (\<lambda>(w, h). w * h) (map size_of ?s))"
    using sorted_sort_key [of "\<lambda>v. res_width v * res_height v" "map snd ?m"] by (simp add: size_of_def comp_def)
  moreover have "set (map size_of ?s) = size_of ` snd ` set ?m" by (simp only: set_map set_sort)
  ultimately show ?thesis unfolding sizes Let_def using t(2) v by simp
qed

section \<open>Platform additions\<close>

text \<open>
  A refresh of the peer's description that leaves out what does not change keeps the virtual
  displays available, for any \<open>JSON\<close> that reads back what it prints.
\<close>

lemma capability_survives_refresh:
  assumes "\<And>kvs. parse (stringify (JObj kvs)) = Some (JObj kvs)"
    and "canToggleVirtualDisplay parse platform previous" "parse incoming = Some (JObj nxt)"
    and "map_of nxt (js ''is_installed'') = None" "map_of nxt (js ''idd_impl'') = None"
  shows "canToggleVirtualDisplay parse platform (mergePlatformAdditions parse stringify previous incoming)"
proof -
  obtain add impl where add: "parse previous = Some add" "obj_get add (js ''idd_impl'') = Some (JStr impl)"
    "obj_get add (js ''is_installed'') = Some (JBool True)" "impl \<in> set SUPPORTED_VIRTUAL_DISPLAY_IDDS"
    "platform = js ''Windows''"
    using assms(2) by (auto simp: canToggleVirtualDisplay_def parseVirtualDisplayCapability_def
        split: option.splits json.splits if_splits)
  then obtain kvs where "add = JObj kvs" by (cases add) simp_all
  with add have prior: "parse previous = Some (JObj kvs)" "map_of kvs (js ''idd_impl'') = Some (JStr impl)"
    "map_of kvs (js ''is_installed'') = Some (JBool True)" by simp_all
  have k: "js ''support_view_camera'' \<noteq> js ''is_installed''" "js ''support_view_camera'' \<noteq> js ''idd_impl''"
    "js ''is_installed'' \<noteq> js ''idd_impl''" by (simp_all add: js_def)
  let ?r = "keep_bool (Some kvs) (js ''support_view_camera'') (keep_bool (Some kvs) (js ''is_installed'') nxt)"
  have r: "map_of ?r (js ''is_installed'') = Some (JBool True)" "map_of ?r (js ''idd_impl'') = None"
    using prior assms(4,5) k by (auto simp: keep_bool_def prior_get_def split: option.splits)
  have "map_of (keep_impl (Some kvs) ?r) (js ''idd_impl'') = Some (JStr impl)"
    "map_of (keep_impl (Some kvs) ?r) (js ''is_installed'') = Some (JBool True)"
    using prior add(4) r k by (auto simp: keep_impl_def prior_get_def)
  moreover have "mergePlatformAdditions parse stringify previous incoming = stringify (JObj (keep_impl (Some kvs) ?r))"
    using assms(3) prior(1) by (simp add: mergePlatformAdditions_def parseAdditionRecord_def Let_def)
  ultimately show ?thesis using assms(1) add(4,5)
    by (simp add: canToggleVirtualDisplay_def parseVirtualDisplayCapability_def Let_def)
qed

end
