(* ===== verification/Voice_Capture.thy ===== *)
theory Voice_Capture
  imports Prelude Step_System
begin

text \<open>
  \<open>webclient/src/media/voice-capture.ts\<close> and \<open>ui/voice-call-attempt.ts\<close>: the microphone of a voice
  call. \<open>prepare\<close> and \<open>pump\<close> are cut where they await the browser: \<open>vc_preparing\<close> and \<open>vc_pumping\<close>
  hold the calls that wait, each with the epoch it runs under, and they may be settled in any
  order. Microphone streams, readers and encoders are numbered; what the controller asks of
  the browser and of its sinks is appended to \<open>vc_trace\<close>.
\<close>

section \<open>The state\<close>

record VoiceEncoderConfig =
  vec_sampleRate :: int
  vec_channels :: int

definition PREFERRED_CONFIG :: VoiceEncoderConfig where
  "PREFERRED_CONFIG = \<lparr>vec_sampleRate = 48000, vec_channels = 1\<rparr>"

definition opusOutputSampleRate :: "int \<Rightarrow> int" where
  "opusOutputSampleRate inputRate = (if inputRate \<in> set [8000, 12000, 16000, 24000] then inputRate else 48000)"

datatype vc_out =
    VO_micOpened nat
  | VO_micStopped nat
  | VO_started
  | VO_readerCancelled nat
  | VO_encoderCreated nat VoiceEncoderConfig
  | VO_encoderClosed nat
  | VO_encode nat
  | VO_format int int
  | VO_frame bytes
  | VO_onError jsstr
  | VO_dataClosed
  | VO_prepared bool jsstr

datatype prepare_stage = PS_opus | PS_media

datatype pump_stage = PU_read | PU_support VoiceEncoderConfig

record VoiceCapture =
  vc_stream :: "(nat \<times> nat) option"
  vc_reader :: "nat option"
  vc_encoder :: "nat option"
  vc_epoch :: nat
  vc_active :: bool
  vc_preparing :: "(nat \<times> prepare_stage) list"
  vc_pumping :: "(nat \<times> pump_stage) list"
  vc_encoders :: "nat list"
  vc_mics :: nat
  vc_readers :: nat
  vc_trace :: "vc_out list"

text \<open>
  A stream is its number and how many audio tracks it has; \<open>vc_encoders\<close> are the epochs under
  which the encoders were made, by number; \<open>vc_mics\<close> and \<open>vc_readers\<close> count what was handed out.
\<close>

definition newVoiceCapture :: VoiceCapture where
  "newVoiceCapture =
     \<lparr>vc_stream = None, vc_reader = None, vc_encoder = None, vc_epoch = 0, vc_active = False, vc_preparing = [],
      vc_pumping = [], vc_encoders = [], vc_mics = 0, vc_readers = 0, vc_trace = []\<rparr>"

definition vc_do :: "vc_out list \<Rightarrow> VoiceCapture \<Rightarrow> VoiceCapture" where
  "vc_do xs s = s\<lparr>vc_trace := vc_trace s @ xs\<rparr>"

section \<open>Stopping\<close>

definition vc_stop :: "VoiceCapture \<Rightarrow> VoiceCapture" where
  "vc_stop s =
     vc_do ((case vc_reader s of None \<Rightarrow> [] | Some r \<Rightarrow> [VO_readerCancelled r]) @
            (case vc_encoder s of None \<Rightarrow> [] | Some e \<Rightarrow> [VO_encoderClosed e]) @
            (case vc_stream s of None \<Rightarrow> [] | Some m \<Rightarrow> [VO_micStopped (fst m)]))
       (s\<lparr>vc_active := False, vc_epoch := Suc (vc_epoch s), vc_reader := None, vc_encoder := None, vc_stream := None\<rparr>)"

definition vc_fail :: "jsstr \<Rightarrow> VoiceCapture \<Rightarrow> VoiceCapture" where
  "vc_fail message s =
     (let wasActive = vc_active s \<or> vc_stream s \<noteq> None;
          s1 = vc_stop s
      in if wasActive then vc_do [VO_onError message] s1 else s1)"

section \<open>Preparing\<close>

definition MSG_CANCELLED :: jsstr where "MSG_CANCELLED = js ''Microphone request was cancelled.''"

definition prepare :: "bool \<Rightarrow> VoiceCapture \<Rightarrow> VoiceCapture" where
  "prepare available s =
     (let s1 = vc_stop s
      in if \<not> available
         then vc_do [VO_prepared False (js ''Voice calls require Chrome or Edge with secure microphone and Opus support.'')] s1
         else s1\<lparr>vc_preparing := vc_preparing s1 @ [(vc_epoch s1, PS_opus)]\<rparr>)"

definition remove_at :: "nat \<Rightarrow> 'a list \<Rightarrow> 'a list" where
  "remove_at k xs = take k xs @ drop (Suc k) xs"

text \<open>The \<open>catch\<close> of \<open>prepare\<close>.\<close>

definition prepare_rejected :: "nat \<Rightarrow> VoiceCapture \<Rightarrow> VoiceCapture" where
  "prepare_rejected epoch s =
     (if epoch \<noteq> vc_epoch s then vc_do [VO_prepared False MSG_CANCELLED] s
      else vc_do [VO_prepared False (js ''Microphone access was denied or is unavailable.'')] (vc_stop s))"

text \<open>\<open>supportsOpus\<close> has settled; \<open>None\<close> is a rejection.\<close>

definition prepare_opus :: "nat \<Rightarrow> bool option \<Rightarrow> VoiceCapture \<Rightarrow> VoiceCapture" where
  "prepare_opus epoch answer s =
     (case answer of
        None \<Rightarrow> prepare_rejected epoch s
      | Some supported \<Rightarrow>
          if \<not> supported then vc_do [VO_prepared False (js ''This browser cannot encode Opus voice audio.'')] s
          else if epoch \<noteq> vc_epoch s then vc_do [VO_prepared False MSG_CANCELLED] s
          else s\<lparr>vc_preparing := vc_preparing s @ [(epoch, PS_media)]\<rparr>)"

text \<open>\<open>getUserMedia\<close> has settled; the answer is the number of audio tracks.\<close>

definition prepare_media :: "nat \<Rightarrow> nat option \<Rightarrow> VoiceCapture \<Rightarrow> VoiceCapture" where
  "prepare_media epoch answer s =
     (case answer of
        None \<Rightarrow> prepare_rejected epoch s
      | Some tracks \<Rightarrow>
          (let m = vc_mics s;
               s1 = vc_do [VO_micOpened m] (s\<lparr>vc_mics := Suc m\<rparr>)
           in if epoch \<noteq> vc_epoch s1 then vc_do [VO_micStopped m, VO_prepared False MSG_CANCELLED] s1
              else
                (let s2 = s1\<lparr>vc_stream := Some (m, tracks)\<rparr>
                 in if tracks = 0 then vc_do [VO_prepared False (js ''No microphone was available.'')] (vc_stop s2)
                    else vc_do [VO_prepared True []] s2)))"

section \<open>Starting\<close>

definition vc_start :: "bool \<Rightarrow> VoiceCapture \<Rightarrow> VoiceCapture \<times> bool" where
  "vc_start processorMade s =
     (if (case vc_stream s of None \<Rightarrow> True | Some m \<Rightarrow> snd m = 0) \<or> vc_active s then (s, False)
      else
        (let s1 = s\<lparr>vc_epoch := Suc (vc_epoch s)\<rparr>
         in if \<not> processorMade then (vc_fail (js ''Could not start microphone capture.'') s1, False)
            else (vc_do [VO_started]
                    (s1\<lparr>vc_reader := Some (vc_readers s1), vc_readers := Suc (vc_readers s1), vc_active := True,
                        vc_pumping := vc_pumping s1 @ [(vc_epoch s1, PU_read)]\<rparr>), True)))"

section \<open>Pumping\<close>

definition vc_live :: "nat \<Rightarrow> VoiceCapture \<Rightarrow> bool" where
  "vc_live epoch s \<longleftrightarrow> vc_active s \<and> epoch = vc_epoch s"

text \<open>The head of the loop: the next read while the capture is live.\<close>

definition pump_loop :: "nat \<Rightarrow> VoiceCapture \<Rightarrow> VoiceCapture" where
  "pump_loop epoch s = (if vc_live epoch s then s\<lparr>vc_pumping := vc_pumping s @ [(epoch, PU_read)]\<rparr> else s)"

datatype read_result = RR_throws | RR_done | RR_none | RR_data jsnum int

text \<open>
  The end of a round that has an encoder: \<open>queue\<close> is \<open>encodeQueueSize\<close>, \<open>encoded\<close> whether
  \<open>encode\<close> returns. The frame is closed on every way out.
\<close>

definition pump_encode :: "nat \<Rightarrow> nat \<Rightarrow> nat \<Rightarrow> bool \<Rightarrow> VoiceCapture \<Rightarrow> VoiceCapture" where
  "pump_encode epoch e queue encoded s =
     (let s1 = (if queue < 2 then vc_do [VO_encode e] s else s)
      in if queue < 2 \<and> \<not> encoded
         then vc_do [VO_dataClosed]
                (if vc_live epoch s1 then vc_fail (js ''Could not start the Opus microphone encoder.'') s1 else s1)
         else pump_loop epoch (vc_do [VO_dataClosed] s1))"

definition config_of :: "jsnum \<Rightarrow> int \<Rightarrow> VoiceEncoderConfig" where
  "config_of sampleRate channels =
     \<lparr>vec_sampleRate =
        (case sampleRate of Num q \<Rightarrow> if 0 < q then js_round q else vec_sampleRate PREFERRED_CONFIG
         | _ \<Rightarrow> vec_sampleRate PREFERRED_CONFIG),
      vec_channels = channels\<rparr>"

text \<open>\<open>reader.read()\<close> has settled.\<close>

definition pump_read :: "nat \<Rightarrow> read_result \<Rightarrow> nat \<Rightarrow> bool \<Rightarrow> VoiceCapture \<Rightarrow> VoiceCapture" where
  "pump_read epoch result queue encoded s =
     (case result of
        RR_throws \<Rightarrow> if vc_live epoch s then vc_fail (js ''Microphone capture failed.'') s else s
      | RR_done \<Rightarrow> if vc_live epoch s then vc_fail (js ''Microphone capture stopped.'') s else s
      | RR_none \<Rightarrow> pump_loop epoch s
      | RR_data sampleRate channels \<Rightarrow>
          if \<not> vc_live epoch s then pump_loop epoch (vc_do [VO_dataClosed] s)
          else
            (case vc_encoder s of
               Some e \<Rightarrow> pump_encode epoch e queue encoded s
             | None \<Rightarrow>
                 if channels \<noteq> 1 \<and> channels \<noteq> 2
                 then vc_do [VO_dataClosed] (vc_fail (js ''Only mono or stereo microphone input is supported.'') s)
                 else s\<lparr>vc_pumping := vc_pumping s @ [(epoch, PU_support (config_of sampleRate channels))]\<rparr>))"

text \<open>\<open>supportsOpus\<close> of the microphone's format has settled; \<open>made\<close> is whether an encoder is made.\<close>

definition pump_support ::
    "nat \<Rightarrow> VoiceEncoderConfig \<Rightarrow> bool option \<Rightarrow> bool \<Rightarrow> nat \<Rightarrow> bool \<Rightarrow> VoiceCapture \<Rightarrow> VoiceCapture" where
  "pump_support epoch config answer made queue encoded s =
     (case answer of
        None \<Rightarrow> vc_do [VO_dataClosed]
                  (if vc_live epoch s then vc_fail (js ''Could not start the Opus microphone encoder.'') s else s)
      | Some supported \<Rightarrow>
          if \<not> vc_live epoch s then vc_do [VO_dataClosed] s
          else if \<not> supported
          then vc_do [VO_dataClosed] (vc_fail (js ''This microphone format cannot be encoded as Opus.'') s)
          else if \<not> made
          then vc_do [VO_dataClosed] (vc_fail (js ''Could not start the Opus microphone encoder.'') s)
          else
            (let e = length (vc_encoders s);
                 s1 = vc_do [VO_encoderCreated e config,
                             VO_format (opusOutputSampleRate (vec_sampleRate config)) (vec_channels config)]
                        (s\<lparr>vc_encoder := Some e, vc_encoders := vc_encoders s @ [epoch]\<rparr>)
             in pump_encode epoch e queue encoded s1))"

text \<open>The callbacks of encoder \<open>e\<close>.\<close>

definition encoder_output :: "nat \<Rightarrow> bytes \<Rightarrow> VoiceCapture \<Rightarrow> VoiceCapture" where
  "encoder_output e chunk s =
     (case js_at (vc_encoders s) e of
        None \<Rightarrow> s
      | Some epoch \<Rightarrow> if vc_live epoch s then vc_do [VO_frame chunk] s else s)"

definition encoder_error :: "nat \<Rightarrow> VoiceCapture \<Rightarrow> VoiceCapture" where
  "encoder_error e s =
     (case js_at (vc_encoders s) e of
        None \<Rightarrow> s
      | Some epoch \<Rightarrow> if vc_live epoch s then vc_fail (js ''The Opus microphone encoder failed.'') s else s)"

section \<open>The controller as a system\<close>

datatype (plugins only: size) voice_call =
    VI_prepare bool
  | VI_opus nat "bool option"
  | VI_media nat "nat option"
  | VI_start bool
  | VI_stop
  | VI_read nat read_result nat bool
  | VI_support nat "bool option" bool nat bool
  | VI_output nat bytes
  | VI_encoderError nat

text \<open>A settlement names the waiting call by its place; others do not happen.\<close>

definition voice_step :: "voice_call \<Rightarrow> VoiceCapture \<Rightarrow> VoiceCapture" where
  "voice_step c s =
     (case c of
        VI_prepare available \<Rightarrow> prepare available s
      | VI_opus k answer \<Rightarrow>
          (case js_at (vc_preparing s) k of
             Some (epoch, PS_opus) \<Rightarrow> prepare_opus epoch answer (s\<lparr>vc_preparing := remove_at k (vc_preparing s)\<rparr>)
           | _ \<Rightarrow> s)
      | VI_media k answer \<Rightarrow>
          (case js_at (vc_preparing s) k of
             Some (epoch, PS_media) \<Rightarrow> prepare_media epoch answer (s\<lparr>vc_preparing := remove_at k (vc_preparing s)\<rparr>)
           | _ \<Rightarrow> s)
      | VI_start made \<Rightarrow> fst (vc_start made s)
      | VI_stop \<Rightarrow> vc_stop s
      | VI_read k result queue encoded \<Rightarrow>
          (case js_at (vc_pumping s) k of
             Some (epoch, PU_read) \<Rightarrow> pump_read epoch result queue encoded (s\<lparr>vc_pumping := remove_at k (vc_pumping s)\<rparr>)
           | _ \<Rightarrow> s)
      | VI_support k answer made queue encoded \<Rightarrow>
          (case js_at (vc_pumping s) k of
             Some (epoch, PU_support config) \<Rightarrow>
               pump_support epoch config answer made queue encoded (s\<lparr>vc_pumping := remove_at k (vc_pumping s)\<rparr>)
           | _ \<Rightarrow> s)
      | VI_output e chunk \<Rightarrow> encoder_output e chunk s
      | VI_encoderError e \<Rightarrow> encoder_error e s)"

section \<open>Attempts\<close>

text \<open>\<open>VoiceCallAttemptOwner\<close>: \<open>wait\<close> gives the result only to the attempt that is still current.\<close>

record VoiceCallAttemptOwner =
  va_generation :: nat

definition va_begin :: "VoiceCallAttemptOwner \<Rightarrow> VoiceCallAttemptOwner \<times> nat" where
  "va_begin o1 = (o1\<lparr>va_generation := Suc (va_generation o1)\<rparr>, Suc (va_generation o1))"

definition va_invalidate :: "VoiceCallAttemptOwner \<Rightarrow> VoiceCallAttemptOwner" where
  "va_invalidate o1 = o1\<lparr>va_generation := Suc (va_generation o1)\<rparr>"

definition va_settled :: "nat \<Rightarrow> 'v \<Rightarrow> VoiceCallAttemptOwner \<Rightarrow> 'v option" where
  "va_settled token value o1 = (if token = va_generation o1 then Some value else None)"

end
