(* ===== verification/Voice_Safety.thy ===== *)
theory Voice_Safety
  imports Voice_Capture
begin

text \<open>
  What the voice capture keeps in every order of user actions, settled promises and encoder
  callbacks: no microphone stays open unnoticed, and the peer hears of a format it can decode
  before the first frame.
\<close>

section \<open>Formats and frames\<close>

text \<open>Whether a format was announced since capturing last started, after a trace.\<close>

fun announced :: "bool \<Rightarrow> vc_out list \<Rightarrow> bool" where
  "announced b [] = b"
| "announced b (VO_started # tr) = announced False tr"
| "announced b (VO_format _ _ # tr) = announced True tr"
| "announced b (_ # tr) = announced b tr"

fun format_first :: "bool \<Rightarrow> vc_out list \<Rightarrow> bool" where
  "format_first b [] = True"
| "format_first b (VO_started # tr) = format_first False tr"
| "format_first b (VO_format rate channels # tr) =
     (rate \<in> {8000, 12000, 16000, 24000, 48000} \<and> channels \<in> {1, 2} \<and> format_first True tr)"
| "format_first b (VO_frame _ # tr) = (b \<and> format_first b tr)"
| "format_first b (_ # tr) = format_first b tr"

lemma announced_append [simp]: "announced b (xs @ ys) = announced (announced b xs) ys"
  by (induction b xs rule: announced.induct) auto

lemma format_first_append [simp]: "format_first b (xs @ ys) = (format_first b xs \<and> format_first (announced b xs) ys)"
  by (induction b xs rule: format_first.induct) auto

section \<open>The invariant\<close>

definition mic_ok :: "nat \<Rightarrow> VoiceCapture \<Rightarrow> bool" where
  "mic_ok m s \<longleftrightarrow>
     (if \<exists>n. vc_stream s = Some (m, n) then VO_micStopped m \<notin> set (vc_trace s) else VO_micStopped m \<in> set (vc_trace s))"

definition voice_inv :: "VoiceCapture \<Rightarrow> bool" where
  "voice_inv s \<longleftrightarrow>
     (\<forall>m. VO_micOpened m \<in> set (vc_trace s) \<longrightarrow> mic_ok m s) \<and>
     (\<forall>m. VO_micOpened m \<in> set (vc_trace s) \<or> VO_micStopped m \<in> set (vc_trace s) \<longrightarrow> m < vc_mics s) \<and>
     (\<forall>m n. vc_stream s = Some (m, n) \<longrightarrow> VO_micOpened m \<in> set (vc_trace s) \<and> vc_epoch s \<notin> fst ` set (vc_preparing s)) \<and>
     distinct (map fst (vc_preparing s)) \<and> (\<forall>e \<in> fst ` set (vc_preparing s). e \<le> vc_epoch s) \<and>
     (\<forall>e \<in> set (vc_encoders s). e \<le> vc_epoch s) \<and>
     (\<forall>(e, st) \<in> set (vc_pumping s). e \<le> vc_epoch s \<and> (\<forall>c. st = PU_support c \<longrightarrow> vec_channels c \<in> {1, 2})) \<and>
     format_first False (vc_trace s) \<and>
     (vc_active s \<and> vc_epoch s \<in> set (vc_encoders s) \<longrightarrow> announced False (vc_trace s))"

lemmas voice_defs = voice_inv_def mic_ok_def vc_do_def

lemma inv_voice_init: "voice_inv newVoiceCapture"
  by (simp add: voice_inv_def newVoiceCapture_def)

text \<open>Reports that concern neither the microphone nor the peer.\<close>

fun aside :: "vc_out \<Rightarrow> bool" where
  "aside (VO_onError _) = True"
| "aside VO_dataClosed = True"
| "aside (VO_prepared _ _) = True"
| "aside (VO_encode _) = True"
| "aside _ = False"

lemma inv_aside: "voice_inv s \<Longrightarrow> aside x \<Longrightarrow> voice_inv (vc_do [x] s)"
  by (cases x) (auto simp: voice_defs)

text \<open>What \<open>stop\<close> asks of the browser: to stop the microphone, and nothing the peer hears of.\<close>

definition stop_out :: "VoiceCapture \<Rightarrow> vc_out list" where
  "stop_out s =
     (case vc_reader s of None \<Rightarrow> [] | Some r \<Rightarrow> [VO_readerCancelled r]) @
     (case vc_encoder s of None \<Rightarrow> [] | Some e \<Rightarrow> [VO_encoderClosed e]) @
     (case vc_stream s of None \<Rightarrow> [] | Some m \<Rightarrow> [VO_micStopped (fst m)])"

lemma stop_out_facts:
  "VO_micOpened m \<notin> set (stop_out s)" "VO_micStopped m \<in> set (stop_out s) \<longleftrightarrow> (\<exists>n. vc_stream s = Some (m, n))"
  "announced b (stop_out s) = b" "format_first b (stop_out s)"
  unfolding stop_out_def by (cases "vc_reader s"; cases "vc_encoder s"; cases "vc_stream s"; auto)+

lemma vc_stop_alt: "vc_stop s = s\<lparr>vc_active := False, vc_epoch := Suc (vc_epoch s), vc_reader := None,
    vc_encoder := None, vc_stream := None, vc_trace := vc_trace s @ stop_out s\<rparr>"
  by (simp add: vc_stop_def vc_do_def stop_out_def)

lemma inv_vc_stop:
  assumes "voice_inv s"
  shows "voice_inv (vc_stop s)"
proof -
  have "m < vc_mics s" if "VO_micOpened m \<in> set (vc_trace s) \<or> VO_micStopped m \<in> set (vc_trace s @ stop_out s)" for m
    using assms that unfolding voice_inv_def by (auto simp: stop_out_facts)
  moreover have "VO_micStopped m \<in> set (vc_trace s @ stop_out s)" if "VO_micOpened m \<in> set (vc_trace s)" for m
    using assms that unfolding voice_inv_def mic_ok_def by (auto simp: stop_out_facts split: if_splits)
  moreover have "\<forall>(e, st) \<in> set (vc_pumping s). e \<le> Suc (vc_epoch s) \<and> (\<forall>c. st = PU_support c \<longrightarrow> vec_channels c \<in> {1, 2})"
    "\<forall>e \<in> fst ` set (vc_preparing s). e \<le> Suc (vc_epoch s)" "\<forall>e \<in> set (vc_encoders s). e \<le> Suc (vc_epoch s)"
    using assms unfolding voice_inv_def by (fast intro: le_SucI)+
  moreover have "distinct (map fst (vc_preparing s))" "format_first False (vc_trace s)" using assms by (simp_all add: voice_inv_def)
  ultimately show ?thesis unfolding voice_inv_def mic_ok_def vc_stop_alt by (auto simp: stop_out_facts)
qed

lemma stop_fields [simp]: "vc_stream (vc_stop s) = None" "\<not> vc_active (vc_stop s)" "vc_epoch (vc_stop s) = Suc (vc_epoch s)"
  "vc_preparing (vc_stop s) = vc_preparing s" "vc_pumping (vc_stop s) = vc_pumping s" "vc_encoders (vc_stop s) = vc_encoders s"
  by (simp_all add: vc_stop_def vc_do_def)

lemma inv_vc_fail: "voice_inv s \<Longrightarrow> voice_inv (vc_fail m s)"
  by (simp add: vc_fail_def Let_def inv_vc_stop inv_aside)

lemma inv_stopped_note: "voice_inv s \<Longrightarrow> voice_inv (vc_do [VO_prepared b m] (vc_stop s))"
  by (simp add: inv_vc_stop inv_aside)

section \<open>What each operation keeps\<close>

lemma set_remove_at: "set (remove_at k xs) \<subseteq> set xs"
  by (auto simp: remove_at_def dest: in_set_takeD in_set_dropD)

lemma remove_at_split: "k < length xs \<Longrightarrow> xs = take k xs @ xs ! k # drop (Suc k) xs"
  by (simp add: id_take_nth_drop)

lemma distinct_remove_at:
  assumes "distinct (map f xs)" "k < length xs"
  shows "distinct (map f (remove_at k xs)) \<and> f (xs ! k) \<notin> f ` set (remove_at k xs)"
proof -
  have "distinct (map f (take k xs @ xs ! k # drop (Suc k) xs))" using assms remove_at_split by metis
  then show ?thesis by (auto simp: remove_at_def)
qed

lemma inv_less_preparing:
  assumes "voice_inv s" "distinct (map fst ps)" "set ps \<subseteq> set (vc_preparing s)"
  shows "voice_inv (s\<lparr>vc_preparing := ps\<rparr>)"
proof -
  have "vc_epoch s \<notin> fst ` set ps" if "vc_epoch s \<notin> fst ` set (vc_preparing s)" using that assms(3) by blast
  moreover have "\<forall>e \<in> fst ` set ps. e \<le> vc_epoch s" using assms(1,3) unfolding voice_inv_def by blast
  ultimately show ?thesis using assms(1,2) unfolding voice_inv_def mic_ok_def by simp
qed

lemma inv_prepare_removed:
  assumes "voice_inv s" "js_at (vc_preparing s) k = Some (e, st)"
  shows "voice_inv (s\<lparr>vc_preparing := remove_at k (vc_preparing s)\<rparr>)" "e \<le> vc_epoch s"
    "e \<notin> fst ` set (remove_at k (vc_preparing s))"
    "e = vc_epoch s \<Longrightarrow> vc_stream s = None"
proof -
  have k: "k < length (vc_preparing s)" "vc_preparing s ! k = (e, st)" using assms(2) by (simp_all add: js_at_Some_iff)
  then have m: "(e, st) \<in> set (vc_preparing s)" by (metis nth_mem)
  have d: "distinct (map fst (vc_preparing s))" using assms(1) by (simp add: voice_inv_def)
  show "voice_inv (s\<lparr>vc_preparing := remove_at k (vc_preparing s)\<rparr>)"
    using assms(1) distinct_remove_at [OF d k(1)] set_remove_at by (intro inv_less_preparing) simp_all
  show "e \<le> vc_epoch s" using assms(1) m by (force simp: voice_inv_def)
  show "e \<notin> fst ` set (remove_at k (vc_preparing s))" using distinct_remove_at [OF d k(1)] k(2) by simp
  have "\<forall>mic n. vc_stream s = Some (mic, n) \<longrightarrow> vc_epoch s \<notin> fst ` set (vc_preparing s)"
    using assms(1) by (simp add: voice_inv_def)
  moreover have "e \<in> fst ` set (vc_preparing s)" using m by force
  ultimately show "e = vc_epoch s \<Longrightarrow> vc_stream s = None" by (cases "vc_stream s") auto
qed

lemma inv_prepare: "voice_inv s \<Longrightarrow> voice_inv (prepare a s)"
proof -
  assume s: "voice_inv s"
  then have "voice_inv (vc_stop s)" by (rule inv_vc_stop)
  moreover have "Suc (vc_epoch s) \<notin> fst ` set (vc_preparing s)" using s by (force simp: voice_inv_def)
  ultimately show ?thesis by (auto simp: prepare_def Let_def inv_aside) (auto simp: voice_defs)
qed

lemma inv_rejected: "voice_inv s \<Longrightarrow> voice_inv (prepare_rejected e s)"
  by (simp add: prepare_rejected_def inv_aside inv_stopped_note)

lemma inv_prepare_opus:
  assumes "voice_inv s" "e \<notin> fst ` set (vc_preparing s)" "e \<le> vc_epoch s" "e = vc_epoch s \<Longrightarrow> vc_stream s = None"
  shows "voice_inv (prepare_opus e answer s)"
proof -
  have "voice_inv (s\<lparr>vc_preparing := vc_preparing s @ [(e, PS_media)]\<rparr>)" if "e = vc_epoch s"
    using assms that by (auto simp: voice_defs)
  then show ?thesis using assms(1) by (auto simp: prepare_opus_def inv_aside inv_rejected split: option.splits)
qed

lemma inv_mic_opened:
  assumes "voice_inv s" "vc_stream s = None" "vc_epoch s \<notin> fst ` set (vc_preparing s)"
  shows "voice_inv (vc_do [VO_micOpened (vc_mics s)] (s\<lparr>vc_mics := Suc (vc_mics s), vc_stream := Some (vc_mics s, n)\<rparr>))"
  using assms by (auto simp: voice_defs less_SucI)

lemma inv_mic_refused:
  assumes "voice_inv s"
  shows "voice_inv (vc_do [VO_micOpened (vc_mics s), VO_micStopped (vc_mics s), VO_prepared False m] (s\<lparr>vc_mics := Suc (vc_mics s)\<rparr>))"
  using assms by (auto simp: voice_defs less_SucI)

lemma inv_prepare_media:
  assumes "voice_inv s" "e \<notin> fst ` set (vc_preparing s)" "e = vc_epoch s \<Longrightarrow> vc_stream s = None"
  shows "voice_inv (prepare_media e answer s)"
proof (cases answer)
  case (Some n)
  let ?o = "vc_do [VO_micOpened (vc_mics s)] (s\<lparr>vc_mics := Suc (vc_mics s), vc_stream := Some (vc_mics s, n)\<rparr>)"
  have "(vc_do [VO_micOpened (vc_mics s)] (s\<lparr>vc_mics := Suc (vc_mics s)\<rparr>))\<lparr>vc_stream := Some (vc_mics s, n)\<rparr> = ?o"
    by (simp add: vc_do_def)
  moreover have "voice_inv ?o" if "e = vc_epoch s" using assms that by (intro inv_mic_opened) auto
  moreover have "vc_do [VO_micStopped (vc_mics s), VO_prepared False MSG_CANCELLED] (vc_do [VO_micOpened (vc_mics s)] (s\<lparr>vc_mics := Suc (vc_mics s)\<rparr>)) =
      vc_do [VO_micOpened (vc_mics s), VO_micStopped (vc_mics s), VO_prepared False MSG_CANCELLED] (s\<lparr>vc_mics := Suc (vc_mics s)\<rparr>)"
    by (simp add: vc_do_def)
  moreover have "vc_epoch (vc_do xs t) = vc_epoch t" for xs t by (simp add: vc_do_def)
  ultimately show ?thesis using Some inv_mic_refused [OF assms(1)]
    by (auto simp: prepare_media_def Let_def inv_stopped_note inv_aside)
qed (use assms(1) in \<open>simp add: prepare_media_def inv_rejected\<close>)

lemma inv_epoch: "voice_inv s \<Longrightarrow> \<not> vc_active s \<Longrightarrow> voice_inv (s\<lparr>vc_epoch := Suc (vc_epoch s)\<rparr>)"
  by (force simp: voice_defs le_SucI)

lemma inv_vc_start: "voice_inv s \<Longrightarrow> voice_inv (fst (vc_start made s))"
proof (cases "vc_active s \<or> (case vc_stream s of None \<Rightarrow> True | Some m \<Rightarrow> snd m = 0)")
  case False
  assume s: "voice_inv s"
  let ?e = "s\<lparr>vc_epoch := Suc (vc_epoch s)\<rparr>"
  have e: "voice_inv ?e" using s False by (intro inv_epoch) auto
  have "Suc (vc_epoch s) \<notin> set (vc_encoders s)" using s by (force simp: voice_inv_def)
  then have "voice_inv (vc_do [VO_started] (?e\<lparr>vc_reader := r, vc_readers := i, vc_active := True,
      vc_pumping := vc_pumping ?e @ [(Suc (vc_epoch s), PU_read)]\<rparr>))" for r i
    using e by (auto simp: voice_defs)
  then show ?thesis using e False by (auto simp: vc_start_def Let_def inv_vc_fail)
qed (auto simp: vc_start_def)

lemma inv_pumping: "voice_inv s \<Longrightarrow> e \<le> vc_epoch s \<Longrightarrow> (\<And>c. st = PU_support c \<Longrightarrow> vec_channels c \<in> {1, 2}) \<Longrightarrow>
    voice_inv (s\<lparr>vc_pumping := vc_pumping s @ [(e, st)]\<rparr>)"
  by (auto simp: voice_defs)

lemma inv_pump_removed: "voice_inv s \<Longrightarrow> voice_inv (s\<lparr>vc_pumping := remove_at k (vc_pumping s)\<rparr>)"
  using set_remove_at [of k "vc_pumping s"] by (fastforce simp: voice_defs)

lemma inv_pump_loop: "voice_inv s \<Longrightarrow> voice_inv (pump_loop e s)"
  by (auto simp: pump_loop_def vc_live_def intro!: inv_pumping)

lemma inv_pump_encode: "voice_inv s \<Longrightarrow> voice_inv (pump_encode e i q b s)"
  by (simp add: pump_encode_def Let_def inv_aside inv_vc_fail inv_pump_loop)

lemma inv_pump_read: "voice_inv s \<Longrightarrow> e \<le> vc_epoch s \<Longrightarrow> voice_inv (pump_read e r q b s)"
  by (cases r)
    (auto simp: pump_read_def inv_vc_fail inv_pump_loop inv_aside inv_pump_encode config_of_def
      intro!: inv_pumping split: option.splits)

lemma inv_encoder_made:
  assumes "voice_inv s" "vec_channels c \<in> {1, 2}"
  shows "voice_inv (vc_do [VO_encoderCreated i c, VO_format (opusOutputSampleRate r) (vec_channels c)]
    (s\<lparr>vc_encoder := Some i, vc_encoders := vc_encoders s @ [vc_epoch s]\<rparr>))"
  using assms by (auto simp: voice_defs opusOutputSampleRate_def)

lemma inv_pump_support:
  assumes "voice_inv s" "vec_channels c \<in> {1, 2}"
  shows "voice_inv (pump_support e c a made q b s)"
  using assms inv_encoder_made [OF assms]
  by (auto simp: pump_support_def Let_def inv_vc_fail inv_aside inv_pump_encode vc_live_def split: option.splits)

lemma inv_encoder_output: "voice_inv s \<Longrightarrow> voice_inv (encoder_output i chunk s)"
proof (cases "js_at (vc_encoders s) i")
  case (Some e)
  assume s: "voice_inv s"
  from Some have "e \<in> set (vc_encoders s)" by (auto simp: js_at_Some_iff)
  with s Some show ?thesis by (auto simp: encoder_output_def vc_live_def voice_defs)
qed (simp add: encoder_output_def)

lemma inv_encoder_error: "voice_inv s \<Longrightarrow> voice_inv (encoder_error i s)"
  by (simp add: encoder_error_def inv_vc_fail split: option.split)

lemma pump_waiting:
  assumes "voice_inv s" "js_at (vc_pumping s) k = Some (e, st)"
  shows "e \<le> vc_epoch s" "st = PU_support c \<Longrightarrow> vec_channels c \<in> {1, 2}"
proof -
  have "(e, st) \<in> set (vc_pumping s)" using assms(2) by (metis js_at_Some_iff nth_mem)
  then show "e \<le> vc_epoch s" "st = PU_support c \<Longrightarrow> vec_channels c \<in> {1, 2}"
    using assms(1) by (auto simp: voice_inv_def)
qed

lemma inv_voice_step: "voice_inv s \<Longrightarrow> voice_inv (voice_step c s)"
proof -
  assume s: "voice_inv s"
  note removed = inv_prepare_removed [OF s]
  show ?thesis
  proof (cases c)
    case (VI_opus k a)
    have "voice_inv (prepare_opus e a (s\<lparr>vc_preparing := remove_at k (vc_preparing s)\<rparr>))"
      if "js_at (vc_preparing s) k = Some (e, st)" for e st
      using removed [OF that] by (intro inv_prepare_opus) simp_all
    then show ?thesis using s VI_opus by (auto simp: voice_step_def split: option.split prepare_stage.split)
  next
    case (VI_media k a)
    have "voice_inv (prepare_media e a (s\<lparr>vc_preparing := remove_at k (vc_preparing s)\<rparr>))"
      if "js_at (vc_preparing s) k = Some (e, st)" for e st
      using removed [OF that] by (intro inv_prepare_media) simp_all
    then show ?thesis using s VI_media by (auto simp: voice_step_def split: option.split prepare_stage.split)
  next
    case (VI_read k r q b)
    then show ?thesis using s pump_waiting [OF s, of k]
      by (auto simp: voice_step_def split: option.split pump_stage.split intro!: inv_pump_read inv_pump_removed)
  next
    case (VI_support k a m q b)
    then show ?thesis using s pump_waiting [OF s, of k]
      by (auto simp: voice_step_def split: option.split pump_stage.split intro!: inv_pump_support inv_pump_removed)
  qed (use s in \<open>simp_all add: voice_step_def inv_prepare inv_vc_start inv_vc_stop inv_encoder_output inv_encoder_error\<close>)
qed

interpretation voice: invariant_system "\<lambda>s. s = newVoiceCapture" voice_step voice_inv
  by unfold_locales (simp_all add: inv_voice_init inv_voice_step)

lemma voice_reachable: "voice_inv (fold voice_step cs newVoiceCapture)"
  by (intro voice.inv_reach reach_fold reach_init) simp

text \<open>
  C28. No microphone is left open: in whatever order calls are prepared, stopped and prepared
  again while the browser is still asking the user, every microphone stream the browser hands
  over is the one the controller holds or has been stopped; after \<open>stop\<close> all of them are.
\<close>

theorem no_microphone_left_open:
  assumes "VO_micOpened m \<in> set (vc_trace (fold voice_step cs newVoiceCapture))"
  shows "((\<exists>n. vc_stream (fold voice_step cs newVoiceCapture) = Some (m, n)) \<or>
      VO_micStopped m \<in> set (vc_trace (fold voice_step cs newVoiceCapture))) \<and>
    VO_micStopped m \<in> set (vc_trace (vc_stop (fold voice_step cs newVoiceCapture)))"
  using assms voice_reachable [of cs] by (auto simp: voice_inv_def mic_ok_def vc_stop_def vc_do_def split: if_splits)

theorem no_microphone_left_open_witness:
  "VO_micStopped 0 \<in> set (vc_trace (vc_stop (fold voice_step [VI_prepare True, VI_opus 0 (Some True), VI_media 0 (Some 1)] newVoiceCapture)))"
  using no_microphone_left_open [of 0 "[VI_prepare True, VI_opus 0 (Some True), VI_media 0 (Some 1)]"]
  by (simp add: voice_step_def prepare_def vc_stop_def vc_do_def newVoiceCapture_def prepare_opus_def prepare_media_def
      remove_at_def Let_def)

text \<open>
  The peer can decode what it is sent: in every run no voice frame goes out before a format was
  announced for the capture it belongs to, and every announced format is a sample rate Opus
  works at with one or two channels.
\<close>

theorem voice_format_before_frames:
  "format_first False (vc_trace (fold voice_step cs newVoiceCapture))"
  using voice_reachable [of cs] by (simp add: voice_inv_def)

end
