(* ===== verification/Session_Recorder.thy ===== *)
theory Session_Recorder
  imports Prelude Step_System
begin

text \<open>
  \<open>webclient/src/media/session-recorder.ts\<close>: a local recording of the session. The browser's
  \<open>MediaRecorder\<close> is on the other side of the calls: its \<open>stop\<close> makes it inactive at once, and
  the last data and the \<open>stop\<close> event arrive later. What the browser answers to \<open>start\<close> is an
  argument; tracks and audio taps are numbered, and the tracks of a tap are the tap's; what is asked of the browser and of the
  application is appended to \<open>sr_trace\<close>.
\<close>

section \<open>The state\<close>

record RecordingFormat =
  rf_mimeType :: jsstr
  rf_extension :: jsstr

definition RECORDING_FORMATS :: "RecordingFormat list" where
  "RECORDING_FORMATS =
     [\<lparr>rf_mimeType = js ''video/webm;codecs=vp9,opus'', rf_extension = js ''webm''\<rparr>,
      \<lparr>rf_mimeType = js ''video/webm;codecs=vp8,opus'', rf_extension = js ''webm''\<rparr>,
      \<lparr>rf_mimeType = js ''video/webm'', rf_extension = js ''webm''\<rparr>,
      \<lparr>rf_mimeType = js ''video/mp4'', rf_extension = js ''mp4''\<rparr>]"

definition chooseRecordingMime :: "(jsstr \<Rightarrow> bool) \<Rightarrow> RecordingFormat option" where
  "chooseRecordingMime isTypeSupported = find (\<lambda>f. isTypeSupported (rf_mimeType f)) RECORDING_FORMATS"

datatype sr_out =
    SR_captured nat
  | SR_trackStopped nat
  | SR_tapOpened nat
  | SR_tapClosed nat
  | SR_recorderStart nat
  | SR_recorderStop nat
  | SR_download bytes jsstr int
  | SR_state bool

text \<open>
  A recorder is its number and whether it is inactive; \<open>sr_combined\<close> are the tracks of the
  stream put together for it, \<open>sr_next\<close> counts tracks, taps and recorders.
\<close>

record LocalSessionRecorder =
  sr_recorder :: "(nat \<times> bool) option"
  sr_combined :: "nat list option"
  sr_tap :: "nat option"
  sr_chunks :: "bytes list"
  sr_format :: "RecordingFormat option"
  sr_startedAtMs :: int
  sr_active :: bool
  sr_next :: nat
  sr_trace :: "sr_out list"

definition newRecorder :: LocalSessionRecorder where
  "newRecorder =
     \<lparr>sr_recorder = None, sr_combined = None, sr_tap = None, sr_chunks = [], sr_format = None, sr_startedAtMs = 0,
      sr_active = False, sr_next = 0, sr_trace = []\<rparr>"

definition sr_do :: "sr_out list \<Rightarrow> LocalSessionRecorder \<Rightarrow> LocalSessionRecorder" where
  "sr_do xs s = s\<lparr>sr_trace := sr_trace s @ xs\<rparr>"

section \<open>Cleaning up\<close>

definition cleanup :: "bool \<Rightarrow> LocalSessionRecorder \<Rightarrow> LocalSessionRecorder" where
  "cleanup notify s =
     sr_do ((case sr_combined s of None \<Rightarrow> [] | Some ts \<Rightarrow> map SR_trackStopped ts) @
            (case sr_tap s of None \<Rightarrow> [] | Some t \<Rightarrow> [SR_tapClosed t]) @
            (if sr_active s \<or> notify then [SR_state False] else []))
       (s\<lparr>sr_active := False, sr_tap := None, sr_combined := None, sr_recorder := None, sr_chunks := [], sr_format := None\<rparr>)"

section \<open>Starting\<close>

text \<open>What \<open>createAudioTap\<close> gives: an exception, nothing, or a tap with some audio tracks.\<close>

datatype tap_answer = TA_throws | TA_none | TA_tap nat

record recording_answers =
  ra_canCapture :: bool
  ra_supported :: "jsstr \<Rightarrow> bool"
  ra_videoTracks :: "nat option"
  ra_audioTap :: tap_answer
  ra_streamMade :: bool
  ra_recorderMade :: bool
  ra_recorderStarts :: bool
  ra_now :: int

text \<open>The tap and its tracks, with the numbers they get.\<close>

definition open_tap :: "tap_answer \<Rightarrow> LocalSessionRecorder \<Rightarrow> LocalSessionRecorder \<times> nat list" where
  "open_tap a s =
     (case a of
        TA_tap k \<Rightarrow>
          (sr_do [SR_tapOpened (sr_next s)]
             (s\<lparr>sr_tap := Some (sr_next s), sr_next := Suc (sr_next s + k)\<rparr>),
           [Suc (sr_next s)..<Suc (sr_next s + k)])
      | TA_none \<Rightarrow> (s\<lparr>sr_tap := None\<rparr>, [])
      | TA_throws \<Rightarrow> (s, []))"

definition sr_start :: "recording_answers \<Rightarrow> LocalSessionRecorder \<Rightarrow> LocalSessionRecorder \<times> jsstr option" where
  "sr_start a s =
     (if sr_active s then (s, Some (js ''Recording is already active.''))
      else if \<not> ra_canCapture a then (s, Some (js ''This browser cannot capture the visible remote video.''))
      else case chooseRecordingMime (ra_supported a) of
        None \<Rightarrow> (s, Some (js ''This browser has no supported session-recording format.''))
      | Some format \<Rightarrow>
        (case ra_videoTracks a of
           None \<Rightarrow> (s, Some (js ''The visible remote video could not be captured.''))
         | Some n \<Rightarrow>
           if n = 0 then (s, Some (js ''The visible remote video has no capturable track.''))
           else
             (let videoTracks = [sr_next s..<sr_next s + n];
                  s1 = sr_do (map SR_captured videoTracks) (s\<lparr>sr_next := sr_next s + n\<rparr>);
                  (s2, audioTracks) = open_tap (ra_audioTap a) s1
              in if ra_audioTap a = TA_throws \<or> \<not> ra_streamMade a
                 then (sr_do (map SR_trackStopped videoTracks @ (case sr_tap s2 of None \<Rightarrow> [] | Some t \<Rightarrow> [SR_tapClosed t]))
                         (s2\<lparr>sr_tap := None\<rparr>),
                       Some (js ''The browser could not assemble the recording stream.''))
                 else
                   (let s3 = s2\<lparr>sr_combined := Some (videoTracks @ audioTracks)\<rparr>
                    in if \<not> ra_recorderMade a
                       then (cleanup False s3, Some (js ''The browser could not create a session recorder.''))
                       else
                         (let r = sr_next s3;
                              s4 = s3\<lparr>sr_recorder := Some (r, True), sr_next := Suc r, sr_chunks := [], sr_format := Some format,
                                      sr_startedAtMs := ra_now a\<rparr>
                          in if \<not> ra_recorderStarts a
                             then (cleanup False s4, Some (js ''The browser refused to start session recording.''))
                             else (sr_do [SR_recorderStart r, SR_state True]
                                     (s4\<lparr>sr_recorder := Some (r, False), sr_active := True\<rparr>), None))))))"

section \<open>Stopping\<close>

text \<open>\<open>recorder.stop()\<close>: inactive at once, its events come later.\<close>

definition recorder_stop :: "nat \<Rightarrow> LocalSessionRecorder \<Rightarrow> LocalSessionRecorder" where
  "recorder_stop r s = sr_do [SR_recorderStop r] (s\<lparr>sr_recorder := Some (r, True)\<rparr>)"

definition sr_stop :: "LocalSessionRecorder \<Rightarrow> LocalSessionRecorder" where
  "sr_stop s =
     (case sr_recorder s of
        None \<Rightarrow> s
      | Some (r, inactive) \<Rightarrow> if \<not> sr_active s then s else if \<not> inactive then recorder_stop r s else cleanup False s)"

definition sr_close :: "LocalSessionRecorder \<Rightarrow> LocalSessionRecorder" where
  "sr_close s =
     (case sr_recorder s of
        None \<Rightarrow> cleanup False s
      | Some (r, inactive) \<Rightarrow> if sr_active s \<and> \<not> inactive then recorder_stop r s else cleanup False s)"

section \<open>Events of the recorder\<close>

text \<open>The handlers hang on the recorder the object holds; \<open>cleanup\<close> takes them off.\<close>

definition ondataavailable :: "nat \<Rightarrow> bytes \<Rightarrow> LocalSessionRecorder \<Rightarrow> LocalSessionRecorder" where
  "ondataavailable r d s =
     (if map_option fst (sr_recorder s) = Some r \<and> 0 < length d then s\<lparr>sr_chunks := sr_chunks s @ [d]\<rparr> else s)"

definition onstop :: "nat \<Rightarrow> LocalSessionRecorder \<Rightarrow> LocalSessionRecorder" where
  "onstop r s =
     (if map_option fst (sr_recorder s) \<noteq> Some r then s
      else cleanup True
        (case sr_format s of
           Some f \<Rightarrow> if sr_chunks s \<noteq> [] then sr_do [SR_download (concat (sr_chunks s)) (rf_extension f) (sr_startedAtMs s)] s else s
         | None \<Rightarrow> s))"

definition onerror :: "nat \<Rightarrow> LocalSessionRecorder \<Rightarrow> LocalSessionRecorder" where
  "onerror r s = (if map_option fst (sr_recorder s) \<noteq> Some r then s else cleanup False s)"

text \<open>A recorder also becomes inactive by itself, when its tracks end.\<close>

datatype (plugins only: size) recorder_call =
    RC_start recording_answers
  | RC_stop
  | RC_close
  | RC_data nat bytes
  | RC_stopped nat
  | RC_error nat
  | RC_ended nat

definition recorder_step :: "recorder_call \<Rightarrow> LocalSessionRecorder \<Rightarrow> LocalSessionRecorder" where
  "recorder_step c s =
     (case c of
        RC_start a \<Rightarrow> fst (sr_start a s)
      | RC_stop \<Rightarrow> sr_stop s
      | RC_close \<Rightarrow> sr_close s
      | RC_data r d \<Rightarrow> ondataavailable r d s
      | RC_stopped r \<Rightarrow> onstop r s
      | RC_error r \<Rightarrow> onerror r s
      | RC_ended r \<Rightarrow> if map_option fst (sr_recorder s) = Some r then s\<lparr>sr_recorder := Some (r, True)\<rparr> else s)"

end
