(* ===== verification/Recorder_Safety.thy ===== *)
theory Recorder_Safety
  imports Session_Recorder
begin

text \<open>
  What the session recorder keeps: nothing it captures is left running, an undisturbed
  recording is saved whole, and a second request to stop loses it.
\<close>

section \<open>Nothing captured is left running\<close>

definition capture_settled :: "LocalSessionRecorder \<Rightarrow> bool" where
  "capture_settled s \<longleftrightarrow>
     (\<forall>t. SR_captured t \<in> set (sr_trace s) \<longrightarrow>
        (\<exists>ts. sr_combined s = Some ts \<and> t \<in> set ts) \<or> SR_trackStopped t \<in> set (sr_trace s)) \<and>
     (\<forall>t. SR_tapOpened t \<in> set (sr_trace s) \<longrightarrow> sr_tap s = Some t \<or> SR_tapClosed t \<in> set (sr_trace s))"

definition recorder_inv :: "LocalSessionRecorder \<Rightarrow> bool" where
  "recorder_inv s \<longleftrightarrow>
     capture_settled s \<and> (\<not> sr_active s \<longrightarrow> sr_recorder s = None \<and> sr_combined s = None \<and> sr_tap s = None)"

lemma inv_newRecorder: "recorder_inv newRecorder"
  by (simp add: recorder_inv_def capture_settled_def newRecorder_def)

lemma settled_same:
  "capture_settled s \<Longrightarrow> sr_combined t = sr_combined s \<Longrightarrow> sr_tap t = sr_tap s \<Longrightarrow> sr_trace t = sr_trace s \<Longrightarrow> capture_settled t"
  by (simp add: capture_settled_def)

lemma settled_more: "capture_settled s \<Longrightarrow> \<forall>t. SR_captured t \<notin> set xs \<and> SR_tapOpened t \<notin> set xs \<Longrightarrow> capture_settled (sr_do xs s)"
  by (auto simp: capture_settled_def sr_do_def)

lemma inv_cleanup: "capture_settled s \<Longrightarrow> recorder_inv (cleanup b s)"
  by (auto simp: recorder_inv_def capture_settled_def sr_do_def cleanup_def split: option.splits)

lemma inv_sr_start:
  assumes "recorder_inv s"
  shows "recorder_inv (fst (sr_start a s))"
proof (cases "sr_active s \<or> \<not> ra_canCapture a \<or> chooseRecordingMime (ra_supported a) = None \<or>
    ra_videoTracks a = None \<or> ra_videoTracks a = Some 0")
  case True
  with assms show ?thesis by (auto simp: sr_start_def split: option.splits)
next
  case False
  then obtain f n where n: "chooseRecordingMime (ra_supported a) = Some f" "ra_videoTracks a = Some n" "n \<noteq> 0"
    "\<not> sr_active s" "ra_canCapture a" by auto
  have s: "capture_settled s" "sr_combined s = None" "sr_tap s = None" "sr_recorder s = None"
    using assms n(4) by (simp_all add: recorder_inv_def)
  define vs where "vs = [sr_next s..<sr_next s + n]"
  define s1 where "s1 = sr_do (map SR_captured vs) (s\<lparr>sr_next := sr_next s + n\<rparr>)"
  define s2 where "s2 = fst (open_tap (ra_audioTap a) s1)"
  define us where "us = snd (open_tap (ra_audioTap a) s1)"
  have 2: "\<forall>t. SR_captured t \<in> set (sr_trace s2) \<longrightarrow> t \<in> set vs \<or> SR_trackStopped t \<in> set (sr_trace s2)"
    "\<forall>t. SR_tapOpened t \<in> set (sr_trace s2) \<longrightarrow> sr_tap s2 = Some t \<or> SR_tapClosed t \<in> set (sr_trace s2)"
    "sr_combined s2 = None" "sr_recorder s2 = None" "\<not> sr_active s2"
    using s n(4) by (auto simp: s2_def s1_def capture_settled_def sr_do_def open_tap_def split: tap_answer.splits)
  define s3 where "s3 = s2\<lparr>sr_combined := Some (vs @ us)\<rparr>"
  have 3: "capture_settled s3" using 2 by (auto simp: s3_def capture_settled_def)
  have failed: "recorder_inv (sr_do (map SR_trackStopped vs @ (case sr_tap s2 of None \<Rightarrow> [] | Some t \<Rightarrow> [SR_tapClosed t])) (s2\<lparr>sr_tap := None\<rparr>))"
    using 2 by (auto simp: recorder_inv_def capture_settled_def sr_do_def split: option.splits)
  have "capture_settled (s3\<lparr>sr_recorder := r, sr_next := i, sr_chunks := [], sr_format := Some f, sr_startedAtMs := m\<rparr>)" for r i m
    using 3 by (rule settled_same) simp_all
  moreover have "recorder_inv (sr_do [SR_recorderStart i, SR_state True]
      (s3\<lparr>sr_next := j, sr_chunks := [], sr_format := Some f, sr_startedAtMs := m, sr_recorder := r, sr_active := True\<rparr>))" for r i j m
    unfolding recorder_inv_def by (intro conjI settled_more settled_same [OF 3]) (simp_all add: sr_do_def)
  ultimately show ?thesis using n failed 3 inv_cleanup [OF 3]
    by (simp add: sr_start_def Let_def vs_def [symmetric] s1_def [symmetric] s2_def [symmetric] us_def [symmetric]
        case_prod_beta if_distrib [of fst] if_distrib [of snd] s3_def [symmetric] inv_cleanup)
qed

lemma inv_recorder_stop: "recorder_inv s \<Longrightarrow> sr_active s \<Longrightarrow> recorder_inv (recorder_stop r s)"
  by (auto simp: recorder_stop_def recorder_inv_def capture_settled_def sr_do_def)

lemma inv_recorder_step: "recorder_inv s \<Longrightarrow> recorder_inv (recorder_step c s)"
proof -
  assume s: "recorder_inv s"
  then have d: "capture_settled s" by (simp add: recorder_inv_def)
  have stop: "recorder_inv (sr_stop s)" "recorder_inv (sr_close s)"
    using s inv_recorder_stop [OF s] inv_cleanup [OF d] by (simp_all add: sr_stop_def sr_close_def split: option.split)
  have same: "recorder_inv (s\<lparr>sr_chunks := ch\<rparr>)" "sr_recorder s \<noteq> None \<Longrightarrow> recorder_inv (s\<lparr>sr_recorder := r\<rparr>)" for ch r
    using s by (auto simp: recorder_inv_def capture_settled_def)
  have saved: "recorder_inv (cleanup b (sr_do [SR_download x e n] s))" for b x e n
    by (intro inv_cleanup settled_more [OF d]) simp
  show ?thesis
  proof (cases c)
    case (RC_stopped r)
    then show ?thesis using s inv_cleanup [OF d] saved by (simp add: recorder_step_def onstop_def split: option.split)
  next
    case (RC_ended r)
    then show ?thesis using s same(2) by (auto simp: recorder_step_def)
  qed (use s stop same(1) inv_cleanup [OF d] in \<open>simp_all add: recorder_step_def inv_sr_start ondataavailable_def onerror_def\<close>)
qed

interpretation recorder: invariant_system "\<lambda>s. s = newRecorder" recorder_step recorder_inv
  by unfold_locales (simp_all add: inv_newRecorder inv_recorder_step)

text \<open>
  Recording leaves nothing running: whatever the browser refuses and whenever the recorder
  stops, fails or is closed, every video track captured is in the stream being recorded or was
  stopped, every audio tap is the current one or was closed; when no recording is active all of
  them are.
\<close>

theorem recording_releases_capture:
  "capture_settled (fold recorder_step cs newRecorder) \<and>
   (sr_active (fold recorder_step cs newRecorder) \<or>
    sr_combined (fold recorder_step cs newRecorder) = None \<and> sr_tap (fold recorder_step cs newRecorder) = None)"
proof -
  have "recorder_inv (fold recorder_step cs newRecorder)" by (intro recorder.inv_reach reach_fold reach_init) simp
  then show ?thesis by (auto simp: recorder_inv_def)
qed

section \<open>What is saved\<close>

lemma data_chunks:
  "map_option fst (sr_recorder s) = Some r \<Longrightarrow>
    fold (\<lambda>d. recorder_step (RC_data r d)) ds s = s\<lparr>sr_chunks := sr_chunks s @ filter (\<lambda>d. d \<noteq> []) ds\<rparr>"
  by (induction ds arbitrary: s) (simp_all add: recorder_step_def ondataavailable_def)

text \<open>A recording that has started: one video track, no audio.\<close>

definition demo_recording :: LocalSessionRecorder where
  "demo_recording = recorder_step (RC_start
     \<lparr>ra_canCapture = True, ra_supported = (\<lambda>_. True), ra_videoTracks = Some 1, ra_audioTap = TA_none, ra_streamMade = True,
      ra_recorderMade = True, ra_recorderStarts = True, ra_now = 0\<rparr>) newRecorder"

lemma demo_recording_state:
  "sr_recorder demo_recording = Some (1, False)" "sr_active demo_recording" "sr_chunks demo_recording = []"
  "sr_format demo_recording = Some (hd RECORDING_FORMATS)" "sr_startedAtMs demo_recording = 0"
  by (simp_all add: demo_recording_def recorder_step_def sr_start_def chooseRecordingMime_def RECORDING_FORMATS_def
      open_tap_def sr_do_def newRecorder_def Let_def)

text \<open>
  A recording is saved whole: when it is stopped or closed once and its recorder then hands
  over the rest, the file downloaded is everything the recorder delivered since it started, in
  order, under the chosen format.
\<close>

theorem recording_saved_whole:
  assumes "sr_recorder s = Some (r, False)" "sr_active s" "sr_chunks s = []" "sr_format s = Some f"
    and "c = RC_stop \<or> c = RC_close" "filter (\<lambda>d. d \<noteq> []) (ds @ es) \<noteq> []"
  shows "SR_download (concat (ds @ es)) (rf_extension f) (sr_startedAtMs s) \<in> set (sr_trace
    (recorder_step (RC_stopped r) (fold (\<lambda>d. recorder_step (RC_data r d)) es
      (recorder_step c (fold (\<lambda>d. recorder_step (RC_data r d)) ds s)))))"
proof -
  let ?s1 = "fold (\<lambda>d. recorder_step (RC_data r d)) ds s"
  have 1: "?s1 = s\<lparr>sr_chunks := filter (\<lambda>d. d \<noteq> []) ds\<rparr>" using assms(1,3) data_chunks [of s r ds] by simp
  have 2: "recorder_step c ?s1 = recorder_stop r ?s1"
    using assms(1,2,5) unfolding 1 by (auto simp: recorder_step_def sr_stop_def sr_close_def)
  have "concat (filter (\<lambda>d. d \<noteq> []) xs) = concat xs" for xs :: "bytes list" by (induction xs) simp_all
  then show ?thesis using assms(4,6) data_chunks [of "recorder_stop r ?s1" r es] unfolding 2
    by (auto simp: 1 recorder_stop_def sr_do_def recorder_step_def onstop_def cleanup_def)
qed

theorem recording_saved_whole_witness:
  "SR_download [1, 2, 3] (js ''webm'') 0 \<in> set (sr_trace
    (recorder_step (RC_stopped 1) (recorder_step (RC_data 1 [2, 3]) (recorder_step RC_stop (recorder_step (RC_data 1 [1]) demo_recording)))))"
  using recording_saved_whole [OF demo_recording_state(1-4), of RC_stop "[[1]]" "[[2, 3]]"]
  by (simp add: demo_recording_state RECORDING_FORMATS_def)

text \<open>
  Stopping twice loses the recording: the first request makes the recorder inactive while its
  last data is still to come, and a second \<open>stop\<close> or a \<open>close\<close> then takes the inactive recorder for
  one that has finished, so nothing that was recorded is ever downloaded.
\<close>

theorem second_stop_loses_recording:
  assumes "sr_recorder s = Some (r, False)" "sr_active s" "c = RC_stop \<or> c = RC_close"
  shows "filter (\<lambda>x. \<exists>b e n. x = SR_download b e n)
      (sr_trace (recorder_step (RC_stopped r) (fold (\<lambda>d. recorder_step (RC_data r d)) es (recorder_step c (recorder_step RC_stop s))))) =
    filter (\<lambda>x. \<exists>b e n. x = SR_download b e n) (sr_trace s)"
proof -
  let ?s = "recorder_step c (recorder_step RC_stop s)"
  have n: "sr_recorder ?s = None" and t: "filter (\<lambda>x. \<exists>b e n. x = SR_download b e n) (sr_trace ?s) =
      filter (\<lambda>x. \<exists>b e n. x = SR_download b e n) (sr_trace s)"
    using assms by (auto simp: recorder_step_def sr_stop_def sr_close_def recorder_stop_def sr_do_def cleanup_def
        filter_empty_conv split: option.splits)
  have "fold (\<lambda>d. recorder_step (RC_data r d)) es ?s = ?s"
    using n by (induction es) (simp_all add: recorder_step_def ondataavailable_def)
  then show ?thesis using n t by (simp add: recorder_step_def onstop_def)
qed

theorem second_stop_loses_recording_witness:
  "filter (\<lambda>x. \<exists>b e n. x = SR_download b e n)
      (sr_trace (recorder_step (RC_stopped 1) (recorder_step (RC_data 1 [7]) (recorder_step RC_close (recorder_step RC_stop demo_recording))))) = []"
proof -
  have "filter (\<lambda>x. \<exists>b e n. x = SR_download b e n) (sr_trace demo_recording) = []"
    by (simp add: demo_recording_def recorder_step_def sr_start_def chooseRecordingMime_def RECORDING_FORMATS_def
        open_tap_def sr_do_def newRecorder_def Let_def)
  then show ?thesis using second_stop_loses_recording [OF demo_recording_state(1,2), of RC_close "[[7]]"] by simp
qed

end
