(* ===== verification/Mse_Player.thy ===== *)
theory Mse_Player
  imports Prelude Step_System
begin

text \<open>
  \<open>MseVideoPlayer\<close> of \<open>webclient/src/media/mse-video.ts\<close>, the main-thread side of the fallback
  video path. The muxer is a library: a number here, whose uses are appended to \<open>mp_trace\<close>. It is
  loaded on first use; \<open>push\<close> is cut at its await, the frames that wait for a load are kept with
  it, and a load that settles is the event \<open>ML_loaded\<close>. \<open>mp_starting\<close> is the promise \<open>starting\<close>,
  by the number of its load.
\<close>

datatype mse_out =
    MO_new nat
  | MO_feed nat bytes
  | MO_destroy nat
  | MO_error jsstr

record MsePlayer =
  mp_muxer :: "nat option"
  mp_starting :: "nat option"
  mp_loads :: "(nat \<times> bytes list) list"
  mp_next :: nat
  mp_trace :: "mse_out list"

definition newMsePlayer :: MsePlayer where
  "newMsePlayer = \<lparr>mp_muxer = None, mp_starting = None, mp_loads = [], mp_next = 0, mp_trace = []\<rparr>"

definition mp_do :: "mse_out list \<Rightarrow> MsePlayer \<Rightarrow> MsePlayer" where
  "mp_do xs p = p\<lparr>mp_trace := mp_trace p @ xs\<rparr>"

definition waiting_on :: "nat \<Rightarrow> MsePlayer \<Rightarrow> bytes list" where
  "waiting_on n p = (case map_of (mp_loads p) n of None \<Rightarrow> [] | Some ds \<Rightarrow> ds)"

text \<open>
  \<open>push\<close>: with a muxer the frame is fed at the next microtask, before anything else runs; a frame
  that meets a load under way waits for it, and one that meets a failed load is dropped.
\<close>

definition mp_push :: "bytes \<Rightarrow> MsePlayer \<Rightarrow> MsePlayer" where
  "mp_push d p =
     (case mp_muxer p of
        Some m \<Rightarrow> mp_do [MO_feed m d] p
      | None \<Rightarrow>
          (case mp_starting p of
             None \<Rightarrow> p\<lparr>mp_starting := Some (mp_next p), mp_loads := mp_loads p @ [(mp_next p, [d])], mp_next := Suc (mp_next p)\<rparr>
           | Some n \<Rightarrow> p\<lparr>mp_loads := map (\<lambda>(k, ds). (k, if k = n then ds @ [d] else ds)) (mp_loads p)\<rparr>))"

text \<open>The load settles: \<open>ok\<close> when a constructor was found and did not throw.\<close>

definition mp_loaded :: "nat \<Rightarrow> bool \<Rightarrow> MsePlayer \<Rightarrow> MsePlayer" where
  "mp_loaded n ok p =
     (if n \<notin> fst ` set (mp_loads p) then p
      else
        (let p1 = p\<lparr>mp_loads := filter (\<lambda>l. fst l \<noteq> n) (mp_loads p)\<rparr>
         in if ok then (mp_do (MO_new n # map (MO_feed n) (waiting_on n p)) p1)\<lparr>mp_muxer := Some n\<rparr> else p1))"

definition mp_close :: "MsePlayer \<Rightarrow> MsePlayer" where
  "mp_close p =
     (case mp_muxer p of None \<Rightarrow> p | Some m \<Rightarrow> mp_do [MO_destroy m] p)\<lparr>mp_muxer := None, mp_starting := None\<rparr>"

definition mp_muxerError :: "nat \<Rightarrow> MsePlayer \<Rightarrow> MsePlayer" where
  "mp_muxerError m p =
     (if MO_new m \<in> set (mp_trace p)
      then mp_do [MO_error (js ''Video stream error '' @ [0x2014] @ js '' requesting a fresh key frame'')] p else p)"

datatype mse_call =
    ML_push bytes
  | ML_loaded nat bool
  | ML_muxerError nat

definition mse_step :: "mse_call \<Rightarrow> MsePlayer \<Rightarrow> MsePlayer" where
  "mse_step c p =
     (case c of
        ML_push d \<Rightarrow> mp_push d p
      | ML_loaded n ok \<Rightarrow> mp_loaded n ok p
      | ML_muxerError m \<Rightarrow> mp_muxerError m p)"

section \<open>Frames reach one muxer in order\<close>

fun fed :: "nat \<Rightarrow> mse_out list \<Rightarrow> bytes list" where
  "fed m [] = []"
| "fed m (MO_feed k d # tr) = (if k = m then d # fed m tr else fed m tr)"
| "fed m (_ # tr) = fed m tr"

lemma fed_append [simp]: "fed m (a @ b) = fed m a @ fed m b"
  by (induction m a rule: fed.induct) auto

lemma fed_feeds [simp]: "fed m (map (MO_feed k) ds) = (if k = m then ds else [])"
  by (induction ds) auto

definition pushed_frames :: "mse_call list \<Rightarrow> bytes list" where
  "pushed_frames cs = concat (map (\<lambda>c. case c of ML_push d \<Rightarrow> [d] | _ \<Rightarrow> []) cs)"

definition no_failed_load :: "mse_call list \<Rightarrow> bool" where
  "no_failed_load cs = list_all (\<lambda>c. case c of ML_loaded _ ok \<Rightarrow> ok | _ \<Rightarrow> True) cs"

text \<open>An open player is untouched, loads its only muxer, or has it.\<close>

definition open_player :: "bytes list \<Rightarrow> MsePlayer \<Rightarrow> bool" where
  "open_player ds p \<longleftrightarrow>
     (mp_muxer p = None \<and> mp_starting p = None \<and> mp_loads p = [] \<and> mp_next p = 0 \<and> fed 0 (mp_trace p) = [] \<and> MO_new 0 \<notin> set (mp_trace p) \<and> ds = [])
     \<or> (mp_muxer p = None \<and> mp_starting p = Some 0 \<and> mp_loads p = [(0, ds)] \<and> fed 0 (mp_trace p) = [] \<and> MO_new 0 \<notin> set (mp_trace p))
     \<or> (mp_muxer p = Some 0 \<and> mp_loads p = [] \<and> fed 0 (mp_trace p) = ds \<and> MO_new 0 \<in> set (mp_trace p))"

lemma open_push: "open_player ds p \<Longrightarrow> open_player (ds @ [d]) (mp_push d p)"
  unfolding open_player_def by (elim disjE) (simp_all add: mp_push_def mp_do_def)

lemma open_loaded: "open_player ds p \<Longrightarrow> open_player ds (mp_loaded n True p)"
  unfolding open_player_def by (elim disjE) (auto simp: mp_loaded_def mp_do_def waiting_on_def)

lemma open_muxerError: "open_player ds p \<Longrightarrow> open_player ds (mp_muxerError n p)"
  unfolding open_player_def by (elim disjE) (simp_all add: mp_muxerError_def mp_do_def)

lemma open_step:
  assumes "open_player ds p" "no_failed_load [c]"
  shows "open_player (ds @ pushed_frames [c]) (mse_step c p)"
  using assms
  by (cases c) (simp_all add: mse_step_def pushed_frames_def no_failed_load_def open_push open_loaded open_muxerError)

lemma open_fold:
  "no_failed_load cs \<Longrightarrow> open_player ds p \<Longrightarrow> open_player (ds @ pushed_frames cs) (fold mse_step cs p)"
proof (induction cs arbitrary: ds p)
  case (Cons c cs)
  have "open_player (ds @ pushed_frames [c]) (mse_step c p)"
    using Cons.prems by (intro open_step) (simp_all add: no_failed_load_def)
  then have "open_player ((ds @ pushed_frames [c]) @ pushed_frames cs) (fold mse_step cs (mse_step c p))"
    using Cons.prems(1) by (intro Cons.IH) (simp add: no_failed_load_def)
  then show ?case by (simp add: pushed_frames_def)
qed (simp add: pushed_frames_def)

lemma open_new: "open_player [] newMsePlayer"
  by (simp add: open_player_def newMsePlayer_def)

text \<open>
  A player whose muxer loads feeds it every frame it was pushed, once and in order; the frames
  that come before the load are kept for it, and closing the player then destroys the muxer.
\<close>

theorem mse_frames_in_order:
  assumes "no_failed_load cs" "p = fold mse_step cs newMsePlayer" "mp_muxer p = Some m"
  shows "fed m (mp_trace p) = pushed_frames cs \<and> MO_destroy m \<in> set (mp_trace (mp_close p))"
proof -
  have "open_player (pushed_frames cs) p" using open_fold [OF assms(1) open_new] assms(2) by simp
  with assms(3) show ?thesis by (auto simp: open_player_def newMsePlayer_def mp_close_def mp_do_def)
qed

theorem mse_frames_in_order_witness:
  "fed 0 (mp_trace (fold mse_step [ML_push [1], ML_push [2], ML_loaded 0 True, ML_push [3]] newMsePlayer)) = [[1], [2], [3]]"
  using mse_frames_in_order [of "[ML_push [1], ML_push [2], ML_loaded 0 True, ML_push [3]]", OF _ refl, of 0]
  by (simp add: no_failed_load_def pushed_frames_def mse_step_def mp_push_def mp_loaded_def mp_do_def newMsePlayer_def waiting_on_def)

section \<open>Closing while the muxer loads\<close>

text \<open>
  \<open>close\<close> does not reach a load under way: the muxer is still built when it settles, is fed every
  frame that waited, becomes the muxer of the closed player, and nothing destroys it.
\<close>

theorem closing_player_leaks_muxer:
  assumes "no_failed_load cs" "p = fold mse_step cs newMsePlayer" "mp_muxer p = None" "pushed_frames cs \<noteq> []"
  shows "mp_muxer (mse_step (ML_loaded 0 True) (mp_close p)) = Some 0 \<and>
    fed 0 (mp_trace (mse_step (ML_loaded 0 True) (mp_close p))) = pushed_frames cs"
proof -
  have "open_player (pushed_frames cs) p" using open_fold [OF assms(1) open_new] assms(2) by simp
  with assms(3,4) show ?thesis
    by (auto simp: open_player_def newMsePlayer_def mp_close_def mp_do_def mse_step_def mp_loaded_def waiting_on_def)
qed

theorem closing_player_leaks_muxer_witness:
  "mp_muxer (mse_step (ML_loaded 0 True) (mp_close (fold mse_step [ML_push [1]] newMsePlayer))) = Some 0"
  using closing_player_leaks_muxer [of "[ML_push [1]]", OF _ refl]
  by (simp add: no_failed_load_def pushed_frames_def mse_step_def mp_push_def newMsePlayer_def)

end
