(* ===== verification/Camera_Panel.thy ===== *)
theory Camera_Panel
  imports Terminal_Panel
begin

text \<open>
  The class \<open>CameraPanel\<close> of \<open>webclient/src/ui/camera-panel.ts\<close>. As in the terminal panel each
  connection has a worker of its own, let go of by \<open>disconnectIndependentWorker\<close>, and messages of
  every worker that is not terminated reach \<open>onEvent\<close>. The elements of the dialog exist together
  (\<open>cm_shell\<close>); \<open>cm_buttons\<close> are the buttons of the source selector, in order, with their labels
  and whether they are marked; \<open>cm_mse\<close> tells that the fallback player exists.
\<close>

section \<open>The state\<close>

datatype camera_out =
    CM_worker nat
  | CM_post nat UiCommand
  | CM_terminate nat
  | CM_toast jsstr
  | CM_mseNew
  | CM_msePush bytes bool
  | CM_mseClose

record CameraPanel =
  cm_shell :: bool
  cm_worker :: "nat option"
  cm_next :: nat
  cm_flushing :: "nat list"
  cm_mse :: bool
  cm_connected :: bool
  cm_source :: int
  cm_status :: jsstr
  cm_buttons :: "(jsstr \<times> bool) list"
  cm_trace :: "camera_out list"

definition newCameraPanel :: CameraPanel where
  "newCameraPanel =
     \<lparr>cm_shell = False, cm_worker = None, cm_next = 0, cm_flushing = [], cm_mse = False, cm_connected = False, cm_source = 0,
      cm_status = [], cm_buttons = [], cm_trace = []\<rparr>"

definition buildCameraConfig :: "SessionConfig \<Rightarrow> SessionConfig" where
  "buildCameraConfig source = source\<lparr>config_connType := Some CK_viewCamera\<rparr>"

definition cm_do :: "camera_out list \<Rightarrow> CameraPanel \<Rightarrow> CameraPanel" where
  "cm_do xs p = p\<lparr>cm_trace := cm_trace p @ xs\<rparr>"

text \<open>\<open>this.worker?.postMessage\<close>\<close>

definition cm_send :: "UiCommand \<Rightarrow> CameraPanel \<Rightarrow> CameraPanel" where
  "cm_send c p = (case cm_worker p of None \<Rightarrow> p | Some w \<Rightarrow> cm_do [CM_post w c] p)"

definition cm_setStatus :: "jsstr \<Rightarrow> CameraPanel \<Rightarrow> CameraPanel" where
  "cm_setStatus m p = (if cm_shell p then p\<lparr>cm_status := m\<rparr> else p)"

section \<open>Operations\<close>

definition cm_stopWorker :: "CameraPanel \<Rightarrow> CameraPanel" where
  "cm_stopWorker p =
     (let p1 = (case cm_worker p of
                  None \<Rightarrow> p
                | Some w \<Rightarrow> (cm_do [CM_post w Cmd_disconnect] p)\<lparr>cm_worker := None, cm_flushing := cm_flushing p @ [w]\<rparr>);
          p2 = (if cm_mse p1 then cm_do [CM_mseClose] p1 else p1)
      in p2\<lparr>cm_mse := False, cm_connected := False\<rparr>)"

definition cm_fail :: "jsstr \<Rightarrow> CameraPanel \<Rightarrow> CameraPanel" where
  "cm_fail message p = cm_stopWorker (cm_setStatus message p)"

definition cm_destroy :: "CameraPanel \<Rightarrow> CameraPanel" where
  "cm_destroy p = (cm_stopWorker p)\<lparr>cm_shell := False, cm_status := [], cm_buttons := [], cm_connected := False\<rparr>"

definition cm_open :: "SessionConfig option \<Rightarrow> CameraPanel \<Rightarrow> CameraPanel" where
  "cm_open getConfig p =
     (if cm_shell p then p
      else case getConfig of
        None \<Rightarrow> cm_do [CM_toast (js ''Connect to the device before viewing its camera'')] p
      | Some config \<Rightarrow>
          (let w = cm_next p
           in cm_do [CM_worker w, CM_post w (Cmd_connect (buildCameraConfig config))]
                (p\<lparr>cm_shell := True, cm_status := js ''Connecting'' @ [0x2026], cm_buttons := [], cm_worker := Some w,
                   cm_next := Suc w\<rparr>)))"

definition source_label :: "nat \<Rightarrow> DisplayInfo \<Rightarrow> jsstr" where
  "source_label i d = (let n = js_trim (di_name d) in if n \<noteq> [] then n else js ''Camera '' @ radix_str 10 (Suc i))"

definition renderSources :: "DisplayInfo list \<Rightarrow> int \<Rightarrow> CameraPanel \<Rightarrow> CameraPanel" where
  "renderSources displays cur p =
     (if \<not> cm_shell p then p
      else if length displays \<le> 1 then p\<lparr>cm_buttons := []\<rparr>
      else p\<lparr>cm_buttons := map (\<lambda>(i, d). (source_label i d, int i = cur)) (enumerate 0 displays)\<rparr>)"

definition markSource :: "int \<Rightarrow> CameraPanel \<Rightarrow> CameraPanel" where
  "markSource cur p = p\<lparr>cm_buttons := map (\<lambda>(i, b). (fst b, int i = cur)) (enumerate 0 (cm_buttons p))\<rparr>"

definition cm_onState :: "SessionState \<Rightarrow> jsstr option \<Rightarrow> CameraPanel \<Rightarrow> CameraPanel" where
  "cm_onState st detail p =
     (let p1 = p\<lparr>cm_connected := (st = Streaming)\<rparr>
      in if st = ErrorState \<or> st = Closed
         then cm_fail (or_else detail (if st = Closed then js ''Camera disconnected'' else js ''Camera connection failed'')) p1
         else cm_setStatus (or_else detail (if st = Streaming then js ''Live'' else state_name st)) p1)"

definition cm_onH264 :: "bytes \<Rightarrow> bool \<Rightarrow> CameraPanel \<Rightarrow> CameraPanel" where
  "cm_onH264 d key p =
     (if \<not> cm_shell p then p
      else cm_do [CM_msePush d key] (if cm_mse p then p else (cm_do [CM_mseNew] p)\<lparr>cm_mse := True\<rparr>))"

definition cm_onEvent :: "SessionEvent \<Rightarrow> CameraPanel \<Rightarrow> CameraPanel" where
  "cm_onEvent ev p =
     (case ev of
        Ev_state st detail _ \<Rightarrow> cm_onState st detail p
      | Ev_loginError m \<Rightarrow> cm_fail m p
      | Ev_peerInfo e \<Rightarrow>
          (let p1 = (case pe_current e of None \<Rightarrow> p | Some c \<Rightarrow> p\<lparr>cm_source := c\<rparr>) in renderSources (pe_displays e) (cm_source p1) p1)
      | Ev_switchDisplay e \<Rightarrow> markSource (se_index e) (p\<lparr>cm_source := se_index e\<rparr>)
      | Ev_h264 d key \<Rightarrow> cm_onH264 d key p
      | _ \<Rightarrow> p)"

section \<open>The panel as a system\<close>

datatype (plugins only: size) camera_call =
    CC_open "SessionConfig option"
  | CC_event nat SessionEvent
  | CC_workerError nat
  | CC_mseError
  | CC_pick nat
  | CC_close
  | CC_flushed nat

definition cm_hears :: "nat \<Rightarrow> CameraPanel \<Rightarrow> bool" where
  "cm_hears w p \<longleftrightarrow> cm_worker p = Some w \<or> w \<in> set (cm_flushing p)"

definition cm_flushed :: "nat \<Rightarrow> CameraPanel \<Rightarrow> CameraPanel" where
  "cm_flushed w p =
     (if w \<in> set (cm_flushing p) then (cm_do [CM_terminate w] p)\<lparr>cm_flushing := remove1 w (cm_flushing p)\<rparr> else p)"

definition camera_step :: "camera_call \<Rightarrow> CameraPanel \<Rightarrow> CameraPanel" where
  "camera_step c p =
     (case c of
        CC_open cfg \<Rightarrow> cm_open cfg p
      | CC_event w ev \<Rightarrow> if cm_hears w p then cm_onEvent ev p else p
      | CC_workerError w \<Rightarrow> if cm_hears w p then cm_fail (js ''Camera worker failed'') p else p
      | CC_mseError \<Rightarrow> cm_send Cmd_refresh p
      | CC_pick i \<Rightarrow> if i < length (cm_buttons p) \<and> cm_connected p then cm_send (Cmd_switchDisplay (int i)) p else p
      | CC_close \<Rightarrow> if cm_shell p then cm_destroy p else p
      | CC_flushed w \<Rightarrow> cm_flushed w p)"

section \<open>Facts\<close>

fun cm_posts :: "nat \<Rightarrow> camera_out list \<Rightarrow> UiCommand list" where
  "cm_posts w [] = []"
| "cm_posts w (CM_post v c # tr) = (if v = w then c # cm_posts w tr else cm_posts w tr)"
| "cm_posts w (_ # tr) = cm_posts w tr"

lemma cm_posts_append [simp]: "cm_posts w (a @ b) = cm_posts w a @ cm_posts w b"
  by (induction w a rule: cm_posts.induct) auto

text \<open>What a camera connection may ask of the peer: its own connection, a source, a fresh frame.\<close>

fun view_command :: "UiCommand \<Rightarrow> bool" where
  "view_command Cmd_refresh = True"
| "view_command (Cmd_switchDisplay _) = True"
| "view_command _ = False"

definition viewing :: "UiCommand list \<Rightarrow> bool" where
  "viewing cs \<longleftrightarrow> (\<exists>cfg body. cs = Cmd_connect cfg # body \<and> config_connType cfg = Some CK_viewCamera \<and> list_all view_command body)"

lemma viewing_snoc: "viewing cs \<Longrightarrow> view_command c \<Longrightarrow> viewing (cs @ [c])"
  by (auto simp: viewing_def)

definition camera_worker_ok :: "nat \<Rightarrow> CameraPanel \<Rightarrow> bool" where
  "camera_worker_ok w p \<longleftrightarrow>
     (if cm_next p \<le> w
      then cm_posts w (cm_trace p) = [] \<and> w \<notin> set (cm_flushing p) \<and> CM_terminate w \<notin> set (cm_trace p)
      else if cm_worker p = Some w
      then viewing (cm_posts w (cm_trace p)) \<and> w \<notin> set (cm_flushing p) \<and> CM_terminate w \<notin> set (cm_trace p)
      else (\<exists>cs. cm_posts w (cm_trace p) = cs @ [Cmd_disconnect] \<and> viewing cs) \<and>
           (w \<in> set (cm_flushing p) \<longleftrightarrow> CM_terminate w \<notin> set (cm_trace p)))"

definition camera_inv :: "CameraPanel \<Rightarrow> bool" where
  "camera_inv p \<longleftrightarrow>
     (\<forall>w. camera_worker_ok w p) \<and> (\<forall>w. cm_worker p = Some w \<longrightarrow> w < cm_next p \<and> cm_shell p) \<and> distinct (cm_flushing p)"

definition same_camera :: "CameraPanel \<Rightarrow> CameraPanel \<Rightarrow> bool" where
  "same_camera p q \<longleftrightarrow> cm_worker q = cm_worker p \<and> cm_next q = cm_next p \<and> cm_flushing q = cm_flushing p \<and>
     cm_trace q = cm_trace p \<and> cm_shell q = cm_shell p"

lemma camera_inv_same: "camera_inv p \<Longrightarrow> same_camera p q \<Longrightarrow> camera_inv q"
  by (simp add: camera_inv_def same_camera_def camera_worker_ok_def)

fun mse_only :: "camera_out \<Rightarrow> bool" where
  "mse_only CM_mseNew = True"
| "mse_only (CM_msePush _ _) = True"
| "mse_only CM_mseClose = True"
| "mse_only (CM_toast _) = True"
| "mse_only _ = False"

lemma cm_posts_mse [simp]: "list_all mse_only xs \<Longrightarrow> cm_posts w xs = []"
  by (induction xs) (auto elim: mse_only.elims)

lemma camera_inv_do: "camera_inv p \<Longrightarrow> list_all mse_only xs \<Longrightarrow> camera_inv (cm_do xs p)"
  by (auto simp: cm_do_def camera_inv_def camera_worker_ok_def list_all_iff)

lemma camera_inv_setStatus [intro]: "camera_inv p \<Longrightarrow> camera_inv (cm_setStatus m p)"
  by (rule camera_inv_same [of p]) (simp_all add: cm_setStatus_def same_camera_def)

lemma camera_inv_fields [intro]:
  assumes "camera_inv p"
  shows "camera_inv (p\<lparr>cm_connected := b\<rparr>)" "camera_inv (p\<lparr>cm_source := i\<rparr>)" "camera_inv (p\<lparr>cm_mse := b\<rparr>)"
    "camera_inv (p\<lparr>cm_buttons := bs\<rparr>)" "camera_inv (p\<lparr>cm_mse := b, cm_connected := b1\<rparr>)"
  by (rule camera_inv_same [OF assms], simp add: same_camera_def)+

lemma camera_inv_send:
  assumes "camera_inv p" "view_command c"
  shows "camera_inv (cm_send c p)"
proof (cases "cm_worker p")
  case (Some w)
  then have "w < cm_next p" "viewing (cm_posts w (cm_trace p))" using assms(1) unfolding camera_inv_def camera_worker_ok_def by (metis leD)+
  then have "viewing (cm_posts w (cm_trace p) @ [c])" "w < cm_next p" using assms(2) by (simp_all add: viewing_snoc)
  then show ?thesis using assms(1) Some by (auto simp: cm_send_def cm_do_def camera_inv_def camera_worker_ok_def)
qed (use assms in \<open>simp add: cm_send_def\<close>)

lemma camera_inv_letGo:
  assumes "camera_inv p" "cm_worker p = Some w"
  shows "camera_inv ((cm_do [CM_post w Cmd_disconnect] p)\<lparr>cm_worker := None, cm_flushing := cm_flushing p @ [w]\<rparr>)"
proof -
  have "w < cm_next p" "viewing (cm_posts w (cm_trace p))" "w \<notin> set (cm_flushing p)" "CM_terminate w \<notin> set (cm_trace p)"
    using assms unfolding camera_inv_def camera_worker_ok_def by (metis leD)+
  then show ?thesis using assms by (auto simp: cm_do_def camera_inv_def camera_worker_ok_def)
qed

lemma camera_inv_stopWorker [intro]:
  assumes "camera_inv p"
  shows "camera_inv (cm_stopWorker p)"
  unfolding cm_stopWorker_def Let_def
  by (intro camera_inv_fields) (auto intro!: camera_inv_do camera_inv_letGo assms split: option.split)

lemma cm_stopWorker_worker [simp]: "cm_worker (cm_stopWorker p) = None"
  by (simp add: cm_stopWorker_def Let_def cm_do_def split: option.split)

lemma camera_inv_fail [intro]: "camera_inv p \<Longrightarrow> camera_inv (cm_fail m p)"
  by (auto simp: cm_fail_def)

lemma camera_inv_destroy:
  assumes "camera_inv p"
  shows "camera_inv (cm_destroy p)"
proof -
  have "camera_inv (cm_stopWorker p)" using assms by blast
  then show ?thesis by (simp add: cm_destroy_def camera_inv_def camera_worker_ok_def)
qed

lemma camera_inv_open:
  assumes "camera_inv p"
  shows "camera_inv (cm_open cfg p)"
proof (cases "cm_shell p \<or> cfg = None")
  case False
  then obtain c where c: "cfg = Some c" "\<not> cm_shell p" by blast
  then have "cm_worker p = None" using assms by (auto simp: camera_inv_def)
  moreover have "viewing [Cmd_connect (buildCameraConfig c)]" by (simp add: viewing_def buildCameraConfig_def)
  ultimately show ?thesis using assms c
    by (auto simp: cm_open_def cm_do_def Let_def camera_inv_def camera_worker_ok_def not_less_eq_eq not_le less_Suc_eq split: if_splits)
qed (use assms in \<open>auto simp: cm_open_def intro!: camera_inv_do\<close>)

lemma camera_inv_onEvent: "camera_inv p \<Longrightarrow> camera_inv (cm_onEvent ev p)"
  by (cases ev)
    (auto simp: cm_onEvent_def cm_onState_def cm_onH264_def renderSources_def markSource_def Let_def
      intro!: camera_inv_do camera_inv_fields split: option.split)

lemma camera_inv_flushed:
  assumes "camera_inv p"
  shows "camera_inv (cm_flushed w p)"
proof (cases "w \<in> set (cm_flushing p)")
  case True
  then have "w < cm_next p" "cm_worker p \<noteq> Some w" using assms unfolding camera_inv_def camera_worker_ok_def by (metis not_le)+
  then show ?thesis using assms True
    by (auto simp: cm_flushed_def cm_do_def camera_inv_def camera_worker_ok_def)
qed (use assms in \<open>simp add: cm_flushed_def\<close>)

lemma camera_inv_step: "camera_inv p \<Longrightarrow> camera_inv (camera_step c p)"
  by (cases c)
    (auto simp: camera_step_def intro: camera_inv_open camera_inv_onEvent camera_inv_send camera_inv_destroy camera_inv_flushed)

lemma camera_inv_new: "camera_inv newCameraPanel"
  by (simp add: newCameraPanel_def camera_inv_def camera_worker_ok_def)

interpretation camera: invariant_system "\<lambda>p. p = newCameraPanel" camera_step camera_inv
  by unfold_locales (auto intro: camera_inv_new camera_inv_step)

text \<open>
  Whatever the user, the workers and the timers do, each worker the camera panel starts is told
  to connect as a camera viewer, then only to switch the source or to refresh; no worker is
  current without a dialog, and one that is not current was told to disconnect as the last
  thing and is terminated unless its timer is still to come.
\<close>

theorem camera_only_views:
  assumes "p = fold camera_step cs newCameraPanel" "w < cm_next p"
  shows "if cm_worker p = Some w then viewing (cm_posts w (cm_trace p)) \<and> cm_shell p
    else (\<exists>cs. cm_posts w (cm_trace p) = cs @ [Cmd_disconnect] \<and> viewing cs) \<and>
      (CM_terminate w \<in> set (cm_trace p) \<or> w \<in> set (cm_flushing p))"
proof -
  have "camera_inv p" unfolding assms(1) by (intro camera.inv_reach reach_fold reach_init) blast
  then have "camera_worker_ok w p" "cm_worker p = Some w \<Longrightarrow> cm_shell p" by (simp_all add: camera_inv_def)
  then show ?thesis using assms(2) by (auto simp: camera_worker_ok_def)
qed

text \<open>A device, and a camera dialog that is closed and opened again at once.\<close>

definition demo_camera_config :: SessionConfig where
  "demo_camera_config =
     \<lparr>peerId = js ''1'', serverKeyB64 = [], wsIdUrl = [], wsRelayUrl = [], password = [], myId = [], myName = [],
      savedHashHex = None, config_connType = None, terminalServiceId = None, terminalPersistent = None\<rparr>"

definition demo_camera_reopen :: "camera_call list" where
  "demo_camera_reopen = [CC_open (Some demo_camera_config), CC_close, CC_open (Some demo_camera_config)]"

lemmas camera_eval = camera_step_def cm_open_def cm_destroy_def cm_onEvent_def cm_fail_def cm_hears_def cm_onState_def
  cm_send_def cm_do_def cm_setStatus_def cm_stopWorker_def newCameraPanel_def or_else_def Let_def

lemma demo_camera_state:
  "cm_next (fold camera_step demo_camera_reopen newCameraPanel) = 2"
  "cm_worker (fold camera_step demo_camera_reopen newCameraPanel) = Some 1"
  "cm_flushing (fold camera_step demo_camera_reopen newCameraPanel) = [0]"
  "cm_shell (fold camera_step demo_camera_reopen newCameraPanel)"
  by (simp_all add: camera_eval demo_camera_reopen_def)

theorem camera_only_views_witness:
  "viewing (cm_posts 1 (cm_trace (fold camera_step demo_camera_reopen newCameraPanel)))"
  using camera_only_views [OF refl, of 1 demo_camera_reopen] by (simp add: demo_camera_state)

text \<open>
  The panel does not tell its workers apart: the \<open>closed\<close> with which the worker of a dialog that
  was closed answers its disconnect ends the camera of the dialog opened meanwhile, which says
  that the camera is disconnected and stays open without a worker.
\<close>

theorem reopened_camera_is_cut_off:
  assumes "v \<in> set (cm_flushing p)" "cm_worker p = Some w" "cm_shell p"
  shows "cm_worker (camera_step (CC_event v (Ev_state Closed None b)) p) = None \<and>
    cm_status (camera_step (CC_event v (Ev_state Closed None b)) p) = js ''Camera disconnected'' \<and>
    cm_posts w (cm_trace (camera_step (CC_event v (Ev_state Closed None b)) p)) = cm_posts w (cm_trace p) @ [Cmd_disconnect] \<and>
    cm_open cfg (camera_step (CC_event v (Ev_state Closed None b)) p) = camera_step (CC_event v (Ev_state Closed None b)) p"
  using assms by (simp add: camera_eval)

theorem reopened_camera_is_cut_off_witness:
  "cm_worker (fold camera_step (demo_camera_reopen @ [CC_event 0 (Ev_state Closed None False)]) newCameraPanel) = None"
  using reopened_camera_is_cut_off [of 0 "fold camera_step demo_camera_reopen newCameraPanel" 1 False None]
  by (simp add: demo_camera_state)

end
