(* ===== verification/Ui_Common.thy ===== *)
theory Ui_Common
  imports Session Input Display_Controls File_Transfer
begin

text \<open>
  \<open>webclient/src/ui/common.ts\<close>: the helpers the application shell and its panels share. Positions
  and sizes are exact numbers; \<open>URLSearchParams\<close> and the resolution of URLs are parameters. The
  browser's storage is a record: whether it can be reached at all, whether it takes another value,
  and what it holds. The table of icons is in \<open>Icons\<close>.
\<close>

section \<open>Configuration and labels\<close>

record RdGlobalConfig =
  g_peerId :: "jsstr option"
  g_serverKeyB64 :: jsstr
  g_wsIdUrl :: jsstr
  g_wsRelayUrl :: jsstr
  g_myId :: jsstr
  g_myName :: jsstr
  g_version :: "jsstr option"
  g_workerUrl :: "jsstr option"

definition QUALITY_best :: int where "QUALITY_best = 4"
definition QUALITY_balanced :: int where "QUALITY_balanced = 3"
definition QUALITY_speed :: int where "QUALITY_speed = 2"

definition OVERLAY_VERSION :: jsstr where "OVERLAY_VERSION = js ''dev''"

definition overlayVersion :: "RdGlobalConfig option \<Rightarrow> jsstr" where
  "overlayVersion cfg =
     (case Option.bind cfg g_version of
        None \<Rightarrow> OVERLAY_VERSION
      | Some raw \<Rightarrow> let v = js_trim raw in if v \<noteq> [] then js ''v'' @ v else OVERLAY_VERSION)"

fun STATE_LABEL :: "SessionState \<Rightarrow> jsstr" where
  "STATE_LABEL Connecting = js ''Connecting''"
| "STATE_LABEL Rendezvous = js ''Contacting server''"
| "STATE_LABEL RelayState = js ''Opening relay''"
| "STATE_LABEL Handshake = js ''Securing channel''"
| "STATE_LABEL Login = js ''Authenticating''"
| "STATE_LABEL Streaming = js ''Connected''"
| "STATE_LABEL ErrorState = js ''Error''"
| "STATE_LABEL Closed = js ''Disconnected''"
| "STATE_LABEL NeedAccept = js ''Waiting for remote user to accept''"

definition pad2 :: "int \<Rightarrow> jsstr" where
  "pad2 n = (let s = int_str n in if length s < 2 then js ''0'' @ s else s)"

definition formatDuration :: "int \<Rightarrow> jsstr" where
  "formatDuration ms =
     (let secs = max 0 (ms div 1000);
          h = secs div 3600;
          mm = pad2 (secs mod 3600 div 60);
          ss = pad2 (secs mod 60)
      in if 0 < h then int_str h @ js '':'' @ mm @ js '':'' @ ss else mm @ js '':'' @ ss)"

definition formatMbps :: "jsnum \<Rightarrow> jsstr" where
  "formatMbps mbps =
     (case mbps of
        Num x \<Rightarrow>
          if x < 0 then js ''0.00 Mbps''
          else (if 100 \<le> x then toFixed x 0 else if 10 \<le> x then toFixed x 1 else toFixed x 2) @ js '' Mbps''
      | _ \<Rightarrow> js ''0.00 Mbps'')"

section \<open>Peer ids and the page's address\<close>

definition normalizePeerId :: "jsstr \<Rightarrow> jsstr" where
  "normalizePeerId raw = filter (\<lambda>u. \<not> js_ws u) raw"

type_synonym search_params = "jsstr \<Rightarrow> jsstr \<Rightarrow> jsstr option"

definition peerIdFromSearch :: "search_params \<Rightarrow> jsstr \<Rightarrow> jsstr option" where
  "peerIdFromSearch params search =
     (let i = normalizePeerId (case params search (js ''id'') of None \<Rightarrow> [] | Some v \<Rightarrow> v)
      in if i \<noteq> [] then Some i else None)"

definition loggedOutFromSearch :: "search_params \<Rightarrow> jsstr \<Rightarrow> bool" where
  "loggedOutFromSearch params search \<longleftrightarrow> params search (js ''lo'') = Some (js ''1'')"

definition resolveWorkerUrl :: "(jsstr \<Rightarrow> jsstr \<Rightarrow> jsstr) \<Rightarrow> jsstr option \<Rightarrow> jsstr option \<Rightarrow> jsstr \<Rightarrow> jsstr" where
  "resolveWorkerUrl resolve cfgUrl attrUrl baseUrl =
     (case cfgUrl of
        Some (c # cs) \<Rightarrow> c # cs
      | _ \<Rightarrow> (case attrUrl of Some (a # as) \<Rightarrow> a # as | _ \<Rightarrow> resolve (js ''session.worker.js'') baseUrl))"

definition debugEnabled :: "search_params \<Rightarrow> jsstr \<Rightarrow> bool \<Rightarrow> bool" where
  "debugEnabled params search rdDebug \<longleftrightarrow>
     rdDebug \<or> params search (js ''debug'') = Some (js ''1'') \<or> params search (js ''debug'') = Some (js ''true'')"

definition cursorCss :: "jsstr \<Rightarrow> rat \<Rightarrow> rat \<Rightarrow> jsstr" where
  "cursorCss pngDataUrl hotx hoty =
     js ''url('' @ [34] @ pngDataUrl @ [34] @ js '') '' @ int_str (max 0 (js_round hotx)) @ js '' '' @
     int_str (max 0 (js_round hoty)) @ js '', auto''"

section \<open>Saved credentials\<close>

record LocalStorage =
  ls_up :: bool
  ls_room :: bool
  ls_map :: "jsstr \<rightharpoonup> jsstr"

definition SAVED_PW_PREFIX :: jsstr where "SAVED_PW_PREFIX = js ''cortendesk.rdpw.''"

definition loadSavedHash :: "LocalStorage \<Rightarrow> jsstr \<Rightarrow> jsstr option" where
  "loadSavedHash st peer = (if ls_up st then ls_map st (SAVED_PW_PREFIX @ peer) else None)"

definition saveSavedHash :: "jsstr \<Rightarrow> jsstr \<Rightarrow> LocalStorage \<Rightarrow> LocalStorage" where
  "saveSavedHash peer hashHex st =
     (if ls_up st \<and> ls_room st then st\<lparr>ls_map := (ls_map st)(SAVED_PW_PREFIX @ peer \<mapsto> hashHex)\<rparr> else st)"

definition clearSavedHash :: "jsstr \<Rightarrow> LocalStorage \<Rightarrow> LocalStorage" where
  "clearSavedHash peer st =
     (if ls_up st then st\<lparr>ls_map := (ls_map st)(SAVED_PW_PREFIX @ peer := None)\<rparr> else st)"

definition buildSessionConfig ::
    "RdGlobalConfig \<Rightarrow> jsstr \<Rightarrow> jsstr \<Rightarrow> jsstr option \<Rightarrow> ConnKind option \<Rightarrow> SessionConfig" where
  "buildSessionConfig g peer pw savedHash conn =
     \<lparr>peerId = peer, serverKeyB64 = g_serverKeyB64 g, wsIdUrl = g_wsIdUrl g, wsRelayUrl = g_wsRelayUrl g,
      password = pw, myId = g_myId g, myName = g_myName g, savedHashHex = savedHash, config_connType = conn,
      terminalServiceId = None, terminalPersistent = None\<rparr>"

section \<open>Displays\<close>

definition displayToRect :: "DisplayInfo \<Rightarrow> DisplayRect" where
  "displayToRect d =
     \<lparr>dr_x = of_int (di_x d), dr_y = of_int (di_y d), dr_width = of_int (di_width d), dr_height = of_int (di_height d)\<rparr>"

record SwitchGeometry =
  sg_index :: int
  sg_x :: int
  sg_y :: int
  sg_width :: int
  sg_height :: int
  sg_cursorEmbedded :: "bool option"
  sg_originalResolution :: "Resolution option"
  sg_resolutions :: "Resolution list option"

definition switched_display :: "SwitchGeometry \<Rightarrow> DisplayInfo \<Rightarrow> DisplayInfo" where
  "switched_display ev d =
     (let d1 = d\<lparr>di_x := sg_x ev, di_y := sg_y ev\<rparr>;
          d2 = (if 0 < sg_width ev then d1\<lparr>di_width := sg_width ev\<rparr> else d1);
          d3 = (if 0 < sg_height ev then d2\<lparr>di_height := sg_height ev\<rparr> else d2);
          d4 = (case sg_cursorEmbedded ev of None \<Rightarrow> d3 | Some b \<Rightarrow> d3\<lparr>di_cursorEmbedded := b\<rparr>);
          d5 = (case sg_originalResolution ev of None \<Rightarrow> d4 | Some r \<Rightarrow> d4\<lparr>di_originalResolution := Some r\<rparr>)
      in case sg_resolutions ev of None \<Rightarrow> d5 | Some rs \<Rightarrow> d5\<lparr>di_resolutions := rs\<rparr>)"

definition applySwitchDisplay :: "DisplayInfo list \<Rightarrow> SwitchGeometry \<Rightarrow> DisplayInfo list" where
  "applySwitchDisplay displays ev =
     (case display_at displays (sg_index ev) of
        None \<Rightarrow> displays
      | Some d \<Rightarrow> displays[nat (sg_index ev) := switched_display ev d])"

section \<open>Popovers\<close>

record anchor_rect =
  an_left :: rat
  an_top :: rat
  an_bottom :: rat
  an_width :: rat

record placement =
  pl_left :: int
  pl_top :: int
  pl_maxHeight :: int

definition belowSpace :: "anchor_rect \<Rightarrow> rat \<Rightarrow> rat" where
  "belowSpace a vh = max 0 (vh - 8 - (an_bottom a + 10))"

definition aboveSpace :: "anchor_rect \<Rightarrow> rat" where
  "aboveSpace a = max 0 (an_top a - 10 - 8)"

definition opens_above :: "anchor_rect \<Rightarrow> rat \<Rightarrow> rat \<Rightarrow> bool \<Rightarrow> bool" where
  "opens_above a h vh preferAbove =
     (let preferredSpace = (if preferAbove then aboveSpace a else belowSpace a vh);
          alternateSpace = (if preferAbove then belowSpace a vh else aboveSpace a)
      in if preferredSpace < h \<and> preferredSpace < alternateSpace then \<not> preferAbove else preferAbove)"

definition pop_maxHeight :: "anchor_rect \<Rightarrow> rat \<Rightarrow> rat \<Rightarrow> bool \<Rightarrow> int" where
  "pop_maxHeight a h vh preferAbove =
     max 0 \<lfloor>if opens_above a h vh preferAbove then aboveSpace a else belowSpace a vh\<rfloor>"

definition visibleHeight :: "anchor_rect \<Rightarrow> rat \<Rightarrow> rat \<Rightarrow> bool \<Rightarrow> rat" where
  "visibleHeight a h vh preferAbove = min (max 0 h) (of_int (pop_maxHeight a h vh preferAbove))"

definition pop_top :: "anchor_rect \<Rightarrow> rat \<Rightarrow> rat \<Rightarrow> bool \<Rightarrow> rat" where
  "pop_top a h vh preferAbove =
     (let visible = visibleHeight a h vh preferAbove;
          rawTop = (if opens_above a h vh preferAbove then an_top a - 10 - visible else an_bottom a + 10);
          maxTop = max 8 (vh - 8 - visible)
      in max 8 (min rawTop maxTop))"

definition pop_left :: "anchor_rect \<Rightarrow> rat \<Rightarrow> rat \<Rightarrow> rat" where
  "pop_left a w vw = max 8 (min (an_left a + an_width a / 2 - w / 2) (max 8 (vw - w - 8)))"

definition placePopover :: "anchor_rect \<Rightarrow> rat \<times> rat \<Rightarrow> rat \<times> rat \<Rightarrow> bool \<Rightarrow> placement" where
  "placePopover a popover viewport preferAbove =
     (case (popover, viewport) of ((w, h), (vw, vh)) \<Rightarrow>
        \<lparr>pl_left = js_round (pop_left a w vw), pl_top = js_round (pop_top a h vh preferAbove),
         pl_maxHeight = pop_maxHeight a h vh preferAbove\<rparr>)"

section \<open>Typed text\<close>

text \<open>\<open>for (const ch of text)\<close> with \<open>ch.codePointAt(0)\<close> visits what \<open>string_points\<close> lists.\<close>

definition type_press :: "KeyKind \<Rightarrow> nat \<Rightarrow> UiCommand" where
  "type_press keyKind v = Cmd_key False True keyKind (int v) []"

definition type_point :: "nat \<Rightarrow> UiCommand list" where
  "type_point cp =
     (if cp = 13 then []
      else if cp = 10 then [type_press KK_control 27]
      else if cp = 9 then [type_press KK_control 31]
      else [type_press (if cp \<le> 127 then KK_chr else KK_unicode) cp])"

definition buildTypeCommands :: "jsstr \<Rightarrow> UiCommand list" where
  "buildTypeCommands text0 = concat (map type_point (string_points text0))"

section \<open>HTML\<close>

definition replace_unit :: "16 word \<Rightarrow> string \<Rightarrow> jsstr \<Rightarrow> jsstr" where
  "replace_unit c r s = concat (map (\<lambda>u. if u = c then js r else [u]) s)"

definition escapeHtml :: "jsstr \<Rightarrow> jsstr" where
  "escapeHtml s =
     replace_unit 34 ''&quot;'' (replace_unit 62 ''&gt;'' (replace_unit 60 ''&lt;'' (replace_unit 38 ''&amp;'' s)))"

section \<open>Facts\<close>

subsection \<open>Escaped text\<close>

definition entity :: "16 word \<Rightarrow> jsstr" where
  "entity u =
     (if u = 38 then js ''&amp;'' else if u = 60 then js ''&lt;'' else if u = 62 then js ''&gt;''
      else if u = 34 then js ''&quot;'' else [u])"

text \<open>What an HTML parser reads back from text with these four references.\<close>

fun unescapeHtml :: "jsstr \<Rightarrow> jsstr" where
  "unescapeHtml [] = []"
| "unescapeHtml (u # s) =
     (if u \<noteq> 38 then u # unescapeHtml s
      else if js_startsWith s (js ''amp;'') then 38 # unescapeHtml (drop 4 s)
      else if js_startsWith s (js ''lt;'') then 60 # unescapeHtml (drop 3 s)
      else if js_startsWith s (js ''gt;'') then 62 # unescapeHtml (drop 3 s)
      else if js_startsWith s (js ''quot;'') then 34 # unescapeHtml (drop 5 s)
      else u # unescapeHtml s)"

lemma replace_unit_append: "replace_unit c r (s @ t) = replace_unit c r s @ replace_unit c r t"
  by (simp add: replace_unit_def)

lemma escapeHtml_append: "escapeHtml (s @ t) = escapeHtml s @ escapeHtml t"
  by (simp add: escapeHtml_def replace_unit_append)

lemma escapeHtml_single: "escapeHtml [u] = entity u"
  by (simp add: escapeHtml_def entity_def replace_unit_def js_def)

lemma escapeHtml_Nil [simp]: "escapeHtml [] = []"
  by (simp add: escapeHtml_def replace_unit_def)

lemma escapeHtml_Cons: "escapeHtml (u # s) = entity u @ escapeHtml s"
  using escapeHtml_append [of "[u]" s] by (simp add: escapeHtml_single)

lemma unescape_entity: "unescapeHtml (entity u @ s) = u # unescapeHtml s"
  by (simp add: entity_def js_def)

lemma entity_safe: "u \<in> set (entity v) \<Longrightarrow> u \<noteq> 60 \<and> u \<noteq> 62 \<and> u \<noteq> 34"
  by (auto simp: entity_def js_def split: if_splits)

text \<open>
  Text that goes through \<open>escapeHtml\<close> holds no angle bracket and no double quote, and a
  parser that resolves the four references reads exactly the text that went in.
\<close>

theorem escaped_text_is_inert:
  "unescapeHtml (escapeHtml s) = s \<and> list_all (\<lambda>u. u \<noteq> 60 \<and> u \<noteq> 62 \<and> u \<noteq> 34) (escapeHtml s)"
proof (induction s)
  case (Cons u s)
  then show ?case
    using entity_safe by (auto simp: escapeHtml_Cons unescape_entity list_all_iff)
qed simp

subsection \<open>Typed text\<close>

definition typed_point :: "UiCommand \<Rightarrow> nat option" where
  "typed_point c =
     (case c of
        Cmd_key False True k v [] \<Rightarrow>
          (case k of KK_control \<Rightarrow> if v = 27 then Some 10 else if v = 31 then Some 9 else None
                   | KK_chr \<Rightarrow> if 0 \<le> v \<and> v \<le> 127 then Some (nat v) else None
                   | KK_unicode \<Rightarrow> if 127 < v then Some (nat v) else None)
      | _ \<Rightarrow> None)"

lemma typed_press:
  "typed_point (type_press KK_control 27) = Some 10" "typed_point (type_press KK_control 31) = Some 9"
  "cp \<le> 127 \<Longrightarrow> typed_point (type_press KK_chr cp) = Some cp"
  "127 < cp \<Longrightarrow> typed_point (type_press KK_unicode cp) = Some cp"
  by (simp_all only: typed_point_def type_press_def UiCommand.case bool.case KeyKind.case list.case) auto

lemma typed_of_point: "map typed_point (type_point cp) = (if cp = 13 then [] else [Some cp])"
  by (simp add: type_point_def typed_press)

text \<open>
  The commands built for a text are complete presses without modifiers which, read back by the
  peer's key map, are the characters of the text in order, the carriage returns left out.
\<close>

theorem typed_text_arrives:
  "map typed_point (buildTypeCommands t) = map Some (filter (\<lambda>cp. cp \<noteq> 13) (string_points t))"
proof -
  have "map typed_point (concat (map type_point cps)) = map Some (filter (\<lambda>cp. cp \<noteq> 13) cps)" for cps
    by (induction cps) (simp_all add: typed_of_point)
  then show ?thesis by (simp add: buildTypeCommands_def)
qed

subsection \<open>Popovers\<close>

lemma js_round_le: "of_int (js_round x) \<le> x + 1 / 2"
  by (simp add: js_round_def)

lemma js_round_gt: "x - 1 / 2 < of_int (js_round x)"
  unfolding js_round_def by linarith

lemma js_round_mono: "x \<le> y \<Longrightarrow> js_round x \<le> js_round y"
  unfolding js_round_def by (rule floor_mono) simp

lemma js_round_int [simp]: "js_round (of_int n) = n"
  unfolding js_round_def by linarith

lemma visible_le_space:
  "visibleHeight a h vh p \<le> (if opens_above a h vh p then aboveSpace a else belowSpace a vh)"
proof -
  have "of_int (max 0 \<lfloor>x\<rfloor>) \<le> x" if "0 \<le> x" for x :: rat
    using that by (simp add: max_def)
  from this [of "aboveSpace a"] this [of "belowSpace a vh"] show ?thesis
    by (auto simp: visibleHeight_def pop_maxHeight_def aboveSpace_def belowSpace_def min_le_iff_disj)
qed

lemma visible_nonneg: "0 \<le> visibleHeight a h vh p"
  by (simp add: visibleHeight_def pop_maxHeight_def)

text \<open>The top edge before rounding: inside the margins, and off the control it hangs from.\<close>

lemma pop_top_inside:
  assumes "0 \<le> an_top a" "an_top a \<le> an_bottom a" "an_bottom a \<le> vh" "18 \<le> vh"
  shows "8 \<le> pop_top a h vh p" "pop_top a h vh p + visibleHeight a h vh p \<le> vh - 8"
proof -
  show "8 \<le> pop_top a h vh p" by (simp add: pop_top_def Let_def)
  have "visibleHeight a h vh p \<le> vh - 18"
    using visible_le_space [of a h vh p] assms by (auto simp: aboveSpace_def belowSpace_def split: if_splits)
  then show "pop_top a h vh p + visibleHeight a h vh p \<le> vh - 8"
    by (auto simp: pop_top_def Let_def)
qed

lemma pop_top_clear:
  assumes "0 \<le> an_top a" "an_top a \<le> an_bottom a" "0 < visibleHeight a h vh p"
  shows "pop_top a h vh p + visibleHeight a h vh p \<le> an_top a - 10 \<or> an_bottom a + 10 \<le> pop_top a h vh p"
  using visible_le_space [of a h vh p] assms
  by (auto simp: pop_top_def Let_def aboveSpace_def belowSpace_def split: if_splits)

text \<open>
  C39. A popover that hangs from a control inside the viewport lies inside the viewport: no less than
  8 pixels from its left and upper edges and, up to the rounding to whole pixels, from the lower
  edge, and from the right edge when it is narrow enough; and whatever height it shows does not
  cover the control.
\<close>

theorem popover_stays_in_view:
  fixes a :: anchor_rect and w h vw vh :: rat and p :: bool
  assumes "0 \<le> an_top a" "an_top a \<le> an_bottom a" "an_bottom a \<le> vh" "18 \<le> vh"
  defines "pl \<equiv> placePopover a (w, h) (vw, vh) p"
    and "shown \<equiv> min (max 0 h) (of_int (pl_maxHeight (placePopover a (w, h) (vw, vh) p)))"
  shows "8 \<le> pl_left pl \<and> 8 \<le> pl_top pl
    \<and> of_int (pl_top pl) + shown \<le> vh - 8 + 1 / 2
    \<and> (w + 16 \<le> vw \<longrightarrow> of_int (pl_left pl) + w \<le> vw - 8 + 1 / 2)
    \<and> (shown = 0 \<or> of_int (pl_top pl) + shown \<le> an_top a - 9 \<or> an_bottom a + 9 \<le> of_int (pl_top pl))"
proof -
  have sh: "shown = visibleHeight a h vh p"
    by (simp add: shown_def visibleHeight_def placePopover_def)
  have t: "pl_top pl = js_round (pop_top a h vh p)" and l: "pl_left pl = js_round (pop_left a w vw)"
    by (simp_all add: pl_def placePopover_def)
  have eight: "x \<ge> 8 \<Longrightarrow> 8 \<le> js_round x" for x
    using js_round_mono [of 8 x] js_round_int [of 8] by simp
  have "8 \<le> pop_left a w vw" by (simp add: pop_left_def)
  moreover have "w + 16 \<le> vw \<Longrightarrow> pop_left a w vw + w \<le> vw - 8"
    by (auto simp: pop_left_def)
  moreover note pop_top_inside [OF assms(1-4), of h p] pop_top_clear [OF assms(1,2), of h vh p]
    visible_nonneg [of a h vh p] js_round_le [of "pop_top a h vh p"] js_round_gt [of "pop_top a h vh p"]
    js_round_le [of "pop_left a w vw"]
  ultimately show ?thesis
    unfolding sh t l using eight by force
qed

theorem popover_stays_in_view_witness:
  "8 \<le> pl_left (placePopover \<lparr>an_left = 900, an_top = 700, an_bottom = 740, an_width = 60\<rparr> (240, 900) (1000, 768) False)
   \<and> pl_maxHeight (placePopover \<lparr>an_left = 900, an_top = 700, an_bottom = 740, an_width = 60\<rparr> (240, 900) (1000, 768) False) = 682"
proof -
  let ?a = "\<lparr>an_left = 900, an_top = 700, an_bottom = 740, an_width = 60\<rparr>"
  have "pl_maxHeight (placePopover ?a (240, 900) (1000, 768) False) = 682"
    by (simp add: placePopover_def pop_maxHeight_def opens_above_def aboveSpace_def belowSpace_def Let_def)
  with popover_stays_in_view [of ?a 768 240 900 1000 False] show ?thesis by simp
qed

subsection \<open>Saved credentials\<close>

lemma load_save: "ls_up st \<Longrightarrow> ls_room st \<Longrightarrow> loadSavedHash (saveSavedHash p h st) q = (if q = p then Some h else loadSavedHash st q)"
  by (simp add: loadSavedHash_def saveSavedHash_def)

lemma load_clear: "loadSavedHash (clearSavedHash p st) q = (if q = p then None else loadSavedHash st q)"
  by (simp add: loadSavedHash_def clearSavedHash_def)

lemma normalizePeerId_idem [simp]: "normalizePeerId (normalizePeerId s) = normalizePeerId s"
  by (simp add: normalizePeerId_def)

subsection \<open>Switched displays\<close>

lemma length_applySwitchDisplay [simp]: "length (applySwitchDisplay ds ev) = length ds"
  by (simp add: applySwitchDisplay_def split: option.splits)

lemma switched_online [simp]: "di_online (switched_display ev d) = di_online d"
  by (simp add: switched_display_def Let_def split: option.splits)

lemma applySwitchDisplay_online:
  "map di_online (applySwitchDisplay ds ev) = map di_online ds"
proof (cases "display_at ds (sg_index ev)")
  case (Some d)
  then have "nat (sg_index ev) < length ds" "ds ! nat (sg_index ev) = d"
    by (auto simp: display_at_def js_at_Some_iff split: if_splits)
  then show ?thesis
    using Some by (simp add: applySwitchDisplay_def map_update list_update_same_conv)
qed (simp add: applySwitchDisplay_def)

end
