(* ===== verification/App_State.thy ===== *)
theory App_State
  imports Ui_Common Voice_Capture
begin

text \<open>
  The state of the application shell, class \<open>RdApp\<close> of \<open>webclient/src/ui/app.ts\<close>, and the
  operations the rest of the class is built from: the way of every command to the worker, the
  side panel, the overlay, the security state, and the end of a session.

  Workers, canvases, recorders and restart flows are numbered; what the shell does outside its own
  fields is appended to \<open>ap_trace\<close>. A worker that is let go of (\<open>AO_letGo\<close>: its handlers are
  removed) waits in \<open>ap_flushing\<close> for its termination. Timers of a restart flow are the pairs in
  \<open>ap_timers\<close>, and code that waits at an \<open>await\<close> is an entry of \<open>ap_waits\<close> with what it remembers.
  The panels, the audio playback, the voice capture, the recorder and the fallback player have
  their own theories; here they exist or not, and calls on them are outputs. The markup of
  the page is in \<open>App_View\<close>; styles are left out.
\<close>

section \<open>Parts of the state\<close>

record SecurityState =
  sc_supported :: bool
  sc_impls :: "PrivacyModeImpl list"
  sc_privacyOn :: bool
  sc_privacyPending :: bool
  sc_activeImpl :: jsstr
  sc_blockOn :: bool
  sc_blockPending :: bool
  sc_lockAfter :: bool

definition no_security :: SecurityState where
  "no_security =
     \<lparr>sc_supported = False, sc_impls = [], sc_privacyOn = False, sc_privacyPending = False, sc_activeImpl = [],
      sc_blockOn = False, sc_blockPending = False, sc_lockAfter = False\<rparr>"

record DisplayPrefs =
  dp_quality :: int
  dp_customQuality :: int
  dp_customFps :: int
  dp_fps :: fps_state
  dp_adaptive :: bool
  dp_lastDropped :: int
  dp_codecs :: "CodecName list"
  dp_codec :: CodecName
  dp_showCursor :: bool
  dp_followCursor :: bool
  dp_followWindow :: bool
  dp_scale :: int
  dp_hot :: "int \<times> int"
  dp_cursorHidden :: bool
  dp_cursorAt :: "rat \<times> rat"

record PeerView =
  pv_displays :: "DisplayInfo list"
  pv_current :: int
  pv_who :: jsstr
  pv_platform :: jsstr
  pv_additions :: jsstr
  pv_terminal :: bool
  pv_camera :: bool

record Credentials =
  cr_pending :: "jsstr option"
  cr_withSaved :: bool
  cr_session :: "jsstr option"
  cr_reconnect :: "SessionConfig option"

record SessionMedia =
  md_audio :: bool
  md_recorder :: "nat option"
  md_nextRecorder :: nat
  md_enabled :: bool
  md_started :: bool
  md_muted :: bool
  md_volume :: rat
  md_clipboard :: bool
  md_prompt :: bool
  md_recording :: bool
  md_recordingStart :: int
  md_mse :: bool

record VoiceUi =
  vu_ctl :: bool
  vu_state :: VoiceCallUiState
  vu_attempts :: VoiceCallAttemptOwner
  vu_supported :: bool
  vu_button :: VoiceCallUiModel

datatype SideTab = ST_files | ST_chat | ST_details

record Chrome =
  ch_overlay :: bool
  ch_busy :: bool
  ch_statusHidden :: bool
  ch_statusText :: jsstr
  ch_error :: jsstr
  ch_cancelHidden :: bool
  ch_idInput :: jsstr
  ch_password :: jsstr
  ch_save :: bool
  ch_savedHint :: bool
  ch_side :: bool
  ch_tab :: SideTab

record Details =
  dt_peerLabel :: jsstr
  dt_peerSub :: jsstr
  dt_device :: jsstr
  dt_version :: jsstr
  dt_user :: jsstr
  dt_platform :: jsstr
  dt_codec :: jsstr
  dt_res :: jsstr
  dt_fps :: jsstr
  dt_bitrate :: jsstr
  dt_dropped :: jsstr
  dt_monitorsHidden :: bool

record ChatEntry =
  ce_me :: bool
  ce_text :: jsstr
  ce_at :: int

record RestartFlow =
  fl_id :: nat
  fl_startedAt :: int
  fl_attempt :: nat
  fl_config :: SessionConfig
  fl_timer :: bool
  fl_reconnecting :: bool

datatype FlowTimer = TK_retry | TK_stable | TK_deadline

text \<open>The one open popover, with what its items and handlers took from the state when it was built.\<close>

record MoreItems =
  mo_codecs :: "CodecName list"
  mo_cursor :: bool
  mo_window :: bool
  mo_security :: "jsstr list"
  mo_terminal :: bool
  mo_camera :: bool
  mo_audio :: bool
  mo_clipboard :: bool
  mo_sendClipboard :: bool
  mo_record :: bool

record MonitorItems =
  mm_online :: "bool list"
  mm_resolutions :: "ResolutionChoice list"
  mm_virtual :: "VirtualDisplayCapability option"
  mm_custom :: bool

datatype Popover = Pop_monitors MonitorItems | Pop_more MoreItems | Pop_fit | Pop_keys | Pop_type

text \<open>What the code after an \<open>await\<close> still needs.\<close>

datatype app_wait =
    AW_audio nat
  | AW_recording nat
  | AW_clipboard nat
  | AW_clipboardWrite nat
  | AW_voice nat nat

datatype Surface = SF_canvas nat | SF_video

datatype (plugins only: size) app_out =
    AO_worker nat nat
  | AO_post nat UiCommand
  | AO_letGo nat
  | AO_terminate nat
  | AO_viewOnly bool
  | AO_toast jsstr bool
  | AO_hideToast
  | AO_fileOpen
  | AO_fileDestroy
  | AO_terminalOpen
  | AO_terminalDestroy
  | AO_cameraOpen
  | AO_cameraDestroy
  | AO_audioNew
  | AO_audioClose
  | AO_audioReset
  | AO_audioResume
  | AO_audioMuted bool
  | AO_audioVolume rat
  | AO_audioPcm "jsnum list" int int
  | AO_voicePrepare
  | AO_voiceStart
  | AO_voiceStop
  | AO_recorderStart nat
  | AO_recorderStop nat
  | AO_recorderClose nat
  | AO_mseNew
  | AO_msePush bytes bool
  | AO_mseClose
  | AO_clipboardWrite jsstr
  | AO_fullscreen

section \<open>The application\<close>

record RdApp =
  ap_cfg :: "RdGlobalConfig option"
  ap_workerUrl :: jsstr
  ap_fixedPeerId :: jsstr
  ap_peerId :: jsstr
  ap_worker :: "nat option"
  ap_next :: nat
  ap_flushing :: "nat list"
  ap_input :: "Surface option"
  ap_canvas :: nat
  ap_transferred :: bool
  ap_state :: SessionState
  ap_epoch :: nat
  ap_stats :: "SessionStats option"
  ap_streamStart :: int
  ap_permissions :: "jsstr \<rightharpoonup> bool"
  ap_disabled :: "jsstr \<Rightarrow> bool"
  ap_sec :: SecurityState
  ap_flow :: "RestartFlow option"
  ap_timers :: "(FlowTimer \<times> nat) list"
  ap_nextFlow :: nat
  ap_file :: bool
  ap_terminal :: bool
  ap_camera :: bool
  ap_viewOnly :: bool
  ap_latchCtrl :: bool
  ap_latchAlt :: bool
  ap_touch :: bool
  ap_fit :: bool
  ap_chat :: "ChatEntry list"
  ap_unread :: nat
  ap_pop :: "Popover option"
  ap_waits :: "app_wait list"
  ap_storage :: LocalStorage
  ap_loggedOut :: bool
  ap_peer :: PeerView
  ap_creds :: Credentials
  ap_dp :: DisplayPrefs
  ap_media :: SessionMedia
  ap_voice :: VoiceUi
  ap_chrome :: Chrome
  ap_details :: Details
  ap_trace :: "app_out list"

text \<open>What the browser, the user's dialogs and the libraries answer at a call.\<close>

record app_env =
  ae_now :: int
  ae_confirm :: bool
  ae_history :: bool
  ae_audioContext :: bool
  ae_voiceStarts :: bool
  ae_recorder :: "jsstr option"
  ae_mediaRecorder :: bool
  ae_decoder :: bool
  ae_mse :: bool
  ae_secure :: "bool option"
  ae_clipboardApi :: bool
  ae_parse :: "jsstr \<Rightarrow> json option"
  ae_stringify :: "json \<Rightarrow> jsstr"
  ae_surface :: DOMRect
  ae_viewport :: DOMRect

definition app_do :: "app_out list \<Rightarrow> RdApp \<Rightarrow> RdApp" where
  "app_do xs s = s\<lparr>ap_trace := ap_trace s @ xs\<rparr>"

definition toast :: "jsstr \<Rightarrow> RdApp \<Rightarrow> RdApp" where
  "toast m s = app_do [AO_toast m False] s"

definition sticky_toast :: "jsstr \<Rightarrow> RdApp \<Rightarrow> RdApp" where
  "sticky_toast m s = app_do [AO_toast m True] s"

definition hideToast :: "RdApp \<Rightarrow> RdApp" where
  "hideToast s = app_do [AO_hideToast] s"

abbreviation permitted :: "string \<Rightarrow> RdApp \<Rightarrow> bool" where
  "permitted k s \<equiv> ap_permissions s (js k) \<noteq> Some False"

section \<open>The way to the worker\<close>

definition ControlKey_Alt :: int where "ControlKey_Alt = 1"
definition ControlKey_Control :: int where "ControlKey_Control = 4"

definition is_lockScreen :: "UiCommand \<Rightarrow> bool" where
  "is_lockScreen cmd = (case cmd of Cmd_key _ _ k v _ \<Rightarrow> k = KK_control \<and> v = ControlKey_LockScreen | _ \<Rightarrow> False)"

definition inputChannel :: "UiCommand \<Rightarrow> RemoteInputChannel option" where
  "inputChannel cmd =
     (case cmd of
        Cmd_mouse _ _ _ _ \<Rightarrow> Some CH_pointer
      | Cmd_key _ _ _ _ _ \<Rightarrow> Some CH_keyboard
      | Cmd_ctrlAltDel \<Rightarrow> Some CH_keyboard
      | Cmd_clipboardText _ \<Rightarrow> Some CH_clipboard
      | _ \<Rightarrow> None)"

definition sendsRemoteInput :: "UiCommand \<Rightarrow> bool" where
  "sendsRemoteInput cmd \<longleftrightarrow> inputChannel cmd = Some CH_pointer \<or> inputChannel cmd = Some CH_keyboard"

definition current_display :: "RdApp \<Rightarrow> DisplayInfo option" where
  "current_display s = display_at (pv_displays (ap_peer s)) (pv_current (ap_peer s))"

definition display_online :: "RdApp \<Rightarrow> bool" where
  "display_online s = (case current_display s of None \<Rightarrow> False | Some d \<Rightarrow> di_online d)"

text \<open>\<open>[...new Set(xs)]\<close>: the first of equal elements stays.\<close>

definition set_order :: "'a list \<Rightarrow> 'a list" where
  "set_order xs = rev (remdups (rev xs))"

definition latched :: "RdApp \<Rightarrow> int list \<Rightarrow> int list" where
  "latched s mods =
     set_order (mods @ (if ap_latchCtrl s then [ControlKey_Control] else []) @ (if ap_latchAlt s then [ControlKey_Alt] else []))"

definition with_latches :: "RdApp \<Rightarrow> UiCommand \<Rightarrow> UiCommand" where
  "with_latches s cmd =
     (if \<not> ap_latchCtrl s \<and> \<not> ap_latchAlt s then cmd
      else case cmd of
        Cmd_mouse m x y mods \<Rightarrow> Cmd_mouse m x y (latched s mods)
      | Cmd_key down press k v mods \<Rightarrow> Cmd_key down press k v (latched s mods)
      | _ \<Rightarrow> cmd)"

definition passed :: "RdApp \<Rightarrow> UiCommand \<Rightarrow> UiCommand option" where
  "passed s cmd =
     (if sendsRemoteInput cmd \<and> \<not> is_lockScreen cmd \<and> \<not> display_online s then None
      else if (case inputChannel cmd of None \<Rightarrow> False | Some ch \<Rightarrow> \<not> remoteInputAllowed (ap_viewOnly s) ch) then None
      else Some (if is_lockScreen cmd then cmd else with_latches s cmd))"

definition app_post :: "UiCommand \<Rightarrow> RdApp \<Rightarrow> RdApp" where
  "app_post cmd s =
     (case (passed s cmd, ap_worker s) of (Some c, Some w) \<Rightarrow> app_do [AO_post w c] s | _ \<Rightarrow> s)"

text \<open>The result of \<open>post\<close>.\<close>

definition app_sent :: "UiCommand \<Rightarrow> RdApp \<Rightarrow> bool" where
  "app_sent cmd s \<longleftrightarrow> passed s cmd \<noteq> None \<and> ap_worker s \<noteq> None"

definition pressControl :: "int \<Rightarrow> jsstr option \<Rightarrow> RdApp \<Rightarrow> RdApp" where
  "pressControl key note0 s =
     (let s1 = app_post (Cmd_key False True KK_control key []) s in case note0 of None \<Rightarrow> s1 | Some n \<Rightarrow> toast n s1)"

definition currentRect :: "RdApp \<Rightarrow> DisplayRect" where
  "currentRect s =
     (case current_display s of
        Some d \<Rightarrow> displayToRect d
      | None \<Rightarrow>
          (case ap_stats s of
             Some st \<Rightarrow>
               if st_width st \<noteq> 0 \<and> st_height st \<noteq> 0
               then \<lparr>dr_x = 0, dr_y = 0, dr_width = of_int (st_width st), dr_height = of_int (st_height st)\<rparr>
               else \<lparr>dr_x = 0, dr_y = 0, dr_width = 1280, dr_height = 720\<rparr>
           | None \<Rightarrow> \<lparr>dr_x = 0, dr_y = 0, dr_width = 1280, dr_height = 720\<rparr>))"

section \<open>Overlay\<close>

definition setOverlayError :: "jsstr \<Rightarrow> RdApp \<Rightarrow> RdApp" where
  "setOverlayError m s =
     ap_chrome_update (\<lambda>c. if m = [] then c\<lparr>ch_error := []\<rparr> else c\<lparr>ch_error := m, ch_statusHidden := True\<rparr>) s"

definition setOverlayBusy :: "bool \<Rightarrow> RdApp \<Rightarrow> RdApp" where
  "setOverlayBusy busy s =
     (let s1 = ap_chrome_update (\<lambda>c. c\<lparr>ch_busy := busy\<rparr>) s
      in if busy then setOverlayError [] s1
         else if ch_statusText (ap_chrome s1) = [] then ap_chrome_update (\<lambda>c. c\<lparr>ch_statusHidden := True\<rparr>) s1
         else s1)"

definition setOverlayStatusText :: "jsstr \<Rightarrow> RdApp \<Rightarrow> RdApp" where
  "setOverlayStatusText t s = ap_chrome_update (\<lambda>c. c\<lparr>ch_statusHidden := False, ch_statusText := t\<rparr>) s"

definition showOverlay :: "RdApp \<Rightarrow> RdApp" where
  "showOverlay s = ap_chrome_update (\<lambda>c. c\<lparr>ch_overlay := True\<rparr>) s"

definition hideOverlay :: "RdApp \<Rightarrow> RdApp" where
  "hideOverlay s = setOverlayBusy False (ap_chrome_update (\<lambda>c. c\<lparr>ch_overlay := False\<rparr>) s)"

definition cancelButton :: "bool \<Rightarrow> RdApp \<Rightarrow> RdApp" where
  "cancelButton shown s = ap_chrome_update (\<lambda>c. c\<lparr>ch_cancelHidden := \<not> shown\<rparr>) s"

section \<open>Panels\<close>

definition closeSide :: "RdApp \<Rightarrow> RdApp" where
  "closeSide s = ap_chrome_update (\<lambda>c. c\<lparr>ch_side := False\<rparr>) s"

definition closePop :: "RdApp \<Rightarrow> RdApp" where
  "closePop s = s\<lparr>ap_pop := None\<rparr>"

definition destroyFilePanel :: "RdApp \<Rightarrow> RdApp" where
  "destroyFilePanel s = (if ap_file s then (app_do [AO_fileDestroy] s)\<lparr>ap_file := False\<rparr> else s)"

definition destroyTerminalPanel :: "RdApp \<Rightarrow> RdApp" where
  "destroyTerminalPanel s = (if ap_terminal s then (app_do [AO_terminalDestroy] s)\<lparr>ap_terminal := False\<rparr> else s)"

definition destroyCameraPanel :: "RdApp \<Rightarrow> RdApp" where
  "destroyCameraPanel s = (if ap_camera s then (app_do [AO_cameraDestroy] s)\<lparr>ap_camera := False\<rparr> else s)"

definition destroyAdvancedPanels :: "RdApp \<Rightarrow> RdApp" where
  "destroyAdvancedPanels s = destroyCameraPanel (destroyTerminalPanel s)"

definition removeClipboardSyncOffer :: "RdApp \<Rightarrow> RdApp" where
  "removeClipboardSyncOffer s = ap_media_update (\<lambda>m. m\<lparr>md_prompt := False\<rparr>) s"

definition showClipboardSyncOffer :: "RdApp \<Rightarrow> RdApp" where
  "showClipboardSyncOffer s =
     (let s1 = removeClipboardSyncOffer s
      in if \<not> md_clipboard (ap_media s1) \<or> \<not> permitted ''Clipboard'' s1 \<or> ap_state s1 \<noteq> Streaming then s1
         else ap_media_update (\<lambda>m. m\<lparr>md_prompt := True\<rparr>) s1)"

definition setLatches :: "bool \<Rightarrow> bool \<Rightarrow> RdApp \<Rightarrow> RdApp" where
  "setLatches ctrl alt s = s\<lparr>ap_latchCtrl := ctrl, ap_latchAlt := alt\<rparr>"

definition toggleViewOnly :: "RdApp \<Rightarrow> RdApp" where
  "toggleViewOnly s =
     (let v = (\<not> ap_viewOnly s);
          s1 = app_do [AO_viewOnly v] (s\<lparr>ap_viewOnly := v\<rparr>);
          s2 = (if v then removeClipboardSyncOffer (destroyTerminalPanel (setLatches False False s1)) else s1)
      in toast (if v then js ''View only '' @ [0x2014] @ js '' input is not sent'' else js ''Input enabled'') s2)"

text \<open>\<open>getConfig\<close> of the three panels.\<close>

definition session_panel_config :: "ConnKind \<Rightarrow> RdApp \<Rightarrow> SessionConfig option" where
  "session_panel_config kind s =
     (case ap_cfg s of
        None \<Rightarrow> None
      | Some g \<Rightarrow>
          if ap_state s \<noteq> Streaming then None
          else Some (buildSessionConfig g (ap_peerId s) [] (cr_session (ap_creds s)) (Some kind)))"

definition filePanelConfig :: "RdApp \<Rightarrow> SessionConfig option" where
  "filePanelConfig s = session_panel_config CK_fileTransfer s"

definition terminalPanelConfig :: "RdApp \<Rightarrow> SessionConfig option" where
  "terminalPanelConfig s =
     (if \<not> pv_terminal (ap_peer s) \<or> \<not> remoteInputAllowed (ap_viewOnly s) CH_terminal then None else session_panel_config CK_terminal s)"

definition cameraPanelConfig :: "RdApp \<Rightarrow> SessionConfig option" where
  "cameraPanelConfig s = (if \<not> pv_camera (ap_peer s) then None else session_panel_config CK_viewCamera s)"

definition ensureFilePanel :: "RdApp \<Rightarrow> RdApp" where
  "ensureFilePanel s = app_do [AO_fileOpen] (s\<lparr>ap_file := True\<rparr>)"

definition openTerminalPanel :: "RdApp \<Rightarrow> RdApp" where
  "openTerminalPanel s =
     (if \<not> remoteInputAllowed (ap_viewOnly s) CH_terminal then toast (js ''Remote terminal is unavailable in view-only mode'') s
      else app_do [AO_terminalOpen] (s\<lparr>ap_terminal := True\<rparr>))"

definition openCameraPanel :: "RdApp \<Rightarrow> RdApp" where
  "openCameraPanel s = app_do [AO_cameraOpen] (s\<lparr>ap_camera := True\<rparr>)"

definition openSide :: "SideTab \<Rightarrow> RdApp \<Rightarrow> RdApp" where
  "openSide tab s =
     (if ap_state s \<noteq> Streaming then toast (js ''Connect to a device first'') s
      else if ch_side (ap_chrome s) \<and> ch_tab (ap_chrome s) = tab then closeSide s
      else if tab = ST_files \<and> \<not> permitted ''File'' s then toast (js ''This device does not permit file transfer'') s
      else
        (let s1 = (if tab = ST_files then ensureFilePanel s else s);
             s2 = ap_chrome_update (\<lambda>c. c\<lparr>ch_tab := tab, ch_side := True\<rparr>) s1
         in if tab = ST_chat then s2\<lparr>ap_unread := 0\<rparr> else s2))"

section \<open>Chat\<close>

definition sendChatFromInput :: "app_env \<Rightarrow> jsstr \<Rightarrow> RdApp \<Rightarrow> RdApp" where
  "sendChatFromInput e raw s =
     (let text0 = js_trim raw
      in if text0 = [] \<or> ap_state s \<noteq> Streaming then s
         else (let s1 = app_post (Cmd_chat text0) s
               in s1\<lparr>ap_chat := ap_chat s1 @ [\<lparr>ce_me = True, ce_text = text0, ce_at = ae_now e\<rparr>]\<rparr>))"

definition onChat :: "app_env \<Rightarrow> jsstr \<Rightarrow> RdApp \<Rightarrow> RdApp" where
  "onChat e text0 s =
     (let s1 = s\<lparr>ap_chat := ap_chat s @ [\<lparr>ce_me = False, ce_text = text0, ce_at = ae_now e\<rparr>]\<rparr>
      in if ch_side (ap_chrome s1) \<and> ch_tab (ap_chrome s1) = ST_chat then s1
         else toast (js ''Chat: '' @ (if 80 < length text0 then take 77 text0 @ [0x2026] else text0))
                (s1\<lparr>ap_unread := Suc (ap_unread s1)\<rparr>))"

section \<open>Voice calls\<close>

definition renderVoiceCall :: "RdApp \<Rightarrow> RdApp" where
  "renderVoiceCall s =
     ap_voice_update (\<lambda>v. v\<lparr>vu_button := voiceCallUiModel (ap_state s) (permitted ''Audio'' s) (vu_state v) (vu_supported v)\<rparr>) s"

definition stopVoice :: "RdApp \<Rightarrow> RdApp" where
  "stopVoice s =
     (let s1 = ap_voice_update (\<lambda>v. v\<lparr>vu_attempts := va_invalidate (vu_attempts v)\<rparr>) s;
          s2 = (if vu_ctl (ap_voice s1) then app_do [AO_voiceStop] s1 else s1)
      in ap_voice_update (\<lambda>v. v\<lparr>vu_state := VU_idle\<rparr>) s2)"

definition endVoiceCall :: "bool \<Rightarrow> RdApp \<Rightarrow> RdApp" where
  "endVoiceCall sendClose s =
     (let had = (vu_state (ap_voice s) = VU_waiting \<or> vu_state (ap_voice s) = VU_connected);
          s1 = renderVoiceCall (stopVoice s)
      in if sendClose \<and> had then app_post Cmd_voiceCallClose s1 else s1)"

definition app_onVoiceCall :: "app_env \<Rightarrow> VoiceCallState \<Rightarrow> jsstr option \<Rightarrow> RdApp \<Rightarrow> RdApp" where
  "app_onVoiceCall e st detail s =
     (case st of
        VC_accepted \<Rightarrow>
          if \<not> vu_ctl (ap_voice s) then endVoiceCall True s
          else
            (let s1 = app_do [AO_voiceStart] s
             in if \<not> ae_voiceStarts e then endVoiceCall True s1
                else renderVoiceCall (ap_voice_update (\<lambda>v. v\<lparr>vu_state := VU_connected\<rparr>) s1))
      | VC_waiting \<Rightarrow> renderVoiceCall (ap_voice_update (\<lambda>v. v\<lparr>vu_state := VU_waiting\<rparr>) s)
      | _ \<Rightarrow>
          (let s1 = stopVoice s;
               s2 = (if st = VC_rejected then toast (js ''Voice call was declined'') s1
                     else case detail of Some (c # cs) \<Rightarrow> toast (c # cs) s1 | _ \<Rightarrow> s1)
           in renderVoiceCall s2))"

section \<open>Audio and the fallback player\<close>

definition createAudioPlayback :: "app_env \<Rightarrow> RdApp \<Rightarrow> RdApp" where
  "createAudioPlayback e s =
     (if \<not> ae_audioContext e then s
      else app_do [AO_audioNew, AO_audioVolume (md_volume (ap_media s)), AO_audioMuted (md_muted (ap_media s))]
             (ap_media_update (\<lambda>m. m\<lparr>md_audio := True\<rparr>) s))"

definition resumeAudioFromUserGesture :: "RdApp \<Rightarrow> RdApp" where
  "resumeAudioFromUserGesture s =
     (if \<not> md_audio (ap_media s) \<or> \<not> permitted ''Audio'' s then toast (js ''Remote audio is unavailable'') s
      else (app_do [AO_audioResume] s)\<lparr>ap_waits := ap_waits s @ [AW_audio (ap_epoch s)]\<rparr>)"

definition pushMseFrame :: "bytes \<Rightarrow> bool \<Rightarrow> RdApp \<Rightarrow> RdApp" where
  "pushMseFrame d key s =
     app_do [AO_msePush d key]
       (if md_mse (ap_media s) then s
        else app_do [AO_mseNew] ((ap_media_update (\<lambda>m. m\<lparr>md_mse := True\<rparr>) s)\<lparr>ap_input := Some SF_video\<rparr>))"

definition teardownMse :: "RdApp \<Rightarrow> RdApp" where
  "teardownMse s =
     (if md_mse (ap_media s) then app_do [AO_mseClose] (ap_media_update (\<lambda>m. m\<lparr>md_mse := False\<rparr>) s) else s)"

section \<open>Permissions and security\<close>

definition KEYBOARD_EXTRA_IDS :: "jsstr list" where
  "KEYBOARD_EXTRA_IDS = [js ''rd-lat-ctrl'', js ''rd-lat-alt'', js ''rd-key-del'', js ''rd-btn-type'']"

definition PERMISSION_CONTROLS :: "(jsstr \<times> jsstr \<times> jsstr) list" where
  "PERMISSION_CONTROLS =
     [(js ''File'', js ''rd-btn-files'', js ''File transfer''),
      (js ''Clipboard'', js ''rd-btn-clip'', js ''Send clipboard to remote''),
      (js ''Keyboard'', js ''rd-btn-cad'', js ''Keyboard shortcuts'')]"

definition EDGE_FILES :: jsstr where "EDGE_FILES = js ''edge:files''"

definition set_disabled :: "jsstr list \<Rightarrow> bool \<Rightarrow> RdApp \<Rightarrow> RdApp" where
  "set_disabled ids b s = s\<lparr>ap_disabled := (\<lambda>i. if i \<in> set ids then b else ap_disabled s i)\<rparr>"

definition resetPermissions :: "RdApp \<Rightarrow> RdApp" where
  "resetPermissions s =
     set_disabled (EDGE_FILES # KEYBOARD_EXTRA_IDS @ map (\<lambda>(_, i, _). i) PERMISSION_CONTROLS) False (s\<lparr>ap_permissions := Map.empty\<rparr>)"

definition refreshSecurityToast :: "RdApp \<Rightarrow> RdApp" where
  "refreshSecurityToast s =
     (if sc_blockOn (ap_sec s) then sticky_toast (js ''Remote keyboard and mouse are blocked'') s
      else if sc_privacyOn (ap_sec s) then sticky_toast (js ''Privacy mode is active'') s
      else hideToast s)"

definition releaseRemoteSecurityState :: "RdApp \<Rightarrow> RdApp" where
  "releaseRemoteSecurityState s =
     (let c = ap_sec s;
          s1 = (if sc_blockOn c \<or> sc_blockPending c then app_post (Cmd_blockInput False) s else s);
          s2 = (if (sc_privacyOn c \<or> sc_privacyPending c) \<and> sc_activeImpl c \<noteq> []
                then app_post (Cmd_privacyMode (sc_activeImpl c) False) s1 else s1)
      in ap_sec_update (\<lambda>d. d\<lparr>sc_blockOn := False, sc_blockPending := False, sc_privacyOn := False, sc_privacyPending := False\<rparr>) s2)"

definition clearSecurityState :: "RdApp \<Rightarrow> RdApp" where
  "clearSecurityState s = hideToast (s\<lparr>ap_sec := no_security\<rparr>)"

section \<open>The end of a session\<close>

definition endRecording :: "RdApp \<Rightarrow> RdApp" where
  "endRecording s =
     (let s1 = (if md_recording (ap_media s) \<and> permitted ''Recording'' s then app_post (Cmd_clientRecording False) s else s);
          s2 = ap_media_update (\<lambda>m. m\<lparr>md_recording := False, md_recordingStart := 0\<rparr>) s1
      in case md_recorder (ap_media s2) of
           None \<Rightarrow> s2
         | Some r \<Rightarrow> app_do [AO_recorderClose r] (ap_media_update (\<lambda>m. m\<lparr>md_recorder := None\<rparr>) s2))"

definition closeAudio :: "RdApp \<Rightarrow> RdApp" where
  "closeAudio s =
     (if md_audio (ap_media s) then app_do [AO_audioClose] (ap_media_update (\<lambda>m. m\<lparr>md_audio := False\<rparr>) s) else s)"

definition letWorkerGo :: "bool \<Rightarrow> RdApp \<Rightarrow> RdApp" where
  "letWorkerGo immediate s =
     (case ap_worker s of
        None \<Rightarrow> s
      | Some w \<Rightarrow>
          if immediate then app_do [AO_letGo w, AO_terminate w] (s\<lparr>ap_worker := None\<rparr>)
          else app_do [AO_letGo w] (s\<lparr>ap_worker := None, ap_flushing := ap_flushing s @ [w]\<rparr>))"

definition app_teardown :: "bool \<Rightarrow> RdApp \<Rightarrow> RdApp" where
  "app_teardown immediate s =
     (let s1 = releaseRemoteSecurityState (endVoiceCall False (s\<lparr>ap_epoch := Suc (ap_epoch s)\<rparr>));
          s2 = removeClipboardSyncOffer (closeAudio (endRecording s1));
          s3 = teardownMse (s2\<lparr>ap_input := None\<rparr>)
      in resetPermissions (letWorkerGo immediate s3))"

definition clearFlowTimers :: "FlowTimer list \<Rightarrow> nat \<Rightarrow> RdApp \<Rightarrow> RdApp" where
  "clearFlowTimers ks f s = s\<lparr>ap_timers := filter (\<lambda>(k, g). \<not> (g = f \<and> k \<in> set ks)) (ap_timers s)\<rparr>"

definition clearRestartFlow :: "RdApp \<Rightarrow> RdApp" where
  "clearRestartFlow s =
     (let s1 = (case ap_flow s of None \<Rightarrow> s | Some f \<Rightarrow> clearFlowTimers [TK_retry, TK_stable, TK_deadline] (fl_id f) s)
      in cancelButton False (s1\<lparr>ap_flow := None\<rparr>))"

definition refreshPeerSub :: "RdApp \<Rightarrow> RdApp" where
  "refreshPeerSub s =
     ap_details_update (\<lambda>d. d\<lparr>dt_peerSub :=
       (if ap_state s = Streaming
        then js ''Online'' @ (if pv_platform (ap_peer s) \<noteq> [] then js '' '' @ [0xB7] @ js '' '' @ pv_platform (ap_peer s) else [])
        else STATE_LABEL (ap_state s))\<rparr>) s"

definition persistCredentialIfWanted :: "RdApp \<Rightarrow> RdApp" where
  "persistCredentialIfWanted s =
     (if \<not> ch_save (ap_chrome s) then s\<lparr>ap_storage := clearSavedHash (ap_peerId s) (ap_storage s)\<rparr>
      else case cr_pending (ap_creds s) of
        Some (c # cs) \<Rightarrow> s\<lparr>ap_storage := saveSavedHash (ap_peerId s) (c # cs) (ap_storage s)\<rparr>
      | _ \<Rightarrow> s)"

definition endSessionUi :: "RdApp \<Rightarrow> RdApp" where
  "endSessionUi s =
     setOverlayBusy False (showOverlay (closePop (closeSide (destroyFilePanel (destroyAdvancedPanels
       (clearSecurityState (app_teardown False s)))))))"

definition onStreaming :: "app_env \<Rightarrow> RdApp \<Rightarrow> RdApp" where
  "onStreaming e s =
     (let s1 = (if ap_streamStart s = 0 then s\<lparr>ap_streamStart := ae_now e\<rparr> else s);
          s2 = hideOverlay (persistCredentialIfWanted s1);
          s3 = (case ap_flow s2 of
                  None \<Rightarrow> s2
                | Some f \<Rightarrow>
                    (let t = sticky_toast (js ''Connection restored '' @ [0x2014] @ js '' checking stability after the restart request'')
                               (clearFlowTimers [TK_stable] (fl_id f) (cancelButton False s2))
                     in t\<lparr>ap_timers := ap_timers t @ [(TK_stable, fl_id f)]\<rparr>))
      in showClipboardSyncOffer s3)"

definition app_setState :: "app_env \<Rightarrow> SessionState \<Rightarrow> jsstr option \<Rightarrow> RdApp \<Rightarrow> RdApp" where
  "app_setState e st detail s =
     (let s1 = refreshPeerSub (renderVoiceCall (s\<lparr>ap_state := st\<rparr>));
          d = (case detail of None \<Rightarrow> [] | Some t \<Rightarrow> t)
      in if st = Streaming then onStreaming e s1
         else if st = ErrorState then setOverlayError (if d \<noteq> [] then d else js ''Connection failed'') (endSessionUi s1)
         else if st = Closed then setOverlayStatusText (js ''Disconnected'') (endSessionUi s1)
         else setOverlayStatusText (STATE_LABEL st @ (if d \<noteq> [] then js '' '' @ [0x2014] @ js '' '' @ d else []) @ [0x2026])
                (setOverlayBusy True (showOverlay s1)))"

end
