(* ===== verification/App.thy ===== *)
theory App
  imports App_State
begin

text \<open>
  The rest of \<open>RdApp\<close> (\<open>webclient/src/ui/app.ts\<close>): connecting, the restart flow, the events of the
  worker, the menus, and the application as a system of calls by the user, the worker, timers and
  settled promises. A worker's messages are heard only while it is the current one, because
  \<open>teardown\<close> takes its handlers off. Clicks reach a menu item only while its popover is open and
  was built with it. The rows of the details pane, the badges and the running clock are display
  only; console logging is left out.
\<close>

section \<open>Connecting\<close>

definition hydrateSavedPassword :: "jsstr \<Rightarrow> RdApp \<Rightarrow> RdApp" where
  "hydrateSavedPassword peer s =
     (let has = (peer \<noteq> [] \<and> loadSavedHash (ap_storage s) peer \<noteq> None)
      in ap_chrome_update (\<lambda>c. c\<lparr>ch_save := has, ch_password := [], ch_savedHint := has\<rparr>) s)"

definition secureContextProblem :: "app_env \<Rightarrow> jsstr option" where
  "secureContextProblem e =
     (if ae_decoder e \<or> ae_mse e then None
      else if ae_secure e = Some False
      then Some (js ''This page is served over plain HTTP and this browser cannot fall back to Media Source playback. Serve the console over HTTPS, or open it as http://localhost, which browsers treat as secure.'')
      else Some (js ''This browser has no WebCodecs video decoder and no Media Source support for H.264. Chrome or Edge is required for the remote screen.''))"

definition setLoggedOutFlag :: "app_env \<Rightarrow> bool \<Rightarrow> RdApp \<Rightarrow> RdApp" where
  "setLoggedOutFlag e on s = (if ae_history e then s\<lparr>ap_loggedOut := on\<rparr> else s)"

definition freshCanvas :: "RdApp \<Rightarrow> RdApp" where
  "freshCanvas s = (if ap_transferred s then s\<lparr>ap_canvas := Suc (ap_canvas s)\<rparr> else s)\<lparr>ap_transferred := True\<rparr>"

definition forgetSession :: "SessionConfig \<Rightarrow> RdApp \<Rightarrow> RdApp" where
  "forgetSession config s =
     (let s1 = closePop (closeSide (destroyFilePanel (ap_creds_update (\<lambda>c. c\<lparr>cr_reconnect := Some (config\<lparr>password := []\<rparr>)\<rparr>) s)));
          s2 = app_do [AO_viewOnly False] (s1\<lparr>ap_chat := [], ap_unread := 0, ap_viewOnly := False\<rparr>);
          s3 = clearSecurityState (setLatches False False s2);
          s4 = ap_peer_update (\<lambda>p. p\<lparr>pv_who := [], pv_platform := [], pv_terminal := False, pv_camera := False, pv_additions := []\<rparr>) s3;
          s5 = ap_dp_update (\<lambda>d. d\<lparr>dp_codecs := [CN_auto], dp_codec := CN_auto, dp_showCursor := False, dp_followCursor := False,
                 dp_followWindow := False, dp_adaptive := False,
                 dp_fps := \<lparr>fps_target = of_int (dp_customFps d), fps_stable = 0\<rparr>, dp_lastDropped := 0, dp_cursorHidden := True\<rparr>) s4;
          s6 = ap_creds_update (\<lambda>c. c\<lparr>cr_session := savedHashHex config\<rparr>) s5;
          s7 = ap_peer_update (\<lambda>p. p\<lparr>pv_displays := [], pv_current := 0\<rparr>) (s6\<lparr>ap_stats := None, ap_streamStart := 0\<rparr>)
      in removeClipboardSyncOffer (ap_media_update (\<lambda>m. m\<lparr>md_enabled := True, md_started := False, md_muted := False,
           md_volume := 1, md_clipboard := True\<rparr>) s7))"

definition launchWorker :: "SessionConfig \<Rightarrow> RdApp \<Rightarrow> RdApp" where
  "launchWorker config s =
     (let s1 = freshCanvas s; w = ap_next s1
      in app_do [AO_worker w (ap_canvas s1), AO_post w (Cmd_connect config)]
           (s1\<lparr>ap_worker := Some w, ap_next := Suc w, ap_input := Some (SF_canvas (ap_canvas s1))\<rparr>))"

definition startSession :: "app_env \<Rightarrow> SessionConfig \<Rightarrow> RdApp \<Rightarrow> RdApp" where
  "startSession e config s =
     (let s1 = launchWorker config (createAudioPlayback e (forgetSession config (app_teardown False s)));
          s2 = ap_details_update (\<lambda>d. d\<lparr>dt_peerLabel := ap_peerId s1, dt_device := ap_peerId s1\<rparr>) s1
      in app_setState e Connecting None (resetPermissions s2))"

definition consumePasswordInput :: "RdApp \<Rightarrow> RdApp \<times> jsstr" where
  "consumePasswordInput s = (ap_chrome_update (\<lambda>c. c\<lparr>ch_password := []\<rparr>) s, ch_password (ap_chrome s))"

definition login_config :: "RdGlobalConfig \<Rightarrow> jsstr \<Rightarrow> jsstr \<Rightarrow> jsstr option \<Rightarrow> SessionConfig \<times> bool" where
  "login_config g peer typed saved =
     (case saved of
        Some (c # cs) \<Rightarrow>
          if typed = [] then (buildSessionConfig g peer [] (Some (c # cs)) None, True)
          else (buildSessionConfig g peer typed None None, False)
      | _ \<Rightarrow> (buildSessionConfig g peer typed None None, False))"

definition onConnectClick :: "app_env \<Rightarrow> RdApp \<Rightarrow> RdApp" where
  "onConnectClick e s =
     (let typed_id = ch_idInput (ap_chrome s);
          peer = normalizePeerId (if typed_id \<noteq> [] then typed_id else ap_fixedPeerId s)
      in if ap_worker s \<noteq> None \<and> ap_state s \<noteq> ErrorState \<and> ap_state s \<noteq> Closed then s
         else if peer = [] then setOverlayError (js ''Enter a device ID'') s
         else case ap_cfg s of
           None \<Rightarrow> setOverlayError (js ''Missing window.__RD__ configuration'') s
         | Some g \<Rightarrow>
             (case secureContextProblem e of
                Some m \<Rightarrow> setOverlayError m s
              | None \<Rightarrow>
                  (case consumePasswordInput (setLoggedOutFlag e False (setOverlayError [] (s\<lparr>ap_peerId := peer\<rparr>))) of
                     (s1, typed) \<Rightarrow>
                       (let saved = loadSavedHash (ap_storage s1) peer;
                            s2 = (if ch_save (ap_chrome s1) then s1 else s1\<lparr>ap_storage := clearSavedHash peer (ap_storage s1)\<rparr>);
                            (config, reused) = login_config g peer typed saved
                        in startSession e config (ap_creds_update (\<lambda>c. c\<lparr>cr_pending := None, cr_withSaved := reused\<rparr>) s2)))))"

section \<open>The restart flow\<close>

definition ERR_RESTART :: jsstr where
  "ERR_RESTART = js ''The remote device did not return within 120 seconds after the restart request''"

definition or_saved :: "jsstr option \<Rightarrow> jsstr option \<Rightarrow> jsstr option" where
  "or_saved a b = (case a of Some h \<Rightarrow> Some h | None \<Rightarrow> b)"

definition beginRemoteRestart :: "app_env \<Rightarrow> RdApp \<Rightarrow> RdApp" where
  "beginRemoteRestart e s =
     (case cr_reconnect (ap_creds s) of
        None \<Rightarrow> toast (js ''Restart is unavailable until the session is connected'') s
      | Some rc \<Rightarrow>
          if ap_state s \<noteq> Streaming then toast (js ''Restart is unavailable until the session is connected'') s
          else if \<not> ae_confirm e then s
          else
            (let config = rc\<lparr>password := [], savedHashHex := or_saved (cr_session (ap_creds s)) (savedHashHex rc)\<rparr>;
                 s1 = app_post Cmd_restartRemoteDevice (cancelButton True (clearRestartFlow s));
                 f = ap_nextFlow s1;
                 flow = \<lparr>fl_id = f, fl_startedAt = ae_now e, fl_attempt = 0, fl_config = config, fl_timer = False, fl_reconnecting = False\<rparr>
             in sticky_toast (js ''Restart command sent '' @ [0x2014] @ js '' waiting for the remote device'')
                  (s1\<lparr>ap_flow := Some flow, ap_nextFlow := Suc f, ap_timers := ap_timers s1 @ [(TK_deadline, f)]\<rparr>)))"

text \<open>\<open>Math.ceil(delay / 1000)\<close>\<close>

definition secs_up :: "int \<Rightarrow> int" where
  "secs_up d = - ((- d) div 1000)"

definition scheduleRestartReconnect :: "app_env \<Rightarrow> jsstr option \<Rightarrow> RdApp \<Rightarrow> RdApp" where
  "scheduleRestartReconnect e detail s =
     (case ap_flow s of
        None \<Rightarrow> s
      | Some f \<Rightarrow>
          if fl_timer f then s
          else
            (let s1 = closePop (closeSide (destroyFilePanel (clearSecurityState (app_teardown False (clearFlowTimers [TK_stable] (fl_id f) s)))));
                 d = (case detail of None \<Rightarrow> [] | Some t \<Rightarrow> t)
             in case nextRestartReconnectDelay (fl_attempt f) (ae_now e - fl_startedAt f) RESTART_RECONNECT_TIMEOUT_MS of
                  None \<Rightarrow>
                    app_setState e ErrorState (Some (js ''The remote device did not return after restarting'' @
                      (if d \<noteq> [] then js '' '' @ [0x2014] @ js '' '' @ d else []))) (clearRestartFlow s1)
                | Some delay \<Rightarrow>
                    (let n = Suc (fl_attempt f);
                         s2 = setOverlayBusy True (showOverlay (s1\<lparr>ap_state := Connecting\<rparr>));
                         s3 = setOverlayStatusText (js ''Waiting for restarted device '' @ [0x2014] @ js '' retry '' @ radix_str 10 n @
                                js '' in '' @ int_str (secs_up delay) @ js ''s'') (cancelButton True s2)
                     in s3\<lparr>ap_flow := Some (f\<lparr>fl_attempt := n, fl_timer := True\<rparr>), ap_timers := ap_timers s3 @ [(TK_retry, fl_id f)]\<rparr>)))"

definition cancelRestartReconnect :: "app_env \<Rightarrow> RdApp \<Rightarrow> RdApp" where
  "cancelRestartReconnect e s =
     (let wasWaiting = (ap_state s \<noteq> Streaming)
      in if ap_flow s = None then s
         else let s1 = clearRestartFlow s
              in toast (js ''Automatic reconnect cancelled'') (if wasWaiting then app_setState e Closed None s1 else s1))"

definition expireRestartFlow :: "app_env \<Rightarrow> nat \<Rightarrow> RdApp \<Rightarrow> RdApp" where
  "expireRestartFlow e fid s =
     (case ap_flow s of
        None \<Rightarrow> s
      | Some f \<Rightarrow>
          if fl_id f \<noteq> fid then s
          else
            (let s1 = clearRestartFlow s
             in if fl_reconnecting f
                then app_setState e ErrorState (Some ERR_RESTART) (clearSecurityState (app_teardown True s1))
                else if ap_state s = Streaming then toast (js ''No remote restart was detected within 120 seconds'') s1
                else app_setState e ErrorState (Some ERR_RESTART) s1))"

text \<open>A timer of a flow fires: its entry is gone, then its callback runs.\<close>

definition retryTimer :: "app_env \<Rightarrow> nat \<Rightarrow> RdApp \<Rightarrow> RdApp" where
  "retryTimer e fid s =
     (case ap_flow s of
        None \<Rightarrow> s
      | Some f \<Rightarrow>
          if fl_id f \<noteq> fid then s
          else
            (let s1 = s\<lparr>ap_flow := Some (f\<lparr>fl_timer := False\<rparr>)\<rparr>
             in if RESTART_RECONNECT_TIMEOUT_MS \<le> ae_now e - fl_startedAt f then expireRestartFlow e fid s1
                else startSession e ((fl_config f)\<lparr>password := []\<rparr>)
                       (s1\<lparr>ap_flow := Some (f\<lparr>fl_timer := False, fl_reconnecting := True\<rparr>)\<rparr>)))"

definition stableTimer :: "nat \<Rightarrow> RdApp \<Rightarrow> RdApp" where
  "stableTimer fid s =
     (if map_option fl_id (ap_flow s) \<noteq> Some fid \<or> ap_state s \<noteq> Streaming then s
      else toast (js ''Connection restored after the restart request'') (clearRestartFlow s))"

definition flowTimer :: "app_env \<Rightarrow> FlowTimer \<Rightarrow> nat \<Rightarrow> RdApp \<Rightarrow> RdApp" where
  "flowTimer e k fid s =
     (if (k, fid) \<notin> set (ap_timers s) then s
      else
        (let s1 = s\<lparr>ap_timers := remove1 (k, fid) (ap_timers s)\<rparr>
         in case k of TK_retry \<Rightarrow> retryTimer e fid s1 | TK_stable \<Rightarrow> stableTimer fid s1 | TK_deadline \<Rightarrow> expireRestartFlow e fid s1))"

section \<open>Events of the worker\<close>

definition app_onState :: "app_env \<Rightarrow> SessionState \<Rightarrow> jsstr option \<Rightarrow> bool \<Rightarrow> RdApp \<Rightarrow> RdApp" where
  "app_onState e st detail peerInitiated s =
     (if ap_flow s \<noteq> None \<and> peerInitiated then app_setState e st detail (clearRestartFlow s)
      else if ap_flow s \<noteq> None \<and> (st = ErrorState \<or> st = Closed) then scheduleRestartReconnect e detail s
      else app_setState e st detail s)"

definition or_dash :: "jsstr \<Rightarrow> jsstr" where
  "or_dash t = (if t = [] then [0x2014] else t)"

definition onPeerInfo :: "app_env \<Rightarrow> PeerInfoEvent \<Rightarrow> RdApp \<Rightarrow> RdApp" where
  "onPeerInfo e ev s =
     (let p = ap_peer s;
          who = (if pe_username ev \<noteq> [] then pe_username ev @ js ''@'' @ pe_hostname ev else pe_hostname ev);
          p1 = p\<lparr>pv_displays := (case pe_current ev of
                                  None \<Rightarrow> mergeDisplayRefresh (pv_displays p) (pe_displays ev) (pv_current p)
                                | Some _ \<Rightarrow> pe_displays ev),
                 pv_current := (case pe_current ev of None \<Rightarrow> pv_current p | Some c \<Rightarrow> c),
                 pv_who := who, pv_platform := pe_platform ev, pv_terminal := pe_terminalSupported ev,
                 pv_camera := pe_viewCameraSupported ev,
                 pv_additions := mergePlatformAdditions (ae_parse e) (ae_stringify e) (pv_additions p) (pe_platformAdditions ev)\<rparr>;
          s1 = ap_sec_update (\<lambda>c. c\<lparr>sc_supported := pe_privacyModeSupported ev, sc_impls := pe_privacyModeImpls ev\<rparr>) (s\<lparr>ap_peer := p1\<rparr>);
          d = current_display s1;
          s2 = (if canUseRemoteCursor (pv_platform p1) d then s1 else ap_dp_update (\<lambda>q. q\<lparr>dp_cursorHidden := True\<rparr>) s1);
          s3 = refreshPeerSub (ap_details_update (\<lambda>q. q\<lparr>dt_peerLabel := (if who \<noteq> [] then who else ap_peerId s)\<rparr>) s2);
          controls = ((case d of None \<Rightarrow> False | Some di \<Rightarrow> di_resolutions di \<noteq> [] \<or> di_originalResolution di \<noteq> None)
            \<or> parseVirtualDisplayCapability (ae_parse e) (pv_platform p1) (pv_additions p1) \<noteq> None)
      in ap_details_update (\<lambda>q. q\<lparr>dt_version := or_dash (pe_version ev), dt_user := or_dash who, dt_platform := or_dash (pv_platform p1),
           dt_monitorsHidden := (length (pv_displays p1) < 2 \<and> \<not> controls)\<rparr>) s3)"

definition geometry_of :: "SwitchDisplayEvent \<Rightarrow> SwitchGeometry" where
  "geometry_of ev =
     \<lparr>sg_index = se_index ev, sg_x = se_x ev, sg_y = se_y ev, sg_width = se_width ev, sg_height = se_height ev,
      sg_cursorEmbedded = Some (se_cursorEmbedded ev), sg_originalResolution = se_originalResolution ev,
      sg_resolutions = Some (se_resolutions ev)\<rparr>"

definition onSwitchDisplay :: "SwitchDisplayEvent \<Rightarrow> RdApp \<Rightarrow> RdApp" where
  "onSwitchDisplay ev s =
     (let s1 = ap_peer_update (\<lambda>p. p\<lparr>pv_current := se_index ev, pv_displays := applySwitchDisplay (pv_displays p) (geometry_of ev)\<rparr>) s;
          s2 = (if se_cursorEmbedded ev then ap_dp_update (\<lambda>q. q\<lparr>dp_cursorHidden := True\<rparr>) s1 else s1)
      in refreshPeerSub (teardownMse s2))"

definition onFollowDisplay :: "int \<Rightarrow> RdApp \<Rightarrow> RdApp" where
  "onFollowDisplay i s =
     (if (dp_followWindow (ap_dp s) \<or> dp_followCursor (ap_dp s)) \<and> i \<noteq> pv_current (ap_peer s)
         \<and> (case display_at (pv_displays (ap_peer s)) i of None \<Rightarrow> False | Some d \<Rightarrow> di_online d)
      then app_post (Cmd_switchDisplay i) s else s)"

definition onCodecSupport :: "CodecName list \<Rightarrow> RdApp \<Rightarrow> RdApp" where
  "onCodecSupport cs s =
     ap_dp_update (\<lambda>q. q\<lparr>dp_codecs := cs, dp_codec := (if dp_codec q \<in> set cs then dp_codec q else CN_auto)\<rparr>) s"

definition onStats :: "SessionStats \<Rightarrow> RdApp \<Rightarrow> RdApp" where
  "onStats st s =
     (let s1 = ap_details_update (\<lambda>q. q\<lparr>dt_codec := or_dash (st_codec st),
                 dt_res := (if st_width st \<noteq> 0 \<and> st_height st \<noteq> 0 then int_str (st_width st) @ [0xD7] @ int_str (st_height st) else [0x2014]),
                 dt_fps := int_str (st_fps st), dt_bitrate := formatMbps (Num (st_mbps st)), dt_dropped := int_str (st_framesDropped st)\<rparr>)
                 (s\<lparr>ap_stats := Some st\<rparr>)
      in if \<not> dp_adaptive (ap_dp s1) then s1
         else
           (let q = ap_dp s1;
                nxt = adaptFps (of_int (dp_customFps q)) (max 0 (st_framesDropped st - dp_lastDropped q)) (dp_fps q);
                s2 = ap_dp_update (\<lambda>r. r\<lparr>dp_fps := nxt\<rparr>) s1;
                s3 = (if fps_target nxt \<noteq> fps_target (dp_fps q) then app_post (Cmd_customFps (Num (fps_target nxt))) s2 else s2)
            in ap_dp_update (\<lambda>r. r\<lparr>dp_lastDropped := st_framesDropped st\<rparr>) s3))"

definition onPcm :: "jsnum list \<Rightarrow> int \<Rightarrow> int \<Rightarrow> RdApp \<Rightarrow> RdApp" where
  "onPcm pcm rate channels s =
     (if md_enabled (ap_media s) \<and> permitted ''Audio'' s \<and> md_audio (ap_media s) then app_do [AO_audioPcm pcm rate channels] s else s)"

definition positionRemoteCursor :: "app_env \<Rightarrow> int \<Rightarrow> int \<Rightarrow> RdApp \<Rightarrow> RdApp" where
  "positionRemoteCursor e x y s =
     (let hidden = ap_dp_update (\<lambda>q. q\<lparr>dp_cursorHidden := True\<rparr>) s;
          c = ae_surface e; v = ae_viewport e
      in case current_display s of
           None \<Rightarrow> hidden
         | Some d \<Rightarrow>
             if \<not> dp_showCursor (ap_dp s) \<or> \<not> canUseRemoteCursor (pv_platform (ap_peer s)) (Some d) then hidden
             else
               (case mapRemoteCursorToCanvas (of_int x) (of_int y) (displayToRect d) (Some (di_scale d))
                       \<lparr>rc_left = rc_left c - rc_left v, rc_top = rc_top c - rc_top v, rc_width = rc_width c, rc_height = rc_height c\<rparr> of
                  None \<Rightarrow> hidden
                | Some pt \<Rightarrow> ap_dp_update (\<lambda>q. q\<lparr>dp_cursorAt := pt, dp_cursorHidden := False\<rparr>) s))"

definition onClipboard :: "app_env \<Rightarrow> jsstr \<Rightarrow> RdApp \<Rightarrow> RdApp" where
  "onClipboard e text0 s =
     (if \<not> md_clipboard (ap_media s) \<or> \<not> permitted ''Clipboard'' s \<or> \<not> ae_clipboardApi e then s
      else (app_do [AO_clipboardWrite text0] s)\<lparr>ap_waits := ap_waits s @ [AW_clipboardWrite (ap_epoch s)]\<rparr>)"

definition with_details :: "string \<Rightarrow> jsstr \<Rightarrow> jsstr" where
  "with_details m d = js m @ (if d \<noteq> [] then js '': '' @ d else [])"

definition privacy_after :: "int \<Rightarrow> jsstr \<Rightarrow> SecurityState \<Rightarrow> SecurityState \<times> bool" where
  "privacy_after st implKey c =
     (if st = 2 \<or> st = 4
      then (c\<lparr>sc_privacyOn := True, sc_activeImpl := (if implKey \<noteq> [] then implKey else sc_activeImpl c)\<rparr>, False)
      else if st = 8 \<or> st = 9 then (c\<lparr>sc_privacyOn := False, sc_activeImpl := []\<rparr>, False)
      else if st = 3 then (c\<lparr>sc_privacyOn := False, sc_supported := False\<rparr>, True)
      else if st = 5 \<or> st = 6 \<or> st = 7 then (c\<lparr>sc_privacyOn := False\<rparr>, True)
      else if st = 10 then (c\<lparr>sc_privacyOn := True\<rparr>, True)
      else (c, True))"

definition applyPrivacyModeState :: "int \<Rightarrow> jsstr \<Rightarrow> jsstr \<Rightarrow> RdApp \<Rightarrow> RdApp" where
  "applyPrivacyModeState st details0 implKey s =
     (let r = privacy_after st implKey ((ap_sec s)\<lparr>sc_privacyPending := False\<rparr>); s1 = s\<lparr>ap_sec := fst r\<rparr>
      in if snd r then toast (with_details ''Privacy mode failed'' details0) s1 else refreshSecurityToast s1)"

definition block_after :: "int \<Rightarrow> SecurityState \<Rightarrow> SecurityState \<times> bool" where
  "block_after st c =
     (if st = 2 then (c\<lparr>sc_blockOn := True\<rparr>, False)
      else if st = 4 then (c\<lparr>sc_blockOn := False\<rparr>, False)
      else if st = 3 then (c\<lparr>sc_blockOn := False\<rparr>, True)
      else if st = 5 then (c\<lparr>sc_blockOn := True\<rparr>, True)
      else (c, True))"

definition applyBlockInputState :: "int \<Rightarrow> jsstr \<Rightarrow> RdApp \<Rightarrow> RdApp" where
  "applyBlockInputState st details0 s =
     (let r = block_after st ((ap_sec s)\<lparr>sc_blockPending := False\<rparr>); s1 = s\<lparr>ap_sec := fst r\<rparr>
      in if snd r then toast (with_details ''Remote input control failed'' details0) s1 else refreshSecurityToast s1)"

text \<open>\<open>applyPermission\<close> in its order: the restart flow, audio, clipboard and recording, the controls.\<close>

definition permissionRestart :: "app_env \<Rightarrow> jsstr \<Rightarrow> bool \<Rightarrow> RdApp \<Rightarrow> RdApp" where
  "permissionRestart e kind enabled s =
     (if kind = js ''Restart'' \<and> \<not> enabled \<and> ap_flow s \<noteq> None
      then (if ap_state s = Streaming then toast (js ''Restart permission was denied by the peer'') (clearRestartFlow s)
            else app_setState e ErrorState (Some (js ''Automatic reconnect stopped because restart permission was denied'')) (clearRestartFlow s))
      else s)"

definition permissionAudio :: "jsstr \<Rightarrow> bool \<Rightarrow> RdApp \<Rightarrow> RdApp" where
  "permissionAudio kind enabled s =
     (if kind \<noteq> js ''Audio'' then s
      else if enabled then renderVoiceCall s
      else (let t = (if md_audio (ap_media s) then app_do [AO_audioReset] s else s)
            in renderVoiceCall (if vu_state (ap_voice t) \<noteq> VU_idle then endVoiceCall True t else t)))"

definition permissionMedia :: "jsstr \<Rightarrow> bool \<Rightarrow> RdApp \<Rightarrow> RdApp" where
  "permissionMedia kind enabled s =
     (let t = (if kind = js ''Clipboard'' \<and> \<not> enabled then removeClipboardSyncOffer s else s)
      in case md_recorder (ap_media t) of
           Some r \<Rightarrow> if kind = js ''Recording'' \<and> \<not> enabled \<and> md_recording (ap_media t) then app_do [AO_recorderStop r] t else t
         | None \<Rightarrow> t)"

definition permissionFile :: "bool \<Rightarrow> RdApp \<Rightarrow> RdApp" where
  "permissionFile enabled s =
     (let t = set_disabled [EDGE_FILES] (\<not> enabled) s
      in if enabled then t
         else let u = destroyFilePanel t
              in if ch_side (ap_chrome u) \<and> ch_tab (ap_chrome u) = ST_files then closeSide u else u)"

definition permissionControls :: "jsstr \<Rightarrow> bool \<Rightarrow> RdApp \<Rightarrow> RdApp" where
  "permissionControls kind enabled s =
     (let word0 = (if enabled then js ''enabled'' else js ''disabled'')
      in case map_of PERMISSION_CONTROLS kind of
           None \<Rightarrow>
             if kind = js ''Audio'' \<or> kind = js ''Recording''
             then toast (js ''Peer '' @ word0 @ js '' '' @ js_lower kind) s else s
         | Some (i, title0) \<Rightarrow>
             (let t = set_disabled (if kind = js ''Keyboard'' then i # KEYBOARD_EXTRA_IDS else [i]) (\<not> enabled) s
              in toast (js ''Peer '' @ word0 @ js '' '' @ js_lower title0) (if kind = js ''File'' then permissionFile enabled t else t)))"

definition applyPermission :: "app_env \<Rightarrow> jsstr \<Rightarrow> bool \<Rightarrow> RdApp \<Rightarrow> RdApp" where
  "applyPermission e kind enabled s =
     permissionControls kind enabled (permissionMedia kind enabled (permissionAudio kind enabled
       (permissionRestart e kind enabled (s\<lparr>ap_permissions := (ap_permissions s)(kind \<mapsto> enabled)\<rparr>))))"

definition onElevation :: "ElevationState \<Rightarrow> jsstr \<Rightarrow> RdApp \<Rightarrow> RdApp" where
  "onElevation st detail s =
     (case st of
        El_succeeded \<Rightarrow> toast (js ''Elevation approved'') s
      | El_failed \<Rightarrow> toast (with_details ''Elevation failed'' detail) s
      | El_pending \<Rightarrow> sticky_toast (js ''Elevation approved '' @ [0x2014] @ js '' waiting for the elevated service'') s)"

definition onCredentials :: "jsstr \<Rightarrow> RdApp \<Rightarrow> RdApp" where
  "onCredentials h s =
     ap_creds_update (\<lambda>c. c\<lparr>cr_pending := Some h, cr_session := Some h,
       cr_reconnect := map_option (\<lambda>rc. rc\<lparr>savedHashHex := Some h\<rparr>) (cr_reconnect c)\<rparr>) s"

definition onUac :: "bool \<Rightarrow> RdApp \<Rightarrow> RdApp" where
  "onUac on s =
     (if on then sticky_toast (js ''UAC prompt is open on the remote screen '' @ [0x2014] @ js '' approve or cancel it there'') s
      else toast (js ''Remote UAC dialog closed'') (hideToast s))"

definition onMsgbox :: "jsstr \<Rightarrow> jsstr \<Rightarrow> jsstr \<Rightarrow> RdApp \<Rightarrow> RdApp" where
  "onMsgbox msgtype title0 text0 s =
     (let shown = (if text0 \<noteq> [] then text0 else title0);
          m = (if title0 \<noteq> [] \<and> text0 \<noteq> [] then title0 @ js '': '' @ text0 else shown)
      in if shown = [] then s
         else if map ascii_lower (take 4 msgtype) = js ''wait'' then sticky_toast m s else toast m s)"

definition onLoginError :: "jsstr \<Rightarrow> RdApp \<Rightarrow> RdApp" where
  "onLoginError m s =
     (let s1 = app_teardown False (clearRestartFlow s);
          s2 = (if cr_withSaved (ap_creds s1)
                then ap_creds_update (\<lambda>c. c\<lparr>cr_withSaved := False\<rparr>)
                       (ap_chrome_update (\<lambda>c. c\<lparr>ch_save := False, ch_savedHint := False\<rparr>)
                         (s1\<lparr>ap_storage := clearSavedHash (ap_peerId s1) (ap_storage s1)\<rparr>))
                else s1)
      in setOverlayError (if m \<noteq> [] then m else js ''Login failed'') (setOverlayBusy False (showOverlay s2)))"

definition app_onEvent :: "app_env \<Rightarrow> SessionEvent \<Rightarrow> RdApp \<Rightarrow> RdApp" where
  "app_onEvent e ev s =
     (case ev of
        Ev_state st detail peerInitiated \<Rightarrow> app_onState e st detail peerInitiated s
      | Ev_peerInfo p \<Rightarrow> onPeerInfo e p s
      | Ev_switchDisplay d \<Rightarrow> onSwitchDisplay d s
      | Ev_followDisplay i \<Rightarrow> onFollowDisplay i s
      | Ev_codecSupport cs \<Rightarrow> onCodecSupport cs s
      | Ev_stats st \<Rightarrow> onStats st s
      | Ev_cursor _ hx hy \<Rightarrow> ap_dp_update (\<lambda>q. q\<lparr>dp_hot := (hx, hy)\<rparr>) s
      | Ev_cursorPos x y \<Rightarrow> positionRemoteCursor e x y s
      | Ev_clipboard t \<Rightarrow> onClipboard e t s
      | Ev_chat t \<Rightarrow> onChat e t s
      | Ev_voiceCall st d \<Rightarrow> app_onVoiceCall e st d s
      | Ev_h264 d key \<Rightarrow> pushMseFrame d key s
      | Ev_permission k b \<Rightarrow> applyPermission e k b s
      | Ev_privacyMode st d k \<Rightarrow> applyPrivacyModeState st d k s
      | Ev_blockInput st d \<Rightarrow> applyBlockInputState st d s
      | Ev_elevation st d \<Rightarrow> onElevation st d s
      | Ev_credentials h \<Rightarrow> onCredentials h s
      | Ev_uac on \<Rightarrow> onUac on s
      | Ev_msgbox ty ti tx _ \<Rightarrow> onMsgbox ty ti tx s
      | Ev_loginError m \<Rightarrow> onLoginError m s
      | _ \<Rightarrow> s)"

section \<open>Voice call, clipboard and recording on a click\<close>

definition toggleVoiceCall :: "RdApp \<Rightarrow> RdApp" where
  "toggleVoiceCall s =
     (let st = vu_state (ap_voice s)
      in if st = VU_preparing then s
         else if st = VU_waiting \<or> st = VU_connected then endVoiceCall True s
         else if ap_state s \<noteq> Streaming then toast (js ''Voice calls require a connected session'') s
         else if \<not> permitted ''Audio'' s then toast (js ''This device does not permit audio calls'') s
         else if \<not> md_enabled (ap_media s)
         then toast (js ''Turn on '' @ [34] @ js ''Receive remote audio'' @ [34] @ js '' before starting a voice call'') s
         else
           (let s1 = ap_voice_update (\<lambda>v. v\<lparr>vu_ctl := True\<rparr>) (resumeAudioFromUserGesture s);
                (attempts, attempt) = va_begin (vu_attempts (ap_voice s1));
                s2 = renderVoiceCall (ap_voice_update (\<lambda>v. v\<lparr>vu_attempts := attempts, vu_state := VU_preparing\<rparr>) s1)
            in (app_do [AO_voicePrepare] s2)\<lparr>ap_waits := ap_waits s2 @ [AW_voice attempt (ap_epoch s2)]\<rparr>))"

text \<open>After \<open>await voiceCallAttempts.wait(...)\<close>; \<open>failure\<close> is the message of a preparation that did not succeed.\<close>

definition voicePrepared :: "nat \<Rightarrow> nat \<Rightarrow> jsstr option \<Rightarrow> RdApp \<Rightarrow> RdApp" where
  "voicePrepared attempt epoch failure s =
     (case va_settled attempt failure (vu_attempts (ap_voice s)) of
        None \<Rightarrow> s
      | Some f \<Rightarrow>
          if epoch \<noteq> ap_epoch s \<or> vu_state (ap_voice s) \<noteq> VU_preparing then s
          else case f of
            Some m \<Rightarrow> toast m (renderVoiceCall (ap_voice_update (\<lambda>v. v\<lparr>vu_state := VU_idle\<rparr>) s))
          | None \<Rightarrow>
              if ap_state s \<noteq> Streaming \<or> \<not> permitted ''Audio'' s then endVoiceCall False s
              else app_post Cmd_voiceCallStart (renderVoiceCall (ap_voice_update (\<lambda>v. v\<lparr>vu_state := VU_waiting\<rparr>) s)))"

definition canRecordSession :: "RdApp \<Rightarrow> bool" where
  "canRecordSession s \<longleftrightarrow> ap_state s = Streaming \<and> permitted ''Recording'' s"

definition canSendClipboard :: "RdApp \<Rightarrow> bool" where
  "canSendClipboard s \<longleftrightarrow>
     remoteInputAllowed (ap_viewOnly s) CH_clipboard \<and> md_clipboard (ap_media s) \<and> permitted ''Clipboard'' s"

definition onRecordingState :: "app_env \<Rightarrow> bool \<Rightarrow> int option \<Rightarrow> RdApp \<Rightarrow> RdApp" where
  "onRecordingState e active startedAt s =
     (let was = md_recording (ap_media s);
          s1 = ap_media_update (\<lambda>m. m\<lparr>md_recording := active,
                 md_recordingStart := (if active then (case startedAt of None \<Rightarrow> ae_now e | Some t \<Rightarrow> t) else 0)\<rparr>) s;
          s2 = (if was \<noteq> active \<and> permitted ''Recording'' s1 then app_post (Cmd_clientRecording active) s1 else s1)
      in if active then sticky_toast (js ''Recording locally '' @ [0x2014] @ js '' nothing is uploaded'') s2
         else let s3 = ap_media_update (\<lambda>m. m\<lparr>md_recorder := None\<rparr>) s2
              in if was then toast (js ''Recording saved locally'') s3 else s3)"

definition NO_RECORDING :: jsstr where "NO_RECORDING = js ''Session recording is not permitted by this device''"

text \<open>From the choice of the surface on; \<open>ae_recorder\<close> is the reason \<open>start\<close> gives when it fails.\<close>

definition startRecorder :: "app_env \<Rightarrow> RdApp \<Rightarrow> RdApp" where
  "startRecorder e s =
     (if \<not> canRecordSession s then toast NO_RECORDING s
      else
        (let r = md_nextRecorder (ap_media s);
             s1 = app_do [AO_recorderStart r] (ap_media_update (\<lambda>m. m\<lparr>md_nextRecorder := Suc r\<rparr>) s)
         in case ae_recorder e of
              Some reason \<Rightarrow> toast reason (app_do [AO_recorderClose r] s1)
            | None \<Rightarrow> ap_media_update (\<lambda>m. m\<lparr>md_recorder := Some r\<rparr>) (onRecordingState e True (Some (ae_now e)) s1)))"

definition toggleRecording :: "app_env \<Rightarrow> RdApp \<Rightarrow> RdApp" where
  "toggleRecording e s =
     (if md_recording (ap_media s)
      then (case md_recorder (ap_media s) of None \<Rightarrow> s | Some r \<Rightarrow> app_do [AO_recorderStop r] s)
      else if \<not> canRecordSession s then toast NO_RECORDING s
      else if md_enabled (ap_media s) \<and> permitted ''Audio'' s \<and> md_audio (ap_media s)
      then (app_do [AO_audioResume] s)\<lparr>ap_waits := ap_waits s @ [AW_recording (ap_epoch s)]\<rparr>
      else startRecorder e s)"

definition recordingResumed :: "app_env \<Rightarrow> nat \<Rightarrow> bool \<Rightarrow> RdApp \<Rightarrow> RdApp" where
  "recordingResumed e epoch resumed s =
     (if epoch \<noteq> ap_epoch s then s
      else if \<not> canRecordSession s then toast NO_RECORDING s
      else startRecorder e (ap_media_update (\<lambda>m. m\<lparr>md_started := resumed\<rparr>) s))"

definition NO_CLIPBOARD :: jsstr where "NO_CLIPBOARD = js ''Text clipboard is disabled for this session''"

definition sendClipboard :: "RdApp \<Rightarrow> RdApp" where
  "sendClipboard s =
     (if \<not> canSendClipboard s then toast NO_CLIPBOARD s else s\<lparr>ap_waits := ap_waits s @ [AW_clipboard (ap_epoch s)]\<rparr>)"

definition clipboardRead :: "nat \<Rightarrow> jsstr option \<Rightarrow> RdApp \<Rightarrow> RdApp" where
  "clipboardRead epoch text0 s =
     (if epoch \<noteq> ap_epoch s then s
      else if \<not> canSendClipboard s then toast NO_CLIPBOARD s
      else case text0 of
        None \<Rightarrow> toast (js ''Clipboard unavailable (permission denied?)'') s
      | Some t \<Rightarrow> toast (js ''Clipboard sent'') (app_post (Cmd_clipboardText t) s))"

definition audioResumed :: "nat \<Rightarrow> bool \<Rightarrow> RdApp \<Rightarrow> RdApp" where
  "audioResumed epoch resumed s =
     (if epoch \<noteq> ap_epoch s \<or> \<not> permitted ''Audio'' s then s
      else toast (if resumed then js ''Remote audio ready'' else js ''Browser blocked remote audio playback'')
             (ap_media_update (\<lambda>m. m\<lparr>md_started := resumed\<rparr>) s))"

datatype app_answer = AA_done bool | AA_text "jsstr option" | AA_prepared "jsstr option"

definition settle :: "app_env \<Rightarrow> app_wait \<Rightarrow> app_answer \<Rightarrow> RdApp \<Rightarrow> RdApp" where
  "settle e w a s =
     (case (w, a) of
        (AW_audio n, AA_done b) \<Rightarrow> audioResumed n b s
      | (AW_recording n, AA_done b) \<Rightarrow> recordingResumed e n b s
      | (AW_clipboard n, AA_text t) \<Rightarrow> clipboardRead n t s
      | (AW_clipboardWrite n, AA_done b) \<Rightarrow>
          if \<not> b \<and> n = ap_epoch s then toast (js ''Remote clipboard received (press Ctrl+V on this page to sync)'') s else s
      | (AW_voice t n, AA_prepared f) \<Rightarrow> voicePrepared t n f s
      | _ \<Rightarrow> s)"

definition app_settled :: "app_env \<Rightarrow> nat \<Rightarrow> app_answer \<Rightarrow> RdApp \<Rightarrow> RdApp" where
  "app_settled e i a s =
     (case js_at (ap_waits s) i of
        None \<Rightarrow> s
      | Some w \<Rightarrow> settle e w a (s\<lparr>ap_waits := take i (ap_waits s) @ drop (Suc i) (ap_waits s)\<rparr>))"

end
