(* ===== verification/App_System.thy ===== *)
theory App_System
  imports App Step_System
begin

text \<open>
  The menus of \<open>RdApp\<close> (\<open>webclient/src/ui/app.ts\<close>), what its buttons do, how it starts, and the
  whole application as a system: a call is something the user does, a message of the worker, a
  timer, a settled promise or a callback of an object the shell created, together with the
  answers the browser gives meanwhile.
\<close>

section \<open>Popovers\<close>

fun same_anchor :: "Popover \<Rightarrow> Popover \<Rightarrow> bool" where
  "same_anchor (Pop_monitors _) (Pop_monitors _) = True"
| "same_anchor (Pop_more _) (Pop_more _) = True"
| "same_anchor Pop_fit Pop_fit = True"
| "same_anchor Pop_keys Pop_keys = True"
| "same_anchor Pop_type Pop_type = True"
| "same_anchor _ _ = False"

definition openPop :: "Popover \<Rightarrow> RdApp \<Rightarrow> RdApp" where
  "openPop p s =
     (case ap_pop s of
        None \<Rightarrow> s\<lparr>ap_pop := Some p\<rparr>
      | Some q \<Rightarrow> if same_anchor q p then closePop s else s\<lparr>ap_pop := Some p\<rparr>)"

definition monitor_items :: "app_env \<Rightarrow> RdApp \<Rightarrow> MonitorItems" where
  "monitor_items e s =
     (let d = current_display s;
          virtual = parseVirtualDisplayCapability (ae_parse e) (pv_platform (ap_peer s)) (pv_additions (ap_peer s));
          isVirtual = (virtual \<noteq> None \<and> (case Option.bind d di_originalResolution of
                         None \<Rightarrow> False | Some r \<Rightarrow> res_width r = 0 \<and> res_height r = 0));
          fit = \<lparr>res_width = js_round (rc_width (ae_viewport e)), res_height = js_round (rc_height (ae_viewport e))\<rparr>;
          choices = (case d of None \<Rightarrow> []
                     | Some di \<Rightarrow> buildResolutionChoices (di_resolutions di) (di_originalResolution di) (Some fit) isVirtual)
      in \<lparr>mm_online = map di_online (pv_displays (ap_peer s)), mm_resolutions = choices, mm_virtual = virtual,
          mm_custom = (choices \<noteq> [] \<and> isVirtual)\<rparr>)"

definition security_input :: "RdApp \<Rightarrow> SecurityControlMenuInput" where
  "security_input s =
     (let c = ap_sec s
      in \<lparr>sm_platform = pv_platform (ap_peer s), sm_permissions = ap_permissions s, sm_privacyModeSupported = sc_supported c,
          sm_privacyModeImpls = sc_impls c, sm_privacyModeOn = sc_privacyOn c, sm_activePrivacyImplKey = Some (sc_activeImpl c),
          sm_blockInputOn = sc_blockOn c, sm_lockAfterSessionEnd = sc_lockAfter c, sm_viewOnly = ap_viewOnly s\<rparr>)"

definition more_items :: "app_env \<Rightarrow> RdApp \<Rightarrow> MoreItems" where
  "more_items e s =
     (let cursor = canUseRemoteCursor (pv_platform (ap_peer s)) (current_display s);
          clip = permitted ''Clipboard'' s
      in \<lparr>mo_codecs = dp_codecs (ap_dp s), mo_cursor = cursor, mo_window = (cursor \<and> 1 < length (pv_displays (ap_peer s))),
          mo_security = map mi_id (buildSecurityControlMenu (security_input s)),
          mo_terminal = (pv_terminal (ap_peer s) \<and> remoteInputAllowed (ap_viewOnly s) CH_terminal),
          mo_camera = pv_camera (ap_peer s),
          mo_audio = (md_audio (ap_media s) \<and> permitted ''Audio'' s),
          mo_clipboard = clip, mo_sendClipboard = (clip \<and> remoteInputAllowed (ap_viewOnly s) CH_clipboard),
          mo_record = (permitted ''Recording'' s \<and> ae_mediaRecorder e)\<rparr>)"

section \<open>The monitor menu\<close>

datatype monitor_action =
    MM_tile nat
  | MM_resolution nat
  | MM_custom "jsstr option"
  | MM_virtual nat
  | MM_add
  | MM_remove
  | MM_all

text \<open>\<open>/^(\d{2,5})\s*[x\<times>]\s*(\d{2,5})$/i\<close> on the trimmed answer.\<close>

definition size_part :: "jsstr \<Rightarrow> bool" where
  "size_part d \<longleftrightarrow> 2 \<le> length d \<and> length d \<le> 5"

definition parse_size :: "jsstr \<Rightarrow> (int \<times> int) option" where
  "parse_size raw =
     (let t = js_trim raw;
          w = takeWhile is_dec_unit t;
          r1 = dropWhile js_ws (dropWhile is_dec_unit t)
      in case r1 of
           [] \<Rightarrow> None
         | c # r2 \<Rightarrow>
             (let h = dropWhile js_ws r2
              in if (c = 120 \<or> c = 88 \<or> c = 0xD7) \<and> size_part w \<and> size_part h \<and> list_all is_dec_unit h
                 then Some (int (radix_val 10 w), int (radix_val 10 h)) else None))"

definition post_resolution :: "int \<Rightarrow> int \<Rightarrow> RdApp \<Rightarrow> RdApp" where
  "post_resolution w h s =
     app_post (Cmd_displayResolution (Num (of_int (pv_current (ap_peer s)))) (Num (of_int w)) (Num (of_int h))) s"

definition post_virtual :: "int \<Rightarrow> bool \<Rightarrow> RdApp \<Rightarrow> RdApp" where
  "post_virtual d on s =
     closePop (toast (js ''Virtual-display change requested'') (app_post (Cmd_virtualDisplay (Num (of_int d)) on) s))"

definition is_rustdesk :: "VirtualDisplayCapability \<Rightarrow> bool" where
  "is_rustdesk v \<longleftrightarrow> vd_impl v = js ''rustdesk_idd''"

definition monitorAction :: "MonitorItems \<Rightarrow> monitor_action \<Rightarrow> RdApp \<Rightarrow> RdApp" where
  "monitorAction mm a s =
     (case a of
        MM_tile i \<Rightarrow> if js_at (mm_online mm) i = Some True then closePop (app_post (Cmd_switchDisplay (int i)) s) else s
      | MM_resolution i \<Rightarrow>
          (case js_at (mm_resolutions mm) i of
             None \<Rightarrow> s
           | Some r \<Rightarrow> closePop (toast (js ''Resolution change requested'') (post_resolution (res_width r) (res_height r) s)))
      | MM_custom answer \<Rightarrow>
          (case (mm_custom mm, Option.bind answer parse_size) of
             (True, Some (w, h)) \<Rightarrow>
               if w < 1 \<or> h < 1 \<or> 16384 < w \<or> 16384 < h then s else closePop (post_resolution w h s)
           | _ \<Rightarrow> s)
      | MM_virtual i \<Rightarrow>
          (case mm_virtual mm of
             Some v \<Rightarrow> if is_rustdesk v \<and> 1 \<le> i \<and> i \<le> 4 then post_virtual (int i) (int i \<notin> set (vd_rustdeskIds v)) s else s
           | None \<Rightarrow> s)
      | MM_add \<Rightarrow> (case mm_virtual mm of Some v \<Rightarrow> if is_rustdesk v then s else post_virtual 0 True s | None \<Rightarrow> s)
      | MM_remove \<Rightarrow> (case mm_virtual mm of Some v \<Rightarrow> if is_rustdesk v then s else post_virtual 0 False s | None \<Rightarrow> s)
      | MM_all \<Rightarrow> (case mm_virtual mm of Some _ \<Rightarrow> post_virtual (- 1) False s | None \<Rightarrow> s))"

section \<open>The menu of options\<close>

definition privacy_id :: "jsstr \<Rightarrow> jsstr option" where
  "privacy_id i = (if js_startsWith i (js ''privacy:'') then Some (drop 8 i) else None)"

definition togglePrivacy :: "app_env \<Rightarrow> jsstr \<Rightarrow> RdApp \<Rightarrow> RdApp" where
  "togglePrivacy e implKey s =
     (let c = ap_sec s; on = (\<not> (sc_privacyOn c \<and> sc_activeImpl c = implKey))
      in if sc_privacyPending c then s
         else if on \<and> \<not> ae_confirm e then s
         else closePop (sticky_toast ((if on then js ''Enabling'' else js ''Disabling'') @ js '' privacy mode'' @ [0x2026])
                (app_post (Cmd_privacyMode implKey on)
                  (ap_sec_update (\<lambda>d. d\<lparr>sc_privacyPending := True, sc_activeImpl := implKey\<rparr>) s))))"

definition toggleBlockInput :: "app_env \<Rightarrow> RdApp \<Rightarrow> RdApp" where
  "toggleBlockInput e s =
     (let on = (\<not> sc_blockOn (ap_sec s))
      in if sc_blockPending (ap_sec s) then s
         else if on \<and> \<not> ae_confirm e then s
         else closePop (sticky_toast ((if on then js ''Blocking'' else js ''Restoring'') @ js '' remote keyboard and mouse'' @ [0x2026])
                (app_post (Cmd_blockInput on) (ap_sec_update (\<lambda>d. d\<lparr>sc_blockPending := True\<rparr>) s))))"

definition toggleLockAfter :: "RdApp \<Rightarrow> RdApp" where
  "toggleLockAfter s =
     (let on = (\<not> sc_lockAfter (ap_sec s));
          s1 = app_post (Cmd_lockAfterSessionEnd on) (ap_sec_update (\<lambda>d. d\<lparr>sc_lockAfter := on\<rparr>) s)
      in closePop (toast ((if on then js ''Lock-after-disconnect request sent'' else js ''Lock-after-disconnect disable request sent'') @
           js '' (best effort; the remote device does not acknowledge this setting)'') s1))"

definition activateSecurityControl :: "app_env \<Rightarrow> jsstr \<Rightarrow> RdApp \<Rightarrow> RdApp" where
  "activateSecurityControl e i s =
     (if i = js ''restart'' then beginRemoteRestart e (closePop s)
      else if i = js ''elevation''
      then (if \<not> ae_confirm e then s
            else closePop (sticky_toast (js ''Elevation requested '' @ [0x2014] @ js '' waiting for approval on the remote device'')
                   (app_post Cmd_requestElevation s)))
      else case privacy_id i of
        Some implKey \<Rightarrow> togglePrivacy e implKey s
      | None \<Rightarrow>
          if i = js ''blockInput'' then toggleBlockInput e s
          else if i = js ''lockScreen''
          then closePop (toast (if app_sent buildLockScreenKeyCommand s then js ''Lock command sent'' else js ''Lock command not sent'')
                 (app_post buildLockScreenKeyCommand s))
          else if i = js ''lockAfterSessionEnd'' then toggleLockAfter s
          else s)"

fun codec_name :: "CodecName \<Rightarrow> jsstr" where
  "codec_name CN_auto = js ''auto''"
| "codec_name CN_vp9 = js ''vp9''"
| "codec_name CN_h264 = js ''h264''"
| "codec_name CN_h265 = js ''h265''"
| "codec_name CN_vp8 = js ''vp8''"
| "codec_name CN_av1 = js ''av1''"

datatype (plugins only: size) more_action =
    MA_refresh
  | MA_fullscreen
  | MA_quality int
  | MA_customQuality int
  | MA_adaptiveFps
  | MA_customFps int
  | MA_codec CodecName
  | MA_option DisplayOption
  | MA_cursorScale
  | MA_security jsstr
  | MA_terminal
  | MA_camera
  | MA_audioResume
  | MA_audioToggle
  | MA_audioMute
  | MA_audioVolume int
  | MA_clipboardToggle
  | MA_clipboardSync
  | MA_recording

definition offered :: "MoreItems \<Rightarrow> more_action \<Rightarrow> bool" where
  "offered mo a =
     (case a of
        MA_quality v \<Rightarrow> v \<in> set [QUALITY_best, QUALITY_balanced, QUALITY_speed]
      | MA_customQuality v \<Rightarrow> 10 \<le> v \<and> v \<le> 100
      | MA_customFps v \<Rightarrow> 5 \<le> v \<and> v \<le> 120 \<and> 5 dvd v
      | MA_codec c \<Rightarrow> c \<in> set (mo_codecs mo)
      | MA_option DO_followRemoteWindow \<Rightarrow> mo_window mo
      | MA_option _ \<Rightarrow> mo_cursor mo
      | MA_cursorScale \<Rightarrow> mo_cursor mo
      | MA_security i \<Rightarrow> i \<in> set (mo_security mo)
      | MA_terminal \<Rightarrow> mo_terminal mo
      | MA_camera \<Rightarrow> mo_camera mo
      | MA_audioResume \<Rightarrow> mo_audio mo
      | MA_audioToggle \<Rightarrow> mo_audio mo
      | MA_audioMute \<Rightarrow> mo_audio mo
      | MA_audioVolume v \<Rightarrow> mo_audio mo \<and> 0 \<le> v \<and> v \<le> 100
      | MA_clipboardToggle \<Rightarrow> mo_clipboard mo
      | MA_clipboardSync \<Rightarrow> mo_sendClipboard mo
      | MA_recording \<Rightarrow> mo_record mo
      | _ \<Rightarrow> True)"

definition toggleAdaptiveFps :: "RdApp \<Rightarrow> RdApp" where
  "toggleAdaptiveFps s =
     (let s1 = ap_dp_update (\<lambda>q. q\<lparr>dp_adaptive := \<not> dp_adaptive q,
                 dp_fps := \<lparr>fps_target = of_int (dp_customFps q), fps_stable = 0\<rparr>,
                 dp_lastDropped := (case ap_stats s of None \<Rightarrow> 0 | Some st \<Rightarrow> st_framesDropped st)\<rparr>) s;
          s2 = app_post (Cmd_customFps (Num (fps_target (dp_fps (ap_dp s1))))) s1
      in closePop (toast (if dp_adaptive (ap_dp s2) then js ''Adaptive FPS enabled; bitrate remains host-managed''
                          else js ''Fixed FPS enabled'') s2))"

definition app_setCustomFps :: "int \<Rightarrow> RdApp \<Rightarrow> RdApp" where
  "app_setCustomFps v s =
     app_post (Cmd_customFps (Num (of_int v)))
       (ap_dp_update (\<lambda>q. q\<lparr>dp_customFps := v, dp_fps := \<lparr>fps_target = of_int v, fps_stable = 0\<rparr>\<rparr>) s)"

definition chooseCodec :: "CodecName \<Rightarrow> RdApp \<Rightarrow> RdApp" where
  "chooseCodec c s =
     (case codecPreferenceValue (codec_name c) of
        None \<Rightarrow> s
      | Some prefer0 \<Rightarrow>
          if c \<notin> set (dp_codecs (ap_dp s)) then s
          else closePop (app_post (Cmd_preferredCodec prefer0) (ap_dp_update (\<lambda>q. q\<lparr>dp_codec := c\<rparr>) s)))"

definition toggleDisplayOption :: "DisplayOption \<Rightarrow> RdApp \<Rightarrow> RdApp" where
  "toggleDisplayOption a s =
     (let q = ap_dp s
      in case a of
        DO_showRemoteCursor \<Rightarrow>
          (let on = (\<not> dp_showCursor q);
               s1 = app_post (Cmd_displayOption a on) (ap_dp_update (\<lambda>r. r\<lparr>dp_showCursor := on\<rparr>) s)
           in closePop (if on then s1 else ap_dp_update (\<lambda>r. r\<lparr>dp_cursorHidden := True\<rparr>) s1))
      | DO_followRemoteCursor \<Rightarrow>
          (let on = (\<not> dp_followCursor q);
               s1 = ap_dp_update (\<lambda>r. r\<lparr>dp_followCursor := on\<rparr>) s;
               s2 = (if on \<and> \<not> dp_showCursor q
                     then app_post (Cmd_displayOption DO_showRemoteCursor True) (ap_dp_update (\<lambda>r. r\<lparr>dp_showCursor := True\<rparr>) s1)
                     else s1)
           in closePop (app_post (Cmd_displayOption a on) s2))
      | DO_followRemoteWindow \<Rightarrow>
          (let on = (\<not> dp_followWindow q)
           in closePop (app_post (Cmd_displayOption a on) (ap_dp_update (\<lambda>r. r\<lparr>dp_followWindow := on\<rparr>) s))))"

definition toggleAudio :: "RdApp \<Rightarrow> RdApp" where
  "toggleAudio s =
     (let on = (\<not> md_enabled (ap_media s));
          s1 = app_post (Cmd_remoteAudio on) (ap_media_update (\<lambda>m. m\<lparr>md_enabled := on\<rparr>) s);
          s2 = (if on then resumeAudioFromUserGesture s1
                else if md_audio (ap_media s1) then app_do [AO_audioReset] s1 else s1)
      in closePop (toast (if on then js ''Remote audio enabled'' else js ''Remote audio disabled'') s2))"

definition toggleMute :: "RdApp \<Rightarrow> RdApp" where
  "toggleMute s =
     (let on = (\<not> md_muted (ap_media s));
          s1 = ap_media_update (\<lambda>m. m\<lparr>md_muted := on\<rparr>) s;
          s2 = (if md_audio (ap_media s1) then app_do [AO_audioMuted on] s1 else s1)
      in closePop (toast (if on then js ''Remote audio muted'' else js ''Remote audio unmuted'') s2))"

definition setAudioVolume :: "int \<Rightarrow> RdApp \<Rightarrow> RdApp" where
  "setAudioVolume v s =
     (let x = of_int v / 100; s1 = ap_media_update (\<lambda>m. m\<lparr>md_volume := x\<rparr>) s
      in if md_audio (ap_media s1) then app_do [AO_audioVolume x] s1 else s1)"

definition toggleClipboard :: "RdApp \<Rightarrow> RdApp" where
  "toggleClipboard s =
     (let on = (\<not> md_clipboard (ap_media s));
          s1 = app_post (Cmd_clipboardEnabled on) (ap_media_update (\<lambda>m. m\<lparr>md_clipboard := on\<rparr>) s);
          s2 = (if on then s1 else removeClipboardSyncOffer s1)
      in closePop (toast (if on then js ''Text clipboard enabled'' else js ''Text clipboard disabled'') s2))"

definition moreAction :: "app_env \<Rightarrow> more_action \<Rightarrow> RdApp \<Rightarrow> RdApp" where
  "moreAction e a s =
     (case a of
        MA_refresh \<Rightarrow> closePop (app_post Cmd_refresh s)
      | MA_fullscreen \<Rightarrow> closePop (app_do [AO_fullscreen] s)
      | MA_quality v \<Rightarrow> closePop (app_post (Cmd_quality v) (ap_dp_update (\<lambda>q. q\<lparr>dp_quality := v\<rparr>) s))
      | MA_customQuality v \<Rightarrow> app_post (Cmd_customQuality (Num (of_int v))) (ap_dp_update (\<lambda>q. q\<lparr>dp_customQuality := v\<rparr>) s)
      | MA_adaptiveFps \<Rightarrow> toggleAdaptiveFps s
      | MA_customFps v \<Rightarrow> app_setCustomFps v s
      | MA_codec c \<Rightarrow> chooseCodec c s
      | MA_option d \<Rightarrow> toggleDisplayOption d s
      | MA_cursorScale \<Rightarrow> closePop (ap_dp_update (\<lambda>q. q\<lparr>dp_scale := (if 1 < dp_scale q then 1 else 2)\<rparr>) s)
      | MA_security i \<Rightarrow> activateSecurityControl e i s
      | MA_terminal \<Rightarrow> openTerminalPanel (closePop s)
      | MA_camera \<Rightarrow> openCameraPanel (closePop s)
      | MA_audioResume \<Rightarrow> closePop (resumeAudioFromUserGesture s)
      | MA_audioToggle \<Rightarrow> toggleAudio s
      | MA_audioMute \<Rightarrow> toggleMute s
      | MA_audioVolume v \<Rightarrow> setAudioVolume v s
      | MA_clipboardToggle \<Rightarrow> toggleClipboard s
      | MA_clipboardSync \<Rightarrow> closePop (sendClipboard (removeClipboardSyncOffer s))
      | MA_recording \<Rightarrow> closePop (toggleRecording e s))"

definition keysAction :: "nat \<Rightarrow> RdApp \<Rightarrow> RdApp" where
  "keysAction i s =
     (let done0 = (\<lambda>m t. closePop (toast (js m) t))
      in if i = 0 then done0 ''Ctrl+Alt+Del sent'' (app_post Cmd_ctrlAltDel s)
         else if i = 1 then done0 ''Windows key sent'' (pressControl 23 None s)
         else if i = 2 then done0 ''PrintScreen sent'' (pressControl 57 None s)
         else if i = 3 then done0 ''Escape sent'' (pressControl 8 None s)
         else if i = 4 then done0 ''Tab sent'' (pressControl 31 None s)
         else s)"

definition typeText :: "jsstr \<Rightarrow> RdApp \<Rightarrow> RdApp" where
  "typeText t s =
     (if t = [] then s
      else closePop (toast (js ''Typed '' @ radix_str 10 (length t) @ js '' character'' @ (if length t = 1 then [] else js ''s''))
             (fold app_post (buildTypeCommands t) s)))"

section \<open>What the user does\<close>

datatype (plugins only: size) user_action =
    UA_peerId jsstr
  | UA_password jsstr
  | UA_save bool
  | UA_connect
  | UA_cancelReconnect
  | UA_disconnect
  | UA_unload
  | UA_viewOnly
  | UA_latchCtrl
  | UA_latchAlt
  | UA_delete
  | UA_touchMode bool
  | UA_input UiCommand
  | UA_clipboard
  | UA_side SideTab
  | UA_edge SideTab
  | UA_closeSide
  | UA_chat jsstr
  | UA_voiceCall
  | UA_monitors
  | UA_more
  | UA_fitMenu
  | UA_keys
  | UA_type
  | UA_dismissPop
  | UA_monitor monitor_action
  | UA_option more_action
  | UA_fit bool
  | UA_key nat
  | UA_text jsstr
  | UA_syncNow
  | UA_notNow

definition enabled :: "string \<Rightarrow> RdApp \<Rightarrow> bool" where
  "enabled i s \<longleftrightarrow> \<not> ap_disabled s (js i)"

definition disconnectClick :: "app_env \<Rightarrow> RdApp \<Rightarrow> RdApp" where
  "disconnectClick e s =
     app_setState e Closed None (app_post Cmd_disconnect (destroyAdvancedPanels (releaseRemoteSecurityState
       (endVoiceCall True (clearRestartFlow (setLoggedOutFlag e True s))))))"

definition sidePanel_enabled :: "SideTab \<Rightarrow> bool \<Rightarrow> RdApp \<Rightarrow> bool" where
  "sidePanel_enabled tab edge s = (tab \<noteq> ST_files \<or> \<not> ap_disabled s (if edge then EDGE_FILES else js ''rd-btn-files''))"

definition user_step :: "app_env \<Rightarrow> user_action \<Rightarrow> RdApp \<Rightarrow> RdApp" where
  "user_step e a s =
     (case a of
        UA_peerId t \<Rightarrow>
          if ch_busy (ap_chrome s) then s
          else hydrateSavedPassword (normalizePeerId t) (ap_chrome_update (\<lambda>c. c\<lparr>ch_idInput := normalizePeerId t\<rparr>) s)
      | UA_password t \<Rightarrow> if ch_busy (ap_chrome s) then s else ap_chrome_update (\<lambda>c. c\<lparr>ch_password := t\<rparr>) s
      | UA_save b \<Rightarrow> ap_chrome_update (\<lambda>c. c\<lparr>ch_save := b\<rparr>) s
      | UA_connect \<Rightarrow> if ch_busy (ap_chrome s) then s else onConnectClick e s
      | UA_cancelReconnect \<Rightarrow> if ch_cancelHidden (ap_chrome s) then s else cancelRestartReconnect e s
      | UA_disconnect \<Rightarrow> disconnectClick e s
      | UA_unload \<Rightarrow> app_post Cmd_disconnect (releaseRemoteSecurityState (endVoiceCall True s))
      | UA_viewOnly \<Rightarrow> toggleViewOnly s
      | UA_latchCtrl \<Rightarrow> if enabled ''rd-lat-ctrl'' s then setLatches (\<not> ap_latchCtrl s) (ap_latchAlt s) s else s
      | UA_latchAlt \<Rightarrow> if enabled ''rd-lat-alt'' s then setLatches (ap_latchCtrl s) (\<not> ap_latchAlt s) s else s
      | UA_delete \<Rightarrow> if enabled ''rd-key-del'' s then pressControl 5 (Some (js ''Delete sent'')) s else s
      | UA_touchMode b \<Rightarrow> s\<lparr>ap_touch := b\<rparr>
      | UA_input cmd \<Rightarrow> if ap_input s \<noteq> None \<and> sendsRemoteInput cmd then app_post cmd s else s
      | UA_clipboard \<Rightarrow> if enabled ''rd-btn-clip'' s then sendClipboard s else s
      | UA_side tab \<Rightarrow> if sidePanel_enabled tab False s then openSide tab s else s
      | UA_edge tab \<Rightarrow> if sidePanel_enabled tab True s then openSide tab s else s
      | UA_closeSide \<Rightarrow> closeSide s
      | UA_chat t \<Rightarrow> sendChatFromInput e t s
      | UA_voiceCall \<Rightarrow> if vm_disabled (vu_button (ap_voice s)) then s else toggleVoiceCall s
      | UA_monitors \<Rightarrow> openPop (Pop_monitors (monitor_items e s)) s
      | UA_more \<Rightarrow> openPop (Pop_more (more_items e s)) s
      | UA_fitMenu \<Rightarrow> openPop Pop_fit s
      | UA_keys \<Rightarrow> if enabled ''rd-btn-cad'' s then openPop Pop_keys s else s
      | UA_type \<Rightarrow> if enabled ''rd-btn-type'' s then openPop Pop_type s else s
      | UA_dismissPop \<Rightarrow> closePop s
      | UA_monitor m \<Rightarrow> (case ap_pop s of Some (Pop_monitors mm) \<Rightarrow> monitorAction mm m s | _ \<Rightarrow> s)
      | UA_option m \<Rightarrow> (case ap_pop s of Some (Pop_more mo) \<Rightarrow> if offered mo m then moreAction e m s else s | _ \<Rightarrow> s)
      | UA_fit b \<Rightarrow> if ap_pop s = Some Pop_fit then closePop (s\<lparr>ap_fit := b\<rparr>) else s
      | UA_key i \<Rightarrow> if ap_pop s = Some Pop_keys then keysAction i s else s
      | UA_text t \<Rightarrow> if ap_pop s = Some Pop_type then typeText t s else s
      | UA_syncNow \<Rightarrow> if md_prompt (ap_media s) then sendClipboard (removeClipboardSyncOffer s) else s
      | UA_notNow \<Rightarrow> removeClipboardSyncOffer s)"

section \<open>The system\<close>

datatype (plugins only: size) app_call =
    AC_user user_action
  | AC_event SessionEvent
  | AC_pcm "jsnum list" int int
  | AC_workerError jsstr
  | AC_flushed nat
  | AC_timer FlowTimer nat
  | AC_settled nat app_answer
  | AC_recorder nat bool "int option"
  | AC_voiceFormat int int
  | AC_voiceFrame bytes
  | AC_voiceError jsstr
  | AC_mseError jsstr
  | AC_dispose

definition dispose :: "RdApp \<Rightarrow> RdApp" where
  "dispose s = closePop (destroyAdvancedPanels (destroyFilePanel (app_teardown False (clearRestartFlow s))))"

definition terminateFlushed :: "nat \<Rightarrow> RdApp \<Rightarrow> RdApp" where
  "terminateFlushed w s =
     (if w \<in> set (ap_flushing s) then (app_do [AO_terminate w] s)\<lparr>ap_flushing := remove1 w (ap_flushing s)\<rparr> else s)"

definition app_step :: "app_env \<times> app_call \<Rightarrow> RdApp \<Rightarrow> RdApp" where
  "app_step ec s =
     (let e = fst ec
      in case snd ec of
        AC_user a \<Rightarrow> user_step e a s
      | AC_event ev \<Rightarrow> if ap_worker s = None then s else app_onEvent e ev s
      | AC_pcm pcm r c \<Rightarrow> if ap_worker s = None then s else onPcm pcm r c s
      | AC_workerError m \<Rightarrow>
          if ap_worker s = None then s
          else app_setState e ErrorState (Some (if m \<noteq> [] then m else js ''session worker failed'')) s
      | AC_flushed w \<Rightarrow> terminateFlushed w s
      | AC_timer k f \<Rightarrow> flowTimer e k f s
      | AC_settled i a \<Rightarrow> app_settled e i a s
      | AC_recorder epoch active t \<Rightarrow> if epoch = ap_epoch s then onRecordingState e active t s else s
      | AC_voiceFormat r c \<Rightarrow> if vu_ctl (ap_voice s) then app_post (Cmd_voiceAudioFormat r c) s else s
      | AC_voiceFrame d \<Rightarrow> if vu_ctl (ap_voice s) then app_post (Cmd_voiceAudioFrame d) s else s
      | AC_voiceError m \<Rightarrow> if vu_ctl (ap_voice s) then endVoiceCall True (toast m s) else s
      | AC_mseError m \<Rightarrow> app_post Cmd_refresh (toast m s)
      | AC_dispose \<Rightarrow> dispose s)"

definition newRdApp :: "RdGlobalConfig option \<Rightarrow> LocalStorage \<Rightarrow> bool \<Rightarrow> RdApp" where
  "newRdApp cfg st voice =
     \<lparr>ap_cfg = cfg, ap_workerUrl = [], ap_fixedPeerId = [], ap_peerId = [], ap_worker = None, ap_next = 0, ap_flushing = [],
      ap_input = None, ap_canvas = 0, ap_transferred = False, ap_state = Closed, ap_epoch = 0, ap_stats = None, ap_streamStart = 0,
      ap_permissions = Map.empty, ap_disabled = (\<lambda>_. False), ap_sec = no_security, ap_flow = None, ap_timers = [], ap_nextFlow = 0,
      ap_file = False, ap_terminal = False, ap_camera = False, ap_viewOnly = False, ap_latchCtrl = False, ap_latchAlt = False,
      ap_touch = False, ap_fit = True, ap_chat = [], ap_unread = 0, ap_pop = None, ap_waits = [], ap_storage = st, ap_loggedOut = False,
      ap_peer = \<lparr>pv_displays = [], pv_current = 0, pv_who = [], pv_platform = [], pv_additions = [], pv_terminal = False, pv_camera = False\<rparr>,
      ap_creds = \<lparr>cr_pending = None, cr_withSaved = False, cr_session = None, cr_reconnect = None\<rparr>,
      ap_dp = \<lparr>dp_quality = QUALITY_balanced, dp_customQuality = 75, dp_customFps = 30, dp_fps = \<lparr>fps_target = 30, fps_stable = 0\<rparr>,
        dp_adaptive = False, dp_lastDropped = 0, dp_codecs = [CN_auto], dp_codec = CN_auto, dp_showCursor = False, dp_followCursor = False,
        dp_followWindow = False, dp_scale = 1, dp_hot = (0, 0), dp_cursorHidden = True, dp_cursorAt = (0, 0)\<rparr>,
      ap_media = \<lparr>md_audio = False, md_recorder = None, md_nextRecorder = 0, md_enabled = True, md_started = False, md_muted = False,
        md_volume = 1, md_clipboard = True, md_prompt = False, md_recording = False, md_recordingStart = 0, md_mse = False\<rparr>,
      ap_voice = \<lparr>vu_ctl = False, vu_state = VU_idle, vu_attempts = \<lparr>va_generation = 0\<rparr>, vu_supported = voice,
        vu_button = voiceCallUiModel Closed True VU_idle voice\<rparr>,
      ap_chrome = \<lparr>ch_overlay = True, ch_busy = False, ch_statusHidden = True, ch_statusText = [], ch_error = [], ch_cancelHidden = True,
        ch_idInput = [], ch_password = [], ch_save = False, ch_savedHint = False, ch_side = False, ch_tab = ST_files\<rparr>,
      ap_details = \<lparr>dt_peerLabel = [0x2014], dt_peerSub = [], dt_device = [0x2014], dt_version = [0x2014], dt_user = [0x2014],
        dt_platform = [0x2014], dt_codec = [0x2014], dt_res = [0x2014], dt_fps = [0x2014], dt_bitrate = [0x2014], dt_dropped = [0x2014],
        dt_monitorsHidden = True\<rparr>,
      ap_trace = []\<rparr>"

text \<open>What \<open>mount\<close> finds: the page's parameters, the worker attribute of the script and the base address.\<close>

record mount_page =
  mt_params :: search_params
  mt_search :: jsstr
  mt_attr :: "jsstr option"
  mt_base :: jsstr
  mt_resolve :: "jsstr \<Rightarrow> jsstr \<Rightarrow> jsstr"

definition fixed_peer :: "RdGlobalConfig option \<Rightarrow> mount_page \<Rightarrow> jsstr" where
  "fixed_peer cfg pg =
     (let injected = normalizePeerId (case Option.bind cfg g_peerId of None \<Rightarrow> [] | Some p \<Rightarrow> p)
      in if injected \<noteq> [] then injected
         else case peerIdFromSearch (mt_params pg) (mt_search pg) of None \<Rightarrow> [] | Some p \<Rightarrow> p)"

definition mount :: "app_env \<Rightarrow> mount_page \<Rightarrow> RdApp \<Rightarrow> RdApp" where
  "mount e pg s =
     (let url = resolveWorkerUrl (mt_resolve pg) (Option.bind (ap_cfg s) g_workerUrl) (mt_attr pg) (mt_base pg);
          peer = fixed_peer (ap_cfg s) pg;
          s1 = s\<lparr>ap_workerUrl := url, ap_fixedPeerId := peer\<rparr>;
          s2 = (if peer = [] then s1
                else hydrateSavedPassword peer
                  (ap_details_update (\<lambda>d. d\<lparr>dt_peerLabel := peer\<rparr>) (ap_chrome_update (\<lambda>c. c\<lparr>ch_idInput := peer\<rparr>) s1)));
          saved = (case loadSavedHash (ap_storage s2) peer of Some (_ # _) \<Rightarrow> True | _ \<Rightarrow> False);
          s3 = (if peer \<noteq> [] \<and> \<not> loggedOutFromSearch (mt_params pg) (mt_search pg) \<and> saved then onConnectClick e s2 else s2)
      in case secureContextProblem e of None \<Rightarrow> s3 | Some m \<Rightarrow> setOverlayError m s3)"

definition app_init :: "RdApp \<Rightarrow> bool" where
  "app_init s \<longleftrightarrow> (\<exists>e pg cfg st voice. s = mount e pg (newRdApp cfg st voice))"

end
