(* ===== verification/App_Frame.thy ===== *)
theory App_Frame
  imports App_System
begin

text \<open>
  The frame of the application shell: most of its operations neither start nor let go of a worker,
  nor change the session state, the view-only mode or the restart flow, and all they say to the
  worker passes \<open>post\<close>. \<open>framed s t\<close> states that of the way from \<open>s\<close> to \<open>t\<close>; the rules collected
  in \<open>quiet_intros\<close> follow the operations backwards from \<open>t\<close>.
\<close>

named_theorems quiet_intros \<open>operations that keep the frame\<close>

section \<open>Harmless outputs\<close>

definition harmless :: "nat option \<Rightarrow> bool \<Rightarrow> app_out \<Rightarrow> bool" where
  "harmless cur v x =
     (case x of
        AO_worker _ _ \<Rightarrow> False
      | AO_letGo _ \<Rightarrow> False
      | AO_terminate _ \<Rightarrow> False
      | AO_viewOnly _ \<Rightarrow> False
      | AO_terminalOpen \<Rightarrow> \<not> v
      | AO_post w c \<Rightarrow> cur = Some w \<and> (v \<longrightarrow> inputChannel c = None) \<and> (case c of Cmd_connect _ \<Rightarrow> False | _ \<Rightarrow> True)
      | _ \<Rightarrow> True)"

definition busy :: "RdApp \<Rightarrow> bool" where "busy s = ch_busy (ap_chrome s)"

definition reconnect_password :: "RdApp \<Rightarrow> jsstr option" where
  "reconnect_password s = map_option password (cr_reconnect (ap_creds s))"

definition same_frame :: "RdApp \<Rightarrow> RdApp \<Rightarrow> bool" where
  "same_frame s t \<longleftrightarrow>
     ap_worker t = ap_worker s \<and> ap_next t = ap_next s \<and> ap_flushing t = ap_flushing s \<and> ap_canvas t = ap_canvas s \<and>
     ap_transferred t = ap_transferred s \<and> ap_state t = ap_state s \<and> ap_viewOnly t = ap_viewOnly s \<and> ap_flow t = ap_flow s \<and>
     ap_timers t = ap_timers s \<and> ap_nextFlow t = ap_nextFlow s \<and> busy t = busy s \<and> reconnect_password t = reconnect_password s \<and>
     ap_storage t = ap_storage s"

definition framed :: "RdApp \<Rightarrow> RdApp \<Rightarrow> bool" where
  "framed s t \<longleftrightarrow>
     same_frame s t \<and> (ap_terminal t \<longrightarrow> ap_terminal s \<or> \<not> ap_viewOnly s) \<and>
     (\<exists>xs. ap_trace t = ap_trace s @ xs \<and> list_all (harmless (ap_worker s) (ap_viewOnly s)) xs)"

lemma framed_refl [quiet_intros]: "framed s s"
  by (simp add: framed_def same_frame_def)

lemma quiet_do [quiet_intros]:
  assumes "framed s t" "list_all (harmless (ap_worker t) (ap_viewOnly t)) xs"
  shows "framed s (app_do xs t)"
proof -
  from assms(1) obtain ys where "ap_trace t = ap_trace s @ ys" "list_all (harmless (ap_worker s) (ap_viewOnly s)) ys"
    by (auto simp: framed_def)
  moreover have "same_frame s t" "ap_terminal t \<longrightarrow> ap_terminal s \<or> \<not> ap_viewOnly s"
    using assms(1) by (simp_all add: framed_def)
  ultimately show ?thesis
    using assms(2) by (simp add: framed_def app_do_def same_frame_def busy_def reconnect_password_def)
qed

lemma framed_trans: "framed s t \<Longrightarrow> framed t u \<Longrightarrow> framed s u"
  by (auto simp: framed_def same_frame_def)

text \<open>A change of fields outside the frame.\<close>

lemma quiet_same:
  assumes "framed s t" "same_frame t u" "ap_trace u = ap_trace t" "ap_terminal u \<longrightarrow> ap_terminal t \<or> \<not> ap_viewOnly t"
  shows "framed s u"
  using assms by (auto simp: framed_def same_frame_def)

lemmas frame_simps = same_frame_def busy_def reconnect_password_def

lemma quiet_fields [quiet_intros]:
  assumes "framed s t"
  shows "framed s (t\<lparr>ap_pop := p\<rparr>)" "framed s (t\<lparr>ap_unread := n\<rparr>)" "framed s (t\<lparr>ap_chat := c\<rparr>)" "framed s (t\<lparr>ap_waits := w\<rparr>)"
    "framed s (t\<lparr>ap_stats := st\<rparr>)" "framed s (t\<lparr>ap_input := i\<rparr>)" "framed s (t\<lparr>ap_file := b\<rparr>)" "framed s (t\<lparr>ap_camera := b\<rparr>)"
    "framed s (t\<lparr>ap_sec := sec\<rparr>)" "framed s (t\<lparr>ap_touch := b\<rparr>)" "framed s (t\<lparr>ap_fit := b\<rparr>)"
    "framed s (t\<lparr>ap_latchCtrl := b, ap_latchAlt := b1\<rparr>)" "framed s (t\<lparr>ap_peer := pv\<rparr>)" "framed s (t\<lparr>ap_permissions := pm\<rparr>)"
    "framed s (t\<lparr>ap_disabled := ds\<rparr>)" "framed s (t\<lparr>ap_terminal := False\<rparr>)" "framed s (t\<lparr>ap_loggedOut := b\<rparr>)"
    "framed s (t\<lparr>ap_streamStart := n1\<rparr>)" "framed s (t\<lparr>ap_peerId := pid\<rparr>)" "framed s (t\<lparr>ap_epoch := ep\<rparr>)"
    "framed s (t\<lparr>ap_chat := c, ap_unread := n\<rparr>)" "framed s (t\<lparr>ap_stats := st, ap_streamStart := n1\<rparr>)"
  by (rule quiet_same [OF assms]; simp add: frame_simps)+

lemma quiet_updates [quiet_intros]:
  assumes "framed s t"
  shows "framed s (ap_dp_update f1 t)" "framed s (ap_media_update f2 t)" "framed s (ap_voice_update f3 t)"
    "framed s (ap_details_update f4 t)" "framed s (ap_peer_update f5 t)" "framed s (ap_sec_update f6 t)"
  by (rule quiet_same [OF assms]; simp add: frame_simps)+

lemma quiet_chrome [quiet_intros]: "framed s t \<Longrightarrow> (\<And>c. ch_busy (f c) = ch_busy c) \<Longrightarrow> framed s (ap_chrome_update f t)"
  by (erule quiet_same; simp add: frame_simps)

lemma quiet_creds [quiet_intros]:
  "framed s t \<Longrightarrow> (\<And>c. map_option password (cr_reconnect (f c)) = map_option password (cr_reconnect c)) \<Longrightarrow> framed s (ap_creds_update f t)"
  by (erule quiet_same; simp add: frame_simps)

lemma quiet_if [quiet_intros]: "(b \<Longrightarrow> framed s t) \<Longrightarrow> (\<not> b \<Longrightarrow> framed s u) \<Longrightarrow> framed s (if b then t else u)"
  by simp

lemma quiet_option [quiet_intros]:
  "(x = None \<Longrightarrow> framed s t) \<Longrightarrow> (\<And>y. x = Some y \<Longrightarrow> framed s (f y)) \<Longrightarrow> framed s (case x of None \<Rightarrow> t | Some y \<Rightarrow> f y)"
  by (cases x) simp_all

lemma quiet_terminal_open [quiet_intros]:
  assumes "framed s t" "\<not> ap_viewOnly t"
  shows "framed s (t\<lparr>ap_terminal := True\<rparr>)"
proof -
  have "\<not> ap_viewOnly s" using assms by (simp add: framed_def same_frame_def)
  with assms(1) show ?thesis by (auto simp: framed_def frame_simps)
qed

section \<open>Posting\<close>

lemma passed_channel: "passed s cmd = Some c \<Longrightarrow> inputChannel c = inputChannel cmd"
  by (auto simp: passed_def with_latches_def inputChannel_def split: if_splits UiCommand.splits)

lemma passed_view_only: "passed s cmd = Some c \<Longrightarrow> ap_viewOnly s \<Longrightarrow> inputChannel c = None"
  using passed_channel [of s cmd c] by (auto simp: passed_def remoteInputAllowed_def split: if_splits option.splits)

definition is_connect :: "UiCommand \<Rightarrow> bool" where
  "is_connect c = (case c of Cmd_connect _ \<Rightarrow> True | _ \<Rightarrow> False)"

lemma passed_connect: "passed s cmd = Some c \<Longrightarrow> is_connect c = is_connect cmd"
  by (auto simp: passed_def with_latches_def is_connect_def split: if_splits UiCommand.splits)

lemma harmless_post: "harmless cur v (AO_post w c) \<longleftrightarrow> cur = Some w \<and> (v \<longrightarrow> inputChannel c = None) \<and> \<not> is_connect c"
  by (cases c) (simp_all add: harmless_def is_connect_def)

lemma quiet_post [quiet_intros]:
  assumes "framed s t" "\<not> is_connect cmd"
  shows "framed s (app_post cmd t)"
proof (cases "passed t cmd")
  case (Some c)
  show ?thesis
  proof (cases "ap_worker t")
    case (Some w)
    have "harmless (ap_worker t) (ap_viewOnly t) (AO_post w c)"
      using \<open>passed t cmd = Some c\<close> Some assms(2) by (simp add: harmless_post passed_connect passed_view_only)
    with assms(1) show ?thesis using \<open>passed t cmd = Some c\<close> Some by (simp add: app_post_def quiet_do)
  qed (use assms in \<open>simp add: app_post_def Some\<close>)
qed (use assms in \<open>simp add: app_post_def\<close>)

lemma is_connect_simps [simp]:
  "\<not> is_connect (Cmd_mouse m x y ms)" "\<not> is_connect (Cmd_key d p kk v ms)" "\<not> is_connect (Cmd_switchDisplay i)"
  "\<not> is_connect Cmd_ctrlAltDel" "\<not> is_connect Cmd_refresh" "\<not> is_connect (Cmd_quality i)" "\<not> is_connect (Cmd_clipboardText t)"
  "\<not> is_connect Cmd_disconnect" "\<not> is_connect Cmd_restartRemoteDevice" "\<not> is_connect Cmd_requestElevation"
  "\<not> is_connect (Cmd_privacyMode t b)" "\<not> is_connect (Cmd_blockInput b)" "\<not> is_connect (Cmd_lockAfterSessionEnd b)"
  "\<not> is_connect (Cmd_displayResolution j k l)" "\<not> is_connect (Cmd_virtualDisplay j b)" "\<not> is_connect (Cmd_customQuality j)"
  "\<not> is_connect (Cmd_customFps j)" "\<not> is_connect (Cmd_preferredCodec i)" "\<not> is_connect (Cmd_displayOption o1 b)"
  "\<not> is_connect (Cmd_remoteAudio b)" "\<not> is_connect (Cmd_clipboardEnabled b)" "\<not> is_connect (Cmd_clientRecording b)"
  "\<not> is_connect (Cmd_chat t)" "\<not> is_connect Cmd_voiceCallStart" "\<not> is_connect Cmd_voiceCallClose"
  "\<not> is_connect (Cmd_voiceAudioFormat i i1)" "\<not> is_connect (Cmd_voiceAudioFrame d1)" "\<not> is_connect buildLockScreenKeyCommand"
  by (simp_all add: is_connect_def buildLockScreenKeyCommand_def)

lemma not_connect_input: "sendsRemoteInput c \<Longrightarrow> \<not> is_connect c"
  by (cases c) (simp_all add: sendsRemoteInput_def inputChannel_def is_connect_def)

lemma harmless_simps [simp]:
  "harmless w v (AO_toast m b)" "harmless w v AO_hideToast" "harmless w v AO_fileOpen" "harmless w v AO_fileDestroy"
  "harmless w v AO_terminalDestroy" "harmless w v AO_cameraOpen" "harmless w v AO_cameraDestroy" "harmless w v AO_audioNew"
  "harmless w v AO_audioClose" "harmless w v AO_audioReset" "harmless w v AO_audioResume" "harmless w v (AO_audioMuted b)"
  "harmless w v (AO_audioVolume x)" "harmless w v (AO_audioPcm p i k)" "harmless w v AO_voicePrepare" "harmless w v AO_voiceStart"
  "harmless w v AO_voiceStop" "harmless w v (AO_recorderStart r)" "harmless w v (AO_recorderStop r)" "harmless w v (AO_recorderClose r)"
  "harmless w v AO_mseNew" "harmless w v (AO_msePush d b)" "harmless w v AO_mseClose" "harmless w v (AO_clipboardWrite m)"
  "harmless w v AO_fullscreen" "harmless w v AO_terminalOpen \<longleftrightarrow> \<not> v"
  by (simp_all add: harmless_def)

section \<open>The operations\<close>

lemma quiet_toast [quiet_intros]: "framed s t \<Longrightarrow> framed s (toast m t)" "framed s t \<Longrightarrow> framed s (sticky_toast m t)" "framed s t \<Longrightarrow> framed s (hideToast t)"
  by (simp_all add: toast_def sticky_toast_def hideToast_def quiet_do)

lemma quiet_overlay [quiet_intros]:
  "framed s t \<Longrightarrow> framed s (setOverlayError m t)" "framed s t \<Longrightarrow> framed s (setOverlayStatusText m t)" "framed s t \<Longrightarrow> framed s (showOverlay t)"
  "framed s t \<Longrightarrow> framed s (cancelButton b t)" "framed s t \<Longrightarrow> framed s (closeSide t)" "framed s t \<Longrightarrow> framed s (closePop t)"
  by (auto simp: setOverlayError_def setOverlayStatusText_def showOverlay_def cancelButton_def closeSide_def closePop_def
      intro!: quiet_intros split: if_splits)

lemma quiet_panels [quiet_intros]:
  assumes "framed s t"
  shows "framed s (destroyFilePanel t)" "framed s (destroyTerminalPanel t)" "framed s (destroyCameraPanel t)" "framed s (destroyAdvancedPanels t)"
    "framed s (removeClipboardSyncOffer t)" "framed s (showClipboardSyncOffer t)" "framed s (setLatches a b t)"
    "framed s (ensureFilePanel t)" "framed s (openCameraPanel t)" "framed s (openTerminalPanel t)" "framed s (openSide tab t)"
  using assms
  by (auto simp: destroyFilePanel_def destroyTerminalPanel_def destroyCameraPanel_def destroyAdvancedPanels_def
      removeClipboardSyncOffer_def showClipboardSyncOffer_def setLatches_def ensureFilePanel_def openCameraPanel_def
      openTerminalPanel_def openSide_def remoteInputAllowed_def Let_def intro!: quiet_intros)

lemma quiet_chat [quiet_intros]: "framed s t \<Longrightarrow> framed s (sendChatFromInput e m t)" "framed s t \<Longrightarrow> framed s (onChat e m t)"
  by (auto simp: sendChatFromInput_def onChat_def Let_def intro!: quiet_intros)

lemma quiet_voice [quiet_intros]:
  assumes "framed s t"
  shows "framed s (renderVoiceCall t)" "framed s (stopVoice t)" "framed s (endVoiceCall b t)"
  using assms by (auto simp: renderVoiceCall_def stopVoice_def endVoiceCall_def Let_def intro!: quiet_intros)

lemma quiet_onVoiceCall [quiet_intros]: "framed s t \<Longrightarrow> framed s (app_onVoiceCall e st d t)"
  by (cases st) (auto simp: app_onVoiceCall_def Let_def intro!: quiet_intros split: option.split list.split)

lemma quiet_media [quiet_intros]:
  assumes "framed s t"
  shows "framed s (createAudioPlayback e t)" "framed s (resumeAudioFromUserGesture t)" "framed s (pushMseFrame d k t)" "framed s (teardownMse t)"
    "framed s (closeAudio t)" "framed s (endRecording t)"
  using assms
  by (auto simp: createAudioPlayback_def resumeAudioFromUserGesture_def pushMseFrame_def teardownMse_def closeAudio_def endRecording_def Let_def
      intro!: quiet_intros)

lemma quiet_security [quiet_intros]:
  assumes "framed s t"
  shows "framed s (set_disabled ids b t)" "framed s (resetPermissions t)" "framed s (refreshSecurityToast t)"
    "framed s (releaseRemoteSecurityState t)" "framed s (clearSecurityState t)" "framed s (refreshPeerSub t)"
  using assms
  by (auto simp: set_disabled_def resetPermissions_def refreshSecurityToast_def releaseRemoteSecurityState_def clearSecurityState_def
      refreshPeerSub_def Let_def intro!: quiet_intros split: option.split list.split)

lemma quiet_pressControl [quiet_intros]: "framed s t \<Longrightarrow> framed s (pressControl k n t)"
  by (auto simp: pressControl_def Let_def intro!: quiet_intros split: option.split)

lemma quiet_connecting [quiet_intros]:
  "framed s t \<Longrightarrow> framed s (hydrateSavedPassword p t)" "framed s t \<Longrightarrow> framed s (setLoggedOutFlag e b t)"
  by (auto simp: hydrateSavedPassword_def setLoggedOutFlag_def Let_def intro!: quiet_intros)

subsection \<open>Events\<close>

lemma quiet_events [quiet_intros]:
  assumes "framed s t"
  shows "framed s (onPeerInfo e p t)" "framed s (onSwitchDisplay d t)" "framed s (onFollowDisplay i t)" "framed s (onCodecSupport cs t)"
    "framed s (onPcm pcm r ch t)" "framed s (positionRemoteCursor e x y t)" "framed s (onClipboard e m t)" "framed s (onUac b t)"
    "framed s (onMsgbox m m1 m2 t)" "framed s (applyPrivacyModeState n m m1 t)" "framed s (applyBlockInputState n m t)"
  using assms
  by (auto simp: onPeerInfo_def onSwitchDisplay_def onFollowDisplay_def onCodecSupport_def onPcm_def positionRemoteCursor_def
      onClipboard_def onUac_def onMsgbox_def applyPrivacyModeState_def applyBlockInputState_def Let_def intro!: quiet_intros)

lemma quiet_onStats [quiet_intros]: "framed s t \<Longrightarrow> framed s (onStats st t)"
  unfolding onStats_def Let_def by (intro quiet_intros) auto

lemma quiet_onElevation [quiet_intros]: "framed s t \<Longrightarrow> framed s (onElevation st d t)"
  by (cases st) (auto simp: onElevation_def intro!: quiet_intros)

lemma quiet_onCredentials [quiet_intros]: "framed s t \<Longrightarrow> framed s (onCredentials h t)"
  unfolding onCredentials_def by (intro quiet_intros) (auto simp: option.map_comp comp_def)

lemma quiet_permissionFile [quiet_intros]: "framed s t \<Longrightarrow> framed s (permissionFile b t)"
  by (auto simp: permissionFile_def Let_def intro!: quiet_intros)

lemma quiet_permissions [quiet_intros]:
  assumes "framed s t"
  shows "framed s (permissionAudio k b t)" "framed s (permissionMedia k b t)" "framed s (permissionControls k b t)"
  using assms by (auto simp: permissionAudio_def permissionMedia_def permissionControls_def Let_def intro!: quiet_intros)

subsection \<open>Voice call, clipboard and recording\<close>

lemma quiet_toggleVoiceCall [quiet_intros]: "framed s t \<Longrightarrow> framed s (toggleVoiceCall t)"
  by (auto simp: toggleVoiceCall_def Let_def case_prod_beta intro!: quiet_intros)

lemma quiet_voicePrepared [quiet_intros]: "framed s t \<Longrightarrow> framed s (voicePrepared a n f t)"
  by (auto simp: voicePrepared_def intro!: quiet_intros)

lemma quiet_recording [quiet_intros]:
  assumes "framed s t"
  shows "framed s (onRecordingState e b n t)" "framed s (startRecorder e t)"
proof -
  have rec: "framed s (onRecordingState e b n u)" if "framed s u" for b n u
    using that by (auto simp: onRecordingState_def Let_def intro!: quiet_intros)
  show "framed s (onRecordingState e b n t)" "framed s (startRecorder e t)"
    using assms by (auto simp: startRecorder_def Let_def intro!: quiet_intros rec)
qed

lemma quiet_waiting [quiet_intros]:
  assumes "framed s t"
  shows "framed s (toggleRecording e t)" "framed s (recordingResumed e n b t)" "framed s (sendClipboard t)" "framed s (clipboardRead n m t)"
    "framed s (audioResumed n b t)"
  using assms
  by (auto simp: toggleRecording_def recordingResumed_def sendClipboard_def clipboardRead_def audioResumed_def intro!: quiet_intros)

lemma quiet_settle: "framed s t \<Longrightarrow> framed s (settle e w a t)"
  by (cases w; cases a) (auto simp: settle_def intro!: quiet_intros)

lemma quiet_settled [quiet_intros]: "framed s t \<Longrightarrow> framed s (app_settled e i a t)"
  by (auto simp: app_settled_def intro!: quiet_intros quiet_settle)

subsection \<open>Menus\<close>

lemma quiet_openPop [quiet_intros]: "framed s t \<Longrightarrow> framed s (openPop p t)"
  by (auto simp: openPop_def intro!: quiet_intros)

lemma quiet_monitorAction [quiet_intros]: "framed s t \<Longrightarrow> framed s (monitorAction mm a t)"
  by (cases a)
    (auto simp: monitorAction_def post_resolution_def post_virtual_def intro!: quiet_intros split: option.split bool.split)

lemma quiet_toggles [quiet_intros]:
  assumes "framed s t"
  shows "framed s (togglePrivacy e k t)" "framed s (toggleBlockInput e t)" "framed s (toggleLockAfter t)" "framed s (toggleAdaptiveFps t)"
    "framed s (app_setCustomFps n t)" "framed s (chooseCodec c t)" "framed s (toggleAudio t)" "framed s (toggleMute t)" "framed s (setAudioVolume n t)"
    "framed s (toggleClipboard t)"
  using assms
  by (auto simp: togglePrivacy_def toggleBlockInput_def toggleLockAfter_def toggleAdaptiveFps_def app_setCustomFps_def chooseCodec_def
      toggleAudio_def toggleMute_def setAudioVolume_def toggleClipboard_def Let_def intro!: quiet_intros)

lemma quiet_toggleDisplayOption [quiet_intros]: "framed s t \<Longrightarrow> framed s (toggleDisplayOption d t)"
  by (cases d) (auto simp: toggleDisplayOption_def Let_def intro!: quiet_intros)

lemma quiet_keysAction [quiet_intros]: "framed s t \<Longrightarrow> framed s (keysAction i t)"
  by (auto simp: keysAction_def Let_def intro!: quiet_intros)

lemma type_commands_connect: "c \<in> set (buildTypeCommands m) \<Longrightarrow> \<not> is_connect c"
  by (auto simp: buildTypeCommands_def type_point_def type_press_def split: if_splits)

lemma quiet_posts: "framed s t \<Longrightarrow> list_all (\<lambda>c. \<not> is_connect c) cs \<Longrightarrow> framed s (fold app_post cs t)"
  by (induction cs arbitrary: t) (simp_all add: quiet_post)

lemma quiet_typeText [quiet_intros]: "framed s t \<Longrightarrow> framed s (typeText m t)"
  by (auto simp: typeText_def list_all_iff dest: type_commands_connect intro!: quiet_intros quiet_posts)

end
