(* ===== verification/App_Safety.thy ===== *)
theory App_Safety
  imports App_Frame
begin

text \<open>
  What the application shell keeps through every sequence of calls: commands reach one worker at
  a time and each worker is let go of once, nothing that acts on the remote device is said while
  the view-only mode is shown, the timers belong to the restart flow, and no configuration kept
  for a reconnect holds a plaintext password.
\<close>

section \<open>Monitors of the trace\<close>

text \<open>The worker the trace ends with, and whether every output so far agreed with it.\<close>

definition worker_mon1 :: "nat option \<times> bool \<Rightarrow> app_out \<Rightarrow> nat option \<times> bool" where
  "worker_mon1 m x =
     (case x of
        AO_worker w _ \<Rightarrow> (Some w, snd m \<and> fst m = None)
      | AO_letGo w \<Rightarrow> (None, snd m \<and> fst m = Some w)
      | AO_post w _ \<Rightarrow> (fst m, snd m \<and> fst m = Some w)
      | _ \<Rightarrow> m)"

definition worker_mon :: "app_out list \<Rightarrow> nat option \<times> bool" where
  "worker_mon tr = foldl worker_mon1 (None, True) tr"

text \<open>The mode the button shows, and whether anything that acts on the peer was said while it was on.\<close>

definition view_mon1 :: "bool \<times> bool \<Rightarrow> app_out \<Rightarrow> bool \<times> bool" where
  "view_mon1 m x =
     (case x of
        AO_viewOnly b \<Rightarrow> (b, snd m)
      | AO_post _ c \<Rightarrow> (fst m, snd m \<and> (fst m \<longrightarrow> inputChannel c = None))
      | AO_terminalOpen \<Rightarrow> (fst m, snd m \<and> \<not> fst m)
      | _ \<Rightarrow> m)"

definition view_mon :: "app_out list \<Rightarrow> bool \<times> bool" where
  "view_mon tr = foldl view_mon1 (False, True) tr"

lemma mon_append:
  "worker_mon (a @ b) = foldl worker_mon1 (worker_mon a) b" "view_mon (a @ b) = foldl view_mon1 (view_mon a) b"
  by (simp_all add: worker_mon_def view_mon_def)

lemma mon1_harmless:
  assumes "harmless cur v x"
  shows "worker_mon1 (cur, True) x = (cur, True)" "view_mon1 (v, True) x = (v, True)"
  using assms by (cases x; simp add: harmless_def worker_mon1_def view_mon1_def)+

lemma mon_harmless:
  assumes "list_all (harmless cur v) xs"
  shows "foldl worker_mon1 (cur, True) xs = (cur, True)" "foldl view_mon1 (v, True) xs = (v, True)"
  using assms
proof (induction xs)
  case (Cons x xs)
  { case 1 with Cons.IH show ?case using mon1_harmless(1) [of cur v x] by simp }
  { case 2 with Cons.IH show ?case using mon1_harmless(2) [of cur v x] by simp }
qed simp_all

fun canvases :: "app_out list \<Rightarrow> nat list" where
  "canvases [] = []"
| "canvases (AO_worker _ c # tr) = c # canvases tr"
| "canvases (_ # tr) = canvases tr"

lemma canvases_append [simp]: "canvases (a @ b) = canvases a @ canvases b"
  by (induction a rule: canvases.induct) auto

lemma harmless_quiet_trace:
  assumes "list_all (harmless cur v) xs"
  shows "canvases xs = []" "AO_terminate w \<notin> set xs"
  using assms
proof (induction xs)
  case (Cons x xs)
  { case 1 with Cons show ?case by (cases x) (simp_all add: harmless_def) }
  { case 2 with Cons show ?case by (auto simp: harmless_def) }
qed simp_all

section \<open>The core invariant\<close>

definition numbers_ok :: "RdApp \<Rightarrow> bool" where
  "numbers_ok s \<longleftrightarrow>
     distinct (ap_flushing s) \<and>
     (\<forall>w. if ap_worker s = Some w then w < ap_next s \<and> w \<notin> set (ap_flushing s) \<and> AO_terminate w \<notin> set (ap_trace s)
          else if w < ap_next s then (w \<in> set (ap_flushing s) \<longleftrightarrow> AO_terminate w \<notin> set (ap_trace s))
          else w \<notin> set (ap_flushing s) \<and> AO_terminate w \<notin> set (ap_trace s))"

definition canvases_ok :: "RdApp \<Rightarrow> bool" where
  "canvases_ok s \<longleftrightarrow> distinct (canvases (ap_trace s)) \<and> (\<forall>c\<in>set (canvases (ap_trace s)). c \<le> ap_canvas s \<and> ap_transferred s)"

definition flow_timers :: "RestartFlow option \<Rightarrow> (FlowTimer \<times> nat) list \<Rightarrow> bool" where
  "flow_timers fl ts \<longleftrightarrow>
     (case fl of
        None \<Rightarrow> ts = []
      | Some f \<Rightarrow> distinct ts \<and> (\<forall>x\<in>set ts. snd x = fl_id f) \<and> (TK_deadline, fl_id f) \<in> set ts \<and>
          (fl_timer f \<longleftrightarrow> (TK_retry, fl_id f) \<in> set ts))"

definition no_password :: "jsstr option \<Rightarrow> RestartFlow option \<Rightarrow> bool" where
  "no_password kept fl \<longleftrightarrow>
     (kept = None \<or> kept = Some []) \<and> (case fl of None \<Rightarrow> True | Some f \<Rightarrow> password (fl_config f) = [])"

definition core :: "RdApp \<Rightarrow> bool" where
  "core s \<longleftrightarrow>
     worker_mon (ap_trace s) = (ap_worker s, True) \<and> view_mon (ap_trace s) = (ap_viewOnly s, True) \<and>
     (ap_viewOnly s \<longrightarrow> \<not> ap_terminal s) \<and> numbers_ok s \<and> canvases_ok s \<and> flow_timers (ap_flow s) (ap_timers s) \<and>
     no_password (reconnect_password s) (ap_flow s)"

lemma core_quiet:
  assumes "core s" "framed s t"
  shows "core t"
proof -
  from assms(2) obtain xs where xs: "ap_trace t = ap_trace s @ xs" "list_all (harmless (ap_worker s) (ap_viewOnly s)) xs"
    and f: "same_frame s t" and p: "ap_terminal t \<longrightarrow> ap_terminal s \<or> \<not> ap_viewOnly s"
    by (auto simp: framed_def)
  have tr: "canvases (ap_trace t) = canvases (ap_trace s)" "AO_terminate w \<in> set (ap_trace t) \<longleftrightarrow> AO_terminate w \<in> set (ap_trace s)" for w
    using harmless_quiet_trace [OF xs(2)] xs(1) by auto
  have "worker_mon (ap_trace t) = (ap_worker t, True)" "view_mon (ap_trace t) = (ap_viewOnly t, True)"
    using assms(1) f xs by (simp_all add: core_def mon_append mon_harmless same_frame_def)
  moreover have "numbers_ok t" "canvases_ok t"
    using assms(1) f by (simp_all add: core_def numbers_ok_def canvases_ok_def tr same_frame_def)
  moreover have "ap_viewOnly t \<longrightarrow> \<not> ap_terminal t"
    using assms(1) f p by (auto simp: core_def same_frame_def)
  ultimately show ?thesis using assms(1) f by (simp add: core_def same_frame_def)
qed

lemmas quiet_core = core_quiet [rotated]

lemmas core_ops [intro] =
  quiet_toast [OF framed_refl, THEN quiet_core] quiet_overlay [OF framed_refl, THEN quiet_core]
  quiet_panels [OF framed_refl, THEN quiet_core] quiet_voice [OF framed_refl, THEN quiet_core]
  quiet_media [OF framed_refl, THEN quiet_core] quiet_security [OF framed_refl, THEN quiet_core]
  quiet_fields [OF framed_refl, THEN quiet_core] quiet_updates [OF framed_refl, THEN quiet_core]
  quiet_connecting [OF framed_refl, THEN quiet_core] quiet_chrome [OF framed_refl, THEN quiet_core]
  quiet_creds [OF framed_refl, THEN quiet_core] quiet_post [OF framed_refl, THEN quiet_core]

text \<open>A change of the session state, of the overlay's busy mark, or of nothing the core speaks of.\<close>

lemma core_same:
  assumes "core s" "ap_worker t = ap_worker s" "ap_next t = ap_next s" "ap_flushing t = ap_flushing s" "ap_canvas t = ap_canvas s"
    "ap_transferred t = ap_transferred s" "ap_viewOnly t = ap_viewOnly s" "ap_flow t = ap_flow s" "ap_timers t = ap_timers s"
    "reconnect_password t = reconnect_password s" "ap_trace t = ap_trace s" "ap_terminal t = ap_terminal s"
  shows "core t"
  using assms by (simp add: core_def numbers_ok_def canvases_ok_def)

lemma core_state [intro]: "core s \<Longrightarrow> core (s\<lparr>ap_state := st\<rparr>)"
  by (erule core_same) (simp_all add: reconnect_password_def)

lemma core_storage [intro]: "core s \<Longrightarrow> core (s\<lparr>ap_storage := st\<rparr>)"
  by (erule core_same) (simp_all add: reconnect_password_def)

lemma core_persist [intro]: "core s \<Longrightarrow> core (persistCredentialIfWanted s)"
  by (auto simp: persistCredentialIfWanted_def split: option.split list.split)

lemma core_setOverlayBusy [intro]: "core s \<Longrightarrow> core (setOverlayBusy b s)"
  by (erule core_same) (simp_all add: setOverlayBusy_def setOverlayError_def reconnect_password_def Let_def)

lemma core_hideOverlay [intro]: "core s \<Longrightarrow> core (hideOverlay s)"
  unfolding hideOverlay_def by (intro core_setOverlayBusy core_ops) simp_all

section \<open>Workers\<close>

lemma core_letWorkerGo [intro]:
  assumes "core s"
  shows "core (letWorkerGo b s)"
proof (cases "ap_worker s")
  case (Some w)
  have n: "numbers_ok s" and m: "worker_mon (ap_trace s) = (Some w, True)" "view_mon (ap_trace s) = (ap_viewOnly s, True)"
    using assms Some by (simp_all add: core_def)
  have w: "w < ap_next s" "w \<notin> set (ap_flushing s)" "AO_terminate w \<notin> set (ap_trace s)"
    using n Some unfolding numbers_ok_def by auto
  have "numbers_ok (letWorkerGo b s)"
    using n w Some by (cases b) (auto simp: letWorkerGo_def app_do_def numbers_ok_def split: if_splits)
  then show ?thesis
    using assms Some m
    by (simp add: core_def letWorkerGo_def app_do_def mon_append worker_mon1_def view_mon1_def canvases_ok_def reconnect_password_def)
qed (use assms in \<open>simp add: letWorkerGo_def\<close>)

lemma letWorkerGo_worker [simp]: "ap_worker (letWorkerGo b s) = None"
  by (simp add: letWorkerGo_def app_do_def split: option.split)

lemma core_teardown [intro]:
  assumes "core s"
  shows "core (app_teardown b s)"
  unfolding app_teardown_def Let_def by (intro core_ops core_letWorkerGo assms)

lemma quiet_worker: "framed s t \<Longrightarrow> ap_worker t = ap_worker s"
  by (simp add: framed_def same_frame_def)

lemma teardown_worker [simp]: "ap_worker (app_teardown b s) = None"
proof -
  have "ap_worker (resetPermissions t) = ap_worker t" for t
    by (rule quiet_worker) (intro quiet_intros)
  then show ?thesis by (simp add: app_teardown_def Let_def)
qed

lemma core_freshCanvas:
  assumes "core s" "ap_worker s = None"
  shows "core (launchWorker config s)"
proof -
  let ?t = "launchWorker config s" and ?w = "ap_next s"
  obtain c where c: "c = (if ap_transferred s then Suc (ap_canvas s) else ap_canvas s)" by blast
  have t: "ap_trace ?t = ap_trace s @ [AO_worker ?w c, AO_post ?w (Cmd_connect config)]" "ap_worker ?t = Some ?w"
    "ap_next ?t = Suc ?w" "ap_canvas ?t = c" "ap_transferred ?t" "ap_flushing ?t = ap_flushing s"
    by (simp_all add: launchWorker_def freshCanvas_def app_do_def Let_def c)
  have "numbers_ok ?t"
    using assms by (auto simp: core_def numbers_ok_def t less_Suc_eq split: if_splits)
  moreover have "canvases_ok ?t"
    using assms c by (auto simp: core_def canvases_ok_def t split: if_splits)
  moreover have "ap_flow ?t = ap_flow s" "ap_timers ?t = ap_timers s" "reconnect_password ?t = reconnect_password s" "ap_viewOnly ?t = ap_viewOnly s" "ap_terminal ?t = ap_terminal s"
    using assms
    by (simp_all add: launchWorker_def freshCanvas_def app_do_def Let_def reconnect_password_def)
  moreover have "worker_mon (ap_trace ?t) = (Some ?w, True)"
    using assms by (simp add: core_def t mon_append worker_mon1_def)
  moreover have "view_mon (ap_trace ?t) = (ap_viewOnly s, True)"
    using assms by (simp add: core_def t mon_append view_mon1_def inputChannel_def)
  ultimately show ?thesis using assms by (simp add: core_def t)
qed

lemma core_terminateFlushed [intro]:
  assumes "core s"
  shows "core (terminateFlushed w s)"
proof (cases "w \<in> set (ap_flushing s)")
  case True
  have n: "numbers_ok s" using assms by (simp add: core_def)
  then have "ap_worker s \<noteq> Some w" "w < ap_next s" using True unfolding numbers_ok_def by (metis)+
  then have "numbers_ok (terminateFlushed w s)"
    using n True by (auto simp: terminateFlushed_def app_do_def numbers_ok_def split: if_splits)
  then show ?thesis
    using assms True
    by (simp add: core_def terminateFlushed_def app_do_def mon_append worker_mon1_def view_mon1_def canvases_ok_def reconnect_password_def)
qed (use assms in \<open>simp add: terminateFlushed_def\<close>)

section \<open>View only\<close>

lemma core_showsViewOnly:
  assumes "core s" "b \<longrightarrow> \<not> ap_terminal s"
  shows "core (app_do [AO_viewOnly b] (s\<lparr>ap_viewOnly := b\<rparr>))"
  using assms
  by (simp add: core_def app_do_def mon_append worker_mon1_def view_mon1_def numbers_ok_def canvases_ok_def reconnect_password_def)

text \<open>The terminal panel goes after the button changed; taking it away first gives the same core.\<close>

lemma core_toggleViewOnly [intro]:
  assumes "core s"
  shows "core (toggleViewOnly s)"
proof (cases "ap_viewOnly s")
  case True
  have "core (app_do [AO_viewOnly False] (s\<lparr>ap_viewOnly := False\<rparr>))" using assms by (simp add: core_showsViewOnly)
  then show ?thesis using True unfolding toggleViewOnly_def Let_def by simp (erule core_quiet, intro quiet_intros)
next
  case False
  let ?a = "app_do [AO_viewOnly True] (s\<lparr>ap_terminal := False, ap_viewOnly := True\<rparr>)"
  have "core (s\<lparr>ap_terminal := False\<rparr>)" by (rule core_quiet [OF assms]) (intro quiet_intros)
  then have a: "core ?a" using core_showsViewOnly [of "s\<lparr>ap_terminal := False\<rparr>" True] by simp
  have "core (if ap_terminal s then app_do [AO_terminalDestroy] ?a else ?a)"
    by (rule core_quiet [OF a]) (auto intro!: quiet_intros)
  then have "core (destroyTerminalPanel (setLatches False False (app_do [AO_viewOnly True] (s\<lparr>ap_viewOnly := True\<rparr>))))"
    by (rule core_same) (simp_all add: destroyTerminalPanel_def setLatches_def app_do_def reconnect_password_def)
  then show ?thesis using False unfolding toggleViewOnly_def Let_def by simp (erule core_quiet, intro quiet_intros)
qed

section \<open>The restart flow\<close>

lemma timers_single: "flow_timers (ap_flow s) (ap_timers s) \<Longrightarrow> ap_flow s = Some f \<Longrightarrow> x \<in> set (ap_timers s) \<Longrightarrow> snd x = fl_id f"
  by (simp add: flow_timers_def)

lemma flow_timers_gone:
  assumes "flow_timers (Some f) ts"
  shows "filter (\<lambda>(k, g). \<not> (g = fl_id f \<and> k \<in> set [TK_retry, TK_stable, TK_deadline])) ts = []"
proof -
  have k: "k \<in> set [TK_retry, TK_stable, TK_deadline]" for k by (cases k) simp_all
  show ?thesis using assms unfolding flow_timers_def filter_empty_conv by (auto simp only: k split_beta option.case)
qed

lemma clearRestartFlow_eq:
  assumes "flow_timers (ap_flow s) (ap_timers s)"
  shows "clearRestartFlow s = cancelButton False (s\<lparr>ap_flow := None, ap_timers := []\<rparr>)"
proof (cases "ap_flow s")
  case None
  then have "ap_timers s = []" using assms by (simp add: flow_timers_def)
  then have "s\<lparr>ap_flow := None, ap_timers := []\<rparr> = s\<lparr>ap_flow := None\<rparr>"
    by (intro RdApp.equality) simp_all
  with None show ?thesis by (simp only: clearRestartFlow_def Let_def option.case)
next
  case (Some f)
  have t: "filter (\<lambda>(k, g). \<not> (g = fl_id f \<and> k \<in> set [TK_retry, TK_stable, TK_deadline])) (ap_timers s) = []"
    using assms Some flow_timers_gone by simp
  have u: "(s\<lparr>ap_timers := []\<rparr>)\<lparr>ap_flow := None\<rparr> = s\<lparr>ap_flow := None, ap_timers := []\<rparr>" by simp
  show ?thesis unfolding clearRestartFlow_def Let_def Some option.case clearFlowTimers_def t u by (rule refl)
qed

lemma clearRestartFlow_timers:
  assumes "flow_timers (ap_flow s) (ap_timers s)"
  shows "ap_timers (clearRestartFlow s) = [] \<and> ap_flow (clearRestartFlow s) = None"
  by (simp add: clearRestartFlow_eq [OF assms] cancelButton_def)

lemma core_clearRestartFlow [intro]:
  assumes "core s"
  shows "core (clearRestartFlow s)"
proof -
  have f: "flow_timers (ap_flow s) (ap_timers s)" using assms by (simp add: core_def)
  have "core (s\<lparr>ap_flow := None, ap_timers := []\<rparr>)"
    using assms by (auto simp: core_def numbers_ok_def canvases_ok_def reconnect_password_def flow_timers_def no_password_def)
  then show ?thesis unfolding clearRestartFlow_eq [OF f] by blast
qed

text \<open>A timer that fired leaves nothing behind once its flow is cleared.\<close>

lemma clearRestartFlow_fired:
  assumes "flow_timers (ap_flow s) (ap_timers s)"
  shows "clearRestartFlow (s\<lparr>ap_timers := remove1 x (ap_timers s)\<rparr>) = clearRestartFlow s"
proof (cases "ap_flow s")
  case None
  then have "ap_timers s = []" using assms by (simp add: flow_timers_def)
  then have "s\<lparr>ap_timers := remove1 x (ap_timers s)\<rparr> = s" by (intro RdApp.equality) simp_all
  then show ?thesis by simp
next
  case (Some f)
  have r: "filter P xs = [] \<Longrightarrow> filter P (remove1 x xs) = []" for P and xs :: "(FlowTimer \<times> nat) list"
    by (auto simp: filter_empty_conv dest: notin_set_remove1)
  have t: "filter (\<lambda>(k, g). \<not> (g = fl_id f \<and> k \<in> set [TK_retry, TK_stable, TK_deadline])) (ap_timers s) = []"
    using assms Some flow_timers_gone by simp
  have fl: "ap_flow (s\<lparr>ap_timers := remove1 x (ap_timers s)\<rparr>) = Some f"
    "ap_timers (s\<lparr>ap_timers := remove1 x (ap_timers s)\<rparr>) = remove1 x (ap_timers s)" using Some by simp_all
  show ?thesis
    unfolding clearRestartFlow_def Let_def fl Some option.case clearFlowTimers_def t r [OF t] by simp
qed

lemma core_reflow:
  assumes "core s" "flow_timers fl ts" "no_password (reconnect_password s) fl"
  shows "core (s\<lparr>ap_flow := fl, ap_nextFlow := n, ap_timers := ts\<rparr>)"
  using assms by (simp add: core_def numbers_ok_def canvases_ok_def reconnect_password_def)

lemma core_timers:
  assumes "core s" "flow_timers (ap_flow s) ts"
  shows "core (s\<lparr>ap_timers := ts\<rparr>)"
  using assms by (simp add: core_def numbers_ok_def canvases_ok_def reconnect_password_def)

lemma flow_timers_stable:
  assumes "flow_timers (Some f) ts"
  shows "flow_timers (Some f) (filter (\<lambda>(k, g). \<not> (g = i \<and> k \<in> set [TK_stable])) ts)"
    "flow_timers (Some f) (filter (\<lambda>(k, g). \<not> (g = fl_id f \<and> k \<in> set [TK_stable])) ts @ [(TK_stable, fl_id f)])"
  using assms by (auto simp: flow_timers_def)

lemma core_clearStable [intro]: "core s \<Longrightarrow> core (clearFlowTimers [TK_stable] i s)"
  unfolding clearFlowTimers_def
  by (rule core_timers) (auto simp: core_def flow_timers_def split: option.splits)

lemma core_restored:
  assumes "core s" "ap_flow s = Some f"
  shows "core ((sticky_toast m (clearFlowTimers [TK_stable] (fl_id f) s))
    \<lparr>ap_timers := ap_timers (sticky_toast m (clearFlowTimers [TK_stable] (fl_id f) s)) @ [(TK_stable, fl_id f)]\<rparr>)"
proof (rule core_timers)
  show "core (sticky_toast m (clearFlowTimers [TK_stable] (fl_id f) s))" by (intro core_ops core_clearStable assms)
  show "flow_timers (ap_flow (sticky_toast m (clearFlowTimers [TK_stable] (fl_id f) s)))
      (ap_timers (sticky_toast m (clearFlowTimers [TK_stable] (fl_id f) s)) @ [(TK_stable, fl_id f)])"
    using assms flow_timers_stable(2) [of f "ap_timers s"]
    by (simp add: core_def sticky_toast_def app_do_def clearFlowTimers_def)
qed

lemma core_onStreaming [intro]:
  assumes "core s"
  shows "core (onStreaming e s)"
proof -
  have s1: "core (if ap_streamStart s = 0 then s\<lparr>ap_streamStart := ae_now e\<rparr> else s)" using assms by auto
  define s2 where "s2 = hideOverlay (persistCredentialIfWanted (if ap_streamStart s = 0 then s\<lparr>ap_streamStart := ae_now e\<rparr> else s))"
  have s2: "core s2" unfolding s2_def by (intro core_hideOverlay core_persist s1)
  have fc: "ap_flow (cancelButton False s2) = ap_flow s2" by (simp add: cancelButton_def)
  show ?thesis
    unfolding onStreaming_def Let_def s2_def [symmetric]
  proof (intro core_ops)
    show "core (case ap_flow s2 of None \<Rightarrow> s2
      | Some f \<Rightarrow> (sticky_toast (js ''Connection restored '' @ [0x2014] @ js '' checking stability after the restart request'')
            (clearFlowTimers [TK_stable] (fl_id f) (cancelButton False s2)))
          \<lparr>ap_timers := ap_timers (sticky_toast (js ''Connection restored '' @ [0x2014] @ js '' checking stability after the restart request'')
            (clearFlowTimers [TK_stable] (fl_id f) (cancelButton False s2))) @ [(TK_stable, fl_id f)]\<rparr>)"
      using s2 fc by (cases "ap_flow s2") (simp, simp only: option.case, intro core_restored core_ops, simp_all)
  qed
qed

lemma core_endSessionUi [intro]: "core s \<Longrightarrow> core (endSessionUi s)"
  unfolding endSessionUi_def by (intro core_setOverlayBusy core_ops core_teardown)

lemma core_setState [intro]:
  assumes "core s"
  shows "core (app_setState e st d s)"
proof -
  have s1: "core (refreshPeerSub (renderVoiceCall (s\<lparr>ap_state := st\<rparr>)))"
    by (intro core_ops core_state assms)
  show ?thesis unfolding app_setState_def Let_def using s1 by auto
qed

lemma quiet_forget_start:
  "core s \<Longrightarrow> core (ap_creds_update (\<lambda>c. c\<lparr>cr_reconnect := Some (config\<lparr>password := []\<rparr>)\<rparr>) s)"
  by (auto simp: core_def numbers_ok_def canvases_ok_def reconnect_password_def no_password_def)

lemma core_forgetSession [intro]:
  assumes "core s"
  shows "core (forgetSession config s)"
proof -
  define s1 where "s1 = (closePop (closeSide (destroyFilePanel (ap_creds_update (\<lambda>c. c\<lparr>cr_reconnect := Some (config\<lparr>password := []\<rparr>)\<rparr>) s))))
    \<lparr>ap_chat := [], ap_unread := 0\<rparr>"
  have "core s1" unfolding s1_def by (intro core_ops quiet_forget_start assms)
  then have c: "core (app_do [AO_viewOnly False] (s1\<lparr>ap_viewOnly := False\<rparr>))" by (simp add: core_showsViewOnly)
  have e: "forgetSession config s = forgetSession config s" by (rule refl)
  show ?thesis
    unfolding forgetSession_def Let_def s1_def [symmetric]
    by (intro core_ops c) simp_all
qed

lemma forgetSession_worker: "ap_worker (forgetSession config s) = ap_worker s"
  by (simp add: forgetSession_def removeClipboardSyncOffer_def clearSecurityState_def hideToast_def app_do_def setLatches_def closePop_def
      closeSide_def destroyFilePanel_def Let_def)

lemma core_startSession [intro]:
  assumes "core s"
  shows "core (startSession e config s)"
proof -
  let ?f = "forgetSession config (app_teardown False s)"
  have q: "framed ?f (createAudioPlayback e ?f)" by (intro quiet_intros)
  have "core (createAudioPlayback e ?f)" by (intro core_ops core_forgetSession core_teardown assms)
  moreover have "ap_worker (createAudioPlayback e ?f) = None"
    using quiet_worker [OF q] by (simp add: forgetSession_worker)
  ultimately have "core (launchWorker config (createAudioPlayback e ?f))" by (rule core_freshCanvas)
  then show ?thesis unfolding startSession_def Let_def by (intro core_setState core_ops)
qed

lemma core_onConnectClick [intro]:
  assumes "core s"
  shows "core (onConnectClick e s)"
  using assms
  by (auto simp: onConnectClick_def consumePasswordInput_def Let_def case_prod_beta split: option.split
      intro!: core_startSession core_ops core_storage)

section \<open>The remaining operations\<close>

lemma core_reflow2:
  assumes "core s" "flow_timers fl ts" "no_password (reconnect_password s) fl"
  shows "core (s\<lparr>ap_flow := fl, ap_timers := ts\<rparr>)"
  using assms by (simp add: core_def numbers_ok_def canvases_ok_def reconnect_password_def)

lemma quiet_flow: "framed s t \<Longrightarrow> ap_flow t = ap_flow s \<and> ap_timers t = ap_timers s \<and> reconnect_password t = reconnect_password s"
  by (simp add: framed_def same_frame_def)

lemma teardown_flow: "ap_flow (app_teardown b s) = ap_flow s \<and> ap_timers (app_teardown b s) = ap_timers s"
proof -
  let ?m = "teardownMse (removeClipboardSyncOffer (closeAudio (endRecording (releaseRemoteSecurityState
      (endVoiceCall False (s\<lparr>ap_epoch := Suc (ap_epoch s)\<rparr>)))))\<lparr>ap_input := None\<rparr>)"
  have "framed s ?m" by (intro quiet_intros)
  moreover have "framed (letWorkerGo b ?m) (resetPermissions (letWorkerGo b ?m))" by (intro quiet_intros)
  ultimately show ?thesis
    by (auto simp: app_teardown_def Let_def letWorkerGo_def app_do_def dest!: quiet_flow split: option.split)
qed

lemma core_beginRemoteRestart [intro]:
  assumes "core s"
  shows "core (beginRemoteRestart e s)"
proof -
  have q: "core (toast m s)" for m by (intro core_ops assms)
  define s1 where "s1 = app_post Cmd_restartRemoteDevice (cancelButton True (clearRestartFlow s))"
  have c: "core s1" unfolding s1_def by (intro core_ops core_clearRestartFlow assms) simp
  have "framed (clearRestartFlow s) s1" unfolding s1_def by (intro quiet_intros) simp
  then have t: "ap_timers s1 = []" "reconnect_password s1 = reconnect_password (clearRestartFlow s)"
    using clearRestartFlow_timers [of s] assms quiet_flow by (simp_all add: core_def)
  have "core (s1\<lparr>ap_flow := Some fl, ap_nextFlow := n, ap_timers := ap_timers s1 @ [(TK_deadline, fl_id fl)]\<rparr>)"
    if "password (fl_config fl) = []" "\<not> fl_timer fl" for fl n
    using that c by (intro core_reflow) (auto simp: t core_def flow_timers_def no_password_def)
  note r = this
  show ?thesis
    unfolding beginRemoteRestart_def Let_def s1_def [symmetric]
  proof (cases "cr_reconnect (ap_creds s)")
    case (Some rc)
    have "core (s1\<lparr>ap_flow := Some \<lparr>fl_id = ap_nextFlow s1, fl_startedAt = ae_now e, fl_attempt = 0,
        fl_config = rc\<lparr>password := [], savedHashHex := or_saved (cr_session (ap_creds s)) (savedHashHex rc)\<rparr>, fl_timer = False,
        fl_reconnecting = False\<rparr>, ap_nextFlow := Suc (ap_nextFlow s1), ap_timers := ap_timers s1 @ [(TK_deadline, ap_nextFlow s1)]\<rparr>)"
      using r [of "\<lparr>fl_id = ap_nextFlow s1, fl_startedAt = ae_now e, fl_attempt = 0,
        fl_config = rc\<lparr>password := [], savedHashHex := or_saved (cr_session (ap_creds s)) (savedHashHex rc)\<rparr>, fl_timer = False,
        fl_reconnecting = False\<rparr>"] by simp
    then show "core (case cr_reconnect (ap_creds s) of
        None \<Rightarrow> toast (js ''Restart is unavailable until the session is connected'') s
      | Some rc \<Rightarrow>
          if ap_state s \<noteq> Streaming then toast (js ''Restart is unavailable until the session is connected'') s
          else if \<not> ae_confirm e then s
          else sticky_toast (js ''Restart command sent '' @ [0x2014] @ js '' waiting for the remote device'')
                  (s1\<lparr>ap_flow := Some \<lparr>fl_id = ap_nextFlow s1, fl_startedAt = ae_now e, fl_attempt = 0,
        fl_config = rc\<lparr>password := [], savedHashHex := or_saved (cr_session (ap_creds s)) (savedHashHex rc)\<rparr>, fl_timer = False,
        fl_reconnecting = False\<rparr>, ap_nextFlow := Suc (ap_nextFlow s1), ap_timers := ap_timers s1 @ [(TK_deadline, ap_nextFlow s1)]\<rparr>))"
      using assms q Some by (simp add: core_ops)
  qed (simp add: q)
qed

end
