(* ===== verification/App_Properties.thy ===== *)
theory App_Properties
  imports App_Safety
begin

text \<open>
  The invariant of the application shell over every call, and what follows from it: commands and
  workers, the view-only mode, the restart flow, stored credentials, and the state of the remote
  machine that is undone before its worker is let go of.
\<close>

section \<open>The core of the remaining operations\<close>

lemma core_flow:
  assumes "core s"
  shows "flow_timers (ap_flow s) (ap_timers s)" "no_password (reconnect_password s) (ap_flow s)"
  using assms by (simp_all add: core_def)

lemma core_scheduled:
  assumes "core t" "ap_flow t = Some f" "\<not> fl_timer f"
  shows "core (t\<lparr>ap_flow := Some (f\<lparr>fl_attempt := n, fl_timer := True\<rparr>), ap_timers := ap_timers t @ [(TK_retry, fl_id f)]\<rparr>)"
  using core_flow [OF assms(1)] assms(2,3)
  by (intro core_reflow2 assms(1)) (auto simp: flow_timers_def no_password_def)

lemma core_scheduleRestartReconnect [intro]:
  assumes "core s"
  shows "core (scheduleRestartReconnect e d s)"
proof (cases "ap_flow s")
  case (Some f)
  define s1 where "s1 = closePop (closeSide (destroyFilePanel (clearSecurityState (app_teardown False (clearFlowTimers [TK_stable] (fl_id f) s)))))"
  have c1: "core s1" unfolding s1_def by (intro core_ops core_teardown core_clearStable assms)
  have "framed (app_teardown False (clearFlowTimers [TK_stable] (fl_id f) s)) s1" unfolding s1_def by (intro quiet_intros)
  then have f1: "ap_flow s1 = Some f"
    using Some quiet_flow teardown_flow by (simp add: clearFlowTimers_def)
  define s2 where "s2 = setOverlayBusy True (showOverlay (s1\<lparr>ap_state := Connecting\<rparr>))"
  have c2: "core s2" unfolding s2_def by (intro core_setOverlayBusy core_ops core_state c1)
  have f2: "ap_flow s2 = Some f"
    by (simp add: s2_def setOverlayBusy_def setOverlayError_def showOverlay_def Let_def f1)
  have c3: "core (setOverlayStatusText m (cancelButton True s2))" for m by (intro core_ops c2)
  have f3: "ap_flow (setOverlayStatusText m (cancelButton True s2)) = Some f" for m
    by (simp add: setOverlayStatusText_def cancelButton_def f2)
  show ?thesis
    unfolding scheduleRestartReconnect_def Some option.case Let_def s1_def [symmetric] s2_def [symmetric]
    using assms c1 core_scheduled [OF c3 f3] by (auto split: option.split)
qed (use assms in \<open>simp add: scheduleRestartReconnect_def\<close>)

lemma core_cancel [intro]: "core s \<Longrightarrow> core (cancelRestartReconnect e s)"
  by (auto simp: cancelRestartReconnect_def Let_def)

lemma core_expire [intro]: "core s \<Longrightarrow> core (expireRestartFlow e i s)"
  by (auto simp: expireRestartFlow_def Let_def split: option.split)

text \<open>The timer's entry is already gone when its callback runs.\<close>

lemma expire_fired:
  assumes "core s"
  shows "expireRestartFlow e i (s\<lparr>ap_timers := remove1 x (ap_timers s)\<rparr>) =
    (if map_option fl_id (ap_flow s) = Some i then expireRestartFlow e i s else s\<lparr>ap_timers := remove1 x (ap_timers s)\<rparr>)"
  using clearRestartFlow_fired [OF core_flow(1) [OF assms], of x]
  by (auto simp: expireRestartFlow_def Let_def split: option.split)

lemma timer_flow:
  assumes "core s" "(k, i) \<in> set (ap_timers s)"
  obtains f where "ap_flow s = Some f" "fl_id f = i"
  using core_flow(1) [OF assms(1)] assms(2) by (fastforce simp: flow_timers_def split: option.splits)

lemma core_retryTimer:
  assumes "core s" "(TK_retry, i) \<in> set (ap_timers s)"
  shows "core (retryTimer e i (s\<lparr>ap_timers := remove1 (TK_retry, i) (ap_timers s)\<rparr>))"
proof -
  obtain f where f: "ap_flow s = Some f" "fl_id f = i" using timer_flow [OF assms] .
  have fl: "flow_timers (Some f) (ap_timers s)" "no_password (reconnect_password s) (Some f)"
    using core_flow [OF assms(1)] f by simp_all
  have "core (s\<lparr>ap_flow := Some (f\<lparr>fl_timer := False, fl_reconnecting := b\<rparr>), ap_timers := remove1 (TK_retry, i) (ap_timers s)\<rparr>)" for b
    using fl f(2) by (intro core_reflow2 assms(1)) (auto simp: flow_timers_def no_password_def)
  note r = this
  have e1: "(s\<lparr>ap_timers := remove1 (TK_retry, i) (ap_timers s)\<rparr>)\<lparr>ap_flow := g\<rparr> = s\<lparr>ap_flow := g, ap_timers := remove1 (TK_retry, i) (ap_timers s)\<rparr>" for g
    by simp
  have e2: "f\<lparr>fl_timer := False\<rparr> = f\<lparr>fl_timer := False, fl_reconnecting := fl_reconnecting f\<rparr>" by simp
  show ?thesis
    using f r [of True] r [of "fl_reconnecting f"]
    by (auto simp: retryTimer_def Let_def e1 simp flip: e2 intro!: core_expire core_startSession)
qed

lemma core_flowTimer [intro]:
  assumes "core s"
  shows "core (flowTimer e k i s)"
proof (cases "(k, i) \<in> set (ap_timers s)")
  case True
  obtain f where f: "ap_flow s = Some f" "fl_id f = i" using timer_flow [OF assms True] .
  show ?thesis
  proof (cases k)
    case TK_retry
    then show ?thesis using True core_retryTimer [OF assms] by (simp add: flowTimer_def Let_def)
  next
    case TK_stable
    have "core (s\<lparr>ap_timers := remove1 (TK_stable, i) (ap_timers s)\<rparr>)"
      using core_flow(1) [OF assms] f by (intro core_timers assms) (auto simp: flow_timers_def)
    then have "core (stableTimer i (s\<lparr>ap_timers := remove1 (TK_stable, i) (ap_timers s)\<rparr>))"
      by (auto simp: stableTimer_def)
    then show ?thesis using True TK_stable by (simp add: flowTimer_def Let_def)
  next
    case TK_deadline
    then show ?thesis using True f core_expire [OF assms] expire_fired [OF assms] by (simp add: flowTimer_def Let_def)
  qed
qed (use assms in \<open>simp add: flowTimer_def\<close>)

lemma core_app_onState [intro]: "core s \<Longrightarrow> core (app_onState e st d b s)"
  by (auto simp: app_onState_def)

lemma core_applyPermission [intro]:
  assumes "core s"
  shows "core (applyPermission e kind b s)"
proof -
  define s1 where "s1 = s\<lparr>ap_permissions := (ap_permissions s)(kind \<mapsto> b)\<rparr>"
  have "core s1" unfolding s1_def by (intro core_ops assms)
  then have c2: "core (permissionRestart e kind b s1)" by (auto simp: permissionRestart_def)
  show ?thesis
    unfolding applyPermission_def s1_def [symmetric] by (rule core_quiet [OF c2]) (intro quiet_intros)
qed

lemma core_onLoginError [intro]:
  assumes "core s"
  shows "core (onLoginError m s)"
proof -
  define s1 where "s1 = app_teardown False (clearRestartFlow s)"
  have c1: "core s1" unfolding s1_def by (intro core_teardown core_clearRestartFlow assms)
  have c2: "core (s1\<lparr>ap_storage := st\<rparr>)" for st by (rule core_storage [OF c1])
  define s2 where "s2 = (if cr_withSaved (ap_creds s1)
      then ap_creds_update (\<lambda>c. c\<lparr>cr_withSaved := False\<rparr>)
             (ap_chrome_update (\<lambda>c. c\<lparr>ch_save := False, ch_savedHint := False\<rparr>)
               (s1\<lparr>ap_storage := clearSavedHash (ap_peerId s1) (ap_storage s1)\<rparr>))
      else s1)"
  have "core s2" unfolding s2_def by (simp add: c1, intro impI core_ops c2) simp_all
  then show ?thesis
    unfolding onLoginError_def Let_def s1_def [symmetric] s2_def [symmetric]
    by (intro core_ops core_setOverlayBusy)
qed

definition plain_event :: "SessionEvent \<Rightarrow> bool" where
  "plain_event ev =
     (case ev of
        Ev_state _ _ _ \<Rightarrow> False
      | Ev_permission _ _ \<Rightarrow> False
      | Ev_loginError _ \<Rightarrow> False
      | _ \<Rightarrow> True)"

lemma quiet_app_onEvent: "plain_event ev \<Longrightarrow> framed s (app_onEvent e ev s)"
  by (cases ev; simp only: app_onEvent_def SessionEvent.case plain_event_def)
    (intro quiet_intros; simp)+

lemma core_app_onEvent [intro]:
  assumes "core s"
  shows "core (app_onEvent e ev s)"
proof (cases "plain_event ev")
  case True
  then show ?thesis using assms core_quiet quiet_app_onEvent by blast
next
  case False
  then show ?thesis
    using assms by (cases ev; simp only: app_onEvent_def SessionEvent.case plain_event_def) (simp_all add: core_app_onState core_applyPermission core_onLoginError)
qed

lemma core_disconnectClick [intro]: "core s \<Longrightarrow> core (disconnectClick e s)"
  unfolding disconnectClick_def by (auto intro!: core_ops core_setState)

lemma core_dispose [intro]: "core s \<Longrightarrow> core (dispose s)"
  unfolding dispose_def by (intro core_ops core_teardown core_clearRestartFlow)

section \<open>Calls that keep the frame\<close>

definition restarts :: "more_action \<Rightarrow> bool" where
  "restarts a \<longleftrightarrow> a = MA_security (js ''restart'')"

lemma quiet_security_control:
  "i \<noteq> js ''restart'' \<Longrightarrow> framed s t \<Longrightarrow> framed s (activateSecurityControl e i t)"
  by (auto simp: activateSecurityControl_def intro!: quiet_intros)

lemma quiet_moreAction: "\<not> restarts a \<Longrightarrow> framed s t \<Longrightarrow> framed s (moreAction e a t)"
  by (cases a) (auto simp: moreAction_def restarts_def intro!: quiet_intros quiet_security_control)

text \<open>The calls that can do more: everything else keeps the frame.\<close>

definition plain_action :: "user_action \<Rightarrow> bool" where
  "plain_action a =
     (case a of
        UA_connect \<Rightarrow> False
      | UA_cancelReconnect \<Rightarrow> False
      | UA_disconnect \<Rightarrow> False
      | UA_viewOnly \<Rightarrow> False
      | UA_option m \<Rightarrow> \<not> restarts m
      | _ \<Rightarrow> True)"

lemma quiet_user_step: "plain_action a \<Longrightarrow> framed s (user_step e a s)"
  by (cases a; simp only: user_step_def user_action.case plain_action_def)
    (auto intro!: quiet_intros quiet_moreAction dest: not_connect_input split: option.split Popover.split)

definition plain_call :: "app_call \<Rightarrow> bool" where
  "plain_call c =
     (case c of
        AC_user a \<Rightarrow> plain_action a
      | AC_event ev \<Rightarrow> plain_event ev
      | AC_workerError _ \<Rightarrow> False
      | AC_flushed _ \<Rightarrow> False
      | AC_timer _ _ \<Rightarrow> False
      | AC_dispose \<Rightarrow> False
      | _ \<Rightarrow> True)"

lemma quiet_app_step: "plain_call c \<Longrightarrow> framed s (app_step (e, c) s)"
  by (cases c; simp only: app_step_def Let_def fst_conv snd_conv app_call.case plain_call_def)
    (auto intro!: quiet_intros quiet_user_step quiet_app_onEvent)

section \<open>The core is an invariant\<close>

lemma core_user_step: "core s \<Longrightarrow> core (user_step e a s)"
proof (cases "plain_action a")
  case False
  assume "core s"
  then show ?thesis using False
    by (cases a) (auto simp: user_step_def plain_action_def restarts_def moreAction_def activateSecurityControl_def
        split: option.split Popover.split)
qed (auto intro: core_quiet quiet_user_step)

lemma core_app_step: "core s \<Longrightarrow> core (app_step ec s)"
proof -
  assume s: "core s"
  obtain e c where ec: "ec = (e, c)" by fastforce
  show ?thesis
  proof (cases "plain_call c")
    case True
    with s ec show ?thesis using core_quiet quiet_app_step by blast
  next
    case False
    with s show ?thesis unfolding ec
      by (cases c) (auto simp: app_step_def plain_call_def intro: core_user_step)
  qed
qed

lemma core_newRdApp: "core (newRdApp cfg st v)"
  by (simp add: newRdApp_def core_def worker_mon_def view_mon_def numbers_ok_def canvases_ok_def flow_timers_def no_password_def
      reconnect_password_def)

lemma core_workerUrl: "core s \<Longrightarrow> core (s\<lparr>ap_workerUrl := u, ap_fixedPeerId := p\<rparr>)"
  by (erule core_same) (simp_all add: reconnect_password_def)

lemma core_mount: "core s \<Longrightarrow> core (mount e pg s)"
  by (auto simp: mount_def Let_def intro!: core_ops core_onConnectClick core_workerUrl split: option.split)

lemma core_init: "app_init s \<Longrightarrow> core s"
  by (auto simp: app_init_def intro: core_mount core_newRdApp)

interpretation app: invariant_system app_init app_step core
  by unfold_locales (auto intro: core_init core_app_step)

section \<open>Waiting for the restarted device\<close>

definition waiting :: "RdApp \<Rightarrow> bool" where
  "waiting s \<longleftrightarrow> (case ap_flow s of None \<Rightarrow> False | Some f \<Rightarrow> fl_timer f)"

definition wait_ok :: "RdApp \<Rightarrow> bool" where
  "wait_ok s \<longleftrightarrow> (waiting s \<longrightarrow> ap_worker s = None \<and> busy s \<and> ap_state s = Connecting)"

lemma wait_ok_flow: "ap_flow t = None \<or> ap_flow t = ap_flow s \<Longrightarrow> \<not> waiting s \<Longrightarrow> wait_ok t"
  by (auto simp: wait_ok_def waiting_def split: option.splits)

lemma wait_ok_none: "ap_flow t = None \<Longrightarrow> wait_ok t"
  by (simp add: wait_ok_def waiting_def)

lemma wait_ok_quiet: "wait_ok s \<Longrightarrow> framed s t \<Longrightarrow> wait_ok t"
  by (simp add: wait_ok_def waiting_def framed_def same_frame_def)

lemma quiet_keeps_flow: "framed s t \<Longrightarrow> ap_flow t = ap_flow s"
  using quiet_flow by blast

lemmas flow_ops [simp] =
  quiet_toast [OF framed_refl, THEN quiet_keeps_flow] quiet_overlay [OF framed_refl, THEN quiet_keeps_flow]
  quiet_panels [OF framed_refl, THEN quiet_keeps_flow] quiet_voice [OF framed_refl, THEN quiet_keeps_flow]
  quiet_media [OF framed_refl, THEN quiet_keeps_flow] quiet_security [OF framed_refl, THEN quiet_keeps_flow]
  quiet_connecting [OF framed_refl, THEN quiet_keeps_flow] quiet_post [OF framed_refl, THEN quiet_keeps_flow]
  quiet_permissions [OF framed_refl, THEN quiet_keeps_flow] teardown_flow [THEN conjunct1]

lemma setOverlayBusy_flow [simp]: "ap_flow (setOverlayBusy b s) = ap_flow s" "ap_flow (hideOverlay s) = ap_flow s"
  by (simp_all add: hideOverlay_def setOverlayBusy_def setOverlayError_def Let_def)

lemma persist_flow [simp]: "ap_flow (persistCredentialIfWanted s) = ap_flow s"
  by (simp add: persistCredentialIfWanted_def split: option.split list.split)

lemma clearFlowTimers_flow [simp]: "ap_flow (clearFlowTimers ks i s) = ap_flow s"
  by (simp add: clearFlowTimers_def)

lemma endSessionUi_flow [simp]: "ap_flow (endSessionUi s) = ap_flow s"
  by (simp add: endSessionUi_def)

lemma onStreaming_flow [simp]: "ap_flow (onStreaming e s) = ap_flow s"
proof -
  define s2 where "s2 = hideOverlay (persistCredentialIfWanted (if ap_streamStart s = 0 then s\<lparr>ap_streamStart := ae_now e\<rparr> else s))"
  have "ap_flow s2 = ap_flow s" by (simp add: s2_def)
  then show ?thesis
    unfolding onStreaming_def Let_def s2_def [symmetric] by (simp split: option.split)
qed

lemma app_setState_flow [simp]: "ap_flow (app_setState e st d s) = ap_flow s"
  by (simp add: app_setState_def Let_def)

lemma forgetSession_flow [simp]: "ap_flow (forgetSession c s) = ap_flow s"
  by (simp add: forgetSession_def removeClipboardSyncOffer_def clearSecurityState_def hideToast_def app_do_def setLatches_def closePop_def
      closeSide_def destroyFilePanel_def Let_def)

lemma launchWorker_flow [simp]: "ap_flow (launchWorker c s) = ap_flow s"
  by (simp add: launchWorker_def freshCanvas_def app_do_def Let_def)

lemma startSession_flow [simp]: "ap_flow (startSession e c s) = ap_flow s"
  by (simp add: startSession_def Let_def)

lemma clearRestartFlow_none [simp]: "ap_flow (clearRestartFlow s) = None"
  by (simp add: clearRestartFlow_def Let_def)

lemma onConnectClick_flow [simp]: "ap_flow (onConnectClick e s) = ap_flow s"
  by (simp add: onConnectClick_def consumePasswordInput_def Let_def case_prod_beta split: option.split)

lemma expire_flow: "ap_flow (expireRestartFlow e i s) = (if map_option fl_id (ap_flow s) = Some i then None else ap_flow s)"
  by (simp add: expireRestartFlow_def Let_def split: option.split)

lemma cancel_flow: "ap_flow (cancelRestartReconnect e s) = None"
  by (simp add: cancelRestartReconnect_def Let_def)

lemma permissionRestart_flow: "ap_flow (permissionRestart e k b s) = None \<or> ap_flow (permissionRestart e k b s) = ap_flow s"
  by (simp add: permissionRestart_def)

lemma applyPermission_flow: "ap_flow (applyPermission e k b s) = None \<or> ap_flow (applyPermission e k b s) = ap_flow s"
  using permissionRestart_flow [of e k b "s\<lparr>ap_permissions := (ap_permissions s)(k \<mapsto> b)\<rparr>"]
  by (simp add: applyPermission_def)

lemma onLoginError_flow: "ap_flow (onLoginError m s) = None"
proof -
  define s1 where "s1 = app_teardown False (clearRestartFlow s)"
  have "ap_flow s1 = None" by (simp add: s1_def)
  then show ?thesis unfolding onLoginError_def Let_def s1_def [symmetric] by simp
qed

text \<open>A retry is set only once the old worker is gone and the overlay shows the wait.\<close>

lemma teardown_state: "ap_worker (app_teardown b s) = None" by simp

lemma wait_ok_schedule:
  assumes "\<not> waiting s"
  shows "wait_ok (scheduleRestartReconnect e d s)"
proof (cases "ap_flow s")
  case (Some f)
  define s1 where "s1 = closePop (closeSide (destroyFilePanel (clearSecurityState (app_teardown False (clearFlowTimers [TK_stable] (fl_id f) s)))))"
  have "framed (app_teardown False (clearFlowTimers [TK_stable] (fl_id f) s)) s1" unfolding s1_def by (intro quiet_intros)
  then have w: "ap_worker s1 = None" using quiet_worker by fastforce
  have t: "ap_worker u = None \<and> busy u \<and> ap_state u = Connecting"
    if "u = setOverlayStatusText m (cancelButton True (setOverlayBusy True (showOverlay (s1\<lparr>ap_state := Connecting\<rparr>))))" for u m
    using that w by (simp add: setOverlayStatusText_def cancelButton_def setOverlayBusy_def setOverlayError_def showOverlay_def busy_def Let_def)
  have f: "\<not> fl_timer f" using assms Some by (simp add: waiting_def)
  show ?thesis
  proof (cases "nextRestartReconnectDelay (fl_attempt f) (ae_now e - fl_startedAt f) RESTART_RECONNECT_TIMEOUT_MS")
    case None
    then show ?thesis
      unfolding scheduleRestartReconnect_def Some option.case Let_def s1_def [symmetric] using f
      by (simp add: wait_ok_def waiting_def)
  next
    case (Some delay)
    then show ?thesis
      unfolding scheduleRestartReconnect_def \<open>ap_flow s = Some f\<close> option.case Let_def s1_def [symmetric] using f t [OF refl]
      by (simp add: wait_ok_def busy_def)
  qed
qed (simp add: scheduleRestartReconnect_def wait_ok_def waiting_def)

lemma wait_ok_onState: "\<not> waiting s \<Longrightarrow> wait_ok (app_onState e st d b s)"
  by (auto simp: app_onState_def intro: wait_ok_schedule wait_ok_flow)

lemma wait_ok_onEvent:
  assumes "wait_ok s" "ap_worker s \<noteq> None"
  shows "wait_ok (app_onEvent e ev s)"
proof (cases "plain_event ev")
  case True
  then show ?thesis using assms wait_ok_quiet quiet_app_onEvent by blast
next
  case False
  have n: "\<not> waiting s" using assms by (auto simp: wait_ok_def)
  show ?thesis
    using False by (cases ev; simp only: app_onEvent_def SessionEvent.case plain_event_def)
      (simp_all add: wait_ok_onState [OF n] wait_ok_flow [OF applyPermission_flow n] wait_ok_none onLoginError_flow)
qed

lemma wait_ok_restart:
  assumes "wait_ok s"
  shows "wait_ok (beginRemoteRestart e s)"
proof -
  have "wait_ok (toast m s)" for m using assms by (rule wait_ok_quiet) (intro quiet_intros)
  then show ?thesis
    using assms by (auto simp: beginRemoteRestart_def Let_def wait_ok_def waiting_def sticky_toast_def app_do_def split: option.splits)
qed

lemma wait_ok_frame:
  assumes "wait_ok s" "ap_flow t = ap_flow s" "ap_worker t = ap_worker s" "busy t = busy s" "ap_state t = ap_state s"
  shows "wait_ok t"
  using assms by (simp add: wait_ok_def waiting_def)

lemma wait_ok_toggleViewOnly: "wait_ok s \<Longrightarrow> wait_ok (toggleViewOnly s)"
  by (erule wait_ok_frame)
    (simp_all add: toggleViewOnly_def toast_def removeClipboardSyncOffer_def destroyTerminalPanel_def setLatches_def app_do_def busy_def Let_def)

lemma wait_ok_user: "wait_ok s \<Longrightarrow> wait_ok (user_step e a s)"
proof (cases "plain_action a")
  case False
  assume w: "wait_ok s"
  have c: "busy s \<or> \<not> waiting s" using w by (auto simp: wait_ok_def)
  have p: "wait_ok (closePop s)" using w by (rule wait_ok_quiet) (intro quiet_intros)
  have r: "wait_ok (disconnectClick e s)" by (rule wait_ok_none) (simp add: disconnectClick_def)
  have k: "wait_ok (cancelRestartReconnect e s)" by (rule wait_ok_none) (rule cancel_flow)
  show ?thesis using False w c
    by (cases a) (auto simp: user_step_def plain_action_def restarts_def moreAction_def activateSecurityControl_def busy_def
        split: option.split Popover.split
        intro: wait_ok_toggleViewOnly wait_ok_restart p r k wait_ok_flow [OF disjI2 [OF onConnectClick_flow]])
qed (auto intro: wait_ok_quiet quiet_user_step)

lemma wait_ok_timer:
  assumes "core s" "wait_ok s"
  shows "wait_ok (flowTimer e k i s)"
proof (cases "(k, i) \<in> set (ap_timers s)")
  case True
  obtain f where f: "ap_flow s = Some f" "fl_id f = i" using timer_flow [OF assms(1) True] .
  define s1 where "s1 = s\<lparr>ap_timers := remove1 (k, i) (ap_timers s)\<rparr>"
  have f1: "ap_flow s1 = Some f" using f by (simp add: s1_def)
  have w1: "wait_ok s1" using assms(2) by (rule wait_ok_frame) (simp_all add: s1_def busy_def)
  have "wait_ok (retryTimer e i s1)"
    using f f1 by (simp add: retryTimer_def Let_def wait_ok_def waiting_def expire_flow)
  moreover have "wait_ok (stableTimer i s1)"
    using w1 by (auto simp: stableTimer_def wait_ok_def waiting_def)
  moreover have "wait_ok (expireRestartFlow e i s1)"
    using f f1 by (simp add: wait_ok_def waiting_def expire_flow)
  ultimately show ?thesis using True unfolding flowTimer_def Let_def s1_def [symmetric] by (cases k) simp_all
qed (use assms in \<open>simp add: flowTimer_def\<close>)

lemma wait_ok_step:
  assumes "core s" "wait_ok s"
  shows "wait_ok (app_step ec s)"
proof -
  obtain e c where ec: "ec = (e, c)" by fastforce
  show ?thesis
  proof (cases "plain_call c")
    case True
    with assms ec show ?thesis using wait_ok_quiet quiet_app_step by blast
  next
    case False
    have d: "wait_ok (dispose s)" by (rule wait_ok_none) (simp add: dispose_def)
    have e: "ap_worker s \<noteq> None \<Longrightarrow> \<not> waiting s" using assms(2) by (auto simp: wait_ok_def)
    have f: "wait_ok (terminateFlushed w s)" for w
      using assms(2) by (rule wait_ok_frame) (simp_all add: terminateFlushed_def app_do_def busy_def)
    show ?thesis unfolding ec using assms False d e f
      by (cases c) (auto simp: app_step_def plain_call_def intro: wait_ok_user wait_ok_onEvent wait_ok_timer wait_ok_flow)
  qed
qed

lemma wait_ok_init: "app_init s \<Longrightarrow> wait_ok s"
proof -
  have "ap_flow (mount e pg (newRdApp cfg st v)) = None" for e pg cfg st v
    by (simp add: mount_def newRdApp_def Let_def split: option.split)
  then show "app_init s \<Longrightarrow> wait_ok s" by (auto simp: app_init_def wait_ok_def waiting_def)
qed

interpretation waits: invariant_system app_init app_step "\<lambda>s. core s \<and> wait_ok s"
  by unfold_locales (auto intro: core_init core_app_step wait_ok_init wait_ok_step)

end
