(* ===== verification/App_Release.thy ===== *)
theory App_Release
  imports App_Properties
begin

text \<open>
  How a worker is let go of: in every call that ends a session, the commands that give the remote
  machine back its input and its screen precede the release of the worker.
\<close>

section \<open>Outputs are only added\<close>

definition ext :: "RdApp \<Rightarrow> RdApp \<Rightarrow> bool" where
  "ext s t \<longleftrightarrow> (\<exists>xs. ap_trace t = ap_trace s @ xs)"

lemma ext_refl [intro]: "ext s s"
  by (simp add: ext_def)

lemma ext_trans: "ext t u \<Longrightarrow> ext s t \<Longrightarrow> ext s u"
  by (auto simp: ext_def)

lemma quiet_ext: "framed t u \<Longrightarrow> ext s t \<Longrightarrow> ext s u"
  by (auto simp: ext_def framed_def)

lemmas ext_ops [intro] =
  quiet_toast [OF framed_refl, THEN quiet_ext] quiet_overlay [OF framed_refl, THEN quiet_ext]
  quiet_panels [OF framed_refl, THEN quiet_ext] quiet_voice [OF framed_refl, THEN quiet_ext]
  quiet_media [OF framed_refl, THEN quiet_ext] quiet_security [OF framed_refl, THEN quiet_ext]
  quiet_fields [OF framed_refl, THEN quiet_ext] quiet_updates [OF framed_refl, THEN quiet_ext]
  quiet_connecting [OF framed_refl, THEN quiet_ext] quiet_chrome [OF framed_refl, THEN quiet_ext]
  quiet_creds [OF framed_refl, THEN quiet_ext] quiet_post [OF framed_refl, THEN quiet_ext]
  quiet_permissions [OF framed_refl, THEN quiet_ext]

lemma ext_same: "ext s t \<Longrightarrow> ap_trace u = ap_trace t \<Longrightarrow> ext s u"
  by (simp add: ext_def)

lemma same_trace [simp]:
  "ap_trace (setOverlayBusy b s) = ap_trace s" "ap_trace (hideOverlay s) = ap_trace s" "ap_trace (persistCredentialIfWanted s) = ap_trace s"
  "ap_trace (clearFlowTimers ks i s) = ap_trace s" "ap_trace (clearRestartFlow s) = ap_trace s" "ap_trace (renderVoiceCall s) = ap_trace s"
  "ap_trace (refreshPeerSub s) = ap_trace s"
  by (simp_all add: setOverlayBusy_def hideOverlay_def setOverlayError_def persistCredentialIfWanted_def clearFlowTimers_def
      clearRestartFlow_def cancelButton_def renderVoiceCall_def refreshPeerSub_def Let_def split: option.split list.split)

lemma ext_plain [intro]:
  assumes "ext s t"
  shows "ext s (setOverlayBusy b t)" "ext s (hideOverlay t)" "ext s (persistCredentialIfWanted t)" "ext s (clearFlowTimers ks i t)"
    "ext s (clearRestartFlow t)" "ext s (t\<lparr>ap_state := st\<rparr>)" "ext s (t\<lparr>ap_timers := ts\<rparr>)" "ext s (t\<lparr>ap_flow := fl, ap_timers := ts\<rparr>)"
    "ext s (t\<lparr>ap_flow := fl\<rparr>)" "ext s (t\<lparr>ap_storage := sto\<rparr>)"
  using assms by (simp_all add: ext_def)

lemma ext_letWorkerGo [intro]: "ext s t \<Longrightarrow> ext s (letWorkerGo b t)"
  by (auto simp: ext_def letWorkerGo_def app_do_def split: option.split)

lemma ext_teardown [intro]: "ext s t \<Longrightarrow> ext s (app_teardown b t)"
  unfolding app_teardown_def Let_def by (intro ext_ops ext_letWorkerGo)

lemma ext_endSessionUi [intro]: "ext s t \<Longrightarrow> ext s (endSessionUi t)"
  unfolding endSessionUi_def by (intro ext_plain ext_ops ext_teardown)

lemma ext_onStreaming [intro]:
  assumes "ext s t"
  shows "ext s (onStreaming e t)"
proof -
  define s2 where "s2 = hideOverlay (persistCredentialIfWanted (if ap_streamStart t = 0 then t\<lparr>ap_streamStart := ae_now e\<rparr> else t))"
  have "ext s s2" using assms by (simp add: s2_def ext_def)
  then show ?thesis
    unfolding onStreaming_def Let_def s2_def [symmetric]
    by (cases "ap_flow s2") (simp_all only: option.case, (intro ext_plain ext_ops | assumption)+)
qed

lemma ext_setState [intro]:
  assumes "ext s t"
  shows "ext s (app_setState e st d t)"
proof -
  define u where "u = refreshPeerSub (renderVoiceCall (t\<lparr>ap_state := st\<rparr>))"
  have "ext s u" using assms by (simp add: u_def ext_def)
  then show ?thesis unfolding app_setState_def Let_def u_def [symmetric] by auto
qed

lemma forgetSession_trace: "ap_trace (forgetSession c s) =
    ap_trace s @ (if ap_file s then [AO_fileDestroy] else []) @ [AO_viewOnly False, AO_hideToast]"
  by (simp add: forgetSession_def removeClipboardSyncOffer_def clearSecurityState_def hideToast_def app_do_def setLatches_def closePop_def
      closeSide_def destroyFilePanel_def Let_def)

lemma ext_forgetSession [intro]: "ext s t \<Longrightarrow> ext s (forgetSession c t)"
  by (auto simp: ext_def forgetSession_trace)

lemma ext_launchWorker [intro]: "ext s t \<Longrightarrow> ext s (launchWorker c t)"
  by (auto simp: ext_def launchWorker_def freshCanvas_def app_do_def Let_def)

lemma ext_startSession [intro]: "ext s t \<Longrightarrow> ext s (startSession e c t)"
  unfolding startSession_def Let_def by (intro ext_setState ext_ops ext_launchWorker ext_forgetSession ext_teardown)

section \<open>Release before letting go\<close>

definition intrusive_block :: "RdApp \<Rightarrow> bool" where
  "intrusive_block s \<longleftrightarrow> sc_blockOn (ap_sec s) \<or> sc_blockPending (ap_sec s)"

definition intrusive_privacy :: "RdApp \<Rightarrow> bool" where
  "intrusive_privacy s \<longleftrightarrow> (sc_privacyOn (ap_sec s) \<or> sc_privacyPending (ap_sec s)) \<and> sc_activeImpl (ap_sec s) \<noteq> []"

definition releases :: "RdApp \<Rightarrow> nat \<Rightarrow> app_out list \<Rightarrow> bool" where
  "releases s w xs \<longleftrightarrow>
     (intrusive_block s \<longrightarrow> AO_post w (Cmd_blockInput False) \<in> set xs) \<and>
     (intrusive_privacy s \<longrightarrow> AO_post w (Cmd_privacyMode (sc_activeImpl (ap_sec s)) False) \<in> set xs)"

definition lets_go :: "RdApp \<Rightarrow> nat \<Rightarrow> RdApp \<Rightarrow> bool" where
  "lets_go s w t \<longleftrightarrow> (\<exists>xs ys. ap_trace t = ap_trace s @ xs @ AO_letGo w # ys \<and> releases s w xs)"

lemma lets_go_ext:
  assumes "ext t u" "lets_go s w t"
  shows "lets_go s w u"
proof -
  obtain zs where "ap_trace u = ap_trace t @ zs" using assms(1) by (auto simp: ext_def)
  moreover obtain xs ys where "ap_trace t = ap_trace s @ xs @ AO_letGo w # ys" "releases s w xs"
    using assms(2) by (auto simp: lets_go_def)
  ultimately have "ap_trace u = ap_trace s @ xs @ AO_letGo w # (ys @ zs) \<and> releases s w xs" by simp
  then show ?thesis unfolding lets_go_def by blast
qed

text \<open>A way to \<open>t\<close> on which the security state stays, or what it says is undone.\<close>

definition carries :: "RdApp \<Rightarrow> nat \<Rightarrow> RdApp \<Rightarrow> bool" where
  "carries s w t \<longleftrightarrow>
     ap_worker t = Some w \<and> (\<exists>zs. ap_trace t = ap_trace s @ zs \<and> (ap_sec t = ap_sec s \<or> releases s w zs))"

lemma carries_refl: "ap_worker s = Some w \<Longrightarrow> carries s w s"
  by (simp add: carries_def)

lemma lets_go_carries:
  assumes "carries s w t" "lets_go t w u"
  shows "lets_go s w u"
proof -
  obtain zs where zs: "ap_trace t = ap_trace s @ zs" "ap_sec t = ap_sec s \<or> releases s w zs"
    using assms(1) by (auto simp: carries_def)
  obtain xs ys where xs: "ap_trace u = ap_trace t @ xs @ AO_letGo w # ys" "releases t w xs"
    using assms(2) by (auto simp: lets_go_def)
  have "releases s w (zs @ xs)"
    using zs(2) xs(2) by (auto simp: releases_def intrusive_block_def intrusive_privacy_def)
  then have "ap_trace u = ap_trace s @ (zs @ xs) @ AO_letGo w # ys \<and> releases s w (zs @ xs)" using zs xs by simp
  then show ?thesis unfolding lets_go_def by blast
qed

lemma carries_keep:
  assumes "carries s w t" "ap_worker u = ap_worker t" "ap_sec u = ap_sec t" "ext t u"
  shows "carries s w u"
  using assms by (auto simp: carries_def ext_def releases_def)

lemma passed_security [simp]:
  "passed s (Cmd_blockInput b) = Some (Cmd_blockInput b)" "passed s (Cmd_privacyMode k b) = Some (Cmd_privacyMode k b)"
  by (simp_all add: passed_def sendsRemoteInput_def inputChannel_def is_lockScreen_def with_latches_def)

lemma release_posts:
  assumes "ap_worker s = Some w"
  shows "\<exists>zs. ap_trace (releaseRemoteSecurityState s) = ap_trace s @ zs \<and> releases s w zs"
  using assms
  by (auto simp: releaseRemoteSecurityState_def Let_def app_post_def app_do_def releases_def intrusive_block_def intrusive_privacy_def)

lemma endVoiceCall_sec [simp]: "ap_sec (endVoiceCall b s) = ap_sec s"
  by (simp add: endVoiceCall_def stopVoice_def renderVoiceCall_def app_post_def app_do_def Let_def split: option.split)

lemma teardown_lets_go:
  assumes "ap_worker s = Some w"
  shows "lets_go s w (app_teardown b s)"
proof -
  define s1 where "s1 = endVoiceCall False (s\<lparr>ap_epoch := Suc (ap_epoch s)\<rparr>)"
  have q1: "framed s s1" unfolding s1_def by (intro quiet_intros)
  have w1: "ap_worker s1 = Some w" using quiet_worker [OF q1] assms by simp
  obtain as where as: "ap_trace s1 = ap_trace s @ as" using q1 by (auto simp: framed_def)
  have sec: "ap_sec s1 = ap_sec s" by (simp add: s1_def)
  obtain zs where zs: "ap_trace (releaseRemoteSecurityState s1) = ap_trace s1 @ zs" "releases s1 w zs"
    using release_posts [OF w1] by blast
  define m where "m = teardownMse ((removeClipboardSyncOffer (closeAudio (endRecording (releaseRemoteSecurityState s1))))\<lparr>ap_input := None\<rparr>)"
  have qm: "framed (releaseRemoteSecurityState s1) m" unfolding m_def by (intro quiet_intros)
  have "framed s1 (releaseRemoteSecurityState s1)" by (intro quiet_intros)
  then have wm: "ap_worker m = Some w" using quiet_worker [OF qm] quiet_worker w1 by simp
  obtain cs where cs: "ap_trace m = ap_trace (releaseRemoteSecurityState s1) @ cs" using qm by (auto simp: framed_def)
  have r: "releases s w (as @ zs @ cs)"
    using zs(2) sec by (auto simp: releases_def intrusive_block_def intrusive_privacy_def)
  have "ap_trace (letWorkerGo b m) = ap_trace s @ (as @ zs @ cs) @ AO_letGo w # (if b then [AO_terminate w] else [])"
    using wm as zs cs by (simp add: letWorkerGo_def app_do_def)
  then have "lets_go s w (letWorkerGo b m)" unfolding lets_go_def using r by blast
  then have "lets_go s w (resetPermissions (letWorkerGo b m))"
    by (rule lets_go_ext [rotated]) (intro ext_ops ext_refl)
  then show ?thesis unfolding app_teardown_def Let_def s1_def m_def .
qed

section \<open>Every call\<close>

definition kept_or_gone :: "RdApp \<Rightarrow> RdApp \<Rightarrow> bool" where
  "kept_or_gone s t \<longleftrightarrow> (\<forall>w. ap_worker s = Some w \<longrightarrow> ap_worker t = Some w \<or> lets_go s w t)"

lemma kg_same: "ap_worker t = ap_worker s \<Longrightarrow> kept_or_gone s t"
  by (simp add: kept_or_gone_def)

lemma kg_gone: "(\<And>w. ap_worker s = Some w \<Longrightarrow> lets_go s w t) \<Longrightarrow> kept_or_gone s t"
  by (simp add: kept_or_gone_def)

lemma kg_quiet: "framed s t \<Longrightarrow> kept_or_gone s t"
  by (rule kg_same) (rule quiet_worker)

lemmas worker_ops [simp] =
  quiet_toast [OF framed_refl, THEN quiet_worker] quiet_overlay [OF framed_refl, THEN quiet_worker]
  quiet_panels [OF framed_refl, THEN quiet_worker] quiet_voice [OF framed_refl, THEN quiet_worker]
  quiet_media [OF framed_refl, THEN quiet_worker] quiet_security [OF framed_refl, THEN quiet_worker]
  quiet_connecting [OF framed_refl, THEN quiet_worker] quiet_post [OF framed_refl, THEN quiet_worker]
  quiet_permissions [OF framed_refl, THEN quiet_worker]

lemma same_worker [simp]:
  "ap_worker (setOverlayBusy b s) = ap_worker s" "ap_worker (hideOverlay s) = ap_worker s"
  "ap_worker (persistCredentialIfWanted s) = ap_worker s" "ap_worker (clearFlowTimers ks i s) = ap_worker s"
  "ap_worker (clearRestartFlow s) = ap_worker s"
  by (simp_all add: setOverlayBusy_def hideOverlay_def setOverlayError_def persistCredentialIfWanted_def clearFlowTimers_def
      clearRestartFlow_def cancelButton_def Let_def split: option.split list.split)

lemma same_sec [simp]:
  "ap_sec (clearFlowTimers ks i s) = ap_sec s" "ap_sec (clearRestartFlow s) = ap_sec s" "ap_sec (renderVoiceCall s) = ap_sec s"
  "ap_sec (refreshPeerSub s) = ap_sec s" "ap_sec (setOverlayError m s) = ap_sec s"
  by (simp_all add: clearFlowTimers_def clearRestartFlow_def cancelButton_def renderVoiceCall_def refreshPeerSub_def setOverlayError_def
      Let_def split: option.split)

lemma onStreaming_worker [simp]: "ap_worker (onStreaming e s) = ap_worker s"
proof -
  define s2 where "s2 = hideOverlay (persistCredentialIfWanted (if ap_streamStart s = 0 then s\<lparr>ap_streamStart := ae_now e\<rparr> else s))"
  have "ap_worker s2 = ap_worker s" by (simp add: s2_def)
  then show ?thesis unfolding onStreaming_def Let_def s2_def [symmetric] by (simp split: option.split)
qed

lemma carries_teardown:
  assumes "carries s w t" "ext (app_teardown b t) u"
  shows "lets_go s w u"
proof -
  have "ap_worker t = Some w" using assms(1) by (simp add: carries_def)
  then show ?thesis using assms lets_go_carries teardown_lets_go lets_go_ext by blast
qed

text \<open>A field that neither the worker, the security state nor the outputs are part of.\<close>

lemma carries_field:
  assumes "ap_worker s = Some w" "ap_worker t = ap_worker s" "ap_sec t = ap_sec s" "ap_trace t = ap_trace s"
  shows "carries s w t"
  using assms by (simp add: carries_def)

lemma app_setState_carries:
  assumes "carries s w t"
  shows "ap_worker (app_setState e st d t) = Some w \<or> lets_go s w (app_setState e st d t)"
proof -
  define u where "u = refreshPeerSub (renderVoiceCall (t\<lparr>ap_state := st\<rparr>))"
  have u: "ap_worker u = Some w" using assms by (simp add: u_def carries_def)
  have c: "carries s w u" using assms by (rule carries_keep) (simp_all add: u_def ext_def)
  have "ext (app_teardown False u) (endSessionUi u)" unfolding endSessionUi_def by (intro ext_plain ext_ops ext_refl)
  then have g: "lets_go s w (endSessionUi u)" using carries_teardown [OF c] by blast
  then have "lets_go s w (setOverlayError m (endSessionUi u))" "lets_go s w (setOverlayStatusText m (endSessionUi u))" for m
    by (auto intro: lets_go_ext)
  then show ?thesis using u unfolding app_setState_def Let_def u_def [symmetric] by simp
qed

lemma kg_setState:
  assumes "ap_worker t = ap_worker s" "ap_sec t = ap_sec s" "ap_trace t = ap_trace s"
  shows "kept_or_gone s (app_setState e st d t)"
  unfolding kept_or_gone_def using app_setState_carries carries_field assms by blast

lemma kg_startSession:
  assumes "ap_worker t = ap_worker s" "ap_sec t = ap_sec s" "ap_trace t = ap_trace s"
  shows "kept_or_gone s (startSession e c t)"
proof (rule kg_gone)
  fix w assume "ap_worker s = Some w"
  then have "carries s w t" using assms by (simp add: carries_field)
  moreover have "ext (app_teardown False t) (startSession e c t)"
    unfolding startSession_def Let_def by (intro ext_setState ext_ops ext_launchWorker ext_forgetSession ext_refl)
  ultimately show "lets_go s w (startSession e c t)" by (rule carries_teardown)
qed

lemma kg_connect:
  assumes "ap_worker t = ap_worker s" "ap_sec t = ap_sec s" "ap_trace t = ap_trace s"
  shows "kept_or_gone s (startSession e c (ap_creds_update f t))"
    "kept_or_gone s (startSession e c (ap_creds_update f (t\<lparr>ap_storage := st\<rparr>)))"
  using assms by (intro kg_startSession; simp)+

lemma kg_onConnectClick: "kept_or_gone s (onConnectClick e s)"
proof -
  define p where
    "p = consumePasswordInput (setLoggedOutFlag e False (setOverlayError [] (s\<lparr>ap_peerId :=
       normalizePeerId (if ch_idInput (ap_chrome s) \<noteq> [] then ch_idInput (ap_chrome s) else ap_fixedPeerId s)\<rparr>)))"
  have p: "ap_worker (fst p) = ap_worker s" "ap_sec (fst p) = ap_sec s" "ap_trace (fst p) = ap_trace s"
    by (simp_all add: p_def consumePasswordInput_def setLoggedOutFlag_def setOverlayError_def)
  note k = kg_connect [OF p]
  have o: "kept_or_gone s (setOverlayError m s)" for m by (intro kg_same) simp
  show ?thesis
    unfolding onConnectClick_def Let_def p_def [symmetric]
    by (simp add: case_prod_beta k o kg_same split: option.split)
qed

lemma carries_clearRestartFlow: "ap_worker s = Some w \<Longrightarrow> carries s w (clearRestartFlow s)"
  by (simp add: carries_field)

lemma kg_schedule: "kept_or_gone s (scheduleRestartReconnect e d s)"
proof (cases "ap_flow s")
  case (Some f)
  show ?thesis
  proof (cases "fl_timer f")
    case False
    show ?thesis
    proof (rule kg_gone)
      fix w assume w: "ap_worker s = Some w"
      define t where "t = app_teardown False (clearFlowTimers [TK_stable] (fl_id f) s)"
      have c: "carries s w (clearFlowTimers [TK_stable] (fl_id f) s)" using w by (simp add: carries_field)
      define s1 where "s1 = closePop (closeSide (destroyFilePanel (clearSecurityState t)))"
      have e1: "ext t s1" unfolding s1_def by (intro ext_ops ext_refl)
      have "ext t (scheduleRestartReconnect e d s)"
        unfolding scheduleRestartReconnect_def Some option.case Let_def t_def [symmetric] s1_def [symmetric]
        using False e1 by (auto intro!: ext_setState ext_plain ext_ops split: option.split)
      then show "lets_go s w (scheduleRestartReconnect e d s)" using carries_teardown [OF c] by (simp add: t_def)
    qed
  qed (use Some in \<open>simp add: scheduleRestartReconnect_def kg_same\<close>)
qed (simp add: scheduleRestartReconnect_def kg_same)

lemma kg_expire:
  assumes "ap_worker t = ap_worker s" "ap_sec t = ap_sec s" "ap_trace t = ap_trace s"
  shows "kept_or_gone s (expireRestartFlow e i t)"
proof -
  let ?c = "clearRestartFlow t"
  have c: "ap_worker ?c = ap_worker s" "ap_sec ?c = ap_sec s" "ap_trace ?c = ap_trace s" using assms by simp_all
  have "kept_or_gone s (app_setState e st d (clearSecurityState (app_teardown True ?c)))" for st d
  proof (rule kg_gone)
    fix w assume "ap_worker s = Some w"
    then have "carries s w ?c" using c by (intro carries_field)
    moreover have "ext (app_teardown True ?c) (app_setState e st d (clearSecurityState (app_teardown True ?c)))"
      by (intro ext_setState ext_ops ext_refl)
    ultimately show "lets_go s w (app_setState e st d (clearSecurityState (app_teardown True ?c)))" by (rule carries_teardown)
  qed
  moreover have "kept_or_gone s (app_setState e st d ?c)" for st d using kg_setState [OF c] .
  moreover have "kept_or_gone s (toast m ?c)" for m using c by (intro kg_same) simp
  moreover have "kept_or_gone s t" using assms by (intro kg_same)
  ultimately show ?thesis by (auto simp: expireRestartFlow_def Let_def split: option.split)
qed

lemma kg_flowTimer: "kept_or_gone s (flowTimer e k i s)"
proof -
  let ?t = "s\<lparr>ap_timers := remove1 (k, i) (ap_timers s)\<rparr>"
  have "kept_or_gone s (retryTimer e i ?t)"
    unfolding retryTimer_def Let_def
    by (auto simp: kg_same kg_expire kg_startSession split: option.split)
  moreover have "kept_or_gone s (stableTimer i ?t)" by (intro kg_same) (simp add: stableTimer_def)
  moreover have "kept_or_gone s (expireRestartFlow e i ?t)" by (intro kg_expire) simp_all
  ultimately show ?thesis unfolding flowTimer_def Let_def by (cases k) (simp_all add: kg_same)
qed

lemma kg_ext:
  assumes "kept_or_gone s t" "ext t u" "ap_worker u = ap_worker t"
  shows "kept_or_gone s u"
  using assms lets_go_ext unfolding kept_or_gone_def by metis

lemma kg_onState: "kept_or_gone s (app_onState e st d b s)"
  by (auto simp: app_onState_def intro: kg_schedule kg_setState)

lemma kg_applyPermission: "kept_or_gone s (applyPermission e k b s)"
proof -
  let ?s = "s\<lparr>ap_permissions := (ap_permissions s)(k \<mapsto> b)\<rparr>"
  have "kept_or_gone s (permissionRestart e k b ?s)"
    unfolding permissionRestart_def by (auto simp: kg_setState kg_same)
  then show ?thesis
    unfolding applyPermission_def by (rule kg_ext) (intro ext_ops ext_refl, simp)
qed

lemma kg_onLoginError: "kept_or_gone s (onLoginError m s)"
proof (rule kg_gone)
  fix w assume "ap_worker s = Some w"
  then have "carries s w (clearRestartFlow s)" by (rule carries_clearRestartFlow)
  moreover have "ext (app_teardown False (clearRestartFlow s)) (onLoginError m s)"
  proof -
    define t where "t = app_teardown False (clearRestartFlow s)"
    have "ext t (ap_creds_update f (ap_chrome_update g (t\<lparr>ap_storage := x\<rparr>)))" for f g x by (simp add: ext_def)
    then have "ext t (if cr_withSaved (ap_creds t)
        then ap_creds_update (\<lambda>c. c\<lparr>cr_withSaved := False\<rparr>)
               (ap_chrome_update (\<lambda>c. c\<lparr>ch_save := False, ch_savedHint := False\<rparr>)
                 (t\<lparr>ap_storage := clearSavedHash (ap_peerId t) (ap_storage t)\<rparr>))
        else t)" by (simp add: ext_refl)
    then show ?thesis unfolding onLoginError_def Let_def t_def [symmetric] by (intro ext_ops ext_plain)
  qed
  ultimately show "lets_go s w (onLoginError m s)" by (rule carries_teardown)
qed

lemma kg_onEvent: "kept_or_gone s (app_onEvent e ev s)"
proof (cases "plain_event ev")
  case True
  then show ?thesis by (intro kg_quiet quiet_app_onEvent)
next
  case False
  then show ?thesis
    by (cases ev; simp only: app_onEvent_def SessionEvent.case plain_event_def)
      (simp_all add: kg_onState kg_applyPermission kg_onLoginError)
qed

lemma kg_disconnect: "kept_or_gone s (disconnectClick e s)"
proof -
  define a where "a = endVoiceCall True (clearRestartFlow (setLoggedOutFlag e True s))"
  define d where "d = app_post Cmd_disconnect (destroyAdvancedPanels (releaseRemoteSecurityState a))"
  have "carries s w d" if w: "ap_worker s = Some w" for w
  proof -
    have wa: "ap_worker a = Some w" using w by (simp add: a_def)
    have sa: "ap_sec a = ap_sec s" by (simp add: a_def setLoggedOutFlag_def)
    have "ext s a" unfolding a_def by (intro ext_ops ext_plain ext_refl)
    then obtain as where as: "ap_trace a = ap_trace s @ as" by (auto simp: ext_def)
    obtain zs where zs: "ap_trace (releaseRemoteSecurityState a) = ap_trace a @ zs" "releases a w zs" using release_posts [OF wa] by blast
    have "ext (releaseRemoteSecurityState a) d" unfolding d_def by (intro ext_ops ext_refl) simp
    then obtain ds where ds: "ap_trace d = ap_trace (releaseRemoteSecurityState a) @ ds" by (auto simp: ext_def)
    have "releases s w (as @ zs @ ds)" using zs(2) sa by (auto simp: releases_def intrusive_block_def intrusive_privacy_def)
    moreover have "ap_worker d = Some w" using wa by (simp add: d_def)
    ultimately show ?thesis using as zs ds by (auto simp: carries_def)
  qed
  then show ?thesis
    unfolding disconnectClick_def kept_or_gone_def a_def [symmetric] d_def [symmetric] using app_setState_carries by blast
qed

lemma kg_dispose: "kept_or_gone s (dispose s)"
proof (rule kg_gone)
  fix w assume "ap_worker s = Some w"
  then have "carries s w (clearRestartFlow s)" by (rule carries_clearRestartFlow)
  moreover have "ext (app_teardown False (clearRestartFlow s)) (dispose s)" unfolding dispose_def by (intro ext_ops ext_refl)
  ultimately show "lets_go s w (dispose s)" by (rule carries_teardown)
qed

lemma kg_cancel: "kept_or_gone s (cancelRestartReconnect e s)"
proof -
  have "kept_or_gone s (toast m (app_setState e st d (clearRestartFlow s)))" for m st d
    by (rule kg_ext [OF kg_setState [of "clearRestartFlow s"]]) (auto intro!: ext_ops ext_refl)
  then show ?thesis by (auto simp: cancelRestartReconnect_def Let_def intro: kg_same)
qed

lemma kg_restart: "kept_or_gone s (beginRemoteRestart e s)"
  by (intro kg_same) (simp add: beginRemoteRestart_def Let_def sticky_toast_def app_do_def split: option.split)

lemma kg_user_step: "kept_or_gone s (user_step e a s)"
proof (cases "plain_action a")
  case True
  then show ?thesis by (intro kg_quiet quiet_user_step)
next
  case False
  have v: "kept_or_gone s (toggleViewOnly s)"
    by (intro kg_same) (simp add: toggleViewOnly_def toast_def removeClipboardSyncOffer_def destroyTerminalPanel_def setLatches_def app_do_def Let_def)
  have r: "kept_or_gone s (beginRemoteRestart e (closePop s))"
    by (intro kg_same) (simp add: beginRemoteRestart_def Let_def sticky_toast_def app_do_def split: option.split)
  show ?thesis using False v r
    by (cases a) (auto simp: user_step_def plain_action_def restarts_def moreAction_def activateSecurityControl_def
        kg_onConnectClick kg_cancel kg_disconnect kg_same split: option.split Popover.split)
qed

lemma kg_step: "kept_or_gone s (app_step ec s)"
proof -
  obtain e c where ec: "ec = (e, c)" by fastforce
  show ?thesis
  proof (cases "plain_call c")
    case True
    then show ?thesis unfolding ec by (intro kg_quiet quiet_app_step)
  next
    case False
    have f: "kept_or_gone s (terminateFlushed w s)" for w by (intro kg_same) (simp add: terminateFlushed_def app_do_def)
    show ?thesis unfolding ec using False f
      by (cases c) (auto simp: app_step_def plain_call_def kg_user_step kg_onEvent kg_flowTimer kg_dispose kg_same intro: kg_setState)
  qed
qed

end
