(* ===== verification/App_Credentials.thy ===== *)
theory App_Credentials
  imports App_Release
begin

text \<open>
  When the application shell writes a password hash to the browser's storage: every operation but
  the arrival of a session at streaming keeps the stored hashes or removes some.
\<close>

definition shrinks :: "RdApp \<Rightarrow> RdApp \<Rightarrow> bool" where
  "shrinks s t \<longleftrightarrow> (\<forall>p h. loadSavedHash (ap_storage t) p = Some h \<longrightarrow> loadSavedHash (ap_storage s) p = Some h)"

lemma shrinks_same: "ap_storage t = ap_storage s \<Longrightarrow> shrinks s t"
  by (simp add: shrinks_def)

lemma shrinks_clear: "ap_storage t = clearSavedHash p (ap_storage s) \<Longrightarrow> shrinks s t"
  by (simp add: shrinks_def load_clear)

lemma framed_storage: "framed s t \<Longrightarrow> ap_storage t = ap_storage s"
  by (simp add: framed_def same_frame_def)

lemmas storage_ops [simp] =
  quiet_toast [OF framed_refl, THEN framed_storage] quiet_overlay [OF framed_refl, THEN framed_storage]
  quiet_panels [OF framed_refl, THEN framed_storage] quiet_voice [OF framed_refl, THEN framed_storage]
  quiet_media [OF framed_refl, THEN framed_storage] quiet_security [OF framed_refl, THEN framed_storage]
  quiet_connecting [OF framed_refl, THEN framed_storage] quiet_post [OF framed_refl, THEN framed_storage]
  quiet_permissions [OF framed_refl, THEN framed_storage]

lemma storage_same [simp]:
  "ap_storage (setOverlayBusy b s) = ap_storage s" "ap_storage (hideOverlay s) = ap_storage s"
  "ap_storage (clearFlowTimers ks i s) = ap_storage s" "ap_storage (clearRestartFlow s) = ap_storage s"
  "ap_storage (letWorkerGo b s) = ap_storage s" "ap_storage (launchWorker c s) = ap_storage s"
  "ap_storage (forgetSession c s) = ap_storage s"
  by (simp_all add: setOverlayBusy_def hideOverlay_def clearFlowTimers_def clearRestartFlow_def letWorkerGo_def launchWorker_def
      freshCanvas_def forgetSession_def app_do_def setLatches_def Let_def split: option.split)

lemma storage_teardown [simp]: "ap_storage (app_teardown b s) = ap_storage s"
  by (simp add: app_teardown_def Let_def)

lemma storage_endSessionUi [simp]: "ap_storage (endSessionUi s) = ap_storage s"
  by (simp add: endSessionUi_def)

lemma storage_onStreaming:
  "ap_storage (onStreaming e s) = ap_storage (persistCredentialIfWanted s)"
proof -
  define u where "u = hideOverlay (persistCredentialIfWanted (if ap_streamStart s = 0 then s\<lparr>ap_streamStart := ae_now e\<rparr> else s))"
  have u: "ap_storage u = ap_storage (persistCredentialIfWanted s)"
    by (simp add: u_def persistCredentialIfWanted_def split: option.split list.split)
  show ?thesis
    unfolding onStreaming_def Let_def u_def [symmetric] by (simp add: u showClipboardSyncOffer_def Let_def split: option.split)
qed

lemma storage_setState:
  "ap_storage (app_setState e st d s) = (if st = Streaming then ap_storage (persistCredentialIfWanted s) else ap_storage s)"
  by (simp add: app_setState_def Let_def storage_onStreaming persistCredentialIfWanted_def refreshPeerSub_def renderVoiceCall_def
      split: option.split list.split)

lemma storage_startSession [simp]: "ap_storage (startSession e c s) = ap_storage s"
  by (simp add: startSession_def Let_def storage_setState)

lemma shrinks_connect: "shrinks s (onConnectClick e s)"
proof -
  define p where
    "p = consumePasswordInput (setLoggedOutFlag e False (setOverlayError [] (s\<lparr>ap_peerId :=
       normalizePeerId (if ch_idInput (ap_chrome s) \<noteq> [] then ch_idInput (ap_chrome s) else ap_fixedPeerId s)\<rparr>)))"
  have "ap_storage (fst p) = ap_storage s"
    by (simp add: p_def consumePasswordInput_def setLoggedOutFlag_def setOverlayError_def)
  then show ?thesis
    unfolding onConnectClick_def Let_def p_def [symmetric]
    by (simp add: case_prod_beta shrinks_same shrinks_clear split: option.split)
qed

lemma shrinks_schedule: "shrinks s (scheduleRestartReconnect e d s)"
proof (cases "ap_flow s")
  case (Some f)
  define t where "t = closePop (closeSide (destroyFilePanel (clearSecurityState (app_teardown False (clearFlowTimers [TK_stable] (fl_id f) s)))))"
  have "ap_storage t = ap_storage s" by (simp add: t_def)
  then show ?thesis
    unfolding scheduleRestartReconnect_def Some option.case Let_def t_def [symmetric]
    by (intro shrinks_same) (simp add: storage_setState split: option.split)
qed (simp add: scheduleRestartReconnect_def shrinks_same)

lemma storage_expire [simp]: "ap_storage (expireRestartFlow e i s) = ap_storage s"
  by (simp add: expireRestartFlow_def Let_def storage_setState split: option.split)

lemma storage_timer [simp]: "ap_storage (flowTimer e k i s) = ap_storage s"
proof -
  define t where "t = s\<lparr>ap_timers := remove1 (k, i) (ap_timers s)\<rparr>"
  have "ap_storage t = ap_storage s" by (simp add: t_def)
  then show ?thesis
    unfolding flowTimer_def Let_def t_def [symmetric]
    by (simp add: retryTimer_def stableTimer_def Let_def split: FlowTimer.split option.split)
qed

lemma storage_permission [simp]: "ap_storage (applyPermission e k b s) = ap_storage s"
  by (simp add: applyPermission_def permissionRestart_def storage_setState)

lemma shrinks_loginError: "shrinks s (onLoginError m s)"
proof -
  define t where "t = app_teardown False (clearRestartFlow s)"
  have t: "ap_storage t = ap_storage s" by (simp add: t_def)
  show ?thesis
    unfolding onLoginError_def Let_def t_def [symmetric]
    by (cases "cr_withSaved (ap_creds t)") (simp_all add: t shrinks_same shrinks_clear)
qed

lemma storage_viewOnly [simp]: "ap_storage (toggleViewOnly s) = ap_storage s"
  by (simp add: toggleViewOnly_def setLatches_def app_do_def Let_def)

lemma storage_restart [simp]: "ap_storage (beginRemoteRestart e s) = ap_storage s"
  by (simp add: beginRemoteRestart_def Let_def split: option.split)

lemma shrinks_user: "shrinks s (user_step e a s)"
proof (cases "plain_action a")
  case True
  then show ?thesis by (intro shrinks_same framed_storage quiet_user_step)
next
  case False
  then show ?thesis
    by (cases a) (auto simp: user_step_def plain_action_def restarts_def moreAction_def activateSecurityControl_def shrinks_connect
        cancelRestartReconnect_def disconnectClick_def storage_setState Let_def intro: shrinks_same split: option.split Popover.split)
qed

lemma shrinks_onState: "st \<noteq> Streaming \<Longrightarrow> shrinks s (app_onState e st d b s)"
  by (simp add: app_onState_def shrinks_schedule shrinks_same storage_setState)

lemma shrinks_event:
  assumes "\<And>d b. ev \<noteq> Ev_state Streaming d b"
  shows "shrinks s (app_onEvent e ev s)"
proof (cases "plain_event ev")
  case True
  then show ?thesis by (intro shrinks_same framed_storage quiet_app_onEvent)
next
  case False
  have "st \<noteq> Streaming" if "ev = Ev_state st d b" for st d b using assms that by blast
  then show ?thesis using False
    by (cases ev; simp only: app_onEvent_def SessionEvent.case plain_event_def)
      (simp_all add: shrinks_onState shrinks_loginError shrinks_same)
qed

text \<open>Everything but a session that starts to stream.\<close>

lemma shrinks_step:
  assumes "\<And>d b. snd ec \<noteq> AC_event (Ev_state Streaming d b)"
  shows "shrinks s (app_step ec s)"
proof -
  obtain e c where ec: "ec = (e, c)" by fastforce
  show ?thesis
  proof (cases "plain_call c")
    case True
    then show ?thesis unfolding ec by (intro shrinks_same framed_storage quiet_app_step)
  next
    case False
    then show ?thesis using assms unfolding ec
      by (cases c) (auto simp: app_step_def plain_call_def shrinks_user shrinks_event dispose_def terminateFlushed_def app_do_def
          storage_setState intro: shrinks_same)
  qed
qed

end
