(* ===== verification/App_Claims.thy ===== *)
theory App_Claims
  imports App_Credentials
begin

text \<open>
  What the application shell promises over every sequence of calls, from the invariants of
  \<open>App_Properties\<close> and \<open>App_Release\<close>, and the places where it does something else than it says.
\<close>

section \<open>Reading the outputs\<close>

text \<open>The mode the view-only button shows after these outputs, and the worker commands go to.\<close>

definition mode_shown :: "app_out list \<Rightarrow> bool" where
  "mode_shown tr = foldl (\<lambda>m x. case x of AO_viewOnly b \<Rightarrow> b | _ \<Rightarrow> m) False tr"

definition attached :: "app_out list \<Rightarrow> nat option" where
  "attached tr = foldl (\<lambda>m x. case x of AO_worker w _ \<Rightarrow> Some w | AO_letGo _ \<Rightarrow> None | _ \<Rightarrow> m) None tr"

definition acts_on_remote :: "app_out \<Rightarrow> bool" where
  "acts_on_remote x \<longleftrightarrow>
     (case x of
        AO_post _ c \<Rightarrow> inputChannel c \<noteq> None
      | AO_terminalOpen \<Rightarrow> True
      | _ \<Rightarrow> False)"

lemma view_fst: "fst (view_mon tr) = mode_shown tr"
  unfolding view_mon_def mode_shown_def
  by (induction tr rule: rev_induct) (auto simp: view_mon1_def split: app_out.split)

lemma worker_fst: "fst (worker_mon tr) = attached tr"
  unfolding worker_mon_def attached_def
  by (induction tr rule: rev_induct) (auto simp: worker_mon1_def split: app_out.split)

lemma view_snd_mono: "snd (foldl view_mon1 m xs) \<Longrightarrow> snd m"
proof (induction xs arbitrary: m)
  case (Cons x xs)
  then have "snd (view_mon1 m x)" by simp
  then show ?case by (simp add: view_mon1_def split: app_out.splits)
qed simp

lemma worker_snd_mono: "snd (foldl worker_mon1 m xs) \<Longrightarrow> snd m"
proof (induction xs arbitrary: m)
  case (Cons x xs)
  then have "snd (worker_mon1 m x)" by simp
  then show ?case by (simp add: worker_mon1_def split: app_out.splits)
qed simp

lemma mon_split:
  assumes "core s" "ap_trace s = a @ x # b"
  shows "snd (view_mon1 (view_mon a) x)" "snd (worker_mon1 (worker_mon a) x)"
proof -
  have "snd (foldl view_mon1 (view_mon1 (view_mon a) x) b)" "snd (foldl worker_mon1 (worker_mon1 (worker_mon a) x) b)"
    using assms by (simp_all add: core_def mon_append)
  then show "snd (view_mon1 (view_mon a) x)" "snd (worker_mon1 (worker_mon a) x)"
    using view_snd_mono worker_snd_mono by blast+
qed

lemma core_run: "app_init s0 \<Longrightarrow> core (fold app_step cs s0)"
  by (intro app.inv_fold core_init)

lemma waits_run: "app_init s0 \<Longrightarrow> core (fold app_step cs s0) \<and> wait_ok (fold app_step cs s0)"
  using waits.inv_fold [of s0 cs] core_init wait_ok_init by blast

section \<open>A session to try\<close>

definition demo_app_env :: app_env where
  "demo_app_env =
     \<lparr>ae_now = 1000, ae_confirm = True, ae_history = False, ae_audioContext = False, ae_voiceStarts = False, ae_recorder = None,
      ae_mediaRecorder = True, ae_decoder = True, ae_mse = False, ae_secure = Some True, ae_clipboardApi = False,
      ae_parse = (\<lambda>_. None), ae_stringify = (\<lambda>_. []), ae_surface = \<lparr>rc_left = 0, rc_top = 0, rc_width = 0, rc_height = 0\<rparr>,
      ae_viewport = \<lparr>rc_left = 0, rc_top = 0, rc_width = 0, rc_height = 0\<rparr>\<rparr>"

definition demo_global :: RdGlobalConfig where
  "demo_global =
     \<lparr>g_peerId = None, g_serverKeyB64 = [], g_wsIdUrl = [], g_wsRelayUrl = [], g_myId = [], g_myName = [], g_version = None,
      g_workerUrl = None\<rparr>"

definition demo_page :: mount_page where
  "demo_page = \<lparr>mt_params = (\<lambda>_ _. None), mt_search = [], mt_attr = None, mt_base = [], mt_resolve = (\<lambda>_ _. [])\<rparr>"

definition demo_app :: RdApp where
  "demo_app = mount demo_app_env demo_page (newRdApp (Some demo_global) \<lparr>ls_up = False, ls_room = False, ls_map = Map.empty\<rparr> False)"

lemma demo_app_init: "app_init demo_app"
  unfolding app_init_def demo_app_def by blast

definition demo_connect :: "(app_env \<times> app_call) list" where
  "demo_connect = map (Pair demo_app_env) [AC_user (UA_peerId (js ''42'')), AC_user UA_connect]"

lemma demo_mounted: "demo_app = newRdApp (Some demo_global) \<lparr>ls_up = False, ls_room = False, ls_map = Map.empty\<rparr> False"
  by (simp add: demo_app_def mount_def newRdApp_def fixed_peer_def demo_page_def demo_global_def demo_app_env_def peerIdFromSearch_def
      normalizePeerId_def secureContextProblem_def resolveWorkerUrl_def Let_def cong: let_weak_cong)

lemma demo_id: "normalizePeerId (js ''42'') = js ''42''" "js ''42'' \<noteq> []"
  by code_simp+

subsection \<open>What a new session is\<close>

lemma app_setState_connecting:
  "ap_worker (app_setState e Connecting d s) = ap_worker s" "ap_viewOnly (app_setState e Connecting d s) = ap_viewOnly s"
  "ap_permissions (app_setState e Connecting d s) = ap_permissions s" "ap_trace (app_setState e Connecting d s) = ap_trace s"
  "ap_state (app_setState e Connecting d s) = Connecting" "ap_creds (app_setState e Connecting d s) = ap_creds s"
  by (simp_all add: app_setState_def setOverlayStatusText_def setOverlayBusy_def setOverlayError_def showOverlay_def refreshPeerSub_def
      renderVoiceCall_def Let_def)

lemma next_teardown: "ap_next (app_teardown b s) = ap_next s"
proof -
  have q: "framed t u \<Longrightarrow> ap_next u = ap_next t" for t u by (simp add: framed_def same_frame_def)
  define m where "m = teardownMse ((removeClipboardSyncOffer (closeAudio (endRecording (releaseRemoteSecurityState
    (endVoiceCall False (s\<lparr>ap_epoch := Suc (ap_epoch s)\<rparr>))))))\<lparr>ap_input := None\<rparr>)"
  have "framed s m" unfolding m_def by (intro quiet_intros)
  moreover have "framed (letWorkerGo b m) (resetPermissions (letWorkerGo b m))" by (intro quiet_intros)
  ultimately show ?thesis using q unfolding app_teardown_def Let_def m_def [symmetric]
    by (fastforce simp: letWorkerGo_def app_do_def split: option.split)
qed

lemma forgetSession_fields:
  "ap_next (forgetSession c s) = ap_next s" "\<not> ap_viewOnly (forgetSession c s)"
  "cr_reconnect (ap_creds (forgetSession c s)) = Some (c\<lparr>password := []\<rparr>)"
  by (simp_all add: forgetSession_def removeClipboardSyncOffer_def clearSecurityState_def hideToast_def app_do_def setLatches_def
      closePop_def closeSide_def destroyFilePanel_def Let_def)

lemma new_session:
  "ap_worker (startSession e c s) = Some (ap_next s)" "\<not> ap_viewOnly (startSession e c s)"
  "ap_permissions (startSession e c s) = Map.empty" "ap_state (startSession e c s) = Connecting"
  "cr_reconnect (ap_creds (startSession e c s)) = Some (c\<lparr>password := []\<rparr>)"
proof -
  define f where "f = createAudioPlayback e (forgetSession c (app_teardown False s))"
  have f: "ap_next f = ap_next s" "\<not> ap_viewOnly f" "cr_reconnect (ap_creds f) = Some (c\<lparr>password := []\<rparr>)"
    by (simp_all add: f_def createAudioPlayback_def app_do_def forgetSession_fields next_teardown)
  define t where "t = resetPermissions (ap_details_update (\<lambda>d. d\<lparr>dt_peerLabel := ap_peerId (launchWorker c f),
    dt_device := ap_peerId (launchWorker c f)\<rparr>) (launchWorker c f))"
  have "ap_worker t = Some (ap_next s)" "\<not> ap_viewOnly t" "ap_permissions t = Map.empty"
    "cr_reconnect (ap_creds t) = Some (c\<lparr>password := []\<rparr>)"
    using f by (simp_all add: t_def resetPermissions_def set_disabled_def launchWorker_def freshCanvas_def app_do_def Let_def)
  then show "ap_worker (startSession e c s) = Some (ap_next s)" "\<not> ap_viewOnly (startSession e c s)"
    "ap_permissions (startSession e c s) = Map.empty" "ap_state (startSession e c s) = Connecting"
    "cr_reconnect (ap_creds (startSession e c s)) = Some (c\<lparr>password := []\<rparr>)"
    unfolding startSession_def Let_def f_def [symmetric] t_def [symmetric] by (simp_all add: app_setState_connecting)
qed

lemma demo_connected: "\<exists>c s. fold app_step demo_connect demo_app = startSession demo_app_env c s \<and> ap_next s = 0"
  unfolding demo_connect_def demo_mounted
  by (simp add: app_step_def user_step_def newRdApp_def hydrateSavedPassword_def loadSavedHash_def demo_id onConnectClick_def
      secureContextProblem_def consumePasswordInput_def setLoggedOutFlag_def setOverlayError_def login_config_def
      clearSavedHash_def demo_app_env_def demo_global_def case_prod_beta Let_def cong: let_weak_cong) (intro exI conjI, rule refl, simp)

text \<open>The demo session goes on: the peer streams, tells what it is, and the user asks it to restart.\<close>

lemma streaming_fields:
  "ap_state (app_setState e Streaming d s) = Streaming" "ap_viewOnly (app_setState e Streaming d s) = ap_viewOnly s"
  "ap_permissions (app_setState e Streaming d s) = ap_permissions s" "ap_creds (app_setState e Streaming d s) = ap_creds s"
  "ap_worker (app_setState e Streaming d s) = ap_worker s" "ap_flow (app_setState e Streaming d s) = ap_flow s"
proof -
  have o: "ap_state (onStreaming e t) = ap_state t \<and> ap_viewOnly (onStreaming e t) = ap_viewOnly t \<and>
      ap_permissions (onStreaming e t) = ap_permissions t \<and> ap_creds (onStreaming e t) = ap_creds t" for t
  proof -
    define u where "u = hideOverlay (persistCredentialIfWanted (if ap_streamStart t = 0 then t\<lparr>ap_streamStart := ae_now e\<rparr> else t))"
    have u: "ap_state u = ap_state t" "ap_viewOnly u = ap_viewOnly t" "ap_permissions u = ap_permissions t" "ap_creds u = ap_creds t"
      by (simp_all add: u_def hideOverlay_def setOverlayBusy_def setOverlayError_def persistCredentialIfWanted_def Let_def
          split: option.split list.split)
    show ?thesis
      unfolding onStreaming_def Let_def u_def [symmetric]
      by (simp add: u showClipboardSyncOffer_def removeClipboardSyncOffer_def sticky_toast_def app_do_def clearFlowTimers_def
          cancelButton_def Let_def split: option.split)
  qed
  show "ap_state (app_setState e Streaming d s) = Streaming" "ap_viewOnly (app_setState e Streaming d s) = ap_viewOnly s"
    "ap_permissions (app_setState e Streaming d s) = ap_permissions s" "ap_creds (app_setState e Streaming d s) = ap_creds s"
    "ap_worker (app_setState e Streaming d s) = ap_worker s" "ap_flow (app_setState e Streaming d s) = ap_flow s"
    by (simp_all add: app_setState_def o refreshPeerSub_def renderVoiceCall_def Let_def)
qed

lemma no_flow_connected: "ap_flow (fold app_step demo_connect demo_app) = None"
  unfolding demo_connect_def demo_mounted
  by (simp add: app_step_def user_step_def hydrateSavedPassword_def newRdApp_def Let_def)

definition demo_streaming :: RdApp where
  "demo_streaming = fold app_step (demo_connect @ [(demo_app_env, AC_event (Ev_state Streaming None False))]) demo_app"

lemma demo_streaming_fields:
  "ap_worker demo_streaming = Some 0" "\<not> ap_viewOnly demo_streaming" "ap_permissions demo_streaming = Map.empty"
  "ap_state demo_streaming = Streaming" "ap_flow demo_streaming = None" "cr_reconnect (ap_creds demo_streaming) \<noteq> None"
proof -
  obtain c s where c: "fold app_step demo_connect demo_app = startSession demo_app_env c s" "ap_next s = 0" using demo_connected by blast
  have f: "ap_flow (startSession demo_app_env c s) = None" using no_flow_connected c(1) by simp
  have eq: "demo_streaming = app_setState demo_app_env Streaming None (startSession demo_app_env c s)"
    using new_session(1) [of demo_app_env c s] f
    by (simp add: demo_streaming_def c app_step_def app_onEvent_def app_onState_def del: startSession_flow)
  then show "ap_worker demo_streaming = Some 0" "\<not> ap_viewOnly demo_streaming" "ap_permissions demo_streaming = Map.empty"
    "ap_state demo_streaming = Streaming" "ap_flow demo_streaming = None" "cr_reconnect (ap_creds demo_streaming) \<noteq> None"
    unfolding eq by (simp_all add: streaming_fields new_session f c del: startSession_flow app_setState_flow)
qed

definition demo_peer :: PeerInfoEvent where
  "demo_peer =
     \<lparr>pe_displays = [], pe_username = [], pe_hostname = [], pe_platform = js ''windows'', pe_platformAdditions = [], pe_version = [],
      pe_current = None, pe_privacyModeSupported = False, pe_privacyModeImpls = [], pe_terminalSupported = True,
      pe_viewCameraSupported = False\<rparr>"

definition demo_restart :: "app_call list" where
  "demo_restart = [AC_event (Ev_peerInfo demo_peer), AC_user UA_dismissPop, AC_user UA_more, AC_user (UA_option (MA_security (js ''restart'')))]"

definition demo_restarting :: RdApp where
  "demo_restarting = fold app_step (map (Pair demo_app_env) demo_restart) demo_streaming"

lemma demo_windows: "js_includes (js_lower (js ''windows'')) (js ''windows'')"
  by code_simp

lemma peerInfo_fields:
  "pv_platform (ap_peer (onPeerInfo e ev s)) = pe_platform ev" "ap_permissions (onPeerInfo e ev s) = ap_permissions s"
  by (simp_all add: onPeerInfo_def refreshPeerSub_def Let_def)

lemma restart_offered:
  assumes "ap_permissions s = Map.empty" "pv_platform (ap_peer s) = js ''windows''"
  shows "offered (more_items e s) (MA_security (js ''restart''))"
  using assms
  by (simp add: offered_def more_items_def buildSecurityControlMenu_def security_input_def demo_windows menu_item_def Let_def)

lemma begin_flow:
  assumes "ap_state s = Streaming" "cr_reconnect (ap_creds s) \<noteq> None" "ae_confirm e"
  shows "ap_flow (beginRemoteRestart e s) \<noteq> None" "ap_worker (beginRemoteRestart e s) = ap_worker s"
  using assms by (auto simp: beginRemoteRestart_def sticky_toast_def app_do_def Let_def)

lemma confirm: "ae_confirm demo_app_env"
  by (simp add: demo_app_env_def)

lemma demo_restarting_fields: "ap_flow demo_restarting \<noteq> None" "ap_worker demo_restarting = Some 0"
proof -
  define s where "s = onPeerInfo demo_app_env demo_peer demo_streaming"
  have q: "framed demo_streaming s" unfolding s_def by (intro quiet_intros)
  then have f: "ap_worker s = Some 0" "ap_state s = Streaming" "reconnect_password s = reconnect_password demo_streaming"
    using demo_streaming_fields by (simp_all add: framed_def same_frame_def)
  then have c: "cr_reconnect (ap_creds s) \<noteq> None" using demo_streaming_fields(6)
    by (cases "cr_reconnect (ap_creds s)") (auto simp: reconnect_password_def)
  have m: "offered (more_items demo_app_env (closePop s)) (MA_security (js ''restart''))"
    by (rule restart_offered) (simp_all add: s_def closePop_def peerInfo_fields demo_peer_def demo_streaming_fields)
  have eq: "demo_restarting = beginRemoteRestart demo_app_env (closePop ((closePop s)\<lparr>ap_pop := Some (Pop_more (more_items demo_app_env (closePop s)))\<rparr>))"
    using m demo_streaming_fields(1)
    by (simp add: demo_restarting_def demo_restart_def app_step_def app_onEvent_def user_step_def s_def [symmetric] openPop_def
        closePop_def moreAction_def activateSecurityControl_def)
  then show "ap_flow demo_restarting \<noteq> None" "ap_worker demo_restarting = Some 0"
    unfolding eq using f c confirm by (simp_all add: begin_flow closePop_def)
qed

lemma demo_restarting_run: "\<exists>cs. demo_restarting = fold app_step cs demo_app"
  unfolding demo_restarting_def demo_streaming_def by (metis fold_append comp_apply)

section \<open>View only\<close>


text \<open>A streaming session is made view only; then the fallback player asks for a fresh picture.\<close>

definition demo_watching :: "(app_env \<times> app_call) list" where
  "demo_watching = demo_connect @ map (Pair demo_app_env) [AC_event (Ev_state Streaming None False), AC_user UA_viewOnly]"

lemma watching_trace:
  assumes "ap_worker s = Some w" "\<not> ap_viewOnly s"
  shows "\<exists>b. ap_trace (app_step (e, AC_user UA_viewOnly) s) = ap_trace s @ AO_viewOnly True # b" "ap_worker (app_step (e, AC_user UA_viewOnly) s) = Some w"
    "ap_viewOnly (app_step (e, AC_user UA_viewOnly) s)"
  using assms
  by (simp_all add: app_step_def user_step_def toggleViewOnly_def toast_def removeClipboardSyncOffer_def destroyTerminalPanel_def
      setLatches_def app_do_def Let_def)

lemma mse_error_trace:
  "ap_worker s = Some w \<Longrightarrow> ap_trace (app_step (e, AC_mseError m) s) = (ap_trace s @ [AO_toast m False]) @ [AO_post w Cmd_refresh]"
  by (simp add: app_step_def app_post_def passed_def sendsRemoteInput_def inputChannel_def is_lockScreen_def with_latches_def toast_def
      app_do_def)

lemma demo_watching_fields:
  "ap_worker (fold app_step demo_watching demo_app) = Some 0" "mode_shown (ap_trace (fold app_step demo_watching demo_app))"
proof -
  have eq: "fold app_step demo_watching demo_app = app_step (demo_app_env, AC_user UA_viewOnly) demo_streaming"
    by (simp add: demo_watching_def demo_streaming_def)
  show "ap_worker (fold app_step demo_watching demo_app) = Some 0"
    unfolding eq using demo_streaming_fields watching_trace(2) by blast
  have "ap_viewOnly (fold app_step demo_watching demo_app)"
    unfolding eq using demo_streaming_fields watching_trace(3) by blast
  then show "mode_shown (ap_trace (fold app_step demo_watching demo_app))"
    using core_run [OF demo_app_init, of demo_watching] view_fst [of "ap_trace (fold app_step demo_watching demo_app)"]
    by (simp add: core_def)
qed

lemma mode_toast: "mode_shown (tr @ [AO_toast m s]) = mode_shown tr"
  by (simp add: mode_shown_def)


section \<open>Workers\<close>

text \<open>
  C17. Commands go to one worker at a time: a worker is started only when none is attached, only an
  attached worker is let go of, and every command, whichever handler posts it, is for the worker
  that was started last and not yet let go of.
\<close>

theorem commands_reach_the_attached_worker:
  assumes "app_init s0" "ap_trace (fold app_step cs s0) = a @ x # b"
  shows "case x of
      AO_worker _ _ \<Rightarrow> attached a = None
    | AO_post w _ \<Rightarrow> attached a = Some w
    | AO_letGo w \<Rightarrow> attached a = Some w
    | _ \<Rightarrow> True"
  using mon_split(2) [OF core_run [OF assms(1)] assms(2)] worker_fst [of a]
  by (auto simp: worker_mon1_def split: app_out.split)

theorem commands_reach_the_attached_worker_witness:
  "attached (ap_trace (fold app_step demo_watching demo_app) @ [AO_toast [] False]) = Some 0"
proof -
  let ?cs = "demo_watching @ [(demo_app_env, AC_mseError [])]"
  have "ap_trace (fold app_step ?cs demo_app) = (ap_trace (fold app_step demo_watching demo_app) @ [AO_toast [] False]) @ AO_post 0 Cmd_refresh # []"
    using mse_error_trace [OF demo_watching_fields(1)] by simp
  from commands_reach_the_attached_worker [OF demo_app_init this] show ?thesis by simp
qed

text \<open>
  C37. No worker is left behind: one that is not attached any more has been terminated once the timer
  set for it has fired, if not before, and no canvas is handed to two workers.
\<close>

theorem workers_are_terminated:
  assumes "app_init s0" "s = fold app_step cs s0" "w < ap_next s" "ap_worker s \<noteq> Some w"
  shows "AO_terminate w \<in> set (ap_trace (app_step (e, AC_flushed w) s)) \<and> w \<notin> set (ap_flushing (app_step (e, AC_flushed w) s)) \<and>
    distinct (canvases (ap_trace s))"
proof -
  have c: "core s" unfolding assms(2) using assms(1) by (rule core_run)
  have n: "numbers_ok s" using c by (simp add: core_def)
  then have "distinct (ap_flushing s)" "w \<in> set (ap_flushing s) \<longleftrightarrow> AO_terminate w \<notin> set (ap_trace s)"
    using assms(3,4) unfolding numbers_ok_def by auto
  then show ?thesis
    using c by (auto simp: app_step_def terminateFlushed_def app_do_def core_def canvases_ok_def)
qed

lemma dispose_fields: "ap_worker (dispose s) = None" "ap_next (dispose s) = ap_next s"
proof -
  have q: "framed (app_teardown False (clearRestartFlow s)) (dispose s)" unfolding dispose_def by (intro quiet_intros)
  have n: "ap_next (clearRestartFlow s) = ap_next s"
    by (simp add: clearRestartFlow_def clearFlowTimers_def cancelButton_def Let_def split: option.split)
  show "ap_worker (dispose s) = None" "ap_next (dispose s) = ap_next s"
    using q n by (simp_all add: framed_def same_frame_def next_teardown)
qed

theorem workers_are_terminated_witness:
  "AO_terminate 0 \<in> set (ap_trace (app_step (demo_app_env, AC_flushed 0) (dispose (fold app_step demo_watching demo_app))))"
proof -
  let ?s = "fold app_step demo_watching demo_app"
  have "numbers_ok ?s" using core_run [OF demo_app_init] by (simp add: core_def)
  then have "0 < ap_next ?s" using demo_watching_fields(1) unfolding numbers_ok_def by auto
  moreover have "dispose ?s = fold app_step (demo_watching @ [(demo_app_env, AC_dispose)]) demo_app" by (simp add: app_step_def)
  ultimately show ?thesis
    using workers_are_terminated [OF demo_app_init, of "dispose ?s" "demo_watching @ [(demo_app_env, AC_dispose)]" 0 demo_app_env]
      dispose_fields [of ?s] by simp
qed


text \<open>A session in which the remote input is blocked, closed by the page.\<close>

definition demo_blocking :: RdApp where
  "demo_blocking = demo_app\<lparr>ap_worker := Some 0, ap_sec := no_security\<lparr>sc_blockOn := True\<rparr>\<rparr>"


section \<open>The restart flow\<close>



text \<open>
  C38. No plaintext password outlives the connection attempt it was typed for: the configurations kept
  for a restart hold an empty one, so that the session a retry starts connects with the hash only.
\<close>

theorem reconnect_keeps_no_plaintext:
  assumes "app_init s0" "s = fold app_step cs s0"
  shows "map_option password (cr_reconnect (ap_creds s)) \<in> {None, Some []} \<and>
    map_option (\<lambda>f. password (fl_config f)) (ap_flow s) \<in> {None, Some []}"
  using core_flow(2) [OF core_run [OF assms(1), of cs]] assms(2)
  by (auto simp: no_password_def reconnect_password_def split: option.splits)

theorem reconnect_keeps_no_plaintext_witness:
  "map_option (\<lambda>f. password (fl_config f)) (ap_flow demo_restarting) = Some []"
proof -
  obtain cs where cs: "demo_restarting = fold app_step cs demo_app" using demo_restarting_run by blast
  show ?thesis using reconnect_keeps_no_plaintext [OF demo_app_init cs] demo_restarting_fields(1) by auto
qed

section \<open>Stored credentials\<close>

lemma clearRestartFlow_fields [simp]:
  "ap_creds (clearRestartFlow s) = ap_creds s" "ap_peerId (clearRestartFlow s) = ap_peerId s"
  "ch_save (ap_chrome (clearRestartFlow s)) = ch_save (ap_chrome s)" "ap_state (clearRestartFlow s) = ap_state s"
  by (simp_all add: clearRestartFlow_def clearFlowTimers_def cancelButton_def Let_def split: option.split)

lemma persist_saves:
  assumes "loadSavedHash (ap_storage (persistCredentialIfWanted s)) p = Some h" "loadSavedHash (ap_storage s) p \<noteq> Some h"
  shows "p = ap_peerId s \<and> ch_save (ap_chrome s) \<and> cr_pending (ap_creds s) = Some h \<and> h \<noteq> []"
  using assms
  by (auto simp: persistCredentialIfWanted_def clearSavedHash_def loadSavedHash_def saveSavedHash_def
      split: if_splits option.splits list.splits)


definition demo_saving :: RdApp where
  "demo_saving = demo_app\<lparr>ap_worker := Some 0, ap_peerId := js ''42'', ap_storage := \<lparr>ls_up = True, ls_room = True, ls_map = Map.empty\<rparr>,
     ap_chrome := (ap_chrome demo_app)\<lparr>ch_save := True\<rparr>, ap_creds := (ap_creds demo_app)\<lparr>cr_pending := Some (js ''ab'')\<rparr>\<rparr>"


section \<open>Where the shell does something else\<close>

lemma teardown_terminates:
  assumes "ap_worker s = Some w"
  shows "AO_terminate w \<in> set (ap_trace (app_teardown True s))"
proof -
  define m where "m = teardownMse ((removeClipboardSyncOffer (closeAudio (endRecording (releaseRemoteSecurityState
    (endVoiceCall False (s\<lparr>ap_epoch := Suc (ap_epoch s)\<rparr>))))))\<lparr>ap_input := None\<rparr>)"
  have "framed s m" unfolding m_def by (intro quiet_intros)
  then have "ap_worker m = Some w" using assms quiet_worker by simp
  then have "AO_terminate w \<in> set (ap_trace (letWorkerGo True m))" by (simp add: letWorkerGo_def app_do_def)
  moreover have "ext (letWorkerGo True m) (resetPermissions (letWorkerGo True m))" by (intro ext_ops ext_refl)
  ultimately show ?thesis unfolding app_teardown_def Let_def m_def [symmetric] by (auto simp: ext_def)
qed

lemma state_teardown: "ap_state (app_teardown b s) = ap_state s"
proof -
  have q: "framed t u \<Longrightarrow> ap_state u = ap_state t" for t u by (simp add: framed_def same_frame_def)
  define m where "m = teardownMse ((removeClipboardSyncOffer (closeAudio (endRecording (releaseRemoteSecurityState
    (endVoiceCall False (s\<lparr>ap_epoch := Suc (ap_epoch s)\<rparr>))))))\<lparr>ap_input := None\<rparr>)"
  have "framed s m" unfolding m_def by (intro quiet_intros)
  moreover have "framed (letWorkerGo b m) (resetPermissions (letWorkerGo b m))" by (intro quiet_intros)
  ultimately show ?thesis using q unfolding app_teardown_def Let_def m_def [symmetric]
    by (fastforce simp: letWorkerGo_def app_do_def split: option.split)
qed

lemma endSessionUi_fields:
  "ap_state (endSessionUi s) = ap_state s" "ap_worker (endSessionUi s) = None" "ap_timers (endSessionUi s) = ap_timers s"
proof -
  define u where "u = closePop (closeSide (destroyFilePanel (destroyAdvancedPanels (clearSecurityState (app_teardown False s)))))"
  have "framed (app_teardown False s) u" unfolding u_def by (intro quiet_intros)
  then have "ap_state u = ap_state s" "ap_worker u = None" "ap_timers u = ap_timers s"
    by (simp_all add: framed_def same_frame_def state_teardown teardown_flow)
  then show "ap_state (endSessionUi s) = ap_state s" "ap_worker (endSessionUi s) = None" "ap_timers (endSessionUi s) = ap_timers s"
    unfolding endSessionUi_def u_def [symmetric]
    by (simp_all add: setOverlayBusy_def setOverlayError_def showOverlay_def Let_def)
qed

lemma error_fields:
  assumes "m \<noteq> []"
  shows "ap_state (app_setState e ErrorState (Some m) s) = ErrorState" "ap_worker (app_setState e ErrorState (Some m) s) = None"
    "ap_timers (app_setState e ErrorState (Some m) s) = ap_timers s" "ch_error (ap_chrome (app_setState e ErrorState (Some m) s)) = m"
  using assms
  by (simp_all add: app_setState_def setOverlayError_def endSessionUi_fields refreshPeerSub_def renderVoiceCall_def Let_def)

text \<open>
  A restarted device that returns late is cut off: a reconnect that reaches streaming less than the
  fifteen seconds of its stability check before the deadline is torn down by it, without the time
  other ends of a session leave the worker, and reported as a device that did not return.
\<close>

theorem late_restore_is_killed:
  assumes "ap_flow s = Some f" "fl_reconnecting f" "ap_state s = Streaming" "ap_worker s = Some w"
    "(TK_deadline, fl_id f) \<in> set (ap_timers s)" "t = app_step (e, AC_timer TK_deadline (fl_id f)) s"
  shows "ap_worker t = None \<and> AO_terminate w \<in> set (ap_trace t) \<and> ap_state t = ErrorState \<and> ch_error (ap_chrome t) = ERR_RESTART"
proof -
  define c where "c = clearRestartFlow (s\<lparr>ap_timers := remove1 (TK_deadline, fl_id f) (ap_timers s)\<rparr>)"
  define u where "u = clearSecurityState (app_teardown True c)"
  have t: "t = app_setState e ErrorState (Some ERR_RESTART) u"
    using assms by (simp add: app_step_def flowTimer_def expireRestartFlow_def u_def c_def Let_def)
  have "ap_worker c = Some w" using assms(4) by (simp add: c_def)
  then have k: "AO_terminate w \<in> set (ap_trace (app_teardown True c))" by (rule teardown_terminates)
  have "ext (app_teardown True c) t" unfolding t u_def by (intro ext_setState ext_ops ext_refl)
  then have "AO_terminate w \<in> set (ap_trace t)" using k by (auto simp: ext_def)
  moreover have "ERR_RESTART \<noteq> []" by (simp add: ERR_RESTART_def js_def)
  ultimately show ?thesis unfolding t by (simp add: error_fields)
qed

text \<open>A reconnect that streams when the deadline comes.\<close>

definition demo_late :: RdApp where
  "demo_late = demo_app\<lparr>ap_worker := Some 1, ap_state := Streaming, ap_timers := [(TK_deadline, 0), (TK_stable, 0)],
     ap_flow := Some \<lparr>fl_id = 0, fl_startedAt = 0, fl_attempt = 3, fl_config = buildSessionConfig demo_global [] [] None None,
       fl_timer = False, fl_reconnecting = True\<rparr>\<rparr>"

theorem late_restore_is_killed_witness:
  "AO_terminate 1 \<in> set (ap_trace (app_step (demo_app_env, AC_timer TK_deadline 0) demo_late))"
  using late_restore_is_killed [of demo_late _ 1, OF _ _ _ _ _ refl] by (simp add: demo_late_def)

text \<open>
  An error of the worker itself ends the session but not the restart flow: its timers stay set and
  a connection the user then opens, to whatever device, runs under it, so that the deadline of the
  abandoned flow or the next end of the new session is handled as the return of the old device.
\<close>

theorem worker_error_keeps_restart_flow:
  assumes "ap_flow s = Some f" "ap_worker s = Some w" "t = app_step (e, AC_workerError m) s"
  shows "ap_worker t = None \<and> ap_state t = ErrorState \<and> ap_flow t = Some f \<and> ap_timers t = ap_timers s \<and>
    ap_flow (onConnectClick e1 t) = Some f"
proof -
  obtain m1 where m1: "t = app_setState e ErrorState (Some m1) s" "m1 \<noteq> []"
    using assms(2,3) by (cases "m = []") (auto simp: app_step_def js_def)
  show ?thesis using assms(1) m1 by (simp add: error_fields)
qed

theorem worker_error_keeps_restart_flow_witness:
  "ap_state (app_step (demo_app_env, AC_workerError []) demo_restarting) = ErrorState \<and>
    ap_flow (app_step (demo_app_env, AC_workerError []) demo_restarting) \<noteq> None"
proof -
  obtain f where "ap_flow demo_restarting = Some f" using demo_restarting_fields(1) by blast
  from worker_error_keeps_restart_flow [OF this demo_restarting_fields(2) refl] show ?thesis by simp
qed

lemma start_recorder:
  assumes "canRecordSession s" "ae_recorder e = None"
  shows "\<exists>xs. ap_trace (startRecorder e s) = ap_trace s @ AO_recorderStart (md_nextRecorder (ap_media s)) # xs \<and>
      (\<forall>r. AO_recorderClose r \<notin> set xs \<and> AO_recorderStop r \<notin> set xs)"
    "md_recorder (ap_media (startRecorder e s)) = Some (md_nextRecorder (ap_media s))"
    "md_nextRecorder (ap_media (startRecorder e s)) = Suc (md_nextRecorder (ap_media s))"
    "canRecordSession (startRecorder e s)" "ap_epoch (startRecorder e s) = ap_epoch s"
  using assms
  by (auto simp: startRecorder_def onRecordingState_def canRecordSession_def sticky_toast_def app_post_def app_do_def Let_def
      split: option.split)

lemma toggle_waits:
  assumes "canRecordSession s" "\<not> md_recording (ap_media s)" "md_enabled (ap_media s)" "md_audio (ap_media s)" "permitted ''Audio'' s"
  shows "toggleRecording e s = s\<lparr>ap_trace := ap_trace s @ [AO_audioResume], ap_waits := ap_waits s @ [AW_recording (ap_epoch s)]\<rparr>"
  using assms by (simp add: toggleRecording_def app_do_def)

lemma resumed_starts:
  assumes "canRecordSession s" "ap_waits s = AW_recording (ap_epoch s) # ws"
  shows "app_settled e 0 (AA_done b) s =
    startRecorder e (ap_media_update (\<lambda>m. m\<lparr>md_started := b\<rparr>) (s\<lparr>ap_waits := ws\<rparr>))"
  using assms by (simp add: app_settled_def js_at_def settle_def recordingResumed_def canRecordSession_def)

lemma startRecorder_waits: "ap_waits (startRecorder e s) = ap_waits s"
  by (simp add: startRecorder_def onRecordingState_def toast_def sticky_toast_def app_post_def app_do_def Let_def split: option.split)

text \<open>
  Two clicks on the recording button while the audio is still resuming start two recorders: the
  second takes the place of the first, which no stop and no end of the session ever reaches.
\<close>

theorem double_click_starts_two_recorders:
  assumes "canRecordSession s" "\<not> md_recording (ap_media s)" "md_enabled (ap_media s)" "md_audio (ap_media s)" "permitted ''Audio'' s"
    "ap_waits s = []" "ae_recorder e = None"
    "t = app_settled e 0 (AA_done True) (app_settled e 0 (AA_done True) (toggleRecording e (toggleRecording e s)))"
    "r = md_nextRecorder (ap_media s)"
  shows "md_recorder (ap_media t) = Some (Suc r) \<and> md_recorder (ap_media (endRecording t)) = None \<and>
    (\<exists>xs. ap_trace t = ap_trace s @ xs \<and> AO_recorderStart r \<in> set xs \<and> AO_recorderStart (Suc r) \<in> set xs \<and>
      AO_recorderStop r \<notin> set xs \<and> AO_recorderClose r \<notin> set xs)"
proof -
  define s2 where "s2 = s\<lparr>ap_trace := ap_trace s @ [AO_audioResume, AO_audioResume], ap_waits := [AW_recording (ap_epoch s), AW_recording (ap_epoch s)]\<rparr>"
  have s2: "toggleRecording e (toggleRecording e s) = s2" using assms(1-6) by (simp add: toggle_waits canRecordSession_def s2_def)
  define u where "u = ap_media_update (\<lambda>m. m\<lparr>md_started := True\<rparr>) (s2\<lparr>ap_waits := [AW_recording (ap_epoch s)]\<rparr>)"
  have u: "canRecordSession u" "ap_epoch u = ap_epoch s" "md_nextRecorder (ap_media u) = r" "ap_waits u = [AW_recording (ap_epoch s)]"
    "ap_trace u = ap_trace s @ [AO_audioResume, AO_audioResume]"
    using assms by (simp_all add: u_def s2_def canRecordSession_def)
  have s3: "app_settled e 0 (AA_done True) s2 = startRecorder e u"
    using resumed_starts [of s2 "[AW_recording (ap_epoch s)]" e True] assms(1) by (simp add: s2_def u_def canRecordSession_def)
  define v where "v = ap_media_update (\<lambda>m. m\<lparr>md_started := True\<rparr>) ((startRecorder e u)\<lparr>ap_waits := []\<rparr>)"
  have v: "canRecordSession v" "md_nextRecorder (ap_media v) = Suc r" "ap_trace v = ap_trace (startRecorder e u)"
    using start_recorder(3,4) [OF u(1) assms(7)] u(3) by (simp_all add: v_def canRecordSession_def)
  have t: "t = startRecorder e v"
    using resumed_starts [of "startRecorder e u" "[]" e True] start_recorder(4,5) [OF u(1) assms(7)] u(2,4)
    by (simp add: assms(8) s2 s3 v_def startRecorder_waits)
  obtain xs where xs: "ap_trace v = ap_trace s @ [AO_audioResume, AO_audioResume] @ AO_recorderStart r # xs"
    "\<forall>r. AO_recorderClose r \<notin> set xs \<and> AO_recorderStop r \<notin> set xs"
    using start_recorder(1) [OF u(1) assms(7)] u(3,5) v(3) by auto
  obtain ys where ys: "ap_trace t = ap_trace v @ AO_recorderStart (Suc r) # ys"
    "\<forall>r. AO_recorderClose r \<notin> set ys \<and> AO_recorderStop r \<notin> set ys"
    using start_recorder(1) [OF v(1) assms(7)] v(2) unfolding t by auto
  have "md_recorder (ap_media t) = Some (Suc r)" using start_recorder(2) [OF v(1) assms(7)] v(2) unfolding t by simp
  moreover have "md_recorder (ap_media (endRecording t)) = None"
    by (simp add: endRecording_def app_post_def app_do_def Let_def split: option.split)
  moreover have "ap_trace t = ap_trace s @ ([AO_audioResume, AO_audioResume] @ AO_recorderStart r # xs @ AO_recorderStart (Suc r) # ys)"
    using xs(1) ys(1) by simp
  ultimately show ?thesis using xs(2) ys(2) by (intro conjI exI) auto
qed

definition demo_clicks :: RdApp where
  "demo_clicks = demo_app\<lparr>ap_state := Streaming, ap_media := (ap_media demo_app)\<lparr>md_audio := True\<rparr>\<rparr>"

theorem double_click_starts_two_recorders_witness:
  "md_recorder (ap_media (app_settled demo_app_env 0 (AA_done True) (app_settled demo_app_env 0 (AA_done True)
     (toggleRecording demo_app_env (toggleRecording demo_app_env demo_clicks))))) = Some 1"
proof -
  have "canRecordSession demo_clicks" "\<not> md_recording (ap_media demo_clicks)" "md_enabled (ap_media demo_clicks)"
    "md_audio (ap_media demo_clicks)" "permitted ''Audio'' demo_clicks" "ap_waits demo_clicks = []" "ae_recorder demo_app_env = None"
    "md_nextRecorder (ap_media demo_clicks) = 0"
    by (simp_all add: demo_clicks_def demo_mounted newRdApp_def canRecordSession_def demo_app_env_def)
  from double_click_starts_two_recorders [OF this(1-7) refl refl] this(8) show ?thesis by simp
qed

end
