(* ===== verification/Wire.thy ===== *)
theory Wire
  imports Proto
begin

text \<open>
  What the generated \<open>encode\<close> and \<open>decode\<close> functions of \<open>webclient/src/gen\<close> share. A
  \<open>BinaryWriter\<close> method is the bytes it appends, or the error it throws; a \<open>BinaryReader\<close> is
  the bytes it has not read yet, and a method gives the value and the reader after it, or the
  error. Both classes come from \<open>@bufbuild/protobuf/wire\<close>: they are the fields of the record
  \<open>wire\<close>, and the locale \<open>wire_format\<close> states what their documentation promises. The loop of
  \<open>decode\<close> may run forever with a reader that does not advance, so it is an option.
\<close>

named_theorems codec_backs \<open>round trips of the generated codecs\<close>
named_theorems decoder_ends \<open>termination of the generated decoders\<close>

section \<open>Writers and readers\<close>

record wire =
  wr_uint32 :: "int \<Rightarrow> jsstr + bytes"
  wr_int32 :: "int \<Rightarrow> jsstr + bytes"
  wr_sint32 :: "int \<Rightarrow> jsstr + bytes"
  wr_uint64 :: "int \<Rightarrow> jsstr + bytes"
  wr_int64 :: "int \<Rightarrow> jsstr + bytes"
  wr_bool :: "bool \<Rightarrow> jsstr + bytes"
  wr_double :: "jsnum \<Rightarrow> jsstr + bytes"
  wr_string :: "jsstr \<Rightarrow> jsstr + bytes"
  wr_bytes :: "bytes \<Rightarrow> jsstr + bytes"
  wr_join :: "bytes \<Rightarrow> jsstr + bytes"
  rd_uint32 :: "bytes \<Rightarrow> jsstr + int \<times> bytes"
  rd_int32 :: "bytes \<Rightarrow> jsstr + int \<times> bytes"
  rd_sint32 :: "bytes \<Rightarrow> jsstr + int \<times> bytes"
  rd_uint64 :: "bytes \<Rightarrow> jsstr + int \<times> bytes"
  rd_int64 :: "bytes \<Rightarrow> jsstr + int \<times> bytes"
  rd_bool :: "bytes \<Rightarrow> jsstr + bool \<times> bytes"
  rd_double :: "bytes \<Rightarrow> jsstr + jsnum \<times> bytes"
  rd_string :: "bytes \<Rightarrow> jsstr + jsstr \<times> bytes"
  rd_bytes :: "bytes \<Rightarrow> jsstr + bytes \<times> bytes"
  rd_skip :: "int \<Rightarrow> bytes \<Rightarrow> jsstr + bytes"

text \<open>What a decoder returns: \<open>None\<close> if it runs forever, \<open>Inl\<close> what it throws.\<close>

type_synonym 'a decoded = "(jsstr + 'a \<times> bytes) option"
type_synonym 'a reader = "bytes \<Rightarrow> 'a decoded"

section \<open>Encoding\<close>

text \<open>One statement after the other on the same writer; the first exception ends \<open>encode\<close>.\<close>

fun enc_all :: "(jsstr + bytes) list \<Rightarrow> jsstr + bytes" where
  "enc_all [] = Inr []"
| "enc_all (p # ps) =
     (case p of
        Inl e \<Rightarrow> Inl e
      | Inr b \<Rightarrow> (case enc_all ps of Inl e \<Rightarrow> Inl e | Inr bs \<Rightarrow> Inr (b @ bs)))"

text \<open>\<open>writer.uint32(tag).string(v)\<close> and its kin.\<close>

definition put :: "wire \<Rightarrow> int \<Rightarrow> ('v \<Rightarrow> jsstr + bytes) \<Rightarrow> 'v \<Rightarrow> jsstr + bytes" where
  "put w tag wr v = enc_all [wr_uint32 w tag, wr v]"

text \<open>\<open>if (message.x !== ...)\<close> around a statement.\<close>

definition put_if :: "bool \<Rightarrow> jsstr + bytes \<Rightarrow> jsstr + bytes" where
  "put_if c p = (if c then p else Inr [])"

text \<open>\<open>X.encode(v, writer.fork()).join()\<close>: the length of what \<open>encode\<close> wrote, and that.\<close>

definition joined :: "wire \<Rightarrow> ('v \<Rightarrow> jsstr + bytes) \<Rightarrow> 'v \<Rightarrow> jsstr + bytes" where
  "joined w enc v = (case enc v of Inl e \<Rightarrow> Inl e | Inr chunk \<Rightarrow> wr_join w chunk)"

text \<open>\<open>if (message.x !== undefined)\<close> around a nested message.\<close>

definition put_some :: "('v \<Rightarrow> jsstr + bytes) \<Rightarrow> 'v option \<Rightarrow> jsstr + bytes" where
  "put_some p v = (case v of None \<Rightarrow> Inr [] | Some x \<Rightarrow> p x)"

text \<open>\<open>for (const v of message.xs) { ... }\<close>, and a packed list inside \<open>fork\<close> and \<open>join\<close>.\<close>

definition put_each :: "('v \<Rightarrow> jsstr + bytes) \<Rightarrow> 'v list \<Rightarrow> jsstr + bytes" where
  "put_each p vs = enc_all (map p vs)"

text \<open>The \<open>BigInt.asIntN(64, x) !== x\<close> and \<open>BigInt.asUintN(64, x) !== x\<close> guards.\<close>

definition fits_int64 :: "int \<Rightarrow> bool" where
  "fits_int64 x \<longleftrightarrow> (x + 2 ^ 63) mod 2 ^ 64 - 2 ^ 63 = x"

definition fits_uint64 :: "int \<Rightarrow> bool" where
  "fits_uint64 x \<longleftrightarrow> x mod 2 ^ 64 = x"

definition guarded :: "bool \<Rightarrow> string \<Rightarrow> jsstr + bytes \<Rightarrow> jsstr + bytes" where
  "guarded fits field p = (if fits then p else Inl (js (''value provided for field '' @ field)))"

lemma fits_int64_iff: "fits_int64 x \<longleftrightarrow> - (2 ^ 63) \<le> x \<and> x < 2 ^ 63"
proof
  assume "fits_int64 x"
  then have x: "x = (x + 2 ^ 63) mod 2 ^ 64 - 2 ^ 63" by (simp add: fits_int64_def)
  have "0 \<le> (x + 2 ^ 63) mod 2 ^ 64" "(x + 2 ^ 63) mod 2 ^ 64 < 2 ^ 64" by simp_all
  then show "- (2 ^ 63) \<le> x \<and> x < 2 ^ 63" by (subst (1 2) x) simp
qed (simp add: fits_int64_def)

lemma fits_uint64_iff: "fits_uint64 x \<longleftrightarrow> 0 \<le> x \<and> x < 2 ^ 64"
  by (metis fits_uint64_def mod_pos_pos_trivial pos_mod_bound pos_mod_sign zero_less_numeral zero_less_power)

section \<open>Decoding\<close>

definition once :: "(bytes \<Rightarrow> jsstr + 'a \<times> bytes) \<Rightarrow> 'a reader" where
  "once r bs = Some (r bs)"

text \<open>
  \<open>case n: { if (tag !== ...) break; message.x = reader.string(); continue; }\<close>: a field reads a
  value and stores it. A tag that no case takes is \<open>None\<close>.
\<close>

definition reads :: "'v reader \<Rightarrow> ('v \<Rightarrow> 'm \<Rightarrow> 'm) \<Rightarrow> 'm \<Rightarrow> 'm reader option" where
  "reads r store m =
     Some (\<lambda>bs. case r bs of
        None \<Rightarrow> None
      | Some (Inl e) \<Rightarrow> Some (Inl e)
      | Some (Inr (v, rest)) \<Rightarrow> Some (Inr (store v m, rest)))"

text \<open>An optional message and a list entry, stored by what they make of the field.\<close>

definition reads_some :: "'v reader \<Rightarrow> ('v option \<Rightarrow> 'm \<Rightarrow> 'm) \<Rightarrow> 'm \<Rightarrow> 'm reader option" where
  "reads_some r store = reads r (\<lambda>v. store (Some v))"

definition pushes :: "'v reader \<Rightarrow> ('v list \<Rightarrow> 'm \<Rightarrow> 'm) \<Rightarrow> 'm \<Rightarrow> 'm reader option" where
  "pushes r add = reads r (\<lambda>v. add [v])"

text \<open>
  The loop of \<open>decode\<close>, \<open>while (reader.pos < end)\<close>: \<open>stop\<close> is how many bytes lie behind \<open>end\<close>,
  negative when a length runs past the buffer.
\<close>

partial_function (option) decode_loop ::
  "wire \<Rightarrow> (int \<Rightarrow> 'm \<Rightarrow> 'm reader option) \<Rightarrow> int \<Rightarrow> 'm \<Rightarrow> bytes \<Rightarrow> 'm decoded" where
  "decode_loop w field stop m bs =
     (if stop < int (length bs)
      then (case rd_uint32 w bs of
          Inl e \<Rightarrow> Some (Inl e)
        | Inr (tag, bs1) \<Rightarrow>
            (case field tag m of
               Some r \<Rightarrow>
                 (case r bs1 of
                    None \<Rightarrow> None
                  | Some q \<Rightarrow>
                      (case q of
                         Inl e \<Rightarrow> Some (Inl e)
                       | Inr (m1, bs2) \<Rightarrow> decode_loop w field stop m1 bs2))
             | None \<Rightarrow>
                 if tag mod 8 = 4 \<or> tag = 0 then Some (Inr (m, bs1))
                 else (case rd_skip w (tag mod 8) bs1 of
                         Inl e \<Rightarrow> Some (Inl e)
                       | Inr bs2 \<Rightarrow> decode_loop w field stop m bs2)))
      else Some (Inr (m, bs)))"

text \<open>\<open>decode(reader, length)\<close> and, on a fresh reader, \<open>decode(bytes)\<close>.\<close>

definition decode :: "wire \<Rightarrow> (int \<Rightarrow> 'm \<Rightarrow> 'm reader option) \<Rightarrow> 'm \<Rightarrow> int \<Rightarrow> 'm reader" where
  "decode w field base len bs = decode_loop w field (int (length bs) - len) base bs"

text \<open>\<open>X.decode(reader, reader.uint32())\<close>.\<close>

definition nested :: "wire \<Rightarrow> (int \<Rightarrow> 'm reader) \<Rightarrow> 'm reader" where
  "nested w dec bs =
     (case rd_uint32 w bs of Inl e \<Rightarrow> Some (Inl e) | Inr (len, rest) \<Rightarrow> dec len rest)"

text \<open>\<open>const end2 = reader.uint32() + reader.pos; while (reader.pos < end2) xs.push(...)\<close>.\<close>

partial_function (option) packed_loop ::
  "(bytes \<Rightarrow> jsstr + 'a \<times> bytes) \<Rightarrow> int \<Rightarrow> 'a list \<Rightarrow> bytes \<Rightarrow> 'a list decoded" where
  "packed_loop r stop xs bs =
     (if stop < int (length bs)
      then (case r bs of
          Inl e \<Rightarrow> Some (Inl e)
        | Inr (x, bs1) \<Rightarrow> packed_loop r stop (xs @ [x]) bs1)
      else Some (Inr (xs, bs)))"

definition packed :: "wire \<Rightarrow> (bytes \<Rightarrow> jsstr + 'a \<times> bytes) \<Rightarrow> 'a list reader" where
  "packed w r bs =
     (case rd_uint32 w bs of
        Inl e \<Rightarrow> Some (Inl e)
      | Inr (len, rest) \<Rightarrow> packed_loop r (int (length rest) - len) [] rest)"

section \<open>What the wire library promises\<close>

text \<open>Strings survive UTF-8 when no surrogate is alone and no byte-order mark comes first.\<close>

fun well_formed :: "jsstr \<Rightarrow> bool" where
  "well_formed [] \<longleftrightarrow> True"
| "well_formed [u] \<longleftrightarrow> \<not> (0xD800 \<le> u \<and> u \<le> 0xDFFF)"
| "well_formed (u # v # s) \<longleftrightarrow>
     (if 0xD800 \<le> u \<and> u \<le> 0xDFFF
      then u \<le> 0xDBFF \<and> 0xDC00 \<le> v \<and> v \<le> 0xDFFF \<and> well_formed s
      else well_formed (v # s))"

definition text_ok :: "jsstr \<Rightarrow> bool" where
  "text_ok s \<longleftrightarrow> well_formed s \<and> (s = [] \<or> hd s \<noteq> 0xFEFF)"

definition gives_back :: "('v \<Rightarrow> jsstr + bytes) \<Rightarrow> 'v reader \<Rightarrow> 'v \<Rightarrow> bool" where
  "gives_back wr rd v \<longleftrightarrow>
     (\<forall>b. wr v = Inr b \<longrightarrow> (\<forall>rest. rd (b @ rest) = Some (Inr (v, rest))))"

definition advances :: "(bytes \<Rightarrow> jsstr + 'v \<times> bytes) \<Rightarrow> bool" where
  "advances rd \<longleftrightarrow> (\<forall>bs v rest. rd bs = Inr (v, rest) \<longrightarrow> length rest < length bs)"

text \<open>Each reader method reads back what the writer method of its type wrote, and moves on.\<close>

locale wire_format =
  fixes w :: wire
  assumes uint32_back: "gives_back (wr_uint32 w) (once (rd_uint32 w)) n"
    and int32_back: "gives_back (wr_int32 w) (once (rd_int32 w)) n"
    and sint32_back: "gives_back (wr_sint32 w) (once (rd_sint32 w)) n"
    and uint64_back: "gives_back (wr_uint64 w) (once (rd_uint64 w)) n"
    and int64_back: "gives_back (wr_int64 w) (once (rd_int64 w)) n"
    and bool_back: "gives_back (wr_bool w) (once (rd_bool w)) c"
    and double_back: "is_double x \<Longrightarrow> gives_back (wr_double w) (once (rd_double w)) x"
    and string_back: "text_ok s \<Longrightarrow> gives_back (wr_string w) (once (rd_string w)) s"
    and bytes_back: "gives_back (wr_bytes w) (once (rd_bytes w)) bs"
    and join_back: "wr_join w chunk = Inr b \<Longrightarrow>
      rd_uint32 w (b @ rest) = Inr (int (length chunk), chunk @ rest)"
    and tags_written: "0 \<le> n \<Longrightarrow> n < 2 ^ 32 \<Longrightarrow> \<exists>b. wr_uint32 w n = Inr b"
    and uint32_advances: "advances (rd_uint32 w)"
    and int32_advances: "advances (rd_int32 w)"
    and sint32_advances: "advances (rd_sint32 w)"
    and uint64_advances: "advances (rd_uint64 w)"
    and int64_advances: "advances (rd_int64 w)"
    and bool_advances: "advances (rd_bool w)"
    and double_advances: "advances (rd_double w)"
    and string_advances: "advances (rd_string w)"
    and bytes_advances: "advances (rd_bytes w)"
    and skip_varint: "wr_uint32 w n = Inr b \<Longrightarrow> rd_skip w 0 (b @ rest) = Inr rest"
    and skip_bytes: "wr_bytes w bs = Inr b \<Longrightarrow> rd_skip w 2 (b @ rest) = Inr rest"
    and skip_shrinks: "rd_skip w t bs = Inr rest \<Longrightarrow> length rest \<le> length bs"

section \<open>Encoding, piece by piece\<close>

lemma enc_all_Cons_Inr [simp]:
  "enc_all (p # ps) = Inr bs \<longleftrightarrow> (\<exists>b bs'. p = Inr b \<and> enc_all ps = Inr bs' \<and> bs = b @ bs')"
  by (auto split: sum.splits)

declare enc_all.simps(2) [simp del]

lemma guarded_Inr [simp]: "guarded c field p = Inr b \<longleftrightarrow> c \<and> p = Inr b"
  by (simp add: guarded_def)

lemma put_if_guarded [simp]:
  "put_if c (guarded g field p) = Inr b \<longleftrightarrow> put_if c p = Inr b \<and> (c \<longrightarrow> g)"
  by (auto simp: put_if_def)

lemma put_InrE:
  assumes "put w tag wr v = Inr b"
  obtains t c where "wr_uint32 w tag = Inr t" "wr v = Inr c" "b = t @ c"
  using assms by (auto simp: put_def)

lemma put_each_Cons_Inr:
  "put_each p (v # vs) = Inr b \<longleftrightarrow> (\<exists>b1 b2. p v = Inr b1 \<and> put_each p vs = Inr b2 \<and> b = b1 @ b2)"
  by (simp add: put_each_def)

section \<open>Round trips\<close>

definition codec_back :: "('m \<Rightarrow> jsstr + bytes) \<Rightarrow> (int \<Rightarrow> 'm reader) \<Rightarrow> 'm \<Rightarrow> bool" where
  "codec_back enc dec m \<longleftrightarrow>
     (\<forall>bs. enc m = Inr bs \<longrightarrow> (\<forall>rest. dec (int (length bs)) (bs @ rest) = Some (Inr (m, rest))))"

lemma codec_backI:
  assumes "\<And>bs rest. enc m = Inr bs \<Longrightarrow>
    decode_loop w field (int (length rest)) base (bs @ rest) = Some (Inr (m, rest))"
  shows "codec_back enc (decode w field base) m"
  using assms by (simp add: codec_back_def decode_def)

lemma loop_end [simp]: "decode_loop w field (int (length rest)) m rest = Some (Inr (m, rest))"
  by (simp add: decode_loop.simps)

context wire_format
begin

lemma loop_field:
  assumes p: "put w tag wr v = Inr b" and f: "field tag m = reads rd store m"
    and g: "gives_back wr rd v" and stop: "stop \<le> int (length rest)"
  shows "decode_loop w field stop m (b @ rest) = decode_loop w field stop (store v m) rest"
proof -
  obtain t c where t: "wr_uint32 w tag = Inr t" and c: "wr v = Inr c" and b: "b = t @ c"
    using p by (rule put_InrE)
  have r: "rd_uint32 w (t @ c @ rest) = Inr (tag, c @ rest)"
    using uint32_back [of tag] t by (simp add: gives_back_def once_def)
  moreover have "stop < int (length (t @ c @ rest))"
  proof -
    have "length (c @ rest) < length (t @ c @ rest)"
      using uint32_advances r unfolding advances_def by blast
    moreover have "length rest \<le> length (c @ rest)" by simp
    ultimately show ?thesis using stop by linarith
  qed
  moreover have "rd (c @ rest) = Some (Inr (v, rest))"
    using g c by (simp add: gives_back_def)
  ultimately show ?thesis
    using f by (subst decode_loop.simps) (simp add: b reads_def)
qed

lemma loop_if:
  assumes "put_if c (put w tag wr v) = Inr b" "field tag m = reads rd store m"
    and "gives_back wr rd v" "stop \<le> int (length rest)"
    and "\<not> c \<Longrightarrow> store v m = m"
  shows "decode_loop w field stop m (b @ rest) = decode_loop w field stop (store v m) rest"
proof (cases c)
  case True
  with assms(1) have "put w tag wr v = Inr b" by (simp add: put_if_def)
  then show ?thesis using assms(2-4) by (rule loop_field)
next
  case False
  with assms(1,5) show ?thesis by (simp add: put_if_def)
qed

lemma loop_some:
  assumes "put_some (put w tag wr) v = Inr b" "field tag m = reads_some rd store m"
    and "pred_option (gives_back wr rd) v" "stop \<le> int (length rest)"
    and "store None m = m"
  shows "decode_loop w field stop m (b @ rest) = decode_loop w field stop (store v m) rest"
proof (cases v)
  case None
  with assms(1,5) show ?thesis by (simp add: put_some_def)
next
  case (Some x)
  with assms(1) have "put w tag wr x = Inr b" by (simp add: put_some_def)
  then have "decode_loop w field stop m (b @ rest) = decode_loop w field stop (store (Some x) m) rest"
    using assms(2-4) Some by (intro loop_field) (simp_all add: reads_some_def)
  with Some show ?thesis by simp
qed

lemma loop_each:
  assumes "put_each (put w tag wr) vs = Inr b" and f: "\<And>m. field tag m = pushes rd add m"
    and "list_all (gives_back wr rd) vs" and stop: "stop \<le> int (length rest)"
    and nil: "\<And>m. add [] m = m" and app: "\<And>xs ys m. add ys (add xs m) = add (xs @ ys) m"
  shows "decode_loop w field stop m (b @ rest) = decode_loop w field stop (add vs m) rest"
  using assms(1,3)
proof (induction vs arbitrary: b m)
  case Nil
  then show ?case by (simp add: put_each_def nil)
next
  case (Cons v vs)
  then obtain b1 b2 where b: "put w tag wr v = Inr b1" "put_each (put w tag wr) vs = Inr b2" "b = b1 @ b2"
    by (auto simp: put_each_Cons_Inr)
  have "decode_loop w field stop m (b1 @ b2 @ rest) = decode_loop w field stop (add [v] m) (b2 @ rest)"
    using Cons.prems(2) stop b(1) f 
    by (intro loop_field [where store = "\<lambda>v. add [v]" and wr = wr and rd = rd and tag = tag])
      (simp_all add: pushes_def)
  also have "\<dots> = decode_loop w field stop (add vs (add [v] m)) rest"
    using Cons b(2) by simp
  finally show ?case by (simp add: b(3) app)
qed

lemma nested_back:
  assumes "codec_back enc dec v"
  shows "gives_back (joined w enc) (nested w dec) v"
  using assms join_back by (auto simp: gives_back_def joined_def nested_def codec_back_def split: sum.splits)

lemma packed_loop_back:
  assumes "put_each wr vs = Inr b" "\<forall>v \<in> set vs. gives_back wr (once rd) v" "advances rd"
  shows "packed_loop rd (int (length rest)) xs (b @ rest) = Some (Inr (xs @ vs, rest))"
  using assms(1,2)
proof (induction vs arbitrary: b xs)
  case Nil
  then show ?case by (simp add: put_each_def packed_loop.simps)
next
  case (Cons v vs)
  then obtain b1 b2 where b: "wr v = Inr b1" "put_each wr vs = Inr b2" "b = b1 @ b2"
    by (auto simp: put_each_Cons_Inr)
  have r: "rd (b1 @ b2 @ rest) = Inr (v, b2 @ rest)"
    using Cons.prems(2) b(1) by (simp add: gives_back_def once_def)
  moreover have "int (length rest) < int (length (b1 @ b2 @ rest))"
  proof -
    have "length (b2 @ rest) < length (b1 @ b2 @ rest)"
      using assms(3) r unfolding advances_def by blast
    moreover have "length rest \<le> length (b2 @ rest)" by simp
    ultimately show ?thesis by linarith
  qed
  ultimately show ?case
    using Cons.IH [OF b(2)] Cons.prems(2) by (subst packed_loop.simps) (simp add: b(3))
qed

lemma packed_back:
  assumes "\<And>v. gives_back wr (once rd) v" "advances rd"
  shows "gives_back (joined w (put_each wr)) (packed w rd) vs"
  unfolding gives_back_def
proof (intro allI impI)
  fix b rest assume "joined w (put_each wr) vs = Inr b"
  then obtain chunk where c: "put_each wr vs = Inr chunk" "wr_join w chunk = Inr b"
    by (auto simp: joined_def split: sum.splits)
  have "packed_loop rd (int (length rest)) [] (chunk @ rest) = Some (Inr ([] @ vs, rest))"
    using packed_loop_back [OF c(1) _ assms(2)] assms(1) by blast
  with join_back [OF c(2)] show "packed w rd (b @ rest) = Some (Inr (vs, rest))"
    by (simp add: packed_def)
qed

lemma list_all_back:
  "(\<And>v. gives_back wr rd v) \<Longrightarrow> list_all (gives_back wr rd) vs"
  "list_all P vs \<Longrightarrow> (\<And>v. P v \<Longrightarrow> gives_back wr rd v) \<Longrightarrow> list_all (gives_back wr rd) vs"
  by (auto simp: list_all_iff)

lemma pred_option_back:
  "(\<And>v. gives_back wr rd v) \<Longrightarrow> pred_option (gives_back wr rd) x"
  "pred_option P x \<Longrightarrow> (\<And>v. P v \<Longrightarrow> gives_back wr rd v) \<Longrightarrow> pred_option (gives_back wr rd) x"
  by (auto simp: option.pred_set)

lemmas laws_back =
  uint32_back int32_back sint32_back uint64_back int64_back bool_back double_back string_back bytes_back
  packed_back [OF uint32_back uint32_advances] packed_back [OF int32_back int32_advances]
  nested_back list_all_back pred_option_back

lemmas loop_rules =
  loop_field [THEN trans] loop_if [THEN trans] loop_some [THEN trans] loop_each [THEN trans]

text \<open>A field no case knows is skipped.\<close>

lemma loop_unknown:
  assumes "wr_uint32 w tag = Inr t" "field tag m = None" "tag mod 8 \<noteq> 4" "tag \<noteq> 0"
    and "rd_skip w (tag mod 8) (payload @ rest) = Inr rest" and stop: "stop \<le> int (length rest)"
  shows "decode_loop w field stop m (t @ payload @ rest) = decode_loop w field stop m rest"
proof -
  have r: "rd_uint32 w (t @ payload @ rest) = Inr (tag, payload @ rest)"
    using uint32_back [of tag] assms(1) by (simp add: gives_back_def once_def)
  have "length (payload @ rest) < length (t @ payload @ rest)"
    using uint32_advances r unfolding advances_def by blast
  moreover have "length rest \<le> length (payload @ rest)" by simp
  ultimately have "stop < int (length (t @ payload @ rest))" using stop by linarith
  with r assms(2-5) show ?thesis by (subst decode_loop.simps) simp
qed

end

section \<open>Termination\<close>

text \<open>A reader that returns on every input, and hands back no more than it was given.\<close>

definition settles :: "'v reader \<Rightarrow> bool" where
  "settles r \<longleftrightarrow>
     (\<forall>bs. \<exists>q. r bs = Some q \<and> (\<forall>v rest. q = Inr (v, rest) \<longrightarrow> length rest \<le> length bs))"

lemma settlesE:
  assumes "settles r"
  obtains q where "r bs = Some q" "\<And>v rest. q = Inr (v, rest) \<Longrightarrow> length rest \<le> length bs"
proof -
  have "\<exists>q. r bs = Some q \<and> (\<forall>v rest. q = Inr (v, rest) \<longrightarrow> length rest \<le> length bs)"
    using assms by (simp add: settles_def)
  then show thesis by (elim exE conjE) (rule that, assumption, blast)
qed

lemma once_settles: "advances r \<Longrightarrow> settles (once r)"
  by (fastforce simp: advances_def settles_def once_def)

lemma reads_settles:
  assumes "reads r store m = Some r'" "settles r"
  shows "settles r'"
  unfolding settles_def
proof (intro allI)
  fix bs
  obtain q where "r bs = Some q" "\<And>v rest. q = Inr (v, rest) \<Longrightarrow> length rest \<le> length bs"
    using settlesE [OF assms(2), of bs] by metis
  then show "\<exists>q. r' bs = Some q \<and> (\<forall>v rest. q = Inr (v, rest) \<longrightarrow> length rest \<le> length bs)"
    using assms(1) by (cases q) (auto simp: reads_def)
qed

lemma reads_some_settles: "reads_some r store m = Some r' \<Longrightarrow> settles r \<Longrightarrow> settles r'"
  unfolding reads_some_def by (rule reads_settles)

lemma pushes_settles: "pushes r add m = Some r' \<Longrightarrow> settles r \<Longrightarrow> settles r'"
  unfolding pushes_def by (rule reads_settles)

lemma packed_loop_settles:
  assumes "advances r"
  shows "\<exists>q. packed_loop r stop xs bs = Some q \<and> (\<forall>v rest. q = Inr (v, rest) \<longrightarrow> length rest \<le> length bs)"
proof (induction bs arbitrary: xs rule: length_induct)
  case (1 bs)
  show ?case
  proof (cases "r bs")
    case (Inl e)
    then show ?thesis by (simp add: packed_loop.simps)
  next
    case (Inr p)
    then obtain x bs1 where r: "r bs = Inr (x, bs1)" by (cases p) auto
    then have "length bs1 < length bs" using assms by (auto simp: advances_def)
    with 1 obtain q where "packed_loop r stop (xs @ [x]) bs1 = Some q"
      "\<forall>v rest. q = Inr (v, rest) \<longrightarrow> length rest \<le> length bs1" by blast
    with r \<open>length bs1 < length bs\<close> show ?thesis
      by (subst packed_loop.simps) (auto intro: order_trans less_imp_le)
  qed
qed

context wire_format
begin

lemma packed_settles:
  assumes "advances r"
  shows "settles (packed w r)"
  unfolding settles_def
proof (intro allI)
  fix bs
  show "\<exists>q. packed w r bs = Some q \<and> (\<forall>v rest. q = Inr (v, rest) \<longrightarrow> length rest \<le> length bs)"
  proof (cases "rd_uint32 w bs")
    case (Inl e)
    then show ?thesis by (simp add: packed_def)
  next
    case (Inr p)
    then obtain n bs1 where u: "rd_uint32 w bs = Inr (n, bs1)" by (cases p) auto
    then have "length bs1 < length bs" using uint32_advances by (auto simp: advances_def)
    with u packed_loop_settles [OF assms, of "int (length bs1) - n" "[]" bs1] show ?thesis
      by (auto simp: packed_def intro: order_trans less_imp_le)
  qed
qed

lemma nested_settles:
  assumes "\<And>len. settles (dec len)"
  shows "settles (nested w dec)"
  unfolding settles_def
proof (intro allI)
  fix bs
  show "\<exists>q. nested w dec bs = Some q \<and> (\<forall>v rest. q = Inr (v, rest) \<longrightarrow> length rest \<le> length bs)"
  proof (cases "rd_uint32 w bs")
    case (Inl e)
    then show ?thesis by (simp add: nested_def)
  next
    case (Inr p)
    then obtain n bs1 where u: "rd_uint32 w bs = Inr (n, bs1)" by (cases p) auto
    then have "length bs1 < length bs" using uint32_advances by (auto simp: advances_def)
    with u assms [of n] show ?thesis
      by (auto simp: nested_def elim!: settlesE [of _ bs1] intro: order_trans less_imp_le)
  qed
qed

lemma decode_loop_settles:
  assumes "\<And>tag m r. field tag m = Some r \<Longrightarrow> settles r"
  shows "\<exists>q. decode_loop w field stop m bs = Some q \<and> (\<forall>v rest. q = Inr (v, rest) \<longrightarrow> length rest \<le> length bs)"
proof (induction bs arbitrary: m rule: length_induct)
  case (1 bs)
  have next_loop: "\<exists>q. decode_loop w field stop m1 bs2 = Some q \<and> (\<forall>v rest. q = Inr (v, rest) \<longrightarrow> length rest \<le> length bs)"
    if "length bs2 < length bs" for m1 bs2
    using 1 that by (meson less_imp_le order_trans)
  show ?case
  proof (cases "rd_uint32 w bs")
    case (Inl e)
    then show ?thesis by (simp add: decode_loop.simps)
  next
    case (Inr p)
    then obtain tag bs1 where u: "rd_uint32 w bs = Inr (tag, bs1)" by (cases p) auto
    then have l: "length bs1 < length bs" using uint32_advances by (auto simp: advances_def)
    show ?thesis
    proof (cases "field tag m")
      case None
      show ?thesis
      proof (cases "rd_skip w (tag mod 8) bs1")
        case (Inl e)
        with u None l show ?thesis by (subst decode_loop.simps) auto
      next
        case (Inr bs2)
        with skip_shrinks l have "length bs2 < length bs" by (meson le_less_trans)
        with u None Inr l next_loop show ?thesis by (subst decode_loop.simps) auto
      qed
    next
      case (Some r)
      then obtain q where q: "r bs1 = Some q" "\<And>v rest. q = Inr (v, rest) \<Longrightarrow> length rest \<le> length bs1"
        using settlesE [OF assms [OF Some], of bs1] by metis
      show ?thesis
      proof (cases q)
        case (Inl e)
        with u Some q show ?thesis by (subst decode_loop.simps) simp
      next
        case (Inr mr)
        then obtain m1 bs2 where m1: "q = Inr (m1, bs2)" by (cases mr) auto
        with q l have "length bs2 < length bs" by fastforce
        from next_loop [OF this] m1 u Some q(1) show ?thesis by (subst decode_loop.simps) simp
      qed
    qed
  qed
qed

lemma decode_settles:
  assumes "\<And>tag m r. field tag m = Some r \<Longrightarrow> settles r"
  shows "settles (decode w field base len)"
  using decode_loop_settles [of field, OF assms] by (simp add: settles_def decode_def)

lemmas settle_rules = reads_settles reads_some_settles pushes_settles
lemmas settle_intros = nested_settles
  uint32_advances [THEN once_settles] int32_advances [THEN once_settles] sint32_advances [THEN once_settles]
  uint64_advances [THEN once_settles] int64_advances [THEN once_settles] bool_advances [THEN once_settles]
  double_advances [THEN once_settles] string_advances [THEN once_settles] bytes_advances [THEN once_settles]
  int32_advances [THEN packed_settles] uint32_advances [THEN packed_settles]

end

end
