(* ===== verification/Codec_Input.thy ===== *)
theory Codec_Input
  imports Wire
begin

text \<open>
  The generated code of the pointer,
      key and clipboard redirection messages in \<open>webclient/src/gen/message.ts\<close>. For a
  message \<open>X\<close>, \<open>enc_X\<close> is its \<open>encode\<close>, \<open>fld_X\<close> the \<open>switch\<close> on the tag inside its \<open>decode\<close>,
  \<open>dec_X\<close> its \<open>decode\<close>, and \<open>ok_X\<close> says that its strings survive UTF-8 (and its numbers are
  doubles). What \<open>encode\<close> wrote, \<open>decode\<close> reads back, and \<open>decode\<close> ends on every input.
\<close>

section \<open>Encoders and decoders\<close>

definition enc_TouchScaleUpdate :: "wire \<Rightarrow> int \<Rightarrow> jsstr + bytes" where
  "enc_TouchScaleUpdate w scale' =
     put_if (scale' \<noteq> 0) (put w 8 (wr_int32 w) scale')"

definition fld_TouchScaleUpdate :: "wire \<Rightarrow> int \<Rightarrow> int \<Rightarrow> int reader option" where
  "fld_TouchScaleUpdate w tag =
     (if tag = 8 then reads (once (rd_int32 w)) (\<lambda>v _. v)
      else (\<lambda>_. None))"

definition dec_TouchScaleUpdate :: "wire \<Rightarrow> int \<Rightarrow> int reader" where
  "dec_TouchScaleUpdate w = decode w (fld_TouchScaleUpdate w) 0"

definition TouchPanStart_base :: "(int \<times> int)" where
  "TouchPanStart_base =
     (0, 0)"

definition enc_TouchPanStart :: "wire \<Rightarrow> (int \<times> int) \<Rightarrow> jsstr + bytes" where
  "enc_TouchPanStart w m =
     (case m of (x', y') \<Rightarrow>
       enc_all
         [put_if (x' \<noteq> 0) (put w 8 (wr_int32 w) x'),
          put_if (y' \<noteq> 0) (put w 16 (wr_int32 w) y')])"

definition fld_TouchPanStart :: "wire \<Rightarrow> int \<Rightarrow> (int \<times> int) \<Rightarrow> (int \<times> int) reader option" where
  "fld_TouchPanStart w tag =
     (if tag = 8 then reads (once (rd_int32 w)) (\<lambda>v (_, y'). (v, y'))
      else if tag = 16 then reads (once (rd_int32 w)) (\<lambda>v (x', _). (x', v))
      else (\<lambda>_. None))"

definition dec_TouchPanStart :: "wire \<Rightarrow> int \<Rightarrow> (int \<times> int) reader" where
  "dec_TouchPanStart w = decode w (fld_TouchPanStart w) TouchPanStart_base"

definition TouchPanUpdate_base :: "(int \<times> int)" where
  "TouchPanUpdate_base =
     (0, 0)"

definition enc_TouchPanUpdate :: "wire \<Rightarrow> (int \<times> int) \<Rightarrow> jsstr + bytes" where
  "enc_TouchPanUpdate w m =
     (case m of (x', y') \<Rightarrow>
       enc_all
         [put_if (x' \<noteq> 0) (put w 8 (wr_int32 w) x'),
          put_if (y' \<noteq> 0) (put w 16 (wr_int32 w) y')])"

definition fld_TouchPanUpdate :: "wire \<Rightarrow> int \<Rightarrow> (int \<times> int) \<Rightarrow> (int \<times> int) reader option" where
  "fld_TouchPanUpdate w tag =
     (if tag = 8 then reads (once (rd_int32 w)) (\<lambda>v (_, y'). (v, y'))
      else if tag = 16 then reads (once (rd_int32 w)) (\<lambda>v (x', _). (x', v))
      else (\<lambda>_. None))"

definition dec_TouchPanUpdate :: "wire \<Rightarrow> int \<Rightarrow> (int \<times> int) reader" where
  "dec_TouchPanUpdate w = decode w (fld_TouchPanUpdate w) TouchPanUpdate_base"

definition TouchPanEnd_base :: "(int \<times> int)" where
  "TouchPanEnd_base =
     (0, 0)"

definition enc_TouchPanEnd :: "wire \<Rightarrow> (int \<times> int) \<Rightarrow> jsstr + bytes" where
  "enc_TouchPanEnd w m =
     (case m of (x', y') \<Rightarrow>
       enc_all
         [put_if (x' \<noteq> 0) (put w 8 (wr_int32 w) x'),
          put_if (y' \<noteq> 0) (put w 16 (wr_int32 w) y')])"

definition fld_TouchPanEnd :: "wire \<Rightarrow> int \<Rightarrow> (int \<times> int) \<Rightarrow> (int \<times> int) reader option" where
  "fld_TouchPanEnd w tag =
     (if tag = 8 then reads (once (rd_int32 w)) (\<lambda>v (_, y'). (v, y'))
      else if tag = 16 then reads (once (rd_int32 w)) (\<lambda>v (x', _). (x', v))
      else (\<lambda>_. None))"

definition dec_TouchPanEnd :: "wire \<Rightarrow> int \<Rightarrow> (int \<times> int) reader" where
  "dec_TouchPanEnd w = decode w (fld_TouchPanEnd w) TouchPanEnd_base"

definition enc_TouchEvent :: "wire \<Rightarrow> TouchEvent \<Rightarrow> jsstr + bytes" where
  "enc_TouchEvent w m =
     (case m of
         TE_none \<Rightarrow> Inr []
       | TE_scale_update v \<Rightarrow> put w 10 (joined w (enc_TouchScaleUpdate w)) v
       | TE_pan_start x' y' \<Rightarrow> put w 18 (joined w (enc_TouchPanStart w)) (x', y')
       | TE_pan_update x' y' \<Rightarrow> put w 26 (joined w (enc_TouchPanUpdate w)) (x', y')
       | TE_pan_end x' y' \<Rightarrow> put w 34 (joined w (enc_TouchPanEnd w)) (x', y'))"

definition fld_TouchEvent :: "wire \<Rightarrow> int \<Rightarrow> TouchEvent \<Rightarrow> TouchEvent reader option" where
  "fld_TouchEvent w tag =
     (if tag = 10 then reads (nested w (dec_TouchScaleUpdate w)) (\<lambda>v _. TE_scale_update v)
      else if tag = 18 then reads (nested w (dec_TouchPanStart w)) (\<lambda>(x', y') _. TE_pan_start x' y')
      else if tag = 26 then reads (nested w (dec_TouchPanUpdate w)) (\<lambda>(x', y') _. TE_pan_update x' y')
      else if tag = 34 then reads (nested w (dec_TouchPanEnd w)) (\<lambda>(x', y') _. TE_pan_end x' y')
      else (\<lambda>_. None))"

definition dec_TouchEvent :: "wire \<Rightarrow> int \<Rightarrow> TouchEvent reader" where
  "dec_TouchEvent w = decode w (fld_TouchEvent w) TE_none"

definition PointerDeviceEvent_base :: "(PointerUnion \<times> int list)" where
  "PointerDeviceEvent_base =
     (PU_none, [])"

definition enc_PointerDeviceEvent :: "wire \<Rightarrow> (PointerUnion \<times> int list) \<Rightarrow> jsstr + bytes" where
  "enc_PointerDeviceEvent w m =
     (case m of (union', modifiers) \<Rightarrow>
       enc_all
         [(case union' of
                PU_none \<Rightarrow> Inr []
              | PU_touch_event v \<Rightarrow> put w 10 (joined w (enc_TouchEvent w)) v),
          put w 18 (joined w (put_each (wr_int32 w))) modifiers])"

definition fld_PointerDeviceEvent :: "wire \<Rightarrow> int \<Rightarrow> (PointerUnion \<times> int list) \<Rightarrow>
    (PointerUnion \<times> int list) reader option" where
  "fld_PointerDeviceEvent w tag =
     (if tag = 10 then reads (nested w (dec_TouchEvent w))
         (\<lambda>v (_, modifiers). (PU_touch_event v, modifiers))
      else if tag = 16 then pushes (once (rd_int32 w)) (\<lambda>vs (union', modifiers). (union', modifiers @ vs))
      else if tag = 18 then reads (packed w (rd_int32 w))
          (\<lambda>vs (union', modifiers). (union', modifiers @ vs))
      else (\<lambda>_. None))"

definition dec_PointerDeviceEvent :: "wire \<Rightarrow> int \<Rightarrow> (PointerUnion \<times> int list) reader" where
  "dec_PointerDeviceEvent w = decode w (fld_PointerDeviceEvent w) PointerDeviceEvent_base"

definition MouseEvent_base :: "MouseEvent" where
  "MouseEvent_base =
     \<lparr>me_mask = 0, me_x = 0, me_y = 0, me_modifiers = []\<rparr>"

definition enc_MouseEvent :: "wire \<Rightarrow> MouseEvent \<Rightarrow> jsstr + bytes" where
  "enc_MouseEvent w m =
     enc_all
       [put_if (me_mask m \<noteq> 0) (put w 8 (wr_int32 w) (me_mask m)),
        put_if (me_x m \<noteq> 0) (put w 16 (wr_sint32 w) (me_x m)),
        put_if (me_y m \<noteq> 0) (put w 24 (wr_sint32 w) (me_y m)),
        put w 34 (joined w (put_each (wr_int32 w))) (me_modifiers m)]"

definition fld_MouseEvent :: "wire \<Rightarrow> int \<Rightarrow> MouseEvent \<Rightarrow> MouseEvent reader option" where
  "fld_MouseEvent w tag =
     (if tag = 8 then reads (once (rd_int32 w)) (\<lambda>v m. m\<lparr>me_mask := v\<rparr>)
      else if tag = 16 then reads (once (rd_sint32 w)) (\<lambda>v m. m\<lparr>me_x := v\<rparr>)
      else if tag = 24 then reads (once (rd_sint32 w)) (\<lambda>v m. m\<lparr>me_y := v\<rparr>)
      else if tag = 32 then pushes (once (rd_int32 w)) (\<lambda>vs m. m\<lparr>me_modifiers := me_modifiers m @ vs\<rparr>)
      else if tag = 34 then reads (packed w (rd_int32 w)) (\<lambda>vs m. m\<lparr>me_modifiers := me_modifiers m @ vs\<rparr>)
      else (\<lambda>_. None))"

definition dec_MouseEvent :: "wire \<Rightarrow> int \<Rightarrow> MouseEvent reader" where
  "dec_MouseEvent w = decode w (fld_MouseEvent w) MouseEvent_base"

definition KeyEvent_base :: "KeyEvent" where
  "KeyEvent_base =
     \<lparr>ke_down = False, ke_press = False, ke_union = KU_none, ke_modifiers = [],
      ke_mode = 0\<rparr>"

definition enc_KeyEvent :: "wire \<Rightarrow> KeyEvent \<Rightarrow> jsstr + bytes" where
  "enc_KeyEvent w m =
     enc_all
       [put_if (ke_down m) (put w 8 (wr_bool w) (ke_down m)),
        put_if (ke_press m) (put w 16 (wr_bool w) (ke_press m)),
        (case ke_union m of
            KU_none \<Rightarrow> Inr []
          | KU_control_key v \<Rightarrow> put w 24 (wr_int32 w) v
          | KU_chr v \<Rightarrow> put w 32 (wr_uint32 w) v
          | KU_unicode v \<Rightarrow> put w 40 (wr_uint32 w) v
          | KU_seq v \<Rightarrow> put w 50 (wr_string w) v
          | KU_win2win_hotkey v \<Rightarrow> put w 56 (wr_uint32 w) v),
        put w 66 (joined w (put_each (wr_int32 w))) (ke_modifiers m),
        put_if (ke_mode m \<noteq> 0) (put w 72 (wr_int32 w) (ke_mode m))]"

definition fld_KeyEvent :: "wire \<Rightarrow> int \<Rightarrow> KeyEvent \<Rightarrow> KeyEvent reader option" where
  "fld_KeyEvent w tag =
     (if tag = 8 then reads (once (rd_bool w)) (\<lambda>v m. m\<lparr>ke_down := v\<rparr>)
      else if tag = 16 then reads (once (rd_bool w)) (\<lambda>v m. m\<lparr>ke_press := v\<rparr>)
      else if tag = 24 then reads (once (rd_int32 w)) (\<lambda>v m. m\<lparr>ke_union := KU_control_key v\<rparr>)
      else if tag = 32 then reads (once (rd_uint32 w)) (\<lambda>v m. m\<lparr>ke_union := KU_chr v\<rparr>)
      else if tag = 40 then reads (once (rd_uint32 w)) (\<lambda>v m. m\<lparr>ke_union := KU_unicode v\<rparr>)
      else if tag = 50 then reads (once (rd_string w)) (\<lambda>v m. m\<lparr>ke_union := KU_seq v\<rparr>)
      else if tag = 56 then reads (once (rd_uint32 w)) (\<lambda>v m. m\<lparr>ke_union := KU_win2win_hotkey v\<rparr>)
      else if tag = 64 then pushes (once (rd_int32 w)) (\<lambda>vs m. m\<lparr>ke_modifiers := ke_modifiers m @ vs\<rparr>)
      else if tag = 66 then reads (packed w (rd_int32 w)) (\<lambda>vs m. m\<lparr>ke_modifiers := ke_modifiers m @ vs\<rparr>)
      else if tag = 72 then reads (once (rd_int32 w)) (\<lambda>v m. m\<lparr>ke_mode := v\<rparr>)
      else (\<lambda>_. None))"

definition dec_KeyEvent :: "wire \<Rightarrow> int \<Rightarrow> KeyEvent reader" where
  "dec_KeyEvent w = decode w (fld_KeyEvent w) KeyEvent_base"

definition ok_KeyEvent :: "KeyEvent \<Rightarrow> bool" where
  "ok_KeyEvent m \<longleftrightarrow>
      (case ke_union m of
        KU_seq v \<Rightarrow> text_ok v
      | _ \<Rightarrow> True)"

definition enc_CliprdrMonitorReady :: "wire \<Rightarrow> unit \<Rightarrow> jsstr + bytes" where
  "enc_CliprdrMonitorReady w _ = Inr []"

definition fld_CliprdrMonitorReady :: "wire \<Rightarrow> int \<Rightarrow> unit \<Rightarrow> unit reader option" where
  "fld_CliprdrMonitorReady w tag _ = None"

definition dec_CliprdrMonitorReady :: "wire \<Rightarrow> int \<Rightarrow> unit reader" where
  "dec_CliprdrMonitorReady w = decode w (fld_CliprdrMonitorReady w) ()"

definition CliprdrFormat_base :: "(int \<times> jsstr)" where
  "CliprdrFormat_base =
     (0, [])"

definition enc_CliprdrFormat :: "wire \<Rightarrow> (int \<times> jsstr) \<Rightarrow> jsstr + bytes" where
  "enc_CliprdrFormat w m =
     (case m of (id', format') \<Rightarrow>
       enc_all
         [put_if (id' \<noteq> 0) (put w 16 (wr_int32 w) id'),
          put_if (format' \<noteq> []) (put w 26 (wr_string w) format')])"

definition fld_CliprdrFormat :: "wire \<Rightarrow> int \<Rightarrow> (int \<times> jsstr) \<Rightarrow> (int \<times> jsstr) reader option" where
  "fld_CliprdrFormat w tag =
     (if tag = 16 then reads (once (rd_int32 w)) (\<lambda>v (_, format'). (v, format'))
      else if tag = 26 then reads (once (rd_string w)) (\<lambda>v (id', _). (id', v))
      else (\<lambda>_. None))"

definition dec_CliprdrFormat :: "wire \<Rightarrow> int \<Rightarrow> (int \<times> jsstr) reader" where
  "dec_CliprdrFormat w = decode w (fld_CliprdrFormat w) CliprdrFormat_base"

definition ok_CliprdrFormat :: "(int \<times> jsstr) \<Rightarrow> bool" where
  "ok_CliprdrFormat m \<longleftrightarrow>
      (case m of (id', format') \<Rightarrow> text_ok format')"

definition enc_CliprdrServerFormatList :: "wire \<Rightarrow> (int \<times> jsstr) list \<Rightarrow> jsstr + bytes" where
  "enc_CliprdrServerFormatList w formats =
     put_each (put w 18 (joined w (enc_CliprdrFormat w))) formats"

definition fld_CliprdrServerFormatList :: "wire \<Rightarrow> int \<Rightarrow> (int \<times> jsstr) list \<Rightarrow>
    (int \<times> jsstr) list reader option" where
  "fld_CliprdrServerFormatList w tag =
     (if tag = 18 then pushes (nested w (dec_CliprdrFormat w)) (\<lambda>vs formats. formats @ vs)
      else (\<lambda>_. None))"

definition dec_CliprdrServerFormatList :: "wire \<Rightarrow> int \<Rightarrow> (int \<times> jsstr) list reader" where
  "dec_CliprdrServerFormatList w = decode w (fld_CliprdrServerFormatList w) []"

definition ok_CliprdrServerFormatList :: "(int \<times> jsstr) list \<Rightarrow> bool" where
  "ok_CliprdrServerFormatList formats \<longleftrightarrow>
      list_all ok_CliprdrFormat formats"

definition enc_CliprdrServerFormatListResponse :: "wire \<Rightarrow> int \<Rightarrow> jsstr + bytes" where
  "enc_CliprdrServerFormatListResponse w msg_flags =
     put_if (msg_flags \<noteq> 0) (put w 16 (wr_int32 w) msg_flags)"

definition fld_CliprdrServerFormatListResponse :: "wire \<Rightarrow> int \<Rightarrow> int \<Rightarrow> int reader option" where
  "fld_CliprdrServerFormatListResponse w tag =
     (if tag = 16 then reads (once (rd_int32 w)) (\<lambda>v _. v)
      else (\<lambda>_. None))"

definition dec_CliprdrServerFormatListResponse :: "wire \<Rightarrow> int \<Rightarrow> int reader" where
  "dec_CliprdrServerFormatListResponse w = decode w (fld_CliprdrServerFormatListResponse w) 0"

definition enc_CliprdrServerFormatDataRequest :: "wire \<Rightarrow> int \<Rightarrow> jsstr + bytes" where
  "enc_CliprdrServerFormatDataRequest w requested_format_id =
     put_if (requested_format_id \<noteq> 0) (put w 16 (wr_int32 w) requested_format_id)"

definition fld_CliprdrServerFormatDataRequest :: "wire \<Rightarrow> int \<Rightarrow> int \<Rightarrow> int reader option" where
  "fld_CliprdrServerFormatDataRequest w tag =
     (if tag = 16 then reads (once (rd_int32 w)) (\<lambda>v _. v)
      else (\<lambda>_. None))"

definition dec_CliprdrServerFormatDataRequest :: "wire \<Rightarrow> int \<Rightarrow> int reader" where
  "dec_CliprdrServerFormatDataRequest w = decode w (fld_CliprdrServerFormatDataRequest w) 0"

definition CliprdrServerFormatDataResponse_base :: "(int \<times> bytes)" where
  "CliprdrServerFormatDataResponse_base =
     (0, [])"

definition enc_CliprdrServerFormatDataResponse :: "wire \<Rightarrow> (int \<times> bytes) \<Rightarrow> jsstr + bytes" where
  "enc_CliprdrServerFormatDataResponse w m =
     (case m of (msg_flags, format_data) \<Rightarrow>
       enc_all
         [put_if (msg_flags \<noteq> 0) (put w 16 (wr_int32 w) msg_flags),
          put_if (format_data \<noteq> []) (put w 26 (wr_bytes w) format_data)])"

definition fld_CliprdrServerFormatDataResponse :: "wire \<Rightarrow> int \<Rightarrow> (int \<times> bytes) \<Rightarrow>
    (int \<times> bytes) reader option" where
  "fld_CliprdrServerFormatDataResponse w tag =
     (if tag = 16 then reads (once (rd_int32 w)) (\<lambda>v (_, format_data). (v, format_data))
      else if tag = 26 then reads (once (rd_bytes w)) (\<lambda>v (msg_flags, _). (msg_flags, v))
      else (\<lambda>_. None))"

definition dec_CliprdrServerFormatDataResponse :: "wire \<Rightarrow> int \<Rightarrow> (int \<times> bytes) reader" where
  "dec_CliprdrServerFormatDataResponse w = decode w (fld_CliprdrServerFormatDataResponse w) CliprdrServerFormatDataResponse_base"

definition CliprdrFileContentsRequest_base :: "CliprdrFileContentsRequest" where
  "CliprdrFileContentsRequest_base =
     \<lparr>fcr_stream_id = 0, fcr_list_index = 0, fcr_dw_flags = 0, fcr_n_position_low = 0,
      fcr_n_position_high = 0, fcr_cb_requested = 0, fcr_have_clip_data_id = False,
      fcr_clip_data_id = 0\<rparr>"

definition enc_CliprdrFileContentsRequest :: "wire \<Rightarrow> CliprdrFileContentsRequest \<Rightarrow> jsstr + bytes" where
  "enc_CliprdrFileContentsRequest w m =
     enc_all
       [put_if (fcr_stream_id m \<noteq> 0) (put w 16 (wr_int32 w) (fcr_stream_id m)),
        put_if (fcr_list_index m \<noteq> 0) (put w 24 (wr_int32 w) (fcr_list_index m)),
        put_if (fcr_dw_flags m \<noteq> 0) (put w 32 (wr_int32 w) (fcr_dw_flags m)),
        put_if (fcr_n_position_low m \<noteq> 0) (put w 40 (wr_int32 w) (fcr_n_position_low m)),
        put_if (fcr_n_position_high m \<noteq> 0) (put w 48 (wr_int32 w) (fcr_n_position_high m)),
        put_if (fcr_cb_requested m \<noteq> 0) (put w 56 (wr_int32 w) (fcr_cb_requested m)),
        put_if (fcr_have_clip_data_id m) (put w 64 (wr_bool w) (fcr_have_clip_data_id m)),
        put_if (fcr_clip_data_id m \<noteq> 0) (put w 72 (wr_int32 w) (fcr_clip_data_id m))]"

definition fld_CliprdrFileContentsRequest :: "wire \<Rightarrow> int \<Rightarrow> CliprdrFileContentsRequest \<Rightarrow>
    CliprdrFileContentsRequest reader option" where
  "fld_CliprdrFileContentsRequest w tag =
     (if tag = 16 then reads (once (rd_int32 w)) (\<lambda>v m. m\<lparr>fcr_stream_id := v\<rparr>)
      else if tag = 24 then reads (once (rd_int32 w)) (\<lambda>v m. m\<lparr>fcr_list_index := v\<rparr>)
      else if tag = 32 then reads (once (rd_int32 w)) (\<lambda>v m. m\<lparr>fcr_dw_flags := v\<rparr>)
      else if tag = 40 then reads (once (rd_int32 w)) (\<lambda>v m. m\<lparr>fcr_n_position_low := v\<rparr>)
      else if tag = 48 then reads (once (rd_int32 w)) (\<lambda>v m. m\<lparr>fcr_n_position_high := v\<rparr>)
      else if tag = 56 then reads (once (rd_int32 w)) (\<lambda>v m. m\<lparr>fcr_cb_requested := v\<rparr>)
      else if tag = 64 then reads (once (rd_bool w)) (\<lambda>v m. m\<lparr>fcr_have_clip_data_id := v\<rparr>)
      else if tag = 72 then reads (once (rd_int32 w)) (\<lambda>v m. m\<lparr>fcr_clip_data_id := v\<rparr>)
      else (\<lambda>_. None))"

definition dec_CliprdrFileContentsRequest :: "wire \<Rightarrow> int \<Rightarrow> CliprdrFileContentsRequest reader" where
  "dec_CliprdrFileContentsRequest w = decode w (fld_CliprdrFileContentsRequest w) CliprdrFileContentsRequest_base"

definition CliprdrFileContentsResponse_base :: "(int \<times> int \<times> bytes)" where
  "CliprdrFileContentsResponse_base =
     (0, 0, [])"

definition enc_CliprdrFileContentsResponse :: "wire \<Rightarrow> (int \<times> int \<times> bytes) \<Rightarrow> jsstr + bytes" where
  "enc_CliprdrFileContentsResponse w m =
     (case m of (msg_flags, stream_id, requested_data) \<Rightarrow>
       enc_all
         [put_if (msg_flags \<noteq> 0) (put w 24 (wr_int32 w) msg_flags),
          put_if (stream_id \<noteq> 0) (put w 32 (wr_int32 w) stream_id),
          put_if (requested_data \<noteq> []) (put w 42 (wr_bytes w) requested_data)])"

definition fld_CliprdrFileContentsResponse :: "wire \<Rightarrow> int \<Rightarrow> (int \<times> int \<times> bytes) \<Rightarrow>
    (int \<times> int \<times> bytes) reader option" where
  "fld_CliprdrFileContentsResponse w tag =
     (if tag = 24 then reads (once (rd_int32 w))
         (\<lambda>v (_, stream_id, requested_data). (v, stream_id, requested_data))
      else if tag = 32 then reads (once (rd_int32 w))
          (\<lambda>v (msg_flags, _, requested_data). (msg_flags, v, requested_data))
      else if tag = 42 then reads (once (rd_bytes w))
          (\<lambda>v (msg_flags, stream_id, _). (msg_flags, stream_id, v))
      else (\<lambda>_. None))"

definition dec_CliprdrFileContentsResponse :: "wire \<Rightarrow> int \<Rightarrow> (int \<times> int \<times> bytes) reader" where
  "dec_CliprdrFileContentsResponse w = decode w (fld_CliprdrFileContentsResponse w) CliprdrFileContentsResponse_base"

definition enc_CliprdrTryEmpty :: "wire \<Rightarrow> unit \<Rightarrow> jsstr + bytes" where
  "enc_CliprdrTryEmpty w _ = Inr []"

definition fld_CliprdrTryEmpty :: "wire \<Rightarrow> int \<Rightarrow> unit \<Rightarrow> unit reader option" where
  "fld_CliprdrTryEmpty w tag _ = None"

definition dec_CliprdrTryEmpty :: "wire \<Rightarrow> int \<Rightarrow> unit reader" where
  "dec_CliprdrTryEmpty w = decode w (fld_CliprdrTryEmpty w) ()"

definition CliprdrFile_base :: "(jsstr \<times> int)" where
  "CliprdrFile_base =
     ([], 0)"

definition enc_CliprdrFile :: "wire \<Rightarrow> (jsstr \<times> int) \<Rightarrow> jsstr + bytes" where
  "enc_CliprdrFile w m =
     (case m of (name', size') \<Rightarrow>
       enc_all
         [put_if (name' \<noteq> []) (put w 10 (wr_string w) name'),
          put_if (size' \<noteq> 0)
              (guarded (fits_uint64 size') ''message.size of type uint64 too large''
                  (put w 16 (wr_uint64 w) size'))])"

definition fld_CliprdrFile :: "wire \<Rightarrow> int \<Rightarrow> (jsstr \<times> int) \<Rightarrow> (jsstr \<times> int) reader option" where
  "fld_CliprdrFile w tag =
     (if tag = 10 then reads (once (rd_string w)) (\<lambda>v (_, size'). (v, size'))
      else if tag = 16 then reads (once (rd_uint64 w)) (\<lambda>v (name', _). (name', v))
      else (\<lambda>_. None))"

definition dec_CliprdrFile :: "wire \<Rightarrow> int \<Rightarrow> (jsstr \<times> int) reader" where
  "dec_CliprdrFile w = decode w (fld_CliprdrFile w) CliprdrFile_base"

definition ok_CliprdrFile :: "(jsstr \<times> int) \<Rightarrow> bool" where
  "ok_CliprdrFile m \<longleftrightarrow>
      (case m of (name', size') \<Rightarrow> text_ok name')"

definition enc_CliprdrFiles :: "wire \<Rightarrow> (jsstr \<times> int) list \<Rightarrow> jsstr + bytes" where
  "enc_CliprdrFiles w files' =
     put_each (put w 10 (joined w (enc_CliprdrFile w))) files'"

definition fld_CliprdrFiles :: "wire \<Rightarrow> int \<Rightarrow> (jsstr \<times> int) list \<Rightarrow> (jsstr \<times> int) list reader option" where
  "fld_CliprdrFiles w tag =
     (if tag = 10 then pushes (nested w (dec_CliprdrFile w)) (\<lambda>vs files'. files' @ vs)
      else (\<lambda>_. None))"

definition dec_CliprdrFiles :: "wire \<Rightarrow> int \<Rightarrow> (jsstr \<times> int) list reader" where
  "dec_CliprdrFiles w = decode w (fld_CliprdrFiles w) []"

definition ok_CliprdrFiles :: "(jsstr \<times> int) list \<Rightarrow> bool" where
  "ok_CliprdrFiles files' \<longleftrightarrow>
      list_all ok_CliprdrFile files'"

definition enc_Cliprdr :: "wire \<Rightarrow> Cliprdr \<Rightarrow> jsstr + bytes" where
  "enc_Cliprdr w m =
     (case m of
         CL_none \<Rightarrow> Inr []
       | CL_ready \<Rightarrow> put w 10 (joined w (enc_CliprdrMonitorReady w)) ()
       | CL_format_list v \<Rightarrow> put w 18 (joined w (enc_CliprdrServerFormatList w)) v
       | CL_format_list_response v \<Rightarrow> put w 26 (joined w (enc_CliprdrServerFormatListResponse w)) v
       | CL_format_data_request v \<Rightarrow> put w 34 (joined w (enc_CliprdrServerFormatDataRequest w)) v
       | CL_format_data_response msg_flags format_data \<Rightarrow>
           put w 42 (joined w (enc_CliprdrServerFormatDataResponse w)) (msg_flags, format_data)
       | CL_file_contents_request v \<Rightarrow> put w 50 (joined w (enc_CliprdrFileContentsRequest w)) v
       | CL_file_contents_response msg_flags stream_id requested_data \<Rightarrow>
           put w 58 (joined w (enc_CliprdrFileContentsResponse w)) (msg_flags, stream_id, requested_data)
       | CL_try_empty \<Rightarrow> put w 66 (joined w (enc_CliprdrTryEmpty w)) ()
       | CL_files v \<Rightarrow> put w 74 (joined w (enc_CliprdrFiles w)) v)"

definition fld_Cliprdr :: "wire \<Rightarrow> int \<Rightarrow> Cliprdr \<Rightarrow> Cliprdr reader option" where
  "fld_Cliprdr w tag =
     (if tag = 10 then reads (nested w (dec_CliprdrMonitorReady w)) (\<lambda>_ _. CL_ready)
      else if tag = 18 then reads (nested w (dec_CliprdrServerFormatList w)) (\<lambda>v _. CL_format_list v)
      else if tag = 26 then reads (nested w (dec_CliprdrServerFormatListResponse w))
          (\<lambda>v _. CL_format_list_response v)
      else if tag = 34 then reads (nested w (dec_CliprdrServerFormatDataRequest w))
          (\<lambda>v _. CL_format_data_request v)
      else if tag = 42 then reads (nested w (dec_CliprdrServerFormatDataResponse w))
          (\<lambda>(msg_flags, format_data) _. CL_format_data_response msg_flags format_data)
      else if tag = 50 then reads (nested w (dec_CliprdrFileContentsRequest w))
          (\<lambda>v _. CL_file_contents_request v)
      else if tag = 58 then reads (nested w (dec_CliprdrFileContentsResponse w))
          (\<lambda>(msg_flags, stream_id,
              requested_data) _. CL_file_contents_response msg_flags stream_id requested_data)
      else if tag = 66 then reads (nested w (dec_CliprdrTryEmpty w)) (\<lambda>_ _. CL_try_empty)
      else if tag = 74 then reads (nested w (dec_CliprdrFiles w)) (\<lambda>v _. CL_files v)
      else (\<lambda>_. None))"

definition dec_Cliprdr :: "wire \<Rightarrow> int \<Rightarrow> Cliprdr reader" where
  "dec_Cliprdr w = decode w (fld_Cliprdr w) CL_none"

definition ok_Cliprdr :: "Cliprdr \<Rightarrow> bool" where
  "ok_Cliprdr m \<longleftrightarrow>
      (case m of
        CL_format_list v \<Rightarrow> ok_CliprdrServerFormatList v
      | CL_files v \<Rightarrow> ok_CliprdrFiles v
      | _ \<Rightarrow> True)"

section \<open>Round trips and termination\<close>

context wire_format
begin

lemma back_TouchScaleUpdate [codec_backs]: "codec_back (enc_TouchScaleUpdate w) (dec_TouchScaleUpdate w) m"
  unfolding dec_TouchScaleUpdate_def
  by (rule codec_backI; clarsimp simp: enc_TouchScaleUpdate_def;
      (erule loop_rules, (simp add: fld_TouchScaleUpdate_def codec_backs laws_back)+)+)

lemma ends_TouchScaleUpdate [decoder_ends]: "settles (dec_TouchScaleUpdate w len)"
  unfolding dec_TouchScaleUpdate_def
  by (rule decode_settles)
    (auto simp: fld_TouchScaleUpdate_def split: if_splits elim!: settle_rules intro!: settle_intros decoder_ends)

lemma back_TouchPanStart [codec_backs]: "codec_back (enc_TouchPanStart w) (dec_TouchPanStart w) m"
  unfolding dec_TouchPanStart_def
  by (cases m; rule codec_backI; clarsimp simp: enc_TouchPanStart_def TouchPanStart_base_def;
      (erule loop_rules, (simp add: fld_TouchPanStart_def codec_backs laws_back)+)+)

lemma ends_TouchPanStart [decoder_ends]: "settles (dec_TouchPanStart w len)"
  unfolding dec_TouchPanStart_def
  by (rule decode_settles)
    (auto simp: fld_TouchPanStart_def split: if_splits elim!: settle_rules intro!: settle_intros decoder_ends)

lemma back_TouchPanUpdate [codec_backs]: "codec_back (enc_TouchPanUpdate w) (dec_TouchPanUpdate w) m"
  unfolding dec_TouchPanUpdate_def
  by (cases m; rule codec_backI; clarsimp simp: enc_TouchPanUpdate_def TouchPanUpdate_base_def;
      (erule loop_rules, (simp add: fld_TouchPanUpdate_def codec_backs laws_back)+)+)

lemma ends_TouchPanUpdate [decoder_ends]: "settles (dec_TouchPanUpdate w len)"
  unfolding dec_TouchPanUpdate_def
  by (rule decode_settles)
    (auto simp: fld_TouchPanUpdate_def split: if_splits elim!: settle_rules intro!: settle_intros decoder_ends)

lemma back_TouchPanEnd [codec_backs]: "codec_back (enc_TouchPanEnd w) (dec_TouchPanEnd w) m"
  unfolding dec_TouchPanEnd_def
  by (cases m; rule codec_backI; clarsimp simp: enc_TouchPanEnd_def TouchPanEnd_base_def;
      (erule loop_rules, (simp add: fld_TouchPanEnd_def codec_backs laws_back)+)+)

lemma ends_TouchPanEnd [decoder_ends]: "settles (dec_TouchPanEnd w len)"
  unfolding dec_TouchPanEnd_def
  by (rule decode_settles)
    (auto simp: fld_TouchPanEnd_def split: if_splits elim!: settle_rules intro!: settle_intros decoder_ends)

lemma back_TouchEvent [codec_backs]: "codec_back (enc_TouchEvent w) (dec_TouchEvent w) m"
  unfolding dec_TouchEvent_def
  by (cases m; rule codec_backI; clarsimp simp: enc_TouchEvent_def;
      (erule loop_rules, (simp add: fld_TouchEvent_def codec_backs laws_back)+)+)

lemma ends_TouchEvent [decoder_ends]: "settles (dec_TouchEvent w len)"
  unfolding dec_TouchEvent_def
  by (rule decode_settles)
    (auto simp: fld_TouchEvent_def split: if_splits elim!: settle_rules intro!: settle_intros decoder_ends)

lemma back_PointerDeviceEvent [codec_backs]:
    "codec_back (enc_PointerDeviceEvent w) (dec_PointerDeviceEvent w) m"
  unfolding dec_PointerDeviceEvent_def
  by (cases m; cases
      "fst m"; rule codec_backI; clarsimp simp: enc_PointerDeviceEvent_def PointerDeviceEvent_base_def;
      (erule loop_rules, (simp add: fld_PointerDeviceEvent_def codec_backs laws_back split_beta)+)+)

lemma ends_PointerDeviceEvent [decoder_ends]: "settles (dec_PointerDeviceEvent w len)"
  unfolding dec_PointerDeviceEvent_def
  by (rule decode_settles)
    (auto simp: fld_PointerDeviceEvent_def split: if_splits elim!: settle_rules intro!: settle_intros decoder_ends)

lemma back_MouseEvent [codec_backs]: "codec_back (enc_MouseEvent w) (dec_MouseEvent w) m"
  unfolding dec_MouseEvent_def
  by (cases m; rule codec_backI; clarsimp simp: enc_MouseEvent_def MouseEvent_base_def;
      (erule loop_rules, (simp add: fld_MouseEvent_def codec_backs laws_back)+)+)

lemma ends_MouseEvent [decoder_ends]: "settles (dec_MouseEvent w len)"
  unfolding dec_MouseEvent_def
  by (rule decode_settles)
    (auto simp: fld_MouseEvent_def split: if_splits elim!: settle_rules intro!: settle_intros decoder_ends)

lemma back_KeyEvent [codec_backs]: "ok_KeyEvent m \<Longrightarrow> codec_back (enc_KeyEvent w) (dec_KeyEvent w) m"
  unfolding dec_KeyEvent_def
  by (cases
      "ke_union m"; cases m; rule codec_backI; clarsimp simp: enc_KeyEvent_def ok_KeyEvent_def KeyEvent_base_def;
      (erule loop_rules, (simp add: fld_KeyEvent_def codec_backs laws_back)+)+)

lemma ends_KeyEvent [decoder_ends]: "settles (dec_KeyEvent w len)"
  unfolding dec_KeyEvent_def
  by (rule decode_settles)
    (auto simp: fld_KeyEvent_def split: if_splits elim!: settle_rules intro!: settle_intros decoder_ends)

lemma back_CliprdrMonitorReady [codec_backs]:
    "codec_back (enc_CliprdrMonitorReady w) (dec_CliprdrMonitorReady w) m"
  unfolding dec_CliprdrMonitorReady_def
  by (rule codec_backI; clarsimp simp: enc_CliprdrMonitorReady_def;
      (erule loop_rules, (simp add: fld_CliprdrMonitorReady_def codec_backs laws_back)+)+)

lemma ends_CliprdrMonitorReady [decoder_ends]: "settles (dec_CliprdrMonitorReady w len)"
  unfolding dec_CliprdrMonitorReady_def
  by (rule decode_settles)
    (auto simp: fld_CliprdrMonitorReady_def split: if_splits elim!: settle_rules intro!: settle_intros decoder_ends)

lemma back_CliprdrFormat [codec_backs]:
    "ok_CliprdrFormat m \<Longrightarrow> codec_back (enc_CliprdrFormat w) (dec_CliprdrFormat w) m"
  unfolding dec_CliprdrFormat_def
  by (cases m; rule codec_backI; clarsimp simp: enc_CliprdrFormat_def ok_CliprdrFormat_def CliprdrFormat_base_def;
      (erule loop_rules, (simp add: fld_CliprdrFormat_def codec_backs laws_back)+)+)

lemma ends_CliprdrFormat [decoder_ends]: "settles (dec_CliprdrFormat w len)"
  unfolding dec_CliprdrFormat_def
  by (rule decode_settles)
    (auto simp: fld_CliprdrFormat_def split: if_splits elim!: settle_rules intro!: settle_intros decoder_ends)

lemma back_CliprdrServerFormatList [codec_backs]:
    "ok_CliprdrServerFormatList m \<Longrightarrow> codec_back (enc_CliprdrServerFormatList w) (dec_CliprdrServerFormatList w) m"
  unfolding dec_CliprdrServerFormatList_def
  by (rule codec_backI; clarsimp simp: enc_CliprdrServerFormatList_def ok_CliprdrServerFormatList_def;
      (erule loop_rules, (simp add: fld_CliprdrServerFormatList_def codec_backs laws_back)+)+)

lemma ends_CliprdrServerFormatList [decoder_ends]: "settles (dec_CliprdrServerFormatList w len)"
  unfolding dec_CliprdrServerFormatList_def
  by (rule decode_settles)
    (auto simp: fld_CliprdrServerFormatList_def split: if_splits elim!: settle_rules intro!: settle_intros decoder_ends)

lemma back_CliprdrServerFormatListResponse [codec_backs]:
    "codec_back (enc_CliprdrServerFormatListResponse w) (dec_CliprdrServerFormatListResponse w) m"
  unfolding dec_CliprdrServerFormatListResponse_def
  by (rule codec_backI; clarsimp simp: enc_CliprdrServerFormatListResponse_def;
      (erule loop_rules, (simp add: fld_CliprdrServerFormatListResponse_def codec_backs laws_back)+)+)

lemma ends_CliprdrServerFormatListResponse [decoder_ends]:
    "settles (dec_CliprdrServerFormatListResponse w len)"
  unfolding dec_CliprdrServerFormatListResponse_def
  by (rule decode_settles)
    (auto simp: fld_CliprdrServerFormatListResponse_def split: if_splits elim!: settle_rules intro!: settle_intros decoder_ends)

lemma back_CliprdrServerFormatDataRequest [codec_backs]:
    "codec_back (enc_CliprdrServerFormatDataRequest w) (dec_CliprdrServerFormatDataRequest w) m"
  unfolding dec_CliprdrServerFormatDataRequest_def
  by (rule codec_backI; clarsimp simp: enc_CliprdrServerFormatDataRequest_def;
      (erule loop_rules, (simp add: fld_CliprdrServerFormatDataRequest_def codec_backs laws_back)+)+)

lemma ends_CliprdrServerFormatDataRequest [decoder_ends]:
    "settles (dec_CliprdrServerFormatDataRequest w len)"
  unfolding dec_CliprdrServerFormatDataRequest_def
  by (rule decode_settles)
    (auto simp: fld_CliprdrServerFormatDataRequest_def split: if_splits elim!: settle_rules intro!: settle_intros decoder_ends)

lemma back_CliprdrServerFormatDataResponse [codec_backs]:
    "codec_back (enc_CliprdrServerFormatDataResponse w) (dec_CliprdrServerFormatDataResponse w) m"
  unfolding dec_CliprdrServerFormatDataResponse_def
  by (cases m; rule codec_backI; clarsimp simp: enc_CliprdrServerFormatDataResponse_def CliprdrServerFormatDataResponse_base_def;
      (erule loop_rules, (simp add: fld_CliprdrServerFormatDataResponse_def codec_backs laws_back)+)+)

lemma ends_CliprdrServerFormatDataResponse [decoder_ends]:
    "settles (dec_CliprdrServerFormatDataResponse w len)"
  unfolding dec_CliprdrServerFormatDataResponse_def
  by (rule decode_settles)
    (auto simp: fld_CliprdrServerFormatDataResponse_def split: if_splits elim!: settle_rules intro!: settle_intros decoder_ends)

lemma back_CliprdrFileContentsRequest [codec_backs]:
    "codec_back (enc_CliprdrFileContentsRequest w) (dec_CliprdrFileContentsRequest w) m"
  unfolding dec_CliprdrFileContentsRequest_def
  by (cases m; rule codec_backI; clarsimp simp: enc_CliprdrFileContentsRequest_def CliprdrFileContentsRequest_base_def;
      (erule loop_rules, (simp add: fld_CliprdrFileContentsRequest_def codec_backs laws_back)+)+)

lemma ends_CliprdrFileContentsRequest [decoder_ends]: "settles (dec_CliprdrFileContentsRequest w len)"
  unfolding dec_CliprdrFileContentsRequest_def
  by (rule decode_settles)
    (auto simp: fld_CliprdrFileContentsRequest_def split: if_splits elim!: settle_rules intro!: settle_intros decoder_ends)

lemma back_CliprdrFileContentsResponse [codec_backs]:
    "codec_back (enc_CliprdrFileContentsResponse w) (dec_CliprdrFileContentsResponse w) m"
  unfolding dec_CliprdrFileContentsResponse_def
  by (cases m rule: prod_cases3; rule codec_backI; clarsimp simp: enc_CliprdrFileContentsResponse_def CliprdrFileContentsResponse_base_def;
      (erule loop_rules, (simp add: fld_CliprdrFileContentsResponse_def codec_backs laws_back)+)+)

lemma ends_CliprdrFileContentsResponse [decoder_ends]: "settles (dec_CliprdrFileContentsResponse w len)"
  unfolding dec_CliprdrFileContentsResponse_def
  by (rule decode_settles)
    (auto simp: fld_CliprdrFileContentsResponse_def split: if_splits elim!: settle_rules intro!: settle_intros decoder_ends)

lemma back_CliprdrTryEmpty [codec_backs]: "codec_back (enc_CliprdrTryEmpty w) (dec_CliprdrTryEmpty w) m"
  unfolding dec_CliprdrTryEmpty_def
  by (rule codec_backI; clarsimp simp: enc_CliprdrTryEmpty_def;
      (erule loop_rules, (simp add: fld_CliprdrTryEmpty_def codec_backs laws_back)+)+)

lemma ends_CliprdrTryEmpty [decoder_ends]: "settles (dec_CliprdrTryEmpty w len)"
  unfolding dec_CliprdrTryEmpty_def
  by (rule decode_settles)
    (auto simp: fld_CliprdrTryEmpty_def split: if_splits elim!: settle_rules intro!: settle_intros decoder_ends)

lemma back_CliprdrFile [codec_backs]:
    "ok_CliprdrFile m \<Longrightarrow> codec_back (enc_CliprdrFile w) (dec_CliprdrFile w) m"
  unfolding dec_CliprdrFile_def
  by (cases m; rule codec_backI; clarsimp simp: enc_CliprdrFile_def ok_CliprdrFile_def CliprdrFile_base_def;
      (erule loop_rules, (simp add: fld_CliprdrFile_def codec_backs laws_back)+)+)

lemma ends_CliprdrFile [decoder_ends]: "settles (dec_CliprdrFile w len)"
  unfolding dec_CliprdrFile_def
  by (rule decode_settles)
    (auto simp: fld_CliprdrFile_def split: if_splits elim!: settle_rules intro!: settle_intros decoder_ends)

lemma back_CliprdrFiles [codec_backs]:
    "ok_CliprdrFiles m \<Longrightarrow> codec_back (enc_CliprdrFiles w) (dec_CliprdrFiles w) m"
  unfolding dec_CliprdrFiles_def
  by (rule codec_backI; clarsimp simp: enc_CliprdrFiles_def ok_CliprdrFiles_def;
      (erule loop_rules, (simp add: fld_CliprdrFiles_def codec_backs laws_back)+)+)

lemma ends_CliprdrFiles [decoder_ends]: "settles (dec_CliprdrFiles w len)"
  unfolding dec_CliprdrFiles_def
  by (rule decode_settles)
    (auto simp: fld_CliprdrFiles_def split: if_splits elim!: settle_rules intro!: settle_intros decoder_ends)

lemma back_Cliprdr [codec_backs]: "ok_Cliprdr m \<Longrightarrow> codec_back (enc_Cliprdr w) (dec_Cliprdr w) m"
  unfolding dec_Cliprdr_def
  by (cases m; rule codec_backI; clarsimp simp: enc_Cliprdr_def ok_Cliprdr_def;
      (erule loop_rules, (simp add: fld_Cliprdr_def codec_backs laws_back)+)+)

lemma ends_Cliprdr [decoder_ends]: "settles (dec_Cliprdr w len)"
  unfolding dec_Cliprdr_def
  by (rule decode_settles)
    (auto simp: fld_Cliprdr_def split: if_splits elim!: settle_rules intro!: settle_intros decoder_ends)

end

end
