(* ===== verification/Codec_Files.thy ===== *)
theory Codec_Files
  imports Wire
begin

text \<open>
  The generated code of the file transfer messages in \<open>webclient/src/gen/message.ts\<close>. For a
  message \<open>X\<close>, \<open>enc_X\<close> is its \<open>encode\<close>, \<open>fld_X\<close> the \<open>switch\<close> on the tag inside its \<open>decode\<close>,
  \<open>dec_X\<close> its \<open>decode\<close>, and \<open>ok_X\<close> says that its strings survive UTF-8 (and its numbers are
  doubles). What \<open>encode\<close> wrote, \<open>decode\<close> reads back, and \<open>decode\<close> ends on every input.
\<close>

section \<open>Encoders and decoders\<close>

definition FileEntry_base :: "FileEntry" where
  "FileEntry_base =
     \<lparr>fe_entry_type = 0, fe_name = [], fe_is_hidden = False, fe_size = 0,
      fe_modified_time = 0\<rparr>"

definition enc_FileEntry :: "wire \<Rightarrow> FileEntry \<Rightarrow> jsstr + bytes" where
  "enc_FileEntry w m =
     enc_all
       [put_if (fe_entry_type m \<noteq> 0) (put w 8 (wr_int32 w) (fe_entry_type m)),
        put_if (fe_name m \<noteq> []) (put w 18 (wr_string w) (fe_name m)),
        put_if (fe_is_hidden m) (put w 24 (wr_bool w) (fe_is_hidden m)),
        put_if (fe_size m \<noteq> 0)
            (guarded (fits_uint64 (fe_size m)) ''message.size of type uint64 too large''
                (put w 32 (wr_uint64 w) (fe_size m))),
        put_if (fe_modified_time m \<noteq> 0)
            (guarded (fits_uint64 (fe_modified_time m)) ''message.modified_time of type uint64 too large''
                (put w 40 (wr_uint64 w) (fe_modified_time m)))]"

definition fld_FileEntry :: "wire \<Rightarrow> int \<Rightarrow> FileEntry \<Rightarrow> FileEntry reader option" where
  "fld_FileEntry w tag =
     (if tag = 8 then reads (once (rd_int32 w)) (\<lambda>v m. m\<lparr>fe_entry_type := v\<rparr>)
      else if tag = 18 then reads (once (rd_string w)) (\<lambda>v m. m\<lparr>fe_name := v\<rparr>)
      else if tag = 24 then reads (once (rd_bool w)) (\<lambda>v m. m\<lparr>fe_is_hidden := v\<rparr>)
      else if tag = 32 then reads (once (rd_uint64 w)) (\<lambda>v m. m\<lparr>fe_size := v\<rparr>)
      else if tag = 40 then reads (once (rd_uint64 w)) (\<lambda>v m. m\<lparr>fe_modified_time := v\<rparr>)
      else (\<lambda>_. None))"

definition dec_FileEntry :: "wire \<Rightarrow> int \<Rightarrow> FileEntry reader" where
  "dec_FileEntry w = decode w (fld_FileEntry w) FileEntry_base"

definition ok_FileEntry :: "FileEntry \<Rightarrow> bool" where
  "ok_FileEntry m \<longleftrightarrow>
      text_ok (fe_name m)"

definition FileDirectory_base :: "FileDirectory" where
  "FileDirectory_base =
     \<lparr>fd_id = 0, fd_path = [], fd_entries = []\<rparr>"

definition enc_FileDirectory :: "wire \<Rightarrow> FileDirectory \<Rightarrow> jsstr + bytes" where
  "enc_FileDirectory w m =
     enc_all
       [put_if (fd_id m \<noteq> 0) (put w 8 (wr_int32 w) (fd_id m)),
        put_if (fd_path m \<noteq> []) (put w 18 (wr_string w) (fd_path m)),
        put_each (put w 26 (joined w (enc_FileEntry w))) (fd_entries m)]"

definition fld_FileDirectory :: "wire \<Rightarrow> int \<Rightarrow> FileDirectory \<Rightarrow> FileDirectory reader option" where
  "fld_FileDirectory w tag =
     (if tag = 8 then reads (once (rd_int32 w)) (\<lambda>v m. m\<lparr>fd_id := v\<rparr>)
      else if tag = 18 then reads (once (rd_string w)) (\<lambda>v m. m\<lparr>fd_path := v\<rparr>)
      else if tag = 26 then pushes (nested w (dec_FileEntry w)) (\<lambda>vs m. m\<lparr>fd_entries := fd_entries m @ vs\<rparr>)
      else (\<lambda>_. None))"

definition dec_FileDirectory :: "wire \<Rightarrow> int \<Rightarrow> FileDirectory reader" where
  "dec_FileDirectory w = decode w (fld_FileDirectory w) FileDirectory_base"

definition ok_FileDirectory :: "FileDirectory \<Rightarrow> bool" where
  "ok_FileDirectory m \<longleftrightarrow>
      text_ok (fd_path m) \<and>
      list_all ok_FileEntry (fd_entries m)"

definition ReadDir_base :: "(jsstr \<times> bool)" where
  "ReadDir_base =
     ([], False)"

definition enc_ReadDir :: "wire \<Rightarrow> (jsstr \<times> bool) \<Rightarrow> jsstr + bytes" where
  "enc_ReadDir w m =
     (case m of (path', include_hidden) \<Rightarrow>
       enc_all
         [put_if (path' \<noteq> []) (put w 10 (wr_string w) path'),
          put_if include_hidden (put w 16 (wr_bool w) include_hidden)])"

definition fld_ReadDir :: "wire \<Rightarrow> int \<Rightarrow> (jsstr \<times> bool) \<Rightarrow> (jsstr \<times> bool) reader option" where
  "fld_ReadDir w tag =
     (if tag = 10 then reads (once (rd_string w)) (\<lambda>v (_, include_hidden). (v, include_hidden))
      else if tag = 16 then reads (once (rd_bool w)) (\<lambda>v (path', _). (path', v))
      else (\<lambda>_. None))"

definition dec_ReadDir :: "wire \<Rightarrow> int \<Rightarrow> (jsstr \<times> bool) reader" where
  "dec_ReadDir w = decode w (fld_ReadDir w) ReadDir_base"

definition ok_ReadDir :: "(jsstr \<times> bool) \<Rightarrow> bool" where
  "ok_ReadDir m \<longleftrightarrow>
      (case m of (path', include_hidden) \<Rightarrow> text_ok path')"

definition ReadEmptyDirs_base :: "(jsstr \<times> bool)" where
  "ReadEmptyDirs_base =
     ([], False)"

definition enc_ReadEmptyDirs :: "wire \<Rightarrow> (jsstr \<times> bool) \<Rightarrow> jsstr + bytes" where
  "enc_ReadEmptyDirs w m =
     (case m of (path', include_hidden) \<Rightarrow>
       enc_all
         [put_if (path' \<noteq> []) (put w 10 (wr_string w) path'),
          put_if include_hidden (put w 16 (wr_bool w) include_hidden)])"

definition fld_ReadEmptyDirs :: "wire \<Rightarrow> int \<Rightarrow> (jsstr \<times> bool) \<Rightarrow> (jsstr \<times> bool) reader option" where
  "fld_ReadEmptyDirs w tag =
     (if tag = 10 then reads (once (rd_string w)) (\<lambda>v (_, include_hidden). (v, include_hidden))
      else if tag = 16 then reads (once (rd_bool w)) (\<lambda>v (path', _). (path', v))
      else (\<lambda>_. None))"

definition dec_ReadEmptyDirs :: "wire \<Rightarrow> int \<Rightarrow> (jsstr \<times> bool) reader" where
  "dec_ReadEmptyDirs w = decode w (fld_ReadEmptyDirs w) ReadEmptyDirs_base"

definition ok_ReadEmptyDirs :: "(jsstr \<times> bool) \<Rightarrow> bool" where
  "ok_ReadEmptyDirs m \<longleftrightarrow>
      (case m of (path', include_hidden) \<Rightarrow> text_ok path')"

definition ReadEmptyDirsResponse_base :: "(jsstr \<times> FileDirectory list)" where
  "ReadEmptyDirsResponse_base =
     ([], [])"

definition enc_ReadEmptyDirsResponse :: "wire \<Rightarrow> (jsstr \<times> FileDirectory list) \<Rightarrow> jsstr + bytes" where
  "enc_ReadEmptyDirsResponse w m =
     (case m of (path', empty_dirs) \<Rightarrow>
       enc_all
         [put_if (path' \<noteq> []) (put w 10 (wr_string w) path'),
          put_each (put w 18 (joined w (enc_FileDirectory w))) empty_dirs])"

definition fld_ReadEmptyDirsResponse :: "wire \<Rightarrow> int \<Rightarrow> (jsstr \<times> FileDirectory list) \<Rightarrow>
    (jsstr \<times> FileDirectory list) reader option" where
  "fld_ReadEmptyDirsResponse w tag =
     (if tag = 10 then reads (once (rd_string w)) (\<lambda>v (_, empty_dirs). (v, empty_dirs))
      else if tag = 18 then pushes (nested w (dec_FileDirectory w))
          (\<lambda>vs (path', empty_dirs). (path', empty_dirs @ vs))
      else (\<lambda>_. None))"

definition dec_ReadEmptyDirsResponse :: "wire \<Rightarrow> int \<Rightarrow> (jsstr \<times> FileDirectory list) reader" where
  "dec_ReadEmptyDirsResponse w = decode w (fld_ReadEmptyDirsResponse w) ReadEmptyDirsResponse_base"

definition ok_ReadEmptyDirsResponse :: "(jsstr \<times> FileDirectory list) \<Rightarrow> bool" where
  "ok_ReadEmptyDirsResponse m \<longleftrightarrow>
      (case m of (path', empty_dirs) \<Rightarrow> text_ok path' \<and> list_all ok_FileDirectory empty_dirs)"

definition ReadAllFiles_base :: "(int \<times> jsstr \<times> bool)" where
  "ReadAllFiles_base =
     (0, [], False)"

definition enc_ReadAllFiles :: "wire \<Rightarrow> (int \<times> jsstr \<times> bool) \<Rightarrow> jsstr + bytes" where
  "enc_ReadAllFiles w m =
     (case m of (id', path', include_hidden) \<Rightarrow>
       enc_all
         [put_if (id' \<noteq> 0) (put w 8 (wr_int32 w) id'),
          put_if (path' \<noteq> []) (put w 18 (wr_string w) path'),
          put_if include_hidden (put w 24 (wr_bool w) include_hidden)])"

definition fld_ReadAllFiles :: "wire \<Rightarrow> int \<Rightarrow> (int \<times> jsstr \<times> bool) \<Rightarrow>
    (int \<times> jsstr \<times> bool) reader option" where
  "fld_ReadAllFiles w tag =
     (if tag = 8 then reads (once (rd_int32 w)) (\<lambda>v (_, path', include_hidden). (v, path', include_hidden))
      else if tag = 18 then reads (once (rd_string w))
          (\<lambda>v (id', _, include_hidden). (id', v, include_hidden))
      else if tag = 24 then reads (once (rd_bool w)) (\<lambda>v (id', path', _). (id', path', v))
      else (\<lambda>_. None))"

definition dec_ReadAllFiles :: "wire \<Rightarrow> int \<Rightarrow> (int \<times> jsstr \<times> bool) reader" where
  "dec_ReadAllFiles w = decode w (fld_ReadAllFiles w) ReadAllFiles_base"

definition ok_ReadAllFiles :: "(int \<times> jsstr \<times> bool) \<Rightarrow> bool" where
  "ok_ReadAllFiles m \<longleftrightarrow>
      (case m of (id', path', include_hidden) \<Rightarrow> text_ok path')"

definition FileRename_base :: "(int \<times> jsstr \<times> jsstr)" where
  "FileRename_base =
     (0, [], [])"

definition enc_FileRename :: "wire \<Rightarrow> (int \<times> jsstr \<times> jsstr) \<Rightarrow> jsstr + bytes" where
  "enc_FileRename w m =
     (case m of (id', path', new_name) \<Rightarrow>
       enc_all
         [put_if (id' \<noteq> 0) (put w 8 (wr_int32 w) id'),
          put_if (path' \<noteq> []) (put w 18 (wr_string w) path'),
          put_if (new_name \<noteq> []) (put w 26 (wr_string w) new_name)])"

definition fld_FileRename :: "wire \<Rightarrow> int \<Rightarrow> (int \<times> jsstr \<times> jsstr) \<Rightarrow>
    (int \<times> jsstr \<times> jsstr) reader option" where
  "fld_FileRename w tag =
     (if tag = 8 then reads (once (rd_int32 w)) (\<lambda>v (_, path', new_name). (v, path', new_name))
      else if tag = 18 then reads (once (rd_string w)) (\<lambda>v (id', _, new_name). (id', v, new_name))
      else if tag = 26 then reads (once (rd_string w)) (\<lambda>v (id', path', _). (id', path', v))
      else (\<lambda>_. None))"

definition dec_FileRename :: "wire \<Rightarrow> int \<Rightarrow> (int \<times> jsstr \<times> jsstr) reader" where
  "dec_FileRename w = decode w (fld_FileRename w) FileRename_base"

definition ok_FileRename :: "(int \<times> jsstr \<times> jsstr) \<Rightarrow> bool" where
  "ok_FileRename m \<longleftrightarrow>
      (case m of (id', path', new_name) \<Rightarrow> text_ok path' \<and> text_ok new_name)"

definition enc_FileTransferCancel :: "wire \<Rightarrow> int \<Rightarrow> jsstr + bytes" where
  "enc_FileTransferCancel w id' =
     put_if (id' \<noteq> 0) (put w 8 (wr_int32 w) id')"

definition fld_FileTransferCancel :: "wire \<Rightarrow> int \<Rightarrow> int \<Rightarrow> int reader option" where
  "fld_FileTransferCancel w tag =
     (if tag = 8 then reads (once (rd_int32 w)) (\<lambda>v _. v)
      else (\<lambda>_. None))"

definition dec_FileTransferCancel :: "wire \<Rightarrow> int \<Rightarrow> int reader" where
  "dec_FileTransferCancel w = decode w (fld_FileTransferCancel w) 0"

definition enc_FileTransferDigest :: "wire \<Rightarrow> FileTransferDigest \<Rightarrow> jsstr + bytes" where
  "enc_FileTransferDigest w m =
     enc_all
       [put_if (dg_id m \<noteq> 0) (put w 8 (wr_int32 w) (dg_id m)),
        put_if (dg_file_num m \<noteq> 0) (put w 16 (wr_sint32 w) (dg_file_num m)),
        put_if (dg_last_modified m \<noteq> 0)
            (guarded (fits_uint64 (dg_last_modified m)) ''message.last_modified of type uint64 too large''
                (put w 24 (wr_uint64 w) (dg_last_modified m))),
        put_if (dg_file_size m \<noteq> 0)
            (guarded (fits_uint64 (dg_file_size m)) ''message.file_size of type uint64 too large''
                (put w 32 (wr_uint64 w) (dg_file_size m))),
        put_if (dg_is_upload m) (put w 40 (wr_bool w) (dg_is_upload m)),
        put_if (dg_is_identical m) (put w 48 (wr_bool w) (dg_is_identical m)),
        put_if (dg_transferred_size m \<noteq> 0)
            (guarded (fits_uint64 (dg_transferred_size m)) ''message.transferred_size of type uint64 too large'' (put w 56 (wr_uint64 w) (dg_transferred_size m))),
        put_if (dg_is_resume m) (put w 64 (wr_bool w) (dg_is_resume m))]"

definition fld_FileTransferDigest :: "wire \<Rightarrow> int \<Rightarrow> FileTransferDigest \<Rightarrow>
    FileTransferDigest reader option" where
  "fld_FileTransferDigest w tag =
     (if tag = 8 then reads (once (rd_int32 w)) (\<lambda>v m. m\<lparr>dg_id := v\<rparr>)
      else if tag = 16 then reads (once (rd_sint32 w)) (\<lambda>v m. m\<lparr>dg_file_num := v\<rparr>)
      else if tag = 24 then reads (once (rd_uint64 w)) (\<lambda>v m. m\<lparr>dg_last_modified := v\<rparr>)
      else if tag = 32 then reads (once (rd_uint64 w)) (\<lambda>v m. m\<lparr>dg_file_size := v\<rparr>)
      else if tag = 40 then reads (once (rd_bool w)) (\<lambda>v m. m\<lparr>dg_is_upload := v\<rparr>)
      else if tag = 48 then reads (once (rd_bool w)) (\<lambda>v m. m\<lparr>dg_is_identical := v\<rparr>)
      else if tag = 56 then reads (once (rd_uint64 w)) (\<lambda>v m. m\<lparr>dg_transferred_size := v\<rparr>)
      else if tag = 64 then reads (once (rd_bool w)) (\<lambda>v m. m\<lparr>dg_is_resume := v\<rparr>)
      else (\<lambda>_. None))"

definition dec_FileTransferDigest :: "wire \<Rightarrow> int \<Rightarrow> FileTransferDigest reader" where
  "dec_FileTransferDigest w = decode w (fld_FileTransferDigest w) FileTransferDigest_base"

definition FileTransferBlock_base :: "FileTransferBlock" where
  "FileTransferBlock_base =
     \<lparr>bk_id = 0, bk_file_num = 0, bk_data = [], bk_compressed = False, bk_blk_id = 0\<rparr>"

definition enc_FileTransferBlock :: "wire \<Rightarrow> FileTransferBlock \<Rightarrow> jsstr + bytes" where
  "enc_FileTransferBlock w m =
     enc_all
       [put_if (bk_id m \<noteq> 0) (put w 8 (wr_int32 w) (bk_id m)),
        put_if (bk_file_num m \<noteq> 0) (put w 16 (wr_sint32 w) (bk_file_num m)),
        put_if (bk_data m \<noteq> []) (put w 26 (wr_bytes w) (bk_data m)),
        put_if (bk_compressed m) (put w 32 (wr_bool w) (bk_compressed m)),
        put_if (bk_blk_id m \<noteq> 0) (put w 40 (wr_uint32 w) (bk_blk_id m))]"

definition fld_FileTransferBlock :: "wire \<Rightarrow> int \<Rightarrow> FileTransferBlock \<Rightarrow> FileTransferBlock reader option" where
  "fld_FileTransferBlock w tag =
     (if tag = 8 then reads (once (rd_int32 w)) (\<lambda>v m. m\<lparr>bk_id := v\<rparr>)
      else if tag = 16 then reads (once (rd_sint32 w)) (\<lambda>v m. m\<lparr>bk_file_num := v\<rparr>)
      else if tag = 26 then reads (once (rd_bytes w)) (\<lambda>v m. m\<lparr>bk_data := v\<rparr>)
      else if tag = 32 then reads (once (rd_bool w)) (\<lambda>v m. m\<lparr>bk_compressed := v\<rparr>)
      else if tag = 40 then reads (once (rd_uint32 w)) (\<lambda>v m. m\<lparr>bk_blk_id := v\<rparr>)
      else (\<lambda>_. None))"

definition dec_FileTransferBlock :: "wire \<Rightarrow> int \<Rightarrow> FileTransferBlock reader" where
  "dec_FileTransferBlock w = decode w (fld_FileTransferBlock w) FileTransferBlock_base"

definition FileTransferError_base :: "(int \<times> jsstr \<times> int)" where
  "FileTransferError_base =
     (0, [], 0)"

definition enc_FileTransferError :: "wire \<Rightarrow> (int \<times> jsstr \<times> int) \<Rightarrow> jsstr + bytes" where
  "enc_FileTransferError w m =
     (case m of (id', error', file_num) \<Rightarrow>
       enc_all
         [put_if (id' \<noteq> 0) (put w 8 (wr_int32 w) id'),
          put_if (error' \<noteq> []) (put w 18 (wr_string w) error'),
          put_if (file_num \<noteq> 0) (put w 24 (wr_sint32 w) file_num)])"

definition fld_FileTransferError :: "wire \<Rightarrow> int \<Rightarrow> (int \<times> jsstr \<times> int) \<Rightarrow>
    (int \<times> jsstr \<times> int) reader option" where
  "fld_FileTransferError w tag =
     (if tag = 8 then reads (once (rd_int32 w)) (\<lambda>v (_, error', file_num). (v, error', file_num))
      else if tag = 18 then reads (once (rd_string w)) (\<lambda>v (id', _, file_num). (id', v, file_num))
      else if tag = 24 then reads (once (rd_sint32 w)) (\<lambda>v (id', error', _). (id', error', v))
      else (\<lambda>_. None))"

definition dec_FileTransferError :: "wire \<Rightarrow> int \<Rightarrow> (int \<times> jsstr \<times> int) reader" where
  "dec_FileTransferError w = decode w (fld_FileTransferError w) FileTransferError_base"

definition ok_FileTransferError :: "(int \<times> jsstr \<times> int) \<Rightarrow> bool" where
  "ok_FileTransferError m \<longleftrightarrow>
      (case m of (id', error', file_num) \<Rightarrow> text_ok error')"

definition FileTransferSendRequest_base :: "(int \<times> jsstr \<times> bool \<times> int \<times> int)" where
  "FileTransferSendRequest_base =
     (0, [], False, 0, 0)"

definition enc_FileTransferSendRequest :: "wire \<Rightarrow> (int \<times> jsstr \<times> bool \<times> int \<times> int) \<Rightarrow> jsstr + bytes" where
  "enc_FileTransferSendRequest w m =
     (case m of (id', path', include_hidden, file_num, file_type) \<Rightarrow>
       enc_all
         [put_if (id' \<noteq> 0) (put w 8 (wr_int32 w) id'),
          put_if (path' \<noteq> []) (put w 18 (wr_string w) path'),
          put_if include_hidden (put w 24 (wr_bool w) include_hidden),
          put_if (file_num \<noteq> 0) (put w 32 (wr_int32 w) file_num),
          put_if (file_type \<noteq> 0) (put w 40 (wr_int32 w) file_type)])"

definition fld_FileTransferSendRequest :: "wire \<Rightarrow> int \<Rightarrow> (int \<times> jsstr \<times> bool \<times> int \<times> int) \<Rightarrow>
    (int \<times> jsstr \<times> bool \<times> int \<times> int) reader option" where
  "fld_FileTransferSendRequest w tag =
     (if tag = 8 then reads (once (rd_int32 w))
         (\<lambda>v (_, path', include_hidden, file_num, file_type). (v, path', include_hidden, file_num,
             file_type))
      else if tag = 18 then reads (once (rd_string w))
          (\<lambda>v (id', _, include_hidden, file_num, file_type). (id', v, include_hidden, file_num, file_type))
      else if tag = 24 then reads (once (rd_bool w))
          (\<lambda>v (id', path', _, file_num, file_type). (id', path', v, file_num, file_type))
      else if tag = 32 then reads (once (rd_int32 w))
          (\<lambda>v (id', path', include_hidden, _, file_type). (id', path', include_hidden, v, file_type))
      else if tag = 40 then reads (once (rd_int32 w))
          (\<lambda>v (id', path', include_hidden, file_num, _). (id', path', include_hidden, file_num, v))
      else (\<lambda>_. None))"

definition dec_FileTransferSendRequest :: "wire \<Rightarrow> int \<Rightarrow> (int \<times> jsstr \<times> bool \<times> int \<times> int) reader" where
  "dec_FileTransferSendRequest w = decode w (fld_FileTransferSendRequest w) FileTransferSendRequest_base"

definition ok_FileTransferSendRequest :: "(int \<times> jsstr \<times> bool \<times> int \<times> int) \<Rightarrow> bool" where
  "ok_FileTransferSendRequest m \<longleftrightarrow>
      (case m of (id', path', include_hidden, file_num, file_type) \<Rightarrow> text_ok path')"

definition FileTransferSendConfirmRequest_base :: "FileTransferSendConfirmRequest" where
  "FileTransferSendConfirmRequest_base =
     \<lparr>sc_id = 0, sc_file_num = 0, sc_union = CU_none\<rparr>"

definition enc_FileTransferSendConfirmRequest :: "wire \<Rightarrow> FileTransferSendConfirmRequest \<Rightarrow>
    jsstr + bytes" where
  "enc_FileTransferSendConfirmRequest w m =
     enc_all
       [put_if (sc_id m \<noteq> 0) (put w 8 (wr_int32 w) (sc_id m)),
        put_if (sc_file_num m \<noteq> 0) (put w 16 (wr_sint32 w) (sc_file_num m)),
        (case sc_union m of
            CU_none \<Rightarrow> Inr []
          | CU_skip v \<Rightarrow> put w 24 (wr_bool w) v
          | CU_offset_blk v \<Rightarrow> put w 32 (wr_uint32 w) v)]"

definition fld_FileTransferSendConfirmRequest :: "wire \<Rightarrow> int \<Rightarrow> FileTransferSendConfirmRequest \<Rightarrow>
    FileTransferSendConfirmRequest reader option" where
  "fld_FileTransferSendConfirmRequest w tag =
     (if tag = 8 then reads (once (rd_int32 w)) (\<lambda>v m. m\<lparr>sc_id := v\<rparr>)
      else if tag = 16 then reads (once (rd_sint32 w)) (\<lambda>v m. m\<lparr>sc_file_num := v\<rparr>)
      else if tag = 24 then reads (once (rd_bool w)) (\<lambda>v m. m\<lparr>sc_union := CU_skip v\<rparr>)
      else if tag = 32 then reads (once (rd_uint32 w)) (\<lambda>v m. m\<lparr>sc_union := CU_offset_blk v\<rparr>)
      else (\<lambda>_. None))"

definition dec_FileTransferSendConfirmRequest :: "wire \<Rightarrow> int \<Rightarrow> FileTransferSendConfirmRequest reader" where
  "dec_FileTransferSendConfirmRequest w = decode w (fld_FileTransferSendConfirmRequest w) FileTransferSendConfirmRequest_base"

definition FileTransferDone_base :: "(int \<times> int)" where
  "FileTransferDone_base =
     (0, 0)"

definition enc_FileTransferDone :: "wire \<Rightarrow> (int \<times> int) \<Rightarrow> jsstr + bytes" where
  "enc_FileTransferDone w m =
     (case m of (id', file_num) \<Rightarrow>
       enc_all
         [put_if (id' \<noteq> 0) (put w 8 (wr_int32 w) id'),
          put_if (file_num \<noteq> 0) (put w 16 (wr_sint32 w) file_num)])"

definition fld_FileTransferDone :: "wire \<Rightarrow> int \<Rightarrow> (int \<times> int) \<Rightarrow> (int \<times> int) reader option" where
  "fld_FileTransferDone w tag =
     (if tag = 8 then reads (once (rd_int32 w)) (\<lambda>v (_, file_num). (v, file_num))
      else if tag = 16 then reads (once (rd_sint32 w)) (\<lambda>v (id', _). (id', v))
      else (\<lambda>_. None))"

definition dec_FileTransferDone :: "wire \<Rightarrow> int \<Rightarrow> (int \<times> int) reader" where
  "dec_FileTransferDone w = decode w (fld_FileTransferDone w) FileTransferDone_base"

definition FileTransferReceiveRequest_base :: "(int \<times> jsstr \<times> FileEntry list \<times> int \<times> int)" where
  "FileTransferReceiveRequest_base =
     (0, [], [], 0, 0)"

definition enc_FileTransferReceiveRequest :: "wire \<Rightarrow> (int \<times> jsstr \<times> FileEntry list \<times> int \<times> int) \<Rightarrow>
    jsstr + bytes" where
  "enc_FileTransferReceiveRequest w m =
     (case m of (id', path', files', file_num, total_size) \<Rightarrow>
       enc_all
         [put_if (id' \<noteq> 0) (put w 8 (wr_int32 w) id'),
          put_if (path' \<noteq> []) (put w 18 (wr_string w) path'),
          put_each (put w 26 (joined w (enc_FileEntry w))) files',
          put_if (file_num \<noteq> 0) (put w 32 (wr_int32 w) file_num),
          put_if (total_size \<noteq> 0)
              (guarded (fits_uint64 total_size) ''message.total_size of type uint64 too large''
                  (put w 40 (wr_uint64 w) total_size))])"

definition fld_FileTransferReceiveRequest :: "wire \<Rightarrow> int \<Rightarrow> (int \<times> jsstr \<times> FileEntry list \<times> int \<times> int) \<Rightarrow>
    (int \<times> jsstr \<times> FileEntry list \<times> int \<times> int) reader option" where
  "fld_FileTransferReceiveRequest w tag =
     (if tag = 8 then reads (once (rd_int32 w))
         (\<lambda>v (_, path', files', file_num, total_size). (v, path', files', file_num, total_size))
      else if tag = 18 then reads (once (rd_string w))
          (\<lambda>v (id', _, files', file_num, total_size). (id', v, files', file_num, total_size))
      else if tag = 26 then pushes (nested w (dec_FileEntry w))
          (\<lambda>vs (id', path', files', file_num, total_size). (id', path', files' @ vs, file_num, total_size))
      else if tag = 32 then reads (once (rd_int32 w))
          (\<lambda>v (id', path', files', _, total_size). (id', path', files', v, total_size))
      else if tag = 40 then reads (once (rd_uint64 w))
          (\<lambda>v (id', path', files', file_num, _). (id', path', files', file_num, v))
      else (\<lambda>_. None))"

definition dec_FileTransferReceiveRequest :: "wire \<Rightarrow> int \<Rightarrow>
    (int \<times> jsstr \<times> FileEntry list \<times> int \<times> int) reader" where
  "dec_FileTransferReceiveRequest w = decode w (fld_FileTransferReceiveRequest w) FileTransferReceiveRequest_base"

definition ok_FileTransferReceiveRequest :: "(int \<times> jsstr \<times> FileEntry list \<times> int \<times> int) \<Rightarrow> bool" where
  "ok_FileTransferReceiveRequest m \<longleftrightarrow>
      (case m of (id', path', files', file_num, total_size) \<Rightarrow> text_ok path' \<and> list_all ok_FileEntry files')"

definition FileRemoveDir_base :: "(int \<times> jsstr \<times> bool)" where
  "FileRemoveDir_base =
     (0, [], False)"

definition enc_FileRemoveDir :: "wire \<Rightarrow> (int \<times> jsstr \<times> bool) \<Rightarrow> jsstr + bytes" where
  "enc_FileRemoveDir w m =
     (case m of (id', path', recursive) \<Rightarrow>
       enc_all
         [put_if (id' \<noteq> 0) (put w 8 (wr_int32 w) id'),
          put_if (path' \<noteq> []) (put w 18 (wr_string w) path'),
          put_if recursive (put w 24 (wr_bool w) recursive)])"

definition fld_FileRemoveDir :: "wire \<Rightarrow> int \<Rightarrow> (int \<times> jsstr \<times> bool) \<Rightarrow>
    (int \<times> jsstr \<times> bool) reader option" where
  "fld_FileRemoveDir w tag =
     (if tag = 8 then reads (once (rd_int32 w)) (\<lambda>v (_, path', recursive). (v, path', recursive))
      else if tag = 18 then reads (once (rd_string w)) (\<lambda>v (id', _, recursive). (id', v, recursive))
      else if tag = 24 then reads (once (rd_bool w)) (\<lambda>v (id', path', _). (id', path', v))
      else (\<lambda>_. None))"

definition dec_FileRemoveDir :: "wire \<Rightarrow> int \<Rightarrow> (int \<times> jsstr \<times> bool) reader" where
  "dec_FileRemoveDir w = decode w (fld_FileRemoveDir w) FileRemoveDir_base"

definition ok_FileRemoveDir :: "(int \<times> jsstr \<times> bool) \<Rightarrow> bool" where
  "ok_FileRemoveDir m \<longleftrightarrow>
      (case m of (id', path', recursive) \<Rightarrow> text_ok path')"

definition FileRemoveFile_base :: "(int \<times> jsstr \<times> int)" where
  "FileRemoveFile_base =
     (0, [], 0)"

definition enc_FileRemoveFile :: "wire \<Rightarrow> (int \<times> jsstr \<times> int) \<Rightarrow> jsstr + bytes" where
  "enc_FileRemoveFile w m =
     (case m of (id', path', file_num) \<Rightarrow>
       enc_all
         [put_if (id' \<noteq> 0) (put w 8 (wr_int32 w) id'),
          put_if (path' \<noteq> []) (put w 18 (wr_string w) path'),
          put_if (file_num \<noteq> 0) (put w 24 (wr_sint32 w) file_num)])"

definition fld_FileRemoveFile :: "wire \<Rightarrow> int \<Rightarrow> (int \<times> jsstr \<times> int) \<Rightarrow>
    (int \<times> jsstr \<times> int) reader option" where
  "fld_FileRemoveFile w tag =
     (if tag = 8 then reads (once (rd_int32 w)) (\<lambda>v (_, path', file_num). (v, path', file_num))
      else if tag = 18 then reads (once (rd_string w)) (\<lambda>v (id', _, file_num). (id', v, file_num))
      else if tag = 24 then reads (once (rd_sint32 w)) (\<lambda>v (id', path', _). (id', path', v))
      else (\<lambda>_. None))"

definition dec_FileRemoveFile :: "wire \<Rightarrow> int \<Rightarrow> (int \<times> jsstr \<times> int) reader" where
  "dec_FileRemoveFile w = decode w (fld_FileRemoveFile w) FileRemoveFile_base"

definition ok_FileRemoveFile :: "(int \<times> jsstr \<times> int) \<Rightarrow> bool" where
  "ok_FileRemoveFile m \<longleftrightarrow>
      (case m of (id', path', file_num) \<Rightarrow> text_ok path')"

definition FileDirCreate_base :: "(int \<times> jsstr)" where
  "FileDirCreate_base =
     (0, [])"

definition enc_FileDirCreate :: "wire \<Rightarrow> (int \<times> jsstr) \<Rightarrow> jsstr + bytes" where
  "enc_FileDirCreate w m =
     (case m of (id', path') \<Rightarrow>
       enc_all
         [put_if (id' \<noteq> 0) (put w 8 (wr_int32 w) id'),
          put_if (path' \<noteq> []) (put w 18 (wr_string w) path')])"

definition fld_FileDirCreate :: "wire \<Rightarrow> int \<Rightarrow> (int \<times> jsstr) \<Rightarrow> (int \<times> jsstr) reader option" where
  "fld_FileDirCreate w tag =
     (if tag = 8 then reads (once (rd_int32 w)) (\<lambda>v (_, path'). (v, path'))
      else if tag = 18 then reads (once (rd_string w)) (\<lambda>v (id', _). (id', v))
      else (\<lambda>_. None))"

definition dec_FileDirCreate :: "wire \<Rightarrow> int \<Rightarrow> (int \<times> jsstr) reader" where
  "dec_FileDirCreate w = decode w (fld_FileDirCreate w) FileDirCreate_base"

definition ok_FileDirCreate :: "(int \<times> jsstr) \<Rightarrow> bool" where
  "ok_FileDirCreate m \<longleftrightarrow>
      (case m of (id', path') \<Rightarrow> text_ok path')"

definition enc_FileAction :: "wire \<Rightarrow> FileAction \<Rightarrow> jsstr + bytes" where
  "enc_FileAction w m =
     (case m of
         FA_none \<Rightarrow> Inr []
       | FA_read_dir path' include_hidden \<Rightarrow> put w 10 (joined w (enc_ReadDir w)) (path', include_hidden)
       | FA_send id' path' include_hidden file_num file_type \<Rightarrow>
           put w 18
               (joined w (enc_FileTransferSendRequest w)) (id', path', include_hidden, file_num, file_type)
       | FA_receive id' path' files' file_num total_size \<Rightarrow>
           put w 26 (joined w (enc_FileTransferReceiveRequest w)) (id', path', files', file_num, total_size)
       | FA_create id' path' \<Rightarrow> put w 34 (joined w (enc_FileDirCreate w)) (id', path')
       | FA_remove_dir id' path' recursive \<Rightarrow>
           put w 42 (joined w (enc_FileRemoveDir w)) (id', path', recursive)
       | FA_remove_file id' path' file_num \<Rightarrow>
           put w 50 (joined w (enc_FileRemoveFile w)) (id', path', file_num)
       | FA_all_files id' path' include_hidden \<Rightarrow>
           put w 58 (joined w (enc_ReadAllFiles w)) (id', path', include_hidden)
       | FA_cancel v \<Rightarrow> put w 66 (joined w (enc_FileTransferCancel w)) v
       | FA_send_confirm v \<Rightarrow> put w 74 (joined w (enc_FileTransferSendConfirmRequest w)) v
       | FA_rename id' path' new_name \<Rightarrow> put w 82 (joined w (enc_FileRename w)) (id', path', new_name)
       | FA_read_empty_dirs path' include_hidden \<Rightarrow>
           put w 90 (joined w (enc_ReadEmptyDirs w)) (path', include_hidden))"

definition fld_FileAction :: "wire \<Rightarrow> int \<Rightarrow> FileAction \<Rightarrow> FileAction reader option" where
  "fld_FileAction w tag =
     (if tag = 10 then reads (nested w (dec_ReadDir w))
         (\<lambda>(path', include_hidden) _. FA_read_dir path' include_hidden)
      else if tag = 18 then reads (nested w (dec_FileTransferSendRequest w))
          (\<lambda>(id', path', include_hidden, file_num,
              file_type) _. FA_send id' path' include_hidden file_num file_type)
      else if tag = 26 then reads (nested w (dec_FileTransferReceiveRequest w))
          (\<lambda>(id', path', files', file_num, total_size) _. FA_receive id' path' files' file_num total_size)
      else if tag = 34 then reads (nested w (dec_FileDirCreate w)) (\<lambda>(id', path') _. FA_create id' path')
      else if tag = 42 then reads (nested w (dec_FileRemoveDir w))
          (\<lambda>(id', path', recursive) _. FA_remove_dir id' path' recursive)
      else if tag = 50 then reads (nested w (dec_FileRemoveFile w))
          (\<lambda>(id', path', file_num) _. FA_remove_file id' path' file_num)
      else if tag = 58 then reads (nested w (dec_ReadAllFiles w))
          (\<lambda>(id', path', include_hidden) _. FA_all_files id' path' include_hidden)
      else if tag = 66 then reads (nested w (dec_FileTransferCancel w)) (\<lambda>v _. FA_cancel v)
      else if tag = 74 then reads (nested w (dec_FileTransferSendConfirmRequest w))
          (\<lambda>v _. FA_send_confirm v)
      else if tag = 82 then reads (nested w (dec_FileRename w))
          (\<lambda>(id', path', new_name) _. FA_rename id' path' new_name)
      else if tag = 90 then reads (nested w (dec_ReadEmptyDirs w))
          (\<lambda>(path', include_hidden) _. FA_read_empty_dirs path' include_hidden)
      else (\<lambda>_. None))"

definition dec_FileAction :: "wire \<Rightarrow> int \<Rightarrow> FileAction reader" where
  "dec_FileAction w = decode w (fld_FileAction w) FA_none"

definition ok_FileAction :: "FileAction \<Rightarrow> bool" where
  "ok_FileAction m \<longleftrightarrow>
      (case m of
        FA_read_dir path' include_hidden \<Rightarrow> ok_ReadDir (path', include_hidden)
      | FA_send id' path' include_hidden file_num file_type \<Rightarrow>
          ok_FileTransferSendRequest (id', path', include_hidden, file_num, file_type)
      | FA_receive id' path' files' file_num total_size \<Rightarrow>
          ok_FileTransferReceiveRequest (id', path', files', file_num, total_size)
      | FA_create id' path' \<Rightarrow> ok_FileDirCreate (id', path')
      | FA_remove_dir id' path' recursive \<Rightarrow> ok_FileRemoveDir (id', path', recursive)
      | FA_remove_file id' path' file_num \<Rightarrow> ok_FileRemoveFile (id', path', file_num)
      | FA_all_files id' path' include_hidden \<Rightarrow> ok_ReadAllFiles (id', path', include_hidden)
      | FA_rename id' path' new_name \<Rightarrow> ok_FileRename (id', path', new_name)
      | FA_read_empty_dirs path' include_hidden \<Rightarrow> ok_ReadEmptyDirs (path', include_hidden)
      | _ \<Rightarrow> True)"

definition enc_FileResponse :: "wire \<Rightarrow> FileResponse \<Rightarrow> jsstr + bytes" where
  "enc_FileResponse w m =
     (case m of
         FR_none \<Rightarrow> Inr []
       | FR_dir v \<Rightarrow> put w 10 (joined w (enc_FileDirectory w)) v
       | FR_block v \<Rightarrow> put w 18 (joined w (enc_FileTransferBlock w)) v
       | FR_error id' error' file_num \<Rightarrow>
           put w 26 (joined w (enc_FileTransferError w)) (id', error', file_num)
       | FR_done id' file_num \<Rightarrow> put w 34 (joined w (enc_FileTransferDone w)) (id', file_num)
       | FR_digest v \<Rightarrow> put w 42 (joined w (enc_FileTransferDigest w)) v
       | FR_empty_dirs path' empty_dirs \<Rightarrow>
           put w 50 (joined w (enc_ReadEmptyDirsResponse w)) (path', empty_dirs))"

definition fld_FileResponse :: "wire \<Rightarrow> int \<Rightarrow> FileResponse \<Rightarrow> FileResponse reader option" where
  "fld_FileResponse w tag =
     (if tag = 10 then reads (nested w (dec_FileDirectory w)) (\<lambda>v _. FR_dir v)
      else if tag = 18 then reads (nested w (dec_FileTransferBlock w)) (\<lambda>v _. FR_block v)
      else if tag = 26 then reads (nested w (dec_FileTransferError w))
          (\<lambda>(id', error', file_num) _. FR_error id' error' file_num)
      else if tag = 34 then reads (nested w (dec_FileTransferDone w))
          (\<lambda>(id', file_num) _. FR_done id' file_num)
      else if tag = 42 then reads (nested w (dec_FileTransferDigest w)) (\<lambda>v _. FR_digest v)
      else if tag = 50 then reads (nested w (dec_ReadEmptyDirsResponse w))
          (\<lambda>(path', empty_dirs) _. FR_empty_dirs path' empty_dirs)
      else (\<lambda>_. None))"

definition dec_FileResponse :: "wire \<Rightarrow> int \<Rightarrow> FileResponse reader" where
  "dec_FileResponse w = decode w (fld_FileResponse w) FR_none"

definition ok_FileResponse :: "FileResponse \<Rightarrow> bool" where
  "ok_FileResponse m \<longleftrightarrow>
      (case m of
        FR_dir v \<Rightarrow> ok_FileDirectory v
      | FR_error id' error' file_num \<Rightarrow> ok_FileTransferError (id', error', file_num)
      | FR_empty_dirs path' empty_dirs \<Rightarrow> ok_ReadEmptyDirsResponse (path', empty_dirs)
      | _ \<Rightarrow> True)"

section \<open>Round trips and termination\<close>

context wire_format
begin

lemma back_FileEntry [codec_backs]: "ok_FileEntry m \<Longrightarrow> codec_back (enc_FileEntry w) (dec_FileEntry w) m"
  unfolding dec_FileEntry_def
  by (cases m; rule codec_backI; clarsimp simp: enc_FileEntry_def ok_FileEntry_def FileEntry_base_def;
      (erule loop_rules, (simp add: fld_FileEntry_def codec_backs laws_back)+)+)

lemma ends_FileEntry [decoder_ends]: "settles (dec_FileEntry w len)"
  unfolding dec_FileEntry_def
  by (rule decode_settles)
    (auto simp: fld_FileEntry_def split: if_splits elim!: settle_rules intro!: settle_intros decoder_ends)

lemma back_FileDirectory [codec_backs]:
    "ok_FileDirectory m \<Longrightarrow> codec_back (enc_FileDirectory w) (dec_FileDirectory w) m"
  unfolding dec_FileDirectory_def
  by (cases m; rule codec_backI; clarsimp simp: enc_FileDirectory_def ok_FileDirectory_def FileDirectory_base_def;
      (erule loop_rules, (simp add: fld_FileDirectory_def codec_backs laws_back)+)+)

lemma ends_FileDirectory [decoder_ends]: "settles (dec_FileDirectory w len)"
  unfolding dec_FileDirectory_def
  by (rule decode_settles)
    (auto simp: fld_FileDirectory_def split: if_splits elim!: settle_rules intro!: settle_intros decoder_ends)

lemma back_ReadDir [codec_backs]: "ok_ReadDir m \<Longrightarrow> codec_back (enc_ReadDir w) (dec_ReadDir w) m"
  unfolding dec_ReadDir_def
  by (cases m; rule codec_backI; clarsimp simp: enc_ReadDir_def ok_ReadDir_def ReadDir_base_def;
      (erule loop_rules, (simp add: fld_ReadDir_def codec_backs laws_back)+)+)

lemma ends_ReadDir [decoder_ends]: "settles (dec_ReadDir w len)"
  unfolding dec_ReadDir_def
  by (rule decode_settles)
    (auto simp: fld_ReadDir_def split: if_splits elim!: settle_rules intro!: settle_intros decoder_ends)

lemma back_ReadEmptyDirs [codec_backs]:
    "ok_ReadEmptyDirs m \<Longrightarrow> codec_back (enc_ReadEmptyDirs w) (dec_ReadEmptyDirs w) m"
  unfolding dec_ReadEmptyDirs_def
  by (cases m; rule codec_backI; clarsimp simp: enc_ReadEmptyDirs_def ok_ReadEmptyDirs_def ReadEmptyDirs_base_def;
      (erule loop_rules, (simp add: fld_ReadEmptyDirs_def codec_backs laws_back)+)+)

lemma ends_ReadEmptyDirs [decoder_ends]: "settles (dec_ReadEmptyDirs w len)"
  unfolding dec_ReadEmptyDirs_def
  by (rule decode_settles)
    (auto simp: fld_ReadEmptyDirs_def split: if_splits elim!: settle_rules intro!: settle_intros decoder_ends)

lemma back_ReadEmptyDirsResponse [codec_backs]:
    "ok_ReadEmptyDirsResponse m \<Longrightarrow> codec_back (enc_ReadEmptyDirsResponse w) (dec_ReadEmptyDirsResponse w) m"
  unfolding dec_ReadEmptyDirsResponse_def
  by (cases m; rule codec_backI; clarsimp simp: enc_ReadEmptyDirsResponse_def ok_ReadEmptyDirsResponse_def ReadEmptyDirsResponse_base_def;
      (erule loop_rules, (simp add: fld_ReadEmptyDirsResponse_def codec_backs laws_back split_beta)+)+)

lemma ends_ReadEmptyDirsResponse [decoder_ends]: "settles (dec_ReadEmptyDirsResponse w len)"
  unfolding dec_ReadEmptyDirsResponse_def
  by (rule decode_settles)
    (auto simp: fld_ReadEmptyDirsResponse_def split: if_splits elim!: settle_rules intro!: settle_intros decoder_ends)

lemma back_ReadAllFiles [codec_backs]:
    "ok_ReadAllFiles m \<Longrightarrow> codec_back (enc_ReadAllFiles w) (dec_ReadAllFiles w) m"
  unfolding dec_ReadAllFiles_def
  by (cases m rule: prod_cases3; rule codec_backI; clarsimp simp: enc_ReadAllFiles_def ok_ReadAllFiles_def ReadAllFiles_base_def;
      (erule loop_rules, (simp add: fld_ReadAllFiles_def codec_backs laws_back)+)+)

lemma ends_ReadAllFiles [decoder_ends]: "settles (dec_ReadAllFiles w len)"
  unfolding dec_ReadAllFiles_def
  by (rule decode_settles)
    (auto simp: fld_ReadAllFiles_def split: if_splits elim!: settle_rules intro!: settle_intros decoder_ends)

lemma back_FileRename [codec_backs]: "ok_FileRename m \<Longrightarrow> codec_back (enc_FileRename w) (dec_FileRename w) m"
  unfolding dec_FileRename_def
  by (cases m rule: prod_cases3; rule codec_backI; clarsimp simp: enc_FileRename_def ok_FileRename_def FileRename_base_def;
      (erule loop_rules, (simp add: fld_FileRename_def codec_backs laws_back)+)+)

lemma ends_FileRename [decoder_ends]: "settles (dec_FileRename w len)"
  unfolding dec_FileRename_def
  by (rule decode_settles)
    (auto simp: fld_FileRename_def split: if_splits elim!: settle_rules intro!: settle_intros decoder_ends)

lemma back_FileTransferCancel [codec_backs]:
    "codec_back (enc_FileTransferCancel w) (dec_FileTransferCancel w) m"
  unfolding dec_FileTransferCancel_def
  by (rule codec_backI; clarsimp simp: enc_FileTransferCancel_def;
      (erule loop_rules, (simp add: fld_FileTransferCancel_def codec_backs laws_back)+)+)

lemma ends_FileTransferCancel [decoder_ends]: "settles (dec_FileTransferCancel w len)"
  unfolding dec_FileTransferCancel_def
  by (rule decode_settles)
    (auto simp: fld_FileTransferCancel_def split: if_splits elim!: settle_rules intro!: settle_intros decoder_ends)

lemma back_FileTransferDigest [codec_backs]:
    "codec_back (enc_FileTransferDigest w) (dec_FileTransferDigest w) m"
  unfolding dec_FileTransferDigest_def
  by (cases m; rule codec_backI; clarsimp simp: enc_FileTransferDigest_def FileTransferDigest_base_def;
      (erule loop_rules, (simp add: fld_FileTransferDigest_def codec_backs laws_back)+)+)

lemma ends_FileTransferDigest [decoder_ends]: "settles (dec_FileTransferDigest w len)"
  unfolding dec_FileTransferDigest_def
  by (rule decode_settles)
    (auto simp: fld_FileTransferDigest_def split: if_splits elim!: settle_rules intro!: settle_intros decoder_ends)

lemma back_FileTransferBlock [codec_backs]:
    "codec_back (enc_FileTransferBlock w) (dec_FileTransferBlock w) m"
  unfolding dec_FileTransferBlock_def
  by (cases m; rule codec_backI; clarsimp simp: enc_FileTransferBlock_def FileTransferBlock_base_def;
      (erule loop_rules, (simp add: fld_FileTransferBlock_def codec_backs laws_back)+)+)

lemma ends_FileTransferBlock [decoder_ends]: "settles (dec_FileTransferBlock w len)"
  unfolding dec_FileTransferBlock_def
  by (rule decode_settles)
    (auto simp: fld_FileTransferBlock_def split: if_splits elim!: settle_rules intro!: settle_intros decoder_ends)

lemma back_FileTransferError [codec_backs]:
    "ok_FileTransferError m \<Longrightarrow> codec_back (enc_FileTransferError w) (dec_FileTransferError w) m"
  unfolding dec_FileTransferError_def
  by (cases m rule: prod_cases3; rule codec_backI; clarsimp simp: enc_FileTransferError_def ok_FileTransferError_def FileTransferError_base_def;
      (erule loop_rules, (simp add: fld_FileTransferError_def codec_backs laws_back)+)+)

lemma ends_FileTransferError [decoder_ends]: "settles (dec_FileTransferError w len)"
  unfolding dec_FileTransferError_def
  by (rule decode_settles)
    (auto simp: fld_FileTransferError_def split: if_splits elim!: settle_rules intro!: settle_intros decoder_ends)

lemma back_FileTransferSendRequest [codec_backs]:
    "ok_FileTransferSendRequest m \<Longrightarrow> codec_back (enc_FileTransferSendRequest w) (dec_FileTransferSendRequest w) m"
  unfolding dec_FileTransferSendRequest_def
  by (cases m rule: prod_cases5; rule codec_backI; clarsimp simp: enc_FileTransferSendRequest_def ok_FileTransferSendRequest_def FileTransferSendRequest_base_def;
      (erule loop_rules, (simp add: fld_FileTransferSendRequest_def codec_backs laws_back)+)+)

lemma ends_FileTransferSendRequest [decoder_ends]: "settles (dec_FileTransferSendRequest w len)"
  unfolding dec_FileTransferSendRequest_def
  by (rule decode_settles)
    (auto simp: fld_FileTransferSendRequest_def split: if_splits elim!: settle_rules intro!: settle_intros decoder_ends)

lemma back_FileTransferSendConfirmRequest [codec_backs]:
    "codec_back (enc_FileTransferSendConfirmRequest w) (dec_FileTransferSendConfirmRequest w) m"
  unfolding dec_FileTransferSendConfirmRequest_def
  by (cases
      "sc_union m"; cases m; rule codec_backI; clarsimp simp: enc_FileTransferSendConfirmRequest_def FileTransferSendConfirmRequest_base_def;
      (erule loop_rules, (simp add: fld_FileTransferSendConfirmRequest_def codec_backs laws_back)+)+)

lemma ends_FileTransferSendConfirmRequest [decoder_ends]:
    "settles (dec_FileTransferSendConfirmRequest w len)"
  unfolding dec_FileTransferSendConfirmRequest_def
  by (rule decode_settles)
    (auto simp: fld_FileTransferSendConfirmRequest_def split: if_splits elim!: settle_rules intro!: settle_intros decoder_ends)

lemma back_FileTransferDone [codec_backs]: "codec_back (enc_FileTransferDone w) (dec_FileTransferDone w) m"
  unfolding dec_FileTransferDone_def
  by (cases m; rule codec_backI; clarsimp simp: enc_FileTransferDone_def FileTransferDone_base_def;
      (erule loop_rules, (simp add: fld_FileTransferDone_def codec_backs laws_back)+)+)

lemma ends_FileTransferDone [decoder_ends]: "settles (dec_FileTransferDone w len)"
  unfolding dec_FileTransferDone_def
  by (rule decode_settles)
    (auto simp: fld_FileTransferDone_def split: if_splits elim!: settle_rules intro!: settle_intros decoder_ends)

lemma back_FileTransferReceiveRequest [codec_backs]:
    "ok_FileTransferReceiveRequest m \<Longrightarrow> codec_back (enc_FileTransferReceiveRequest w) (dec_FileTransferReceiveRequest w) m"
  unfolding dec_FileTransferReceiveRequest_def
  by (cases m rule: prod_cases5; rule codec_backI; clarsimp simp: enc_FileTransferReceiveRequest_def ok_FileTransferReceiveRequest_def FileTransferReceiveRequest_base_def;
      (erule loop_rules, (simp add: fld_FileTransferReceiveRequest_def codec_backs laws_back split_beta)+)+)

lemma ends_FileTransferReceiveRequest [decoder_ends]: "settles (dec_FileTransferReceiveRequest w len)"
  unfolding dec_FileTransferReceiveRequest_def
  by (rule decode_settles)
    (auto simp: fld_FileTransferReceiveRequest_def split: if_splits elim!: settle_rules intro!: settle_intros decoder_ends)

lemma back_FileRemoveDir [codec_backs]:
    "ok_FileRemoveDir m \<Longrightarrow> codec_back (enc_FileRemoveDir w) (dec_FileRemoveDir w) m"
  unfolding dec_FileRemoveDir_def
  by (cases m rule: prod_cases3; rule codec_backI; clarsimp simp: enc_FileRemoveDir_def ok_FileRemoveDir_def FileRemoveDir_base_def;
      (erule loop_rules, (simp add: fld_FileRemoveDir_def codec_backs laws_back)+)+)

lemma ends_FileRemoveDir [decoder_ends]: "settles (dec_FileRemoveDir w len)"
  unfolding dec_FileRemoveDir_def
  by (rule decode_settles)
    (auto simp: fld_FileRemoveDir_def split: if_splits elim!: settle_rules intro!: settle_intros decoder_ends)

lemma back_FileRemoveFile [codec_backs]:
    "ok_FileRemoveFile m \<Longrightarrow> codec_back (enc_FileRemoveFile w) (dec_FileRemoveFile w) m"
  unfolding dec_FileRemoveFile_def
  by (cases m rule: prod_cases3; rule codec_backI; clarsimp simp: enc_FileRemoveFile_def ok_FileRemoveFile_def FileRemoveFile_base_def;
      (erule loop_rules, (simp add: fld_FileRemoveFile_def codec_backs laws_back)+)+)

lemma ends_FileRemoveFile [decoder_ends]: "settles (dec_FileRemoveFile w len)"
  unfolding dec_FileRemoveFile_def
  by (rule decode_settles)
    (auto simp: fld_FileRemoveFile_def split: if_splits elim!: settle_rules intro!: settle_intros decoder_ends)

lemma back_FileDirCreate [codec_backs]:
    "ok_FileDirCreate m \<Longrightarrow> codec_back (enc_FileDirCreate w) (dec_FileDirCreate w) m"
  unfolding dec_FileDirCreate_def
  by (cases m; rule codec_backI; clarsimp simp: enc_FileDirCreate_def ok_FileDirCreate_def FileDirCreate_base_def;
      (erule loop_rules, (simp add: fld_FileDirCreate_def codec_backs laws_back)+)+)

lemma ends_FileDirCreate [decoder_ends]: "settles (dec_FileDirCreate w len)"
  unfolding dec_FileDirCreate_def
  by (rule decode_settles)
    (auto simp: fld_FileDirCreate_def split: if_splits elim!: settle_rules intro!: settle_intros decoder_ends)

lemma back_FileAction [codec_backs]: "ok_FileAction m \<Longrightarrow> codec_back (enc_FileAction w) (dec_FileAction w) m"
  unfolding dec_FileAction_def
  by (cases m; rule codec_backI; clarsimp simp: enc_FileAction_def ok_FileAction_def;
      (erule loop_rules, (simp add: fld_FileAction_def codec_backs laws_back)+)+)

lemma ends_FileAction [decoder_ends]: "settles (dec_FileAction w len)"
  unfolding dec_FileAction_def
  by (rule decode_settles)
    (auto simp: fld_FileAction_def split: if_splits elim!: settle_rules intro!: settle_intros decoder_ends)

lemma back_FileResponse [codec_backs]:
    "ok_FileResponse m \<Longrightarrow> codec_back (enc_FileResponse w) (dec_FileResponse w) m"
  unfolding dec_FileResponse_def
  by (cases m; rule codec_backI; clarsimp simp: enc_FileResponse_def ok_FileResponse_def;
      (erule loop_rules, (simp add: fld_FileResponse_def codec_backs laws_back)+)+)

lemma ends_FileResponse [decoder_ends]: "settles (dec_FileResponse w len)"
  unfolding dec_FileResponse_def
  by (rule decode_settles)
    (auto simp: fld_FileResponse_def split: if_splits elim!: settle_rules intro!: settle_intros decoder_ends)

end

end
