(* ===== verification/Codec_Media.thy ===== *)
theory Codec_Media
  imports Wire
begin

text \<open>
  The generated code of the video, audio, cursor,
      clipboard and screenshot messages in \<open>webclient/src/gen/message.ts\<close>. For a
  message \<open>X\<close>, \<open>enc_X\<close> is its \<open>encode\<close>, \<open>fld_X\<close> the \<open>switch\<close> on the tag inside its \<open>decode\<close>,
  \<open>dec_X\<close> its \<open>decode\<close>, and \<open>ok_X\<close> says that its strings survive UTF-8 (and its numbers are
  doubles). What \<open>encode\<close> wrote, \<open>decode\<close> reads back, and \<open>decode\<close> ends on every input.
\<close>

section \<open>Encoders and decoders\<close>

definition EncodedVideoFrame_base :: "EncodedVideoFrame" where
  "EncodedVideoFrame_base =
     \<lparr>ef_data = [], ef_key = False, ef_pts = 0\<rparr>"

definition enc_EncodedVideoFrame :: "wire \<Rightarrow> EncodedVideoFrame \<Rightarrow> jsstr + bytes" where
  "enc_EncodedVideoFrame w m =
     enc_all
       [put_if (ef_data m \<noteq> []) (put w 10 (wr_bytes w) (ef_data m)),
        put_if (ef_key m) (put w 16 (wr_bool w) (ef_key m)),
        put_if (ef_pts m \<noteq> 0)
            (guarded (fits_int64 (ef_pts m)) ''message.pts of type int64 too large''
                (put w 24 (wr_int64 w) (ef_pts m)))]"

definition fld_EncodedVideoFrame :: "wire \<Rightarrow> int \<Rightarrow> EncodedVideoFrame \<Rightarrow> EncodedVideoFrame reader option" where
  "fld_EncodedVideoFrame w tag =
     (if tag = 10 then reads (once (rd_bytes w)) (\<lambda>v m. m\<lparr>ef_data := v\<rparr>)
      else if tag = 16 then reads (once (rd_bool w)) (\<lambda>v m. m\<lparr>ef_key := v\<rparr>)
      else if tag = 24 then reads (once (rd_int64 w)) (\<lambda>v m. m\<lparr>ef_pts := v\<rparr>)
      else (\<lambda>_. None))"

definition dec_EncodedVideoFrame :: "wire \<Rightarrow> int \<Rightarrow> EncodedVideoFrame reader" where
  "dec_EncodedVideoFrame w = decode w (fld_EncodedVideoFrame w) EncodedVideoFrame_base"

definition enc_EncodedVideoFrames :: "wire \<Rightarrow> EncodedVideoFrame list \<Rightarrow> jsstr + bytes" where
  "enc_EncodedVideoFrames w frames =
     put_each (put w 10 (joined w (enc_EncodedVideoFrame w))) frames"

definition fld_EncodedVideoFrames :: "wire \<Rightarrow> int \<Rightarrow> EncodedVideoFrame list \<Rightarrow>
    (EncodedVideoFrame list) reader option" where
  "fld_EncodedVideoFrames w tag =
     (if tag = 10 then pushes (nested w (dec_EncodedVideoFrame w)) (\<lambda>vs frames. frames @ vs)
      else (\<lambda>_. None))"

definition dec_EncodedVideoFrames :: "wire \<Rightarrow> int \<Rightarrow> (EncodedVideoFrame list) reader" where
  "dec_EncodedVideoFrames w = decode w (fld_EncodedVideoFrames w) []"

definition enc_RGB :: "wire \<Rightarrow> bool \<Rightarrow> jsstr + bytes" where
  "enc_RGB w compress =
     put_if compress (put w 8 (wr_bool w) compress)"

definition fld_RGB :: "wire \<Rightarrow> int \<Rightarrow> bool \<Rightarrow> bool reader option" where
  "fld_RGB w tag =
     (if tag = 8 then reads (once (rd_bool w)) (\<lambda>v _. v)
      else (\<lambda>_. None))"

definition dec_RGB :: "wire \<Rightarrow> int \<Rightarrow> bool reader" where
  "dec_RGB w = decode w (fld_RGB w) False"

definition YUV_base :: "(bool \<times> int)" where
  "YUV_base =
     (False, 0)"

definition enc_YUV :: "wire \<Rightarrow> (bool \<times> int) \<Rightarrow> jsstr + bytes" where
  "enc_YUV w m =
     (case m of (compress, stride) \<Rightarrow>
       enc_all
         [put_if compress (put w 8 (wr_bool w) compress),
          put_if (stride \<noteq> 0) (put w 16 (wr_int32 w) stride)])"

definition fld_YUV :: "wire \<Rightarrow> int \<Rightarrow> (bool \<times> int) \<Rightarrow> (bool \<times> int) reader option" where
  "fld_YUV w tag =
     (if tag = 8 then reads (once (rd_bool w)) (\<lambda>v (_, stride). (v, stride))
      else if tag = 16 then reads (once (rd_int32 w)) (\<lambda>v (compress, _). (compress, v))
      else (\<lambda>_. None))"

definition dec_YUV :: "wire \<Rightarrow> int \<Rightarrow> (bool \<times> int) reader" where
  "dec_YUV w = decode w (fld_YUV w) YUV_base"

definition VideoFrame_base :: "VideoFrame" where
  "VideoFrame_base =
     \<lparr>vf_union = VU_none, vf_display = 0\<rparr>"

definition enc_VideoFrame :: "wire \<Rightarrow> VideoFrame \<Rightarrow> jsstr + bytes" where
  "enc_VideoFrame w m =
     enc_all
       [(case vf_union m of
            VU_none \<Rightarrow> Inr []
          | VU_vp9s v \<Rightarrow> put w 50 (joined w (enc_EncodedVideoFrames w)) v
          | VU_rgb v \<Rightarrow> put w 58 (joined w (enc_RGB w)) v
          | VU_yuv compress stride \<Rightarrow> put w 66 (joined w (enc_YUV w)) (compress, stride)
          | VU_h264s v \<Rightarrow> put w 82 (joined w (enc_EncodedVideoFrames w)) v
          | VU_h265s v \<Rightarrow> put w 90 (joined w (enc_EncodedVideoFrames w)) v
          | VU_vp8s v \<Rightarrow> put w 98 (joined w (enc_EncodedVideoFrames w)) v
          | VU_av1s v \<Rightarrow> put w 106 (joined w (enc_EncodedVideoFrames w)) v),
        put_if (vf_display m \<noteq> 0) (put w 112 (wr_int32 w) (vf_display m))]"

definition fld_VideoFrame :: "wire \<Rightarrow> int \<Rightarrow> VideoFrame \<Rightarrow> VideoFrame reader option" where
  "fld_VideoFrame w tag =
     (if tag = 50 then reads (nested w (dec_EncodedVideoFrames w)) (\<lambda>v m. m\<lparr>vf_union := VU_vp9s v\<rparr>)
      else if tag = 58 then reads (nested w (dec_RGB w)) (\<lambda>v m. m\<lparr>vf_union := VU_rgb v\<rparr>)
      else if tag = 66 then reads (nested w (dec_YUV w))
          (\<lambda>(compress, stride) m. m\<lparr>vf_union := VU_yuv compress stride\<rparr>)
      else if tag = 82 then reads (nested w (dec_EncodedVideoFrames w)) (\<lambda>v m. m\<lparr>vf_union := VU_h264s v\<rparr>)
      else if tag = 90 then reads (nested w (dec_EncodedVideoFrames w)) (\<lambda>v m. m\<lparr>vf_union := VU_h265s v\<rparr>)
      else if tag = 98 then reads (nested w (dec_EncodedVideoFrames w)) (\<lambda>v m. m\<lparr>vf_union := VU_vp8s v\<rparr>)
      else if tag = 106 then reads (nested w (dec_EncodedVideoFrames w)) (\<lambda>v m. m\<lparr>vf_union := VU_av1s v\<rparr>)
      else if tag = 112 then reads (once (rd_int32 w)) (\<lambda>v m. m\<lparr>vf_display := v\<rparr>)
      else (\<lambda>_. None))"

definition dec_VideoFrame :: "wire \<Rightarrow> int \<Rightarrow> VideoFrame reader" where
  "dec_VideoFrame w = decode w (fld_VideoFrame w) VideoFrame_base"

definition CursorData_base :: "CursorData" where
  "CursorData_base =
     \<lparr>cd_id = 0, cd_hotx = 0, cd_hoty = 0, cd_width = 0, cd_height = 0, cd_colors = []\<rparr>"

definition enc_CursorData :: "wire \<Rightarrow> CursorData \<Rightarrow> jsstr + bytes" where
  "enc_CursorData w m =
     enc_all
       [put_if (cd_id m \<noteq> 0)
           (guarded (fits_uint64 (cd_id m)) ''message.id of type uint64 too large''
               (put w 8 (wr_uint64 w) (cd_id m))),
        put_if (cd_hotx m \<noteq> 0) (put w 16 (wr_sint32 w) (cd_hotx m)),
        put_if (cd_hoty m \<noteq> 0) (put w 24 (wr_sint32 w) (cd_hoty m)),
        put_if (cd_width m \<noteq> 0) (put w 32 (wr_int32 w) (cd_width m)),
        put_if (cd_height m \<noteq> 0) (put w 40 (wr_int32 w) (cd_height m)),
        put_if (cd_colors m \<noteq> []) (put w 50 (wr_bytes w) (cd_colors m))]"

definition fld_CursorData :: "wire \<Rightarrow> int \<Rightarrow> CursorData \<Rightarrow> CursorData reader option" where
  "fld_CursorData w tag =
     (if tag = 8 then reads (once (rd_uint64 w)) (\<lambda>v m. m\<lparr>cd_id := v\<rparr>)
      else if tag = 16 then reads (once (rd_sint32 w)) (\<lambda>v m. m\<lparr>cd_hotx := v\<rparr>)
      else if tag = 24 then reads (once (rd_sint32 w)) (\<lambda>v m. m\<lparr>cd_hoty := v\<rparr>)
      else if tag = 32 then reads (once (rd_int32 w)) (\<lambda>v m. m\<lparr>cd_width := v\<rparr>)
      else if tag = 40 then reads (once (rd_int32 w)) (\<lambda>v m. m\<lparr>cd_height := v\<rparr>)
      else if tag = 50 then reads (once (rd_bytes w)) (\<lambda>v m. m\<lparr>cd_colors := v\<rparr>)
      else (\<lambda>_. None))"

definition dec_CursorData :: "wire \<Rightarrow> int \<Rightarrow> CursorData reader" where
  "dec_CursorData w = decode w (fld_CursorData w) CursorData_base"

definition CursorPosition_base :: "(int \<times> int)" where
  "CursorPosition_base =
     (0, 0)"

definition enc_CursorPosition :: "wire \<Rightarrow> (int \<times> int) \<Rightarrow> jsstr + bytes" where
  "enc_CursorPosition w m =
     (case m of (x', y') \<Rightarrow>
       enc_all
         [put_if (x' \<noteq> 0) (put w 8 (wr_sint32 w) x'),
          put_if (y' \<noteq> 0) (put w 16 (wr_sint32 w) y')])"

definition fld_CursorPosition :: "wire \<Rightarrow> int \<Rightarrow> (int \<times> int) \<Rightarrow> (int \<times> int) reader option" where
  "fld_CursorPosition w tag =
     (if tag = 8 then reads (once (rd_sint32 w)) (\<lambda>v (_, y'). (v, y'))
      else if tag = 16 then reads (once (rd_sint32 w)) (\<lambda>v (x', _). (x', v))
      else (\<lambda>_. None))"

definition dec_CursorPosition :: "wire \<Rightarrow> int \<Rightarrow> (int \<times> int) reader" where
  "dec_CursorPosition w = decode w (fld_CursorPosition w) CursorPosition_base"

definition AudioFormat_base :: "(int \<times> int)" where
  "AudioFormat_base =
     (0, 0)"

definition enc_AudioFormat :: "wire \<Rightarrow> (int \<times> int) \<Rightarrow> jsstr + bytes" where
  "enc_AudioFormat w m =
     (case m of (sample_rate, channels') \<Rightarrow>
       enc_all
         [put_if (sample_rate \<noteq> 0) (put w 8 (wr_uint32 w) sample_rate),
          put_if (channels' \<noteq> 0) (put w 16 (wr_uint32 w) channels')])"

definition fld_AudioFormat :: "wire \<Rightarrow> int \<Rightarrow> (int \<times> int) \<Rightarrow> (int \<times> int) reader option" where
  "fld_AudioFormat w tag =
     (if tag = 8 then reads (once (rd_uint32 w)) (\<lambda>v (_, channels'). (v, channels'))
      else if tag = 16 then reads (once (rd_uint32 w)) (\<lambda>v (sample_rate, _). (sample_rate, v))
      else (\<lambda>_. None))"

definition dec_AudioFormat :: "wire \<Rightarrow> int \<Rightarrow> (int \<times> int) reader" where
  "dec_AudioFormat w = decode w (fld_AudioFormat w) AudioFormat_base"

definition enc_AudioFrame :: "wire \<Rightarrow> bytes \<Rightarrow> jsstr + bytes" where
  "enc_AudioFrame w data' =
     put_if (data' \<noteq> []) (put w 10 (wr_bytes w) data')"

definition fld_AudioFrame :: "wire \<Rightarrow> int \<Rightarrow> bytes \<Rightarrow> bytes reader option" where
  "fld_AudioFrame w tag =
     (if tag = 10 then reads (once (rd_bytes w)) (\<lambda>v _. v)
      else (\<lambda>_. None))"

definition dec_AudioFrame :: "wire \<Rightarrow> int \<Rightarrow> bytes reader" where
  "dec_AudioFrame w = decode w (fld_AudioFrame w) []"

definition enc_Clipboard :: "wire \<Rightarrow> Clipboard \<Rightarrow> jsstr + bytes" where
  "enc_Clipboard w m =
     enc_all
       [put_if (cb_compress m) (put w 8 (wr_bool w) (cb_compress m)),
        put_if (cb_content m \<noteq> []) (put w 18 (wr_bytes w) (cb_content m)),
        put_if (cb_width m \<noteq> 0) (put w 24 (wr_int32 w) (cb_width m)),
        put_if (cb_height m \<noteq> 0) (put w 32 (wr_int32 w) (cb_height m)),
        put_if (cb_format m \<noteq> 0) (put w 40 (wr_int32 w) (cb_format m)),
        put_if (cb_special_name m \<noteq> []) (put w 50 (wr_string w) (cb_special_name m))]"

definition fld_Clipboard :: "wire \<Rightarrow> int \<Rightarrow> Clipboard \<Rightarrow> Clipboard reader option" where
  "fld_Clipboard w tag =
     (if tag = 8 then reads (once (rd_bool w)) (\<lambda>v m. m\<lparr>cb_compress := v\<rparr>)
      else if tag = 18 then reads (once (rd_bytes w)) (\<lambda>v m. m\<lparr>cb_content := v\<rparr>)
      else if tag = 24 then reads (once (rd_int32 w)) (\<lambda>v m. m\<lparr>cb_width := v\<rparr>)
      else if tag = 32 then reads (once (rd_int32 w)) (\<lambda>v m. m\<lparr>cb_height := v\<rparr>)
      else if tag = 40 then reads (once (rd_int32 w)) (\<lambda>v m. m\<lparr>cb_format := v\<rparr>)
      else if tag = 50 then reads (once (rd_string w)) (\<lambda>v m. m\<lparr>cb_special_name := v\<rparr>)
      else (\<lambda>_. None))"

definition dec_Clipboard :: "wire \<Rightarrow> int \<Rightarrow> Clipboard reader" where
  "dec_Clipboard w = decode w (fld_Clipboard w) Clipboard_base"

definition ok_Clipboard :: "Clipboard \<Rightarrow> bool" where
  "ok_Clipboard m \<longleftrightarrow>
      text_ok (cb_special_name m)"

definition enc_MultiClipboards :: "wire \<Rightarrow> Clipboard list \<Rightarrow> jsstr + bytes" where
  "enc_MultiClipboards w clipboards =
     put_each (put w 10 (joined w (enc_Clipboard w))) clipboards"

definition fld_MultiClipboards :: "wire \<Rightarrow> int \<Rightarrow> Clipboard list \<Rightarrow> (Clipboard list) reader option" where
  "fld_MultiClipboards w tag =
     (if tag = 10 then pushes (nested w (dec_Clipboard w)) (\<lambda>vs clipboards. clipboards @ vs)
      else (\<lambda>_. None))"

definition dec_MultiClipboards :: "wire \<Rightarrow> int \<Rightarrow> (Clipboard list) reader" where
  "dec_MultiClipboards w = decode w (fld_MultiClipboards w) []"

definition ok_MultiClipboards :: "Clipboard list \<Rightarrow> bool" where
  "ok_MultiClipboards clipboards \<longleftrightarrow>
      list_all ok_Clipboard clipboards"

definition ScreenshotRequest_base :: "(int \<times> jsstr)" where
  "ScreenshotRequest_base =
     (0, [])"

definition enc_ScreenshotRequest :: "wire \<Rightarrow> (int \<times> jsstr) \<Rightarrow> jsstr + bytes" where
  "enc_ScreenshotRequest w m =
     (case m of (display', sid') \<Rightarrow>
       enc_all
         [put_if (display' \<noteq> 0) (put w 8 (wr_int32 w) display'),
          put_if (sid' \<noteq> []) (put w 18 (wr_string w) sid')])"

definition fld_ScreenshotRequest :: "wire \<Rightarrow> int \<Rightarrow> (int \<times> jsstr) \<Rightarrow> (int \<times> jsstr) reader option" where
  "fld_ScreenshotRequest w tag =
     (if tag = 8 then reads (once (rd_int32 w)) (\<lambda>v (_, sid'). (v, sid'))
      else if tag = 18 then reads (once (rd_string w)) (\<lambda>v (display', _). (display', v))
      else (\<lambda>_. None))"

definition dec_ScreenshotRequest :: "wire \<Rightarrow> int \<Rightarrow> (int \<times> jsstr) reader" where
  "dec_ScreenshotRequest w = decode w (fld_ScreenshotRequest w) ScreenshotRequest_base"

definition ok_ScreenshotRequest :: "(int \<times> jsstr) \<Rightarrow> bool" where
  "ok_ScreenshotRequest m \<longleftrightarrow>
      (case m of (display', sid') \<Rightarrow> text_ok sid')"

definition ScreenshotResponse_base :: "(jsstr \<times> jsstr \<times> bytes)" where
  "ScreenshotResponse_base =
     ([], [], [])"

definition enc_ScreenshotResponse :: "wire \<Rightarrow> (jsstr \<times> jsstr \<times> bytes) \<Rightarrow> jsstr + bytes" where
  "enc_ScreenshotResponse w m =
     (case m of (sid', msg', data') \<Rightarrow>
       enc_all
         [put_if (sid' \<noteq> []) (put w 10 (wr_string w) sid'),
          put_if (msg' \<noteq> []) (put w 18 (wr_string w) msg'),
          put_if (data' \<noteq> []) (put w 26 (wr_bytes w) data')])"

definition fld_ScreenshotResponse :: "wire \<Rightarrow> int \<Rightarrow> (jsstr \<times> jsstr \<times> bytes) \<Rightarrow>
    (jsstr \<times> jsstr \<times> bytes) reader option" where
  "fld_ScreenshotResponse w tag =
     (if tag = 10 then reads (once (rd_string w)) (\<lambda>v (_, msg', data'). (v, msg', data'))
      else if tag = 18 then reads (once (rd_string w)) (\<lambda>v (sid', _, data'). (sid', v, data'))
      else if tag = 26 then reads (once (rd_bytes w)) (\<lambda>v (sid', msg', _). (sid', msg', v))
      else (\<lambda>_. None))"

definition dec_ScreenshotResponse :: "wire \<Rightarrow> int \<Rightarrow> (jsstr \<times> jsstr \<times> bytes) reader" where
  "dec_ScreenshotResponse w = decode w (fld_ScreenshotResponse w) ScreenshotResponse_base"

definition ok_ScreenshotResponse :: "(jsstr \<times> jsstr \<times> bytes) \<Rightarrow> bool" where
  "ok_ScreenshotResponse m \<longleftrightarrow>
      (case m of (sid', msg', data') \<Rightarrow> text_ok sid' \<and> text_ok msg')"

section \<open>Round trips and termination\<close>

context wire_format
begin

lemma back_EncodedVideoFrame [codec_backs]:
    "codec_back (enc_EncodedVideoFrame w) (dec_EncodedVideoFrame w) m"
  unfolding dec_EncodedVideoFrame_def
  by (cases m; rule codec_backI; clarsimp simp: enc_EncodedVideoFrame_def EncodedVideoFrame_base_def;
      (erule loop_rules, (simp add: fld_EncodedVideoFrame_def codec_backs laws_back)+)+)

lemma ends_EncodedVideoFrame [decoder_ends]: "settles (dec_EncodedVideoFrame w len)"
  unfolding dec_EncodedVideoFrame_def
  by (rule decode_settles)
    (auto simp: fld_EncodedVideoFrame_def split: if_splits elim!: settle_rules intro!: settle_intros decoder_ends)

lemma back_EncodedVideoFrames [codec_backs]:
    "codec_back (enc_EncodedVideoFrames w) (dec_EncodedVideoFrames w) m"
  unfolding dec_EncodedVideoFrames_def
  by (rule codec_backI; clarsimp simp: enc_EncodedVideoFrames_def;
      (erule loop_rules, (simp add: fld_EncodedVideoFrames_def codec_backs laws_back)+)+)

lemma ends_EncodedVideoFrames [decoder_ends]: "settles (dec_EncodedVideoFrames w len)"
  unfolding dec_EncodedVideoFrames_def
  by (rule decode_settles)
    (auto simp: fld_EncodedVideoFrames_def split: if_splits elim!: settle_rules intro!: settle_intros decoder_ends)

lemma back_RGB [codec_backs]: "codec_back (enc_RGB w) (dec_RGB w) m"
  unfolding dec_RGB_def
  by (rule codec_backI; clarsimp simp: enc_RGB_def;
      (erule loop_rules, (simp add: fld_RGB_def codec_backs laws_back)+)+)

lemma ends_RGB [decoder_ends]: "settles (dec_RGB w len)"
  unfolding dec_RGB_def
  by (rule decode_settles)
    (auto simp: fld_RGB_def split: if_splits elim!: settle_rules intro!: settle_intros decoder_ends)

lemma back_YUV [codec_backs]: "codec_back (enc_YUV w) (dec_YUV w) m"
  unfolding dec_YUV_def
  by (cases m; rule codec_backI; clarsimp simp: enc_YUV_def YUV_base_def;
      (erule loop_rules, (simp add: fld_YUV_def codec_backs laws_back)+)+)

lemma ends_YUV [decoder_ends]: "settles (dec_YUV w len)"
  unfolding dec_YUV_def
  by (rule decode_settles)
    (auto simp: fld_YUV_def split: if_splits elim!: settle_rules intro!: settle_intros decoder_ends)

lemma back_VideoFrame [codec_backs]: "codec_back (enc_VideoFrame w) (dec_VideoFrame w) m"
  unfolding dec_VideoFrame_def
  by (cases "vf_union m"; cases m; rule codec_backI; clarsimp simp: enc_VideoFrame_def VideoFrame_base_def;
      (erule loop_rules, (simp add: fld_VideoFrame_def codec_backs laws_back)+)+)

lemma ends_VideoFrame [decoder_ends]: "settles (dec_VideoFrame w len)"
  unfolding dec_VideoFrame_def
  by (rule decode_settles)
    (auto simp: fld_VideoFrame_def split: if_splits elim!: settle_rules intro!: settle_intros decoder_ends)

lemma back_CursorData [codec_backs]: "codec_back (enc_CursorData w) (dec_CursorData w) m"
  unfolding dec_CursorData_def
  by (cases m; rule codec_backI; clarsimp simp: enc_CursorData_def CursorData_base_def;
      (erule loop_rules, (simp add: fld_CursorData_def codec_backs laws_back)+)+)

lemma ends_CursorData [decoder_ends]: "settles (dec_CursorData w len)"
  unfolding dec_CursorData_def
  by (rule decode_settles)
    (auto simp: fld_CursorData_def split: if_splits elim!: settle_rules intro!: settle_intros decoder_ends)

lemma back_CursorPosition [codec_backs]: "codec_back (enc_CursorPosition w) (dec_CursorPosition w) m"
  unfolding dec_CursorPosition_def
  by (cases m; rule codec_backI; clarsimp simp: enc_CursorPosition_def CursorPosition_base_def;
      (erule loop_rules, (simp add: fld_CursorPosition_def codec_backs laws_back)+)+)

lemma ends_CursorPosition [decoder_ends]: "settles (dec_CursorPosition w len)"
  unfolding dec_CursorPosition_def
  by (rule decode_settles)
    (auto simp: fld_CursorPosition_def split: if_splits elim!: settle_rules intro!: settle_intros decoder_ends)

lemma back_AudioFormat [codec_backs]: "codec_back (enc_AudioFormat w) (dec_AudioFormat w) m"
  unfolding dec_AudioFormat_def
  by (cases m; rule codec_backI; clarsimp simp: enc_AudioFormat_def AudioFormat_base_def;
      (erule loop_rules, (simp add: fld_AudioFormat_def codec_backs laws_back)+)+)

lemma ends_AudioFormat [decoder_ends]: "settles (dec_AudioFormat w len)"
  unfolding dec_AudioFormat_def
  by (rule decode_settles)
    (auto simp: fld_AudioFormat_def split: if_splits elim!: settle_rules intro!: settle_intros decoder_ends)

lemma back_AudioFrame [codec_backs]: "codec_back (enc_AudioFrame w) (dec_AudioFrame w) m"
  unfolding dec_AudioFrame_def
  by (rule codec_backI; clarsimp simp: enc_AudioFrame_def;
      (erule loop_rules, (simp add: fld_AudioFrame_def codec_backs laws_back)+)+)

lemma ends_AudioFrame [decoder_ends]: "settles (dec_AudioFrame w len)"
  unfolding dec_AudioFrame_def
  by (rule decode_settles)
    (auto simp: fld_AudioFrame_def split: if_splits elim!: settle_rules intro!: settle_intros decoder_ends)

lemma back_Clipboard [codec_backs]: "ok_Clipboard m \<Longrightarrow> codec_back (enc_Clipboard w) (dec_Clipboard w) m"
  unfolding dec_Clipboard_def
  by (cases m; rule codec_backI; clarsimp simp: enc_Clipboard_def ok_Clipboard_def Clipboard_base_def;
      (erule loop_rules, (simp add: fld_Clipboard_def codec_backs laws_back)+)+)

lemma ends_Clipboard [decoder_ends]: "settles (dec_Clipboard w len)"
  unfolding dec_Clipboard_def
  by (rule decode_settles)
    (auto simp: fld_Clipboard_def split: if_splits elim!: settle_rules intro!: settle_intros decoder_ends)

lemma back_MultiClipboards [codec_backs]:
    "ok_MultiClipboards m \<Longrightarrow> codec_back (enc_MultiClipboards w) (dec_MultiClipboards w) m"
  unfolding dec_MultiClipboards_def
  by (rule codec_backI; clarsimp simp: enc_MultiClipboards_def ok_MultiClipboards_def;
      (erule loop_rules, (simp add: fld_MultiClipboards_def codec_backs laws_back)+)+)

lemma ends_MultiClipboards [decoder_ends]: "settles (dec_MultiClipboards w len)"
  unfolding dec_MultiClipboards_def
  by (rule decode_settles)
    (auto simp: fld_MultiClipboards_def split: if_splits elim!: settle_rules intro!: settle_intros decoder_ends)

lemma back_ScreenshotRequest [codec_backs]:
    "ok_ScreenshotRequest m \<Longrightarrow> codec_back (enc_ScreenshotRequest w) (dec_ScreenshotRequest w) m"
  unfolding dec_ScreenshotRequest_def
  by (cases m; rule codec_backI; clarsimp simp: enc_ScreenshotRequest_def ok_ScreenshotRequest_def ScreenshotRequest_base_def;
      (erule loop_rules, (simp add: fld_ScreenshotRequest_def codec_backs laws_back)+)+)

lemma ends_ScreenshotRequest [decoder_ends]: "settles (dec_ScreenshotRequest w len)"
  unfolding dec_ScreenshotRequest_def
  by (rule decode_settles)
    (auto simp: fld_ScreenshotRequest_def split: if_splits elim!: settle_rules intro!: settle_intros decoder_ends)

lemma back_ScreenshotResponse [codec_backs]:
    "ok_ScreenshotResponse m \<Longrightarrow> codec_back (enc_ScreenshotResponse w) (dec_ScreenshotResponse w) m"
  unfolding dec_ScreenshotResponse_def
  by (cases m rule: prod_cases3; rule codec_backI; clarsimp simp: enc_ScreenshotResponse_def ok_ScreenshotResponse_def ScreenshotResponse_base_def;
      (erule loop_rules, (simp add: fld_ScreenshotResponse_def codec_backs laws_back)+)+)

lemma ends_ScreenshotResponse [decoder_ends]: "settles (dec_ScreenshotResponse w len)"
  unfolding dec_ScreenshotResponse_def
  by (rule decode_settles)
    (auto simp: fld_ScreenshotResponse_def split: if_splits elim!: settle_rules intro!: settle_intros decoder_ends)

end

end
