(* ===== verification/Codec_Login.thy ===== *)
theory Codec_Login
  imports Wire
begin

text \<open>
  The generated code of the handshake, login and peer messages in \<open>webclient/src/gen/message.ts\<close>. For a
  message \<open>X\<close>, \<open>enc_X\<close> is its \<open>encode\<close>, \<open>fld_X\<close> the \<open>switch\<close> on the tag inside its \<open>decode\<close>,
  \<open>dec_X\<close> its \<open>decode\<close>, and \<open>ok_X\<close> says that its strings survive UTF-8 (and its numbers are
  doubles). What \<open>encode\<close> wrote, \<open>decode\<close> reads back, and \<open>decode\<close> ends on every input.
\<close>

section \<open>Encoders and decoders\<close>

definition IdPk_base :: "IdPk" where
  "IdPk_base =
     \<lparr>idpk_id = [], idpk_pk = []\<rparr>"

definition enc_IdPk :: "wire \<Rightarrow> IdPk \<Rightarrow> jsstr + bytes" where
  "enc_IdPk w m =
     enc_all
       [put_if (idpk_id m \<noteq> []) (put w 10 (wr_string w) (idpk_id m)),
        put_if (idpk_pk m \<noteq> []) (put w 18 (wr_bytes w) (idpk_pk m))]"

definition fld_IdPk :: "wire \<Rightarrow> int \<Rightarrow> IdPk \<Rightarrow> IdPk reader option" where
  "fld_IdPk w tag =
     (if tag = 10 then reads (once (rd_string w)) (\<lambda>v m. m\<lparr>idpk_id := v\<rparr>)
      else if tag = 18 then reads (once (rd_bytes w)) (\<lambda>v m. m\<lparr>idpk_pk := v\<rparr>)
      else (\<lambda>_. None))"

definition dec_IdPk :: "wire \<Rightarrow> int \<Rightarrow> IdPk reader" where
  "dec_IdPk w = decode w (fld_IdPk w) IdPk_base"

definition ok_IdPk :: "IdPk \<Rightarrow> bool" where
  "ok_IdPk m \<longleftrightarrow>
      text_ok (idpk_id m)"

definition PublicKey_base :: "PublicKey" where
  "PublicKey_base =
     \<lparr>asymmetric_value = [], symmetric_value = []\<rparr>"

definition enc_PublicKey :: "wire \<Rightarrow> PublicKey \<Rightarrow> jsstr + bytes" where
  "enc_PublicKey w m =
     enc_all
       [put_if (asymmetric_value m \<noteq> []) (put w 10 (wr_bytes w) (asymmetric_value m)),
        put_if (symmetric_value m \<noteq> []) (put w 18 (wr_bytes w) (symmetric_value m))]"

definition fld_PublicKey :: "wire \<Rightarrow> int \<Rightarrow> PublicKey \<Rightarrow> PublicKey reader option" where
  "fld_PublicKey w tag =
     (if tag = 10 then reads (once (rd_bytes w)) (\<lambda>v m. m\<lparr>asymmetric_value := v\<rparr>)
      else if tag = 18 then reads (once (rd_bytes w)) (\<lambda>v m. m\<lparr>symmetric_value := v\<rparr>)
      else (\<lambda>_. None))"

definition dec_PublicKey :: "wire \<Rightarrow> int \<Rightarrow> PublicKey reader" where
  "dec_PublicKey w = decode w (fld_PublicKey w) PublicKey_base"

definition enc_SignedId :: "wire \<Rightarrow> bytes \<Rightarrow> jsstr + bytes" where
  "enc_SignedId w id' =
     put_if (id' \<noteq> []) (put w 10 (wr_bytes w) id')"

definition fld_SignedId :: "wire \<Rightarrow> int \<Rightarrow> bytes \<Rightarrow> bytes reader option" where
  "fld_SignedId w tag =
     (if tag = 10 then reads (once (rd_bytes w)) (\<lambda>v _. v)
      else (\<lambda>_. None))"

definition dec_SignedId :: "wire \<Rightarrow> int \<Rightarrow> bytes reader" where
  "dec_SignedId w = decode w (fld_SignedId w) []"

definition Hash_base :: "(jsstr \<times> jsstr)" where
  "Hash_base =
     ([], [])"

definition enc_Hash :: "wire \<Rightarrow> (jsstr \<times> jsstr) \<Rightarrow> jsstr + bytes" where
  "enc_Hash w m =
     (case m of (salt, challenge) \<Rightarrow>
       enc_all
         [put_if (salt \<noteq> []) (put w 10 (wr_string w) salt),
          put_if (challenge \<noteq> []) (put w 18 (wr_string w) challenge)])"

definition fld_Hash :: "wire \<Rightarrow> int \<Rightarrow> (jsstr \<times> jsstr) \<Rightarrow> (jsstr \<times> jsstr) reader option" where
  "fld_Hash w tag =
     (if tag = 10 then reads (once (rd_string w)) (\<lambda>v (_, challenge). (v, challenge))
      else if tag = 18 then reads (once (rd_string w)) (\<lambda>v (salt, _). (salt, v))
      else (\<lambda>_. None))"

definition dec_Hash :: "wire \<Rightarrow> int \<Rightarrow> (jsstr \<times> jsstr) reader" where
  "dec_Hash w = decode w (fld_Hash w) Hash_base"

definition ok_Hash :: "(jsstr \<times> jsstr) \<Rightarrow> bool" where
  "ok_Hash m \<longleftrightarrow>
      (case m of (salt, challenge) \<Rightarrow> text_ok salt \<and> text_ok challenge)"

definition TestDelay_base :: "TestDelay" where
  "TestDelay_base =
     \<lparr>td_time = 0, td_from_client = False, td_last_delay = 0, td_target_bitrate = 0\<rparr>"

definition enc_TestDelay :: "wire \<Rightarrow> TestDelay \<Rightarrow> jsstr + bytes" where
  "enc_TestDelay w m =
     enc_all
       [put_if (td_time m \<noteq> 0)
           (guarded (fits_int64 (td_time m)) ''message.time of type int64 too large''
               (put w 8 (wr_int64 w) (td_time m))),
        put_if (td_from_client m) (put w 16 (wr_bool w) (td_from_client m)),
        put_if (td_last_delay m \<noteq> 0) (put w 24 (wr_uint32 w) (td_last_delay m)),
        put_if (td_target_bitrate m \<noteq> 0) (put w 32 (wr_uint32 w) (td_target_bitrate m))]"

definition fld_TestDelay :: "wire \<Rightarrow> int \<Rightarrow> TestDelay \<Rightarrow> TestDelay reader option" where
  "fld_TestDelay w tag =
     (if tag = 8 then reads (once (rd_int64 w)) (\<lambda>v m. m\<lparr>td_time := v\<rparr>)
      else if tag = 16 then reads (once (rd_bool w)) (\<lambda>v m. m\<lparr>td_from_client := v\<rparr>)
      else if tag = 24 then reads (once (rd_uint32 w)) (\<lambda>v m. m\<lparr>td_last_delay := v\<rparr>)
      else if tag = 32 then reads (once (rd_uint32 w)) (\<lambda>v m. m\<lparr>td_target_bitrate := v\<rparr>)
      else (\<lambda>_. None))"

definition dec_TestDelay :: "wire \<Rightarrow> int \<Rightarrow> TestDelay reader" where
  "dec_TestDelay w = decode w (fld_TestDelay w) TestDelay_base"

definition Resolution_base :: "Resolution" where
  "Resolution_base =
     \<lparr>res_width = 0, res_height = 0\<rparr>"

definition enc_Resolution :: "wire \<Rightarrow> Resolution \<Rightarrow> jsstr + bytes" where
  "enc_Resolution w m =
     enc_all
       [put_if (res_width m \<noteq> 0) (put w 8 (wr_int32 w) (res_width m)),
        put_if (res_height m \<noteq> 0) (put w 16 (wr_int32 w) (res_height m))]"

definition fld_Resolution :: "wire \<Rightarrow> int \<Rightarrow> Resolution \<Rightarrow> Resolution reader option" where
  "fld_Resolution w tag =
     (if tag = 8 then reads (once (rd_int32 w)) (\<lambda>v m. m\<lparr>res_width := v\<rparr>)
      else if tag = 16 then reads (once (rd_int32 w)) (\<lambda>v m. m\<lparr>res_height := v\<rparr>)
      else (\<lambda>_. None))"

definition dec_Resolution :: "wire \<Rightarrow> int \<Rightarrow> Resolution reader" where
  "dec_Resolution w = decode w (fld_Resolution w) Resolution_base"

definition enc_SupportedResolutions :: "wire \<Rightarrow> Resolution list \<Rightarrow> jsstr + bytes" where
  "enc_SupportedResolutions w resolutions =
     put_each (put w 10 (joined w (enc_Resolution w))) resolutions"

definition fld_SupportedResolutions :: "wire \<Rightarrow> int \<Rightarrow> Resolution list \<Rightarrow>
    (Resolution list) reader option" where
  "fld_SupportedResolutions w tag =
     (if tag = 10 then pushes (nested w (dec_Resolution w)) (\<lambda>vs resolutions. resolutions @ vs)
      else (\<lambda>_. None))"

definition dec_SupportedResolutions :: "wire \<Rightarrow> int \<Rightarrow> (Resolution list) reader" where
  "dec_SupportedResolutions w = decode w (fld_SupportedResolutions w) []"

definition DisplayResolution_base :: "(int \<times> Resolution option)" where
  "DisplayResolution_base =
     (0, None)"

definition enc_DisplayResolution :: "wire \<Rightarrow> (int \<times> Resolution option) \<Rightarrow> jsstr + bytes" where
  "enc_DisplayResolution w m =
     (case m of (display', resolution) \<Rightarrow>
       enc_all
         [put_if (display' \<noteq> 0) (put w 8 (wr_int32 w) display'),
          put_some (put w 18 (joined w (enc_Resolution w))) resolution])"

definition fld_DisplayResolution :: "wire \<Rightarrow> int \<Rightarrow> (int \<times> Resolution option) \<Rightarrow>
    (int \<times> Resolution option) reader option" where
  "fld_DisplayResolution w tag =
     (if tag = 8 then reads (once (rd_int32 w)) (\<lambda>v (_, resolution). (v, resolution))
      else if tag = 18 then reads_some (nested w (dec_Resolution w)) (\<lambda>v (display', _). (display', v))
      else (\<lambda>_. None))"

definition dec_DisplayResolution :: "wire \<Rightarrow> int \<Rightarrow> (int \<times> Resolution option) reader" where
  "dec_DisplayResolution w = decode w (fld_DisplayResolution w) DisplayResolution_base"

definition DisplayInfo_base :: "ProtoDisplay" where
  "DisplayInfo_base =
     \<lparr>pd_x = 0, pd_y = 0, pd_width = 0, pd_height = 0, pd_name = [], pd_online = False,
      pd_cursor_embedded = False, pd_original_resolution = None, pd_scale = Num 0\<rparr>"

definition enc_DisplayInfo :: "wire \<Rightarrow> ProtoDisplay \<Rightarrow> jsstr + bytes" where
  "enc_DisplayInfo w m =
     enc_all
       [put_if (pd_x m \<noteq> 0) (put w 8 (wr_sint32 w) (pd_x m)),
        put_if (pd_y m \<noteq> 0) (put w 16 (wr_sint32 w) (pd_y m)),
        put_if (pd_width m \<noteq> 0) (put w 24 (wr_int32 w) (pd_width m)),
        put_if (pd_height m \<noteq> 0) (put w 32 (wr_int32 w) (pd_height m)),
        put_if (pd_name m \<noteq> []) (put w 42 (wr_string w) (pd_name m)),
        put_if (pd_online m) (put w 48 (wr_bool w) (pd_online m)),
        put_if (pd_cursor_embedded m) (put w 56 (wr_bool w) (pd_cursor_embedded m)),
        put_some (put w 66 (joined w (enc_Resolution w))) (pd_original_resolution m),
        put_if (pd_scale m \<noteq> Num 0) (put w 73 (wr_double w) (pd_scale m))]"

definition fld_DisplayInfo :: "wire \<Rightarrow> int \<Rightarrow> ProtoDisplay \<Rightarrow> ProtoDisplay reader option" where
  "fld_DisplayInfo w tag =
     (if tag = 8 then reads (once (rd_sint32 w)) (\<lambda>v m. m\<lparr>pd_x := v\<rparr>)
      else if tag = 16 then reads (once (rd_sint32 w)) (\<lambda>v m. m\<lparr>pd_y := v\<rparr>)
      else if tag = 24 then reads (once (rd_int32 w)) (\<lambda>v m. m\<lparr>pd_width := v\<rparr>)
      else if tag = 32 then reads (once (rd_int32 w)) (\<lambda>v m. m\<lparr>pd_height := v\<rparr>)
      else if tag = 42 then reads (once (rd_string w)) (\<lambda>v m. m\<lparr>pd_name := v\<rparr>)
      else if tag = 48 then reads (once (rd_bool w)) (\<lambda>v m. m\<lparr>pd_online := v\<rparr>)
      else if tag = 56 then reads (once (rd_bool w)) (\<lambda>v m. m\<lparr>pd_cursor_embedded := v\<rparr>)
      else if tag = 66 then reads_some (nested w (dec_Resolution w)) (\<lambda>v m. m\<lparr>pd_original_resolution := v\<rparr>)
      else if tag = 73 then reads (once (rd_double w)) (\<lambda>v m. m\<lparr>pd_scale := v\<rparr>)
      else (\<lambda>_. None))"

definition dec_DisplayInfo :: "wire \<Rightarrow> int \<Rightarrow> ProtoDisplay reader" where
  "dec_DisplayInfo w = decode w (fld_DisplayInfo w) DisplayInfo_base"

definition ok_DisplayInfo :: "ProtoDisplay \<Rightarrow> bool" where
  "ok_DisplayInfo m \<longleftrightarrow>
      text_ok (pd_name m) \<and>
      is_double (pd_scale m)"

definition CodecAbility_base :: "CodecAbility" where
  "CodecAbility_base =
     \<lparr>ca_vp8 = False, ca_vp9 = False, ca_av1 = False, ca_h264 = False, ca_h265 = False\<rparr>"

definition enc_CodecAbility :: "wire \<Rightarrow> CodecAbility \<Rightarrow> jsstr + bytes" where
  "enc_CodecAbility w m =
     enc_all
       [put_if (ca_vp8 m) (put w 8 (wr_bool w) (ca_vp8 m)),
        put_if (ca_vp9 m) (put w 16 (wr_bool w) (ca_vp9 m)),
        put_if (ca_av1 m) (put w 24 (wr_bool w) (ca_av1 m)),
        put_if (ca_h264 m) (put w 32 (wr_bool w) (ca_h264 m)),
        put_if (ca_h265 m) (put w 40 (wr_bool w) (ca_h265 m))]"

definition fld_CodecAbility :: "wire \<Rightarrow> int \<Rightarrow> CodecAbility \<Rightarrow> CodecAbility reader option" where
  "fld_CodecAbility w tag =
     (if tag = 8 then reads (once (rd_bool w)) (\<lambda>v m. m\<lparr>ca_vp8 := v\<rparr>)
      else if tag = 16 then reads (once (rd_bool w)) (\<lambda>v m. m\<lparr>ca_vp9 := v\<rparr>)
      else if tag = 24 then reads (once (rd_bool w)) (\<lambda>v m. m\<lparr>ca_av1 := v\<rparr>)
      else if tag = 32 then reads (once (rd_bool w)) (\<lambda>v m. m\<lparr>ca_h264 := v\<rparr>)
      else if tag = 40 then reads (once (rd_bool w)) (\<lambda>v m. m\<lparr>ca_h265 := v\<rparr>)
      else (\<lambda>_. None))"

definition dec_CodecAbility :: "wire \<Rightarrow> int \<Rightarrow> CodecAbility reader" where
  "dec_CodecAbility w = decode w (fld_CodecAbility w) CodecAbility_base"

definition SupportedEncoding_base :: "SupportedEncoding" where
  "SupportedEncoding_base =
     \<lparr>se_h264 = False, se_h265 = False, se_vp8 = False, se_av1 = False, se_i444 = None\<rparr>"

definition enc_SupportedEncoding :: "wire \<Rightarrow> SupportedEncoding \<Rightarrow> jsstr + bytes" where
  "enc_SupportedEncoding w m =
     enc_all
       [put_if (se_h264 m) (put w 8 (wr_bool w) (se_h264 m)),
        put_if (se_h265 m) (put w 16 (wr_bool w) (se_h265 m)),
        put_if (se_vp8 m) (put w 24 (wr_bool w) (se_vp8 m)),
        put_if (se_av1 m) (put w 32 (wr_bool w) (se_av1 m)),
        put_some (put w 42 (joined w (enc_CodecAbility w))) (se_i444 m)]"

definition fld_SupportedEncoding :: "wire \<Rightarrow> int \<Rightarrow> SupportedEncoding \<Rightarrow> SupportedEncoding reader option" where
  "fld_SupportedEncoding w tag =
     (if tag = 8 then reads (once (rd_bool w)) (\<lambda>v m. m\<lparr>se_h264 := v\<rparr>)
      else if tag = 16 then reads (once (rd_bool w)) (\<lambda>v m. m\<lparr>se_h265 := v\<rparr>)
      else if tag = 24 then reads (once (rd_bool w)) (\<lambda>v m. m\<lparr>se_vp8 := v\<rparr>)
      else if tag = 32 then reads (once (rd_bool w)) (\<lambda>v m. m\<lparr>se_av1 := v\<rparr>)
      else if tag = 42 then reads_some (nested w (dec_CodecAbility w)) (\<lambda>v m. m\<lparr>se_i444 := v\<rparr>)
      else (\<lambda>_. None))"

definition dec_SupportedEncoding :: "wire \<Rightarrow> int \<Rightarrow> SupportedEncoding reader" where
  "dec_SupportedEncoding w = decode w (fld_SupportedEncoding w) SupportedEncoding_base"

definition enc_SupportedDecoding :: "wire \<Rightarrow> SupportedDecoding \<Rightarrow> jsstr + bytes" where
  "enc_SupportedDecoding w m =
     enc_all
       [put_if (ability_vp9 m \<noteq> 0) (put w 8 (wr_int32 w) (ability_vp9 m)),
        put_if (ability_h264 m \<noteq> 0) (put w 16 (wr_int32 w) (ability_h264 m)),
        put_if (ability_h265 m \<noteq> 0) (put w 24 (wr_int32 w) (ability_h265 m)),
        put_if (prefer_codec m \<noteq> 0) (put w 32 (wr_int32 w) (prefer_codec m)),
        put_if (ability_vp8 m \<noteq> 0) (put w 40 (wr_int32 w) (ability_vp8 m)),
        put_if (ability_av1 m \<noteq> 0) (put w 48 (wr_int32 w) (ability_av1 m)),
        put_some (put w 58 (joined w (enc_CodecAbility w))) (sd_i444 m),
        put_if (prefer_chroma m \<noteq> 0) (put w 64 (wr_int32 w) (prefer_chroma m))]"

definition fld_SupportedDecoding :: "wire \<Rightarrow> int \<Rightarrow> SupportedDecoding \<Rightarrow> SupportedDecoding reader option" where
  "fld_SupportedDecoding w tag =
     (if tag = 8 then reads (once (rd_int32 w)) (\<lambda>v m. m\<lparr>ability_vp9 := v\<rparr>)
      else if tag = 16 then reads (once (rd_int32 w)) (\<lambda>v m. m\<lparr>ability_h264 := v\<rparr>)
      else if tag = 24 then reads (once (rd_int32 w)) (\<lambda>v m. m\<lparr>ability_h265 := v\<rparr>)
      else if tag = 32 then reads (once (rd_int32 w)) (\<lambda>v m. m\<lparr>prefer_codec := v\<rparr>)
      else if tag = 40 then reads (once (rd_int32 w)) (\<lambda>v m. m\<lparr>ability_vp8 := v\<rparr>)
      else if tag = 48 then reads (once (rd_int32 w)) (\<lambda>v m. m\<lparr>ability_av1 := v\<rparr>)
      else if tag = 58 then reads_some (nested w (dec_CodecAbility w)) (\<lambda>v m. m\<lparr>sd_i444 := v\<rparr>)
      else if tag = 64 then reads (once (rd_int32 w)) (\<lambda>v m. m\<lparr>prefer_chroma := v\<rparr>)
      else (\<lambda>_. None))"

definition dec_SupportedDecoding :: "wire \<Rightarrow> int \<Rightarrow> SupportedDecoding reader" where
  "dec_SupportedDecoding w = decode w (fld_SupportedDecoding w) SupportedDecoding_base"

definition enc_OptionMessage :: "wire \<Rightarrow> OptionMessage \<Rightarrow> jsstr + bytes" where
  "enc_OptionMessage w m =
     enc_all
       [put_if (image_quality m \<noteq> 0) (put w 8 (wr_int32 w) (image_quality m)),
        put_if (lock_after_session_end m \<noteq> 0) (put w 16 (wr_int32 w) (lock_after_session_end m)),
        put_if (show_remote_cursor m \<noteq> 0) (put w 24 (wr_int32 w) (show_remote_cursor m)),
        put_if (privacy_mode m \<noteq> 0) (put w 32 (wr_int32 w) (privacy_mode m)),
        put_if (block_input m \<noteq> 0) (put w 40 (wr_int32 w) (block_input m)),
        put_if (custom_image_quality m \<noteq> 0) (put w 48 (wr_int32 w) (custom_image_quality m)),
        put_if (disable_audio m \<noteq> 0) (put w 56 (wr_int32 w) (disable_audio m)),
        put_if (disable_clipboard m \<noteq> 0) (put w 64 (wr_int32 w) (disable_clipboard m)),
        put_if (enable_file_transfer m \<noteq> 0) (put w 72 (wr_int32 w) (enable_file_transfer m)),
        put_some (put w 82 (joined w (enc_SupportedDecoding w))) (supported_decoding m),
        put_if (custom_fps m \<noteq> 0) (put w 88 (wr_int32 w) (custom_fps m)),
        put_if (disable_keyboard m \<noteq> 0) (put w 96 (wr_int32 w) (disable_keyboard m)),
        put_if (follow_remote_cursor m \<noteq> 0) (put w 120 (wr_int32 w) (follow_remote_cursor m)),
        put_if (follow_remote_window m \<noteq> 0) (put w 128 (wr_int32 w) (follow_remote_window m)),
        put_if (disable_camera m \<noteq> 0) (put w 136 (wr_int32 w) (disable_camera m)),
        put_if (terminal_persistent m \<noteq> 0) (put w 144 (wr_int32 w) (terminal_persistent m)),
        put_if (show_my_cursor m \<noteq> 0) (put w 152 (wr_int32 w) (show_my_cursor m))]"

definition fld_OptionMessage :: "wire \<Rightarrow> int \<Rightarrow> OptionMessage \<Rightarrow> OptionMessage reader option" where
  "fld_OptionMessage w tag =
     (if tag = 8 then reads (once (rd_int32 w)) (\<lambda>v m. m\<lparr>image_quality := v\<rparr>)
      else if tag = 16 then reads (once (rd_int32 w)) (\<lambda>v m. m\<lparr>lock_after_session_end := v\<rparr>)
      else if tag = 24 then reads (once (rd_int32 w)) (\<lambda>v m. m\<lparr>show_remote_cursor := v\<rparr>)
      else if tag = 32 then reads (once (rd_int32 w)) (\<lambda>v m. m\<lparr>privacy_mode := v\<rparr>)
      else if tag = 40 then reads (once (rd_int32 w)) (\<lambda>v m. m\<lparr>block_input := v\<rparr>)
      else if tag = 48 then reads (once (rd_int32 w)) (\<lambda>v m. m\<lparr>custom_image_quality := v\<rparr>)
      else if tag = 56 then reads (once (rd_int32 w)) (\<lambda>v m. m\<lparr>disable_audio := v\<rparr>)
      else if tag = 64 then reads (once (rd_int32 w)) (\<lambda>v m. m\<lparr>disable_clipboard := v\<rparr>)
      else if tag = 72 then reads (once (rd_int32 w)) (\<lambda>v m. m\<lparr>enable_file_transfer := v\<rparr>)
      else if tag = 82 then reads_some (nested w (dec_SupportedDecoding w))
          (\<lambda>v m. m\<lparr>supported_decoding := v\<rparr>)
      else if tag = 88 then reads (once (rd_int32 w)) (\<lambda>v m. m\<lparr>custom_fps := v\<rparr>)
      else if tag = 96 then reads (once (rd_int32 w)) (\<lambda>v m. m\<lparr>disable_keyboard := v\<rparr>)
      else if tag = 120 then reads (once (rd_int32 w)) (\<lambda>v m. m\<lparr>follow_remote_cursor := v\<rparr>)
      else if tag = 128 then reads (once (rd_int32 w)) (\<lambda>v m. m\<lparr>follow_remote_window := v\<rparr>)
      else if tag = 136 then reads (once (rd_int32 w)) (\<lambda>v m. m\<lparr>disable_camera := v\<rparr>)
      else if tag = 144 then reads (once (rd_int32 w)) (\<lambda>v m. m\<lparr>terminal_persistent := v\<rparr>)
      else if tag = 152 then reads (once (rd_int32 w)) (\<lambda>v m. m\<lparr>show_my_cursor := v\<rparr>)
      else (\<lambda>_. None))"

definition dec_OptionMessage :: "wire \<Rightarrow> int \<Rightarrow> OptionMessage reader" where
  "dec_OptionMessage w = decode w (fld_OptionMessage w) OptionMessage_base"

definition OSLogin_base :: "(jsstr \<times> jsstr)" where
  "OSLogin_base =
     ([], [])"

definition enc_OSLogin :: "wire \<Rightarrow> (jsstr \<times> jsstr) \<Rightarrow> jsstr + bytes" where
  "enc_OSLogin w m =
     (case m of (username, password) \<Rightarrow>
       enc_all
         [put_if (username \<noteq> []) (put w 10 (wr_string w) username),
          put_if (password \<noteq> []) (put w 18 (wr_string w) password)])"

definition fld_OSLogin :: "wire \<Rightarrow> int \<Rightarrow> (jsstr \<times> jsstr) \<Rightarrow> (jsstr \<times> jsstr) reader option" where
  "fld_OSLogin w tag =
     (if tag = 10 then reads (once (rd_string w)) (\<lambda>v (_, password). (v, password))
      else if tag = 18 then reads (once (rd_string w)) (\<lambda>v (username, _). (username, v))
      else (\<lambda>_. None))"

definition dec_OSLogin :: "wire \<Rightarrow> int \<Rightarrow> (jsstr \<times> jsstr) reader" where
  "dec_OSLogin w = decode w (fld_OSLogin w) OSLogin_base"

definition ok_OSLogin :: "(jsstr \<times> jsstr) \<Rightarrow> bool" where
  "ok_OSLogin m \<longleftrightarrow>
      (case m of (username, password) \<Rightarrow> text_ok username \<and> text_ok password)"

definition PortForward_base :: "(jsstr \<times> int)" where
  "PortForward_base =
     ([], 0)"

definition enc_PortForward :: "wire \<Rightarrow> (jsstr \<times> int) \<Rightarrow> jsstr + bytes" where
  "enc_PortForward w m =
     (case m of (host', port') \<Rightarrow>
       enc_all
         [put_if (host' \<noteq> []) (put w 10 (wr_string w) host'),
          put_if (port' \<noteq> 0) (put w 16 (wr_int32 w) port')])"

definition fld_PortForward :: "wire \<Rightarrow> int \<Rightarrow> (jsstr \<times> int) \<Rightarrow> (jsstr \<times> int) reader option" where
  "fld_PortForward w tag =
     (if tag = 10 then reads (once (rd_string w)) (\<lambda>v (_, port'). (v, port'))
      else if tag = 16 then reads (once (rd_int32 w)) (\<lambda>v (host', _). (host', v))
      else (\<lambda>_. None))"

definition dec_PortForward :: "wire \<Rightarrow> int \<Rightarrow> (jsstr \<times> int) reader" where
  "dec_PortForward w = decode w (fld_PortForward w) PortForward_base"

definition ok_PortForward :: "(jsstr \<times> int) \<Rightarrow> bool" where
  "ok_PortForward m \<longleftrightarrow>
      (case m of (host', port') \<Rightarrow> text_ok host')"

definition FileTransfer_base :: "(jsstr \<times> bool)" where
  "FileTransfer_base =
     ([], False)"

definition enc_FileTransfer :: "wire \<Rightarrow> (jsstr \<times> bool) \<Rightarrow> jsstr + bytes" where
  "enc_FileTransfer w m =
     (case m of (dir, show_hidden) \<Rightarrow>
       enc_all
         [put_if (dir \<noteq> []) (put w 10 (wr_string w) dir),
          put_if show_hidden (put w 16 (wr_bool w) show_hidden)])"

definition fld_FileTransfer :: "wire \<Rightarrow> int \<Rightarrow> (jsstr \<times> bool) \<Rightarrow> (jsstr \<times> bool) reader option" where
  "fld_FileTransfer w tag =
     (if tag = 10 then reads (once (rd_string w)) (\<lambda>v (_, show_hidden). (v, show_hidden))
      else if tag = 16 then reads (once (rd_bool w)) (\<lambda>v (dir, _). (dir, v))
      else (\<lambda>_. None))"

definition dec_FileTransfer :: "wire \<Rightarrow> int \<Rightarrow> (jsstr \<times> bool) reader" where
  "dec_FileTransfer w = decode w (fld_FileTransfer w) FileTransfer_base"

definition ok_FileTransfer :: "(jsstr \<times> bool) \<Rightarrow> bool" where
  "ok_FileTransfer m \<longleftrightarrow>
      (case m of (dir, show_hidden) \<Rightarrow> text_ok dir)"

definition enc_ViewCamera :: "wire \<Rightarrow> unit \<Rightarrow> jsstr + bytes" where
  "enc_ViewCamera w _ = Inr []"

definition fld_ViewCamera :: "wire \<Rightarrow> int \<Rightarrow> unit \<Rightarrow> unit reader option" where
  "fld_ViewCamera w tag _ = None"

definition dec_ViewCamera :: "wire \<Rightarrow> int \<Rightarrow> unit reader" where
  "dec_ViewCamera w = decode w (fld_ViewCamera w) ()"

definition enc_Terminal :: "wire \<Rightarrow> jsstr \<Rightarrow> jsstr + bytes" where
  "enc_Terminal w service_id =
     put_if (service_id \<noteq> []) (put w 10 (wr_string w) service_id)"

definition fld_Terminal :: "wire \<Rightarrow> int \<Rightarrow> jsstr \<Rightarrow> jsstr reader option" where
  "fld_Terminal w tag =
     (if tag = 10 then reads (once (rd_string w)) (\<lambda>v _. v)
      else (\<lambda>_. None))"

definition dec_Terminal :: "wire \<Rightarrow> int \<Rightarrow> jsstr reader" where
  "dec_Terminal w = decode w (fld_Terminal w) []"

definition ok_Terminal :: "jsstr \<Rightarrow> bool" where
  "ok_Terminal service_id \<longleftrightarrow>
      text_ok service_id"

definition Auth2FA_base :: "(jsstr \<times> bytes)" where
  "Auth2FA_base =
     ([], [])"

definition enc_Auth2FA :: "wire \<Rightarrow> (jsstr \<times> bytes) \<Rightarrow> jsstr + bytes" where
  "enc_Auth2FA w m =
     (case m of (code', hwid) \<Rightarrow>
       enc_all
         [put_if (code' \<noteq> []) (put w 10 (wr_string w) code'),
          put_if (hwid \<noteq> []) (put w 18 (wr_bytes w) hwid)])"

definition fld_Auth2FA :: "wire \<Rightarrow> int \<Rightarrow> (jsstr \<times> bytes) \<Rightarrow> (jsstr \<times> bytes) reader option" where
  "fld_Auth2FA w tag =
     (if tag = 10 then reads (once (rd_string w)) (\<lambda>v (_, hwid). (v, hwid))
      else if tag = 18 then reads (once (rd_bytes w)) (\<lambda>v (code', _). (code', v))
      else (\<lambda>_. None))"

definition dec_Auth2FA :: "wire \<Rightarrow> int \<Rightarrow> (jsstr \<times> bytes) reader" where
  "dec_Auth2FA w = decode w (fld_Auth2FA w) Auth2FA_base"

definition ok_Auth2FA :: "(jsstr \<times> bytes) \<Rightarrow> bool" where
  "ok_Auth2FA m \<longleftrightarrow>
      (case m of (code', hwid) \<Rightarrow> text_ok code')"

definition enc_LoginRequest :: "wire \<Rightarrow> LoginRequest \<Rightarrow> jsstr + bytes" where
  "enc_LoginRequest w m =
     enc_all
       [put_if (lr_username m \<noteq> []) (put w 10 (wr_string w) (lr_username m)),
        put_if (lr_password m \<noteq> []) (put w 18 (wr_bytes w) (lr_password m)),
        put_if (lr_my_id m \<noteq> []) (put w 34 (wr_string w) (lr_my_id m)),
        put_if (lr_my_name m \<noteq> []) (put w 42 (wr_string w) (lr_my_name m)),
        put_some (put w 50 (joined w (enc_OptionMessage w))) (lr_option m),
        (case lr_union m of
            LU_none \<Rightarrow> Inr []
          | LU_file_transfer dir show_hidden \<Rightarrow> put w 58 (joined w (enc_FileTransfer w)) (dir, show_hidden)
          | LU_port_forward host' port' \<Rightarrow> put w 66 (joined w (enc_PortForward w)) (host', port')
          | LU_view_camera \<Rightarrow> put w 122 (joined w (enc_ViewCamera w)) ()
          | LU_terminal v \<Rightarrow> put w 130 (joined w (enc_Terminal w)) v),
        put_if (video_ack_required m) (put w 72 (wr_bool w) (video_ack_required m)),
        put_if (lr_session_id m \<noteq> 0)
            (guarded (fits_uint64 (lr_session_id m)) ''message.session_id of type uint64 too large''
                (put w 80 (wr_uint64 w) (lr_session_id m))),
        put_if (lr_version m \<noteq> []) (put w 90 (wr_string w) (lr_version m)),
        put_some (put w 98 (joined w (enc_OSLogin w))) (lr_os_login m),
        put_if (lr_my_platform m \<noteq> []) (put w 106 (wr_string w) (lr_my_platform m)),
        put_if (lr_hwid m \<noteq> []) (put w 114 (wr_bytes w) (lr_hwid m)),
        put_if (lr_avatar m \<noteq> []) (put w 138 (wr_string w) (lr_avatar m))]"

definition fld_LoginRequest :: "wire \<Rightarrow> int \<Rightarrow> LoginRequest \<Rightarrow> LoginRequest reader option" where
  "fld_LoginRequest w tag =
     (if tag = 10 then reads (once (rd_string w)) (\<lambda>v m. m\<lparr>lr_username := v\<rparr>)
      else if tag = 18 then reads (once (rd_bytes w)) (\<lambda>v m. m\<lparr>lr_password := v\<rparr>)
      else if tag = 34 then reads (once (rd_string w)) (\<lambda>v m. m\<lparr>lr_my_id := v\<rparr>)
      else if tag = 42 then reads (once (rd_string w)) (\<lambda>v m. m\<lparr>lr_my_name := v\<rparr>)
      else if tag = 50 then reads_some (nested w (dec_OptionMessage w)) (\<lambda>v m. m\<lparr>lr_option := v\<rparr>)
      else if tag = 58 then reads (nested w (dec_FileTransfer w))
          (\<lambda>(dir, show_hidden) m. m\<lparr>lr_union := LU_file_transfer dir show_hidden\<rparr>)
      else if tag = 66 then reads (nested w (dec_PortForward w))
          (\<lambda>(host', port') m. m\<lparr>lr_union := LU_port_forward host' port'\<rparr>)
      else if tag = 122 then reads (nested w (dec_ViewCamera w)) (\<lambda>_ m. m\<lparr>lr_union := LU_view_camera\<rparr>)
      else if tag = 130 then reads (nested w (dec_Terminal w)) (\<lambda>v m. m\<lparr>lr_union := LU_terminal v\<rparr>)
      else if tag = 72 then reads (once (rd_bool w)) (\<lambda>v m. m\<lparr>video_ack_required := v\<rparr>)
      else if tag = 80 then reads (once (rd_uint64 w)) (\<lambda>v m. m\<lparr>lr_session_id := v\<rparr>)
      else if tag = 90 then reads (once (rd_string w)) (\<lambda>v m. m\<lparr>lr_version := v\<rparr>)
      else if tag = 98 then reads_some (nested w (dec_OSLogin w)) (\<lambda>v m. m\<lparr>lr_os_login := v\<rparr>)
      else if tag = 106 then reads (once (rd_string w)) (\<lambda>v m. m\<lparr>lr_my_platform := v\<rparr>)
      else if tag = 114 then reads (once (rd_bytes w)) (\<lambda>v m. m\<lparr>lr_hwid := v\<rparr>)
      else if tag = 138 then reads (once (rd_string w)) (\<lambda>v m. m\<lparr>lr_avatar := v\<rparr>)
      else (\<lambda>_. None))"

definition dec_LoginRequest :: "wire \<Rightarrow> int \<Rightarrow> LoginRequest reader" where
  "dec_LoginRequest w = decode w (fld_LoginRequest w) LoginRequest_base"

definition ok_LoginRequest :: "LoginRequest \<Rightarrow> bool" where
  "ok_LoginRequest m \<longleftrightarrow>
      text_ok (lr_username m) \<and>
      text_ok (lr_my_id m) \<and>
      text_ok (lr_my_name m) \<and>
      (case lr_union m of
        LU_file_transfer dir show_hidden \<Rightarrow> ok_FileTransfer (dir, show_hidden)
      | LU_port_forward host' port' \<Rightarrow> ok_PortForward (host', port')
      | LU_terminal v \<Rightarrow> ok_Terminal v
      | _ \<Rightarrow> True) \<and>
      text_ok (lr_version m) \<and>
      pred_option ok_OSLogin (lr_os_login m) \<and>
      text_ok (lr_my_platform m) \<and>
      text_ok (lr_avatar m)"

definition Features_base :: "Features" where
  "Features_base =
     \<lparr>f_privacy_mode = False, f_terminal = False\<rparr>"

definition enc_Features :: "wire \<Rightarrow> Features \<Rightarrow> jsstr + bytes" where
  "enc_Features w m =
     enc_all
       [put_if (f_privacy_mode m) (put w 8 (wr_bool w) (f_privacy_mode m)),
        put_if (f_terminal m) (put w 16 (wr_bool w) (f_terminal m))]"

definition fld_Features :: "wire \<Rightarrow> int \<Rightarrow> Features \<Rightarrow> Features reader option" where
  "fld_Features w tag =
     (if tag = 8 then reads (once (rd_bool w)) (\<lambda>v m. m\<lparr>f_privacy_mode := v\<rparr>)
      else if tag = 16 then reads (once (rd_bool w)) (\<lambda>v m. m\<lparr>f_terminal := v\<rparr>)
      else (\<lambda>_. None))"

definition dec_Features :: "wire \<Rightarrow> int \<Rightarrow> Features reader" where
  "dec_Features w = decode w (fld_Features w) Features_base"

definition WindowsSession_base :: "(int \<times> jsstr)" where
  "WindowsSession_base =
     (0, [])"

definition enc_WindowsSession :: "wire \<Rightarrow> (int \<times> jsstr) \<Rightarrow> jsstr + bytes" where
  "enc_WindowsSession w m =
     (case m of (sid', name') \<Rightarrow>
       enc_all
         [put_if (sid' \<noteq> 0) (put w 8 (wr_uint32 w) sid'),
          put_if (name' \<noteq> []) (put w 18 (wr_string w) name')])"

definition fld_WindowsSession :: "wire \<Rightarrow> int \<Rightarrow> (int \<times> jsstr) \<Rightarrow> (int \<times> jsstr) reader option" where
  "fld_WindowsSession w tag =
     (if tag = 8 then reads (once (rd_uint32 w)) (\<lambda>v (_, name'). (v, name'))
      else if tag = 18 then reads (once (rd_string w)) (\<lambda>v (sid', _). (sid', v))
      else (\<lambda>_. None))"

definition dec_WindowsSession :: "wire \<Rightarrow> int \<Rightarrow> (int \<times> jsstr) reader" where
  "dec_WindowsSession w = decode w (fld_WindowsSession w) WindowsSession_base"

definition ok_WindowsSession :: "(int \<times> jsstr) \<Rightarrow> bool" where
  "ok_WindowsSession m \<longleftrightarrow>
      (case m of (sid', name') \<Rightarrow> text_ok name')"

definition WindowsSessions_base :: "((int \<times> jsstr) list \<times> int)" where
  "WindowsSessions_base =
     ([], 0)"

definition enc_WindowsSessions :: "wire \<Rightarrow> ((int \<times> jsstr) list \<times> int) \<Rightarrow> jsstr + bytes" where
  "enc_WindowsSessions w m =
     (case m of (sessions, current_sid) \<Rightarrow>
       enc_all
         [put_each (put w 10 (joined w (enc_WindowsSession w))) sessions,
          put_if (current_sid \<noteq> 0) (put w 16 (wr_uint32 w) current_sid)])"

definition fld_WindowsSessions :: "wire \<Rightarrow> int \<Rightarrow> ((int \<times> jsstr) list \<times> int) \<Rightarrow>
    ((int \<times> jsstr) list \<times> int) reader option" where
  "fld_WindowsSessions w tag =
     (if tag = 10 then pushes (nested w (dec_WindowsSession w))
         (\<lambda>vs (sessions, current_sid). (sessions @ vs, current_sid))
      else if tag = 16 then reads (once (rd_uint32 w)) (\<lambda>v (sessions, _). (sessions, v))
      else (\<lambda>_. None))"

definition dec_WindowsSessions :: "wire \<Rightarrow> int \<Rightarrow> ((int \<times> jsstr) list \<times> int) reader" where
  "dec_WindowsSessions w = decode w (fld_WindowsSessions w) WindowsSessions_base"

definition ok_WindowsSessions :: "((int \<times> jsstr) list \<times> int) \<Rightarrow> bool" where
  "ok_WindowsSessions m \<longleftrightarrow>
      (case m of (sessions, current_sid) \<Rightarrow> list_all ok_WindowsSession sessions)"

definition PeerInfo_base :: "PeerInfo" where
  "PeerInfo_base =
     \<lparr>pi_username = [], pi_hostname = [], pi_platform = [], pi_displays = [],
      pi_current_display = 0, pi_sas_enabled = False, pi_version = [], pi_features = None,
      pi_encoding = None, pi_resolutions = None, pi_platform_additions = [],
      pi_windows_sessions = None\<rparr>"

definition enc_PeerInfo :: "wire \<Rightarrow> PeerInfo \<Rightarrow> jsstr + bytes" where
  "enc_PeerInfo w m =
     enc_all
       [put_if (pi_username m \<noteq> []) (put w 10 (wr_string w) (pi_username m)),
        put_if (pi_hostname m \<noteq> []) (put w 18 (wr_string w) (pi_hostname m)),
        put_if (pi_platform m \<noteq> []) (put w 26 (wr_string w) (pi_platform m)),
        put_each (put w 34 (joined w (enc_DisplayInfo w))) (pi_displays m),
        put_if (pi_current_display m \<noteq> 0) (put w 40 (wr_int32 w) (pi_current_display m)),
        put_if (pi_sas_enabled m) (put w 48 (wr_bool w) (pi_sas_enabled m)),
        put_if (pi_version m \<noteq> []) (put w 58 (wr_string w) (pi_version m)),
        put_some (put w 74 (joined w (enc_Features w))) (pi_features m),
        put_some (put w 82 (joined w (enc_SupportedEncoding w))) (pi_encoding m),
        put_some (put w 90 (joined w (enc_SupportedResolutions w))) (pi_resolutions m),
        put_if (pi_platform_additions m \<noteq> []) (put w 98 (wr_string w) (pi_platform_additions m)),
        put_some (put w 106 (joined w (enc_WindowsSessions w))) (pi_windows_sessions m)]"

definition fld_PeerInfo :: "wire \<Rightarrow> int \<Rightarrow> PeerInfo \<Rightarrow> PeerInfo reader option" where
  "fld_PeerInfo w tag =
     (if tag = 10 then reads (once (rd_string w)) (\<lambda>v m. m\<lparr>pi_username := v\<rparr>)
      else if tag = 18 then reads (once (rd_string w)) (\<lambda>v m. m\<lparr>pi_hostname := v\<rparr>)
      else if tag = 26 then reads (once (rd_string w)) (\<lambda>v m. m\<lparr>pi_platform := v\<rparr>)
      else if tag = 34 then pushes (nested w (dec_DisplayInfo w))
          (\<lambda>vs m. m\<lparr>pi_displays := pi_displays m @ vs\<rparr>)
      else if tag = 40 then reads (once (rd_int32 w)) (\<lambda>v m. m\<lparr>pi_current_display := v\<rparr>)
      else if tag = 48 then reads (once (rd_bool w)) (\<lambda>v m. m\<lparr>pi_sas_enabled := v\<rparr>)
      else if tag = 58 then reads (once (rd_string w)) (\<lambda>v m. m\<lparr>pi_version := v\<rparr>)
      else if tag = 74 then reads_some (nested w (dec_Features w)) (\<lambda>v m. m\<lparr>pi_features := v\<rparr>)
      else if tag = 82 then reads_some (nested w (dec_SupportedEncoding w)) (\<lambda>v m. m\<lparr>pi_encoding := v\<rparr>)
      else if tag = 90 then reads_some (nested w (dec_SupportedResolutions w))
          (\<lambda>v m. m\<lparr>pi_resolutions := v\<rparr>)
      else if tag = 98 then reads (once (rd_string w)) (\<lambda>v m. m\<lparr>pi_platform_additions := v\<rparr>)
      else if tag = 106 then reads_some (nested w (dec_WindowsSessions w))
          (\<lambda>v m. m\<lparr>pi_windows_sessions := v\<rparr>)
      else (\<lambda>_. None))"

definition dec_PeerInfo :: "wire \<Rightarrow> int \<Rightarrow> PeerInfo reader" where
  "dec_PeerInfo w = decode w (fld_PeerInfo w) PeerInfo_base"

definition ok_PeerInfo :: "PeerInfo \<Rightarrow> bool" where
  "ok_PeerInfo m \<longleftrightarrow>
      text_ok (pi_username m) \<and>
      text_ok (pi_hostname m) \<and>
      text_ok (pi_platform m) \<and>
      list_all ok_DisplayInfo (pi_displays m) \<and>
      text_ok (pi_version m) \<and>
      text_ok (pi_platform_additions m) \<and>
      pred_option ok_WindowsSessions (pi_windows_sessions m)"

definition LoginResponse_base :: "LoginResponse" where
  "LoginResponse_base =
     \<lparr>lresp_union = LResp_none, lresp_enable_trusted_devices = False\<rparr>"

definition enc_LoginResponse :: "wire \<Rightarrow> LoginResponse \<Rightarrow> jsstr + bytes" where
  "enc_LoginResponse w m =
     enc_all
       [(case lresp_union m of
            LResp_none \<Rightarrow> Inr []
          | LResp_error v \<Rightarrow> put w 10 (wr_string w) v
          | LResp_peer_info v \<Rightarrow> put w 18 (joined w (enc_PeerInfo w)) v),
        put_if (lresp_enable_trusted_devices m) (put w 24 (wr_bool w) (lresp_enable_trusted_devices m))]"

definition fld_LoginResponse :: "wire \<Rightarrow> int \<Rightarrow> LoginResponse \<Rightarrow> LoginResponse reader option" where
  "fld_LoginResponse w tag =
     (if tag = 10 then reads (once (rd_string w)) (\<lambda>v m. m\<lparr>lresp_union := LResp_error v\<rparr>)
      else if tag = 18 then reads (nested w (dec_PeerInfo w)) (\<lambda>v m. m\<lparr>lresp_union := LResp_peer_info v\<rparr>)
      else if tag = 24 then reads (once (rd_bool w)) (\<lambda>v m. m\<lparr>lresp_enable_trusted_devices := v\<rparr>)
      else (\<lambda>_. None))"

definition dec_LoginResponse :: "wire \<Rightarrow> int \<Rightarrow> LoginResponse reader" where
  "dec_LoginResponse w = decode w (fld_LoginResponse w) LoginResponse_base"

definition ok_LoginResponse :: "LoginResponse \<Rightarrow> bool" where
  "ok_LoginResponse m \<longleftrightarrow>
      (case lresp_union m of
        LResp_error v \<Rightarrow> text_ok v
      | LResp_peer_info v \<Rightarrow> ok_PeerInfo v
      | _ \<Rightarrow> True)"

section \<open>Round trips and termination\<close>

context wire_format
begin

lemma back_IdPk [codec_backs]: "ok_IdPk m \<Longrightarrow> codec_back (enc_IdPk w) (dec_IdPk w) m"
  unfolding dec_IdPk_def
  by (cases m; rule codec_backI; clarsimp simp: enc_IdPk_def ok_IdPk_def IdPk_base_def;
      (erule loop_rules, (simp add: fld_IdPk_def codec_backs laws_back)+)+)

lemma ends_IdPk [decoder_ends]: "settles (dec_IdPk w len)"
  unfolding dec_IdPk_def
  by (rule decode_settles)
    (auto simp: fld_IdPk_def split: if_splits elim!: settle_rules intro!: settle_intros decoder_ends)

lemma back_PublicKey [codec_backs]: "codec_back (enc_PublicKey w) (dec_PublicKey w) m"
  unfolding dec_PublicKey_def
  by (cases m; rule codec_backI; clarsimp simp: enc_PublicKey_def PublicKey_base_def;
      (erule loop_rules, (simp add: fld_PublicKey_def codec_backs laws_back)+)+)

lemma ends_PublicKey [decoder_ends]: "settles (dec_PublicKey w len)"
  unfolding dec_PublicKey_def
  by (rule decode_settles)
    (auto simp: fld_PublicKey_def split: if_splits elim!: settle_rules intro!: settle_intros decoder_ends)

lemma back_SignedId [codec_backs]: "codec_back (enc_SignedId w) (dec_SignedId w) m"
  unfolding dec_SignedId_def
  by (rule codec_backI; clarsimp simp: enc_SignedId_def;
      (erule loop_rules, (simp add: fld_SignedId_def codec_backs laws_back)+)+)

lemma ends_SignedId [decoder_ends]: "settles (dec_SignedId w len)"
  unfolding dec_SignedId_def
  by (rule decode_settles)
    (auto simp: fld_SignedId_def split: if_splits elim!: settle_rules intro!: settle_intros decoder_ends)

lemma back_Hash [codec_backs]: "ok_Hash m \<Longrightarrow> codec_back (enc_Hash w) (dec_Hash w) m"
  unfolding dec_Hash_def
  by (cases m; rule codec_backI; clarsimp simp: enc_Hash_def ok_Hash_def Hash_base_def;
      (erule loop_rules, (simp add: fld_Hash_def codec_backs laws_back)+)+)

lemma ends_Hash [decoder_ends]: "settles (dec_Hash w len)"
  unfolding dec_Hash_def
  by (rule decode_settles)
    (auto simp: fld_Hash_def split: if_splits elim!: settle_rules intro!: settle_intros decoder_ends)

lemma back_TestDelay [codec_backs]: "codec_back (enc_TestDelay w) (dec_TestDelay w) m"
  unfolding dec_TestDelay_def
  by (cases m; rule codec_backI; clarsimp simp: enc_TestDelay_def TestDelay_base_def;
      (erule loop_rules, (simp add: fld_TestDelay_def codec_backs laws_back)+)+)

lemma ends_TestDelay [decoder_ends]: "settles (dec_TestDelay w len)"
  unfolding dec_TestDelay_def
  by (rule decode_settles)
    (auto simp: fld_TestDelay_def split: if_splits elim!: settle_rules intro!: settle_intros decoder_ends)

lemma back_Resolution [codec_backs]: "codec_back (enc_Resolution w) (dec_Resolution w) m"
  unfolding dec_Resolution_def
  by (cases m; rule codec_backI; clarsimp simp: enc_Resolution_def Resolution_base_def;
      (erule loop_rules, (simp add: fld_Resolution_def codec_backs laws_back)+)+)

lemma ends_Resolution [decoder_ends]: "settles (dec_Resolution w len)"
  unfolding dec_Resolution_def
  by (rule decode_settles)
    (auto simp: fld_Resolution_def split: if_splits elim!: settle_rules intro!: settle_intros decoder_ends)

lemma back_SupportedResolutions [codec_backs]:
    "codec_back (enc_SupportedResolutions w) (dec_SupportedResolutions w) m"
  unfolding dec_SupportedResolutions_def
  by (rule codec_backI; clarsimp simp: enc_SupportedResolutions_def;
      (erule loop_rules, (simp add: fld_SupportedResolutions_def codec_backs laws_back)+)+)

lemma ends_SupportedResolutions [decoder_ends]: "settles (dec_SupportedResolutions w len)"
  unfolding dec_SupportedResolutions_def
  by (rule decode_settles)
    (auto simp: fld_SupportedResolutions_def split: if_splits elim!: settle_rules intro!: settle_intros decoder_ends)

lemma back_DisplayResolution [codec_backs]:
    "codec_back (enc_DisplayResolution w) (dec_DisplayResolution w) m"
  unfolding dec_DisplayResolution_def
  by (cases m; rule codec_backI; clarsimp simp: enc_DisplayResolution_def DisplayResolution_base_def;
      (erule loop_rules, (simp add: fld_DisplayResolution_def codec_backs laws_back)+)+)

lemma ends_DisplayResolution [decoder_ends]: "settles (dec_DisplayResolution w len)"
  unfolding dec_DisplayResolution_def
  by (rule decode_settles)
    (auto simp: fld_DisplayResolution_def split: if_splits elim!: settle_rules intro!: settle_intros decoder_ends)

lemma back_DisplayInfo [codec_backs]:
    "ok_DisplayInfo m \<Longrightarrow> codec_back (enc_DisplayInfo w) (dec_DisplayInfo w) m"
  unfolding dec_DisplayInfo_def
  by (cases m; rule codec_backI; clarsimp simp: enc_DisplayInfo_def ok_DisplayInfo_def DisplayInfo_base_def;
      (erule loop_rules, (simp add: fld_DisplayInfo_def codec_backs laws_back)+)+)

lemma ends_DisplayInfo [decoder_ends]: "settles (dec_DisplayInfo w len)"
  unfolding dec_DisplayInfo_def
  by (rule decode_settles)
    (auto simp: fld_DisplayInfo_def split: if_splits elim!: settle_rules intro!: settle_intros decoder_ends)

lemma back_CodecAbility [codec_backs]: "codec_back (enc_CodecAbility w) (dec_CodecAbility w) m"
  unfolding dec_CodecAbility_def
  by (cases m; rule codec_backI; clarsimp simp: enc_CodecAbility_def CodecAbility_base_def;
      (erule loop_rules, (simp add: fld_CodecAbility_def codec_backs laws_back)+)+)

lemma ends_CodecAbility [decoder_ends]: "settles (dec_CodecAbility w len)"
  unfolding dec_CodecAbility_def
  by (rule decode_settles)
    (auto simp: fld_CodecAbility_def split: if_splits elim!: settle_rules intro!: settle_intros decoder_ends)

lemma back_SupportedEncoding [codec_backs]:
    "codec_back (enc_SupportedEncoding w) (dec_SupportedEncoding w) m"
  unfolding dec_SupportedEncoding_def
  by (cases m; rule codec_backI; clarsimp simp: enc_SupportedEncoding_def SupportedEncoding_base_def;
      (erule loop_rules, (simp add: fld_SupportedEncoding_def codec_backs laws_back)+)+)

lemma ends_SupportedEncoding [decoder_ends]: "settles (dec_SupportedEncoding w len)"
  unfolding dec_SupportedEncoding_def
  by (rule decode_settles)
    (auto simp: fld_SupportedEncoding_def split: if_splits elim!: settle_rules intro!: settle_intros decoder_ends)

lemma back_SupportedDecoding [codec_backs]:
    "codec_back (enc_SupportedDecoding w) (dec_SupportedDecoding w) m"
  unfolding dec_SupportedDecoding_def
  by (cases m; rule codec_backI; clarsimp simp: enc_SupportedDecoding_def SupportedDecoding_base_def;
      (erule loop_rules, (simp add: fld_SupportedDecoding_def codec_backs laws_back)+)+)

lemma ends_SupportedDecoding [decoder_ends]: "settles (dec_SupportedDecoding w len)"
  unfolding dec_SupportedDecoding_def
  by (rule decode_settles)
    (auto simp: fld_SupportedDecoding_def split: if_splits elim!: settle_rules intro!: settle_intros decoder_ends)

lemma back_OptionMessage [codec_backs]: "codec_back (enc_OptionMessage w) (dec_OptionMessage w) m"
  unfolding dec_OptionMessage_def
  by (cases m; rule codec_backI; clarsimp simp: enc_OptionMessage_def OptionMessage_base_def;
      (erule loop_rules, (simp add: fld_OptionMessage_def codec_backs laws_back)+)+)

lemma ends_OptionMessage [decoder_ends]: "settles (dec_OptionMessage w len)"
  unfolding dec_OptionMessage_def
  by (rule decode_settles)
    (auto simp: fld_OptionMessage_def split: if_splits elim!: settle_rules intro!: settle_intros decoder_ends)

lemma back_OSLogin [codec_backs]: "ok_OSLogin m \<Longrightarrow> codec_back (enc_OSLogin w) (dec_OSLogin w) m"
  unfolding dec_OSLogin_def
  by (cases m; rule codec_backI; clarsimp simp: enc_OSLogin_def ok_OSLogin_def OSLogin_base_def;
      (erule loop_rules, (simp add: fld_OSLogin_def codec_backs laws_back)+)+)

lemma ends_OSLogin [decoder_ends]: "settles (dec_OSLogin w len)"
  unfolding dec_OSLogin_def
  by (rule decode_settles)
    (auto simp: fld_OSLogin_def split: if_splits elim!: settle_rules intro!: settle_intros decoder_ends)

lemma back_PortForward [codec_backs]:
    "ok_PortForward m \<Longrightarrow> codec_back (enc_PortForward w) (dec_PortForward w) m"
  unfolding dec_PortForward_def
  by (cases m; rule codec_backI; clarsimp simp: enc_PortForward_def ok_PortForward_def PortForward_base_def;
      (erule loop_rules, (simp add: fld_PortForward_def codec_backs laws_back)+)+)

lemma ends_PortForward [decoder_ends]: "settles (dec_PortForward w len)"
  unfolding dec_PortForward_def
  by (rule decode_settles)
    (auto simp: fld_PortForward_def split: if_splits elim!: settle_rules intro!: settle_intros decoder_ends)

lemma back_FileTransfer [codec_backs]:
    "ok_FileTransfer m \<Longrightarrow> codec_back (enc_FileTransfer w) (dec_FileTransfer w) m"
  unfolding dec_FileTransfer_def
  by (cases m; rule codec_backI; clarsimp simp: enc_FileTransfer_def ok_FileTransfer_def FileTransfer_base_def;
      (erule loop_rules, (simp add: fld_FileTransfer_def codec_backs laws_back)+)+)

lemma ends_FileTransfer [decoder_ends]: "settles (dec_FileTransfer w len)"
  unfolding dec_FileTransfer_def
  by (rule decode_settles)
    (auto simp: fld_FileTransfer_def split: if_splits elim!: settle_rules intro!: settle_intros decoder_ends)

lemma back_ViewCamera [codec_backs]: "codec_back (enc_ViewCamera w) (dec_ViewCamera w) m"
  unfolding dec_ViewCamera_def
  by (rule codec_backI; clarsimp simp: enc_ViewCamera_def;
      (erule loop_rules, (simp add: fld_ViewCamera_def codec_backs laws_back)+)+)

lemma ends_ViewCamera [decoder_ends]: "settles (dec_ViewCamera w len)"
  unfolding dec_ViewCamera_def
  by (rule decode_settles)
    (auto simp: fld_ViewCamera_def split: if_splits elim!: settle_rules intro!: settle_intros decoder_ends)

lemma back_Terminal [codec_backs]: "ok_Terminal m \<Longrightarrow> codec_back (enc_Terminal w) (dec_Terminal w) m"
  unfolding dec_Terminal_def
  by (rule codec_backI; clarsimp simp: enc_Terminal_def ok_Terminal_def;
      (erule loop_rules, (simp add: fld_Terminal_def codec_backs laws_back)+)+)

lemma ends_Terminal [decoder_ends]: "settles (dec_Terminal w len)"
  unfolding dec_Terminal_def
  by (rule decode_settles)
    (auto simp: fld_Terminal_def split: if_splits elim!: settle_rules intro!: settle_intros decoder_ends)

lemma back_Auth2FA [codec_backs]: "ok_Auth2FA m \<Longrightarrow> codec_back (enc_Auth2FA w) (dec_Auth2FA w) m"
  unfolding dec_Auth2FA_def
  by (cases m; rule codec_backI; clarsimp simp: enc_Auth2FA_def ok_Auth2FA_def Auth2FA_base_def;
      (erule loop_rules, (simp add: fld_Auth2FA_def codec_backs laws_back)+)+)

lemma ends_Auth2FA [decoder_ends]: "settles (dec_Auth2FA w len)"
  unfolding dec_Auth2FA_def
  by (rule decode_settles)
    (auto simp: fld_Auth2FA_def split: if_splits elim!: settle_rules intro!: settle_intros decoder_ends)

lemma back_LoginRequest [codec_backs]:
    "ok_LoginRequest m \<Longrightarrow> codec_back (enc_LoginRequest w) (dec_LoginRequest w) m"
  unfolding dec_LoginRequest_def
  by (cases
      "lr_union m"; cases m; rule codec_backI; clarsimp simp: enc_LoginRequest_def ok_LoginRequest_def LoginRequest_base_def;
      (erule loop_rules, (simp add: fld_LoginRequest_def codec_backs laws_back)+)+)

lemma ends_LoginRequest [decoder_ends]: "settles (dec_LoginRequest w len)"
  unfolding dec_LoginRequest_def
  by (rule decode_settles)
    (auto simp: fld_LoginRequest_def split: if_splits elim!: settle_rules intro!: settle_intros decoder_ends)

lemma back_Features [codec_backs]: "codec_back (enc_Features w) (dec_Features w) m"
  unfolding dec_Features_def
  by (cases m; rule codec_backI; clarsimp simp: enc_Features_def Features_base_def;
      (erule loop_rules, (simp add: fld_Features_def codec_backs laws_back)+)+)

lemma ends_Features [decoder_ends]: "settles (dec_Features w len)"
  unfolding dec_Features_def
  by (rule decode_settles)
    (auto simp: fld_Features_def split: if_splits elim!: settle_rules intro!: settle_intros decoder_ends)

lemma back_WindowsSession [codec_backs]:
    "ok_WindowsSession m \<Longrightarrow> codec_back (enc_WindowsSession w) (dec_WindowsSession w) m"
  unfolding dec_WindowsSession_def
  by (cases m; rule codec_backI; clarsimp simp: enc_WindowsSession_def ok_WindowsSession_def WindowsSession_base_def;
      (erule loop_rules, (simp add: fld_WindowsSession_def codec_backs laws_back)+)+)

lemma ends_WindowsSession [decoder_ends]: "settles (dec_WindowsSession w len)"
  unfolding dec_WindowsSession_def
  by (rule decode_settles)
    (auto simp: fld_WindowsSession_def split: if_splits elim!: settle_rules intro!: settle_intros decoder_ends)

lemma back_WindowsSessions [codec_backs]:
    "ok_WindowsSessions m \<Longrightarrow> codec_back (enc_WindowsSessions w) (dec_WindowsSessions w) m"
  unfolding dec_WindowsSessions_def
  by (cases m; rule codec_backI; clarsimp simp: enc_WindowsSessions_def ok_WindowsSessions_def WindowsSessions_base_def;
      (erule loop_rules, (simp add: fld_WindowsSessions_def codec_backs laws_back split_beta)+)+)

lemma ends_WindowsSessions [decoder_ends]: "settles (dec_WindowsSessions w len)"
  unfolding dec_WindowsSessions_def
  by (rule decode_settles)
    (auto simp: fld_WindowsSessions_def split: if_splits elim!: settle_rules intro!: settle_intros decoder_ends)

lemma back_PeerInfo [codec_backs]: "ok_PeerInfo m \<Longrightarrow> codec_back (enc_PeerInfo w) (dec_PeerInfo w) m"
  unfolding dec_PeerInfo_def
  by (cases m; rule codec_backI; clarsimp simp: enc_PeerInfo_def ok_PeerInfo_def PeerInfo_base_def;
      (erule loop_rules, (simp add: fld_PeerInfo_def codec_backs laws_back)+)+)

lemma ends_PeerInfo [decoder_ends]: "settles (dec_PeerInfo w len)"
  unfolding dec_PeerInfo_def
  by (rule decode_settles)
    (auto simp: fld_PeerInfo_def split: if_splits elim!: settle_rules intro!: settle_intros decoder_ends)

lemma back_LoginResponse [codec_backs]:
    "ok_LoginResponse m \<Longrightarrow> codec_back (enc_LoginResponse w) (dec_LoginResponse w) m"
  unfolding dec_LoginResponse_def
  by (cases
      "lresp_union m"; cases m; rule codec_backI; clarsimp simp: enc_LoginResponse_def ok_LoginResponse_def LoginResponse_base_def;
      (erule loop_rules, (simp add: fld_LoginResponse_def codec_backs laws_back)+)+)

lemma ends_LoginResponse [decoder_ends]: "settles (dec_LoginResponse w len)"
  unfolding dec_LoginResponse_def
  by (rule decode_settles)
    (auto simp: fld_LoginResponse_def split: if_splits elim!: settle_rules intro!: settle_intros decoder_ends)

end

end
