(* ===== verification/Codec_Session.thy ===== *)
theory Codec_Session
  imports Codec_Media Codec_Login
begin

text \<open>
  The generated code of the session control, voice call,
      message box and terminal messages in \<open>webclient/src/gen/message.ts\<close>. For a
  message \<open>X\<close>, \<open>enc_X\<close> is its \<open>encode\<close>, \<open>fld_X\<close> the \<open>switch\<close> on the tag inside its \<open>decode\<close>,
  \<open>dec_X\<close> its \<open>decode\<close>, and \<open>ok_X\<close> says that its strings survive UTF-8 (and its numbers are
  doubles). What \<open>encode\<close> wrote, \<open>decode\<close> reads back, and \<open>decode\<close> ends on every input.
\<close>

section \<open>Encoders and decoders\<close>

definition enc_ChatMessage :: "wire \<Rightarrow> jsstr \<Rightarrow> jsstr + bytes" where
  "enc_ChatMessage w text' =
     put_if (text' \<noteq> []) (put w 10 (wr_string w) text')"

definition fld_ChatMessage :: "wire \<Rightarrow> int \<Rightarrow> jsstr \<Rightarrow> jsstr reader option" where
  "fld_ChatMessage w tag =
     (if tag = 10 then reads (once (rd_string w)) (\<lambda>v _. v)
      else (\<lambda>_. None))"

definition dec_ChatMessage :: "wire \<Rightarrow> int \<Rightarrow> jsstr reader" where
  "dec_ChatMessage w = decode w (fld_ChatMessage w) []"

definition ok_ChatMessage :: "jsstr \<Rightarrow> bool" where
  "ok_ChatMessage text' \<longleftrightarrow>
      text_ok text'"

definition enc_SwitchDisplay :: "wire \<Rightarrow> SwitchDisplay \<Rightarrow> jsstr + bytes" where
  "enc_SwitchDisplay w m =
     enc_all
       [put_if (sd_display m \<noteq> 0) (put w 8 (wr_int32 w) (sd_display m)),
        put_if (sd_x m \<noteq> 0) (put w 16 (wr_sint32 w) (sd_x m)),
        put_if (sd_y m \<noteq> 0) (put w 24 (wr_sint32 w) (sd_y m)),
        put_if (sd_width m \<noteq> 0) (put w 32 (wr_int32 w) (sd_width m)),
        put_if (sd_height m \<noteq> 0) (put w 40 (wr_int32 w) (sd_height m)),
        put_if (sd_cursor_embedded m) (put w 48 (wr_bool w) (sd_cursor_embedded m)),
        put_some (put w 58 (joined w (enc_SupportedResolutions w))) (sd_resolutions m),
        put_some (put w 66 (joined w (enc_Resolution w))) (sd_original_resolution m)]"

definition fld_SwitchDisplay :: "wire \<Rightarrow> int \<Rightarrow> SwitchDisplay \<Rightarrow> SwitchDisplay reader option" where
  "fld_SwitchDisplay w tag =
     (if tag = 8 then reads (once (rd_int32 w)) (\<lambda>v m. m\<lparr>sd_display := v\<rparr>)
      else if tag = 16 then reads (once (rd_sint32 w)) (\<lambda>v m. m\<lparr>sd_x := v\<rparr>)
      else if tag = 24 then reads (once (rd_sint32 w)) (\<lambda>v m. m\<lparr>sd_y := v\<rparr>)
      else if tag = 32 then reads (once (rd_int32 w)) (\<lambda>v m. m\<lparr>sd_width := v\<rparr>)
      else if tag = 40 then reads (once (rd_int32 w)) (\<lambda>v m. m\<lparr>sd_height := v\<rparr>)
      else if tag = 48 then reads (once (rd_bool w)) (\<lambda>v m. m\<lparr>sd_cursor_embedded := v\<rparr>)
      else if tag = 58 then reads_some (nested w (dec_SupportedResolutions w))
          (\<lambda>v m. m\<lparr>sd_resolutions := v\<rparr>)
      else if tag = 66 then reads_some (nested w (dec_Resolution w)) (\<lambda>v m. m\<lparr>sd_original_resolution := v\<rparr>)
      else (\<lambda>_. None))"

definition dec_SwitchDisplay :: "wire \<Rightarrow> int \<Rightarrow> SwitchDisplay reader" where
  "dec_SwitchDisplay w = decode w (fld_SwitchDisplay w) SwitchDisplay_base"

definition CaptureDisplays_base :: "(int list \<times> int list \<times> int list)" where
  "CaptureDisplays_base =
     ([], [], [])"

definition enc_CaptureDisplays :: "wire \<Rightarrow> (int list \<times> int list \<times> int list) \<Rightarrow> jsstr + bytes" where
  "enc_CaptureDisplays w m =
     (case m of (add', sub', set') \<Rightarrow>
       enc_all
         [put w 10 (joined w (put_each (wr_int32 w))) add',
          put w 18 (joined w (put_each (wr_int32 w))) sub',
          put w 26 (joined w (put_each (wr_int32 w))) set'])"

definition fld_CaptureDisplays :: "wire \<Rightarrow> int \<Rightarrow> (int list \<times> int list \<times> int list) \<Rightarrow>
    (int list \<times> int list \<times> int list) reader option" where
  "fld_CaptureDisplays w tag =
     (if tag = 8 then pushes (once (rd_int32 w)) (\<lambda>vs (add', sub', set'). (add' @ vs, sub', set'))
      else if tag = 10 then reads (packed w (rd_int32 w)) (\<lambda>vs (add', sub', set'). (add' @ vs, sub', set'))
      else if tag = 16 then pushes (once (rd_int32 w)) (\<lambda>vs (add', sub', set'). (add', sub' @ vs, set'))
      else if tag = 18 then reads (packed w (rd_int32 w)) (\<lambda>vs (add', sub', set'). (add', sub' @ vs, set'))
      else if tag = 24 then pushes (once (rd_int32 w)) (\<lambda>vs (add', sub', set'). (add', sub', set' @ vs))
      else if tag = 26 then reads (packed w (rd_int32 w)) (\<lambda>vs (add', sub', set'). (add', sub', set' @ vs))
      else (\<lambda>_. None))"

definition dec_CaptureDisplays :: "wire \<Rightarrow> int \<Rightarrow> (int list \<times> int list \<times> int list) reader" where
  "dec_CaptureDisplays w = decode w (fld_CaptureDisplays w) CaptureDisplays_base"

definition ToggleVirtualDisplay_base :: "(int \<times> bool)" where
  "ToggleVirtualDisplay_base =
     (0, False)"

definition enc_ToggleVirtualDisplay :: "wire \<Rightarrow> (int \<times> bool) \<Rightarrow> jsstr + bytes" where
  "enc_ToggleVirtualDisplay w m =
     (case m of (display', on') \<Rightarrow>
       enc_all
         [put_if (display' \<noteq> 0) (put w 8 (wr_int32 w) display'),
          put_if on' (put w 16 (wr_bool w) on')])"

definition fld_ToggleVirtualDisplay :: "wire \<Rightarrow> int \<Rightarrow> (int \<times> bool) \<Rightarrow> (int \<times> bool) reader option" where
  "fld_ToggleVirtualDisplay w tag =
     (if tag = 8 then reads (once (rd_int32 w)) (\<lambda>v (_, on'). (v, on'))
      else if tag = 16 then reads (once (rd_bool w)) (\<lambda>v (display', _). (display', v))
      else (\<lambda>_. None))"

definition dec_ToggleVirtualDisplay :: "wire \<Rightarrow> int \<Rightarrow> (int \<times> bool) reader" where
  "dec_ToggleVirtualDisplay w = decode w (fld_ToggleVirtualDisplay w) ToggleVirtualDisplay_base"

definition TogglePrivacyMode_base :: "(jsstr \<times> bool)" where
  "TogglePrivacyMode_base =
     ([], False)"

definition enc_TogglePrivacyMode :: "wire \<Rightarrow> (jsstr \<times> bool) \<Rightarrow> jsstr + bytes" where
  "enc_TogglePrivacyMode w m =
     (case m of (impl_key, on') \<Rightarrow>
       enc_all
         [put_if (impl_key \<noteq> []) (put w 10 (wr_string w) impl_key),
          put_if on' (put w 16 (wr_bool w) on')])"

definition fld_TogglePrivacyMode :: "wire \<Rightarrow> int \<Rightarrow> (jsstr \<times> bool) \<Rightarrow> (jsstr \<times> bool) reader option" where
  "fld_TogglePrivacyMode w tag =
     (if tag = 10 then reads (once (rd_string w)) (\<lambda>v (_, on'). (v, on'))
      else if tag = 16 then reads (once (rd_bool w)) (\<lambda>v (impl_key, _). (impl_key, v))
      else (\<lambda>_. None))"

definition dec_TogglePrivacyMode :: "wire \<Rightarrow> int \<Rightarrow> (jsstr \<times> bool) reader" where
  "dec_TogglePrivacyMode w = decode w (fld_TogglePrivacyMode w) TogglePrivacyMode_base"

definition ok_TogglePrivacyMode :: "(jsstr \<times> bool) \<Rightarrow> bool" where
  "ok_TogglePrivacyMode m \<longleftrightarrow>
      (case m of (impl_key, on') \<Rightarrow> text_ok impl_key)"

definition PermissionInfo_base :: "(int \<times> bool)" where
  "PermissionInfo_base =
     (0, False)"

definition enc_PermissionInfo :: "wire \<Rightarrow> (int \<times> bool) \<Rightarrow> jsstr + bytes" where
  "enc_PermissionInfo w m =
     (case m of (permission, enabled) \<Rightarrow>
       enc_all
         [put_if (permission \<noteq> 0) (put w 8 (wr_int32 w) permission),
          put_if enabled (put w 16 (wr_bool w) enabled)])"

definition fld_PermissionInfo :: "wire \<Rightarrow> int \<Rightarrow> (int \<times> bool) \<Rightarrow> (int \<times> bool) reader option" where
  "fld_PermissionInfo w tag =
     (if tag = 8 then reads (once (rd_int32 w)) (\<lambda>v (_, enabled). (v, enabled))
      else if tag = 16 then reads (once (rd_bool w)) (\<lambda>v (permission, _). (permission, v))
      else (\<lambda>_. None))"

definition dec_PermissionInfo :: "wire \<Rightarrow> int \<Rightarrow> (int \<times> bool) reader" where
  "dec_PermissionInfo w = decode w (fld_PermissionInfo w) PermissionInfo_base"

definition MessageBox_base :: "(jsstr \<times> jsstr \<times> jsstr \<times> jsstr)" where
  "MessageBox_base =
     ([], [], [], [])"

definition enc_MessageBox :: "wire \<Rightarrow> (jsstr \<times> jsstr \<times> jsstr \<times> jsstr) \<Rightarrow> jsstr + bytes" where
  "enc_MessageBox w m =
     (case m of (msgtype, title', text', link') \<Rightarrow>
       enc_all
         [put_if (msgtype \<noteq> []) (put w 10 (wr_string w) msgtype),
          put_if (title' \<noteq> []) (put w 18 (wr_string w) title'),
          put_if (text' \<noteq> []) (put w 26 (wr_string w) text'),
          put_if (link' \<noteq> []) (put w 34 (wr_string w) link')])"

definition fld_MessageBox :: "wire \<Rightarrow> int \<Rightarrow> (jsstr \<times> jsstr \<times> jsstr \<times> jsstr) \<Rightarrow>
    (jsstr \<times> jsstr \<times> jsstr \<times> jsstr) reader option" where
  "fld_MessageBox w tag =
     (if tag = 10 then reads (once (rd_string w)) (\<lambda>v (_, title', text', link'). (v, title', text', link'))
      else if tag = 18 then reads (once (rd_string w))
          (\<lambda>v (msgtype, _, text', link'). (msgtype, v, text', link'))
      else if tag = 26 then reads (once (rd_string w))
          (\<lambda>v (msgtype, title', _, link'). (msgtype, title', v, link'))
      else if tag = 34 then reads (once (rd_string w))
          (\<lambda>v (msgtype, title', text', _). (msgtype, title', text', v))
      else (\<lambda>_. None))"

definition dec_MessageBox :: "wire \<Rightarrow> int \<Rightarrow> (jsstr \<times> jsstr \<times> jsstr \<times> jsstr) reader" where
  "dec_MessageBox w = decode w (fld_MessageBox w) MessageBox_base"

definition ok_MessageBox :: "(jsstr \<times> jsstr \<times> jsstr \<times> jsstr) \<Rightarrow> bool" where
  "ok_MessageBox m \<longleftrightarrow>
      (case m of (msgtype, title', text', link') \<Rightarrow>
          text_ok msgtype \<and> text_ok title' \<and> text_ok text' \<and> text_ok link')"

definition BackNotification_base :: "(BackUnion \<times> jsstr \<times> jsstr)" where
  "BackNotification_base =
     (BU_none, [], [])"

definition enc_BackNotification :: "wire \<Rightarrow> (BackUnion \<times> jsstr \<times> jsstr) \<Rightarrow> jsstr + bytes" where
  "enc_BackNotification w m =
     (case m of (union', details, impl_key) \<Rightarrow>
       enc_all
         [(case union' of
                BU_none \<Rightarrow> Inr []
              | BU_privacy_mode_state v \<Rightarrow> put w 8 (wr_int32 w) v
              | BU_block_input_state v \<Rightarrow> put w 16 (wr_int32 w) v),
          put_if (details \<noteq> []) (put w 26 (wr_string w) details),
          put_if (impl_key \<noteq> []) (put w 34 (wr_string w) impl_key)])"

definition fld_BackNotification :: "wire \<Rightarrow> int \<Rightarrow> (BackUnion \<times> jsstr \<times> jsstr) \<Rightarrow>
    (BackUnion \<times> jsstr \<times> jsstr) reader option" where
  "fld_BackNotification w tag =
     (if tag = 8 then reads (once (rd_int32 w))
         (\<lambda>v (_, details, impl_key). (BU_privacy_mode_state v, details, impl_key))
      else if tag = 16 then reads (once (rd_int32 w))
          (\<lambda>v (_, details, impl_key). (BU_block_input_state v, details, impl_key))
      else if tag = 26 then reads (once (rd_string w)) (\<lambda>v (union', _, impl_key). (union', v, impl_key))
      else if tag = 34 then reads (once (rd_string w)) (\<lambda>v (union', details, _). (union', details, v))
      else (\<lambda>_. None))"

definition dec_BackNotification :: "wire \<Rightarrow> int \<Rightarrow> (BackUnion \<times> jsstr \<times> jsstr) reader" where
  "dec_BackNotification w = decode w (fld_BackNotification w) BackNotification_base"

definition ok_BackNotification :: "(BackUnion \<times> jsstr \<times> jsstr) \<Rightarrow> bool" where
  "ok_BackNotification m \<longleftrightarrow>
      (case m of (union', details, impl_key) \<Rightarrow> text_ok details \<and> text_ok impl_key)"

definition ElevationRequestWithLogon_base :: "(jsstr \<times> jsstr)" where
  "ElevationRequestWithLogon_base =
     ([], [])"

definition enc_ElevationRequestWithLogon :: "wire \<Rightarrow> (jsstr \<times> jsstr) \<Rightarrow> jsstr + bytes" where
  "enc_ElevationRequestWithLogon w m =
     (case m of (username, password) \<Rightarrow>
       enc_all
         [put_if (username \<noteq> []) (put w 10 (wr_string w) username),
          put_if (password \<noteq> []) (put w 18 (wr_string w) password)])"

definition fld_ElevationRequestWithLogon :: "wire \<Rightarrow> int \<Rightarrow> (jsstr \<times> jsstr) \<Rightarrow>
    (jsstr \<times> jsstr) reader option" where
  "fld_ElevationRequestWithLogon w tag =
     (if tag = 10 then reads (once (rd_string w)) (\<lambda>v (_, password). (v, password))
      else if tag = 18 then reads (once (rd_string w)) (\<lambda>v (username, _). (username, v))
      else (\<lambda>_. None))"

definition dec_ElevationRequestWithLogon :: "wire \<Rightarrow> int \<Rightarrow> (jsstr \<times> jsstr) reader" where
  "dec_ElevationRequestWithLogon w = decode w (fld_ElevationRequestWithLogon w) ElevationRequestWithLogon_base"

definition ok_ElevationRequestWithLogon :: "(jsstr \<times> jsstr) \<Rightarrow> bool" where
  "ok_ElevationRequestWithLogon m \<longleftrightarrow>
      (case m of (username, password) \<Rightarrow> text_ok username \<and> text_ok password)"

definition enc_ElevationRequest :: "wire \<Rightarrow> ElevationUnion \<Rightarrow> jsstr + bytes" where
  "enc_ElevationRequest w m =
     (case m of
         EU_none \<Rightarrow> Inr []
       | EU_direct v \<Rightarrow> put w 8 (wr_bool w) v
       | EU_logon username password \<Rightarrow>
           put w 18 (joined w (enc_ElevationRequestWithLogon w)) (username, password))"

definition fld_ElevationRequest :: "wire \<Rightarrow> int \<Rightarrow> ElevationUnion \<Rightarrow> ElevationUnion reader option" where
  "fld_ElevationRequest w tag =
     (if tag = 8 then reads (once (rd_bool w)) (\<lambda>v _. EU_direct v)
      else if tag = 18 then reads (nested w (dec_ElevationRequestWithLogon w))
          (\<lambda>(username, password) _. EU_logon username password)
      else (\<lambda>_. None))"

definition dec_ElevationRequest :: "wire \<Rightarrow> int \<Rightarrow> ElevationUnion reader" where
  "dec_ElevationRequest w = decode w (fld_ElevationRequest w) EU_none"

definition ok_ElevationRequest :: "ElevationUnion \<Rightarrow> bool" where
  "ok_ElevationRequest m \<longleftrightarrow>
      (case m of
        EU_logon username password \<Rightarrow> ok_ElevationRequestWithLogon (username, password)
      | _ \<Rightarrow> True)"

definition enc_SwitchSidesRequest :: "wire \<Rightarrow> bytes \<Rightarrow> jsstr + bytes" where
  "enc_SwitchSidesRequest w uuid =
     put_if (uuid \<noteq> []) (put w 10 (wr_bytes w) uuid)"

definition fld_SwitchSidesRequest :: "wire \<Rightarrow> int \<Rightarrow> bytes \<Rightarrow> bytes reader option" where
  "fld_SwitchSidesRequest w tag =
     (if tag = 10 then reads (once (rd_bytes w)) (\<lambda>v _. v)
      else (\<lambda>_. None))"

definition dec_SwitchSidesRequest :: "wire \<Rightarrow> int \<Rightarrow> bytes reader" where
  "dec_SwitchSidesRequest w = decode w (fld_SwitchSidesRequest w) []"

definition SwitchSidesResponse_base :: "(bytes \<times> LoginRequest option)" where
  "SwitchSidesResponse_base =
     ([], None)"

definition enc_SwitchSidesResponse :: "wire \<Rightarrow> (bytes \<times> LoginRequest option) \<Rightarrow> jsstr + bytes" where
  "enc_SwitchSidesResponse w m =
     (case m of (uuid, lr) \<Rightarrow>
       enc_all
         [put_if (uuid \<noteq> []) (put w 10 (wr_bytes w) uuid),
          put_some (put w 18 (joined w (enc_LoginRequest w))) lr])"

definition fld_SwitchSidesResponse :: "wire \<Rightarrow> int \<Rightarrow> (bytes \<times> LoginRequest option) \<Rightarrow>
    (bytes \<times> LoginRequest option) reader option" where
  "fld_SwitchSidesResponse w tag =
     (if tag = 10 then reads (once (rd_bytes w)) (\<lambda>v (_, lr). (v, lr))
      else if tag = 18 then reads_some (nested w (dec_LoginRequest w)) (\<lambda>v (uuid, _). (uuid, v))
      else (\<lambda>_. None))"

definition dec_SwitchSidesResponse :: "wire \<Rightarrow> int \<Rightarrow> (bytes \<times> LoginRequest option) reader" where
  "dec_SwitchSidesResponse w = decode w (fld_SwitchSidesResponse w) SwitchSidesResponse_base"

definition ok_SwitchSidesResponse :: "(bytes \<times> LoginRequest option) \<Rightarrow> bool" where
  "ok_SwitchSidesResponse m \<longleftrightarrow>
      (case m of (uuid, lr) \<Rightarrow> pred_option ok_LoginRequest lr)"

definition enc_SwitchBack :: "wire \<Rightarrow> unit \<Rightarrow> jsstr + bytes" where
  "enc_SwitchBack w _ = Inr []"

definition fld_SwitchBack :: "wire \<Rightarrow> int \<Rightarrow> unit \<Rightarrow> unit reader option" where
  "fld_SwitchBack w tag _ = None"

definition dec_SwitchBack :: "wire \<Rightarrow> int \<Rightarrow> unit reader" where
  "dec_SwitchBack w = decode w (fld_SwitchBack w) ()"

definition PluginRequest_base :: "(jsstr \<times> bytes)" where
  "PluginRequest_base =
     ([], [])"

definition enc_PluginRequest :: "wire \<Rightarrow> (jsstr \<times> bytes) \<Rightarrow> jsstr + bytes" where
  "enc_PluginRequest w m =
     (case m of (id', content) \<Rightarrow>
       enc_all
         [put_if (id' \<noteq> []) (put w 10 (wr_string w) id'),
          put_if (content \<noteq> []) (put w 18 (wr_bytes w) content)])"

definition fld_PluginRequest :: "wire \<Rightarrow> int \<Rightarrow> (jsstr \<times> bytes) \<Rightarrow> (jsstr \<times> bytes) reader option" where
  "fld_PluginRequest w tag =
     (if tag = 10 then reads (once (rd_string w)) (\<lambda>v (_, content). (v, content))
      else if tag = 18 then reads (once (rd_bytes w)) (\<lambda>v (id', _). (id', v))
      else (\<lambda>_. None))"

definition dec_PluginRequest :: "wire \<Rightarrow> int \<Rightarrow> (jsstr \<times> bytes) reader" where
  "dec_PluginRequest w = decode w (fld_PluginRequest w) PluginRequest_base"

definition ok_PluginRequest :: "(jsstr \<times> bytes) \<Rightarrow> bool" where
  "ok_PluginRequest m \<longleftrightarrow>
      (case m of (id', content) \<Rightarrow> text_ok id')"

definition PluginFailure_base :: "(jsstr \<times> jsstr \<times> jsstr)" where
  "PluginFailure_base =
     ([], [], [])"

definition enc_PluginFailure :: "wire \<Rightarrow> (jsstr \<times> jsstr \<times> jsstr) \<Rightarrow> jsstr + bytes" where
  "enc_PluginFailure w m =
     (case m of (id', name', msg') \<Rightarrow>
       enc_all
         [put_if (id' \<noteq> []) (put w 10 (wr_string w) id'),
          put_if (name' \<noteq> []) (put w 18 (wr_string w) name'),
          put_if (msg' \<noteq> []) (put w 26 (wr_string w) msg')])"

definition fld_PluginFailure :: "wire \<Rightarrow> int \<Rightarrow> (jsstr \<times> jsstr \<times> jsstr) \<Rightarrow>
    (jsstr \<times> jsstr \<times> jsstr) reader option" where
  "fld_PluginFailure w tag =
     (if tag = 10 then reads (once (rd_string w)) (\<lambda>v (_, name', msg'). (v, name', msg'))
      else if tag = 18 then reads (once (rd_string w)) (\<lambda>v (id', _, msg'). (id', v, msg'))
      else if tag = 26 then reads (once (rd_string w)) (\<lambda>v (id', name', _). (id', name', v))
      else (\<lambda>_. None))"

definition dec_PluginFailure :: "wire \<Rightarrow> int \<Rightarrow> (jsstr \<times> jsstr \<times> jsstr) reader" where
  "dec_PluginFailure w = decode w (fld_PluginFailure w) PluginFailure_base"

definition ok_PluginFailure :: "(jsstr \<times> jsstr \<times> jsstr) \<Rightarrow> bool" where
  "ok_PluginFailure m \<longleftrightarrow>
      (case m of (id', name', msg') \<Rightarrow> text_ok id' \<and> text_ok name' \<and> text_ok msg')"

definition enc_MessageQuery :: "wire \<Rightarrow> int \<Rightarrow> jsstr + bytes" where
  "enc_MessageQuery w switch_display =
     put_if (switch_display \<noteq> 0) (put w 8 (wr_int32 w) switch_display)"

definition fld_MessageQuery :: "wire \<Rightarrow> int \<Rightarrow> int \<Rightarrow> int reader option" where
  "fld_MessageQuery w tag =
     (if tag = 8 then reads (once (rd_int32 w)) (\<lambda>v _. v)
      else (\<lambda>_. None))"

definition dec_MessageQuery :: "wire \<Rightarrow> int \<Rightarrow> int reader" where
  "dec_MessageQuery w = decode w (fld_MessageQuery w) 0"

definition enc_Misc :: "wire \<Rightarrow> Misc \<Rightarrow> jsstr + bytes" where
  "enc_Misc w m =
     (case m of
         X_none \<Rightarrow> Inr []
       | X_chat_message v \<Rightarrow> put w 34 (joined w (enc_ChatMessage w)) v
       | X_switch_display v \<Rightarrow> put w 42 (joined w (enc_SwitchDisplay w)) v
       | X_permission_info permission enabled \<Rightarrow>
           put w 50 (joined w (enc_PermissionInfo w)) (permission, enabled)
       | X_option v \<Rightarrow> put w 58 (joined w (enc_OptionMessage w)) v
       | X_audio_format sample_rate channels' \<Rightarrow>
           put w 66 (joined w (enc_AudioFormat w)) (sample_rate, channels')
       | X_close_reason v \<Rightarrow> put w 74 (wr_string w) v
       | X_refresh_video v \<Rightarrow> put w 80 (wr_bool w) v
       | X_video_received v \<Rightarrow> put w 96 (wr_bool w) v
       | X_back_notification union' details impl_key \<Rightarrow>
           put w 106 (joined w (enc_BackNotification w)) (union', details, impl_key)
       | X_restart_remote_device v \<Rightarrow> put w 112 (wr_bool w) v
       | X_uac v \<Rightarrow> put w 120 (wr_bool w) v
       | X_foreground_window_elevated v \<Rightarrow> put w 128 (wr_bool w) v
       | X_stop_service v \<Rightarrow> put w 136 (wr_bool w) v
       | X_elevation_request v \<Rightarrow> put w 146 (joined w (enc_ElevationRequest w)) v
       | X_elevation_response v \<Rightarrow> put w 154 (wr_string w) v
       | X_portable_service_running v \<Rightarrow> put w 160 (wr_bool w) v
       | X_switch_sides_request v \<Rightarrow> put w 170 (joined w (enc_SwitchSidesRequest w)) v
       | X_switch_back \<Rightarrow> put w 178 (joined w (enc_SwitchBack w)) ()
       | X_change_resolution v \<Rightarrow> put w 194 (joined w (enc_Resolution w)) v
       | X_plugin_request id' content \<Rightarrow> put w 202 (joined w (enc_PluginRequest w)) (id', content)
       | X_plugin_failure id' name' msg' \<Rightarrow> put w 210 (joined w (enc_PluginFailure w)) (id', name', msg')
       | X_full_speed_fps v \<Rightarrow> put w 216 (wr_uint32 w) v
       | X_auto_adjust_fps v \<Rightarrow> put w 224 (wr_uint32 w) v
       | X_client_record_status v \<Rightarrow> put w 232 (wr_bool w) v
       | X_capture_displays add' sub' set' \<Rightarrow> put w 242 (joined w (enc_CaptureDisplays w)) (add', sub', set')
       | X_refresh_video_display v \<Rightarrow> put w 248 (wr_int32 w) v
       | X_toggle_virtual_display display' on' \<Rightarrow>
           put w 258 (joined w (enc_ToggleVirtualDisplay w)) (display', on')
       | X_toggle_privacy_mode impl_key on' \<Rightarrow> put w 266 (joined w (enc_TogglePrivacyMode w)) (impl_key, on')
       | X_supported_encoding v \<Rightarrow> put w 274 (joined w (enc_SupportedEncoding w)) v
       | X_selected_sid v \<Rightarrow> put w 280 (wr_uint32 w) v
       | X_change_display_resolution display' resolution \<Rightarrow>
           put w 290 (joined w (enc_DisplayResolution w)) (display', resolution)
       | X_message_query v \<Rightarrow> put w 298 (joined w (enc_MessageQuery w)) v
       | X_follow_current_display v \<Rightarrow> put w 304 (wr_int32 w) v)"

definition fld_Misc :: "wire \<Rightarrow> int \<Rightarrow> Misc \<Rightarrow> Misc reader option" where
  "fld_Misc w tag =
     (if tag = 34 then reads (nested w (dec_ChatMessage w)) (\<lambda>v _. X_chat_message v)
      else if tag = 42 then reads (nested w (dec_SwitchDisplay w)) (\<lambda>v _. X_switch_display v)
      else if tag = 50 then reads (nested w (dec_PermissionInfo w))
          (\<lambda>(permission, enabled) _. X_permission_info permission enabled)
      else if tag = 58 then reads (nested w (dec_OptionMessage w)) (\<lambda>v _. X_option v)
      else if tag = 66 then reads (nested w (dec_AudioFormat w))
          (\<lambda>(sample_rate, channels') _. X_audio_format sample_rate channels')
      else if tag = 74 then reads (once (rd_string w)) (\<lambda>v _. X_close_reason v)
      else if tag = 80 then reads (once (rd_bool w)) (\<lambda>v _. X_refresh_video v)
      else if tag = 96 then reads (once (rd_bool w)) (\<lambda>v _. X_video_received v)
      else if tag = 106 then reads (nested w (dec_BackNotification w))
          (\<lambda>(union', details, impl_key) _. X_back_notification union' details impl_key)
      else if tag = 112 then reads (once (rd_bool w)) (\<lambda>v _. X_restart_remote_device v)
      else if tag = 120 then reads (once (rd_bool w)) (\<lambda>v _. X_uac v)
      else if tag = 128 then reads (once (rd_bool w)) (\<lambda>v _. X_foreground_window_elevated v)
      else if tag = 136 then reads (once (rd_bool w)) (\<lambda>v _. X_stop_service v)
      else if tag = 146 then reads (nested w (dec_ElevationRequest w)) (\<lambda>v _. X_elevation_request v)
      else if tag = 154 then reads (once (rd_string w)) (\<lambda>v _. X_elevation_response v)
      else if tag = 160 then reads (once (rd_bool w)) (\<lambda>v _. X_portable_service_running v)
      else if tag = 170 then reads (nested w (dec_SwitchSidesRequest w)) (\<lambda>v _. X_switch_sides_request v)
      else if tag = 178 then reads (nested w (dec_SwitchBack w)) (\<lambda>_ _. X_switch_back)
      else if tag = 194 then reads (nested w (dec_Resolution w)) (\<lambda>v _. X_change_resolution v)
      else if tag = 202 then reads (nested w (dec_PluginRequest w))
          (\<lambda>(id', content) _. X_plugin_request id' content)
      else if tag = 210 then reads (nested w (dec_PluginFailure w))
          (\<lambda>(id', name', msg') _. X_plugin_failure id' name' msg')
      else if tag = 216 then reads (once (rd_uint32 w)) (\<lambda>v _. X_full_speed_fps v)
      else if tag = 224 then reads (once (rd_uint32 w)) (\<lambda>v _. X_auto_adjust_fps v)
      else if tag = 232 then reads (once (rd_bool w)) (\<lambda>v _. X_client_record_status v)
      else if tag = 242 then reads (nested w (dec_CaptureDisplays w))
          (\<lambda>(add', sub', set') _. X_capture_displays add' sub' set')
      else if tag = 248 then reads (once (rd_int32 w)) (\<lambda>v _. X_refresh_video_display v)
      else if tag = 258 then reads (nested w (dec_ToggleVirtualDisplay w))
          (\<lambda>(display', on') _. X_toggle_virtual_display display' on')
      else if tag = 266 then reads (nested w (dec_TogglePrivacyMode w))
          (\<lambda>(impl_key, on') _. X_toggle_privacy_mode impl_key on')
      else if tag = 274 then reads (nested w (dec_SupportedEncoding w)) (\<lambda>v _. X_supported_encoding v)
      else if tag = 280 then reads (once (rd_uint32 w)) (\<lambda>v _. X_selected_sid v)
      else if tag = 290 then reads (nested w (dec_DisplayResolution w))
          (\<lambda>(display', resolution) _. X_change_display_resolution display' resolution)
      else if tag = 298 then reads (nested w (dec_MessageQuery w)) (\<lambda>v _. X_message_query v)
      else if tag = 304 then reads (once (rd_int32 w)) (\<lambda>v _. X_follow_current_display v)
      else (\<lambda>_. None))"

definition dec_Misc :: "wire \<Rightarrow> int \<Rightarrow> Misc reader" where
  "dec_Misc w = decode w (fld_Misc w) X_none"

definition ok_Misc :: "Misc \<Rightarrow> bool" where
  "ok_Misc m \<longleftrightarrow>
      (case m of
        X_chat_message v \<Rightarrow> ok_ChatMessage v
      | X_close_reason v \<Rightarrow> text_ok v
      | X_back_notification union' details impl_key \<Rightarrow> ok_BackNotification (union', details, impl_key)
      | X_elevation_request v \<Rightarrow> ok_ElevationRequest v
      | X_elevation_response v \<Rightarrow> text_ok v
      | X_plugin_request id' content \<Rightarrow> ok_PluginRequest (id', content)
      | X_plugin_failure id' name' msg' \<Rightarrow> ok_PluginFailure (id', name', msg')
      | X_toggle_privacy_mode impl_key on' \<Rightarrow> ok_TogglePrivacyMode (impl_key, on')
      | _ \<Rightarrow> True)"

definition VoiceCallRequest_base :: "(int \<times> bool)" where
  "VoiceCallRequest_base =
     (0, False)"

definition enc_VoiceCallRequest :: "wire \<Rightarrow> (int \<times> bool) \<Rightarrow> jsstr + bytes" where
  "enc_VoiceCallRequest w m =
     (case m of (req_timestamp, is_connect) \<Rightarrow>
       enc_all
         [put_if (req_timestamp \<noteq> 0)
             (guarded (fits_int64 req_timestamp) ''message.req_timestamp of type int64 too large''
                 (put w 8 (wr_int64 w) req_timestamp)),
          put_if is_connect (put w 16 (wr_bool w) is_connect)])"

definition fld_VoiceCallRequest :: "wire \<Rightarrow> int \<Rightarrow> (int \<times> bool) \<Rightarrow> (int \<times> bool) reader option" where
  "fld_VoiceCallRequest w tag =
     (if tag = 8 then reads (once (rd_int64 w)) (\<lambda>v (_, is_connect). (v, is_connect))
      else if tag = 16 then reads (once (rd_bool w)) (\<lambda>v (req_timestamp, _). (req_timestamp, v))
      else (\<lambda>_. None))"

definition dec_VoiceCallRequest :: "wire \<Rightarrow> int \<Rightarrow> (int \<times> bool) reader" where
  "dec_VoiceCallRequest w = decode w (fld_VoiceCallRequest w) VoiceCallRequest_base"

definition VoiceCallResponse_base :: "(bool \<times> int \<times> int)" where
  "VoiceCallResponse_base =
     (False, 0, 0)"

definition enc_VoiceCallResponse :: "wire \<Rightarrow> (bool \<times> int \<times> int) \<Rightarrow> jsstr + bytes" where
  "enc_VoiceCallResponse w m =
     (case m of (accepted, req_timestamp, ack_timestamp) \<Rightarrow>
       enc_all
         [put_if accepted (put w 8 (wr_bool w) accepted),
          put_if (req_timestamp \<noteq> 0)
              (guarded (fits_int64 req_timestamp) ''message.req_timestamp of type int64 too large''
                  (put w 16 (wr_int64 w) req_timestamp)),
          put_if (ack_timestamp \<noteq> 0)
              (guarded (fits_int64 ack_timestamp) ''message.ack_timestamp of type int64 too large''
                  (put w 24 (wr_int64 w) ack_timestamp))])"

definition fld_VoiceCallResponse :: "wire \<Rightarrow> int \<Rightarrow> (bool \<times> int \<times> int) \<Rightarrow>
    (bool \<times> int \<times> int) reader option" where
  "fld_VoiceCallResponse w tag =
     (if tag = 8 then reads (once (rd_bool w))
         (\<lambda>v (_, req_timestamp, ack_timestamp). (v, req_timestamp, ack_timestamp))
      else if tag = 16 then reads (once (rd_int64 w))
          (\<lambda>v (accepted, _, ack_timestamp). (accepted, v, ack_timestamp))
      else if tag = 24 then reads (once (rd_int64 w))
          (\<lambda>v (accepted, req_timestamp, _). (accepted, req_timestamp, v))
      else (\<lambda>_. None))"

definition dec_VoiceCallResponse :: "wire \<Rightarrow> int \<Rightarrow> (bool \<times> int \<times> int) reader" where
  "dec_VoiceCallResponse w = decode w (fld_VoiceCallResponse w) VoiceCallResponse_base"

definition OpenTerminal_base :: "(int \<times> int \<times> int)" where
  "OpenTerminal_base =
     (0, 0, 0)"

definition enc_OpenTerminal :: "wire \<Rightarrow> (int \<times> int \<times> int) \<Rightarrow> jsstr + bytes" where
  "enc_OpenTerminal w m =
     (case m of (terminal_id, rows', cols') \<Rightarrow>
       enc_all
         [put_if (terminal_id \<noteq> 0) (put w 8 (wr_int32 w) terminal_id),
          put_if (rows' \<noteq> 0) (put w 16 (wr_uint32 w) rows'),
          put_if (cols' \<noteq> 0) (put w 24 (wr_uint32 w) cols')])"

definition fld_OpenTerminal :: "wire \<Rightarrow> int \<Rightarrow> (int \<times> int \<times> int) \<Rightarrow> (int \<times> int \<times> int) reader option" where
  "fld_OpenTerminal w tag =
     (if tag = 8 then reads (once (rd_int32 w)) (\<lambda>v (_, rows', cols'). (v, rows', cols'))
      else if tag = 16 then reads (once (rd_uint32 w)) (\<lambda>v (terminal_id, _, cols'). (terminal_id, v, cols'))
      else if tag = 24 then reads (once (rd_uint32 w)) (\<lambda>v (terminal_id, rows', _). (terminal_id, rows', v))
      else (\<lambda>_. None))"

definition dec_OpenTerminal :: "wire \<Rightarrow> int \<Rightarrow> (int \<times> int \<times> int) reader" where
  "dec_OpenTerminal w = decode w (fld_OpenTerminal w) OpenTerminal_base"

definition ResizeTerminal_base :: "(int \<times> int \<times> int)" where
  "ResizeTerminal_base =
     (0, 0, 0)"

definition enc_ResizeTerminal :: "wire \<Rightarrow> (int \<times> int \<times> int) \<Rightarrow> jsstr + bytes" where
  "enc_ResizeTerminal w m =
     (case m of (terminal_id, rows', cols') \<Rightarrow>
       enc_all
         [put_if (terminal_id \<noteq> 0) (put w 8 (wr_int32 w) terminal_id),
          put_if (rows' \<noteq> 0) (put w 16 (wr_uint32 w) rows'),
          put_if (cols' \<noteq> 0) (put w 24 (wr_uint32 w) cols')])"

definition fld_ResizeTerminal :: "wire \<Rightarrow> int \<Rightarrow> (int \<times> int \<times> int) \<Rightarrow> (int \<times> int \<times> int) reader option" where
  "fld_ResizeTerminal w tag =
     (if tag = 8 then reads (once (rd_int32 w)) (\<lambda>v (_, rows', cols'). (v, rows', cols'))
      else if tag = 16 then reads (once (rd_uint32 w)) (\<lambda>v (terminal_id, _, cols'). (terminal_id, v, cols'))
      else if tag = 24 then reads (once (rd_uint32 w)) (\<lambda>v (terminal_id, rows', _). (terminal_id, rows', v))
      else (\<lambda>_. None))"

definition dec_ResizeTerminal :: "wire \<Rightarrow> int \<Rightarrow> (int \<times> int \<times> int) reader" where
  "dec_ResizeTerminal w = decode w (fld_ResizeTerminal w) ResizeTerminal_base"

definition TerminalData_base :: "TerminalData" where
  "TerminalData_base =
     \<lparr>tmd_terminal_id = 0, tmd_data = [], tmd_compressed = False\<rparr>"

definition enc_TerminalData :: "wire \<Rightarrow> TerminalData \<Rightarrow> jsstr + bytes" where
  "enc_TerminalData w m =
     enc_all
       [put_if (tmd_terminal_id m \<noteq> 0) (put w 8 (wr_int32 w) (tmd_terminal_id m)),
        put_if (tmd_data m \<noteq> []) (put w 18 (wr_bytes w) (tmd_data m)),
        put_if (tmd_compressed m) (put w 24 (wr_bool w) (tmd_compressed m))]"

definition fld_TerminalData :: "wire \<Rightarrow> int \<Rightarrow> TerminalData \<Rightarrow> TerminalData reader option" where
  "fld_TerminalData w tag =
     (if tag = 8 then reads (once (rd_int32 w)) (\<lambda>v m. m\<lparr>tmd_terminal_id := v\<rparr>)
      else if tag = 18 then reads (once (rd_bytes w)) (\<lambda>v m. m\<lparr>tmd_data := v\<rparr>)
      else if tag = 24 then reads (once (rd_bool w)) (\<lambda>v m. m\<lparr>tmd_compressed := v\<rparr>)
      else (\<lambda>_. None))"

definition dec_TerminalData :: "wire \<Rightarrow> int \<Rightarrow> TerminalData reader" where
  "dec_TerminalData w = decode w (fld_TerminalData w) TerminalData_base"

definition enc_CloseTerminal :: "wire \<Rightarrow> int \<Rightarrow> jsstr + bytes" where
  "enc_CloseTerminal w terminal_id =
     put_if (terminal_id \<noteq> 0) (put w 8 (wr_int32 w) terminal_id)"

definition fld_CloseTerminal :: "wire \<Rightarrow> int \<Rightarrow> int \<Rightarrow> int reader option" where
  "fld_CloseTerminal w tag =
     (if tag = 8 then reads (once (rd_int32 w)) (\<lambda>v _. v)
      else (\<lambda>_. None))"

definition dec_CloseTerminal :: "wire \<Rightarrow> int \<Rightarrow> int reader" where
  "dec_CloseTerminal w = decode w (fld_CloseTerminal w) 0"

definition enc_TerminalAction :: "wire \<Rightarrow> TerminalAction \<Rightarrow> jsstr + bytes" where
  "enc_TerminalAction w m =
     (case m of
         TA_none \<Rightarrow> Inr []
       | TA_open terminal_id rows' cols' \<Rightarrow>
           put w 10 (joined w (enc_OpenTerminal w)) (terminal_id, rows', cols')
       | TA_data v \<Rightarrow> put w 18 (joined w (enc_TerminalData w)) v
       | TA_resize terminal_id rows' cols' \<Rightarrow>
           put w 26 (joined w (enc_ResizeTerminal w)) (terminal_id, rows', cols')
       | TA_close v \<Rightarrow> put w 34 (joined w (enc_CloseTerminal w)) v)"

definition fld_TerminalAction :: "wire \<Rightarrow> int \<Rightarrow> TerminalAction \<Rightarrow> TerminalAction reader option" where
  "fld_TerminalAction w tag =
     (if tag = 10 then reads (nested w (dec_OpenTerminal w))
         (\<lambda>(terminal_id, rows', cols') _. TA_open terminal_id rows' cols')
      else if tag = 18 then reads (nested w (dec_TerminalData w)) (\<lambda>v _. TA_data v)
      else if tag = 26 then reads (nested w (dec_ResizeTerminal w))
          (\<lambda>(terminal_id, rows', cols') _. TA_resize terminal_id rows' cols')
      else if tag = 34 then reads (nested w (dec_CloseTerminal w)) (\<lambda>v _. TA_close v)
      else (\<lambda>_. None))"

definition dec_TerminalAction :: "wire \<Rightarrow> int \<Rightarrow> TerminalAction reader" where
  "dec_TerminalAction w = decode w (fld_TerminalAction w) TA_none"

definition TerminalOpened_base :: "TerminalOpened" where
  "TerminalOpened_base =
     \<lparr>to_terminal_id = 0, to_success = False, to_message = [], to_pid = 0, to_service_id = [],
      to_persistent_sessions = [], to_replay_terminal_output = False\<rparr>"

definition enc_TerminalOpened :: "wire \<Rightarrow> TerminalOpened \<Rightarrow> jsstr + bytes" where
  "enc_TerminalOpened w m =
     enc_all
       [put_if (to_terminal_id m \<noteq> 0) (put w 8 (wr_int32 w) (to_terminal_id m)),
        put_if (to_success m) (put w 16 (wr_bool w) (to_success m)),
        put_if (to_message m \<noteq> []) (put w 26 (wr_string w) (to_message m)),
        put_if (to_pid m \<noteq> 0) (put w 32 (wr_uint32 w) (to_pid m)),
        put_if (to_service_id m \<noteq> []) (put w 42 (wr_string w) (to_service_id m)),
        put w 50 (joined w (put_each (wr_int32 w))) (to_persistent_sessions m),
        put_if (to_replay_terminal_output m) (put w 56 (wr_bool w) (to_replay_terminal_output m))]"

definition fld_TerminalOpened :: "wire \<Rightarrow> int \<Rightarrow> TerminalOpened \<Rightarrow> TerminalOpened reader option" where
  "fld_TerminalOpened w tag =
     (if tag = 8 then reads (once (rd_int32 w)) (\<lambda>v m. m\<lparr>to_terminal_id := v\<rparr>)
      else if tag = 16 then reads (once (rd_bool w)) (\<lambda>v m. m\<lparr>to_success := v\<rparr>)
      else if tag = 26 then reads (once (rd_string w)) (\<lambda>v m. m\<lparr>to_message := v\<rparr>)
      else if tag = 32 then reads (once (rd_uint32 w)) (\<lambda>v m. m\<lparr>to_pid := v\<rparr>)
      else if tag = 42 then reads (once (rd_string w)) (\<lambda>v m. m\<lparr>to_service_id := v\<rparr>)
      else if tag = 48 then pushes (once (rd_int32 w))
          (\<lambda>vs m. m\<lparr>to_persistent_sessions := to_persistent_sessions m @ vs\<rparr>)
      else if tag = 50 then reads (packed w (rd_int32 w))
          (\<lambda>vs m. m\<lparr>to_persistent_sessions := to_persistent_sessions m @ vs\<rparr>)
      else if tag = 56 then reads (once (rd_bool w)) (\<lambda>v m. m\<lparr>to_replay_terminal_output := v\<rparr>)
      else (\<lambda>_. None))"

definition dec_TerminalOpened :: "wire \<Rightarrow> int \<Rightarrow> TerminalOpened reader" where
  "dec_TerminalOpened w = decode w (fld_TerminalOpened w) TerminalOpened_base"

definition ok_TerminalOpened :: "TerminalOpened \<Rightarrow> bool" where
  "ok_TerminalOpened m \<longleftrightarrow>
      text_ok (to_message m) \<and>
      text_ok (to_service_id m)"

definition TerminalClosed_base :: "(int \<times> int)" where
  "TerminalClosed_base =
     (0, 0)"

definition enc_TerminalClosed :: "wire \<Rightarrow> (int \<times> int) \<Rightarrow> jsstr + bytes" where
  "enc_TerminalClosed w m =
     (case m of (terminal_id, exit_code) \<Rightarrow>
       enc_all
         [put_if (terminal_id \<noteq> 0) (put w 8 (wr_int32 w) terminal_id),
          put_if (exit_code \<noteq> 0) (put w 16 (wr_int32 w) exit_code)])"

definition fld_TerminalClosed :: "wire \<Rightarrow> int \<Rightarrow> (int \<times> int) \<Rightarrow> (int \<times> int) reader option" where
  "fld_TerminalClosed w tag =
     (if tag = 8 then reads (once (rd_int32 w)) (\<lambda>v (_, exit_code). (v, exit_code))
      else if tag = 16 then reads (once (rd_int32 w)) (\<lambda>v (terminal_id, _). (terminal_id, v))
      else (\<lambda>_. None))"

definition dec_TerminalClosed :: "wire \<Rightarrow> int \<Rightarrow> (int \<times> int) reader" where
  "dec_TerminalClosed w = decode w (fld_TerminalClosed w) TerminalClosed_base"

definition TerminalError_base :: "(int \<times> jsstr)" where
  "TerminalError_base =
     (0, [])"

definition enc_TerminalError :: "wire \<Rightarrow> (int \<times> jsstr) \<Rightarrow> jsstr + bytes" where
  "enc_TerminalError w m =
     (case m of (terminal_id, message) \<Rightarrow>
       enc_all
         [put_if (terminal_id \<noteq> 0) (put w 8 (wr_int32 w) terminal_id),
          put_if (message \<noteq> []) (put w 18 (wr_string w) message)])"

definition fld_TerminalError :: "wire \<Rightarrow> int \<Rightarrow> (int \<times> jsstr) \<Rightarrow> (int \<times> jsstr) reader option" where
  "fld_TerminalError w tag =
     (if tag = 8 then reads (once (rd_int32 w)) (\<lambda>v (_, message). (v, message))
      else if tag = 18 then reads (once (rd_string w)) (\<lambda>v (terminal_id, _). (terminal_id, v))
      else (\<lambda>_. None))"

definition dec_TerminalError :: "wire \<Rightarrow> int \<Rightarrow> (int \<times> jsstr) reader" where
  "dec_TerminalError w = decode w (fld_TerminalError w) TerminalError_base"

definition ok_TerminalError :: "(int \<times> jsstr) \<Rightarrow> bool" where
  "ok_TerminalError m \<longleftrightarrow>
      (case m of (terminal_id, message) \<Rightarrow> text_ok message)"

definition enc_TerminalResponse :: "wire \<Rightarrow> TerminalResponse \<Rightarrow> jsstr + bytes" where
  "enc_TerminalResponse w m =
     (case m of
         TR_none \<Rightarrow> Inr []
       | TR_opened v \<Rightarrow> put w 10 (joined w (enc_TerminalOpened w)) v
       | TR_data v \<Rightarrow> put w 18 (joined w (enc_TerminalData w)) v
       | TR_closed terminal_id exit_code \<Rightarrow>
           put w 26 (joined w (enc_TerminalClosed w)) (terminal_id, exit_code)
       | TR_error terminal_id message \<Rightarrow> put w 34 (joined w (enc_TerminalError w)) (terminal_id, message))"

definition fld_TerminalResponse :: "wire \<Rightarrow> int \<Rightarrow> TerminalResponse \<Rightarrow> TerminalResponse reader option" where
  "fld_TerminalResponse w tag =
     (if tag = 10 then reads (nested w (dec_TerminalOpened w)) (\<lambda>v _. TR_opened v)
      else if tag = 18 then reads (nested w (dec_TerminalData w)) (\<lambda>v _. TR_data v)
      else if tag = 26 then reads (nested w (dec_TerminalClosed w))
          (\<lambda>(terminal_id, exit_code) _. TR_closed terminal_id exit_code)
      else if tag = 34 then reads (nested w (dec_TerminalError w))
          (\<lambda>(terminal_id, message) _. TR_error terminal_id message)
      else (\<lambda>_. None))"

definition dec_TerminalResponse :: "wire \<Rightarrow> int \<Rightarrow> TerminalResponse reader" where
  "dec_TerminalResponse w = decode w (fld_TerminalResponse w) TR_none"

definition ok_TerminalResponse :: "TerminalResponse \<Rightarrow> bool" where
  "ok_TerminalResponse m \<longleftrightarrow>
      (case m of
        TR_opened v \<Rightarrow> ok_TerminalOpened v
      | TR_error terminal_id message \<Rightarrow> ok_TerminalError (terminal_id, message)
      | _ \<Rightarrow> True)"

section \<open>Round trips and termination\<close>

context wire_format
begin

lemma back_ChatMessage [codec_backs]:
    "ok_ChatMessage m \<Longrightarrow> codec_back (enc_ChatMessage w) (dec_ChatMessage w) m"
  unfolding dec_ChatMessage_def
  by (rule codec_backI; clarsimp simp: enc_ChatMessage_def ok_ChatMessage_def;
      (erule loop_rules, (simp add: fld_ChatMessage_def codec_backs laws_back)+)+)

lemma ends_ChatMessage [decoder_ends]: "settles (dec_ChatMessage w len)"
  unfolding dec_ChatMessage_def
  by (rule decode_settles)
    (auto simp: fld_ChatMessage_def split: if_splits elim!: settle_rules intro!: settle_intros decoder_ends)

lemma back_SwitchDisplay [codec_backs]: "codec_back (enc_SwitchDisplay w) (dec_SwitchDisplay w) m"
  unfolding dec_SwitchDisplay_def
  by (cases m; rule codec_backI; clarsimp simp: enc_SwitchDisplay_def SwitchDisplay_base_def;
      (erule loop_rules, (simp add: fld_SwitchDisplay_def codec_backs laws_back)+)+)

lemma ends_SwitchDisplay [decoder_ends]: "settles (dec_SwitchDisplay w len)"
  unfolding dec_SwitchDisplay_def
  by (rule decode_settles)
    (auto simp: fld_SwitchDisplay_def split: if_splits elim!: settle_rules intro!: settle_intros decoder_ends)

lemma back_CaptureDisplays [codec_backs]: "codec_back (enc_CaptureDisplays w) (dec_CaptureDisplays w) m"
  unfolding dec_CaptureDisplays_def
  by (cases m rule: prod_cases3; rule codec_backI; clarsimp simp: enc_CaptureDisplays_def CaptureDisplays_base_def;
      (erule loop_rules, (simp add: fld_CaptureDisplays_def codec_backs laws_back split_beta)+)+)

lemma ends_CaptureDisplays [decoder_ends]: "settles (dec_CaptureDisplays w len)"
  unfolding dec_CaptureDisplays_def
  by (rule decode_settles)
    (auto simp: fld_CaptureDisplays_def split: if_splits elim!: settle_rules intro!: settle_intros decoder_ends)

lemma back_ToggleVirtualDisplay [codec_backs]:
    "codec_back (enc_ToggleVirtualDisplay w) (dec_ToggleVirtualDisplay w) m"
  unfolding dec_ToggleVirtualDisplay_def
  by (cases m; rule codec_backI; clarsimp simp: enc_ToggleVirtualDisplay_def ToggleVirtualDisplay_base_def;
      (erule loop_rules, (simp add: fld_ToggleVirtualDisplay_def codec_backs laws_back)+)+)

lemma ends_ToggleVirtualDisplay [decoder_ends]: "settles (dec_ToggleVirtualDisplay w len)"
  unfolding dec_ToggleVirtualDisplay_def
  by (rule decode_settles)
    (auto simp: fld_ToggleVirtualDisplay_def split: if_splits elim!: settle_rules intro!: settle_intros decoder_ends)

lemma back_TogglePrivacyMode [codec_backs]:
    "ok_TogglePrivacyMode m \<Longrightarrow> codec_back (enc_TogglePrivacyMode w) (dec_TogglePrivacyMode w) m"
  unfolding dec_TogglePrivacyMode_def
  by (cases m; rule codec_backI; clarsimp simp: enc_TogglePrivacyMode_def ok_TogglePrivacyMode_def TogglePrivacyMode_base_def;
      (erule loop_rules, (simp add: fld_TogglePrivacyMode_def codec_backs laws_back)+)+)

lemma ends_TogglePrivacyMode [decoder_ends]: "settles (dec_TogglePrivacyMode w len)"
  unfolding dec_TogglePrivacyMode_def
  by (rule decode_settles)
    (auto simp: fld_TogglePrivacyMode_def split: if_splits elim!: settle_rules intro!: settle_intros decoder_ends)

lemma back_PermissionInfo [codec_backs]: "codec_back (enc_PermissionInfo w) (dec_PermissionInfo w) m"
  unfolding dec_PermissionInfo_def
  by (cases m; rule codec_backI; clarsimp simp: enc_PermissionInfo_def PermissionInfo_base_def;
      (erule loop_rules, (simp add: fld_PermissionInfo_def codec_backs laws_back)+)+)

lemma ends_PermissionInfo [decoder_ends]: "settles (dec_PermissionInfo w len)"
  unfolding dec_PermissionInfo_def
  by (rule decode_settles)
    (auto simp: fld_PermissionInfo_def split: if_splits elim!: settle_rules intro!: settle_intros decoder_ends)

lemma back_MessageBox [codec_backs]: "ok_MessageBox m \<Longrightarrow> codec_back (enc_MessageBox w) (dec_MessageBox w) m"
  unfolding dec_MessageBox_def
  by (cases m rule: prod_cases4; rule codec_backI; clarsimp simp: enc_MessageBox_def ok_MessageBox_def MessageBox_base_def;
      (erule loop_rules, (simp add: fld_MessageBox_def codec_backs laws_back)+)+)

lemma ends_MessageBox [decoder_ends]: "settles (dec_MessageBox w len)"
  unfolding dec_MessageBox_def
  by (rule decode_settles)
    (auto simp: fld_MessageBox_def split: if_splits elim!: settle_rules intro!: settle_intros decoder_ends)

lemma back_BackNotification [codec_backs]:
    "ok_BackNotification m \<Longrightarrow> codec_back (enc_BackNotification w) (dec_BackNotification w) m"
  unfolding dec_BackNotification_def
  by (cases m rule: prod_cases3; cases
      "fst m"; rule codec_backI; clarsimp simp: enc_BackNotification_def ok_BackNotification_def BackNotification_base_def;
      (erule loop_rules, (simp add: fld_BackNotification_def codec_backs laws_back)+)+)

lemma ends_BackNotification [decoder_ends]: "settles (dec_BackNotification w len)"
  unfolding dec_BackNotification_def
  by (rule decode_settles)
    (auto simp: fld_BackNotification_def split: if_splits elim!: settle_rules intro!: settle_intros decoder_ends)

lemma back_ElevationRequestWithLogon [codec_backs]:
    "ok_ElevationRequestWithLogon m \<Longrightarrow> codec_back (enc_ElevationRequestWithLogon w) (dec_ElevationRequestWithLogon w) m"
  unfolding dec_ElevationRequestWithLogon_def
  by (cases m; rule codec_backI; clarsimp simp: enc_ElevationRequestWithLogon_def ok_ElevationRequestWithLogon_def ElevationRequestWithLogon_base_def;
      (erule loop_rules, (simp add: fld_ElevationRequestWithLogon_def codec_backs laws_back)+)+)

lemma ends_ElevationRequestWithLogon [decoder_ends]: "settles (dec_ElevationRequestWithLogon w len)"
  unfolding dec_ElevationRequestWithLogon_def
  by (rule decode_settles)
    (auto simp: fld_ElevationRequestWithLogon_def split: if_splits elim!: settle_rules intro!: settle_intros decoder_ends)

lemma back_ElevationRequest [codec_backs]:
    "ok_ElevationRequest m \<Longrightarrow> codec_back (enc_ElevationRequest w) (dec_ElevationRequest w) m"
  unfolding dec_ElevationRequest_def
  by (cases m; rule codec_backI; clarsimp simp: enc_ElevationRequest_def ok_ElevationRequest_def;
      (erule loop_rules, (simp add: fld_ElevationRequest_def codec_backs laws_back)+)+)

lemma ends_ElevationRequest [decoder_ends]: "settles (dec_ElevationRequest w len)"
  unfolding dec_ElevationRequest_def
  by (rule decode_settles)
    (auto simp: fld_ElevationRequest_def split: if_splits elim!: settle_rules intro!: settle_intros decoder_ends)

lemma back_SwitchSidesRequest [codec_backs]:
    "codec_back (enc_SwitchSidesRequest w) (dec_SwitchSidesRequest w) m"
  unfolding dec_SwitchSidesRequest_def
  by (rule codec_backI; clarsimp simp: enc_SwitchSidesRequest_def;
      (erule loop_rules, (simp add: fld_SwitchSidesRequest_def codec_backs laws_back)+)+)

lemma ends_SwitchSidesRequest [decoder_ends]: "settles (dec_SwitchSidesRequest w len)"
  unfolding dec_SwitchSidesRequest_def
  by (rule decode_settles)
    (auto simp: fld_SwitchSidesRequest_def split: if_splits elim!: settle_rules intro!: settle_intros decoder_ends)

lemma back_SwitchSidesResponse [codec_backs]:
    "ok_SwitchSidesResponse m \<Longrightarrow> codec_back (enc_SwitchSidesResponse w) (dec_SwitchSidesResponse w) m"
  unfolding dec_SwitchSidesResponse_def
  by (cases m; rule codec_backI; clarsimp simp: enc_SwitchSidesResponse_def ok_SwitchSidesResponse_def SwitchSidesResponse_base_def;
      (erule loop_rules, (simp add: fld_SwitchSidesResponse_def codec_backs laws_back)+)+)

lemma ends_SwitchSidesResponse [decoder_ends]: "settles (dec_SwitchSidesResponse w len)"
  unfolding dec_SwitchSidesResponse_def
  by (rule decode_settles)
    (auto simp: fld_SwitchSidesResponse_def split: if_splits elim!: settle_rules intro!: settle_intros decoder_ends)

lemma back_SwitchBack [codec_backs]: "codec_back (enc_SwitchBack w) (dec_SwitchBack w) m"
  unfolding dec_SwitchBack_def
  by (rule codec_backI; clarsimp simp: enc_SwitchBack_def;
      (erule loop_rules, (simp add: fld_SwitchBack_def codec_backs laws_back)+)+)

lemma ends_SwitchBack [decoder_ends]: "settles (dec_SwitchBack w len)"
  unfolding dec_SwitchBack_def
  by (rule decode_settles)
    (auto simp: fld_SwitchBack_def split: if_splits elim!: settle_rules intro!: settle_intros decoder_ends)

lemma back_PluginRequest [codec_backs]:
    "ok_PluginRequest m \<Longrightarrow> codec_back (enc_PluginRequest w) (dec_PluginRequest w) m"
  unfolding dec_PluginRequest_def
  by (cases m; rule codec_backI; clarsimp simp: enc_PluginRequest_def ok_PluginRequest_def PluginRequest_base_def;
      (erule loop_rules, (simp add: fld_PluginRequest_def codec_backs laws_back)+)+)

lemma ends_PluginRequest [decoder_ends]: "settles (dec_PluginRequest w len)"
  unfolding dec_PluginRequest_def
  by (rule decode_settles)
    (auto simp: fld_PluginRequest_def split: if_splits elim!: settle_rules intro!: settle_intros decoder_ends)

lemma back_PluginFailure [codec_backs]:
    "ok_PluginFailure m \<Longrightarrow> codec_back (enc_PluginFailure w) (dec_PluginFailure w) m"
  unfolding dec_PluginFailure_def
  by (cases m rule: prod_cases3; rule codec_backI; clarsimp simp: enc_PluginFailure_def ok_PluginFailure_def PluginFailure_base_def;
      (erule loop_rules, (simp add: fld_PluginFailure_def codec_backs laws_back)+)+)

lemma ends_PluginFailure [decoder_ends]: "settles (dec_PluginFailure w len)"
  unfolding dec_PluginFailure_def
  by (rule decode_settles)
    (auto simp: fld_PluginFailure_def split: if_splits elim!: settle_rules intro!: settle_intros decoder_ends)

lemma back_MessageQuery [codec_backs]: "codec_back (enc_MessageQuery w) (dec_MessageQuery w) m"
  unfolding dec_MessageQuery_def
  by (rule codec_backI; clarsimp simp: enc_MessageQuery_def;
      (erule loop_rules, (simp add: fld_MessageQuery_def codec_backs laws_back)+)+)

lemma ends_MessageQuery [decoder_ends]: "settles (dec_MessageQuery w len)"
  unfolding dec_MessageQuery_def
  by (rule decode_settles)
    (auto simp: fld_MessageQuery_def split: if_splits elim!: settle_rules intro!: settle_intros decoder_ends)

lemma back_Misc [codec_backs]: "ok_Misc m \<Longrightarrow> codec_back (enc_Misc w) (dec_Misc w) m"
  unfolding dec_Misc_def
  by (cases m; rule codec_backI; clarsimp simp: enc_Misc_def ok_Misc_def;
      (erule loop_rules, (simp add: fld_Misc_def codec_backs laws_back)+)+)

lemma ends_Misc [decoder_ends]: "settles (dec_Misc w len)"
  unfolding dec_Misc_def
  by (rule decode_settles)
    (auto simp: fld_Misc_def split: if_splits elim!: settle_rules intro!: settle_intros decoder_ends)

lemma back_VoiceCallRequest [codec_backs]: "codec_back (enc_VoiceCallRequest w) (dec_VoiceCallRequest w) m"
  unfolding dec_VoiceCallRequest_def
  by (cases m; rule codec_backI; clarsimp simp: enc_VoiceCallRequest_def VoiceCallRequest_base_def;
      (erule loop_rules, (simp add: fld_VoiceCallRequest_def codec_backs laws_back)+)+)

lemma ends_VoiceCallRequest [decoder_ends]: "settles (dec_VoiceCallRequest w len)"
  unfolding dec_VoiceCallRequest_def
  by (rule decode_settles)
    (auto simp: fld_VoiceCallRequest_def split: if_splits elim!: settle_rules intro!: settle_intros decoder_ends)

lemma back_VoiceCallResponse [codec_backs]:
    "codec_back (enc_VoiceCallResponse w) (dec_VoiceCallResponse w) m"
  unfolding dec_VoiceCallResponse_def
  by (cases m rule: prod_cases3; rule codec_backI; clarsimp simp: enc_VoiceCallResponse_def VoiceCallResponse_base_def;
      (erule loop_rules, (simp add: fld_VoiceCallResponse_def codec_backs laws_back)+)+)

lemma ends_VoiceCallResponse [decoder_ends]: "settles (dec_VoiceCallResponse w len)"
  unfolding dec_VoiceCallResponse_def
  by (rule decode_settles)
    (auto simp: fld_VoiceCallResponse_def split: if_splits elim!: settle_rules intro!: settle_intros decoder_ends)

lemma back_OpenTerminal [codec_backs]: "codec_back (enc_OpenTerminal w) (dec_OpenTerminal w) m"
  unfolding dec_OpenTerminal_def
  by (cases m rule: prod_cases3; rule codec_backI; clarsimp simp: enc_OpenTerminal_def OpenTerminal_base_def;
      (erule loop_rules, (simp add: fld_OpenTerminal_def codec_backs laws_back)+)+)

lemma ends_OpenTerminal [decoder_ends]: "settles (dec_OpenTerminal w len)"
  unfolding dec_OpenTerminal_def
  by (rule decode_settles)
    (auto simp: fld_OpenTerminal_def split: if_splits elim!: settle_rules intro!: settle_intros decoder_ends)

lemma back_ResizeTerminal [codec_backs]: "codec_back (enc_ResizeTerminal w) (dec_ResizeTerminal w) m"
  unfolding dec_ResizeTerminal_def
  by (cases m rule: prod_cases3; rule codec_backI; clarsimp simp: enc_ResizeTerminal_def ResizeTerminal_base_def;
      (erule loop_rules, (simp add: fld_ResizeTerminal_def codec_backs laws_back)+)+)

lemma ends_ResizeTerminal [decoder_ends]: "settles (dec_ResizeTerminal w len)"
  unfolding dec_ResizeTerminal_def
  by (rule decode_settles)
    (auto simp: fld_ResizeTerminal_def split: if_splits elim!: settle_rules intro!: settle_intros decoder_ends)

lemma back_TerminalData [codec_backs]: "codec_back (enc_TerminalData w) (dec_TerminalData w) m"
  unfolding dec_TerminalData_def
  by (cases m; rule codec_backI; clarsimp simp: enc_TerminalData_def TerminalData_base_def;
      (erule loop_rules, (simp add: fld_TerminalData_def codec_backs laws_back)+)+)

lemma ends_TerminalData [decoder_ends]: "settles (dec_TerminalData w len)"
  unfolding dec_TerminalData_def
  by (rule decode_settles)
    (auto simp: fld_TerminalData_def split: if_splits elim!: settle_rules intro!: settle_intros decoder_ends)

lemma back_CloseTerminal [codec_backs]: "codec_back (enc_CloseTerminal w) (dec_CloseTerminal w) m"
  unfolding dec_CloseTerminal_def
  by (rule codec_backI; clarsimp simp: enc_CloseTerminal_def;
      (erule loop_rules, (simp add: fld_CloseTerminal_def codec_backs laws_back)+)+)

lemma ends_CloseTerminal [decoder_ends]: "settles (dec_CloseTerminal w len)"
  unfolding dec_CloseTerminal_def
  by (rule decode_settles)
    (auto simp: fld_CloseTerminal_def split: if_splits elim!: settle_rules intro!: settle_intros decoder_ends)

lemma back_TerminalAction [codec_backs]: "codec_back (enc_TerminalAction w) (dec_TerminalAction w) m"
  unfolding dec_TerminalAction_def
  by (cases m; rule codec_backI; clarsimp simp: enc_TerminalAction_def;
      (erule loop_rules, (simp add: fld_TerminalAction_def codec_backs laws_back)+)+)

lemma ends_TerminalAction [decoder_ends]: "settles (dec_TerminalAction w len)"
  unfolding dec_TerminalAction_def
  by (rule decode_settles)
    (auto simp: fld_TerminalAction_def split: if_splits elim!: settle_rules intro!: settle_intros decoder_ends)

lemma back_TerminalOpened [codec_backs]:
    "ok_TerminalOpened m \<Longrightarrow> codec_back (enc_TerminalOpened w) (dec_TerminalOpened w) m"
  unfolding dec_TerminalOpened_def
  by (cases m; rule codec_backI; clarsimp simp: enc_TerminalOpened_def ok_TerminalOpened_def TerminalOpened_base_def;
      (erule loop_rules, (simp add: fld_TerminalOpened_def codec_backs laws_back)+)+)

lemma ends_TerminalOpened [decoder_ends]: "settles (dec_TerminalOpened w len)"
  unfolding dec_TerminalOpened_def
  by (rule decode_settles)
    (auto simp: fld_TerminalOpened_def split: if_splits elim!: settle_rules intro!: settle_intros decoder_ends)

lemma back_TerminalClosed [codec_backs]: "codec_back (enc_TerminalClosed w) (dec_TerminalClosed w) m"
  unfolding dec_TerminalClosed_def
  by (cases m; rule codec_backI; clarsimp simp: enc_TerminalClosed_def TerminalClosed_base_def;
      (erule loop_rules, (simp add: fld_TerminalClosed_def codec_backs laws_back)+)+)

lemma ends_TerminalClosed [decoder_ends]: "settles (dec_TerminalClosed w len)"
  unfolding dec_TerminalClosed_def
  by (rule decode_settles)
    (auto simp: fld_TerminalClosed_def split: if_splits elim!: settle_rules intro!: settle_intros decoder_ends)

lemma back_TerminalError [codec_backs]:
    "ok_TerminalError m \<Longrightarrow> codec_back (enc_TerminalError w) (dec_TerminalError w) m"
  unfolding dec_TerminalError_def
  by (cases m; rule codec_backI; clarsimp simp: enc_TerminalError_def ok_TerminalError_def TerminalError_base_def;
      (erule loop_rules, (simp add: fld_TerminalError_def codec_backs laws_back)+)+)

lemma ends_TerminalError [decoder_ends]: "settles (dec_TerminalError w len)"
  unfolding dec_TerminalError_def
  by (rule decode_settles)
    (auto simp: fld_TerminalError_def split: if_splits elim!: settle_rules intro!: settle_intros decoder_ends)

lemma back_TerminalResponse [codec_backs]:
    "ok_TerminalResponse m \<Longrightarrow> codec_back (enc_TerminalResponse w) (dec_TerminalResponse w) m"
  unfolding dec_TerminalResponse_def
  by (cases m; rule codec_backI; clarsimp simp: enc_TerminalResponse_def ok_TerminalResponse_def;
      (erule loop_rules, (simp add: fld_TerminalResponse_def codec_backs laws_back)+)+)

lemma ends_TerminalResponse [decoder_ends]: "settles (dec_TerminalResponse w len)"
  unfolding dec_TerminalResponse_def
  by (rule decode_settles)
    (auto simp: fld_TerminalResponse_def split: if_splits elim!: settle_rules intro!: settle_intros decoder_ends)

end

end
