(* ===== verification/Codec_Message.thy ===== *)
theory Codec_Message
  imports Codec_Input Codec_Files Codec_Session
begin

text \<open>
  The generated code of the the union of all peer messages in \<open>webclient/src/gen/message.ts\<close>. For a
  message \<open>X\<close>, \<open>enc_X\<close> is its \<open>encode\<close>, \<open>fld_X\<close> the \<open>switch\<close> on the tag inside its \<open>decode\<close>,
  \<open>dec_X\<close> its \<open>decode\<close>, and \<open>ok_X\<close> says that its strings survive UTF-8 (and its numbers are
  doubles). What \<open>encode\<close> wrote, \<open>decode\<close> reads back, and \<open>decode\<close> ends on every input.
\<close>

section \<open>Encoders and decoders\<close>

definition enc_Message :: "wire \<Rightarrow> Message \<Rightarrow> jsstr + bytes" where
  "enc_Message w m =
     (case m of
         M_none \<Rightarrow> Inr []
       | M_signed_id v \<Rightarrow> put w 26 (joined w (enc_SignedId w)) v
       | M_public_key v \<Rightarrow> put w 34 (joined w (enc_PublicKey w)) v
       | M_test_delay v \<Rightarrow> put w 42 (joined w (enc_TestDelay w)) v
       | M_video_frame v \<Rightarrow> put w 50 (joined w (enc_VideoFrame w)) v
       | M_login_request v \<Rightarrow> put w 58 (joined w (enc_LoginRequest w)) v
       | M_login_response v \<Rightarrow> put w 66 (joined w (enc_LoginResponse w)) v
       | M_hash salt challenge \<Rightarrow> put w 74 (joined w (enc_Hash w)) (salt, challenge)
       | M_mouse_event v \<Rightarrow> put w 82 (joined w (enc_MouseEvent w)) v
       | M_audio_frame v \<Rightarrow> put w 90 (joined w (enc_AudioFrame w)) v
       | M_cursor_data v \<Rightarrow> put w 98 (joined w (enc_CursorData w)) v
       | M_cursor_position x' y' \<Rightarrow> put w 106 (joined w (enc_CursorPosition w)) (x', y')
       | M_cursor_id v \<Rightarrow> guarded (fits_uint64 v) ''message.union.cursor_id of type uint64 too large''
           (put w 112 (wr_uint64 w) v)
       | M_key_event v \<Rightarrow> put w 122 (joined w (enc_KeyEvent w)) v
       | M_clipboard v \<Rightarrow> put w 130 (joined w (enc_Clipboard w)) v
       | M_file_action v \<Rightarrow> put w 138 (joined w (enc_FileAction w)) v
       | M_file_response v \<Rightarrow> put w 146 (joined w (enc_FileResponse w)) v
       | M_misc v \<Rightarrow> put w 154 (joined w (enc_Misc w)) v
       | M_cliprdr v \<Rightarrow> put w 162 (joined w (enc_Cliprdr w)) v
       | M_message_box msgtype title' text' link' \<Rightarrow>
           put w 170 (joined w (enc_MessageBox w)) (msgtype, title', text', link')
       | M_switch_sides_response uuid lr \<Rightarrow> put w 178 (joined w (enc_SwitchSidesResponse w)) (uuid, lr)
       | M_voice_call_request req_timestamp is_connect \<Rightarrow>
           put w 186 (joined w (enc_VoiceCallRequest w)) (req_timestamp, is_connect)
       | M_voice_call_response accepted req_timestamp ack_timestamp \<Rightarrow>
           put w 194 (joined w (enc_VoiceCallResponse w)) (accepted, req_timestamp, ack_timestamp)
       | M_peer_info v \<Rightarrow> put w 202 (joined w (enc_PeerInfo w)) v
       | M_pointer_device_event union' modifiers \<Rightarrow>
           put w 210 (joined w (enc_PointerDeviceEvent w)) (union', modifiers)
       | M_auth_2fa code' hwid \<Rightarrow> put w 218 (joined w (enc_Auth2FA w)) (code', hwid)
       | M_multi_clipboards v \<Rightarrow> put w 226 (joined w (enc_MultiClipboards w)) v
       | M_screenshot_request display' sid' \<Rightarrow>
           put w 234 (joined w (enc_ScreenshotRequest w)) (display', sid')
       | M_screenshot_response sid' msg' data' \<Rightarrow>
           put w 242 (joined w (enc_ScreenshotResponse w)) (sid', msg', data')
       | M_terminal_action v \<Rightarrow> put w 250 (joined w (enc_TerminalAction w)) v
       | M_terminal_response v \<Rightarrow> put w 258 (joined w (enc_TerminalResponse w)) v)"

definition fld_Message :: "wire \<Rightarrow> int \<Rightarrow> Message \<Rightarrow> Message reader option" where
  "fld_Message w tag =
     (if tag = 26 then reads (nested w (dec_SignedId w)) (\<lambda>v _. M_signed_id v)
      else if tag = 34 then reads (nested w (dec_PublicKey w)) (\<lambda>v _. M_public_key v)
      else if tag = 42 then reads (nested w (dec_TestDelay w)) (\<lambda>v _. M_test_delay v)
      else if tag = 50 then reads (nested w (dec_VideoFrame w)) (\<lambda>v _. M_video_frame v)
      else if tag = 58 then reads (nested w (dec_LoginRequest w)) (\<lambda>v _. M_login_request v)
      else if tag = 66 then reads (nested w (dec_LoginResponse w)) (\<lambda>v _. M_login_response v)
      else if tag = 74 then reads (nested w (dec_Hash w)) (\<lambda>(salt, challenge) _. M_hash salt challenge)
      else if tag = 82 then reads (nested w (dec_MouseEvent w)) (\<lambda>v _. M_mouse_event v)
      else if tag = 90 then reads (nested w (dec_AudioFrame w)) (\<lambda>v _. M_audio_frame v)
      else if tag = 98 then reads (nested w (dec_CursorData w)) (\<lambda>v _. M_cursor_data v)
      else if tag = 106 then reads (nested w (dec_CursorPosition w)) (\<lambda>(x', y') _. M_cursor_position x' y')
      else if tag = 112 then reads (once (rd_uint64 w)) (\<lambda>v _. M_cursor_id v)
      else if tag = 122 then reads (nested w (dec_KeyEvent w)) (\<lambda>v _. M_key_event v)
      else if tag = 130 then reads (nested w (dec_Clipboard w)) (\<lambda>v _. M_clipboard v)
      else if tag = 138 then reads (nested w (dec_FileAction w)) (\<lambda>v _. M_file_action v)
      else if tag = 146 then reads (nested w (dec_FileResponse w)) (\<lambda>v _. M_file_response v)
      else if tag = 154 then reads (nested w (dec_Misc w)) (\<lambda>v _. M_misc v)
      else if tag = 162 then reads (nested w (dec_Cliprdr w)) (\<lambda>v _. M_cliprdr v)
      else if tag = 170 then reads (nested w (dec_MessageBox w))
          (\<lambda>(msgtype, title', text', link') _. M_message_box msgtype title' text' link')
      else if tag = 178 then reads (nested w (dec_SwitchSidesResponse w))
          (\<lambda>(uuid, lr) _. M_switch_sides_response uuid lr)
      else if tag = 186 then reads (nested w (dec_VoiceCallRequest w))
          (\<lambda>(req_timestamp, is_connect) _. M_voice_call_request req_timestamp is_connect)
      else if tag = 194 then reads (nested w (dec_VoiceCallResponse w))
          (\<lambda>(accepted, req_timestamp,
              ack_timestamp) _. M_voice_call_response accepted req_timestamp ack_timestamp)
      else if tag = 202 then reads (nested w (dec_PeerInfo w)) (\<lambda>v _. M_peer_info v)
      else if tag = 210 then reads (nested w (dec_PointerDeviceEvent w))
          (\<lambda>(union', modifiers) _. M_pointer_device_event union' modifiers)
      else if tag = 218 then reads (nested w (dec_Auth2FA w)) (\<lambda>(code', hwid) _. M_auth_2fa code' hwid)
      else if tag = 226 then reads (nested w (dec_MultiClipboards w)) (\<lambda>v _. M_multi_clipboards v)
      else if tag = 234 then reads (nested w (dec_ScreenshotRequest w))
          (\<lambda>(display', sid') _. M_screenshot_request display' sid')
      else if tag = 242 then reads (nested w (dec_ScreenshotResponse w))
          (\<lambda>(sid', msg', data') _. M_screenshot_response sid' msg' data')
      else if tag = 250 then reads (nested w (dec_TerminalAction w)) (\<lambda>v _. M_terminal_action v)
      else if tag = 258 then reads (nested w (dec_TerminalResponse w)) (\<lambda>v _. M_terminal_response v)
      else (\<lambda>_. None))"

definition dec_Message :: "wire \<Rightarrow> int \<Rightarrow> Message reader" where
  "dec_Message w = decode w (fld_Message w) M_none"

definition ok_Message :: "Message \<Rightarrow> bool" where
  "ok_Message m \<longleftrightarrow>
      (case m of
        M_login_request v \<Rightarrow> ok_LoginRequest v
      | M_login_response v \<Rightarrow> ok_LoginResponse v
      | M_hash salt challenge \<Rightarrow> ok_Hash (salt, challenge)
      | M_key_event v \<Rightarrow> ok_KeyEvent v
      | M_clipboard v \<Rightarrow> ok_Clipboard v
      | M_file_action v \<Rightarrow> ok_FileAction v
      | M_file_response v \<Rightarrow> ok_FileResponse v
      | M_misc v \<Rightarrow> ok_Misc v
      | M_cliprdr v \<Rightarrow> ok_Cliprdr v
      | M_message_box msgtype title' text' link' \<Rightarrow> ok_MessageBox (msgtype, title', text', link')
      | M_switch_sides_response uuid lr \<Rightarrow> ok_SwitchSidesResponse (uuid, lr)
      | M_peer_info v \<Rightarrow> ok_PeerInfo v
      | M_auth_2fa code' hwid \<Rightarrow> ok_Auth2FA (code', hwid)
      | M_multi_clipboards v \<Rightarrow> ok_MultiClipboards v
      | M_screenshot_request display' sid' \<Rightarrow> ok_ScreenshotRequest (display', sid')
      | M_screenshot_response sid' msg' data' \<Rightarrow> ok_ScreenshotResponse (sid', msg', data')
      | M_terminal_response v \<Rightarrow> ok_TerminalResponse v
      | _ \<Rightarrow> True)"

text \<open>The field numbers of the union.\<close>

definition Message_fields :: "int list" where
  "Message_fields =
     [3, 4, 5, 6, 7, 8, 9, 10, 11, 12, 13, 14, 15, 16, 17, 18, 19, 20, 21, 22, 23, 24, 25, 26, 27, 28,
      29, 30, 31, 32]"

section \<open>Round trips and termination\<close>

context wire_format
begin

lemma back_Message [codec_backs]: "ok_Message m \<Longrightarrow> codec_back (enc_Message w) (dec_Message w) m"
  unfolding dec_Message_def
  by (cases m; rule codec_backI; clarsimp simp: enc_Message_def ok_Message_def;
      (erule loop_rules, (simp add: fld_Message_def codec_backs laws_back)+)+)

lemma ends_Message [decoder_ends]: "settles (dec_Message w len)"
  unfolding dec_Message_def
  by (rule decode_settles)
    (auto simp: fld_Message_def split: if_splits elim!: settle_rules intro!: settle_intros decoder_ends)

text \<open>The loop goes on behind an encoded message, and a tag outside the union is left to \<open>skip\<close>.\<close>

lemma loop_Message:
  "ok_Message m \<Longrightarrow> enc_Message w m = Inr bs \<Longrightarrow> stop \<le> int (length rest) \<Longrightarrow>
   decode_loop w (fld_Message w) stop M_none (bs @ rest) = decode_loop w (fld_Message w) stop m rest"
  by (cases m; clarsimp simp: enc_Message_def ok_Message_def;
      (erule loop_rules, (simp add: fld_Message_def codec_backs laws_back)+)+)

lemma fld_Message_unknown:
  assumes "tag div 8 \<notin> set Message_fields"
  shows "fld_Message w tag = (\<lambda>_. None)"
  using assms by (auto simp: fld_Message_def Message_fields_def)

end

end
