(* ===== verification/Codec_Rendezvous.thy ===== *)
theory Codec_Rendezvous
  imports Wire
begin

text \<open>
  The generated code of the rendezvous messages in \<open>webclient/src/gen/rendezvous.ts\<close>. For a
  message \<open>X\<close>, \<open>enc_X\<close> is its \<open>encode\<close>, \<open>fld_X\<close> the \<open>switch\<close> on the tag inside its \<open>decode\<close>,
  \<open>dec_X\<close> its \<open>decode\<close>, and \<open>ok_X\<close> says that its strings survive UTF-8 (and its numbers are
  doubles). What \<open>encode\<close> wrote, \<open>decode\<close> reads back, and \<open>decode\<close> ends on every input.
\<close>

section \<open>Encoders and decoders\<close>

definition RegisterPeer_base :: "(jsstr \<times> int)" where
  "RegisterPeer_base =
     ([], 0)"

definition enc_RegisterPeer :: "wire \<Rightarrow> (jsstr \<times> int) \<Rightarrow> jsstr + bytes" where
  "enc_RegisterPeer w m =
     (case m of (id', serial') \<Rightarrow>
       enc_all
         [put_if (id' \<noteq> []) (put w 10 (wr_string w) id'),
          put_if (serial' \<noteq> 0) (put w 16 (wr_int32 w) serial')])"

definition fld_RegisterPeer :: "wire \<Rightarrow> int \<Rightarrow> (jsstr \<times> int) \<Rightarrow> (jsstr \<times> int) reader option" where
  "fld_RegisterPeer w tag =
     (if tag = 10 then reads (once (rd_string w)) (\<lambda>v (_, serial'). (v, serial'))
      else if tag = 16 then reads (once (rd_int32 w)) (\<lambda>v (id', _). (id', v))
      else (\<lambda>_. None))"

definition dec_RegisterPeer :: "wire \<Rightarrow> int \<Rightarrow> (jsstr \<times> int) reader" where
  "dec_RegisterPeer w = decode w (fld_RegisterPeer w) RegisterPeer_base"

definition ok_RegisterPeer :: "(jsstr \<times> int) \<Rightarrow> bool" where
  "ok_RegisterPeer m \<longleftrightarrow>
      (case m of (id', serial') \<Rightarrow> text_ok id')"

definition enc_RegisterPeerResponse :: "wire \<Rightarrow> bool \<Rightarrow> jsstr + bytes" where
  "enc_RegisterPeerResponse w request_pk =
     put_if request_pk (put w 16 (wr_bool w) request_pk)"

definition fld_RegisterPeerResponse :: "wire \<Rightarrow> int \<Rightarrow> bool \<Rightarrow> bool reader option" where
  "fld_RegisterPeerResponse w tag =
     (if tag = 16 then reads (once (rd_bool w)) (\<lambda>v _. v)
      else (\<lambda>_. None))"

definition dec_RegisterPeerResponse :: "wire \<Rightarrow> int \<Rightarrow> bool reader" where
  "dec_RegisterPeerResponse w = decode w (fld_RegisterPeerResponse w) False"

definition enc_PunchHoleRequest :: "wire \<Rightarrow> PunchHoleRequest \<Rightarrow> jsstr + bytes" where
  "enc_PunchHoleRequest w m =
     enc_all
       [put_if (phr_id m \<noteq> []) (put w 10 (wr_string w) (phr_id m)),
        put_if (phr_nat_type m \<noteq> 0) (put w 16 (wr_int32 w) (phr_nat_type m)),
        put_if (phr_licence_key m \<noteq> []) (put w 26 (wr_string w) (phr_licence_key m)),
        put_if (phr_conn_type m \<noteq> 0) (put w 32 (wr_int32 w) (phr_conn_type m)),
        put_if (phr_token m \<noteq> []) (put w 42 (wr_string w) (phr_token m)),
        put_if (phr_version m \<noteq> []) (put w 50 (wr_string w) (phr_version m)),
        put_if (phr_udp_port m \<noteq> 0) (put w 56 (wr_int32 w) (phr_udp_port m)),
        put_if (phr_force_relay m) (put w 64 (wr_bool w) (phr_force_relay m)),
        put_if (phr_upnp_port m \<noteq> 0) (put w 72 (wr_int32 w) (phr_upnp_port m)),
        put_if (phr_socket_addr_v6 m \<noteq> []) (put w 82 (wr_bytes w) (phr_socket_addr_v6 m)),
        put_if (phr_switch_code m \<noteq> []) (put w 90 (wr_string w) (phr_switch_code m))]"

definition fld_PunchHoleRequest :: "wire \<Rightarrow> int \<Rightarrow> PunchHoleRequest \<Rightarrow> PunchHoleRequest reader option" where
  "fld_PunchHoleRequest w tag =
     (if tag = 10 then reads (once (rd_string w)) (\<lambda>v m. m\<lparr>phr_id := v\<rparr>)
      else if tag = 16 then reads (once (rd_int32 w)) (\<lambda>v m. m\<lparr>phr_nat_type := v\<rparr>)
      else if tag = 26 then reads (once (rd_string w)) (\<lambda>v m. m\<lparr>phr_licence_key := v\<rparr>)
      else if tag = 32 then reads (once (rd_int32 w)) (\<lambda>v m. m\<lparr>phr_conn_type := v\<rparr>)
      else if tag = 42 then reads (once (rd_string w)) (\<lambda>v m. m\<lparr>phr_token := v\<rparr>)
      else if tag = 50 then reads (once (rd_string w)) (\<lambda>v m. m\<lparr>phr_version := v\<rparr>)
      else if tag = 56 then reads (once (rd_int32 w)) (\<lambda>v m. m\<lparr>phr_udp_port := v\<rparr>)
      else if tag = 64 then reads (once (rd_bool w)) (\<lambda>v m. m\<lparr>phr_force_relay := v\<rparr>)
      else if tag = 72 then reads (once (rd_int32 w)) (\<lambda>v m. m\<lparr>phr_upnp_port := v\<rparr>)
      else if tag = 82 then reads (once (rd_bytes w)) (\<lambda>v m. m\<lparr>phr_socket_addr_v6 := v\<rparr>)
      else if tag = 90 then reads (once (rd_string w)) (\<lambda>v m. m\<lparr>phr_switch_code := v\<rparr>)
      else (\<lambda>_. None))"

definition dec_PunchHoleRequest :: "wire \<Rightarrow> int \<Rightarrow> PunchHoleRequest reader" where
  "dec_PunchHoleRequest w = decode w (fld_PunchHoleRequest w) PunchHoleRequest_base"

definition ok_PunchHoleRequest :: "PunchHoleRequest \<Rightarrow> bool" where
  "ok_PunchHoleRequest m \<longleftrightarrow>
      text_ok (phr_id m) \<and>
      text_ok (phr_licence_key m) \<and>
      text_ok (phr_token m) \<and>
      text_ok (phr_version m) \<and>
      text_ok (phr_switch_code m)"

definition enc_ControlPermissions :: "wire \<Rightarrow> int \<Rightarrow> jsstr + bytes" where
  "enc_ControlPermissions w permissions =
     put_if (permissions \<noteq> 0)
         (guarded (fits_uint64 permissions) ''message.permissions of type uint64 too large''
             (put w 8 (wr_uint64 w) permissions))"

definition fld_ControlPermissions :: "wire \<Rightarrow> int \<Rightarrow> int \<Rightarrow> int reader option" where
  "fld_ControlPermissions w tag =
     (if tag = 8 then reads (once (rd_uint64 w)) (\<lambda>v _. v)
      else (\<lambda>_. None))"

definition dec_ControlPermissions :: "wire \<Rightarrow> int \<Rightarrow> int reader" where
  "dec_ControlPermissions w = decode w (fld_ControlPermissions w) 0"

definition enc_ControlledContext :: "wire \<Rightarrow> jsstr \<Rightarrow> jsstr + bytes" where
  "enc_ControlledContext w conn_audit_ref =
     put_if (conn_audit_ref \<noteq> []) (put w 10 (wr_string w) conn_audit_ref)"

definition fld_ControlledContext :: "wire \<Rightarrow> int \<Rightarrow> jsstr \<Rightarrow> jsstr reader option" where
  "fld_ControlledContext w tag =
     (if tag = 10 then reads (once (rd_string w)) (\<lambda>v _. v)
      else (\<lambda>_. None))"

definition dec_ControlledContext :: "wire \<Rightarrow> int \<Rightarrow> jsstr reader" where
  "dec_ControlledContext w = decode w (fld_ControlledContext w) []"

definition ok_ControlledContext :: "jsstr \<Rightarrow> bool" where
  "ok_ControlledContext conn_audit_ref \<longleftrightarrow>
      text_ok conn_audit_ref"

definition PunchHole_base :: "PunchHole" where
  "PunchHole_base =
     \<lparr>ph_socket_addr = [], ph_relay_server = [], ph_nat_type = 0, ph_udp_port = 0,
      ph_force_relay = False, ph_upnp_port = 0, ph_socket_addr_v6 = [], ph_control_permissions = None,
      ph_controlled_context = None\<rparr>"

definition enc_PunchHole :: "wire \<Rightarrow> PunchHole \<Rightarrow> jsstr + bytes" where
  "enc_PunchHole w m =
     enc_all
       [put_if (ph_socket_addr m \<noteq> []) (put w 10 (wr_bytes w) (ph_socket_addr m)),
        put_if (ph_relay_server m \<noteq> []) (put w 18 (wr_string w) (ph_relay_server m)),
        put_if (ph_nat_type m \<noteq> 0) (put w 24 (wr_int32 w) (ph_nat_type m)),
        put_if (ph_udp_port m \<noteq> 0) (put w 32 (wr_int32 w) (ph_udp_port m)),
        put_if (ph_force_relay m) (put w 40 (wr_bool w) (ph_force_relay m)),
        put_if (ph_upnp_port m \<noteq> 0) (put w 48 (wr_int32 w) (ph_upnp_port m)),
        put_if (ph_socket_addr_v6 m \<noteq> []) (put w 58 (wr_bytes w) (ph_socket_addr_v6 m)),
        put_some (put w 66 (joined w (enc_ControlPermissions w))) (ph_control_permissions m),
        put_some (put w 74 (joined w (enc_ControlledContext w))) (ph_controlled_context m)]"

definition fld_PunchHole :: "wire \<Rightarrow> int \<Rightarrow> PunchHole \<Rightarrow> PunchHole reader option" where
  "fld_PunchHole w tag =
     (if tag = 10 then reads (once (rd_bytes w)) (\<lambda>v m. m\<lparr>ph_socket_addr := v\<rparr>)
      else if tag = 18 then reads (once (rd_string w)) (\<lambda>v m. m\<lparr>ph_relay_server := v\<rparr>)
      else if tag = 24 then reads (once (rd_int32 w)) (\<lambda>v m. m\<lparr>ph_nat_type := v\<rparr>)
      else if tag = 32 then reads (once (rd_int32 w)) (\<lambda>v m. m\<lparr>ph_udp_port := v\<rparr>)
      else if tag = 40 then reads (once (rd_bool w)) (\<lambda>v m. m\<lparr>ph_force_relay := v\<rparr>)
      else if tag = 48 then reads (once (rd_int32 w)) (\<lambda>v m. m\<lparr>ph_upnp_port := v\<rparr>)
      else if tag = 58 then reads (once (rd_bytes w)) (\<lambda>v m. m\<lparr>ph_socket_addr_v6 := v\<rparr>)
      else if tag = 66 then reads_some (nested w (dec_ControlPermissions w))
          (\<lambda>v m. m\<lparr>ph_control_permissions := v\<rparr>)
      else if tag = 74 then reads_some (nested w (dec_ControlledContext w))
          (\<lambda>v m. m\<lparr>ph_controlled_context := v\<rparr>)
      else (\<lambda>_. None))"

definition dec_PunchHole :: "wire \<Rightarrow> int \<Rightarrow> PunchHole reader" where
  "dec_PunchHole w = decode w (fld_PunchHole w) PunchHole_base"

definition ok_PunchHole :: "PunchHole \<Rightarrow> bool" where
  "ok_PunchHole m \<longleftrightarrow>
      text_ok (ph_relay_server m) \<and>
      pred_option ok_ControlledContext (ph_controlled_context m)"

definition enc_TestNatRequest :: "wire \<Rightarrow> int \<Rightarrow> jsstr + bytes" where
  "enc_TestNatRequest w serial' =
     put_if (serial' \<noteq> 0) (put w 8 (wr_int32 w) serial')"

definition fld_TestNatRequest :: "wire \<Rightarrow> int \<Rightarrow> int \<Rightarrow> int reader option" where
  "fld_TestNatRequest w tag =
     (if tag = 8 then reads (once (rd_int32 w)) (\<lambda>v _. v)
      else (\<lambda>_. None))"

definition dec_TestNatRequest :: "wire \<Rightarrow> int \<Rightarrow> int reader" where
  "dec_TestNatRequest w = decode w (fld_TestNatRequest w) 0"

definition ConfigUpdate_base :: "(int \<times> jsstr list)" where
  "ConfigUpdate_base =
     (0, [])"

definition enc_ConfigUpdate :: "wire \<Rightarrow> (int \<times> jsstr list) \<Rightarrow> jsstr + bytes" where
  "enc_ConfigUpdate w m =
     (case m of (serial', rendezvous_servers) \<Rightarrow>
       enc_all
         [put_if (serial' \<noteq> 0) (put w 8 (wr_int32 w) serial'),
          put_each (put w 18 (wr_string w)) rendezvous_servers])"

definition fld_ConfigUpdate :: "wire \<Rightarrow> int \<Rightarrow> (int \<times> jsstr list) \<Rightarrow> (int \<times> jsstr list) reader option" where
  "fld_ConfigUpdate w tag =
     (if tag = 8 then reads (once (rd_int32 w)) (\<lambda>v (_, rendezvous_servers). (v, rendezvous_servers))
      else if tag = 18 then pushes (once (rd_string w))
          (\<lambda>vs (serial', rendezvous_servers). (serial', rendezvous_servers @ vs))
      else (\<lambda>_. None))"

definition dec_ConfigUpdate :: "wire \<Rightarrow> int \<Rightarrow> (int \<times> jsstr list) reader" where
  "dec_ConfigUpdate w = decode w (fld_ConfigUpdate w) ConfigUpdate_base"

definition ok_ConfigUpdate :: "(int \<times> jsstr list) \<Rightarrow> bool" where
  "ok_ConfigUpdate m \<longleftrightarrow>
      (case m of (serial', rendezvous_servers) \<Rightarrow> list_all text_ok rendezvous_servers)"

definition TestNatResponse_base :: "(int \<times> (int \<times> jsstr list) option)" where
  "TestNatResponse_base =
     (0, None)"

definition enc_TestNatResponse :: "wire \<Rightarrow> (int \<times> (int \<times> jsstr list) option) \<Rightarrow> jsstr + bytes" where
  "enc_TestNatResponse w m =
     (case m of (port', cu) \<Rightarrow>
       enc_all
         [put_if (port' \<noteq> 0) (put w 8 (wr_int32 w) port'),
          put_some (put w 18 (joined w (enc_ConfigUpdate w))) cu])"

definition fld_TestNatResponse :: "wire \<Rightarrow> int \<Rightarrow> (int \<times> (int \<times> jsstr list) option) \<Rightarrow>
    (int \<times> (int \<times> jsstr list) option) reader option" where
  "fld_TestNatResponse w tag =
     (if tag = 8 then reads (once (rd_int32 w)) (\<lambda>v (_, cu). (v, cu))
      else if tag = 18 then reads_some (nested w (dec_ConfigUpdate w)) (\<lambda>v (port', _). (port', v))
      else (\<lambda>_. None))"

definition dec_TestNatResponse :: "wire \<Rightarrow> int \<Rightarrow> (int \<times> (int \<times> jsstr list) option) reader" where
  "dec_TestNatResponse w = decode w (fld_TestNatResponse w) TestNatResponse_base"

definition ok_TestNatResponse :: "(int \<times> (int \<times> jsstr list) option) \<Rightarrow> bool" where
  "ok_TestNatResponse m \<longleftrightarrow>
      (case m of (port', cu) \<Rightarrow> pred_option ok_ConfigUpdate cu)"

definition PunchHoleSent_base :: "PunchHoleSent" where
  "PunchHoleSent_base =
     \<lparr>phs_socket_addr = [], phs_id = [], phs_relay_server = [], phs_nat_type = 0,
      phs_version = [], phs_upnp_port = 0, phs_socket_addr_v6 = []\<rparr>"

definition enc_PunchHoleSent :: "wire \<Rightarrow> PunchHoleSent \<Rightarrow> jsstr + bytes" where
  "enc_PunchHoleSent w m =
     enc_all
       [put_if (phs_socket_addr m \<noteq> []) (put w 10 (wr_bytes w) (phs_socket_addr m)),
        put_if (phs_id m \<noteq> []) (put w 18 (wr_string w) (phs_id m)),
        put_if (phs_relay_server m \<noteq> []) (put w 26 (wr_string w) (phs_relay_server m)),
        put_if (phs_nat_type m \<noteq> 0) (put w 32 (wr_int32 w) (phs_nat_type m)),
        put_if (phs_version m \<noteq> []) (put w 42 (wr_string w) (phs_version m)),
        put_if (phs_upnp_port m \<noteq> 0) (put w 48 (wr_int32 w) (phs_upnp_port m)),
        put_if (phs_socket_addr_v6 m \<noteq> []) (put w 58 (wr_bytes w) (phs_socket_addr_v6 m))]"

definition fld_PunchHoleSent :: "wire \<Rightarrow> int \<Rightarrow> PunchHoleSent \<Rightarrow> PunchHoleSent reader option" where
  "fld_PunchHoleSent w tag =
     (if tag = 10 then reads (once (rd_bytes w)) (\<lambda>v m. m\<lparr>phs_socket_addr := v\<rparr>)
      else if tag = 18 then reads (once (rd_string w)) (\<lambda>v m. m\<lparr>phs_id := v\<rparr>)
      else if tag = 26 then reads (once (rd_string w)) (\<lambda>v m. m\<lparr>phs_relay_server := v\<rparr>)
      else if tag = 32 then reads (once (rd_int32 w)) (\<lambda>v m. m\<lparr>phs_nat_type := v\<rparr>)
      else if tag = 42 then reads (once (rd_string w)) (\<lambda>v m. m\<lparr>phs_version := v\<rparr>)
      else if tag = 48 then reads (once (rd_int32 w)) (\<lambda>v m. m\<lparr>phs_upnp_port := v\<rparr>)
      else if tag = 58 then reads (once (rd_bytes w)) (\<lambda>v m. m\<lparr>phs_socket_addr_v6 := v\<rparr>)
      else (\<lambda>_. None))"

definition dec_PunchHoleSent :: "wire \<Rightarrow> int \<Rightarrow> PunchHoleSent reader" where
  "dec_PunchHoleSent w = decode w (fld_PunchHoleSent w) PunchHoleSent_base"

definition ok_PunchHoleSent :: "PunchHoleSent \<Rightarrow> bool" where
  "ok_PunchHoleSent m \<longleftrightarrow>
      text_ok (phs_id m) \<and>
      text_ok (phs_relay_server m) \<and>
      text_ok (phs_version m)"

definition RegisterPk_base :: "RegisterPk" where
  "RegisterPk_base =
     \<lparr>rpk_id = [], rpk_uuid = [], rpk_pk = [], rpk_old_id = [],
      rpk_no_register_device = False\<rparr>"

definition enc_RegisterPk :: "wire \<Rightarrow> RegisterPk \<Rightarrow> jsstr + bytes" where
  "enc_RegisterPk w m =
     enc_all
       [put_if (rpk_id m \<noteq> []) (put w 10 (wr_string w) (rpk_id m)),
        put_if (rpk_uuid m \<noteq> []) (put w 18 (wr_bytes w) (rpk_uuid m)),
        put_if (rpk_pk m \<noteq> []) (put w 26 (wr_bytes w) (rpk_pk m)),
        put_if (rpk_old_id m \<noteq> []) (put w 34 (wr_string w) (rpk_old_id m)),
        put_if (rpk_no_register_device m) (put w 40 (wr_bool w) (rpk_no_register_device m))]"

definition fld_RegisterPk :: "wire \<Rightarrow> int \<Rightarrow> RegisterPk \<Rightarrow> RegisterPk reader option" where
  "fld_RegisterPk w tag =
     (if tag = 10 then reads (once (rd_string w)) (\<lambda>v m. m\<lparr>rpk_id := v\<rparr>)
      else if tag = 18 then reads (once (rd_bytes w)) (\<lambda>v m. m\<lparr>rpk_uuid := v\<rparr>)
      else if tag = 26 then reads (once (rd_bytes w)) (\<lambda>v m. m\<lparr>rpk_pk := v\<rparr>)
      else if tag = 34 then reads (once (rd_string w)) (\<lambda>v m. m\<lparr>rpk_old_id := v\<rparr>)
      else if tag = 40 then reads (once (rd_bool w)) (\<lambda>v m. m\<lparr>rpk_no_register_device := v\<rparr>)
      else (\<lambda>_. None))"

definition dec_RegisterPk :: "wire \<Rightarrow> int \<Rightarrow> RegisterPk reader" where
  "dec_RegisterPk w = decode w (fld_RegisterPk w) RegisterPk_base"

definition ok_RegisterPk :: "RegisterPk \<Rightarrow> bool" where
  "ok_RegisterPk m \<longleftrightarrow>
      text_ok (rpk_id m) \<and>
      text_ok (rpk_old_id m)"

definition RegisterPkResponse_base :: "(int \<times> int)" where
  "RegisterPkResponse_base =
     (0, 0)"

definition enc_RegisterPkResponse :: "wire \<Rightarrow> (int \<times> int) \<Rightarrow> jsstr + bytes" where
  "enc_RegisterPkResponse w m =
     (case m of (result, keep_alive) \<Rightarrow>
       enc_all
         [put_if (result \<noteq> 0) (put w 8 (wr_int32 w) result),
          put_if (keep_alive \<noteq> 0) (put w 16 (wr_int32 w) keep_alive)])"

definition fld_RegisterPkResponse :: "wire \<Rightarrow> int \<Rightarrow> (int \<times> int) \<Rightarrow> (int \<times> int) reader option" where
  "fld_RegisterPkResponse w tag =
     (if tag = 8 then reads (once (rd_int32 w)) (\<lambda>v (_, keep_alive). (v, keep_alive))
      else if tag = 16 then reads (once (rd_int32 w)) (\<lambda>v (result, _). (result, v))
      else (\<lambda>_. None))"

definition dec_RegisterPkResponse :: "wire \<Rightarrow> int \<Rightarrow> (int \<times> int) reader" where
  "dec_RegisterPkResponse w = decode w (fld_RegisterPkResponse w) RegisterPkResponse_base"

definition PunchHoleResponse_base :: "PunchHoleResponse" where
  "PunchHoleResponse_base =
     \<lparr>php_socket_addr = [], php_pk = [], php_failure = 0, php_relay_server = [],
      php_union = PHU_none, php_other_failure = [], php_feedback = 0, php_is_udp = False,
      php_upnp_port = 0, php_socket_addr_v6 = []\<rparr>"

definition enc_PunchHoleResponse :: "wire \<Rightarrow> PunchHoleResponse \<Rightarrow> jsstr + bytes" where
  "enc_PunchHoleResponse w m =
     enc_all
       [put_if (php_socket_addr m \<noteq> []) (put w 10 (wr_bytes w) (php_socket_addr m)),
        put_if (php_pk m \<noteq> []) (put w 18 (wr_bytes w) (php_pk m)),
        put_if (php_failure m \<noteq> 0) (put w 24 (wr_int32 w) (php_failure m)),
        put_if (php_relay_server m \<noteq> []) (put w 34 (wr_string w) (php_relay_server m)),
        (case php_union m of
            PHU_none \<Rightarrow> Inr []
          | PHU_nat_type v \<Rightarrow> put w 40 (wr_int32 w) v
          | PHU_is_local v \<Rightarrow> put w 48 (wr_bool w) v),
        put_if (php_other_failure m \<noteq> []) (put w 58 (wr_string w) (php_other_failure m)),
        put_if (php_feedback m \<noteq> 0) (put w 64 (wr_int32 w) (php_feedback m)),
        put_if (php_is_udp m) (put w 72 (wr_bool w) (php_is_udp m)),
        put_if (php_upnp_port m \<noteq> 0) (put w 80 (wr_int32 w) (php_upnp_port m)),
        put_if (php_socket_addr_v6 m \<noteq> []) (put w 90 (wr_bytes w) (php_socket_addr_v6 m))]"

definition fld_PunchHoleResponse :: "wire \<Rightarrow> int \<Rightarrow> PunchHoleResponse \<Rightarrow> PunchHoleResponse reader option" where
  "fld_PunchHoleResponse w tag =
     (if tag = 10 then reads (once (rd_bytes w)) (\<lambda>v m. m\<lparr>php_socket_addr := v\<rparr>)
      else if tag = 18 then reads (once (rd_bytes w)) (\<lambda>v m. m\<lparr>php_pk := v\<rparr>)
      else if tag = 24 then reads (once (rd_int32 w)) (\<lambda>v m. m\<lparr>php_failure := v\<rparr>)
      else if tag = 34 then reads (once (rd_string w)) (\<lambda>v m. m\<lparr>php_relay_server := v\<rparr>)
      else if tag = 40 then reads (once (rd_int32 w)) (\<lambda>v m. m\<lparr>php_union := PHU_nat_type v\<rparr>)
      else if tag = 48 then reads (once (rd_bool w)) (\<lambda>v m. m\<lparr>php_union := PHU_is_local v\<rparr>)
      else if tag = 58 then reads (once (rd_string w)) (\<lambda>v m. m\<lparr>php_other_failure := v\<rparr>)
      else if tag = 64 then reads (once (rd_int32 w)) (\<lambda>v m. m\<lparr>php_feedback := v\<rparr>)
      else if tag = 72 then reads (once (rd_bool w)) (\<lambda>v m. m\<lparr>php_is_udp := v\<rparr>)
      else if tag = 80 then reads (once (rd_int32 w)) (\<lambda>v m. m\<lparr>php_upnp_port := v\<rparr>)
      else if tag = 90 then reads (once (rd_bytes w)) (\<lambda>v m. m\<lparr>php_socket_addr_v6 := v\<rparr>)
      else (\<lambda>_. None))"

definition dec_PunchHoleResponse :: "wire \<Rightarrow> int \<Rightarrow> PunchHoleResponse reader" where
  "dec_PunchHoleResponse w = decode w (fld_PunchHoleResponse w) PunchHoleResponse_base"

definition ok_PunchHoleResponse :: "PunchHoleResponse \<Rightarrow> bool" where
  "ok_PunchHoleResponse m \<longleftrightarrow>
      text_ok (php_relay_server m) \<and>
      text_ok (php_other_failure m)"

definition enc_RequestRelay :: "wire \<Rightarrow> RequestRelay \<Rightarrow> jsstr + bytes" where
  "enc_RequestRelay w m =
     enc_all
       [put_if (rq_id m \<noteq> []) (put w 10 (wr_string w) (rq_id m)),
        put_if (rq_uuid m \<noteq> []) (put w 18 (wr_string w) (rq_uuid m)),
        put_if (rq_socket_addr m \<noteq> []) (put w 26 (wr_bytes w) (rq_socket_addr m)),
        put_if (rq_relay_server m \<noteq> []) (put w 34 (wr_string w) (rq_relay_server m)),
        put_if (rq_secure m) (put w 40 (wr_bool w) (rq_secure m)),
        put_if (rq_licence_key m \<noteq> []) (put w 50 (wr_string w) (rq_licence_key m)),
        put_if (rq_conn_type m \<noteq> 0) (put w 56 (wr_int32 w) (rq_conn_type m)),
        put_if (rq_token m \<noteq> []) (put w 66 (wr_string w) (rq_token m)),
        put_some (put w 74 (joined w (enc_ControlPermissions w))) (rq_control_permissions m),
        put_some (put w 82 (joined w (enc_ControlledContext w))) (rq_controlled_context m),
        put_if (rq_switch_code m \<noteq> []) (put w 90 (wr_string w) (rq_switch_code m))]"

definition fld_RequestRelay :: "wire \<Rightarrow> int \<Rightarrow> RequestRelay \<Rightarrow> RequestRelay reader option" where
  "fld_RequestRelay w tag =
     (if tag = 10 then reads (once (rd_string w)) (\<lambda>v m. m\<lparr>rq_id := v\<rparr>)
      else if tag = 18 then reads (once (rd_string w)) (\<lambda>v m. m\<lparr>rq_uuid := v\<rparr>)
      else if tag = 26 then reads (once (rd_bytes w)) (\<lambda>v m. m\<lparr>rq_socket_addr := v\<rparr>)
      else if tag = 34 then reads (once (rd_string w)) (\<lambda>v m. m\<lparr>rq_relay_server := v\<rparr>)
      else if tag = 40 then reads (once (rd_bool w)) (\<lambda>v m. m\<lparr>rq_secure := v\<rparr>)
      else if tag = 50 then reads (once (rd_string w)) (\<lambda>v m. m\<lparr>rq_licence_key := v\<rparr>)
      else if tag = 56 then reads (once (rd_int32 w)) (\<lambda>v m. m\<lparr>rq_conn_type := v\<rparr>)
      else if tag = 66 then reads (once (rd_string w)) (\<lambda>v m. m\<lparr>rq_token := v\<rparr>)
      else if tag = 74 then reads_some (nested w (dec_ControlPermissions w))
          (\<lambda>v m. m\<lparr>rq_control_permissions := v\<rparr>)
      else if tag = 82 then reads_some (nested w (dec_ControlledContext w))
          (\<lambda>v m. m\<lparr>rq_controlled_context := v\<rparr>)
      else if tag = 90 then reads (once (rd_string w)) (\<lambda>v m. m\<lparr>rq_switch_code := v\<rparr>)
      else (\<lambda>_. None))"

definition dec_RequestRelay :: "wire \<Rightarrow> int \<Rightarrow> RequestRelay reader" where
  "dec_RequestRelay w = decode w (fld_RequestRelay w) RequestRelay_base"

definition ok_RequestRelay :: "RequestRelay \<Rightarrow> bool" where
  "ok_RequestRelay m \<longleftrightarrow>
      text_ok (rq_id m) \<and>
      text_ok (rq_uuid m) \<and>
      text_ok (rq_relay_server m) \<and>
      text_ok (rq_licence_key m) \<and>
      text_ok (rq_token m) \<and>
      pred_option ok_ControlledContext (rq_controlled_context m) \<and>
      text_ok (rq_switch_code m)"

definition RelayResponse_base :: "RelayResponse" where
  "RelayResponse_base =
     \<lparr>rr_socket_addr = [], rr_uuid = [], rr_relay_server = [], rr_union = RU_none,
      rr_refuse_reason = [], rr_version = [], rr_feedback = 0, rr_socket_addr_v6 = [],
      rr_upnp_port = 0\<rparr>"

definition enc_RelayResponse :: "wire \<Rightarrow> RelayResponse \<Rightarrow> jsstr + bytes" where
  "enc_RelayResponse w m =
     enc_all
       [put_if (rr_socket_addr m \<noteq> []) (put w 10 (wr_bytes w) (rr_socket_addr m)),
        put_if (rr_uuid m \<noteq> []) (put w 18 (wr_string w) (rr_uuid m)),
        put_if (rr_relay_server m \<noteq> []) (put w 26 (wr_string w) (rr_relay_server m)),
        (case rr_union m of
            RU_none \<Rightarrow> Inr []
          | RU_id v \<Rightarrow> put w 34 (wr_string w) v
          | RU_pk v \<Rightarrow> put w 42 (wr_bytes w) v),
        put_if (rr_refuse_reason m \<noteq> []) (put w 50 (wr_string w) (rr_refuse_reason m)),
        put_if (rr_version m \<noteq> []) (put w 58 (wr_string w) (rr_version m)),
        put_if (rr_feedback m \<noteq> 0) (put w 72 (wr_int32 w) (rr_feedback m)),
        put_if (rr_socket_addr_v6 m \<noteq> []) (put w 82 (wr_bytes w) (rr_socket_addr_v6 m)),
        put_if (rr_upnp_port m \<noteq> 0) (put w 88 (wr_int32 w) (rr_upnp_port m))]"

definition fld_RelayResponse :: "wire \<Rightarrow> int \<Rightarrow> RelayResponse \<Rightarrow> RelayResponse reader option" where
  "fld_RelayResponse w tag =
     (if tag = 10 then reads (once (rd_bytes w)) (\<lambda>v m. m\<lparr>rr_socket_addr := v\<rparr>)
      else if tag = 18 then reads (once (rd_string w)) (\<lambda>v m. m\<lparr>rr_uuid := v\<rparr>)
      else if tag = 26 then reads (once (rd_string w)) (\<lambda>v m. m\<lparr>rr_relay_server := v\<rparr>)
      else if tag = 34 then reads (once (rd_string w)) (\<lambda>v m. m\<lparr>rr_union := RU_id v\<rparr>)
      else if tag = 42 then reads (once (rd_bytes w)) (\<lambda>v m. m\<lparr>rr_union := RU_pk v\<rparr>)
      else if tag = 50 then reads (once (rd_string w)) (\<lambda>v m. m\<lparr>rr_refuse_reason := v\<rparr>)
      else if tag = 58 then reads (once (rd_string w)) (\<lambda>v m. m\<lparr>rr_version := v\<rparr>)
      else if tag = 72 then reads (once (rd_int32 w)) (\<lambda>v m. m\<lparr>rr_feedback := v\<rparr>)
      else if tag = 82 then reads (once (rd_bytes w)) (\<lambda>v m. m\<lparr>rr_socket_addr_v6 := v\<rparr>)
      else if tag = 88 then reads (once (rd_int32 w)) (\<lambda>v m. m\<lparr>rr_upnp_port := v\<rparr>)
      else (\<lambda>_. None))"

definition dec_RelayResponse :: "wire \<Rightarrow> int \<Rightarrow> RelayResponse reader" where
  "dec_RelayResponse w = decode w (fld_RelayResponse w) RelayResponse_base"

definition ok_RelayResponse :: "RelayResponse \<Rightarrow> bool" where
  "ok_RelayResponse m \<longleftrightarrow>
      text_ok (rr_uuid m) \<and>
      text_ok (rr_relay_server m) \<and>
      (case rr_union m of
        RU_id v \<Rightarrow> text_ok v
      | _ \<Rightarrow> True) \<and>
      text_ok (rr_refuse_reason m) \<and>
      text_ok (rr_version m)"

definition enc_SoftwareUpdate :: "wire \<Rightarrow> jsstr \<Rightarrow> jsstr + bytes" where
  "enc_SoftwareUpdate w url' =
     put_if (url' \<noteq> []) (put w 10 (wr_string w) url')"

definition fld_SoftwareUpdate :: "wire \<Rightarrow> int \<Rightarrow> jsstr \<Rightarrow> jsstr reader option" where
  "fld_SoftwareUpdate w tag =
     (if tag = 10 then reads (once (rd_string w)) (\<lambda>v _. v)
      else (\<lambda>_. None))"

definition dec_SoftwareUpdate :: "wire \<Rightarrow> int \<Rightarrow> jsstr reader" where
  "dec_SoftwareUpdate w = decode w (fld_SoftwareUpdate w) []"

definition ok_SoftwareUpdate :: "jsstr \<Rightarrow> bool" where
  "ok_SoftwareUpdate url' \<longleftrightarrow>
      text_ok url'"

definition FetchLocalAddr_base :: "FetchLocalAddr" where
  "FetchLocalAddr_base =
     \<lparr>fla_socket_addr = [], fla_relay_server = [], fla_socket_addr_v6 = [],
      fla_control_permissions = None, fla_controlled_context = None\<rparr>"

definition enc_FetchLocalAddr :: "wire \<Rightarrow> FetchLocalAddr \<Rightarrow> jsstr + bytes" where
  "enc_FetchLocalAddr w m =
     enc_all
       [put_if (fla_socket_addr m \<noteq> []) (put w 10 (wr_bytes w) (fla_socket_addr m)),
        put_if (fla_relay_server m \<noteq> []) (put w 18 (wr_string w) (fla_relay_server m)),
        put_if (fla_socket_addr_v6 m \<noteq> []) (put w 26 (wr_bytes w) (fla_socket_addr_v6 m)),
        put_some (put w 34 (joined w (enc_ControlPermissions w))) (fla_control_permissions m),
        put_some (put w 42 (joined w (enc_ControlledContext w))) (fla_controlled_context m)]"

definition fld_FetchLocalAddr :: "wire \<Rightarrow> int \<Rightarrow> FetchLocalAddr \<Rightarrow> FetchLocalAddr reader option" where
  "fld_FetchLocalAddr w tag =
     (if tag = 10 then reads (once (rd_bytes w)) (\<lambda>v m. m\<lparr>fla_socket_addr := v\<rparr>)
      else if tag = 18 then reads (once (rd_string w)) (\<lambda>v m. m\<lparr>fla_relay_server := v\<rparr>)
      else if tag = 26 then reads (once (rd_bytes w)) (\<lambda>v m. m\<lparr>fla_socket_addr_v6 := v\<rparr>)
      else if tag = 34 then reads_some (nested w (dec_ControlPermissions w))
          (\<lambda>v m. m\<lparr>fla_control_permissions := v\<rparr>)
      else if tag = 42 then reads_some (nested w (dec_ControlledContext w))
          (\<lambda>v m. m\<lparr>fla_controlled_context := v\<rparr>)
      else (\<lambda>_. None))"

definition dec_FetchLocalAddr :: "wire \<Rightarrow> int \<Rightarrow> FetchLocalAddr reader" where
  "dec_FetchLocalAddr w = decode w (fld_FetchLocalAddr w) FetchLocalAddr_base"

definition ok_FetchLocalAddr :: "FetchLocalAddr \<Rightarrow> bool" where
  "ok_FetchLocalAddr m \<longleftrightarrow>
      text_ok (fla_relay_server m) \<and>
      pred_option ok_ControlledContext (fla_controlled_context m)"

definition LocalAddr_base :: "LocalAddr" where
  "LocalAddr_base =
     \<lparr>la_socket_addr = [], la_local_addr = [], la_relay_server = [], la_id = [],
      la_version = [], la_socket_addr_v6 = []\<rparr>"

definition enc_LocalAddr :: "wire \<Rightarrow> LocalAddr \<Rightarrow> jsstr + bytes" where
  "enc_LocalAddr w m =
     enc_all
       [put_if (la_socket_addr m \<noteq> []) (put w 10 (wr_bytes w) (la_socket_addr m)),
        put_if (la_local_addr m \<noteq> []) (put w 18 (wr_bytes w) (la_local_addr m)),
        put_if (la_relay_server m \<noteq> []) (put w 26 (wr_string w) (la_relay_server m)),
        put_if (la_id m \<noteq> []) (put w 34 (wr_string w) (la_id m)),
        put_if (la_version m \<noteq> []) (put w 42 (wr_string w) (la_version m)),
        put_if (la_socket_addr_v6 m \<noteq> []) (put w 50 (wr_bytes w) (la_socket_addr_v6 m))]"

definition fld_LocalAddr :: "wire \<Rightarrow> int \<Rightarrow> LocalAddr \<Rightarrow> LocalAddr reader option" where
  "fld_LocalAddr w tag =
     (if tag = 10 then reads (once (rd_bytes w)) (\<lambda>v m. m\<lparr>la_socket_addr := v\<rparr>)
      else if tag = 18 then reads (once (rd_bytes w)) (\<lambda>v m. m\<lparr>la_local_addr := v\<rparr>)
      else if tag = 26 then reads (once (rd_string w)) (\<lambda>v m. m\<lparr>la_relay_server := v\<rparr>)
      else if tag = 34 then reads (once (rd_string w)) (\<lambda>v m. m\<lparr>la_id := v\<rparr>)
      else if tag = 42 then reads (once (rd_string w)) (\<lambda>v m. m\<lparr>la_version := v\<rparr>)
      else if tag = 50 then reads (once (rd_bytes w)) (\<lambda>v m. m\<lparr>la_socket_addr_v6 := v\<rparr>)
      else (\<lambda>_. None))"

definition dec_LocalAddr :: "wire \<Rightarrow> int \<Rightarrow> LocalAddr reader" where
  "dec_LocalAddr w = decode w (fld_LocalAddr w) LocalAddr_base"

definition ok_LocalAddr :: "LocalAddr \<Rightarrow> bool" where
  "ok_LocalAddr m \<longleftrightarrow>
      text_ok (la_relay_server m) \<and>
      text_ok (la_id m) \<and>
      text_ok (la_version m)"

definition PeerDiscovery_base :: "PeerDiscovery" where
  "PeerDiscovery_base =
     \<lparr>pdi_cmd = [], pdi_mac = [], pdi_id = [], pdi_username = [], pdi_hostname = [],
      pdi_platform = [], pdi_misc = []\<rparr>"

definition enc_PeerDiscovery :: "wire \<Rightarrow> PeerDiscovery \<Rightarrow> jsstr + bytes" where
  "enc_PeerDiscovery w m =
     enc_all
       [put_if (pdi_cmd m \<noteq> []) (put w 10 (wr_string w) (pdi_cmd m)),
        put_if (pdi_mac m \<noteq> []) (put w 18 (wr_string w) (pdi_mac m)),
        put_if (pdi_id m \<noteq> []) (put w 26 (wr_string w) (pdi_id m)),
        put_if (pdi_username m \<noteq> []) (put w 34 (wr_string w) (pdi_username m)),
        put_if (pdi_hostname m \<noteq> []) (put w 42 (wr_string w) (pdi_hostname m)),
        put_if (pdi_platform m \<noteq> []) (put w 50 (wr_string w) (pdi_platform m)),
        put_if (pdi_misc m \<noteq> []) (put w 58 (wr_string w) (pdi_misc m))]"

definition fld_PeerDiscovery :: "wire \<Rightarrow> int \<Rightarrow> PeerDiscovery \<Rightarrow> PeerDiscovery reader option" where
  "fld_PeerDiscovery w tag =
     (if tag = 10 then reads (once (rd_string w)) (\<lambda>v m. m\<lparr>pdi_cmd := v\<rparr>)
      else if tag = 18 then reads (once (rd_string w)) (\<lambda>v m. m\<lparr>pdi_mac := v\<rparr>)
      else if tag = 26 then reads (once (rd_string w)) (\<lambda>v m. m\<lparr>pdi_id := v\<rparr>)
      else if tag = 34 then reads (once (rd_string w)) (\<lambda>v m. m\<lparr>pdi_username := v\<rparr>)
      else if tag = 42 then reads (once (rd_string w)) (\<lambda>v m. m\<lparr>pdi_hostname := v\<rparr>)
      else if tag = 50 then reads (once (rd_string w)) (\<lambda>v m. m\<lparr>pdi_platform := v\<rparr>)
      else if tag = 58 then reads (once (rd_string w)) (\<lambda>v m. m\<lparr>pdi_misc := v\<rparr>)
      else (\<lambda>_. None))"

definition dec_PeerDiscovery :: "wire \<Rightarrow> int \<Rightarrow> PeerDiscovery reader" where
  "dec_PeerDiscovery w = decode w (fld_PeerDiscovery w) PeerDiscovery_base"

definition ok_PeerDiscovery :: "PeerDiscovery \<Rightarrow> bool" where
  "ok_PeerDiscovery m \<longleftrightarrow>
      text_ok (pdi_cmd m) \<and>
      text_ok (pdi_mac m) \<and>
      text_ok (pdi_id m) \<and>
      text_ok (pdi_username m) \<and>
      text_ok (pdi_hostname m) \<and>
      text_ok (pdi_platform m) \<and>
      text_ok (pdi_misc m)"

definition OnlineRequest_base :: "(jsstr \<times> jsstr list)" where
  "OnlineRequest_base =
     ([], [])"

definition enc_OnlineRequest :: "wire \<Rightarrow> (jsstr \<times> jsstr list) \<Rightarrow> jsstr + bytes" where
  "enc_OnlineRequest w m =
     (case m of (id', peers) \<Rightarrow>
       enc_all
         [put_if (id' \<noteq> []) (put w 10 (wr_string w) id'),
          put_each (put w 18 (wr_string w)) peers])"

definition fld_OnlineRequest :: "wire \<Rightarrow> int \<Rightarrow> (jsstr \<times> jsstr list) \<Rightarrow>
    (jsstr \<times> jsstr list) reader option" where
  "fld_OnlineRequest w tag =
     (if tag = 10 then reads (once (rd_string w)) (\<lambda>v (_, peers). (v, peers))
      else if tag = 18 then pushes (once (rd_string w)) (\<lambda>vs (id', peers). (id', peers @ vs))
      else (\<lambda>_. None))"

definition dec_OnlineRequest :: "wire \<Rightarrow> int \<Rightarrow> (jsstr \<times> jsstr list) reader" where
  "dec_OnlineRequest w = decode w (fld_OnlineRequest w) OnlineRequest_base"

definition ok_OnlineRequest :: "(jsstr \<times> jsstr list) \<Rightarrow> bool" where
  "ok_OnlineRequest m \<longleftrightarrow>
      (case m of (id', peers) \<Rightarrow> text_ok id' \<and> list_all text_ok peers)"

definition enc_OnlineResponse :: "wire \<Rightarrow> bytes \<Rightarrow> jsstr + bytes" where
  "enc_OnlineResponse w states' =
     put_if (states' \<noteq> []) (put w 10 (wr_bytes w) states')"

definition fld_OnlineResponse :: "wire \<Rightarrow> int \<Rightarrow> bytes \<Rightarrow> bytes reader option" where
  "fld_OnlineResponse w tag =
     (if tag = 10 then reads (once (rd_bytes w)) (\<lambda>v _. v)
      else (\<lambda>_. None))"

definition dec_OnlineResponse :: "wire \<Rightarrow> int \<Rightarrow> bytes reader" where
  "dec_OnlineResponse w = decode w (fld_OnlineResponse w) []"

definition enc_KeyExchange :: "wire \<Rightarrow> bytes list \<Rightarrow> jsstr + bytes" where
  "enc_KeyExchange w keys' =
     put_each (put w 10 (wr_bytes w)) keys'"

definition fld_KeyExchange :: "wire \<Rightarrow> int \<Rightarrow> bytes list \<Rightarrow> (bytes list) reader option" where
  "fld_KeyExchange w tag =
     (if tag = 10 then pushes (once (rd_bytes w)) (\<lambda>vs keys'. keys' @ vs)
      else (\<lambda>_. None))"

definition dec_KeyExchange :: "wire \<Rightarrow> int \<Rightarrow> (bytes list) reader" where
  "dec_KeyExchange w = decode w (fld_KeyExchange w) []"

definition enc_HealthCheck :: "wire \<Rightarrow> jsstr \<Rightarrow> jsstr + bytes" where
  "enc_HealthCheck w token' =
     put_if (token' \<noteq> []) (put w 10 (wr_string w) token')"

definition fld_HealthCheck :: "wire \<Rightarrow> int \<Rightarrow> jsstr \<Rightarrow> jsstr reader option" where
  "fld_HealthCheck w tag =
     (if tag = 10 then reads (once (rd_string w)) (\<lambda>v _. v)
      else (\<lambda>_. None))"

definition dec_HealthCheck :: "wire \<Rightarrow> int \<Rightarrow> jsstr reader" where
  "dec_HealthCheck w = decode w (fld_HealthCheck w) []"

definition ok_HealthCheck :: "jsstr \<Rightarrow> bool" where
  "ok_HealthCheck token' \<longleftrightarrow>
      text_ok token'"

definition HeaderEntry_base :: "(jsstr \<times> jsstr)" where
  "HeaderEntry_base =
     ([], [])"

definition enc_HeaderEntry :: "wire \<Rightarrow> (jsstr \<times> jsstr) \<Rightarrow> jsstr + bytes" where
  "enc_HeaderEntry w m =
     (case m of (name', value') \<Rightarrow>
       enc_all
         [put_if (name' \<noteq> []) (put w 10 (wr_string w) name'),
          put_if (value' \<noteq> []) (put w 18 (wr_string w) value')])"

definition fld_HeaderEntry :: "wire \<Rightarrow> int \<Rightarrow> (jsstr \<times> jsstr) \<Rightarrow> (jsstr \<times> jsstr) reader option" where
  "fld_HeaderEntry w tag =
     (if tag = 10 then reads (once (rd_string w)) (\<lambda>v (_, value'). (v, value'))
      else if tag = 18 then reads (once (rd_string w)) (\<lambda>v (name', _). (name', v))
      else (\<lambda>_. None))"

definition dec_HeaderEntry :: "wire \<Rightarrow> int \<Rightarrow> (jsstr \<times> jsstr) reader" where
  "dec_HeaderEntry w = decode w (fld_HeaderEntry w) HeaderEntry_base"

definition ok_HeaderEntry :: "(jsstr \<times> jsstr) \<Rightarrow> bool" where
  "ok_HeaderEntry m \<longleftrightarrow>
      (case m of (name', value') \<Rightarrow> text_ok name' \<and> text_ok value')"

definition HttpProxyRequest_base :: "HttpProxyRequest" where
  "HttpProxyRequest_base =
     \<lparr>hreq_method = [], hreq_path = [], hreq_headers = [], hreq_body = []\<rparr>"

definition enc_HttpProxyRequest :: "wire \<Rightarrow> HttpProxyRequest \<Rightarrow> jsstr + bytes" where
  "enc_HttpProxyRequest w m =
     enc_all
       [put_if (hreq_method m \<noteq> []) (put w 10 (wr_string w) (hreq_method m)),
        put_if (hreq_path m \<noteq> []) (put w 18 (wr_string w) (hreq_path m)),
        put_each (put w 26 (joined w (enc_HeaderEntry w))) (hreq_headers m),
        put_if (hreq_body m \<noteq> []) (put w 34 (wr_bytes w) (hreq_body m))]"

definition fld_HttpProxyRequest :: "wire \<Rightarrow> int \<Rightarrow> HttpProxyRequest \<Rightarrow> HttpProxyRequest reader option" where
  "fld_HttpProxyRequest w tag =
     (if tag = 10 then reads (once (rd_string w)) (\<lambda>v m. m\<lparr>hreq_method := v\<rparr>)
      else if tag = 18 then reads (once (rd_string w)) (\<lambda>v m. m\<lparr>hreq_path := v\<rparr>)
      else if tag = 26 then pushes (nested w (dec_HeaderEntry w))
          (\<lambda>vs m. m\<lparr>hreq_headers := hreq_headers m @ vs\<rparr>)
      else if tag = 34 then reads (once (rd_bytes w)) (\<lambda>v m. m\<lparr>hreq_body := v\<rparr>)
      else (\<lambda>_. None))"

definition dec_HttpProxyRequest :: "wire \<Rightarrow> int \<Rightarrow> HttpProxyRequest reader" where
  "dec_HttpProxyRequest w = decode w (fld_HttpProxyRequest w) HttpProxyRequest_base"

definition ok_HttpProxyRequest :: "HttpProxyRequest \<Rightarrow> bool" where
  "ok_HttpProxyRequest m \<longleftrightarrow>
      text_ok (hreq_method m) \<and>
      text_ok (hreq_path m) \<and>
      list_all ok_HeaderEntry (hreq_headers m)"

definition HttpProxyResponse_base :: "HttpProxyResponse" where
  "HttpProxyResponse_base =
     \<lparr>hres_status = 0, hres_headers = [], hres_body = [], hres_error = []\<rparr>"

definition enc_HttpProxyResponse :: "wire \<Rightarrow> HttpProxyResponse \<Rightarrow> jsstr + bytes" where
  "enc_HttpProxyResponse w m =
     enc_all
       [put_if (hres_status m \<noteq> 0) (put w 8 (wr_int32 w) (hres_status m)),
        put_each (put w 18 (joined w (enc_HeaderEntry w))) (hres_headers m),
        put_if (hres_body m \<noteq> []) (put w 26 (wr_bytes w) (hres_body m)),
        put_if (hres_error m \<noteq> []) (put w 34 (wr_string w) (hres_error m))]"

definition fld_HttpProxyResponse :: "wire \<Rightarrow> int \<Rightarrow> HttpProxyResponse \<Rightarrow> HttpProxyResponse reader option" where
  "fld_HttpProxyResponse w tag =
     (if tag = 8 then reads (once (rd_int32 w)) (\<lambda>v m. m\<lparr>hres_status := v\<rparr>)
      else if tag = 18 then pushes (nested w (dec_HeaderEntry w))
          (\<lambda>vs m. m\<lparr>hres_headers := hres_headers m @ vs\<rparr>)
      else if tag = 26 then reads (once (rd_bytes w)) (\<lambda>v m. m\<lparr>hres_body := v\<rparr>)
      else if tag = 34 then reads (once (rd_string w)) (\<lambda>v m. m\<lparr>hres_error := v\<rparr>)
      else (\<lambda>_. None))"

definition dec_HttpProxyResponse :: "wire \<Rightarrow> int \<Rightarrow> HttpProxyResponse reader" where
  "dec_HttpProxyResponse w = decode w (fld_HttpProxyResponse w) HttpProxyResponse_base"

definition ok_HttpProxyResponse :: "HttpProxyResponse \<Rightarrow> bool" where
  "ok_HttpProxyResponse m \<longleftrightarrow>
      list_all ok_HeaderEntry (hres_headers m) \<and>
      text_ok (hres_error m)"

definition enc_RendezvousMessage :: "wire \<Rightarrow> RendezvousMessage \<Rightarrow> jsstr + bytes" where
  "enc_RendezvousMessage w m =
     (case m of
         R_none \<Rightarrow> Inr []
       | R_register_peer id' serial' \<Rightarrow> put w 50 (joined w (enc_RegisterPeer w)) (id', serial')
       | R_register_peer_response v \<Rightarrow> put w 58 (joined w (enc_RegisterPeerResponse w)) v
       | R_punch_hole_request v \<Rightarrow> put w 66 (joined w (enc_PunchHoleRequest w)) v
       | R_punch_hole v \<Rightarrow> put w 74 (joined w (enc_PunchHole w)) v
       | R_punch_hole_sent v \<Rightarrow> put w 82 (joined w (enc_PunchHoleSent w)) v
       | R_punch_hole_response v \<Rightarrow> put w 90 (joined w (enc_PunchHoleResponse w)) v
       | R_fetch_local_addr v \<Rightarrow> put w 98 (joined w (enc_FetchLocalAddr w)) v
       | R_local_addr v \<Rightarrow> put w 106 (joined w (enc_LocalAddr w)) v
       | R_configure_update v \<Rightarrow> put w 114 (joined w (enc_ConfigUpdate w)) v
       | R_register_pk v \<Rightarrow> put w 122 (joined w (enc_RegisterPk w)) v
       | R_register_pk_response result keep_alive \<Rightarrow>
           put w 130 (joined w (enc_RegisterPkResponse w)) (result, keep_alive)
       | R_software_update v \<Rightarrow> put w 138 (joined w (enc_SoftwareUpdate w)) v
       | R_request_relay v \<Rightarrow> put w 146 (joined w (enc_RequestRelay w)) v
       | R_relay_response v \<Rightarrow> put w 154 (joined w (enc_RelayResponse w)) v
       | R_test_nat_request v \<Rightarrow> put w 162 (joined w (enc_TestNatRequest w)) v
       | R_test_nat_response port' cu \<Rightarrow> put w 170 (joined w (enc_TestNatResponse w)) (port', cu)
       | R_peer_discovery v \<Rightarrow> put w 178 (joined w (enc_PeerDiscovery w)) v
       | R_online_request id' peers \<Rightarrow> put w 186 (joined w (enc_OnlineRequest w)) (id', peers)
       | R_online_response v \<Rightarrow> put w 194 (joined w (enc_OnlineResponse w)) v
       | R_key_exchange v \<Rightarrow> put w 202 (joined w (enc_KeyExchange w)) v
       | R_hc v \<Rightarrow> put w 210 (joined w (enc_HealthCheck w)) v
       | R_http_proxy_request v \<Rightarrow> put w 218 (joined w (enc_HttpProxyRequest w)) v
       | R_http_proxy_response v \<Rightarrow> put w 226 (joined w (enc_HttpProxyResponse w)) v)"

definition fld_RendezvousMessage :: "wire \<Rightarrow> int \<Rightarrow> RendezvousMessage \<Rightarrow> RendezvousMessage reader option" where
  "fld_RendezvousMessage w tag =
     (if tag = 50 then reads (nested w (dec_RegisterPeer w))
         (\<lambda>(id', serial') _. R_register_peer id' serial')
      else if tag = 58 then reads (nested w (dec_RegisterPeerResponse w)) (\<lambda>v _. R_register_peer_response v)
      else if tag = 66 then reads (nested w (dec_PunchHoleRequest w)) (\<lambda>v _. R_punch_hole_request v)
      else if tag = 74 then reads (nested w (dec_PunchHole w)) (\<lambda>v _. R_punch_hole v)
      else if tag = 82 then reads (nested w (dec_PunchHoleSent w)) (\<lambda>v _. R_punch_hole_sent v)
      else if tag = 90 then reads (nested w (dec_PunchHoleResponse w)) (\<lambda>v _. R_punch_hole_response v)
      else if tag = 98 then reads (nested w (dec_FetchLocalAddr w)) (\<lambda>v _. R_fetch_local_addr v)
      else if tag = 106 then reads (nested w (dec_LocalAddr w)) (\<lambda>v _. R_local_addr v)
      else if tag = 114 then reads (nested w (dec_ConfigUpdate w)) (\<lambda>v _. R_configure_update v)
      else if tag = 122 then reads (nested w (dec_RegisterPk w)) (\<lambda>v _. R_register_pk v)
      else if tag = 130 then reads (nested w (dec_RegisterPkResponse w))
          (\<lambda>(result, keep_alive) _. R_register_pk_response result keep_alive)
      else if tag = 138 then reads (nested w (dec_SoftwareUpdate w)) (\<lambda>v _. R_software_update v)
      else if tag = 146 then reads (nested w (dec_RequestRelay w)) (\<lambda>v _. R_request_relay v)
      else if tag = 154 then reads (nested w (dec_RelayResponse w)) (\<lambda>v _. R_relay_response v)
      else if tag = 162 then reads (nested w (dec_TestNatRequest w)) (\<lambda>v _. R_test_nat_request v)
      else if tag = 170 then reads (nested w (dec_TestNatResponse w))
          (\<lambda>(port', cu) _. R_test_nat_response port' cu)
      else if tag = 178 then reads (nested w (dec_PeerDiscovery w)) (\<lambda>v _. R_peer_discovery v)
      else if tag = 186 then reads (nested w (dec_OnlineRequest w))
          (\<lambda>(id', peers) _. R_online_request id' peers)
      else if tag = 194 then reads (nested w (dec_OnlineResponse w)) (\<lambda>v _. R_online_response v)
      else if tag = 202 then reads (nested w (dec_KeyExchange w)) (\<lambda>v _. R_key_exchange v)
      else if tag = 210 then reads (nested w (dec_HealthCheck w)) (\<lambda>v _. R_hc v)
      else if tag = 218 then reads (nested w (dec_HttpProxyRequest w)) (\<lambda>v _. R_http_proxy_request v)
      else if tag = 226 then reads (nested w (dec_HttpProxyResponse w)) (\<lambda>v _. R_http_proxy_response v)
      else (\<lambda>_. None))"

definition dec_RendezvousMessage :: "wire \<Rightarrow> int \<Rightarrow> RendezvousMessage reader" where
  "dec_RendezvousMessage w = decode w (fld_RendezvousMessage w) R_none"

definition ok_RendezvousMessage :: "RendezvousMessage \<Rightarrow> bool" where
  "ok_RendezvousMessage m \<longleftrightarrow>
      (case m of
        R_register_peer id' serial' \<Rightarrow> ok_RegisterPeer (id', serial')
      | R_punch_hole_request v \<Rightarrow> ok_PunchHoleRequest v
      | R_punch_hole v \<Rightarrow> ok_PunchHole v
      | R_punch_hole_sent v \<Rightarrow> ok_PunchHoleSent v
      | R_punch_hole_response v \<Rightarrow> ok_PunchHoleResponse v
      | R_fetch_local_addr v \<Rightarrow> ok_FetchLocalAddr v
      | R_local_addr v \<Rightarrow> ok_LocalAddr v
      | R_configure_update v \<Rightarrow> ok_ConfigUpdate v
      | R_register_pk v \<Rightarrow> ok_RegisterPk v
      | R_software_update v \<Rightarrow> ok_SoftwareUpdate v
      | R_request_relay v \<Rightarrow> ok_RequestRelay v
      | R_relay_response v \<Rightarrow> ok_RelayResponse v
      | R_test_nat_response port' cu \<Rightarrow> ok_TestNatResponse (port', cu)
      | R_peer_discovery v \<Rightarrow> ok_PeerDiscovery v
      | R_online_request id' peers \<Rightarrow> ok_OnlineRequest (id', peers)
      | R_hc v \<Rightarrow> ok_HealthCheck v
      | R_http_proxy_request v \<Rightarrow> ok_HttpProxyRequest v
      | R_http_proxy_response v \<Rightarrow> ok_HttpProxyResponse v
      | _ \<Rightarrow> True)"

section \<open>Round trips and termination\<close>

context wire_format
begin

lemma back_RegisterPeer [codec_backs]:
    "ok_RegisterPeer m \<Longrightarrow> codec_back (enc_RegisterPeer w) (dec_RegisterPeer w) m"
  unfolding dec_RegisterPeer_def
  by (cases m; rule codec_backI; clarsimp simp: enc_RegisterPeer_def ok_RegisterPeer_def RegisterPeer_base_def;
      (erule loop_rules, (simp add: fld_RegisterPeer_def codec_backs laws_back)+)+)

lemma ends_RegisterPeer [decoder_ends]: "settles (dec_RegisterPeer w len)"
  unfolding dec_RegisterPeer_def
  by (rule decode_settles)
    (auto simp: fld_RegisterPeer_def split: if_splits elim!: settle_rules intro!: settle_intros decoder_ends)

lemma back_RegisterPeerResponse [codec_backs]:
    "codec_back (enc_RegisterPeerResponse w) (dec_RegisterPeerResponse w) m"
  unfolding dec_RegisterPeerResponse_def
  by (rule codec_backI; clarsimp simp: enc_RegisterPeerResponse_def;
      (erule loop_rules, (simp add: fld_RegisterPeerResponse_def codec_backs laws_back)+)+)

lemma ends_RegisterPeerResponse [decoder_ends]: "settles (dec_RegisterPeerResponse w len)"
  unfolding dec_RegisterPeerResponse_def
  by (rule decode_settles)
    (auto simp: fld_RegisterPeerResponse_def split: if_splits elim!: settle_rules intro!: settle_intros decoder_ends)

lemma back_PunchHoleRequest [codec_backs]:
    "ok_PunchHoleRequest m \<Longrightarrow> codec_back (enc_PunchHoleRequest w) (dec_PunchHoleRequest w) m"
  unfolding dec_PunchHoleRequest_def
  by (cases m; rule codec_backI; clarsimp simp: enc_PunchHoleRequest_def ok_PunchHoleRequest_def PunchHoleRequest_base_def;
      (erule loop_rules, (simp add: fld_PunchHoleRequest_def codec_backs laws_back)+)+)

lemma ends_PunchHoleRequest [decoder_ends]: "settles (dec_PunchHoleRequest w len)"
  unfolding dec_PunchHoleRequest_def
  by (rule decode_settles)
    (auto simp: fld_PunchHoleRequest_def split: if_splits elim!: settle_rules intro!: settle_intros decoder_ends)

lemma back_ControlPermissions [codec_backs]:
    "codec_back (enc_ControlPermissions w) (dec_ControlPermissions w) m"
  unfolding dec_ControlPermissions_def
  by (rule codec_backI; clarsimp simp: enc_ControlPermissions_def;
      (erule loop_rules, (simp add: fld_ControlPermissions_def codec_backs laws_back)+)+)

lemma ends_ControlPermissions [decoder_ends]: "settles (dec_ControlPermissions w len)"
  unfolding dec_ControlPermissions_def
  by (rule decode_settles)
    (auto simp: fld_ControlPermissions_def split: if_splits elim!: settle_rules intro!: settle_intros decoder_ends)

lemma back_ControlledContext [codec_backs]:
    "ok_ControlledContext m \<Longrightarrow> codec_back (enc_ControlledContext w) (dec_ControlledContext w) m"
  unfolding dec_ControlledContext_def
  by (rule codec_backI; clarsimp simp: enc_ControlledContext_def ok_ControlledContext_def;
      (erule loop_rules, (simp add: fld_ControlledContext_def codec_backs laws_back)+)+)

lemma ends_ControlledContext [decoder_ends]: "settles (dec_ControlledContext w len)"
  unfolding dec_ControlledContext_def
  by (rule decode_settles)
    (auto simp: fld_ControlledContext_def split: if_splits elim!: settle_rules intro!: settle_intros decoder_ends)

lemma back_PunchHole [codec_backs]: "ok_PunchHole m \<Longrightarrow> codec_back (enc_PunchHole w) (dec_PunchHole w) m"
  unfolding dec_PunchHole_def
  by (cases m; rule codec_backI; clarsimp simp: enc_PunchHole_def ok_PunchHole_def PunchHole_base_def;
      (erule loop_rules, (simp add: fld_PunchHole_def codec_backs laws_back)+)+)

lemma ends_PunchHole [decoder_ends]: "settles (dec_PunchHole w len)"
  unfolding dec_PunchHole_def
  by (rule decode_settles)
    (auto simp: fld_PunchHole_def split: if_splits elim!: settle_rules intro!: settle_intros decoder_ends)

lemma back_TestNatRequest [codec_backs]: "codec_back (enc_TestNatRequest w) (dec_TestNatRequest w) m"
  unfolding dec_TestNatRequest_def
  by (rule codec_backI; clarsimp simp: enc_TestNatRequest_def;
      (erule loop_rules, (simp add: fld_TestNatRequest_def codec_backs laws_back)+)+)

lemma ends_TestNatRequest [decoder_ends]: "settles (dec_TestNatRequest w len)"
  unfolding dec_TestNatRequest_def
  by (rule decode_settles)
    (auto simp: fld_TestNatRequest_def split: if_splits elim!: settle_rules intro!: settle_intros decoder_ends)

lemma back_ConfigUpdate [codec_backs]:
    "ok_ConfigUpdate m \<Longrightarrow> codec_back (enc_ConfigUpdate w) (dec_ConfigUpdate w) m"
  unfolding dec_ConfigUpdate_def
  by (cases m; rule codec_backI; clarsimp simp: enc_ConfigUpdate_def ok_ConfigUpdate_def ConfigUpdate_base_def;
      (erule loop_rules, (simp add: fld_ConfigUpdate_def codec_backs laws_back split_beta)+)+)

lemma ends_ConfigUpdate [decoder_ends]: "settles (dec_ConfigUpdate w len)"
  unfolding dec_ConfigUpdate_def
  by (rule decode_settles)
    (auto simp: fld_ConfigUpdate_def split: if_splits elim!: settle_rules intro!: settle_intros decoder_ends)

lemma back_TestNatResponse [codec_backs]:
    "ok_TestNatResponse m \<Longrightarrow> codec_back (enc_TestNatResponse w) (dec_TestNatResponse w) m"
  unfolding dec_TestNatResponse_def
  by (cases m; rule codec_backI; clarsimp simp: enc_TestNatResponse_def ok_TestNatResponse_def TestNatResponse_base_def;
      (erule loop_rules, (simp add: fld_TestNatResponse_def codec_backs laws_back)+)+)

lemma ends_TestNatResponse [decoder_ends]: "settles (dec_TestNatResponse w len)"
  unfolding dec_TestNatResponse_def
  by (rule decode_settles)
    (auto simp: fld_TestNatResponse_def split: if_splits elim!: settle_rules intro!: settle_intros decoder_ends)

lemma back_PunchHoleSent [codec_backs]:
    "ok_PunchHoleSent m \<Longrightarrow> codec_back (enc_PunchHoleSent w) (dec_PunchHoleSent w) m"
  unfolding dec_PunchHoleSent_def
  by (cases m; rule codec_backI; clarsimp simp: enc_PunchHoleSent_def ok_PunchHoleSent_def PunchHoleSent_base_def;
      (erule loop_rules, (simp add: fld_PunchHoleSent_def codec_backs laws_back)+)+)

lemma ends_PunchHoleSent [decoder_ends]: "settles (dec_PunchHoleSent w len)"
  unfolding dec_PunchHoleSent_def
  by (rule decode_settles)
    (auto simp: fld_PunchHoleSent_def split: if_splits elim!: settle_rules intro!: settle_intros decoder_ends)

lemma back_RegisterPk [codec_backs]: "ok_RegisterPk m \<Longrightarrow> codec_back (enc_RegisterPk w) (dec_RegisterPk w) m"
  unfolding dec_RegisterPk_def
  by (cases m; rule codec_backI; clarsimp simp: enc_RegisterPk_def ok_RegisterPk_def RegisterPk_base_def;
      (erule loop_rules, (simp add: fld_RegisterPk_def codec_backs laws_back)+)+)

lemma ends_RegisterPk [decoder_ends]: "settles (dec_RegisterPk w len)"
  unfolding dec_RegisterPk_def
  by (rule decode_settles)
    (auto simp: fld_RegisterPk_def split: if_splits elim!: settle_rules intro!: settle_intros decoder_ends)

lemma back_RegisterPkResponse [codec_backs]:
    "codec_back (enc_RegisterPkResponse w) (dec_RegisterPkResponse w) m"
  unfolding dec_RegisterPkResponse_def
  by (cases m; rule codec_backI; clarsimp simp: enc_RegisterPkResponse_def RegisterPkResponse_base_def;
      (erule loop_rules, (simp add: fld_RegisterPkResponse_def codec_backs laws_back)+)+)

lemma ends_RegisterPkResponse [decoder_ends]: "settles (dec_RegisterPkResponse w len)"
  unfolding dec_RegisterPkResponse_def
  by (rule decode_settles)
    (auto simp: fld_RegisterPkResponse_def split: if_splits elim!: settle_rules intro!: settle_intros decoder_ends)

lemma back_PunchHoleResponse [codec_backs]:
    "ok_PunchHoleResponse m \<Longrightarrow> codec_back (enc_PunchHoleResponse w) (dec_PunchHoleResponse w) m"
  unfolding dec_PunchHoleResponse_def
  by (cases
      "php_union m"; cases m; rule codec_backI; clarsimp simp: enc_PunchHoleResponse_def ok_PunchHoleResponse_def PunchHoleResponse_base_def;
      (erule loop_rules, (simp add: fld_PunchHoleResponse_def codec_backs laws_back)+)+)

lemma ends_PunchHoleResponse [decoder_ends]: "settles (dec_PunchHoleResponse w len)"
  unfolding dec_PunchHoleResponse_def
  by (rule decode_settles)
    (auto simp: fld_PunchHoleResponse_def split: if_splits elim!: settle_rules intro!: settle_intros decoder_ends)

lemma back_RequestRelay [codec_backs]:
    "ok_RequestRelay m \<Longrightarrow> codec_back (enc_RequestRelay w) (dec_RequestRelay w) m"
  unfolding dec_RequestRelay_def
  by (cases m; rule codec_backI; clarsimp simp: enc_RequestRelay_def ok_RequestRelay_def RequestRelay_base_def;
      (erule loop_rules, (simp add: fld_RequestRelay_def codec_backs laws_back)+)+)

lemma ends_RequestRelay [decoder_ends]: "settles (dec_RequestRelay w len)"
  unfolding dec_RequestRelay_def
  by (rule decode_settles)
    (auto simp: fld_RequestRelay_def split: if_splits elim!: settle_rules intro!: settle_intros decoder_ends)

lemma back_RelayResponse [codec_backs]:
    "ok_RelayResponse m \<Longrightarrow> codec_back (enc_RelayResponse w) (dec_RelayResponse w) m"
  unfolding dec_RelayResponse_def
  by (cases
      "rr_union m"; cases m; rule codec_backI; clarsimp simp: enc_RelayResponse_def ok_RelayResponse_def RelayResponse_base_def;
      (erule loop_rules, (simp add: fld_RelayResponse_def codec_backs laws_back)+)+)

lemma ends_RelayResponse [decoder_ends]: "settles (dec_RelayResponse w len)"
  unfolding dec_RelayResponse_def
  by (rule decode_settles)
    (auto simp: fld_RelayResponse_def split: if_splits elim!: settle_rules intro!: settle_intros decoder_ends)

lemma back_SoftwareUpdate [codec_backs]:
    "ok_SoftwareUpdate m \<Longrightarrow> codec_back (enc_SoftwareUpdate w) (dec_SoftwareUpdate w) m"
  unfolding dec_SoftwareUpdate_def
  by (rule codec_backI; clarsimp simp: enc_SoftwareUpdate_def ok_SoftwareUpdate_def;
      (erule loop_rules, (simp add: fld_SoftwareUpdate_def codec_backs laws_back)+)+)

lemma ends_SoftwareUpdate [decoder_ends]: "settles (dec_SoftwareUpdate w len)"
  unfolding dec_SoftwareUpdate_def
  by (rule decode_settles)
    (auto simp: fld_SoftwareUpdate_def split: if_splits elim!: settle_rules intro!: settle_intros decoder_ends)

lemma back_FetchLocalAddr [codec_backs]:
    "ok_FetchLocalAddr m \<Longrightarrow> codec_back (enc_FetchLocalAddr w) (dec_FetchLocalAddr w) m"
  unfolding dec_FetchLocalAddr_def
  by (cases m; rule codec_backI; clarsimp simp: enc_FetchLocalAddr_def ok_FetchLocalAddr_def FetchLocalAddr_base_def;
      (erule loop_rules, (simp add: fld_FetchLocalAddr_def codec_backs laws_back)+)+)

lemma ends_FetchLocalAddr [decoder_ends]: "settles (dec_FetchLocalAddr w len)"
  unfolding dec_FetchLocalAddr_def
  by (rule decode_settles)
    (auto simp: fld_FetchLocalAddr_def split: if_splits elim!: settle_rules intro!: settle_intros decoder_ends)

lemma back_LocalAddr [codec_backs]: "ok_LocalAddr m \<Longrightarrow> codec_back (enc_LocalAddr w) (dec_LocalAddr w) m"
  unfolding dec_LocalAddr_def
  by (cases m; rule codec_backI; clarsimp simp: enc_LocalAddr_def ok_LocalAddr_def LocalAddr_base_def;
      (erule loop_rules, (simp add: fld_LocalAddr_def codec_backs laws_back)+)+)

lemma ends_LocalAddr [decoder_ends]: "settles (dec_LocalAddr w len)"
  unfolding dec_LocalAddr_def
  by (rule decode_settles)
    (auto simp: fld_LocalAddr_def split: if_splits elim!: settle_rules intro!: settle_intros decoder_ends)

lemma back_PeerDiscovery [codec_backs]:
    "ok_PeerDiscovery m \<Longrightarrow> codec_back (enc_PeerDiscovery w) (dec_PeerDiscovery w) m"
  unfolding dec_PeerDiscovery_def
  by (cases m; rule codec_backI; clarsimp simp: enc_PeerDiscovery_def ok_PeerDiscovery_def PeerDiscovery_base_def;
      (erule loop_rules, (simp add: fld_PeerDiscovery_def codec_backs laws_back)+)+)

lemma ends_PeerDiscovery [decoder_ends]: "settles (dec_PeerDiscovery w len)"
  unfolding dec_PeerDiscovery_def
  by (rule decode_settles)
    (auto simp: fld_PeerDiscovery_def split: if_splits elim!: settle_rules intro!: settle_intros decoder_ends)

lemma back_OnlineRequest [codec_backs]:
    "ok_OnlineRequest m \<Longrightarrow> codec_back (enc_OnlineRequest w) (dec_OnlineRequest w) m"
  unfolding dec_OnlineRequest_def
  by (cases m; rule codec_backI; clarsimp simp: enc_OnlineRequest_def ok_OnlineRequest_def OnlineRequest_base_def;
      (erule loop_rules, (simp add: fld_OnlineRequest_def codec_backs laws_back split_beta)+)+)

lemma ends_OnlineRequest [decoder_ends]: "settles (dec_OnlineRequest w len)"
  unfolding dec_OnlineRequest_def
  by (rule decode_settles)
    (auto simp: fld_OnlineRequest_def split: if_splits elim!: settle_rules intro!: settle_intros decoder_ends)

lemma back_OnlineResponse [codec_backs]: "codec_back (enc_OnlineResponse w) (dec_OnlineResponse w) m"
  unfolding dec_OnlineResponse_def
  by (rule codec_backI; clarsimp simp: enc_OnlineResponse_def;
      (erule loop_rules, (simp add: fld_OnlineResponse_def codec_backs laws_back)+)+)

lemma ends_OnlineResponse [decoder_ends]: "settles (dec_OnlineResponse w len)"
  unfolding dec_OnlineResponse_def
  by (rule decode_settles)
    (auto simp: fld_OnlineResponse_def split: if_splits elim!: settle_rules intro!: settle_intros decoder_ends)

lemma back_KeyExchange [codec_backs]: "codec_back (enc_KeyExchange w) (dec_KeyExchange w) m"
  unfolding dec_KeyExchange_def
  by (rule codec_backI; clarsimp simp: enc_KeyExchange_def;
      (erule loop_rules, (simp add: fld_KeyExchange_def codec_backs laws_back)+)+)

lemma ends_KeyExchange [decoder_ends]: "settles (dec_KeyExchange w len)"
  unfolding dec_KeyExchange_def
  by (rule decode_settles)
    (auto simp: fld_KeyExchange_def split: if_splits elim!: settle_rules intro!: settle_intros decoder_ends)

lemma back_HealthCheck [codec_backs]:
    "ok_HealthCheck m \<Longrightarrow> codec_back (enc_HealthCheck w) (dec_HealthCheck w) m"
  unfolding dec_HealthCheck_def
  by (rule codec_backI; clarsimp simp: enc_HealthCheck_def ok_HealthCheck_def;
      (erule loop_rules, (simp add: fld_HealthCheck_def codec_backs laws_back)+)+)

lemma ends_HealthCheck [decoder_ends]: "settles (dec_HealthCheck w len)"
  unfolding dec_HealthCheck_def
  by (rule decode_settles)
    (auto simp: fld_HealthCheck_def split: if_splits elim!: settle_rules intro!: settle_intros decoder_ends)

lemma back_HeaderEntry [codec_backs]:
    "ok_HeaderEntry m \<Longrightarrow> codec_back (enc_HeaderEntry w) (dec_HeaderEntry w) m"
  unfolding dec_HeaderEntry_def
  by (cases m; rule codec_backI; clarsimp simp: enc_HeaderEntry_def ok_HeaderEntry_def HeaderEntry_base_def;
      (erule loop_rules, (simp add: fld_HeaderEntry_def codec_backs laws_back)+)+)

lemma ends_HeaderEntry [decoder_ends]: "settles (dec_HeaderEntry w len)"
  unfolding dec_HeaderEntry_def
  by (rule decode_settles)
    (auto simp: fld_HeaderEntry_def split: if_splits elim!: settle_rules intro!: settle_intros decoder_ends)

lemma back_HttpProxyRequest [codec_backs]:
    "ok_HttpProxyRequest m \<Longrightarrow> codec_back (enc_HttpProxyRequest w) (dec_HttpProxyRequest w) m"
  unfolding dec_HttpProxyRequest_def
  by (cases m; rule codec_backI; clarsimp simp: enc_HttpProxyRequest_def ok_HttpProxyRequest_def HttpProxyRequest_base_def;
      (erule loop_rules, (simp add: fld_HttpProxyRequest_def codec_backs laws_back)+)+)

lemma ends_HttpProxyRequest [decoder_ends]: "settles (dec_HttpProxyRequest w len)"
  unfolding dec_HttpProxyRequest_def
  by (rule decode_settles)
    (auto simp: fld_HttpProxyRequest_def split: if_splits elim!: settle_rules intro!: settle_intros decoder_ends)

lemma back_HttpProxyResponse [codec_backs]:
    "ok_HttpProxyResponse m \<Longrightarrow> codec_back (enc_HttpProxyResponse w) (dec_HttpProxyResponse w) m"
  unfolding dec_HttpProxyResponse_def
  by (cases m; rule codec_backI; clarsimp simp: enc_HttpProxyResponse_def ok_HttpProxyResponse_def HttpProxyResponse_base_def;
      (erule loop_rules, (simp add: fld_HttpProxyResponse_def codec_backs laws_back)+)+)

lemma ends_HttpProxyResponse [decoder_ends]: "settles (dec_HttpProxyResponse w len)"
  unfolding dec_HttpProxyResponse_def
  by (rule decode_settles)
    (auto simp: fld_HttpProxyResponse_def split: if_splits elim!: settle_rules intro!: settle_intros decoder_ends)

lemma back_RendezvousMessage [codec_backs]:
    "ok_RendezvousMessage m \<Longrightarrow> codec_back (enc_RendezvousMessage w) (dec_RendezvousMessage w) m"
  unfolding dec_RendezvousMessage_def
  by (cases m; rule codec_backI; clarsimp simp: enc_RendezvousMessage_def ok_RendezvousMessage_def;
      (erule loop_rules, (simp add: fld_RendezvousMessage_def codec_backs laws_back)+)+)

lemma ends_RendezvousMessage [decoder_ends]: "settles (dec_RendezvousMessage w len)"
  unfolding dec_RendezvousMessage_def
  by (rule decode_settles)
    (auto simp: fld_RendezvousMessage_def split: if_splits elim!: settle_rules intro!: settle_intros decoder_ends)

end

end
