(* ===== verification/Protobuf.thy ===== *)
theory Protobuf
  imports Wire Terminal_Safety
begin

text \<open>
  A wire library that keeps what \<open>wire_format\<close> asks for, written from the protocol buffer
  encoding specification: base-128 varints of at most ten bytes, zigzag for \<open>sint32\<close>, IEEE 754
  doubles in little-endian order, UTF-8 strings and length-delimited bytes. Groups, which
  \<open>proto3\<close> files do not contain, are refused by \<open>skip\<close>. It shows that the assumptions can be
  met, and is the wire of the concrete examples.
\<close>

section \<open>Varints\<close>

fun varint :: "nat \<Rightarrow> bytes" where
  "varint n = (if n < 128 then [of_nat n] else of_nat (128 + n mod 128) # varint (n div 128))"

declare varint.simps [simp del]

fun read_varint :: "nat \<Rightarrow> bytes \<Rightarrow> jsstr + nat \<times> bytes" where
  "read_varint 0 _ = Inl (js ''invalid varint'')"
| "read_varint (Suc k) [] = Inl (js ''premature EOF'')"
| "read_varint (Suc k) (b # bs) =
     (if unat b < 128 then Inr (unat b, bs)
      else (case read_varint k bs of
              Inl e \<Rightarrow> Inl e
            | Inr (n, rest) \<Rightarrow> Inr (unat b - 128 + 128 * n, rest)))"

lemma read_varint_back: "0 < k \<Longrightarrow> n < 128 ^ k \<Longrightarrow> read_varint k (varint n @ rest) = Inr (n, rest)"
proof (induction k arbitrary: n)
  case (Suc k)
  show ?case
  proof (cases "n < 128")
    case True
    then show ?thesis by (subst varint.simps) (simp add: byte_unat)
  next
    case False
    with Suc.prems have k: "0 < k" by (cases k) auto
    have "n div 128 < 128 ^ k" using Suc.prems(2) by (simp add: less_mult_imp_div_less mult.commute)
    from Suc.IH [OF k this] have r: "read_varint k (varint (n div 128) @ rest) = Inr (n div 128, rest)" .
    have u: "unat (of_nat (128 + n mod 128) :: byte) = 128 + n mod 128"
      by (rule byte_unat) (simp add: order_less_trans [OF mod_less_divisor])
    have "128 * (n div 128) + n mod 128 = n" by simp
    with False r u show ?thesis by (subst varint.simps) simp
  qed
qed simp

lemma read_varint_shorter: "read_varint k bs = Inr (n, rest) \<Longrightarrow> length rest < length bs"
  by (induction k bs arbitrary: n rest rule: read_varint.induct)
    (auto split: if_splits sum.splits prod.splits simp: less_Suc_eq)

section \<open>Integers\<close>

definition pb_write :: "int \<Rightarrow> int \<Rightarrow> int \<Rightarrow> jsstr + bytes" where
  "pb_write lo hi n =
     (if lo \<le> n \<and> n < hi then Inr (varint (nat (n mod 2 ^ 64))) else Inl (js ''invalid value''))"

definition pb_read :: "(int \<Rightarrow> 'a) \<Rightarrow> bytes \<Rightarrow> jsstr + 'a \<times> bytes" where
  "pb_read f bs =
     (case read_varint 10 bs of Inl e \<Rightarrow> Inl e | Inr (n, rest) \<Rightarrow> Inr (f (int n), rest))"

definition signed_of :: "nat \<Rightarrow> int \<Rightarrow> int" where
  "signed_of k n = (n + 2 ^ (k - 1)) mod 2 ^ k - 2 ^ (k - 1)"

definition zigzag :: "int \<Rightarrow> int" where
  "zigzag n = (if n < 0 then - 2 * n - 1 else 2 * n)"

definition unzigzag :: "int \<Rightarrow> int" where
  "unzigzag n = (if n mod 2 = 0 then n div 2 else - (n div 2) - 1)"

lemma unzigzag_zigzag [simp]: "unzigzag (zigzag n) = n"
  unfolding zigzag_def unzigzag_def by presburger

lemma pb_read_advances: "advances (pb_read f)"
  using read_varint_shorter by (fastforce simp: advances_def pb_read_def split: sum.splits)

lemma pb_read_varint:
  assumes "n < 2 ^ 64"
  shows "pb_read f (varint n @ rest) = Inr (f (int n), rest)"
proof -
  have "n < 128 ^ 10" using assms by simp
  then have "read_varint 10 (varint n @ rest) = Inr (n, rest)" by (intro read_varint_back) simp_all
  then show ?thesis by (simp add: pb_read_def)
qed

lemma pb_back:
  assumes "\<And>n. lo \<le> n \<Longrightarrow> n < hi \<Longrightarrow> f (n mod 2 ^ 64) = n"
  shows "gives_back (pb_write lo hi) (once (pb_read f)) n"
proof -
  have "nat (n mod 2 ^ 64) < 2 ^ 64" by (simp add: nat_less_iff)
  then have "pb_read f (varint (nat (n mod 2 ^ 64)) @ rest) = Inr (f (n mod 2 ^ 64), rest)" for rest
    by (subst pb_read_varint) simp_all
  then show ?thesis using assms by (auto simp: gives_back_def once_def pb_write_def)
qed

lemma signed_of_id:
  assumes "- (2 ^ (k - 1)) \<le> n" "n < 2 ^ (k - 1)" "0 < k" "k \<le> 64"
  shows "signed_of k (n mod 2 ^ 64) = n"
proof -
  have d: "(2 :: int) ^ k dvd 2 ^ 64" using assms(4) by (rule le_imp_power_dvd)
  have "(n mod 2 ^ 64 + 2 ^ (k - 1)) mod 2 ^ k = (n + 2 ^ (k - 1)) mod 2 ^ k"
    using d by (metis mod_add_left_eq mod_mod_cancel)
  moreover have "(2 :: int) ^ k = 2 ^ (k - 1) + 2 ^ (k - 1)"
    using assms(3) by (cases k) simp_all
  then have "(n + 2 ^ (k - 1)) mod 2 ^ k = n + 2 ^ (k - 1)"
    using assms(1,2) by (intro mod_pos_pos_trivial) linarith+
  ultimately show ?thesis by (simp add: signed_of_def)
qed

section \<open>Length-delimited values\<close>

definition pb_bytes :: "bytes \<Rightarrow> jsstr + bytes" where
  "pb_bytes bs =
     (if length bs < 2 ^ 32 then Inr (varint (length bs) @ bs) else Inl (js ''invalid uint32''))"

definition pb_read_bytes :: "bytes \<Rightarrow> jsstr + bytes \<times> bytes" where
  "pb_read_bytes bs =
     (case pb_read (\<lambda>n. nat (n mod 2 ^ 32)) bs of
        Inl e \<Rightarrow> Inl e
      | Inr (n, rest) \<Rightarrow>
          if n \<le> length rest then Inr (take n rest, drop n rest) else Inl (js ''premature EOF''))"

definition utf8_decode :: "bytes \<Rightarrow> jsstr" where
  "utf8_decode bs =
     (case decode_stream newDecoder bs of (d, s) \<Rightarrow> if ud_needed d = 0 then s else s @ [0xFFFD])"

definition pb_string :: "jsstr \<Rightarrow> jsstr + bytes" where
  "pb_string s = pb_bytes (utf8_encode s)"

definition pb_read_string :: "bytes \<Rightarrow> jsstr + jsstr \<times> bytes" where
  "pb_read_string bs =
     (case pb_read_bytes bs of Inl e \<Rightarrow> Inl e | Inr (b, rest) \<Rightarrow> Inr (utf8_decode b, rest))"

lemma pb_length_back:
  assumes "length bs < 2 ^ 32"
  shows "pb_read (\<lambda>n. nat (n mod 2 ^ 32)) (varint (length bs) @ rest) = Inr (length bs, rest)"
  using assms by (subst pb_read_varint) (simp_all add: nat_mod_distrib)

lemma pb_read_bytes_back: "pb_bytes bs = Inr b \<Longrightarrow> pb_read_bytes (b @ rest) = Inr (bs, rest)"
  using pb_length_back [of bs "bs @ rest"] by (auto simp: pb_bytes_def pb_read_bytes_def split: if_splits)

lemma pb_read_bytes_advances: "advances pb_read_bytes"
  unfolding advances_def
proof (intro allI impI)
  fix bs v rest assume "pb_read_bytes bs = Inr (v, rest)"
  then obtain n rest1 where "pb_read (\<lambda>n. nat (n mod 2 ^ 32)) bs = Inr (n, rest1)" "rest = drop n rest1"
    by (auto simp: pb_read_bytes_def split: sum.splits if_splits)
  then show "length rest < length bs"
    using pb_read_advances unfolding advances_def by (metis le_less_trans length_drop diff_le_self)
qed

lemma code_points_plain:
  assumes "\<not> (0xD800 \<le> u \<and> u \<le> 0xDFFF)"
  shows "code_points (u # v # s) = unat u # code_points (v # s)"
proof -
  have "\<not> (0xD800 \<le> u \<and> u \<le> 0xDBFF)" using assms by (auto simp: word_le_nat_alt)
  with assms show ?thesis by auto
qed

lemma well_formed_points:
  "well_formed s \<Longrightarrow> (\<forall>cp \<in> set (code_points s). scalar cp) \<and> concat (map units_of (code_points s)) = s"
proof (induction s rule: well_formed.induct)
  case (2 u)
  have "unat u < 65536" using unsigned_less [of u] by simp
  with 2 show ?case by (auto simp: scalar_def units_of_def word_le_nat_alt)
next
  case (3 u v s)
  have b: "unat u < 65536" "unat v < 65536" using unsigned_less [of u] unsigned_less [of v] by simp_all
  show ?case
  proof (cases "0xD800 \<le> u \<and> u \<le> 0xDFFF")
    case True
    then have h: "0xD800 \<le> u" "u \<le> 0xDBFF" "0xDC00 \<le> v" "v \<le> 0xDFFF" "well_formed s"
      using "3.prems" by auto
    define i j where "i = unat u - 0xD800" and "j = unat v - 0xDC00"
    have u: "unat u = 0xD800 + i" "i < 0x400" and v: "unat v = 0xDC00 + j" "j < 0x400"
      using h by (auto simp: i_def j_def word_le_nat_alt)
    have "of_nat (0xD800 + i) = u" "of_nat (0xDC00 + j) = v"
      unfolding u(1) [symmetric] v(1) [symmetric] by simp_all
    moreover have "0x10000 + i * 0x400 + j - 0x10000 = i * 0x400 + j" by simp
    moreover have "(i * 0x400 + j) div 0x400 = i" "(i * 0x400 + j) mod 0x400 = j" using v(2) by simp_all
    moreover have "scalar (0x10000 + i * 0x400 + j)" using u v by (simp add: scalar_def)
    ultimately show ?thesis using h "3.IH"(1) True u v by (simp add: units_of_def)
  next
    case False
    then have "unat u < 0xD800 \<or> 0xDFFF < unat u" by (auto simp: word_le_nat_alt)
    with b have "scalar (unat u)" "units_of (unat u) = [u]" by (auto simp: scalar_def units_of_def)
    moreover have "(\<forall>cp \<in> set (code_points (v # s)). scalar cp) \<and> concat (map units_of (code_points (v # s))) = v # s"
      using False "3.IH"(2) "3.prems" by auto
    ultimately show ?thesis unfolding code_points_plain [OF False] by simp
  qed
qed simp

lemma utf8_decode_encode:
  assumes "text_ok s"
  shows "utf8_decode (utf8_encode s) = s"
proof -
  have w: "\<forall>cp \<in> set (code_points s). scalar cp" "concat (map units_of (code_points s)) = s"
    using assms well_formed_points by (auto simp: text_ok_def)
  have "ud_reset newDecoder = newDecoder" by (simp add: newDecoder_def ud_reset_def)
  from utf8_points_through [OF w(1) this]
  have d: "ud_bytes newDecoder (utf8_encode s) = (newDecoder, code_points s)" by (simp add: utf8_encode_def)
  have "code_points s \<noteq> [] \<longrightarrow> hd (code_points s) \<noteq> 0xFEFF"
  proof (cases "code_points s")
    case (Cons cp cps)
    with w(2) have "s = units_of cp @ concat (map units_of cps)" by simp
    with Cons assms show ?thesis by (auto simp: text_ok_def units_of_def)
  qed simp
  moreover have "ud_needed newDecoder = 0" "ud_begun newDecoder = False" by (simp_all add: newDecoder_def)
  ultimately show ?thesis
    using w(2) by (auto simp add: utf8_decode_def decode_stream_def d skip_bom_def)
qed

section \<open>Doubles\<close>

fun le_bytes :: "nat \<Rightarrow> nat \<Rightarrow> bytes" where
  "le_bytes 0 n = []"
| "le_bytes (Suc k) n = of_nat (n mod 256) # le_bytes k (n div 256)"

fun le_nat :: "bytes \<Rightarrow> nat" where
  "le_nat [] = 0"
| "le_nat (b # bs) = unat b + 256 * le_nat bs"

lemma length_pb_le_bytes [simp]: "length (le_bytes k n) = k"
  by (induction k arbitrary: n) simp_all

lemma le_nat_bytes: "n < 256 ^ k \<Longrightarrow> le_nat (le_bytes k n) = n"
proof (induction k arbitrary: n)
  case (Suc k)
  have "n div 256 < 256 ^ k" using Suc.prems by (simp add: less_mult_imp_div_less mult.commute)
  with Suc.IH show ?case by (simp add: byte_unat)
qed simp

text \<open>
  The bits of a finite double without its sign: a multiple \<open>q * 2 ^ e\<close> of \<open>2 ^ -1074\<close> has the
  bits \<open>e * 2 ^ 52 + q\<close>, and \<open>2 ^ 52 \<le> q\<close> whenever \<open>0 < e\<close>.
\<close>

definition magnitude_bits :: "nat \<Rightarrow> nat" where
  "magnitude_bits k = (let e = excess_bits k in e * 2 ^ 52 + k div 2 ^ e)"

definition magnitude_of :: "nat \<Rightarrow> nat" where
  "magnitude_of b = (let e = b div 2 ^ 52 - 1 in (b - e * 2 ^ 52) * 2 ^ e)"

definition double_bits :: "jsnum \<Rightarrow> nat" where
  "double_bits x =
     (case x of
        NaN \<Rightarrow> 0x7FF8000000000000
      | Inf neg \<Rightarrow> 0x7FF0000000000000 + (if neg then 2 ^ 63 else 0)
      | Num r \<Rightarrow> magnitude_bits (nat \<lfloor>\<bar>r\<bar> * 2 ^ 1074\<rfloor>) + (if r < 0 then 2 ^ 63 else 0))"

definition double_of :: "nat \<Rightarrow> jsnum" where
  "double_of n =
     (let b = n mod 2 ^ 63; neg = 2 ^ 63 \<le> n
      in if 0x7FF0000000000000 < b then NaN
         else if b = 0x7FF0000000000000 then Inf neg
         else Num ((if neg then - 1 else 1) * of_nat (magnitude_of b) / 2 ^ 1074))"

definition pb_double :: "jsnum \<Rightarrow> jsstr + bytes" where
  "pb_double x = Inr (le_bytes 8 (double_bits x))"

definition pb_read_double :: "bytes \<Rightarrow> jsstr + jsnum \<times> bytes" where
  "pb_read_double bs =
     (if length bs < 8 then Inl (js ''premature EOF'')
      else Inr (double_of (le_nat (take 8 bs)), drop 8 bs))"

lemma excess_bits_range:
  "k div 2 ^ excess_bits k < 2 ^ 53 \<and> (0 < excess_bits k \<longrightarrow> 2 ^ 52 \<le> k div 2 ^ excess_bits k)"
proof (induction k rule: excess_bits.induct)
  case (1 k)
  show ?case
  proof (cases "k < 9007199254740992")
    case True
    then show ?thesis by (simp add: excess_bits.simps)
  next
    case False
    then have e: "excess_bits k = Suc (excess_bits (k div 2))" by (simp add: excess_bits.simps)
    have d: "k div 2 ^ excess_bits k = k div 2 div 2 ^ excess_bits (k div 2)"
      by (simp add: e div_mult2_eq)
    have "2 ^ 52 \<le> k div 2" using False by simp
    moreover have "excess_bits (k div 2) = 0 \<longrightarrow> k div 2 div 2 ^ excess_bits (k div 2) = k div 2" by simp
    ultimately show ?thesis using "1.IH" [OF False] unfolding d by fastforce
  qed
qed

lemma magnitude_back:
  assumes "k mod 2 ^ excess_bits k = 0"
  shows "magnitude_of (magnitude_bits k) = k"
proof -
  define e q where "e = excess_bits k" and "q = k div 2 ^ excess_bits k"
  have q: "q < 2 ^ 53" "0 < e \<longrightarrow> 2 ^ 52 \<le> q" using excess_bits_range [of k] by (simp_all add: e_def q_def)
  have k: "k = q * 2 ^ e" using assms by (metis e_def q_def mod_0_imp_dvd dvd_div_mult_self)
  have "(e * 2 ^ 52 + q) div 2 ^ 52 - 1 = e"
  proof (cases "e = 0")
    case True
    have "q div 2 ^ 52 < 2" using q(1) by (simp add: less_mult_imp_div_less)
    with True show ?thesis by simp
  next
    case False
    have "q div 2 ^ 52 = 1"
      by (rule div_nat_eqI) (use q False in simp_all)
    then show ?thesis by simp
  qed
  moreover have "magnitude_bits k = e * 2 ^ 52 + q" by (simp add: magnitude_bits_def Let_def e_def q_def)
  ultimately show ?thesis using k [symmetric] by (simp only: magnitude_of_def Let_def diff_add_inverse)
qed

lemma magnitude_bits_less:
  assumes "excess_bits k \<le> 2045"
  shows "magnitude_bits k < 0x7FF0000000000000"
proof -
  have "excess_bits k * 2 ^ 52 \<le> 2045 * (2 ^ 52 :: nat)" using assms by (rule mult_le_mono1)
  moreover have "k div 2 ^ excess_bits k < 2 ^ 53" using excess_bits_range by blast
  ultimately show ?thesis by (simp add: magnitude_bits_def Let_def)
qed

lemma double_of_bits:
  assumes "is_double x"
  shows "double_bits x < 2 ^ 64 \<and> double_of (double_bits x) = x"
proof (cases x)
  case NaN
  then show ?thesis by (simp add: double_bits_def double_of_def)
next
  case (Inf neg)
  then show ?thesis by (simp add: double_bits_def double_of_def)
next
  case (Num r)
  define k b where "k = nat \<lfloor>\<bar>r\<bar> * 2 ^ 1074\<rfloor>" and "b = magnitude_bits k"
  have k: "of_nat k = \<bar>r\<bar> * 2 ^ 1074" "k mod 2 ^ excess_bits k = 0" "excess_bits k \<le> 2045"
    using assms Num unfolding is_double_def k_def by (simp_all only: Let_def jsnum.case)
  have b: "b < 0x7FF0000000000000" "magnitude_of b = k"
    using magnitude_bits_less [OF k(3)] magnitude_back [OF k(2)] by (simp_all only: b_def)
  have bits: "double_bits x = b + (if r < 0 then 2 ^ 63 else 0)"
    unfolding double_bits_def Num jsnum.case k_def b_def ..
  have "(if r < 0 then - 1 else 1) * of_nat k / 2 ^ 1074 = r"
    unfolding k(1) by (cases "r < 0") (simp_all only: abs_of_neg abs_of_nonneg not_less if_True if_False, simp_all)
  moreover have "double_of (double_bits x) = Num ((if r < 0 then - 1 else 1) * of_nat k / 2 ^ 1074)"
    using b unfolding bits double_of_def Let_def by (cases "r < 0") simp_all
  ultimately show ?thesis using b(1) Num unfolding bits by simp
qed

lemma pb_double_back: "is_double x \<Longrightarrow> gives_back pb_double (once pb_read_double) x"
  using double_of_bits [of x] le_nat_bytes [of "double_bits x" 8]
  by (simp add: gives_back_def once_def pb_double_def pb_read_double_def)

lemma pb_read_double_advances: "advances pb_read_double"
  by (auto simp: advances_def pb_read_double_def Let_def split: if_splits)

section \<open>The wire library\<close>

definition pb_skip :: "int \<Rightarrow> bytes \<Rightarrow> jsstr + bytes" where
  "pb_skip t bs =
     (if t = 0 then (case read_varint 10 bs of Inl e \<Rightarrow> Inl e | Inr (_, rest) \<Rightarrow> Inr rest)
      else if t = 1 \<and> 8 \<le> length bs then Inr (drop 8 bs)
      else if t = 2 then (case pb_read_bytes bs of Inl e \<Rightarrow> Inl e | Inr (_, rest) \<Rightarrow> Inr rest)
      else if t = 5 \<and> 4 \<le> length bs then Inr (drop 4 bs)
      else Inl (js ''cant skip wire type''))"

definition pb_wire :: wire where
  "pb_wire =
     \<lparr>wr_uint32 = pb_write 0 (2 ^ 32), wr_int32 = pb_write (- (2 ^ 31)) (2 ^ 31),
      wr_sint32 = (\<lambda>n. if - (2 ^ 31) \<le> n \<and> n < 2 ^ 31 then pb_write 0 (2 ^ 32) (zigzag n)
                        else Inl (js ''invalid int32'')),
      wr_uint64 = pb_write 0 (2 ^ 64), wr_int64 = pb_write (- (2 ^ 63)) (2 ^ 63),
      wr_bool = (\<lambda>c. pb_write 0 2 (if c then 1 else 0)),
      wr_double = pb_double, wr_string = pb_string, wr_bytes = pb_bytes, wr_join = pb_bytes,
      rd_uint32 = pb_read (\<lambda>n. n mod 2 ^ 32), rd_int32 = pb_read (signed_of 32),
      rd_sint32 = pb_read (\<lambda>n. unzigzag (n mod 2 ^ 32)),
      rd_uint64 = pb_read (\<lambda>n. n mod 2 ^ 64), rd_int64 = pb_read (signed_of 64),
      rd_bool = pb_read (\<lambda>n. n \<noteq> 0), rd_double = pb_read_double,
      rd_string = pb_read_string, rd_bytes = pb_read_bytes, rd_skip = pb_skip\<rparr>"

lemma pb_string_back: "text_ok s \<Longrightarrow> gives_back pb_string (once pb_read_string) s"
  by (simp add: gives_back_def once_def pb_string_def pb_read_string_def pb_read_bytes_back utf8_decode_encode)

lemma pb_read_string_advances: "advances pb_read_string"
  using pb_read_bytes_advances
  by (fastforce simp: advances_def pb_read_string_def split: sum.splits prod.splits)

lemma pb_back_when:
  assumes "\<And>b. wr v = Inr b \<Longrightarrow> lo \<le> n \<and> n < hi \<and> wr v = pb_write lo hi n \<and> f (n mod 2 ^ 64) = v"
  shows "gives_back wr (once (pb_read f)) v"
  unfolding gives_back_def
proof (intro allI impI)
  fix b rest assume w: "wr v = Inr b"
  then have n: "lo \<le> n" "n < hi" "b = varint (nat (n mod 2 ^ 64))" "f (n mod 2 ^ 64) = v"
    using assms [OF w] by (auto simp: pb_write_def)
  have "nat (n mod 2 ^ 64) < 2 ^ 64" by (simp add: nat_less_iff)
  then show "once (pb_read f) (b @ rest) = Some (Inr (v, rest))"
    using n by (simp add: once_def pb_read_varint)
qed

lemma pb_sint32_back:
  "gives_back (\<lambda>n. if - (2 ^ 31) \<le> n \<and> n < 2 ^ 31 then pb_write 0 (2 ^ 32) (zigzag n) else Inl e)
     (once (pb_read (\<lambda>n. unzigzag (n mod 2 ^ 32)))) n"
proof (rule pb_back_when [where n = "zigzag n" and lo = 0 and hi = "2 ^ 32"])
  fix b assume w: "(if - (2 ^ 31) \<le> n \<and> n < 2 ^ 31 then pb_write 0 (2 ^ 32) (zigzag n) else Inl e) = Inr b"
  then have n: "- (2 ^ 31) \<le> n \<and> n < 2 ^ 31" by (metis Inl_Inr_False)
  then have z: "0 \<le> zigzag n" "zigzag n < 2 ^ 32" by (auto simp: zigzag_def)
  then have "zigzag n mod 2 ^ 64 mod 2 ^ 32 = zigzag n" by simp
  with n z show "0 \<le> zigzag n \<and> zigzag n < 2 ^ 32 \<and>
      (if - (2 ^ 31) \<le> n \<and> n < 2 ^ 31 then pb_write 0 (2 ^ 32) (zigzag n) else Inl e) = pb_write 0 (2 ^ 32) (zigzag n) \<and>
      unzigzag (zigzag n mod 2 ^ 64 mod 2 ^ 32) = n"
    by (simp only: unzigzag_zigzag if_True simp_thms)
qed

interpretation pb: wire_format pb_wire
proof
  show "gives_back (wr_uint32 pb_wire) (once (rd_uint32 pb_wire)) n" for n
    unfolding pb_wire_def wire.simps by (rule pb_back) simp
  show "gives_back (wr_int32 pb_wire) (once (rd_int32 pb_wire)) n" for n
    unfolding pb_wire_def wire.simps by (rule pb_back) (rule signed_of_id; simp)
  show "gives_back (wr_sint32 pb_wire) (once (rd_sint32 pb_wire)) n" for n
    unfolding pb_wire_def wire.simps by (rule pb_sint32_back)
  show "gives_back (wr_uint64 pb_wire) (once (rd_uint64 pb_wire)) n" for n
    unfolding pb_wire_def wire.simps by (rule pb_back) simp
  show "gives_back (wr_int64 pb_wire) (once (rd_int64 pb_wire)) n" for n
    unfolding pb_wire_def wire.simps by (rule pb_back) (rule signed_of_id; simp)
  show "gives_back (wr_bool pb_wire) (once (rd_bool pb_wire)) c" for c
    unfolding pb_wire_def wire.simps
    by (rule pb_back_when [where n = "if c then 1 else 0" and lo = 0 and hi = 2]) simp
  show "gives_back (wr_double pb_wire) (once (rd_double pb_wire)) x" if "is_double x" for x
    using pb_double_back [OF that] by (simp add: pb_wire_def)
  show "gives_back (wr_string pb_wire) (once (rd_string pb_wire)) s" if "text_ok s" for s
    using pb_string_back [OF that] by (simp add: pb_wire_def)
  show "gives_back (wr_bytes pb_wire) (once (rd_bytes pb_wire)) bs" for bs
    by (simp add: pb_wire_def gives_back_def once_def pb_read_bytes_back)
  show "rd_uint32 pb_wire (b @ rest) = Inr (int (length chunk), chunk @ rest)"
    if "wr_join pb_wire chunk = Inr b" for chunk b rest
  proof -
    have "b = varint (length chunk) @ chunk" "length chunk < 2 ^ 32"
      using that by (simp_all add: pb_wire_def pb_bytes_def split: if_splits)
    then show ?thesis by (simp add: pb_wire_def pb_read_varint)
  qed
  show "\<exists>b. wr_uint32 pb_wire n = Inr b" if "0 \<le> n" "n < 2 ^ 32" for n
    using that by (simp add: pb_wire_def pb_write_def)
  show "rd_skip pb_wire 0 (b @ rest) = Inr rest" if "wr_uint32 pb_wire n = Inr b" for n b rest
  proof -
    have b: "b = varint (nat (n mod 2 ^ 64))" using that by (simp add: pb_wire_def pb_write_def split: if_splits)
    have "nat (n mod 2 ^ 64) < 2 ^ 64" by (simp add: nat_less_iff)
    also have "\<dots> < (128 :: nat) ^ 10" by simp
    finally show ?thesis unfolding b by (simp add: pb_wire_def pb_skip_def read_varint_back)
  qed
  show "rd_skip pb_wire 2 (b @ rest) = Inr rest" if "wr_bytes pb_wire bs = Inr b" for bs b rest
    using that by (simp add: pb_wire_def pb_skip_def pb_read_bytes_back)
  show "length rest \<le> length bs" if "rd_skip pb_wire t bs = Inr rest" for t bs rest
    using that pb_read_bytes_advances
    by (auto simp: pb_wire_def pb_skip_def advances_def dest!: read_varint_shorter split: if_splits sum.splits prod.splits
      intro: less_imp_le)
qed (simp_all add: pb_wire_def pb_read_advances pb_read_double_advances pb_read_string_advances pb_read_bytes_advances)

end
