(* ===== verification/Codec.thy ===== *)
theory Codec
  imports Codec_Message Codec_Rendezvous Protobuf Session_Safety
begin

text \<open>
  The generated code as the \<open>codec\<close> of the session: \<open>X.encode(m).finish()\<close> and
  \<open>X.decode(bytes)\<close> for the types the client puts on the wire, and what follows for the
  sessions that run on it.
\<close>

section \<open>The generated codec\<close>

text \<open>
  The bytes of a message; \<open>encode\<close> throws when a field does not fit its type, and nothing is
  written then.
\<close>

definition written :: "jsstr + bytes \<Rightarrow> bytes" where
  "written r = (case r of Inl _ \<Rightarrow> [] | Inr b \<Rightarrow> b)"

definition decoded :: "'m decoded \<Rightarrow> jsstr + 'm" where
  "decoded r =
     (case r of
        None \<Rightarrow> Inl (js ''does not return'')
      | Some (Inl e) \<Rightarrow> Inl e
      | Some (Inr (m, _)) \<Rightarrow> Inr m)"

definition gen_codec :: "wire \<Rightarrow> codec" where
  "gen_codec w =
     \<lparr>encMessage = \<lambda>m. written (enc_Message w m),
      decMessage = \<lambda>bs. decoded (dec_Message w (int (length bs)) bs),
      decIdPk = \<lambda>bs. decoded (dec_IdPk w (int (length bs)) bs),
      encRendezvous = \<lambda>m. written (enc_RendezvousMessage w m),
      decRendezvous = \<lambda>bs. decoded (dec_RendezvousMessage w (int (length bs)) bs)\<rparr>"

text \<open>What a message needs to arrive: its strings survive UTF-8, and \<open>encode\<close> does not throw.\<close>

definition sendable :: "wire \<Rightarrow> Message \<Rightarrow> bool" where
  "sendable w m \<longleftrightarrow> ok_Message m \<and> (\<exists>bs. enc_Message w m = Inr bs)"

lemma codec_back_whole:
  assumes "codec_back enc dec m" "enc m = Inr bs"
  shows "dec (int (length bs)) bs = Some (Inr (m, []))"
proof -
  have "dec (int (length bs)) (bs @ []) = Some (Inr (m, []))"
    using assms unfolding codec_back_def by blast
  then show ?thesis by simp
qed

text \<open>A field of a newer protocol: its number is not one of the union's.\<close>

definition unknown_field :: "wire \<Rightarrow> bytes \<Rightarrow> bool" where
  "unknown_field w f \<longleftrightarrow>
     (\<exists>n v bs t b. n \<notin> set Message_fields \<and> 0 < n \<and> f = t @ b \<and>
        (wr_uint32 w (8 * n) = Inr t \<and> wr_uint32 w v = Inr b \<or>
         wr_uint32 w (8 * n + 2) = Inr t \<and> wr_bytes w bs = Inr b))"

context wire_format
begin

lemma decMessage_back: "sendable w m \<Longrightarrow> decMessage (gen_codec w) (encMessage (gen_codec w) m) = Inr m"
  using codec_back_whole [OF back_Message]
  by (auto simp: sendable_def gen_codec_def written_def decoded_def)

lemma decMessage_bytes: "ok_Message m \<Longrightarrow> enc_Message w m = Inr bs \<Longrightarrow> decMessage (gen_codec w) bs = Inr m"
  using codec_back_whole [OF back_Message] by (simp add: gen_codec_def decoded_def)

lemma decRendezvous_bytes:
  "ok_RendezvousMessage m \<Longrightarrow> enc_RendezvousMessage w m = Inr bs \<Longrightarrow> decRendezvous (gen_codec w) bs = Inr m"
  using codec_back_whole [OF back_RendezvousMessage] by (simp add: gen_codec_def decoded_def)

lemma decIdPk_bytes: "ok_IdPk k \<Longrightarrow> enc_IdPk w k = Inr bs \<Longrightarrow> decIdPk (gen_codec w) bs = Inr k"
  using codec_back_whole [OF back_IdPk] by (simp add: gen_codec_def decoded_def)

lemma loop_unknown_fields:
  "list_all (unknown_field w) fs \<Longrightarrow> stop \<le> int (length rest) \<Longrightarrow>
   decode_loop w (fld_Message w) stop m (concat fs @ rest) = decode_loop w (fld_Message w) stop m rest"
proof (induction fs)
  case (Cons f fs)
  then have "unknown_field w f" by simp
  then obtain n v bs t b where f: "n \<notin> set Message_fields" "0 < n" "f = t @ b"
      "wr_uint32 w (8 * n) = Inr t \<and> wr_uint32 w v = Inr b \<or>
       wr_uint32 w (8 * n + 2) = Inr t \<and> wr_bytes w bs = Inr b"
    unfolding unknown_field_def by blast
  have skips: "decode_loop w (fld_Message w) stop m (t @ b @ concat fs @ rest) =
      decode_loop w (fld_Message w) stop m (concat fs @ rest)"
    if "wr_uint32 w (8 * n + u) = Inr t" "0 \<le> u" "u < 8" "u \<noteq> 4"
      "rd_skip w u (b @ concat fs @ rest) = Inr (concat fs @ rest)" for u
  proof (rule loop_unknown [OF that(1)])
    have "(8 * n + u) div 8 = n" "(8 * n + u) mod 8 = u" using that(2,3) by simp_all
    then show "fld_Message w (8 * n + u) m = None" "(8 * n + u) mod 8 \<noteq> 4" "8 * n + u \<noteq> 0"
      "rd_skip w ((8 * n + u) mod 8) (b @ concat fs @ rest) = Inr (concat fs @ rest)"
      using f(1,2) that by (simp_all add: fld_Message_unknown)
    show "stop \<le> int (length (concat fs @ rest))" using Cons.prems(2) by simp
  qed
  have "decode_loop w (fld_Message w) stop m (t @ b @ concat fs @ rest) =
      decode_loop w (fld_Message w) stop m (concat fs @ rest)"
    using f(4) skips [of 0] skips [of 2] skip_varint skip_bytes by auto
  with Cons f(3) show ?case by simp
qed simp

end

lemma settles_total: "settles r \<Longrightarrow> \<exists>q. r bs = Some q"
  by (meson settles_def)

section \<open>Round trips\<close>

text \<open>
  C8. A peer message survives the wire: for each of the thirty members of \<open>Message\<close> and whatever is
  nested in it, if the strings are well formed and \<open>encode\<close> does not throw, \<open>decode\<close> reads the
  bytes back to the same message and leaves none.
\<close>

theorem message_roundtrip:
  assumes "wire_format w" "ok_Message m" "enc_Message w m = Inr bs"
  shows "dec_Message w (int (length bs)) bs = Some (Inr (m, []))"
  using codec_back_whole [OF wire_format.back_Message [OF assms(1,2)] assms(3)] .

text \<open>
  C31. A message of the rendezvous server, and the \<open>IdPk\<close> inside the signatures, survive the
  wire: if the strings are well formed and \<open>encode\<close> does not throw, \<open>decode\<close> reads the bytes back
  to the same message and leaves none.
\<close>

theorem rendezvous_roundtrip:
  assumes "wire_format w"
    and "ok_RendezvousMessage m" "enc_RendezvousMessage w m = Inr bs"
    and "ok_IdPk k" "enc_IdPk w k = Inr ks"
  shows "dec_RendezvousMessage w (int (length bs)) bs = Some (Inr (m, [])) \<and>
         dec_IdPk w (int (length ks)) ks = Some (Inr (k, []))"
  using codec_back_whole [OF wire_format.back_RendezvousMessage [OF assms(1,2)] assms(3)]
    codec_back_whole [OF wire_format.back_IdPk [OF assms(1,4)] assms(5)] by simp

text \<open>
  C9. \<open>decode\<close> ends on every input: whatever bytes a server or peer sends, and whatever
  length is claimed for them, it returns a message or throws.
\<close>

theorem decoders_terminate:
  assumes "wire_format w"
  shows "dec_Message w len bs \<noteq> None \<and> dec_RendezvousMessage w len bs \<noteq> None \<and> dec_IdPk w len bs \<noteq> None"
  using settles_total [OF wire_format.ends_Message [OF assms, of len], of bs]
    settles_total [OF wire_format.ends_RendezvousMessage [OF assms, of len], of bs]
    settles_total [OF wire_format.ends_IdPk [OF assms, of len], of bs]
  by auto



section \<open>Sessions on the generated codec\<close>

text \<open>
  C7. The two sides understand each other: with the generated codec on both, whatever message
  the peer encodes and seals, as its next frame, is the message the session dispatches.
\<close>

theorem peer_message_dispatched:
  assumes "wire_format w" "wire p = gen_codec w" "secretbox_ok (sod p)"
    and "cipher s = Some c" "s_state s \<noteq> ErrorState" "s_state s \<noteq> Closed"
    and "cipher_key r = cipher_key c" "sendSeq r = recvSeq c" "sendable w u"
  shows "onRelayBytes p rnd (snd (seal (sod p) r (encMessage (gen_codec w) u))) s =
         dispatch p u (s\<lparr>cipher := Some (c\<lparr>recvSeq := Suc (recvSeq c)\<rparr>)\<rparr>)"
proof -
  have "open_ct (sod p) c (snd (seal (sod p) r (encMessage (gen_codec w) u))) =
      (c\<lparr>recvSeq := Suc (recvSeq c)\<rparr>, Inr (encMessage (gen_codec w) u))"
    using assms(3,7,8) by (intro open_ct_seal) simp_all
  then show ?thesis
    using assms(2,4-6) wire_format.decMessage_back [OF assms(1,9)]
    by (simp add: onRelayBytes_def openRelayBytes_def)
qed

text \<open>What the peer makes of the sealed frames: opened in order, then decoded.\<close>

definition peer_reads :: "platform \<Rightarrow> StreamCipher \<Rightarrow> bytes list \<Rightarrow> (jsstr + Message) list" where
  "peer_reads p c fs =
     map (\<lambda>r. case r of Inl e \<Rightarrow> Inl e | Inr b \<Rightarrow> decMessage (wire p) b) (snd (open_all (sod p) c fs))"

lemma open_all_seal_all:
  assumes "secretbox_ok sd"
  shows "cipher_key r = cipher_key c \<Longrightarrow> recvSeq r = sendSeq c \<Longrightarrow>
    snd (open_all sd r (snd (seal_all sd c ms))) = map Inr ms"
proof (induction ms arbitrary: r c)
  case (Cons m ms)
  let ?r = "r\<lparr>recvSeq := Suc (recvSeq r)\<rparr>"
  have o: "open_ct sd r (snd (seal sd c m)) = (?r, Inr m)"
    using assms Cons.prems by (rule open_ct_seal)
  have "snd (open_all sd ?r (snd (seal_all sd (fst (seal sd c m)) ms))) = map Inr ms"
    using Cons.prems by (intro Cons.IH) (simp_all add: seal_def Let_def)
  with o show ?case by (simp add: Let_def case_prod_beta)
qed simp

text \<open>
  C6. What a session sends is what its peer reads: in every reachable state the sealed frames
  carry a list of messages, one for each value of the counter, and a peer that opens the
  frames in order with the session key and decodes them gets these messages, in this order.
\<close>

theorem peer_reads_what_is_sent:
  assumes "session_reach p s" "cipher s = Some c"
    and "wire_format w" "wire p = gen_codec w" "secretbox_ok (sod p)"
  shows "\<exists>us. length us = sendSeq c \<and>
           sealed_frames (trace s) =
             snd (seal_all (sod p) (newStreamCipher (cipher_key c)) (map (encMessage (gen_codec w)) us)) \<and>
           (\<forall>i < length us. sendable w (us ! i) \<longrightarrow>
              peer_reads p (newStreamCipher (cipher_key c)) (sealed_frames (trace s)) ! i = Inr (us ! i))"
proof -
  obtain us where us: "length us = sendSeq c"
      "sealed_frames (trace s) =
         snd (seal_all (sod p) (newStreamCipher (cipher_key c)) (map (encMessage (gen_codec w)) us))"
    using session.inv_reach [OF assms(1)] assms(2,4) by (auto simp: secure_def)
  have o: "snd (open_all (sod p) (newStreamCipher (cipher_key c)) (sealed_frames (trace s))) =
      map Inr (map (encMessage (gen_codec w)) us)"
    unfolding us(2) by (rule open_all_seal_all [OF assms(5)]) (simp_all add: newStreamCipher_def)
  have "peer_reads p (newStreamCipher (cipher_key c)) (sealed_frames (trace s)) ! i = Inr (us ! i)"
    if "i < length us" "sendable w (us ! i)" for i
    using that wire_format.decMessage_back [OF assms(3) that(2)] by (simp add: peer_reads_def o assms(4))
  with us show ?thesis by blast
qed

text \<open>The handshake as the session runs it, with an honest server and peer on the other side.\<close>

lemma handshake_run:
  assumes "wire_format w" "wire p = gen_codec w" "newSession p config rnd0 = Inr s0"
    and "rr_union rr = RU_pk signedPk" "signedPk \<noteq> []"
    and "ok_RendezvousMessage (R_relay_response rr)" "enc_RendezvousMessage w (R_relay_response rr) = Inr rb"
    and "signOpen (sod p) signedPk (serverEdPk s0) = Inr ib" "text_ok (peerId config)"
    and "enc_IdPk w \<lparr>idpk_id = peerId config, idpk_pk = pk\<rparr> = Inr ib"
    and "enc_Message w (M_signed_id sid) = Inr mb"
    and "signOpen (sod p) sid pk = Inr jb" "text_ok i" "hd (js_split 0 i) = peerId config"
    and "enc_IdPk w \<lparr>idpk_id = i, idpk_pk = boxPk\<rparr> = Inr jb"
    and "sealSymmetricKey (sod p) rnd boxPk = Inr k"
    and "s = fold (session_step p) [SC_start, SC_signaling rb, SC_relayOpened, SC_relay rnd mb] s0"
  shows "cipher s = Some (newStreamCipher (sealed_key k)) \<and> s_state s = Handshake \<and>
         (\<exists>request. plain_frames (trace s) =
            [request, encMessage (gen_codec w)
               (M_public_key \<lparr>asymmetric_value = ourBoxPk k, symmetric_value = sealed k\<rparr>)])"
proof -
  have rr: "decRendezvous (gen_codec w) rb = Inr (R_relay_response rr)"
    using assms(1,6,7) by (rule wire_format.decRendezvous_bytes)
  have ids: "decIdPk (gen_codec w) ib = Inr \<lparr>idpk_id = peerId config, idpk_pk = pk\<rparr>"
      "decIdPk (gen_codec w) jb = Inr \<lparr>idpk_id = i, idpk_pk = boxPk\<rparr>"
    using assms(9,10,13,15) by (auto intro!: wire_format.decIdPk_bytes [OF assms(1)] simp: ok_IdPk_def)
  have sid: "decMessage (gen_codec w) mb = Inr (M_signed_id sid)"
    using assms(11) by (auto intro!: wire_format.decMessage_bytes [OF assms(1)] simp: ok_Message_def)
  have fresh: "s_config s0 = config" "cipher s0 = None" "s_state s0 = Connecting" "trace s0 = []"
    using assms(3) by (auto simp: newSession_def split: sum.splits)
  show ?thesis
    unfolding assms(17)
    using assms(2,4,5,8,12,14,16) rr ids sid fresh
    by (simp add: session_step_def start_def onSignalingBytes_def parseRendezvous_def parse_rendezvous_def
        verifyServerRelayPk_def decodeIdPk_def relayOpened_def onRelayBytes_def onFirstRelayFrame_def
        verifyPeerSignedId_def buildPublicKeyMessage_def)
qed

text \<open>
  C5. An honest handshake succeeds: when the server answers with a public key it signed for the
  wanted peer, and the peer with a box key it signed for the same id, the session installs the
  cipher under the key it sealed, and the second and last plaintext frame it sends reads back
  as that key.
\<close>

theorem honest_handshake_completes:
  assumes "wire_format w" "wire p = gen_codec w" "newSession p config rnd0 = Inr s0"
    and "rr_union rr = RU_pk signedPk" "signedPk \<noteq> []"
    and "ok_RendezvousMessage (R_relay_response rr)" "enc_RendezvousMessage w (R_relay_response rr) = Inr rb"
    and "signOpen (sod p) signedPk (serverEdPk s0) = Inr ib" "text_ok (peerId config)"
    and "enc_IdPk w \<lparr>idpk_id = peerId config, idpk_pk = pk\<rparr> = Inr ib"
    and "enc_Message w (M_signed_id sid) = Inr mb"
    and "signOpen (sod p) sid pk = Inr jb" "text_ok i" "hd (js_split 0 i) = peerId config"
    and "enc_IdPk w \<lparr>idpk_id = i, idpk_pk = boxPk\<rparr> = Inr jb"
    and "sealSymmetricKey (sod p) rnd boxPk = Inr k"
    and "enc_Message w (M_public_key \<lparr>asymmetric_value = ourBoxPk k, symmetric_value = sealed k\<rparr>) = Inr kb"
    and "s = fold (session_step p) [SC_start, SC_signaling rb, SC_relayOpened, SC_relay rnd mb] s0"
  shows "cipher s = Some (newStreamCipher (sealed_key k)) \<and> s_state s = Handshake \<and>
         (\<exists>request. plain_frames (trace s) = [request, kb]) \<and>
         decMessage (wire p) kb =
           Inr (M_public_key \<lparr>asymmetric_value = ourBoxPk k, symmetric_value = sealed k\<rparr>)"
  using handshake_run [OF assms(1-16,18)]
    wire_format.decMessage_bytes [OF assms(1) _ assms(17)] assms(2,17)
  by (simp add: gen_codec_def written_def ok_Message_def)

section \<open>A concrete run\<close>

text \<open>
  The platform of \<open>Session_Safety\<close> with the generated codec on the concrete wire, and the bytes an
  honest server and peer send on it.
\<close>

definition wire_platform :: platform where
  "wire_platform =
     \<lparr>sod = plain_sodium\<lparr>from_base64 := \<lambda>s. Inr [9], crypto_sign_open := \<lambda>m k. Inr m,
                         crypto_box_easy := \<lambda>m n pk k. Inr m\<rparr>,
      wire = gen_codec pb_wire, json_parse = \<lambda>s. None, utf8_dec = utf8_decode\<rparr>"

definition wire_config :: SessionConfig where
  "wire_config = demo_config\<lparr>peerId := js ''7''\<rparr>"

definition wire_id_bytes :: "byte \<Rightarrow> bytes" where
  "wire_id_bytes b = [0x0A, 1, 0x37, 0x12, 1, b]"

definition wire_response :: RelayResponse where
  "wire_response = RelayResponse_base\<lparr>rr_union := RU_pk (wire_id_bytes 3)\<rparr>"

definition wire_calls :: "session_call list" where
  "wire_calls =
     [SC_start, SC_signaling ([0x9A, 1, 8, 0x2A, 6] @ wire_id_bytes 3), SC_relayOpened,
      SC_relay \<lparr>rnd_key = [5, 6], eph_publicKey = [7], eph_privateKey = [8]\<rparr>
        ([0x1A, 8, 0x0A, 6] @ wire_id_bytes 4)]"

definition wire_session0 :: Session where
  "wire_session0 =
     (case newSession wire_platform wire_config (replicate 8 0) of Inr s \<Rightarrow> s | Inl _ \<Rightarrow> undefined)"

definition wire_session :: Session where
  "wire_session = session_step wire_platform SC_refresh (fold (session_step wire_platform) wire_calls wire_session0)"

lemmas pb_eval =
  put_def put_if_def put_each_def put_some_def joined_def pb_wire_def pb_write_def pb_bytes_def
  pb_string_def varint.simps utf8_encode_def utf8_point_def js_def enc_all.simps

lemma wire_id_encoded:
  "enc_IdPk pb_wire \<lparr>idpk_id = js ''7'', idpk_pk = [b]\<rparr> = Inr (wire_id_bytes b)"
  by (simp add: enc_IdPk_def pb_eval wire_id_bytes_def)

lemma wire_response_encoded:
  "enc_RendezvousMessage pb_wire (R_relay_response wire_response) =
     Inr ([0x9A, 1, 8, 0x2A, 6] @ wire_id_bytes 3)"
  by (simp add: enc_RendezvousMessage_def enc_RelayResponse_def RelayResponse_base_def wire_response_def
      pb_eval wire_id_bytes_def)

lemma wire_signed_encoded:
  "enc_Message pb_wire (M_signed_id (wire_id_bytes b)) = Inr ([0x1A, 8, 0x0A, 6] @ wire_id_bytes b)"
  by (simp add: enc_Message_def enc_SignedId_def pb_eval wire_id_bytes_def)

lemma text_ok_seven: "text_ok (js ''7'')"
  by (simp add: text_ok_def js_def)

lemma wire_start: "newSession wire_platform wire_config (replicate 8 0) = Inr wire_session0"
  by (simp add: wire_session0_def newSession_def decodeB64_def wire_platform_def)

lemma wire_key:
  "sealSymmetricKey (sod wire_platform) \<lparr>rnd_key = [5, 6], eph_publicKey = [7], eph_privateKey = [8]\<rparr> [4] =
     Inr \<lparr>ourBoxPk = [7], sealed = [5, 6], sealed_key = [5, 6]\<rparr>"
  by (simp add: sealSymmetricKey_def wire_platform_def)

lemma wire_opens: "signOpen (sod wire_platform) m k = Inr m" "wire wire_platform = gen_codec pb_wire"
  by (simp_all add: signOpen_def wire_platform_def)

lemma wire_response_fields:
  "rr_union wire_response = RU_pk (wire_id_bytes 3)" "wire_id_bytes b \<noteq> []"
  "ok_RendezvousMessage (R_relay_response wire_response)" "peerId wire_config = js ''7''"
  "hd (js_split 0 (js ''7'')) = js ''7''"
  by (simp_all add: wire_response_def wire_id_bytes_def RelayResponse_base_def ok_RendezvousMessage_def
      ok_RelayResponse_def text_ok_def wire_config_def js_def)

lemma wire_handshake:
  "cipher (fold (session_step wire_platform) wire_calls wire_session0) = Some (newStreamCipher [5, 6]) \<and>
   s_state (fold (session_step wire_platform) wire_calls wire_session0) = Handshake"
  using handshake_run [OF pb.wire_format_axioms wire_opens(2) wire_start wire_response_fields(1,2,3)
      wire_response_encoded wire_opens(1) _ _ wire_signed_encoded wire_opens(1) text_ok_seven _ wire_id_encoded wire_key,
      of "[3]", OF _ _ _ refl]
    text_ok_seven wire_id_encoded [of 3]
  by (simp add: wire_response_fields wire_calls_def)

lemma wire_cipher: "cipher wire_session = Some \<lparr>sendSeq = 1, recvSeq = 0, cipher_key = [5, 6]\<rparr>"
  using wire_handshake
  by (simp add: wire_session_def session_step_def refresh_def sealSend_def seal_def newStreamCipher_def Let_def)

lemma wire_reach: "session_reach wire_platform wire_session"
proof -
  have "session_init wire_platform wire_session0"
    using wire_start by (auto simp: session_init_def)
  then have "session_reach wire_platform (fold (session_step wire_platform) (wire_calls @ [SC_refresh]) wire_session0)"
    by (intro reach_fold reach_init)
  then show ?thesis by (simp add: wire_session_def)
qed

lemma wire_secretbox: "secretbox_ok (sod wire_platform)"
  using secretbox_ok_plain by (simp add: secretbox_ok_def wire_platform_def)

section \<open>Witnesses\<close>

lemma hash_encoded:
  "enc_Message pb_wire (M_hash (js ''s'') (js ''c'')) = Inr [0x4A, 6, 0x0A, 1, 0x73, 0x12, 1, 0x63]"
  by (simp add: enc_Message_def enc_Hash_def pb_eval)

lemma hash_ok: "ok_Message (M_hash (js ''s'') (js ''c''))"
  by (simp add: ok_Message_def ok_Hash_def text_ok_def js_def)

theorem message_roundtrip_witness:
  "dec_Message pb_wire 8 [0x4A, 6, 0x0A, 1, 0x73, 0x12, 1, 0x63] = Some (Inr (M_hash (js ''s'') (js ''c''), []))"
  using message_roundtrip [OF pb.wire_format_axioms hash_ok hash_encoded] by simp

theorem rendezvous_roundtrip_witness:
  "dec_RendezvousMessage pb_wire 11 ([0x9A, 1, 8, 0x2A, 6] @ wire_id_bytes 3) =
     Some (Inr (R_relay_response wire_response, [])) \<and>
   dec_IdPk pb_wire 6 (wire_id_bytes 3) = Some (Inr (\<lparr>idpk_id = js ''7'', idpk_pk = [3]\<rparr>, []))"
  using rendezvous_roundtrip [OF pb.wire_format_axioms wire_response_fields(3) wire_response_encoded _
      wire_id_encoded [of 3]] text_ok_seven
  by (simp add: ok_IdPk_def wire_id_bytes_def)

theorem decoders_terminate_witness:
  "dec_Message pb_wire 1000 [0xFF, 0xFF, 0x4A] \<noteq> None"
  using decoders_terminate [OF pb.wire_format_axioms, of 1000 "[0xFF, 0xFF, 0x4A]"] by simp


theorem peer_message_dispatched_witness:
  "onRelayBytes wire_platform \<lparr>rnd_key = [], eph_publicKey = [], eph_privateKey = []\<rparr>
     (snd (seal (sod wire_platform) (newStreamCipher [5, 6])
        (encMessage (gen_codec pb_wire) (M_hash (js ''s'') (js ''c''))))) wire_session =
   dispatch wire_platform (M_hash (js ''s'') (js ''c''))
     (wire_session\<lparr>cipher := Some \<lparr>sendSeq = 1, recvSeq = 1, cipher_key = [5, 6]\<rparr>\<rparr>)"
proof -
  have "s_state wire_session = Handshake"
    using wire_handshake by (simp add: wire_session_def session_step_def refresh_def)
  moreover have "sendable pb_wire (M_hash (js ''s'') (js ''c''))"
    using hash_ok hash_encoded by (auto simp: sendable_def)
  ultimately show ?thesis
    using peer_message_dispatched [OF pb.wire_format_axioms wire_opens(2) wire_secretbox wire_cipher,
        of "newStreamCipher [5, 6]"]
    by (simp add: newStreamCipher_def)
qed

theorem peer_reads_what_is_sent_witness:
  "\<exists>u. sealed_frames (trace wire_session) =
         [snd (seal (sod wire_platform) (newStreamCipher [5, 6]) (encMessage (gen_codec pb_wire) u))] \<and>
       (sendable pb_wire u \<longrightarrow>
          peer_reads wire_platform (newStreamCipher [5, 6]) (sealed_frames (trace wire_session)) ! 0 = Inr u)"
proof -
  obtain us where us: "length us = 1"
    "sealed_frames (trace wire_session) =
       snd (seal_all (sod wire_platform) (newStreamCipher [5, 6]) (map (encMessage (gen_codec pb_wire)) us))"
    "\<forall>i < length us. sendable pb_wire (us ! i) \<longrightarrow>
       peer_reads wire_platform (newStreamCipher [5, 6]) (sealed_frames (trace wire_session)) ! i = Inr (us ! i)"
    using peer_reads_what_is_sent [OF wire_reach wire_cipher pb.wire_format_axioms wire_opens(2) wire_secretbox]
    by auto
  then obtain u where "us = [u]" by (cases us) auto
  with us show ?thesis by (intro exI [of _ u]) (simp add: Let_def case_prod_beta)
qed

theorem honest_handshake_completes_witness:
  "cipher (fold (session_step wire_platform) wire_calls wire_session0) = Some (newStreamCipher [5, 6]) \<and>
   decMessage (gen_codec pb_wire) [0x22, 7, 0x0A, 1, 7, 0x12, 2, 5, 6] =
     Inr (M_public_key \<lparr>asymmetric_value = [7], symmetric_value = [5, 6]\<rparr>)"
proof -
  have k: "enc_Message pb_wire (M_public_key \<lparr>asymmetric_value = [7], symmetric_value = [5, 6]\<rparr>) =
      Inr [0x22, 7, 0x0A, 1, 7, 0x12, 2, 5, 6]"
    by (simp add: enc_Message_def enc_PublicKey_def pb_eval)
  show ?thesis
    using honest_handshake_completes [OF pb.wire_format_axioms wire_opens(2) wire_start
        wire_response_fields(1,2,3) wire_response_encoded wire_opens(1) _ _ wire_signed_encoded wire_opens(1)
        text_ok_seven _ wire_id_encoded wire_key _ refl,
        of "[3]" "[0x22, 7, 0x0A, 1, 7, 0x12, 2, 5, 6]"]
      text_ok_seven wire_id_encoded [of 3] k
    by (simp add: wire_response_fields wire_calls_def wire_opens(2))
qed

end
