(* ===== verification/Html.thy ===== *)
theory Html
  imports Ui_Common
begin

text \<open>
  Markup the client writes into \<open>innerHTML\<close>: a reader of start and end tags, of which the document
  a browser builds is a function. Text between tags is dropped, a quoted attribute value is kept
  apart from the text of its tag. The client quotes every attribute value that is not a constant
  with double quotes.
\<close>

section \<open>Reading markup\<close>

datatype html_pos = Content | Tag jsstr | Value jsstr jsstr

text \<open>An attribute with its value, after the text of the tag before it; and the rest of a tag.\<close>

datatype html_piece = Attr jsstr jsstr | Tag_end jsstr

fun html_step :: "html_pos \<Rightarrow> 16 word \<Rightarrow> html_pos \<times> html_piece list" where
  "html_step Content u = (if u = 60 then (Tag [], []) else (Content, []))"
| "html_step (Tag w) u =
     (if u = 62 then (Content, [Tag_end (rev w)])
      else if u = 34 then (Value w [], [])
      else (Tag (u # w), []))"
| "html_step (Value w v) u =
     (if u = 34 then (Tag [], [Attr (rev w) (rev v)]) else (Value w (u # v), []))"

fun html_scan :: "html_pos \<Rightarrow> jsstr \<Rightarrow> html_pos \<times> html_piece list" where
  "html_scan q [] = (q, [])"
| "html_scan q (u # s) =
     (case html_step q u of (q1, ps) \<Rightarrow> case html_scan q1 s of (q2, rs) \<Rightarrow> (q2, ps @ rs))"

definition markup :: "jsstr \<Rightarrow> html_pos \<times> html_piece list" where
  "markup h = html_scan Content h"

text \<open>The tags without what their attributes hold.\<close>

fun bare :: "html_piece \<Rightarrow> html_piece" where
  "bare (Attr w v) = Attr w []"
| "bare (Tag_end w) = Tag_end w"

definition skeleton :: "jsstr \<Rightarrow> html_pos \<times> html_piece list" where
  "skeleton h = (case markup h of (q, ps) \<Rightarrow> (q, map bare ps))"

text \<open>The values of the attributes of a name, in order.\<close>

fun value_of :: "string \<Rightarrow> html_piece \<Rightarrow> jsstr list" where
  "value_of name (Attr w v) = (if js_endsWith w (js (CHR '' '' # name @ ''='')) then [v] else [])"
| "value_of name (Tag_end w) = []"

definition attr_values :: "string \<Rightarrow> jsstr \<Rightarrow> jsstr list" where
  "attr_values name h = concat (map (value_of name) (snd (markup h)))"

abbreviation element_ids :: "jsstr \<Rightarrow> jsstr list" where
  "element_ids h \<equiv> attr_values ''id'' h"

text \<open>Text that stays text wherever it is put.\<close>

definition plain_text :: "jsstr \<Rightarrow> bool" where
  "plain_text s \<longleftrightarrow> 60 \<notin> set s \<and> 34 \<notin> set s"

text \<open>A line break of a template literal and the indentation behind it.\<close>

definition nl :: "nat \<Rightarrow> jsstr" where
  "nl n = 10 # replicate n 32"

section \<open>Composition\<close>

lemma html_scan_append:
  "html_scan q (s @ t) =
     (case html_scan q s of (q1, ps) \<Rightarrow> case html_scan q1 t of (q2, rs) \<Rightarrow> (q2, ps @ rs))"
  by (induction s arbitrary: q) (simp_all split: prod.splits)

text \<open>A fragment is whole when it starts and ends between tags.\<close>

definition whole :: "jsstr \<Rightarrow> bool" where
  "whole h \<longleftrightarrow> fst (markup h) = Content"

lemma whole_Nil [simp]: "whole []"
  by (simp add: whole_def markup_def)

lemma markup_append: "whole a \<Longrightarrow> markup (a @ b) = (fst (markup b), snd (markup a) @ snd (markup b))"
  by (cases "markup a"; cases "markup b") (simp add: whole_def markup_def html_scan_append)

lemma whole_append: "whole a \<Longrightarrow> whole (a @ b) = whole b"
  by (simp add: whole_def markup_append)

lemma skeleton_append:
  "whole a \<Longrightarrow> skeleton (a @ b) = (fst (skeleton b), snd (skeleton a) @ snd (skeleton b))"
  by (simp add: skeleton_def markup_append case_prod_beta)

lemma attr_values_append: "whole a \<Longrightarrow> attr_values n (a @ b) = attr_values n a @ attr_values n b"
  by (simp add: attr_values_def markup_append)

lemma attr_values_concat:
  "(\<And>x. x \<in> set xs \<Longrightarrow> whole x) \<Longrightarrow> attr_values n (concat xs) = concat (map (attr_values n) xs)"
  by (induction xs) (simp_all add: attr_values_append, simp add: attr_values_def markup_def)

lemma whole_concat: "(\<And>x. x \<in> set xs \<Longrightarrow> whole x) \<Longrightarrow> whole (concat xs)"
  by (induction xs) (simp_all add: whole_append)

lemma skeleton_concat:
  "(\<And>x. x \<in> set xs \<Longrightarrow> whole x) \<Longrightarrow> skeleton (concat xs) = (Content, concat (map (\<lambda>x. snd (skeleton x)) xs))"
proof (induction xs)
  case Nil
  then show ?case by (simp add: skeleton_def markup_def)
next
  case (Cons x xs)
  then show ?case by (simp add: skeleton_append)
qed

section \<open>Text\<close>

lemma html_scan_plain:
  "plain_text s \<Longrightarrow> html_scan Content s = (Content, [])"
  "plain_text s \<Longrightarrow> html_scan (Value w v) s = (Value w (rev s @ v), [])"
  by (induction s arbitrary: v) (simp_all add: plain_text_def)

lemma plain_text_append [simp]: "plain_text (s @ t) \<longleftrightarrow> plain_text s \<and> plain_text t"
  by (auto simp: plain_text_def)

lemma plain_escape [simp]: "plain_text (escapeHtml s)"
  proof (induction s)
  case (Cons u s)
  then show ?case
    using entity_safe [of _ u] by (auto simp: escapeHtml_Cons plain_text_def)
qed (simp add: plain_text_def)

lemma whole_plain: "plain_text s \<Longrightarrow> whole s"
  by (simp add: whole_def markup_def html_scan_plain)

lemma skeleton_plain: "plain_text s \<Longrightarrow> skeleton s = (Content, [])"
  by (simp add: skeleton_def markup_def html_scan_plain)

section \<open>Constants\<close>

lemma of_char_unit [simp]: "(of_char a :: 16 word) = of_char b \<longleftrightarrow> a = b"
proof
  assume "(of_char a :: 16 word) = of_char b"
  then have "(of_nat (of_char a) :: 16 word) = of_nat (of_char b)" by (simp only: of_nat_of_char)
  moreover have "(of_char c :: nat) < 2 ^ 16" for c :: char
    by (rule less_trans [OF nat_of_char_less_256]) simp
  ultimately have "(of_char a :: nat) = of_char b"
    by (simp add: word_of_nat_eq_iff take_bit_nat_eq_self)
  then show "a = b" by simp
qed simp

text \<open>A constant is read character by character.\<close>

fun char_step :: "html_pos \<Rightarrow> char \<Rightarrow> html_pos \<times> html_piece list" where
  "char_step Content c = (if c = CHR ''<'' then (Tag [], []) else (Content, []))"
| "char_step (Tag w) c =
     (if c = CHR ''>'' then (Content, [Tag_end (rev w)])
      else if c = CHR 0x22 then (Value w [], [])
      else (Tag (of_char c # w), []))"
| "char_step (Value w v) c =
     (if c = CHR 0x22 then (Tag [], [Attr (rev w) (rev v)]) else (Value w (of_char c # v), []))"

fun char_scan :: "html_pos \<Rightarrow> string \<Rightarrow> html_pos \<times> html_piece list" where
  "char_scan q [] = (q, [])"
| "char_scan q (c # s) =
     (case char_step q c of (q1, ps) \<Rightarrow> case char_scan q1 s of (q2, rs) \<Rightarrow> (q2, ps @ rs))"

lemma html_step_char: "html_step q (of_char c) = char_step q c"
proof -
  have "(60 :: 16 word) = of_char CHR ''<''" "(62 :: 16 word) = of_char CHR ''>''" "(34 :: 16 word) = of_char CHR 0x22"
    by simp_all
  then show ?thesis by (cases q) (simp_all only: html_step.simps char_step.simps of_char_unit)
qed

lemma html_scan_js: "html_scan q (js s) = char_scan q s"
  by (induction s arbitrary: q) (simp_all add: js_def html_step_char)

lemma html_scan_nl:
  "html_scan Content (nl n) = (Content, [])"
  "html_scan (Tag w) (nl n) = (Tag (replicate n 32 @ 10 # w), [])"
proof -
  have c: "html_scan Content (replicate n 32) = (Content, [])" for n
    by (induction n) simp_all
  have t: "html_scan (Tag w) (replicate n 32) = (Tag (replicate n 32 @ w), [])" for n w
    by (induction n arbitrary: w) (simp_all add: replicate_app_Cons_same)
  show "html_scan Content (nl n) = (Content, [])" by (simp add: nl_def c)
  show "html_scan (Tag w) (nl n) = (Tag (replicate n 32 @ 10 # w), [])" by (simp add: nl_def t)
qed

text \<open>The rules that read a fragment built from constants.\<close>

lemmas char_eval =
  char_scan.simps char_step.simps char.inject simp_thms if_True if_False prod.case fst_conv snd_conv
  append_Nil append_Cons list.map concat.simps

lemma rev_js: "rev (js s) = js (rev s)"
  by (simp add: js_def rev_map)

lemma starts_js:
  "js_startsWith w (js [])"
  "js_startsWith [] (js (c # s)) \<longleftrightarrow> False"
  "js_startsWith (u # w) (js (c # s)) \<longleftrightarrow> u = of_char c \<and> js_startsWith w (js s)"
  by (simp_all add: js_def)

lemma value_of_read:
  "value_of name (Attr (rev w) v) = (if js_startsWith w (js (rev (CHR '' '' # name @ ''=''))) then [v] else [])"
  by (simp add: js_endsWith_def rev_js)

lemma rev_names:
  "rev (CHR '' '' # ''id'' @ ''='') = ''=di ''"
  "rev (CHR '' '' # ''data-action'' @ ''='') = ''=noitca-atad ''"
  "rev (CHR '' '' # ''data-security'' @ ''='') = ''=ytiruces-atad ''"
  by simp_all

lemmas value_eval = value_of_read value_of.simps(2) rev_names starts_js of_char_unit

text \<open>A piece that is none of the attributes the client looks for.\<close>

definition no_hook :: "html_piece \<Rightarrow> bool" where
  "no_hook p \<longleftrightarrow> value_of ''id'' p = [] \<and> value_of ''data-action'' p = [] \<and> value_of ''data-security'' p = []"

lemma no_hook_read:
  "no_hook (Tag_end w)"
  "no_hook (Attr (rev w) v) \<longleftrightarrow>
     \<not> js_startsWith w (js ''=di '') \<and> \<not> js_startsWith w (js ''=noitca-atad '') \<and> \<not> js_startsWith w (js ''=ytiruces-atad '')"
  by (simp_all only: no_hook_def value_of_read value_of.simps(2) rev_names) (simp_all split: if_split)

lemma no_hook_values:
  "list_all no_hook ps \<Longrightarrow> concat (map (value_of ''id'') ps) = []"
  "list_all no_hook ps \<Longrightarrow> concat (map (value_of ''data-action'') ps) = []"
  "list_all no_hook ps \<Longrightarrow> concat (map (value_of ''data-security'') ps) = []"
  by (induction ps) (simp_all add: no_hook_def)

end
