(* ===== verification/Icons.thy ===== *)
theory Icons
  imports Html
begin

text \<open>
  The icons of \<open>webclient/src/ui/common.ts\<close>: the table \<open>ICONS\<close> and \<open>iconHtml\<close>. Whether the page has the
  icon font is asked once and remembered.
\<close>

section \<open>The table\<close>

datatype IconName =
    IC_pointer | IC_touch | IC_typeText | IC_chat | IC_more | IC_check | IC_chevronDown | IC_info | IC_send
    | IC_fullscreen | IC_fullscreenExit | IC_monitor | IC_keyboard | IC_refresh | IC_clipboard | IC_pulse
    | IC_power | IC_folderTransfer | IC_folder | IC_folderOpen | IC_file | IC_drive | IC_arrowUp | IC_home
    | IC_newFolder | IC_trash | IC_rename | IC_sendRight | IC_sendLeft | IC_fileUpload | IC_eye | IC_eyeOff
    | IC_close

primrec icon_ri :: "IconName \<Rightarrow> jsstr" where
  "icon_ri IC_pointer = []"
| "icon_ri IC_touch = []"
| "icon_ri IC_typeText = []"
| "icon_ri IC_chat = []"
| "icon_ri IC_more = []"
| "icon_ri IC_check = []"
| "icon_ri IC_chevronDown = []"
| "icon_ri IC_info = []"
| "icon_ri IC_send = []"
| "icon_ri IC_fullscreen = js ''ri-fullscreen-line''"
| "icon_ri IC_fullscreenExit = js ''ri-fullscreen-exit-line''"
| "icon_ri IC_monitor = js ''ri-computer-line''"
| "icon_ri IC_keyboard = js ''ri-keyboard-box-line''"
| "icon_ri IC_refresh = js ''ri-refresh-line''"
| "icon_ri IC_clipboard = js ''ri-clipboard-line''"
| "icon_ri IC_pulse = js ''ri-pulse-line''"
| "icon_ri IC_power = js ''ri-shut-down-line''"
| "icon_ri IC_folderTransfer = js ''ri-folder-transfer-line''"
| "icon_ri IC_folder = js ''ri-folder-3-line''"
| "icon_ri IC_folderOpen = js ''ri-folder-open-line''"
| "icon_ri IC_file = js ''ri-file-line''"
| "icon_ri IC_drive = js ''ri-hard-drive-2-line''"
| "icon_ri IC_arrowUp = js ''ri-arrow-up-line''"
| "icon_ri IC_home = js ''ri-home-4-line''"
| "icon_ri IC_newFolder = js ''ri-folder-add-line''"
| "icon_ri IC_trash = js ''ri-delete-bin-line''"
| "icon_ri IC_rename = js ''ri-edit-line''"
| "icon_ri IC_sendRight = js ''ri-arrow-right-line''"
| "icon_ri IC_sendLeft = js ''ri-arrow-left-line''"
| "icon_ri IC_fileUpload = js ''ri-file-upload-line''"
| "icon_ri IC_eye = js ''ri-eye-line''"
| "icon_ri IC_eyeOff = js ''ri-eye-off-line''"
| "icon_ri IC_close = js ''ri-close-line''"

primrec icon_svg :: "IconName \<Rightarrow> jsstr" where
  "icon_svg IC_pointer =
     js ''<path d=\"M5 3.5 19 10.8l-6.1 1.6L9.2 18 5 3.5Z\"/>''"
| "icon_svg IC_touch =
     js ''<path d=\"M9 11.5V5a1.7 1.7 0 0 1 3.4 0v5.2M12.4 10.2V8.8a1.7 1.7 0 0 1 3.4 0v2.4M15.8 11.2v-.6a1.6 1.6 0 0 1 3.2.3c0 4.3-.8 6-2 7.6-1 1.4-2.6 2-4.6 2-2.9 0-4-1-6.2-4.6L4.7 13.9a1.5 1.5 0 0 1 2.5-1.6L9 14.6\"/>''"
| "icon_svg IC_typeText =
     js ''<path d=\"M5 6.5V5h14v1.5M12 5v14M9.5 19h5\"/>''"
| "icon_svg IC_chat =
     js ''<path d=\"M4 5.5h16v11H10l-4.5 3.6v-3.6H4v-11Z\"/>''"
| "icon_svg IC_more =
     js ''<circle cx=\"5.5\" cy=\"12\" r=\"1\"/><circle cx=\"12\" cy=\"12\" r=\"1\"/><circle cx=\"18.5\" cy=\"12\" r=\"1\"/>''"
| "icon_svg IC_check =
     js ''<path d=\"m5 12.5 4.5 4.5L19 7.5\"/>''"
| "icon_svg IC_chevronDown =
     js ''<path d=\"m6.5 9.5 5.5 5.5 5.5-5.5\"/>''"
| "icon_svg IC_info =
     js ''<circle cx=\"12\" cy=\"12\" r=\"8.5\"/><path d=\"M12 11v5M12 7.8h.01\"/>''"
| "icon_svg IC_send =
     js ''<path d=\"M4 11.5 20 4l-4.5 16-4-6.5L4 11.5ZM11.5 13.5 20 4\"/>''"
| "icon_svg IC_fullscreen =
     js ''<path d=\"M8 3H4a1 1 0 0 0-1 1v4M16 3h4a1 1 0 0 1 1 1v4M8 21H4a1 1 0 0 1-1-1v-4M16 21h4a1 1 0 0 0 1-1v-4\"/>''"
| "icon_svg IC_fullscreenExit =
     js ''<path d=\"M9 3v5a1 1 0 0 1-1 1H3M15 3v5a1 1 0 0 0 1 1h5M9 21v-5a1 1 0 0 0-1-1H3M15 21v-5a1 1 0 0 1 1-1h5\"/>''"
| "icon_svg IC_monitor =
     js ''<rect x=\"3\" y=\"4\" width=\"18\" height=\"12\" rx=\"1\"/><path d=\"M9 20h6M12 16v4\"/>''"
| "icon_svg IC_keyboard =
     js ''<rect x=\"2\" y=\"6\" width=\"20\" height=\"12\" rx=\"1\"/><path d=\"M6 10h.01M10 10h.01M14 10h.01M18 10h.01M7 14h10\"/>''"
| "icon_svg IC_refresh =
     js ''<path d=\"M21 12a9 9 0 1 1-2.64-6.36L21 8\"/><path d=\"M21 3v5h-5\"/>''"
| "icon_svg IC_clipboard =
     js ''<rect x=\"5\" y=\"5\" width=\"14\" height=\"16\" rx=\"1\"/><rect x=\"9\" y=\"3\" width=\"6\" height=\"4\" rx=\"1\"/>''"
| "icon_svg IC_pulse =
     js ''<polyline points=\"3 12 7 12 10 5 14 19 17 12 21 12\"/>''"
| "icon_svg IC_power =
     js ''<path d=\"M12 3v8M6.2 6.2a8 8 0 1 0 11.6 0\"/>''"
| "icon_svg IC_folderTransfer =
     js ''<path d=\"M3 7V5a1 1 0 0 1 1-1h5l2 2h9a1 1 0 0 1 1 1v12a1 1 0 0 1-1 1H4a1 1 0 0 1-1-1V7Z\"/><path d=\"M9 13h6M13 10.5 15.5 13 13 15.5\"/>''"
| "icon_svg IC_folder =
     js ''<path d=\"M3 7V5a1 1 0 0 1 1-1h5l2 2h9a1 1 0 0 1 1 1v12a1 1 0 0 1-1 1H4a1 1 0 0 1-1-1V7Z\"/>''"
| "icon_svg IC_folderOpen =
     js ''<path d=\"M3 7V5a1 1 0 0 1 1-1h5l2 2h8a1 1 0 0 1 1 1v2M3 19l2.4-8.5A1 1 0 0 1 6.4 9.8H21a1 1 0 0 1 1 1.2L19.8 19a1 1 0 0 1-1 .8H4a1 1 0 0 1-1-.8Z\"/>''"
| "icon_svg IC_file =
     js ''<path d=\"M6 3h8l4 4v14a1 1 0 0 1-1 1H6a1 1 0 0 1-1-1V4a1 1 0 0 1 1-1Z\"/><path d=\"M14 3v5h5\"/>''"
| "icon_svg IC_drive =
     js ''<rect x=\"3\" y=\"13\" width=\"18\" height=\"7\" rx=\"1\"/><path d=\"M5 13 8 5h8l3 8M17 16.5h.01\"/>''"
| "icon_svg IC_arrowUp =
     js ''<path d=\"M12 20V4M5 11l7-7 7 7\"/>''"
| "icon_svg IC_home =
     js ''<path d=\"M4 11 12 4l8 7M6 10v10h12V10\"/>''"
| "icon_svg IC_newFolder =
     js ''<path d=\"M3 7V5a1 1 0 0 1 1-1h5l2 2h9a1 1 0 0 1 1 1v12a1 1 0 0 1-1 1H4a1 1 0 0 1-1-1V7Z\"/><path d=\"M12 10.5v5M9.5 13h5\"/>''"
| "icon_svg IC_trash =
     js ''<path d=\"M4 7h16M9 7V4h6v3M6.5 7l1 13h9l1-13M10 11v5M14 11v5\"/>''"
| "icon_svg IC_rename =
     js ''<path d=\"m14.5 5.5 4 4L8 20H4v-4L14.5 5.5ZM12.5 7.5l4 4\"/>''"
| "icon_svg IC_sendRight =
     js ''<path d=\"M4 12h15M13 6l6 6-6 6\"/>''"
| "icon_svg IC_sendLeft =
     js ''<path d=\"M20 12H5M11 6l-6 6 6 6\"/>''"
| "icon_svg IC_fileUpload =
     js ''<path d=\"M6 3h8l4 4v14a1 1 0 0 1-1 1H6a1 1 0 0 1-1-1V4a1 1 0 0 1 1-1Z\"/><path d=\"M14 3v5h5M12 17v-6M9.5 13.5 12 11l2.5 2.5\"/>''"
| "icon_svg IC_eye =
     js ''<path d=\"M2 12s3.6-6.5 10-6.5S22 12 22 12s-3.6 6.5-10 6.5S2 12 2 12Z\"/><circle cx=\"12\" cy=\"12\" r=\"2.6\"/>''"
| "icon_svg IC_eyeOff =
     js ''<path d=\"M4 4l16 16M9.9 5.9A10.6 10.6 0 0 1 12 5.5c6.4 0 10 6.5 10 6.5a17.5 17.5 0 0 1-3.2 3.9M6.1 8A16.9 16.9 0 0 0 2 12s3.6 6.5 10 6.5c1 0 2-.15 2.9-.42\"/>''"
| "icon_svg IC_close =
     js ''<path d=\"M6 6l12 12M18 6 6 18\"/>''"

section \<open>An icon\<close>

text \<open>The answer of \<open>document.fonts.check\<close> (\<open>None\<close>: no document, or it throws) and what is remembered.\<close>

definition hasRemixIcons :: "bool option \<Rightarrow> bool option \<Rightarrow> bool" where
  "hasRemixIcons check remixAvailable =
     (case remixAvailable of Some b \<Rightarrow> b | None \<Rightarrow> (case check of Some b \<Rightarrow> b | None \<Rightarrow> False))"

definition iconHtml :: "bool \<Rightarrow> IconName \<Rightarrow> jsstr" where
  "iconHtml remix name =
     (if icon_ri name \<noteq> [] \<and> remix then js ''<i class=\"'' @ icon_ri name @ js ''\"></i>''
      else js ''<svg viewBox=\"0 0 24 24\" width=\"18\" height=\"18\" fill=\"none\" stroke=\"currentColor\" '' @
           js ''stroke-width=\"2\" stroke-linecap=\"round\" stroke-linejoin=\"round\" aria-hidden=\"true\">'' @
           icon_svg name @ js ''</svg>'')"

section \<open>Facts\<close>

lemma plain_icon_ri: "plain_text (icon_ri name)"
  by (cases name) (simp_all add: plain_text_def js_def)

text \<open>Neither does a path drawn by an icon leave a tag open, nor does it carry an id or an action.\<close>

definition icon_pieces :: "bool \<Rightarrow> IconName \<Rightarrow> html_piece list" where
  "icon_pieces remix name = snd (html_scan Content (iconHtml remix name))"

lemma scan_icon_svg:
  "case html_scan Content (icon_svg name) of (q, ps) \<Rightarrow> q = Content \<and> list_all no_hook ps"
  by (cases name)
    (simp_all only: icon_svg.simps html_scan_js char_eval list.pred_inject no_hook_read starts_js of_char_unit)

lemma scan_icon: "html_scan Content (iconHtml remix name) = (Content, icon_pieces remix name)"
  using scan_icon_svg [of name] plain_icon_ri [of name]
  by (cases "html_scan Content (icon_svg name)")
    (simp add: icon_pieces_def iconHtml_def html_scan_append html_scan_js html_scan_plain)

lemma whole_icon [simp]: "whole (iconHtml remix name)"
  by (simp add: whole_def markup_def scan_icon)

lemma icon_no_hook: "list_all no_hook (icon_pieces remix name)"
proof (cases "html_scan Content (icon_svg name)")
  case (Pair q ps)
  then show ?thesis
    using scan_icon_svg [of name] plain_icon_ri [of name]
    by (simp add: icon_pieces_def iconHtml_def html_scan_append html_scan_js html_scan_plain no_hook_def js_endsWith_def
        rev_js starts_js)
qed

lemmas icon_no_values [simp] = no_hook_values [OF icon_no_hook]

end
