(* ===== verification/App_View.thy ===== *)
theory App_View
  imports App_System Icons
begin

text \<open>
  What the application shell writes into the page (\<open>webclient/src/ui/app.ts\<close>): its bars, menus, overlay and
  chat as functions of the state, with the elements it then looks up, and the bars of the full screen.

  \<open>remix\<close> is the answer of \<open>hasRemixIcons\<close>, \<open>upper\<close> is \<open>toUpperCase\<close>, \<open>clock\<close> the local hours and
  minutes of a date.
\<close>

section \<open>Menus\<close>

definition menuItem :: "bool \<Rightarrow> IconName option \<Rightarrow> jsstr \<Rightarrow> bool \<Rightarrow> jsstr option \<Rightarrow> jsstr option \<Rightarrow> jsstr" where
  "menuItem remix icon label checked action securityId =
     (let security = (case securityId of Some (c # cs) \<Rightarrow> js '' data-security=\"'' @ escapeHtml (c # cs) @ js ''\"'' | _ \<Rightarrow> []);
          advanced = (case action of Some (c # cs) \<Rightarrow> js '' data-action=\"'' @ escapeHtml (c # cs) @ js ''\"'' | _ \<Rightarrow> [])
      in js ''<button type=\"button\" class=\"rd-mi'' @ (if checked then js '' rd-checked'' else []) @
         js ''\" role=\"menuitem\"'' @ security @ advanced @ js ''>'' @
         (case icon of Some i \<Rightarrow> iconHtml remix i | None \<Rightarrow> js ''<span class=\"rd-mi-pad\"></span>'') @
         js ''<span class=\"rd-mi-label\">'' @ escapeHtml label @ js ''</span>'' @
         (if checked then iconHtml remix IC_check else []) @ js ''</button>'')"

text \<open>The item of an action without an icon.\<close>

definition action_item :: "bool \<Rightarrow> string \<Rightarrow> bool \<Rightarrow> string \<Rightarrow> jsstr" where
  "action_item remix label checked action = menuItem remix None (js label) checked (Some (js action)) None"

definition pop_title :: "string \<Rightarrow> jsstr" where
  "pop_title t = js ''<div class=\"rd-pop-sep\"></div><div class=\"rd-pop-title\">'' @ js t @ js ''</div>''"

definition resolution_button :: "ResolutionChoice \<Rightarrow> jsstr" where
  "resolution_button r =
     js ''<button type=\"button\" class=\"rd-mi rd-resolution\" data-width=\"'' @ int_str (res_width r) @
     js ''\" data-height=\"'' @ int_str (res_height r) @
     js ''\"><span class=\"rd-mi-pad\"></span><span class=\"rd-mi-label\">'' @ escapeHtml (rc_label r) @
     js ''</span></button>''"

definition custom_button :: jsstr where
  "custom_button =
     js ''<button type=\"button\" class=\"rd-mi\" data-custom-resolution><span class=\"rd-mi-pad\"></span><span class=\"rd-mi-label\">Custom resolution'' @
     [0x2026] @ js ''</span></button>''"

definition resolution_html :: "MonitorItems \<Rightarrow> jsstr" where
  "resolution_html mm =
     (if mm_resolutions mm \<noteq> []
      then pop_title ''Resolution'' @ concat (map resolution_button (mm_resolutions mm)) @
           (if mm_custom mm then custom_button else [])
      else [])"

definition virtual_html :: "bool \<Rightarrow> MonitorItems \<Rightarrow> jsstr" where
  "virtual_html remix mm =
     (case mm_virtual mm of
        None \<Rightarrow> []
      | Some v \<Rightarrow>
          pop_title ''Virtual displays'' @
          (if is_rustdesk v
           then concat (map (\<lambda>i. menuItem remix None (js ''Virtual display '' @ int_str i) (i \<in> set (vd_rustdeskIds v))
                      (Some (js ''virtual:'' @ int_str i)) None) [1, 2, 3, 4]) @
                action_item remix ''Unplug all virtual displays'' False ''virtual:all''
           else action_item remix ''Add virtual display'' False ''virtual:add'' @
                action_item remix ''Remove virtual display'' False ''virtual:remove'' @
                action_item remix ''Unplug all virtual displays'' False ''virtual:all''))"

definition monitor_label :: "nat \<Rightarrow> DisplayInfo \<Rightarrow> jsstr" where
  "monitor_label i d =
     (let n = js_trim (di_name d) in if n \<noteq> [] then n else js ''Monitor '' @ radix_str 10 (i + 1))"

definition monitor_tile :: "bool \<Rightarrow> int \<Rightarrow> nat \<times> DisplayInfo \<Rightarrow> jsstr" where
  "monitor_tile remix current = (\<lambda>(i, d).
     js ''<button type=\"button\" class=\"rd-mon-tile'' @ (if int i = current then js '' rd-checked'' else []) @
     js ''\" data-idx=\"'' @ radix_str 10 i @ js ''\" role=\"menuitem\"'' @
     (if di_online d then [] else js '' disabled'') @ js ''><span class=\"rd-mon-num\">'' @ radix_str 10 (i + 1) @
     js ''</span><span class=\"rd-mon-meta\"><span class=\"rd-mon-name\">'' @ escapeHtml (monitor_label i d) @
     js ''</span><span class=\"rd-mon-res\">'' @ int_str (di_width d) @ [0xD7] @ int_str (di_height d) @
     (if di_online d then [] else js '' '' @ [0xB7] @ js '' offline'') @ js ''</span></span>'' @
     (if int i = current then iconHtml remix IC_check else []) @ js ''</button>'')"

definition monitorHtml :: "bool \<Rightarrow> MonitorItems \<Rightarrow> RdApp \<Rightarrow> jsstr" where
  "monitorHtml remix mm s =
     js ''<div class=\"rd-pop-title\">Select monitor</div>'' @
     concat (map (monitor_tile remix (pv_current (ap_peer s))) (enumerate 0 (pv_displays (ap_peer s)))) @
     resolution_html mm @ virtual_html remix mm"

fun codec_text :: "CodecName \<Rightarrow> jsstr" where
  "codec_text CN_auto = js ''Automatic codec''"
| "codec_text CN_vp9 = js ''VP9''"
| "codec_text CN_h264 = js ''H264''"
| "codec_text CN_h265 = js ''H265''"
| "codec_text CN_vp8 = js ''VP8''"
| "codec_text CN_av1 = js ''AV1''"

definition slider :: "jsstr \<Rightarrow> string \<Rightarrow> string \<Rightarrow> int \<Rightarrow> jsstr" where
  "slider label action rng v =
     js ''<label class=\"rd-display-slider\"><span>'' @ label @ js ''</span><input data-action=\"'' @ js action @
     js ''\" type=\"range\" '' @ js rng @ js '' value=\"'' @ int_str v @ js ''\"><output>'' @ int_str v @
     js ''</output></label>''"

definition security_html :: "bool \<Rightarrow> RdApp \<Rightarrow> jsstr" where
  "security_html remix s =
     (let items = buildSecurityControlMenu (security_input s)
      in if items \<noteq> []
         then pop_title ''Remote controls'' @
              concat (map (\<lambda>i. menuItem remix None (mi_label i) (mi_checked i) None (Some (mi_id i))) items)
         else [])"

definition tools_html :: "bool \<Rightarrow> MoreItems \<Rightarrow> jsstr" where
  "tools_html remix mo =
     (if mo_terminal mo \<or> mo_camera mo
      then pop_title ''Tools'' @
           (if mo_terminal mo then action_item remix ''Remote terminal'' False ''terminal'' else []) @
           (if mo_camera mo then action_item remix ''View camera'' False ''camera'' else [])
      else [])"

definition volume_label :: "int \<Rightarrow> jsstr" where
  "volume_label volumePercent =
     js ''<label class=\"rd-media-volume\"><span>Volume</span><input data-action=\"audioVolume\" type=\"range\" min=\"0\" max=\"100\" value=\"'' @
     int_str volumePercent @ js ''\"><output>'' @ int_str volumePercent @ js ''%</output></label>''"

definition media_html :: "bool \<Rightarrow> MoreItems \<Rightarrow> RdApp \<Rightarrow> jsstr" where
  "media_html remix mo s =
     (let md = ap_media s; volumePercent = js_round (md_volume md * 100)
      in if mo_audio mo \<or> mo_clipboard mo \<or> mo_record mo
         then pop_title ''Session media'' @
              (if mo_audio mo
               then action_item remix (if md_started md then ''Remote audio ready'' else ''Start remote audio'')
                      (md_started md) ''audioResume'' @
                    action_item remix ''Receive remote audio'' (md_enabled md) ''audioToggle'' @
                    action_item remix ''Mute playback'' (md_muted md) ''audioMute'' @
                    volume_label volumePercent
               else []) @
              (if mo_clipboard mo
               then action_item remix ''Text clipboard'' (md_clipboard md) ''clipboardToggle'' @
                    (if mo_sendClipboard mo then action_item remix ''Sync local clipboard now'' False ''clipboardSync'' else [])
               else []) @
              (if mo_record mo
               then action_item remix (if md_recording md then ''Stop local recording'' else ''Start local recording'')
                      (md_recording md) ''recording''
               else [])
         else [])"

definition cursor_html :: "bool \<Rightarrow> MoreItems \<Rightarrow> RdApp \<Rightarrow> jsstr" where
  "cursor_html remix mo s =
     (let d = ap_dp s
      in if mo_cursor mo
         then pop_title ''Remote cursor'' @
              action_item remix ''Show remote cursor'' (dp_showCursor d) ''showRemoteCursor'' @
              action_item remix ''Follow remote cursor'' (dp_followCursor d) ''followRemoteCursor'' @
              (if 1 < length (pv_displays (ap_peer s))
               then action_item remix ''Follow remote window focus'' (dp_followWindow d) ''followRemoteWindow'' else []) @
              action_item remix ''Enlarge remote cursor'' (1 < dp_scale d) ''cursorScale''
         else [])"

definition moreHtml :: "bool \<Rightarrow> bool \<Rightarrow> MoreItems \<Rightarrow> RdApp \<Rightarrow> jsstr" where
  "moreHtml remix fs mo s =
     (let d = ap_dp s
      in menuItem remix (Some IC_refresh) (js ''Refresh video'') False (Some (js ''refresh'')) None @
         menuItem remix (Some (if fs then IC_fullscreenExit else IC_fullscreen))
           (if fs then js ''Exit fullscreen'' else js ''Fullscreen'') False (Some (js ''fullscreen'')) None @
         pop_title ''Image quality'' @
         action_item remix ''Best'' (dp_quality d = QUALITY_best) ''quality:best'' @
         action_item remix ''Balanced'' (dp_quality d = QUALITY_balanced) ''quality:balanced'' @
         action_item remix ''Speed'' (dp_quality d = QUALITY_speed) ''quality:speed'' @
         slider (js ''Custom quality'') ''customQuality'' ''min=\"10\" max=\"100\"'' (dp_customQuality d) @
         pop_title ''Frame rate and codec'' @
         action_item remix ''Adaptive FPS'' (dp_adaptive d) ''adaptiveFps'' @
         slider (if dp_adaptive d then js ''Maximum FPS'' else js ''Custom FPS'') ''customFps'' ''min=\"5\" max=\"120\" step=\"5\"''
           (dp_customFps d) @
         concat (map (\<lambda>c. menuItem remix None (codec_text c) (dp_codec d = c) (Some (js ''codec:'' @ codec_name c)) None)
           (mo_codecs mo)) @
         cursor_html remix mo s @ security_html remix s @ tools_html remix mo @ media_html remix mo s)"

definition fitHtml :: "bool \<Rightarrow> RdApp \<Rightarrow> jsstr" where
  "fitHtml remix s =
     menuItem remix None (js ''Fit to screen'') (ap_fit s) None None @
     menuItem remix None (js ''Actual size'') (\<not> ap_fit s) None None"

definition keysHtml :: "bool \<Rightarrow> jsstr" where
  "keysHtml remix =
     js ''<div class=\"rd-pop-title\">Send to remote</div>'' @
     concat (map (\<lambda>l. menuItem remix (Some IC_keyboard) (js l) False None None)
       [''Ctrl+Alt+Del'', ''Windows key'', ''PrintScreen'', ''Escape'', ''Tab''])"

definition typeHtml :: "bool \<Rightarrow> jsstr" where
  "typeHtml remix =
     nl 10 @ js ''<div class=\"rd-pop-title\">Type on the remote device</div>'' @
     nl 10 @ js ''<textarea id=\"rd-type-text\" rows=\"4\" placeholder=\"Sent as keystrokes '' @ [0x2014] @
     js '' works where the remote clipboard does not.\"></textarea>'' @
     nl 10 @ js ''<div class=\"rd-pop-actions\">'' @
     nl 12 @ js ''<button type=\"button\" class=\"rd-chip rd-chip-solid\" id=\"rd-type-send\">'' @
     iconHtml remix IC_send @ js ''<span>Send keystrokes</span></button>'' @
     nl 10 @ js ''</div>''"

section \<open>Chat\<close>

definition chat_time :: "(int \<Rightarrow> int \<times> int) \<Rightarrow> int \<Rightarrow> jsstr" where
  "chat_time clock t = (case clock t of (h, m) \<Rightarrow> pad2 h @ js '':'' @ pad2 m)"

definition chat_row :: "(int \<Rightarrow> int \<times> int) \<Rightarrow> ChatEntry \<Rightarrow> jsstr" where
  "chat_row clock m =
     js ''<div class=\"rd-msg-row rd-from-'' @ (if ce_me m then js ''me'' else js ''peer'') @
     js ''\"><span class=\"rd-bubble\">'' @ escapeHtml (ce_text m) @ js ''</span><span class=\"rd-msg-time\">'' @
     chat_time clock (ce_at m) @ js ''</span></div>''"

definition renderChatList :: "(int \<Rightarrow> int \<times> int) \<Rightarrow> RdApp \<Rightarrow> jsstr" where
  "renderChatList clock s =
     (if ap_chat s \<noteq> [] then concat (map (chat_row clock) (ap_chat s))
      else js ''<div class=\"rd-chat-empty\">No messages yet. Anything you send pops up on the remote screen.</div>'')"

text \<open>Whether the badges are hidden, and what they say.\<close>

definition renderChatBadges :: "RdApp \<Rightarrow> bool \<times> jsstr" where
  "renderChatBadges s = (ap_unread s = 0, if 9 < ap_unread s then js ''9+'' else radix_str 10 (ap_unread s))"

definition updateRemoteCursorTransform :: "RdApp \<Rightarrow> jsstr" where
  "updateRemoteCursorTransform s =
     (let d = ap_dp s
      in js ''translate('' @ int_str (- fst (dp_hot d) * dp_scale d) @ js ''px, '' @
         int_str (- snd (dp_hot d) * dp_scale d) @ js ''px) scale('' @ int_str (dp_scale d) @ js '')'')"

section \<open>The bars\<close>

text \<open>\<open>split(/[\s._-]+/)\<close> without the empty parts: the maximal runs of other units.\<close>

definition name_sep :: "16 word \<Rightarrow> bool" where
  "name_sep u \<longleftrightarrow> js_ws u \<or> u = 46 \<or> u = 95 \<or> u = 45"

function name_parts :: "jsstr \<Rightarrow> jsstr list" where
  "name_parts s =
     (case dropWhile name_sep s of
        [] \<Rightarrow> []
      | u # t \<Rightarrow> (u # takeWhile (\<lambda>v. \<not> name_sep v) t) # name_parts (dropWhile (\<lambda>v. \<not> name_sep v) t))"
  by auto
termination
proof (relation "measure length")
  fix s u t
  assume e: "dropWhile name_sep s = u # t"
  have "length (dropWhile (\<lambda>v. \<not> name_sep v) t) \<le> length t" by (rule length_dropWhile_le)
  also have "\<dots> < length (dropWhile name_sep s)" by (simp add: e)
  also have "\<dots> \<le> length s" by (rule length_dropWhile_le)
  finally show "(dropWhile (\<lambda>v. \<not> name_sep v) t, s) \<in> measure length" by simp
qed simp

definition shown_name :: "RdGlobalConfig option \<Rightarrow> jsstr" where
  "shown_name cfg = (case cfg of None \<Rightarrow> [] | Some g \<Rightarrow> if g_myName g \<noteq> [] then g_myName g else g_myId g)"

definition initials :: "(jsstr \<Rightarrow> jsstr) \<Rightarrow> RdGlobalConfig option \<Rightarrow> jsstr" where
  "initials upper cfg =
     (let n = shown_name cfg;
          i = concat (map (\<lambda>w. upper (take 1 w)) (take 2 (name_parts (if n \<noteq> [] then n else js ''?''))))
      in if i \<noteq> [] then i else js ''?'')"

definition topBarHtml :: "bool \<Rightarrow> (jsstr \<Rightarrow> jsstr) \<Rightarrow> RdGlobalConfig option \<Rightarrow> jsstr" where
  "topBarHtml remix upper cfg =
     nl 6 @ js ''<div class=\"rd-tb-brand\">'' @
     nl 8 @ js ''<img src=\"/rdclient/logo.png\" alt=\"\" width=\"30\" height=\"30\">'' @
     nl 8 @ js ''<span class=\"rd-tb-brandtext\">'' @
     nl 10 @ js ''<span class=\"rd-tb-name\">Corten<span>Desk</span></span>'' @
     nl 10 @ js ''<span class=\"rd-tb-sub\">RustDesk Remote Console</span>'' @
     nl 8 @ js ''</span>'' @
     nl 6 @ js ''</div>'' @
     nl 6 @ js ''<div class=\"rd-tb-island\">'' @
     nl 8 @ js ''<span class=\"rd-peer-chip\">'' @
     nl 10 @ js ''<span class=\"rd-status-dot\" aria-hidden=\"true\"></span>'' @
     nl 10 @ js ''<span class=\"rd-peer-meta\">'' @
     nl 12 @ js ''<span class=\"rd-peer\" id=\"rd-peer-label\">'' @ [0x2014] @ js ''</span>'' @
     nl 12 @ js ''<span class=\"rd-peer-sub\" id=\"rd-peer-sub\"></span>'' @
     nl 10 @ js ''</span>'' @
     nl 8 @ js ''</span>'' @
     nl 8 @ js ''<span class=\"rd-island-sep rd-stream-only\" aria-hidden=\"true\"></span>'' @
     nl 8 @
     js ''<span class=\"rd-recording-indicator rd-stream-only\" id=\"rd-recording-indicator\" hidden aria-live=\"polite\">REC <span>00:00</span></span>'' @
     nl 8 @
     js ''<button type=\"button\" class=\"rd-ib rd-stream-only\" id=\"rd-btn-monitors\" title=\"Select monitor\" aria-label=\"Select monitor\" aria-haspopup=\"true\" hidden>'' @
     iconHtml remix IC_monitor @ js ''</button>'' @
     nl 8 @
     js ''<button type=\"button\" class=\"rd-ib rd-stream-only\" id=\"rd-btn-more\" title=\"More options\" aria-label=\"More options\" aria-haspopup=\"true\">'' @
     iconHtml remix IC_more @ js ''</button>'' @
     nl 8 @ js ''<span class=\"rd-island-sep rd-stream-only\" aria-hidden=\"true\"></span>'' @
     nl 8 @
     js ''<button type=\"button\" class=\"rd-chip rd-stream-only\" id=\"rd-btn-fit\" aria-haspopup=\"true\" title=\"Scale mode\">'' @
     nl 10 @ js ''<span id=\"rd-fit-label\">Fit to screen</span>'' @ iconHtml remix IC_chevronDown @
     nl 8 @ js ''</button>'' @
     nl 8 @
     js ''<button type=\"button\" class=\"rd-chip rd-stream-only\" id=\"rd-btn-viewonly\" aria-pressed=\"false\" title=\"Block all input to the remote device\">'' @
     nl 10 @ iconHtml remix IC_eye @ js ''<span>View only</span>'' @
     nl 8 @ js ''</button>'' @
     nl 8 @
     js ''<button type=\"button\" class=\"rd-disconnect rd-stream-only\" id=\"rd-btn-disconnect\">Disconnect</button>'' @
     nl 6 @ js ''</div>'' @
     nl 6 @ js ''<div class=\"rd-tb-user\">'' @
     nl 8 @ js ''<span class=\"rd-avatar\" title=\"'' @ escapeHtml (shown_name cfg) @ js ''\">'' @
     escapeHtml (initials upper cfg) @ js ''</span>'' @
     nl 6 @ js ''</div>''"

definition dock_button :: "bool \<Rightarrow> string \<Rightarrow> IconName \<Rightarrow> string \<Rightarrow> jsstr \<Rightarrow> jsstr" where
  "dock_button remix i icon label title =
     js ''<button type=\"button\" class=\"rd-db\" id=\"'' @ js i @ js ''\" title=\"'' @ title @
     js ''\" aria-label=\"'' @ title @ js ''\">'' @ iconHtml remix icon @ js ''<span>'' @ js label @
     js ''</span></button>''"

definition dockHtml :: "bool \<Rightarrow> jsstr" where
  "dockHtml remix =
     nl 6 @ js ''<div class=\"rd-dock-group\" role=\"group\" aria-label=\"Keyboard\">'' @
     nl 8 @ dock_button remix ''rd-lat-ctrl'' IC_keyboard ''Ctrl'' (js ''Hold Ctrl for clicks and keys'') @
     nl 8 @ dock_button remix ''rd-lat-alt'' IC_keyboard ''Alt'' (js ''Hold Alt for clicks and keys'') @
     nl 8 @ dock_button remix ''rd-key-del'' IC_keyboard ''Del'' (js ''Send Delete'') @
     nl 8 @ dock_button remix ''rd-btn-cad'' IC_keyboard ''Keys'' (js ''Keyboard shortcuts'') @
     nl 6 @ js ''</div>'' @
     nl 6 @ js ''<span class=\"rd-dock-sep\" aria-hidden=\"true\"></span>'' @
     nl 6 @ js ''<div class=\"rd-dock-group\" role=\"group\" aria-label=\"Input mode\">'' @
     nl 8 @
     dock_button remix ''rd-mode-pointer'' IC_pointer ''Pointer'' (js ''Pointer mode '' @ [0x2014] @ js '' touch acts as a pressed button'') @
     nl 8 @
     dock_button remix ''rd-mode-touch'' IC_touch ''Touch'' (js ''Touch mode '' @ [0x2014] @ js '' drag moves the cursor, tap clicks, long-press right-clicks'') @
     nl 6 @ js ''</div>'' @
     nl 6 @ js ''<span class=\"rd-dock-sep\" aria-hidden=\"true\"></span>'' @
     nl 6 @ js ''<div class=\"rd-dock-group\" role=\"group\" aria-label=\"Send\">'' @
     nl 8 @ dock_button remix ''rd-btn-type'' IC_typeText ''Type'' (js ''Type text on the remote device'') @
     nl 8 @ dock_button remix ''rd-btn-clip'' IC_clipboard ''Clipboard'' (js ''Send clipboard to remote'') @
     nl 6 @ js ''</div>'' @
     nl 6 @ js ''<span class=\"rd-dock-sep\" aria-hidden=\"true\"></span>'' @
     nl 6 @ js ''<div class=\"rd-dock-group\" role=\"group\" aria-label=\"Panels\">'' @
     nl 8 @ dock_button remix ''rd-btn-files'' IC_folderTransfer ''File Transfer'' (js ''File Transfer'') @
     nl 8 @ dock_button remix ''rd-btn-chat'' IC_chat ''Chat'' (js ''Chat'') @
     nl 8 @ dock_button remix ''rd-btn-session'' IC_info ''Session'' (js ''Session details'') @
     nl 6 @ js ''</div>''"

definition side_tab :: "bool \<Rightarrow> string \<Rightarrow> IconName \<Rightarrow> string \<Rightarrow> jsstr" where
  "side_tab remix i icon label =
     js ''<button type=\"button\" class=\"rd-tab\" data-tab=\"'' @ js i @
     js ''\" role=\"tab\" aria-selected=\"false\">'' @ iconHtml remix icon @ js ''<span>'' @ js label @
     js ''</span><i class=\"rd-badge\" hidden></i></button>''"

definition sideHtml :: "bool \<Rightarrow> jsstr" where
  "sideHtml remix =
     nl 6 @ js ''<header class=\"rd-side-head\">'' @
     nl 8 @ js ''<div class=\"rd-side-tabs\" role=\"tablist\">'' @
     nl 10 @ side_tab remix ''files'' IC_folderTransfer ''Files'' @
     nl 10 @ side_tab remix ''chat'' IC_chat ''Chat'' @
     nl 10 @ side_tab remix ''details'' IC_info ''Details'' @
     nl 8 @ js ''</div>'' @
     nl 8 @
     js ''<button type=\"button\" class=\"rd-ib\" id=\"rd-side-close\" title=\"Close panel\" aria-label=\"Close panel\">'' @
     iconHtml remix IC_close @ js ''</button>'' @
     nl 6 @ js ''</header>'' @
     nl 6 @ js ''<div class=\"rd-side-body\">'' @
     nl 8 @ js ''<section class=\"rd-pane\" data-pane=\"files\" hidden></section>'' @
     nl 8 @ js ''<section class=\"rd-pane rd-pane-chat\" data-pane=\"chat\" hidden>'' @
     nl 10 @ js ''<div class=\"rd-voice-call\">'' @
     nl 12 @
     js ''<button type=\"button\" class=\"rd-voice-call-btn\" id=\"rd-voice-call\" aria-describedby=\"rd-voice-call-status\">Voice call</button>'' @
     nl 12 @
     js ''<span id=\"rd-voice-call-status\" role=\"status\" aria-live=\"polite\">Voice calls are off</span>'' @
     nl 10 @ js ''</div>'' @
     nl 10 @ js ''<div class=\"rd-chat-list\" id=\"rd-chat-list\"></div>'' @
     nl 10 @ js ''<form class=\"rd-chat-compose\" id=\"rd-chat-form\">'' @
     nl 12 @
     js ''<input type=\"text\" id=\"rd-chat-input\" autocomplete=\"off\" placeholder=\"Message the remote user'' @
     [0x2026] @ js ''\" maxlength=\"2000\">'' @
     nl 12 @ js ''<button type=\"submit\" class=\"rd-ib rd-chat-send\" title=\"Send\" aria-label=\"Send message\">'' @
     iconHtml remix IC_send @ js ''</button>'' @
     nl 10 @ js ''</form>'' @
     nl 8 @ js ''</section>'' @
     nl 8 @ js ''<section class=\"rd-pane rd-pane-details\" data-pane=\"details\" hidden>'' @
     nl 10 @ js ''<dl class=\"rd-stats-body\">'' @
     nl 12 @ js ''<div class=\"rd-stat-row\"><dt>Device</dt><dd id=\"rd-stat-device\">'' @ [0x2014] @
     js ''</dd></div>'' @
     nl 12 @ js ''<div class=\"rd-stat-row\"><dt>User</dt><dd id=\"rd-stat-user\">'' @ [0x2014] @ js ''</dd></div>'' @
     nl 12 @ js ''<div class=\"rd-stat-row\"><dt>Platform</dt><dd id=\"rd-stat-platform\">'' @ [0x2014] @
     js ''</dd></div>'' @
     nl 12 @ js ''<div class=\"rd-stat-row\"><dt>Peer version</dt><dd id=\"rd-stat-version\">'' @ [0x2014] @
     js ''</dd></div>'' @
     nl 12 @ js ''<div class=\"rd-stat-row\"><dt>Codec</dt><dd id=\"rd-stat-codec\">'' @ [0x2014] @
     js ''</dd></div>'' @
     nl 12 @ js ''<div class=\"rd-stat-row\"><dt>Resolution</dt><dd id=\"rd-stat-res\">'' @ [0x2014] @
     js ''</dd></div>'' @
     nl 12 @ js ''<div class=\"rd-stat-row\"><dt>FPS</dt><dd id=\"rd-stat-fps\">'' @ [0x2014] @ js ''</dd></div>'' @
     nl 12 @ js ''<div class=\"rd-stat-row\"><dt>Bitrate</dt><dd id=\"rd-stat-bitrate\">'' @ [0x2014] @
     js ''</dd></div>'' @
     nl 12 @ js ''<div class=\"rd-stat-row\"><dt>Frames dropped</dt><dd id=\"rd-stat-dropped\">'' @ [0x2014] @
     js ''</dd></div>'' @
     nl 12 @ js ''<div class=\"rd-stat-row\"><dt>Duration</dt><dd id=\"rd-stat-duration\">'' @ [0x2014] @
     js ''</dd></div>'' @
     nl 10 @ js ''</dl>'' @
     nl 8 @ js ''</section>'' @
     nl 6 @ js ''</div>''"

definition edgeHtml :: "bool \<Rightarrow> jsstr" where
  "edgeHtml remix =
     nl 6 @
     js ''<button type=\"button\" class=\"rd-edge-btn\" data-open=\"files\" title=\"File transfer\" aria-label=\"Open file transfer\">'' @
     iconHtml remix IC_folderTransfer @ js ''</button>'' @
     nl 6 @
     js ''<button type=\"button\" class=\"rd-edge-btn\" data-open=\"chat\" title=\"Chat\" aria-label=\"Open chat\">'' @
     iconHtml remix IC_chat @ js ''<i class=\"rd-badge\" hidden></i></button>'' @
     nl 6 @
     js ''<button type=\"button\" class=\"rd-edge-btn\" data-open=\"details\" title=\"Session details\" aria-label=\"Open session details\">'' @
     iconHtml remix IC_info @ js ''</button>''"

section \<open>The overlay\<close>

definition overlay_svg :: "jsstr \<Rightarrow> nat \<Rightarrow> jsstr" where
  "overlay_svg paths sz =
     js ''<svg viewBox=\"0 0 24 24\" width=\"'' @ radix_str 10 sz @ js ''\" height=\"'' @ radix_str 10 sz @
     js ''\" fill=\"none\" stroke=\"currentColor\" stroke-width=\"2\" stroke-linecap=\"round\" stroke-linejoin=\"round\" aria-hidden=\"true\">'' @
     paths @ js ''</svg>''"

definition lock_svg :: jsstr where
  "lock_svg = overlay_svg (js ''<rect x=\"4.5\" y=\"10.5\" width=\"15\" height=\"10.5\" rx=\"2.2\"/><path d=\"M8 10.5V7a4 4 0 0 1 8 0v3.5\"/>'') 20"

definition device_svg :: jsstr where
  "device_svg = overlay_svg (js ''<rect x=\"3\" y=\"4\" width=\"18\" height=\"12\" rx=\"1.5\"/><path d=\"M8 20h8M12 16v4\"/>'') 20"

definition arrow_svg :: jsstr where
  "arrow_svg = overlay_svg (js ''<path d=\"M5 12h13M12 5.5 18.5 12 12 18.5\"/>'') 24"

definition overlayHtml :: "RdGlobalConfig option \<Rightarrow> jsstr" where
  "overlayHtml cfg =
     nl 6 @ js ''<div class=\"rd-card\">'' @
     nl 8 @ js ''<div class=\"rd-brand\">'' @
     nl 10 @ js ''<img class=\"rd-logo\" src=\"/rdclient/logo.png\" alt=\"CortenDesk\" width=\"60\" height=\"60\">'' @
     nl 10 @ js ''<span class=\"rd-wordmark\">Corten<span>Desk</span></span>'' @
     nl 8 @ js ''</div>'' @
     nl 8 @ js ''<div class=\"rd-tagline\">Web-Based Client '' @ overlayVersion cfg @ js ''</div>'' @
     nl 8 @ js ''<div class=\"rd-divider\" aria-hidden=\"true\"></div>'' @
     nl 8 @
     js ''<p class=\"rd-help\">Enter the client's temporary or permanent password assigned in the RustDesk client.</p>'' @
     nl 8 @ js ''<div class=\"rd-target\" id=\"rd-target\" hidden>'' @
     nl 10 @ js ''<span class=\"rd-target-ic\">'' @ device_svg @ js ''</span>'' @
     nl 10 @ js ''<span class=\"rd-target-cap\">Client ID</span>'' @
     nl 10 @ js ''<span class=\"rd-target-id\" id=\"rd-overlay-peer\"></span>'' @
     nl 8 @ js ''</div>'' @
     nl 8 @ js ''<label class=\"rd-field\" id=\"rd-field-id\" hidden>'' @
     nl 10 @ js ''<span class=\"rd-input\">'' @
     nl 12 @ js ''<span class=\"rd-input-ic\">'' @ device_svg @ js ''</span>'' @
     nl 12 @
     js ''<input id=\"rd-peer-id\" type=\"text\" inputmode=\"numeric\" autocomplete=\"off\" spellcheck=\"false\" placeholder=\"Device ID\">'' @
     nl 10 @ js ''</span>'' @
     nl 8 @ js ''</label>'' @
     nl 8 @ js ''<div class=\"rd-connect-row\">'' @
     nl 10 @ js ''<span class=\"rd-input\">'' @
     nl 12 @ js ''<span class=\"rd-input-ic\">'' @ lock_svg @ js ''</span>'' @
     nl 12 @
     js ''<input id=\"rd-password\" type=\"password\" autocomplete=\"new-password\" placeholder=\"Enter password\">'' @
     nl 10 @ js ''</span>'' @
     nl 10 @ js ''<button type=\"button\" class=\"rd-go\" id=\"rd-connect\" aria-label=\"Connect\">'' @ arrow_svg @
     js ''</button>'' @
     nl 8 @ js ''</div>'' @
     nl 8 @ js ''<label class=\"rd-save\">'' @
     nl 10 @ js ''<input type=\"checkbox\" id=\"rd-save-pw\">'' @
     nl 10 @ js ''<span>Save password on this device</span>'' @
     nl 8 @ js ''</label>'' @
     nl 8 @ js ''<div class=\"rd-msg\" id=\"rd-msg\">'' @
     nl 10 @ js ''<div class=\"rd-overlay-status\" id=\"rd-overlay-status\" hidden>'' @
     nl 12 @
     js ''<span class=\"rd-spinner\" aria-hidden=\"true\"></span><span id=\"rd-overlay-status-text\"></span>'' @
     nl 10 @ js ''</div>'' @
     nl 10 @ js ''<div class=\"rd-overlay-error\" id=\"rd-overlay-error\" role=\"alert\" hidden></div>'' @
     nl 8 @ js ''</div>'' @
     nl 8 @
     js ''<button type=\"button\" class=\"rd-chip\" id=\"rd-restart-cancel\" hidden>Cancel reconnect</button>'' @
     nl 6 @ js ''</div>''"

section \<open>Lookups\<close>

text \<open>The ids looked up in each part right after it was written; a missing one is an exception.\<close>

definition topBar_lookups :: "string list" where
  "topBar_lookups =
     [''rd-peer-label'', ''rd-peer-sub'', ''rd-recording-indicator'', ''rd-btn-monitors'', ''rd-btn-fit'',
      ''rd-btn-viewonly'', ''rd-btn-more'', ''rd-btn-disconnect'']"

definition dock_lookups :: "string list" where
  "dock_lookups =
     [''rd-lat-ctrl'', ''rd-lat-alt'', ''rd-key-del'', ''rd-btn-cad'', ''rd-mode-pointer'', ''rd-mode-touch'',
      ''rd-btn-type'', ''rd-btn-clip'', ''rd-btn-files'', ''rd-btn-chat'', ''rd-btn-session'']"

definition side_lookups :: "string list" where
  "side_lookups =
     [''rd-chat-list'', ''rd-chat-input'', ''rd-voice-call'', ''rd-voice-call-status'', ''rd-stat-device'',
      ''rd-stat-user'', ''rd-stat-platform'', ''rd-stat-version'', ''rd-stat-codec'', ''rd-stat-res'',
      ''rd-stat-fps'', ''rd-stat-bitrate'', ''rd-stat-dropped'', ''rd-stat-duration'', ''rd-side-close'',
      ''rd-chat-form'']"

definition overlay_lookups :: "string list" where
  "overlay_lookups =
     [''rd-overlay-peer'', ''rd-target'', ''rd-field-id'', ''rd-peer-id'', ''rd-password'', ''rd-save-pw'',
      ''rd-connect'', ''rd-overlay-status'', ''rd-overlay-status-text'', ''rd-overlay-error'',
      ''rd-restart-cancel'']"

definition type_lookups :: "string list" where
  "type_lookups = [''rd-type-text'', ''rd-type-send'']"

section \<open>The bars of the full screen\<close>

text \<open>
  \<open>setupFullscreenBars\<close>: the open flags and the inline styles it sets. \<open>None\<close> is the empty style, a
  transform is whether the bar is slid in, offsets are pixels; the arrows' glyphs tell whether they
  offer to hide.
\<close>

record FullscreenBars =
  fb_full :: bool
  fb_bottomOpen :: bool
  fb_topOpen :: bool
  fb_dock :: "bool option"
  fb_toolbar :: "bool option"
  fb_bottomGlyph :: bool
  fb_topGlyph :: bool
  fb_bottomAt :: "int option"
  fb_topAt :: "int option"
  fb_edgeDim :: "bool option"
  fb_side :: "(int \<times> int) option"
  fb_bodyClass :: bool

definition updateSideLayout :: "int \<Rightarrow> int \<Rightarrow> FullscreenBars \<Rightarrow> FullscreenBars" where
  "updateSideLayout dockHeight toolbarHeight b =
     b\<lparr>fb_side := (if fb_full b
        then Some (if fb_topOpen b then toolbarHeight else 0, if fb_bottomOpen b then dockHeight else 0) else None)\<rparr>"

definition bottomArrow :: "int \<Rightarrow> int \<Rightarrow> FullscreenBars \<Rightarrow> FullscreenBars" where
  "bottomArrow dockHeight toolbarHeight b =
     (let o1 = (\<not> fb_bottomOpen b)
      in updateSideLayout dockHeight toolbarHeight
           (b\<lparr>fb_bottomOpen := o1, fb_dock := Some o1, fb_bottomGlyph := o1,
              fb_bottomAt := Some (if o1 then dockHeight else 0)\<rparr>))"

definition topArrow :: "int \<Rightarrow> int \<Rightarrow> FullscreenBars \<Rightarrow> FullscreenBars" where
  "topArrow dockHeight toolbarHeight b =
     (let o1 = (\<not> fb_topOpen b)
      in updateSideLayout dockHeight toolbarHeight
           (b\<lparr>fb_topOpen := o1, fb_toolbar := Some o1, fb_topGlyph := o1,
              fb_topAt := Some (if o1 then toolbarHeight else 0)\<rparr>))"

definition edge_enter :: "FullscreenBars \<Rightarrow> FullscreenBars" where
  "edge_enter b = b\<lparr>fb_edgeDim := Some False\<rparr>"

definition edge_leave :: "FullscreenBars \<Rightarrow> FullscreenBars" where
  "edge_leave b = (if fb_full b then b\<lparr>fb_edgeDim := Some True\<rparr> else b)"

definition onFullscreenChange :: "int \<Rightarrow> int \<Rightarrow> bool \<Rightarrow> FullscreenBars \<Rightarrow> FullscreenBars" where
  "onFullscreenChange dockHeight toolbarHeight fs b =
     updateSideLayout dockHeight toolbarHeight
       (if fs
        then b\<lparr>fb_full := True, fb_bottomOpen := False, fb_topOpen := False, fb_bodyClass := True, fb_edgeDim := Some True,
               fb_bottomGlyph := False, fb_bottomAt := Some 0, fb_topGlyph := False, fb_topAt := Some 0\<rparr>
        else b\<lparr>fb_full := False, fb_bodyClass := False, fb_dock := None, fb_toolbar := None, fb_edgeDim := None,
               fb_bottomAt := None, fb_topAt := None\<rparr>)"

datatype bars_event = BE_bottom | BE_top | BE_enter | BE_leave | BE_change bool

definition bars_step :: "int \<Rightarrow> int \<Rightarrow> bars_event \<Rightarrow> FullscreenBars \<Rightarrow> FullscreenBars" where
  "bars_step dockHeight toolbarHeight ev =
     (case ev of
        BE_bottom \<Rightarrow> bottomArrow dockHeight toolbarHeight
      | BE_top \<Rightarrow> topArrow dockHeight toolbarHeight
      | BE_enter \<Rightarrow> edge_enter
      | BE_leave \<Rightarrow> edge_leave
      | BE_change fs \<Rightarrow> onFullscreenChange dockHeight toolbarHeight fs)"

definition newBars :: FullscreenBars where
  "newBars =
     \<lparr>fb_full = False, fb_bottomOpen = False, fb_topOpen = False, fb_dock = None, fb_toolbar = None,
      fb_bottomGlyph = False, fb_topGlyph = False, fb_bottomAt = None, fb_topAt = None, fb_edgeDim = None,
      fb_side = None, fb_bodyClass = False\<rparr>"

text \<open>
  The arrows are shown only in the full screen, so they are clicked only there. Then the glyphs, the
  offsets, the slid bars and the side panel are what the open flags say, and outside the full screen
  nothing of the bars or of the side panel is styled.
\<close>

fun bars_event_ok :: "bars_event \<Rightarrow> FullscreenBars \<Rightarrow> bool" where
  "bars_event_ok BE_bottom b = fb_full b"
| "bars_event_ok BE_top b = fb_full b"
| "bars_event_ok (BE_change fs) b = (fs \<noteq> fb_full b)"
| "bars_event_ok _ b = True"

inductive bars_reach :: "int \<Rightarrow> int \<Rightarrow> FullscreenBars \<Rightarrow> bool" for d t where
  bars_new: "bars_reach d t newBars"
| bars_next: "bars_reach d t b \<Longrightarrow> bars_event_ok ev b \<Longrightarrow> bars_reach d t (bars_step d t ev b)"

definition bars_ok :: "int \<Rightarrow> int \<Rightarrow> FullscreenBars \<Rightarrow> bool" where
  "bars_ok d t b \<longleftrightarrow>
     (if fb_full b
      then fb_bottomGlyph b = fb_bottomOpen b \<and> fb_topGlyph b = fb_topOpen b
        \<and> fb_bottomAt b = Some (if fb_bottomOpen b then d else 0) \<and> fb_topAt b = Some (if fb_topOpen b then t else 0)
        \<and> fb_side b = Some (if fb_topOpen b then t else 0, if fb_bottomOpen b then d else 0)
        \<and> (fb_dock b = Some (fb_bottomOpen b) \<or> fb_dock b = None \<and> \<not> fb_bottomOpen b)
        \<and> (fb_toolbar b = Some (fb_topOpen b) \<or> fb_toolbar b = None \<and> \<not> fb_topOpen b)
      else fb_dock b = None \<and> fb_toolbar b = None \<and> fb_side b = None \<and> fb_bottomAt b = None \<and> fb_topAt b = None)"

lemmas bars_defs = bars_step_def bottomArrow_def topArrow_def edge_enter_def edge_leave_def onFullscreenChange_def
  updateSideLayout_def Let_def

lemma bars_in_step: "bars_reach d t b \<Longrightarrow> bars_ok d t b"
proof (induction rule: bars_reach.induct)
  case bars_new
  then show ?case by (simp add: bars_ok_def newBars_def)
next
  case (bars_next b ev)
  then show ?case by (cases ev) (auto simp: bars_ok_def bars_defs)
qed

end
