(* ===== verification/File_View.thy ===== *)
theory File_View
  imports File_Panel Icons
begin

text \<open>
  What the file panel shows (\<open>webclient/src/ui/file-panel.ts\<close>): the markup it writes as a function of
  its state, and the handlers around it: the window itself, double clicks, the listing of the local
  folder, the probe of a local target and the access to a folder.

  \<open>loc\<close> is \<open>toLocaleString\<close> of a date in milliseconds, \<open>num\<close> the decimal text of a number that need
  not be whole, \<open>remix\<close> the answer of \<open>hasRemixIcons\<close>.
\<close>

section \<open>The file lists\<close>

definition or_nothing :: "int \<Rightarrow> (int \<Rightarrow> jsstr) \<Rightarrow> jsstr" where
  "or_nothing n f = (if n \<noteq> 0 then f n else [0x2014])"

definition remote_icon :: "FtEntryKind \<Rightarrow> IconName" where
  "remote_icon k = (if isDirKind k then if k = K_drive then IC_drive else IC_folder else IC_file)"

definition remoteRow :: "bool \<Rightarrow> (int \<Rightarrow> jsstr) \<Rightarrow> nat list \<Rightarrow> nat \<times> FtEntry \<Rightarrow> jsstr" where
  "remoteRow remix loc sel = (\<lambda>(i, e).
     js ''<tr data-idx=\"'' @ radix_str 10 i @ js ''\" class=\"'' @ (if i \<in> set sel then js ''rd-sel'' else []) @
     (if ft_isHidden e then js '' rd-hiddenfile'' else []) @ js ''\">'' @
     nl 8 @ js ''<td><span class=\"rd-ft-ic\">'' @ iconHtml remix (remote_icon (ft_kind e)) @ js ''</span>'' @
     escapeHtml (ft_name e) @ js ''</td>'' @
     nl 8 @ js ''<td class=\"rd-ft-col-size\">'' @
     (if isDirKind (ft_kind e) then [0x2014] else formatBytes (ft_size e)) @
     js ''</td><td class=\"rd-ft-col-mod\">'' @ or_nothing (ft_modifiedSec e) (\<lambda>t. loc (t * 1000)) @
     js ''</td></tr>'')"

definition selected_size :: "('a \<Rightarrow> int) \<Rightarrow> 'a list \<Rightarrow> nat list \<Rightarrow> int" where
  "selected_size sz xs sel = sum_list (map (\<lambda>i. case js_at xs i of None \<Rightarrow> 0 | Some x \<Rightarrow> sz x) sel)"

definition list_foot :: "nat \<Rightarrow> nat \<Rightarrow> int \<Rightarrow> jsstr" where
  "list_foot sel len selSize =
     radix_str 10 sel @ js '' of '' @ radix_str 10 len @ js '' selected'' @
     (if 0 < selSize then js '' '' @ [0xB7] @ js '' '' @ formatBytes selSize else [])"

record RemoteView =
  rv_body :: jsstr
  rv_emptyHidden :: bool
  rv_emptyText :: jsstr
  rv_foot :: jsstr

definition renderRemote :: "bool \<Rightarrow> (int \<Rightarrow> jsstr) \<Rightarrow> FilePanel \<Rightarrow> RemoteView" where
  "renderRemote remix loc p =
     \<lparr>rv_body = concat (map (remoteRow remix loc (fp_remoteSel p)) (enumerate 0 (fp_remoteEntries p))),
      rv_emptyHidden = (fp_remoteEntries p \<noteq> []),
      rv_emptyText = (if fp_state p = Streaming then js ''Empty folder'' else js ''Not connected''),
      rv_foot = list_foot (length (fp_remoteSel p)) (length (fp_remoteEntries p))
                  (selected_size ft_size (fp_remoteEntries p) (fp_remoteSel p))\<rparr>"

definition localRow :: "bool \<Rightarrow> (int \<Rightarrow> jsstr) \<Rightarrow> nat list \<Rightarrow> nat \<times> LocalEntry \<Rightarrow> jsstr" where
  "localRow remix loc sel = (\<lambda>(i, e).
     js ''<tr data-idx=\"'' @ radix_str 10 i @ js ''\" class=\"'' @ (if i \<in> set sel then js ''rd-sel'' else []) @
     (if dot_name (le_name e) then js '' rd-hiddenfile'' else []) @ js ''\">'' @
     nl 8 @ js ''<td><span class=\"rd-ft-ic\">'' @
     iconHtml remix (if le_kind e = LK_dir then IC_folder else IC_file) @ js ''</span>'' @ escapeHtml (le_name e) @
     js ''</td>'' @
     nl 8 @ js ''<td class=\"rd-ft-col-size\">'' @
     (if le_kind e = LK_dir then [0x2014] else formatBytes (le_size e)) @ js ''</td><td class=\"rd-ft-col-mod\">'' @
     or_nothing (le_modifiedMs e) loc @ js ''</td></tr>'')"

text \<open>\<open>None\<close>: the hint is hidden.\<close>

definition updateLocalEmpty :: "bool \<Rightarrow> FilePanel \<Rightarrow> jsstr option" where
  "updateLocalEmpty remix p =
     (if fp_localEntries p \<noteq> [] then None
      else if fp_fsMode p
      then Some (if fp_dirStack p \<noteq> [] then js ''Empty folder''
        else
        js ''<div class=\"rd-ft-cta\">'' @ iconHtml remix IC_folderOpen @
        js ''<p>Open a local folder to browse it here '' @ [0x2014] @ js '' or use'' @
        nl 11 @ js ''<b>Send files'' @ [0x2026] @
        js ''</b> above, or drag files onto the remote pane, to send from anywhere.</p>'' @
        nl 11 @ js ''<button type=\"button\" class=\"rd-ft-cta-btn\" id=\"rd-ft-cta-open\">Open folder'' @ [0x2026] @
        js ''</button></div>'')
      else Some (
        js ''<div class=\"rd-ft-cta\">'' @ iconHtml remix IC_folderOpen @
        js ''<p>Drop files here or add them to stage for sending.<br>'' @
        nl 8 @ js ''Received files are saved to your Downloads folder.</p>'' @
        nl 8 @ js ''<button type=\"button\" class=\"rd-ft-cta-btn\" id=\"rd-ft-cta-add\">Add files'' @ [0x2026] @
        js ''</button></div>''))"

record LocalView =
  lv_body :: jsstr
  lv_empty :: "jsstr option"
  lv_foot :: jsstr

definition renderLocal :: "bool \<Rightarrow> (int \<Rightarrow> jsstr) \<Rightarrow> FilePanel \<Rightarrow> LocalView" where
  "renderLocal remix loc p =
     \<lparr>lv_body = concat (map (localRow remix loc (fp_localSel p)) (enumerate 0 (fp_localEntries p))),
      lv_empty = updateLocalEmpty remix p,
      lv_foot = list_foot (length (fp_localSel p)) (length (fp_localEntries p))
                  (selected_size le_size (fp_localEntries p) (fp_localSel p))\<rparr>"

section \<open>Transfers\<close>

text \<open>\<open>formatBytes\<close> of a rate, which need not be a whole number.\<close>

definition formatRate :: "(rat \<Rightarrow> jsstr) \<Rightarrow> rat \<Rightarrow> jsstr" where
  "formatRate num n =
     (if n < 0 then [0x2014]
      else if n < 1024 then num n @ js '' B''
      else let (v, u) = scale_size 3 n 0
           in (if 100 \<le> v then toFixed v 0 else if 10 \<le> v then toFixed v 1 else toFixed v 2)
              @ js '' '' @ size_units ! u)"

fun status_name :: "job_status \<Rightarrow> jsstr" where
  "status_name JS_starting = js ''starting''"
| "status_name JS_running = js ''running''"
| "status_name JS_done = js ''done''"
| "status_name JS_error = js ''error''"
| "status_name JS_cancelled = js ''cancelled''"

definition cancellable :: "Job \<Rightarrow> bool" where
  "cancellable j \<longleftrightarrow> j_status j = JS_running \<or> j_status j = JS_starting"

definition jobStatusText :: "(rat \<Rightarrow> jsstr) \<Rightarrow> Job \<Rightarrow> jsstr" where
  "jobStatusText num j =
     (if cancellable j
      then formatBytes (j_doneBytes j) @ js '' of '' @
           (if j_totalSize j \<noteq> 0 then formatBytes (j_totalSize j) else js ''?'') @
           (if 0 < j_speedBps j then js '' '' @ [0xB7] @ js '' '' @ formatRate num (j_speedBps j) @ js ''/s'' else [])
      else if j_status j = JS_done
      then js ''Completed '' @ [0xB7] @ js '' '' @ formatBytes (max (j_doneBytes j) (j_totalSize j))
      else if j_status j = JS_cancelled then js ''Cancelled''
      else js ''Failed: '' @ (case j_error j of Some err \<Rightarrow> err | None \<Rightarrow> js ''unknown error''))"

definition jobRow :: "bool \<Rightarrow> (rat \<Rightarrow> jsstr) \<Rightarrow> Job \<Rightarrow> jsstr" where
  "jobRow remix num j =
     js ''<div class=\"rd-ft-job rd-ft-job-'' @ status_name (j_status j) @ js ''\">'' @
     nl 10 @ js ''<span class=\"rd-ft-job-dir\">'' @
     iconHtml remix (if j_kind j = JK_download then IC_sendLeft else IC_sendRight) @ js ''</span>'' @
     nl 10 @ js ''<div class=\"rd-ft-job-main\">'' @
     nl 12 @ js ''<div class=\"rd-ft-job-top\"><span class=\"rd-ft-job-name\">'' @ escapeHtml (j_label j) @
     js ''</span>'' @
     nl 14 @ js ''<span class=\"rd-ft-job-status\">'' @ escapeHtml (jobStatusText num j) @ js ''</span></div>'' @
     nl 12 @ js ''<div class=\"rd-ft-bar\"><div class=\"rd-ft-bar-fill\" style=\"width:'' @ int_str (job_pct j) @
     js ''%\"></div></div>'' @
     nl 10 @ js ''</div>'' @
     nl 10 @
     (if cancellable j
      then js ''<button type=\"button\" class=\"rd-btn rd-ft-job-cancel\" data-job=\"'' @ int_str (j_id j) @
           js ''\" title=\"Cancel\">'' @ iconHtml remix IC_close @ js ''</button>''
      else []) @
     nl 8 @ js ''</div>''"

definition renderJobs :: "bool \<Rightarrow> (rat \<Rightarrow> jsstr) \<Rightarrow> FilePanel \<Rightarrow> jsstr" where
  "renderJobs remix num p =
     (if fp_jobs p = [] then js ''<div class=\"rd-ft-none\">No transfers yet.</div>''
      else concat (map (jobRow remix num) (fp_jobs p)))"

definition logLine :: "jsstr \<Rightarrow> jsstr \<Rightarrow> jsstr" where
  "logLine ts message = ts @ js ''  '' @ message"

record ButtonView =
  bv_sendDisabled :: bool
  bv_recvDisabled :: bool

definition updateButtons :: "FilePanel \<Rightarrow> ButtonView" where
  "updateButtons p =
     (let connected = (fp_state p = Streaming)
      in \<lparr>bv_sendDisabled = (\<not> connected \<or> fp_localSel p = []),
          bv_recvDisabled = (\<not> connected \<or> fp_remoteSel p = [])\<rparr>)"

text \<open>The buttons of the two panes; \<open>startDownloads\<close> takes the selected entries.\<close>

definition startDownloads :: "int \<Rightarrow> bool \<Rightarrow> FilePanel \<Rightarrow> FilePanel \<times> effect list" where
  "startDownloads now granted p = startDownloadOf now granted (selected (fp_remoteEntries p) (fp_remoteSel p)) p"

section \<open>The status line\<close>

datatype status_kind = SK_busy | SK_ok | SK_error

definition setStatus :: "status_kind \<Rightarrow> jsstr \<Rightarrow> jsstr" where
  "setStatus kind t =
     (if kind = SK_busy then js ''<span class=\"rd-spinner\" aria-hidden=\"true\"></span>'' else []) @
     js ''<span>'' @ escapeHtml t @ js ''</span>'' @
     (if kind = SK_error then js ''<button type=\"button\" class=\"rd-ft-retry\" id=\"rd-ft-retry\">Retry</button>'' else [])"

definition or_text :: "jsstr \<Rightarrow> string \<Rightarrow> jsstr" where
  "or_text t d = (if t \<noteq> [] then t else js d)"

definition status_of_state :: "FilePanel \<Rightarrow> SessionState \<Rightarrow> jsstr option \<Rightarrow> status_kind \<times> jsstr" where
  "status_of_state p st detail =
     (case st of
        Streaming \<Rightarrow> (SK_ok, js ''Connected '' @ [0xB7] @ js '' '' @ fp_peerLabel p)
      | ErrorState \<Rightarrow> (SK_error, or_text (case detail of None \<Rightarrow> [] | Some d \<Rightarrow> d) ''Connection failed'')
      | Closed \<Rightarrow> (SK_error, js ''File channel closed'')
      | NeedAccept \<Rightarrow> (SK_busy, js ''Waiting for the remote user to accept'' @ [0x2026])
      | _ \<Rightarrow> (SK_busy, js ''Opening file channel'' @ [0x2026]))"

section \<open>Dialogs\<close>

definition conflictDetail :: "(int \<Rightarrow> jsstr) \<Rightarrow> FtDigestEvent \<Rightarrow> Job \<Rightarrow> jsstr" where
  "conflictDetail loc ev job =
     or_nothing (fde_fileSize ev) formatBytes @ js '' '' @ [0xB7] @ js '' modified '' @
     or_nothing (fde_lastModifiedSec ev) (\<lambda>t. loc (t * 1000)) @
     (if j_kind job = JK_upload then js '' (on remote)'' else js '' (incoming)'')"

definition conflictDialog :: "bool \<Rightarrow> jsstr \<Rightarrow> jsstr \<Rightarrow> jsstr" where
  "conflictDialog remix name detail =
     nl 6 @ js ''<div class=\"rd-ft-dlg\">'' @
     nl 8 @ js ''<h3>File already exists</h3>'' @
     nl 8 @ js ''<p class=\"rd-ft-dlg-file\">'' @ iconHtml remix IC_file @ js ''<span>'' @ escapeHtml name @
     js ''</span></p>'' @
     nl 8 @ js ''<p class=\"rd-ft-dlg-detail\">'' @ escapeHtml detail @ js ''</p>'' @
     nl 8 @
     js ''<label class=\"rd-save rd-ft-dlg-all\"><input type=\"checkbox\" id=\"rd-ft-dlg-applyall\"><span>Apply to all files in this transfer</span></label>'' @
     nl 8 @ js ''<div class=\"rd-ft-dlg-btns\">'' @
     nl 10 @
     js ''<button type=\"button\" class=\"rd-ft-dlg-btn rd-ft-dlg-primary\" data-act=\"overwrite\">Overwrite</button>'' @
     nl 10 @ js ''<button type=\"button\" class=\"rd-ft-dlg-btn\" data-act=\"skip\">Skip</button>'' @
     nl 10 @
     js ''<button type=\"button\" class=\"rd-ft-dlg-btn rd-ft-dlg-danger\" data-act=\"cancel\">Cancel transfer</button>'' @
     nl 8 @ js ''</div>'' @
     nl 6 @ js ''</div>''"

definition promptDialog :: "jsstr \<Rightarrow> jsstr \<Rightarrow> jsstr \<Rightarrow> jsstr" where
  "promptDialog title placeholder initial =
     nl 6 @ js ''<div class=\"rd-ft-dlg\">'' @
     nl 8 @ js ''<h3>'' @ escapeHtml title @ js ''</h3>'' @
     nl 8 @ js ''<input type=\"text\" class=\"rd-ft-dlg-input\" id=\"rd-ft-dlg-input\" placeholder=\"'' @
     escapeHtml placeholder @ js ''\"'' @
     nl 15 @ js ''value=\"'' @ escapeHtml initial @ js ''\" spellcheck=\"false\" autocomplete=\"off\">'' @
     nl 8 @ js ''<div class=\"rd-ft-dlg-btns\">'' @
     nl 10 @ js ''<button type=\"button\" class=\"rd-ft-dlg-btn rd-ft-dlg-primary\" data-act=\"ok\">OK</button>'' @
     nl 10 @ js ''<button type=\"button\" class=\"rd-ft-dlg-btn\" data-act=\"no\">Cancel</button>'' @
     nl 8 @ js ''</div>'' @
     nl 6 @ js ''</div>''"

definition confirmDialog :: "jsstr \<Rightarrow> jsstr" where
  "confirmDialog t =
     nl 6 @ js ''<div class=\"rd-ft-dlg\">'' @
     nl 8 @ js ''<h3>Are you sure?</h3>'' @
     nl 8 @ js ''<p class=\"rd-ft-dlg-detail\">'' @ escapeHtml t @ js ''</p>'' @
     nl 8 @ js ''<div class=\"rd-ft-dlg-btns\">'' @
     nl 10 @ js ''<button type=\"button\" class=\"rd-ft-dlg-btn rd-ft-dlg-danger\" data-act=\"ok\">Delete</button>'' @
     nl 10 @ js ''<button type=\"button\" class=\"rd-ft-dlg-btn\" data-act=\"no\">Cancel</button>'' @
     nl 8 @ js ''</div>'' @
     nl 6 @ js ''</div>''"

section \<open>The panel\<close>

definition sBtn :: "string \<Rightarrow> jsstr \<Rightarrow> jsstr \<Rightarrow> jsstr" where
  "sBtn i icon title =
     js ''<button type=\"button\" class=\"rd-btn\" id=\"'' @ js i @ js ''\" title=\"'' @ title @ js ''\">'' @ icon @
     js ''</button>''"

datatype pane_side = PS_local | PS_remote

fun side_name :: "pane_side \<Rightarrow> jsstr" where
  "side_name PS_local = js ''local''"
| "side_name PS_remote = js ''remote''"

definition pane :: "bool \<Rightarrow> pane_side \<Rightarrow> string \<Rightarrow> jsstr \<Rightarrow> jsstr \<Rightarrow> jsstr" where
  "pane remix side title headBtns pathBtns =
     nl 6 @ js ''<section class=\"rd-ft-pane\" id=\"rd-ft-'' @ side_name side @ js ''\">'' @
     nl 8 @ js ''<header class=\"rd-ft-pane-head\">'' @
     nl 10 @ js ''<span class=\"rd-ft-pane-ic\">'' @
     iconHtml remix (if side = PS_local then IC_monitor else IC_folderTransfer) @ js ''</span>'' @
     nl 10 @ js ''<div class=\"rd-ft-pane-title\">'' @
     nl 12 @ js ''<strong>'' @ js title @ js ''</strong>'' @
     nl 12 @ js ''<small id=\"rd-ft-'' @ side_name side @ js ''-sub\"></small>'' @
     nl 10 @ js ''</div>'' @
     nl 10 @ js ''<div class=\"rd-ft-pane-actions\">'' @ headBtns @ js ''</div>'' @
     nl 8 @ js ''</header>'' @
     nl 8 @ js ''<div class=\"rd-ft-pathrow\">'' @
     nl 10 @ pathBtns @
     nl 10 @ js ''<input id=\"rd-ft-'' @ side_name side @
     js ''-path\" class=\"rd-ft-path\" type=\"text\" spellcheck=\"false\" autocomplete=\"off\"'' @
     nl 17 @ js ''placeholder=\"'' @ (if side = PS_remote then js ''Remote path'' else []) @ js ''\" '' @
     (if side = PS_local then js ''readonly'' else []) @ js ''>'' @
     nl 10 @ js ''<button type=\"button\" class=\"rd-btn\" id=\"rd-ft-'' @ side_name side @
     js ''-refresh\" title=\"Refresh\">'' @ iconHtml remix IC_refresh @ js ''</button>'' @
     nl 8 @ js ''</div>'' @
     nl 8 @ js ''<div class=\"rd-ft-listwrap\">'' @
     nl 10 @ js ''<table class=\"rd-ft-table\">'' @
     nl 12 @
     js ''<thead><tr><th>Name</th><th class=\"rd-ft-col-size\">Size</th><th class=\"rd-ft-col-mod\">Modified</th></tr></thead>'' @
     nl 12 @ js ''<tbody id=\"rd-ft-'' @ side_name side @ js ''-body\"></tbody>'' @
     nl 10 @ js ''</table>'' @
     nl 10 @ js ''<div class=\"rd-ft-empty\" id=\"rd-ft-'' @ side_name side @ js ''-empty\" hidden></div>'' @
     nl 8 @ js ''</div>'' @
     nl 8 @ js ''<footer class=\"rd-ft-foot\" id=\"rd-ft-'' @ side_name side @ js ''-foot\"></footer>'' @
     nl 6 @ js ''</section>''"

definition panelHtml :: "bool \<Rightarrow> bool \<Rightarrow> jsstr" where
  "panelHtml remix fsMode =
     nl 6 @ js ''<header class=\"rd-ft-head\">'' @
     nl 8 @ js ''<span class=\"rd-ft-title\">'' @ iconHtml remix IC_folderTransfer @
     js ''<span>File Transfer</span></span>'' @
     nl 8 @ js ''<span class=\"rd-ft-status\" id=\"rd-ft-status\"></span>'' @
     nl 8 @ js ''<span class=\"rd-ft-head-spacer\"></span>'' @
     nl 8 @ sBtn ''rd-ft-hidden'' (iconHtml remix IC_eyeOff) (js ''Show hidden files'') @
     nl 8 @ sBtn ''rd-ft-close'' (iconHtml remix IC_close) (js ''Close file transfer'') @
     nl 6 @ js ''</header>'' @
     nl 6 @ js ''<div class=\"rd-ft-panes\">'' @
     nl 8 @
     pane remix PS_local ''This computer''
       (sBtn ''rd-ft-local-send'' (iconHtml remix IC_fileUpload) (js ''Send files'' @ [0x2026] @ js '' (pick files from anywhere)'') @
        (if fsMode then sBtn ''rd-ft-local-open'' (iconHtml remix IC_folderOpen) (js ''Open a local folder'')
         else sBtn ''rd-ft-local-add'' (iconHtml remix IC_folderOpen) (js ''Add files to stage'')))
       (sBtn ''rd-ft-local-up'' (iconHtml remix IC_arrowUp) (js ''Up one level'')) @
     nl 8 @ js ''<div class=\"rd-ft-mid\">'' @
     nl 10 @
     js ''<button type=\"button\" class=\"rd-ft-go\" id=\"rd-ft-send\" title=\"Send selected to the remote computer\" disabled>'' @
     nl 12 @ js ''<span>Send</span>'' @ iconHtml remix IC_sendRight @
     nl 10 @ js ''</button>'' @
     nl 10 @
     js ''<button type=\"button\" class=\"rd-ft-go rd-ft-go-recv\" id=\"rd-ft-recv\" title=\"Receive selected from the remote computer\" disabled>'' @
     nl 12 @ iconHtml remix IC_sendLeft @ js ''<span>Receive</span>'' @
     nl 10 @ js ''</button>'' @
     nl 8 @ js ''</div>'' @
     nl 8 @
     pane remix PS_remote ''Remote computer''
       (sBtn ''rd-ft-remote-new'' (iconHtml remix IC_newFolder) (js ''New folder'') @
        sBtn ''rd-ft-remote-rename'' (iconHtml remix IC_rename) (js ''Rename selected'') @
        sBtn ''rd-ft-remote-del'' (iconHtml remix IC_trash) (js ''Delete selected''))
       (sBtn ''rd-ft-remote-up'' (iconHtml remix IC_arrowUp) (js ''Up one level'') @
        sBtn ''rd-ft-remote-home'' (iconHtml remix IC_home) (js ''Home directory'')) @
     nl 6 @ js ''</div>'' @
     nl 6 @ js ''<div class=\"rd-ft-bottom\">'' @
     nl 8 @ js ''<div class=\"rd-ft-tabs\">'' @
     nl 10 @ js ''<button type=\"button\" class=\"rd-ft-tab rd-active\" id=\"rd-ft-tab-jobs\">Transfers</button>'' @
     nl 10 @ js ''<button type=\"button\" class=\"rd-ft-tab\" id=\"rd-ft-tab-log\">Event log</button>'' @
     nl 8 @ js ''</div>'' @
     nl 8 @
     js ''<div class=\"rd-ft-jobs\" id=\"rd-ft-jobs\"><div class=\"rd-ft-none\">No transfers yet.</div></div>'' @
     nl 8 @ js ''<div class=\"rd-ft-log\" id=\"rd-ft-log\" hidden></div>'' @
     nl 6 @ js ''</div>'' @
     nl 6 @ js ''<div id=\"rd-ft-dialog\" hidden></div>''"

text \<open>The elements the constructor looks up, in order; a missing one is an exception.\<close>

definition panel_lookups :: "bool \<Rightarrow> string list" where
  "panel_lookups fsMode =
     [''rd-ft-status'', ''rd-ft-hidden'', ''rd-ft-local-sub'', ''rd-ft-local-path'', ''rd-ft-local-body'',
      ''rd-ft-local-foot'', ''rd-ft-local-empty'', ''rd-ft-remote-sub'', ''rd-ft-remote-path'',
      ''rd-ft-remote-body'', ''rd-ft-remote-foot'', ''rd-ft-remote-empty'', ''rd-ft-send'', ''rd-ft-recv'',
      ''rd-ft-tab-jobs'', ''rd-ft-tab-log'', ''rd-ft-jobs'', ''rd-ft-log'', ''rd-ft-dialog'', ''rd-ft-close'',
      ''rd-ft-local-send'', (if fsMode then ''rd-ft-local-open'' else ''rd-ft-local-add''), ''rd-ft-local-up'',
      ''rd-ft-local-refresh'', ''rd-ft-remote-up'', ''rd-ft-remote-home'', ''rd-ft-remote-refresh'',
      ''rd-ft-remote-new'', ''rd-ft-remote-rename'', ''rd-ft-remote-del'', ''rd-ft-remote'', ''rd-ft-local'']"

text \<open>The button for hidden files: its icon and its title.\<close>

definition hiddenButton :: "bool \<Rightarrow> bool \<Rightarrow> jsstr \<times> jsstr" where
  "hiddenButton remix showHidden =
     (iconHtml remix (if showHidden then IC_eye else IC_eyeOff),
      if showHidden then js ''Hide hidden files'' else js ''Show hidden files'')"

section \<open>Handlers\<close>

text \<open>The window: opening it connects if there is no live connection, closing it only hides it.\<close>

definition panel_opened :: "SessionConfig option \<Rightarrow> bool \<times> FilePanel \<Rightarrow> (bool \<times> FilePanel) \<times> effect list" where
  "panel_opened getConfig = (\<lambda>(isOpen, p). case connectIfNeeded getConfig p of (p1, effs) \<Rightarrow> ((True, p1), effs))"

definition panel_closed :: "bool \<times> FilePanel \<Rightarrow> (bool \<times> FilePanel) \<times> effect list" where
  "panel_closed = (\<lambda>(isOpen, p). ((False, p), []))"

definition panel_toggle :: "SessionConfig option \<Rightarrow> bool \<times> FilePanel \<Rightarrow> (bool \<times> FilePanel) \<times> effect list" where
  "panel_toggle getConfig w = (if fst w then panel_closed w else panel_opened getConfig w)"

definition dblClickRemote :: "int \<Rightarrow> bool \<Rightarrow> nat \<Rightarrow> FilePanel \<Rightarrow> FilePanel \<times> effect list" where
  "dblClickRemote now granted idx p =
     (case js_at (fp_remoteEntries p) idx of
        None \<Rightarrow> (p, [])
      | Some entry \<Rightarrow>
          if isDirKind (ft_kind entry) then (p, readRemote (joinRemote (fp_remotePath p) (ft_name entry) (fp_sep p)) p)
          else startDownloadOf now granted [entry] p)"

definition dblClickLocal :: "nat \<Rightarrow> FilePanel \<Rightarrow> FilePanel" where
  "dblClickLocal idx p =
     (case js_at (fp_localEntries p) idx of
        None \<Rightarrow> p
      | Some entry \<Rightarrow> if le_kind entry = LK_dir \<and> fp_fsMode p then localEnter entry p else p)"

text \<open>What \<open>refreshLocal\<close> reads; a file that cannot be read keeps size and date 0.\<close>

definition listed_entry :: "local_node \<Rightarrow> LocalEntry" where
  "listed_entry nd =
     (case nd of
        LN_dir name children \<Rightarrow> \<lparr>le_kind = LK_dir, le_name = name, le_size = 0, le_modifiedMs = 0, le_file = None\<rparr>
      | LN_file name None \<Rightarrow> \<lparr>le_kind = LK_file, le_name = name, le_size = 0, le_modifiedMs = 0, le_file = None\<rparr>
      | LN_file name (Some f) \<Rightarrow>
          \<lparr>le_kind = LK_file, le_name = name, le_size = uf_size f, le_modifiedMs = uf_lastModified f, le_file = Some f\<rparr>)"

fun node_name :: "local_node \<Rightarrow> jsstr" where
  "node_name (LN_file name f) = name"
| "node_name (LN_dir name children) = name"

definition list_folder :: "bool \<Rightarrow> local_node list \<Rightarrow> LocalEntry list" where
  "list_folder showHidden nodes =
     map listed_entry (filter (\<lambda>nd. showHidden \<or> \<not> dot_name (node_name nd)) nodes)"

definition refreshLocal :: "(jsstr \<Rightarrow> rat) \<Rightarrow> local_node list \<Rightarrow> FilePanel \<Rightarrow> FilePanel" where
  "refreshLocal rank nodes p =
     (if \<not> fp_fsMode p \<or> fp_dirStack p = [] then p
      else let p1 = p\<lparr>fp_localListGen := fp_localListGen p + 1\<rparr>
           in localListed rank (fp_localListGen p1) (list_folder (fp_showHidden p) nodes) p1)"

definition localPath :: "FilePanel \<Rightarrow> jsstr" where
  "localPath p = js_join (js ''/'') (fp_dirStack p)"

text \<open>A file of the name in the folder; the lookup of a folder that is not there throws.\<close>

fun find_dir :: "jsstr \<Rightarrow> local_node list \<Rightarrow> local_node list option" where
  "find_dir part [] = None"
| "find_dir part (LN_dir name children # rest) = (if name = part then Some children else find_dir part rest)"
| "find_dir part (LN_file name f # rest) = (if name = part then None else find_dir part rest)"

fun find_file :: "jsstr \<Rightarrow> local_node list \<Rightarrow> bool" where
  "find_file part [] = False"
| "find_file part (LN_file name f # rest) = (name = part \<or> find_file part rest)"
| "find_file part (LN_dir name children # rest) = (name \<noteq> part \<and> find_file part rest)"

fun enter_dirs :: "jsstr list \<Rightarrow> local_node list \<Rightarrow> local_node list option" where
  "enter_dirs [] d = Some d"
| "enter_dirs (part # parts) d = (case find_dir part d of None \<Rightarrow> None | Some d1 \<Rightarrow> enter_dirs parts d1)"

text \<open>The last of no parts is \<open>undefined\<close>, which the browser takes for the name.\<close>

definition localTargetExists :: "local_node list \<Rightarrow> jsstr \<Rightarrow> bool" where
  "localTargetExists dir rel =
     (let parts = filter (\<lambda>s. s \<noteq> []) (js_split slash rel)
      in case enter_dirs (butlast parts) dir of
           None \<Rightarrow> False
         | Some d \<Rightarrow> find_file (if parts = [] then js ''undefined'' else last parts) d)"

text \<open>The two permission calls: absent, or the answer, or \<open>None\<close> when they throw.\<close>

definition ensureWritable :: "bool \<Rightarrow> bool option \<Rightarrow> bool option \<Rightarrow> bool" where
  "ensureWritable hasApi queryGranted requestGranted =
     (if \<not> hasApi then True
      else case queryGranted of
        None \<Rightarrow> False
      | Some True \<Rightarrow> True
      | Some False \<Rightarrow> (case requestGranted of None \<Rightarrow> False | Some b \<Rightarrow> b))"

text \<open>Files picked or dropped; \<open>None\<close>: not connected, no picker opens.\<close>

definition pickAndSendFiles :: "int \<Rightarrow> UploadFile list \<Rightarrow> FilePanel \<Rightarrow> (FilePanel \<times> effect list) option" where
  "pickAndSendFiles now files p =
     (if fp_state p \<noteq> Streaming then None
      else Some (if files \<noteq> [] then sendFiles now files p else (p, [])))"

definition drop_on_remote :: "int \<Rightarrow> UploadFile list \<Rightarrow> FilePanel \<Rightarrow> FilePanel \<times> effect list" where
  "drop_on_remote now files p = (if files \<noteq> [] then sendFiles now files p else (p, []))"

datatype panel_tab = PT_jobs | PT_log

record TabView =
  tv_jobsActive :: bool
  tv_logActive :: bool
  tv_jobsHidden :: bool
  tv_logHidden :: bool

definition setTab :: "panel_tab \<Rightarrow> TabView" where
  "setTab tab =
     \<lparr>tv_jobsActive = (tab = PT_jobs), tv_logActive = (tab = PT_log),
      tv_jobsHidden = (tab \<noteq> PT_jobs), tv_logHidden = (tab \<noteq> PT_log)\<rparr>"

end
