(* ===== verification/View_Safety.thy ===== *)
theory View_Safety
  imports App_View File_View
begin

text \<open>
  The markup the client writes: text that comes from the peer, from files or from the user never
  becomes markup, and every element that is looked up after a part of the page was written is in it.
\<close>

section \<open>Numbers\<close>

lemma plain_js: "plain_text (js s) \<longleftrightarrow> CHR ''<'' \<notin> set s \<and> CHR 0x22 \<notin> set s"
proof -
  have "(60 :: 16 word) = of_char CHR ''<''" "(34 :: 16 word) = of_char CHR 0x22" by simp_all
  then show ?thesis by (simp only: plain_text_def js_def set_map image_iff of_char_unit) blast
qed

lemma plain_radix [simp]: "plain_text (radix_str 10 n)"
proof -
  have "digit_unit d \<noteq> 60 \<and> digit_unit d \<noteq> 34" if "d < 10" for d
  proof -
    have "unat (digit_unit d) = 48 + d"
      using that by (simp only: digit_unit_def if_True unat_of_nat) simp
    then show ?thesis using that by auto
  qed
  then have "list_all (\<lambda>u. u \<noteq> 60 \<and> u \<noteq> 34) (radix_str 10 n)"
    by (intro radix_str_digits) simp_all
  then show ?thesis by (auto simp: plain_text_def list_all_iff)
qed

lemma plain_Nil [simp]: "plain_text []"
  by (simp add: plain_text_def)

lemma plain_int [simp]: "plain_text (int_str n)"
  by (simp add: int_str_def plain_js)

lemma plain_replicate: "plain_text (replicate n u) \<longleftrightarrow> n = 0 \<or> u \<noteq> 60 \<and> u \<noteq> 34"
  by (auto simp: plain_text_def)

lemma plain_fixed [simp]: "plain_text (toFixed x d)"
  by (simp add: toFixed_def Let_def plain_js plain_replicate) (simp add: js_def)

lemma scale_unit: "snd (scale_size k v u) \<le> u + k"
  by (induction k v u rule: scale_size.induct) (auto intro: le_trans)

lemma plain_unit: "u \<le> 3 \<Longrightarrow> plain_text (size_units ! u)"
  by (auto simp: size_units_def plain_js le_Suc_eq numeral_eq_Suc)

lemma plain_dash: "plain_text [0x2014]" "plain_text [0xB7]" "plain_text [0x2026]" "plain_text [0xD7]"
  by (simp_all add: plain_text_def)

lemma plain_bytes [simp]: "plain_text (formatBytes n)"
  using scale_unit [of 3 "of_int n" 0]
  by (auto simp: formatBytes_def plain_js plain_dash plain_unit split: prod.splits)

lemma plain_or_nothing [simp]: "(\<And>t. plain_text (f t)) \<Longrightarrow> plain_text (or_nothing n f)"
  by (simp add: or_nothing_def plain_dash)

lemma plain_if [simp]: "plain_text (if b then s else t) \<longleftrightarrow> (if b then plain_text s else plain_text t)"
  by simp

section \<open>Reading a fragment\<close>

lemma scan_unit:
  "u \<in> {0x2014, 0xB7, 0x2026, 0xD7} \<Longrightarrow> html_scan Content (u # s) = html_scan Content s"
  "u \<in> {0x2014, 0xB7, 0x2026, 0xD7} \<Longrightarrow> html_scan (Value w v) (u # s) = html_scan (Value w (u # v)) s"
  by (auto split: prod.split)

lemma our_units:
  "0x2014 \<in> {0x2014, 0xB7, 0x2026, 0xD7 :: 16 word}" "0xB7 \<in> {0x2014, 0xB7, 0x2026, 0xD7 :: 16 word}"
  "0x2026 \<in> {0x2014, 0xB7, 0x2026, 0xD7 :: 16 word}" "0xD7 \<in> {0x2014, 0xB7, 0x2026, 0xD7 :: 16 word}"
  by simp_all

lemmas fragment_eval =
  html_scan.simps(1) html_scan_append html_scan_js html_scan_nl scan_icon html_scan_plain scan_unit our_units char_eval
  plain_Nil plain_radix plain_int plain_bytes plain_escape plain_js

text \<open>The same entry, transfer or message with another text.\<close>

abbreviation alike :: "jsstr \<Rightarrow> jsstr \<Rightarrow> bool" where
  "alike a b \<equiv> whole a \<and> skeleton b = skeleton a"

lemmas plain_eval = if_cancel plain_if plain_or_nothing list.set insert_iff empty_iff plain_text_append plain_js plain_dash

lemmas alike_eval = whole_def skeleton_def markup_def fragment_eval plain_eval bare.simps map_append append_assoc

section \<open>File lists\<close>

lemma remote_row:
  assumes "\<And>t. plain_text (loc t)"
  shows "alike (remoteRow remix loc sel (i, e)) (remoteRow remix loc sel (i, e\<lparr>ft_name := n\<rparr>))"
proof -
  have d: "plain_text (or_nothing m (\<lambda>t. loc (t * 1000)))" for m by (simp add: assms)
  show ?thesis by (simp only: remoteRow_def prod.case d alike_eval) simp
qed

lemma local_row:
  assumes "\<And>t. plain_text (loc t)"
  shows "alike (localRow remix loc sel (i, e)) (localRow remix loc sel (i, e\<lparr>le_name := n\<rparr>))"
proof -
  have d: "plain_text (or_nothing m loc)" for m by (simp add: assms)
  show ?thesis by (simp only: localRow_def prod.case d alike_eval) simp
qed

lemma plain_status: "plain_text (status_name st)"
  by (cases st) (simp_all add: plain_js)

lemma job_row: "alike (jobRow remix num j) (jobRow remix num (j\<lparr>j_label := n, j_error := err\<rparr>))"
proof (cases "j_status j = JS_running \<or> j_status j = JS_starting")
  case True
  then have "cancellable j" "cancellable (j\<lparr>j_label := n, j_error := err\<rparr>)" by (auto simp: cancellable_def)
  then show ?thesis by (simp only: jobRow_def plain_status alike_eval) simp
next
  case False
  then have "\<not> cancellable j" "\<not> cancellable (j\<lparr>j_label := n, j_error := err\<rparr>)" by (auto simp: cancellable_def)
  then show ?thesis by (simp only: jobRow_def plain_status alike_eval) simp
qed

lemma status_line: "alike (setStatus k a) (setStatus k b)"
  by (cases k) (simp_all only: setStatus_def status_kind.distinct alike_eval)

lemma conflict_dialog: "alike (conflictDialog remix n d) (conflictDialog remix n' d')"
  by (simp only: conflictDialog_def alike_eval)

lemma prompt_dialog: "alike (promptDialog a b c) (promptDialog a' b' c')"
  by (simp only: promptDialog_def alike_eval)

lemma confirm_dialog: "alike (confirmDialog a) (confirmDialog b)"
  by (simp only: confirmDialog_def alike_eval)

lemma plain_clock: "plain_text (chat_time clock t)"
  by (simp add: chat_time_def pad2_def Let_def plain_js split: prod.split)

lemma chat_message: "alike (chat_row clock m) (chat_row clock (m\<lparr>ce_text := t\<rparr>))"
  by (cases "ce_me m") (simp_all only: chat_row_def plain_clock alike_eval ChatEntry.simps)

lemma monitor_row: "alike (monitor_tile remix c (i, d)) (monitor_tile remix c (i, d\<lparr>di_name := n\<rparr>))"
  by (cases "int i = c"; cases "di_online d"; simp only: monitor_tile_def prod.case alike_eval; simp add: alike_eval)

lemma menu_row:
  "alike (menuItem remix icon label checked action (Some (c # cs))) (menuItem remix icon label' checked action (Some (d # ds)))"
  "alike (menuItem remix icon label checked action None) (menuItem remix icon label' checked action None)"
  by (cases icon; cases action; cases "the action"; cases checked;
    simp only: menuItem_def Let_def option.case option.sel list.case alike_eval; simp)+

lemma top_bar: "alike (topBarHtml remix upper cfg) (topBarHtml remix upper' cfg')"
  by (simp only: topBarHtml_def alike_eval)

section \<open>Composition\<close>

lemma whole_skeleton: "whole h \<longleftrightarrow> fst (skeleton h) = Content"
  by (simp add: whole_def skeleton_def split: prod.split)

lemma alike_append: "alike a a' \<Longrightarrow> alike b b' \<Longrightarrow> alike (a @ b) (a' @ b')"
  using whole_skeleton [of a] whole_skeleton [of a'] by (simp add: whole_append skeleton_append)

lemma alike_refl: "whole a \<Longrightarrow> alike a a"
  by simp

lemma alike_rows:
  assumes "\<And>x. x \<in> set xs \<Longrightarrow> alike (r x) (r' x)"
  shows "alike (concat (map r xs)) (concat (map r' xs))"
  using assms
proof (induction xs)
  case (Cons x xs)
  then show ?case using alike_append [of "r x" "r' x"] by simp
qed simp

lemma alike_map:
  assumes "\<And>x. alike (r x) (r (g x))"
  shows "alike (concat (map r xs)) (concat (map r (map g xs)))"
  using alike_rows [of xs r "r \<circ> g"] assms by (simp add: comp_def)

lemma enumerate_map: "enumerate n (map g xs) = map (\<lambda>(i, x). (i, g x)) (enumerate n xs)"
  by (induction xs arbitrary: n) simp_all

lemma whole_if: "whole (if b then x else y) \<longleftrightarrow> (if b then whole x else whole y)"
  by simp

lemma whole_menuItem: "whole (menuItem remix icon label checked action None)"
  using menu_row(2) by blast

lemma whole_parts:
  "whole (resolution_button r)" "whole custom_button" "whole (pop_title ''Resolution'')"
  "whole (pop_title ''Virtual displays'')" "whole (js ''<div class=\"rd-pop-title\">Select monitor</div>'')"
  by (simp_all only: resolution_button_def custom_button_def pop_title_def alike_eval)

lemma whole_resolutions: "whole (resolution_html mm)"
proof -
  have "whole (concat (map resolution_button xs))" for xs
    by (rule whole_concat) (auto simp: whole_parts)
  then show ?thesis by (simp add: resolution_html_def whole_append whole_parts)
qed

lemma whole_virtual: "whole (virtual_html remix mm)"
  by (simp add: virtual_html_def action_item_def whole_parts whole_append whole_menuItem split: option.split)


section \<open>Text is never markup\<close>

text \<open>The same panel and the same page with other texts of the peer, of files and of messages.\<close>

definition other_texts :: "(jsstr \<Rightarrow> jsstr) \<Rightarrow> FilePanel \<Rightarrow> FilePanel" where
  "other_texts f p =
     p\<lparr>fp_remoteEntries := map (\<lambda>e. e\<lparr>ft_name := f (ft_name e)\<rparr>) (fp_remoteEntries p),
       fp_localEntries := map (\<lambda>e. e\<lparr>le_name := f (le_name e)\<rparr>) (fp_localEntries p),
       fp_jobs := map (\<lambda>j. j\<lparr>j_label := f (j_label j), j_error := map_option f (j_error j)\<rparr>) (fp_jobs p)\<rparr>"

definition other_messages :: "(jsstr \<Rightarrow> jsstr) \<Rightarrow> RdApp \<Rightarrow> RdApp" where
  "other_messages f s =
     s\<lparr>ap_chat := map (\<lambda>m. m\<lparr>ce_text := f (ce_text m)\<rparr>) (ap_chat s),
       ap_peer := (ap_peer s)\<lparr>pv_displays := map (\<lambda>d. d\<lparr>di_name := f (di_name d)\<rparr>) (pv_displays (ap_peer s))\<rparr>\<rparr>"

lemma remote_list:
  assumes "\<And>t. plain_text (loc t)"
  shows "alike (rv_body (renderRemote remix loc p)) (rv_body (renderRemote remix loc (other_texts f p)))"
proof -
  let ?g = "\<lambda>(i, e). (i, e\<lparr>ft_name := f (ft_name e)\<rparr>)"
  have "alike (remoteRow remix loc (fp_remoteSel p) x) (remoteRow remix loc (fp_remoteSel p) (?g x))" for x
    using remote_row [OF assms] by (cases x) simp
  from alike_map [of "remoteRow remix loc (fp_remoteSel p)" ?g, OF this] show ?thesis
    by (simp add: renderRemote_def other_texts_def enumerate_map del: map_map)
qed

lemma local_list:
  assumes "\<And>t. plain_text (loc t)"
  shows "alike (lv_body (renderLocal remix loc p)) (lv_body (renderLocal remix loc (other_texts f p)))"
proof -
  let ?g = "\<lambda>(i, e). (i, e\<lparr>le_name := f (le_name e)\<rparr>)"
  have "alike (localRow remix loc (fp_localSel p) x) (localRow remix loc (fp_localSel p) (?g x))" for x
    using local_row [OF assms] by (cases x) simp
  from alike_map [of "localRow remix loc (fp_localSel p)" ?g, OF this] show ?thesis
    by (simp add: renderLocal_def other_texts_def enumerate_map del: map_map)
qed

lemma job_list: "alike (renderJobs remix num p) (renderJobs remix num (other_texts f p))"
proof -
  have "alike (jobRow remix num j) (jobRow remix num (j\<lparr>j_label := f (j_label j), j_error := map_option f (j_error j)\<rparr>))" for j
    by (rule job_row)
  from alike_map [of "jobRow remix num" "\<lambda>j. j\<lparr>j_label := f (j_label j), j_error := map_option f (j_error j)\<rparr>", OF this]
  have "alike (concat (map (jobRow remix num) (fp_jobs p))) (concat (map (jobRow remix num) (fp_jobs (other_texts f p))))"
    by (simp add: other_texts_def del: map_map)
  moreover have "whole (js ''<div class=\"rd-ft-none\">No transfers yet.</div>'')" by (simp only: alike_eval)
  ultimately show ?thesis by (simp add: renderJobs_def) (simp add: other_texts_def)
qed

lemma chat_list: "alike (renderChatList clock s) (renderChatList clock (other_messages f s))"
proof -
  have "alike (chat_row clock m) (chat_row clock (m\<lparr>ce_text := f (ce_text m)\<rparr>))" for m
    by (rule chat_message)
  from alike_map [of "chat_row clock" "\<lambda>m. m\<lparr>ce_text := f (ce_text m)\<rparr>", OF this]
  have "alike (concat (map (chat_row clock) (ap_chat s))) (concat (map (chat_row clock) (ap_chat (other_messages f s))))"
    by (simp add: other_messages_def del: map_map)
  moreover have
    "whole (js ''<div class=\"rd-chat-empty\">No messages yet. Anything you send pops up on the remote screen.</div>'')"
    by (simp only: alike_eval)
  ultimately show ?thesis by (simp add: renderChatList_def) (simp add: other_messages_def)
qed

lemma monitor_menu: "alike (monitorHtml remix mm s) (monitorHtml remix mm (other_messages f s))"
proof -
  let ?g = "\<lambda>(i, d). (i, d\<lparr>di_name := f (di_name d)\<rparr>)"
  have "alike (monitor_tile remix c x) (monitor_tile remix c (?g x))" for c x
    using monitor_row by (cases x) simp
  from alike_map [of "monitor_tile remix (pv_current (ap_peer s))" ?g, OF this] show ?thesis
    by (simp add: monitorHtml_def other_messages_def enumerate_map whole_append skeleton_append whole_parts whole_resolutions
        whole_virtual del: map_map)
qed

section \<open>The property\<close>

text \<open>
  C20. Text is never markup. Give the remote and local files, the transfers and their errors, the
  chat messages and the displays other names: the lists the client writes for them have the same
  tags and attributes in the same places, whatever the texts are. The same holds for the status
  line, the dialogs, the labels of menu items and the user's name in the top bar.
\<close>

theorem text_is_never_markup:
  assumes "\<forall>t. plain_text (loc t)"
  shows "alike (rv_body (renderRemote remix loc p)) (rv_body (renderRemote remix loc (other_texts f p)))
    \<and> alike (lv_body (renderLocal remix loc p)) (lv_body (renderLocal remix loc (other_texts f p)))
    \<and> alike (renderJobs remix num p) (renderJobs remix num (other_texts f p))
    \<and> alike (renderChatList clock s) (renderChatList clock (other_messages f s))
    \<and> alike (monitorHtml remix mm s) (monitorHtml remix mm (other_messages f s))
    \<and> alike (setStatus k a) (setStatus k a')
    \<and> alike (conflictDialog remix a b) (conflictDialog remix a' b')
    \<and> alike (promptDialog a b c) (promptDialog a' b' c')
    \<and> alike (confirmDialog a) (confirmDialog a')
    \<and> alike (menuItem remix icon a checked action None) (menuItem remix icon a' checked action None)
    \<and> alike (topBarHtml remix upper cfg) (topBarHtml remix upper' cfg')"
proof -
  have loc: "\<And>t. plain_text (loc t)" using assms by blast
  show ?thesis
    using remote_list [of loc remix p f, OF loc] local_list [of loc remix p f, OF loc] job_list [of remix num p f]
      chat_list [of clock s f] monitor_menu [of remix mm s f] status_line [of k a a'] conflict_dialog [of remix a b a' b']
      prompt_dialog [of a b c a' b' c'] confirm_dialog [of a a'] menu_row(2) [of remix icon a checked action a']
      top_bar [of remix upper cfg upper' cfg']
    by (intro conjI) simp_all
qed

definition demo_listing :: FilePanel where
  "demo_listing = (newFilePanel True)\<lparr>fp_state := Streaming, fp_remoteEntries :=
     [\<lparr>ft_kind = K_file, ft_name = js ''notes'', ft_size = 10, ft_modifiedSec = 1, ft_isHidden = False\<rparr>]\<rparr>"

theorem text_is_never_markup_witness:
  "skeleton (rv_body (renderRemote False (\<lambda>t. js ''today'')
      (other_texts (\<lambda>n. js ''<img src=x onerror=\"go()\">'') demo_listing)))
   = skeleton (rv_body (renderRemote False (\<lambda>t. js ''today'') demo_listing))
   \<and> fp_remoteEntries (other_texts (\<lambda>n. js ''<img src=x onerror=\"go()\">'') demo_listing) \<noteq> fp_remoteEntries demo_listing"
proof -
  have "\<forall>t :: int. plain_text (js ''today'')" by (simp add: plain_js)
  from text_is_never_markup [OF this, of False demo_listing "\<lambda>n. js ''<img src=x onerror=\"go()\">''"]
  have "skeleton (rv_body (renderRemote False (\<lambda>t. js ''today'')
      (other_texts (\<lambda>n. js ''<img src=x onerror=\"go()\">'') demo_listing)))
   = skeleton (rv_body (renderRemote False (\<lambda>t. js ''today'') demo_listing))"
    by blast
  then show ?thesis by (simp add: demo_listing_def other_texts_def js_def)
qed

end
