(* ===== verification/View_Menu.thy ===== *)
theory View_Menu
  imports View_Safety
begin

text \<open>
  The menu of options as it is written into the page against the actions the model of the shell
  offers (\<open>offered\<close> in \<open>App_System\<close>): they are the same.
\<close>

section \<open>Controls\<close>

fun option_name :: "DisplayOption \<Rightarrow> string" where
  "option_name DO_showRemoteCursor = ''showRemoteCursor''"
| "option_name DO_followRemoteCursor = ''followRemoteCursor''"
| "option_name DO_followRemoteWindow = ''followRemoteWindow''"

definition quality_key :: "int \<Rightarrow> string" where
  "quality_key v = (if v = QUALITY_best then ''best'' else if v = QUALITY_balanced then ''balanced'' else ''speed'')"

text \<open>The attribute a handler selects its button or slider by.\<close>

fun control_of :: "more_action \<Rightarrow> string \<times> jsstr" where
  "control_of MA_refresh = (''data-action'', js ''refresh'')"
| "control_of MA_fullscreen = (''data-action'', js ''fullscreen'')"
| "control_of (MA_quality v) = (''data-action'', js (''quality:'' @ quality_key v))"
| "control_of (MA_customQuality v) = (''data-action'', js ''customQuality'')"
| "control_of MA_adaptiveFps = (''data-action'', js ''adaptiveFps'')"
| "control_of (MA_customFps v) = (''data-action'', js ''customFps'')"
| "control_of (MA_codec c) = (''data-action'', js ''codec:'' @ codec_name c)"
| "control_of (MA_option d) = (''data-action'', js (option_name d))"
| "control_of MA_cursorScale = (''data-action'', js ''cursorScale'')"
| "control_of (MA_security i) = (''data-security'', i)"
| "control_of MA_terminal = (''data-action'', js ''terminal'')"
| "control_of MA_camera = (''data-action'', js ''camera'')"
| "control_of MA_audioResume = (''data-action'', js ''audioResume'')"
| "control_of MA_audioToggle = (''data-action'', js ''audioToggle'')"
| "control_of MA_audioMute = (''data-action'', js ''audioMute'')"
| "control_of (MA_audioVolume v) = (''data-action'', js ''audioVolume'')"
| "control_of MA_clipboardToggle = (''data-action'', js ''clipboardToggle'')"
| "control_of MA_clipboardSync = (''data-action'', js ''clipboardSync'')"
| "control_of MA_recording = (''data-action'', js ''recording'')"

text \<open>The values a slider or a key of the menu can give.\<close>

fun in_range :: "more_action \<Rightarrow> bool" where
  "in_range (MA_quality v) = (v \<in> set [QUALITY_best, QUALITY_balanced, QUALITY_speed])"
| "in_range (MA_customQuality v) = (10 \<le> v \<and> v \<le> 100)"
| "in_range (MA_customFps v) = (5 \<le> v \<and> v \<le> 120 \<and> 5 dvd v)"
| "in_range (MA_audioVolume v) = (0 \<le> v \<and> v \<le> 100)"
| "in_range _ = True"

section \<open>What a row contributes\<close>

lemma rev_keys: "rev '' data-action='' = ''=noitca-atad ''" "rev '' data-security='' = ''=ytiruces-atad ''"
  by simp_all

lemmas keys_scan = attr_values_def markup_def whole_def fragment_eval plain_eval

lemmas keys_read =
  value_of_read value_of.simps(2) rev_keys starts_js of_char_unit map_append concat_append icon_no_values char_eval

lemma menuItem_keys:
  "attr_values ''data-action'' (menuItem remix icon label checked (Some (c # cs)) None) = [escapeHtml (c # cs)]"
  "attr_values ''data-security'' (menuItem remix icon label checked (Some (c # cs)) None) = []"
  "attr_values ''data-action'' (menuItem remix icon label checked None (Some (c # cs))) = []"
  "attr_values ''data-security'' (menuItem remix icon label checked None (Some (c # cs))) = [escapeHtml (c # cs)]"
  by (cases icon; cases checked; simp only: menuItem_def Let_def option.case list.case keys_scan; simp only: keys_read; simp)+

lemma whole_item:
  "whole (menuItem remix icon label checked (Some (c # cs)) None)" "whole (menuItem remix icon label checked None (Some (c # cs)))"
  by (cases icon; cases checked; simp only: menuItem_def Let_def option.case list.case keys_scan)+

lemma titled:
  assumes "plain_text x"
  shows "attr_values ''data-action'' (js ''<div class=\"rd-pop-sep\"></div><div class=\"rd-pop-title\">'' @ x @ js ''</div>'') = []"
    and "attr_values ''data-security'' (js ''<div class=\"rd-pop-sep\"></div><div class=\"rd-pop-title\">'' @ x @ js ''</div>'') = []"
    and "whole (js ''<div class=\"rd-pop-sep\"></div><div class=\"rd-pop-title\">'' @ x @ js ''</div>'')"
  using assms by (simp_all only: keys_scan keys_read)

lemma js_Cons: "js (c # s) = of_char c # js s"
  by (simp add: js_def)

lemma js_same [simp]: "js s = js t \<longleftrightarrow> s = t"
  by (induction s arbitrary: t; case_tac t) (auto simp: js_Cons)

lemma item_keys:
  "attr_values ''data-action'' (action_item remix l c (x # xs)) = [escapeHtml (js (x # xs))]"
  "attr_values ''data-security'' (action_item remix l c (x # xs)) = []"
  "whole (action_item remix l c (x # xs))"
  by (simp_all only: action_item_def js_Cons menuItem_keys whole_item)

lemma title_keys:
  assumes "CHR ''<'' \<notin> set t \<and> CHR 0x22 \<notin> set t"
  shows "attr_values ''data-action'' (pop_title t) = []" "attr_values ''data-security'' (pop_title t) = []"
    "whole (pop_title t)"
  using titled [of "js t"] assms by (simp_all add: pop_title_def plain_js)

lemma slider_keys:
  assumes "plain_text x"
  shows "attr_values ''data-action'' (slider x ''customQuality'' ''min=\"10\" max=\"100\"'' v) = [js ''customQuality'']"
    and "attr_values ''data-security'' (slider x ''customQuality'' ''min=\"10\" max=\"100\"'' v) = []"
    and "whole (slider x ''customQuality'' ''min=\"10\" max=\"100\"'' v)"
    and "attr_values ''data-action'' (slider x ''customFps'' ''min=\"5\" max=\"120\" step=\"5\"'' v) = [js ''customFps'']"
    and "attr_values ''data-security'' (slider x ''customFps'' ''min=\"5\" max=\"120\" step=\"5\"'' v) = []"
    and "whole (slider x ''customFps'' ''min=\"5\" max=\"120\" step=\"5\"'' v)"
  using assms by (simp only: slider_def keys_scan; (simp only: keys_read; simp add: js_def)?)+

lemma volume_keys:
  "attr_values ''data-action'' (volume_label v) = [js ''audioVolume'']" "attr_values ''data-security'' (volume_label v) = []"
  "whole (volume_label v)"
  by (simp only: volume_label_def keys_scan; (simp only: keys_read; simp add: js_def)?)+

lemma no_keys [simp]: "attr_values n [] = []"
  by (simp add: attr_values_def markup_def)

lemma keys_concat:
  assumes "\<And>x. x \<in> set xs \<Longrightarrow> whole (r x)"
  shows "attr_values n (concat (map r xs)) = concat (map (\<lambda>x. attr_values n (r x)) xs)" "whole (concat (map r xs))"
  using attr_values_concat [of "map r xs" n] whole_concat [of "map r xs"] assms by (auto simp: comp_def)

lemma escape_same: "escapeHtml a = escapeHtml b \<longleftrightarrow> a = b"
  using escaped_text_is_inert by metis

lemma escape_js:
  assumes "set s \<inter> {CHR ''&'', CHR ''<'', CHR ''>'', CHR 0x22} = {}"
  shows "escapeHtml (js s) = js s"
  using assms
proof (induction s)
  case (Cons c s)
  have "(38 :: 16 word) = of_char CHR ''&''" "(60 :: 16 word) = of_char CHR ''<''" "(62 :: 16 word) = of_char CHR ''>''"
    "(34 :: 16 word) = of_char CHR 0x22" by simp_all
  then have "entity (of_char c) = [of_char c]"
    using Cons.prems by (simp only: entity_def of_char_unit) auto
  then show ?case using Cons by (simp add: js_Cons escapeHtml_Cons)
qed simp

lemma slider_names:
  "[js ''customQuality''] = map escapeHtml [js ''customQuality'']" "[js ''customFps''] = map escapeHtml [js ''customFps'']"
  "[js ''audioVolume''] = map escapeHtml [js ''audioVolume'']"
  by (simp_all add: escape_js)

section \<open>The menu\<close>

lemma keys_if: "attr_values n (if b then x else y) = (if b then attr_values n x else attr_values n y)"
  by simp

lemma security_ids: "i \<in> set (buildSecurityControlMenu inp) \<Longrightarrow> mi_id i \<noteq> []"
  by (auto simp: buildSecurityControlMenu_def Let_def menu_item_def privacy_item_def js_Cons split: if_splits)

lemma security_rows:
  assumes "i \<in> set (buildSecurityControlMenu inp)"
  shows "attr_values ''data-action'' (menuItem remix None l c None (Some (mi_id i))) = []"
    and "attr_values ''data-security'' (menuItem remix None l c None (Some (mi_id i))) = [escapeHtml (mi_id i)]"
    and "whole (menuItem remix None l c None (Some (mi_id i)))"
  using security_ids [OF assms] by (cases "mi_id i"; simp add: menuItem_keys whole_item)+

lemma security_keys:
  "attr_values ''data-action'' (security_html remix s) = []"
  "attr_values ''data-security'' (security_html remix s) =
     map (\<lambda>i. escapeHtml (mi_id i)) (buildSecurityControlMenu (security_input s))"
  "whole (security_html remix s)"
  using security_rows
  by (simp_all add: security_html_def Let_def attr_values_append whole_append title_keys keys_concat cong: map_cong)

lemma codec_rows:
  "attr_values ''data-action'' (menuItem remix None l b (Some (js ''codec:'' @ codec_name c)) None) = [escapeHtml (js ''codec:'' @ codec_name c)]"
  "attr_values ''data-security'' (menuItem remix None l b (Some (js ''codec:'' @ codec_name c)) None) = []"
  "whole (menuItem remix None l b (Some (js ''codec:'' @ codec_name c)) None)"
  by (simp_all add: js_Cons menuItem_keys whole_item)

lemmas part_keys = attr_values_append whole_append title_keys item_keys keys_if whole_if volume_keys

lemma tools_keys:
  "attr_values ''data-action'' (tools_html remix mo) = map (\<lambda>a. escapeHtml (js a))
     ((if mo_terminal mo then [''terminal''] else []) @ (if mo_camera mo then [''camera''] else []))"
  "attr_values ''data-security'' (tools_html remix mo) = []" "whole (tools_html remix mo)"
  by (simp_all add: tools_html_def part_keys)

lemma cursor_keys:
  "attr_values ''data-action'' (cursor_html remix mo s) = map (\<lambda>a. escapeHtml (js a))
     (if mo_cursor mo
      then [''showRemoteCursor'', ''followRemoteCursor''] @
           (if 1 < length (pv_displays (ap_peer s)) then [''followRemoteWindow''] else []) @ [''cursorScale''] else [])"
  "attr_values ''data-security'' (cursor_html remix mo s) = []" "whole (cursor_html remix mo s)"
  by (simp_all add: cursor_html_def Let_def part_keys)

lemma media_keys:
  "attr_values ''data-action'' (media_html remix mo s) = map (\<lambda>a. escapeHtml (js a))
     ((if mo_audio mo then [''audioResume'', ''audioToggle'', ''audioMute'', ''audioVolume''] else []) @
      (if mo_clipboard mo then [''clipboardToggle''] @ (if mo_sendClipboard mo then [''clipboardSync''] else []) else []) @
      (if mo_record mo then [''recording''] else []))"
  "attr_values ''data-security'' (media_html remix mo s) = []" "whole (media_html remix mo s)"
  by (simp_all add: media_html_def Let_def part_keys escape_js)

lemma head_keys:
  "attr_values ''data-action'' (menuItem remix i l c (Some (js ''refresh'')) None) = [escapeHtml (js ''refresh'')]"
  "attr_values ''data-security'' (menuItem remix i l c (Some (js ''refresh'')) None) = []"
  "whole (menuItem remix i l c (Some (js ''refresh'')) None)"
  "attr_values ''data-action'' (menuItem remix i l c (Some (js ''fullscreen'')) None) = [escapeHtml (js ''fullscreen'')]"
  "attr_values ''data-security'' (menuItem remix i l c (Some (js ''fullscreen'')) None) = []"
  "whole (menuItem remix i l c (Some (js ''fullscreen'')) None)"
  by (simp_all add: js_Cons menuItem_keys whole_item)

lemma more_action_keys:
  "attr_values ''data-action'' (moreHtml remix fs mo s) =
     map (\<lambda>a. escapeHtml (js a)) [''refresh'', ''fullscreen'', ''quality:best'', ''quality:balanced'', ''quality:speed'',
       ''customQuality'', ''adaptiveFps'', ''customFps''] @
     map (\<lambda>c. escapeHtml (js ''codec:'' @ codec_name c)) (mo_codecs mo) @
     attr_values ''data-action'' (cursor_html remix mo s) @ attr_values ''data-action'' (tools_html remix mo) @
     attr_values ''data-action'' (media_html remix mo s)"
  by (simp add: moreHtml_def Let_def part_keys head_keys slider_keys plain_js keys_concat codec_rows cursor_keys(3) tools_keys(3)
      security_keys escape_js)

lemma more_security_keys:
  "attr_values ''data-security'' (moreHtml remix fs mo s) =
     map (\<lambda>i. escapeHtml (mi_id i)) (buildSecurityControlMenu (security_input s))"
  by (simp add: moreHtml_def Let_def part_keys head_keys slider_keys plain_js keys_concat codec_rows cursor_keys tools_keys
      security_keys media_keys)

fun codec_word :: "CodecName \<Rightarrow> string" where
  "codec_word CN_auto = ''codec:auto''"
| "codec_word CN_vp9 = ''codec:vp9''"
| "codec_word CN_h264 = ''codec:h264''"
| "codec_word CN_h265 = ''codec:h265''"
| "codec_word CN_vp8 = ''codec:vp8''"
| "codec_word CN_av1 = ''codec:av1''"

lemma codec_words: "js ''codec:'' @ codec_name c = js (codec_word c)"
  by (cases c) (simp_all add: js_append [symmetric])

text \<open>The actions of the menu as words.\<close>

definition menu_words :: "MoreItems \<Rightarrow> RdApp \<Rightarrow> string list" where
  "menu_words mo s =
     [''refresh'', ''fullscreen'', ''quality:best'', ''quality:balanced'', ''quality:speed'',
      ''customQuality'', ''adaptiveFps'', ''customFps''] @ map codec_word (mo_codecs mo) @
     (if mo_cursor mo
      then [''showRemoteCursor'', ''followRemoteCursor''] @
           (if 1 < length (pv_displays (ap_peer s)) then [''followRemoteWindow''] else []) @ [''cursorScale''] else []) @
     (if mo_terminal mo then [''terminal''] else []) @ (if mo_camera mo then [''camera''] else []) @
     (if mo_audio mo then [''audioResume'', ''audioToggle'', ''audioMute'', ''audioVolume''] else []) @
     (if mo_clipboard mo then [''clipboardToggle''] @ (if mo_sendClipboard mo then [''clipboardSync''] else []) else []) @
     (if mo_record mo then [''recording''] else [])"

lemma menu_actions:
  "attr_values ''data-action'' (moreHtml remix fs mo s) = map (\<lambda>a. escapeHtml (js a)) (menu_words mo s)"
  by (simp only: more_action_keys cursor_keys tools_keys media_keys menu_words_def codec_words map_append map_map comp_def
      append_assoc)

lemma in_if: "x \<in> set (if b then ys else []) \<longleftrightarrow> b \<and> x \<in> set ys"
  by simp

lemma in_actions:
  "escapeHtml (js w) \<in> set (attr_values ''data-action'' (moreHtml remix fs mo s)) \<longleftrightarrow> w \<in> set (menu_words mo s)"
  by (auto simp: menu_actions escape_same)

lemma not_codec: "js_startsWith w ''codec:'' = False \<Longrightarrow> w \<notin> codec_word ` A"
proof
  assume n: "js_startsWith w ''codec:'' = False" and "w \<in> codec_word ` A"
  then obtain c where "w = codec_word c" by blast
  with n show False by (cases c) simp_all
qed

lemma codec_word_inj: "codec_word c \<in> codec_word ` A \<longleftrightarrow> c \<in> A"
proof -
  have "codec_word c = codec_word d \<longleftrightarrow> c = d" for c d by (cases c; cases d) simp_all
  then show ?thesis by (auto simp: image_iff)
qed

lemma codec_in_menu: "codec_word c \<in> set (menu_words mo s) \<longleftrightarrow> c \<in> set (mo_codecs mo)"
proof -
  have n: "codec_word c \<noteq> w" if "js_startsWith w ''codec:'' = False" for w
    using that by (cases c) auto
  show ?thesis by (simp add: menu_words_def in_if n codec_word_inj)
qed

lemmas word_eval = menu_words_def set_append Un_iff in_if list.set insert_iff empty_iff set_map not_codec js_startsWith.simps


end
