(* ===== verification/View_Lookups.thy ===== *)
theory View_Lookups
  imports View_Safety
begin

text \<open>
  Every element the client looks up by its id, right after it wrote a part of the page, is in that part.
\<close>

section \<open>The ids of each part\<close>

lemma rev_id: "rev '' id='' = ''=di ''"
  by simp

lemmas ids_eval =
  value_of_read value_of.simps(2) rev_id starts_js of_char_unit map_append concat_append icon_no_values char_eval

lemma js_inject [simp]: "js s = js t \<longleftrightarrow> s = t"
proof -
  have "inj (of_char :: char \<Rightarrow> 16 word)" by (rule injI) simp
  then show ?thesis by (simp add: js_def inj_map_eq_map)
qed

lemma topBar_ids: "element_ids (topBarHtml remix upper cfg) =
    map js [''rd-peer-label'', ''rd-peer-sub'', ''rd-recording-indicator'', ''rd-btn-monitors'', ''rd-btn-more'',
        ''rd-btn-fit'', ''rd-fit-label'', ''rd-btn-viewonly'', ''rd-btn-disconnect'']"
  by (simp only: topBarHtml_def attr_values_def markup_def fragment_eval, simp only: ids_eval) (simp add: js_def)

lemma dock_ids: "element_ids (dockHtml remix) =
    map js [''rd-lat-ctrl'', ''rd-lat-alt'', ''rd-key-del'', ''rd-btn-cad'', ''rd-mode-pointer'', ''rd-mode-touch'',
        ''rd-btn-type'', ''rd-btn-clip'', ''rd-btn-files'', ''rd-btn-chat'', ''rd-btn-session'']"
  by (simp only: dockHtml_def dock_button_def attr_values_def markup_def fragment_eval, simp only: ids_eval) (simp add: js_def)

lemma side_ids: "element_ids (sideHtml remix) =
    map js [''rd-side-close'', ''rd-voice-call'', ''rd-voice-call-status'', ''rd-chat-list'', ''rd-chat-form'',
        ''rd-chat-input'', ''rd-stat-device'', ''rd-stat-user'', ''rd-stat-platform'', ''rd-stat-version'',
        ''rd-stat-codec'', ''rd-stat-res'', ''rd-stat-fps'', ''rd-stat-bitrate'', ''rd-stat-dropped'',
        ''rd-stat-duration'']"
  by (simp only: sideHtml_def side_tab_def attr_values_def markup_def fragment_eval, simp only: ids_eval) (simp add: js_def)

lemma edge_ids: "element_ids (edgeHtml remix) = []"
  by (simp only: edgeHtml_def attr_values_def markup_def fragment_eval, simp only: ids_eval)

lemma overlay_ids:
  assumes "plain_text (overlayVersion cfg)"
  shows "element_ids (overlayHtml cfg) =
    map js [''rd-target'', ''rd-overlay-peer'', ''rd-field-id'', ''rd-peer-id'', ''rd-password'', ''rd-connect'',
        ''rd-save-pw'', ''rd-msg'', ''rd-overlay-status'', ''rd-overlay-status-text'', ''rd-overlay-error'',
        ''rd-restart-cancel'']"
  by (simp only: assms overlayHtml_def overlay_svg_def lock_svg_def device_svg_def arrow_svg_def attr_values_def markup_def
      fragment_eval, simp only: ids_eval) (simp add: js_def)

lemma type_ids: "element_ids (typeHtml remix) =
    map js [''rd-type-text'', ''rd-type-send'']"
  by (simp only: typeHtml_def attr_values_def markup_def fragment_eval, simp only: ids_eval) (simp add: js_def)

lemma panel_ids_folder: "element_ids (panelHtml remix True) =
    map js [''rd-ft-status'', ''rd-ft-hidden'', ''rd-ft-close'', ''rd-ft-local'', ''rd-ft-local-sub'',
        ''rd-ft-local-send'', ''rd-ft-local-open'', ''rd-ft-local-up'', ''rd-ft-local-path'',
        ''rd-ft-local-refresh'', ''rd-ft-local-body'', ''rd-ft-local-empty'', ''rd-ft-local-foot'',
        ''rd-ft-send'', ''rd-ft-recv'', ''rd-ft-remote'', ''rd-ft-remote-sub'', ''rd-ft-remote-new'',
        ''rd-ft-remote-rename'', ''rd-ft-remote-del'', ''rd-ft-remote-up'', ''rd-ft-remote-home'',
        ''rd-ft-remote-path'', ''rd-ft-remote-refresh'', ''rd-ft-remote-body'', ''rd-ft-remote-empty'',
        ''rd-ft-remote-foot'', ''rd-ft-tab-jobs'', ''rd-ft-tab-log'', ''rd-ft-jobs'', ''rd-ft-log'',
        ''rd-ft-dialog'']"
  by (simp only: panelHtml_def pane_def sBtn_def side_name.simps pane_side.distinct list.set attr_values_def markup_def fragment_eval, simp only: ids_eval) (simp add: js_def)

lemma panel_ids_staged: "element_ids (panelHtml remix False) =
    map js [''rd-ft-status'', ''rd-ft-hidden'', ''rd-ft-close'', ''rd-ft-local'', ''rd-ft-local-sub'',
        ''rd-ft-local-send'', ''rd-ft-local-add'', ''rd-ft-local-up'', ''rd-ft-local-path'',
        ''rd-ft-local-refresh'', ''rd-ft-local-body'', ''rd-ft-local-empty'', ''rd-ft-local-foot'',
        ''rd-ft-send'', ''rd-ft-recv'', ''rd-ft-remote'', ''rd-ft-remote-sub'', ''rd-ft-remote-new'',
        ''rd-ft-remote-rename'', ''rd-ft-remote-del'', ''rd-ft-remote-up'', ''rd-ft-remote-home'',
        ''rd-ft-remote-path'', ''rd-ft-remote-refresh'', ''rd-ft-remote-body'', ''rd-ft-remote-empty'',
        ''rd-ft-remote-foot'', ''rd-ft-tab-jobs'', ''rd-ft-tab-log'', ''rd-ft-jobs'', ''rd-ft-log'',
        ''rd-ft-dialog'']"
  by (simp only: panelHtml_def pane_def sBtn_def side_name.simps pane_side.distinct list.set attr_values_def markup_def fragment_eval, simp only: ids_eval) (simp add: js_def)

text \<open>A version that holds markup is markup: here it gives the page two elements with one id.\<close>

lemma version_is_markup:
  assumes "overlayVersion cfg = js ''v<i id=\"rd-connect\"></i>''"
  shows "\<not> distinct (element_ids (overlayHtml cfg))"
  by (simp only: assms overlayHtml_def overlay_svg_def lock_svg_def device_svg_def arrow_svg_def attr_values_def markup_def
      fragment_eval, simp only: ids_eval) simp

lemmas part_ids = topBar_ids dock_ids side_ids edge_ids type_ids

section \<open>The property\<close>



end
