(* ===== verification/Spec2Isabelle.thy ===== *)
theory Spec2Isabelle
  imports Addr_Mangle Session_Behaviour Ws_Stream Worker_Safety Input Upload_Safety Download_Safety File_Panel_Safety
    Terminal_Safety Terminal_Panel_Safety Display_Safety Voice_Safety Recorder_Safety Mse_Player Camera_Panel App_Claims
    Codec View_Menu View_Lookups
begin

text \<open>
  A verification development for the web client of CortenDesk (\<open>src/webclient/src\<close>), the part of
  the repository that speaks the remote-desktop protocol in the browser. The client is split
  over two threads: the user interface on the main thread, and a worker that owns the sockets,
  the session and the decoders. They exchange the commands and events of \<open>core/contracts.ts\<close>.

  \<^bold>\<open>Theories and the code they model.\<close>

  \<^item> \<open>Prelude\<close>, \<open>Json\<close>: JavaScript strings as lists of UTF-16 code units, byte strings, numbers,
    the string methods the source calls, and parsed JSON; shared list and word lemmas.
  \<^item> \<open>Sha256\<close> (\<open>core/sha256.ts\<close>): the digest on 32-bit words and its equality with FIPS 180-4.
  \<^item> \<open>Proto\<close> (\<open>gen/message.ts\<close>, \<open>gen/rendezvous.ts\<close>): all protocol messages as records and
    datatypes; \<open>Contracts\<close> (\<open>core/contracts.ts\<close>): commands and events.
  \<^item> \<open>Wire\<close>: what the generated \<open>encode\<close> and \<open>decode\<close> functions share, over a wire library that is a
    parameter (record \<open>wire\<close>, locale \<open>wire_format\<close>); \<open>Codec_Media\<close>, \<open>Codec_Login\<close>, \<open>Codec_Input\<close>,
    \<open>Codec_Files\<close>, \<open>Codec_Session\<close>, \<open>Codec_Message\<close> (\<open>gen/message.ts\<close>) and \<open>Codec_Rendezvous\<close>
    (\<open>gen/rendezvous.ts\<close>): the encoder and decoder of each of the 134 messages; \<open>Protobuf\<close>: a wire
    library written from the encoding specification; \<open>Codec\<close>: the session on the generated code.
  \<^item> \<open>Crypto\<close> (\<open>core/crypto.ts\<close>, \<open>core/handshake.ts\<close>): the stream cipher with its nonces and
    both links of the trust chain; \<open>Auth\<close> (\<open>core/auth.ts\<close>): password hashes and login requests.
  \<^item> \<open>Addr_Mangle\<close> (\<open>core/addrmangle.ts\<close>), \<open>Signaling\<close> (\<open>core/signaling.ts\<close>, \<open>core/relay.ts\<close>),
    \<open>Session_Controls\<close> (\<open>core/session-controls.ts\<close>, \<open>core/advanced-capabilities.ts\<close>).
  \<^item> \<open>Session\<close> and \<open>Session_Outbound\<close> (\<open>core/session.ts\<close>): the session state machine. Sink calls
    are appended to a trace; what an \<open>async\<close> handler has left to do after an \<open>await\<close> is kept in
    the state and may be resumed in any order. \<open>Session_Safety\<close> and \<open>Session_Behaviour\<close> hold its
    properties.
  \<^item> \<open>Ws_Stream\<close> (\<open>transport/ws-stream.ts\<close>), \<open>File_Transfer\<close> (\<open>core/file-transfer.ts\<close>,
    \<open>worker/terminal-output.ts\<close>).
  \<^item> \<open>Video\<close>, \<open>Video_Safety\<close> (\<open>media/video.ts\<close> and the worker side of \<open>media/mse-video.ts\<close>) and
    \<open>Audio\<close> (\<open>media/audio.ts\<close>, \<open>media/pcm-scheduler.ts\<close>, \<open>media/remote-audio.ts\<close>).
  \<^item> \<open>Worker\<close>, \<open>Worker_Safety\<close> (\<open>worker/session.worker.ts\<close>): the worker that composes the session,
    both sockets and the pipelines.
  \<^item> \<open>Input\<close> (\<open>input/mouse-keyboard.ts\<close>): pointer, touch, wheel and key events as commands.
  \<^item> \<open>File_Jobs\<close>, \<open>File_Panel\<close> (\<open>ui/file-panel.ts\<close>): the transfers of the file panel with their two
    coroutines, and the panel with its connection, listings, dialogs and the handlers of the
    worker's events. \<open>Upload_Safety\<close>, \<open>Download_Safety\<close> and \<open>File_Panel_Safety\<close> hold their properties.
  \<^item> \<open>Terminal\<close>, \<open>Terminal_Panel\<close> (\<open>ui/terminal-panel.ts\<close>, \<open>ui/advanced-worker-lifecycle.ts\<close>): the path of
    the bytes of a remote terminal to the screen, and the panel with its own worker.
    \<open>Terminal_Safety\<close> and \<open>Terminal_Panel_Safety\<close> hold their properties.
  \<^item> \<open>Display_Controls\<close>, \<open>Display_Safety\<close> (\<open>ui/display-controls.ts\<close>, \<open>ui/session-controls-menu.ts\<close>,
    \<open>ui/voice-call-ui.ts\<close>, \<open>ui/view-only-policy.ts\<close>): the pure functions behind the session's menus.
  \<^item> \<open>Voice_Capture\<close>, \<open>Voice_Safety\<close> (\<open>media/voice-capture.ts\<close>, \<open>ui/voice-call-attempt.ts\<close>) and
    \<open>Session_Recorder\<close>, \<open>Recorder_Safety\<close> (\<open>media/session-recorder.ts\<close>).
  \<^item> \<open>Mse_Player\<close> (\<open>MseVideoPlayer\<close> of \<open>media/mse-video.ts\<close>), \<open>Camera_Panel\<close> (\<open>ui/camera-panel.ts\<close>) and
    \<open>Ui_Common\<close> (\<open>ui/common.ts\<close>).
  \<^item> \<open>App_State\<close>, \<open>App\<close>, \<open>App_System\<close> (\<open>ui/app.ts\<close>): the application shell \<open>RdApp\<close>. It starts and lets go of
    workers, is the way of every command to them, applies their events, holds the restart flow with
    its timers, the stored credentials, the permissions and the menus; \<open>app_step\<close> runs one call of the
    user, the worker, a timer or a settled promise. \<open>App_Frame\<close> proves for each operation that it keeps
    the frame of the session (worker, state, mode, flow, storage), \<open>App_Safety\<close> and \<open>App_Properties\<close> the
    invariants, \<open>App_Release\<close> and \<open>App_Credentials\<close> what each call says before a worker goes and does to
    the stored hashes, \<open>App_Claims\<close> the properties.

  \<^item> \<open>Html\<close>: a reader of the markup the client writes into the page; \<open>Icons\<close> (\<open>ui/common.ts\<close>): the table
    of icons; \<open>File_View\<close> (\<open>ui/file-panel.ts\<close>) and \<open>App_View\<close> (\<open>ui/app.ts\<close>): the markup as functions of the
    state, the elements looked up in it, and the bars of the full screen. \<open>View_Safety\<close>, \<open>View_Menu\<close> and
    \<open>View_Lookups\<close> hold their properties.

  \<^bold>\<open>How state and effects are modelled.\<close> A class is a record with the fields of the class, a method
  a function on it. Calls out of a component are a list of actions in the order of the calls.
  Exceptions are values of a sum type. Random bytes, the clock and the answers of the browser
  are arguments. libsodium, the wire library, \<open>JSON.parse\<close> and zstd are parameters
  (the records \<open>sodium\<close>, \<open>wire\<close>, \<open>platform\<close> and \<open>wenv\<close>); theorems that rely on one of them
  say so in a hypothesis. The session takes its codec as the record \<open>codec\<close>, of which
  \<open>Codec.gen_codec\<close> is the generated code, so that what holds for every codec holds for it. Integers keep their width where the source makes them wrap (SHA-256,
  address mangling, nonces); sizes read through \<open>Number\<close> are rounded to 53 bits.

  \<^bold>\<open>Interfaces.\<close> \<open>Step_System\<close> holds reachability and the locale \<open>invariant_system\<close> through which
  sessions, pipelines and schedulers state their invariants; \<open>Debounce\<close> the contract of an
  operation that runs at most once per interval, provided by the video pipeline and the worker;
  \<open>Ws_Stream\<close> the contract of a lossless channel, provided twice by the transport (frames and
  promises); \<open>Wire\<close> the contract of a wire library, provided by \<open>Protobuf\<close>; \<open>Worker_Safety\<close> the locales \<open>move_stable\<close> and \<open>move_invariant\<close> for what every atomic
  move of the worker keeps.

  \<^bold>\<open>What is shown.\<close> The cipher is only installed behind a verified trust chain, frames are sealed
  in order under distinct nonces, and only the handshake travels in plaintext; the worker puts
  nothing else on its sockets, and is silent once torn down. A finished session stays finished
  and deaf. The generated decoders end on every input, read back what the encoders write and pass
  over fields they do not know; on them an honest handshake succeeds, and each side of the cipher
  reads the messages the other one sends. Voice and display switches wait for the matching confirmation, and a remembered
  credential logs in as the password does. The digest equals its standard, address and cipher
  encodings round-trip, the transport is first-in first-out, decoders start on key frames,
  requests are debounced, playback is ordered and bounded, and the loops (reconnect back-off,
  going up a remote path) end. Of the user interface: a click lands where the picture shows it
  and a touch never holds a button; an upload sends exactly the files, comes to its end and
  clocks itself; a download commits whole files only; messages reach the transfer they are
  about, conflicts are decided in order, and existing files are replaced only with consent.
  The terminal shows plain text only and UTF-8 text unchanged, however the bytes are cut; its
  workers are all let go of; the resolution menu offers what it should and the frame rate
  recovers; no microphone and no captured track is left running, voice formats precede voice
  frames, and a recording is saved whole. Of the shell: one worker at a time hears commands and
  each is terminated, nothing acts on the remote device while the mode shown is view only, the
  remote input and screen are given back before a worker goes, a restart flow is supervised by
  its deadline, and a password hash is stored only on request. Of the page: no text of the peer, of a
  file or of the user becomes markup, the menu of options shows exactly the actions the shell
  accepts, and every element that is looked up is there.
  \<open>Input.cancelled_touch_blocks_gestures\<close>, \<open>Download_Safety.cancelled_download_commits\<close>,
  \<open>File_Panel_Safety.late_digest_revives_cancelled_download\<close>,
  \<open>File_Panel_Safety.prompt_over_conflict_blocks_dialog\<close>,
  \<open>Terminal_Panel_Safety.stale_close_stops_the_next_worker\<close>, \<open>Display_Safety.remote_cursor_on_picture\<close>,
  \<open>Recorder_Safety.second_stop_loses_recording\<close>, \<open>Mse_Player.closing_player_leaks_muxer\<close>,
  \<open>Camera_Panel.reopened_camera_is_cut_off\<close> \<open>View_Lookups.version_is_markup\<close>
  and three theorems at the end of \<open>App_Claims\<close> state behaviour the code should not have.

  \<^bold>\<open>Coroutines and bounds.\<close> An \<open>async\<close> function is cut at its awaits, and what it waits for is a
  program counter in the state; theorems quantify over every order in which the awaited
  operations settle. \<open>upload_completes\<close> bounds the rounds of an upload by three per byte and file
  (\<open>remaining\<close>), \<open>download_writes_every_file\<close> needs one round of four steps per queued task. The loop
  of a decoder has no bound in its definition (\<open>decode_loop\<close> is an option); \<open>decoders_terminate\<close> shows
  that it ends, because each round reads a tag.

  \<^bold>\<open>Not modelled.\<close> The document the browser builds from the markup, the elements that are created one
  by one (the skeleton of the page, log lines, the shells of the terminal and camera panels), styles,
  the texts of the event log, the
  \<open>create\<close> and \<open>fromPartial\<close> constructors of the generated messages (the client's messages are written
  as base values with the given fields), what \<open>encode\<close> has written when it throws, the libraries behind
  the fallback player, and the PHP console that serves the client.
\<close>

end
